(* ===== verification/Prelude.thy ===== *)
theory Prelude
  imports Main "HOL-Library.Word" "HOL-Library.Sublist"
begin

text \<open>
  Shared vocabulary of the development.

  \<^item> The Go types the model uses everywhere: \<open>time.Time\<close> is a signed number of nanoseconds
    since the zero time (so \<open>IsZero\<close> is \<open>t = 0\<close>, \<open>After\<close> is \<open>>\<close>, and \<open>UTC()\<close>, which only changes
    the location a time is printed in, is the identity); \<open>int64\<close> and Go's 64-bit \<open>int\<close>, where
    the code does arithmetic on them, are 64-bit words.
  \<^item> The shape of a method: the receiver's state and the arguments go in, the new state and
    either an error (\<open>Inl\<close>) or a result (\<open>Inr\<close>) come out. Every method of the modelled managers
    holds the manager's mutex over its whole critical section, so a concurrent execution is a
    sequence of whole calls: \<open>run_calls\<close>.
  \<^item> \<open>on_entry\<close>, the idiom \<open>x, ok := m[k]; if !ok \<dots>; guards; mutate *x\<close> on a map of pointers.
  \<^item> \<open>linked\<close> and \<open>numbered\<close>, the two invariants of an append-only journal.
  \<^item> The contracts as locales: \<open>api_machine\<close> (an invariant kept by every admissible call),
    \<open>journaled\<close> (histories only grow), \<open>fail_closed\<close> (a call that reports an error changes
    nothing), \<open>absorbing\<close> (an entry in a final state stays as it is).
\<close>

type_synonym gotime = int
type_synonym int64 = "64 word"
type_synonym ('s, 'e, 'r) outcome = "'s \<times> ('e + 'r)"

named_theorems eval_defs "shared definitions unfolded when a method is evaluated on concrete data"

named_theorems guards "what a successful call has passed: rewrites for chains of guards"

definition IsZero :: "gotime \<Rightarrow> bool" where
  "IsZero t \<longleftrightarrow> t = 0"

definition After :: "gotime \<Rightarrow> gotime \<Rightarrow> bool" where
  "After t u \<longleftrightarrow> u < t"

text \<open>\<open>Time.Unix\<close>, and \<open>Time.UnixNano\<close> at its 64 bits; the zero time is 62135596800 seconds before the epoch.\<close>

definition Unix :: "gotime \<Rightarrow> int" where
  "Unix t = t div 1000000000 - 62135596800"

definition UnixNano :: "gotime \<Rightarrow> int" where
  "UnixNano t = sint (word_of_int (t - 62135596800000000000) :: int64)"

primrec run_calls :: "('c \<Rightarrow> 's \<Rightarrow> 's \<times> 'o) \<Rightarrow> 'c list \<Rightarrow> 's \<Rightarrow> 's" where
  "run_calls exec [] s = s"
| "run_calls exec (c # cs) s = run_calls exec cs (fst (exec c s))"

text \<open>
  A lookup in a map of pointers followed by guarded mutation of the entry. The body sees the
  entry and answers with an error or with the mutated entry and the method's result.
\<close>

definition on_entry ::
  "('k \<rightharpoonup> 'v) \<Rightarrow> 'k \<Rightarrow> 'e \<Rightarrow> ('v \<Rightarrow> 'e + 'v \<times> 'r) \<Rightarrow> ('k \<rightharpoonup> 'v, 'e, 'r) outcome" where
  "on_entry m k missing body =
     (case m k of
        None \<Rightarrow> (m, Inl missing)
      | Some v \<Rightarrow> (case body v of
            Inl e \<Rightarrow> (m, Inl e)
          | Inr (v', r) \<Rightarrow> (m(k \<mapsto> v'), Inr r)))"

text \<open>Only whether the call succeeded, for methods whose results have different types.\<close>

definition discard :: "('s, 'e, 'r) outcome \<Rightarrow> ('s, 'e, unit) outcome" where
  "discard out = map_prod id (map_sum id (\<lambda>_. ())) out"

fun linked :: "'s \<Rightarrow> ('s \<times> 's) list \<Rightarrow> 's \<Rightarrow> bool" where
  "linked s [] t \<longleftrightarrow> s = t"
| "linked s ((a, b) # xs) t \<longleftrightarrow> s = a \<and> linked b xs t"

definition numbered :: "('h \<Rightarrow> int64) \<Rightarrow> 'h list \<Rightarrow> bool" where
  "numbered seqno xs \<longleftrightarrow> (\<forall>i<length xs. seqno (xs ! i) = of_nat (Suc i))"

text \<open>The index of the first element with a property: the loop that sets \<open>targetIdx\<close> and breaks.\<close>

fun find_index :: "('a \<Rightarrow> bool) \<Rightarrow> 'a list \<Rightarrow> nat option" where
  "find_index P [] = None"
| "find_index P (x # xs) = (if P x then Some 0 else map_option Suc (find_index P xs))"

declare on_entry_def [eval_defs] discard_def [eval_defs] IsZero_def [eval_defs] After_def [eval_defs] Let_def [eval_defs]

subsection \<open>Guards\<close>

text \<open>A constructor or method that succeeds has passed each of its guards: one rewrite for every guard of the chain.\<close>

lemma guard_if [guards]: "(if c then Inl e else x) = Inr y \<longleftrightarrow> \<not> c \<and> x = Inr y"
  by simp

lemma guard_else [guards]: "(if c then x else Inl e) = Inr y \<longleftrightarrow> c \<and> x = Inr y"
  by simp

lemma guard_option [guards]: "(case v of None \<Rightarrow> x | Some e \<Rightarrow> Inl (f e)) = Inr y \<longleftrightarrow> v = None \<and> x = Inr y"
  by (simp split: option.split)

lemma guard_found: "(case v of None \<Rightarrow> Inl e | Some x \<Rightarrow> f x) = Inr y \<longleftrightarrow> (\<exists>x. v = Some x \<and> f x = Inr y)"
  by (simp split: option.split)

lemma guard_sum [guards]: "(case v of Inl e \<Rightarrow> Inl (f e) | Inr a \<Rightarrow> g a) = Inr y \<longleftrightarrow> (\<exists>a. v = Inr a \<and> g a = Inr y)"
  by (auto split: sum.splits)

lemma guard_none [guards]: "(if c then Some e else x) = None \<longleftrightarrow> \<not> c \<and> x = None"
  by simp

lemma guard_state_if [guards]: "(if c then (r, Inl e) else x) = (r', Inr y) \<longleftrightarrow> \<not> c \<and> x = (r', Inr y)"
  by simp

lemma guard_state_option [guards]:
  "(case v of None \<Rightarrow> x | Some e \<Rightarrow> (r, Inl (f e))) = (r', Inr y) \<longleftrightarrow> v = None \<and> x = (r', Inr y)"
  by (simp split: option.split)

subsection \<open>Runs, entries, journals\<close>

lemma find_index_Some:
  "find_index P xs = Some i \<Longrightarrow> i < length xs \<and> P (xs ! i) \<and> (\<forall>j<i. \<not> P (xs ! j))"
proof (induction xs arbitrary: i)
  case (Cons x xs)
  show ?case
  proof (cases "P x")
    case False
    with Cons.prems obtain j where "find_index P xs = Some j" "i = Suc j" by auto
    with Cons.IH False show ?thesis by (auto simp: less_Suc_eq_0_disj)
  qed (use Cons.prems in auto)
qed simp

lemma find_index_None: "find_index P xs = None \<longleftrightarrow> (\<forall>x\<in>set xs. \<not> P x)"
  by (induction xs) auto

text \<open>Updating an element in place: what holds of all elements, and of an unchanged field.\<close>

lemma list_all_update: "list_all P xs \<Longrightarrow> P x \<Longrightarrow> list_all P (xs[i := x])"
  by (auto simp: list_all_iff dest: set_update_subset_insert [THEN subsetD])

lemma map_update_same: "i < length xs \<Longrightarrow> f x = f (xs ! i) \<Longrightarrow> map f (xs[i := x]) = map f xs"
  by (metis list_update_id map_update)

lemma list_all_find_index: "list_all P xs \<Longrightarrow> find_index Q xs = Some i \<Longrightarrow> P (xs ! i)"
  by (auto simp: list_all_iff dest: find_index_Some)

lemma run_calls_append [simp]:
  "run_calls exec (cs @ ds) s = run_calls exec ds (run_calls exec cs s)"
  by (induction cs arbitrary: s) auto

lemma on_entry_cases:
  assumes "on_entry m k missing body = (m', res)"
  obtains (missing) "m k = None" "m' = m" "res = Inl missing"
  | (error) v e where "m k = Some v" "body v = Inl e" "m' = m" "res = Inl e"
  | (ok) v v' r where "m k = Some v" "body v = Inr (v', r)" "m' = m(k \<mapsto> v')" "res = Inr r"
  using assms by (auto simp: on_entry_def split: option.splits sum.splits prod.splits)

lemma on_entry_Inl: "on_entry m k missing body = (m', Inl e) \<Longrightarrow> m' = m"
  by (auto elim: on_entry_cases)

lemma on_entry_Inr:
  "on_entry m k missing body = (m', Inr r) \<longleftrightarrow>
     (\<exists>v v'. m k = Some v \<and> body v = Inr (v', r) \<and> m' = m(k \<mapsto> v'))"
  by (auto simp: on_entry_def split: option.splits sum.splits prod.splits)

lemma on_entry_other: "k' \<noteq> k \<Longrightarrow> fst (on_entry m k missing body) k' = m k'"
  by (auto simp: on_entry_def split: option.splits sum.splits prod.splits)

text \<open>What holds of every entry, and relates every entry to what it becomes, when the body keeps it.\<close>

lemma on_entry_all:
  assumes "\<And>k' v. m k' = Some v \<Longrightarrow> P k' v"
    and "\<And>v v' r. m k = Some v \<Longrightarrow> P k v \<Longrightarrow> body v = Inr (v', r) \<Longrightarrow> P k v'"
    and "fst (on_entry m k missing body) k' = Some v"
  shows "P k' v"
  using assms by (fastforce simp: on_entry_def split: option.splits sum.splits prod.splits if_splits)

lemma on_entry_rel:
  assumes "m k' = Some v"
    and "\<And>v. Q v v"
    and "\<And>v v' r. m k = Some v \<Longrightarrow> body v = Inr (v', r) \<Longrightarrow> Q v v'"
  shows "\<exists>v'. fst (on_entry m k missing body) k' = Some v' \<and> Q v v'"
  using assms by (auto simp: on_entry_def split: option.splits sum.splits prod.splits)

lemma fst_discard [simp]: "fst (discard out) = fst out"
  by (simp add: discard_def)

lemma discard_Inl: "discard out = (s, Inl e) \<longleftrightarrow> out = (s, Inl e)"
  by (cases out; cases "snd out") (auto simp: discard_def)

lemma list_all_True [simp]: "list_all (\<lambda>_. True) xs"
  by (simp add: list_all_iff)

lemma linked_append: "linked s (xs @ ys) t \<longleftrightarrow> (\<exists>u. linked s xs u \<and> linked u ys t)"
  by (induction s xs t rule: linked.induct) auto

lemma linked_snoc [simp]: "linked s (xs @ [(a, b)]) t \<longleftrightarrow> linked s xs a \<and> b = t"
  by (auto simp: linked_append)

lemma linked_functional: "linked s xs t \<Longrightarrow> linked s xs u \<Longrightarrow> t = u"
  by (induction s xs t rule: linked.induct) auto

lemma numbered_Nil [simp]: "numbered f []"
  by (simp add: numbered_def)

lemma numbered_snoc [simp]:
  "numbered f (xs @ [x]) \<longleftrightarrow> numbered f xs \<and> f x = of_nat (Suc (length xs))"
  by (auto simp: numbered_def nth_append less_Suc_eq)

lemma numbered_append:
  assumes "numbered f xs" and "\<And>i. i < length ys \<Longrightarrow> f (ys ! i) = of_nat (Suc (length xs + i))"
  shows "numbered f (xs @ ys)"
  using assms by (auto simp: numbered_def nth_append)

lemma numbered_singleton [simp]: "numbered f [x] \<longleftrightarrow> f x = 1"
  by (simp add: numbered_def)

lemma numbered_map:
  assumes "numbered f xs"
  shows "map f xs = map of_nat [1..<Suc (length xs)]"
proof (rule nth_equalityI)
  fix i
  assume "i < length (map f xs)"
  then have "i < length xs" by simp
  moreover from this have "[1..<Suc (length xs)] ! i = Suc i" by (subst nth_upt) simp_all
  ultimately show "map f xs ! i = map of_nat [1..<Suc (length xs)] ! i"
    using assms by (simp add: numbered_def del: upt_Suc)
qed (simp del: upt_Suc)

text \<open>A 64-bit counter read as a signed number moves up by one below its maximum.\<close>

lemma sint_plus_1:
  fixes x :: int64
  assumes "sint x < 2 ^ 63 - 1"
  shows "sint (x + 1) = sint x + 1"
proof -
  have "- (2 ^ 63) \<le> sint x" using sint_ge [of x] by simp
  then show ?thesis using assms by (simp add: sint_word_ariths signed_take_bit_int_eq_self)
qed

lemma sint_of_nat: "n < 2 ^ 63 \<Longrightarrow> sint (of_nat n :: int64) = int n"
  by (simp add: signed_of_nat take_bit_nat_eq_self signed_take_bit_int_eq_self)

lemma word_plus_1_neq [simp]: "x + 1 \<noteq> (x :: int64)"
  by simp

lemma find_SomeD: "find P xs = Some x \<Longrightarrow> x \<in> set xs \<and> P x"
  by (induction xs) (auto split: if_splits)


subsection \<open>Contracts\<close>

text \<open>
  A component seen from its callers: a state, an alphabet of calls and what a call does.
  \<open>ok\<close> marks the admissible calls, those whose arguments a caller can actually supply.
\<close>

locale api_machine =
  fixes exec :: "'c \<Rightarrow> 's \<Rightarrow> 's \<times> ('e + 'r)"
    and inv :: "'s \<Rightarrow> bool"
    and ok :: "'c \<Rightarrow> bool"
  assumes exec_inv: "inv s \<Longrightarrow> ok c \<Longrightarrow> inv (fst (exec c s))"
begin

lemma run_inv: "inv s \<Longrightarrow> list_all ok cs \<Longrightarrow> inv (run_calls exec cs s)"
  by (induction cs arbitrary: s) (auto intro: exec_inv)

end

text \<open>Histories indexed by \<open>'k\<close> that no call shortens or rewrites.\<close>

locale journaled = api_machine exec inv ok
  for exec :: "'c \<Rightarrow> 's \<Rightarrow> 's \<times> ('e + 'r)" and inv :: "'s \<Rightarrow> bool" and ok :: "'c \<Rightarrow> bool" +
  fixes journal :: "'k \<Rightarrow> 's \<Rightarrow> 'j list"
  assumes exec_journal: "inv s \<Longrightarrow> ok c \<Longrightarrow> prefix (journal k s) (journal k (fst (exec c s)))"
begin

lemma run_journal:
  "inv s \<Longrightarrow> list_all ok cs \<Longrightarrow> prefix (journal k s) (journal k (run_calls exec cs s))"
proof (induction cs arbitrary: s)
  case Nil
  then show ?case by simp
next
  case (Cons c cs)
  then have "prefix (journal k s) (journal k (fst (exec c s)))" by (simp add: exec_journal)
  also have "prefix \<dots> (journal k (run_calls exec cs (fst (exec c s))))"
    using Cons by (simp add: exec_inv)
  finally show ?case by simp
qed

lemma run_journal_nth:
  assumes "inv s" and "list_all ok cs" and "i < length (journal k s)"
  shows "journal k (run_calls exec cs s) ! i = journal k s ! i"
  using run_journal [OF assms(1,2), of k] assms(3) by (auto simp: prefix_def nth_append)

lemma run_journal_length:
  "inv s \<Longrightarrow> list_all ok cs \<Longrightarrow> length (journal k s) \<le> length (journal k (run_calls exec cs s))"
  using run_journal prefix_length_le by blast

end

text \<open>An error reply means that the call had no effect.\<close>

locale fail_closed =
  fixes exec :: "'c \<Rightarrow> 's \<Rightarrow> 's \<times> ('e + 'r)"
  assumes exec_error: "exec c s = (s', Inl e) \<Longrightarrow> s' = s"
begin

lemma changed_success: "fst (exec c s) \<noteq> s \<Longrightarrow> \<exists>r. snd (exec c s) = Inr r"
  using exec_error [of c s "fst (exec c s)"] by (cases "snd (exec c s)") (auto simp: prod_eq_iff)

lemma run_denied:
  "(\<And>c. c \<in> set cs \<Longrightarrow> \<exists>e. snd (exec c s) = Inl e) \<Longrightarrow> run_calls exec cs s = s"
proof (induction cs)
  case Nil
  then show ?case by simp
next
  case (Cons c cs)
  then obtain e where "snd (exec c s) = Inl e" by auto
  then have "fst (exec c s) = s" by (metis exec_error prod.collapse)
  with Cons show ?case by simp
qed

end

text \<open>A stored entry that satisfies \<open>final\<close> is never changed again.\<close>

locale absorbing = api_machine exec inv ok
  for exec :: "'c \<Rightarrow> 's \<Rightarrow> 's \<times> ('e + 'r)" and inv :: "'s \<Rightarrow> bool" and ok :: "'c \<Rightarrow> bool" +
  fixes entry :: "'k \<Rightarrow> 's \<Rightarrow> 'v option" and final :: "'v \<Rightarrow> bool"
  assumes exec_final:
    "inv s \<Longrightarrow> ok c \<Longrightarrow> entry k s = Some v \<Longrightarrow> final v \<Longrightarrow> entry k (fst (exec c s)) = Some v"
begin

lemma run_final:
  "inv s \<Longrightarrow> list_all ok cs \<Longrightarrow> entry k s = Some v \<Longrightarrow> final v \<Longrightarrow>
     entry k (run_calls exec cs s) = Some v"
  by (induction cs arbitrary: s) (auto simp: exec_inv exec_final)

end

end
