(* ===== verification/Go_Strings.thy ===== *)
theory Go_Strings
  imports Prelude
begin

text \<open>
  What the modelled code uses of Go's \<open>strings\<close> and \<open>fmt\<close> packages. A Go string is a sequence of
  bytes, here a \<open>char list\<close>, so \<open>len\<close> is \<open>length\<close> and a multi-byte rune is several characters.

  \<^item> \<open>TrimSpace\<close> removes at both ends the UTF-8 encodings of the runes for which \<open>unicode.IsSpace\<close>
    holds. Decoding from the left (or, with \<open>DecodeLastRune\<close>, from the right) meets such a rune
    exactly when its encoding is a prefix (a suffix) of the bytes left.
  \<^item> \<open>ToUpper\<close> is exact on ASCII letters and on the only two runes beyond ASCII whose upper case is an
    ASCII letter (dotless i and long s); the model leaves every other byte beyond ASCII as it is.
    The modelled code compares the result with ASCII constants or looks for one inside it, where the tests come out as
    in Go, or builds a map key from it, where the theorems use only that it is a function that makes no colon.
  \<^item> \<open>EqualFold\<close> is simple case folding onto ASCII, with the two runes beyond ASCII that fold to an ASCII letter
    (the Kelvin sign and long s); \<open>ToLower\<close> is exact on ASCII.
  \<^item> \<open>FormatInt\<close> is the verb \<open>%d\<close>, \<open>FormatBool\<close> the verb \<open>%t\<close>, \<open>Quote\<close> the verb \<open>%q\<close>, \<open>EncodeToString\<close> that of
    package \<open>hex\<close>; \<open>Split\<close>, \<open>Join\<close>, \<open>HasPrefix\<close>, \<open>Contains\<close> and \<open>IndexByte\<close> are those of package \<open>strings\<close>.
\<close>

subsection \<open>Definitions\<close>

definition space_encodings :: "string list" where
  "space_encodings =
     [[CHR 0x09], [CHR 0x0A], [CHR 0x0B], [CHR 0x0C], [CHR 0x0D], [CHR 0x20],
      [CHR 0xC2, CHR 0x85], [CHR 0xC2, CHR 0xA0], [CHR 0xE1, CHR 0x9A, CHR 0x80],
      [CHR 0xE2, CHR 0x80, CHR 0x80], [CHR 0xE2, CHR 0x80, CHR 0x81], [CHR 0xE2, CHR 0x80, CHR 0x82],
      [CHR 0xE2, CHR 0x80, CHR 0x83], [CHR 0xE2, CHR 0x80, CHR 0x84], [CHR 0xE2, CHR 0x80, CHR 0x85],
      [CHR 0xE2, CHR 0x80, CHR 0x86], [CHR 0xE2, CHR 0x80, CHR 0x87], [CHR 0xE2, CHR 0x80, CHR 0x88],
      [CHR 0xE2, CHR 0x80, CHR 0x89], [CHR 0xE2, CHR 0x80, CHR 0x8A], [CHR 0xE2, CHR 0x80, CHR 0xA8],
      [CHR 0xE2, CHR 0x80, CHR 0xA9], [CHR 0xE2, CHR 0x80, CHR 0xAF], [CHR 0xE2, CHR 0x81, CHR 0x9F],
      [CHR 0xE3, CHR 0x80, CHR 0x80]]"

definition HasPrefix :: "string \<Rightarrow> string \<Rightarrow> bool" where
  "HasPrefix s p \<longleftrightarrow> take (length p) s = p"

declare HasPrefix_def [eval_defs]

function strip :: "string list \<Rightarrow> string \<Rightarrow> string" where
  "strip codes s =
     (case find (HasPrefix s) codes of
        None \<Rightarrow> s
      | Some e \<Rightarrow> if e = [] \<or> s = [] then s else strip codes (drop (length e) s))"
  by pat_completeness auto
termination
  by (relation "measure (\<lambda>(codes, s). length s)") auto

declare strip.simps [simp del]

definition TrimSpace :: "string \<Rightarrow> string" where
  "TrimSpace s = rev (strip (map rev space_encodings) (rev (strip space_encodings s)))"

definition upper_byte :: "char \<Rightarrow> char" where
  "upper_byte c =
     (if (97::nat) \<le> of_char c \<and> (of_char c :: nat) \<le> 122 then char_of (of_char c - (32::nat)) else c)"

fun ToUpper :: "string \<Rightarrow> string" where
  "ToUpper [] = []"
| "ToUpper [c] = [upper_byte c]"
| "ToUpper (c # d # s) =
     (if c = CHR 0xC4 \<and> d = CHR 0xB1 then CHR ''I'' # ToUpper s
      else if c = CHR 0xC5 \<and> d = CHR 0xBF then CHR ''S'' # ToUpper s
      else upper_byte c # ToUpper (d # s))"

fun Contains :: "string \<Rightarrow> string \<Rightarrow> bool" where
  "Contains [] t \<longleftrightarrow> t = []"
| "Contains (c # s) t \<longleftrightarrow> HasPrefix (c # s) t \<or> Contains s t"

text \<open>\<open>strings.IndexByte\<close>: the index of the first occurrence, \<open>None\<close> where Go answers \<open>-1\<close>.\<close>

fun IndexByte :: "string \<Rightarrow> char \<Rightarrow> nat option" where
  "IndexByte [] c = None"
| "IndexByte (d # s) c = (if d = c then Some 0 else map_option Suc (IndexByte s c))"

text \<open>\<open>hex.EncodeToString\<close>: two lower case digits for every byte, the high half first.\<close>

definition hex_digit :: "nat \<Rightarrow> char" where
  "hex_digit n = (if n < 10 then char_of (48 + n) else char_of (87 + n))"

definition EncodeToString :: "char list \<Rightarrow> string" where
  "EncodeToString bs = concat (map (\<lambda>b. [hex_digit (of_char b div 16), hex_digit (of_char b mod 16)]) bs)"

text \<open>
  \<open>strings.EqualFold\<close>, by a normal form: ASCII letters in lower case, and the two runes beyond ASCII (long s and
  the Kelvin sign) that fold to an ASCII letter. It is exact as soon as one of the strings is ASCII.
\<close>

definition lower_byte :: "char \<Rightarrow> char" where
  "lower_byte c =
     (if (65::nat) \<le> of_char c \<and> (of_char c :: nat) \<le> 90 then char_of (of_char c + (32::nat)) else c)"

text \<open>\<open>strings.ToLower\<close>, compared by the code with hexadecimal digests only: no other letter than the ASCII ones becomes one of those.\<close>

definition ToLower :: "string \<Rightarrow> string" where
  "ToLower s = map lower_byte s"

text \<open>
  \<open>strings.ToLower\<close> as far as it produces ASCII: the letters of ASCII, the Kelvin sign and the I with a dot. Other runes are left as
  they are; the result is only searched for ASCII texts.
\<close>

fun lower_text :: "string \<Rightarrow> string" where
  "lower_text [] = []"
| "lower_text (c # s) =
     (if c = CHR 0xE2 \<and> take 2 s = [CHR 0x84, CHR 0xAA] then CHR ''k'' # lower_text (drop 2 s)
      else if c = CHR 0xC4 \<and> take 1 s = [CHR 0xB0] then CHR ''i'' # lower_text (drop 1 s)
      else lower_byte c # lower_text s)"

fun fold_case :: "string \<Rightarrow> string" where
  "fold_case (a # b # c # s) =
     (if a = CHR 0xE2 \<and> b = CHR 0x84 \<and> c = CHR 0xAA then CHR ''k'' # fold_case s
      else if a = CHR 0xC5 \<and> b = CHR 0xBF then CHR ''s'' # fold_case (c # s)
      else lower_byte a # fold_case (b # c # s))"
| "fold_case [a, b] = (if a = CHR 0xC5 \<and> b = CHR 0xBF then ''s'' else [lower_byte a, lower_byte b])"
| "fold_case [a] = [lower_byte a]"
| "fold_case [] = []"

definition EqualFold :: "string \<Rightarrow> string \<Rightarrow> bool" where
  "EqualFold s t \<longleftrightarrow> fold_case s = fold_case t"

text \<open>
  The verb \<open>%q\<close>: a double-quoted Go literal. Bytes beyond ASCII are kept, as they are for printable runes.
\<close>

definition quote_byte :: "char \<Rightarrow> string" where
  "quote_byte c =
     (if c = CHR 0x22 then [CHR 0x5C, CHR 0x22]
      else if c = CHR 0x5C then [CHR 0x5C, CHR 0x5C]
      else if c = CHR 0x07 then [CHR 0x5C, CHR ''a'']
      else if c = CHR 0x08 then [CHR 0x5C, CHR ''b'']
      else if c = CHR 0x0C then [CHR 0x5C, CHR ''f'']
      else if c = CHR 0x0A then [CHR 0x5C, CHR ''n'']
      else if c = CHR 0x0D then [CHR 0x5C, CHR ''r'']
      else if c = CHR 0x09 then [CHR 0x5C, CHR ''t'']
      else if c = CHR 0x0B then [CHR 0x5C, CHR ''v'']
      else if (of_char c :: nat) < 32 \<or> c = CHR 0x7F
      then [CHR 0x5C, CHR ''x'', hex_digit (of_char c div 16), hex_digit (of_char c mod 16)]
      else [c])"

definition Quote :: "string \<Rightarrow> string" where
  "Quote s = CHR 0x22 # concat (map quote_byte s) @ [CHR 0x22]"

text \<open>\<open>strings.Join\<close>\<close>

fun Join :: "string list \<Rightarrow> string \<Rightarrow> string" where
  "Join [] sep = []"
| "Join [p] sep = p"
| "Join (p # ps) sep = p @ sep @ Join ps sep"

text \<open>\<open>strings.Split\<close> at a separator of one byte: one part more than there are separators.\<close>

fun Split :: "char \<Rightarrow> string \<Rightarrow> string list" where
  "Split c [] = [[]]"
| "Split c (d # s) =
     (if d = c then [] # Split c s
      else case Split c s of [] \<Rightarrow> [[d]] | p # ps \<Rightarrow> (d # p) # ps)"

text \<open>The byte test of the digest validators: a decimal digit or one of \<open>a\<close> to \<open>f\<close>.\<close>

definition hex_byte :: "char \<Rightarrow> bool" where
  "hex_byte c \<longleftrightarrow>
     (48::nat) \<le> of_char c \<and> (of_char c :: nat) \<le> 57 \<or> (97::nat) \<le> of_char c \<and> (of_char c :: nat) \<le> 102"

text \<open>\<open>hex.DecodeString\<close> accepts an even number of hexadecimal digits of either case.\<close>

definition hex_decodable :: "string \<Rightarrow> bool" where
  "hex_decodable s \<longleftrightarrow> even (length s) \<and> list_all (\<lambda>c. hex_byte (lower_byte c)) s"

text \<open>The byte test of the identifier validators: lower case letters, digits, underscore, hyphen.\<close>

definition id_byte :: "char \<Rightarrow> bool" where
  "id_byte c \<longleftrightarrow>
     (97::nat) \<le> of_char c \<and> (of_char c :: nat) \<le> 122 \<or> (48::nat) \<le> of_char c \<and> (of_char c :: nat) \<le> 57 \<or>
     c = CHR ''_'' \<or> c = CHR ''-''"

definition digit :: "nat \<Rightarrow> char" where
  "digit n = char_of (48 + n)"

fun nat_digits :: "nat \<Rightarrow> string" where
  "nat_digits n = (if n < 10 then [digit n] else nat_digits (n div 10) @ [digit (n mod 10)])"

declare nat_digits.simps [simp del]

definition FormatInt :: "int \<Rightarrow> string" where
  "FormatInt i = (if i < 0 then CHR ''-'' # nat_digits (nat (- i)) else nat_digits (nat i))"

definition FormatBool :: "bool \<Rightarrow> string" where
  "FormatBool b = (if b then ''true'' else ''false'')"

text \<open>A byte that starts or ends no white space: the printable ASCII characters.\<close>

definition graphic :: "char \<Rightarrow> bool" where
  "graphic c \<longleftrightarrow> (32::nat) < of_char c \<and> (of_char c :: nat) < 127"

subsection \<open>Trimming\<close>

lemma space_encodings_nonempty: "[] \<notin> set space_encodings" "[] \<notin> set (map rev space_encodings)"
  by (simp_all add: space_encodings_def)

lemma strip_clean:
  assumes "[] \<notin> set codes"
  shows "find (HasPrefix (strip codes s)) codes = None"
  using assms
proof (induction codes s rule: strip.induct)
  case (1 codes s)
  show ?case
  proof (cases "find (HasPrefix s) codes")
    case None
    then show ?thesis by (simp add: strip.simps [of codes s])
  next
    case (Some e)
    then have e: "e \<in> set codes" "HasPrefix s e"
      by (auto simp: find_Some_iff)
    with 1 have "e \<noteq> []" "s \<noteq> []" by (auto simp: HasPrefix_def)
    with Some 1 show ?thesis by (simp add: strip.simps [of codes s])
  qed
qed

lemma strip_id: "find (HasPrefix s) codes = None \<Longrightarrow> strip codes s = s"
  by (simp add: strip.simps)

lemma strip_suffix: "\<exists>u. s = u @ strip codes s"
proof (induction codes s rule: strip.induct)
  case (1 codes s)
  show ?case
  proof (cases "find (HasPrefix s) codes")
    case None
    then show ?thesis by (simp add: strip.simps [of codes s])
  next
    case (Some e)
    show ?thesis
    proof (cases "e = [] \<or> s = []")
      case True
      with Some show ?thesis by (auto simp: strip.simps [of codes s])
    next
      case False
      with Some 1 obtain u where "drop (length e) s = u @ strip codes (drop (length e) s)" by blast
      then have "s = (take (length e) s @ u) @ strip codes (drop (length e) s)"
        by (metis append.assoc append_take_drop_id)
      moreover have "strip codes s = strip codes (drop (length e) s)"
        using Some False by (simp add: strip.simps [of codes s])
      ultimately show ?thesis by metis
    qed
  qed
qed

lemma HasPrefix_append: "HasPrefix s p \<Longrightarrow> HasPrefix (s @ t) p"
  by (metis HasPrefix_def append_eq_conv_conj append_take_drop_id append.assoc)

lemma find_HasPrefix_prefix:
  "find (HasPrefix (s @ t)) codes = None \<Longrightarrow> find (HasPrefix s) codes = None"
  by (auto simp: find_None_iff dest: HasPrefix_append)

lemma TrimSpace_idem [simp]: "TrimSpace (TrimSpace s) = TrimSpace s"
proof -
  let ?l = "strip space_encodings s"
  let ?r = "strip (map rev space_encodings) (rev ?l)"
  obtain u where u: "rev ?l = u @ ?r" using strip_suffix by blast
  then have l: "?l = rev ?r @ rev u" by (metis rev_append rev_rev_ident)
  have "find (HasPrefix ?l) space_encodings = None"
    by (rule strip_clean) (rule space_encodings_nonempty)
  then have "find (HasPrefix (rev ?r @ rev u)) space_encodings = None" by (metis l)
  then have "find (HasPrefix (rev ?r)) space_encodings = None" by (rule find_HasPrefix_prefix)
  then have 1: "strip space_encodings (rev ?r) = rev ?r" by (rule strip_id)
  have 2: "strip (map rev space_encodings) ?r = ?r"
    by (intro strip_id strip_clean space_encodings_nonempty)
  show ?thesis unfolding TrimSpace_def by (simp add: 1 2)
qed

lemma find_HasPrefix_graphic:
  assumes "\<And>e. e \<in> set codes \<Longrightarrow> e \<noteq> [] \<and> \<not> graphic (hd e)" and "s = [] \<or> graphic (hd s)"
  shows "find (HasPrefix s) codes = None"
proof -
  have "\<not> HasPrefix s e" if "e \<in> set codes" for e
    using assms(1) [OF that] assms(2) by (cases e; cases s) (auto simp: HasPrefix_def)
  then show ?thesis by (auto simp: find_None_iff)
qed

lemma space_encodings_not_graphic:
  "list_all (\<lambda>e. e \<noteq> [] \<and> \<not> graphic (hd e) \<and> \<not> graphic (last e)) space_encodings"
  by (simp add: space_encodings_def graphic_def)

text \<open>The rule by which concrete identifiers are trimmed in evaluations.\<close>

lemma TrimSpace_graphic [simp]:
  assumes "s = [] \<or> graphic (hd s) \<and> graphic (last s)"
  shows "TrimSpace s = s"
proof -
  have "strip space_encodings s = s"
    by (rule strip_id, rule find_HasPrefix_graphic)
      (use space_encodings_not_graphic assms in \<open>auto simp: list_all_iff\<close>)
  moreover have "strip (map rev space_encodings) (rev s) = rev s"
    by (rule strip_id, rule find_HasPrefix_graphic)
      (use space_encodings_not_graphic assms in \<open>auto simp: list_all_iff hd_rev\<close>)
  ultimately show ?thesis by (simp add: TrimSpace_def)
qed

lemma graphic_eval [simp]:
  "graphic (Char b0 b1 b2 b3 b4 b5 b6 b7) \<longleftrightarrow>
     \<not> b7 \<and> (b6 \<or> b5) \<and> Char b0 b1 b2 b3 b4 b5 b6 b7 \<notin> {CHR 0x20, CHR 0x7F}"
  by (cases b0; cases b1; cases b2; cases b3; cases b4; cases b5; cases b6; cases b7)
    (simp_all add: graphic_def)

lemma upper_byte_eval [simp]:
  "upper_byte (Char b0 b1 b2 b3 b4 b5 b6 b7) =
     (if \<not> b7 \<and> b6 \<and> b5 \<and> Char b0 b1 b2 b3 b4 b5 b6 b7 \<notin>
          {CHR 0x60, CHR 0x7B, CHR 0x7C, CHR 0x7D, CHR 0x7E, CHR 0x7F}
      then Char b0 b1 b2 b3 b4 False b6 b7 else Char b0 b1 b2 b3 b4 b5 b6 b7)"
  by (cases b0; cases b1; cases b2; cases b3; cases b4; cases b5; cases b6; cases b7)
    (simp_all add: upper_byte_def char_of_def bit_0)

subsection \<open>Hexadecimal output\<close>

lemma hex_digit_id_byte: "n < 16 \<Longrightarrow> id_byte (hex_digit n)"
  by (auto simp: hex_digit_def id_byte_def)

lemma hex_digit_graphic: "n < 16 \<Longrightarrow> graphic (hex_digit n)"
  by (auto simp: hex_digit_def graphic_def)

lemma length_EncodeToString [simp]: "length (EncodeToString bs) = 2 * length bs"
  by (induction bs) (auto simp: EncodeToString_def)

lemma EncodeToString_bytes:
  "list_all id_byte (EncodeToString bs)" "list_all graphic (EncodeToString bs)"
proof -
  have "(of_char b :: nat) div 16 < 16" for b :: char
    using nat_of_char_less_256 [of b] by (simp add: less_mult_imp_div_less)
  then show "list_all id_byte (EncodeToString bs)" "list_all graphic (EncodeToString bs)"
    by (induction bs) (auto simp: EncodeToString_def hex_digit_id_byte hex_digit_graphic)
qed

lemma EncodeToString_hex: "list_all (\<lambda>c. hex_byte (lower_byte c)) (EncodeToString bs)"
proof -
  have digit: "hex_byte (lower_byte (hex_digit n))" if "n < 16" for n
    using that by (auto simp: hex_byte_def lower_byte_def hex_digit_def)
  have "(of_char b :: nat) div 16 < 16" for b :: char
    using nat_of_char_less_256 [of b] by (simp add: less_mult_imp_div_less)
  then show ?thesis by (induction bs) (auto simp: EncodeToString_def digit)
qed

lemma code_hex_digit: "n < 16 \<Longrightarrow> (of_char (hex_digit n) :: nat) = (if n < 10 then 48 + n else 87 + n)"
proof -
  assume "n < 16"
  then have "(48 + n) mod 256 = 48 + n" "(87 + n) mod 256 = 87 + n" by simp_all
  then show ?thesis by (simp only: hex_digit_def of_char_of if_distrib [of of_char])
qed

lemma hex_digit_inject: "m < 16 \<Longrightarrow> n < 16 \<Longrightarrow> hex_digit m = hex_digit n \<longleftrightarrow> m = n"
proof -
  assume "m < 16" "n < 16"
  have "m = n" if "hex_digit m = hex_digit n"
  proof -
    have "(if m < 10 then 48 + m else 87 + m) = (if n < 10 then 48 + n else 87 + n)"
      using code_hex_digit [OF \<open>m < 16\<close>] code_hex_digit [OF \<open>n < 16\<close>] that by metis
    then show ?thesis using \<open>m < 16\<close> \<open>n < 16\<close> by (simp split: if_splits)
  qed
  then show ?thesis by blast
qed

lemma EncodeToString_inject: "EncodeToString bs = EncodeToString cs \<longleftrightarrow> bs = cs"
proof -
  have byte: "hex_digit (of_char b div 16) = hex_digit (of_char c div 16) \<and>
      hex_digit (of_char b mod 16) = hex_digit (of_char c mod 16) \<longleftrightarrow> b = c" for b c :: char
  proof -
    have "(of_char b :: nat) div 16 < 16" "(of_char c :: nat) div 16 < 16" 
      using nat_of_char_less_256 [of b] nat_of_char_less_256 [of c] by (simp_all add: less_mult_imp_div_less)
    then have "hex_digit (of_char b div 16) = hex_digit (of_char c div 16) \<and> hex_digit (of_char b mod 16) = hex_digit (of_char c mod 16) \<longleftrightarrow>
       (of_char b :: nat) div 16 = of_char c div 16 \<and> (of_char b :: nat) mod 16 = of_char c mod 16" by (simp add: hex_digit_inject)
    also have "\<dots> \<longleftrightarrow> (of_char b :: nat) = of_char c" by (metis div_mult_mod_eq)
    finally show ?thesis by simp
  qed
  show ?thesis
  proof (induction bs arbitrary: cs)
    case Nil
    show ?case by (cases cs) (simp_all add: EncodeToString_def)
  next
    case (Cons b bs)
    show ?case using Cons.IH byte by (cases cs) (auto simp: EncodeToString_def)
  qed
qed

lemma TrimSpace_all_graphic: "list_all graphic s \<Longrightarrow> TrimSpace s = s"
  by (cases "s = []") (auto simp: list_all_iff)

subsection \<open>Searching a byte\<close>

lemma IndexByte_Some:
  "IndexByte s c = Some i \<longleftrightarrow> i < length s \<and> s ! i = c \<and> c \<notin> set (take i s)"
proof (induction s arbitrary: i)
  case (Cons d s)
  then show ?case by (cases i) auto
qed simp

lemma IndexByte_append: "c \<notin> set p \<Longrightarrow> IndexByte (p @ c # q) c = Some (length p)"
  by (simp add: IndexByte_Some nth_append)

lemma IndexByte_split:
  "IndexByte s c = Some i \<Longrightarrow> s = take i s @ c # drop (i + 1) s"
  using id_take_nth_drop [of i s] by (auto simp: IndexByte_Some)

lemma IndexByte_None: "IndexByte s c = None \<longleftrightarrow> c \<notin> set s"
  by (induction s) auto

subsection \<open>Splitting\<close>

lemma Split_not_Nil [simp]: "Split c s \<noteq> []"
  by (induction s) (auto split: list.splits)

lemma concat_Split: "concat (Split c s) = filter (\<lambda>d. d \<noteq> c) s"
  by (induction s) (auto split: list.splits)

lemma Split_parts: "p \<in> set (Split c s) \<Longrightarrow> c \<notin> set p"
  by (induction s arbitrary: p) (fastforce split: list.splits if_splits)+

subsection \<open>Keys joined with a colon\<close>

text \<open>
  Several components build a map key as \<open>a + ":" + b\<close>. The key determines its parts as soon as
  the first part holds no colon.
\<close>

lemma colon_key_inject:
  assumes "CHR '':'' \<notin> set a" and "CHR '':'' \<notin> set a'"
  shows "a @ '':'' @ b = a' @ '':'' @ b' \<longleftrightarrow> a = a' \<and> b = b'"
  using assms by (auto simp: append_eq_append_conv2 Cons_eq_append_conv append_eq_Cons_conv)

lemma colon_key_inject_right:
  assumes "CHR '':'' \<notin> set b" and "CHR '':'' \<notin> set b'"
  shows "a @ '':'' @ b = a' @ '':'' @ b' \<longleftrightarrow> a = a' \<and> b = b'"
  using assms by (auto simp: append_eq_append_conv2 Cons_eq_append_conv append_eq_Cons_conv)

text \<open>Printed numbers determine the number and hold no colon.\<close>

lemma code_digit: "n < 10 \<Longrightarrow> (of_char (digit n) :: nat) = 48 + n"
  by (simp add: digit_def)

definition digit_char :: "char \<Rightarrow> bool" where
  "digit_char c \<longleftrightarrow> (48::nat) \<le> of_char c \<and> (of_char c :: nat) < 58"

text \<open>\<open>strconv.ParseInt\<close> at base 10 and 64 bits, without its value in the case of an error.\<close>

fun parse_digits :: "nat \<Rightarrow> string \<Rightarrow> nat option" where
  "parse_digits n [] = Some n"
| "parse_digits n (c # s) = (if digit_char c then parse_digits (10 * n + (of_char c - 48)) s else None)"

definition ParseInt64 :: "string \<Rightarrow> int option" where
  "ParseInt64 s =
     (let negative = HasPrefix s ''-''; body = (if HasPrefix s ''-'' \<or> HasPrefix s ''+'' then tl s else s)
      in if body = [] then None
         else case parse_digits 0 body of
           None \<Rightarrow> None
         | Some n \<Rightarrow>
             if negative then (if n \<le> 2 ^ 63 then Some (- int n) else None)
             else (if n < 2 ^ 63 then Some (int n) else None))"

lemma digit_char_digit: "n < 10 \<Longrightarrow> digit_char (digit n)"
  by (simp add: digit_char_def code_digit)

lemma nat_digits_chars: "list_all digit_char (nat_digits n)"
  by (induction n rule: nat_digits.induct) (subst nat_digits.simps, auto simp: digit_char_digit)

lemma nat_digits_value: "foldl (\<lambda>v c. 10 * v + (of_char c - 48)) 0 (nat_digits n) = (n :: nat)"
  by (induction n rule: nat_digits.induct) (subst nat_digits.simps, auto simp: code_digit)

lemma nat_digits_inject: "nat_digits m = nat_digits n \<longleftrightarrow> m = n"
  by (metis nat_digits_value)

lemma FormatInt_chars: "c \<in> set (FormatInt i) \<Longrightarrow> c = CHR ''-'' \<or> digit_char c"
  using nat_digits_chars by (auto simp: FormatInt_def list_all_iff split: if_splits)

lemma FormatInt_inject [simp]: "FormatInt i = FormatInt j \<longleftrightarrow> i = j"
proof -
  have "CHR ''-'' \<notin> set (nat_digits n)" for n
    using nat_digits_chars [of n] by (auto simp: list_all_iff digit_char_def)
  then have "CHR ''-'' # xs \<noteq> nat_digits n" for xs n by (metis list.set_intros(1))
  then show ?thesis by (auto simp: FormatInt_def nat_digits_inject dest: sym)
qed

lemma FormatInt_no_colon [simp]: "CHR '':'' \<notin> set (FormatInt i)"
  using FormatInt_chars [of "CHR '':''" i] by (auto simp: digit_char_def)

lemma parse_digits_foldl:
  "list_all digit_char s \<Longrightarrow> parse_digits n s = Some (foldl (\<lambda>v c. 10 * v + (of_char c - 48)) n s)"
  by (induction n s rule: parse_digits.induct) auto

lemma ParseInt64_FormatInt: "- (2 ^ 63) \<le> i \<Longrightarrow> i < 2 ^ 63 \<Longrightarrow> ParseInt64 (FormatInt i) = Some i"
proof -
  assume i: "- (2 ^ 63) \<le> i" "i < 2 ^ 63"
  have digits: "parse_digits 0 (nat_digits n) = Some n" for n
    using parse_digits_foldl [OF nat_digits_chars] nat_digits_value by metis
  have nonempty: "nat_digits n \<noteq> []" for n by (subst nat_digits.simps) simp
  have signs: "\<not> HasPrefix (nat_digits n) ''-''" "\<not> HasPrefix (nat_digits n) ''+''" for n
    using nat_digits_chars [of n] nonempty [of n] by (cases "nat_digits n"; auto simp: HasPrefix_def digit_char_def)+
  show ?thesis
  proof (cases "i < 0")
    case True
    then have "HasPrefix (FormatInt i) ''-''" "tl (FormatInt i) = nat_digits (nat (- i))" by (simp_all add: FormatInt_def HasPrefix_def)
    moreover have "nat (- i) \<le> 2 ^ 63" using i by simp
    ultimately show ?thesis using digits [of "nat (- i)"] nonempty True by (simp add: ParseInt64_def Let_def)
  next
    case False
    then have "FormatInt i = nat_digits (nat i)" by (simp add: FormatInt_def)
    moreover have "nat i < 2 ^ 63" using i False by simp
    ultimately show ?thesis using digits [of "nat i"] nonempty signs False by (simp add: ParseInt64_def Let_def)
  qed
qed

end
