(* ===== verification/Workflow.thy ===== *)
theory Workflow
  imports Go_Strings
begin

text \<open>
  The workflow engine of \<open>modules/workflow-action/workflow.go\<close>: instances that move through a
  fixed transition table under optimistic concurrency, an append-only audit log, and an
  idempotency table that answers retries. The clock is an argument (\<open>now\<close>) of each method
  that reads it; an error is the sentinel that \<open>errors.Is\<close> sees, without its message.
\<close>

subsection \<open>Definitions\<close>

datatype State =
  StateDraft | StateInProgress | StateUnderReview | StateApproved | StateClosed | StateArchived
| StateOther string \<comment> \<open>any other string of the type; the zero value is \<open>StateOther []\<close>\<close>

fun TerminalStates :: "State \<Rightarrow> bool" where
  "TerminalStates StateClosed = True"
| "TerminalStates StateArchived = True"
| "TerminalStates _ = False"

fun AllowedTransitions :: "State \<Rightarrow> State list" where
  "AllowedTransitions StateDraft = [StateInProgress, StateArchived]"
| "AllowedTransitions StateInProgress = [StateUnderReview, StateArchived]"
| "AllowedTransitions StateUnderReview = [StateApproved, StateInProgress, StateArchived]"
| "AllowedTransitions StateApproved = [StateClosed, StateArchived]"
| "AllowedTransitions StateClosed = []"
| "AllowedTransitions StateArchived = []"
| "AllowedTransitions (StateOther _) = []"

datatype workflow_error =
  ErrNotFound | ErrWorkflowExists | ErrBlankID | ErrBlankRequestID | ErrTerminalState
| ErrInvalidTransition | ErrStaleRevision | ErrAuthorizationDenied
| ErrConflictingDuplicateRequest | ErrInvalidRollback

type_synonym AuthPredicate = "string \<Rightarrow> State \<Rightarrow> State \<Rightarrow> bool"

record TransitionRequest =
  tr_WorkflowID :: string
  tr_RequestID :: string
  tr_CorrelationID :: string
  tr_SourceState :: State
  tr_TargetState :: State
  tr_ExpectedRevision :: int64
  tr_Authorizer :: "AuthPredicate option" \<comment> \<open>\<open>None\<close> is the nil function\<close>

record AuditEntry =
  wa_WorkflowID :: string
  wa_CorrelationID :: string
  wa_RequestID :: string
  wa_PriorState :: State
  wa_CurrentState :: State
  wa_Revision :: int64
  wa_Timestamp :: gotime

record WorkflowInstance =
  wi_ID :: string
  wi_CurrentState :: State
  wi_Revision :: int64
  wi_CreatedAt :: gotime
  wi_UpdatedAt :: gotime

record idempotencyRecord =
  ir_workflowID :: string
  ir_requestID :: string
  ir_sourceState :: State
  ir_targetState :: State
  ir_expectedRevision :: int64
  ir_resultRevision :: int64
  ir_resultingState :: State
  ir_updatedAt :: gotime

record Engine =
  instances :: "string \<rightharpoonup> WorkflowInstance"
  auditLog :: "AuditEntry list"
  idempotency :: "string \<rightharpoonup> idempotencyRecord"

definition NewEngine :: Engine where
  "NewEngine = \<lparr>instances = Map.empty, auditLog = [], idempotency = Map.empty\<rparr>"

definition CreateWorkflow ::
  "string \<Rightarrow> gotime \<Rightarrow> Engine \<Rightarrow> (Engine, workflow_error, WorkflowInstance) outcome" where
  "CreateWorkflow wid now e =
     (let trimmedID = TrimSpace wid in
      if trimmedID = [] then (e, Inl ErrBlankID)
      else if instances e trimmedID \<noteq> None then (e, Inl ErrWorkflowExists)
      else let inst = \<lparr>wi_ID = trimmedID, wi_CurrentState = StateDraft, wi_Revision = 1,
                       wi_CreatedAt = now, wi_UpdatedAt = now\<rparr>
           in (e\<lparr>instances := (instances e)(trimmedID \<mapsto> inst)\<rparr>, Inr inst))"

definition GetWorkflow :: "string \<Rightarrow> Engine \<Rightarrow> workflow_error + WorkflowInstance" where
  "GetWorkflow wid e =
     (case instances e (TrimSpace wid) of None \<Rightarrow> Inl ErrNotFound | Some inst \<Rightarrow> Inr inst)"

definition idempotencyKey :: "string \<Rightarrow> string \<Rightarrow> string" where
  "idempotencyKey workflowID requestID = workflowID @ '':'' @ requestID"

definition retry_matches :: "TransitionRequest \<Rightarrow> idempotencyRecord \<Rightarrow> bool" where
  "retry_matches req recorded \<longleftrightarrow>
     (tr_SourceState req = StateOther [] \<or> tr_SourceState req = ir_sourceState recorded) \<and>
     ir_targetState recorded = tr_TargetState req \<and>
     ir_expectedRevision recorded = tr_ExpectedRevision req"

definition authorized :: "TransitionRequest \<Rightarrow> string \<Rightarrow> State \<Rightarrow> bool" where
  "authorized req workflowID current \<longleftrightarrow>
     (case tr_Authorizer req of
        None \<Rightarrow> False
      | Some permit \<Rightarrow> permit workflowID current (tr_TargetState req))"

text \<open>Steps 6 to 8 of \<open>Transition\<close>: the new instance, the audit entry, the idempotency record.\<close>

definition transition_instance :: "TransitionRequest \<Rightarrow> WorkflowInstance \<Rightarrow> gotime \<Rightarrow> WorkflowInstance" where
  "transition_instance req inst now =
     inst\<lparr>wi_CurrentState := tr_TargetState req, wi_Revision := wi_Revision inst + 1, wi_UpdatedAt := now\<rparr>"

definition transition_audit ::
  "TransitionRequest \<Rightarrow> string \<Rightarrow> string \<Rightarrow> WorkflowInstance \<Rightarrow> gotime \<Rightarrow> AuditEntry" where
  "transition_audit req workflowID requestID inst now =
     \<lparr>wa_WorkflowID = workflowID, wa_CorrelationID = TrimSpace (tr_CorrelationID req),
      wa_RequestID = requestID, wa_PriorState = wi_CurrentState inst,
      wa_CurrentState = tr_TargetState req, wa_Revision = wi_Revision inst + 1, wa_Timestamp = now\<rparr>"

definition transition_record ::
  "TransitionRequest \<Rightarrow> string \<Rightarrow> string \<Rightarrow> WorkflowInstance \<Rightarrow> gotime \<Rightarrow> idempotencyRecord" where
  "transition_record req workflowID requestID inst now =
     \<lparr>ir_workflowID = workflowID, ir_requestID = requestID, ir_sourceState = wi_CurrentState inst,
      ir_targetState = tr_TargetState req, ir_expectedRevision = tr_ExpectedRevision req,
      ir_resultRevision = wi_Revision inst + 1, ir_resultingState = tr_TargetState req,
      ir_updatedAt = now\<rparr>"

definition apply_transition ::
  "TransitionRequest \<Rightarrow> string \<Rightarrow> string \<Rightarrow> WorkflowInstance \<Rightarrow> gotime \<Rightarrow> Engine \<Rightarrow> Engine" where
  "apply_transition req workflowID requestID inst now e =
     e\<lparr>instances := (instances e)(workflowID \<mapsto> transition_instance req inst now),
       auditLog := auditLog e @ [transition_audit req workflowID requestID inst now],
       idempotency := (idempotency e)(idempotencyKey workflowID requestID \<mapsto>
         transition_record req workflowID requestID inst now)\<rparr>"

definition Transition ::
  "TransitionRequest \<Rightarrow> gotime \<Rightarrow> Engine \<Rightarrow> (Engine, workflow_error, WorkflowInstance) outcome" where
  "Transition req now e =
     (let workflowID = TrimSpace (tr_WorkflowID req); requestID = TrimSpace (tr_RequestID req) in
      if workflowID = [] then (e, Inl ErrBlankID)
      else if requestID = [] then (e, Inl ErrBlankRequestID)
      else case instances e workflowID of
        None \<Rightarrow> (e, Inl ErrNotFound)
      | Some inst \<Rightarrow>
         (case idempotency e (idempotencyKey workflowID requestID) of
            Some recorded \<Rightarrow>
              if retry_matches req recorded then (e, Inr inst)
              else (e, Inl ErrConflictingDuplicateRequest)
          | None \<Rightarrow>
              if tr_SourceState req \<noteq> StateOther [] \<and> tr_SourceState req \<noteq> wi_CurrentState inst
              then (e, Inl ErrInvalidTransition)
              else if TerminalStates (wi_CurrentState inst) then (e, Inl ErrTerminalState)
              else if tr_ExpectedRevision req \<noteq> wi_Revision inst then (e, Inl ErrStaleRevision)
              else if tr_TargetState req \<notin> set (AllowedTransitions (wi_CurrentState inst))
              then (e, Inl ErrInvalidTransition)
              else if \<not> authorized req workflowID (wi_CurrentState inst)
              then (e, Inl ErrAuthorizationDenied)
              else (apply_transition req workflowID requestID inst now e,
                    Inr (transition_instance req inst now))))"

definition AuditHistory :: "string \<Rightarrow> Engine \<Rightarrow> AuditEntry list" where
  "AuditHistory workflowID e =
     filter (\<lambda>entry. wa_WorkflowID entry = TrimSpace workflowID) (auditLog e)"

definition Checkpoint :: "string \<Rightarrow> Engine \<Rightarrow> workflow_error + WorkflowInstance" where
  "Checkpoint workflowID e = GetWorkflow workflowID e"

definition Rollback ::
  "string \<Rightarrow> WorkflowInstance \<Rightarrow> string \<Rightarrow> gotime \<Rightarrow> Engine \<Rightarrow>
   (Engine, workflow_error, WorkflowInstance) outcome" where
  "Rollback workflowID checkpoint reason now e =
     (let wID = TrimSpace workflowID in
      if wID = [] then (e, Inl ErrBlankID)
      else case instances e wID of
        None \<Rightarrow> (e, Inl ErrNotFound)
      | Some inst \<Rightarrow>
          if TerminalStates (wi_CurrentState inst) then (e, Inl ErrTerminalState)
          else if wi_ID checkpoint \<noteq> wi_ID inst then (e, Inl ErrInvalidRollback)
          else if sint (wi_Revision inst) \<le> sint (wi_Revision checkpoint)
                  \<or> sint (wi_Revision checkpoint) < 1
          then (e, Inl ErrInvalidRollback)
          else let inst' = inst\<lparr>wi_CurrentState := wi_CurrentState checkpoint,
                                wi_Revision := wi_Revision inst + 1, wi_UpdatedAt := now\<rparr>;
                   audit = \<lparr>wa_WorkflowID = wID, wa_CorrelationID = ''rollback'',
                            wa_RequestID = ''rollback-rev-'' @ FormatInt (sint (wi_Revision checkpoint))
                              @ ''-to-'' @ FormatInt (sint (wi_Revision inst')),
                            wa_PriorState = wi_CurrentState inst,
                            wa_CurrentState = wi_CurrentState inst', wa_Revision = wi_Revision inst',
                            wa_Timestamp = now\<rparr>
               in (e\<lparr>instances := (instances e)(wID \<mapsto> inst'), auditLog := auditLog e @ [audit]\<rparr>,
                   Inr inst'))"

text \<open>The calls that change an engine, and the methods as one function of the call.\<close>

datatype engine_call =
  CallCreateWorkflow string gotime
| CallTransition TransitionRequest gotime
| CallRollback string WorkflowInstance string gotime

fun engine_exec :: "engine_call \<Rightarrow> Engine \<Rightarrow> (Engine, workflow_error, WorkflowInstance) outcome" where
  "engine_exec (CallCreateWorkflow wid now) e = CreateWorkflow wid now e"
| "engine_exec (CallTransition req now) e = Transition req now e"
| "engine_exec (CallRollback wid checkpoint reason now) e = Rollback wid checkpoint reason now e"

text \<open>
  The invariant: each instance is filed under its own trimmed, non-blank identifier; the audit
  entries of an instance form a path from \<open>DRAFT\<close> to its current state and carry the revisions
  2, 3, \<dots>; its revision is one more than their number; every idempotency record belongs to an
  audit entry.
\<close>

definition audit_of :: "string \<Rightarrow> Engine \<Rightarrow> AuditEntry list" where
  "audit_of wid e = filter (\<lambda>a. wa_WorkflowID a = wid) (auditLog e)"

definition instance_inv :: "AuditEntry list \<Rightarrow> string \<Rightarrow> WorkflowInstance \<Rightarrow> bool" where
  "instance_inv hist wid inst \<longleftrightarrow>
     wid \<noteq> [] \<and> TrimSpace wid = wid \<and> wi_ID inst = wid \<and>
     linked StateDraft (map (\<lambda>a. (wa_PriorState a, wa_CurrentState a)) hist) (wi_CurrentState inst) \<and>
     numbered (\<lambda>a. wa_Revision a - 1) hist \<and> wi_Revision inst = of_nat (Suc (length hist))"

definition idempotency_inv :: "Engine \<Rightarrow> bool" where
  "idempotency_inv e \<longleftrightarrow>
     (\<forall>k r. idempotency e k = Some r \<longrightarrow>
        k = idempotencyKey (ir_workflowID r) (ir_requestID r) \<and>
        (\<exists>a\<in>set (auditLog e).
           wa_WorkflowID a = ir_workflowID r \<and> wa_RequestID a = ir_requestID r \<and>
           wa_PriorState a = ir_sourceState r \<and> wa_CurrentState a = ir_targetState r \<and>
           wa_Revision a = ir_expectedRevision r + 1))"

definition engine_inv :: "Engine \<Rightarrow> bool" where
  "engine_inv e \<longleftrightarrow>
     (\<forall>wid inst. instances e wid = Some inst \<longrightarrow> instance_inv (audit_of wid e) wid inst) \<and>
     (\<forall>a\<in>set (auditLog e). instances e (wa_WorkflowID a) \<noteq> None) \<and>
     idempotency_inv e"

subsection \<open>Single calls\<close>

lemma CreateWorkflow_inv: "engine_inv e \<Longrightarrow> engine_inv (fst (CreateWorkflow wid now e))"
proof -
  assume inv: "engine_inv e"
  have new: "audit_of wid' e = []" if "instances e wid' = None" for wid'
    using inv that by (auto simp: engine_inv_def audit_of_def filter_empty_conv)
  show ?thesis
    using inv new [of "TrimSpace wid"]
    by (auto simp: CreateWorkflow_def Let_def engine_inv_def idempotency_inv_def instance_inv_def
        audit_of_def)
qed

text \<open>
  What \<open>Transition\<close> and \<open>Rollback\<close> share: one instance moves to its next revision and one audit
  entry records the move.
\<close>

definition moved ::
  "WorkflowInstance \<Rightarrow> WorkflowInstance \<Rightarrow> AuditEntry \<Rightarrow> string \<Rightarrow> Engine \<Rightarrow> Engine \<Rightarrow> bool" where
  "moved inst inst' a wid e e' \<longleftrightarrow>
     instances e wid = Some inst \<and> instances e' = (instances e)(wid \<mapsto> inst') \<and>
     auditLog e' = auditLog e @ [a] \<and> wi_ID inst' = wi_ID inst \<and>
     wi_CreatedAt inst' = wi_CreatedAt inst \<and> wi_Revision inst' = wi_Revision inst + 1 \<and>
     wa_WorkflowID a = wid \<and> wa_PriorState a = wi_CurrentState inst \<and>
     wa_CurrentState a = wi_CurrentState inst' \<and> wa_Revision a = wi_Revision inst'"

lemma moved_inv:
  assumes inv: "engine_inv e" and mv: "moved inst inst' a wid e e'" and idem: "idempotency_inv e'"
  shows "engine_inv e'"
proof -
  have old: "instance_inv (audit_of wid e) wid inst"
    using inv mv by (simp add: engine_inv_def moved_def)
  have "instance_inv (audit_of w e') w i" if "instances e' w = Some i" for w i
  proof (cases "w = wid")
    case True
    with that mv old show ?thesis
      by (auto simp: moved_def instance_inv_def audit_of_def ac_simps)
  next
    case False
    with that mv inv show ?thesis by (auto simp: moved_def audit_of_def engine_inv_def)
  qed
  with inv mv idem show ?thesis by (auto simp: engine_inv_def moved_def)
qed

lemma idempotency_inv_append:
  assumes "idempotency_inv e" and "idempotency e' = idempotency e"
    and "auditLog e' = auditLog e @ xs"
  shows "idempotency_inv e'"
  using assms unfolding idempotency_inv_def by fastforce

lemma idempotency_inv_update:
  assumes inv: "idempotency_inv e" and log: "auditLog e' = auditLog e @ [a]"
    and upd: "idempotency e' = (idempotency e)(idempotencyKey (ir_workflowID r) (ir_requestID r) \<mapsto> r)"
    and new: "wa_WorkflowID a = ir_workflowID r" "wa_RequestID a = ir_requestID r"
      "wa_PriorState a = ir_sourceState r" "wa_CurrentState a = ir_targetState r"
      "wa_Revision a = ir_expectedRevision r + 1"
  shows "idempotency_inv e'"
  unfolding idempotency_inv_def
proof (intro allI impI)
  fix k r' assume k: "idempotency e' k = Some r'"
  show "k = idempotencyKey (ir_workflowID r') (ir_requestID r') \<and>
        (\<exists>a\<in>set (auditLog e').
           wa_WorkflowID a = ir_workflowID r' \<and> wa_RequestID a = ir_requestID r' \<and>
           wa_PriorState a = ir_sourceState r' \<and> wa_CurrentState a = ir_targetState r' \<and>
           wa_Revision a = ir_expectedRevision r' + 1)"
  proof (cases "k = idempotencyKey (ir_workflowID r) (ir_requestID r)")
    case True
    with k upd new log show ?thesis by simp
  next
    case False
    with k upd have "idempotency e k = Some r'" by simp
    with inv log show ?thesis unfolding idempotency_inv_def by fastforce
  qed
qed

inductive transition_result :: "TransitionRequest \<Rightarrow> gotime \<Rightarrow> Engine \<Rightarrow> Engine \<Rightarrow> WorkflowInstance \<Rightarrow> bool" where
  retry: "instances e (TrimSpace (tr_WorkflowID req)) = Some inst \<Longrightarrow>
      idempotency e (idempotencyKey (TrimSpace (tr_WorkflowID req)) (TrimSpace (tr_RequestID req)))
        = Some recorded \<Longrightarrow> retry_matches req recorded \<Longrightarrow> transition_result req now e e inst"
| fresh: "instances e (TrimSpace (tr_WorkflowID req)) = Some inst \<Longrightarrow>
      idempotency e (idempotencyKey (TrimSpace (tr_WorkflowID req)) (TrimSpace (tr_RequestID req)))
        = None \<Longrightarrow>
      tr_SourceState req = StateOther [] \<or> tr_SourceState req = wi_CurrentState inst \<Longrightarrow>
      \<not> TerminalStates (wi_CurrentState inst) \<Longrightarrow> tr_ExpectedRevision req = wi_Revision inst \<Longrightarrow>
      tr_TargetState req \<in> set (AllowedTransitions (wi_CurrentState inst)) \<Longrightarrow>
      authorized req (TrimSpace (tr_WorkflowID req)) (wi_CurrentState inst) \<Longrightarrow>
      transition_result req now e
        (apply_transition req (TrimSpace (tr_WorkflowID req)) (TrimSpace (tr_RequestID req)) inst now e)
        (transition_instance req inst now)"

lemma Transition_Inr:
  "Transition req now e = (e', Inr r) \<longleftrightarrow>
     TrimSpace (tr_WorkflowID req) \<noteq> [] \<and> TrimSpace (tr_RequestID req) \<noteq> [] \<and>
     transition_result req now e e' r"
  by (auto simp: Transition_def Let_def transition_result.simps split: if_splits option.splits)

lemma Transition_Inl: "Transition req now e = (e', Inl err) \<Longrightarrow> e' = e"
  by (auto simp: Transition_def Let_def split: if_splits option.splits)

lemma apply_transition_moved:
  "instances e wid = Some inst \<Longrightarrow>
   moved inst (transition_instance req inst now) (transition_audit req wid rid inst now) wid e
     (apply_transition req wid rid inst now e)"
  by (simp add: moved_def apply_transition_def transition_instance_def transition_audit_def)

lemma apply_transition_inv:
  assumes inv: "engine_inv e" and i: "instances e wid = Some inst"
    and rev: "tr_ExpectedRevision req = wi_Revision inst"
  shows "engine_inv (apply_transition req wid rid inst now e)"
proof (rule moved_inv [OF inv apply_transition_moved [OF i]])
  show "idempotency_inv (apply_transition req wid rid inst now e)"
    by (rule idempotency_inv_update [of e _ "transition_audit req wid rid inst now"
          "transition_record req wid rid inst now"])
      (use inv rev in \<open>simp_all add: engine_inv_def apply_transition_def transition_audit_def
        transition_record_def\<close>)
qed

lemma Transition_inv: "engine_inv e \<Longrightarrow> engine_inv (fst (Transition req now e))"
proof (cases "snd (Transition req now e)")
  case (Inl err)
  then have "fst (Transition req now e) = e" by (metis Transition_Inl prod.collapse)
  then show "engine_inv e \<Longrightarrow> ?thesis" by simp
next
  case (Inr r)
  then have "transition_result req now e (fst (Transition req now e)) r"
    by (metis Transition_Inr prod.collapse)
  then show "engine_inv e \<Longrightarrow> ?thesis" by cases (auto intro: apply_transition_inv)
qed

inductive rollback_result :: "string \<Rightarrow> WorkflowInstance \<Rightarrow> gotime \<Rightarrow> Engine \<Rightarrow> Engine \<Rightarrow> WorkflowInstance \<Rightarrow> bool" where
  rolled: "instances e wid = Some inst \<Longrightarrow> \<not> TerminalStates (wi_CurrentState inst) \<Longrightarrow>
     wi_ID cp = wi_ID inst \<Longrightarrow> 1 \<le> sint (wi_Revision cp) \<Longrightarrow>
     sint (wi_Revision cp) < sint (wi_Revision inst) \<Longrightarrow> moved inst inst' a wid e e' \<Longrightarrow>
     idempotency e' = idempotency e \<Longrightarrow> wi_CurrentState inst' = wi_CurrentState cp \<Longrightarrow>
     rollback_result wid cp now e e' inst'"

lemma Rollback_Inr:
  assumes "Rollback wid cp reason now e = (e', Inr r)"
  shows "rollback_result (TrimSpace wid) cp now e e' r"
  using assms
  by (auto simp: Rollback_def Let_def moved_def split: if_splits option.splits
      intro!: rollback_result.intros)

lemma Rollback_Inl: "Rollback wid cp reason now e = (e', Inl err) \<Longrightarrow> e' = e"
  by (auto simp: Rollback_def Let_def split: if_splits option.splits)

lemma Rollback_inv: "engine_inv e \<Longrightarrow> engine_inv (fst (Rollback wid cp reason now e))"
proof -
  assume inv: "engine_inv e"
  obtain e' res where t: "Rollback wid cp reason now e = (e', res)" by fastforce
  show ?thesis
  proof (cases res)
    case (Inl err)
    with t inv show ?thesis by (auto dest: Rollback_Inl)
  next
    case (Inr r)
    with t have "rollback_result (TrimSpace wid) cp now e e' r" by (auto dest: Rollback_Inr)
    then show ?thesis
    proof cases
      case (rolled inst a)
      then have "idempotency_inv e'"
        using inv by (auto simp: engine_inv_def moved_def intro: idempotency_inv_append)
      with rolled inv t show ?thesis by (auto intro: moved_inv)
    qed
  qed
qed

lemma CreateWorkflow_Inl: "CreateWorkflow wid now e = (e', Inl err) \<Longrightarrow> e' = e"
  by (auto simp: CreateWorkflow_def Let_def split: if_splits)

lemma engine_inv_New: "engine_inv NewEngine"
  by (simp add: engine_inv_def NewEngine_def idempotency_inv_def)

subsection \<open>Contracts of the engine\<close>

lemma engine_exec_inv: "engine_inv e \<Longrightarrow> engine_inv (fst (engine_exec c e))"
  by (cases c) (simp_all add: CreateWorkflow_inv Transition_inv Rollback_inv)

lemma engine_exec_Inl: "engine_exec c e = (e', Inl err) \<Longrightarrow> e' = e"
  by (cases c) (auto dest: CreateWorkflow_Inl Transition_Inl Rollback_Inl)

text \<open>The three ways a successful call changes the engine.\<close>

lemma engine_exec_effect:
  assumes "fst (engine_exec c e) = e'"
  obtains (same) "e' = e"
  | (created) wid inst where "instances e wid = None" "instances e' = (instances e)(wid \<mapsto> inst)"
      "auditLog e' = auditLog e" "idempotency e' = idempotency e"
  | (moved) inst inst' a wid where "moved inst inst' a wid e e'"
      "\<not> TerminalStates (wi_CurrentState inst)"
      "\<forall>k r. idempotency e k = Some r \<longrightarrow> idempotency e' k = Some r"
proof (cases c)
  case (CallCreateWorkflow wid now)
  with assms show ?thesis
    by (auto simp: CreateWorkflow_def Let_def split: if_splits intro: same created)
next
  case (CallTransition req now)
  show ?thesis
  proof (cases "snd (Transition req now e)")
    case (Inl err)
    with CallTransition assms same show ?thesis by (metis Transition_Inl engine_exec.simps(2) prod.collapse)
  next
    case (Inr r)
    with CallTransition assms have "transition_result req now e e' r"
      by (metis Transition_Inr engine_exec.simps(2) prod.collapse)
    then show ?thesis
    proof cases
      case (retry recorded)
      then show ?thesis by (auto intro: same)
    next
      case (fresh inst)
      then have "moved inst r (transition_audit req (TrimSpace (tr_WorkflowID req))
          (TrimSpace (tr_RequestID req)) inst now) (TrimSpace (tr_WorkflowID req)) e e'"
        by (simp add: apply_transition_moved)
      then show ?thesis by (rule moved) (use fresh in \<open>auto simp: apply_transition_def\<close>)
    qed
  qed
next
  case (CallRollback wid cp reason now)
  show ?thesis
  proof (cases "snd (Rollback wid cp reason now e)")
    case (Inl err)
    with CallRollback assms same show ?thesis by (metis Rollback_Inl engine_exec.simps(3) prod.collapse)
  next
    case (Inr r)
    with CallRollback assms have "rollback_result (TrimSpace wid) cp now e e' r"
      by (metis Rollback_Inr engine_exec.simps(3) prod.collapse)
    then show ?thesis by cases (auto intro: moved)
  qed
qed

lemma engine_exec_audit: "prefix (audit_of wid e) (audit_of wid (fst (engine_exec c e)))"
  by (rule engine_exec_effect [OF refl, of c e]) (auto simp: audit_of_def moved_def)

lemma engine_exec_final:
  assumes "instances e wid = Some inst" and "TerminalStates (wi_CurrentState inst)"
  shows "instances (fst (engine_exec c e)) wid = Some inst"
  by (rule engine_exec_effect [OF refl, of c e]) (use assms in \<open>auto simp: moved_def\<close>)

interpretation wf: journaled engine_exec engine_inv "\<lambda>_. True" audit_of
  by unfold_locales (simp_all add: engine_exec_inv engine_exec_audit)

interpretation wf_closed: fail_closed engine_exec
  by unfold_locales (rule engine_exec_Inl)

interpretation wf_final: absorbing engine_exec engine_inv "\<lambda>_. True"
  "\<lambda>wid e. instances e wid" "\<lambda>inst. TerminalStates (wi_CurrentState inst)"
  by unfold_locales (simp_all add: engine_exec_final)

lemma run_keeps_idempotency:
  "idempotency e k = Some r \<Longrightarrow> idempotency (run_calls engine_exec cs e) k = Some r"
proof (induction cs arbitrary: e)
  case (Cons c cs)
  have "idempotency (fst (engine_exec c e)) k = Some r"
    by (rule engine_exec_effect [OF refl, of c e]) (use Cons.prems in auto)
  with Cons.IH show ?case by simp
qed simp

lemma run_keeps_instances:
  "instances e wid = Some inst \<Longrightarrow>
     \<exists>inst'. instances (run_calls engine_exec cs e) wid = Some inst' \<and> wi_ID inst' = wi_ID inst"
proof (induction cs arbitrary: e inst)
  case (Cons c cs)
  have "\<exists>i. instances (fst (engine_exec c e)) wid = Some i \<and> wi_ID i = wi_ID inst"
    by (rule engine_exec_effect [OF refl, of c e]) (use Cons.prems in \<open>auto simp: moved_def\<close>)
  with Cons.IH show ?case by fastforce
qed simp

lemma Transition_recorded:
  assumes "Transition req now e = (e', Inr r)"
  shows "\<exists>recorded inst. instances e' (TrimSpace (tr_WorkflowID req)) = Some inst \<and> r = inst \<and>
    idempotency e' (idempotencyKey (TrimSpace (tr_WorkflowID req)) (TrimSpace (tr_RequestID req)))
      = Some recorded \<and> retry_matches req recorded"
proof -
  from assms have "transition_result req now e e' r" by (simp add: Transition_Inr)
  then show ?thesis
    by cases (auto simp: apply_transition_def transition_record_def retry_matches_def)
qed

text \<open>A small engine for evaluations: one workflow, moved once.\<close>

definition example_request :: "string \<Rightarrow> string \<Rightarrow> State \<Rightarrow> int64 \<Rightarrow> TransitionRequest" where
  "example_request wid rid target revision =
     \<lparr>tr_WorkflowID = wid, tr_RequestID = rid, tr_CorrelationID = ''corr_1'',
      tr_SourceState = StateOther [], tr_TargetState = target, tr_ExpectedRevision = revision,
      tr_Authorizer = Some (\<lambda>_ _ _. True)\<rparr>"

definition example_calls :: "engine_call list" where
  "example_calls = [CallCreateWorkflow ''wf1'' 10,
     CallTransition (example_request ''wf1'' ''r1'' StateInProgress 1) 20]"

definition example_engine :: Engine where
  "example_engine = run_calls engine_exec example_calls NewEngine"

lemmas engine_eval = example_engine_def example_calls_def example_request_def NewEngine_def
  CreateWorkflow_def Transition_def Rollback_def apply_transition_def transition_instance_def
  transition_audit_def transition_record_def authorized_def retry_matches_def idempotencyKey_def
  AuditHistory_def eval_defs

subsection \<open>Properties\<close>

text \<open>
  (C3) In every engine reachable from a new one by any sequence of calls, the audit history of an
  instance is a gap-free path: it starts in DRAFT, each entry starts where the previous one ended,
  it ends in the instance's current state, entry \<open>i\<close> carries revision \<open>i + 2\<close>, and the instance's
  revision is one more than the number of entries.
\<close>

theorem audit_history_is_path:
  assumes e: "e = run_calls engine_exec cs NewEngine" and inst: "instances e wid = Some inst"
  shows "linked StateDraft (map (\<lambda>a. (wa_PriorState a, wa_CurrentState a)) (AuditHistory wid e))
           (wi_CurrentState inst) \<and>
    (\<forall>i<length (AuditHistory wid e). wa_Revision (AuditHistory wid e ! i) = of_nat (i + 2)) \<and>
    wi_Revision inst = of_nat (length (AuditHistory wid e) + 1)"
proof -
  have "engine_inv e"
    unfolding e by (rule wf.run_inv) (simp_all add: engine_inv_New)
  with inst have inv: "instance_inv (audit_of wid e) wid inst" by (simp add: engine_inv_def)
  then have h: "AuditHistory wid e = audit_of wid e"
    by (simp add: AuditHistory_def audit_of_def instance_inv_def)
  show ?thesis using inv by (auto simp: h instance_inv_def numbered_def algebra_simps)
qed

text \<open>
  (C6) A transition request that has not been seen before succeeds exactly when the identifiers are
  not blank, the instance exists and is not terminal, the stated source state (if any) and the
  expected revision are the current ones, the table allows the target and the caller's predicate
  permits it. It then moves that instance to the target at the next revision, leaves every other
  instance as it is, appends one audit entry with the state before and after, and records the
  request under its idempotency key; nothing else changes.
\<close>

theorem Transition_fresh_iff:
  assumes "instances e (TrimSpace (tr_WorkflowID req)) = Some inst"
    and "idempotency e (idempotencyKey (TrimSpace (tr_WorkflowID req)) (TrimSpace (tr_RequestID req))) = None"
  shows "Transition req now e = (e', Inr r) \<longleftrightarrow>
    TrimSpace (tr_WorkflowID req) \<noteq> [] \<and> TrimSpace (tr_RequestID req) \<noteq> [] \<and>
    (tr_SourceState req = StateOther [] \<or> tr_SourceState req = wi_CurrentState inst) \<and>
    \<not> TerminalStates (wi_CurrentState inst) \<and> tr_ExpectedRevision req = wi_Revision inst \<and>
    tr_TargetState req \<in> set (AllowedTransitions (wi_CurrentState inst)) \<and>
    (\<exists>permit. tr_Authorizer req = Some permit \<and>
       permit (TrimSpace (tr_WorkflowID req)) (wi_CurrentState inst) (tr_TargetState req)) \<and>
    r = inst\<lparr>wi_CurrentState := tr_TargetState req, wi_Revision := wi_Revision inst + 1,
             wi_UpdatedAt := now\<rparr> \<and>
    e' = \<lparr>instances = (instances e)(TrimSpace (tr_WorkflowID req) \<mapsto>
            inst\<lparr>wi_CurrentState := tr_TargetState req, wi_Revision := wi_Revision inst + 1, wi_UpdatedAt := now\<rparr>),
          auditLog = auditLog e @ [\<lparr>wa_WorkflowID = TrimSpace (tr_WorkflowID req),
            wa_CorrelationID = TrimSpace (tr_CorrelationID req), wa_RequestID = TrimSpace (tr_RequestID req),
            wa_PriorState = wi_CurrentState inst, wa_CurrentState = tr_TargetState req,
            wa_Revision = wi_Revision inst + 1, wa_Timestamp = now\<rparr>],
          idempotency = (idempotency e)(idempotencyKey (TrimSpace (tr_WorkflowID req)) (TrimSpace (tr_RequestID req)) \<mapsto>
            \<lparr>ir_workflowID = TrimSpace (tr_WorkflowID req), ir_requestID = TrimSpace (tr_RequestID req),
             ir_sourceState = wi_CurrentState inst, ir_targetState = tr_TargetState req,
             ir_expectedRevision = tr_ExpectedRevision req, ir_resultRevision = wi_Revision inst + 1,
             ir_resultingState = tr_TargetState req, ir_updatedAt = now\<rparr>)\<rparr>"
  using assms
  by (auto simp: Transition_Inr transition_result.simps transition_instance_def authorized_def
      apply_transition_def transition_audit_def transition_record_def split: option.splits)

text \<open>No sequence of calls ever changes an instance in a terminal state (CLOSED or ARCHIVED).\<close>

theorem terminal_states_absorbing:
  assumes "engine_inv e" and "instances e wid = Some inst"
    and "wi_CurrentState inst \<in> {StateClosed, StateArchived}"
  shows "instances (run_calls engine_exec cs e) wid = Some inst"
  using assms by (auto intro!: wf_final.run_final)

text \<open>The audit log is append-only: later calls never remove, reorder or rewrite an entry.\<close>

theorem audit_append_only:
  assumes "engine_inv e" and "i < length (AuditHistory wid e)"
  shows "AuditHistory wid (run_calls engine_exec cs e) ! i = AuditHistory wid e ! i"
  using wf.run_journal_nth [OF assms(1), of cs i "TrimSpace wid"] assms(2)
  by (simp add: AuditHistory_def audit_of_def)

text \<open>
  Retries are idempotent: once a request has succeeded, sending it again, after whatever
  other calls, succeeds with the instance as it then is and leaves the engine as it is.
\<close>

theorem Transition_retry_idempotent:
  assumes "Transition req now e = (e1, Inr r)" and e2: "e2 = run_calls engine_exec cs e1"
  shows "\<exists>inst. instances e2 (TrimSpace (tr_WorkflowID req)) = Some inst \<and>
     Transition req now' e2 = (e2, Inr inst)"
proof -
  let ?w = "TrimSpace (tr_WorkflowID req)" and ?q = "TrimSpace (tr_RequestID req)"
  obtain recorded where k: "idempotency e1 (idempotencyKey ?w ?q) = Some recorded"
    "retry_matches req recorded" and i: "instances e1 ?w = Some r"
    using Transition_recorded [OF assms(1)] by blast
  obtain inst where "instances e2 ?w = Some inst" using run_keeps_instances [OF i] e2 by blast
  moreover have "idempotency e2 (idempotencyKey ?w ?q) = Some recorded"
    using run_keeps_idempotency [OF k(1)] by (simp add: e2)
  moreover have "?w \<noteq> []" "?q \<noteq> []" using assms(1) by (auto simp: Transition_Inr)
  ultimately show ?thesis using k(2) by (auto simp: Transition_Inr intro: transition_result.retry)
qed

text \<open>
  No lost update: of two different requests that expect the same revision of one workflow,
  the one that arrives second is refused.
\<close>

theorem Transition_no_lost_update:
  assumes "Transition req1 now e = (e1, Inr r1)"
    and "idempotency e (idempotencyKey (TrimSpace (tr_WorkflowID req1)) (TrimSpace (tr_RequestID req1))) = None"
    and "TrimSpace (tr_WorkflowID req2) = TrimSpace (tr_WorkflowID req1)"
    and "tr_ExpectedRevision req2 = tr_ExpectedRevision req1"
    and "idempotency e1 (idempotencyKey (TrimSpace (tr_WorkflowID req2)) (TrimSpace (tr_RequestID req2))) = None"
  shows "\<exists>err. Transition req2 now' e1 = (e1, Inl err)"
proof -
  from assms(1) have "transition_result req1 now e e1 r1" by (simp add: Transition_Inr)
  then obtain inst where "instances e1 (TrimSpace (tr_WorkflowID req1)) = Some inst"
    "wi_Revision inst = tr_ExpectedRevision req1 + 1"
    using assms(2) by cases (auto simp: apply_transition_def transition_instance_def)
  with assms have no: "\<not> transition_result req2 now' e1 e' r" for e' r
    by (auto simp: transition_result.simps)
  obtain e' res where t: "Transition req2 now' e1 = (e', res)" by fastforce
  with no obtain err where "res = Inl err" by (cases res) (auto simp: Transition_Inr)
  with t show ?thesis by (auto dest: Transition_Inl)
qed

text \<open>
  The idempotency key joins the two identifiers with a colon and so does not determine them:
  a first-time request for workflow \<open>a\<close> is taken for a retry of a request already made for
  workflow \<open>a:b\<close>; it is reported as successful although workflow \<open>a\<close> stays in DRAFT at
  revision 1 and no audit entry is written.
\<close>

theorem idempotency_key_collision:
  "let e = run_calls engine_exec
         [CallCreateWorkflow ''a:b'' 10, CallCreateWorkflow ''a'' 11,
          CallTransition (example_request ''a:b'' ''c'' StateInProgress 1) 12] NewEngine;
       (e', res) = Transition (example_request ''a'' ''b:c'' StateInProgress 1) 13 e
   in e' = e \<and> AuditHistory ''a'' e' = [] \<and>
      (\<exists>inst. res = Inr inst \<and> wi_ID inst = ''a'' \<and> wi_CurrentState inst = StateDraft \<and>
         wi_Revision inst = 1)"
  by (simp add: engine_eval)

text \<open>
  While workflow identifiers hold no colon, the key identifies workflow and request: a recorded
  key found for a request was recorded for that same workflow and request.
\<close>

theorem idempotency_key_faithful:
  assumes "e = run_calls engine_exec cs NewEngine"
    and "idempotency e (idempotencyKey wid rid) = Some recorded"
    and "CHR '':'' \<notin> set wid" and "CHR '':'' \<notin> set (ir_workflowID recorded)"
  shows "ir_workflowID recorded = wid \<and> ir_requestID recorded = rid \<and>
    (\<exists>a\<in>set (AuditHistory wid e). wa_RequestID a = rid \<and>
       wa_CurrentState a = ir_targetState recorded)"
proof -
  have inv: "engine_inv e"
    unfolding assms(1) by (rule wf.run_inv) (simp_all add: engine_inv_New)
  then have k: "idempotencyKey wid rid =
      idempotencyKey (ir_workflowID recorded) (ir_requestID recorded)"
    using assms(2) by (simp add: engine_inv_def idempotency_inv_def)
  then have eq: "ir_workflowID recorded = wid" "ir_requestID recorded = rid"
    using colon_key_inject [OF assms(3,4)] by (auto simp: idempotencyKey_def)
  obtain a where a: "a \<in> set (auditLog e)" "wa_WorkflowID a = wid" "wa_RequestID a = rid"
    "wa_CurrentState a = ir_targetState recorded"
    using inv assms(2) eq by (force simp: engine_inv_def idempotency_inv_def)
  then obtain inst where "instances e wid = Some inst" using inv by (auto simp: engine_inv_def)
  then have "TrimSpace wid = wid" using inv by (auto simp: engine_inv_def instance_inv_def)
  with a eq show ?thesis by (auto simp: AuditHistory_def)
qed

text \<open>
  \<open>Rollback\<close> takes the state it restores from the checkpoint value its caller passes, without
  comparing it with the audit log: from any non-terminal instance at revision two or later, a
  checkpoint value with the right identifier and revision 1 moves the instance to whatever state
  the value names, with no transition table and no authorization involved.
\<close>

theorem Rollback_trusts_checkpoint:
  assumes "TrimSpace wid = wid" and "wid \<noteq> []"
    and "instances e wid = Some inst" and "wi_ID inst = wid"
    and "\<not> TerminalStates (wi_CurrentState inst)" and "2 \<le> sint (wi_Revision inst)"
  shows "\<exists>e' r. Rollback wid
      \<lparr>wi_ID = wid, wi_CurrentState = target, wi_Revision = 1, wi_CreatedAt = 0, wi_UpdatedAt = 0\<rparr>
      reason now e = (e', Inr r) \<and>
    instances e' wid = Some r \<and> wi_CurrentState r = target \<and> wi_Revision r = wi_Revision inst + 1"
  using assms by (simp add: Rollback_def Let_def)

subsection \<open>Witnesses\<close>

lemma example_engine_inv: "engine_inv (run_calls engine_exec cs NewEngine)"
  by (rule wf.run_inv) (simp_all add: engine_inv_New)

theorem audit_history_is_path_witness:
  "instances example_engine ''wf1'' \<noteq> None \<and> wi_CurrentState (the (instances example_engine ''wf1'')) = StateInProgress \<and>
   linked StateDraft (map (\<lambda>a. (wa_PriorState a, wa_CurrentState a)) (AuditHistory ''wf1'' example_engine)) StateInProgress \<and>
   wi_Revision (the (instances example_engine ''wf1'')) = of_nat (length (AuditHistory ''wf1'' example_engine) + 1)"
  using audit_history_is_path [of example_engine example_calls "''wf1''"]
  by (simp add: engine_eval)

theorem Transition_fresh_iff_witness:
  "\<exists>e' r. Transition (example_request ''wf1'' ''r2'' StateUnderReview 2) 30 example_engine = (e', Inr r)
     \<and> wi_CurrentState r = StateUnderReview \<and> instances e' ''wf1'' = Some r
     \<and> length (auditLog e') = Suc (length (auditLog example_engine))
     \<and> idempotency e' (idempotencyKey ''wf1'' ''r2'') \<noteq> None"
proof -
  obtain inst where i: "instances example_engine ''wf1'' = Some inst" "wi_CurrentState inst = StateInProgress"
    "wi_Revision inst = 2" by (simp add: engine_eval)
  have k: "idempotency example_engine (idempotencyKey ''wf1'' ''r2'') = None" by (simp add: engine_eval)
  show ?thesis
    using i k Transition_fresh_iff [of example_engine "example_request ''wf1'' ''r2'' StateUnderReview 2" inst 30]
    by (simp add: example_request_def)
qed

theorem terminal_states_absorbing_witness:
  "\<exists>inst. wi_CurrentState inst = StateArchived \<and>
     instances (run_calls engine_exec [CallTransition (example_request ''wf1'' ''r3'' StateInProgress 3) 40]
       (run_calls engine_exec [CallTransition (example_request ''wf1'' ''r2'' StateArchived 2) 30] example_engine)) ''wf1''
     = Some inst"
proof -
  let ?e = "run_calls engine_exec [CallTransition (example_request ''wf1'' ''r2'' StateArchived 2) 30] example_engine"
  obtain inst where "instances ?e ''wf1'' = Some inst" "wi_CurrentState inst = StateArchived"
    by (simp add: engine_eval)
  moreover have "engine_inv ?e"
    unfolding example_engine_def run_calls_append [symmetric] by (rule example_engine_inv)
  ultimately show ?thesis using terminal_states_absorbing [of ?e "''wf1''" inst] by blast
qed

theorem audit_append_only_witness:
  "0 < length (AuditHistory ''wf1'' example_engine) \<and>
   AuditHistory ''wf1'' (run_calls engine_exec
     [CallTransition (example_request ''wf1'' ''r2'' StateArchived 2) 30] example_engine) ! 0
   = AuditHistory ''wf1'' example_engine ! 0"
proof -
  have "0 < length (AuditHistory ''wf1'' example_engine)" by (simp add: engine_eval)
  then show ?thesis
    using audit_append_only [OF example_engine_inv [of example_calls]] unfolding example_engine_def
    by blast
qed

theorem Transition_retry_idempotent_witness:
  "\<exists>inst. Transition (example_request ''wf1'' ''r1'' StateInProgress 1) 99 example_engine
     = (example_engine, Inr inst)"
proof -
  let ?e = "fst (CreateWorkflow ''wf1'' 10 NewEngine)"
  have "\<exists>r. Transition (example_request ''wf1'' ''r1'' StateInProgress 1) 20 ?e = (example_engine, Inr r)"
    by (simp add: engine_eval)
  then show ?thesis
    using Transition_retry_idempotent [of _ 20 ?e example_engine _ example_engine "[]" 99] by fastforce
qed

theorem Transition_no_lost_update_witness:
  "\<exists>err. Transition (example_request ''wf1'' ''other'' StateArchived 1) 21 example_engine
     = (example_engine, Inl err)"
proof -
  let ?e = "fst (CreateWorkflow ''wf1'' 10 NewEngine)"
  let ?r1 = "example_request ''wf1'' ''r1'' StateInProgress 1"
  let ?r2 = "example_request ''wf1'' ''other'' StateArchived 1"
  obtain r where t: "Transition ?r1 20 ?e = (example_engine, Inr r)" by (simp add: engine_eval)
  show ?thesis
    by (rule Transition_no_lost_update [OF t, of ?r2 21]) (simp_all add: engine_eval)
qed

theorem idempotency_key_faithful_witness:
  "\<exists>recorded. idempotency example_engine (idempotencyKey ''wf1'' ''r1'') = Some recorded \<and>
     ir_workflowID recorded = ''wf1'' \<and> ir_requestID recorded = ''r1''"
proof -
  obtain recorded where "idempotency example_engine (idempotencyKey ''wf1'' ''r1'') = Some recorded"
    "ir_workflowID recorded = ''wf1''" by (simp add: engine_eval)
  then show ?thesis
    using idempotency_key_faithful [OF example_engine_def, of "''wf1''" "''r1''" recorded] by simp
qed

theorem Rollback_trusts_checkpoint_witness:
  "\<exists>e' r. Rollback ''wf1''
      \<lparr>wi_ID = ''wf1'', wi_CurrentState = StateClosed, wi_Revision = 1, wi_CreatedAt = 0, wi_UpdatedAt = 0\<rparr>
      ''forged'' 30 example_engine = (e', Inr r) \<and> wi_CurrentState r = StateClosed"
proof -
  obtain inst where "instances example_engine ''wf1'' = Some inst" "wi_ID inst = ''wf1''"
    "wi_CurrentState inst = StateInProgress" "wi_Revision inst = 2"
    by (simp add: engine_eval)
  then show ?thesis
    using Rollback_trusts_checkpoint [of "''wf1''" example_engine inst StateClosed "''forged''" 30] by auto
qed

end
