(* ===== verification/Action_Lifecycle.thy ===== *)
theory Action_Lifecycle
  imports Go_Strings
begin

text \<open>
  Corrective actions, \<open>modules/workflow-action/action_lifecycle.go\<close>: the \<open>ActionManager\<close> and its
  methods. The manager is its map of actions; the methods that look an action up and mutate it in
  place are \<open>with_action\<close> around a body that sees the action. The sentinel errors of the whole Go
  package are one datatype, shared by the theories on findings, governance and reinspection; an
  error made on the spot with \<open>errors.New\<close> is \<open>ErrorsNew\<close> with its text. The rendering of a time in
  RFC 3339 is a parameter (\<open>rfc3339\<close>) of the one method that prints times.
\<close>

subsection \<open>Definitions\<close>

datatype ActionState =
  ActionStateAssigned | ActionStateInProgress | ActionStateInReview | ActionStateRejected
| ActionStateOverdue | ActionStateClosed | ActionStateReopened
| ActionStateOther string \<comment> \<open>any other string of the type; the zero value is \<open>ActionStateOther []\<close>\<close>

datatype (plugins only: code) wfa_error =
  ErrBlankActionID | ErrBlankTenantID | ErrBlankOwner | ErrBlankReviewer | ErrBlankTitle
| ErrActionNotFound | ErrDuplicateActionID | ErrUnauthorizedAction | ErrCrossTenantDenied
| ErrInvalidPrecedingState | ErrInsufficientEvidence | ErrActionClosed | ErrBlankReason
| ErrDuplicateEvidenceID | ErrInvalidEvidenceDigest
  \<comment> \<open>finding\_lifecycle.go\<close>
| ErrBlankFindingID | ErrDuplicateFindingID | ErrFindingNotFound | ErrMissingSourceContext
| ErrRuleNotFound | ErrIncompatibleRuleVersion | ErrMissingImmediateControl
| ErrAutonomousClassificationProhibited | ErrUnauthorizedSeverityDowngrade
| ErrUnauthorizedCriticalDowngrade | ErrMissingClassificationRationale
| ErrAutonomousClosureProhibited | ErrUnauthorizedClosure | ErrInvalidFindingStateTransition
| ErrFindingAlreadyClosed | ErrInvalidRecurrenceLink | ErrSilentHidingProhibited
  \<comment> \<open>action\_governance.go\<close>
| ErrUnauthorizedActionCaller | ErrSelfApprovalProhibited | ErrConcurrentModification
| ErrDuplicateRequestID | ErrInvalidDueDateExtension | ErrActionTerminalState | ErrNoActiveOwner
| ErrEvidenceNotFound | ErrExtensionNotFound | ErrEscalationNotFound
  \<comment> \<open>reinspection\_lifecycle.go\<close>
| ErrBlankReinspectionID | ErrDuplicateReinspectionID | ErrReinspectionNotFound
| ErrOfflineClosureProhibited | ErrPrerequisitesUnsatisfied | ErrPendingOrRejectedEvidence
| ErrInspectorIndependenceViolation | ErrInvalidReinspectionTransition
| ErrReinspectionTerminalState | ErrMissingReinspectionRationale | ErrActorAuthorityRevoked
| ErrRecurrenceChainBroken | ErrStaleReinspectionState
| ErrorsNew string

record ActionHistoryEntry =
  ah_Sequence :: int64
  ah_FromState :: ActionState
  ah_ToState :: ActionState
  ah_Actor :: string
  ah_Reason :: string
  ah_EvidenceIDs :: "string list"
  ah_Timestamp :: gotime

record EvidenceAttachment =
  ea_EvidenceID :: string
  ea_TenantID :: string
  ea_Digest :: string
  ea_AttachedBy :: string
  ea_AttachedAt :: gotime

record ActionSnapshot =
  as_ID :: string
  as_TenantID :: string
  as_Title :: string
  as_Owner :: string
  as_Reviewer :: string
  as_DueDate :: gotime
  as_RequiredEvidenceCount :: int
  as_State :: ActionState
  as_Evidence :: "EvidenceAttachment list"
  as_History :: "ActionHistoryEntry list"
  as_ClosedAt :: "gotime option"
  as_ClosedBy :: string

record action =
  act_id :: string
  act_tenantID :: string
  act_title :: string
  act_owner :: string
  act_reviewer :: string
  act_dueDate :: gotime
  act_requiredEvidenceCount :: int
  act_state :: ActionState
  act_evidence :: "EvidenceAttachment list"
  act_evidenceIDs :: "string set"
  act_history :: "ActionHistoryEntry list"
  act_closedAt :: "gotime option"
  act_closedBy :: string

definition snapshot :: "action \<Rightarrow> ActionSnapshot" where
  "snapshot a =
     \<lparr>as_ID = act_id a, as_TenantID = act_tenantID a, as_Title = act_title a, as_Owner = act_owner a,
      as_Reviewer = act_reviewer a, as_DueDate = act_dueDate a,
      as_RequiredEvidenceCount = act_requiredEvidenceCount a, as_State = act_state a,
      as_Evidence = act_evidence a, as_History = act_history a, as_ClosedAt = act_closedAt a,
      as_ClosedBy = act_closedBy a\<rparr>"

record CreateActionRequest =
  ca_ID :: string
  ca_TenantID :: string
  ca_Title :: string
  ca_Owner :: string
  ca_Reviewer :: string
  ca_DueDate :: gotime
  ca_RequiredEvidenceCount :: int
  ca_Creator :: string

type_synonym actionKey = "string \<times> string"
type_synonym ActionManager = "actionKey \<rightharpoonup> action"

definition NewActionManager :: ActionManager where
  "NewActionManager = Map.empty"

definition new_action ::
  "string \<Rightarrow> string \<Rightarrow> string \<Rightarrow> string \<Rightarrow> string \<Rightarrow> gotime \<Rightarrow> int \<Rightarrow> string \<Rightarrow> gotime \<Rightarrow> action" where
  "new_action tenant aid title owner reviewer dueDate required creator now =
     \<lparr>act_id = aid, act_tenantID = tenant, act_title = title, act_owner = owner,
      act_reviewer = reviewer, act_dueDate = dueDate, act_requiredEvidenceCount = required,
      act_state = ActionStateAssigned, act_evidence = [], act_evidenceIDs = {},
      act_history = [\<lparr>ah_Sequence = 1, ah_FromState = ActionStateOther [],
        ah_ToState = ActionStateAssigned, ah_Actor = creator,
        ah_Reason = ''Action created and assigned'', ah_EvidenceIDs = [], ah_Timestamp = now\<rparr>],
      act_closedAt = None, act_closedBy = []\<rparr>"

definition CreateAction ::
  "string \<Rightarrow> CreateActionRequest \<Rightarrow> gotime \<Rightarrow> ActionManager \<Rightarrow>
   (ActionManager, wfa_error, ActionSnapshot) outcome" where
  "CreateAction trustedTenantID req now m =
     (let tTenant = TrimSpace trustedTenantID; reqTenant = TrimSpace (ca_TenantID req);
          aid = TrimSpace (ca_ID req); owner = TrimSpace (ca_Owner req);
          reviewer = TrimSpace (ca_Reviewer req); title = TrimSpace (ca_Title req);
          creator = (if TrimSpace (ca_Creator req) = [] then reviewer else TrimSpace (ca_Creator req));
          act = new_action tTenant aid title owner reviewer (ca_DueDate req)
                  (ca_RequiredEvidenceCount req) creator now
      in if tTenant = [] then (m, Inl ErrBlankTenantID)
      else if reqTenant \<noteq> [] \<and> reqTenant \<noteq> tTenant then (m, Inl ErrCrossTenantDenied)
      else if aid = [] then (m, Inl ErrBlankActionID)
      else if m (tTenant, aid) \<noteq> None then (m, Inl ErrDuplicateActionID)
      else if owner = [] then (m, Inl ErrBlankOwner)
      else if reviewer = [] then (m, Inl ErrBlankReviewer)
      else if title = [] then (m, Inl ErrBlankTitle)
      else (m((tTenant, aid) \<mapsto> act), Inr (snapshot act)))"

text \<open>The common prologue: trim and check the identifiers, look the action up under the lock.\<close>

definition with_action ::
  "string \<Rightarrow> string \<Rightarrow> (action \<Rightarrow> wfa_error + action \<times> 'r) \<Rightarrow> ActionManager \<Rightarrow>
   (ActionManager, wfa_error, 'r) outcome" where
  "with_action tenantID actionID body m =
     (let tTenant = TrimSpace tenantID; tID = TrimSpace actionID in
      if tTenant = [] then (m, Inl ErrBlankTenantID)
      else if tID = [] then (m, Inl ErrBlankActionID)
      else on_entry m (tTenant, tID) ErrActionNotFound body)"

definition GetAction :: "string \<Rightarrow> string \<Rightarrow> ActionManager \<Rightarrow> wfa_error + ActionSnapshot" where
  "GetAction tenantID actionID m =
     (let tTenant = TrimSpace tenantID; tID = TrimSpace actionID in
      if tTenant = [] then Inl ErrBlankTenantID
      else if tID = [] then Inl ErrBlankActionID
      else case m (tTenant, tID) of None \<Rightarrow> Inl ErrActionNotFound | Some act \<Rightarrow> Inr (snapshot act))"

text \<open>Appending the history entry of a move from the current state, numbered by the length.\<close>

definition log_move ::
  "ActionState \<Rightarrow> string \<Rightarrow> string \<Rightarrow> string list \<Rightarrow> gotime \<Rightarrow> action \<Rightarrow> action" where
  "log_move target actor reason evidence now act =
     act\<lparr>act_history := act_history act @
           [\<lparr>ah_Sequence = of_nat (length (act_history act) + 1), ah_FromState = act_state act,
             ah_ToState = target, ah_Actor = actor, ah_Reason = reason,
             ah_EvidenceIDs = evidence, ah_Timestamp = now\<rparr>],
         act_state := target\<rparr>"

definition StartWork_body :: "string \<Rightarrow> gotime \<Rightarrow> action \<Rightarrow> wfa_error + action \<times> unit" where
  "StartWork_body caller now act =
     (if act_state act = ActionStateClosed then Inl ErrActionClosed
      else if TrimSpace caller \<noteq> act_owner act then Inl ErrUnauthorizedAction
      else if act_state act = ActionStateInProgress then Inr (act, ())
      else if act_state act \<in> {ActionStateAssigned, ActionStateRejected, ActionStateReopened, ActionStateOverdue}
      then Inr (log_move ActionStateInProgress caller ''Work started by owner'' [] now act, ())
      else Inl ErrInvalidPrecedingState)"

definition StartWork ::
  "string \<Rightarrow> string \<Rightarrow> string \<Rightarrow> gotime \<Rightarrow> ActionManager \<Rightarrow> (ActionManager, wfa_error, unit) outcome" where
  "StartWork tenantID actionID callerIdentity now =
     with_action tenantID actionID (StartWork_body callerIdentity now)"

definition AttachEvidence_body ::
  "string \<Rightarrow> EvidenceAttachment \<Rightarrow> gotime \<Rightarrow> action \<Rightarrow> wfa_error + action \<times> unit" where
  "AttachEvidence_body caller ev now act =
     (let evidenceID = TrimSpace (ea_EvidenceID ev); digest = TrimSpace (ea_Digest ev) in
      if act_state act = ActionStateClosed then Inl ErrActionClosed
      else if TrimSpace caller \<noteq> act_owner act then Inl ErrUnauthorizedAction
      else if TrimSpace (ea_TenantID ev) \<noteq> act_tenantID act then Inl ErrCrossTenantDenied
      else if evidenceID = [] then Inl (ErrorsNew ''evidence ID cannot be blank'')
      else if evidenceID \<in> act_evidenceIDs act then Inl ErrDuplicateEvidenceID
      else if length digest \<noteq> 64 then Inl ErrInvalidEvidenceDigest
      else let attachment = \<lparr>ea_EvidenceID = evidenceID, ea_TenantID = act_tenantID act,
                 ea_Digest = digest, ea_AttachedBy = caller, ea_AttachedAt = now\<rparr>;
               act' = act\<lparr>act_evidence := act_evidence act @ [attachment],
                 act_evidenceIDs := insert evidenceID (act_evidenceIDs act)\<rparr>
           in Inr (log_move (act_state act) caller (''Attached evidence '' @ evidenceID) [evidenceID]
                     now act', ()))"

definition AttachEvidence ::
  "string \<Rightarrow> string \<Rightarrow> string \<Rightarrow> EvidenceAttachment \<Rightarrow> gotime \<Rightarrow> ActionManager \<Rightarrow>
   (ActionManager, wfa_error, unit) outcome" where
  "AttachEvidence tenantID actionID callerIdentity ev now =
     with_action tenantID actionID (AttachEvidence_body callerIdentity ev now)"

definition SubmitForReview_body ::
  "string \<Rightarrow> string \<Rightarrow> gotime \<Rightarrow> action \<Rightarrow> wfa_error + action \<times> unit" where
  "SubmitForReview_body caller notes now act =
     (if act_state act = ActionStateClosed then Inl ErrActionClosed
      else if TrimSpace caller \<noteq> act_owner act then Inl ErrUnauthorizedAction
      else if act_state act \<notin> {ActionStateAssigned, ActionStateInProgress, ActionStateRejected,
                                ActionStateReopened, ActionStateOverdue}
      then Inl ErrInvalidPrecedingState
      else if int (length (act_evidence act)) < act_requiredEvidenceCount act
      then Inl ErrInsufficientEvidence
      else Inr (log_move ActionStateInReview caller notes [] now act, ()))"

definition SubmitForReview ::
  "string \<Rightarrow> string \<Rightarrow> string \<Rightarrow> string \<Rightarrow> gotime \<Rightarrow> ActionManager \<Rightarrow>
   (ActionManager, wfa_error, unit) outcome" where
  "SubmitForReview tenantID actionID callerIdentity notes now =
     with_action tenantID actionID (SubmitForReview_body callerIdentity notes now)"

definition RejectReview_body ::
  "string \<Rightarrow> string \<Rightarrow> gotime \<Rightarrow> action \<Rightarrow> wfa_error + action \<times> unit" where
  "RejectReview_body caller reason now act =
     (if act_state act = ActionStateClosed then Inl ErrActionClosed
      else if TrimSpace caller \<noteq> act_reviewer act then Inl ErrUnauthorizedAction
      else if act_state act \<noteq> ActionStateInReview then Inl ErrInvalidPrecedingState
      else if TrimSpace reason = [] then Inl ErrBlankReason
      else Inr (log_move ActionStateRejected caller (TrimSpace reason) [] now act, ()))"

definition RejectReview ::
  "string \<Rightarrow> string \<Rightarrow> string \<Rightarrow> string \<Rightarrow> gotime \<Rightarrow> ActionManager \<Rightarrow>
   (ActionManager, wfa_error, unit) outcome" where
  "RejectReview tenantID actionID callerIdentity reason now =
     with_action tenantID actionID (RejectReview_body callerIdentity reason now)"

definition CloseAction_body ::
  "string \<Rightarrow> string \<Rightarrow> gotime \<Rightarrow> action \<Rightarrow> wfa_error + action \<times> unit" where
  "CloseAction_body caller notes now act =
     (if act_state act = ActionStateClosed then Inl ErrActionClosed
      else if TrimSpace caller \<noteq> act_reviewer act then Inl ErrUnauthorizedAction
      else if act_state act \<noteq> ActionStateInReview then Inl ErrInvalidPrecedingState
      else if int (length (act_evidence act)) < act_requiredEvidenceCount act
      then Inl ErrInsufficientEvidence
      else Inr ((log_move ActionStateClosed caller notes [] now act)
                  \<lparr>act_closedAt := Some now, act_closedBy := caller\<rparr>, ()))"

definition CloseAction ::
  "string \<Rightarrow> string \<Rightarrow> string \<Rightarrow> string \<Rightarrow> gotime \<Rightarrow> ActionManager \<Rightarrow>
   (ActionManager, wfa_error, unit) outcome" where
  "CloseAction tenantID actionID callerIdentity notes now =
     with_action tenantID actionID (CloseAction_body callerIdentity notes now)"

definition ReopenAction_body ::
  "string \<Rightarrow> string \<Rightarrow> gotime \<Rightarrow> action \<Rightarrow> wfa_error + action \<times> unit" where
  "ReopenAction_body caller reason now act =
     (if act_state act \<noteq> ActionStateClosed then Inl ErrInvalidPrecedingState
      else if TrimSpace caller \<noteq> act_reviewer act then Inl ErrUnauthorizedAction
      else if TrimSpace reason = [] then Inl ErrBlankReason
      else Inr ((log_move ActionStateReopened caller (TrimSpace reason) [] now act)
                  \<lparr>act_closedAt := None, act_closedBy := []\<rparr>, ()))"

definition ReopenAction ::
  "string \<Rightarrow> string \<Rightarrow> string \<Rightarrow> string \<Rightarrow> gotime \<Rightarrow> ActionManager \<Rightarrow>
   (ActionManager, wfa_error, unit) outcome" where
  "ReopenAction tenantID actionID callerIdentity reason now =
     with_action tenantID actionID (ReopenAction_body callerIdentity reason now)"

definition CheckOverdue_body ::
  "(gotime \<Rightarrow> string) \<Rightarrow> gotime \<Rightarrow> action \<Rightarrow> wfa_error + action \<times> bool" where
  "CheckOverdue_body rfc3339 now act =
     (if act_state act = ActionStateClosed then Inr (act, False)
      else if \<not> IsZero (act_dueDate act) \<and> After now (act_dueDate act)
      then Inr (if act_state act \<noteq> ActionStateOverdue
                then log_move ActionStateOverdue ''system_timer''
                       (''Due date '' @ rfc3339 (act_dueDate act) @ '' exceeded at '' @ rfc3339 now)
                       [] now act
                else act, True)
      else Inr (act, False))"

definition CheckOverdue ::
  "(gotime \<Rightarrow> string) \<Rightarrow> string \<Rightarrow> string \<Rightarrow> gotime \<Rightarrow> ActionManager \<Rightarrow>
   (ActionManager, wfa_error, bool) outcome" where
  "CheckOverdue rfc3339 tenantID actionID now =
     with_action tenantID actionID (CheckOverdue_body rfc3339 now)"

datatype action_call =
  CallCreateAction string CreateActionRequest gotime
| CallStartWork string string string gotime
| CallAttachEvidence string string string EvidenceAttachment gotime
| CallSubmitForReview string string string string gotime
| CallRejectReview string string string string gotime
| CallCloseAction string string string string gotime
| CallReopenAction string string string string gotime
| CallCheckOverdue string string gotime

fun action_exec ::
  "(gotime \<Rightarrow> string) \<Rightarrow> action_call \<Rightarrow> ActionManager \<Rightarrow> (ActionManager, wfa_error, unit) outcome" where
  "action_exec rfc (CallCreateAction t req now) m = discard (CreateAction t req now m)"
| "action_exec rfc (CallStartWork t a c now) m = StartWork t a c now m"
| "action_exec rfc (CallAttachEvidence t a c ev now) m = AttachEvidence t a c ev now m"
| "action_exec rfc (CallSubmitForReview t a c notes now) m = SubmitForReview t a c notes now m"
| "action_exec rfc (CallRejectReview t a c reason now) m = RejectReview t a c reason now m"
| "action_exec rfc (CallCloseAction t a c notes now) m = CloseAction t a c notes now m"
| "action_exec rfc (CallReopenAction t a c reason now) m = ReopenAction t a c reason now m"
| "action_exec rfc (CallCheckOverdue t a now) m = discard (CheckOverdue rfc t a now m)"

fun call_tenant :: "action_call \<Rightarrow> string" where
  "call_tenant (CallCreateAction t req now) = t"
| "call_tenant (CallStartWork t a c now) = t"
| "call_tenant (CallAttachEvidence t a c ev now) = t"
| "call_tenant (CallSubmitForReview t a c notes now) = t"
| "call_tenant (CallRejectReview t a c reason now) = t"
| "call_tenant (CallCloseAction t a c notes now) = t"
| "call_tenant (CallReopenAction t a c reason now) = t"
| "call_tenant (CallCheckOverdue t a now) = t"

text \<open>The lifecycle as the documentation draws it: which state may follow which, and who moves it.\<close>

datatype role = Creator | Owner | Reviewer | Timer

inductive action_step :: "role \<Rightarrow> ActionState \<Rightarrow> ActionState \<Rightarrow> bool" where
  create: "action_step Creator (ActionStateOther []) ActionStateAssigned"
| start: "s \<in> {ActionStateAssigned, ActionStateRejected, ActionStateReopened, ActionStateOverdue} \<Longrightarrow>
    action_step Owner s ActionStateInProgress"
| attach: "s \<noteq> ActionStateClosed \<Longrightarrow> action_step Owner s s"
| submit: "s \<in> {ActionStateAssigned, ActionStateInProgress, ActionStateRejected, ActionStateReopened,
    ActionStateOverdue} \<Longrightarrow> action_step Owner s ActionStateInReview"
| reject: "action_step Reviewer ActionStateInReview ActionStateRejected"
| close: "action_step Reviewer ActionStateInReview ActionStateClosed"
| reopen: "action_step Reviewer ActionStateClosed ActionStateReopened"
| overdue: "s \<notin> {ActionStateClosed, ActionStateOverdue} \<Longrightarrow> action_step Timer s ActionStateOverdue"

definition plays :: "action \<Rightarrow> role \<Rightarrow> string \<Rightarrow> bool" where
  "plays act r actor \<longleftrightarrow>
     (case r of Creator \<Rightarrow> True | Owner \<Rightarrow> TrimSpace actor = act_owner act
      | Reviewer \<Rightarrow> TrimSpace actor = act_reviewer act | Timer \<Rightarrow> actor = ''system_timer'')"

definition entry_ok :: "action \<Rightarrow> ActionHistoryEntry \<Rightarrow> bool" where
  "entry_ok act h \<longleftrightarrow> (\<exists>r. action_step r (ah_FromState h) (ah_ToState h) \<and> plays act r (ah_Actor h))"

definition evidence_inv :: "action \<Rightarrow> bool" where
  "evidence_inv act \<longleftrightarrow>
     distinct (map ea_EvidenceID (act_evidence act)) \<and>
     act_evidenceIDs act = set (map ea_EvidenceID (act_evidence act)) \<and>
     (\<forall>ev\<in>set (act_evidence act). ea_EvidenceID ev \<noteq> [] \<and> ea_TenantID ev = act_tenantID act \<and>
        length (ea_Digest ev) = 64 \<and> TrimSpace (ea_AttachedBy ev) = act_owner act)"

definition closure_inv :: "action \<Rightarrow> bool" where
  "closure_inv act \<longleftrightarrow>
     (case act_closedAt act of
        None \<Rightarrow> act_state act \<noteq> ActionStateClosed \<and> act_closedBy act = []
      | Some t \<Rightarrow> act_state act = ActionStateClosed \<and> TrimSpace (act_closedBy act) = act_reviewer act \<and>
          act_requiredEvidenceCount act \<le> int (length (act_evidence act)) \<and>
          ah_FromState (last (act_history act)) = ActionStateInReview \<and>
          ah_Actor (last (act_history act)) = act_closedBy act \<and>
          ah_Timestamp (last (act_history act)) = t)"

definition action_inv :: "actionKey \<Rightarrow> action \<Rightarrow> bool" where
  "action_inv k act \<longleftrightarrow>
     k = (act_tenantID act, act_id act) \<and> act_tenantID act \<noteq> [] \<and> act_id act \<noteq> [] \<and>
     act_owner act \<noteq> [] \<and> act_reviewer act \<noteq> [] \<and> act_title act \<noteq> [] \<and>
     act_history act \<noteq> [] \<and>
     linked (ActionStateOther []) (map (\<lambda>h. (ah_FromState h, ah_ToState h)) (act_history act)) (act_state act) \<and>
     numbered ah_Sequence (act_history act) \<and> list_all (entry_ok act) (act_history act) \<and>
     evidence_inv act \<and> closure_inv act"

definition manager_inv :: "ActionManager \<Rightarrow> bool" where
  "manager_inv m \<longleftrightarrow> (\<forall>k act. m k = Some act \<longrightarrow> action_inv k act)"

definition action_journal :: "actionKey \<Rightarrow> ActionManager \<Rightarrow> ActionHistoryEntry list" where
  "action_journal k m = (case m k of None \<Rightarrow> [] | Some act \<Rightarrow> act_history act)"

subsection \<open>Bodies\<close>

text \<open>
  What every body does: it leaves the action alone or appends one legal history entry, and it
  changes none of the fields that identify the action and its people.
\<close>

definition extends :: "action \<Rightarrow> action \<Rightarrow> bool" where
  "extends act act' \<longleftrightarrow>
     act' = act \<or>
     (\<exists>h. act_history act' = act_history act @ [h] \<and> ah_FromState h = act_state act \<and>
        ah_ToState h = act_state act' \<and> ah_Sequence h = of_nat (length (act_history act) + 1) \<and>
        entry_ok act h \<and> act_id act' = act_id act \<and> act_tenantID act' = act_tenantID act \<and>
        act_title act' = act_title act \<and> act_owner act' = act_owner act \<and>
        act_reviewer act' = act_reviewer act \<and> act_dueDate act' = act_dueDate act \<and>
        act_requiredEvidenceCount act' = act_requiredEvidenceCount act \<and>
        prefix (act_evidence act) (act_evidence act'))"

lemmas body_defs = StartWork_body_def AttachEvidence_body_def SubmitForReview_body_def
  RejectReview_body_def CloseAction_body_def ReopenAction_body_def CheckOverdue_body_def

lemma entry_okI: "action_step r (ah_FromState h) (ah_ToState h) \<Longrightarrow> plays act r (ah_Actor h) \<Longrightarrow> entry_ok act h"
  by (auto simp: entry_ok_def)

lemma entry_ok_cong:
  "act_owner act' = act_owner act \<Longrightarrow> act_reviewer act' = act_reviewer act \<Longrightarrow>
     entry_ok act' h = entry_ok act h"
  by (auto simp: entry_ok_def plays_def split: role.splits)

lemma extends_refl [simp]: "extends act act"
  by (simp add: extends_def)

lemma log_move_extends:
  assumes "action_step r (act_state act) target" and "plays act r actor"
  shows "extends act (log_move target actor reason evs now act)"
  using assms unfolding extends_def log_move_def by (auto intro!: entry_okI [of r])

lemma StartWork_body_extends: "StartWork_body c now act = Inr (act', r) \<Longrightarrow> extends act act'"
  by (auto simp: StartWork_body_def plays_def split: if_splits
      intro!: log_move_extends [of Owner] action_step.start)

lemma SubmitForReview_body_extends:
  "SubmitForReview_body c notes now act = Inr (act', r) \<Longrightarrow> extends act act'"
  by (auto simp: SubmitForReview_body_def plays_def split: if_splits
      intro!: log_move_extends [of Owner] action_step.submit)

lemma RejectReview_body_extends:
  "RejectReview_body c reason now act = Inr (act', r) \<Longrightarrow> extends act act'"
  by (auto simp: RejectReview_body_def plays_def split: if_splits
      intro!: log_move_extends [of Reviewer] action_step.reject)

lemma CheckOverdue_body_extends:
  "CheckOverdue_body rfc now act = Inr (act', r) \<Longrightarrow> extends act act'"
  by (auto simp: CheckOverdue_body_def plays_def split: if_splits
      intro!: log_move_extends [of Timer] action_step.overdue)

lemma CloseAction_body_extends:
  "CloseAction_body c notes now act = Inr (act', r) \<Longrightarrow> extends act act'"
  by (auto simp: CloseAction_body_def log_move_def extends_def plays_def split: if_splits
      intro!: entry_okI [of Reviewer] action_step.close)

lemma ReopenAction_body_extends:
  "ReopenAction_body c reason now act = Inr (act', r) \<Longrightarrow> extends act act'"
  by (auto simp: ReopenAction_body_def log_move_def extends_def plays_def split: if_splits
      intro!: entry_okI [of Reviewer] action_step.reopen)

lemma AttachEvidence_body_extends:
  "AttachEvidence_body c ev now act = Inr (act', r) \<Longrightarrow> extends act act'"
  by (auto simp: AttachEvidence_body_def Let_def log_move_def extends_def plays_def split: if_splits
      intro!: entry_okI [of Owner] action_step.attach)

lemmas body_extends = StartWork_body_extends SubmitForReview_body_extends RejectReview_body_extends
  CheckOverdue_body_extends CloseAction_body_extends ReopenAction_body_extends
  AttachEvidence_body_extends

text \<open>The rest of the invariant: evidence and closure, body by body.\<close>

lemma body_evidence_inv:
  "evidence_inv act \<Longrightarrow> StartWork_body c now act = Inr (act', r) \<Longrightarrow> evidence_inv act'"
  "evidence_inv act \<Longrightarrow> AttachEvidence_body c ev now act = Inr (act', r) \<Longrightarrow> evidence_inv act'"
  "evidence_inv act \<Longrightarrow> SubmitForReview_body c notes now act = Inr (act', r) \<Longrightarrow> evidence_inv act'"
  "evidence_inv act \<Longrightarrow> RejectReview_body c notes now act = Inr (act', r) \<Longrightarrow> evidence_inv act'"
  "evidence_inv act \<Longrightarrow> CloseAction_body c notes now act = Inr (act', r) \<Longrightarrow> evidence_inv act'"
  "evidence_inv act \<Longrightarrow> ReopenAction_body c notes now act = Inr (act', r) \<Longrightarrow> evidence_inv act'"
  "evidence_inv act \<Longrightarrow> CheckOverdue_body rfc now act = Inr (act', b) \<Longrightarrow> evidence_inv act'"
  subgoal by (auto simp: StartWork_body_def evidence_inv_def log_move_def Let_def guards split: if_splits)
  subgoal by (auto simp: AttachEvidence_body_def evidence_inv_def log_move_def Let_def guards split: if_splits)
  subgoal by (auto simp: SubmitForReview_body_def evidence_inv_def log_move_def Let_def guards split: if_splits)
  subgoal by (auto simp: RejectReview_body_def evidence_inv_def log_move_def Let_def guards split: if_splits)
  subgoal by (auto simp: CloseAction_body_def evidence_inv_def log_move_def Let_def guards split: if_splits)
  subgoal by (auto simp: ReopenAction_body_def evidence_inv_def log_move_def Let_def guards split: if_splits)
  subgoal by (auto simp: CheckOverdue_body_def evidence_inv_def log_move_def Let_def guards split: if_splits)
  done

lemma closure_inv_open: "act_state act \<noteq> ActionStateClosed \<Longrightarrow>
    closure_inv act \<longleftrightarrow> act_closedAt act = None \<and> act_closedBy act = []"
  by (auto simp: closure_inv_def split: option.splits)

lemma log_move_simps [simp]:
  "act_state (log_move target actor reason evs now act) = target"
  "act_closedAt (log_move target actor reason evs now act) = act_closedAt act"
  "act_closedBy (log_move target actor reason evs now act) = act_closedBy act"
  by (simp_all add: log_move_def)

lemma log_move_closure:
  "closure_inv act \<Longrightarrow> act_state act \<noteq> ActionStateClosed \<Longrightarrow> target \<noteq> ActionStateClosed \<Longrightarrow>
     closure_inv (log_move target actor reason evs now act)"
  by (simp add: closure_inv_open)

lemma StartWork_body_closure:
  "closure_inv act \<Longrightarrow> StartWork_body c now act = Inr (act', r) \<Longrightarrow> closure_inv act'"
  by (auto simp: StartWork_body_def log_move_closure split: if_splits)

lemma AttachEvidence_body_closure:
  "closure_inv act \<Longrightarrow> AttachEvidence_body c ev now act = Inr (act', r) \<Longrightarrow> closure_inv act'"
  by (auto simp: AttachEvidence_body_def Let_def closure_inv_open split: if_splits)

lemma SubmitForReview_body_closure:
  "closure_inv act \<Longrightarrow> SubmitForReview_body c notes now act = Inr (act', r) \<Longrightarrow> closure_inv act'"
  by (auto simp: SubmitForReview_body_def log_move_closure split: if_splits)

lemma RejectReview_body_closure:
  "closure_inv act \<Longrightarrow> RejectReview_body c notes now act = Inr (act', r) \<Longrightarrow> closure_inv act'"
  by (auto simp: RejectReview_body_def log_move_closure split: if_splits)

lemma CloseAction_body_closure:
  "closure_inv act \<Longrightarrow> CloseAction_body c notes now act = Inr (act', r) \<Longrightarrow> closure_inv act'"
  by (auto simp: CloseAction_body_def closure_inv_def log_move_def split: if_splits)

lemma ReopenAction_body_closure:
  "closure_inv act \<Longrightarrow> ReopenAction_body c notes now act = Inr (act', r) \<Longrightarrow> closure_inv act'"
  by (auto simp: ReopenAction_body_def closure_inv_open split: if_splits)

lemma CheckOverdue_body_closure:
  "closure_inv act \<Longrightarrow> CheckOverdue_body rfc now act = Inr (act', b) \<Longrightarrow> closure_inv act'"
  by (auto simp: CheckOverdue_body_def log_move_closure split: if_splits)

lemmas body_closure = StartWork_body_closure AttachEvidence_body_closure SubmitForReview_body_closure
  RejectReview_body_closure CloseAction_body_closure ReopenAction_body_closure
  CheckOverdue_body_closure

lemma extends_inv:
  assumes inv: "action_inv k act" and ext: "extends act act'"
    and "evidence_inv act'" and "closure_inv act'"
  shows "action_inv k act'"
proof (cases "act' = act")
  case True
  with inv show ?thesis by simp
next
  case False
  with ext obtain h where h: "act_history act' = act_history act @ [h]" "ah_FromState h = act_state act"
    "ah_ToState h = act_state act'" "ah_Sequence h = of_nat (length (act_history act) + 1)" "entry_ok act h"
    "act_id act' = act_id act" "act_tenantID act' = act_tenantID act" "act_title act' = act_title act"
    "act_owner act' = act_owner act" "act_reviewer act' = act_reviewer act"
    by (auto simp: extends_def)
  have "entry_ok act' = entry_ok act" by (intro HOL.ext entry_ok_cong h(9,10))
  with inv h assms(3,4) show ?thesis by (simp add: action_inv_def)
qed

text \<open>The contract of a body, which all seven meet.\<close>

definition body_ok :: "(action \<Rightarrow> wfa_error + action \<times> 'r) \<Rightarrow> bool" where
  "body_ok body \<longleftrightarrow>
     (\<forall>act act' r. body act = Inr (act', r) \<longrightarrow>
        extends act act' \<and> (\<forall>k. action_inv k act \<longrightarrow> action_inv k act'))"

lemma body_okI:
  assumes ext: "\<And>act act' r. body act = Inr (act', r) \<Longrightarrow> extends act act'"
    and ev: "\<And>act act' r. evidence_inv act \<Longrightarrow> body act = Inr (act', r) \<Longrightarrow> evidence_inv act'"
    and cl: "\<And>act act' r. closure_inv act \<Longrightarrow> body act = Inr (act', r) \<Longrightarrow> closure_inv act'"
  shows "body_ok body"
  unfolding body_ok_def
proof (intro allI impI conjI)
  fix act act' r k
  assume b: "body act = Inr (act', r)"
  show "extends act act'" by (rule ext [OF b])
  assume inv: "action_inv k act"
  then have "evidence_inv act" "closure_inv act" by (simp_all add: action_inv_def)
  then show "action_inv k act'" using extends_inv [OF inv ext [OF b]] ev [OF _ b] cl [OF _ b] by blast
qed

lemma bodies_ok [simp]:
  "body_ok (StartWork_body c now)" "body_ok (AttachEvidence_body c ev now)"
  "body_ok (SubmitForReview_body c notes now)" "body_ok (RejectReview_body c reason now)"
  "body_ok (CloseAction_body c notes now)" "body_ok (ReopenAction_body c reason now)"
  "body_ok (CheckOverdue_body rfc now)"
  by (rule body_okI, erule body_extends, erule (1) body_evidence_inv, erule (1) body_closure)+

subsection \<open>Methods\<close>

text \<open>A property of the bodies is a property of the methods built on them.\<close>

lemma with_action_inv [simp]:
  assumes "manager_inv m" and "body_ok body"
  shows "manager_inv (fst (with_action t a body m))"
proof -
  have "action_inv k act" if "fst (on_entry m (TrimSpace t, TrimSpace a) ErrActionNotFound body) k = Some act"
    for k act
    by (rule on_entry_all [OF _ _ that]) (use assms in \<open>unfold manager_inv_def body_ok_def, blast+\<close>)
  with assms(1) show ?thesis by (simp add: manager_inv_def with_action_def Let_def)
qed

lemma with_action_rel [simp]:
  assumes "m k = Some act" and "body_ok body"
  shows "\<exists>act'. fst (with_action t a body m) k = Some act' \<and> extends act act'"
proof -
  have "\<exists>act'. fst (on_entry m (TrimSpace t, TrimSpace a) ErrActionNotFound body) k = Some act' \<and> extends act act'"
    by (rule on_entry_rel [of m k act extends]) (use assms in \<open>auto simp: body_ok_def\<close>)
  with assms(1) show ?thesis by (simp add: with_action_def Let_def)
qed

lemma with_action_other:
  "fst k \<noteq> TrimSpace t \<Longrightarrow> fst (with_action t a body m) k = m k"
  by (cases k) (auto simp: with_action_def Let_def on_entry_other)

lemma with_action_Inl: "with_action t a body m = (m', Inl e) \<Longrightarrow> m' = m"
  by (auto simp: with_action_def Let_def split: if_splits dest: on_entry_Inl)

lemmas method_defs = StartWork_def AttachEvidence_def SubmitForReview_def RejectReview_def
  CloseAction_def ReopenAction_def CheckOverdue_def

lemma new_action_inv:
  "t \<noteq> [] \<Longrightarrow> a \<noteq> [] \<Longrightarrow> title \<noteq> [] \<Longrightarrow> owner \<noteq> [] \<Longrightarrow> reviewer \<noteq> [] \<Longrightarrow>
     action_inv (t, a) (new_action t a title owner reviewer due n creator now)"
  by (auto simp: new_action_def action_inv_def evidence_inv_def closure_inv_def plays_def
      intro!: entry_okI [of Creator] action_step.create)

lemma CreateAction_inv: "manager_inv m \<Longrightarrow> manager_inv (fst (CreateAction t req now m))"
  by (simp add: CreateAction_def Let_def manager_inv_def new_action_inv)

lemma CreateAction_entry:
  "m k = Some act \<Longrightarrow> fst (CreateAction t req now m) k = Some act"
  by (auto simp: CreateAction_def Let_def)

lemma action_exec_inv: "manager_inv m \<Longrightarrow> manager_inv (fst (action_exec rfc c m))"
  by (cases c) (simp_all add: method_defs CreateAction_inv)

lemma action_exec_extends:
  "m k = Some act \<Longrightarrow> \<exists>act'. fst (action_exec rfc c m) k = Some act' \<and> extends act act'"
  by (cases c) (simp_all add: method_defs CreateAction_entry)

lemma action_exec_other:
  "fst k \<noteq> TrimSpace (call_tenant c) \<Longrightarrow> fst (action_exec rfc c m) k = m k"
  by (cases c) (auto simp: method_defs with_action_other CreateAction_def Let_def)

lemma action_exec_Inl: "action_exec rfc c m = (m', Inl e) \<Longrightarrow> m' = m"
  by (cases c) (auto simp: method_defs discard_Inl CreateAction_def Let_def split: if_splits
      dest: with_action_Inl)

lemma manager_inv_New: "manager_inv NewActionManager"
  by (simp add: manager_inv_def NewActionManager_def)

lemma action_exec_journal: "prefix (action_journal k m) (action_journal k (fst (action_exec rfc c m)))"
proof (cases "m k")
  case (Some act)
  with action_exec_extends obtain act' where "fst (action_exec rfc c m) k = Some act'" "extends act act'"
    by blast
  with Some show ?thesis by (auto simp: action_journal_def extends_def)
qed (simp add: action_journal_def)

interpretation am: journaled "action_exec rfc" manager_inv "\<lambda>_. True" action_journal for rfc
  by unfold_locales (simp_all add: action_exec_inv action_exec_journal)

interpretation am_closed: fail_closed "action_exec rfc" for rfc
  by unfold_locales (rule action_exec_Inl)

subsection \<open>Consequences of the invariant\<close>

lemma reachable_manager_inv: "manager_inv (run_calls (action_exec rfc) cs NewActionManager)"
  by (rule am.run_inv) (simp_all add: manager_inv_New)

lemma reachable_action_inv:
  "run_calls (action_exec rfc) cs NewActionManager k = Some act \<Longrightarrow> action_inv k act"
  using reachable_manager_inv [of rfc cs] unfolding manager_inv_def by blast

lemma linked_last:
  "linked s xs t \<Longrightarrow> xs \<noteq> [] \<Longrightarrow> snd (last xs) = t"
  by (induction s xs t rule: linked.induct) (auto split: if_splits)

lemma linked_butlast:
  "linked s (map f xs) t \<Longrightarrow> xs \<noteq> [] \<Longrightarrow> linked s (map f (butlast xs)) (fst (f (last xs)))"
  by (cases xs rule: rev_cases; cases "f (last xs)") auto

text \<open>A linked path that ends elsewhere than it starts has an entry that leads to its end.\<close>

lemma linked_enters:
  "linked s xs t \<Longrightarrow> t \<noteq> s \<Longrightarrow> \<exists>u. (u, t) \<in> set xs \<and> u \<noteq> t"
proof (induction s xs t rule: linked.induct)
  case (2 s a b xs t)
  then show ?case by (cases "b = t") auto
qed simp

inductive_simps step_to_closed: "action_step r s ActionStateClosed"
inductive_simps step_to_review: "action_step r s ActionStateInReview"

lemma in_review_entered_by_owner:
  assumes "linked (ActionStateOther []) (map (\<lambda>h. (ah_FromState h, ah_ToState h)) hs) ActionStateInReview"
    and "list_all (entry_ok act) hs"
  shows "\<exists>h\<in>set hs. ah_ToState h = ActionStateInReview \<and> ah_FromState h \<noteq> ActionStateInReview \<and>
           TrimSpace (ah_Actor h) = act_owner act"
proof -
  obtain h where h: "h \<in> set hs" "ah_ToState h = ActionStateInReview" "ah_FromState h \<noteq> ActionStateInReview"
    using linked_enters [OF assms(1)] by auto
  with assms(2) obtain r where "action_step r (ah_FromState h) ActionStateInReview" "plays act r (ah_Actor h)"
    by (auto simp: list_all_iff entry_ok_def)
  with h show ?thesis by (auto simp: step_to_review plays_def)
qed

text \<open>A small manager for evaluations: an action worked on, reviewed and closed.\<close>

definition example_create :: action_call where
  "example_create = CallCreateAction ''ten_a''
     \<lparr>ca_ID = ''act1'', ca_TenantID = [], ca_Title = ''Fix guard'', ca_Owner = ''alice'',
      ca_Reviewer = ''bob'', ca_DueDate = 100, ca_RequiredEvidenceCount = 1, ca_Creator = []\<rparr> 10"

definition example_evidence :: EvidenceAttachment where
  "example_evidence = \<lparr>ea_EvidenceID = ''ev1'', ea_TenantID = ''ten_a'', ea_Digest = replicate 64 CHR ''a'',
     ea_AttachedBy = [], ea_AttachedAt = 0\<rparr>"

definition example_life :: "action_call list" where
  "example_life = [example_create, CallStartWork ''ten_a'' ''act1'' ''alice'' 20,
     CallAttachEvidence ''ten_a'' ''act1'' ''alice'' example_evidence 30,
     CallSubmitForReview ''ten_a'' ''act1'' ''alice'' ''done'' 40,
     CallCloseAction ''ten_a'' ''act1'' ''bob'' ''ok'' 50]"

definition example_manager :: ActionManager where
  "example_manager = run_calls (action_exec (\<lambda>_. ''t'')) example_life NewActionManager"

lemmas action_eval = example_create_def example_evidence_def example_life_def example_manager_def
  NewActionManager_def CreateAction_def new_action_def method_defs body_defs with_action_def
  log_move_def eval_defs

lemma example_closed:
  "\<exists>act. example_manager (''ten_a'', ''act1'') = Some act \<and> act_state act = ActionStateClosed \<and>
     length (act_history act) = 5 \<and> act_owner act = ''alice'' \<and> act_reviewer act = ''bob'' \<and>
     length (act_evidence act) = 1"
  by (simp add: action_eval)

lemma example_manager_inv: "manager_inv example_manager"
  by (simp add: example_manager_def reachable_manager_inv)

subsection \<open>Properties\<close>

text \<open>
  (C1) Whatever calls were made, an action that is CLOSED was closed out of IN\_REVIEW by its
  reviewer, at the time and by the identity recorded both in the closure fields and in its last
  history entry, after its owner had submitted it, and it carries at least the required number of
  pieces of evidence.
\<close>

theorem closed_action_was_reviewed:
  assumes "run_calls (action_exec rfc) cs NewActionManager (tenant, aid) = Some act"
    and "act_state act = ActionStateClosed"
  shows "ah_FromState (last (act_history act)) = ActionStateInReview \<and>
    ah_ToState (last (act_history act)) = ActionStateClosed \<and>
    act_closedAt act = Some (ah_Timestamp (last (act_history act))) \<and>
    act_closedBy act = ah_Actor (last (act_history act)) \<and>
    TrimSpace (act_closedBy act) = act_reviewer act \<and>
    (\<exists>h\<in>set (act_history act). ah_ToState h = ActionStateInReview \<and> TrimSpace (ah_Actor h) = act_owner act) \<and>
    act_requiredEvidenceCount act \<le> int (length (act_evidence act))"
proof -
  let ?edges = "\<lambda>hs. map (\<lambda>h. (ah_FromState h, ah_ToState h)) hs"
  from reachable_action_inv [OF assms(1)] have ne: "act_history act \<noteq> []"
    and path: "linked (ActionStateOther []) (?edges (act_history act)) (act_state act)"
    and ok: "list_all (entry_ok act) (act_history act)" and cl: "closure_inv act"
    by (simp_all add: action_inv_def)
  then have last: "ah_ToState (last (act_history act)) = ActionStateClosed"
    using linked_last [OF path] assms(2) by (simp add: last_map)
  from cl assms(2) have from_: "ah_FromState (last (act_history act)) = ActionStateInReview"
    by (auto simp: closure_inv_def split: option.splits)
  have "linked (ActionStateOther []) (?edges (butlast (act_history act))) ActionStateInReview"
    using linked_butlast [OF path ne] from_ by simp
  from in_review_entered_by_owner [OF this, of act] ok
  have "\<exists>h\<in>set (act_history act). ah_ToState h = ActionStateInReview \<and> TrimSpace (ah_Actor h) = act_owner act"
    by (auto simp: list_all_iff dest: in_set_butlastD)
  with last from_ cl assms(2) show ?thesis by (auto simp: closure_inv_def split: option.splits)
qed

text \<open>
  (C10) The history of every action of every reachable manager is a complete account of its life:
  numbered 1, 2, 3, \<dots>, starting with the creation, each entry continuing from the state the
  previous one reached, ending in the current state, and each entry a step of the documented
  lifecycle made by the person (owner, reviewer) or timer entitled to it.
\<close>

theorem action_history_complete:
  assumes "run_calls (action_exec rfc) cs NewActionManager (tenant, aid) = Some act"
  shows "linked (ActionStateOther []) (map (\<lambda>h. (ah_FromState h, ah_ToState h)) (act_history act)) (act_state act) \<and>
    (\<forall>i<length (act_history act). ah_Sequence (act_history act ! i) = of_nat (i + 1)) \<and>
    (\<forall>h\<in>set (act_history act). \<exists>r. action_step r (ah_FromState h) (ah_ToState h) \<and> plays act r (ah_Actor h))"
  using reachable_action_inv [OF assms]
  by (auto simp: action_inv_def numbered_def list_all_iff entry_ok_def)

text \<open>
  (C4) Simulation: every call, on every action already in the manager, either leaves the action as
  it is or performs exactly one step of the lifecycle relation and appends exactly the history
  entry that records it; identity, people, due date and evidence already attached stay.
\<close>

theorem action_call_simulates_step:
  assumes "m k = Some act"
  shows "\<exists>act'. fst (action_exec rfc c m) k = Some act' \<and>
    (act' = act \<or>
     (\<exists>h r. act_history act' = act_history act @ [h] \<and>
        ah_Sequence h = of_nat (length (act_history act) + 1) \<and>
        ah_FromState h = act_state act \<and> ah_ToState h = act_state act' \<and>
        action_step r (act_state act) (act_state act') \<and> plays act r (ah_Actor h) \<and>
        prefix (act_evidence act) (act_evidence act') \<and>
        (act_id act', act_tenantID act', act_owner act', act_reviewer act', act_dueDate act') =
        (act_id act, act_tenantID act, act_owner act, act_reviewer act, act_dueDate act)))"
  using action_exec_extends [of m k act rfc c, OF assms] by (fastforce simp: extends_def entry_ok_def)

text \<open>\<open>CloseAction\<close> succeeds exactly under the four conditions its documentation lists.\<close>

theorem CloseAction_succeeds_iff:
  "(\<exists>m'. CloseAction tenantID actionID caller notes now m = (m', Inr ())) \<longleftrightarrow>
   TrimSpace tenantID \<noteq> [] \<and> TrimSpace actionID \<noteq> [] \<and>
   (\<exists>act. m (TrimSpace tenantID, TrimSpace actionID) = Some act \<and>
      act_state act = ActionStateInReview \<and> TrimSpace caller = act_reviewer act \<and>
      act_requiredEvidenceCount act \<le> int (length (act_evidence act)))"
  by (cases "m (TrimSpace tenantID, TrimSpace actionID)")
    (auto simp: CloseAction_def with_action_def Let_def on_entry_def CloseAction_body_def)

text \<open>Histories are append-only: no later call removes or rewrites an entry.\<close>

theorem action_history_append_only:
  assumes "manager_inv m" and "m k = Some act" and "i < length (act_history act)"
    and "run_calls (action_exec rfc) cs m k = Some act'"
  shows "act_history act' ! i = act_history act ! i"
  using am.run_journal_nth [OF assms(1), of cs i k rfc] assms by (simp add: action_journal_def)

text \<open>
  Tenant isolation: calls made in the name of other tenants, however many and whatever they
  ask for, leave every action of a tenant as it was.
\<close>

theorem action_tenant_isolation:
  assumes "\<forall>c\<in>set cs. TrimSpace (call_tenant c) \<noteq> tenant"
  shows "run_calls (action_exec rfc) cs m (tenant, aid) = m (tenant, aid)"
  using assms by (induction cs arbitrary: m) (auto simp: action_exec_other)

text \<open>A call that reports an error has changed nothing.\<close>

theorem action_errors_fail_closed:
  assumes "action_exec rfc c m = (m', Inl err)"
  shows "m' = m"
  using assms by (rule am_closed.exec_error)

text \<open>
  Evidence: in every reachable manager the pieces of evidence of an action have distinct,
  non-blank identifiers, belong to the action's tenant, carry a digest of 64 bytes and were
  attached by the owner; attaching one whose identifier is already there is refused.
\<close>

theorem action_evidence_sound:
  assumes "run_calls (action_exec rfc) cs NewActionManager (tenant, aid) = Some act"
  shows "distinct (map ea_EvidenceID (act_evidence act)) \<and>
    (\<forall>ev\<in>set (act_evidence act). ea_EvidenceID ev \<noteq> [] \<and> ea_TenantID ev = tenant \<and>
       length (ea_Digest ev) = 64 \<and> TrimSpace (ea_AttachedBy ev) = act_owner act) \<and>
    (\<forall>ev ev' c now. ev \<in> set (act_evidence act) \<longrightarrow> TrimSpace (ea_EvidenceID ev') = ea_EvidenceID ev \<longrightarrow>
       AttachEvidence_body c ev' now act = Inl (if act_state act = ActionStateClosed then ErrActionClosed
         else if TrimSpace c \<noteq> act_owner act then ErrUnauthorizedAction
         else if TrimSpace (ea_TenantID ev') \<noteq> tenant then ErrCrossTenantDenied
         else ErrDuplicateEvidenceID))"
  using reachable_action_inv [OF assms]
  by (auto simp: action_inv_def evidence_inv_def AttachEvidence_body_def)

text \<open>
  \<open>CheckOverdue\<close> answers true exactly for an action that is not CLOSED, has a due date and is
  past it; the action is then OVERDUE, and asking again at any later time changes nothing.
\<close>

theorem CheckOverdue_correct:
  assumes "m (TrimSpace t, TrimSpace a) = Some act" and "TrimSpace t \<noteq> []" and "TrimSpace a \<noteq> []"
    and "CheckOverdue rfc t a now m = (m', res)"
  shows "\<exists>act' b. res = Inr b \<and> m' = m((TrimSpace t, TrimSpace a) \<mapsto> act') \<and>
    (b \<longleftrightarrow> act_state act \<noteq> ActionStateClosed \<and> act_dueDate act \<noteq> 0 \<and> act_dueDate act < now) \<and>
    act_state act' = (if b then ActionStateOverdue else act_state act) \<and>
    (now \<le> now' \<longrightarrow> b \<longrightarrow> CheckOverdue rfc t a now' m' = (m', Inr True))"
  using assms
  by (auto simp: CheckOverdue_def with_action_def Let_def on_entry_def CheckOverdue_body_def IsZero_def
      After_def log_move_def split: if_splits)

subsection \<open>Witnesses\<close>

theorem closed_action_was_reviewed_witness:
  "\<exists>act. example_manager (''ten_a'', ''act1'') = Some act \<and> TrimSpace (act_closedBy act) = ''bob'' \<and>
     ah_FromState (last (act_history act)) = ActionStateInReview"
proof -
  obtain act where a: "example_manager (''ten_a'', ''act1'') = Some act" "act_state act = ActionStateClosed"
    "act_reviewer act = ''bob''" using example_closed by blast
  then show ?thesis using closed_action_was_reviewed [OF a(1) [unfolded example_manager_def]] by auto
qed

theorem action_history_complete_witness:
  "\<exists>act. example_manager (''ten_a'', ''act1'') = Some act \<and> length (act_history act) = 5 \<and>
     linked (ActionStateOther []) (map (\<lambda>h. (ah_FromState h, ah_ToState h)) (act_history act)) ActionStateClosed"
proof -
  obtain act where a: "example_manager (''ten_a'', ''act1'') = Some act" "act_state act = ActionStateClosed"
    "length (act_history act) = 5" using example_closed by blast
  then show ?thesis using action_history_complete [OF a(1) [unfolded example_manager_def]] by auto
qed

theorem action_call_simulates_step_witness:
  "\<exists>act. fst (action_exec (\<lambda>_. ''t'') (CallReopenAction ''ten_a'' ''act1'' ''bob'' ''again'' 60) example_manager)
     (''ten_a'', ''act1'') = Some act"
  using example_closed action_call_simulates_step [of example_manager "(''ten_a'', ''act1'')"] by blast

theorem action_history_append_only_witness:
  "\<exists>act act'. example_manager (''ten_a'', ''act1'') = Some act \<and> 3 < length (act_history act) \<and>
     run_calls (action_exec (\<lambda>_. ''t'')) [CallReopenAction ''ten_a'' ''act1'' ''bob'' ''again'' 60] example_manager
       (''ten_a'', ''act1'') = Some act' \<and> act_history act' ! 3 = act_history act ! 3"
proof -
  let ?cs = "[CallReopenAction ''ten_a'' ''act1'' ''bob'' ''again'' 60]"
  obtain act where a: "example_manager (''ten_a'', ''act1'') = Some act" "length (act_history act) = 5"
    using example_closed by blast
  moreover obtain act' where "run_calls (action_exec (\<lambda>_. ''t'')) ?cs example_manager (''ten_a'', ''act1'') = Some act'"
    by (simp add: action_eval)
  ultimately show ?thesis
    using action_history_append_only [OF example_manager_inv a(1), of 3 "\<lambda>_. ''t''" ?cs] by auto
qed

theorem action_tenant_isolation_witness:
  "run_calls (action_exec (\<lambda>_. ''t'')) [CallReopenAction ''ten_b'' ''act1'' ''bob'' ''again'' 60] example_manager
     (''ten_a'', ''act1'') = example_manager (''ten_a'', ''act1'')"
  by (rule action_tenant_isolation) simp

theorem action_errors_fail_closed_witness:
  "fst (action_exec (\<lambda>_. ''t'') (CallCloseAction ''ten_a'' ''act1'' ''bob'' ''ok'' 60) example_manager) = example_manager"
proof -
  have "\<exists>m' e. action_exec (\<lambda>_. ''t'') (CallCloseAction ''ten_a'' ''act1'' ''bob'' ''ok'' 60) example_manager = (m', Inl e)"
    by (simp add: action_eval)
  then show ?thesis using action_errors_fail_closed by fastforce
qed

theorem action_evidence_sound_witness:
  "\<exists>act. example_manager (''ten_a'', ''act1'') = Some act \<and> act_evidence act \<noteq> [] \<and>
     (\<forall>ev\<in>set (act_evidence act). length (ea_Digest ev) = 64)"
proof -
  obtain act where a: "example_manager (''ten_a'', ''act1'') = Some act" "length (act_evidence act) = 1"
    using example_closed by blast
  then show ?thesis using action_evidence_sound [OF a(1) [unfolded example_manager_def]] by force
qed

theorem CheckOverdue_correct_witness:
  "\<exists>m'. CheckOverdue (\<lambda>_. ''t'') ''ten_a'' ''act1'' 200
      (run_calls (action_exec (\<lambda>_. ''t'')) [example_create] NewActionManager) = (m', Inr True)"
proof -
  let ?m = "run_calls (action_exec (\<lambda>_. ''t'')) [example_create] NewActionManager"
  obtain act where a: "?m (''ten_a'', ''act1'') = Some act" "act_state act = ActionStateAssigned"
    "act_dueDate act = 100" by (simp add: action_eval)
  obtain m' res where "CheckOverdue (\<lambda>_. ''t'') ''ten_a'' ''act1'' 200 ?m = (m', res)" by fastforce
  then show ?thesis
    using CheckOverdue_correct [of ?m "''ten_a''" "''act1''" act "\<lambda>_. ''t''" 200 m' res] a by auto
qed

end
