(* ===== verification/Finding_Lifecycle.thy ===== *)
theory Finding_Lifecycle
  imports Action_Lifecycle
begin

text \<open>
  Safety findings, \<open>modules/workflow-action/finding_lifecycle.go\<close>: the rule catalog, the finding
  records and the \<open>FindingManager\<close>. Records are filed in a map of maps (tenant, then finding), as in
  the code. \<open>CreateFinding\<close> reads the catalog before it takes the manager's lock; the model runs the
  whole method as one step.
\<close>

subsection \<open>Definitions\<close>

datatype FindingState =
  FindingStateOpen | FindingStateUnderReview | FindingStateRemediated | FindingStateClosed
| FindingStateOther string

datatype FindingSeverity =
  SeverityLow | SeverityMedium | SeverityHigh | SeverityCritical | SeverityOther string

fun severity_text :: "FindingSeverity \<Rightarrow> string" where
  "severity_text SeverityLow = ''LOW''"
| "severity_text SeverityMedium = ''MEDIUM''"
| "severity_text SeverityHigh = ''HIGH''"
| "severity_text SeverityCritical = ''CRITICAL''"
| "severity_text (SeverityOther s) = s"

fun finding_state_text :: "FindingState \<Rightarrow> string" where
  "finding_state_text FindingStateOpen = ''OPEN''"
| "finding_state_text FindingStateUnderReview = ''UNDER_REVIEW''"
| "finding_state_text FindingStateRemediated = ''REMEDIATED''"
| "finding_state_text FindingStateClosed = ''CLOSED''"
| "finding_state_text (FindingStateOther s) = s"

definition CurrentRuleMatrixVersion :: string where
  "CurrentRuleMatrixVersion = ''1.0.0''"

record FindingRule =
  rule_ID :: string
  rule_Version :: string
  rule_QuestionPattern :: string
  rule_TriggerCondition :: string
  rule_DefaultSeverityInput :: FindingSeverity
  rule_MandatoryCritical :: bool
  rule_RequiresImmediateControl :: bool
  rule_RequiresEvidence :: bool

type_synonym FindingRuleCatalog = "string \<rightharpoonup> FindingRule"

definition RegisterRule :: "FindingRule \<Rightarrow> FindingRuleCatalog \<Rightarrow> FindingRuleCatalog" where
  "RegisterRule rule c = c(rule_ID rule \<mapsto> rule)"

definition GetRule :: "string \<Rightarrow> FindingRuleCatalog \<Rightarrow> FindingRule option" where
  "GetRule ruleID c = c ruleID"

definition NewFindingRuleCatalog :: FindingRuleCatalog where
  "NewFindingRuleCatalog =
     RegisterRule \<lparr>rule_ID = ''RULE-FND-PPE-NONCOMPLIANCE'', rule_Version = CurrentRuleMatrixVersion,
       rule_QuestionPattern = ''qst_ppe_*'', rule_TriggerCondition = ''RESPONSE_FAILED'',
       rule_DefaultSeverityInput = SeverityMedium, rule_MandatoryCritical = False,
       rule_RequiresImmediateControl = False, rule_RequiresEvidence = False\<rparr>
     (RegisterRule \<lparr>rule_ID = ''RULE-FND-EXTINGUISHER-DEFECT'', rule_Version = CurrentRuleMatrixVersion,
       rule_QuestionPattern = ''qst_extinguisher_*'', rule_TriggerCondition = ''RESPONSE_FAILED'',
       rule_DefaultSeverityInput = SeverityHigh, rule_MandatoryCritical = False,
       rule_RequiresImmediateControl = True, rule_RequiresEvidence = True\<rparr>
     (RegisterRule \<lparr>rule_ID = ''RULE-FND-FIRE-EXIT-BLOCKED'', rule_Version = CurrentRuleMatrixVersion,
       rule_QuestionPattern = ''qst_fire_exit_*'', rule_TriggerCondition = ''RESPONSE_CONCERNING_OR_FAILED'',
       rule_DefaultSeverityInput = SeverityCritical, rule_MandatoryCritical = True,
       rule_RequiresImmediateControl = True, rule_RequiresEvidence = True\<rparr> Map.empty))"

record FindingAuditEntry =
  fa_Sequence :: int64
  fa_Timestamp :: gotime
  fa_Actor :: string
  fa_ActorRole :: string
  fa_Action :: string
  fa_FromState :: FindingState
  fa_ToState :: FindingState
  fa_Details :: string

record FindingRecord =
  fr_FindingID :: string
  fr_TenantID :: string
  fr_ExecutionID :: string
  fr_QuestionID :: string
  fr_ResponseID :: string
  fr_RecurrenceID :: string
  fr_RuleID :: string
  fr_RuleVersion :: string
  fr_Title :: string
  fr_Description :: string
  fr_Severity :: FindingSeverity
  fr_CriticalFlag :: bool
  fr_ImmediateControl :: string
  fr_State :: FindingState
  fr_EvidenceIDs :: "string list"
  fr_CreatedAt :: gotime
  fr_CreatedBy :: string
  fr_ClosedAt :: "gotime option"
  fr_ClosedBy :: string
  fr_ClosureRationale :: string
  fr_History :: "FindingAuditEntry list"

record FindingCreationRequest =
  fc_TenantID :: string
  fc_FindingID :: string
  fc_ExecutionID :: string
  fc_QuestionID :: string
  fc_ResponseID :: string
  fc_RecurrenceID :: string
  fc_RuleID :: string
  fc_RuleVersion :: string
  fc_Title :: string
  fc_Description :: string
  fc_SeverityInput :: FindingSeverity
  fc_CriticalFlag :: bool
  fc_ImmediateControl :: string
  fc_Actor :: string
  fc_ActorRole :: string
  fc_EvidenceIDs :: "string list"

record FindingManager =
  findings :: "string \<rightharpoonup> (string \<rightharpoonup> FindingRecord)"
  catalog :: FindingRuleCatalog

definition NewFindingManager :: "FindingRuleCatalog option \<Rightarrow> FindingManager" where
  "NewFindingManager c =
     \<lparr>findings = Map.empty, catalog = (case c of None \<Rightarrow> NewFindingRuleCatalog | Some c \<Rightarrow> c)\<rparr>"

fun severityRank :: "FindingSeverity \<Rightarrow> int" where
  "severityRank SeverityLow = 1"
| "severityRank SeverityMedium = 2"
| "severityRank SeverityHigh = 3"
| "severityRank SeverityCritical = 4"
| "severityRank (SeverityOther _) = 0"

definition isSupervisorRole :: "string \<Rightarrow> bool" where
  "isSupervisorRole role \<longleftrightarrow>
     ToUpper (TrimSpace role) \<in> {''SAFETY_SUPERVISOR'', ''SUPERVISOR'', ''SAFETY_LEAD'', ''QUALITY_LEAD'',
       ''TENANT_ADMIN'', ''OWNER''}"

definition isHumanClosureAuthorized :: "string \<Rightarrow> bool" where
  "isHumanClosureAuthorized role \<longleftrightarrow>
     ToUpper (TrimSpace role) \<in> {''SAFETY_SUPERVISOR'', ''SUPERVISOR'', ''SAFETY_LEAD'', ''QUALITY_LEAD'',
       ''OWNER''}"

text \<open>The test for an autonomous actor that three of the methods make.\<close>

definition is_ai :: "string \<Rightarrow> string \<Rightarrow> bool" where
  "is_ai actor actorRole \<longleftrightarrow> Contains (ToUpper actor) ''AI_AGENT'' \<or> Contains (ToUpper actorRole) ''AI_CORE''"

definition lookup_finding :: "FindingManager \<Rightarrow> string \<Rightarrow> string \<Rightarrow> FindingRecord option" where
  "lookup_finding m tenant fid = (case findings m tenant of None \<Rightarrow> None | Some tm \<Rightarrow> tm fid)"

definition new_finding ::
  "FindingCreationRequest \<Rightarrow> FindingRule \<Rightarrow> FindingSeverity \<Rightarrow> bool \<Rightarrow> gotime \<Rightarrow> FindingRecord" where
  "new_finding req rule severity critical now =
     \<lparr>fr_FindingID = TrimSpace (fc_FindingID req), fr_TenantID = TrimSpace (fc_TenantID req),
      fr_ExecutionID = fc_ExecutionID req, fr_QuestionID = fc_QuestionID req,
      fr_ResponseID = fc_ResponseID req, fr_RecurrenceID = TrimSpace (fc_RecurrenceID req),
      fr_RuleID = rule_ID rule, fr_RuleVersion = rule_Version rule, fr_Title = fc_Title req,
      fr_Description = fc_Description req, fr_Severity = severity, fr_CriticalFlag = critical,
      fr_ImmediateControl = TrimSpace (fc_ImmediateControl req), fr_State = FindingStateOpen,
      fr_EvidenceIDs = fc_EvidenceIDs req, fr_CreatedAt = now, fr_CreatedBy = fc_Actor req,
      fr_ClosedAt = None, fr_ClosedBy = [], fr_ClosureRationale = [],
      fr_History = [\<lparr>fa_Sequence = 1, fa_Timestamp = now, fa_Actor = fc_Actor req,
        fa_ActorRole = fc_ActorRole req, fa_Action = ''CREATED'', fa_FromState = FindingStateOther [],
        fa_ToState = FindingStateOpen,
        fa_Details = ''Finding created under rule '' @ rule_ID rule @ '' v'' @ rule_Version rule @
          '' with severity '' @ severity_text severity @ '' (critical='' @ FormatBool critical @ '')''\<rparr>]\<rparr>"

text \<open>
  The first half of \<open>CreateFinding\<close>, up to the manager's lock: the rule, the resolved severity and the
  resolved critical flag, or the error.
\<close>

definition resolve_finding ::
  "FindingCreationRequest \<Rightarrow> FindingRuleCatalog \<Rightarrow> wfa_error + FindingRule \<times> FindingSeverity \<times> bool" where
  "resolve_finding req cat =
     (if TrimSpace (fc_TenantID req) = [] then Inl ErrBlankTenantID
      else if TrimSpace (fc_FindingID req) = [] then Inl ErrBlankFindingID
      else if TrimSpace (fc_ExecutionID req) = [] \<or> TrimSpace (fc_QuestionID req) = []
              \<or> TrimSpace (fc_ResponseID req) = []
      then Inl ErrMissingSourceContext
      else if TrimSpace (fc_RuleID req) = [] then Inl ErrRuleNotFound
      else case GetRule (TrimSpace (fc_RuleID req)) cat of
        None \<Rightarrow> Inl ErrRuleNotFound
      | Some rule \<Rightarrow>
          (let severity = (if fc_SeverityInput req = SeverityOther [] then rule_DefaultSeverityInput rule
                           else fc_SeverityInput req);
               critical = (fc_CriticalFlag req \<or> rule_MandatoryCritical rule)
           in if fc_RuleVersion req \<noteq> rule_Version rule \<or> fc_RuleVersion req \<noteq> CurrentRuleMatrixVersion
           then Inl ErrIncompatibleRuleVersion
           else if is_ai (TrimSpace (fc_Actor req)) (TrimSpace (fc_ActorRole req))
                   \<and> fc_SeverityInput req = SeverityOther [] \<and> \<not> rule_MandatoryCritical rule
           then Inl ErrAutonomousClassificationProhibited
           else if severityRank severity = 0 then Inl (ErrorsNew ''invalid severity level'')
           else if (critical \<or> severity = SeverityCritical \<or> rule_RequiresImmediateControl rule)
                   \<and> TrimSpace (fc_ImmediateControl req) = []
           then Inl ErrMissingImmediateControl
           else Inr (rule, severity, critical)))"

text \<open>The second half, under the lock: the tenant's map is made before the recurrence link is checked.\<close>

definition CreateFinding ::
  "FindingCreationRequest \<Rightarrow> gotime \<Rightarrow> FindingManager \<Rightarrow> (FindingManager, wfa_error, FindingRecord) outcome" where
  "CreateFinding req now m =
     (case resolve_finding req (catalog m) of
        Inl e \<Rightarrow> (m, Inl e)
      | Inr (rule, severity, critical) \<Rightarrow>
          (let tTenant = TrimSpace (fc_TenantID req); tFinding = TrimSpace (fc_FindingID req);
               tRecurrence = TrimSpace (fc_RecurrenceID req)
           in if lookup_finding m tTenant tFinding \<noteq> None then (m, Inl ErrDuplicateFindingID)
           else let tenantMap = (case findings m tTenant of None \<Rightarrow> Map.empty | Some tm \<Rightarrow> tm);
                    m1 = m\<lparr>findings := (findings m)(tTenant \<mapsto> tenantMap)\<rparr>
                in if tRecurrence \<noteq> [] \<and> tenantMap tRecurrence = None then (m1, Inl ErrInvalidRecurrenceLink)
                else let rec = new_finding req rule severity critical now
                     in (m1\<lparr>findings := (findings m1)(tTenant \<mapsto> tenantMap(tFinding \<mapsto> rec))\<rparr>, Inr rec)))"

definition GetFinding :: "string \<Rightarrow> string \<Rightarrow> FindingManager \<Rightarrow> wfa_error + FindingRecord" where
  "GetFinding tenantID findingID m =
     (case lookup_finding m tenantID findingID of None \<Rightarrow> Inl ErrFindingNotFound | Some rec \<Rightarrow> Inr rec)"

text \<open>The lookup with trimmed identifiers and the in-place update of the record it finds.\<close>

definition with_finding ::
  "string \<Rightarrow> string \<Rightarrow> (FindingRecord \<Rightarrow> wfa_error + FindingRecord) \<Rightarrow> FindingManager \<Rightarrow>
   (FindingManager, wfa_error, unit) outcome" where
  "with_finding tenantID findingID body m =
     (case findings m (TrimSpace tenantID) of
        None \<Rightarrow> (m, Inl ErrFindingNotFound)
      | Some tenantMap \<Rightarrow>
          (case tenantMap (TrimSpace findingID) of
             None \<Rightarrow> (m, Inl ErrFindingNotFound)
           | Some rec \<Rightarrow>
               (case body rec of
                  Inl e \<Rightarrow> (m, Inl e)
                | Inr rec' \<Rightarrow>
                    (m\<lparr>findings := (findings m)(TrimSpace tenantID \<mapsto> tenantMap(TrimSpace findingID \<mapsto> rec'))\<rparr>,
                     Inr ()))))"

definition audit_finding ::
  "string \<Rightarrow> string \<Rightarrow> string \<Rightarrow> FindingState \<Rightarrow> FindingState \<Rightarrow> string \<Rightarrow> gotime \<Rightarrow> FindingRecord \<Rightarrow>
   FindingRecord" where
  "audit_finding actor actorRole act from to details now rec =
     rec\<lparr>fr_History := fr_History rec @
       [\<lparr>fa_Sequence = of_nat (length (fr_History rec) + 1), fa_Timestamp = now, fa_Actor = actor,
         fa_ActorRole = actorRole, fa_Action = act, fa_FromState = from, fa_ToState = to,
         fa_Details = details\<rparr>]\<rparr>"

definition UpdateSeverity_body ::
  "FindingSeverity \<Rightarrow> string \<Rightarrow> string \<Rightarrow> string \<Rightarrow> gotime \<Rightarrow> FindingRecord \<Rightarrow> wfa_error + FindingRecord" where
  "UpdateSeverity_body newSeverity actor actorRole rationale now rec =
     (if fr_State rec = FindingStateClosed then Inl ErrFindingAlreadyClosed
      else if severityRank newSeverity = 0 then Inl (ErrorsNew ''invalid new severity level'')
      else if severityRank newSeverity < severityRank (fr_Severity rec) \<and> \<not> isSupervisorRole actorRole
      then Inl ErrUnauthorizedSeverityDowngrade
      else if severityRank newSeverity < severityRank (fr_Severity rec) \<and> TrimSpace rationale = []
      then Inl ErrMissingClassificationRationale
      else if is_ai actor actorRole then Inl ErrAutonomousClassificationProhibited
      else Inr (audit_finding actor actorRole ''SEVERITY_UPDATED'' (FindingStateOther []) (FindingStateOther [])
                  (''Severity transitioned from '' @ severity_text (fr_Severity rec) @ '' to '' @
                   severity_text newSeverity @ ''. Rationale: '' @ TrimSpace rationale) now
                  (rec\<lparr>fr_Severity := newSeverity\<rparr>)))"

definition UpdateSeverity ::
  "string \<Rightarrow> string \<Rightarrow> FindingSeverity \<Rightarrow> string \<Rightarrow> string \<Rightarrow> string \<Rightarrow> gotime \<Rightarrow> FindingManager \<Rightarrow>
   (FindingManager, wfa_error, unit) outcome" where
  "UpdateSeverity tenantID findingID newSeverity actor actorRole rationale now =
     with_finding tenantID findingID (UpdateSeverity_body newSeverity actor actorRole rationale now)"

definition UpdateCriticalFlag_body ::
  "FindingRuleCatalog \<Rightarrow> bool \<Rightarrow> string \<Rightarrow> string \<Rightarrow> string \<Rightarrow> gotime \<Rightarrow> FindingRecord \<Rightarrow>
   wfa_error + FindingRecord" where
  "UpdateCriticalFlag_body cat critical actor actorRole rationale now rec =
     (if fr_State rec = FindingStateClosed then Inl ErrFindingAlreadyClosed
      else if (case GetRule (fr_RuleID rec) cat of
                 None \<Rightarrow> False | Some rule \<Rightarrow> rule_MandatoryCritical rule \<and> \<not> critical)
      then Inl (ErrorsNew ''cannot remove critical flag: rule specifies mandatory critical'')
      else if fr_CriticalFlag rec \<and> \<not> critical \<and> \<not> isSupervisorRole actorRole
      then Inl ErrUnauthorizedCriticalDowngrade
      else if fr_CriticalFlag rec \<and> \<not> critical \<and> TrimSpace rationale = []
      then Inl ErrMissingClassificationRationale
      else if is_ai actor actorRole then Inl ErrAutonomousClassificationProhibited
      else Inr (audit_finding actor actorRole ''CRITICAL_FLAG_UPDATED'' (FindingStateOther []) (FindingStateOther [])
                  (''Critical flag transitioned from '' @ FormatBool (fr_CriticalFlag rec) @ '' to '' @
                   FormatBool critical @ ''. Rationale: '' @ TrimSpace rationale) now
                  (rec\<lparr>fr_CriticalFlag := critical\<rparr>)))"

definition UpdateCriticalFlag ::
  "string \<Rightarrow> string \<Rightarrow> bool \<Rightarrow> string \<Rightarrow> string \<Rightarrow> string \<Rightarrow> gotime \<Rightarrow> FindingManager \<Rightarrow>
   (FindingManager, wfa_error, unit) outcome" where
  "UpdateCriticalFlag tenantID findingID critical actor actorRole rationale now m =
     with_finding tenantID findingID
       (UpdateCriticalFlag_body (catalog m) critical actor actorRole rationale now) m"

fun permitted_transition :: "FindingState \<Rightarrow> FindingState \<Rightarrow> bool" where
  "permitted_transition FindingStateOpen to \<longleftrightarrow>
     to \<in> {FindingStateUnderReview, FindingStateRemediated, FindingStateClosed}"
| "permitted_transition FindingStateUnderReview to \<longleftrightarrow>
     to \<in> {FindingStateRemediated, FindingStateClosed, FindingStateOpen}"
| "permitted_transition FindingStateRemediated to \<longleftrightarrow> to \<in> {FindingStateClosed, FindingStateUnderReview}"
| "permitted_transition _ to \<longleftrightarrow> False"

definition TransitionState_body ::
  "FindingState \<Rightarrow> string \<Rightarrow> string \<Rightarrow> string \<Rightarrow> gotime \<Rightarrow> FindingRecord \<Rightarrow> wfa_error + FindingRecord" where
  "TransitionState_body toState actor actorRole rationale now rec =
     (if fr_State rec = FindingStateClosed then Inl ErrFindingAlreadyClosed
      else if toState = FindingStateClosed \<and> is_ai actor actorRole then Inl ErrAutonomousClosureProhibited
      else if toState = FindingStateClosed \<and> \<not> isHumanClosureAuthorized actorRole then Inl ErrUnauthorizedClosure
      else if toState = FindingStateClosed \<and> TrimSpace rationale = []
      then Inl (ErrorsNew ''closure rationale cannot be blank'')
      else if \<not> permitted_transition (fr_State rec) toState then Inl ErrInvalidFindingStateTransition
      else let audited = audit_finding actor actorRole ''STATE_TRANSITION'' (fr_State rec) toState
                 (''Transitioned from '' @ finding_state_text (fr_State rec) @ '' to '' @
                  finding_state_text toState @ ''. Details: '' @ rationale) now (rec\<lparr>fr_State := toState\<rparr>)
           in Inr (if toState = FindingStateClosed
                   then audited\<lparr>fr_ClosedAt := Some now, fr_ClosedBy := actor, fr_ClosureRationale := rationale\<rparr>
                   else audited))"

definition TransitionState ::
  "string \<Rightarrow> string \<Rightarrow> FindingState \<Rightarrow> string \<Rightarrow> string \<Rightarrow> string \<Rightarrow> gotime \<Rightarrow> FindingManager \<Rightarrow>
   (FindingManager, wfa_error, unit) outcome" where
  "TransitionState tenantID findingID toState actor actorRole rationale now =
     with_finding tenantID findingID (TransitionState_body toState actor actorRole rationale now)"

datatype finding_call =
  CallRegisterRule FindingRule
| CallCreateFinding FindingCreationRequest gotime
| CallUpdateSeverity string string FindingSeverity string string string gotime
| CallUpdateCriticalFlag string string bool string string string gotime
| CallTransitionState string string FindingState string string string gotime

fun finding_exec :: "finding_call \<Rightarrow> FindingManager \<Rightarrow> (FindingManager, wfa_error, unit) outcome" where
  "finding_exec (CallRegisterRule rule) m = (m\<lparr>catalog := RegisterRule rule (catalog m)\<rparr>, Inr ())"
| "finding_exec (CallCreateFinding req now) m = discard (CreateFinding req now m)"
| "finding_exec (CallUpdateSeverity t f s a r why now) m = UpdateSeverity t f s a r why now m"
| "finding_exec (CallUpdateCriticalFlag t f c a r why now) m = UpdateCriticalFlag t f c a r why now m"
| "finding_exec (CallTransitionState t f s a r why now) m = TransitionState t f s a r why now m"

text \<open>
  The invariant of a record: identity, a numbered history whose state changes form a path, a valid
  severity, and closure fields that agree with a closing entry made by a human with authority.
\<close>

definition state_edges :: "FindingAuditEntry list \<Rightarrow> (FindingState \<times> FindingState) list" where
  "state_edges hs = map (\<lambda>h. (fa_FromState h, fa_ToState h)) (filter (\<lambda>h. fa_ToState h \<noteq> FindingStateOther []) hs)"

definition finding_closure_inv :: "FindingRecord \<Rightarrow> bool" where
  "finding_closure_inv rec \<longleftrightarrow>
     (case fr_ClosedAt rec of
        None \<Rightarrow> fr_State rec \<noteq> FindingStateClosed
      | Some t \<Rightarrow> fr_State rec = FindingStateClosed \<and> TrimSpace (fr_ClosureRationale rec) \<noteq> [] \<and>
          (let h = last (fr_History rec) in
             fa_ToState h = FindingStateClosed \<and> fa_Timestamp h = t \<and> fa_Actor h = fr_ClosedBy rec \<and>
             isHumanClosureAuthorized (fa_ActorRole h) \<and> \<not> is_ai (fa_Actor h) (fa_ActorRole h)))"

definition finding_inv :: "string \<Rightarrow> string \<Rightarrow> FindingRecord \<Rightarrow> bool" where
  "finding_inv tenant fid rec \<longleftrightarrow>
     fr_TenantID rec = tenant \<and> fr_FindingID rec = fid \<and> tenant \<noteq> [] \<and> fid \<noteq> [] \<and>
     numbered fa_Sequence (fr_History rec) \<and> fr_History rec \<noteq> [] \<and>
     linked (FindingStateOther []) (state_edges (fr_History rec)) (fr_State rec) \<and>
     fr_State rec \<noteq> FindingStateOther [] \<and> severityRank (fr_Severity rec) > 0 \<and> finding_closure_inv rec"

definition findings_inv :: "FindingManager \<Rightarrow> bool" where
  "findings_inv m \<longleftrightarrow> (\<forall>t f rec. lookup_finding m t f = Some rec \<longrightarrow> finding_inv t f rec)"

text \<open>A rule that makes its findings critical, as the catalog has it now, has only critical findings.\<close>

definition mandatory_inv :: "FindingManager \<Rightarrow> bool" where
  "mandatory_inv m \<longleftrightarrow>
     (\<forall>t f rec rule. lookup_finding m t f = Some rec \<longrightarrow> catalog m (fr_RuleID rec) = Some rule \<longrightarrow>
        rule_MandatoryCritical rule \<longrightarrow> fr_CriticalFlag rec)"

definition catalog_inv :: "FindingManager \<Rightarrow> bool" where
  "catalog_inv m \<longleftrightarrow> (\<forall>k rule. catalog m k = Some rule \<longrightarrow> rule_ID rule = k)"

fun not_register :: "finding_call \<Rightarrow> bool" where
  "not_register (CallRegisterRule _) = False"
| "not_register _ = True"

definition finding_journal :: "string \<times> string \<Rightarrow> FindingManager \<Rightarrow> FindingAuditEntry list" where
  "finding_journal k m =
     (case lookup_finding m (fst k) (snd k) of None \<Rightarrow> [] | Some rec \<Rightarrow> fr_History rec)"

subsection \<open>Records\<close>

lemma severityRank_nonneg [simp]: "0 \<le> severityRank s"
  by (cases s) auto

lemma severityRank_pos: "severityRank s \<noteq> 0 \<Longrightarrow> 0 < severityRank s"
  by (cases s) auto

lemma state_edges_snoc [simp]:
  "state_edges (hs @ [h]) = state_edges hs @
     (if fa_ToState h \<noteq> FindingStateOther [] then [(fa_FromState h, fa_ToState h)] else [])"
  by (simp add: state_edges_def)

lemma permitted_target: "permitted_transition s t \<Longrightarrow> t \<noteq> FindingStateOther x"
  by (cases s) auto

lemma open_closure_inv: "fr_State rec \<noteq> FindingStateClosed \<Longrightarrow> finding_closure_inv rec \<longleftrightarrow> fr_ClosedAt rec = None"
  by (auto simp: finding_closure_inv_def split: option.splits)

text \<open>The contract of a body: closed records are refused, open ones gain one history entry.\<close>

definition finding_body_ok :: "(FindingRecord \<Rightarrow> wfa_error + FindingRecord) \<Rightarrow> bool" where
  "finding_body_ok body \<longleftrightarrow>
     (\<forall>rec rec'. body rec = Inr rec' \<longrightarrow>
        fr_State rec \<noteq> FindingStateClosed \<and> fr_RuleID rec' = fr_RuleID rec \<and>
        (\<exists>h. fr_History rec' = fr_History rec @ [h]) \<and>
        (\<forall>t f. finding_inv t f rec \<longrightarrow> finding_inv t f rec'))"

lemma audit_finding_simps [simp]:
  "fr_State (audit_finding a r x from to d now rec) = fr_State rec"
  "fr_ClosedAt (audit_finding a r x from to d now rec) = fr_ClosedAt rec"
  "fr_RuleID (audit_finding a r x from to d now rec) = fr_RuleID rec"
  "fr_Severity (audit_finding a r x from to d now rec) = fr_Severity rec"
  "fr_CriticalFlag (audit_finding a r x from to d now rec) = fr_CriticalFlag rec"
  by (simp_all add: audit_finding_def)

lemma UpdateSeverity_body_ok [simp]: "finding_body_ok (UpdateSeverity_body s a r why now)"
  unfolding finding_body_ok_def UpdateSeverity_body_def
  by (auto simp: audit_finding_def finding_inv_def open_closure_inv severityRank_pos split: if_splits)

lemma UpdateCriticalFlag_body_ok [simp]: "finding_body_ok (UpdateCriticalFlag_body cat c a r why now)"
  unfolding finding_body_ok_def UpdateCriticalFlag_body_def
  by (auto simp: audit_finding_def finding_inv_def open_closure_inv split: if_splits)

lemma TransitionState_body_ok [simp]: "finding_body_ok (TransitionState_body s a r why now)"
proof -
  have "finding_inv t f rec'"
    if "TransitionState_body s a r why now rec = Inr rec'" "finding_inv t f rec" for rec rec' t f
    using that permitted_target [of "fr_State rec" s "[]"]
    by (cases "s = FindingStateClosed")
      (auto simp: TransitionState_body_def audit_finding_def finding_inv_def open_closure_inv
        finding_closure_inv_def [of "rec'"] Let_def split: if_splits)
  moreover have "fr_State rec \<noteq> FindingStateClosed \<and> fr_RuleID rec' = fr_RuleID rec \<and>
      (\<exists>h. fr_History rec' = fr_History rec @ [h])"
    if "TransitionState_body s a r why now rec = Inr rec'" for rec rec'
    using that by (auto simp: TransitionState_body_def audit_finding_def Let_def split: if_splits)
  ultimately show ?thesis unfolding finding_body_ok_def by blast
qed

lemma new_finding_inv:
  "TrimSpace (fc_TenantID req) \<noteq> [] \<Longrightarrow> TrimSpace (fc_FindingID req) \<noteq> [] \<Longrightarrow> severityRank severity \<noteq> 0 \<Longrightarrow>
     finding_inv (TrimSpace (fc_TenantID req)) (TrimSpace (fc_FindingID req)) (new_finding req rule severity critical now)"
  by (simp add: new_finding_def finding_inv_def finding_closure_inv_def state_edges_def severityRank_pos)

subsection \<open>Methods\<close>

lemma with_finding_cases:
  assumes "with_finding t f body m = (m', res)"
  obtains (denied) e where "m' = m" "res = Inl e"
  | (updated) rec rec' where "lookup_finding m (TrimSpace t) (TrimSpace f) = Some rec" "body rec = Inr rec'"
      "res = Inr ()" "catalog m' = catalog m"
      "\<And>t' f'. lookup_finding m' t' f' = (if t' = TrimSpace t \<and> f' = TrimSpace f then Some rec'
         else lookup_finding m t' f')"
  using assms
  by (auto simp: with_finding_def lookup_finding_def split: option.splits sum.splits)

lemma resolve_finding_Inr:
  assumes "resolve_finding req cat = Inr (rule, severity, critical)"
  shows "TrimSpace (fc_TenantID req) \<noteq> [] \<and> TrimSpace (fc_FindingID req) \<noteq> [] \<and> severityRank severity \<noteq> 0 \<and>
    cat (TrimSpace (fc_RuleID req)) = Some rule \<and> critical = (fc_CriticalFlag req \<or> rule_MandatoryCritical rule)"
  using assms by (auto simp: resolve_finding_def GetRule_def Let_def split: if_splits option.splits)

lemma CreateFinding_cases:
  assumes "CreateFinding req now m = (m', res)"
  obtains (denied) e where "res = Inl e" "catalog m' = catalog m" "\<And>t f. lookup_finding m' t f = lookup_finding m t f"
  | (created) rule severity critical where "resolve_finding req (catalog m) = Inr (rule, severity, critical)"
      "lookup_finding m (TrimSpace (fc_TenantID req)) (TrimSpace (fc_FindingID req)) = None"
      "res = Inr (new_finding req rule severity critical now)" "catalog m' = catalog m"
      "\<And>t f. lookup_finding m' t f =
         (if t = TrimSpace (fc_TenantID req) \<and> f = TrimSpace (fc_FindingID req)
          then Some (new_finding req rule severity critical now) else lookup_finding m t f)"
  using assms
  by (auto simp: CreateFinding_def lookup_finding_def Let_def split: sum.splits prod.splits if_splits option.splits)

lemma with_finding_inv [simp]:
  assumes "findings_inv m" and "finding_body_ok body"
  shows "findings_inv (fst (with_finding t f body m))"
proof -
  obtain m' res where w: "with_finding t f body m = (m', res)" by fastforce
  then show ?thesis
    by (cases rule: with_finding_cases) (use assms w in \<open>auto simp: findings_inv_def finding_body_ok_def\<close>)
qed

lemma with_finding_entry [simp]:
  assumes "lookup_finding m t' f' = Some rec" and "finding_body_ok body"
  shows "\<exists>rec'. lookup_finding (fst (with_finding t f body m)) t' f' = Some rec' \<and>
     prefix (fr_History rec) (fr_History rec') \<and> (fr_State rec = FindingStateClosed \<longrightarrow> rec' = rec)"
proof -
  obtain m' res where w: "with_finding t f body m = (m', res)" by fastforce
  then show ?thesis
    by (cases rule: with_finding_cases) (use assms w in \<open>fastforce simp: finding_body_ok_def\<close>)+
qed

lemma CreateFinding_inv: "findings_inv m \<Longrightarrow> findings_inv (fst (CreateFinding req now m))"
proof -
  assume inv: "findings_inv m"
  obtain m' res where c: "CreateFinding req now m = (m', res)" by fastforce
  then show ?thesis
  proof (cases rule: CreateFinding_cases)
    case (denied e)
    with inv c show ?thesis by (simp add: findings_inv_def)
  next
    case (created rule severity critical)
    with inv c resolve_finding_Inr [OF created(1)] show ?thesis by (auto simp: findings_inv_def new_finding_inv)
  qed
qed

lemma CreateFinding_entry:
  "lookup_finding m t f = Some rec \<Longrightarrow> lookup_finding (fst (CreateFinding req now m)) t f = Some rec"
proof -
  assume l: "lookup_finding m t f = Some rec"
  obtain m' res where c: "CreateFinding req now m = (m', res)" by fastforce
  then show ?thesis by (cases rule: CreateFinding_cases) (use l c in auto)
qed

lemma catalog_update_lookup [simp]: "lookup_finding (m\<lparr>catalog := c\<rparr>) t f = lookup_finding m t f"
  by (simp add: lookup_finding_def)

lemmas finding_method_defs = UpdateSeverity_def UpdateCriticalFlag_def TransitionState_def

lemma finding_exec_inv: "findings_inv m \<Longrightarrow> findings_inv (fst (finding_exec c m))"
  by (cases c) (simp_all add: finding_method_defs CreateFinding_inv, simp add: findings_inv_def)

lemma finding_exec_entry:
  "lookup_finding m t f = Some rec \<Longrightarrow>
     \<exists>rec'. lookup_finding (fst (finding_exec c m)) t f = Some rec' \<and>
       prefix (fr_History rec) (fr_History rec') \<and> (fr_State rec = FindingStateClosed \<longrightarrow> rec' = rec)"
  by (cases c) (simp_all add: finding_method_defs CreateFinding_entry)

lemma finding_exec_journal: "prefix (finding_journal k m) (finding_journal k (fst (finding_exec c m)))"
proof (cases "lookup_finding m (fst k) (snd k)")
  case (Some rec)
  with finding_exec_entry [OF Some, of c] show ?thesis by (auto simp: finding_journal_def)
qed (simp add: finding_journal_def)

interpretation fm: journaled finding_exec findings_inv "\<lambda>_. True" finding_journal
  by unfold_locales (simp_all add: finding_exec_inv finding_exec_journal)

interpretation fm_final: absorbing finding_exec findings_inv "\<lambda>_. True"
  "\<lambda>k m. lookup_finding m (fst k) (snd k)" "\<lambda>rec. fr_State rec = FindingStateClosed"
  by unfold_locales (use finding_exec_entry in fastforce)

text \<open>Mandatory criticality, while the catalog is not changed.\<close>

lemma with_finding_mandatory:
  assumes inv: "mandatory_inv m"
    and body: "\<And>rec rec'. body rec = Inr rec' \<Longrightarrow> fr_RuleID rec' = fr_RuleID rec \<and>
      (fr_CriticalFlag rec \<longrightarrow> \<not> fr_CriticalFlag rec' \<longrightarrow>
        (\<forall>rule. catalog m (fr_RuleID rec) = Some rule \<longrightarrow> \<not> rule_MandatoryCritical rule))"
  shows "mandatory_inv (fst (with_finding t f body m))"
proof -
  obtain m' res where w: "with_finding t f body m = (m', res)" by fastforce
  then show ?thesis
  proof (cases rule: with_finding_cases)
    case (denied e)
    with inv w show ?thesis by simp
  next
    case (updated rec rec')
    from updated(1) inv body [OF updated(2)]
    have "\<forall>rule. catalog m (fr_RuleID rec') = Some rule \<longrightarrow> rule_MandatoryCritical rule \<longrightarrow> fr_CriticalFlag rec'"
      unfolding mandatory_inv_def by metis
    with inv have "mandatory_inv m'"
      unfolding mandatory_inv_def updated(4,5) by (metis option.inject)
    with w show ?thesis by simp
  qed
qed

lemma CreateFinding_mandatory:
  assumes inv: "mandatory_inv m" and cat: "catalog_inv m"
  shows "mandatory_inv (fst (CreateFinding req now m))"
proof -
  obtain m' res where c: "CreateFinding req now m = (m', res)" by fastforce
  then show ?thesis
  proof (cases rule: CreateFinding_cases)
    case (denied e)
    with inv c show ?thesis by (simp add: mandatory_inv_def)
  next
    case (created rule severity critical)
    with inv cat c resolve_finding_Inr [OF created(1)] show ?thesis
      by (auto simp: mandatory_inv_def catalog_inv_def new_finding_def)
  qed
qed

lemma UpdateSeverity_body_flag:
  "UpdateSeverity_body s a r why now rec = Inr rec' \<Longrightarrow> fr_RuleID rec' = fr_RuleID rec \<and> fr_CriticalFlag rec' = fr_CriticalFlag rec"
  by (auto simp: UpdateSeverity_body_def split: if_splits)

lemma TransitionState_body_flag:
  "TransitionState_body s a r why now rec = Inr rec' \<Longrightarrow> fr_RuleID rec' = fr_RuleID rec \<and> fr_CriticalFlag rec' = fr_CriticalFlag rec"
  by (auto simp: TransitionState_body_def Let_def split: if_splits)

lemma UpdateCriticalFlag_body_flag:
  "UpdateCriticalFlag_body cat c a r why now rec = Inr rec' \<Longrightarrow> fr_RuleID rec' = fr_RuleID rec \<and>
     (\<not> fr_CriticalFlag rec' \<longrightarrow> (\<forall>rule. cat (fr_RuleID rec) = Some rule \<longrightarrow> \<not> rule_MandatoryCritical rule))"
  by (auto simp: UpdateCriticalFlag_body_def GetRule_def split: if_splits option.splits)

lemma with_finding_catalog [simp]: "catalog (fst (with_finding t f body m)) = catalog m"
  by (auto simp: with_finding_def split: option.splits sum.splits)

lemma CreateFinding_catalog [simp]: "catalog (fst (CreateFinding req now m)) = catalog m"
  by (auto simp: CreateFinding_def Let_def split: sum.splits prod.splits)

lemma finding_exec_mandatory:
  assumes "catalog_inv m \<and> mandatory_inv m" and "not_register c"
  shows "catalog_inv (fst (finding_exec c m)) \<and> mandatory_inv (fst (finding_exec c m))"
proof (cases c)
  case (CallRegisterRule rule)
  with assms show ?thesis by simp
next
  case (CallCreateFinding req now)
  with assms show ?thesis by (simp add: CreateFinding_mandatory) (simp add: catalog_inv_def)
next
  case (CallUpdateSeverity t f s a r why now)
  then have "mandatory_inv (fst (finding_exec c m))"
    using assms by (auto simp: finding_method_defs intro!: with_finding_mandatory dest: UpdateSeverity_body_flag)
  with assms CallUpdateSeverity show ?thesis by (simp add: finding_method_defs catalog_inv_def)
next
  case (CallUpdateCriticalFlag t f x a r why now)
  then have "mandatory_inv (fst (finding_exec c m))"
    using assms by (auto simp: finding_method_defs intro!: with_finding_mandatory dest: UpdateCriticalFlag_body_flag)
  with assms CallUpdateCriticalFlag show ?thesis by (simp add: finding_method_defs catalog_inv_def)
next
  case (CallTransitionState t f s a r why now)
  then have "mandatory_inv (fst (finding_exec c m))"
    using assms by (auto simp: finding_method_defs intro!: with_finding_mandatory dest: TransitionState_body_flag)
  with assms CallTransitionState show ?thesis by (simp add: finding_method_defs catalog_inv_def)
qed

interpretation fm_mandatory: api_machine finding_exec "\<lambda>m. catalog_inv m \<and> mandatory_inv m" not_register
  by unfold_locales (rule finding_exec_mandatory)

lemma reachable_findings_inv: "findings_inv (run_calls finding_exec cs (NewFindingManager c))"
  by (rule fm.run_inv) (simp_all add: findings_inv_def NewFindingManager_def lookup_finding_def)

lemma new_manager_mandatory: "catalog_inv (NewFindingManager None) \<and> mandatory_inv (NewFindingManager c)"
  by (auto simp: catalog_inv_def mandatory_inv_def NewFindingManager_def lookup_finding_def
      NewFindingRuleCatalog_def RegisterRule_def split: if_splits)

text \<open>A request for evaluations, and the manager after a finding was made and closed.\<close>

definition example_finding :: "string \<Rightarrow> FindingSeverity \<Rightarrow> string \<Rightarrow> string \<Rightarrow> FindingCreationRequest" where
  "example_finding rule severity control actor =
     \<lparr>fc_TenantID = ''ten_a'', fc_FindingID = ''fnd1'', fc_ExecutionID = ''exe1'', fc_QuestionID = ''qst1'',
      fc_ResponseID = ''rsp1'', fc_RecurrenceID = [], fc_RuleID = rule, fc_RuleVersion = ''1.0.0'',
      fc_Title = ''Blocked exit'', fc_Description = [], fc_SeverityInput = severity, fc_CriticalFlag = False,
      fc_ImmediateControl = control, fc_Actor = actor, fc_ActorRole = ''INSPECTOR'', fc_EvidenceIDs = []\<rparr>"

definition example_finding_calls :: "finding_call list" where
  "example_finding_calls =
     [CallCreateFinding (example_finding ''RULE-FND-FIRE-EXIT-BLOCKED'' (SeverityOther []) ''area closed'' ''ann'') 10,
      CallTransitionState ''ten_a'' ''fnd1'' FindingStateClosed ''bob'' ''supervisor'' ''cleared'' 20]"

lemmas finding_eval = example_finding_def example_finding_calls_def NewFindingManager_def
  NewFindingRuleCatalog_def RegisterRule_def CurrentRuleMatrixVersion_def CreateFinding_def
  resolve_finding_def GetRule_def new_finding_def lookup_finding_def finding_method_defs
  with_finding_def TransitionState_body_def UpdateSeverity_body_def UpdateCriticalFlag_body_def
  audit_finding_def is_ai_def isHumanClosureAuthorized_def isSupervisorRole_def eval_defs

lemma example_finding_closed:
  "\<exists>rec. lookup_finding (run_calls finding_exec example_finding_calls (NewFindingManager None)) ''ten_a'' ''fnd1'' = Some rec \<and>
     fr_State rec = FindingStateClosed \<and> fr_CriticalFlag rec \<and> fr_RuleID rec = ''RULE-FND-FIRE-EXIT-BLOCKED''"
  by (simp add: finding_eval)

subsection \<open>Properties\<close>

text \<open>
  (C12) A finding that is CLOSED, in any reachable manager, was closed by an actor whose role has
  human closure authority and who is not recognised as an autonomous agent, with a non-blank
  rationale; the closing entry is the last of its history and agrees with the closure fields, and the
  state changes recorded in the history form a path from creation to CLOSED.
\<close>

theorem closed_finding_human_authority:
  assumes "lookup_finding (run_calls finding_exec cs (NewFindingManager c)) t f = Some rec"
    and "fr_State rec = FindingStateClosed"
  shows "fa_ToState (last (fr_History rec)) = FindingStateClosed \<and>
    isHumanClosureAuthorized (fa_ActorRole (last (fr_History rec))) \<and>
    \<not> is_ai (fa_Actor (last (fr_History rec))) (fa_ActorRole (last (fr_History rec))) \<and>
    fr_ClosedBy rec = fa_Actor (last (fr_History rec)) \<and>
    fr_ClosedAt rec = Some (fa_Timestamp (last (fr_History rec))) \<and>
    TrimSpace (fr_ClosureRationale rec) \<noteq> [] \<and>
    linked (FindingStateOther []) (state_edges (fr_History rec)) FindingStateClosed"
proof -
  have "finding_inv t f rec" using reachable_findings_inv assms(1) by (simp add: findings_inv_def)
  with assms(2) show ?thesis
    by (auto simp: finding_inv_def finding_closure_inv_def Let_def split: option.splits)
qed

text \<open>A CLOSED finding is never changed again, by any sequence of calls, rule registrations included.\<close>

theorem closed_finding_immutable:
  assumes "findings_inv m" and "lookup_finding m t f = Some rec" and "fr_State rec = FindingStateClosed"
  shows "lookup_finding (run_calls finding_exec cs m) t f = Some rec"
  using fm_final.run_final [OF assms(1), of cs "(t, f)" rec] assms by simp

text \<open>
  \<open>UpdateSeverity\<close> on an existing finding succeeds exactly when the finding is not closed, the
  new severity is one of the four levels, the actor is not an autonomous agent and, for a lower
  level, the role is supervisory and a rationale is given; it then sets the severity and appends one
  history entry, and touches no other finding.
\<close>

theorem UpdateSeverity_succeeds_iff:
  assumes "lookup_finding m (TrimSpace t) (TrimSpace f) = Some rec"
    and "UpdateSeverity t f s actor actorRole why now m = (m', res)"
  shows "(res = Inr () \<longleftrightarrow>
      fr_State rec \<noteq> FindingStateClosed \<and> s \<in> {SeverityLow, SeverityMedium, SeverityHigh, SeverityCritical} \<and>
      \<not> is_ai actor actorRole \<and>
      (severityRank s < severityRank (fr_Severity rec) \<longrightarrow> isSupervisorRole actorRole \<and> TrimSpace why \<noteq> [])) \<and>
    (if res = Inr () then
       \<exists>rec' h. lookup_finding m' (TrimSpace t) (TrimSpace f) = Some rec' \<and> fr_Severity rec' = s \<and>
         fr_History rec' = fr_History rec @ [h] \<and>
         (\<forall>t' f'. (t', f') \<noteq> (TrimSpace t, TrimSpace f) \<longrightarrow> lookup_finding m' t' f' = lookup_finding m t' f')
     else m' = m)"
proof -
  have "severityRank s = 0 \<longleftrightarrow> s \<notin> {SeverityLow, SeverityMedium, SeverityHigh, SeverityCritical}"
    by (cases s) auto
  then have body: "(\<exists>rec'. UpdateSeverity_body s actor actorRole why now rec = Inr rec') \<longleftrightarrow>
      fr_State rec \<noteq> FindingStateClosed \<and> s \<in> {SeverityLow, SeverityMedium, SeverityHigh, SeverityCritical} \<and>
      \<not> is_ai actor actorRole \<and>
      (severityRank s < severityRank (fr_Severity rec) \<longrightarrow> isSupervisorRole actorRole \<and> TrimSpace why \<noteq> [])"
    by (auto simp: UpdateSeverity_body_def)
  from assms(2) have w: "with_finding t f (UpdateSeverity_body s actor actorRole why now) m = (m', res)"
    by (simp add: UpdateSeverity_def)
  then show ?thesis
  proof (cases rule: with_finding_cases)
    case (denied e)
    with w assms(1) have "\<not> (\<exists>rec'. UpdateSeverity_body s actor actorRole why now rec = Inr rec')"
      by (auto simp: with_finding_def lookup_finding_def split: option.splits sum.splits)
    with denied body show ?thesis by auto
  next
    case (updated rec0 rec')
    with assms(1) have b: "UpdateSeverity_body s actor actorRole why now rec = Inr rec'" by simp
    then have "fr_Severity rec' = s" "\<exists>h. fr_History rec' = fr_History rec @ [h]"
      by (auto simp: UpdateSeverity_body_def audit_finding_def split: if_splits)
    with updated b body show ?thesis by auto
  qed
qed

text \<open>
  Mandatory criticality cannot be removed: starting from the default catalog and as long as no
  rule is registered, every finding made under a rule marked mandatory-critical is flagged
  critical, whatever calls were made on it.
\<close>

theorem mandatory_critical_kept:
  assumes "list_all not_register cs" and "m = run_calls finding_exec cs (NewFindingManager None)"
    and "lookup_finding m t f = Some rec" and "catalog m (fr_RuleID rec) = Some rule"
    and "rule_MandatoryCritical rule"
  shows "fr_CriticalFlag rec"
  using fm_mandatory.run_inv [OF _ assms(1), of "NewFindingManager None"] new_manager_mandatory assms(2-5)
  unfolding mandatory_inv_def by blast

text \<open>
  The ban on classification by autonomous agents covers creation only while the severity is left
  blank: an agent that states a severity, here LOW under a rule whose default is HIGH, is accepted.
\<close>

theorem ai_agent_classifies_finding:
  "is_ai ''ai_agent_7'' ''INSPECTOR'' \<and>
   (\<exists>m rec. CreateFinding (example_finding ''RULE-FND-EXTINGUISHER-DEFECT'' SeverityLow ''tagged'' ''ai_agent_7'') 10
      (NewFindingManager None) = (m, Inr rec) \<and> fr_Severity rec = SeverityLow \<and> fr_CreatedBy rec = ''ai_agent_7'')"
  by (simp add: finding_eval)

text \<open>
  The immediate-control note is demanded for critical findings and for rules that ask for it,
  not for high severity as such: a HIGH finding without a note is accepted.
\<close>

theorem high_severity_without_immediate_control:
  "\<exists>m rec. CreateFinding (example_finding ''RULE-FND-PPE-NONCOMPLIANCE'' SeverityHigh [] ''ann'') 10
      (NewFindingManager None) = (m, Inr rec) \<and> fr_Severity rec = SeverityHigh \<and> fr_ImmediateControl rec = []"
  by (simp add: finding_eval)

subsection \<open>Witnesses\<close>

theorem closed_finding_human_authority_witness:
  "\<exists>rec. lookup_finding (run_calls finding_exec example_finding_calls (NewFindingManager None)) ''ten_a'' ''fnd1'' = Some rec \<and>
     isHumanClosureAuthorized (fa_ActorRole (last (fr_History rec)))"
  using example_finding_closed closed_finding_human_authority by blast

theorem closed_finding_immutable_witness:
  "\<exists>rec. fr_State rec = FindingStateClosed \<and>
     lookup_finding (run_calls finding_exec [CallTransitionState ''ten_a'' ''fnd1'' FindingStateOpen ''bob'' ''owner'' ''x'' 30]
       (run_calls finding_exec example_finding_calls (NewFindingManager None))) ''ten_a'' ''fnd1'' = Some rec"
  using example_finding_closed closed_finding_immutable [OF reachable_findings_inv] by blast

theorem UpdateSeverity_succeeds_iff_witness:
  "\<exists>m' res. UpdateSeverity ''ten_a'' ''fnd1'' SeverityLow ''bob'' ''supervisor'' ''overrated'' 15
      (run_calls finding_exec (take 1 example_finding_calls) (NewFindingManager None)) = (m', res) \<and> res = Inr ()"
proof -
  let ?m = "run_calls finding_exec (take 1 example_finding_calls) (NewFindingManager None)"
  obtain rec where r: "lookup_finding ?m ''ten_a'' ''fnd1'' = Some rec" "fr_State rec = FindingStateOpen"
    by (simp add: finding_eval)
  obtain m' res where u: "UpdateSeverity ''ten_a'' ''fnd1'' SeverityLow ''bob'' ''supervisor'' ''overrated'' 15 ?m = (m', res)"
    by fastforce
  have "\<not> is_ai ''bob'' ''supervisor''" "isSupervisorRole ''supervisor''" by (simp_all add: finding_eval)
  then show ?thesis
    using UpdateSeverity_succeeds_iff [of ?m "''ten_a''" "''fnd1''" rec SeverityLow "''bob''" "''supervisor''"
        "''overrated''" 15 m' res] r u by auto
qed

theorem mandatory_critical_kept_witness:
  "\<exists>rec. lookup_finding (run_calls finding_exec example_finding_calls (NewFindingManager None)) ''ten_a'' ''fnd1'' = Some rec \<and>
     fr_CriticalFlag rec"
proof -
  let ?m = "run_calls finding_exec example_finding_calls (NewFindingManager None)"
  obtain rec where r: "lookup_finding ?m ''ten_a'' ''fnd1'' = Some rec" "fr_RuleID rec = ''RULE-FND-FIRE-EXIT-BLOCKED''"
    using example_finding_closed by blast
  moreover obtain rule where "catalog ?m ''RULE-FND-FIRE-EXIT-BLOCKED'' = Some rule" "rule_MandatoryCritical rule"
    by (simp add: finding_eval)
  moreover have "list_all not_register example_finding_calls" by (simp add: example_finding_calls_def)
  ultimately show ?thesis using mandatory_critical_kept [of example_finding_calls ?m] by auto
qed

end
