(* ===== verification/Action_Governance.thy ===== *)
theory Action_Governance
  imports Action_Lifecycle
begin

text \<open>
  Governance of corrective actions, \<open>modules/workflow-action/action_governance.go\<close>: custody, due-date
  extensions, escalations and evidence review under optimistic concurrency. The eight mutating
  methods share their prologue (trimmed identifiers, lookup, terminal state, state version) and
  their epilogue (next state version, update time, copy of the action); \<open>governed\<close> is that frame and
  each method is the frame around its own body. The due dates of the code are compared as instants.
\<close>

subsection \<open>Definitions\<close>

datatype ExtensionStatus =
  ExtensionStatusPending | ExtensionStatusApproved | ExtensionStatusRejected | ExtensionStatusOther string

datatype EscalationStatus =
  EscalationStatusPending | EscalationStatusAcknowledged | EscalationStatusResolved | EscalationStatusOther string

datatype EvidenceReviewStatus =
  EvidenceStatusSubmitted | EvidenceStatusAccepted | EvidenceStatusRejected | EvidenceStatusOther string

record OwnershipRecord =
  or_OwnerSubject :: string
  or_OwnerRole :: string
  or_AssignedBy :: string
  or_AssignedAt :: gotime
  or_RevocationReason :: string
  or_RevokedAt :: gotime
  or_IsActive :: bool

record ExtensionRequest =
  xr_RequestID :: string
  xr_ActionID :: string
  xr_RequestedBy :: string
  xr_RequestedAt :: gotime
  xr_CurrentDueDate :: gotime
  xr_RequestedDueDate :: gotime
  xr_Reason :: string
  xr_Status :: ExtensionStatus
  xr_ReviewedBy :: string
  xr_ReviewedAt :: gotime
  xr_ReviewNotes :: string

record EscalationRequest =
  er_RequestID :: string
  er_ActionID :: string
  er_EscalatedBy :: string
  er_EscalatedAt :: gotime
  er_TargetLevel :: string
  er_Reason :: string
  er_Status :: EscalationStatus
  er_AcknowledgedBy :: string
  er_AcknowledgedAt :: gotime
  er_ResolutionNotes :: string

record GovernedEvidence =
  ge_EvidenceID :: string
  ge_ActionID :: string
  ge_Digest :: string
  ge_MediaType :: string
  ge_SubmittedBy :: string
  ge_SubmittedAt :: gotime
  ge_Description :: string
  ge_Status :: EvidenceReviewStatus
  ge_ReviewedBy :: string
  ge_ReviewedAt :: gotime
  ge_ReviewNotes :: string

record GovernedAction =
  ga_ActionID :: string
  ga_TenantID :: string
  ga_FindingID :: string
  ga_Title :: string
  ga_State :: ActionState
  ga_CurrentOwner :: string
  ga_CurrentOwnerRole :: string
  ga_DueDate :: gotime
  ga_StateVersion :: int64
  ga_OwnershipHistory :: "OwnershipRecord list"
  ga_ExtensionRequests :: "ExtensionRequest list"
  ga_EscalationRequests :: "EscalationRequest list"
  ga_EvidenceList :: "GovernedEvidence list"
  ga_RequiredEvidenceCount :: int
  ga_CreatedAt :: gotime
  ga_UpdatedAt :: gotime

type_synonym ActionGovernanceEngine = "actionKey \<rightharpoonup> GovernedAction"

definition NewActionGovernanceEngine :: ActionGovernanceEngine where
  "NewActionGovernanceEngine = Map.empty"

definition new_owner :: "string \<Rightarrow> string \<Rightarrow> string \<Rightarrow> gotime \<Rightarrow> OwnershipRecord" where
  "new_owner subject role assignedBy now =
     \<lparr>or_OwnerSubject = subject, or_OwnerRole = role, or_AssignedBy = assignedBy, or_AssignedAt = now,
      or_RevocationReason = [], or_RevokedAt = 0, or_IsActive = True\<rparr>"

definition registered :: "string \<Rightarrow> GovernedAction \<Rightarrow> gotime \<Rightarrow> GovernedAction" where
  "registered tTenant act now =
     act\<lparr>ga_TenantID := tTenant,
         ga_CreatedAt := (if IsZero (ga_CreatedAt act) then now else ga_CreatedAt act),
         ga_UpdatedAt := now,
         ga_StateVersion := (if ga_StateVersion act = 0 then 1 else ga_StateVersion act),
         ga_OwnershipHistory :=
           (if ga_CurrentOwner act \<noteq> [] \<and> ga_OwnershipHistory act = []
            then [new_owner (ga_CurrentOwner act) (ga_CurrentOwnerRole act) ''SYSTEM_INITIAL'' now]
            else ga_OwnershipHistory act)\<rparr>"

definition RegisterAction ::
  "string \<Rightarrow> GovernedAction \<Rightarrow> gotime \<Rightarrow> ActionGovernanceEngine \<Rightarrow>
   (ActionGovernanceEngine, wfa_error, unit) outcome" where
  "RegisterAction trustedTenantID act now e =
     (let tTenant = TrimSpace trustedTenantID; actTenant = TrimSpace (ga_TenantID act);
          aid = TrimSpace (ga_ActionID act)
      in if tTenant = [] then (e, Inl ErrBlankTenantID)
      else if actTenant \<noteq> [] \<and> actTenant \<noteq> tTenant then (e, Inl ErrCrossTenantDenied)
      else if aid = [] then (e, Inl ErrBlankActionID)
      else if e (tTenant, aid) \<noteq> None then (e, Inl ErrDuplicateActionID)
      else (e((tTenant, aid) \<mapsto> registered tTenant act now), Inr ()))"

definition GetGovernedAction ::
  "string \<Rightarrow> string \<Rightarrow> ActionGovernanceEngine \<Rightarrow> wfa_error + GovernedAction" where
  "GetGovernedAction tenantID actionID e =
     (let tTenant = TrimSpace tenantID; tID = TrimSpace actionID in
      if tTenant = [] then Inl ErrBlankTenantID
      else if tID = [] then Inl ErrBlankActionID
      else case e (tTenant, tID) of None \<Rightarrow> Inl ErrActionNotFound | Some act \<Rightarrow> Inr act)"

text \<open>The frame of a mutating method: guards first, then the body, then the version and the time.\<close>

definition governed_entry ::
  "int64 \<Rightarrow> gotime \<Rightarrow> (GovernedAction \<Rightarrow> wfa_error + GovernedAction) \<Rightarrow> GovernedAction \<Rightarrow>
   wfa_error + GovernedAction \<times> GovernedAction" where
  "governed_entry expectedVersion now body act =
     (if ga_State act = ActionStateClosed then Inl ErrActionTerminalState
      else if ga_StateVersion act \<noteq> expectedVersion then Inl ErrConcurrentModification
      else case body act of
        Inl e \<Rightarrow> Inl e
      | Inr act' \<Rightarrow>
          (let act'' = act'\<lparr>ga_StateVersion := ga_StateVersion act' + 1, ga_UpdatedAt := now\<rparr>
           in Inr (act'', act'')))"

definition governed ::
  "string \<Rightarrow> string \<Rightarrow> int64 \<Rightarrow> gotime \<Rightarrow> (GovernedAction \<Rightarrow> wfa_error + GovernedAction) \<Rightarrow>
   ActionGovernanceEngine \<Rightarrow> (ActionGovernanceEngine, wfa_error, GovernedAction) outcome" where
  "governed tenantID actionID expectedVersion now body e =
     (let tTenant = TrimSpace tenantID; tID = TrimSpace actionID in
      if tTenant = [] then (e, Inl ErrBlankTenantID)
      else if tID = [] then (e, Inl ErrBlankActionID)
      else on_entry e (tTenant, tID) ErrActionNotFound (governed_entry expectedVersion now body))"

definition deactivate :: "string \<Rightarrow> gotime \<Rightarrow> OwnershipRecord list \<Rightarrow> OwnershipRecord list" where
  "deactivate reason now =
     map (\<lambda>r. if or_IsActive r
              then r\<lparr>or_IsActive := False, or_RevokedAt := now, or_RevocationReason := reason\<rparr> else r)"

definition ReassignOwner_body ::
  "string \<Rightarrow> string \<Rightarrow> string \<Rightarrow> string \<Rightarrow> gotime \<Rightarrow> GovernedAction \<Rightarrow> wfa_error + GovernedAction" where
  "ReassignOwner_body newOwner newRole callerSubject reason now act =
     (if TrimSpace newOwner = [] \<or> TrimSpace reason = [] then Inl ErrBlankReason
      else Inr (act\<lparr>ga_OwnershipHistory :=
                      deactivate (''REASSIGNED: '' @ reason) now (ga_OwnershipHistory act)
                        @ [new_owner newOwner newRole callerSubject now],
                    ga_CurrentOwner := newOwner, ga_CurrentOwnerRole := newRole\<rparr>))"

definition ReassignOwner ::
  "string \<Rightarrow> string \<Rightarrow> string \<Rightarrow> string \<Rightarrow> string \<Rightarrow> string \<Rightarrow> int64 \<Rightarrow> gotime \<Rightarrow> ActionGovernanceEngine \<Rightarrow>
   (ActionGovernanceEngine, wfa_error, GovernedAction) outcome" where
  "ReassignOwner tenantID actionID newOwner newRole callerSubject reason expectedVersion now =
     governed tenantID actionID expectedVersion now (ReassignOwner_body newOwner newRole callerSubject reason now)"

definition RevokeOwner_body :: "string \<Rightarrow> string \<Rightarrow> gotime \<Rightarrow> GovernedAction \<Rightarrow> wfa_error + GovernedAction" where
  "RevokeOwner_body callerSubject reason now act =
     (if TrimSpace reason = [] then Inl ErrBlankReason
      else if ga_CurrentOwner act = [] then Inl ErrNoActiveOwner
      else Inr (act\<lparr>ga_OwnershipHistory :=
                      deactivate (''REVOKED_BY_'' @ callerSubject @ '': '' @ reason) now (ga_OwnershipHistory act),
                    ga_CurrentOwner := [], ga_CurrentOwnerRole := []\<rparr>))"

definition RevokeOwner ::
  "string \<Rightarrow> string \<Rightarrow> string \<Rightarrow> string \<Rightarrow> int64 \<Rightarrow> gotime \<Rightarrow> ActionGovernanceEngine \<Rightarrow>
   (ActionGovernanceEngine, wfa_error, GovernedAction) outcome" where
  "RevokeOwner tenantID actionID callerSubject reason expectedVersion now =
     governed tenantID actionID expectedVersion now (RevokeOwner_body callerSubject reason now)"

definition RequestExtension_body :: "ExtensionRequest \<Rightarrow> gotime \<Rightarrow> GovernedAction \<Rightarrow> wfa_error + GovernedAction" where
  "RequestExtension_body req now act =
     (if TrimSpace (xr_RequestID req) = [] then Inl (ErrorsNew ''request ID cannot be blank'')
      else if TrimSpace (xr_Reason req) = [] then Inl ErrBlankReason
      else if \<not> After (xr_RequestedDueDate req) (ga_DueDate act) then Inl ErrInvalidDueDateExtension
      else if \<exists>existing\<in>set (ga_ExtensionRequests act). xr_RequestID existing = xr_RequestID req
      then Inl ErrDuplicateRequestID
      else Inr (act\<lparr>ga_ExtensionRequests := ga_ExtensionRequests act @
                  [req\<lparr>xr_RequestedAt := now, xr_CurrentDueDate := ga_DueDate act,
                       xr_Status := ExtensionStatusPending\<rparr>]\<rparr>))"

definition RequestExtension ::
  "string \<Rightarrow> ExtensionRequest \<Rightarrow> int64 \<Rightarrow> gotime \<Rightarrow> ActionGovernanceEngine \<Rightarrow>
   (ActionGovernanceEngine, wfa_error, GovernedAction) outcome" where
  "RequestExtension tenantID req expectedVersion now =
     governed tenantID (xr_ActionID req) expectedVersion now (RequestExtension_body req now)"

definition ReviewExtension_body ::
  "string \<Rightarrow> string \<Rightarrow> bool \<Rightarrow> string \<Rightarrow> gotime \<Rightarrow> GovernedAction \<Rightarrow> wfa_error + GovernedAction" where
  "ReviewExtension_body requestID reviewerSubject approve notes now act =
     (case find_index (\<lambda>ext. xr_RequestID ext = requestID) (ga_ExtensionRequests act) of
        None \<Rightarrow> Inl ErrExtensionNotFound
      | Some targetIdx \<Rightarrow>
          (let ext = ga_ExtensionRequests act ! targetIdx;
               ext' = ext\<lparr>xr_ReviewedBy := reviewerSubject, xr_ReviewedAt := now, xr_ReviewNotes := notes,
                          xr_Status := (if approve then ExtensionStatusApproved else ExtensionStatusRejected)\<rparr>
           in if xr_Status ext \<noteq> ExtensionStatusPending
           then Inl (ErrorsNew ''extension request is not in pending status'')
           else if reviewerSubject = xr_RequestedBy ext \<or> reviewerSubject = ga_CurrentOwner act
           then Inl ErrSelfApprovalProhibited
           else Inr (act\<lparr>ga_ExtensionRequests := (ga_ExtensionRequests act)[targetIdx := ext'],
                         ga_DueDate := (if approve then xr_RequestedDueDate ext else ga_DueDate act)\<rparr>)))"

definition ReviewExtension ::
  "string \<Rightarrow> string \<Rightarrow> string \<Rightarrow> string \<Rightarrow> bool \<Rightarrow> string \<Rightarrow> int64 \<Rightarrow> gotime \<Rightarrow> ActionGovernanceEngine \<Rightarrow>
   (ActionGovernanceEngine, wfa_error, GovernedAction) outcome" where
  "ReviewExtension tenantID actionID requestID reviewerSubject approve notes expectedVersion now =
     governed tenantID actionID expectedVersion now
       (ReviewExtension_body requestID reviewerSubject approve notes now)"

definition RequestEscalation_body :: "EscalationRequest \<Rightarrow> gotime \<Rightarrow> GovernedAction \<Rightarrow> wfa_error + GovernedAction" where
  "RequestEscalation_body req now act =
     (if TrimSpace (er_RequestID req) = [] then Inl (ErrorsNew ''request ID cannot be blank'')
      else if TrimSpace (er_Reason req) = [] then Inl ErrBlankReason
      else if \<exists>existing\<in>set (ga_EscalationRequests act). er_RequestID existing = er_RequestID req
      then Inl ErrDuplicateRequestID
      else Inr (act\<lparr>ga_EscalationRequests := ga_EscalationRequests act @
                  [req\<lparr>er_EscalatedAt := now, er_Status := EscalationStatusPending\<rparr>]\<rparr>))"

definition RequestEscalation ::
  "string \<Rightarrow> EscalationRequest \<Rightarrow> int64 \<Rightarrow> gotime \<Rightarrow> ActionGovernanceEngine \<Rightarrow>
   (ActionGovernanceEngine, wfa_error, GovernedAction) outcome" where
  "RequestEscalation tenantID req expectedVersion now =
     governed tenantID (er_ActionID req) expectedVersion now (RequestEscalation_body req now)"

definition AcknowledgeEscalation_body ::
  "string \<Rightarrow> string \<Rightarrow> string \<Rightarrow> gotime \<Rightarrow> GovernedAction \<Rightarrow> wfa_error + GovernedAction" where
  "AcknowledgeEscalation_body requestID reviewerSubject notes now act =
     (case find_index (\<lambda>esc. er_RequestID esc = requestID) (ga_EscalationRequests act) of
        None \<Rightarrow> Inl ErrEscalationNotFound
      | Some targetIdx \<Rightarrow>
          (let esc = ga_EscalationRequests act ! targetIdx;
               esc' = esc\<lparr>er_AcknowledgedBy := reviewerSubject, er_AcknowledgedAt := now,
                          er_ResolutionNotes := notes, er_Status := EscalationStatusAcknowledged\<rparr>
           in if er_Status esc \<noteq> EscalationStatusPending
           then Inl (ErrorsNew ''escalation request is not in pending status'')
           else if reviewerSubject = er_EscalatedBy esc \<or> reviewerSubject = ga_CurrentOwner act
           then Inl ErrSelfApprovalProhibited
           else Inr (act\<lparr>ga_EscalationRequests := (ga_EscalationRequests act)[targetIdx := esc']\<rparr>)))"

definition AcknowledgeEscalation ::
  "string \<Rightarrow> string \<Rightarrow> string \<Rightarrow> string \<Rightarrow> string \<Rightarrow> int64 \<Rightarrow> gotime \<Rightarrow> ActionGovernanceEngine \<Rightarrow>
   (ActionGovernanceEngine, wfa_error, GovernedAction) outcome" where
  "AcknowledgeEscalation tenantID actionID requestID reviewerSubject notes expectedVersion now =
     governed tenantID actionID expectedVersion now
       (AcknowledgeEscalation_body requestID reviewerSubject notes now)"

definition SubmitEvidence_body ::
  "string \<Rightarrow> GovernedEvidence \<Rightarrow> gotime \<Rightarrow> GovernedAction \<Rightarrow> wfa_error + GovernedAction" where
  "SubmitEvidence_body actionID ev now act =
     (if TrimSpace (ge_EvidenceID ev) = [] then Inl (ErrorsNew ''evidence ID cannot be blank'')
      else if TrimSpace (ge_Digest ev) = [] then Inl (ErrorsNew ''evidence digest cannot be blank'')
      else if \<exists>existing\<in>set (ga_EvidenceList act). ge_EvidenceID existing = ge_EvidenceID ev
      then Inl ErrDuplicateEvidenceID
      else Inr (act\<lparr>ga_EvidenceList := ga_EvidenceList act @
                  [ev\<lparr>ge_ActionID := actionID, ge_SubmittedAt := now, ge_Status := EvidenceStatusSubmitted\<rparr>]\<rparr>))"

definition SubmitEvidence ::
  "string \<Rightarrow> string \<Rightarrow> GovernedEvidence \<Rightarrow> int64 \<Rightarrow> gotime \<Rightarrow> ActionGovernanceEngine \<Rightarrow>
   (ActionGovernanceEngine, wfa_error, GovernedAction) outcome" where
  "SubmitEvidence tenantID actionID ev expectedVersion now =
     governed tenantID actionID expectedVersion now (SubmitEvidence_body actionID ev now)"

definition ReviewEvidence_body ::
  "string \<Rightarrow> string \<Rightarrow> bool \<Rightarrow> string \<Rightarrow> gotime \<Rightarrow> GovernedAction \<Rightarrow> wfa_error + GovernedAction" where
  "ReviewEvidence_body evidenceID reviewerSubject accept notes now act =
     (case find_index (\<lambda>ev. ge_EvidenceID ev = evidenceID) (ga_EvidenceList act) of
        None \<Rightarrow> Inl ErrEvidenceNotFound
      | Some targetIdx \<Rightarrow>
          (let ev = ga_EvidenceList act ! targetIdx;
               ev' = ev\<lparr>ge_ReviewedBy := reviewerSubject, ge_ReviewedAt := now, ge_ReviewNotes := notes,
                        ge_Status := (if accept then EvidenceStatusAccepted else EvidenceStatusRejected)\<rparr>
           in if ge_Status ev \<noteq> EvidenceStatusSubmitted
           then Inl (ErrorsNew ''evidence item is not in submitted status'')
           else if reviewerSubject = ge_SubmittedBy ev \<or> reviewerSubject = ga_CurrentOwner act
           then Inl ErrSelfApprovalProhibited
           else Inr (act\<lparr>ga_EvidenceList := (ga_EvidenceList act)[targetIdx := ev']\<rparr>)))"

definition ReviewEvidence ::
  "string \<Rightarrow> string \<Rightarrow> string \<Rightarrow> string \<Rightarrow> bool \<Rightarrow> string \<Rightarrow> int64 \<Rightarrow> gotime \<Rightarrow> ActionGovernanceEngine \<Rightarrow>
   (ActionGovernanceEngine, wfa_error, GovernedAction) outcome" where
  "ReviewEvidence tenantID actionID evidenceID reviewerSubject accept notes expectedVersion now =
     governed tenantID actionID expectedVersion now
       (ReviewEvidence_body evidenceID reviewerSubject accept notes now)"

definition AcceptedEvidenceCount :: "GovernedAction \<Rightarrow> nat" where
  "AcceptedEvidenceCount a = length (filter (\<lambda>ev. ge_Status ev = EvidenceStatusAccepted) (ga_EvidenceList a))"

datatype governance_op =
  OpReassignOwner string string string string
| OpRevokeOwner string string
| OpRequestExtension ExtensionRequest
| OpReviewExtension string string bool string
| OpRequestEscalation EscalationRequest
| OpAcknowledgeEscalation string string string
| OpSubmitEvidence GovernedEvidence
| OpReviewEvidence string string bool string

text \<open>
  A call is a registration or one of the eight mutating methods with the tenant, the action, the
  expected version and the time it reads.
\<close>

datatype governance_call =
  CallRegisterAction string GovernedAction gotime
| CallGoverned string string int64 gotime governance_op

fun governance_method ::
  "string \<Rightarrow> string \<Rightarrow> int64 \<Rightarrow> gotime \<Rightarrow> governance_op \<Rightarrow> ActionGovernanceEngine \<Rightarrow>
   (ActionGovernanceEngine, wfa_error, GovernedAction) outcome" where
  "governance_method t a v now (OpReassignOwner newOwner newRole caller reason) =
     ReassignOwner t a newOwner newRole caller reason v now"
| "governance_method t a v now (OpRevokeOwner caller reason) = RevokeOwner t a caller reason v now"
| "governance_method t a v now (OpRequestExtension req) = RequestExtension t (req\<lparr>xr_ActionID := a\<rparr>) v now"
| "governance_method t a v now (OpReviewExtension rid reviewer approve notes) =
     ReviewExtension t a rid reviewer approve notes v now"
| "governance_method t a v now (OpRequestEscalation req) = RequestEscalation t (req\<lparr>er_ActionID := a\<rparr>) v now"
| "governance_method t a v now (OpAcknowledgeEscalation rid reviewer notes) =
     AcknowledgeEscalation t a rid reviewer notes v now"
| "governance_method t a v now (OpSubmitEvidence ev) = SubmitEvidence t a ev v now"
| "governance_method t a v now (OpReviewEvidence eid reviewer accept notes) =
     ReviewEvidence t a eid reviewer accept notes v now"

fun governance_exec ::
  "governance_call \<Rightarrow> ActionGovernanceEngine \<Rightarrow> (ActionGovernanceEngine, wfa_error, unit) outcome" where
  "governance_exec (CallRegisterAction t act now) e = RegisterAction t act now e"
| "governance_exec (CallGoverned t a v now op) e = discard (governance_method t a v now op e)"

text \<open>
  The invariant of a governed action: request and evidence identifiers are distinct; whoever decided
  an extension, an escalation or a piece of evidence is not the one who asked, and evidence has one of
  the three statuses of the code; the active custody
  record, if there is an owner, is exactly the last one and names the owner.
\<close>

definition duties_inv :: "GovernedAction \<Rightarrow> bool" where
  "duties_inv act \<longleftrightarrow>
     list_all (\<lambda>x. xr_Status x \<noteq> ExtensionStatusPending \<longrightarrow> xr_ReviewedBy x \<noteq> xr_RequestedBy x) (ga_ExtensionRequests act) \<and>
     list_all (\<lambda>x. er_Status x \<noteq> EscalationStatusPending \<longrightarrow> er_AcknowledgedBy x \<noteq> er_EscalatedBy x) (ga_EscalationRequests act) \<and>
     list_all (\<lambda>x. ge_Status x \<in> {EvidenceStatusSubmitted, EvidenceStatusAccepted, EvidenceStatusRejected} \<and>
         (ge_Status x \<noteq> EvidenceStatusSubmitted \<longrightarrow> ge_ReviewedBy x \<noteq> ge_SubmittedBy x)) (ga_EvidenceList act)"

definition ids_inv :: "GovernedAction \<Rightarrow> bool" where
  "ids_inv act \<longleftrightarrow>
     distinct (map xr_RequestID (ga_ExtensionRequests act)) \<and>
     distinct (map er_RequestID (ga_EscalationRequests act)) \<and>
     distinct (map ge_EvidenceID (ga_EvidenceList act))"

definition custody_inv :: "GovernedAction \<Rightarrow> bool" where
  "custody_inv act \<longleftrightarrow>
     (if ga_CurrentOwner act = [] then filter or_IsActive (ga_OwnershipHistory act) = []
      else \<exists>past r. ga_OwnershipHistory act = past @ [r] \<and> filter or_IsActive past = [] \<and> or_IsActive r \<and>
             or_OwnerSubject r = ga_CurrentOwner act \<and> or_OwnerRole r = ga_CurrentOwnerRole act)"

definition governed_inv :: "ActionGovernanceEngine \<Rightarrow> bool" where
  "governed_inv e \<longleftrightarrow> (\<forall>k act. e k = Some act \<longrightarrow> duties_inv act \<and> ids_inv act \<and> custody_inv act)"

text \<open>A registration as a fresh action, with no history of its own.\<close>

fun fresh_call :: "governance_call \<Rightarrow> bool" where
  "fresh_call (CallRegisterAction t act now) \<longleftrightarrow>
     ga_OwnershipHistory act = [] \<and> ga_ExtensionRequests act = [] \<and> ga_EscalationRequests act = [] \<and>
     ga_EvidenceList act = []"
| "fresh_call (CallGoverned t a v now op) \<longleftrightarrow> True"

definition custody :: "GovernedAction \<Rightarrow> (string \<times> string \<times> string \<times> gotime) list" where
  "custody act =
     map (\<lambda>r. (or_OwnerSubject r, or_OwnerRole r, or_AssignedBy r, or_AssignedAt r)) (ga_OwnershipHistory act)"

definition custody_journal ::
  "actionKey \<Rightarrow> ActionGovernanceEngine \<Rightarrow> (string \<times> string \<times> string \<times> gotime) list" where
  "custody_journal k e = (case e k of None \<Rightarrow> [] | Some act \<Rightarrow> custody act)"

subsection \<open>Bodies\<close>

text \<open>
  The contract of a body: identity, state and version are left to the frame, custody only grows, and
  the three parts of the invariant are kept.
\<close>

definition governed_body_ok :: "(GovernedAction \<Rightarrow> wfa_error + GovernedAction) \<Rightarrow> bool" where
  "governed_body_ok body \<longleftrightarrow>
     (\<forall>act act'. body act = Inr act' \<longrightarrow>
        ga_State act' = ga_State act \<and> ga_StateVersion act' = ga_StateVersion act \<and>
        ga_ActionID act' = ga_ActionID act \<and> ga_TenantID act' = ga_TenantID act \<and>
        prefix (custody act) (custody act') \<and>
        (duties_inv act \<longrightarrow> duties_inv act') \<and> (ids_inv act \<longrightarrow> ids_inv act') \<and>
        (custody_inv act \<longrightarrow> custody_inv act'))"

lemma deactivate_active [simp]: "filter or_IsActive (deactivate reason now rs) = []"
  by (auto simp: deactivate_def filter_empty_conv)

lemma deactivate_custody [simp]:
  "map (\<lambda>r. (or_OwnerSubject r, or_OwnerRole r, or_AssignedBy r, or_AssignedAt r)) (deactivate reason now rs) =
   map (\<lambda>r. (or_OwnerSubject r, or_OwnerRole r, or_AssignedBy r, or_AssignedAt r)) rs"
  by (auto simp: deactivate_def)

lemmas governed_inv_defs = duties_inv_def ids_inv_def custody_inv_def custody_def

lemma TrimSpace_Nil_neq: "TrimSpace s \<noteq> [] \<Longrightarrow> s \<noteq> []"
  by (rule notI) simp

lemma ReassignOwner_body_ok [simp]: "governed_body_ok (ReassignOwner_body o' r caller why now)"
proof -
  have "custody_inv act'" if "ReassignOwner_body o' r caller why now act = Inr act'" for act act'
  proof -
    from that have ne: "TrimSpace o' \<noteq> []"
      and act': "act' = act\<lparr>ga_OwnershipHistory := deactivate (''REASSIGNED: '' @ why) now (ga_OwnershipHistory act)
             @ [new_owner o' r caller now], ga_CurrentOwner := o', ga_CurrentOwnerRole := r\<rparr>"
      unfolding ReassignOwner_body_def by (metis Inl_Inr_False, metis Inl_Inr_False Inr_inject)
    from ne have "o' \<noteq> []" by (rule TrimSpace_Nil_neq)
    with act' show ?thesis by (simp add: custody_inv_def new_owner_def)
  qed
  then show ?thesis
    by (auto simp: governed_body_ok_def ReassignOwner_body_def duties_inv_def ids_inv_def custody_def split: if_splits)
qed

lemma RevokeOwner_body_ok [simp]: "governed_body_ok (RevokeOwner_body caller why now)"
  by (auto simp: governed_body_ok_def RevokeOwner_body_def governed_inv_defs split: if_splits)

lemma RequestExtension_body_ok [simp]: "governed_body_ok (RequestExtension_body req now)"
  by (auto simp: governed_body_ok_def RequestExtension_body_def governed_inv_defs split: if_splits)

lemma RequestEscalation_body_ok [simp]: "governed_body_ok (RequestEscalation_body req now)"
  by (auto simp: governed_body_ok_def RequestEscalation_body_def governed_inv_defs split: if_splits)

lemma SubmitEvidence_body_ok [simp]: "governed_body_ok (SubmitEvidence_body a ev now)"
  by (auto simp: governed_body_ok_def SubmitEvidence_body_def governed_inv_defs split: if_splits)

lemma ReviewExtension_body_ok [simp]: "governed_body_ok (ReviewExtension_body rid who approve notes now)"
  by (auto simp: governed_body_ok_def ReviewExtension_body_def governed_inv_defs Let_def guards guard_found
      list_all_update map_update_same dest!: find_index_Some)

lemma AcknowledgeEscalation_body_ok [simp]: "governed_body_ok (AcknowledgeEscalation_body rid who notes now)"
  by (auto simp: governed_body_ok_def AcknowledgeEscalation_body_def governed_inv_defs Let_def guards guard_found
      list_all_update map_update_same dest!: find_index_Some)

lemma ReviewEvidence_body_ok [simp]: "governed_body_ok (ReviewEvidence_body eid who accept notes now)"
  by (auto simp: governed_body_ok_def ReviewEvidence_body_def governed_inv_defs Let_def guards guard_found
      list_all_update map_update_same dest!: find_index_Some)

text \<open>Every mutating method is the frame around such a body.\<close>

fun op_body :: "string \<Rightarrow> gotime \<Rightarrow> governance_op \<Rightarrow> GovernedAction \<Rightarrow> wfa_error + GovernedAction" where
  "op_body a now (OpReassignOwner newOwner newRole caller reason) = ReassignOwner_body newOwner newRole caller reason now"
| "op_body a now (OpRevokeOwner caller reason) = RevokeOwner_body caller reason now"
| "op_body a now (OpRequestExtension req) = RequestExtension_body (req\<lparr>xr_ActionID := a\<rparr>) now"
| "op_body a now (OpReviewExtension rid reviewer approve notes) = ReviewExtension_body rid reviewer approve notes now"
| "op_body a now (OpRequestEscalation req) = RequestEscalation_body (req\<lparr>er_ActionID := a\<rparr>) now"
| "op_body a now (OpAcknowledgeEscalation rid reviewer notes) = AcknowledgeEscalation_body rid reviewer notes now"
| "op_body a now (OpSubmitEvidence ev) = SubmitEvidence_body a ev now"
| "op_body a now (OpReviewEvidence eid reviewer accept notes) = ReviewEvidence_body eid reviewer accept notes now"

lemmas governance_method_defs = ReassignOwner_def RevokeOwner_def RequestExtension_def ReviewExtension_def
  RequestEscalation_def AcknowledgeEscalation_def SubmitEvidence_def ReviewEvidence_def

lemma governance_method_governed: "governance_method t a v now op = governed t a v now (op_body a now op)"
  by (cases op) (simp_all add: governance_method_defs fun_eq_iff)

lemma op_body_ok [simp]: "governed_body_ok (op_body a now op)"
  by (cases op) simp_all

subsection \<open>Methods\<close>

lemma governed_cases:
  assumes "governed t a v now body e = (e', res)"
  obtains (denied) err where "e' = e" "res = Inl err"
  | (updated) act act' act'' where "e (TrimSpace t, TrimSpace a) = Some act" "ga_State act \<noteq> ActionStateClosed"
      "ga_StateVersion act = v" "body act = Inr act'"
      "act'' = act'\<lparr>ga_StateVersion := ga_StateVersion act' + 1, ga_UpdatedAt := now\<rparr>"
      "e' = e((TrimSpace t, TrimSpace a) \<mapsto> act'')" "res = Inr act''"
proof -
  from assms consider (err) err where "e' = e" "res = Inl err"
    | (entry) "on_entry e (TrimSpace t, TrimSpace a) ErrActionNotFound (governed_entry v now body) = (e', res)"
    unfolding governed_def Let_def by (metis prod.inject)
  then show thesis
  proof cases
    case err
    then show thesis by (rule denied)
  next
    case entry
    then show thesis
    proof (cases rule: on_entry_cases)
      case (ok act act'' r)
      then obtain act' where "body act = Inr act'" "ga_State act \<noteq> ActionStateClosed" "ga_StateVersion act = v"
        "act'' = act'\<lparr>ga_StateVersion := ga_StateVersion act' + 1, ga_UpdatedAt := now\<rparr>" "r = act''"
        by (auto simp: governed_entry_def Let_def split: if_splits sum.splits)
      with ok show thesis using updated [of act act' act''] by simp
    qed (use denied in blast)+
  qed
qed

lemma frame_update_inv [simp]:
  "duties_inv (act\<lparr>ga_StateVersion := v, ga_UpdatedAt := now\<rparr>) \<longleftrightarrow> duties_inv act"
  "ids_inv (act\<lparr>ga_StateVersion := v, ga_UpdatedAt := now\<rparr>) \<longleftrightarrow> ids_inv act"
  "custody_inv (act\<lparr>ga_StateVersion := v, ga_UpdatedAt := now\<rparr>) \<longleftrightarrow> custody_inv act"
  "custody (act\<lparr>ga_StateVersion := v, ga_UpdatedAt := now\<rparr>) = custody act"
  by (simp_all add: governed_inv_defs)

lemma registered_inv:
  assumes "fresh_call (CallRegisterAction t act now)"
  shows "duties_inv (registered tt act now) \<and> ids_inv (registered tt act now) \<and> custody_inv (registered tt act now)"
  using assms by (auto simp: registered_def governed_inv_defs new_owner_def)

lemma RegisterAction_cases:
  assumes "RegisterAction t act now e = (e', res)"
  obtains (denied) err where "e' = e" "res = Inl err"
  | (created) "e (TrimSpace t, TrimSpace (ga_ActionID act)) = None" "TrimSpace t \<noteq> []"
      "e' = e((TrimSpace t, TrimSpace (ga_ActionID act)) \<mapsto> registered (TrimSpace t) act now)" "res = Inr ()"
proof (cases "TrimSpace t \<noteq> [] \<and> e (TrimSpace t, TrimSpace (ga_ActionID act)) = None \<and> e' \<noteq> e")
  case True
  with assms have "e' = e((TrimSpace t, TrimSpace (ga_ActionID act)) \<mapsto> registered (TrimSpace t) act now) \<and> res = Inr ()"
    unfolding RegisterAction_def Let_def by (metis prod.inject)
  with True created show thesis by blast
next
  case False
  with assms have "e' = e \<and> (\<exists>err. res = Inl err)"
    unfolding RegisterAction_def Let_def
    by (metis fun_upd_same option.distinct(1) prod.inject)
  with denied show thesis by blast
qed

text \<open>One case distinction for every call of the engine.\<close>

lemma governance_exec_cases:
  assumes "governance_exec c e = (e', res)"
  obtains (denied) err where "e' = e" "res = Inl err"
  | (created) t act now where "c = CallRegisterAction t act now"
      "e (TrimSpace t, TrimSpace (ga_ActionID act)) = None"
      "e' = e((TrimSpace t, TrimSpace (ga_ActionID act)) \<mapsto> registered (TrimSpace t) act now)" "res = Inr ()"
  | (updated) t a v now op act act' where "c = CallGoverned t a v now op"
      "e (TrimSpace t, TrimSpace a) = Some act" "ga_State act \<noteq> ActionStateClosed"
      "ga_StateVersion act = v" "op_body a now op act = Inr act'"
      "e' = e((TrimSpace t, TrimSpace a) \<mapsto> act'\<lparr>ga_StateVersion := ga_StateVersion act' + 1, ga_UpdatedAt := now\<rparr>)"
      "res = Inr ()"
proof (cases c)
  case (CallRegisterAction t act now)
  with assms have "RegisterAction t act now e = (e', res)" by simp
  then show thesis
  proof (cases rule: RegisterAction_cases)
    case (denied err)
    then show thesis by (rule that(1))
  next
    case created
    with CallRegisterAction that(2) show thesis by simp
  qed
next
  case (CallGoverned t a v now op)
  obtain r where g: "governed t a v now (op_body a now op) e = (e', r)"
    and res: "res = map_sum id (\<lambda>_. ()) r"
    using assms CallGoverned
    by (cases "governed t a v now (op_body a now op) e") (auto simp: governance_method_governed discard_def)
  from g show thesis
  proof (cases rule: governed_cases)
    case (denied err)
    with res that(1) show thesis by simp
  next
    case (updated act act' act'')
    with CallGoverned res that(3) show thesis by simp
  qed
qed

lemma governance_exec_inv:
  assumes inv: "governed_inv e" and fresh: "fresh_call c"
  shows "governed_inv (fst (governance_exec c e))"
proof -
  obtain e' res where x: "governance_exec c e = (e', res)" by fastforce
  then show ?thesis
  proof (cases rule: governance_exec_cases)
    case (denied err)
    with inv x show ?thesis by simp
  next
    case (created t act now)
    with fresh have "fresh_call (CallRegisterAction t act now)" by simp
    from registered_inv [OF this] inv created x show ?thesis by (auto simp: governed_inv_def)
  next
    case (updated t a v now op act act')
    from op_body_ok [of a now op] updated(2,5) inv
    have "duties_inv act' \<and> ids_inv act' \<and> custody_inv act'"
      unfolding governed_body_ok_def governed_inv_def by blast
    with inv updated x show ?thesis by (auto simp: governed_inv_def)
  qed
qed

lemma governance_exec_entry:
  assumes "e k = Some act"
  shows "\<exists>act'. fst (governance_exec c e) k = Some act' \<and> prefix (custody act) (custody act') \<and>
    (ga_State act = ActionStateClosed \<longrightarrow> act' = act)"
proof -
  obtain e' res where x: "governance_exec c e = (e', res)" by fastforce
  then show ?thesis
  proof (cases rule: governance_exec_cases)
    case (updated t a v now op act0 act')
    from op_body_ok [of a now op] updated(5) have "prefix (custody act0) (custody act')"
      unfolding governed_body_ok_def by blast
    with assms updated x show ?thesis by auto
  qed (use assms x in auto)
qed

lemma governance_exec_journal: "prefix (custody_journal k e) (custody_journal k (fst (governance_exec c e)))"
  using governance_exec_entry [of e k _ c] by (cases "e k") (auto simp: custody_journal_def)

lemma governance_exec_error: "governance_exec c e = (e', Inl err) \<Longrightarrow> e' = e"
  by (erule governance_exec_cases) auto

interpretation ag: journaled governance_exec governed_inv fresh_call custody_journal
  by unfold_locales (simp_all add: governance_exec_inv governance_exec_journal)

interpretation ag_closed: fail_closed governance_exec
  by unfold_locales (rule governance_exec_error)

interpretation ag_final: absorbing governance_exec governed_inv fresh_call
  "\<lambda>k e. e k" "\<lambda>act. ga_State act = ActionStateClosed"
  by unfold_locales (use governance_exec_entry in fastforce)

lemma governed_invD: "governed_inv e \<Longrightarrow> e k = Some act \<Longrightarrow> duties_inv act \<and> ids_inv act \<and> custody_inv act"
  unfolding governed_inv_def by blast

lemma reachable_governed_inv:
  "list_all fresh_call cs \<Longrightarrow> governed_inv (run_calls governance_exec cs NewActionGovernanceEngine)"
  by (rule ag.run_inv) (simp_all add: governed_inv_def NewActionGovernanceEngine_def)

text \<open>What one review of each kind decides, for the action it is made on.\<close>

lemma ReviewExtension_body_Inr:
  assumes "ReviewExtension_body rid who approve note_text now act = Inr act'"
  obtains i where "i < length (ga_ExtensionRequests act)" "xr_RequestID (ga_ExtensionRequests act ! i) = rid"
    "xr_Status (ga_ExtensionRequests act ! i) = ExtensionStatusPending"
    "who \<noteq> xr_RequestedBy (ga_ExtensionRequests act ! i)" "who \<noteq> ga_CurrentOwner act"
    "xr_Status (ga_ExtensionRequests act' ! i) = (if approve then ExtensionStatusApproved else ExtensionStatusRejected)"
    "ga_DueDate act' = (if approve then xr_RequestedDueDate (ga_ExtensionRequests act ! i) else ga_DueDate act)"
proof (cases "find_index (\<lambda>ext. xr_RequestID ext = rid) (ga_ExtensionRequests act)")
  case None
  with assms show thesis by (simp add: ReviewExtension_body_def)
next
  case (Some i)
  with assms find_index_Some [OF Some] show thesis
    by (intro that [of i]) (auto simp: ReviewExtension_body_def Let_def split: if_splits)
qed

lemma op_body_due_date:
  assumes "op_body a now op act = Inr act'" and "ga_DueDate act' \<noteq> ga_DueDate act"
  obtains rid who note_text where "op = OpReviewExtension rid who True note_text"
proof (cases op)
  case (OpReviewExtension rid who approve note_text)
  with assms have "approve" by (cases approve) (auto elim: ReviewExtension_body_Inr)
  with OpReviewExtension that show thesis by blast
qed (use assms in \<open>auto simp: ReassignOwner_body_def RevokeOwner_body_def RequestExtension_body_def
    RequestEscalation_body_def AcknowledgeEscalation_body_def SubmitEvidence_body_def ReviewEvidence_body_def
    Let_def split: if_splits option.splits\<close>)

text \<open>An action and calls for evaluations.\<close>

definition example_governed :: GovernedAction where
  "example_governed =
     \<lparr>ga_ActionID = ''act1'', ga_TenantID = ''ten_a'', ga_FindingID = ''fnd1'', ga_Title = ''Fix exit'',
      ga_State = ActionStateInProgress, ga_CurrentOwner = ''ann'', ga_CurrentOwnerRole = ''CREW'', ga_DueDate = 100,
      ga_StateVersion = 0, ga_OwnershipHistory = [], ga_ExtensionRequests = [], ga_EscalationRequests = [],
      ga_EvidenceList = [], ga_RequiredEvidenceCount = 1, ga_CreatedAt = 0, ga_UpdatedAt = 0\<rparr>"

definition example_extension :: "string \<Rightarrow> gotime \<Rightarrow> ExtensionRequest" where
  "example_extension rid due =
     \<lparr>xr_RequestID = rid, xr_ActionID = ''act1'', xr_RequestedBy = ''ann'', xr_RequestedAt = 0,
      xr_CurrentDueDate = 0, xr_RequestedDueDate = due, xr_Reason = ''parts late'',
      xr_Status = ExtensionStatusPending, xr_ReviewedBy = [], xr_ReviewedAt = 0, xr_ReviewNotes = []\<rparr>"

definition example_governed_calls :: "governance_call list" where
  "example_governed_calls =
     [CallRegisterAction ''ten_a'' example_governed 10,
      CallGoverned ''ten_a'' ''act1'' 1 11 (OpRequestExtension (example_extension ''x1'' 200)),
      CallGoverned ''ten_a'' ''act1'' 2 12 (OpRequestExtension (example_extension ''x2'' 300)),
      CallGoverned ''ten_a'' ''act1'' 3 13 (OpReviewExtension ''x2'' ''bob'' True ''ok'')]"

lemmas governance_eval = example_governed_def example_extension_def example_governed_calls_def
  NewActionGovernanceEngine_def RegisterAction_def registered_def new_owner_def governance_method_defs
  governed_def governed_entry_def ReassignOwner_body_def RevokeOwner_body_def RequestExtension_body_def
  ReviewExtension_body_def RequestEscalation_body_def AcknowledgeEscalation_body_def SubmitEvidence_body_def
  ReviewEvidence_body_def deactivate_def eval_defs

subsection \<open>Properties\<close>

text \<open>
  (C11) Segregation of duties, provided that actions are registered without owners, extensions, escalations
  and evidence of their own (\<open>fresh_call\<close>; the code would store them as given): in every reachable engine, an
  extension, an escalation or a piece of evidence that has been decided was decided by someone other
  than the subject who asked for it, and request and evidence identifiers are unique per action.
\<close>

theorem segregation_of_duties:
  assumes "list_all fresh_call cs" and "run_calls governance_exec cs NewActionGovernanceEngine k = Some act"
  shows "(\<forall>x\<in>set (ga_ExtensionRequests act). xr_Status x \<noteq> ExtensionStatusPending \<longrightarrow> xr_ReviewedBy x \<noteq> xr_RequestedBy x) \<and>
    (\<forall>x\<in>set (ga_EscalationRequests act). er_Status x \<noteq> EscalationStatusPending \<longrightarrow> er_AcknowledgedBy x \<noteq> er_EscalatedBy x) \<and>
    (\<forall>x\<in>set (ga_EvidenceList act). ge_Status x \<noteq> EvidenceStatusSubmitted \<longrightarrow> ge_ReviewedBy x \<noteq> ge_SubmittedBy x) \<and>
    distinct (map xr_RequestID (ga_ExtensionRequests act)) \<and> distinct (map er_RequestID (ga_EscalationRequests act)) \<and>
    distinct (map ge_EvidenceID (ga_EvidenceList act))"
  using governed_invD [OF reachable_governed_inv [OF assms(1)] assms(2)]
  by (simp add: duties_inv_def ids_inv_def list_all_iff)

text \<open>
  Custody: in every reachable engine an action with an owner has exactly one active custody record,
  the last one, and it names the owner; an action without owner has none. Later calls never remove or
  rewrite who was assigned, in which role, by whom and when.
\<close>

theorem single_custody_append_only:
  assumes "list_all fresh_call cs" and "run_calls governance_exec cs NewActionGovernanceEngine k = Some act"
    and "list_all fresh_call ds"
  shows "(ga_CurrentOwner act = [] \<longrightarrow> filter or_IsActive (ga_OwnershipHistory act) = []) \<and>
    (ga_CurrentOwner act \<noteq> [] \<longrightarrow>
       filter or_IsActive (ga_OwnershipHistory act) = [last (ga_OwnershipHistory act)] \<and>
       or_OwnerSubject (last (ga_OwnershipHistory act)) = ga_CurrentOwner act) \<and>
    (\<exists>act'. run_calls governance_exec (cs @ ds) NewActionGovernanceEngine k = Some act' \<and>
       prefix (custody act) (custody act'))"
proof -
  have inv: "governed_inv (run_calls governance_exec cs NewActionGovernanceEngine)"
    using assms(1) by (rule reachable_governed_inv)
  then have "custody_inv act" using assms(2) governed_invD by blast
  moreover have "\<exists>act'. run_calls governance_exec ds e k = Some act' \<and> prefix (custody act) (custody act')"
    if "e k = Some act" for e act
    using that
  proof (induction ds arbitrary: e act)
    case (Cons d ds)
    from governance_exec_entry [of e k act d] Cons show ?case
      by simp (meson prefix_order.trans)
  qed simp
  ultimately show ?thesis using assms(2) by (auto simp: custody_inv_def)
qed

text \<open>
  Optimistic concurrency: a mutating call succeeds only against the version the caller has seen and
  moves the version on by one, so a second call that expects the same version, whatever method
  it is, reports \<open>ErrConcurrentModification\<close> and changes nothing.
\<close>

theorem governance_no_lost_update:
  assumes "governance_method t a v now op e = (e', Inr act)"
    and "TrimSpace t' = TrimSpace t" and "TrimSpace a' = TrimSpace a"
  shows "ga_StateVersion act = v + 1 \<and> e' (TrimSpace t, TrimSpace a) = Some act \<and>
    governance_method t' a' v now' op' e' = (e', Inl ErrConcurrentModification)"
proof -
  from assms(1) have g: "governed t a v now (op_body a now op) e = (e', Inr act)"
    by (simp add: governance_method_governed)
  then have nonempty: "TrimSpace t \<noteq> []" "TrimSpace a \<noteq> []"
    by (auto simp: governed_def Let_def split: if_splits)
  from g show ?thesis
  proof (cases rule: governed_cases)
    case (updated act0 act1 act2)
    from op_body_ok [of a now op] updated(4)
    have "ga_State act1 = ga_State act0" "ga_StateVersion act1 = ga_StateVersion act0"
      unfolding governed_body_ok_def by blast+
    with updated nonempty assms(2,3) show ?thesis
      by (simp add: governance_method_governed governed_def Let_def on_entry_def governed_entry_def)
  qed simp
qed

text \<open>
  The due date of an action moves only by the approval of an extension that was pending on it, to the
  date that extension asked for, and the approver is neither the requester nor the current owner.
\<close>

theorem due_date_moves_by_approval:
  assumes "e k = Some act" and "fst (governance_exec c e) k = Some act'" and "ga_DueDate act' \<noteq> ga_DueDate act"
  shows "\<exists>t a v now rid who note_text i. c = CallGoverned t a v now (OpReviewExtension rid who True note_text) \<and>
    i < length (ga_ExtensionRequests act) \<and>
    xr_Status (ga_ExtensionRequests act ! i) = ExtensionStatusPending \<and>
    xr_Status (ga_ExtensionRequests act' ! i) = ExtensionStatusApproved \<and>
    ga_DueDate act' = xr_RequestedDueDate (ga_ExtensionRequests act ! i) \<and>
    who \<noteq> xr_RequestedBy (ga_ExtensionRequests act ! i) \<and> who \<noteq> ga_CurrentOwner act"
proof -
  obtain e' res where x: "governance_exec c e = (e', res)" by fastforce
  then show ?thesis
  proof (cases rule: governance_exec_cases)
    case (updated t a v now op act0 act1)
    from assms(2) x have e'k: "e' k = Some act'" by simp
    with assms(1,3) updated(6) have k: "k = (TrimSpace t, TrimSpace a)" by (auto split: if_splits)
    with assms(1) e'k updated(2,6) have "act0 = act" and act': "act' = act1\<lparr>ga_StateVersion := ga_StateVersion act1 + 1, ga_UpdatedAt := now\<rparr>"
      by auto
    with updated(5) assms(3) have b: "op_body a now op act = Inr act1" "ga_DueDate act1 \<noteq> ga_DueDate act" by auto
    then obtain rid who note_text where op: "op = OpReviewExtension rid who True note_text" by (rule op_body_due_date)
    with b(1) have "ReviewExtension_body rid who True note_text now act = Inr act1" by simp
    then show ?thesis by (rule ReviewExtension_body_Inr) (use op updated(1) act' in auto)
  qed (use assms x in \<open>auto split: if_splits\<close>)
qed

text \<open>
  An approval does not compare the requested date with the due date of the day: of two pending
  extensions, approving the later one and then the earlier one moves the due date back, here from 300
  to 200.
\<close>

theorem approved_extension_shortens:
  "\<exists>act act'. run_calls governance_exec example_governed_calls NewActionGovernanceEngine (''ten_a'', ''act1'') = Some act \<and>
     ga_DueDate act = 300 \<and>
     snd (ReviewExtension ''ten_a'' ''act1'' ''x1'' ''bob'' True ''ok'' 4 14
       (run_calls governance_exec example_governed_calls NewActionGovernanceEngine)) = Inr act' \<and>
     ga_DueDate act' = 200"
  by (simp add: governance_eval)

subsection \<open>Witnesses\<close>

lemma example_governed_fresh: "list_all fresh_call example_governed_calls"
  by (simp add: example_governed_calls_def example_governed_def)

lemma example_governed_state:
  "\<exists>act x. run_calls governance_exec example_governed_calls NewActionGovernanceEngine (''ten_a'', ''act1'') = Some act \<and>
     x \<in> set (ga_ExtensionRequests act) \<and> xr_Status x = ExtensionStatusApproved \<and> ga_CurrentOwner act = ''ann''"
  by (simp add: governance_eval conj_disj_distribR ex_disj_distrib)

theorem segregation_of_duties_witness:
  "\<exists>act x. run_calls governance_exec example_governed_calls NewActionGovernanceEngine (''ten_a'', ''act1'') = Some act \<and>
     x \<in> set (ga_ExtensionRequests act) \<and> xr_Status x = ExtensionStatusApproved \<and> xr_ReviewedBy x \<noteq> xr_RequestedBy x"
proof -
  obtain act x where "run_calls governance_exec example_governed_calls NewActionGovernanceEngine (''ten_a'', ''act1'') = Some act"
    "x \<in> set (ga_ExtensionRequests act)" "xr_Status x = ExtensionStatusApproved"
    using example_governed_state by blast
  moreover have "ExtensionStatusApproved \<noteq> ExtensionStatusPending" by simp
  ultimately show ?thesis using segregation_of_duties [OF example_governed_fresh] by metis
qed

theorem single_custody_append_only_witness:
  "\<exists>act act'. run_calls governance_exec example_governed_calls NewActionGovernanceEngine (''ten_a'', ''act1'') = Some act \<and>
     or_OwnerSubject (last (ga_OwnershipHistory act)) = ''ann'' \<and>
     run_calls governance_exec (example_governed_calls @ [CallGoverned ''ten_a'' ''act1'' 4 14
       (OpReassignOwner ''cid'' ''CREW'' ''bob'' ''leave'')]) NewActionGovernanceEngine (''ten_a'', ''act1'') = Some act' \<and>
     prefix (custody act) (custody act')"
proof -
  obtain act where a: "run_calls governance_exec example_governed_calls NewActionGovernanceEngine (''ten_a'', ''act1'') = Some act"
    and o: "ga_CurrentOwner act = ''ann''"
    using example_governed_state by blast
  have "list_all fresh_call [CallGoverned ''ten_a'' ''act1'' 4 14 (OpReassignOwner ''cid'' ''CREW'' ''bob'' ''leave'')]" by simp
  from single_custody_append_only [OF example_governed_fresh a this] a o show ?thesis by auto
qed

theorem governance_no_lost_update_witness:
  "\<exists>e'. governance_method ''ten_a'' '' act1'' 1 12 (OpRevokeOwner ''bob'' ''left'') e' = (e', Inl ErrConcurrentModification)"
proof -
  have trim: "TrimSpace '' act1'' = TrimSpace ''act1''" by code_simp
  have "\<exists>e' act. governance_method ''ten_a'' ''act1'' 1 11 (OpReassignOwner ''cid'' ''CREW'' ''bob'' ''leave'')
      (run_calls governance_exec (take 1 example_governed_calls) NewActionGovernanceEngine) = (e', Inr act)"
    by (simp add: governance_eval)
  then show ?thesis using governance_no_lost_update [OF _ refl trim] by blast
qed

theorem due_date_moves_by_approval_witness:
  "\<exists>act i. run_calls governance_exec (take 3 example_governed_calls) NewActionGovernanceEngine (''ten_a'', ''act1'') = Some act \<and>
     ga_DueDate act = 100 \<and> xr_RequestedDueDate (ga_ExtensionRequests act ! i) = 300"
proof -
  let ?e = "run_calls governance_exec (take 3 example_governed_calls) NewActionGovernanceEngine"
  have "\<exists>act. ?e (''ten_a'', ''act1'') = Some act \<and> ga_DueDate act = 100" by (simp add: governance_eval)
  then obtain act where a: "?e (''ten_a'', ''act1'') = Some act" "ga_DueDate act = 100" by blast
  have "\<exists>act'. fst (governance_exec (CallGoverned ''ten_a'' ''act1'' 3 13 (OpReviewExtension ''x2'' ''bob'' True ''ok'')) ?e)
      (''ten_a'', ''act1'') = Some act' \<and> ga_DueDate act' = 300"
    by (simp add: governance_eval)
  then obtain act' where b: "fst (governance_exec (CallGoverned ''ten_a'' ''act1'' 3 13 (OpReviewExtension ''x2'' ''bob'' True ''ok'')) ?e)
      (''ten_a'', ''act1'') = Some act'" "ga_DueDate act' = 300" by blast
  with a have "ga_DueDate act' \<noteq> ga_DueDate act" by simp
  from due_date_moves_by_approval [OF a(1) b(1) this] a b(2) show ?thesis by auto
qed

end
