(* ===== verification/Reinspection.thy ===== *)
theory Reinspection
  imports Finding_Lifecycle Action_Governance
begin

text \<open>
  Reinspection orders, \<open>modules/workflow-action/reinspection_lifecycle.go\<close>. The engine keeps the orders, the
  revoked actors and a pointer to the \<open>ActionGovernanceEngine\<close> that other callers use as well;
  the model keeps the state of that engine in the record and lets its own calls interleave with the
  calls of this engine. \<open>clone\<close> copies an order deeply, so a returned order is a value.
\<close>

subsection \<open>Definitions\<close>

datatype ReinspectionState =
  ReinspectionStatePendingAssignment | ReinspectionStateAssigned | ReinspectionStateInProgress
| ReinspectionStateVerifiedSatisfactory | ReinspectionStateRejectedDeficient | ReinspectionStateClosed
| ReinspectionStateReopened | ReinspectionStateOther string

datatype IndependenceRequirement =
  IndependenceSameInspectorAllowed | IndependenceDifferentInspectorRequired | IndependenceThirdPartyRequired
| IndependenceOther string

definition isAutonomousAgentRole :: "string \<Rightarrow> bool" where
  "isAutonomousAgentRole role \<longleftrightarrow>
     ToUpper (TrimSpace role) \<in> {''AI'', ''AI_AGENT'', ''ENGINEERING_AGENT'', ''SYSTEM_AGENT'',
       ''AUTONOMOUS_AGENT'', ''LLM''}"

record ReinspectionHistoryEntry =
  rh_Sequence :: int64
  rh_Timestamp :: gotime
  rh_Actor :: string
  rh_ActorRole :: string
  rh_FromState :: ReinspectionState
  rh_ToState :: ReinspectionState
  rh_Action :: string
  rh_Reason :: string
  rh_EvidenceIDs :: "string list"

record ReinspectionOrder =
  ro_ReinspectionID :: string
  ro_TenantID :: string
  ro_FindingID :: string
  ro_ActionID :: string
  ro_OriginalInspector :: string
  ro_AssignedReinspector :: string
  ro_ReinspectorRole :: string
  ro_IndependenceRule :: IndependenceRequirement
  ro_State :: ReinspectionState
  ro_StateVersion :: int64
  ro_IsOffline :: bool
  ro_EvidenceIDs :: "string list"
  ro_VerificationNotes :: string
  ro_DeficiencyDetails :: string
  ro_ScheduledAt :: gotime
  ro_CompletedAt :: "gotime option"
  ro_ClosedAt :: "gotime option"
  ro_ClosedBy :: string
  ro_ClosureRationale :: string
  ro_RecurrenceID :: string
  ro_RecurrenceCount :: int64
  ro_History :: "ReinspectionHistoryEntry list"
  ro_CreatedAt :: gotime
  ro_UpdatedAt :: gotime

record ReinspectionEngine =
  orders :: "string \<rightharpoonup> ReinspectionOrder"
  revokedActors :: "string set"
  actionEngine :: "ActionGovernanceEngine option"

definition NewReinspectionEngine :: "ActionGovernanceEngine option \<Rightarrow> ReinspectionEngine" where
  "NewReinspectionEngine ae = \<lparr>orders = Map.empty, revokedActors = {}, actionEngine = ae\<rparr>"

definition RevokeActorAuthority :: "string \<Rightarrow> ReinspectionEngine \<Rightarrow> ReinspectionEngine" where
  "RevokeActorAuthority actor e = e\<lparr>revokedActors := insert actor (revokedActors e)\<rparr>"

definition IsActorRevoked :: "string \<Rightarrow> ReinspectionEngine \<Rightarrow> bool" where
  "IsActorRevoked actor e \<longleftrightarrow> actor \<in> revokedActors e"

text \<open>The independence check of creation and of assignment; the role is trimmed and upper-cased by then.\<close>

definition independence_violated :: "IndependenceRequirement \<Rightarrow> string \<Rightarrow> string \<Rightarrow> string \<Rightarrow> bool" where
  "independence_violated rule assigned orig role \<longleftrightarrow>
     rule = IndependenceDifferentInspectorRequired \<and> assigned = orig \<or>
     rule = IndependenceThirdPartyRequired \<and> role \<noteq> ''THIRD_PARTY_AUDITOR'' \<and> role \<noteq> ''EXTERNAL_AUDITOR''"

definition new_order :: "ReinspectionOrder \<Rightarrow> IndependenceRequirement \<Rightarrow> gotime \<Rightarrow> ReinspectionOrder" where
  "new_order order rule now =
     (let assigned = TrimSpace (ro_AssignedReinspector order);
          initialState = (if ro_State order = ReinspectionStateOther []
                          then if assigned \<noteq> [] then ReinspectionStateAssigned else ReinspectionStatePendingAssignment
                          else ro_State order)
      in \<lparr>ro_ReinspectionID = TrimSpace (ro_ReinspectionID order), ro_TenantID = TrimSpace (ro_TenantID order),
          ro_FindingID = ro_FindingID order, ro_ActionID = ro_ActionID order,
          ro_OriginalInspector = TrimSpace (ro_OriginalInspector order), ro_AssignedReinspector = assigned,
          ro_ReinspectorRole = ToUpper (TrimSpace (ro_ReinspectorRole order)), ro_IndependenceRule = rule,
          ro_State = initialState, ro_StateVersion = 1, ro_IsOffline = ro_IsOffline order, ro_EvidenceIDs = [],
          ro_VerificationNotes = [], ro_DeficiencyDetails = [], ro_ScheduledAt = ro_ScheduledAt order,
          ro_CompletedAt = None, ro_ClosedAt = None, ro_ClosedBy = [], ro_ClosureRationale = [],
          ro_RecurrenceID = ro_RecurrenceID order, ro_RecurrenceCount = ro_RecurrenceCount order,
          ro_History = [\<lparr>rh_Sequence = 1, rh_Timestamp = now, rh_Actor = ''system'', rh_ActorRole = ''ENGINE'',
            rh_FromState = ReinspectionStateOther [], rh_ToState = initialState,
            rh_Action = ''CREATE_REINSPECTION_ORDER'',
            rh_Reason = ''Order created following action remediation'', rh_EvidenceIDs = []\<rparr>],
          ro_CreatedAt = now, ro_UpdatedAt = now\<rparr>)"

definition CreateReinspectionOrder ::
  "ReinspectionOrder \<Rightarrow> gotime \<Rightarrow> ReinspectionEngine \<Rightarrow> (ReinspectionEngine, wfa_error, ReinspectionOrder) outcome" where
  "CreateReinspectionOrder order now e =
     (let oid = TrimSpace (ro_ReinspectionID order); assigned = TrimSpace (ro_AssignedReinspector order);
          orig = TrimSpace (ro_OriginalInspector order); role = ToUpper (TrimSpace (ro_ReinspectorRole order));
          rule = (if ro_IndependenceRule order = IndependenceOther [] then IndependenceSameInspectorAllowed
                  else ro_IndependenceRule order);
          newOrder = new_order order rule now
      in if oid = [] then (e, Inl ErrBlankReinspectionID)
      else if orders e oid \<noteq> None then (e, Inl ErrDuplicateReinspectionID)
      else if TrimSpace (ro_TenantID order) = [] then (e, Inl ErrBlankTenantID)
      else if TrimSpace (ro_FindingID order) = [] then (e, Inl ErrBlankFindingID)
      else if TrimSpace (ro_ActionID order) = [] then (e, Inl ErrBlankActionID)
      else if assigned \<noteq> [] \<and> independence_violated rule assigned orig role
      then (e, Inl ErrInspectorIndependenceViolation)
      else (e\<lparr>orders := (orders e)(oid \<mapsto> newOrder)\<rparr>, Inr newOrder))"

text \<open>The lookup of an order and the in-place update of the one it finds.\<close>

definition with_order ::
  "string \<Rightarrow> (ReinspectionOrder \<Rightarrow> wfa_error + ReinspectionOrder) \<Rightarrow> ReinspectionEngine \<Rightarrow>
   (ReinspectionEngine, wfa_error, ReinspectionOrder) outcome" where
  "with_order reinspectionID body e =
     (case orders e reinspectionID of
        None \<Rightarrow> (e, Inl ErrReinspectionNotFound)
      | Some order \<Rightarrow> (case body order of
            Inl err \<Rightarrow> (e, Inl err)
          | Inr order' \<Rightarrow> (e\<lparr>orders := (orders e)(reinspectionID \<mapsto> order')\<rparr>, Inr order')))"

text \<open>The guards that open every method but creation, closure and reopening.\<close>

definition open_order ::
  "string set \<Rightarrow> string \<Rightarrow> int64 \<Rightarrow> (ReinspectionOrder \<Rightarrow> wfa_error + ReinspectionOrder) \<Rightarrow> ReinspectionOrder \<Rightarrow>
   wfa_error + ReinspectionOrder" where
  "open_order revoked caller expectedVersion body order =
     (if ro_State order = ReinspectionStateClosed then Inl ErrReinspectionTerminalState
      else if caller \<in> revoked then Inl ErrActorAuthorityRevoked
      else if ro_StateVersion order \<noteq> expectedVersion then Inl ErrConcurrentModification
      else body order)"

text \<open>The update every accepted call ends with: state, version, time and one history entry.\<close>

definition log_order ::
  "string \<Rightarrow> string \<Rightarrow> ReinspectionState \<Rightarrow> string \<Rightarrow> string \<Rightarrow> string list \<Rightarrow> gotime \<Rightarrow> ReinspectionOrder \<Rightarrow>
   ReinspectionOrder" where
  "log_order actor actorRole to act reason evidence now order =
     order\<lparr>ro_State := to, ro_StateVersion := ro_StateVersion order + 1, ro_UpdatedAt := now,
       ro_History := ro_History order @
         [\<lparr>rh_Sequence = of_nat (length (ro_History order) + 1), rh_Timestamp = now, rh_Actor = actor,
           rh_ActorRole = actorRole, rh_FromState = ro_State order, rh_ToState = to, rh_Action = act,
           rh_Reason = reason, rh_EvidenceIDs = evidence\<rparr>]\<rparr>"

definition AssignReinspector_body ::
  "string \<Rightarrow> string \<Rightarrow> string \<Rightarrow> string \<Rightarrow> string \<Rightarrow> gotime \<Rightarrow> ReinspectionOrder \<Rightarrow> wfa_error + ReinspectionOrder" where
  "AssignReinspector_body reinspector role caller callerRole reason now order =
     (let r = TrimSpace reinspector; rl = ToUpper (TrimSpace role) in
      if r = [] then Inl (ErrorsNew ''assigned reinspector cannot be blank'')
      else if independence_violated (ro_IndependenceRule order) r (ro_OriginalInspector order) rl
      then Inl ErrInspectorIndependenceViolation
      else Inr (log_order caller callerRole ReinspectionStateAssigned ''ASSIGN_REINSPECTOR'' reason [] now
                  (order\<lparr>ro_AssignedReinspector := r, ro_ReinspectorRole := rl\<rparr>)))"

definition AssignReinspector ::
  "string \<Rightarrow> string \<Rightarrow> string \<Rightarrow> string \<Rightarrow> string \<Rightarrow> string \<Rightarrow> int64 \<Rightarrow> gotime \<Rightarrow> ReinspectionEngine \<Rightarrow>
   (ReinspectionEngine, wfa_error, ReinspectionOrder) outcome" where
  "AssignReinspector reinspectionID reinspector role caller callerRole reason expectedVersion now e =
     with_order reinspectionID
       (open_order (revokedActors e) caller expectedVersion
          (AssignReinspector_body reinspector role caller callerRole reason now)) e"

definition StartReinspection_body ::
  "string \<Rightarrow> string \<Rightarrow> gotime \<Rightarrow> ReinspectionOrder \<Rightarrow> wfa_error + ReinspectionOrder" where
  "StartReinspection_body caller callerRole now order =
     (if TrimSpace caller \<noteq> ro_AssignedReinspector order \<and> \<not> isSupervisorRole callerRole
      then Inl ErrUnauthorizedActionCaller
      else if ro_State order \<in> {ReinspectionStateAssigned, ReinspectionStateRejectedDeficient, ReinspectionStateReopened}
      then Inr (log_order (TrimSpace caller) callerRole ReinspectionStateInProgress ''START_REINSPECTION''
                  ''Reinspection initiated by verifier'' [] now order)
      else if ro_State order = ReinspectionStateInProgress then Inr order
      else Inl ErrInvalidReinspectionTransition)"

definition StartReinspection ::
  "string \<Rightarrow> string \<Rightarrow> string \<Rightarrow> int64 \<Rightarrow> gotime \<Rightarrow> ReinspectionEngine \<Rightarrow>
   (ReinspectionEngine, wfa_error, ReinspectionOrder) outcome" where
  "StartReinspection reinspectionID caller callerRole expectedVersion now e =
     with_order reinspectionID
       (open_order (revokedActors e) caller expectedVersion (StartReinspection_body caller callerRole now)) e"

text \<open>
  The evidence prerequisites. The gate is open when there is no governance engine or it does not know the
  action. \<open>len(action.EvidenceList)\<close> is compared with the required count as integers.
\<close>

definition evidence_gate ::
  "ActionGovernanceEngine option \<Rightarrow> ReinspectionOrder \<Rightarrow> wfa_error option" where
  "evidence_gate ae order =
     (case ae of
        None \<Rightarrow> None
      | Some g \<Rightarrow>
          if ro_ActionID order = [] then None
          else case GetGovernedAction (ro_TenantID order) (ro_ActionID order) g of
            Inl _ \<Rightarrow> None
          | Inr act \<Rightarrow>
              if \<exists>ev\<in>set (ga_EvidenceList act). ge_Status ev = EvidenceStatusRejected \<or> ge_Status ev = EvidenceStatusSubmitted
              then Some ErrPendingOrRejectedEvidence
              else if int (length (ga_EvidenceList act)) < ga_RequiredEvidenceCount act
              then Some ErrPrerequisitesUnsatisfied
              else None)"

definition VerifySatisfactory_body ::
  "ActionGovernanceEngine option \<Rightarrow> string \<Rightarrow> string \<Rightarrow> string \<Rightarrow> string list \<Rightarrow> gotime \<Rightarrow> ReinspectionOrder \<Rightarrow>
   wfa_error + ReinspectionOrder" where
  "VerifySatisfactory_body ae caller callerRole verificationNotes evidenceIDs now order =
     (if TrimSpace caller \<noteq> ro_AssignedReinspector order \<and> \<not> isSupervisorRole callerRole
      then Inl ErrUnauthorizedActionCaller
      else if ro_State order \<noteq> ReinspectionStateInProgress then Inl ErrInvalidReinspectionTransition
      else if TrimSpace verificationNotes = [] then Inl ErrMissingReinspectionRationale
      else case evidence_gate ae order of
        Some err \<Rightarrow> Inl err
      | None \<Rightarrow>
          Inr (log_order (TrimSpace caller) callerRole ReinspectionStateVerifiedSatisfactory ''VERIFY_SATISFACTORY''
                 (TrimSpace verificationNotes) evidenceIDs now
                 (order\<lparr>ro_VerificationNotes := TrimSpace verificationNotes,
                        ro_EvidenceIDs := ro_EvidenceIDs order @ evidenceIDs, ro_CompletedAt := Some now\<rparr>)))"

definition VerifySatisfactory ::
  "string \<Rightarrow> string \<Rightarrow> string \<Rightarrow> string \<Rightarrow> string list \<Rightarrow> int64 \<Rightarrow> gotime \<Rightarrow> ReinspectionEngine \<Rightarrow>
   (ReinspectionEngine, wfa_error, ReinspectionOrder) outcome" where
  "VerifySatisfactory reinspectionID caller callerRole verificationNotes evidenceIDs expectedVersion now e =
     with_order reinspectionID
       (open_order (revokedActors e) caller expectedVersion
          (VerifySatisfactory_body (actionEngine e) caller callerRole verificationNotes evidenceIDs now)) e"

definition SubmitDeficiencyRejection_body ::
  "string \<Rightarrow> string \<Rightarrow> string \<Rightarrow> bool \<Rightarrow> string \<Rightarrow> gotime \<Rightarrow> ReinspectionOrder \<Rightarrow> wfa_error + ReinspectionOrder" where
  "SubmitDeficiencyRejection_body caller callerRole deficiencyDetails recurrenceDetected recurrenceID now order =
     (if TrimSpace caller \<noteq> ro_AssignedReinspector order \<and> \<not> isSupervisorRole callerRole
      then Inl ErrUnauthorizedActionCaller
      else if ro_State order \<noteq> ReinspectionStateInProgress then Inl ErrInvalidReinspectionTransition
      else if TrimSpace deficiencyDetails = [] then Inl ErrMissingReinspectionRationale
      else let order1 = order\<lparr>ro_DeficiencyDetails := TrimSpace deficiencyDetails\<rparr>;
               order2 = (if recurrenceDetected
                         then order1\<lparr>ro_RecurrenceID := (if TrimSpace recurrenceID \<noteq> [] then TrimSpace recurrenceID
                                                         else ro_RecurrenceID order1),
                                     ro_RecurrenceCount := ro_RecurrenceCount order1 + 1\<rparr>
                         else order1)
           in Inr (log_order (TrimSpace caller) callerRole ReinspectionStateRejectedDeficient
                     ''SUBMIT_DEFICIENCY_REJECTION'' (TrimSpace deficiencyDetails) [] now order2))"

definition SubmitDeficiencyRejection ::
  "string \<Rightarrow> string \<Rightarrow> string \<Rightarrow> string \<Rightarrow> bool \<Rightarrow> string \<Rightarrow> int64 \<Rightarrow> gotime \<Rightarrow> ReinspectionEngine \<Rightarrow>
   (ReinspectionEngine, wfa_error, ReinspectionOrder) outcome" where
  "SubmitDeficiencyRejection reinspectionID caller callerRole deficiencyDetails recurrenceDetected recurrenceID
     expectedVersion now e =
     with_order reinspectionID
       (open_order (revokedActors e) caller expectedVersion
          (SubmitDeficiencyRejection_body caller callerRole deficiencyDetails recurrenceDetected recurrenceID now)) e"

definition FinalClose_body ::
  "string \<Rightarrow> string \<Rightarrow> string \<Rightarrow> int64 \<Rightarrow> gotime \<Rightarrow> ReinspectionOrder \<Rightarrow> wfa_error + ReinspectionOrder" where
  "FinalClose_body caller callerRole closureRationale expectedVersion now order =
     (if ro_State order = ReinspectionStateClosed then Inl ErrReinspectionTerminalState
      else if ro_StateVersion order \<noteq> expectedVersion then Inl ErrConcurrentModification
      else if ro_State order \<noteq> ReinspectionStateVerifiedSatisfactory then Inl ErrPrerequisitesUnsatisfied
      else if TrimSpace closureRationale = [] then Inl ErrMissingReinspectionRationale
      else Inr (log_order caller callerRole ReinspectionStateClosed ''FINAL_CLOSE'' (TrimSpace closureRationale) [] now
                  (order\<lparr>ro_ClosedAt := Some now, ro_ClosedBy := caller,
                         ro_ClosureRationale := TrimSpace closureRationale\<rparr>)))"

definition FinalClose ::
  "string \<Rightarrow> string \<Rightarrow> string \<Rightarrow> string \<Rightarrow> bool \<Rightarrow> int64 \<Rightarrow> gotime \<Rightarrow> ReinspectionEngine \<Rightarrow>
   (ReinspectionEngine, wfa_error, ReinspectionOrder) outcome" where
  "FinalClose reinspectionID caller callerRole closureRationale isOffline expectedVersion now e =
     (if isOffline then (e, Inl ErrOfflineClosureProhibited)
      else if isAutonomousAgentRole callerRole then (e, Inl ErrAutonomousClosureProhibited)
      else if \<not> isHumanClosureAuthorized callerRole then (e, Inl ErrUnauthorizedClosure)
      else if caller \<in> revokedActors e then (e, Inl ErrActorAuthorityRevoked)
      else with_order reinspectionID (FinalClose_body caller callerRole closureRationale expectedVersion now) e)"

definition Reopen_body ::
  "string \<Rightarrow> string \<Rightarrow> string \<Rightarrow> int64 \<Rightarrow> gotime \<Rightarrow> ReinspectionOrder \<Rightarrow> wfa_error + ReinspectionOrder" where
  "Reopen_body caller callerRole reopenReason expectedVersion now order =
     (if ro_StateVersion order \<noteq> expectedVersion then Inl ErrConcurrentModification
      else if ro_State order \<noteq> ReinspectionStateClosed then Inl ErrInvalidReinspectionTransition
      else if TrimSpace reopenReason = [] then Inl ErrMissingReinspectionRationale
      else Inr (log_order caller callerRole ReinspectionStateReopened ''REOPEN_ORDER'' (TrimSpace reopenReason) [] now
                  (order\<lparr>ro_ClosedAt := None, ro_ClosedBy := [], ro_ClosureRationale := []\<rparr>)))"

definition Reopen ::
  "string \<Rightarrow> string \<Rightarrow> string \<Rightarrow> string \<Rightarrow> int64 \<Rightarrow> gotime \<Rightarrow> ReinspectionEngine \<Rightarrow>
   (ReinspectionEngine, wfa_error, ReinspectionOrder) outcome" where
  "Reopen reinspectionID caller callerRole reopenReason expectedVersion now e =
     (if isAutonomousAgentRole callerRole then (e, Inl ErrAutonomousClosureProhibited)
      else if \<not> isHumanClosureAuthorized callerRole then (e, Inl ErrUnauthorizedClosure)
      else if caller \<in> revokedActors e then (e, Inl ErrActorAuthorityRevoked)
      else with_order reinspectionID (Reopen_body caller callerRole reopenReason expectedVersion now) e)"

definition LinkRecurrence_body ::
  "string \<Rightarrow> string \<Rightarrow> string \<Rightarrow> string \<Rightarrow> gotime \<Rightarrow> ReinspectionOrder \<Rightarrow> wfa_error + ReinspectionOrder" where
  "LinkRecurrence_body recurrenceID caller callerRole reason now order =
     (if TrimSpace recurrenceID = [] then Inl ErrRecurrenceChainBroken
      else Inr (log_order caller callerRole (ro_State order) ''LINK_RECURRENCE''
                  (''Linked recurrence '' @ TrimSpace recurrenceID @ '': '' @ reason) [] now
                  (order\<lparr>ro_RecurrenceID := TrimSpace recurrenceID,
                         ro_RecurrenceCount := ro_RecurrenceCount order + 1\<rparr>)))"

definition LinkRecurrence ::
  "string \<Rightarrow> string \<Rightarrow> string \<Rightarrow> string \<Rightarrow> string \<Rightarrow> int64 \<Rightarrow> gotime \<Rightarrow> ReinspectionEngine \<Rightarrow>
   (ReinspectionEngine, wfa_error, ReinspectionOrder) outcome" where
  "LinkRecurrence reinspectionID recurrenceID caller callerRole reason expectedVersion now e =
     with_order reinspectionID
       (open_order (revokedActors e) caller expectedVersion
          (LinkRecurrence_body recurrenceID caller callerRole reason now)) e"

definition GetReinspection :: "string \<Rightarrow> ReinspectionEngine \<Rightarrow> wfa_error + ReinspectionOrder" where
  "GetReinspection reinspectionID e =
     (case orders e reinspectionID of None \<Rightarrow> Inl ErrReinspectionNotFound | Some order \<Rightarrow> Inr order)"

subsection \<open>Calls and invariant\<close>

text \<open>
  The calls of the engine with the time they read, and the calls other parts of the program make on
  the governance engine in between.
\<close>

datatype reinspection_call =
  CallCreateReinspectionOrder ReinspectionOrder gotime
| CallAssignReinspector string string string string string string int64 gotime
| CallStartReinspection string string string int64 gotime
| CallVerifySatisfactory string string string string "string list" int64 gotime
| CallSubmitDeficiencyRejection string string string string bool string int64 gotime
| CallFinalClose string string string string bool int64 gotime
| CallReopen string string string string int64 gotime
| CallLinkRecurrence string string string string string int64 gotime
| CallRevokeActorAuthority string
| CallGovernance governance_call

fun reinspection_exec ::
  "reinspection_call \<Rightarrow> ReinspectionEngine \<Rightarrow> (ReinspectionEngine, wfa_error, unit) outcome" where
  "reinspection_exec (CallCreateReinspectionOrder order now) e = discard (CreateReinspectionOrder order now e)"
| "reinspection_exec (CallAssignReinspector i r rl c cr why v now) e = discard (AssignReinspector i r rl c cr why v now e)"
| "reinspection_exec (CallStartReinspection i c cr v now) e = discard (StartReinspection i c cr v now e)"
| "reinspection_exec (CallVerifySatisfactory i c cr why evs v now) e = discard (VerifySatisfactory i c cr why evs v now e)"
| "reinspection_exec (CallSubmitDeficiencyRejection i c cr why d rid v now) e =
     discard (SubmitDeficiencyRejection i c cr why d rid v now e)"
| "reinspection_exec (CallFinalClose i c cr why off v now) e = discard (FinalClose i c cr why off v now e)"
| "reinspection_exec (CallReopen i c cr why v now) e = discard (Reopen i c cr why v now e)"
| "reinspection_exec (CallLinkRecurrence i rid c cr why v now) e = discard (LinkRecurrence i rid c cr why v now e)"
| "reinspection_exec (CallRevokeActorAuthority actor) e = (RevokeActorAuthority actor e, Inr ())"
| "reinspection_exec (CallGovernance g) e =
     (case actionEngine e of
        None \<Rightarrow> (e, Inr ())
      | Some ae \<Rightarrow> (e\<lparr>actionEngine := Some (fst (governance_exec g ae))\<rparr>, snd (governance_exec g ae)))"

text \<open>The lifecycle of an order, as a labelled step relation on its states.\<close>

inductive order_step :: "ReinspectionState \<Rightarrow> string \<Rightarrow> ReinspectionState \<Rightarrow> bool" where
  assign: "s \<noteq> ReinspectionStateClosed \<Longrightarrow> order_step s ''ASSIGN_REINSPECTOR'' ReinspectionStateAssigned"
| start: "s \<in> {ReinspectionStateAssigned, ReinspectionStateRejectedDeficient, ReinspectionStateReopened} \<Longrightarrow>
    order_step s ''START_REINSPECTION'' ReinspectionStateInProgress"
| verify: "order_step ReinspectionStateInProgress ''VERIFY_SATISFACTORY'' ReinspectionStateVerifiedSatisfactory"
| reject: "order_step ReinspectionStateInProgress ''SUBMIT_DEFICIENCY_REJECTION'' ReinspectionStateRejectedDeficient"
| close: "order_step ReinspectionStateVerifiedSatisfactory ''FINAL_CLOSE'' ReinspectionStateClosed"
| reopen: "order_step ReinspectionStateClosed ''REOPEN_ORDER'' ReinspectionStateReopened"
| link: "s \<noteq> ReinspectionStateClosed \<Longrightarrow> order_step s ''LINK_RECURRENCE'' s"

inductive_simps order_step_to_verified: "order_step s l ReinspectionStateVerifiedSatisfactory"
inductive_simps order_step_to_closed: "order_step s l ReinspectionStateClosed"

definition order_edges :: "ReinspectionHistoryEntry list \<Rightarrow> (ReinspectionState \<times> ReinspectionState) list" where
  "order_edges hs = map (\<lambda>h. (rh_FromState h, rh_ToState h)) hs"

text \<open>
  What a history entry guarantees: it is a step of the lifecycle; closing and reopening are by a human
  closure authority, with a reason; verification carries notes.
\<close>

definition legal_entry :: "ReinspectionHistoryEntry \<Rightarrow> bool" where
  "legal_entry h \<longleftrightarrow>
     order_step (rh_FromState h) (rh_Action h) (rh_ToState h) \<and>
     (rh_Action h \<in> {''FINAL_CLOSE'', ''REOPEN_ORDER''} \<longrightarrow>
        isHumanClosureAuthorized (rh_ActorRole h) \<and> \<not> isAutonomousAgentRole (rh_ActorRole h)) \<and>
     (rh_Action h \<in> {''FINAL_CLOSE'', ''REOPEN_ORDER'', ''VERIFY_SATISFACTORY''} \<longrightarrow> TrimSpace (rh_Reason h) \<noteq> [])"

definition order_inv :: "string \<Rightarrow> ReinspectionOrder \<Rightarrow> bool" where
  "order_inv i order \<longleftrightarrow>
     ro_ReinspectionID order = i \<and> ro_History order \<noteq> [] \<and>
     numbered rh_Sequence (ro_History order) \<and> ro_StateVersion order = of_nat (length (ro_History order)) \<and>
     linked (ReinspectionStateOther []) (order_edges (ro_History order)) (ro_State order) \<and>
     rh_ToState (hd (ro_History order)) \<in> {ReinspectionStateAssigned, ReinspectionStatePendingAssignment} \<and>
     list_all legal_entry (tl (ro_History order)) \<and>
     (ro_AssignedReinspector order \<noteq> [] \<longrightarrow>
        \<not> independence_violated (ro_IndependenceRule order) (ro_AssignedReinspector order)
            (ro_OriginalInspector order) (ro_ReinspectorRole order)) \<and>
     (ro_State order = ReinspectionStateClosed \<longrightarrow>
        rh_Actor (last (ro_History order)) = ro_ClosedBy order \<and>
        ro_ClosedAt order = Some (rh_Timestamp (last (ro_History order))))"

definition reinspection_inv :: "ReinspectionEngine \<Rightarrow> bool" where
  "reinspection_inv e \<longleftrightarrow>
     (\<forall>i order. orders e i = Some order \<longrightarrow> order_inv i order) \<and>
     (\<forall>ae. actionEngine e = Some ae \<longrightarrow> governed_inv ae)"

text \<open>Orders are created without a state of the caller's choice, governed actions without a history.\<close>

fun plain_call :: "reinspection_call \<Rightarrow> bool" where
  "plain_call (CallCreateReinspectionOrder order now) \<longleftrightarrow> ro_State order = ReinspectionStateOther []"
| "plain_call (CallGovernance g) \<longleftrightarrow> fresh_call g"
| "plain_call _ \<longleftrightarrow> True"

definition order_journal :: "string \<Rightarrow> ReinspectionEngine \<Rightarrow> ReinspectionHistoryEntry list" where
  "order_journal i e = (case orders e i of None \<Rightarrow> [] | Some order \<Rightarrow> ro_History order)"

subsection \<open>Bodies\<close>

lemma order_edges_snoc [simp]: "order_edges (hs @ [h]) = order_edges hs @ [(rh_FromState h, rh_ToState h)]"
  by (simp add: order_edges_def)

lemma log_order_simps [simp]:
  "ro_State (log_order a r to x why evs now order) = to"
  "ro_StateVersion (log_order a r to x why evs now order) = ro_StateVersion order + 1"
  "ro_ReinspectionID (log_order a r to x why evs now order) = ro_ReinspectionID order"
  "ro_AssignedReinspector (log_order a r to x why evs now order) = ro_AssignedReinspector order"
  "ro_ReinspectorRole (log_order a r to x why evs now order) = ro_ReinspectorRole order"
  "ro_IndependenceRule (log_order a r to x why evs now order) = ro_IndependenceRule order"
  "ro_OriginalInspector (log_order a r to x why evs now order) = ro_OriginalInspector order"
  "ro_ClosedBy (log_order a r to x why evs now order) = ro_ClosedBy order"
  "ro_ClosedAt (log_order a r to x why evs now order) = ro_ClosedAt order"
  by (simp_all add: log_order_def)

lemma log_order_History: "ro_History (log_order a r to x why evs now order) = ro_History order @
    [\<lparr>rh_Sequence = of_nat (length (ro_History order) + 1), rh_Timestamp = now, rh_Actor = a,
      rh_ActorRole = r, rh_FromState = ro_State order, rh_ToState = to, rh_Action = x,
      rh_Reason = why, rh_EvidenceIDs = evs\<rparr>]"
  by (simp add: log_order_def)

lemma log_order_inv:
  assumes inv: "order_inv i order"
    and same: "ro_ReinspectionID order' = ro_ReinspectionID order" "ro_History order' = ro_History order"
      "ro_StateVersion order' = ro_StateVersion order" "ro_State order' = ro_State order"
    and indep: "ro_AssignedReinspector order' \<noteq> [] \<longrightarrow>
        \<not> independence_violated (ro_IndependenceRule order') (ro_AssignedReinspector order')
            (ro_OriginalInspector order') (ro_ReinspectorRole order')"
    and legal: "\<And>n. legal_entry \<lparr>rh_Sequence = n, rh_Timestamp = now, rh_Actor = a,
      rh_ActorRole = r, rh_FromState = ro_State order, rh_ToState = to, rh_Action = x, rh_Reason = why, rh_EvidenceIDs = evs\<rparr>"
    and closed: "to = ReinspectionStateClosed \<longrightarrow> ro_ClosedBy order' = a \<and> ro_ClosedAt order' = Some now"
  shows "order_inv i (log_order a r to x why evs now order')"
proof -
  have "ro_History order \<noteq> []" using inv by (simp add: order_inv_def)
  then show ?thesis
    using inv same indep legal [of "of_nat (length (ro_History order) + 1)"] closed
    by (simp add: order_inv_def log_order_History)
qed

text \<open>The contract of a body: the history only grows, and the invariant is kept.\<close>

definition order_body_ok :: "(ReinspectionOrder \<Rightarrow> wfa_error + ReinspectionOrder) \<Rightarrow> bool" where
  "order_body_ok body \<longleftrightarrow>
     (\<forall>order order'. body order = Inr order' \<longrightarrow>
        prefix (ro_History order) (ro_History order') \<and>
        (\<forall>i. order_inv i order \<longrightarrow> order_inv i order'))"

definition open_body_ok :: "(ReinspectionOrder \<Rightarrow> wfa_error + ReinspectionOrder) \<Rightarrow> bool" where
  "open_body_ok body \<longleftrightarrow>
     (\<forall>order order'. ro_State order \<noteq> ReinspectionStateClosed \<longrightarrow> body order = Inr order' \<longrightarrow>
        prefix (ro_History order) (ro_History order') \<and>
        (\<forall>i. order_inv i order \<longrightarrow> order_inv i order'))"

lemma open_order_ok [simp]: "open_body_ok body \<Longrightarrow> order_body_ok (open_order revoked caller v body)"
  by (auto simp: open_body_ok_def order_body_ok_def open_order_def split: if_splits)

lemma order_inv_independent:
  "order_inv i order \<Longrightarrow> ro_AssignedReinspector order \<noteq> [] \<longrightarrow>
     \<not> independence_violated (ro_IndependenceRule order) (ro_AssignedReinspector order)
         (ro_OriginalInspector order) (ro_ReinspectorRole order)"
  by (simp add: order_inv_def)

lemma AssignReinspector_body_ok [simp]: "open_body_ok (AssignReinspector_body r rl c cr why now)"
  unfolding open_body_ok_def AssignReinspector_body_def Let_def
  by (auto simp: log_order_History legal_entry_def split: if_splits intro!: log_order_inv order_step.assign)

lemma StartReinspection_body_ok [simp]: "open_body_ok (StartReinspection_body c cr now)"
  unfolding open_body_ok_def StartReinspection_body_def
  by (auto simp: log_order_History legal_entry_def order_inv_independent split: if_splits
      intro!: log_order_inv order_step.start)

lemma VerifySatisfactory_body_ok [simp]: "open_body_ok (VerifySatisfactory_body ae c cr why evs now)"
  unfolding open_body_ok_def VerifySatisfactory_body_def
  by (auto simp: log_order_History legal_entry_def order_inv_independent split: if_splits option.splits
      intro!: log_order_inv order_step.verify)

lemma SubmitDeficiencyRejection_body_ok [simp]: "open_body_ok (SubmitDeficiencyRejection_body c cr why d rid now)"
  unfolding open_body_ok_def SubmitDeficiencyRejection_body_def Let_def
  by (auto simp: log_order_History legal_entry_def order_inv_independent split: if_splits
      intro!: log_order_inv order_step.reject)

lemma LinkRecurrence_body_ok [simp]: "open_body_ok (LinkRecurrence_body rid c cr why now)"
  unfolding open_body_ok_def LinkRecurrence_body_def
  by (auto simp: log_order_History legal_entry_def order_inv_independent split: if_splits
      intro!: log_order_inv order_step.link)

lemma FinalClose_body_ok [simp]:
  "isHumanClosureAuthorized cr \<Longrightarrow> \<not> isAutonomousAgentRole cr \<Longrightarrow> order_body_ok (FinalClose_body c cr why v now)"
  unfolding order_body_ok_def FinalClose_body_def
  by (auto simp: log_order_History legal_entry_def order_inv_independent split: if_splits
      intro!: log_order_inv order_step.close)

lemma Reopen_body_ok [simp]:
  "isHumanClosureAuthorized cr \<Longrightarrow> \<not> isAutonomousAgentRole cr \<Longrightarrow> order_body_ok (Reopen_body c cr why v now)"
  unfolding order_body_ok_def Reopen_body_def
  by (auto simp: log_order_History legal_entry_def order_inv_independent split: if_splits
      intro!: log_order_inv order_step.reopen)

subsection \<open>Methods\<close>

lemma with_order_cases:
  assumes "with_order i body e = (e', res)"
  obtains (denied) err where "e' = e" "res = Inl err"
  | (updated) order order' where "orders e i = Some order" "body order = Inr order'"
      "e' = e\<lparr>orders := (orders e)(i \<mapsto> order')\<rparr>" "res = Inr order'"
proof (cases "orders e i")
  case (Some order)
  show thesis
  proof (cases "body order")
    case (Inl err)
    with assms Some have "e' = e" "res = Inl err" by (simp_all add: with_order_def)
    then show thesis by (rule denied)
  next
    case (Inr order')
    with assms Some have "e' = e\<lparr>orders := (orders e)(i \<mapsto> order')\<rparr>" "res = Inr order'"
      by (simp_all add: with_order_def)
    with Some Inr show thesis by (rule updated)
  qed
next
  case None
  with assms have "e' = e" "res = Inl ErrReinspectionNotFound" by (simp_all add: with_order_def)
  then show thesis by (rule denied)
qed

lemma with_order_inv [simp]:
  assumes "reinspection_inv e" and "order_body_ok body"
  shows "reinspection_inv (fst (with_order i body e))"
proof -
  obtain e' res where w: "with_order i body e = (e', res)" by fastforce
  then show ?thesis
  proof (cases rule: with_order_cases)
    case (denied err)
    with w assms show ?thesis by simp
  next
    case (updated order order')
    with assms have "order_inv i order'" by (auto simp: order_body_ok_def reinspection_inv_def)
    with w updated assms(1) show ?thesis by (simp add: reinspection_inv_def)
  qed
qed

lemma with_order_journal [simp]:
  assumes "order_body_ok body"
  shows "prefix (order_journal j e) (order_journal j (fst (with_order i body e)))"
proof -
  obtain e' res where w: "with_order i body e = (e', res)" by fastforce
  then show ?thesis
  proof (cases rule: with_order_cases)
    case (denied err)
    with w show ?thesis by simp
  next
    case (updated order order')
    with assms have "prefix (ro_History order) (ro_History order')" by (auto simp: order_body_ok_def)
    with w updated show ?thesis by (simp add: order_journal_def)
  qed
qed

lemma CreateReinspectionOrder_cases:
  assumes "CreateReinspectionOrder order now e = (e', res)"
  obtains (denied) err where "e' = e" "res = Inl err"
  | (created) rule where "orders e (TrimSpace (ro_ReinspectionID order)) = None"
      "TrimSpace (ro_AssignedReinspector order) \<noteq> [] \<longrightarrow>
         \<not> independence_violated rule (TrimSpace (ro_AssignedReinspector order)) (TrimSpace (ro_OriginalInspector order))
             (ToUpper (TrimSpace (ro_ReinspectorRole order)))"
      "e' = e\<lparr>orders := (orders e)(TrimSpace (ro_ReinspectionID order) \<mapsto> new_order order rule now)\<rparr>"
      "res = Inr (new_order order rule now)"
proof (cases "\<exists>err. e' = e \<and> res = Inl err")
  case False
  with assms show thesis
    using created [of "if ro_IndependenceRule order = IndependenceOther [] then IndependenceSameInspectorAllowed
                  else ro_IndependenceRule order"]
    unfolding CreateReinspectionOrder_def Let_def by (metis prod.inject)
qed (use denied in blast)

lemma new_order_inv:
  assumes "ro_State order = ReinspectionStateOther []"
    and "TrimSpace (ro_AssignedReinspector order) \<noteq> [] \<longrightarrow>
      \<not> independence_violated rule (TrimSpace (ro_AssignedReinspector order)) (TrimSpace (ro_OriginalInspector order))
          (ToUpper (TrimSpace (ro_ReinspectorRole order)))"
  shows "order_inv (TrimSpace (ro_ReinspectionID order)) (new_order order rule now)"
  using assms by (simp add: order_inv_def new_order_def order_edges_def Let_def)

lemma CreateReinspectionOrder_inv:
  assumes "reinspection_inv e" and "ro_State order = ReinspectionStateOther []"
  shows "reinspection_inv (fst (CreateReinspectionOrder order now e))"
proof -
  obtain e' res where c: "CreateReinspectionOrder order now e = (e', res)" by fastforce
  then show ?thesis
  proof (cases rule: CreateReinspectionOrder_cases)
    case (denied err)
    with c assms show ?thesis by simp
  next
    case (created rule)
    with c assms new_order_inv [OF assms(2), of rule now] show ?thesis by (simp add: reinspection_inv_def)
  qed
qed

lemma CreateReinspectionOrder_journal:
  "prefix (order_journal i e) (order_journal i (fst (CreateReinspectionOrder order now e)))"
proof -
  obtain e' res where c: "CreateReinspectionOrder order now e = (e', res)" by fastforce
  then show ?thesis by (cases rule: CreateReinspectionOrder_cases) (use c in \<open>simp_all add: order_journal_def\<close>)
qed

lemmas order_method_defs = AssignReinspector_def StartReinspection_def VerifySatisfactory_def
  SubmitDeficiencyRejection_def FinalClose_def Reopen_def LinkRecurrence_def

lemma reinspection_exec_inv:
  assumes "reinspection_inv e" and "plain_call c"
  shows "reinspection_inv (fst (reinspection_exec c e))"
proof (cases c)
  case (CallGovernance g)
  with assms show ?thesis
    by (auto simp: reinspection_inv_def governance_exec_inv split: option.splits)
next
  case (CallRevokeActorAuthority actor)
  with assms show ?thesis by (simp add: reinspection_inv_def RevokeActorAuthority_def)
qed (use assms in \<open>simp_all add: order_method_defs CreateReinspectionOrder_inv\<close>)

lemma reinspection_exec_journal: "prefix (order_journal i e) (order_journal i (fst (reinspection_exec c e)))"
proof (cases c)
  case (CallGovernance g)
  then show ?thesis by (auto simp: order_journal_def split: option.splits)
next
  case (CallRevokeActorAuthority actor)
  then show ?thesis by (simp add: order_journal_def RevokeActorAuthority_def)
qed (simp_all add: order_method_defs CreateReinspectionOrder_journal)

lemma with_order_error: "with_order i body e = (e', Inl err) \<Longrightarrow> e' = e"
  by (erule with_order_cases) auto

lemma reinspection_exec_error: "reinspection_exec c e = (e', Inl err) \<Longrightarrow> e' = e"
proof (cases c)
  case (CallCreateReinspectionOrder order now)
  assume "reinspection_exec c e = (e', Inl err)"
  with CallCreateReinspectionOrder have "CreateReinspectionOrder order now e = (e', Inl err)" by (simp add: discard_Inl)
  then show ?thesis by (cases rule: CreateReinspectionOrder_cases) auto
next
  case (CallGovernance g)
  assume "reinspection_exec c e = (e', Inl err)"
  with CallGovernance governance_exec_error [of g "the (actionEngine e)" _ err] show ?thesis
    by (cases "actionEngine e"; cases "governance_exec g (the (actionEngine e))")
      (auto intro!: ReinspectionEngine.equality)
qed (auto simp: discard_Inl order_method_defs split: if_splits dest: with_order_error)

interpretation re: journaled reinspection_exec reinspection_inv plain_call order_journal
  by unfold_locales (simp_all add: reinspection_exec_inv reinspection_exec_journal)

interpretation re_closed: fail_closed reinspection_exec
  by unfold_locales (rule reinspection_exec_error)

lemma new_reinspection_inv: "(\<And>ae. ae0 = Some ae \<Longrightarrow> governed_inv ae) \<Longrightarrow> reinspection_inv (NewReinspectionEngine ae0)"
  by (simp add: reinspection_inv_def NewReinspectionEngine_def)

lemma reachable_reinspection_inv:
  assumes "list_all plain_call cs"
  shows "reinspection_inv (run_calls reinspection_exec cs (NewReinspectionEngine (Some NewActionGovernanceEngine)))"
  using assms
  by (intro re.run_inv new_reinspection_inv) (auto simp: governed_inv_def NewActionGovernanceEngine_def)

text \<open>
  Along a path of the lifecycle that starts at creation, the state VERIFIED\_SATISFACTORY is entered by a
  verification and left alone by recurrence links only.
\<close>

lemma path_to_verified:
  assumes "linked (ReinspectionStateOther []) (order_edges (h # hs)) ReinspectionStateVerifiedSatisfactory"
    and "rh_ToState h \<in> {ReinspectionStateAssigned, ReinspectionStatePendingAssignment}"
    and "list_all legal_entry hs"
  shows "\<exists>past v links. hs = past @ v # links \<and> rh_Action v = ''VERIFY_SATISFACTORY'' \<and>
    list_all (\<lambda>l. rh_Action l = ''LINK_RECURRENCE'') links"
  using assms
proof (induction hs rule: rev_induct)
  case Nil
  then show ?case by (auto simp: order_edges_def)
next
  case (snoc x hs)
  then have x: "rh_ToState x = ReinspectionStateVerifiedSatisfactory" "legal_entry x"
    and path: "linked (ReinspectionStateOther []) (order_edges (h # hs)) (rh_FromState x)"
    using order_edges_snoc [of "h # hs" x] by auto
  then consider "rh_Action x = ''VERIFY_SATISFACTORY''"
    | "rh_Action x = ''LINK_RECURRENCE''" "rh_FromState x = ReinspectionStateVerifiedSatisfactory"
    by (auto simp: legal_entry_def order_step_to_verified)
  then show ?case
  proof cases
    case 1
    then show ?thesis by (intro exI [of _ hs] exI [of _ x] exI [of _ "[]"]) simp
  next
    case 2
    with snoc path obtain past v links where "hs = past @ v # links" "rh_Action v = ''VERIFY_SATISFACTORY''"
      "list_all (\<lambda>l. rh_Action l = ''LINK_RECURRENCE'') links" by auto
    with 2 show ?thesis by (intro exI [of _ past] exI [of _ v] exI [of _ "links @ [x]"]) simp
  qed
qed

lemma closed_path:
  assumes inv: "order_inv i order" and closed: "ro_State order = ReinspectionStateClosed"
  obtains past v links c where "ro_History order = past @ v # links @ [c]"
    "rh_Action v = ''VERIFY_SATISFACTORY''" "legal_entry v" "list_all (\<lambda>l. rh_Action l = ''LINK_RECURRENCE'') links"
    "rh_Action c = ''FINAL_CLOSE''" "legal_entry c"
    "rh_Actor c = ro_ClosedBy order" "ro_ClosedAt order = Some (rh_Timestamp c)"
proof -
  from inv have ne: "ro_History order \<noteq> []" by (simp add: order_inv_def)
  then obtain h0 hs0 where h: "ro_History order = h0 # hs0" by (cases "ro_History order") auto
  with inv closed have start: "rh_ToState h0 \<in> {ReinspectionStateAssigned, ReinspectionStatePendingAssignment}"
    and path: "linked (ReinspectionStateOther []) (order_edges (h0 # hs0)) ReinspectionStateClosed"
    and legal: "list_all legal_entry hs0"
    by (simp_all add: order_inv_def)
  from start path have "hs0 \<noteq> []" by (auto simp: order_edges_def)
  then obtain hs c where hs: "hs0 = hs @ [c]" by (cases hs0 rule: rev_cases) auto
  with path have to: "rh_ToState c = ReinspectionStateClosed"
    and from_: "linked (ReinspectionStateOther []) (order_edges (h0 # hs)) (rh_FromState c)"
    using order_edges_snoc [of "h0 # hs" c] by auto
  from legal hs have lc: "legal_entry c" and lh: "list_all legal_entry hs" by auto
  from lc to have c: "rh_Action c = ''FINAL_CLOSE''" "rh_FromState c = ReinspectionStateVerifiedSatisfactory"
    by (auto simp: legal_entry_def order_step_to_closed)
  obtain past v links where split: "hs = past @ v # links" and v: "rh_Action v = ''VERIFY_SATISFACTORY''"
    and links: "list_all (\<lambda>l. rh_Action l = ''LINK_RECURRENCE'') links"
    using path_to_verified [of h0 hs] from_ c(2) start lh by auto
  show thesis
  proof (rule that)
    show "ro_History order = (h0 # past) @ v # links @ [c]" using h hs split by simp
    show "legal_entry v" using lh split by simp
    show "rh_Actor c = ro_ClosedBy order" "ro_ClosedAt order = Some (rh_Timestamp c)"
      using inv closed h hs by (simp_all add: order_inv_def)
  qed (use v links c lc in auto)
qed

text \<open>Orders and calls for evaluations.\<close>

definition example_order :: "ReinspectionState \<Rightarrow> IndependenceRequirement \<Rightarrow> ReinspectionOrder" where
  "example_order st rule =
     \<lparr>ro_ReinspectionID = ''rin1'', ro_TenantID = ''ten_a'', ro_FindingID = ''fnd1'', ro_ActionID = ''act1'',
      ro_OriginalInspector = ''ann'', ro_AssignedReinspector = ''rob'', ro_ReinspectorRole = ''inspector'',
      ro_IndependenceRule = rule, ro_State = st, ro_StateVersion = 0, ro_IsOffline = False, ro_EvidenceIDs = [],
      ro_VerificationNotes = [], ro_DeficiencyDetails = [], ro_ScheduledAt = 5, ro_CompletedAt = None,
      ro_ClosedAt = None, ro_ClosedBy = [], ro_ClosureRationale = [], ro_RecurrenceID = [], ro_RecurrenceCount = 0,
      ro_History = [], ro_CreatedAt = 0, ro_UpdatedAt = 0\<rparr>"

definition example_governed_evidence :: GovernedEvidence where
  "example_governed_evidence =
     \<lparr>ge_EvidenceID = ''ev1'', ge_ActionID = [], ge_Digest = ''d1'', ge_MediaType = [], ge_SubmittedBy = ''ann'',
      ge_SubmittedAt = 0, ge_Description = [], ge_Status = EvidenceStatusSubmitted, ge_ReviewedBy = [],
      ge_ReviewedAt = 0, ge_ReviewNotes = []\<rparr>"

definition example_reinspection_calls :: "reinspection_call list" where
  "example_reinspection_calls =
     [CallGovernance (CallRegisterAction ''ten_a'' example_governed 10),
      CallGovernance (CallGoverned ''ten_a'' ''act1'' 1 11 (OpSubmitEvidence example_governed_evidence)),
      CallGovernance (CallGoverned ''ten_a'' ''act1'' 2 12 (OpReviewEvidence ''ev1'' ''bob'' True ''ok'')),
      CallCreateReinspectionOrder (example_order (ReinspectionStateOther []) IndependenceDifferentInspectorRequired) 20,
      CallStartReinspection ''rin1'' ''rob'' ''inspector'' 1 21,
      CallVerifySatisfactory ''rin1'' ''rob'' ''inspector'' ''exit clear'' [''ev1''] 2 22,
      CallFinalClose ''rin1'' ''sue'' ''supervisor'' ''done'' False 3 23]"

lemmas reinspection_eval = example_order_def example_governed_evidence_def example_reinspection_calls_def
  NewReinspectionEngine_def CreateReinspectionOrder_def new_order_def independence_violated_def order_method_defs
  with_order_def open_order_def log_order_def AssignReinspector_body_def StartReinspection_body_def
  VerifySatisfactory_body_def evidence_gate_def GetGovernedAction_def FinalClose_body_def Reopen_body_def
  LinkRecurrence_body_def SubmitDeficiencyRejection_body_def RevokeActorAuthority_def isAutonomousAgentRole_def
  isHumanClosureAuthorized_def isSupervisorRole_def

lemma example_reinspection_plain: "list_all plain_call example_reinspection_calls"
  by (simp add: example_reinspection_calls_def example_order_def example_governed_def)

lemma example_reinspection_closed:
  "\<exists>order. orders (run_calls reinspection_exec example_reinspection_calls
       (NewReinspectionEngine (Some NewActionGovernanceEngine))) ''rin1'' = Some order \<and>
     ro_State order = ReinspectionStateClosed \<and> ro_AssignedReinspector order = ''rob'' \<and>
     ro_IndependenceRule order = IndependenceDifferentInspectorRequired"
  by (simp add: reinspection_eval governance_eval)

subsection \<open>Properties\<close>

text \<open>
  (C5) Provided that orders are created without a state of the caller's choice and actions registered
  without a history of their own (\<open>plain_call\<close>): whenever an order is CLOSED, in any interleaving
  with calls on the governance engine, its history ends in a verification with notes,
  followed by recurrence links only, followed by a final closure by a human closure authority who is
  not an autonomous agent, with a rationale, and the closure fields name that actor and time.
\<close>

theorem closed_order_was_verified:
  assumes "list_all plain_call cs"
    and "orders (run_calls reinspection_exec cs (NewReinspectionEngine (Some NewActionGovernanceEngine))) i = Some order"
    and "ro_State order = ReinspectionStateClosed"
  shows "\<exists>past v links c. ro_History order = past @ v # links @ [c] \<and>
    rh_Action v = ''VERIFY_SATISFACTORY'' \<and> rh_FromState v = ReinspectionStateInProgress \<and> TrimSpace (rh_Reason v) \<noteq> [] \<and>
    list_all (\<lambda>l. rh_Action l = ''LINK_RECURRENCE'') links \<and>
    rh_Action c = ''FINAL_CLOSE'' \<and> isHumanClosureAuthorized (rh_ActorRole c) \<and> \<not> isAutonomousAgentRole (rh_ActorRole c) \<and>
    TrimSpace (rh_Reason c) \<noteq> [] \<and> ro_ClosedBy order = rh_Actor c \<and> ro_ClosedAt order = Some (rh_Timestamp c)"
proof -
  from reachable_reinspection_inv [OF assms(1)] assms(2) have "order_inv i order" by (simp add: reinspection_inv_def)
  then show ?thesis
  proof (rule closed_path [OF _ assms(3)])
    fix past v links c
    assume h: "ro_History order = past @ v # links @ [c]" "rh_Action v = ''VERIFY_SATISFACTORY''" "legal_entry v"
      "list_all (\<lambda>l. rh_Action l = ''LINK_RECURRENCE'') links" "rh_Action c = ''FINAL_CLOSE''" "legal_entry c"
      "rh_Actor c = ro_ClosedBy order" "ro_ClosedAt order = Some (rh_Timestamp c)"
    from h(2,3) have "rh_FromState v = ReinspectionStateInProgress" "TrimSpace (rh_Reason v) \<noteq> []"
      by (auto simp: legal_entry_def elim: order_step.cases)
    with h show ?thesis
      by (intro exI [of _ past] exI [of _ v] exI [of _ links] exI [of _ c]) (auto simp: legal_entry_def)
  qed
qed

text \<open>
  Independence and audit trail, for the same orders: in every reachable engine the assigned
  reinspector of an order respects its independence rule, the history is numbered from 1, chains from
  creation to the current state, its length is the state version, every entry after creation is a step
  of the lifecycle, and later calls only extend it.
\<close>

theorem order_independence_and_trail:
  assumes "list_all plain_call cs" and "list_all plain_call ds"
    and "orders (run_calls reinspection_exec cs (NewReinspectionEngine (Some NewActionGovernanceEngine))) i = Some order"
  shows "(ro_AssignedReinspector order \<noteq> [] \<longrightarrow>
      (ro_IndependenceRule order = IndependenceDifferentInspectorRequired \<longrightarrow>
         ro_AssignedReinspector order \<noteq> ro_OriginalInspector order) \<and>
      (ro_IndependenceRule order = IndependenceThirdPartyRequired \<longrightarrow>
         ro_ReinspectorRole order \<in> {''THIRD_PARTY_AUDITOR'', ''EXTERNAL_AUDITOR''})) \<and>
    numbered rh_Sequence (ro_History order) \<and> ro_StateVersion order = of_nat (length (ro_History order)) \<and>
    linked (ReinspectionStateOther []) (order_edges (ro_History order)) (ro_State order) \<and>
    list_all (\<lambda>h. order_step (rh_FromState h) (rh_Action h) (rh_ToState h)) (tl (ro_History order)) \<and>
    prefix (ro_History order)
      (order_journal i (run_calls reinspection_exec (cs @ ds) (NewReinspectionEngine (Some NewActionGovernanceEngine))))"
proof -
  let ?e = "run_calls reinspection_exec cs (NewReinspectionEngine (Some NewActionGovernanceEngine))"
  have inv: "reinspection_inv ?e" using assms(1) by (rule reachable_reinspection_inv)
  with assms(3) have "order_inv i order" by (simp add: reinspection_inv_def)
  moreover have "prefix (ro_History order) (order_journal i (run_calls reinspection_exec ds ?e))"
    using re.run_journal [OF inv assms(2), of i] assms(3) by (simp add: order_journal_def)
  moreover have "list_all (\<lambda>h. order_step (rh_FromState h) (rh_Action h) (rh_ToState h)) hs"
    if "list_all legal_entry hs" for hs
    using that by (auto simp: list_all_iff legal_entry_def)
  ultimately show ?thesis unfolding order_inv_def independence_violated_def by simp
qed

text \<open>
  \<open>FinalClose\<close> on an existing order succeeds exactly when the call is online, the role has human
  closure authority and is not an autonomous agent's, the caller is not revoked, the order is
  VERIFIED\_SATISFACTORY at the expected version and a rationale is given. It then closes the order with
  one history entry and the next version; otherwise nothing changes.
\<close>

theorem FinalClose_succeeds_iff:
  assumes "orders e i = Some order" and "FinalClose i caller role why offline v now e = (e', res)"
  shows "((\<exists>order'. res = Inr order') \<longleftrightarrow>
      \<not> offline \<and> isHumanClosureAuthorized role \<and> \<not> isAutonomousAgentRole role \<and> \<not> IsActorRevoked caller e \<and>
      ro_State order = ReinspectionStateVerifiedSatisfactory \<and> ro_StateVersion order = v \<and> TrimSpace why \<noteq> []) \<and>
    (case res of
       Inl err \<Rightarrow> e' = e
     | Inr order' \<Rightarrow> e' = e\<lparr>orders := (orders e)(i \<mapsto> order')\<rparr> \<and> ro_State order' = ReinspectionStateClosed \<and>
         ro_ClosedBy order' = caller \<and> ro_StateVersion order' = v + 1 \<and>
         length (ro_History order') = length (ro_History order) + 1)"
proof -
  let ?ok = "ro_State order = ReinspectionStateVerifiedSatisfactory \<and> ro_StateVersion order = v \<and> TrimSpace why \<noteq> []"
  let ?allowed = "\<not> offline \<and> isHumanClosureAuthorized role \<and> \<not> isAutonomousAgentRole role \<and> \<not> IsActorRevoked caller e"
  show ?thesis
  proof (cases ?allowed)
    case False
    with assms(2) have "e' = e" "\<exists>err. res = Inl err"
      unfolding FinalClose_def IsActorRevoked_def by (metis prod.inject)+
    with False show ?thesis by auto
  next
    case True
    with assms(2) have w: "with_order i (FinalClose_body caller role why v now) e = (e', res)"
      by (simp add: FinalClose_def IsActorRevoked_def)
    show ?thesis
    proof (cases ?ok)
      case ok: True
      with True w assms(1) show ?thesis
        by (auto simp: with_order_def FinalClose_body_def log_order_def)
    next
      case notok: False
      then have "\<exists>err. FinalClose_body caller role why v now order = Inl err" by (simp add: FinalClose_body_def)
      then obtain err where "FinalClose_body caller role why v now order = Inl err" by blast
      with w assms(1) have "e' = e" "res = Inl err" by (simp_all add: with_order_def)
      with notok show ?thesis by auto
    qed
  qed
qed

text \<open>
  Revocation is looked up with the caller as given, the assignment is compared with the caller
  trimmed: a revoked reinspector still starts the reinspection by adding a space to the name.
\<close>

theorem revoked_actor_starts_with_space:
  "\<exists>e order. e = RevokeActorAuthority ''rob'' (run_calls reinspection_exec (take 4 example_reinspection_calls)
        (NewReinspectionEngine (Some NewActionGovernanceEngine))) \<and>
     IsActorRevoked ''rob'' e \<and>
     snd (StartReinspection ''rin1'' ''rob'' ''inspector'' 1 21 e) = Inl ErrActorAuthorityRevoked \<and>
     snd (StartReinspection ''rin1'' '' rob'' ''inspector'' 1 21 e) = Inr order \<and>
     rh_Actor (last (ro_History order)) = ''rob''"
proof -
  have trim: "TrimSpace '' rob'' = ''rob''" by code_simp
  show ?thesis by (simp add: reinspection_eval governance_eval IsActorRevoked_def trim)
qed

text \<open>
  Creation accepts any initial state: an order created as VERIFIED\_SATISFACTORY is closed although
  nothing was ever inspected.
\<close>

theorem unverified_order_closes:
  "\<exists>e order order'. CreateReinspectionOrder (example_order ReinspectionStateVerifiedSatisfactory IndependenceSameInspectorAllowed) 20
       (NewReinspectionEngine None) = (e, Inr order) \<and>
     snd (FinalClose ''rin1'' ''sue'' ''supervisor'' ''done'' False 1 21 e) = Inr order' \<and>
     ro_State order' = ReinspectionStateClosed \<and> ro_VerificationNotes order' = [] \<and> ro_CompletedAt order' = None"
  by (simp add: reinspection_eval governance_eval)

subsection \<open>Witnesses\<close>

theorem closed_order_was_verified_witness:
  "\<exists>order c. orders (run_calls reinspection_exec example_reinspection_calls
       (NewReinspectionEngine (Some NewActionGovernanceEngine))) ''rin1'' = Some order \<and>
     c \<in> set (ro_History order) \<and> isHumanClosureAuthorized (rh_ActorRole c)"
proof -
  obtain order where o: "orders (run_calls reinspection_exec example_reinspection_calls
       (NewReinspectionEngine (Some NewActionGovernanceEngine))) ''rin1'' = Some order" "ro_State order = ReinspectionStateClosed"
    using example_reinspection_closed by blast
  from closed_order_was_verified [OF example_reinspection_plain this] o show ?thesis by auto
qed

theorem order_independence_and_trail_witness:
  "\<exists>order. orders (run_calls reinspection_exec example_reinspection_calls
       (NewReinspectionEngine (Some NewActionGovernanceEngine))) ''rin1'' = Some order \<and>
     ro_AssignedReinspector order \<noteq> ro_OriginalInspector order"
proof -
  obtain order where o: "orders (run_calls reinspection_exec example_reinspection_calls
       (NewReinspectionEngine (Some NewActionGovernanceEngine))) ''rin1'' = Some order"
    "ro_AssignedReinspector order = ''rob''" "ro_IndependenceRule order = IndependenceDifferentInspectorRequired"
    using example_reinspection_closed by blast
  from order_independence_and_trail [OF example_reinspection_plain _ o(1), of "[]"] o show ?thesis by auto
qed

theorem FinalClose_succeeds_iff_witness:
  "\<exists>res. snd (FinalClose ''rin1'' ''sue'' ''supervisor'' ''done'' False 3 23
      (run_calls reinspection_exec (take 6 example_reinspection_calls)
        (NewReinspectionEngine (Some NewActionGovernanceEngine)))) = Inr res"
proof -
  let ?e = "run_calls reinspection_exec (take 6 example_reinspection_calls)
        (NewReinspectionEngine (Some NewActionGovernanceEngine))"
  have "\<exists>order. orders ?e ''rin1'' = Some order \<and> ro_State order = ReinspectionStateVerifiedSatisfactory \<and> ro_StateVersion order = 3"
    by (simp add: reinspection_eval governance_eval)
  then obtain order where o: "orders ?e ''rin1'' = Some order" "ro_State order = ReinspectionStateVerifiedSatisfactory"
    "ro_StateVersion order = 3" by blast
  obtain e' res where f: "FinalClose ''rin1'' ''sue'' ''supervisor'' ''done'' False 3 23 ?e = (e', res)" by fastforce
  have "\<not> IsActorRevoked ''sue'' ?e" "isHumanClosureAuthorized ''supervisor''" "\<not> isAutonomousAgentRole ''supervisor''"
    by (simp_all add: IsActorRevoked_def reinspection_eval governance_eval)
  with FinalClose_succeeds_iff [OF o(1) f] o f show ?thesis by simp
qed

end
