(* ===== verification/Event_Outbox.thy ===== *)
theory Event_Outbox
  imports Go_Strings
begin

text \<open>
  The transactional outbox, \<open>modules/events-outbox-jobs/event_outbox.go\<close>: validation of identifiers,
  digests and versions, staging in a transaction, atomic commit with consecutive sequence
  numbers, rollback, and the ordered queries. Several transactions may be open on one outbox; the
  model keeps the outbox and the list of transactions opened on it (\<open>outbox_system\<close>), and a transaction
  is addressed by its position. \<open>Stage\<close> reads the outbox once, under its lock, and \<open>Commit\<close> holds the lock
  throughout, so every method is one step.
\<close>

subsection \<open>Definitions\<close>

definition PrefixEvent :: string where "PrefixEvent = ''evt''"
definition PrefixTenant :: string where "PrefixTenant = ''ten''"
definition PrefixCorrelation :: string where "PrefixCorrelation = ''corr''"
definition PrefixCausation :: string where "PrefixCausation = ''caus''"
definition CurrentEnvelopeVersion :: string where "CurrentEnvelopeVersion = ''1.0.0''"
definition CurrentSchemaVersion :: string where "CurrentSchemaVersion = ''1.0.0''"

datatype outbox_error =
  ErrEmptyID | ErrMalformedID | ErrPrefixMismatch | ErrBlankField | ErrInvalidDigest
| ErrUnsupportedEnvelopeVersion | ErrIncompatibleSchemaVersion | ErrDuplicateEventID
| ErrCrossTenantAssociation | ErrTxClosed

text \<open>The validators answer \<open>None\<close> for Go's nil error.\<close>

definition ValidatePrefixedID :: "string \<Rightarrow> string \<Rightarrow> outbox_error option" where
  "ValidatePrefixedID raw expectedPrefix =
     (let trimmed = TrimSpace raw in
      if trimmed = [] then Some ErrEmptyID
      else case IndexByte trimmed (CHR ''_'') of
        None \<Rightarrow> Some ErrMalformedID
      | Some idx \<Rightarrow>
          if idx = 0 \<or> idx = length trimmed - 1 then Some ErrMalformedID
          else if take idx trimmed \<noteq> expectedPrefix then Some ErrPrefixMismatch
          else if \<not> list_all id_byte (drop (idx + 1) trimmed) then Some ErrMalformedID
          else None)"

definition ValidatePayloadDigest :: "string \<Rightarrow> outbox_error option" where
  "ValidatePayloadDigest digest =
     (let trimmed = TrimSpace digest in
      if length trimmed \<noteq> 64 then Some ErrInvalidDigest
      else if \<not> list_all hex_byte trimmed then Some ErrInvalidDigest
      else None)"

definition ValidateCompatibility :: "string \<Rightarrow> string \<Rightarrow> outbox_error option" where
  "ValidateCompatibility envelopeVersion schemaVersion =
     (if TrimSpace envelopeVersion \<noteq> CurrentEnvelopeVersion then Some ErrUnsupportedEnvelopeVersion
      else if TrimSpace schemaVersion \<noteq> CurrentSchemaVersion then Some ErrIncompatibleSchemaVersion
      else None)"

record EventEnvelope =
  ev_EventID :: string
  ev_TenantID :: string
  ev_Producer :: string
  ev_EventType :: string
  ev_EnvelopeVersion :: string
  ev_SchemaVersion :: string
  ev_CorrelationID :: string
  ev_CausationID :: string
  ev_PayloadDigest :: string
  ev_SequenceNumber :: int64
  ev_Timestamp :: gotime

record EventInput =
  ei_EventID :: string
  ei_TenantID :: string
  ei_Producer :: string
  ei_EventType :: string
  ei_EnvelopeVersion :: string
  ei_SchemaVersion :: string
  ei_CorrelationID :: string
  ei_CausationID :: string
  ei_PayloadDigest :: string
  ei_Timestamp :: gotime

record Outbox =
  committed :: "EventEnvelope list"
  eventIDs :: "string set"
  seqCounter :: int64

definition NewOutbox :: Outbox where
  "NewOutbox = \<lparr>committed = [], eventIDs = {}, seqCounter = 0\<rparr>"

record OutboxTx =
  tx_tenantID :: string
  tx_staged :: "EventEnvelope list"
  tx_stagedIDs :: "string set"
  tx_closed :: bool

definition BeginTx :: "string \<Rightarrow> outbox_error + OutboxTx" where
  "BeginTx tenantID =
     (case ValidatePrefixedID tenantID PrefixTenant of
        Some e \<Rightarrow> Inl e
      | None \<Rightarrow> Inr \<lparr>tx_tenantID = TrimSpace tenantID, tx_staged = [], tx_stagedIDs = {}, tx_closed = False\<rparr>)"

text \<open>
  \<open>sort.Slice\<close> by sequence number; it is not stable, which does not matter because the numbers are distinct
  (\<open>CommittedEvents_in_order\<close> below).
\<close>

definition CommittedEvents :: "Outbox \<Rightarrow> EventEnvelope list" where
  "CommittedEvents o' = sort_key (\<lambda>ev. sint (ev_SequenceNumber ev)) (committed o')"

definition CommittedEventsForTenant :: "string \<Rightarrow> Outbox \<Rightarrow> outbox_error + EventEnvelope list" where
  "CommittedEventsForTenant tenantID o' =
     (case ValidatePrefixedID tenantID PrefixTenant of
        Some e \<Rightarrow> Inl e
      | None \<Rightarrow> Inr (sort_key (\<lambda>ev. sint (ev_SequenceNumber ev))
                  (filter (\<lambda>ev. ev_TenantID ev = tenantID) (committed o'))))"

definition new_envelope :: "string \<Rightarrow> EventInput \<Rightarrow> gotime \<Rightarrow> EventEnvelope" where
  "new_envelope tenantID input now =
     \<lparr>ev_EventID = TrimSpace (ei_EventID input), ev_TenantID = tenantID,
      ev_Producer = TrimSpace (ei_Producer input), ev_EventType = TrimSpace (ei_EventType input),
      ev_EnvelopeVersion = (if TrimSpace (ei_EnvelopeVersion input) = [] then CurrentEnvelopeVersion
                            else TrimSpace (ei_EnvelopeVersion input)),
      ev_SchemaVersion = TrimSpace (ei_SchemaVersion input), ev_CorrelationID = TrimSpace (ei_CorrelationID input),
      ev_CausationID = TrimSpace (ei_CausationID input), ev_PayloadDigest = TrimSpace (ei_PayloadDigest input),
      ev_SequenceNumber = 0,
      ev_Timestamp = (if IsZero (ei_Timestamp input) then now else ei_Timestamp input)\<rparr>"

text \<open>The checks of \<open>Stage\<close> after the duplicate checks, in their order.\<close>

definition validate_input :: "EventInput \<Rightarrow> outbox_error option" where
  "validate_input input =
     (let envVer = (if TrimSpace (ei_EnvelopeVersion input) = [] then CurrentEnvelopeVersion
                    else TrimSpace (ei_EnvelopeVersion input))
      in if TrimSpace (ei_Producer input) = [] then Some ErrBlankField
      else if TrimSpace (ei_EventType input) = [] then Some ErrBlankField
      else case ValidateCompatibility envVer (ei_SchemaVersion input) of Some e \<Rightarrow> Some e | None \<Rightarrow>
        (case ValidatePrefixedID (ei_CorrelationID input) PrefixCorrelation of Some e \<Rightarrow> Some e | None \<Rightarrow>
        (case ValidatePrefixedID (ei_CausationID input) PrefixCausation of Some e \<Rightarrow> Some e | None \<Rightarrow>
         ValidatePayloadDigest (ei_PayloadDigest input))))"

definition Stage :: "EventInput \<Rightarrow> gotime \<Rightarrow> Outbox \<Rightarrow> OutboxTx \<Rightarrow> (OutboxTx, outbox_error, unit) outcome" where
  "Stage input now o' tx =
     (if tx_closed tx then (tx, Inl ErrTxClosed)
      else if ei_TenantID input \<noteq> [] \<and> TrimSpace (ei_TenantID input) \<noteq> tx_tenantID tx
      then (tx, Inl ErrCrossTenantAssociation)
      else case ValidatePrefixedID (ei_EventID input) PrefixEvent of Some e \<Rightarrow> (tx, Inl e) | None \<Rightarrow>
        (let eventID = TrimSpace (ei_EventID input) in
         if eventID \<in> tx_stagedIDs tx then (tx, Inl ErrDuplicateEventID)
         else if eventID \<in> eventIDs o' then (tx, Inl ErrDuplicateEventID)
         else case validate_input input of Some e \<Rightarrow> (tx, Inl e) | None \<Rightarrow>
           (tx\<lparr>tx_staged := tx_staged tx @ [new_envelope (tx_tenantID tx) input now],
               tx_stagedIDs := insert eventID (tx_stagedIDs tx)\<rparr>, Inr ())))"

fun publish :: "EventEnvelope list \<Rightarrow> Outbox \<Rightarrow> Outbox" where
  "publish [] o' = o'"
| "publish (env # envs) o' =
     publish envs (o'\<lparr>seqCounter := seqCounter o' + 1,
       committed := committed o' @ [env\<lparr>ev_SequenceNumber := seqCounter o' + 1\<rparr>],
       eventIDs := insert (ev_EventID env) (eventIDs o')\<rparr>)"

definition close_tx :: "OutboxTx \<Rightarrow> OutboxTx" where
  "close_tx tx = tx\<lparr>tx_closed := True, tx_staged := [], tx_stagedIDs := {}\<rparr>"

definition Commit :: "Outbox \<times> OutboxTx \<Rightarrow> (Outbox \<times> OutboxTx, outbox_error, unit) outcome" where
  "Commit s =
     (case s of (o', tx) \<Rightarrow>
        if tx_closed tx then (s, Inl ErrTxClosed)
        else if \<exists>env\<in>set (tx_staged tx). ev_EventID env \<in> eventIDs o' then (s, Inl ErrDuplicateEventID)
        else ((publish (tx_staged tx) o', close_tx tx), Inr ()))"

definition Rollback :: "OutboxTx \<Rightarrow> (OutboxTx, outbox_error, unit) outcome" where
  "Rollback tx = (if tx_closed tx then (tx, Inl ErrTxClosed) else (close_tx tx, Inr ()))"

subsection \<open>Calls and invariant\<close>

record outbox_system =
  os_outbox :: Outbox
  os_txs :: "OutboxTx list"

definition new_system :: outbox_system where
  "new_system = \<lparr>os_outbox = NewOutbox, os_txs = []\<rparr>"

datatype outbox_call = CallBeginTx string | CallStage nat EventInput gotime | CallCommit nat | CallRollback nat

text \<open>A call on a transaction that was never opened does not occur; the model leaves the state alone.\<close>

fun outbox_exec :: "outbox_call \<Rightarrow> outbox_system \<Rightarrow> (outbox_system, outbox_error, unit) outcome" where
  "outbox_exec (CallBeginTx tenantID) s =
     (case BeginTx tenantID of
        Inl e \<Rightarrow> (s, Inl e) | Inr tx \<Rightarrow> (s\<lparr>os_txs := os_txs s @ [tx]\<rparr>, Inr ()))"
| "outbox_exec (CallStage i input now) s =
     (if i < length (os_txs s)
      then case Stage input now (os_outbox s) (os_txs s ! i) of (tx, r) \<Rightarrow> (s\<lparr>os_txs := (os_txs s)[i := tx]\<rparr>, r)
      else (s, Inr ()))"
| "outbox_exec (CallCommit i) s =
     (if i < length (os_txs s)
      then case Commit (os_outbox s, os_txs s ! i) of
             ((o', tx), r) \<Rightarrow> (s\<lparr>os_outbox := o', os_txs := (os_txs s)[i := tx]\<rparr>, r)
      else (s, Inr ()))"
| "outbox_exec (CallRollback i) s =
     (if i < length (os_txs s)
      then case Rollback (os_txs s ! i) of (tx, r) \<Rightarrow> (s\<lparr>os_txs := (os_txs s)[i := tx]\<rparr>, r)
      else (s, Inr ()))"

definition valid_envelope :: "EventEnvelope \<Rightarrow> bool" where
  "valid_envelope ev \<longleftrightarrow>
     ValidatePrefixedID (ev_EventID ev) PrefixEvent = None \<and> ValidatePrefixedID (ev_TenantID ev) PrefixTenant = None \<and>
     TrimSpace (ev_TenantID ev) = ev_TenantID ev \<and>
     ev_Producer ev \<noteq> [] \<and> ev_EventType ev \<noteq> [] \<and>
     ev_EnvelopeVersion ev = CurrentEnvelopeVersion \<and> ev_SchemaVersion ev = CurrentSchemaVersion \<and>
     ValidatePrefixedID (ev_CorrelationID ev) PrefixCorrelation = None \<and>
     ValidatePrefixedID (ev_CausationID ev) PrefixCausation = None \<and> ValidatePayloadDigest (ev_PayloadDigest ev) = None"

definition outbox_inv :: "Outbox \<Rightarrow> bool" where
  "outbox_inv o' \<longleftrightarrow>
     numbered ev_SequenceNumber (committed o') \<and> seqCounter o' = of_nat (length (committed o')) \<and>
     distinct (map ev_EventID (committed o')) \<and> eventIDs o' = set (map ev_EventID (committed o')) \<and>
     list_all valid_envelope (committed o')"

definition tx_inv :: "OutboxTx \<Rightarrow> bool" where
  "tx_inv tx \<longleftrightarrow>
     ValidatePrefixedID (tx_tenantID tx) PrefixTenant = None \<and> TrimSpace (tx_tenantID tx) = tx_tenantID tx \<and>
     distinct (map ev_EventID (tx_staged tx)) \<and> tx_stagedIDs tx = set (map ev_EventID (tx_staged tx)) \<and>
     list_all (\<lambda>ev. valid_envelope ev \<and> ev_TenantID ev = tx_tenantID tx) (tx_staged tx)"

definition system_inv :: "outbox_system \<Rightarrow> bool" where
  "system_inv s \<longleftrightarrow> outbox_inv (os_outbox s) \<and> list_all tx_inv (os_txs s)"

subsection \<open>Validation\<close>

lemma ValidatePrefixedID_None:
  assumes "CHR ''_'' \<notin> set p" and "p \<noteq> []"
  shows "ValidatePrefixedID raw p = None \<longleftrightarrow>
    (\<exists>payload. TrimSpace raw = p @ CHR ''_'' # payload \<and> payload \<noteq> [] \<and> list_all id_byte payload)"
proof
  assume v: "ValidatePrefixedID raw p = None"
  then obtain idx where i: "IndexByte (TrimSpace raw) (CHR ''_'') = Some idx"
    and rest: "idx \<noteq> length (TrimSpace raw) - 1" "take idx (TrimSpace raw) = p"
      "list_all id_byte (drop (idx + 1) (TrimSpace raw))"
    by (auto simp: ValidatePrefixedID_def Let_def split: if_splits option.splits)
  from i have "idx < length (TrimSpace raw)" "TrimSpace raw ! idx = CHR ''_''" by (auto simp: IndexByte_Some)
  with rest show "\<exists>payload. TrimSpace raw = p @ CHR ''_'' # payload \<and> payload \<noteq> [] \<and> list_all id_byte payload"
    using id_take_nth_drop [of idx "TrimSpace raw"]
    by (intro exI [of _ "drop (idx + 1) (TrimSpace raw)"]) auto
next
  assume "\<exists>payload. TrimSpace raw = p @ CHR ''_'' # payload \<and> payload \<noteq> [] \<and> list_all id_byte payload"
  with assms show "ValidatePrefixedID raw p = None"
    by (auto simp: ValidatePrefixedID_def Let_def IndexByte_append)
qed

lemma ValidatePrefixedID_TrimSpace [simp]: "ValidatePrefixedID (TrimSpace raw) p = ValidatePrefixedID raw p"
  by (simp add: ValidatePrefixedID_def)

lemma ValidatePayloadDigest_TrimSpace [simp]: "ValidatePayloadDigest (TrimSpace d) = ValidatePayloadDigest d"
  by (simp add: ValidatePayloadDigest_def)

lemma TrimSpace_versions [simp]:
  "TrimSpace CurrentEnvelopeVersion = CurrentEnvelopeVersion" "CurrentEnvelopeVersion \<noteq> []"
  by (simp_all add: CurrentEnvelopeVersion_def)

lemma new_envelope_valid:
  assumes "ValidatePrefixedID (ei_EventID input) PrefixEvent = None" and "validate_input input = None"
    and "ValidatePrefixedID t PrefixTenant = None" and "TrimSpace t = t"
  shows "valid_envelope (new_envelope t input now)"
  using assms
  by (auto simp: valid_envelope_def new_envelope_def validate_input_def ValidateCompatibility_def Let_def
      split: if_splits option.splits)

subsection \<open>Transactions\<close>

text \<open>What a commit publishes: the staged envelopes, numbered from the counter on.\<close>

fun renumber :: "int64 \<Rightarrow> EventEnvelope list \<Rightarrow> EventEnvelope list" where
  "renumber n [] = []"
| "renumber n (env # envs) = env\<lparr>ev_SequenceNumber := n + 1\<rparr> # renumber (n + 1) envs"

lemma renumber_simps [simp]:
  "length (renumber n envs) = length envs"
  "map ev_EventID (renumber n envs) = map ev_EventID envs"
  by (induction envs arbitrary: n) auto

lemma renumber_ids [simp]: "ev_EventID ` set (renumber n envs) = ev_EventID ` set envs"
  by (metis renumber_simps(2) set_map)

lemma renumber_nth:
  "i < length envs \<Longrightarrow> renumber n envs ! i = (envs ! i)\<lparr>ev_SequenceNumber := n + of_nat (Suc i)\<rparr>"
  by (induction envs arbitrary: n i) (auto simp: nth_Cons' add.assoc gr0_conv_Suc)

lemma valid_envelope_renumbered [simp]:
  "valid_envelope (ev\<lparr>ev_SequenceNumber := n\<rparr>) \<longleftrightarrow> valid_envelope ev"
  by (simp add: valid_envelope_def)

lemma renumber_all:
  "(\<And>ev n. P (ev\<lparr>ev_SequenceNumber := n\<rparr>) = P ev) \<Longrightarrow> list_all P (renumber n envs) = list_all P envs"
  by (induction envs arbitrary: n) auto

lemma publish_eq:
  "publish envs o' = o'\<lparr>committed := committed o' @ renumber (seqCounter o') envs,
     eventIDs := eventIDs o' \<union> set (map ev_EventID envs), seqCounter := seqCounter o' + of_nat (length envs)\<rparr>"
  by (induction envs arbitrary: o') (simp_all add: add.assoc)

lemma publish_inv:
  assumes "outbox_inv o'" and "tx_inv tx" and "\<forall>env\<in>set (tx_staged tx). ev_EventID env \<notin> eventIDs o'"
  shows "outbox_inv (publish (tx_staged tx) o')"
proof -
  have "numbered ev_SequenceNumber (committed o' @ renumber (seqCounter o') (tx_staged tx))"
    using assms(1) by (intro numbered_append) (auto simp: outbox_inv_def renumber_nth)
  moreover have "list_all valid_envelope (renumber (seqCounter o') (tx_staged tx))"
    using assms(2) by (subst renumber_all) (auto simp: tx_inv_def list_all_iff)
  moreover have "distinct (map ev_EventID (committed o' @ renumber (seqCounter o') (tx_staged tx)))"
  proof -
    have "set (map ev_EventID (committed o')) \<inter> set (map ev_EventID (tx_staged tx)) = {}"
      using assms(1,3) unfolding outbox_inv_def by (auto simp: image_iff) metis
    then show ?thesis using assms(1,2) by (simp add: outbox_inv_def tx_inv_def)
  qed
  ultimately show ?thesis using assms by (simp add: outbox_inv_def publish_eq image_Un)
qed

lemma close_tx_inv: "tx_inv tx \<Longrightarrow> tx_inv (close_tx tx)"
  by (simp add: tx_inv_def close_tx_def)

lemma Stage_cases:
  assumes "Stage input now o' tx = (tx', r)"
  obtains (denied) e where "tx' = tx" "r = Inl e"
  | (staged) "r = Inr ()" "\<not> tx_closed tx" "ValidatePrefixedID (ei_EventID input) PrefixEvent = None"
      "TrimSpace (ei_EventID input) \<notin> tx_stagedIDs tx" "TrimSpace (ei_EventID input) \<notin> eventIDs o'"
      "validate_input input = None" "ei_TenantID input = [] \<or> TrimSpace (ei_TenantID input) = tx_tenantID tx"
      "tx' = tx\<lparr>tx_staged := tx_staged tx @ [new_envelope (tx_tenantID tx) input now],
               tx_stagedIDs := insert (TrimSpace (ei_EventID input)) (tx_stagedIDs tx)\<rparr>"
proof (cases "\<exists>e. tx' = tx \<and> r = Inl e")
  case False
  with assms show thesis
    by (intro staged) (auto simp: Stage_def Let_def split: if_splits option.splits)
qed (use denied in blast)

lemma Stage_inv: "tx_inv tx \<Longrightarrow> tx_inv (fst (Stage input now o' tx))"
proof -
  assume inv: "tx_inv tx"
  obtain tx' r where st: "Stage input now o' tx = (tx', r)" by fastforce
  then show ?thesis
  proof (cases rule: Stage_cases)
    case (denied e)
    with inv st show ?thesis by simp
  next
    case staged
    with inv have "valid_envelope (new_envelope (tx_tenantID tx) input now)"
      by (intro new_envelope_valid) (auto simp: tx_inv_def)
    with inv st staged show ?thesis by (simp add: tx_inv_def) (auto simp: new_envelope_def)
  qed
qed

lemma Commit_cases:
  assumes "Commit (o', tx) = ((o'', tx'), r)"
  obtains (denied) e where "o'' = o'" "tx' = tx" "r = Inl e"
  | (committed) "r = Inr ()" "\<not> tx_closed tx" "\<forall>env\<in>set (tx_staged tx). ev_EventID env \<notin> eventIDs o'"
      "o'' = publish (tx_staged tx) o'" "tx' = close_tx tx"
proof (cases "\<exists>e. o'' = o' \<and> tx' = tx \<and> r = Inl e")
  case False
  with assms show thesis by (intro committed) (auto simp: Commit_def split: if_splits)
qed (use denied in blast)

lemma system_tx: "system_inv s \<Longrightarrow> i < length (os_txs s) \<Longrightarrow> tx_inv (os_txs s ! i)"
  by (simp add: system_inv_def list_all_length)

lemma outbox_exec_inv:
  assumes inv: "system_inv s"
  shows "system_inv (fst (outbox_exec c s))"
proof (cases c)
  case (CallBeginTx t)
  have "tx_inv tx" if "BeginTx t = Inr tx" for tx
    using that by (auto simp: BeginTx_def tx_inv_def split: option.splits)
  with inv CallBeginTx show ?thesis by (auto simp: system_inv_def split: sum.splits)
next
  case (CallStage i input now)
  have "system_inv (s\<lparr>os_txs := (os_txs s)[i := fst (Stage input now (os_outbox s) (os_txs s ! i))]\<rparr>)"
    if "i < length (os_txs s)"
    using inv Stage_inv [OF system_tx [OF inv that]] by (simp add: system_inv_def list_all_update)
  with inv CallStage show ?thesis by (auto split: prod.splits)
next
  case (CallCommit i)
  show ?thesis
  proof (cases "i < length (os_txs s)")
    case True
    obtain o' tx r where c: "Commit (os_outbox s, os_txs s ! i) = ((o', tx), r)" by (metis prod.collapse)
    then show ?thesis
    proof (cases rule: Commit_cases)
      case (denied e)
      with inv c CallCommit True show ?thesis by simp
    next
      case committed
      with inv have "outbox_inv o'" "tx_inv tx"
        using system_tx [OF inv True] publish_inv [of "os_outbox s" "os_txs s ! i"]
        by (auto simp: system_inv_def close_tx_inv)
      with inv c CallCommit True show ?thesis by (simp add: system_inv_def list_all_update)
    qed
  qed (use inv CallCommit in simp)
next
  case (CallRollback i)
  have "system_inv (s\<lparr>os_txs := (os_txs s)[i := fst (Rollback (os_txs s ! i))]\<rparr>)" if "i < length (os_txs s)"
    using inv system_tx [OF inv that] by (simp add: system_inv_def list_all_update Rollback_def close_tx_inv)
  with inv CallRollback show ?thesis by (auto split: prod.splits)
qed

lemma outbox_exec_journal: "prefix (committed (os_outbox s)) (committed (os_outbox (fst (outbox_exec c s))))"
proof (cases c)
  case (CallCommit i)
  obtain o' tx r where c: "Commit (os_outbox s, os_txs s ! i) = ((o', tx), r)" by (metis prod.collapse)
  then have "prefix (committed (os_outbox s)) (committed o')"
    by (cases rule: Commit_cases) (auto simp: publish_eq)
  with c CallCommit show ?thesis by simp
qed (auto split: sum.splits prod.splits)

lemma outbox_exec_error: "outbox_exec c s = (s', Inl e) \<Longrightarrow> s' = s"
proof (cases c)
  case (CallCommit i)
  assume x: "outbox_exec c s = (s', Inl e)"
  obtain o' tx r where c: "Commit (os_outbox s, os_txs s ! i) = ((o', tx), r)" by (metis prod.collapse)
  then show ?thesis by (cases rule: Commit_cases) (use x c CallCommit in \<open>auto split: if_splits\<close>)
next
  case (CallStage i input now)
  assume x: "outbox_exec c s = (s', Inl e)"
  obtain tx r where c: "Stage input now (os_outbox s) (os_txs s ! i) = (tx, r)" by fastforce
  then show ?thesis by (cases rule: Stage_cases) (use x c CallStage in \<open>auto split: if_splits\<close>)
qed (auto simp: Rollback_def split: sum.splits if_splits)

interpretation ob: journaled outbox_exec system_inv "\<lambda>_. True" "\<lambda>_. committed \<circ> os_outbox"
  by unfold_locales (simp_all add: outbox_exec_inv outbox_exec_journal)

interpretation ob_closed: fail_closed outbox_exec
  by unfold_locales (rule outbox_exec_error)

lemma reachable_system_inv: "system_inv (run_calls outbox_exec cs new_system)"
  by (rule ob.run_inv) (simp_all add: system_inv_def new_system_def outbox_inv_def NewOutbox_def)

text \<open>The numbers are ascending as signed integers as long as they fit.\<close>

lemma numbered_sorted:
  assumes "numbered ev_SequenceNumber evs" and "length evs < 2 ^ 63"
  shows "sorted (map (\<lambda>ev. sint (ev_SequenceNumber ev)) evs)"
proof -
  have "sint (ev_SequenceNumber (evs ! i)) = int (Suc i)" if "i < length evs" for i
    using assms that sint_of_nat [of "Suc i"] by (simp add: numbered_def)
  then show ?thesis by (simp add: sorted_iff_nth_mono)
qed

lemma numbered_inj:
  assumes "numbered ev_SequenceNumber evs" and "length evs < 2 ^ 63"
  shows "distinct (map (\<lambda>ev. sint (ev_SequenceNumber ev)) evs)"
proof -
  have "sint (ev_SequenceNumber (evs ! i)) = int (Suc i)" if "i < length evs" for i
    using assms that sint_of_nat [of "Suc i"] by (simp add: numbered_def)
  then show ?thesis by (simp add: distinct_conv_nth)
qed

text \<open>Events and calls for evaluations.\<close>

definition example_input :: "string \<Rightarrow> EventInput" where
  "example_input eid =
     \<lparr>ei_EventID = eid, ei_TenantID = [], ei_Producer = ''inspections'', ei_EventType = ''closed'',
      ei_EnvelopeVersion = [], ei_SchemaVersion = ''1.0.0'', ei_CorrelationID = ''corr_1'', ei_CausationID = ''caus_1'',
      ei_PayloadDigest = concat (replicate 8 ''0123abcd''), ei_Timestamp = 7\<rparr>"

definition example_outbox_calls :: "outbox_call list" where
  "example_outbox_calls =
     [CallBeginTx ''ten_a'', CallBeginTx ''ten_b'', CallStage 0 (example_input ''evt_1'') 10,
      CallStage 1 (example_input ''evt_2'') 11, CallStage 0 (example_input ''evt_3'') 12, CallCommit 1, CallCommit 0]"

lemma example_committed:
  "map (\<lambda>ev. (ev_EventID ev, ev_TenantID ev, ev_SequenceNumber ev))
     (committed (os_outbox (run_calls outbox_exec example_outbox_calls new_system))) =
   [(''evt_2'', ''ten_b'', 1), (''evt_1'', ''ten_a'', 2), (''evt_3'', ''ten_a'', 3)]"
  by code_simp

subsection \<open>Properties\<close>

text \<open>
  (C7) In every reachable outbox, whatever transactions interleave, the committed events carry the
  sequence numbers 1, 2, 3, and so on without gaps, their event identifiers are distinct, every envelope
  passes the validation of identifiers, versions and digest, and later calls only append.
\<close>

theorem outbox_log_sound:
  "let evs = committed (os_outbox (run_calls outbox_exec cs new_system)) in
   map ev_SequenceNumber evs = map of_nat [1..<Suc (length evs)] \<and>
   distinct (map ev_EventID evs) \<and> list_all valid_envelope evs \<and>
   prefix evs (committed (os_outbox (run_calls outbox_exec (cs @ ds) new_system)))"
  using reachable_system_inv [of cs] ob.run_journal [OF reachable_system_inv [of cs], of ds]
  by (simp add: Let_def system_inv_def outbox_inv_def numbered_map del: upt_Suc)

text \<open>
  Commit is atomic: on an open transaction it succeeds exactly when none of the staged identifiers has
  been committed meanwhile; then all staged events, and nothing else, are appended in staging
  order with consecutive numbers, and the transaction is closed. Otherwise neither the outbox nor the
  transaction changes.
\<close>

theorem Commit_atomic:
  assumes "\<not> tx_closed tx" and "Commit (o', tx) = ((o'', tx'), r)"
  shows "(r = Inr () \<longleftrightarrow> (\<forall>ev\<in>set (tx_staged tx). ev_EventID ev \<notin> eventIDs o')) \<and>
    (r \<noteq> Inr () \<longrightarrow> o'' = o' \<and> tx' = tx \<and> r = Inl ErrDuplicateEventID) \<and>
    (r = Inr () \<longrightarrow> tx_closed tx' \<and>
       (\<exists>published. committed o'' = committed o' @ published \<and> length published = length (tx_staged tx) \<and>
          (\<forall>i<length published. published ! i = (tx_staged tx ! i)\<lparr>ev_SequenceNumber := seqCounter o' + of_nat (Suc i)\<rparr>)))"
proof (cases "\<forall>ev\<in>set (tx_staged tx). ev_EventID ev \<notin> eventIDs o'")
  case True
  with assms have "r = Inr ()" "tx' = close_tx tx" "o'' = publish (tx_staged tx) o'" by (auto simp: Commit_def)
  with True show ?thesis by (auto simp: close_tx_def publish_eq renumber_nth)
next
  case False
  with assms have "o'' = o'" "tx' = tx" "r = Inl ErrDuplicateEventID" by (auto simp: Commit_def split: if_splits)
  with False show ?thesis by auto
qed

text \<open>
  Staged and rolled back events stay invisible: as long as a run commits no transaction, the outbox
  is unchanged; and a transaction that is closed can neither stage, commit nor roll back again.
\<close>

theorem uncommitted_invisible:
  assumes "\<And>i. CallCommit i \<notin> set cs"
  shows "os_outbox (run_calls outbox_exec cs s) = os_outbox s \<and>
    (tx_closed tx \<longrightarrow> Stage input now o' tx = (tx, Inl ErrTxClosed) \<and> Commit (o', tx) = ((o', tx), Inl ErrTxClosed) \<and>
       Rollback tx = (tx, Inl ErrTxClosed))"
proof -
  have step: "os_outbox (fst (outbox_exec c s)) = os_outbox s" if "\<And>i. c \<noteq> CallCommit i" for c s
    using that by (cases c) (auto split: sum.splits prod.splits)
  have "os_outbox (run_calls outbox_exec cs s) = os_outbox s" for s
    using assms
  proof (induction cs arbitrary: s)
    case (Cons c cs)
    then have "os_outbox (fst (outbox_exec c s)) = os_outbox s" by (intro step) auto
    moreover have "os_outbox (run_calls outbox_exec cs (fst (outbox_exec c s))) = os_outbox (fst (outbox_exec c s))"
      using Cons.prems by (intro Cons.IH) auto
    ultimately show ?case by simp
  qed simp
  then show ?thesis by (simp add: Stage_def Commit_def Rollback_def)
qed

text \<open>
  Queries: below 2 to the 63 events, \<open>CommittedEvents\<close> is the log itself, in commit order, and the query for a
  tenant answers exactly the events of that tenant, in commit order, when the tenant is given
  without surrounding space; with surrounding space it answers none although the identifier is accepted.
\<close>

theorem CommittedEvents_in_order:
  assumes "o' = os_outbox (run_calls outbox_exec cs new_system)" and "length (committed o') < 2 ^ 63"
    and "ValidatePrefixedID t PrefixTenant = None"
  shows "CommittedEvents o' = committed o' \<and>
    CommittedEventsForTenant (TrimSpace t) o' = Inr (filter (\<lambda>ev. ev_TenantID ev = TrimSpace t) (committed o')) \<and>
    (TrimSpace t \<noteq> t \<longrightarrow> CommittedEventsForTenant t o' = Inr [])"
proof -
  have "numbered ev_SequenceNumber (committed o')" and valid: "list_all valid_envelope (committed o')"
    using reachable_system_inv [of cs] assms(1) by (simp_all add: system_inv_def outbox_inv_def)
  from this(1) have sorted: "sorted (map (\<lambda>ev. sint (ev_SequenceNumber ev)) (committed o'))"
    using assms(2) by (rule numbered_sorted)
  then have "sort_key (\<lambda>ev. sint (ev_SequenceNumber ev)) (filter P (committed o')) = filter P (committed o')" for P
    by (intro sort_key_id_if_sorted sorted_filter)
  moreover have "filter (\<lambda>ev. ev_TenantID ev = t) (committed o') = []"
    if "TrimSpace t \<noteq> t"
    using that valid by (auto simp: filter_empty_conv list_all_iff valid_envelope_def)
  ultimately show ?thesis
    using assms(3) sorted by (simp add: CommittedEvents_def CommittedEventsForTenant_def sort_key_id_if_sorted)
qed

text \<open>
  An identifier is accepted exactly when, trimmed, it is the expected prefix, an underscore and a
  non-empty payload of lower-case letters, digits, underscores and hyphens.
\<close>

theorem ValidatePrefixedID_accepts_iff:
  assumes "p \<in> {PrefixEvent, PrefixTenant, PrefixCorrelation, PrefixCausation}"
  shows "ValidatePrefixedID raw p = None \<longleftrightarrow>
    (\<exists>payload. TrimSpace raw = p @ CHR ''_'' # payload \<and> payload \<noteq> [] \<and> list_all id_byte payload)"
  using assms
  by (intro ValidatePrefixedID_None)
    (auto simp: PrefixEvent_def PrefixTenant_def PrefixCorrelation_def PrefixCausation_def)

subsection \<open>Witnesses\<close>

theorem Commit_atomic_witness:
  "\<exists>r. Commit (NewOutbox, \<lparr>tx_tenantID = ''ten_a'', tx_staged = [new_envelope ''ten_a'' (example_input ''evt_1'') 10],
      tx_stagedIDs = {''evt_1''}, tx_closed = False\<rparr>) = r \<and> snd r = Inr ()"
proof -
  let ?tx = "\<lparr>tx_tenantID = ''ten_a'', tx_staged = [new_envelope ''ten_a'' (example_input ''evt_1'') 10],
      tx_stagedIDs = {''evt_1''}, tx_closed = False\<rparr>"
  obtain o'' tx' r where c: "Commit (NewOutbox, ?tx) = ((o'', tx'), r)" by (metis prod.collapse)
  then have "r = Inr ()" using Commit_atomic [of ?tx NewOutbox o'' tx' r] by (simp add: NewOutbox_def)
  with c show ?thesis by simp
qed

theorem uncommitted_invisible_witness:
  "os_outbox (run_calls outbox_exec [CallBeginTx ''ten_a'', CallStage 0 (example_input ''evt_1'') 10, CallRollback 0] new_system)
     = os_outbox new_system"
  using uncommitted_invisible [of "[CallBeginTx ''ten_a'', CallStage 0 (example_input ''evt_1'') 10, CallRollback 0]" new_system]
  by simp

theorem CommittedEvents_in_order_witness:
  "\<exists>evs. CommittedEventsForTenant ''ten_a'' (os_outbox (run_calls outbox_exec example_outbox_calls new_system)) = Inr evs \<and>
     map ev_EventID evs = [''evt_1'', ''evt_3'']"
proof -
  let ?o = "os_outbox (run_calls outbox_exec example_outbox_calls new_system)"
  have len: "length (committed ?o) < 2 ^ 63" using arg_cong [OF example_committed, of length] by simp
  have "ValidatePrefixedID ''ten_a'' PrefixTenant = None" by code_simp
  from CommittedEvents_in_order [OF refl len this]
  have "CommittedEventsForTenant ''ten_a'' ?o = Inr (filter (\<lambda>ev. ev_TenantID ev = ''ten_a'') (committed ?o))" by simp
  moreover have "map ev_EventID (filter (\<lambda>ev. ev_TenantID ev = ''ten_a'') (committed ?o)) =
      map fst (filter (\<lambda>(i, t, n). t = ''ten_a'') (map (\<lambda>ev. (ev_EventID ev, ev_TenantID ev, ev_SequenceNumber ev)) (committed ?o)))"
    by (simp add: filter_map comp_def)
  then have "map ev_EventID (filter (\<lambda>ev. ev_TenantID ev = ''ten_a'') (committed ?o)) = [''evt_1'', ''evt_3'']"
    unfolding example_committed by simp
  ultimately show ?thesis by (intro exI conjI)
qed

theorem ValidatePrefixedID_accepts_iff_witness: "ValidatePrefixedID '' ten_a-1 '' PrefixTenant = None"
proof -
  have "TrimSpace '' ten_a-1 '' = PrefixTenant @ CHR ''_'' # ''a-1''" "list_all id_byte ''a-1''" by code_simp+
  then show ?thesis using ValidatePrefixedID_accepts_iff [of PrefixTenant "'' ten_a-1 ''"] by blast
qed

end
