(* ===== verification/Event_Dispatcher.thy ===== *)
theory Event_Dispatcher
  imports Event_Outbox
begin

text \<open>
  Event delivery, \<open>modules/events-outbox-jobs/event_dispatcher.go\<close>: dispatch with a bounded number of
  attempts, quarantine, replay, and export and restoration of the delivery records.

  A consumer's handler is a function the caller registers. The model keeps handlers as values of a type
  \<open>'h\<close> and runs them with a parameter \<open>invoke\<close>: it gets the handler, the envelope and the state \<open>'w\<close> of the world outside
  the dispatcher, and answers the new world and the handler's error (\<open>None\<close> for nil). The
  dispatcher holds its lock while a handler runs, so a handler cannot change the dispatcher; a handler
  that panics is not modelled.
\<close>

subsection \<open>Definitions\<close>

datatype DeliveryStatus =
  StatusPending | StatusDelivered | StatusRetrying | StatusQuarantined | StatusOther string

datatype dispatch_error =
  ErrBlankConsumerID | ErrBlankEventID | ErrConsumerNotRegistered | ErrAlreadyDelivered
| ErrCrossTenantDispatch | ErrCrossTenantReplay | ErrEventNotQuarantined | ErrUnauthorizedReplay
| ErrDeliveryRecordNotFound | ErrMaxRetriesExceeded | ErrRetryLimitReached
| ErrHandlerNil | HandlerFailed string

type_synonym ('h, 'w) invocation = "'h \<Rightarrow> EventEnvelope \<Rightarrow> 'w \<Rightarrow> 'w \<times> string option"

record DeliveryRecord =
  dr_EventID :: string
  dr_ConsumerID :: string
  dr_TenantID :: string
  dr_Status :: DeliveryStatus
  dr_Attempts :: int64
  dr_MaxAttempts :: int64
  dr_LastError :: string
  dr_FirstAttemptAt :: gotime
  dr_LastAttemptAt :: gotime
  dr_DeliveredAt :: "gotime option"
  dr_QuarantinedAt :: "gotime option"
  dr_ReplayedCount :: int64

record 'h Dispatcher =
  maxAttempts :: int64
  handlers :: "string \<rightharpoonup> 'h"
  consumerTenants :: "string \<rightharpoonup> string"
  records :: "string \<rightharpoonup> DeliveryRecord"

text \<open>A method's error comes with the record where the code returns both.\<close>

type_synonym delivery_result = "(dispatch_error \<times> DeliveryRecord option) + DeliveryRecord"

definition NewDispatcher :: "int64 \<Rightarrow> 'h Dispatcher" where
  "NewDispatcher cfgMax =
     \<lparr>maxAttempts = (if sint cfgMax \<le> 0 then 3 else cfgMax), handlers = Map.empty,
      consumerTenants = Map.empty, records = Map.empty\<rparr>"

definition recordKey :: "string \<Rightarrow> string \<Rightarrow> string" where
  "recordKey consumerID eventID = TrimSpace consumerID @ '':'' @ TrimSpace eventID"

definition RegisterConsumer ::
  "string \<Rightarrow> string \<Rightarrow> 'h option \<Rightarrow> 'h Dispatcher \<Rightarrow> ('h Dispatcher, dispatch_error, unit) outcome" where
  "RegisterConsumer consumerID tenantID handler d =
     (let cid = TrimSpace consumerID in
      if cid = [] then (d, Inl ErrBlankConsumerID)
      else case handler of
        None \<Rightarrow> (d, Inl ErrHandlerNil)
      | Some h \<Rightarrow>
          (d\<lparr>handlers := (handlers d)(cid \<mapsto> h),
             consumerTenants := (if TrimSpace tenantID \<noteq> []
                                 then (consumerTenants d)(cid \<mapsto> TrimSpace tenantID) else consumerTenants d)\<rparr>,
           Inr ()))"

definition new_delivery :: "string \<Rightarrow> string \<Rightarrow> string \<Rightarrow> int64 \<Rightarrow> gotime \<Rightarrow> DeliveryRecord" where
  "new_delivery eID cID tenantID maxA now =
     \<lparr>dr_EventID = eID, dr_ConsumerID = cID, dr_TenantID = tenantID, dr_Status = StatusPending, dr_Attempts = 0,
      dr_MaxAttempts = maxA, dr_LastError = [], dr_FirstAttemptAt = now, dr_LastAttemptAt = 0,
      dr_DeliveredAt = None, dr_QuarantinedAt = None, dr_ReplayedCount = 0\<rparr>"

definition delivered :: "gotime \<Rightarrow> DeliveryRecord \<Rightarrow> DeliveryRecord" where
  "delivered now rec = rec\<lparr>dr_Status := StatusDelivered, dr_DeliveredAt := Some now, dr_LastError := []\<rparr>"

definition quarantined :: "gotime \<Rightarrow> DeliveryRecord \<Rightarrow> DeliveryRecord" where
  "quarantined now rec = rec\<lparr>dr_Status := StatusQuarantined, dr_QuarantinedAt := Some now\<rparr>"

text \<open>One attempt of \<open>Dispatch\<close>: the record afterwards and what the method answers.\<close>

definition dispatch_outcome :: "string option \<Rightarrow> gotime \<Rightarrow> DeliveryRecord \<Rightarrow> DeliveryRecord \<times> delivery_result" where
  "dispatch_outcome reply now rec =
     (case reply of
        None \<Rightarrow> (delivered now rec, Inr (delivered now rec))
      | Some msg \<Rightarrow>
          (let rec1 = rec\<lparr>dr_LastError := msg\<rparr> in
           if sint (dr_MaxAttempts rec1) \<le> sint (dr_Attempts rec1)
           then (quarantined now rec1, Inl (ErrMaxRetriesExceeded, Some (quarantined now rec1)))
           else let rec2 = rec1\<lparr>dr_Status := StatusRetrying\<rparr>
                in (rec2, Inl (HandlerFailed msg, Some rec2))))"

definition Dispatch ::
  "('h, 'w) invocation \<Rightarrow> string \<Rightarrow> EventEnvelope \<Rightarrow> gotime \<Rightarrow> 'h Dispatcher \<times> 'w \<Rightarrow>
   ('h Dispatcher \<times> 'w) \<times> delivery_result" where
  "Dispatch invoke consumerID envelope now s =
     (case s of (d, w) \<Rightarrow>
      let cID = TrimSpace consumerID; eID = TrimSpace (ev_EventID envelope); key = recordKey cID eID;
          rec0 = (case records d key of
                    Some rec \<Rightarrow> rec | None \<Rightarrow> new_delivery eID cID (ev_TenantID envelope) (maxAttempts d) now)
      in if cID = [] then (s, Inl (ErrBlankConsumerID, None))
      else if eID = [] then (s, Inl (ErrBlankEventID, None))
      else case handlers d cID of
        None \<Rightarrow> (s, Inl (ErrConsumerNotRegistered, None))
      | Some handler \<Rightarrow>
          if (case consumerTenants d cID of None \<Rightarrow> False | Some bound \<Rightarrow> bound \<noteq> ev_TenantID envelope)
          then (s, Inl (ErrCrossTenantDispatch, None))
          else if dr_Status rec0 = StatusDelivered then (s, Inl (ErrAlreadyDelivered, Some rec0))
          else if dr_Status rec0 = StatusQuarantined then (s, Inl (ErrRetryLimitReached, Some rec0))
          else let rec1 = rec0\<lparr>dr_Attempts := dr_Attempts rec0 + 1, dr_LastAttemptAt := now\<rparr>;
                   (w', reply) = invoke handler envelope w;
                   (rec2, res) = dispatch_outcome reply now rec1
               in ((d\<lparr>records := (records d)(key \<mapsto> rec2)\<rparr>, w'), res))"

definition replay_outcome :: "string option \<Rightarrow> gotime \<Rightarrow> DeliveryRecord \<Rightarrow> DeliveryRecord \<times> delivery_result" where
  "replay_outcome reply now rec =
     (case reply of
        None \<Rightarrow> (delivered now rec, Inr (delivered now rec))
      | Some msg \<Rightarrow>
          (let rec1 = quarantined now (rec\<lparr>dr_LastError := msg\<rparr>) in (rec1, Inl (HandlerFailed msg, Some rec1))))"

definition Replay ::
  "('h, 'w) invocation \<Rightarrow> string \<Rightarrow> string \<Rightarrow> string \<Rightarrow> string \<Rightarrow> EventEnvelope \<Rightarrow> gotime \<Rightarrow>
   'h Dispatcher \<times> 'w \<Rightarrow> ('h Dispatcher \<times> 'w) \<times> delivery_result" where
  "Replay invoke consumerID eventID callerTenantID callerIdentity envelope now s =
     (case s of (d, w) \<Rightarrow>
      let cID = TrimSpace consumerID; eID = TrimSpace eventID; key = recordKey cID eID
      in if TrimSpace callerIdentity = [] then (s, Inl (ErrUnauthorizedReplay, None))
      else case records d key of
        None \<Rightarrow> (s, Inl (ErrDeliveryRecordNotFound, None))
      | Some rec \<Rightarrow>
          if dr_Status rec \<noteq> StatusQuarantined then (s, Inl (ErrEventNotQuarantined, None))
          else if TrimSpace callerTenantID \<noteq> dr_TenantID rec then (s, Inl (ErrCrossTenantReplay, None))
          else case handlers d cID of
            None \<Rightarrow> (s, Inl (ErrConsumerNotRegistered, None))
          | Some handler \<Rightarrow>
              let rec1 = rec\<lparr>dr_ReplayedCount := dr_ReplayedCount rec + 1, dr_Attempts := dr_Attempts rec + 1,
                             dr_LastAttemptAt := now\<rparr>;
                  (w', reply) = invoke handler envelope w;
                  (rec2, res) = replay_outcome reply now rec1
              in ((d\<lparr>records := (records d)(key \<mapsto> rec2)\<rparr>, w'), res))"

definition GetDeliveryRecord :: "string \<Rightarrow> string \<Rightarrow> 'h Dispatcher \<Rightarrow> dispatch_error + DeliveryRecord" where
  "GetDeliveryRecord consumerID eventID d =
     (case records d (recordKey consumerID eventID) of None \<Rightarrow> Inl ErrDeliveryRecordNotFound | Some rec \<Rightarrow> Inr rec)"

text \<open>Go iterates over a map in an unspecified order: the order of the keys is an argument.\<close>

definition ExportState :: "string list \<Rightarrow> 'h Dispatcher \<Rightarrow> DeliveryRecord list" where
  "ExportState key_order d = map (\<lambda>k. the (records d k)) key_order"

definition RestoreState :: "DeliveryRecord list \<Rightarrow> 'h Dispatcher \<Rightarrow> 'h Dispatcher" where
  "RestoreState recs d =
     d\<lparr>records := fold (\<lambda>rec m. m(recordKey (dr_ConsumerID rec) (dr_EventID rec) \<mapsto> rec)) recs (records d)\<rparr>"

subsection \<open>Calls and invariant\<close>

datatype 'h dispatcher_call =
  CallRegisterConsumer string string "'h option"
| CallDispatch string EventEnvelope gotime
| CallReplay string string string string EventEnvelope gotime
| CallRestoreState "DeliveryRecord list"

definition error_only :: "('e \<times> 'x) + 'r \<Rightarrow> 'e + unit" where
  "error_only r = map_sum fst (\<lambda>_. ()) r"

fun dispatcher_exec ::
  "('h, 'w) invocation \<Rightarrow> 'h dispatcher_call \<Rightarrow> 'h Dispatcher \<times> 'w \<Rightarrow>
   ('h Dispatcher \<times> 'w, dispatch_error, unit) outcome" where
  "dispatcher_exec invoke (CallRegisterConsumer c t h) s =
     (case RegisterConsumer c t h (fst s) of (d, r) \<Rightarrow> ((d, snd s), r))"
| "dispatcher_exec invoke (CallDispatch c envelope now) s = map_prod id error_only (Dispatch invoke c envelope now s)"
| "dispatcher_exec invoke (CallReplay c e t who envelope now) s =
     map_prod id error_only (Replay invoke c e t who envelope now s)"
| "dispatcher_exec invoke (CallRestoreState recs) s = ((RestoreState recs (fst s), snd s), Inr ())"

text \<open>A stored record: filed under its own key; delivered, quarantined or with attempts left.\<close>

definition delivery_inv :: "DeliveryRecord \<Rightarrow> bool" where
  "delivery_inv rec \<longleftrightarrow>
     (case dr_Status rec of
        StatusDelivered \<Rightarrow> dr_DeliveredAt rec \<noteq> None \<and> dr_LastError rec = []
      | StatusQuarantined \<Rightarrow> dr_QuarantinedAt rec \<noteq> None
      | StatusRetrying \<Rightarrow> 0 < sint (dr_Attempts rec) \<and> sint (dr_Attempts rec) < sint (dr_MaxAttempts rec)
      | _ \<Rightarrow> False)"

definition dispatcher_inv :: "'h Dispatcher \<Rightarrow> bool" where
  "dispatcher_inv d \<longleftrightarrow> 0 < sint (maxAttempts d) \<and>
     (\<forall>k rec. records d k = Some rec \<longrightarrow> k = recordKey (dr_ConsumerID rec) (dr_EventID rec) \<and> delivery_inv rec)"

text \<open>Restored records are such records, as an export has them.\<close>

fun sound_call :: "'h dispatcher_call \<Rightarrow> bool" where
  "sound_call (CallRestoreState recs) \<longleftrightarrow> list_all delivery_inv recs"
| "sound_call _ \<longleftrightarrow> True"

fun no_restore :: "'h dispatcher_call \<Rightarrow> bool" where
  "no_restore (CallRestoreState recs) \<longleftrightarrow> False"
| "no_restore _ \<longleftrightarrow> True"

fun no_replay :: "'h dispatcher_call \<Rightarrow> bool" where
  "no_replay (CallReplay c e t who envelope now) \<longleftrightarrow> False"
| "no_replay _ \<longleftrightarrow> True"

subsection \<open>Methods\<close>

lemma delivered_inv [simp]: "delivery_inv (delivered now rec)"
  by (simp add: delivery_inv_def delivered_def)

lemma quarantined_inv [simp]: "delivery_inv (quarantined now rec)"
  by (simp add: delivery_inv_def quarantined_def)

lemma outcome_key [simp]:
  "dr_ConsumerID (fst (dispatch_outcome reply now rec)) = dr_ConsumerID rec"
  "dr_EventID (fst (dispatch_outcome reply now rec)) = dr_EventID rec"
  "dr_ConsumerID (fst (replay_outcome reply now rec)) = dr_ConsumerID rec"
  "dr_EventID (fst (replay_outcome reply now rec)) = dr_EventID rec"
  by (auto simp: dispatch_outcome_def replay_outcome_def delivered_def quarantined_def Let_def split: option.splits)

lemma replay_outcome_inv [simp]: "delivery_inv (fst (replay_outcome reply now rec))"
  by (auto simp: replay_outcome_def Let_def split: option.splits)

lemma retrying_inv [simp]:
  "delivery_inv (rec\<lparr>dr_LastError := msg, dr_Status := StatusRetrying\<rparr>) \<longleftrightarrow>
     0 < sint (dr_Attempts rec) \<and> sint (dr_Attempts rec) < sint (dr_MaxAttempts rec)"
  by (simp add: delivery_inv_def)

lemma dispatch_outcome_inv:
  "0 < sint (dr_Attempts rec) \<Longrightarrow> delivery_inv (fst (dispatch_outcome reply now rec))"
  by (auto simp: dispatch_outcome_def Let_def split: option.splits)

lemma recordKey_trimmed [simp]: "recordKey (TrimSpace c) (TrimSpace e) = recordKey c e"
  by (simp add: recordKey_def)

text \<open>The record a dispatch starts from: the stored one or a new one.\<close>

definition delivery_start :: "string \<Rightarrow> EventEnvelope \<Rightarrow> gotime \<Rightarrow> 'h Dispatcher \<Rightarrow> DeliveryRecord" where
  "delivery_start c envelope now d =
     (case records d (recordKey c (ev_EventID envelope)) of
        Some rec \<Rightarrow> rec
      | None \<Rightarrow> new_delivery (TrimSpace (ev_EventID envelope)) (TrimSpace c) (ev_TenantID envelope) (maxAttempts d) now)"

lemma Dispatch_cases:
  assumes "Dispatch invoke c envelope now (d, w) = (s', res)"
  obtains (denied) err r where "s' = (d, w)" "res = Inl (err, r)"
  | (attempt) h w' reply rec1 where "handlers d (TrimSpace c) = Some h"
      "consumerTenants d (TrimSpace c) = None \<or> consumerTenants d (TrimSpace c) = Some (ev_TenantID envelope)"
      "dr_Status (delivery_start c envelope now d) \<noteq> StatusDelivered"
      "dr_Status (delivery_start c envelope now d) \<noteq> StatusQuarantined"
      "invoke h envelope w = (w', reply)"
      "rec1 = (delivery_start c envelope now d)\<lparr>dr_Attempts := dr_Attempts (delivery_start c envelope now d) + 1,
         dr_LastAttemptAt := now\<rparr>"
      "s' = (d\<lparr>records := (records d)(recordKey c (ev_EventID envelope) \<mapsto> fst (dispatch_outcome reply now rec1))\<rparr>, w')"
      "res = snd (dispatch_outcome reply now rec1)"
proof (cases "\<exists>err r. s' = (d, w) \<and> res = Inl (err, r)")
  case False
  obtain h where h: "handlers d (TrimSpace c) = Some h"
    using assms False by (auto simp: Dispatch_def Let_def split: if_splits option.splits)
  obtain w' reply where r: "invoke h envelope w = (w', reply)" by fastforce
  show thesis
    by (rule attempt [OF h _ _ _ r refl]) (use assms False h r in
      \<open>auto simp: Dispatch_def Let_def delivery_start_def case_prod_beta split: if_splits option.splits\<close>)
qed (use denied in blast)

lemma Replay_cases:
  assumes "Replay invoke c e t who envelope now (d, w) = (s', res)"
  obtains (denied) err r where "s' = (d, w)" "res = Inl (err, r)"
  | (attempt) h w' reply rec where "handlers d (TrimSpace c) = Some h" "records d (recordKey c e) = Some rec"
      "dr_Status rec = StatusQuarantined" "TrimSpace t = dr_TenantID rec" "invoke h envelope w = (w', reply)"
      "s' = (d\<lparr>records := (records d)(recordKey c e \<mapsto> fst (replay_outcome reply now
         (rec\<lparr>dr_ReplayedCount := dr_ReplayedCount rec + 1, dr_Attempts := dr_Attempts rec + 1, dr_LastAttemptAt := now\<rparr>)))\<rparr>, w')"
proof (cases "\<exists>err r. s' = (d, w) \<and> res = Inl (err, r)")
  case False
  obtain h where h: "handlers d (TrimSpace c) = Some h"
    using assms False by (auto simp: Replay_def Let_def split: if_splits option.splits)
  obtain w' reply where r: "invoke h envelope w = (w', reply)" by fastforce
  obtain rec where rec: "records d (recordKey c e) = Some rec"
    using assms False by (auto simp: Replay_def Let_def split: if_splits option.splits)
  show thesis
    by (rule attempt [OF h rec _ _ r]) (use assms False h r rec in
      \<open>auto simp: Replay_def Let_def case_prod_beta split: if_splits option.splits\<close>)
qed (use denied in blast)

lemma delivery_start_key:
  "dispatcher_inv d \<Longrightarrow> recordKey (dr_ConsumerID (delivery_start c envelope now d)) (dr_EventID (delivery_start c envelope now d))
     = recordKey c (ev_EventID envelope)"
  by (auto simp: delivery_start_def dispatcher_inv_def new_delivery_def split: option.splits)

lemma delivery_start_attempts:
  assumes "dispatcher_inv d" and "dr_Status (delivery_start c envelope now d) \<noteq> StatusDelivered"
    and "dr_Status (delivery_start c envelope now d) \<noteq> StatusQuarantined"
  shows "0 < sint (dr_Attempts (delivery_start c envelope now d) + 1)"
proof (cases "records d (recordKey c (ev_EventID envelope))")
  case None
  then show ?thesis by (simp add: delivery_start_def new_delivery_def)
next
  case (Some rec)
  with assms(1) have "delivery_inv rec" unfolding dispatcher_inv_def by blast
  with Some assms(2,3) have "0 < sint (dr_Attempts rec)" "sint (dr_Attempts rec) < sint (dr_MaxAttempts rec)"
    by (auto simp: delivery_start_def delivery_inv_def split: DeliveryStatus.splits)
  moreover have "sint (dr_MaxAttempts rec) < 2 ^ 63" using sint_lt [of "dr_MaxAttempts rec"] by simp
  ultimately have "sint (dr_Attempts rec + 1) = sint (dr_Attempts rec) + 1" by (intro sint_plus_1) simp
  with Some \<open>0 < sint (dr_Attempts rec)\<close> show ?thesis by (simp add: delivery_start_def)
qed

lemma record_update_inv:
  "dispatcher_inv d \<Longrightarrow> delivery_inv rec \<Longrightarrow> recordKey (dr_ConsumerID rec) (dr_EventID rec) = k \<Longrightarrow>
     dispatcher_inv (d\<lparr>records := (records d)(k \<mapsto> rec)\<rparr>)"
  by (simp add: dispatcher_inv_def)

lemma Dispatch_inv:
  assumes inv: "dispatcher_inv d"
  shows "dispatcher_inv (fst (fst (Dispatch invoke c envelope now (d, w))))"
proof -
  obtain s' res where x: "Dispatch invoke c envelope now (d, w) = (s', res)" by fastforce
  then show ?thesis
  proof (cases rule: Dispatch_cases)
    case (denied err r)
    with inv x show ?thesis by simp
  next
    case (attempt h w' reply rec1)
    have "delivery_inv (fst (dispatch_outcome reply now rec1))"
      using delivery_start_attempts [OF inv attempt(3,4)] attempt(6) by (intro dispatch_outcome_inv) simp
    with inv x attempt(6,7) delivery_start_key [OF inv, of c envelope now] show ?thesis
      by (simp add: record_update_inv)
  qed
qed

lemma Replay_inv:
  assumes inv: "dispatcher_inv d"
  shows "dispatcher_inv (fst (fst (Replay invoke c e t who envelope now (d, w))))"
proof -
  obtain s' res where x: "Replay invoke c e t who envelope now (d, w) = (s', res)" by fastforce
  then show ?thesis
  proof (cases rule: Replay_cases)
    case (denied err r)
    with inv x show ?thesis by simp
  next
    case (attempt h w' reply rec)
    with inv have "recordKey (dr_ConsumerID rec) (dr_EventID rec) = recordKey c e" by (auto simp: dispatcher_inv_def)
    with inv x attempt(6) show ?thesis by (simp add: record_update_inv)
  qed
qed

lemma RestoreState_inv: "dispatcher_inv d \<Longrightarrow> list_all delivery_inv recs \<Longrightarrow> dispatcher_inv (RestoreState recs d)"
proof (induction recs arbitrary: d)
  case (Cons rec recs)
  then have "dispatcher_inv (d\<lparr>records := (records d)(recordKey (dr_ConsumerID rec) (dr_EventID rec) \<mapsto> rec)\<rparr>)"
    by (simp add: record_update_inv)
  with Cons show ?case by (force simp: RestoreState_def)
qed (simp add: RestoreState_def)

lemma RegisterConsumer_inv [simp]: "dispatcher_inv (fst (RegisterConsumer c t h d)) = dispatcher_inv d"
  by (auto simp: RegisterConsumer_def dispatcher_inv_def Let_def split: option.splits)

lemma RegisterConsumer_records [simp]: "records (fst (RegisterConsumer c t h d)) = records d"
  by (auto simp: RegisterConsumer_def Let_def split: option.splits)

lemma dispatcher_exec_inv:
  assumes "dispatcher_inv (fst s)" and "sound_call c"
  shows "dispatcher_inv (fst (fst (dispatcher_exec invoke c s)))"
  using assms
  by (cases s; cases c) (simp_all add: Dispatch_inv Replay_inv RestoreState_inv case_prod_beta)

text \<open>A delivered record is final for every call but a restoration, and no handler runs for its key.\<close>

lemma Dispatch_delivered:
  assumes "records d k = Some rec" and "dr_Status rec = StatusDelivered"
  shows "records (fst (fst (Dispatch invoke c envelope now (d, w)))) k = Some rec"
proof -
  obtain s' res where x: "Dispatch invoke c envelope now (d, w) = (s', res)" by fastforce
  then show ?thesis
  proof (cases rule: Dispatch_cases)
    case (attempt h w' reply rec1)
    with assms have "k \<noteq> recordKey c (ev_EventID envelope)" by (auto simp: delivery_start_def)
    with x attempt(7) assms show ?thesis by simp
  qed (use x assms in simp)
qed

lemma Replay_delivered:
  assumes "records d k = Some rec" and "dr_Status rec = StatusDelivered"
  shows "records (fst (fst (Replay invoke c e t who envelope now (d, w)))) k = Some rec"
proof -
  obtain s' res where x: "Replay invoke c e t who envelope now (d, w) = (s', res)" by fastforce
  then show ?thesis
  proof (cases rule: Replay_cases)
    case (attempt h w' reply rec1)
    with assms have "k \<noteq> recordKey c e" by auto
    with x attempt(6) assms show ?thesis by simp
  qed (use x assms in simp)
qed

lemma dispatcher_exec_delivered:
  assumes "no_restore c" and "records (fst s) k = Some rec" and "dr_Status rec = StatusDelivered"
  shows "records (fst (fst (dispatcher_exec invoke c s))) k = Some rec"
  using assms
  by (cases s; cases c) (simp_all add: Dispatch_delivered Replay_delivered case_prod_beta)

interpretation dp: api_machine "dispatcher_exec invoke" "dispatcher_inv \<circ> fst" sound_call for invoke
  by unfold_locales (simp add: dispatcher_exec_inv)

interpretation dp_final: absorbing "dispatcher_exec invoke" "\<lambda>_. True" no_restore
  "\<lambda>k s. records (fst s) k" "\<lambda>rec. dr_Status rec = StatusDelivered" for invoke
  by unfold_locales (simp_all add: dispatcher_exec_delivered)

lemma new_dispatcher_inv: "dispatcher_inv (NewDispatcher cfgMax)"
  by (simp add: dispatcher_inv_def NewDispatcher_def)

text \<open>Failing attempts on one event, counted.\<close>

definition failed_record :: "string \<Rightarrow> EventEnvelope \<Rightarrow> int64 \<Rightarrow> nat \<Rightarrow> DeliveryRecord \<Rightarrow> bool" where
  "failed_record c envelope maxA n rec \<longleftrightarrow>
     dr_MaxAttempts rec = maxA \<and> dr_Attempts rec = of_nat (min n (nat (sint maxA))) \<and>
     dr_Status rec = (if n < nat (sint maxA) then StatusRetrying else StatusQuarantined)"

definition ready :: "string \<Rightarrow> EventEnvelope \<Rightarrow> 'h \<Rightarrow> 'h Dispatcher \<Rightarrow> bool" where
  "ready c envelope h d \<longleftrightarrow>
     TrimSpace c \<noteq> [] \<and> TrimSpace (ev_EventID envelope) \<noteq> [] \<and> handlers d (TrimSpace c) = Some h \<and>
     (consumerTenants d (TrimSpace c) = None \<or> consumerTenants d (TrimSpace c) = Some (ev_TenantID envelope))"

lemma ready_records [simp]: "ready c envelope h (d\<lparr>records := m\<rparr>) = ready c envelope h d"
  by (simp add: ready_def)

lemma Dispatch_ready:
  assumes "ready c envelope h d" and "invoke h envelope w = (w', Some msg)"
    and "dr_Status (delivery_start c envelope now d) \<notin> {StatusDelivered, StatusQuarantined}"
  shows "fst (Dispatch invoke c envelope now (d, w)) =
    (d\<lparr>records := (records d)(recordKey c (ev_EventID envelope) \<mapsto> fst (dispatch_outcome (Some msg) now
      ((delivery_start c envelope now d)\<lparr>dr_Attempts := dr_Attempts (delivery_start c envelope now d) + 1,
         dr_LastAttemptAt := now\<rparr>)))\<rparr>, w')"
  using assms
  by (cases "records d (recordKey c (ev_EventID envelope))")
    (auto simp: Dispatch_def ready_def delivery_start_def case_prod_beta Let_def split: option.splits)

lemma Dispatch_quarantined:
  assumes "ready c envelope h d" and "records d (recordKey c (ev_EventID envelope)) = Some rec"
    and "dr_Status rec = StatusQuarantined"
  shows "Dispatch invoke c envelope now (d, w) = ((d, w), Inl (ErrRetryLimitReached, Some rec))"
  using assms by (auto simp: Dispatch_def ready_def Let_def split: option.splits)

lemma failed_attempt:
  assumes "dr_Attempts rec = of_nat n" and "dr_MaxAttempts rec = maxA" and "n < nat (sint maxA)"
  shows "failed_record c envelope maxA (Suc n)
    (fst (dispatch_outcome (Some msg) now (rec\<lparr>dr_Attempts := dr_Attempts rec + 1, dr_LastAttemptAt := now\<rparr>)))"
proof -
  have "sint maxA < 9223372036854775808" using sint_lt [of maxA] by simp
  with assms(3) have "Suc n < 9223372036854775808" by linarith
  then have "Suc n < 2 ^ 63" by simp
  then have "sint (1 + of_nat n :: int64) = int (Suc n)" using sint_of_nat [of "Suc n"] by simp
  moreover have "min (Suc n) (nat (sint maxA)) = Suc n" using assms(3) by simp
  moreover have "sint maxA \<le> int (Suc n) \<longleftrightarrow> \<not> Suc n < nat (sint maxA)" by linarith
  ultimately show ?thesis
    using assms(1,2) by (auto simp: failed_record_def dispatch_outcome_def quarantined_def Let_def add.commute)
qed

lemma failing_dispatches:
  assumes max: "0 < sint (maxAttempts d)" and ready: "ready c envelope h d"
    and fresh: "records d (recordKey c (ev_EventID envelope)) = None"
    and fails: "\<And>w. snd (invoke h envelope w) \<noteq> None"
  shows "\<exists>rec d' w'. run_calls (dispatcher_exec invoke) (replicate (Suc n) (CallDispatch c envelope now)) (d, w) = (d', w') \<and>
    records d' (recordKey c (ev_EventID envelope)) = Some rec \<and> failed_record c envelope (maxAttempts d) (Suc n) rec \<and>
    ready c envelope h d'"
proof (induction n)
  case 0
  obtain w' msg where i: "invoke h envelope w = (w', Some msg)" using fails [of w] by (metis option.exhaust prod.collapse snd_conv)
  let ?rec = "delivery_start c envelope now d"
  have "?rec = new_delivery (TrimSpace (ev_EventID envelope)) (TrimSpace c) (ev_TenantID envelope) (maxAttempts d) now"
    using fresh by (simp add: delivery_start_def)
  then have r: "dr_Attempts ?rec = of_nat 0" "dr_MaxAttempts ?rec = maxAttempts d"
    "dr_Status ?rec \<notin> {StatusDelivered, StatusQuarantined}" by (simp_all add: new_delivery_def)
  from failed_attempt [OF r(1,2)] max Dispatch_ready [where invoke = invoke and w = w, OF ready i r(3)] ready show ?case by simp
next
  case (Suc n)
  then obtain rec d' w' where run: "run_calls (dispatcher_exec invoke) (replicate (Suc n) (CallDispatch c envelope now)) (d, w) = (d', w')"
    and rec: "records d' (recordKey c (ev_EventID envelope)) = Some rec" "failed_record c envelope (maxAttempts d) (Suc n) rec"
      "ready c envelope h d'" by blast
  have step: "run_calls (dispatcher_exec invoke) (replicate (Suc (Suc n)) (CallDispatch c envelope now)) (d, w) =
      fst (Dispatch invoke c envelope now (d', w'))"
    using run run_calls_append [of "dispatcher_exec invoke" "replicate (Suc n) (CallDispatch c envelope now)" "[CallDispatch c envelope now]" "(d, w)"]
    by (simp add: replicate_append_same)
  show ?case
  proof (cases "Suc n < nat (sint (maxAttempts d))")
    case True
    obtain w'' msg where i: "invoke h envelope w' = (w'', Some msg)" using fails [of w'] by (metis option.exhaust prod.collapse snd_conv)
    have start: "delivery_start c envelope now d' = rec" using rec(1) by (simp add: delivery_start_def)
    from True rec(2) have r: "dr_Attempts rec = of_nat (Suc n)" "dr_MaxAttempts rec = maxAttempts d" "dr_Status rec = StatusRetrying"
      by (simp_all add: failed_record_def)
    then have "dr_Status (delivery_start c envelope now d') \<notin> {StatusDelivered, StatusQuarantined}" by (simp add: start)
    from Dispatch_ready [where invoke = invoke and w = w', OF rec(3) i this] failed_attempt [OF r(1,2) True] rec(3) start step
    show ?thesis by simp
  next
    case False
    with rec(2) have q: "dr_Status rec = StatusQuarantined" "failed_record c envelope (maxAttempts d) (Suc (Suc n)) rec"
      by (simp_all add: failed_record_def)
    then have "fst (Dispatch invoke c envelope now (d', w')) = (d', w')"
      using Dispatch_quarantined [where invoke = invoke and w = w', OF rec(3,1)] by simp
    with step q(2) rec show ?thesis by (intro exI [of _ rec] exI [of _ d'] exI [of _ w']) simp
  qed
qed

text \<open>
  For isolation: the world is the log of invocations, a handler is named by the tenant it was registered
  for, and its replies are arbitrary.
\<close>

definition tracing ::
  "(string \<Rightarrow> EventEnvelope \<Rightarrow> string option) \<Rightarrow> (string, (string \<times> EventEnvelope) list) invocation" where
  "tracing reply h envelope w = (w @ [(h, envelope)], reply h envelope)"

fun tenant_call :: "string dispatcher_call \<Rightarrow> bool" where
  "tenant_call (CallRegisterConsumer c t h) \<longleftrightarrow> h = Some (TrimSpace t)"
| "tenant_call (CallReplay c e t who envelope now) \<longleftrightarrow> False"
| "tenant_call _ \<longleftrightarrow> True"

definition isolation_inv :: "string Dispatcher \<times> (string \<times> EventEnvelope) list \<Rightarrow> bool" where
  "isolation_inv s \<longleftrightarrow>
     (\<forall>c h. handlers (fst s) c = Some h \<longrightarrow> h \<noteq> [] \<longrightarrow> consumerTenants (fst s) c = Some h) \<and>
     list_all (\<lambda>(h, envelope). h \<noteq> [] \<longrightarrow> ev_TenantID envelope = h) (snd s)"

lemma Dispatch_isolation:
  assumes "isolation_inv (d, w)"
  shows "isolation_inv (fst (Dispatch (tracing reply) c envelope now (d, w)))"
proof -
  obtain s' res where x: "Dispatch (tracing reply) c envelope now (d, w) = (s', res)" by fastforce
  then show ?thesis
    by (cases rule: Dispatch_cases) (use x assms in \<open>auto simp: isolation_inv_def tracing_def\<close>)
qed

lemma dispatcher_exec_isolation:
  assumes "isolation_inv s" and "tenant_call c"
  shows "isolation_inv (fst (dispatcher_exec (tracing reply) c s))"
proof (cases c)
  case (CallRegisterConsumer cid t h)
  with assms show ?thesis
    by (auto simp: isolation_inv_def RegisterConsumer_def Let_def)
next
  case (CallDispatch cid envelope now)
  with assms show ?thesis by (cases s) (simp add: Dispatch_isolation)
qed (use assms in \<open>simp_all add: isolation_inv_def RestoreState_def\<close>)

interpretation dp_tenant: api_machine "dispatcher_exec (tracing reply)" isolation_inv tenant_call for reply
  by unfold_locales (rule dispatcher_exec_isolation)

lemma RestoreState_lookup:
  assumes "\<And>rec. rec \<in> set recs \<Longrightarrow> recordKey (dr_ConsumerID rec) (dr_EventID rec) = f rec"
  shows "records (RestoreState recs d) k =
    (case find (\<lambda>rec. f rec = k) (rev recs) of Some rec \<Rightarrow> Some rec | None \<Rightarrow> records d k)"
  using assms
proof (induction recs rule: rev_induct)
  case (snoc rec recs)
  then have "records (RestoreState recs d) k =
      (case find (\<lambda>rec. f rec = k) (rev recs) of Some rec \<Rightarrow> Some rec | None \<Rightarrow> records d k)" by simp
  with snoc.prems [of rec] show ?case by (auto simp: RestoreState_def)
qed (simp add: RestoreState_def)

lemma restore_export:
  fixes d :: "'h Dispatcher"
  assumes inv: "dispatcher_inv d" and order: "set key_order = dom (records d)"
  shows "records (RestoreState (ExportState key_order d) (NewDispatcher cfgMax :: 'h Dispatcher)) = records d"
proof
  fix k
  let ?key = "\<lambda>rec. recordKey (dr_ConsumerID rec) (dr_EventID rec)"
  have key: "?key (the (records d k')) = k'" if "k' \<in> set key_order" for k'
  proof -
    from that order obtain rec where "records d k' = Some rec" by auto
    with inv show ?thesis by (auto simp: dispatcher_inv_def)
  qed
  have look: "records (RestoreState (ExportState key_order d) (NewDispatcher cfgMax :: 'h Dispatcher)) k =
      find (\<lambda>rec. ?key rec = k) (rev (ExportState key_order d))"
    by (subst RestoreState_lookup [where f = ?key]) (auto simp: NewDispatcher_def split: option.splits)
  show "records (RestoreState (ExportState key_order d) (NewDispatcher cfgMax :: 'h Dispatcher)) k = records d k"
  proof (cases "find (\<lambda>rec. ?key rec = k) (rev (ExportState key_order d))")
    case None
    have "k \<notin> set key_order"
    proof
      assume "k \<in> set key_order"
      with None key show False by (auto simp: find_None_iff ExportState_def)
    qed
    with order look None show ?thesis by auto
  next
    case (Some rec)
    then have "rec \<in> set (ExportState key_order d)" "?key rec = k"
      using find_SomeD [OF Some] by simp_all
    then obtain k' where k': "k' \<in> set key_order" "rec = the (records d k')" by (auto simp: ExportState_def)
    with key \<open>?key rec = k\<close> have "k' = k" by simp
    with k' order have "records d k = Some rec" by auto
    with look Some show ?thesis by simp
  qed
qed

text \<open>An envelope and calls for evaluations; the handlers of the example always fail.\<close>

definition example_envelope :: "string \<Rightarrow> string \<Rightarrow> EventEnvelope" where
  "example_envelope eid t =
     \<lparr>ev_EventID = eid, ev_TenantID = t, ev_Producer = ''p'', ev_EventType = ''x'', ev_EnvelopeVersion = ''1.0.0'',
      ev_SchemaVersion = ''1.0.0'', ev_CorrelationID = ''corr_1'', ev_CausationID = ''caus_1'',
      ev_PayloadDigest = ''d'', ev_SequenceNumber = 1, ev_Timestamp = 1\<rparr>"

definition failing :: "string \<Rightarrow> EventEnvelope \<Rightarrow> string option" where
  "failing h envelope = Some ''down''"

definition succeeding :: "string \<Rightarrow> EventEnvelope \<Rightarrow> string option" where
  "succeeding h envelope = None"

lemmas dispatcher_eval = example_envelope_def failing_def succeeding_def NewDispatcher_def recordKey_def
  RegisterConsumer_def new_delivery_def delivered_def quarantined_def dispatch_outcome_def replay_outcome_def
  Dispatch_def Replay_def tracing_def error_only_def eval_defs

subsection \<open>Properties\<close>

text \<open>
  (C9) In runs without a restoration (\<open>RestoreState\<close> overwrites records): once an event is DELIVERED to
  a consumer, its record never changes again, whatever other calls follow, and no further dispatch or replay of it runs the handler: both
  answer an error and leave the dispatcher and the world as they are.
\<close>

theorem delivered_exactly_once:
  assumes "records d (recordKey c e) = Some rec" and "dr_Status rec = StatusDelivered"
    and "list_all no_restore cs" and "run_calls (dispatcher_exec invoke) cs (d, w) = (d', w')"
  shows "records d' (recordKey c e) = Some rec \<and>
    (TrimSpace (ev_EventID envelope) = TrimSpace e \<longrightarrow>
       (\<exists>err r. Dispatch invoke c envelope now (d', w') = ((d', w'), Inl (err, r)))) \<and>
    (\<exists>err. Replay invoke c e t who envelope now (d', w') = ((d', w'), Inl (err, None)))"
proof -
  have r: "records d' (recordKey c e) = Some rec"
    using dp_final.run_final [where invoke = invoke and s = "(d, w)" and cs = cs and k = "recordKey c e" and v = rec] assms
    by simp
  have "recordKey c (ev_EventID envelope) = recordKey c e" if "TrimSpace (ev_EventID envelope) = TrimSpace e"
    using that by (simp add: recordKey_def)
  with r assms(2) have "\<exists>err r. Dispatch invoke c envelope now (d', w') = ((d', w'), Inl (err, r))"
    if "TrimSpace (ev_EventID envelope) = TrimSpace e"
    using that by (auto simp: Dispatch_def Let_def split: option.splits)
  moreover have "\<exists>err. Replay invoke c e t who envelope now (d', w') = ((d', w'), Inl (err, None))"
    using r assms(2) by (auto simp: Replay_def Let_def)
  ultimately show ?thesis using r by simp
qed

text \<open>
  (C8) An event whose handler keeps failing is quarantined: after n failing dispatches, the record counts
  n attempts and is RETRYING while n is below the configured maximum; from the maximum on it is
  QUARANTINED with exactly the maximum of attempts, however often it is dispatched.
\<close>

theorem poison_event_quarantined:
  assumes "0 < sint (maxAttempts d)" and "ready c envelope h d"
    and "records d (recordKey c (ev_EventID envelope)) = None"
    and "\<And>w. snd (invoke h envelope w) \<noteq> None" and "0 < n"
  shows "\<exists>rec. records (fst (run_calls (dispatcher_exec invoke) (replicate n (CallDispatch c envelope now)) (d, w)))
      (recordKey c (ev_EventID envelope)) = Some rec \<and>
    dr_Status rec = (if n < nat (sint (maxAttempts d)) then StatusRetrying else StatusQuarantined) \<and>
    dr_Attempts rec = of_nat (min n (nat (sint (maxAttempts d))))"
proof -
  obtain m where "n = Suc m" using assms(5) by (cases n) auto
  with failing_dispatches [of d c envelope h invoke m now w] assms(1-4) show ?thesis
    unfolding failed_record_def by (metis fst_conv)
qed

text \<open>
  Tenant isolation of dispatch: as long as no replay is made, a handler registered for a tenant is
  never run on an envelope of another tenant, whatever registrations, dispatches and restorations happen.
\<close>

theorem dispatch_tenant_isolation:
  assumes "list_all tenant_call cs"
    and "(h, envelope) \<in> set (snd (run_calls (dispatcher_exec (tracing reply)) cs (NewDispatcher cfgMax, [])))"
    and "h \<noteq> []"
  shows "ev_TenantID envelope = h"
proof -
  have "isolation_inv (run_calls (dispatcher_exec (tracing reply)) cs (NewDispatcher cfgMax, []))"
    using assms(1) by (intro dp_tenant.run_inv) (simp_all add: isolation_inv_def NewDispatcher_def)
  with assms(2,3) show ?thesis by (auto simp: isolation_inv_def list_all_iff)
qed

text \<open>
  Replay checks the caller's tenant against the record, not the envelope it is given: with a
  quarantined event of tenant a, a caller of tenant a makes the handler bound to tenant a run on an
  envelope of tenant b.
\<close>

theorem replay_crosses_tenants:
  "\<exists>s s' rec. s = run_calls (dispatcher_exec (tracing failing))
        [CallRegisterConsumer ''mail'' ''ten_a'' (Some ''ten_a''), CallDispatch ''mail'' (example_envelope ''evt_1'' ''ten_a'') 5]
        (NewDispatcher 1, []) \<and>
     Replay (tracing succeeding) ''mail'' ''evt_1'' ''ten_a'' ''bob'' (example_envelope ''evt_9'' ''ten_b'') 6 s = (s', Inr rec) \<and>
     dr_EventID rec = ''evt_1'' \<and> dr_Status rec = StatusDelivered \<and>
     last (snd s') = (''ten_a'', example_envelope ''evt_9'' ''ten_b'')"
  by (simp add: dispatcher_eval)

text \<open>
  Restart: in every reachable dispatcher, restoring an export into a new dispatcher, in whatever order the
  map was iterated, gives back the same delivery records, hence the same answers of \<open>GetDeliveryRecord\<close>.
\<close>

theorem export_restore_roundtrip:
  fixes d :: "'h Dispatcher"
  assumes "list_all sound_call cs" and "d = fst (run_calls (dispatcher_exec invoke) cs (NewDispatcher cfgMax, w))"
    and "set key_order = dom (records d)"
  shows "records (RestoreState (ExportState key_order d) (NewDispatcher cfgMax' :: 'h Dispatcher)) = records d \<and>
    GetDeliveryRecord c e (RestoreState (ExportState key_order d) (NewDispatcher cfgMax' :: 'h Dispatcher)) = GetDeliveryRecord c e d"
proof -
  have "dispatcher_inv d"
    using dp.run_inv [of "(NewDispatcher cfgMax, w)" cs invoke] assms(1,2) by (simp add: new_dispatcher_inv)
  from restore_export [OF this assms(3), of cfgMax'] show ?thesis by (simp add: GetDeliveryRecord_def)
qed

text \<open>
  The record key joins consumer and event with a colon: after event c was delivered to consumer a:b, the first
  dispatch of event b:c to consumer a is refused as already delivered and its handler never runs.
\<close>

theorem record_key_collision:
  "\<exists>s rec. s = run_calls (dispatcher_exec (tracing succeeding))
        [CallRegisterConsumer ''a:b'' [] (Some ''h1''), CallRegisterConsumer ''a'' [] (Some ''h2''),
         CallDispatch ''a:b'' (example_envelope ''c'' ''ten_a'') 5] (NewDispatcher 3, []) \<and>
     Dispatch (tracing succeeding) ''a'' (example_envelope ''b:c'' ''ten_a'') 6 s = (s, Inl (ErrAlreadyDelivered, Some rec)) \<and>
     dr_ConsumerID rec = ''a:b''"
  by (simp add: dispatcher_eval)

subsection \<open>Witnesses\<close>

theorem delivered_exactly_once_witness:
  "\<exists>d w err. Replay (tracing succeeding) ''mail'' ''evt_1'' ''ten_a'' ''bob'' (example_envelope ''evt_1'' ''ten_a'') 7 (d, w)
     = ((d, w), Inl (err, None)) \<and> length w = 1"
proof -
  let ?s = "run_calls (dispatcher_exec (tracing succeeding))
        [CallRegisterConsumer ''mail'' [] (Some ''h''), CallDispatch ''mail'' (example_envelope ''evt_1'' ''ten_a'') 5]
        (NewDispatcher 3, [])"
  have "\<exists>d w rec. ?s = (d, w) \<and> length (w :: (string \<times> EventEnvelope) list) = 1 \<and> records d (recordKey ''mail'' ''evt_1'') = Some rec \<and> dr_Status rec = StatusDelivered"
    by (simp add: dispatcher_eval)
  then obtain d :: "string Dispatcher" and w :: "(string \<times> EventEnvelope) list" and rec
    where "length w = 1" and r: "records d (recordKey ''mail'' ''evt_1'') = Some rec" "dr_Status rec = StatusDelivered"
    by blast
  with delivered_exactly_once [OF r, of "[]" "tracing succeeding" w d w] show ?thesis by fastforce
qed

theorem poison_event_quarantined_witness:
  "\<exists>rec. records (fst (run_calls (dispatcher_exec (tracing failing)) (replicate 5 (CallDispatch ''mail'' (example_envelope ''evt_1'' ''ten_a'') 5))
      (fst (RegisterConsumer ''mail'' [] (Some ''h'') (NewDispatcher 3)), []))) (recordKey ''mail'' ''evt_1'') = Some rec \<and>
    dr_Status rec = StatusQuarantined \<and> dr_Attempts rec = 3"
proof -
  let ?d = "fst (RegisterConsumer ''mail'' [] (Some ''h'') (NewDispatcher 3))"
  have m: "maxAttempts ?d = 3" "records ?d = Map.empty" by (simp_all add: dispatcher_eval)
  moreover have "ready ''mail'' (example_envelope ''evt_1'' ''ten_a'') ''h'' ?d" by (simp add: ready_def dispatcher_eval)
  moreover have "snd (tracing failing ''h'' (example_envelope ''evt_1'' ''ten_a'') w) \<noteq> None" for w
    by (simp add: dispatcher_eval)
  ultimately show ?thesis
    using poison_event_quarantined [of ?d "''mail''" "example_envelope ''evt_1'' ''ten_a''" "''h''" "tracing failing" 5 5 "[]"]
    by (simp add: example_envelope_def)
qed

theorem dispatch_tenant_isolation_witness:
  "ev_TenantID (example_envelope ''evt_1'' ''ten_a'') = ''ten_a''"
proof (rule dispatch_tenant_isolation [where reply = succeeding and cfgMax = 3
      and cs = "[CallRegisterConsumer ''mail'' ''ten_a'' (Some ''ten_a''), CallDispatch ''mail'' (example_envelope ''evt_1'' ''ten_a'') 5]"])
  show "(''ten_a'', example_envelope ''evt_1'' ''ten_a'') \<in> set (snd (run_calls (dispatcher_exec (tracing succeeding))
      [CallRegisterConsumer ''mail'' ''ten_a'' (Some ''ten_a''), CallDispatch ''mail'' (example_envelope ''evt_1'' ''ten_a'') 5]
      (NewDispatcher 3, [])))"
    by (simp add: dispatcher_eval)
qed simp_all

theorem export_restore_roundtrip_witness:
  "\<exists>d :: string Dispatcher. records d \<noteq> Map.empty \<and>
     records (RestoreState (ExportState [''mail:evt_1''] d) (NewDispatcher 1 :: string Dispatcher)) = records d"
proof -
  let ?cs = "[CallRegisterConsumer ''mail'' [] (Some ''h''), CallDispatch ''mail'' (example_envelope ''evt_1'' ''ten_a'') 5]"
  let ?d = "fst (run_calls (dispatcher_exec (tracing failing)) ?cs (NewDispatcher 3, []))"
  have "set [''mail:evt_1''] = dom (records ?d)" by (simp add: dispatcher_eval)
  then have "records (RestoreState (ExportState [''mail:evt_1''] ?d) (NewDispatcher 1 :: string Dispatcher)) = records ?d"
    using export_restore_roundtrip [of ?cs ?d "tracing failing" 3 "[]" "[''mail:evt_1'']" 1] by simp
  moreover have "records ?d \<noteq> Map.empty" by (simp add: dispatcher_eval)
  ultimately show ?thesis by blast
qed

end
