(* ===== verification/Immutable_Objects.thy ===== *)
theory Immutable_Objects
  imports Go_Strings
begin

text \<open>
  Evidence objects, \<open>modules/records-audit/immutable_objects.go\<close>: original and derived records with their
  constructors, and the \<open>IntegrityRegistry\<close> with its two maps. The fields of the two record types are
  private to the package, so callers pass records that a constructor has made (the zero value is refused
  for its blank identifier).
\<close>

subsection \<open>Definitions\<close>

datatype DerivedKind =
  DerivedAnnotation | DerivedRedaction | DerivedThumbnail | DerivedTransformation | DerivedOther string

datatype RecordLifecycleState = StateDraft | StateAccepted | StateArchived | LifecycleOther string

text \<open>The sentinel errors of both files of the package.\<close>

datatype ra_error =
  ErrBlankID | ErrBlankTenantID | ErrBlankParentID | ErrInvalidDigest | ErrInvalidSizeBytes | ErrBlankMediaType
| ErrInvalidDerivedKind | ErrUnknownParent | ErrParentNotAccepted | ErrCrossTenantLinkage
| ErrOriginalOverwriteDenied | ErrOriginalAsDerivedDenied | ErrDigestMismatch | ErrInvalidLifecycleTransition
| ErrRecordArchived | ErrDuplicateObjectID
  \<comment> \<open>record\_audit.go\<close>
| ErrDuplicateRecord | ErrDuplicateVersion | ErrRecordNotFound | ErrCrossTenantAccess | ErrInvalidCorrelationID
| ErrInvalidCausationID | ErrBlankRecordType | ErrBlankVersion | ErrBlankActor

definition ValidateDigest :: "string \<Rightarrow> ra_error option" where
  "ValidateDigest digest =
     (if length digest \<noteq> 64 then Some ErrInvalidDigest
      else if \<not> list_all hex_byte digest then Some ErrInvalidDigest
      else None)"

record OriginalRecord =
  og_objectID :: string
  og_tenantID :: string
  og_mediaType :: string
  og_sizeBytes :: int64
  og_sha256Digest :: string
  og_state :: RecordLifecycleState
  og_createdAt :: gotime

definition NewOriginalRecord ::
  "string \<Rightarrow> string \<Rightarrow> string \<Rightarrow> int64 \<Rightarrow> string \<Rightarrow> gotime \<Rightarrow> gotime \<Rightarrow> ra_error + OriginalRecord" where
  "NewOriginalRecord objectID tenantID mediaType sizeBytes sha256Digest createdAt now =
     (if TrimSpace objectID = [] then Inl ErrBlankID
      else if TrimSpace tenantID = [] then Inl ErrBlankTenantID
      else if TrimSpace mediaType = [] then Inl ErrBlankMediaType
      else if sint sizeBytes \<le> 0 then Inl ErrInvalidSizeBytes
      else case ValidateDigest sha256Digest of Some e \<Rightarrow> Inl e | None \<Rightarrow>
        Inr \<lparr>og_objectID = TrimSpace objectID, og_tenantID = TrimSpace tenantID, og_mediaType = TrimSpace mediaType,
             og_sizeBytes = sizeBytes, og_sha256Digest = sha256Digest, og_state = StateDraft,
             og_createdAt = (if IsZero createdAt then now else createdAt)\<rparr>)"

record DerivedRecord =
  dv_objectID :: string
  dv_tenantID :: string
  dv_parentID :: string
  dv_derivedKind :: DerivedKind
  dv_mediaType :: string
  dv_sizeBytes :: int64
  dv_sha256Digest :: string
  dv_state :: RecordLifecycleState
  dv_createdAt :: gotime

definition NewDerivedRecord ::
  "string \<Rightarrow> string \<Rightarrow> string \<Rightarrow> DerivedKind \<Rightarrow> string \<Rightarrow> int64 \<Rightarrow> string \<Rightarrow> gotime \<Rightarrow> gotime \<Rightarrow>
   ra_error + DerivedRecord" where
  "NewDerivedRecord objectID tenantID parentID kind mediaType sizeBytes sha256Digest createdAt now =
     (if TrimSpace objectID = [] then Inl ErrBlankID
      else if TrimSpace tenantID = [] then Inl ErrBlankTenantID
      else if TrimSpace parentID = [] then Inl ErrBlankParentID
      else if kind \<notin> {DerivedAnnotation, DerivedRedaction, DerivedThumbnail, DerivedTransformation}
      then Inl ErrInvalidDerivedKind
      else if TrimSpace mediaType = [] then Inl ErrBlankMediaType
      else if sint sizeBytes \<le> 0 then Inl ErrInvalidSizeBytes
      else case ValidateDigest sha256Digest of Some e \<Rightarrow> Inl e | None \<Rightarrow>
        Inr \<lparr>dv_objectID = TrimSpace objectID, dv_tenantID = TrimSpace tenantID, dv_parentID = TrimSpace parentID,
             dv_derivedKind = kind, dv_mediaType = TrimSpace mediaType, dv_sizeBytes = sizeBytes,
             dv_sha256Digest = sha256Digest, dv_state = StateDraft,
             dv_createdAt = (if IsZero createdAt then now else createdAt)\<rparr>)"

record IntegrityLinkage =
  il_Derived :: DerivedRecord
  il_Original :: OriginalRecord

type_synonym objectKey = "string \<times> string"

record IntegrityRegistry =
  originals :: "objectKey \<rightharpoonup> OriginalRecord"
  derived :: "objectKey \<rightharpoonup> DerivedRecord"

definition NewIntegrityRegistry :: IntegrityRegistry where
  "NewIntegrityRegistry = \<lparr>originals = Map.empty, derived = Map.empty\<rparr>"

type_synonym registry_method = "IntegrityRegistry \<Rightarrow> (IntegrityRegistry, ra_error, unit) outcome"

definition RegisterOriginal :: "string \<Rightarrow> OriginalRecord \<Rightarrow> registry_method" where
  "RegisterOriginal trustedTenantID rec reg =
     (let tenantID = TrimSpace trustedTenantID; recTenant = TrimSpace (og_tenantID rec);
          objectID = TrimSpace (og_objectID rec); k = (tenantID, objectID)
      in if tenantID = [] then (reg, Inl ErrBlankTenantID)
      else if recTenant \<noteq> [] \<and> recTenant \<noteq> tenantID then (reg, Inl ErrCrossTenantLinkage)
      else if objectID = [] then (reg, Inl ErrBlankID)
      else case originals reg k of
        Some existing \<Rightarrow>
          (reg, Inl (if og_state existing = StateAccepted then ErrOriginalOverwriteDenied else ErrDuplicateObjectID))
      | None \<Rightarrow>
          if derived reg k \<noteq> None then (reg, Inl ErrDuplicateObjectID)
          else (reg\<lparr>originals := (originals reg)(k \<mapsto> rec)\<rparr>, Inr ()))"

definition AcceptOriginal :: "string \<Rightarrow> string \<Rightarrow> registry_method" where
  "AcceptOriginal tenantID objectID reg =
     (let tTenant = TrimSpace tenantID; tID = TrimSpace objectID; k = (tTenant, tID)
      in if tTenant = [] then (reg, Inl ErrBlankTenantID)
      else if tID = [] then (reg, Inl ErrBlankID)
      else case originals reg k of
        None \<Rightarrow> (reg, Inl ErrUnknownParent)
      | Some rec \<Rightarrow>
          if og_state rec = StateAccepted then (reg, Inr ())
          else if og_state rec = StateArchived then (reg, Inl ErrRecordArchived)
          else if og_state rec \<noteq> StateDraft then (reg, Inl ErrInvalidLifecycleTransition)
          else (reg\<lparr>originals := (originals reg)(k \<mapsto> rec\<lparr>og_state := StateAccepted\<rparr>)\<rparr>, Inr ()))"

definition ArchiveOriginal :: "string \<Rightarrow> string \<Rightarrow> registry_method" where
  "ArchiveOriginal tenantID objectID reg =
     (let tTenant = TrimSpace tenantID; tID = TrimSpace objectID; k = (tTenant, tID)
      in if tTenant = [] then (reg, Inl ErrBlankTenantID)
      else if tID = [] then (reg, Inl ErrBlankID)
      else case originals reg k of
        None \<Rightarrow> (reg, Inl ErrUnknownParent)
      | Some rec \<Rightarrow>
          if og_state rec = StateArchived then (reg, Inr ())
          else if og_state rec \<noteq> StateAccepted then (reg, Inl ErrInvalidLifecycleTransition)
          else (reg\<lparr>originals := (originals reg)(k \<mapsto> rec\<lparr>og_state := StateArchived\<rparr>)\<rparr>, Inr ()))"

definition RegisterDerived :: "string \<Rightarrow> DerivedRecord \<Rightarrow> registry_method" where
  "RegisterDerived trustedTenantID rec reg =
     (let tenantID = TrimSpace trustedTenantID; recTenant = TrimSpace (dv_tenantID rec);
          objectID = TrimSpace (dv_objectID rec); k = (tenantID, objectID);
          parentKey = (tenantID, TrimSpace (dv_parentID rec))
      in if tenantID = [] then (reg, Inl ErrBlankTenantID)
      else if recTenant \<noteq> [] \<and> recTenant \<noteq> tenantID then (reg, Inl ErrCrossTenantLinkage)
      else if objectID = [] then (reg, Inl ErrBlankID)
      else if originals reg k \<noteq> None then (reg, Inl ErrOriginalAsDerivedDenied)
      else if derived reg k \<noteq> None then (reg, Inl ErrDuplicateObjectID)
      else case originals reg parentKey of
        None \<Rightarrow> (reg, Inl ErrUnknownParent)
      | Some parent \<Rightarrow>
          if og_state parent \<noteq> StateAccepted then (reg, Inl ErrParentNotAccepted)
          else if og_tenantID parent \<noteq> dv_tenantID rec then (reg, Inl ErrCrossTenantLinkage)
          else (reg\<lparr>derived := (derived reg)(k \<mapsto> rec)\<rparr>, Inr ()))"

definition AcceptDerived :: "string \<Rightarrow> string \<Rightarrow> registry_method" where
  "AcceptDerived tenantID objectID reg =
     (let tTenant = TrimSpace tenantID; tID = TrimSpace objectID; k = (tTenant, tID)
      in if tTenant = [] then (reg, Inl ErrBlankTenantID)
      else if tID = [] then (reg, Inl ErrBlankID)
      else case derived reg k of
        None \<Rightarrow> (reg, Inl ErrUnknownParent)
      | Some rec \<Rightarrow>
          if dv_state rec = StateAccepted then (reg, Inr ())
          else if dv_state rec = StateArchived then (reg, Inl ErrRecordArchived)
          else if dv_state rec \<noteq> StateDraft then (reg, Inl ErrInvalidLifecycleTransition)
          else (reg\<lparr>derived := (derived reg)(k \<mapsto> rec\<lparr>dv_state := StateAccepted\<rparr>)\<rparr>, Inr ()))"

definition VerifyIntegrityLinkage ::
  "string \<Rightarrow> string \<Rightarrow> string \<Rightarrow> IntegrityRegistry \<Rightarrow> ra_error + IntegrityLinkage" where
  "VerifyIntegrityLinkage derivedID callerTenantID expectedDigest reg =
     (let tCaller = TrimSpace callerTenantID; tDerived = TrimSpace derivedID
      in if tCaller = [] then Inl ErrBlankTenantID
      else if tDerived = [] then Inl ErrBlankID
      else case derived reg (tCaller, tDerived) of
        None \<Rightarrow> Inl ErrUnknownParent
      | Some d \<Rightarrow>
          if dv_tenantID d \<noteq> tCaller then Inl ErrCrossTenantLinkage
          else case ValidateDigest expectedDigest of Some e \<Rightarrow> Inl e | None \<Rightarrow>
            if dv_sha256Digest d \<noteq> expectedDigest then Inl ErrDigestMismatch
            else case originals reg (dv_tenantID d, dv_parentID d) of
              None \<Rightarrow> Inl ErrUnknownParent
            | Some parent \<Rightarrow>
                if og_tenantID parent \<noteq> dv_tenantID d then Inl ErrCrossTenantLinkage
                else if og_state parent \<noteq> StateAccepted then Inl ErrParentNotAccepted
                else Inr \<lparr>il_Derived = d, il_Original = parent\<rparr>)"

subsection \<open>Calls and invariant\<close>

datatype registry_call =
  CallRegisterOriginal string OriginalRecord
| CallAcceptOriginal string string
| CallArchiveOriginal string string
| CallRegisterDerived string DerivedRecord
| CallAcceptDerived string string

fun registry_exec :: "registry_call \<Rightarrow> registry_method" where
  "registry_exec (CallRegisterOriginal t rec) = RegisterOriginal t rec"
| "registry_exec (CallAcceptOriginal t i) = AcceptOriginal t i"
| "registry_exec (CallArchiveOriginal t i) = ArchiveOriginal t i"
| "registry_exec (CallRegisterDerived t rec) = RegisterDerived t rec"
| "registry_exec (CallAcceptDerived t i) = AcceptDerived t i"

text \<open>What the constructors guarantee of a record.\<close>

definition trimmed :: "string \<Rightarrow> bool" where
  "trimmed s \<longleftrightarrow> s \<noteq> [] \<and> TrimSpace s = s"

definition made_original :: "OriginalRecord \<Rightarrow> bool" where
  "made_original rec \<longleftrightarrow> trimmed (og_objectID rec) \<and> trimmed (og_tenantID rec) \<and> trimmed (og_mediaType rec) \<and>
     0 < sint (og_sizeBytes rec) \<and> ValidateDigest (og_sha256Digest rec) = None \<and> og_state rec = StateDraft"

definition made_derived :: "DerivedRecord \<Rightarrow> bool" where
  "made_derived rec \<longleftrightarrow> trimmed (dv_objectID rec) \<and> trimmed (dv_tenantID rec) \<and> trimmed (dv_parentID rec) \<and>
     trimmed (dv_mediaType rec) \<and> 0 < sint (dv_sizeBytes rec) \<and> ValidateDigest (dv_sha256Digest rec) = None \<and>
     dv_state rec = StateDraft"

fun made_call :: "registry_call \<Rightarrow> bool" where
  "made_call (CallRegisterOriginal t rec) \<longleftrightarrow> made_original rec"
| "made_call (CallRegisterDerived t rec) \<longleftrightarrow> made_derived rec"
| "made_call _ \<longleftrightarrow> True"

lemma NewOriginalRecord_made: "NewOriginalRecord i t m n dg c now = Inr rec \<Longrightarrow> made_original rec"
  by (auto simp: NewOriginalRecord_def made_original_def trimmed_def guards)

lemma NewDerivedRecord_made: "NewDerivedRecord i t p kind m n dg c now = Inr rec \<Longrightarrow> made_derived rec"
  by (auto simp: NewDerivedRecord_def made_derived_def trimmed_def guards)

definition original_inv :: "objectKey \<Rightarrow> OriginalRecord \<Rightarrow> bool" where
  "original_inv k rec \<longleftrightarrow> k = (og_tenantID rec, og_objectID rec) \<and> made_original (rec\<lparr>og_state := StateDraft\<rparr>) \<and>
     og_state rec \<in> {StateDraft, StateAccepted, StateArchived}"

definition derived_inv :: "IntegrityRegistry \<Rightarrow> objectKey \<Rightarrow> DerivedRecord \<Rightarrow> bool" where
  "derived_inv reg k rec \<longleftrightarrow> k = (dv_tenantID rec, dv_objectID rec) \<and> made_derived (rec\<lparr>dv_state := StateDraft\<rparr>) \<and>
     dv_state rec \<in> {StateDraft, StateAccepted} \<and> originals reg k = None \<and>
     (\<exists>parent. originals reg (dv_tenantID rec, dv_parentID rec) = Some parent \<and>
        og_state parent \<in> {StateAccepted, StateArchived})"

definition registry_inv :: "IntegrityRegistry \<Rightarrow> bool" where
  "registry_inv reg \<longleftrightarrow>
     (\<forall>k rec. originals reg k = Some rec \<longrightarrow> original_inv k rec) \<and>
     (\<forall>k rec. derived reg k = Some rec \<longrightarrow> derived_inv reg k rec)"

text \<open>An original's content, everything but its lifecycle state, and the states it may still move to.\<close>

definition later_state :: "RecordLifecycleState \<Rightarrow> RecordLifecycleState \<Rightarrow> bool" where
  "later_state a b \<longleftrightarrow> a = b \<or> (a, b) \<in> {(StateDraft, StateAccepted), (StateAccepted, StateArchived), (StateDraft, StateArchived)}"

definition kept :: "OriginalRecord \<Rightarrow> OriginalRecord \<Rightarrow> bool" where
  "kept rec rec' \<longleftrightarrow> later_state (og_state rec) (og_state rec') \<and> rec' = rec\<lparr>og_state := og_state rec'\<rparr>"

subsection \<open>Methods\<close>

text \<open>One case distinction for every call: nothing changes, a new record, or one step of a state.\<close>

lemma registry_exec_cases:
  assumes "registry_exec c reg = (reg', res)"
  obtains (same) "reg' = reg"
  | (new_original) t rec where "c = CallRegisterOriginal t rec" "res = Inr ()"
      "originals reg (TrimSpace t, TrimSpace (og_objectID rec)) = None" "derived reg (TrimSpace t, TrimSpace (og_objectID rec)) = None"
      "TrimSpace (og_tenantID rec) = [] \<or> TrimSpace (og_tenantID rec) = TrimSpace t"
      "reg' = reg\<lparr>originals := (originals reg)((TrimSpace t, TrimSpace (og_objectID rec)) \<mapsto> rec)\<rparr>"
  | (original_step) k rec st where "originals reg k = Some rec" "res = Inr ()"
      "(og_state rec, st) \<in> {(StateDraft, StateAccepted), (StateAccepted, StateArchived)}"
      "reg' = reg\<lparr>originals := (originals reg)(k \<mapsto> rec\<lparr>og_state := st\<rparr>)\<rparr>"
  | (new_derived) t rec parent where "c = CallRegisterDerived t rec" "res = Inr ()"
      "originals reg (TrimSpace t, TrimSpace (dv_objectID rec)) = None" "derived reg (TrimSpace t, TrimSpace (dv_objectID rec)) = None"
      "TrimSpace (dv_tenantID rec) = [] \<or> TrimSpace (dv_tenantID rec) = TrimSpace t"
      "originals reg (TrimSpace t, TrimSpace (dv_parentID rec)) = Some parent" "og_state parent = StateAccepted"
      "og_tenantID parent = dv_tenantID rec"
      "reg' = reg\<lparr>derived := (derived reg)((TrimSpace t, TrimSpace (dv_objectID rec)) \<mapsto> rec)\<rparr>"
  | (derived_step) k rec where "derived reg k = Some rec" "dv_state rec = StateDraft" "res = Inr ()"
      "reg' = reg\<lparr>derived := (derived reg)(k \<mapsto> rec\<lparr>dv_state := StateAccepted\<rparr>)\<rparr>"
proof (cases "reg' = reg")
  case False
  note x = assms
  show thesis
  proof (cases c)
    case (CallRegisterOriginal t rec)
    with x False show thesis
      by (intro new_original [of t rec]) (auto simp: RegisterOriginal_def Let_def split: if_splits option.splits)
  next
    case (CallAcceptOriginal t i)
    with x False obtain rec where "originals reg (TrimSpace t, TrimSpace i) = Some rec"
      by (auto simp: AcceptOriginal_def Let_def split: if_splits option.splits)
    with CallAcceptOriginal x False show thesis
      by (intro original_step [of "(TrimSpace t, TrimSpace i)" rec StateAccepted])
        (auto simp: AcceptOriginal_def Let_def split: if_splits)
  next
    case (CallArchiveOriginal t i)
    with x False obtain rec where "originals reg (TrimSpace t, TrimSpace i) = Some rec"
      by (auto simp: ArchiveOriginal_def Let_def split: if_splits option.splits)
    with CallArchiveOriginal x False show thesis
      by (intro original_step [of "(TrimSpace t, TrimSpace i)" rec StateArchived])
        (auto simp: ArchiveOriginal_def Let_def split: if_splits)
  next
    case (CallRegisterDerived t rec)
    with x False obtain parent where "originals reg (TrimSpace t, TrimSpace (dv_parentID rec)) = Some parent"
      by (auto simp: RegisterDerived_def Let_def split: if_splits option.splits)
    with CallRegisterDerived x False show thesis
      by (intro new_derived [of t rec parent]) (auto simp: RegisterDerived_def Let_def split: if_splits option.splits)
  next
    case (CallAcceptDerived t i)
    with x False obtain rec where "derived reg (TrimSpace t, TrimSpace i) = Some rec"
      by (auto simp: AcceptDerived_def Let_def split: if_splits option.splits)
    with CallAcceptDerived x False show thesis
      by (intro derived_step [of "(TrimSpace t, TrimSpace i)" rec])
        (auto simp: AcceptDerived_def Let_def split: if_splits)
  qed
qed (rule same)

lemma trimmedD: "trimmed s \<Longrightarrow> TrimSpace s = s" "trimmed s \<Longrightarrow> s \<noteq> []"
  by (simp_all add: trimmed_def)

lemma registry_invD:
  "registry_inv reg \<Longrightarrow> originals reg k = Some rec \<Longrightarrow> original_inv k rec"
  "registry_inv reg \<Longrightarrow> derived reg k = Some d \<Longrightarrow> derived_inv reg k d"
  unfolding registry_inv_def by blast+

text \<open>A derived record keeps its invariant as long as originals are only added elsewhere or moved on.\<close>

lemma derived_inv_originals:
  assumes "derived_inv reg k d" and "originals reg' k = None"
    and "\<And>k' rec. originals reg k' = Some rec \<Longrightarrow> og_state rec \<in> {StateAccepted, StateArchived} \<Longrightarrow>
      \<exists>rec'. originals reg' k' = Some rec' \<and> og_state rec' \<in> {StateAccepted, StateArchived}"
  shows "derived_inv reg' k d"
  using assms unfolding derived_inv_def by blast

lemma registry_exec_inv:
  assumes inv: "registry_inv reg" and made: "made_call c"
  shows "registry_inv (fst (registry_exec c reg))"
proof -
  obtain reg' res where x: "registry_exec c reg = (reg', res)" by fastforce
  then have "registry_inv reg'"
  proof (cases rule: registry_exec_cases)
    case same
    with inv show ?thesis by simp
  next
    case (new_original t rec)
    let ?k = "(TrimSpace t, TrimSpace (og_objectID rec))"
    from new_original(1) made have m: "made_original rec" by simp
    then have k: "?k = (og_tenantID rec, og_objectID rec)"
      using new_original(5) by (auto simp: made_original_def trimmed_def)
    from m have "rec\<lparr>og_state := StateDraft\<rparr> = rec" by (simp add: made_original_def)
    with m k have o: "original_inv ?k rec" by (simp add: original_inv_def) (simp add: made_original_def)
    have "derived_inv reg' k' d" if "derived reg k' = Some d" for k' d
    proof (rule derived_inv_originals [OF registry_invD(2) [OF inv that]])
      from that new_original(4) have "k' \<noteq> ?k" by auto
      with registry_invD(2) [OF inv that] new_original(6) show "originals reg' k' = None" by (auto simp: derived_inv_def)
    qed (use new_original(3,6) in auto)
    with inv o new_original(6) show ?thesis by (auto simp: registry_inv_def)
  next
    case (original_step k rec st)
    have o: "original_inv k (rec\<lparr>og_state := st\<rparr>)"
      using registry_invD(1) [OF inv original_step(1)] original_step(3) by (auto simp: original_inv_def)
    have "derived_inv reg' k' d" if "derived reg k' = Some d" for k' d
    proof (rule derived_inv_originals [OF registry_invD(2) [OF inv that]])
      from registry_invD(2) [OF inv that] original_step(1,4) show "originals reg' k' = None" by (auto simp: derived_inv_def)
    qed (use original_step in auto)
    with inv o original_step(4) show ?thesis by (auto simp: registry_inv_def)
  next
    case (new_derived t rec parent)
    let ?k = "(TrimSpace t, TrimSpace (dv_objectID rec))"
    from new_derived(1) made have m: "made_derived rec" by simp
    then have k: "?k = (dv_tenantID rec, dv_objectID rec)" "TrimSpace (dv_parentID rec) = dv_parentID rec"
      using new_derived(5) by (auto simp: made_derived_def trimmed_def)
    from m have "rec\<lparr>dv_state := StateDraft\<rparr> = rec" by (simp add: made_derived_def)
    with m k new_derived have "derived_inv reg' ?k rec"
      by (simp add: derived_inv_def) (auto simp: made_derived_def)
    moreover have "derived_inv reg' k' d" if "derived reg k' = Some d" for k' d
      using registry_invD(2) [OF inv that] new_derived(9) by (auto simp: derived_inv_def)
    ultimately show ?thesis using inv new_derived(9) by (auto simp: registry_inv_def)
  next
    case (derived_step k rec)
    then have "derived_inv reg' k (rec\<lparr>dv_state := StateAccepted\<rparr>)"
      using registry_invD(2) [OF inv derived_step(1)] by (auto simp: derived_inv_def)
    moreover have "derived_inv reg' k' d" if "derived reg k' = Some d" for k' d
      using registry_invD(2) [OF inv that] derived_step(4) by (auto simp: derived_inv_def)
    ultimately show ?thesis using inv derived_step(4) by (auto simp: registry_inv_def)
  qed
  with x show ?thesis by simp
qed

lemma registry_exec_kept:
  assumes "originals reg k = Some rec"
  shows "\<exists>rec'. originals (fst (registry_exec c reg)) k = Some rec' \<and> kept rec rec'"
proof -
  have refl: "kept rec rec" by (simp add: kept_def later_state_def)
  obtain reg' res where x: "registry_exec c reg = (reg', res)" by fastforce
  then have "\<exists>rec'. originals reg' k = Some rec' \<and> kept rec rec'"
  proof (cases rule: registry_exec_cases)
    case (original_step k0 rec0 st)
    show ?thesis
    proof (cases "k0 = k")
      case True
      with original_step assms have "rec0 = rec" "originals reg' k = Some (rec\<lparr>og_state := st\<rparr>)" by simp_all
      with original_step(3) show ?thesis by (auto simp: kept_def later_state_def)
    qed (use original_step assms refl in simp)
  qed (use assms refl in auto)
  with x show ?thesis by simp
qed

lemma kept_trans: "kept a b \<Longrightarrow> kept b c \<Longrightarrow> kept a c"
proof -
  assume ab: "kept a b" and bc: "kept b c"
  then have "later_state (og_state a) (og_state c)" by (auto simp: kept_def later_state_def)
  moreover obtain x y where "b = a\<lparr>og_state := x\<rparr>" "c = b\<lparr>og_state := y\<rparr>"
    using ab bc unfolding kept_def by blast
  then have "c = a\<lparr>og_state := og_state c\<rparr>" by simp
  ultimately show "kept a c" by (simp add: kept_def)
qed

lemma run_kept:
  "originals reg k = Some rec \<Longrightarrow> \<exists>rec'. originals (run_calls registry_exec cs reg) k = Some rec' \<and> kept rec rec'"
proof (induction cs arbitrary: reg rec)
  case Nil
  then show ?case by (simp add: kept_def later_state_def)
next
  case (Cons c cs)
  from registry_exec_kept [OF Cons.prems, of c] obtain rec1
    where r1: "originals (fst (registry_exec c reg)) k = Some rec1" "kept rec rec1" by blast
  from Cons.IH [OF r1(1)] obtain rec2
    where "originals (run_calls registry_exec cs (fst (registry_exec c reg))) k = Some rec2" "kept rec1 rec2" by blast
  with r1 kept_trans show ?case by auto
qed

lemma registry_exec_error: "registry_exec c reg = (reg', Inl e) \<Longrightarrow> reg' = reg"
  by (erule registry_exec_cases) auto

interpretation ir: api_machine registry_exec registry_inv made_call
  by unfold_locales (rule registry_exec_inv)

interpretation ir_closed: fail_closed registry_exec
  by unfold_locales (rule registry_exec_error)

interpretation ir_final: absorbing registry_exec registry_inv made_call
  "\<lambda>k reg. originals reg k" "\<lambda>rec. og_state rec = StateArchived"
proof unfold_locales
  fix reg :: IntegrityRegistry and c k rec
  assume "originals reg k = Some rec" "og_state rec = StateArchived"
  with registry_exec_kept [of reg k rec c] show "originals (fst (registry_exec c reg)) k = Some rec"
    by (auto simp: kept_def later_state_def)
qed

lemma reachable_registry_inv: "list_all made_call cs \<Longrightarrow> registry_inv (run_calls registry_exec cs NewIntegrityRegistry)"
  by (rule ir.run_inv) (simp_all add: registry_inv_def NewIntegrityRegistry_def)

text \<open>Records and calls for evaluations.\<close>

definition example_digest :: string where
  "example_digest = concat (replicate 8 ''0123abcd'')"

lemma example_digest_valid [simp]: "ValidateDigest example_digest = None"
  by code_simp

definition example_original :: OriginalRecord where
  "example_original =
     \<lparr>og_objectID = ''img1'', og_tenantID = ''ten_a'', og_mediaType = ''image/png'', og_sizeBytes = 9,
      og_sha256Digest = example_digest, og_state = StateDraft, og_createdAt = 5\<rparr>"

definition example_derived :: DerivedRecord where
  "example_derived =
     \<lparr>dv_objectID = ''thumb1'', dv_tenantID = ''ten_a'', dv_parentID = ''img1'', dv_derivedKind = DerivedThumbnail,
      dv_mediaType = ''image/png'', dv_sizeBytes = 3, dv_sha256Digest = example_digest, dv_state = StateDraft,
      dv_createdAt = 6\<rparr>"

definition example_registry_calls :: "registry_call list" where
  "example_registry_calls =
     [CallRegisterOriginal ''ten_a'' example_original, CallAcceptOriginal ''ten_a'' ''img1'',
      CallRegisterDerived ''ten_a'' example_derived]"

lemma example_registry_made: "list_all made_call example_registry_calls"
  by (simp add: example_registry_calls_def example_original_def example_derived_def made_original_def made_derived_def trimmed_def)

lemmas registry_eval = example_registry_calls_def example_original_def example_derived_def NewIntegrityRegistry_def
  RegisterOriginal_def AcceptOriginal_def ArchiveOriginal_def RegisterDerived_def AcceptDerived_def eval_defs

subsection \<open>Properties\<close>

text \<open>
  Provenance, for records made by the constructors: in every reachable registry a derived object has a
  parent among the originals of the same tenant that has been accepted (and perhaps archived since),
  no identifier is both original and derived, and every record is filed under its own tenant and identifier.
\<close>

theorem derived_has_accepted_parent:
  assumes "list_all made_call cs" and "reg = run_calls registry_exec cs NewIntegrityRegistry"
    and "derived reg (t, i) = Some d"
  shows "(\<exists>parent. originals reg (t, dv_parentID d) = Some parent \<and> og_state parent \<in> {StateAccepted, StateArchived} \<and>
      og_tenantID parent = t) \<and>
    originals reg (t, i) = None \<and> dv_tenantID d = t \<and> dv_objectID d = i \<and> dv_parentID d \<noteq> i"
proof -
  have inv: "registry_inv reg" using assms(1,2) by (simp add: reachable_registry_inv)
  then have d: "derived_inv reg (t, i) d" using assms(3) by (rule registry_invD)
  then obtain parent where p: "originals reg (t, dv_parentID d) = Some parent" "og_state parent \<in> {StateAccepted, StateArchived}"
    by (auto simp: derived_inv_def)
  from registry_invD(1) [OF inv p(1)] have "og_tenantID parent = t" by (simp add: original_inv_def)
  with d p show ?thesis by (auto simp: derived_inv_def)
qed

text \<open>
  An accepted original is immutable: whatever calls follow, it stays registered with the same
  identifier, tenant, media type, size, digest and creation time, and its state stays ACCEPTED or moves to
  ARCHIVED; once ARCHIVED it never changes at all.
\<close>

theorem accepted_original_immutable:
  assumes "originals reg k = Some rec" and "og_state rec \<in> {StateAccepted, StateArchived}"
  shows "\<exists>rec'. originals (run_calls registry_exec cs reg) k = Some rec' \<and>
    og_objectID rec' = og_objectID rec \<and> og_tenantID rec' = og_tenantID rec \<and> og_mediaType rec' = og_mediaType rec \<and>
    og_sizeBytes rec' = og_sizeBytes rec \<and> og_sha256Digest rec' = og_sha256Digest rec \<and> og_createdAt rec' = og_createdAt rec \<and>
    og_state rec' \<in> {StateAccepted, StateArchived} \<and> (og_state rec = StateArchived \<longrightarrow> rec' = rec)"
proof -
  obtain rec' where r: "originals (run_calls registry_exec cs reg) k = Some rec'" "kept rec rec'"
    using run_kept [OF assms(1)] by blast
  define st where "st = og_state rec'"
  from r(2) have eq: "rec' = rec\<lparr>og_state := st\<rparr>" and later: "later_state (og_state rec) st"
    by (simp_all add: kept_def st_def)
  from later assms(2) have "st \<in> {StateAccepted, StateArchived} \<and> (og_state rec = StateArchived \<longrightarrow> st = StateArchived)"
    by (auto simp: later_state_def)
  with r(1) eq show ?thesis by auto
qed

text \<open>
  In every reachable registry of constructor-made records, \<open>VerifyIntegrityLinkage\<close> succeeds exactly
  when the caller's tenant has that derived object with exactly that digest and its parent original is still
  ACCEPTED; the answer is that pair of records.
\<close>

theorem VerifyIntegrityLinkage_iff:
  assumes "list_all made_call cs" and "reg = run_calls registry_exec cs NewIntegrityRegistry"
  shows "VerifyIntegrityLinkage i t dg reg = Inr link \<longleftrightarrow>
    derived reg (TrimSpace t, TrimSpace i) = Some (il_Derived link) \<and> dv_sha256Digest (il_Derived link) = dg \<and>
    originals reg (TrimSpace t, dv_parentID (il_Derived link)) = Some (il_Original link) \<and>
    og_state (il_Original link) = StateAccepted"
proof (cases "derived reg (TrimSpace t, TrimSpace i)")
  case None
  then show ?thesis by (simp add: VerifyIntegrityLinkage_def Let_def)
next
  case (Some d)
  have inv: "registry_inv reg" using assms by (simp add: reachable_registry_inv)
  from registry_invD(2) [OF inv Some] have d: "dv_tenantID d = TrimSpace t" "TrimSpace t \<noteq> []" "TrimSpace i \<noteq> []"
    "ValidateDigest (dv_sha256Digest d) = None"
    by (auto simp: derived_inv_def made_derived_def trimmed_def)
  have p: "og_tenantID parent = TrimSpace t" if "originals reg (TrimSpace t, x) = Some parent" for x parent
    using registry_invD(1) [OF inv that] by (simp add: original_inv_def)
  show ?thesis
    using Some d p
    by (cases link) (auto simp: VerifyIntegrityLinkage_def Let_def split: option.splits)
qed

subsection \<open>Witnesses\<close>

theorem derived_has_accepted_parent_witness:
  "\<exists>parent. originals (run_calls registry_exec example_registry_calls NewIntegrityRegistry) (''ten_a'', ''img1'') = Some parent \<and>
     og_tenantID parent = ''ten_a''"
proof -
  have "derived (run_calls registry_exec example_registry_calls NewIntegrityRegistry) (''ten_a'', ''thumb1'') = Some example_derived"
    by (simp add: registry_eval)
  from derived_has_accepted_parent [OF example_registry_made refl this] show ?thesis
    by (auto simp: example_derived_def)
qed

theorem accepted_original_immutable_witness:
  "\<exists>rec'. originals (run_calls registry_exec (example_registry_calls @
       [CallRegisterOriginal ''ten_a'' (example_original\<lparr>og_mediaType := ''text/plain''\<rparr>), CallArchiveOriginal ''ten_a'' ''img1''])
       NewIntegrityRegistry) (''ten_a'', ''img1'') = Some rec' \<and> og_sha256Digest rec' = example_digest"
proof -
  have o: "originals (run_calls registry_exec example_registry_calls NewIntegrityRegistry) (''ten_a'', ''img1'')
      = Some (example_original\<lparr>og_state := StateAccepted\<rparr>)"
    by (simp add: registry_eval)
  from accepted_original_immutable [OF o, of "[CallRegisterOriginal ''ten_a'' (example_original\<lparr>og_mediaType := ''text/plain''\<rparr>),
      CallArchiveOriginal ''ten_a'' ''img1'']"] show ?thesis
    by (auto simp: example_original_def)
qed

theorem VerifyIntegrityLinkage_iff_witness:
  "\<exists>link. VerifyIntegrityLinkage ''thumb1'' ''ten_a'' example_digest
     (run_calls registry_exec example_registry_calls NewIntegrityRegistry) = Inr link"
proof -
  let ?reg = "run_calls registry_exec example_registry_calls NewIntegrityRegistry"
  have "derived ?reg (''ten_a'', ''thumb1'') = Some example_derived"
    "originals ?reg (''ten_a'', ''img1'') = Some (example_original\<lparr>og_state := StateAccepted\<rparr>)"
    by (simp_all add: registry_eval)
  then have "VerifyIntegrityLinkage ''thumb1'' ''ten_a'' example_digest ?reg =
      Inr \<lparr>il_Derived = example_derived, il_Original = example_original\<lparr>og_state := StateAccepted\<rparr>\<rparr>"
    by (subst VerifyIntegrityLinkage_iff [OF example_registry_made refl])
      (simp add: example_derived_def example_original_def)
  then show ?thesis by blast
qed

end
