(* ===== verification/Record_Audit.thy ===== *)
theory Record_Audit
  imports Immutable_Objects
begin

text \<open>
  The record store, \<open>modules/records-audit/record_audit.go\<close>: declaration of records, version snapshots,
  lifecycle transitions and the audit log. Records and snapshots are filed under the text
  \<open>tenant:record\<close>, as in the code. The four mutating methods check their arguments before they take the
  lock; \<open>time.Now()\<close> is an argument of the method.
\<close>

subsection \<open>Definitions\<close>

datatype AuditEventType = AuditDeclared | AuditVersioned | AuditStateChanged | AuditAccessDenied

fun lifecycle_text :: "RecordLifecycleState \<Rightarrow> string" where
  "lifecycle_text StateDraft = ''DRAFT''"
| "lifecycle_text StateAccepted = ''ACCEPTED''"
| "lifecycle_text StateArchived = ''ARCHIVED''"
| "lifecycle_text (LifecycleOther s) = s"

record AuditEntry =
  au_SequenceNumber :: int64
  au_EventType :: AuditEventType
  au_TenantID :: string
  au_RecordID :: string
  au_ActorID :: string
  au_CorrelationID :: string
  au_CausationID :: string
  au_PriorState :: RecordLifecycleState
  au_CurrentState :: RecordLifecycleState
  au_Version :: string
  au_Details :: string
  au_Timestamp :: gotime

record RecordSnapshot =
  sn_RecordID :: string
  sn_TenantID :: string
  sn_Version :: string
  sn_PayloadDigest :: string
  sn_DeclaredBy :: string
  sn_DeclaredAt :: gotime
  sn_State :: RecordLifecycleState

record DeclaredRecord =
  rc_RecordID :: string
  rc_TenantID :: string
  rc_RecordType :: string
  rc_CurrentVersion :: string
  rc_State :: RecordLifecycleState
  rc_CreatedAt :: gotime
  rc_UpdatedAt :: gotime

record RecordStore =
  rs_records :: "string \<rightharpoonup> DeclaredRecord"
  rs_snapshots :: "string \<Rightarrow> RecordSnapshot list"
  rs_auditLog :: "AuditEntry list"
  rs_seqCounter :: int64

text \<open>A key that is missing from the map of snapshots reads as the nil slice, the empty list.\<close>

definition NewRecordStore :: RecordStore where
  "NewRecordStore = \<lparr>rs_records = Map.empty, rs_snapshots = (\<lambda>_. []), rs_auditLog = [], rs_seqCounter = 0\<rparr>"

definition makeRecordKey :: "string \<Rightarrow> string \<Rightarrow> string" where
  "makeRecordKey tenantID recordID = TrimSpace tenantID @ '':'' @ TrimSpace recordID"

definition validateTrackingIDs :: "string \<Rightarrow> string \<Rightarrow> ra_error option" where
  "validateTrackingIDs correlationID causationID =
     (if TrimSpace correlationID = [] \<or> \<not> HasPrefix (TrimSpace correlationID) ''corr_'' then Some ErrInvalidCorrelationID
      else if TrimSpace causationID = [] \<or> \<not> HasPrefix (TrimSpace causationID) ''caus_'' then Some ErrInvalidCausationID
      else None)"

text \<open>The increment of the counter and the append to the log that end every mutating method.\<close>

definition append_audit ::
  "AuditEventType \<Rightarrow> string \<Rightarrow> string \<Rightarrow> string \<Rightarrow> string \<Rightarrow> string \<Rightarrow> RecordLifecycleState \<Rightarrow> RecordLifecycleState \<Rightarrow>
   string \<Rightarrow> string \<Rightarrow> gotime \<Rightarrow> RecordStore \<Rightarrow> RecordStore" where
  "append_audit ety tenant rid actor corrID causID prior current version details now s =
     s\<lparr>rs_seqCounter := rs_seqCounter s + 1,
       rs_auditLog := rs_auditLog s @
         [\<lparr>au_SequenceNumber = rs_seqCounter s + 1, au_EventType = ety, au_TenantID = tenant, au_RecordID = rid,
           au_ActorID = actor, au_CorrelationID = TrimSpace corrID, au_CausationID = TrimSpace causID,
           au_PriorState = prior, au_CurrentState = current, au_Version = version, au_Details = details,
           au_Timestamp = now\<rparr>]\<rparr>"

definition DeclareRecord ::
  "string \<Rightarrow> string \<Rightarrow> string \<Rightarrow> string \<Rightarrow> string \<Rightarrow> string \<Rightarrow> string \<Rightarrow> string \<Rightarrow> gotime \<Rightarrow> RecordStore \<Rightarrow>
   (RecordStore, ra_error, DeclaredRecord) outcome" where
  "DeclareRecord tenantID recordID recordType version payloadDigest actorID corrID causID now s =
     (let tTenant = TrimSpace tenantID; tRecordID = TrimSpace recordID; tType = TrimSpace recordType;
          tVersion = TrimSpace version; tActor = TrimSpace actorID; key = makeRecordKey tTenant tRecordID
      in if tTenant = [] then (s, Inl ErrBlankTenantID)
      else if tRecordID = [] then (s, Inl ErrBlankID)
      else if tType = [] then (s, Inl ErrBlankRecordType)
      else if tVersion = [] then (s, Inl ErrBlankVersion)
      else if tActor = [] then (s, Inl ErrBlankActor)
      else case ValidateDigest payloadDigest of Some e \<Rightarrow> (s, Inl e) | None \<Rightarrow>
        (case validateTrackingIDs corrID causID of Some e \<Rightarrow> (s, Inl e) | None \<Rightarrow>
         if rs_records s key \<noteq> None then (s, Inl ErrDuplicateRecord)
         else let rec = \<lparr>rc_RecordID = tRecordID, rc_TenantID = tTenant, rc_RecordType = tType,
                         rc_CurrentVersion = tVersion, rc_State = StateAccepted, rc_CreatedAt = now, rc_UpdatedAt = now\<rparr>;
                  snap = \<lparr>sn_RecordID = tRecordID, sn_TenantID = tTenant, sn_Version = tVersion,
                          sn_PayloadDigest = TrimSpace payloadDigest, sn_DeclaredBy = tActor, sn_DeclaredAt = now,
                          sn_State = StateAccepted\<rparr>
              in (append_audit AuditDeclared tTenant tRecordID tActor corrID causID (LifecycleOther []) StateAccepted
                    tVersion (''Declared record type '' @ tType @ '' version '' @ tVersion) now
                    (s\<lparr>rs_records := (rs_records s)(key \<mapsto> rec), rs_snapshots := (rs_snapshots s)(key := [snap])\<rparr>),
                  Inr rec)))"

definition CreateNewVersion ::
  "string \<Rightarrow> string \<Rightarrow> string \<Rightarrow> string \<Rightarrow> string \<Rightarrow> string \<Rightarrow> string \<Rightarrow> gotime \<Rightarrow> RecordStore \<Rightarrow>
   (RecordStore, ra_error, RecordSnapshot) outcome" where
  "CreateNewVersion tenantID recordID newVersion payloadDigest actorID corrID causID now s =
     (let tTenant = TrimSpace tenantID; tRecordID = TrimSpace recordID; tVersion = TrimSpace newVersion;
          tActor = TrimSpace actorID; key = makeRecordKey tTenant tRecordID
      in if tTenant = [] then (s, Inl ErrBlankTenantID)
      else if tRecordID = [] then (s, Inl ErrBlankID)
      else if tVersion = [] then (s, Inl ErrBlankVersion)
      else if tActor = [] then (s, Inl ErrBlankActor)
      else case ValidateDigest payloadDigest of Some e \<Rightarrow> (s, Inl e) | None \<Rightarrow>
        (case validateTrackingIDs corrID causID of Some e \<Rightarrow> (s, Inl e) | None \<Rightarrow>
        (case rs_records s key of
           None \<Rightarrow> (s, Inl ErrRecordNotFound)
         | Some rec \<Rightarrow>
             if rc_State rec = StateArchived then (s, Inl ErrRecordArchived)
             else if \<exists>snap\<in>set (rs_snapshots s key). sn_Version snap = tVersion then (s, Inl ErrDuplicateVersion)
             else let snap = \<lparr>sn_RecordID = tRecordID, sn_TenantID = tTenant, sn_Version = tVersion,
                              sn_PayloadDigest = TrimSpace payloadDigest, sn_DeclaredBy = tActor,
                              sn_DeclaredAt = now, sn_State = rc_State rec\<rparr>;
                      rec' = rec\<lparr>rc_CurrentVersion := tVersion, rc_UpdatedAt := now\<rparr>
                  in (append_audit AuditVersioned tTenant tRecordID tActor corrID causID (rc_State rec) (rc_State rec)
                        tVersion (''Created version snapshot '' @ tVersion) now
                        (s\<lparr>rs_records := (rs_records s)(key \<mapsto> rec'),
                           rs_snapshots := (rs_snapshots s)(key := rs_snapshots s key @ [snap])\<rparr>),
                      Inr snap))))"

fun permitted_lifecycle :: "RecordLifecycleState \<Rightarrow> RecordLifecycleState \<Rightarrow> bool" where
  "permitted_lifecycle StateDraft target \<longleftrightarrow> target = StateAccepted \<or> target = StateArchived"
| "permitted_lifecycle StateAccepted target \<longleftrightarrow> target = StateArchived"
| "permitted_lifecycle _ target \<longleftrightarrow> False"

definition TransitionRecordState ::
  "string \<Rightarrow> string \<Rightarrow> RecordLifecycleState \<Rightarrow> string \<Rightarrow> string \<Rightarrow> string \<Rightarrow> gotime \<Rightarrow> RecordStore \<Rightarrow>
   (RecordStore, ra_error, unit) outcome" where
  "TransitionRecordState tenantID recordID targetState actorID corrID causID now s =
     (let tTenant = TrimSpace tenantID; tRecordID = TrimSpace recordID; tActor = TrimSpace actorID;
          key = makeRecordKey tTenant tRecordID
      in if tTenant = [] then (s, Inl ErrBlankTenantID)
      else if tRecordID = [] then (s, Inl ErrBlankID)
      else if tActor = [] then (s, Inl ErrBlankActor)
      else case validateTrackingIDs corrID causID of Some e \<Rightarrow> (s, Inl e) | None \<Rightarrow>
        (case rs_records s key of
           None \<Rightarrow> (s, Inl ErrRecordNotFound)
         | Some rec \<Rightarrow>
             if rc_State rec = targetState then (s, Inr ())
             else if rc_State rec = StateArchived then (s, Inl ErrRecordArchived)
             else if \<not> permitted_lifecycle (rc_State rec) targetState then (s, Inl ErrInvalidLifecycleTransition)
             else (append_audit AuditStateChanged tTenant tRecordID tActor corrID causID (rc_State rec) targetState
                     (rc_CurrentVersion rec)
                     (''Transitioned state from '' @ lifecycle_text (rc_State rec) @ '' to '' @ lifecycle_text targetState)
                     now
                     (s\<lparr>rs_records := (rs_records s)(key \<mapsto> rec\<lparr>rc_State := targetState, rc_UpdatedAt := now\<rparr>)\<rparr>),
                   Inr ())))"

definition RecordAccessDenied ::
  "string \<Rightarrow> string \<Rightarrow> string \<Rightarrow> string \<Rightarrow> string \<Rightarrow> string \<Rightarrow> gotime \<Rightarrow> RecordStore \<Rightarrow>
   (RecordStore, ra_error, unit) outcome" where
  "RecordAccessDenied tenantID recordID actorID corrID causID reason now s =
     (let tTenant = TrimSpace tenantID; tRecordID = TrimSpace recordID; tActor = TrimSpace actorID
      in if tTenant = [] then (s, Inl ErrBlankTenantID)
      else if tRecordID = [] then (s, Inl ErrBlankID)
      else if tActor = [] then (s, Inl ErrBlankActor)
      else case validateTrackingIDs corrID causID of Some e \<Rightarrow> (s, Inl e) | None \<Rightarrow>
        (append_audit AuditAccessDenied tTenant tRecordID tActor corrID causID (LifecycleOther []) (LifecycleOther [])
           [] (TrimSpace reason) now s, Inr ()))"

definition GetAuditTrail :: "string \<Rightarrow> string \<Rightarrow> RecordStore \<Rightarrow> ra_error + AuditEntry list" where
  "GetAuditTrail callerTenantID recordID s =
     (let tCaller = TrimSpace callerTenantID; tRecordID = TrimSpace recordID
      in if tCaller = [] then Inl ErrBlankTenantID
      else if tRecordID = [] then Inl ErrBlankID
      else if rs_records s (makeRecordKey tCaller tRecordID) = None then Inl ErrRecordNotFound
      else Inr (filter (\<lambda>entry. au_TenantID entry = tCaller \<and> au_RecordID entry = tRecordID) (rs_auditLog s)))"

definition GetSnapshots :: "string \<Rightarrow> string \<Rightarrow> RecordStore \<Rightarrow> ra_error + RecordSnapshot list" where
  "GetSnapshots callerTenantID recordID s =
     (let tCaller = TrimSpace callerTenantID; tRecordID = TrimSpace recordID; key = makeRecordKey tCaller tRecordID
      in if tCaller = [] then Inl ErrBlankTenantID
      else if tRecordID = [] then Inl ErrBlankID
      else if rs_records s key = None then Inl ErrRecordNotFound
      else Inr (rs_snapshots s key))"

definition GetRecord :: "string \<Rightarrow> string \<Rightarrow> RecordStore \<Rightarrow> ra_error + DeclaredRecord" where
  "GetRecord callerTenantID recordID s =
     (let tCaller = TrimSpace callerTenantID; tRecordID = TrimSpace recordID
      in if tCaller = [] then Inl ErrBlankTenantID
      else if tRecordID = [] then Inl ErrBlankID
      else case rs_records s (makeRecordKey tCaller tRecordID) of None \<Rightarrow> Inl ErrRecordNotFound | Some rec \<Rightarrow> Inr rec)"

subsection \<open>Calls and invariant\<close>

datatype store_call =
  CallDeclareRecord string string string string string string string string gotime
| CallCreateNewVersion string string string string string string string gotime
| CallTransitionRecordState string string RecordLifecycleState string string string gotime
| CallRecordAccessDenied string string string string string string gotime

fun store_exec :: "store_call \<Rightarrow> RecordStore \<Rightarrow> (RecordStore, ra_error, unit) outcome" where
  "store_exec (CallDeclareRecord t r ety v dg a co ca now) s = discard (DeclareRecord t r ety v dg a co ca now s)"
| "store_exec (CallCreateNewVersion t r v dg a co ca now) s = discard (CreateNewVersion t r v dg a co ca now s)"
| "store_exec (CallTransitionRecordState t r st a co ca now) s = TransitionRecordState t r st a co ca now s"
| "store_exec (CallRecordAccessDenied t r a co ca why now) s = RecordAccessDenied t r a co ca why now s"

fun call_tenant :: "store_call \<Rightarrow> string" where
  "call_tenant (CallDeclareRecord t r ety v dg a co ca now) = t"
| "call_tenant (CallCreateNewVersion t r v dg a co ca now) = t"
| "call_tenant (CallTransitionRecordState t r st a co ca now) = t"
| "call_tenant (CallRecordAccessDenied t r a co ca why now) = t"

text \<open>The state changes the log holds for a key: every entry but the denied accesses.\<close>

definition state_entries :: "string \<Rightarrow> AuditEntry list \<Rightarrow> (RecordLifecycleState \<times> RecordLifecycleState) list" where
  "state_entries k log =
     map (\<lambda>a. (au_PriorState a, au_CurrentState a))
       (filter (\<lambda>a. makeRecordKey (au_TenantID a) (au_RecordID a) = k \<and> au_EventType a \<noteq> AuditAccessDenied) log)"

definition record_state :: "RecordStore \<Rightarrow> string \<Rightarrow> RecordLifecycleState" where
  "record_state s k = (case rs_records s k of None \<Rightarrow> LifecycleOther [] | Some rec \<Rightarrow> rc_State rec)"

definition record_entry_inv :: "RecordStore \<Rightarrow> string \<Rightarrow> DeclaredRecord \<Rightarrow> bool" where
  "record_entry_inv s k rec \<longleftrightarrow>
     k = makeRecordKey (rc_TenantID rec) (rc_RecordID rec) \<and> rs_snapshots s k \<noteq> [] \<and>
     sn_Version (last (rs_snapshots s k)) = rc_CurrentVersion rec \<and> distinct (map sn_Version (rs_snapshots s k)) \<and>
     list_all (\<lambda>sn. sn_State sn = StateAccepted \<and> ValidateDigest (sn_PayloadDigest sn) = None) (rs_snapshots s k) \<and>
     rc_State rec \<in> {StateAccepted, StateArchived}"

definition store_inv :: "RecordStore \<Rightarrow> bool" where
  "store_inv s \<longleftrightarrow>
     numbered au_SequenceNumber (rs_auditLog s) \<and> rs_seqCounter s = of_nat (length (rs_auditLog s)) \<and>
     (\<forall>k. linked (LifecycleOther []) (state_entries k (rs_auditLog s)) (record_state s k)) \<and>
     (\<forall>k. rs_records s k = None \<longrightarrow> rs_snapshots s k = []) \<and>
     (\<forall>k rec. rs_records s k = Some rec \<longrightarrow> record_entry_inv s k rec)"

subsection \<open>Methods\<close>

lemma makeRecordKey_trimmed [simp]: "makeRecordKey (TrimSpace t) (TrimSpace r) = makeRecordKey t r"
  by (simp add: makeRecordKey_def)

lemma append_audit_simps [simp]:
  "rs_records (append_audit ety t r a co ca p c v d now s) = rs_records s"
  "rs_snapshots (append_audit ety t r a co ca p c v d now s) = rs_snapshots s"
  "rs_seqCounter (append_audit ety t r a co ca p c v d now s) = rs_seqCounter s + 1"
  "record_state (append_audit ety t r a co ca p c v d now s) k = record_state s k"
  "record_entry_inv (append_audit ety t r a co ca p c v d now s) k rec = record_entry_inv s k rec"
  by (simp_all add: append_audit_def record_state_def record_entry_inv_def)

lemma hex_byte_graphic: "hex_byte c \<Longrightarrow> graphic c"
  by (auto simp: hex_byte_def graphic_def)

lemma ValidateDigest_TrimSpace: "ValidateDigest d = None \<Longrightarrow> TrimSpace d = d"
proof -
  assume v: "ValidateDigest d = None"
  then have "d \<noteq> []" "list_all hex_byte d" by (auto simp: ValidateDigest_def split: if_splits)
  then have "graphic (hd d)" "graphic (last d)" by (auto simp: list_all_iff hex_byte_graphic)
  then show ?thesis by (intro TrimSpace_graphic) simp
qed

text \<open>The frame of the three methods that change a record: one record, its snapshots and one log entry.\<close>

lemma logged_update_inv:
  assumes inv: "store_inv s" and k: "k = makeRecordKey t r" and ety: "ety \<noteq> AuditAccessDenied"
    and prior: "prior = record_state s k"
    and entry: "record_entry_inv (s\<lparr>rs_records := (rs_records s)(k \<mapsto> rec), rs_snapshots := (rs_snapshots s)(k := sns)\<rparr>) k rec"
  shows "store_inv (append_audit ety t r a co ca prior (rc_State rec) v d now
    (s\<lparr>rs_records := (rs_records s)(k \<mapsto> rec), rs_snapshots := (rs_snapshots s)(k := sns)\<rparr>))"
    (is "store_inv (append_audit ety t r a co ca prior (rc_State rec) v d now ?s1)")
proof -
  let ?s = "append_audit ety t r a co ca prior (rc_State rec) v d now ?s1"
  have log: "numbered au_SequenceNumber (rs_auditLog ?s)" "rs_seqCounter ?s = of_nat (length (rs_auditLog ?s))"
    using inv by (simp_all add: store_inv_def append_audit_def)
  have "linked (LifecycleOther []) (state_entries k' (rs_auditLog ?s)) (record_state ?s k')" for k'
  proof -
    have "linked (LifecycleOther []) (state_entries k' (rs_auditLog s)) (record_state s k')"
      using inv by (simp add: store_inv_def)
    then show ?thesis
      using k ety prior by (cases "k' = k") (auto simp: append_audit_def state_entries_def record_state_def)
  qed
  moreover have "record_entry_inv ?s1 k' rec'" if "rs_records ?s1 k' = Some rec'" for k' rec'
  proof (cases "k' = k")
    case True
    with that entry show ?thesis by simp
  next
    case False
    with that inv have "record_entry_inv s k' rec'" by (simp add: store_inv_def)
    with False show ?thesis by (auto simp: record_entry_inv_def)
  qed
  moreover have "rs_snapshots ?s1 k' = []" if "rs_records ?s1 k' = None" for k'
    using that inv by (auto simp: store_inv_def split: if_splits)
  ultimately show ?thesis using log by (simp add: store_inv_def)
qed

text \<open>
  The effects a call made for a tenant can have, as a step relation: none, a note of a denied access, a
  declaration, a version, or a move of the lifecycle.
\<close>

inductive store_step :: "string \<Rightarrow> RecordStore \<Rightarrow> RecordStore \<Rightarrow> bool" where
  same: "store_step t s s"
| noted: "store_step t s (append_audit AuditAccessDenied (TrimSpace t) (TrimSpace r) a co ca (LifecycleOther [])
    (LifecycleOther []) [] d now s)"
| declared: "\<lbrakk>rs_records s (makeRecordKey t r) = None; rc_TenantID rec = TrimSpace t; rc_RecordID rec = TrimSpace r;
    rc_State rec = StateAccepted; sn_Version sn = rc_CurrentVersion rec; sn_State sn = StateAccepted;
    ValidateDigest (sn_PayloadDigest sn) = None\<rbrakk> \<Longrightarrow>
    store_step t s (append_audit AuditDeclared (TrimSpace t) (TrimSpace r) a co ca (LifecycleOther []) StateAccepted v d now
      (s\<lparr>rs_records := (rs_records s)(makeRecordKey t r \<mapsto> rec), rs_snapshots := (rs_snapshots s)(makeRecordKey t r := [sn])\<rparr>))"
| versioned: "\<lbrakk>rs_records s (makeRecordKey t r) = Some rec; rc_State rec \<noteq> StateArchived;
    \<forall>old\<in>set (rs_snapshots s (makeRecordKey t r)). sn_Version old \<noteq> sn_Version sn; sn_State sn = rc_State rec;
    ValidateDigest (sn_PayloadDigest sn) = None; v = sn_Version sn\<rbrakk> \<Longrightarrow>
    store_step t s (append_audit AuditVersioned (TrimSpace t) (TrimSpace r) a co ca (rc_State rec) (rc_State rec) v d now
      (s\<lparr>rs_records := (rs_records s)(makeRecordKey t r \<mapsto> rec\<lparr>rc_CurrentVersion := v, rc_UpdatedAt := now\<rparr>),
         rs_snapshots := (rs_snapshots s)(makeRecordKey t r := rs_snapshots s (makeRecordKey t r) @ [sn])\<rparr>))"
| moved: "\<lbrakk>rs_records s (makeRecordKey t r) = Some rec; permitted_lifecycle (rc_State rec) target\<rbrakk> \<Longrightarrow>
    store_step t s (append_audit AuditStateChanged (TrimSpace t) (TrimSpace r) a co ca (rc_State rec) target v d now
      (s\<lparr>rs_records := (rs_records s)(makeRecordKey t r \<mapsto> rec\<lparr>rc_State := target, rc_UpdatedAt := now\<rparr>)\<rparr>))"

lemma DeclareRecord_step: "store_step t s (fst (DeclareRecord t r ety v dg a co ca now s))"
  unfolding DeclareRecord_def Let_def
  by (auto split: option.splits intro!: store_step.same store_step.declared simp: ValidateDigest_TrimSpace)

lemma CreateNewVersion_step: "store_step t s (fst (CreateNewVersion t r v dg a co ca now s))"
  unfolding CreateNewVersion_def Let_def
  by (auto split: option.splits intro!: store_step.same store_step.versioned simp: ValidateDigest_TrimSpace)

lemma TransitionRecordState_step: "store_step t s (fst (TransitionRecordState t r st a co ca now s))"
  unfolding TransitionRecordState_def Let_def
  by (auto split: option.splits intro!: store_step.same store_step.moved)

lemma RecordAccessDenied_step: "store_step t s (fst (RecordAccessDenied t r a co ca why now s))"
  unfolding RecordAccessDenied_def Let_def
  by (auto split: option.splits intro!: store_step.same store_step.noted)

lemma store_exec_step: "store_step (call_tenant c) s (fst (store_exec c s))"
  by (cases c) (simp_all add: DeclareRecord_step CreateNewVersion_step TransitionRecordState_step RecordAccessDenied_step)

lemma store_invD: "store_inv s \<Longrightarrow> rs_records s k = Some rec \<Longrightarrow> record_entry_inv s k rec"
  unfolding store_inv_def by blast

lemma store_step_inv: "store_step t s s' \<Longrightarrow> store_inv s \<Longrightarrow> store_inv s'"
proof (induction rule: store_step.induct)
  case (noted t s r a co ca d now)
  then show ?case by (auto simp: store_inv_def append_audit_def state_entries_def record_state_def record_entry_inv_def)
next
  case (declared s t r rec sn a co ca v d now)
  have "store_inv (append_audit AuditDeclared (TrimSpace t) (TrimSpace r) a co ca (LifecycleOther []) (rc_State rec) v d now
      (s\<lparr>rs_records := (rs_records s)(makeRecordKey t r \<mapsto> rec), rs_snapshots := (rs_snapshots s)(makeRecordKey t r := [sn])\<rparr>))"
    by (rule logged_update_inv) (use declared in \<open>auto simp: record_state_def record_entry_inv_def\<close>)
  with declared show ?case by simp
next
  case (versioned s t r rec sn v a co ca d now)
  have old: "record_entry_inv s (makeRecordKey t r) rec" using versioned by (intro store_invD)
  with versioned have st: "rc_State rec = StateAccepted" by (auto simp: record_entry_inv_def)
  have "store_inv (append_audit AuditVersioned (TrimSpace t) (TrimSpace r) a co ca (rc_State rec)
      (rc_State (rec\<lparr>rc_CurrentVersion := v, rc_UpdatedAt := now\<rparr>)) v d now
      (s\<lparr>rs_records := (rs_records s)(makeRecordKey t r \<mapsto> rec\<lparr>rc_CurrentVersion := v, rc_UpdatedAt := now\<rparr>),
         rs_snapshots := (rs_snapshots s)(makeRecordKey t r := rs_snapshots s (makeRecordKey t r) @ [sn])\<rparr>))"
    by (rule logged_update_inv) (use versioned old st in \<open>auto simp: record_state_def record_entry_inv_def\<close>)
  then show ?case by simp
next
  case (moved s t r rec target a co ca v d now)
  have old: "record_entry_inv s (makeRecordKey t r) rec" using moved by (intro store_invD)
  with moved have st: "target = StateArchived" by (auto simp: record_entry_inv_def)
  have "store_inv (append_audit AuditStateChanged (TrimSpace t) (TrimSpace r) a co ca (rc_State rec)
      (rc_State (rec\<lparr>rc_State := target, rc_UpdatedAt := now\<rparr>)) v d now
      (s\<lparr>rs_records := (rs_records s)(makeRecordKey t r \<mapsto> rec\<lparr>rc_State := target, rc_UpdatedAt := now\<rparr>),
         rs_snapshots := (rs_snapshots s)(makeRecordKey t r := rs_snapshots s (makeRecordKey t r))\<rparr>))"
    by (rule logged_update_inv) (use moved old st in \<open>auto simp: record_state_def record_entry_inv_def\<close>)
  then show ?case by simp
qed

lemma store_step_journal: "store_step t s s' \<Longrightarrow> prefix (rs_auditLog s) (rs_auditLog s')"
  by (induction rule: store_step.induct) (auto simp: append_audit_def)

lemma store_step_snapshots: "store_step t s s' \<Longrightarrow> store_inv s \<Longrightarrow> prefix (rs_snapshots s k) (rs_snapshots s' k)"
  by (induction rule: store_step.induct) (auto simp: store_inv_def)

lemma store_step_archived:
  assumes "store_step t s s'" and "rs_records s k = Some rec" and "rc_State rec = StateArchived"
  shows "rs_records s' k = Some rec \<and> rs_snapshots s' k = rs_snapshots s k"
  using assms by (induction rule: store_step.induct) auto

lemma store_exec_error: "store_exec c s = (s', Inl e) \<Longrightarrow> s' = s"
  by (cases c)
    (auto simp: discard_Inl DeclareRecord_def CreateNewVersion_def TransitionRecordState_def RecordAccessDenied_def Let_def
      split: if_splits option.splits)

interpretation rs: journaled store_exec store_inv "\<lambda>_. True" "\<lambda>_. rs_auditLog"
  by unfold_locales (use store_exec_step store_step_inv store_step_journal in blast)+

interpretation rs_versions: journaled store_exec store_inv "\<lambda>_. True" "\<lambda>k s. rs_snapshots s k"
  by unfold_locales (use store_exec_step store_step_snapshots in blast)

interpretation rs_closed: fail_closed store_exec
  by unfold_locales (rule store_exec_error)

interpretation rs_final: absorbing store_exec store_inv "\<lambda>_. True"
  "\<lambda>k s. map_option (\<lambda>rec. (rec, rs_snapshots s k)) (rs_records s k)" "\<lambda>(rec, sns). rc_State rec = StateArchived"
  by unfold_locales (use store_exec_step store_step_archived in fastforce)

lemma reachable_store_inv: "store_inv (run_calls store_exec cs NewRecordStore)"
  by (rule rs.run_inv) (simp_all add: store_inv_def NewRecordStore_def state_entries_def record_state_def)

text \<open>With no colon in the tenants of the calls, a stored record has the tenant its key begins with.\<close>

definition plain_tenant :: "string \<Rightarrow> bool" where
  "plain_tenant t \<longleftrightarrow> CHR '':'' \<notin> set (TrimSpace t)"

definition tenants_inv :: "RecordStore \<Rightarrow> bool" where
  "tenants_inv s \<longleftrightarrow> (\<forall>k rec. rs_records s k = Some rec \<longrightarrow>
     plain_tenant (rc_TenantID rec) \<and> k = makeRecordKey (rc_TenantID rec) (rc_RecordID rec) \<and>
     TrimSpace (rc_TenantID rec) = rc_TenantID rec \<and> TrimSpace (rc_RecordID rec) = rc_RecordID rec)"

lemma tenants_inv_update:
  assumes "tenants_inv s" and "rs_records s' = (rs_records s)(k \<mapsto> rec)" and "plain_tenant (rc_TenantID rec)"
    and "k = makeRecordKey (rc_TenantID rec) (rc_RecordID rec)" and "TrimSpace (rc_TenantID rec) = rc_TenantID rec"
    and "TrimSpace (rc_RecordID rec) = rc_RecordID rec"
  shows "tenants_inv s'"
  unfolding tenants_inv_def
proof (intro allI impI)
  fix k' rec'
  assume "rs_records s' k' = Some rec'"
  then show "plain_tenant (rc_TenantID rec') \<and> k' = makeRecordKey (rc_TenantID rec') (rc_RecordID rec') \<and>
      TrimSpace (rc_TenantID rec') = rc_TenantID rec' \<and> TrimSpace (rc_RecordID rec') = rc_RecordID rec'"
    using assms unfolding tenants_inv_def by (cases "k' = k") (simp, simp)
qed

lemma tenants_invD:
  "tenants_inv s \<Longrightarrow> rs_records s k = Some rec \<Longrightarrow>
     plain_tenant (rc_TenantID rec) \<and> k = makeRecordKey (rc_TenantID rec) (rc_RecordID rec) \<and>
     TrimSpace (rc_TenantID rec) = rc_TenantID rec \<and> TrimSpace (rc_RecordID rec) = rc_RecordID rec"
  unfolding tenants_inv_def by blast

lemma store_step_tenants: "store_step t s s' \<Longrightarrow> plain_tenant t \<Longrightarrow> tenants_inv s \<Longrightarrow> tenants_inv s'"
proof (induction rule: store_step.induct)
  case (declared s t r rec sn a co ca v d now)
  show ?case
    by (rule tenants_inv_update [of s _ "makeRecordKey t r" rec]) (use declared in \<open>simp_all add: plain_tenant_def\<close>)
next
  case (versioned s t r rec sn v a co ca d now)
  show ?case
    by (rule tenants_inv_update [of s _ "makeRecordKey t r" "rec\<lparr>rc_CurrentVersion := v, rc_UpdatedAt := now\<rparr>"])
      (use versioned tenants_invD [OF versioned(8,1)] in simp_all)
next
  case (moved s t r rec target a co ca v d now)
  show ?case
    by (rule tenants_inv_update [of s _ "makeRecordKey t r" "rec\<lparr>rc_State := target, rc_UpdatedAt := now\<rparr>"])
      (use moved tenants_invD [OF moved(4,1)] in simp_all)
qed (auto simp: tenants_inv_def)

interpretation rs_tenant: api_machine store_exec tenants_inv "\<lambda>c. plain_tenant (call_tenant c)"
  by unfold_locales (use store_exec_step store_step_tenants in blast)

lemma makeRecordKey_inject:
  "plain_tenant t \<Longrightarrow> plain_tenant t' \<Longrightarrow>
     makeRecordKey t r = makeRecordKey t' r' \<longleftrightarrow> TrimSpace t = TrimSpace t' \<and> TrimSpace r = TrimSpace r'"
  by (simp add: makeRecordKey_def plain_tenant_def colon_key_inject [simplified])

text \<open>Calls for evaluations.\<close>

definition example_store_calls :: "store_call list" where
  "example_store_calls =
     [CallDeclareRecord ''ten_a'' ''rec1'' ''report'' ''v1'' example_digest ''ann'' ''corr_1'' ''caus_1'' 10,
      CallCreateNewVersion ''ten_a'' ''rec1'' ''v2'' example_digest ''ann'' ''corr_2'' ''caus_2'' 11,
      CallTransitionRecordState ''ten_a'' ''rec1'' StateArchived ''bob'' ''corr_3'' ''caus_3'' 12]"

lemmas store_eval = example_store_calls_def NewRecordStore_def DeclareRecord_def CreateNewVersion_def
  TransitionRecordState_def RecordAccessDenied_def append_audit_def validateTrackingIDs_def makeRecordKey_def
  eval_defs

lemma example_store_archived:
  "\<exists>rec. rs_records (run_calls store_exec example_store_calls NewRecordStore) ''ten_a:rec1'' = Some rec \<and>
     rc_State rec = StateArchived \<and> rc_CurrentVersion rec = ''v2''"
  by (simp add: store_eval)

subsection \<open>Properties\<close>

text \<open>
  Audit: in every reachable store the log is numbered from 1 without gaps, later calls only append to it,
  and for every record the logged declaration, versions and state changes form a path of states that
  starts at no state and ends in the state the record has now.
\<close>

theorem audit_log_complete:
  "let s = run_calls store_exec cs NewRecordStore in
   map au_SequenceNumber (rs_auditLog s) = map of_nat [1..<Suc (length (rs_auditLog s))] \<and>
   prefix (rs_auditLog s) (rs_auditLog (run_calls store_exec (cs @ ds) NewRecordStore)) \<and>
   (\<forall>k. linked (LifecycleOther []) (state_entries k (rs_auditLog s)) (record_state s k))"
  using reachable_store_inv [of cs] rs.run_journal [OF reachable_store_inv [of cs], of ds]
  by (simp add: Let_def store_inv_def numbered_map del: upt_Suc)

text \<open>
  Versions: in every reachable store a record has at least one snapshot, its versions are
  distinct, its current version is that of the last snapshot, every snapshot has a valid digest,
  and later calls never remove, reorder or rewrite a snapshot.
\<close>

theorem snapshots_immutable:
  assumes "s = run_calls store_exec cs NewRecordStore" and "rs_records s k = Some rec"
  shows "rs_snapshots s k \<noteq> [] \<and> distinct (map sn_Version (rs_snapshots s k)) \<and>
    sn_Version (last (rs_snapshots s k)) = rc_CurrentVersion rec \<and>
    (\<forall>sn\<in>set (rs_snapshots s k). ValidateDigest (sn_PayloadDigest sn) = None) \<and>
    prefix (rs_snapshots s k) (rs_snapshots (run_calls store_exec ds s) k)"
proof -
  have inv: "store_inv s" using assms(1) by (simp add: reachable_store_inv)
  then have "record_entry_inv s k rec" using assms(2) by (rule store_invD)
  moreover have "prefix (rs_snapshots s k) (rs_snapshots (run_calls store_exec ds s) k)"
    using rs_versions.run_journal [OF inv, of ds k] by simp
  ultimately show ?thesis by (auto simp: record_entry_inv_def list_all_iff)
qed

text \<open>An ARCHIVED record and its snapshots are never changed again by any calls.\<close>

theorem archived_record_immutable:
  assumes "store_inv s" and "rs_records s k = Some rec" and "rc_State rec = StateArchived"
  shows "rs_records (run_calls store_exec cs s) k = Some rec \<and>
    rs_snapshots (run_calls store_exec cs s) k = rs_snapshots s k"
  using rs_final.run_final [where s = s and cs = cs and k = k and v = "(rec, rs_snapshots s k)"] assms by auto

text \<open>
  Tenant isolation holds as long as no tenant identifier contains a colon: a caller is only ever given
  a record of its own tenant, under its own identifier.
\<close>

theorem record_tenant_isolation:
  assumes "list_all (\<lambda>c. plain_tenant (call_tenant c)) cs" and "plain_tenant caller"
    and "GetRecord caller rid (run_calls store_exec cs NewRecordStore) = Inr rec"
  shows "rc_TenantID rec = TrimSpace caller \<and> rc_RecordID rec = TrimSpace rid"
proof -
  have inv: "tenants_inv (run_calls store_exec cs NewRecordStore)"
    using assms(1) by (intro rs_tenant.run_inv) (simp_all add: tenants_inv_def NewRecordStore_def)
  from assms(3) have "rs_records (run_calls store_exec cs NewRecordStore) (makeRecordKey caller rid) = Some rec"
    by (auto simp: GetRecord_def Let_def split: if_splits option.splits)
  from tenants_invD [OF inv this] assms(2) show ?thesis by (auto simp: makeRecordKey_inject)
qed

text \<open>
  With a colon in a tenant identifier isolation fails: tenant a reads the record c of tenant a:b by asking
  for its own record b:c, and adds a version to it.
\<close>

theorem record_key_crosses_tenants:
  "\<exists>s rec sn. s = fst (DeclareRecord ''a:b'' ''c'' ''report'' ''v1'' example_digest ''ann'' ''corr_1'' ''caus_1'' 10 NewRecordStore) \<and>
     GetRecord ''a'' ''b:c'' s = Inr rec \<and> rc_TenantID rec = ''a:b'' \<and>
     snd (CreateNewVersion ''a'' ''b:c'' ''v2'' example_digest ''eve'' ''corr_2'' ''caus_2'' 11 s) = Inr sn"
  by (simp add: store_eval GetRecord_def)

subsection \<open>Witnesses\<close>

theorem snapshots_immutable_witness:
  "\<exists>rec. rs_records (run_calls store_exec example_store_calls NewRecordStore) ''ten_a:rec1'' = Some rec \<and>
     sn_Version (last (rs_snapshots (run_calls store_exec example_store_calls NewRecordStore) ''ten_a:rec1'')) = ''v2''"
  using example_store_archived snapshots_immutable [OF refl, of example_store_calls "''ten_a:rec1''"] by metis

theorem archived_record_immutable_witness:
  "\<exists>rec. rc_State rec = StateArchived \<and>
     rs_records (run_calls store_exec [CallTransitionRecordState ''ten_a'' ''rec1'' StateAccepted ''eve'' ''corr_4'' ''caus_4'' 13]
       (run_calls store_exec example_store_calls NewRecordStore)) ''ten_a:rec1'' = Some rec"
  using example_store_archived archived_record_immutable [OF reachable_store_inv] by blast

theorem record_tenant_isolation_witness:
  "\<exists>rec. GetRecord '' ten_a'' ''rec1'' (run_calls store_exec example_store_calls NewRecordStore) = Inr rec \<and> rc_TenantID rec = ''ten_a''"
proof -
  have trim: "TrimSpace '' ten_a'' = ''ten_a''" by code_simp
  then have p: "plain_tenant '' ten_a''" by (simp add: plain_tenant_def)
  have cs: "list_all (\<lambda>c. plain_tenant (call_tenant c)) example_store_calls"
    by (simp add: example_store_calls_def plain_tenant_def)
  have "\<exists>rec. GetRecord '' ten_a'' ''rec1'' (run_calls store_exec example_store_calls NewRecordStore) = Inr rec"
    using example_store_archived by (auto simp: GetRecord_def makeRecordKey_def trim Let_def)
  then show ?thesis using record_tenant_isolation [OF cs p] trim by metis
qed

end
