(* ===== verification/Org_Identity.thy ===== *)
theory Org_Identity
  imports Go_Strings
begin

text \<open>
  Identity and tenancy of \<open>modules/organization-tenancy\<close>: \<open>identifiers.go\<close> (canonical identifiers, tracking
  contexts, the idempotency store, the registry of external references) and \<open>tenant_context.go\<close>
  (the trusted tenant context). The error datatypes follow the \<open>var\<close> blocks of the
  package's six files and \<open>org_error\<close> is their sum; an error
  made on the spot with \<open>errors.New\<close>, or returned by a callback, is \<open>ErrorsNew\<close> with its message, and
  an error wrapped with \<open>%w\<close> is the wrapped error.

  Random bytes are an argument (\<open>None\<close> when \<open>rand.Read\<close> fails). The callback of \<open>EvaluateOrCreate\<close> acts on
  a world of its own: its effects are what the idempotency store has to keep from happening twice.
\<close>

subsection \<open>Definitions\<close>

definition PrefixTenant :: string where "PrefixTenant = ''ten''"
definition PrefixCompany :: string where "PrefixCompany = ''cmp''"
definition PrefixBusinessUnit :: string where "PrefixBusinessUnit = ''bnu''"
definition PrefixProject :: string where "PrefixProject = ''prj''"
definition PrefixSite :: string where "PrefixSite = ''ste''"
definition PrefixArea :: string where "PrefixArea = ''ara''"
definition PrefixParty :: string where "PrefixParty = ''prt''"
definition PrefixParticipation :: string where "PrefixParticipation = ''ptp''"
definition PrefixUser :: string where "PrefixUser = ''usr''"
definition PrefixCorrelation :: string where "PrefixCorrelation = ''corr''"
definition PrefixCausation :: string where "PrefixCausation = ''caus''"
definition PrefixIdempotency :: string where "PrefixIdempotency = ''idem''"
definition PrefixExternalRef :: string where "PrefixExternalRef = ''ext''"

definition MinExternalIDLength :: nat where "MinExternalIDLength = 3"
definition MaxExternalIDLength :: nat where "MaxExternalIDLength = 128"

datatype identifier_error =
  ErrBlankIdentifier | ErrMalformedIdentifier | ErrPrefixMismatch | ErrInvalidCharacters
| ErrBlankPayloadDigest | ErrInvalidDigest | ErrIdempotencyConflict
| ErrDuplicateExternalRef | ErrConflictingExternalRef | ErrExternalRefNotFound
| ErrExternalIDTooShort | ErrExternalIDTooLong | ErrExternalIDEnumeration | ErrCrossTenantMapping

datatype tenant_error =
  ErrMissingClaims | ErrUnauthenticated | ErrEmptyTenantID | ErrTenantOverrideForbidden
| ErrTenantMismatch | ErrInvalidTargetTenant

datatype hierarchy_error =
  ErrBlankID | ErrBlankTenantID | ErrBlankName | ErrCrossTenantLinkage | ErrParentArchived
| ErrParentMismatch | ErrEntityArchived | ErrBlankSponsorID | ErrInvalidTimeWindow
| ErrSponsorshipExpired | ErrInvalidTimeZone | ErrInvalidLocale | ErrProjectSiteMismatch

datatype lifecycle_error =
  ErrEntityClosed | ErrParentClosed | ErrCannotReopenClosed | ErrCrossTenantMove
| ErrInvalidMoveTarget | ErrActiveRecordRejected

datatype party_error =
  ErrInvalidPartyType | ErrInvalidParticipationRole | ErrScopeMismatch | ErrParticipationExpired
| ErrParticipationNotYetValid | ErrPartyArchived | ErrPartyNotFound | ErrParticipationNotFound
| ErrDuplicateParty | ErrDuplicateParticipation | ErrNestingDepthExceeded
| ErrValidityWindowExceedsParent | ErrElevationForbidden | ErrParentNotActive
| ErrSiblingAccessDenied | ErrInvalidSponsorID

datatype sponsor_error =
  ErrSponsorUnavailable | ErrCrossTenantSponsor | ErrSponsorUnchanged | ErrPartyDeactivated
| ErrParticipationClosed | ErrProjectClosedCascade

datatype org_error =
  IdErr identifier_error
| TenantErr tenant_error
| HierErr hierarchy_error
| LifeErr lifecycle_error
| PartyErr party_error
| SponsorErr sponsor_error
| ErrorsNew string

definition ValidateCanonicalID :: "string \<Rightarrow> string \<Rightarrow> org_error option" where
  "ValidateCanonicalID ident expectedPrefix =
     (let trimmed = TrimSpace ident in
      if trimmed = [] then Some (IdErr ErrBlankIdentifier)
      else case IndexByte trimmed (CHR ''_'') of
        None \<Rightarrow> Some (IdErr ErrMalformedIdentifier)
      | Some idx \<Rightarrow>
          if idx = 0 \<or> idx = length trimmed - 1 then Some (IdErr ErrMalformedIdentifier)
          else if take idx trimmed \<noteq> expectedPrefix then Some (IdErr ErrPrefixMismatch)
          else if length (drop (idx + 1) trimmed) < 8 then Some (IdErr ErrMalformedIdentifier)
          else if \<not> list_all id_byte (drop (idx + 1) trimmed) then Some (IdErr ErrInvalidCharacters)
          else None)"

definition GenerateCanonicalID :: "char list option \<Rightarrow> string \<Rightarrow> org_error + string" where
  "GenerateCanonicalID random pfx =
     (let trimmedPrefix = TrimSpace pfx in
      if trimmedPrefix = [] then Inl (IdErr ErrBlankIdentifier)
      else case random of
        None \<Rightarrow> Inl (ErrorsNew ''failed to generate random bytes'')
      | Some b \<Rightarrow> Inr (trimmedPrefix @ ''_'' @ EncodeToString b))"

definition ValidateDigest :: "string \<Rightarrow> org_error option" where
  "ValidateDigest digest =
     (let trimmed = TrimSpace digest in
      if trimmed = [] then Some (IdErr ErrBlankPayloadDigest)
      else if length trimmed \<noteq> 64 then Some (IdErr ErrInvalidDigest)
      else if \<not> list_all hex_byte trimmed then Some (IdErr ErrInvalidDigest)
      else None)"

record TrackingContext =
  tk_CorrelationID :: string
  tk_CausationID :: string

definition NewTrackingContext :: "string \<Rightarrow> string \<Rightarrow> org_error + TrackingContext" where
  "NewTrackingContext correlationID causationID =
     (case ValidateCanonicalID correlationID PrefixCorrelation of Some e \<Rightarrow> Inl e | None \<Rightarrow>
      case ValidateCanonicalID causationID PrefixCausation of Some e \<Rightarrow> Inl e | None \<Rightarrow>
        Inr \<lparr>tk_CorrelationID = TrimSpace correlationID, tk_CausationID = TrimSpace causationID\<rparr>)"

definition GenerateTrackingContext :: "char list option \<Rightarrow> char list option \<Rightarrow> org_error + TrackingContext" where
  "GenerateTrackingContext random1 random2 =
     (case GenerateCanonicalID random1 PrefixCorrelation of Inl e \<Rightarrow> Inl e | Inr corr \<Rightarrow>
      case GenerateCanonicalID random2 PrefixCausation of Inl e \<Rightarrow> Inl e | Inr caus \<Rightarrow>
        Inr \<lparr>tk_CorrelationID = corr, tk_CausationID = caus\<rparr>)"

text \<open>The idempotency store.\<close>

record IdempotencyRecord =
  ic_Key :: string
  ic_TenantID :: string
  ic_PayloadDigest :: string
  ic_ResourceID :: string
  ic_CreatedAt :: gotime

record IdempotencyStore =
  ids_records :: "string \<rightharpoonup> IdempotencyRecord"

definition NewIdempotencyStore :: IdempotencyStore where
  "NewIdempotencyStore = \<lparr>ids_records = Map.empty\<rparr>"

definition makeIdempotencyKey :: "string \<Rightarrow> string \<Rightarrow> string" where
  "makeIdempotencyKey tenantID key = TrimSpace tenantID @ '':'' @ TrimSpace key"

type_synonym 'w create_fn = "('w \<Rightarrow> 'w \<times> (org_error + string)) option"

definition EvaluateOrCreate ::
  "string \<Rightarrow> string \<Rightarrow> string \<Rightarrow> 'w create_fn \<Rightarrow> gotime \<Rightarrow> IdempotencyStore \<times> 'w \<Rightarrow>
   (IdempotencyStore \<times> 'w, org_error, string \<times> bool) outcome" where
  "EvaluateOrCreate tenantID key payloadDigest createFn now sw =
     (case sw of (s, w) \<Rightarrow>
      let tTenant = TrimSpace tenantID; tKey = TrimSpace key in
      if tTenant = [] then (sw, Inl (TenantErr ErrEmptyTenantID))
      else if tKey = [] then (sw, Inl (ErrorsNew ''idempotency key cannot be blank''))
      else case ValidateDigest payloadDigest of Some e \<Rightarrow> (sw, Inl e) | None \<Rightarrow>
      case createFn of None \<Rightarrow> (sw, Inl (ErrorsNew ''createFn cannot be nil'')) | Some create \<Rightarrow>
      let storageKey = makeIdempotencyKey tTenant tKey in
      case ids_records s storageKey of
        Some existing \<Rightarrow>
          if ic_PayloadDigest existing = TrimSpace payloadDigest
          then (sw, Inr (ic_ResourceID existing, True))
          else (sw, Inl (IdErr ErrIdempotencyConflict))
      | None \<Rightarrow>
          (case create w of
             (w', Inl e) \<Rightarrow> ((s, w'), Inl e)
           | (w', Inr newID) \<Rightarrow>
               ((s\<lparr>ids_records := (ids_records s)(storageKey \<mapsto>
                    \<lparr>ic_Key = tKey, ic_TenantID = tTenant, ic_PayloadDigest = TrimSpace payloadDigest,
                     ic_ResourceID = newID, ic_CreatedAt = now\<rparr>)\<rparr>, w'), Inr (newID, False))))"

text \<open>The registry of external references.\<close>

record ExternalReference =
  er_TenantID :: string
  er_ExternalSystem :: string
  er_ExternalID :: string
  er_InternalID :: string
  er_MappedAt :: gotime

record ExternalRefRegistry =
  forwardMap :: "string \<rightharpoonup> ExternalReference"
  reverseMap :: "string \<rightharpoonup> string"

definition NewExternalRefRegistry :: ExternalRefRegistry where
  "NewExternalRefRegistry = \<lparr>forwardMap = Map.empty, reverseMap = Map.empty\<rparr>"

definition makeForwardKey :: "string \<Rightarrow> string \<Rightarrow> string \<Rightarrow> string" where
  "makeForwardKey tenantID system externalID =
     TrimSpace tenantID @ '':'' @ ToUpper (TrimSpace system) @ '':'' @ TrimSpace externalID"

definition makeReverseKey :: "string \<Rightarrow> string \<Rightarrow> string \<Rightarrow> string" where
  "makeReverseKey tenantID system internalID =
     TrimSpace tenantID @ '':'' @ ToUpper (TrimSpace system) @ '':'' @ TrimSpace internalID"

text \<open>The bytes of the probe alphabet, and the loop that clears \<open>allSame\<close>.\<close>

definition probe_bytes :: string where
  "probe_bytes = ''*?%<>$'' @ [CHR 0x5C] @ ''/;'' @ [CHR 0x22, CHR 0x27]"

fun allSame :: "string \<Rightarrow> bool" where
  "allSame [] \<longleftrightarrow> True"
| "allSame (c # s) \<longleftrightarrow> list_all (\<lambda>d. d = c) s"

definition validateExternalID :: "string \<Rightarrow> org_error option" where
  "validateExternalID externalID =
     (let trimmed = TrimSpace externalID in
      if length trimmed < MinExternalIDLength then Some (IdErr ErrExternalIDTooShort)
      else if MaxExternalIDLength < length trimmed then Some (IdErr ErrExternalIDTooLong)
      else if list_ex (\<lambda>c. c \<in> set probe_bytes) trimmed then Some (IdErr ErrExternalIDEnumeration)
      else if allSame trimmed then Some (IdErr ErrExternalIDEnumeration)
      else None)"

definition RegisterExternalRef ::
  "string \<Rightarrow> string \<Rightarrow> string \<Rightarrow> string \<Rightarrow> gotime \<Rightarrow> ExternalRefRegistry \<Rightarrow>
   (ExternalRefRegistry, org_error, unit) outcome" where
  "RegisterExternalRef tenantID system externalID internalID now r =
     (let tTenant = TrimSpace tenantID; tSystem = ToUpper (TrimSpace system);
          tExtID = TrimSpace externalID; tIntID = TrimSpace internalID in
      if tTenant = [] then (r, Inl (TenantErr ErrEmptyTenantID))
      else if tSystem = [] then (r, Inl (ErrorsNew ''external system identifier cannot be blank''))
      else case validateExternalID tExtID of Some e \<Rightarrow> (r, Inl e) | None \<Rightarrow>
      if tIntID = [] then (r, Inl (IdErr ErrBlankIdentifier))
      else let fKey = makeForwardKey tTenant tSystem tExtID; rKey = makeReverseKey tTenant tSystem tIntID in
        case forwardMap r fKey of
          Some existing \<Rightarrow>
            (r, if er_InternalID existing = tIntID then Inr () else Inl (IdErr ErrDuplicateExternalRef))
        | None \<Rightarrow>
            if (case reverseMap r rKey of None \<Rightarrow> False | Some existingExtID \<Rightarrow> existingExtID \<noteq> tExtID)
            then (r, Inl (IdErr ErrConflictingExternalRef))
            else (r\<lparr>forwardMap := (forwardMap r)(fKey \<mapsto>
                       \<lparr>er_TenantID = tTenant, er_ExternalSystem = tSystem, er_ExternalID = tExtID,
                        er_InternalID = tIntID, er_MappedAt = now\<rparr>),
                    reverseMap := (reverseMap r)(rKey \<mapsto> tExtID)\<rparr>, Inr ()))"

definition ResolveExternalRef ::
  "string \<Rightarrow> string \<Rightarrow> string \<Rightarrow> ExternalRefRegistry \<Rightarrow> org_error + string" where
  "ResolveExternalRef tenantID system externalID r =
     (let tTenant = TrimSpace tenantID in
      if tTenant = [] then Inl (TenantErr ErrEmptyTenantID)
      else case forwardMap r (makeForwardKey tTenant (ToUpper (TrimSpace system)) (TrimSpace externalID)) of
        None \<Rightarrow> Inl (IdErr ErrExternalRefNotFound)
      | Some ref \<Rightarrow> if er_TenantID ref \<noteq> tTenant then Inl (IdErr ErrCrossTenantMapping) else Inr (er_InternalID ref))"

definition ResolveInternal ::
  "string \<Rightarrow> string \<Rightarrow> string \<Rightarrow> ExternalRefRegistry \<Rightarrow> org_error + string" where
  "ResolveInternal tenantID system internalID r =
     (let tTenant = TrimSpace tenantID in
      if tTenant = [] then Inl (TenantErr ErrEmptyTenantID)
      else case reverseMap r (makeReverseKey tTenant (ToUpper (TrimSpace system)) (TrimSpace internalID)) of
        None \<Rightarrow> Inl (IdErr ErrExternalRefNotFound)
      | Some extID \<Rightarrow> Inr extID)"

text \<open>The trusted tenant context.\<close>

record TrustedClaims =
  cl_Subject :: string
  cl_TenantID :: string
  cl_CompanyID :: string
  cl_SiteID :: string
  cl_IsAuthenticated :: bool

record ClientOverrideInput =
  ov_TenantID :: string

record TenantContext =
  tc_tenantID :: string
  tc_companyID :: string
  tc_siteID :: string
  tc_subject :: string

definition DeriveTenantContext ::
  "TrustedClaims option \<Rightarrow> ClientOverrideInput option \<Rightarrow> org_error + TenantContext" where
  "DeriveTenantContext claims clientOverride =
     (if (case clientOverride of None \<Rightarrow> False | Some ov \<Rightarrow> TrimSpace (ov_TenantID ov) \<noteq> [])
      then Inl (TenantErr ErrTenantOverrideForbidden)
      else case claims of
        None \<Rightarrow> Inl (TenantErr ErrMissingClaims)
      | Some cl \<Rightarrow>
          if \<not> cl_IsAuthenticated cl then Inl (TenantErr ErrUnauthenticated)
          else if TrimSpace (cl_TenantID cl) = [] then Inl (TenantErr ErrEmptyTenantID)
          else Inr \<lparr>tc_tenantID = TrimSpace (cl_TenantID cl), tc_companyID = TrimSpace (cl_CompanyID cl),
                    tc_siteID = TrimSpace (cl_SiteID cl), tc_subject = TrimSpace (cl_Subject cl)\<rparr>)"

definition AuthorizeTenantScope :: "TenantContext \<Rightarrow> string \<Rightarrow> org_error option" where
  "AuthorizeTenantScope c targetTenantID =
     (let trimmedTarget = TrimSpace targetTenantID in
      if trimmedTarget = [] then Some (TenantErr ErrInvalidTargetTenant)
      else if tc_tenantID c = [] then Some (TenantErr ErrEmptyTenantID)
      else if tc_tenantID c \<noteq> trimmedTarget then Some (TenantErr ErrTenantMismatch)
      else None)"

definition IsInScope :: "TenantContext \<Rightarrow> string \<Rightarrow> bool" where
  "IsInScope c targetTenantID \<longleftrightarrow> AuthorizeTenantScope c targetTenantID = None"

text \<open>The calls on the two stores.\<close>

datatype 'w idem_call = Evaluate string string string "'w create_fn" gotime

fun exec_idem :: "'w idem_call \<Rightarrow> IdempotencyStore \<times> 'w \<Rightarrow> (IdempotencyStore \<times> 'w, org_error, string \<times> bool) outcome" where
  "exec_idem (Evaluate tenantID key digest createFn now) sw = EvaluateOrCreate tenantID key digest createFn now sw"

datatype ref_call = RegisterRef string string string string gotime

fun exec_ref :: "ref_call \<Rightarrow> ExternalRefRegistry \<Rightarrow> (ExternalRefRegistry, org_error, unit) outcome" where
  "exec_ref (RegisterRef tenantID system externalID internalID now) r =
     RegisterExternalRef tenantID system externalID internalID now r"

text \<open>Calls whose tenant and system names hold no colon, the separator of the registry's keys.\<close>

fun ref_call_ok :: "ref_call \<Rightarrow> bool" where
  "ref_call_ok (RegisterRef tenantID system externalID internalID now) \<longleftrightarrow>
     CHR '':'' \<notin> set tenantID \<and> CHR '':'' \<notin> set system"

definition ref_inv :: "ExternalRefRegistry \<Rightarrow> bool" where
  "ref_inv r \<longleftrightarrow>
     (\<forall>k ref. forwardMap r k = Some ref \<longrightarrow>
        k = makeForwardKey (er_TenantID ref) (er_ExternalSystem ref) (er_ExternalID ref) \<and>
        CHR '':'' \<notin> set (er_TenantID ref) \<and> CHR '':'' \<notin> set (ToUpper (TrimSpace (er_ExternalSystem ref))) \<and>
        TrimSpace (er_TenantID ref) = er_TenantID ref \<and> TrimSpace (er_ExternalID ref) = er_ExternalID ref \<and>
        TrimSpace (er_InternalID ref) = er_InternalID ref \<and>
        reverseMap r (makeReverseKey (er_TenantID ref) (er_ExternalSystem ref) (er_InternalID ref)) =
          Some (er_ExternalID ref)) \<and>
     (\<forall>k x. reverseMap r k = Some x \<longrightarrow>
        (\<exists>ref. forwardMap r (makeForwardKey (er_TenantID ref) (er_ExternalSystem ref) x) = Some ref \<and>
           er_ExternalID ref = x \<and>
           k = makeReverseKey (er_TenantID ref) (er_ExternalSystem ref) (er_InternalID ref)))"

subsection \<open>Identifiers\<close>

lemma ValidateCanonicalID_None:
  assumes "CHR ''_'' \<notin> set p" and "p \<noteq> []"
  shows "ValidateCanonicalID ident p = None \<longleftrightarrow>
    (\<exists>token. TrimSpace ident = p @ CHR ''_'' # token \<and> 8 \<le> length token \<and> list_all id_byte token)"
proof
  assume v: "ValidateCanonicalID ident p = None"
  then obtain idx where i: "IndexByte (TrimSpace ident) (CHR ''_'') = Some idx"
    and rest: "take idx (TrimSpace ident) = p" "8 \<le> length (drop (idx + 1) (TrimSpace ident))"
      "list_all id_byte (drop (idx + 1) (TrimSpace ident))"
    by (auto simp: ValidateCanonicalID_def Let_def split: if_splits option.splits)
  from IndexByte_split [OF i] rest(1)
  have "TrimSpace ident = p @ CHR ''_'' # drop (idx + 1) (TrimSpace ident)" by simp
  with rest show "\<exists>token. TrimSpace ident = p @ CHR ''_'' # token \<and> 8 \<le> length token \<and> list_all id_byte token"
    by blast
next
  assume "\<exists>token. TrimSpace ident = p @ CHR ''_'' # token \<and> 8 \<le> length token \<and> list_all id_byte token"
  with assms show "ValidateCanonicalID ident p = None"
    by (auto simp: ValidateCanonicalID_def Let_def IndexByte_append)
qed

subsection \<open>The idempotency store\<close>

text \<open>A call as its caller sees it: refused, replayed, or executed once.\<close>

lemma EvaluateOrCreate_cases:
  assumes "EvaluateOrCreate tenantID key digest createFn now (s, w) = (sw', res)"
  obtains (refused) e where "sw' = (s, w)" "res = Inl e"
  | (replayed) existing where "ids_records s (makeIdempotencyKey tenantID key) = Some existing"
      "ic_PayloadDigest existing = TrimSpace digest" "sw' = (s, w)" "res = Inr (ic_ResourceID existing, True)"
  | (failed) create w' e where "ids_records s (makeIdempotencyKey tenantID key) = None" "createFn = Some create"
      "create w = (w', Inl e)" "sw' = (s, w')" "res = Inl e"
  | (created) create w' newID where "ids_records s (makeIdempotencyKey tenantID key) = None" "createFn = Some create"
      "create w = (w', Inr newID)" "res = Inr (newID, False)"
      "sw' = (s\<lparr>ids_records := (ids_records s)(makeIdempotencyKey tenantID key \<mapsto>
         \<lparr>ic_Key = TrimSpace key, ic_TenantID = TrimSpace tenantID, ic_PayloadDigest = TrimSpace digest,
          ic_ResourceID = newID, ic_CreatedAt = now\<rparr>)\<rparr>, w')"
  using assms
  by (auto simp: EvaluateOrCreate_def makeIdempotencyKey_def Let_def
      split: if_splits option.splits sum.splits prod.splits)

lemma EvaluateOrCreate_keeps:
  assumes "ids_records s k = Some rec"
  shows "ids_records (fst (fst (EvaluateOrCreate tenantID key digest createFn now (s, w)))) k = Some rec"
  using assms
  by (cases "EvaluateOrCreate tenantID key digest createFn now (s, w)" rule: prod.exhaust)
    (auto elim!: EvaluateOrCreate_cases)

interpretation idem_store: absorbing exec_idem "\<lambda>_. True" "\<lambda>_. True"
  "\<lambda>k (sw :: IdempotencyStore \<times> 'w). ids_records (fst sw) k" "\<lambda>_. True"
proof unfold_locales
  fix sw :: "IdempotencyStore \<times> 'w" and c :: "'w idem_call" and k v
  assume "ids_records (fst sw) k = Some v"
  then show "ids_records (fst (fst (exec_idem c sw))) k = Some v"
    by (cases c; cases sw) (simp add: EvaluateOrCreate_keeps)
qed simp

lemma EvaluateOrCreate_existing:
  assumes "ids_records s (makeIdempotencyKey tenantID key) = Some existing"
    and "TrimSpace tenantID \<noteq> []" and "TrimSpace key \<noteq> []" and "ValidateDigest digest = None"
  shows "EvaluateOrCreate tenantID key digest (Some create) now (s, w) =
    ((s, w), if ic_PayloadDigest existing = TrimSpace digest then Inr (ic_ResourceID existing, True)
             else Inl (IdErr ErrIdempotencyConflict))"
  using assms by (simp add: EvaluateOrCreate_def makeIdempotencyKey_def Let_def)

lemma EvaluateOrCreate_success:
  assumes "EvaluateOrCreate tenantID key digest createFn now sw = (sw', Inr (r, replay))"
  shows "TrimSpace tenantID \<noteq> [] \<and> TrimSpace key \<noteq> [] \<and> ValidateDigest digest = None \<and>
    (\<exists>existing. ids_records (fst sw') (makeIdempotencyKey tenantID key) = Some existing \<and>
       ic_PayloadDigest existing = TrimSpace digest \<and> ic_ResourceID existing = r)"
  using assms
  by (auto simp: EvaluateOrCreate_def makeIdempotencyKey_def Let_def
      split: if_splits option.splits sum.splits prod.splits)

subsection \<open>The registry of external references\<close>

lemma set_TrimSpace: "set (TrimSpace s) \<subseteq> set s"
proof -
  obtain u where u: "s = u @ strip space_encodings s" using strip_suffix by blast
  obtain v where "rev (strip space_encodings s) = v @ strip (map rev space_encodings) (rev (strip space_encodings s))"
    using strip_suffix by blast
  then have "set (TrimSpace s) \<subseteq> set (strip space_encodings s)"
    by (metis TrimSpace_def Un_iff set_append set_rev subsetI)
  also have "\<dots> \<subseteq> set s" by (metis Un_iff u set_append subsetI)
  finally show ?thesis .
qed

lemma upper_byte_colon:
  "upper_byte c = CHR '':'' \<longleftrightarrow> c = CHR '':''" "CHR '':'' = upper_byte c \<longleftrightarrow> c = CHR '':''"
  by (cases c; auto)+

lemma ToUpper_colon: "CHR '':'' \<in> set (ToUpper s) \<Longrightarrow> CHR '':'' \<in> set s"
  by (induction s rule: ToUpper.induct) (auto simp: upper_byte_colon split: if_splits)

lemma colon_free:
  "CHR '':'' \<notin> set s \<Longrightarrow> CHR '':'' \<notin> set (TrimSpace s)"
  "CHR '':'' \<notin> set s \<Longrightarrow> CHR '':'' \<notin> set (ToUpper s)"
  using set_TrimSpace [of s] by (auto dest: ToUpper_colon)

lemma makeForwardKey_inject:
  assumes "CHR '':'' \<notin> set t" "CHR '':'' \<notin> set t'"
    and "CHR '':'' \<notin> set (ToUpper (TrimSpace s))" "CHR '':'' \<notin> set (ToUpper (TrimSpace s'))"
  shows "makeForwardKey t s x = makeForwardKey t' s' x' \<longleftrightarrow>
    TrimSpace t = TrimSpace t' \<and> ToUpper (TrimSpace s) = ToUpper (TrimSpace s') \<and> TrimSpace x = TrimSpace x'"
  using assms by (simp add: makeForwardKey_def colon_key_inject [simplified] colon_free)

lemma makeReverseKey_eq: "makeReverseKey = makeForwardKey"
  by (intro ext) (simp add: makeReverseKey_def makeForwardKey_def)

lemma ref_inv_new [simp]: "ref_inv NewExternalRefRegistry"
  by (simp add: ref_inv_def NewExternalRefRegistry_def)

lemma makeForwardKey_TrimSpace [simp]:
  "makeForwardKey (TrimSpace t) s x = makeForwardKey t s x" "makeForwardKey t s (TrimSpace x) = makeForwardKey t s x"
  by (simp_all add: makeForwardKey_def)

definition new_ref :: "string \<Rightarrow> string \<Rightarrow> string \<Rightarrow> string \<Rightarrow> gotime \<Rightarrow> ExternalReference" where
  "new_ref t s x i now =
     \<lparr>er_TenantID = TrimSpace t, er_ExternalSystem = ToUpper (TrimSpace s), er_ExternalID = TrimSpace x,
      er_InternalID = TrimSpace i, er_MappedAt = now\<rparr>"

lemma RegisterExternalRef_error: "RegisterExternalRef t s x i now r = (r', Inl e) \<Longrightarrow> r' = r"
  by (auto simp: RegisterExternalRef_def Let_def split: if_splits option.splits)

lemma RegisterExternalRef_ok:
  assumes "RegisterExternalRef t s x i now r = (r', Inr u)"
  shows "TrimSpace t \<noteq> [] \<and>
    (case forwardMap r (makeForwardKey t (ToUpper (TrimSpace s)) x) of
       Some existing \<Rightarrow> er_InternalID existing = TrimSpace i \<and> r' = r
     | None \<Rightarrow> reverseMap r (makeForwardKey t (ToUpper (TrimSpace s)) i) \<in> {None, Some (TrimSpace x)} \<and>
         r' = r\<lparr>forwardMap := (forwardMap r)(makeForwardKey t (ToUpper (TrimSpace s)) x \<mapsto> new_ref t s x i now),
               reverseMap := (reverseMap r)(makeForwardKey t (ToUpper (TrimSpace s)) i \<mapsto> TrimSpace x)\<rparr>)"
  using assms
  by (auto simp: RegisterExternalRef_def Let_def makeReverseKey_eq new_ref_def split: if_splits option.splits)

lemma RegisterExternalRef_cases:
  assumes "RegisterExternalRef t s x i now r = (r', res)"
  obtains (unchanged) "r' = r"
  | (fresh) "forwardMap r (makeForwardKey t (ToUpper (TrimSpace s)) x) = None"
      "reverseMap r (makeForwardKey t (ToUpper (TrimSpace s)) i) \<in> {None, Some (TrimSpace x)}"
      "r' = r\<lparr>forwardMap := (forwardMap r)(makeForwardKey t (ToUpper (TrimSpace s)) x \<mapsto> new_ref t s x i now),
              reverseMap := (reverseMap r)(makeForwardKey t (ToUpper (TrimSpace s)) i \<mapsto> TrimSpace x)\<rparr>"
proof (cases res)
  case (Inl e)
  with assms show thesis by (auto intro: unchanged dest: RegisterExternalRef_error)
next
  case (Inr u)
  with RegisterExternalRef_ok [of t s x i now r r' u] assms show thesis
    by (cases "forwardMap r (makeForwardKey t (ToUpper (TrimSpace s)) x)") (simp_all add: unchanged fresh)
qed

lemma RegisterExternalRef_inv:
  assumes inv: "ref_inv r" and ok: "CHR '':'' \<notin> set t" "CHR '':'' \<notin> set s"
  shows "ref_inv (fst (RegisterExternalRef t s x i now r))"
proof (cases "RegisterExternalRef t s x i now r" rule: prod.exhaust)
  case (Pair r' res)
  then show ?thesis
  proof (cases rule: RegisterExternalRef_cases)
    case fresh
    let ?S = "ToUpper (TrimSpace s)" and ?new = "new_ref t s x i now"
    have colons: "CHR '':'' \<notin> set (TrimSpace t)" "CHR '':'' \<notin> set (ToUpper (TrimSpace ?S))"
      using ok by (auto dest!: ToUpper_colon set_TrimSpace [THEN subsetD])
    have "forwardMap r' k = Some ref \<Longrightarrow>
        k = makeForwardKey (er_TenantID ref) (er_ExternalSystem ref) (er_ExternalID ref) \<and>
        CHR '':'' \<notin> set (er_TenantID ref) \<and> CHR '':'' \<notin> set (ToUpper (TrimSpace (er_ExternalSystem ref))) \<and>
        TrimSpace (er_TenantID ref) = er_TenantID ref \<and> TrimSpace (er_ExternalID ref) = er_ExternalID ref \<and>
        TrimSpace (er_InternalID ref) = er_InternalID ref \<and>
        reverseMap r' (makeForwardKey (er_TenantID ref) (er_ExternalSystem ref) (er_InternalID ref)) = Some (er_ExternalID ref)"
      for k ref
    proof (cases "k = makeForwardKey t ?S x")
      case True
      assume "forwardMap r' k = Some ref"
      with True colons fresh(3) show ?thesis by (auto simp: new_ref_def)
    next
      case False
      assume "forwardMap r' k = Some ref"
      with False fresh(3) have old: "forwardMap r k = Some ref" by simp
      with inv have "reverseMap r (makeForwardKey (er_TenantID ref) (er_ExternalSystem ref) (er_InternalID ref)) =
          Some (er_ExternalID ref)" by (auto simp: ref_inv_def makeReverseKey_eq)
      with fresh(2,3) have "reverseMap r' (makeForwardKey (er_TenantID ref) (er_ExternalSystem ref) (er_InternalID ref)) =
          Some (er_ExternalID ref)" by auto
      with old inv show ?thesis by (simp add: ref_inv_def)
    qed
    moreover have "\<exists>ref. forwardMap r' (makeForwardKey (er_TenantID ref) (er_ExternalSystem ref) y) = Some ref \<and>
        er_ExternalID ref = y \<and> k = makeForwardKey (er_TenantID ref) (er_ExternalSystem ref) (er_InternalID ref)"
      if k: "reverseMap r' k = Some y" for k y
    proof (cases "k = makeForwardKey t ?S i")
      case True
      with k fresh(3) have "forwardMap r' (makeForwardKey (er_TenantID ?new) (er_ExternalSystem ?new) y) = Some ?new \<and>
          er_ExternalID ?new = y \<and> k = makeForwardKey (er_TenantID ?new) (er_ExternalSystem ?new) (er_InternalID ?new)"
        by (auto simp: new_ref_def)
      then show ?thesis by blast
    next
      case False
      with k fresh(3) have "reverseMap r k = Some y" by simp
      with inv obtain ref where "forwardMap r (makeForwardKey (er_TenantID ref) (er_ExternalSystem ref) y) = Some ref"
        "er_ExternalID ref = y" "k = makeForwardKey (er_TenantID ref) (er_ExternalSystem ref) (er_InternalID ref)"
        unfolding ref_inv_def makeReverseKey_eq by blast
      moreover from this(1) fresh(1,3)
      have "forwardMap r' (makeForwardKey (er_TenantID ref) (er_ExternalSystem ref) y) = Some ref" by auto
      ultimately show ?thesis by blast
    qed
    ultimately show ?thesis unfolding Pair fst_conv ref_inv_def makeReverseKey_eq by blast
  qed (use inv Pair in auto)
qed

interpretation ref_registry: api_machine exec_ref ref_inv ref_call_ok
proof unfold_locales
  fix r c
  assume "ref_inv r" "ref_call_ok c"
  then show "ref_inv (fst (exec_ref c r))" by (cases c) (simp add: RegisterExternalRef_inv)
qed

text \<open>Neither map ever loses or changes an entry.\<close>

lemma RegisterExternalRef_keeps:
  "forwardMap r k = Some ref \<Longrightarrow> forwardMap (fst (RegisterExternalRef t s x i now r)) k = Some ref"
  "reverseMap r k = Some y \<Longrightarrow> reverseMap (fst (RegisterExternalRef t s x i now r)) k = Some y"
  by (cases "RegisterExternalRef t s x i now r" rule: prod.exhaust; auto elim!: RegisterExternalRef_cases)+

interpretation ref_forward: absorbing exec_ref "\<lambda>_. True" "\<lambda>_. True" "\<lambda>k r. forwardMap r k" "\<lambda>_. True"
proof unfold_locales
  fix r :: ExternalRefRegistry and c k v
  assume "forwardMap r k = Some v"
  then show "forwardMap (fst (exec_ref c r)) k = Some v" by (cases c) (simp add: RegisterExternalRef_keeps)
qed simp

interpretation ref_reverse: absorbing exec_ref "\<lambda>_. True" "\<lambda>_. True" "\<lambda>k r. reverseMap r k" "\<lambda>_. True"
proof unfold_locales
  fix r :: ExternalRefRegistry and c k v
  assume "reverseMap r k = Some v"
  then show "reverseMap (fst (exec_ref c r)) k = Some v" by (cases c) (simp add: RegisterExternalRef_keeps)
qed

lemma resolve_inverse:
  assumes inv: "ref_inv r" and t: "TrimSpace t \<noteq> []" "CHR '':'' \<notin> set t" "CHR '':'' \<notin> set s"
  shows "ResolveExternalRef t s x r = Inr (TrimSpace i) \<longleftrightarrow> ResolveInternal t s i r = Inr (TrimSpace x)"
proof -
  let ?S = "ToUpper (TrimSpace s)"
  have colons: "CHR '':'' \<notin> set (TrimSpace t)" "CHR '':'' \<notin> set (ToUpper (TrimSpace ?S))"
    using t by (auto dest!: ToUpper_colon set_TrimSpace [THEN subsetD])
  have same: "TrimSpace (er_TenantID ref) = TrimSpace t \<and> ToUpper (TrimSpace (er_ExternalSystem ref)) = ToUpper (TrimSpace ?S) \<and>
      TrimSpace y = TrimSpace z"
    if "forwardMap r k = Some ref" "makeForwardKey (TrimSpace t) ?S y = makeForwardKey (er_TenantID ref) (er_ExternalSystem ref) z"
    for k ref y z
    using that inv colons makeForwardKey_inject [of "TrimSpace t" "er_TenantID ref" ?S "er_ExternalSystem ref" y z]
    unfolding ref_inv_def by (metis TrimSpace_idem)
  show ?thesis
  proof
    assume "ResolveExternalRef t s x r = Inr (TrimSpace i)"
    then obtain ref where ref: "forwardMap r (makeForwardKey (TrimSpace t) ?S (TrimSpace x)) = Some ref"
      and i: "er_InternalID ref = TrimSpace i"
      by (auto simp: ResolveExternalRef_def Let_def split: if_splits option.splits)
    from inv ref have f: "makeForwardKey (TrimSpace t) ?S (TrimSpace x) =
        makeForwardKey (er_TenantID ref) (er_ExternalSystem ref) (er_ExternalID ref)"
      and rev: "reverseMap r (makeForwardKey (er_TenantID ref) (er_ExternalSystem ref) (TrimSpace i)) = Some (er_ExternalID ref)"
      and trim: "TrimSpace (er_ExternalID ref) = er_ExternalID ref"
      using i unfolding ref_inv_def makeReverseKey_eq by metis+
    from same [OF ref f] trim
    have "makeForwardKey (er_TenantID ref) (er_ExternalSystem ref) (TrimSpace i) = makeForwardKey (TrimSpace t) ?S (TrimSpace i)"
      and "er_ExternalID ref = TrimSpace x" by (simp_all add: makeForwardKey_def)
    with rev t(1) show "ResolveInternal t s i r = Inr (TrimSpace x)"
      by (simp add: ResolveInternal_def makeReverseKey_eq)
  next
    assume "ResolveInternal t s i r = Inr (TrimSpace x)"
    then have "reverseMap r (makeForwardKey (TrimSpace t) ?S (TrimSpace i)) = Some (TrimSpace x)"
      by (auto simp: ResolveInternal_def makeReverseKey_eq Let_def split: if_splits option.splits)
    with inv obtain ref where ref: "forwardMap r (makeForwardKey (er_TenantID ref) (er_ExternalSystem ref) (TrimSpace x)) = Some ref"
      and f: "makeForwardKey (TrimSpace t) ?S (TrimSpace i) =
        makeForwardKey (er_TenantID ref) (er_ExternalSystem ref) (er_InternalID ref)"
      unfolding ref_inv_def makeReverseKey_eq by blast
    have trim: "TrimSpace (er_InternalID ref) = er_InternalID ref" "TrimSpace (er_TenantID ref) = er_TenantID ref"
      using inv ref unfolding ref_inv_def by metis+
    from same [OF ref f] trim
    have "makeForwardKey (er_TenantID ref) (er_ExternalSystem ref) (TrimSpace x) = makeForwardKey (TrimSpace t) ?S (TrimSpace x)"
      and "er_InternalID ref = TrimSpace i" and "er_TenantID ref = TrimSpace t"
      by (simp_all add: makeForwardKey_def)
    with ref t(1) show "ResolveExternalRef t s x r = Inr (TrimSpace i)"
      by (simp add: ResolveExternalRef_def)
  qed
qed

subsection \<open>Properties\<close>

text \<open>
  In every state the registry of external references can reach (tenants and systems named without a
  colon), resolving an external identifier yields an internal one exactly when resolving that internal
  identifier yields the external one back: within a tenant and a system the registry is a partial bijection.
\<close>

theorem external_refs_bijective:
  assumes "list_all ref_call_ok cs" and "TrimSpace t \<noteq> []" and "CHR '':'' \<notin> set t" and "CHR '':'' \<notin> set s"
  shows "let r = run_calls exec_ref cs NewExternalRefRegistry
    in ResolveExternalRef t s x r = Inr (TrimSpace i) \<longleftrightarrow> ResolveInternal t s i r = Inr (TrimSpace x)"
  using assms by (simp add: resolve_inverse ref_registry.run_inv)

theorem external_refs_bijective_witness:
  "let r = run_calls exec_ref [RegisterRef ''ten_1'' ''sap'' ''EXT-77'' ''cmp_1'' 5] NewExternalRefRegistry
   in ResolveExternalRef ''ten_1'' ''SAP'' '' EXT-77 '' r = Inr ''cmp_1'' \<and>
      ResolveInternal ''ten_1'' ''Sap'' ''cmp_1'' r = Inr ''EXT-77''"
proof -
  have 1: "ResolveExternalRef ''ten_1'' ''SAP'' '' EXT-77 ''
      (run_calls exec_ref [RegisterRef ''ten_1'' ''sap'' ''EXT-77'' ''cmp_1'' 5] NewExternalRefRegistry) = Inr ''cmp_1''"
    by code_simp
  have 2: "ResolveInternal ''ten_1'' ''SAP'' ''cmp_1'' = ResolveInternal ''ten_1'' ''Sap'' ''cmp_1''"
    by (simp add: ResolveInternal_def fun_eq_iff)
  have "list_all ref_call_ok [RegisterRef ''ten_1'' ''sap'' ''EXT-77'' ''cmp_1'' 5]" "TrimSpace '' EXT-77 '' = ''EXT-77''"
    by code_simp+
  with external_refs_bijective [of "[RegisterRef ''ten_1'' ''sap'' ''EXT-77'' ''cmp_1'' 5]" "''ten_1''" "''SAP''" "'' EXT-77 ''" "''cmp_1''"] 1
  show ?thesis by (simp add: Let_def flip: 2)
qed

text \<open>
  An operation guarded by the idempotency store happens once: after a successful
  \<open>EvaluateOrCreate\<close>, whatever other calls happen in between, the same tenant and key with the same
  payload replay the recorded resource and with another valid payload are a conflict; in both
  cases the callback is not run and nothing changes.
\<close>

theorem idempotent_exactly_once:
  assumes "EvaluateOrCreate tenantID key digest createFn now sw = (sw', Inr (res, replay))"
    and "ValidateDigest digest' = None"
  shows "let sw'' = run_calls exec_idem cs sw'
    in EvaluateOrCreate tenantID key digest' (Some create) now' sw'' =
         (sw'', if TrimSpace digest' = TrimSpace digest then Inr (res, True) else Inl (IdErr ErrIdempotencyConflict))"
proof -
  from EvaluateOrCreate_success [OF assms(1)] obtain existing where
    e: "ids_records (fst sw') (makeIdempotencyKey tenantID key) = Some existing"
       "ic_PayloadDigest existing = TrimSpace digest" "ic_ResourceID existing = res"
    and nonblank: "TrimSpace tenantID \<noteq> []" "TrimSpace key \<noteq> []" by blast
  from e(1) have "ids_records (fst (run_calls exec_idem cs sw')) (makeIdempotencyKey tenantID key) = Some existing"
    using idem_store.run_final [where s = sw'] by simp
  with e(2,3) nonblank assms(2) show ?thesis
    by (cases "run_calls exec_idem cs sw'") (auto simp: EvaluateOrCreate_existing)
qed

definition idem_example :: "IdempotencyStore \<times> nat" where
  "idem_example = fst (EvaluateOrCreate ''ten_1'' ''order-9'' (replicate 64 (CHR ''a''))
     (Some (\<lambda>n. (n + 1, Inr ''res_1''))) 5 (NewIdempotencyStore, 0 :: nat))"

theorem idempotent_exactly_once_witness:
  "EvaluateOrCreate '' ten_1'' ''order-9'' (replicate 64 (CHR ''a'')) (Some (\<lambda>n. (n + 1, Inr ''res_2''))) 6 idem_example =
     (idem_example, Inr (''res_1'', True))"
proof -
  have "snd (EvaluateOrCreate ''ten_1'' ''order-9'' (replicate 64 (CHR ''a''))
      (Some (\<lambda>n. (n + 1, Inr ''res_1''))) 5 (NewIdempotencyStore, 0 :: nat)) = Inr (''res_1'', False)"
    and "ValidateDigest (replicate 64 (CHR ''a'')) = None" by code_simp+
  then have "EvaluateOrCreate ''ten_1'' ''order-9'' (replicate 64 (CHR ''a'')) (Some (\<lambda>n. (n + 1, Inr ''res_2''))) 6 idem_example =
     (idem_example, Inr (''res_1'', True))"
    using idempotent_exactly_once [of "''ten_1''" "''order-9''" "replicate 64 (CHR ''a'')" "Some (\<lambda>n. (n + 1, Inr ''res_1''))"
      5 "(NewIdempotencyStore, 0)" idem_example "''res_1''" False "replicate 64 (CHR ''a'')" "[]" "\<lambda>n. (n + 1, Inr ''res_2'')" 6]
    by (simp add: idem_example_def prod_eq_iff Let_def)
  moreover have "TrimSpace '' ten_1'' = TrimSpace ''ten_1''" by code_simp
  ultimately show ?thesis by (simp only: EvaluateOrCreate_def)
qed

text \<open>
  A generated identifier is accepted by the validator: sixteen random bytes under a printable
  prefix without an underscore give a canonical identifier of that prefix.
\<close>

theorem generated_id_valid:
  assumes "GenerateCanonicalID (Some b) pfx = Inr ident" and "16 \<le> length b"
    and "list_all graphic pfx" and "CHR ''_'' \<notin> set pfx"
  shows "ValidateCanonicalID ident pfx = None"
proof -
  have "pfx \<noteq> []" and ident: "ident = pfx @ CHR ''_'' # EncodeToString b"
    using assms by (auto simp: GenerateCanonicalID_def Let_def TrimSpace_all_graphic split: if_splits)
  moreover have "list_all graphic ident"
    using assms(3) by (simp add: ident EncodeToString_bytes graphic_def)
  ultimately show ?thesis
    using assms by (auto simp: ValidateCanonicalID_None TrimSpace_all_graphic EncodeToString_bytes)
qed

text \<open>
  A tenant context is derived exactly from authenticated claims with a nonblank tenant and no client
  override, and it authorizes exactly its own tenant.
\<close>

theorem derived_context_scope:
  "DeriveTenantContext claims override = Inr c \<longleftrightarrow>
     (\<exists>cl. claims = Some cl \<and> cl_IsAuthenticated cl \<and> TrimSpace (cl_TenantID cl) \<noteq> [] \<and>
        (\<forall>ov. override = Some ov \<longrightarrow> TrimSpace (ov_TenantID ov) = []) \<and>
        c = \<lparr>tc_tenantID = TrimSpace (cl_TenantID cl), tc_companyID = TrimSpace (cl_CompanyID cl),
             tc_siteID = TrimSpace (cl_SiteID cl), tc_subject = TrimSpace (cl_Subject cl)\<rparr>)"
  by (auto simp: DeriveTenantContext_def split: option.splits)

lemma AuthorizeTenantScope_None:
  "AuthorizeTenantScope c target = None \<longleftrightarrow> tc_tenantID c \<noteq> [] \<and> tc_tenantID c = TrimSpace target"
  by (auto simp: AuthorizeTenantScope_def Let_def)

text \<open>
  The reverse lookup has no tenant check: when the parts of two keys join to the same string, a tenant
  reads the external identifier another tenant registered, which the forward lookup refuses.
\<close>

theorem reverse_lookup_crosses_tenants:
  "let r = run_calls exec_ref [RegisterRef ''ten_1:SAP'' ''X'' ''EXT-77'' ''cmp_1'' 5] NewExternalRefRegistry
   in ResolveInternal ''ten_1'' ''SAP:X'' ''cmp_1'' r = Inr ''EXT-77'' \<and>
      ResolveExternalRef ''ten_1'' ''SAP:X'' ''EXT-77'' r = Inl (IdErr ErrCrossTenantMapping)"
  by code_simp

end
