(* ===== verification/Org_Hierarchy.thy ===== *)
theory Org_Hierarchy
  imports Org_Identity
begin

text \<open>
  The organisation hierarchy of \<open>modules/organization-tenancy\<close>: \<open>organization_hierarchy.go\<close> (companies,
  business units, projects, sites, areas and sponsored parties as immutable values, their
  constructors and resolved scopes) and \<open>organization_lifecycle.go\<close> (closing, moving and the historical
  record). A Go value of such a type is a record; the getters are its selectors. A lifecycle state is a
  string in Go, and a value made without a constructor has the empty one: \<open>StateOther\<close>.

  \<open>time.LoadLocation\<close> asks the host's time zone database: it is the argument \<open>load_location\<close>, true for the
  names it knows. Clock readings are arguments; \<open>nanos\<close> is the value of \<open>UnixNano\<close> that goes into a record
  identifier.
\<close>

subsection \<open>Definitions\<close>

definition DefaultTimeZone :: string where "DefaultTimeZone = ''Asia/Bangkok''"
definition DefaultLocale :: string where "DefaultLocale = ''th-TH''"
definition DefaultNonAuthorityScopeNotice :: string where
  "DefaultNonAuthorityScopeNotice = ''DERIVED_OUTPUT_NON_AUTHORITY: Resolved hierarchy scopes are descriptive projections only and never grant lateral, upward, or implicit operational authority.''"

datatype LifecycleState = StateActive | StateArchived | StateClosed | StateOther string

definition knownCanonicalPrefixes :: "string list" where
  "knownCanonicalPrefixes =
     [PrefixTenant, PrefixCompany, PrefixBusinessUnit, PrefixProject, PrefixSite, PrefixArea, PrefixParty,
      PrefixUser, PrefixCorrelation, PrefixCausation, PrefixIdempotency, PrefixExternalRef]"

definition ValidateTimeZone :: "(string \<Rightarrow> bool) \<Rightarrow> string \<Rightarrow> org_error option" where
  "ValidateTimeZone load_location tz =
     (let trimmed = TrimSpace tz in
      if trimmed = [] then None
      else if \<not> load_location trimmed then Some (HierErr ErrInvalidTimeZone)
      else None)"

definition alnum_byte :: "char \<Rightarrow> bool" where
  "alnum_byte c \<longleftrightarrow>
     (97::nat) \<le> of_char c \<and> (of_char c :: nat) \<le> 122 \<or> (65::nat) \<le> of_char c \<and> (of_char c :: nat) \<le> 90 \<or>
     (48::nat) \<le> of_char c \<and> (of_char c :: nat) \<le> 57"

definition ValidateLocale :: "string \<Rightarrow> org_error option" where
  "ValidateLocale loc =
     (let trimmed = TrimSpace loc; parts = Split (CHR ''-'') trimmed in
      if trimmed = [] then None
      else if parts = [] \<or> 3 < length parts then Some (HierErr ErrInvalidLocale)
      else if list_ex (\<lambda>p. p = [] \<or> \<not> list_all alnum_byte p) parts then Some (HierErr ErrInvalidLocale)
      else None)"

text \<open>The part that \<open>validateEntityID\<close> and \<open>validateTenantID\<close> share word for word.\<close>

definition validate_prefixed :: "string \<Rightarrow> string \<Rightarrow> org_error option" where
  "validate_prefixed trimmed expectedPrefix =
     (case IndexByte trimmed (CHR ''_'') of
        None \<Rightarrow> None
      | Some idx \<Rightarrow>
          if idx = 0 \<or> idx = length trimmed - 1 then Some (IdErr ErrMalformedIdentifier)
          else if take idx trimmed \<in> set knownCanonicalPrefixes \<and> take idx trimmed \<noteq> expectedPrefix
          then Some (IdErr ErrPrefixMismatch)
          else if \<not> list_all id_byte (drop (idx + 1) trimmed) then Some (IdErr ErrInvalidCharacters)
          else None)"

definition validateEntityID :: "string \<Rightarrow> string \<Rightarrow> org_error option" where
  "validateEntityID ident expectedPrefix =
     (let trimmed = TrimSpace ident in
      if trimmed = [] then Some (HierErr ErrBlankID) else validate_prefixed trimmed expectedPrefix)"

definition validateTenantID :: "string \<Rightarrow> org_error option" where
  "validateTenantID tenantID =
     (let trimmed = TrimSpace tenantID in
      if trimmed = [] then Some (HierErr ErrBlankTenantID) else validate_prefixed trimmed PrefixTenant)"

record Company =
  co_tenantID :: string
  co_companyID :: string
  co_name :: string
  co_state :: LifecycleState

definition Company_Archive :: "Company \<Rightarrow> Company" where
  "Company_Archive c = c\<lparr>co_state := StateArchived\<rparr>"

definition Company_ValidateScope :: "Company \<Rightarrow> TenantContext \<Rightarrow> org_error option" where
  "Company_ValidateScope c ctx = AuthorizeTenantScope ctx (co_tenantID c)"

definition NewCompany :: "string \<Rightarrow> string \<Rightarrow> string \<Rightarrow> org_error + Company" where
  "NewCompany tenantID companyID name =
     (case validateTenantID tenantID of Some e \<Rightarrow> Inl e | None \<Rightarrow>
      case validateEntityID companyID PrefixCompany of Some e \<Rightarrow> Inl e | None \<Rightarrow>
      if TrimSpace name = [] then Inl (HierErr ErrBlankName)
      else Inr \<lparr>co_tenantID = TrimSpace tenantID, co_companyID = TrimSpace companyID,
                co_name = TrimSpace name, co_state = StateActive\<rparr>)"

record BusinessUnit =
  bu_tenantID :: string
  bu_companyID :: string
  bu_businessUnitID :: string
  bu_name :: string
  bu_state :: LifecycleState

definition BusinessUnit_Archive :: "BusinessUnit \<Rightarrow> BusinessUnit" where
  "BusinessUnit_Archive b = b\<lparr>bu_state := StateArchived\<rparr>"

definition BusinessUnit_ValidateScope :: "BusinessUnit \<Rightarrow> TenantContext \<Rightarrow> org_error option" where
  "BusinessUnit_ValidateScope b ctx = AuthorizeTenantScope ctx (bu_tenantID b)"

definition NewBusinessUnit :: "Company \<Rightarrow> string \<Rightarrow> string \<Rightarrow> org_error + BusinessUnit" where
  "NewBusinessUnit company businessUnitID name =
     (if co_tenantID company = [] \<or> co_companyID company = [] then Inl (HierErr ErrParentMismatch)
      else if co_state company \<noteq> StateActive then Inl (HierErr ErrParentArchived)
      else case validateEntityID businessUnitID PrefixBusinessUnit of Some e \<Rightarrow> Inl e | None \<Rightarrow>
      if TrimSpace name = [] then Inl (HierErr ErrBlankName)
      else Inr \<lparr>bu_tenantID = co_tenantID company, bu_companyID = co_companyID company,
                bu_businessUnitID = TrimSpace businessUnitID, bu_name = TrimSpace name, bu_state = StateActive\<rparr>)"

record Project =
  pj_tenantID :: string
  pj_companyID :: string
  pj_businessUnitID :: string
  pj_projectID :: string
  pj_name :: string
  pj_state :: LifecycleState

definition Project_Archive :: "Project \<Rightarrow> Project" where
  "Project_Archive p = p\<lparr>pj_state := StateArchived\<rparr>"

definition Project_ValidateScope :: "Project \<Rightarrow> TenantContext \<Rightarrow> org_error option" where
  "Project_ValidateScope p ctx = AuthorizeTenantScope ctx (pj_tenantID p)"

definition NewProjectUnderBusinessUnit :: "BusinessUnit \<Rightarrow> string \<Rightarrow> string \<Rightarrow> org_error + Project" where
  "NewProjectUnderBusinessUnit bu projectID name =
     (if bu_tenantID bu = [] \<or> bu_companyID bu = [] \<or> bu_businessUnitID bu = [] then Inl (HierErr ErrParentMismatch)
      else if bu_state bu \<noteq> StateActive then Inl (HierErr ErrParentArchived)
      else case validateEntityID projectID PrefixProject of Some e \<Rightarrow> Inl e | None \<Rightarrow>
      if TrimSpace name = [] then Inl (HierErr ErrBlankName)
      else Inr \<lparr>pj_tenantID = bu_tenantID bu, pj_companyID = bu_companyID bu, pj_businessUnitID = bu_businessUnitID bu,
                pj_projectID = TrimSpace projectID, pj_name = TrimSpace name, pj_state = StateActive\<rparr>)"

definition NewProject :: "Company \<Rightarrow> string \<Rightarrow> string \<Rightarrow> org_error + Project" where
  "NewProject company projectID name =
     (if co_tenantID company = [] \<or> co_companyID company = [] then Inl (HierErr ErrParentMismatch)
      else if co_state company \<noteq> StateActive then Inl (HierErr ErrParentArchived)
      else case validateEntityID projectID PrefixProject of Some e \<Rightarrow> Inl e | None \<Rightarrow>
      if TrimSpace name = [] then Inl (HierErr ErrBlankName)
      else Inr \<lparr>pj_tenantID = co_tenantID company, pj_companyID = co_companyID company, pj_businessUnitID = [],
                pj_projectID = TrimSpace projectID, pj_name = TrimSpace name, pj_state = StateActive\<rparr>)"

record Site =
  st_tenantID :: string
  st_companyID :: string
  st_businessUnitID :: string
  st_projectID :: string
  st_siteID :: string
  st_name :: string
  st_timeZone :: string
  st_locale :: string
  st_state :: LifecycleState

definition Site_TimeZone :: "Site \<Rightarrow> string" where
  "Site_TimeZone s = (if st_timeZone s = [] then DefaultTimeZone else st_timeZone s)"

definition Site_Locale :: "Site \<Rightarrow> string" where
  "Site_Locale s = (if st_locale s = [] then DefaultLocale else st_locale s)"

definition Site_Archive :: "Site \<Rightarrow> Site" where
  "Site_Archive s = s\<lparr>st_state := StateArchived\<rparr>"

definition Site_ValidateScope :: "Site \<Rightarrow> TenantContext \<Rightarrow> org_error option" where
  "Site_ValidateScope s ctx = AuthorizeTenantScope ctx (st_tenantID s)"

definition ValidateParentProject :: "Site \<Rightarrow> string \<Rightarrow> org_error option" where
  "ValidateParentProject s expectedProjectID =
     (if st_projectID s \<noteq> TrimSpace expectedProjectID then Some (HierErr ErrProjectSiteMismatch) else None)"

text \<open>The block that chooses and validates a time zone or a locale, with what stands for a blank one.\<close>

definition choose_setting :: "(string \<Rightarrow> org_error option) \<Rightarrow> string \<Rightarrow> string \<Rightarrow> org_error + string" where
  "choose_setting validate fallback requested =
     (let v = TrimSpace requested in
      if v = [] then Inr fallback else case validate v of Some e \<Rightarrow> Inl e | None \<Rightarrow> Inr v)"

definition NewSiteWithLocale ::
  "(string \<Rightarrow> bool) \<Rightarrow> Project \<Rightarrow> string \<Rightarrow> string \<Rightarrow> string \<Rightarrow> string \<Rightarrow> org_error + Site" where
  "NewSiteWithLocale load_location project siteID name timeZone loc =
     (if pj_tenantID project = [] \<or> pj_companyID project = [] \<or> pj_projectID project = [] then Inl (HierErr ErrParentMismatch)
      else if pj_state project \<noteq> StateActive then Inl (HierErr ErrParentArchived)
      else case validateEntityID siteID PrefixSite of Some e \<Rightarrow> Inl e | None \<Rightarrow>
      if TrimSpace name = [] then Inl (HierErr ErrBlankName)
      else case choose_setting (ValidateTimeZone load_location) DefaultTimeZone timeZone of Inl e \<Rightarrow> Inl e | Inr tz \<Rightarrow>
      case choose_setting ValidateLocale DefaultLocale loc of Inl e \<Rightarrow> Inl e | Inr lc \<Rightarrow>
        Inr \<lparr>st_tenantID = pj_tenantID project, st_companyID = pj_companyID project,
             st_businessUnitID = pj_businessUnitID project, st_projectID = pj_projectID project,
             st_siteID = TrimSpace siteID, st_name = TrimSpace name, st_timeZone = tz, st_locale = lc,
             st_state = StateActive\<rparr>)"

definition NewSite :: "(string \<Rightarrow> bool) \<Rightarrow> Project \<Rightarrow> string \<Rightarrow> string \<Rightarrow> org_error + Site" where
  "NewSite load_location project siteID name =
     NewSiteWithLocale load_location project siteID name DefaultTimeZone DefaultLocale"

record Area =
  ar_tenantID :: string
  ar_companyID :: string
  ar_businessUnitID :: string
  ar_projectID :: string
  ar_siteID :: string
  ar_areaID :: string
  ar_name :: string
  ar_timeZone :: string
  ar_locale :: string
  ar_state :: LifecycleState

definition Area_Archive :: "Area \<Rightarrow> Area" where
  "Area_Archive a = a\<lparr>ar_state := StateArchived\<rparr>"

definition Area_ValidateScope :: "Area \<Rightarrow> TenantContext \<Rightarrow> org_error option" where
  "Area_ValidateScope a ctx = AuthorizeTenantScope ctx (ar_tenantID a)"

definition ValidateParentSite :: "Area \<Rightarrow> string \<Rightarrow> org_error option" where
  "ValidateParentSite a expectedSiteID =
     (if ar_siteID a \<noteq> TrimSpace expectedSiteID then Some (HierErr ErrParentMismatch) else None)"

definition NewAreaWithLocale ::
  "(string \<Rightarrow> bool) \<Rightarrow> Site \<Rightarrow> string \<Rightarrow> string \<Rightarrow> string \<Rightarrow> string \<Rightarrow> org_error + Area" where
  "NewAreaWithLocale load_location site areaID name timeZone loc =
     (if st_tenantID site = [] \<or> st_companyID site = [] \<or> st_projectID site = [] \<or> st_siteID site = []
      then Inl (HierErr ErrParentMismatch)
      else if st_state site \<noteq> StateActive then Inl (HierErr ErrParentArchived)
      else case validateEntityID areaID PrefixArea of Some e \<Rightarrow> Inl e | None \<Rightarrow>
      if TrimSpace name = [] then Inl (HierErr ErrBlankName)
      else case choose_setting (ValidateTimeZone load_location) (Site_TimeZone site) timeZone of Inl e \<Rightarrow> Inl e | Inr tz \<Rightarrow>
      case choose_setting ValidateLocale (Site_Locale site) loc of Inl e \<Rightarrow> Inl e | Inr lc \<Rightarrow>
        Inr \<lparr>ar_tenantID = st_tenantID site, ar_companyID = st_companyID site,
             ar_businessUnitID = st_businessUnitID site, ar_projectID = st_projectID site,
             ar_siteID = st_siteID site, ar_areaID = TrimSpace areaID, ar_name = TrimSpace name,
             ar_timeZone = tz, ar_locale = lc, ar_state = StateActive\<rparr>)"

definition NewArea :: "(string \<Rightarrow> bool) \<Rightarrow> Site \<Rightarrow> string \<Rightarrow> string \<Rightarrow> org_error + Area" where
  "NewArea load_location site areaID name = NewAreaWithLocale load_location site areaID name [] []"

record SponsoredParty =
  sp_tenantID :: string
  sp_partyID :: string
  sp_companyName :: string
  sp_sponsorID :: string
  sp_projectID :: string
  sp_siteID :: string
  sp_validFrom :: gotime
  sp_validTo :: gotime
  sp_state :: LifecycleState

definition SponsoredParty_Archive :: "SponsoredParty \<Rightarrow> SponsoredParty" where
  "SponsoredParty_Archive sp = sp\<lparr>sp_state := StateArchived\<rparr>"

definition SponsoredParty_ValidateScope :: "SponsoredParty \<Rightarrow> TenantContext \<Rightarrow> org_error option" where
  "SponsoredParty_ValidateScope sp ctx = AuthorizeTenantScope ctx (sp_tenantID sp)"

definition SponsoredParty_IsValidAt :: "SponsoredParty \<Rightarrow> gotime \<Rightarrow> bool" where
  "SponsoredParty_IsValidAt sp t \<longleftrightarrow>
     (if sp_state sp \<noteq> StateActive then False else \<not> t < sp_validFrom sp \<and> \<not> After t (sp_validTo sp))"

definition NewSponsoredParty ::
  "Site \<Rightarrow> string \<Rightarrow> string \<Rightarrow> string \<Rightarrow> gotime \<Rightarrow> gotime \<Rightarrow> org_error + SponsoredParty" where
  "NewSponsoredParty site partyID companyName sponsorID validFrom validTo =
     (if st_tenantID site = [] \<or> st_siteID site = [] \<or> st_projectID site = [] then Inl (HierErr ErrParentMismatch)
      else if st_state site \<noteq> StateActive then Inl (HierErr ErrParentArchived)
      else if TrimSpace partyID = [] then Inl (HierErr ErrBlankID)
      else if TrimSpace companyName = [] then Inl (HierErr ErrBlankName)
      else if TrimSpace sponsorID = [] then Inl (HierErr ErrBlankSponsorID)
      else if validTo < validFrom \<or> validTo = validFrom then Inl (HierErr ErrInvalidTimeWindow)
      else case validateEntityID (TrimSpace partyID) PrefixParty of Some e \<Rightarrow> Inl e | None \<Rightarrow>
        Inr \<lparr>sp_tenantID = st_tenantID site, sp_partyID = TrimSpace partyID, sp_companyName = TrimSpace companyName,
             sp_sponsorID = TrimSpace sponsorID, sp_projectID = st_projectID site, sp_siteID = st_siteID site,
             sp_validFrom = validFrom, sp_validTo = validTo, sp_state = StateActive\<rparr>)"

record ResolvedScope =
  rs_TenantID :: string
  rs_CompanyID :: string
  rs_BusinessUnitID :: string
  rs_ProjectID :: string
  rs_SiteID :: string
  rs_AreaID :: string
  rs_TimeZone :: string
  rs_Locale :: string
  rs_CanonicalPath :: string
  rs_NonAuthorityNotice :: string

definition ResolvedScope_ValidateScope :: "ResolvedScope \<Rightarrow> TenantContext \<Rightarrow> org_error option" where
  "ResolvedScope_ValidateScope rs ctx = AuthorizeTenantScope ctx (rs_TenantID rs)"

text \<open>The format strings of the canonical paths, \<open>"%s/%s/\<dots>"\<close>.\<close>

fun path :: "string list \<Rightarrow> string" where
  "path [] = []"
| "path [p] = p"
| "path (p # ps) = p @ ''/'' @ path ps"

definition Company_ResolveScope :: "Company \<Rightarrow> ResolvedScope" where
  "Company_ResolveScope c =
     \<lparr>rs_TenantID = co_tenantID c, rs_CompanyID = co_companyID c, rs_BusinessUnitID = [], rs_ProjectID = [],
      rs_SiteID = [], rs_AreaID = [], rs_TimeZone = [], rs_Locale = [],
      rs_CanonicalPath = path [co_tenantID c, co_companyID c],
      rs_NonAuthorityNotice = DefaultNonAuthorityScopeNotice\<rparr>"

definition BusinessUnit_ResolveScope :: "BusinessUnit \<Rightarrow> ResolvedScope" where
  "BusinessUnit_ResolveScope b =
     \<lparr>rs_TenantID = bu_tenantID b, rs_CompanyID = bu_companyID b, rs_BusinessUnitID = bu_businessUnitID b,
      rs_ProjectID = [], rs_SiteID = [], rs_AreaID = [], rs_TimeZone = [], rs_Locale = [],
      rs_CanonicalPath = path [bu_tenantID b, bu_companyID b, bu_businessUnitID b],
      rs_NonAuthorityNotice = DefaultNonAuthorityScopeNotice\<rparr>"

definition Project_ResolveScope :: "Project \<Rightarrow> ResolvedScope" where
  "Project_ResolveScope p =
     \<lparr>rs_TenantID = pj_tenantID p, rs_CompanyID = pj_companyID p, rs_BusinessUnitID = pj_businessUnitID p,
      rs_ProjectID = pj_projectID p, rs_SiteID = [], rs_AreaID = [], rs_TimeZone = [], rs_Locale = [],
      rs_CanonicalPath =
        (if pj_businessUnitID p \<noteq> []
         then path [pj_tenantID p, pj_companyID p, pj_businessUnitID p, pj_projectID p]
         else path [pj_tenantID p, pj_companyID p, pj_projectID p]),
      rs_NonAuthorityNotice = DefaultNonAuthorityScopeNotice\<rparr>"

definition Site_ResolveScope :: "Site \<Rightarrow> ResolvedScope" where
  "Site_ResolveScope s =
     \<lparr>rs_TenantID = st_tenantID s, rs_CompanyID = st_companyID s, rs_BusinessUnitID = st_businessUnitID s,
      rs_ProjectID = st_projectID s, rs_SiteID = st_siteID s, rs_AreaID = [],
      rs_TimeZone = Site_TimeZone s, rs_Locale = Site_Locale s,
      rs_CanonicalPath =
        (if st_businessUnitID s \<noteq> []
         then path [st_tenantID s, st_companyID s, st_businessUnitID s, st_projectID s, st_siteID s]
         else path [st_tenantID s, st_companyID s, st_projectID s, st_siteID s]),
      rs_NonAuthorityNotice = DefaultNonAuthorityScopeNotice\<rparr>"

definition Area_ResolveScope :: "Area \<Rightarrow> ResolvedScope" where
  "Area_ResolveScope a =
     \<lparr>rs_TenantID = ar_tenantID a, rs_CompanyID = ar_companyID a, rs_BusinessUnitID = ar_businessUnitID a,
      rs_ProjectID = ar_projectID a, rs_SiteID = ar_siteID a, rs_AreaID = ar_areaID a,
      rs_TimeZone = ar_timeZone a, rs_Locale = ar_locale a,
      rs_CanonicalPath =
        (if ar_businessUnitID a \<noteq> []
         then path [ar_tenantID a, ar_companyID a, ar_businessUnitID a, ar_projectID a, ar_siteID a, ar_areaID a]
         else path [ar_tenantID a, ar_companyID a, ar_projectID a, ar_siteID a, ar_areaID a]),
      rs_NonAuthorityNotice = DefaultNonAuthorityScopeNotice\<rparr>"

definition SponsoredParty_ResolveScope :: "SponsoredParty \<Rightarrow> ResolvedScope" where
  "SponsoredParty_ResolveScope sp =
     \<lparr>rs_TenantID = sp_tenantID sp, rs_CompanyID = [], rs_BusinessUnitID = [], rs_ProjectID = sp_projectID sp,
      rs_SiteID = sp_siteID sp, rs_AreaID = [], rs_TimeZone = [], rs_Locale = [],
      rs_CanonicalPath = path [sp_tenantID sp, sp_projectID sp, sp_siteID sp, sp_partyID sp],
      rs_NonAuthorityNotice = DefaultNonAuthorityScopeNotice\<rparr>"

text \<open>\<open>organization_lifecycle.go\<close>\<close>

definition Company_Close :: "Company \<Rightarrow> org_error + Company" where
  "Company_Close c =
     (if co_state c = StateArchived then Inl (HierErr ErrEntityArchived) else Inr (c\<lparr>co_state := StateClosed\<rparr>))"

definition BusinessUnit_Close :: "BusinessUnit \<Rightarrow> org_error + BusinessUnit" where
  "BusinessUnit_Close b =
     (if bu_state b = StateArchived then Inl (HierErr ErrEntityArchived) else Inr (b\<lparr>bu_state := StateClosed\<rparr>))"

definition Project_Close :: "Project \<Rightarrow> org_error + Project" where
  "Project_Close p =
     (if pj_state p = StateArchived then Inl (HierErr ErrEntityArchived) else Inr (p\<lparr>pj_state := StateClosed\<rparr>))"

definition Site_Close :: "Site \<Rightarrow> org_error + Site" where
  "Site_Close s =
     (if st_state s = StateArchived then Inl (HierErr ErrEntityArchived) else Inr (s\<lparr>st_state := StateClosed\<rparr>))"

definition Area_Close :: "Area \<Rightarrow> org_error + Area" where
  "Area_Close a =
     (if ar_state a = StateArchived then Inl (HierErr ErrEntityArchived) else Inr (a\<lparr>ar_state := StateClosed\<rparr>))"

definition SponsoredParty_Close :: "SponsoredParty \<Rightarrow> org_error + SponsoredParty" where
  "SponsoredParty_Close sp =
     (if sp_state sp = StateArchived then Inl (HierErr ErrEntityArchived) else Inr (sp\<lparr>sp_state := StateClosed\<rparr>))"

fun AssertOperationalActive :: "LifecycleState \<Rightarrow> org_error option" where
  "AssertOperationalActive StateActive = None"
| "AssertOperationalActive StateClosed = Some (LifeErr ErrEntityClosed)"
| "AssertOperationalActive StateArchived = Some (HierErr ErrEntityArchived)"
| "AssertOperationalActive (StateOther _) = Some (LifeErr ErrActiveRecordRejected)"

fun AssertParentOperationalActive :: "LifecycleState \<Rightarrow> org_error option" where
  "AssertParentOperationalActive StateActive = None"
| "AssertParentOperationalActive StateClosed = Some (LifeErr ErrParentClosed)"
| "AssertParentOperationalActive StateArchived = Some (HierErr ErrParentArchived)"
| "AssertParentOperationalActive (StateOther _) = Some (HierErr ErrParentMismatch)"

definition ReopenEntity :: "LifecycleState \<Rightarrow> org_error" where
  "ReopenEntity s = (if s = StateClosed then LifeErr ErrCannotReopenClosed else ErrorsNew ''entity is not closed'')"

fun SimulateReversibleTransition :: "LifecycleState \<Rightarrow> LifecycleState \<Rightarrow> org_error + LifecycleState" where
  "SimulateReversibleTransition current (StateOther s) = Inl (ErrorsNew (''unrecognized target simulation state: '' @ s))"
| "SimulateReversibleTransition current target = Inr target"

definition MoveSiteToProject :: "Site \<Rightarrow> Project \<Rightarrow> org_error + Site" where
  "MoveSiteToProject site destProject =
     (if st_tenantID site = [] \<or> st_siteID site = [] then Inl (HierErr ErrBlankID)
      else if pj_tenantID destProject = [] \<or> pj_projectID destProject = [] then Inl (HierErr ErrBlankID)
      else if st_tenantID site \<noteq> pj_tenantID destProject then Inl (LifeErr ErrCrossTenantMove)
      else if st_state site = StateArchived then Inl (HierErr ErrEntityArchived)
      else if st_state site = StateClosed then Inl (LifeErr ErrEntityClosed)
      else if st_state site \<noteq> StateActive then Inl (LifeErr ErrActiveRecordRejected)
      else case AssertParentOperationalActive (pj_state destProject) of Some e \<Rightarrow> Inl e | None \<Rightarrow>
        Inr \<lparr>st_tenantID = pj_tenantID destProject, st_companyID = pj_companyID destProject,
             st_businessUnitID = pj_businessUnitID destProject, st_projectID = pj_projectID destProject,
             st_siteID = st_siteID site, st_name = st_name site, st_timeZone = Site_TimeZone site,
             st_locale = Site_Locale site, st_state = st_state site\<rparr>)"

definition MoveAreaToSite :: "Area \<Rightarrow> Site \<Rightarrow> org_error + Area" where
  "MoveAreaToSite area destSite =
     (if ar_tenantID area = [] \<or> ar_areaID area = [] then Inl (HierErr ErrBlankID)
      else if st_tenantID destSite = [] \<or> st_siteID destSite = [] then Inl (HierErr ErrBlankID)
      else if ar_tenantID area \<noteq> st_tenantID destSite then Inl (LifeErr ErrCrossTenantMove)
      else if ar_state area = StateArchived then Inl (HierErr ErrEntityArchived)
      else if ar_state area = StateClosed then Inl (LifeErr ErrEntityClosed)
      else if ar_state area \<noteq> StateActive then Inl (LifeErr ErrActiveRecordRejected)
      else case AssertParentOperationalActive (st_state destSite) of Some e \<Rightarrow> Inl e | None \<Rightarrow>
        Inr \<lparr>ar_tenantID = st_tenantID destSite, ar_companyID = st_companyID destSite,
             ar_businessUnitID = st_businessUnitID destSite, ar_projectID = st_projectID destSite,
             ar_siteID = st_siteID destSite, ar_areaID = ar_areaID area, ar_name = ar_name area,
             ar_timeZone = ar_timeZone area, ar_locale = ar_locale area, ar_state = ar_state area\<rparr>)"

record HistoricalScopeRecord =
  hs_RecordID :: string
  hs_RecordedAt :: gotime
  hs_EntityID :: string
  hs_Scope :: ResolvedScope
  hs_State :: LifecycleState
  hs_Transition :: string
  hs_ActorSubject :: string
  hs_Reason :: string

definition CaptureHistoricalScope ::
  "string \<Rightarrow> ResolvedScope \<Rightarrow> LifecycleState \<Rightarrow> string \<Rightarrow> string \<Rightarrow> string \<Rightarrow> int \<Rightarrow> gotime \<Rightarrow> HistoricalScopeRecord" where
  "CaptureHistoricalScope entityID scope s transition actorSubject reason nanos now =
     \<lparr>hs_RecordID = ''hist_'' @ TrimSpace entityID @ ''_'' @ FormatInt nanos, hs_RecordedAt = now,
      hs_EntityID = TrimSpace entityID, hs_Scope = scope, hs_State = s, hs_Transition = TrimSpace transition,
      hs_ActorSubject = TrimSpace actorSubject, hs_Reason = TrimSpace reason\<rparr>"

subsection \<open>The lifecycle contract\<close>

text \<open>
  What every entity of the hierarchy promises about its lifecycle, proved once: an archived entity is
  never closed, neither operation leaves it active, and its tenant, hence who may see it, never changes.
\<close>

locale lifecycle_entity =
  fixes tenant :: "'a \<Rightarrow> string" and state :: "'a \<Rightarrow> LifecycleState"
    and with_state :: "LifecycleState \<Rightarrow> 'a \<Rightarrow> 'a"
    and archive :: "'a \<Rightarrow> 'a" and close :: "'a \<Rightarrow> org_error + 'a"
    and validate_scope :: "'a \<Rightarrow> TenantContext \<Rightarrow> org_error option"
  assumes state_with: "state (with_state s x) = s"
    and with_with: "with_state s (with_state t x) = with_state s x"
    and tenant_with: "tenant (with_state s x) = tenant x"
    and archive_eq: "archive x = with_state StateArchived x"
    and close_eq: "close x = (if state x = StateArchived then Inl (HierErr ErrEntityArchived)
                              else Inr (with_state StateClosed x))"
    and scope_eq: "validate_scope x c = AuthorizeTenantScope c (tenant x)"
begin

lemma archived_not_closed: "close (archive x) = Inl (HierErr ErrEntityArchived)"
  by (simp add: close_eq archive_eq state_with)

lemma close_idem: "close x = Inr y \<Longrightarrow> close y = Inr y"
  by (auto simp: close_eq state_with with_with split: if_splits)

lemma archive_after_close: "close x = Inr y \<Longrightarrow> archive y = archive x"
  by (auto simp: close_eq archive_eq with_with split: if_splits)

lemma not_active: "state (archive x) \<noteq> StateActive" "close x = Inr y \<Longrightarrow> state y \<noteq> StateActive"
  by (auto simp: close_eq archive_eq state_with split: if_splits)

lemma tenant_kept: "tenant (archive x) = tenant x" "close x = Inr y \<Longrightarrow> tenant y = tenant x"
  by (auto simp: close_eq archive_eq tenant_with split: if_splits)

lemma scope_kept: "validate_scope (archive x) c = validate_scope x c" "close x = Inr y \<Longrightarrow> validate_scope y c = validate_scope x c"
  by (simp_all add: scope_eq tenant_kept)

lemma scope_sound: "validate_scope x c = None \<longleftrightarrow> tc_tenantID c \<noteq> [] \<and> tc_tenantID c = TrimSpace (tenant x)"
  by (simp add: scope_eq AuthorizeTenantScope_None)

end

interpretation company: lifecycle_entity co_tenantID co_state "\<lambda>s. co_state_update (\<lambda>_. s)"
  Company_Archive Company_Close Company_ValidateScope
  by unfold_locales (simp_all add: Company_Archive_def Company_Close_def Company_ValidateScope_def)

interpretation business_unit: lifecycle_entity bu_tenantID bu_state "\<lambda>s. bu_state_update (\<lambda>_. s)"
  BusinessUnit_Archive BusinessUnit_Close BusinessUnit_ValidateScope
  by unfold_locales (simp_all add: BusinessUnit_Archive_def BusinessUnit_Close_def BusinessUnit_ValidateScope_def)

interpretation project: lifecycle_entity pj_tenantID pj_state "\<lambda>s. pj_state_update (\<lambda>_. s)"
  Project_Archive Project_Close Project_ValidateScope
  by unfold_locales (simp_all add: Project_Archive_def Project_Close_def Project_ValidateScope_def)

interpretation site: lifecycle_entity st_tenantID st_state "\<lambda>s. st_state_update (\<lambda>_. s)"
  Site_Archive Site_Close Site_ValidateScope
  by unfold_locales (simp_all add: Site_Archive_def Site_Close_def Site_ValidateScope_def)

interpretation area: lifecycle_entity ar_tenantID ar_state "\<lambda>s. ar_state_update (\<lambda>_. s)"
  Area_Archive Area_Close Area_ValidateScope
  by unfold_locales (simp_all add: Area_Archive_def Area_Close_def Area_ValidateScope_def)

interpretation sponsored: lifecycle_entity sp_tenantID sp_state "\<lambda>s. sp_state_update (\<lambda>_. s)"
  SponsoredParty_Archive SponsoredParty_Close SponsoredParty_ValidateScope
  by unfold_locales (simp_all add: SponsoredParty_Archive_def SponsoredParty_Close_def SponsoredParty_ValidateScope_def)

subsection \<open>Values the package can build\<close>

text \<open>
  The fields are private, so outside the package a value comes from a constructor (or is the zero value,
  which no constructor accepts as a parent), from closing, archiving or moving such a value.
\<close>

inductive built_company :: "Company \<Rightarrow> bool" where
  company_new: "NewCompany t c n = Inr x \<Longrightarrow> built_company x"
| company_archive: "built_company x \<Longrightarrow> built_company (Company_Archive x)"
| company_close: "built_company x \<Longrightarrow> Company_Close x = Inr y \<Longrightarrow> built_company y"

inductive built_unit :: "BusinessUnit \<Rightarrow> bool" where
  unit_new: "built_company c \<Longrightarrow> NewBusinessUnit c i n = Inr x \<Longrightarrow> built_unit x"
| unit_archive: "built_unit x \<Longrightarrow> built_unit (BusinessUnit_Archive x)"
| unit_close: "built_unit x \<Longrightarrow> BusinessUnit_Close x = Inr y \<Longrightarrow> built_unit y"

inductive built_project :: "Project \<Rightarrow> bool" where
  project_new: "built_company c \<Longrightarrow> NewProject c i n = Inr x \<Longrightarrow> built_project x"
| project_unit: "built_unit b \<Longrightarrow> NewProjectUnderBusinessUnit b i n = Inr x \<Longrightarrow> built_project x"
| project_archive: "built_project x \<Longrightarrow> built_project (Project_Archive x)"
| project_close: "built_project x \<Longrightarrow> Project_Close x = Inr y \<Longrightarrow> built_project y"

inductive built_site :: "(string \<Rightarrow> bool) \<Rightarrow> Site \<Rightarrow> bool" for load_location where
  site_new: "built_project p \<Longrightarrow> NewSiteWithLocale load_location p i n tz lc = Inr x \<Longrightarrow> built_site load_location x"
| site_move: "built_site load_location s \<Longrightarrow> built_project p \<Longrightarrow> MoveSiteToProject s p = Inr x \<Longrightarrow> built_site load_location x"
| site_archive: "built_site load_location x \<Longrightarrow> built_site load_location (Site_Archive x)"
| site_close: "built_site load_location x \<Longrightarrow> Site_Close x = Inr y \<Longrightarrow> built_site load_location y"

inductive built_area :: "(string \<Rightarrow> bool) \<Rightarrow> Area \<Rightarrow> bool" for load_location where
  area_new: "built_site load_location s \<Longrightarrow> NewAreaWithLocale load_location s i n tz lc = Inr x \<Longrightarrow> built_area load_location x"
| area_move: "built_area load_location a \<Longrightarrow> built_site load_location s \<Longrightarrow> MoveAreaToSite a s = Inr x \<Longrightarrow> built_area load_location x"
| area_archive: "built_area load_location x \<Longrightarrow> built_area load_location (Area_Archive x)"
| area_close: "built_area load_location x \<Longrightarrow> Area_Close x = Inr y \<Longrightarrow> built_area load_location y"

text \<open>Well-formed values: valid trimmed identifiers all along the ancestry, a name, valid settings.\<close>

definition good_id :: "string \<Rightarrow> string \<Rightarrow> bool" where
  "good_id pfx i \<longleftrightarrow> validateEntityID i pfx = None \<and> TrimSpace i = i"

definition good_tenant :: "string \<Rightarrow> bool" where
  "good_tenant i \<longleftrightarrow> validateTenantID i = None \<and> TrimSpace i = i"

definition good_name :: "string \<Rightarrow> bool" where
  "good_name n \<longleftrightarrow> n \<noteq> [] \<and> TrimSpace n = n"

definition good_settings :: "(string \<Rightarrow> bool) \<Rightarrow> string \<Rightarrow> string \<Rightarrow> bool" where
  "good_settings load_location tz lc \<longleftrightarrow>
     tz \<noteq> [] \<and> (tz = DefaultTimeZone \<or> load_location tz) \<and> lc \<noteq> [] \<and> ValidateLocale lc = None"

definition wf_company :: "Company \<Rightarrow> bool" where
  "wf_company c \<longleftrightarrow> good_tenant (co_tenantID c) \<and> good_id PrefixCompany (co_companyID c) \<and> good_name (co_name c)"

definition wf_unit :: "BusinessUnit \<Rightarrow> bool" where
  "wf_unit b \<longleftrightarrow> good_tenant (bu_tenantID b) \<and> good_id PrefixCompany (bu_companyID b) \<and>
     good_id PrefixBusinessUnit (bu_businessUnitID b) \<and> good_name (bu_name b)"

definition wf_project :: "Project \<Rightarrow> bool" where
  "wf_project p \<longleftrightarrow> good_tenant (pj_tenantID p) \<and> good_id PrefixCompany (pj_companyID p) \<and>
     (pj_businessUnitID p = [] \<or> good_id PrefixBusinessUnit (pj_businessUnitID p)) \<and>
     good_id PrefixProject (pj_projectID p) \<and> good_name (pj_name p)"

definition wf_site :: "(string \<Rightarrow> bool) \<Rightarrow> Site \<Rightarrow> bool" where
  "wf_site load_location s \<longleftrightarrow> good_tenant (st_tenantID s) \<and> good_id PrefixCompany (st_companyID s) \<and>
     (st_businessUnitID s = [] \<or> good_id PrefixBusinessUnit (st_businessUnitID s)) \<and>
     good_id PrefixProject (st_projectID s) \<and> good_id PrefixSite (st_siteID s) \<and> good_name (st_name s) \<and>
     good_settings load_location (st_timeZone s) (st_locale s)"

definition wf_area :: "(string \<Rightarrow> bool) \<Rightarrow> Area \<Rightarrow> bool" where
  "wf_area load_location a \<longleftrightarrow> good_tenant (ar_tenantID a) \<and> good_id PrefixCompany (ar_companyID a) \<and>
     (ar_businessUnitID a = [] \<or> good_id PrefixBusinessUnit (ar_businessUnitID a)) \<and>
     good_id PrefixProject (ar_projectID a) \<and> good_id PrefixSite (ar_siteID a) \<and> good_id PrefixArea (ar_areaID a) \<and>
     good_name (ar_name a) \<and> good_settings load_location (ar_timeZone a) (ar_locale a)"

lemma validateEntityID_TrimSpace [simp]: "validateEntityID (TrimSpace i) pfx = validateEntityID i pfx"
  by (simp add: validateEntityID_def)

lemma validateTenantID_TrimSpace [simp]: "validateTenantID (TrimSpace i) = validateTenantID i"
  by (simp add: validateTenantID_def)

lemma good_idI: "validateEntityID i pfx = None \<Longrightarrow> good_id pfx (TrimSpace i)"
  by (simp add: good_id_def)

lemma good_id_nonblank: "good_id pfx i \<Longrightarrow> i \<noteq> []"
  by (auto simp: good_id_def validateEntityID_def)

lemma ValidateLocale_TrimSpace [simp]: "ValidateLocale (TrimSpace l) = ValidateLocale l"
  by (simp add: ValidateLocale_def)

lemma ValidateLocale_default [simp]: "ValidateLocale DefaultLocale = None"
  by code_simp

lemma default_settings [simp]: "DefaultTimeZone \<noteq> []" "DefaultLocale \<noteq> []"
  by (simp_all add: DefaultTimeZone_def DefaultLocale_def)

lemma choose_setting_Inr:
  "choose_setting validate fallback requested = Inr v \<Longrightarrow> v = fallback \<or> v = TrimSpace requested \<and> v \<noteq> [] \<and> validate v = None"
  by (auto simp: choose_setting_def Let_def split: if_splits option.splits)

lemma choose_good:
  assumes "choose_setting (ValidateTimeZone lf) tz0 tz = Inr tz'" and "choose_setting ValidateLocale lc0 lc = Inr lc'"
    and "good_settings lf tz0 lc0"
  shows "good_settings lf tz' lc'"
  using assms(3) choose_setting_Inr [OF assms(1)] choose_setting_Inr [OF assms(2)]
  by (auto simp: good_settings_def ValidateTimeZone_def Let_def split: if_splits)

lemma good_settings_default: "good_settings lf DefaultTimeZone DefaultLocale"
  by (simp add: good_settings_def)

lemma good_settings_site: "good_settings lf (st_timeZone s) (st_locale s) \<Longrightarrow> good_settings lf (Site_TimeZone s) (Site_Locale s)"
  by (simp add: good_settings_def Site_TimeZone_def Site_Locale_def)

lemma choose_good_site:
  assumes "choose_setting (ValidateTimeZone lf) (Site_TimeZone s) tz = Inr tz'"
    and "choose_setting ValidateLocale (Site_Locale s) lc = Inr lc'"
    and "good_settings lf (st_timeZone s) (st_locale s)"
  shows "good_settings lf tz' lc'"
  using choose_good [OF assms(1,2) good_settings_site [OF assms(3)]] .

lemmas wf_intros = good_idI good_settings_default

lemma built_company_wf: "built_company x \<Longrightarrow> wf_company x"
  by (induction rule: built_company.induct)
    (auto simp: wf_company_def NewCompany_def Company_Archive_def Company_Close_def good_tenant_def good_name_def
      intro: wf_intros split: option.splits if_splits)

lemma built_unit_wf: "built_unit x \<Longrightarrow> wf_unit x"
  by (induction rule: built_unit.induct)
    (auto simp: wf_company_def wf_unit_def NewBusinessUnit_def BusinessUnit_Archive_def BusinessUnit_Close_def good_name_def
      intro: wf_intros dest!: built_company_wf split: option.splits if_splits)

lemma built_project_wf: "built_project x \<Longrightarrow> wf_project x"
  by (induction rule: built_project.induct)
    (auto simp: wf_company_def wf_unit_def wf_project_def NewProject_def NewProjectUnderBusinessUnit_def Project_Archive_def
        Project_Close_def good_name_def
      intro: wf_intros dest!: built_company_wf built_unit_wf split: option.splits if_splits)

lemma built_site_wf: "built_site lf x \<Longrightarrow> wf_site lf x"
proof (induction rule: built_site.induct)
  case (site_new p i n tz lc x)
  then show ?case
    by (auto simp: wf_project_def wf_site_def NewSiteWithLocale_def good_name_def
        intro: wf_intros choose_good dest!: built_project_wf split: option.splits if_splits sum.splits)
next
  case (site_move s p x)
  then show ?case
    by (auto simp: wf_project_def wf_site_def MoveSiteToProject_def good_settings_site
        dest!: built_project_wf split: option.splits if_splits)
qed (auto simp: wf_site_def Site_Archive_def Site_Close_def split: if_splits)

lemma built_area_wf: "built_area lf x \<Longrightarrow> wf_area lf x"
proof (induction rule: built_area.induct)
  case (area_new s i n tz lc x)
  then show ?case
    by (auto simp: wf_area_def wf_site_def NewAreaWithLocale_def good_name_def
        intro: wf_intros choose_good_site dest!: built_site_wf split: option.splits if_splits sum.splits)
next
  case (area_move a s x)
  then show ?case
    by (auto simp: wf_area_def wf_site_def MoveAreaToSite_def dest!: built_site_wf split: option.splits if_splits)
qed (auto simp: wf_area_def Area_Archive_def Area_Close_def split: if_splits)

subsection \<open>Scopes\<close>

text \<open>A scope inside another one: it names everything the other names, and its path continues the other's.\<close>

definition scope_within :: "ResolvedScope \<Rightarrow> ResolvedScope \<Rightarrow> bool" where
  "scope_within child parent \<longleftrightarrow>
     rs_TenantID child = rs_TenantID parent \<and> rs_CompanyID child = rs_CompanyID parent \<and>
     rs_BusinessUnitID parent \<in> {[], rs_BusinessUnitID child} \<and> rs_ProjectID parent \<in> {[], rs_ProjectID child} \<and>
     rs_SiteID parent \<in> {[], rs_SiteID child} \<and>
     (\<exists>rest. rs_CanonicalPath child = rs_CanonicalPath parent @ CHR ''/'' # rest)"

lemma path_snoc: "ps \<noteq> [] \<Longrightarrow> path (ps @ [p]) = path ps @ CHR ''/'' # p"
  by (induction ps rule: path.induct) auto

lemmas resolve_defs = Company_ResolveScope_def BusinessUnit_ResolveScope_def Project_ResolveScope_def
  Site_ResolveScope_def Area_ResolveScope_def

lemma unit_scope: "NewBusinessUnit c i n = Inr b \<Longrightarrow> scope_within (BusinessUnit_ResolveScope b) (Company_ResolveScope c)"
  by (auto simp: NewBusinessUnit_def resolve_defs scope_within_def split: if_splits option.splits)

lemma project_scope: "NewProject c i n = Inr p \<Longrightarrow> scope_within (Project_ResolveScope p) (Company_ResolveScope c)"
  by (auto simp: NewProject_def resolve_defs scope_within_def split: if_splits option.splits)

lemma unit_project_scope:
  "NewProjectUnderBusinessUnit b i n = Inr p \<Longrightarrow> scope_within (Project_ResolveScope p) (BusinessUnit_ResolveScope b)"
  by (auto simp: NewProjectUnderBusinessUnit_def resolve_defs scope_within_def split: if_splits option.splits)

lemma site_scope:
  "NewSiteWithLocale lf p i n tz lc = Inr s \<Longrightarrow> scope_within (Site_ResolveScope s) (Project_ResolveScope p)"
  by (auto simp: NewSiteWithLocale_def resolve_defs scope_within_def split: if_splits option.splits sum.splits)

lemma area_scope:
  "NewAreaWithLocale lf s i n tz lc = Inr a \<Longrightarrow> scope_within (Area_ResolveScope a) (Site_ResolveScope s)"
  by (auto simp: NewAreaWithLocale_def resolve_defs scope_within_def split: if_splits option.splits sum.splits)

lemma moved_site_scope: "MoveSiteToProject s p = Inr s' \<Longrightarrow> scope_within (Site_ResolveScope s') (Project_ResolveScope p)"
  by (auto simp: MoveSiteToProject_def resolve_defs scope_within_def split: if_splits option.splits)

lemma moved_area_scope: "MoveAreaToSite a s = Inr a' \<Longrightarrow> scope_within (Area_ResolveScope a') (Site_ResolveScope s)"
  by (auto simp: MoveAreaToSite_def resolve_defs scope_within_def split: if_splits option.splits)

subsection \<open>Properties\<close>

text \<open>
  (C33) Every area the package can build, by any sequence of constructors, moves, closings and archivings, is
  well formed: valid trimmed identifiers of the right kind for the area and all its ancestors, a
  name, and a time zone and a locale that are valid or the defaults.
\<close>

theorem hierarchy_well_formed: "built_area load_location a \<Longrightarrow> wf_area load_location a"
  by (rule built_area_wf)

definition example_company :: Company where
  "example_company = \<lparr>co_tenantID = ''ten_1'', co_companyID = ''cmp_1'', co_name = ''Acme'', co_state = StateActive\<rparr>"

definition example_project :: Project where
  "example_project = \<lparr>pj_tenantID = ''ten_1'', pj_companyID = ''cmp_1'', pj_businessUnitID = [], pj_projectID = ''prj_1'',
     pj_name = ''Dam'', pj_state = StateActive\<rparr>"

definition example_site :: Site where
  "example_site = \<lparr>st_tenantID = ''ten_1'', st_companyID = ''cmp_1'', st_businessUnitID = [], st_projectID = ''prj_1'',
     st_siteID = ''ste_1'', st_name = ''North'', st_timeZone = ''Asia/Tokyo'', st_locale = DefaultLocale, st_state = StateActive\<rparr>"

definition example_area :: Area where
  "example_area = \<lparr>ar_tenantID = ''ten_1'', ar_companyID = ''cmp_1'', ar_businessUnitID = [], ar_projectID = ''prj_1'',
     ar_siteID = ''ste_1'', ar_areaID = ''ara_1'', ar_name = ''Gate'', ar_timeZone = ''Asia/Tokyo'', ar_locale = ''ja-JP'',
     ar_state = StateActive\<rparr>"

definition known_zones :: "string \<Rightarrow> bool" where
  "known_zones z \<longleftrightarrow> z \<in> {''Asia/Tokyo'', ''UTC''}"

lemma example_built:
  "built_company example_company" "built_project example_project" "built_site known_zones example_site"
  "built_area known_zones example_area"
proof -
  have "NewCompany ''ten_1'' '' cmp_1'' ''Acme'' = Inr example_company" by code_simp
  then show c: "built_company example_company" by (rule company_new)
  have "NewProject example_company ''prj_1'' ''Dam'' = Inr example_project" by code_simp
  with c show p: "built_project example_project" by (rule project_new)
  have "NewSiteWithLocale known_zones example_project ''ste_1'' ''North'' ''Asia/Tokyo'' [] = Inr example_site" by code_simp
  with p show s: "built_site known_zones example_site" by (rule site_new)
  have "NewAreaWithLocale known_zones example_site ''ara_1'' ''Gate'' [] ''ja-JP'' = Inr example_area" by code_simp
  with s show "built_area known_zones example_area" by (rule area_new)
qed

theorem hierarchy_well_formed_witness: "wf_area known_zones example_area \<and> ar_timeZone example_area = ''Asia/Tokyo''"
  using hierarchy_well_formed [OF example_built(4)] by (simp add: example_area_def)

text \<open>
  The scope of a new or moved entity lies within the scope of the parent it was put under: the same
  tenant, company and, where the parent has them, business unit, project and site, and a
  canonical path that continues the parent's.
\<close>

theorem child_scope_within_parent:
  "(NewBusinessUnit c i n = Inr b \<longrightarrow> scope_within (BusinessUnit_ResolveScope b) (Company_ResolveScope c)) \<and>
   (NewProject c i n = Inr p \<longrightarrow> scope_within (Project_ResolveScope p) (Company_ResolveScope c)) \<and>
   (NewProjectUnderBusinessUnit u i n = Inr p \<longrightarrow> scope_within (Project_ResolveScope p) (BusinessUnit_ResolveScope u)) \<and>
   (NewSiteWithLocale lf q i n tz lc = Inr s \<longrightarrow> scope_within (Site_ResolveScope s) (Project_ResolveScope q)) \<and>
   (NewAreaWithLocale lf t i n tz lc = Inr a \<longrightarrow> scope_within (Area_ResolveScope a) (Site_ResolveScope t)) \<and>
   (MoveSiteToProject t q = Inr s \<longrightarrow> scope_within (Site_ResolveScope s) (Project_ResolveScope q)) \<and>
   (MoveAreaToSite d t = Inr a \<longrightarrow> scope_within (Area_ResolveScope a) (Site_ResolveScope t))"
  by (simp add: unit_scope project_scope unit_project_scope site_scope area_scope moved_site_scope moved_area_scope)

theorem child_scope_within_parent_witness:
  "scope_within (Area_ResolveScope example_area) (Site_ResolveScope example_site)"
proof -
  have "NewAreaWithLocale known_zones example_site ''ara_1'' ''Gate'' [] ''ja-JP'' = Inr example_area" by code_simp
  then show ?thesis using child_scope_within_parent by blast
qed

text \<open>
  A site that can be built moves to a project that can be built exactly when both are of one tenant and
  both are active; the move keeps the site's identity, settings and state and gives it the ancestry
  of its new project.
\<close>

theorem MoveSite_succeeds_iff:
  assumes "built_site lf s" and "built_project p"
  shows "MoveSiteToProject s p = Inr s' \<longleftrightarrow>
    st_tenantID s = pj_tenantID p \<and> st_state s = StateActive \<and> pj_state p = StateActive \<and>
    s' = s\<lparr>st_companyID := pj_companyID p, st_businessUnitID := pj_businessUnitID p, st_projectID := pj_projectID p\<rparr>"
proof -
  have w: "wf_site lf s" "wf_project p" using assms by (auto dest: built_site_wf built_project_wf)
  have "st_siteID s \<noteq> []" "pj_projectID p \<noteq> []" "st_timeZone s \<noteq> []" "st_locale s \<noteq> []"
    "st_tenantID s \<noteq> []" "pj_tenantID p \<noteq> []"
    using w by (auto simp: wf_site_def wf_project_def good_settings_def good_tenant_def validateTenantID_def
        dest: good_id_nonblank)
  then show ?thesis
    by (cases "pj_state p") (auto simp: MoveSiteToProject_def Site_TimeZone_def Site_Locale_def)
qed

theorem MoveSite_succeeds_iff_witness:
  "MoveSiteToProject example_site example_project = Inr example_site \<and>
   (\<forall>s'. MoveSiteToProject (Site_Archive example_site) example_project \<noteq> Inr s')"
  using MoveSite_succeeds_iff [OF example_built(3,2), of example_site]
    MoveSite_succeeds_iff [OF site_archive [OF example_built(3)] example_built(2)]
  by (simp add: example_site_def example_project_def Site_Archive_def)

text \<open>
  A closed or archived entity takes no children: nothing is created under it and nothing moves to it.
\<close>

theorem inactive_parent_refuses_children:
  "(Company_Close c = Inr c' \<longrightarrow> (\<exists>e e'. NewBusinessUnit c' i n = Inl e \<and> NewProject c' i n = Inl e')) \<and>
   (Project_Close p = Inr p' \<longrightarrow> (\<exists>e e'. NewSiteWithLocale lf p' i n tz lc = Inl e \<and> MoveSiteToProject s p' = Inl e')) \<and>
   (Site_Close t = Inr t' \<longrightarrow> (\<exists>e e'. NewAreaWithLocale lf t' i n tz lc = Inl e \<and> MoveAreaToSite a t' = Inl e'))"
proof (intro conjI impI)
  assume "Company_Close c = Inr c'"
  from company.not_active(2) [OF this]
  show "\<exists>e e'. NewBusinessUnit c' i n = Inl e \<and> NewProject c' i n = Inl e'"
    by (simp add: NewBusinessUnit_def NewProject_def)
next
  assume "Project_Close p = Inr p'"
  from project.not_active(2) [OF this]
  show "\<exists>e e'. NewSiteWithLocale lf p' i n tz lc = Inl e \<and> MoveSiteToProject s p' = Inl e'"
    by (cases "pj_state p'") (simp_all add: NewSiteWithLocale_def MoveSiteToProject_def)
next
  assume "Site_Close t = Inr t'"
  from site.not_active(2) [OF this]
  show "\<exists>e e'. NewAreaWithLocale lf t' i n tz lc = Inl e \<and> MoveAreaToSite a t' = Inl e'"
    by (cases "st_state t'") (simp_all add: NewAreaWithLocale_def MoveAreaToSite_def)
qed

text \<open>
  A sponsorship is valid exactly inside its window, both ends included, the window is not empty, and an
  archived sponsorship is never valid.
\<close>

theorem sponsorship_window:
  assumes "NewSponsoredParty site p c sp from_t to_t = Inr x"
  shows "from_t < to_t \<and> (SponsoredParty_IsValidAt x t \<longleftrightarrow> from_t \<le> t \<and> t \<le> to_t) \<and>
    \<not> SponsoredParty_IsValidAt (SponsoredParty_Archive x) t"
  using assms by (auto simp: NewSponsoredParty_def SponsoredParty_IsValidAt_def SponsoredParty_Archive_def After_def
      split: if_splits option.splits)

text \<open>
  Canonical paths are not unique: a business unit and a project of one company may carry the same slug and
  then have the same path, and because only identifiers with an underscore have their characters checked, a
  slug may itself contain the separator.
\<close>

theorem canonical_path_ambiguous:
  "map_sum id (\<lambda>b. rs_CanonicalPath (BusinessUnit_ResolveScope b)) (NewBusinessUnit example_company ''x1'' ''Unit'') =
     Inr ''ten_1/cmp_1/x1'' \<and>
   map_sum id (\<lambda>p. rs_CanonicalPath (Project_ResolveScope p)) (NewProject example_company ''x1'' ''Project'') =
     Inr ''ten_1/cmp_1/x1'' \<and>
   validateEntityID ''x1/y'' PrefixSite = None"
  by code_simp

end
