(* ===== verification/Party_Participation.thy ===== *)
theory Party_Participation
  imports Org_Hierarchy
begin

text \<open>
  External parties and their participation in projects: \<open>party.go\<close> (parties, participations, one level of
  subcontractors, the registry) and \<open>party_lifecycle.go\<close> (deactivation, sponsor reassignment, the cascade of a
  project closure, the ledger) of \<open>modules/organization-tenancy\<close>. Party types and roles are strings in Go
  and here, because the elevation check reads their text.

  The registry's maps are association lists that only grow at the end, so that the list operations, which
  in Go return the entries in the map's unspecified order, can be evaluated; the statements about them
  are about the set of entries. A clock reading that goes into a record is a pair: \<open>UnixNano\<close> for the record's
  identifier and the time for its date.
\<close>

subsection \<open>Definitions\<close>

definition MaxContractorNestingDepth :: int where "MaxContractorNestingDepth = 1"

type_synonym PartyType = string
type_synonym ParticipationRole = string
type_synonym reading = "int \<times> gotime"

definition ValidatePartyType :: "PartyType \<Rightarrow> org_error option" where
  "ValidatePartyType pt =
     (if pt \<in> {''CLIENT'', ''CONTRACTOR'', ''SUBCONTRACTOR'', ''PARTNER'', ''AUDITOR''} then None
      else Some (PartyErr ErrInvalidPartyType))"

definition ValidateParticipationRole :: "ParticipationRole \<Rightarrow> org_error option" where
  "ValidateParticipationRole role =
     (if role \<in> {''CONTRACTOR_WORKER'', ''SITE_SAFETY_LEAD'', ''CLIENT_AUDITOR'', ''CONSULTANT'', ''SUBCONTRACTOR_LEAD''}
      then None else Some (PartyErr ErrInvalidParticipationRole))"

definition ValidateSponsorID :: "string \<Rightarrow> org_error option" where
  "ValidateSponsorID sponsorID =
     (let trimmed = TrimSpace sponsorID in
      if trimmed = [] then Some (HierErr ErrBlankSponsorID)
      else if \<not> HasPrefix trimmed ''usr_'' \<and> \<not> HasPrefix trimmed ''usr-'' \<and> \<not> HasPrefix trimmed ''user-''
      then Some (PartyErr ErrInvalidSponsorID)
      else None)"

definition AssertNoInternalAuthority :: "ParticipationRole \<Rightarrow> org_error option" where
  "AssertNoInternalAuthority role =
     (let upper = ToUpper role in
      if Contains upper ''ADMIN'' \<or> Contains upper ''SUPER'' \<or> Contains upper ''COMPANY'' \<or>
         Contains upper ''BUSINESS_UNIT'' \<or> Contains upper ''TENANT_OWNER''
      then Some (PartyErr ErrElevationForbidden)
      else ValidateParticipationRole role)"

record Party =
  py_tenantID :: string
  py_partyID :: string
  py_name :: string
  py_partyType :: PartyType
  py_state :: LifecycleState

definition Party_Archive :: "Party \<Rightarrow> Party" where
  "Party_Archive p = p\<lparr>py_state := StateArchived\<rparr>"

definition Party_ValidateScope :: "Party \<Rightarrow> TenantContext \<Rightarrow> org_error option" where
  "Party_ValidateScope p ctx = AuthorizeTenantScope ctx (py_tenantID p)"

definition NewParty :: "string \<Rightarrow> string \<Rightarrow> string \<Rightarrow> PartyType \<Rightarrow> org_error + Party" where
  "NewParty tenantID partyID name partyType =
     (if TrimSpace tenantID = [] then Inl (HierErr ErrBlankTenantID)
      else if TrimSpace partyID = [] then Inl (HierErr ErrBlankID)
      else if TrimSpace name = [] then Inl (HierErr ErrBlankName)
      else case ValidatePartyType partyType of Some e \<Rightarrow> Inl e | None \<Rightarrow>
        Inr \<lparr>py_tenantID = TrimSpace tenantID, py_partyID = TrimSpace partyID, py_name = TrimSpace name,
             py_partyType = partyType, py_state = StateActive\<rparr>)"

record ProjectParticipation =
  pp_participationID :: string
  pp_tenantID :: string
  pp_partyID :: string
  pp_projectID :: string
  pp_siteID :: string
  pp_sponsorID :: string
  pp_role :: ParticipationRole
  pp_validFrom :: gotime
  pp_validTo :: gotime
  pp_state :: LifecycleState
  pp_parentParticipationID :: string
  pp_nestingDepth :: int

definition Participation_Archive :: "ProjectParticipation \<Rightarrow> ProjectParticipation" where
  "Participation_Archive pp = pp\<lparr>pp_state := StateArchived\<rparr>"

definition Participation_Close :: "ProjectParticipation \<Rightarrow> org_error + ProjectParticipation" where
  "Participation_Close pp =
     (if pp_state pp = StateArchived then Inl (HierErr ErrEntityArchived) else Inr (pp\<lparr>pp_state := StateClosed\<rparr>))"

definition Participation_ValidateScope :: "ProjectParticipation \<Rightarrow> TenantContext \<Rightarrow> org_error option" where
  "Participation_ValidateScope pp ctx = AuthorizeTenantScope ctx (pp_tenantID pp)"

definition Participation_IsValidAt :: "ProjectParticipation \<Rightarrow> gotime \<Rightarrow> bool" where
  "Participation_IsValidAt pp t \<longleftrightarrow>
     (if pp_state pp \<noteq> StateActive then False else \<not> t < pp_validFrom pp \<and> \<not> After t (pp_validTo pp))"

definition ValidateScopeAt :: "ProjectParticipation \<Rightarrow> string \<Rightarrow> string \<Rightarrow> gotime \<Rightarrow> org_error option" where
  "ValidateScopeAt pp projectID siteID at =
     (if pp_state pp \<noteq> StateActive then Some (HierErr ErrEntityArchived)
      else if at < pp_validFrom pp then Some (PartyErr ErrParticipationNotYetValid)
      else if After at (pp_validTo pp) then Some (PartyErr ErrParticipationExpired)
      else if TrimSpace projectID = [] \<or> TrimSpace projectID \<noteq> pp_projectID pp then Some (PartyErr ErrScopeMismatch)
      else if pp_siteID pp \<noteq> [] \<and> (TrimSpace siteID = [] \<or> TrimSpace siteID \<noteq> pp_siteID pp)
      then Some (PartyErr ErrScopeMismatch)
      else None)"

definition ValidateNestedScope ::
  "ProjectParticipation \<Rightarrow> ProjectParticipation \<Rightarrow> string \<Rightarrow> string \<Rightarrow> gotime \<Rightarrow> org_error option" where
  "ValidateNestedScope pp parent projectID siteID at =
     (if pp_parentParticipationID pp \<noteq> [] \<and> pp_participationID parent \<noteq> pp_parentParticipationID pp
      then Some (HierErr ErrParentMismatch)
      else if pp_parentParticipationID pp \<noteq> [] \<and> ValidateScopeAt parent projectID siteID at \<noteq> None
      then Some (PartyErr ErrParentNotActive)
      else ValidateScopeAt pp projectID siteID at)"

definition ValidateNoSiblingAccess :: "ProjectParticipation \<Rightarrow> ProjectParticipation \<Rightarrow> org_error option" where
  "ValidateNoSiblingAccess pp target =
     (if pp_tenantID pp \<noteq> pp_tenantID target then Some (HierErr ErrCrossTenantLinkage)
      else if pp_participationID pp = pp_participationID target then None
      else if pp_parentParticipationID target = pp_participationID pp then None
      else if pp_projectID pp \<noteq> pp_projectID target \<or> pp_partyID pp \<noteq> pp_partyID target
      then Some (PartyErr ErrSiblingAccessDenied)
      else None)"

fun SimulateReversibleParticipationState :: "ProjectParticipation \<Rightarrow> LifecycleState \<Rightarrow> org_error + ProjectParticipation" where
  "SimulateReversibleParticipationState pp (StateOther s) =
     Inl (ErrorsNew (''unrecognized target participation state: '' @ s))"
| "SimulateReversibleParticipationState pp target = Inr (pp\<lparr>pp_state := target\<rparr>)"

definition NewProjectParticipation ::
  "Party \<Rightarrow> string \<Rightarrow> string \<Rightarrow> string \<Rightarrow> string \<Rightarrow> ParticipationRole \<Rightarrow> gotime \<Rightarrow> gotime \<Rightarrow>
   org_error + ProjectParticipation" where
  "NewProjectParticipation party participationID projectID siteID sponsorID role validFrom validTo =
     (if py_tenantID party = [] \<or> py_partyID party = [] then Inl (HierErr ErrParentMismatch)
      else if py_state party \<noteq> StateActive then Inl (PartyErr ErrPartyArchived)
      else if TrimSpace participationID = [] then Inl (HierErr ErrBlankID)
      else if TrimSpace projectID = [] then Inl (HierErr ErrBlankID)
      else case ValidateSponsorID sponsorID of Some e \<Rightarrow> Inl e | None \<Rightarrow>
      case AssertNoInternalAuthority role of Some e \<Rightarrow> Inl e | None \<Rightarrow>
      if validTo < validFrom \<or> validTo = validFrom then Inl (HierErr ErrInvalidTimeWindow)
      else Inr \<lparr>pp_participationID = TrimSpace participationID, pp_tenantID = py_tenantID party,
                pp_partyID = py_partyID party, pp_projectID = TrimSpace projectID, pp_siteID = TrimSpace siteID,
                pp_sponsorID = TrimSpace sponsorID, pp_role = role, pp_validFrom = validFrom, pp_validTo = validTo,
                pp_state = StateActive, pp_parentParticipationID = [], pp_nestingDepth = 0\<rparr>)"

definition NewNestedSubcontractorParticipation ::
  "ProjectParticipation \<Rightarrow> Party \<Rightarrow> string \<Rightarrow> string \<Rightarrow> string \<Rightarrow> ParticipationRole \<Rightarrow> gotime \<Rightarrow> gotime \<Rightarrow>
   org_error + ProjectParticipation" where
  "NewNestedSubcontractorParticipation parent subParty participationID siteID sponsorID role validFrom validTo =
     (if pp_tenantID parent = [] \<or> pp_participationID parent = [] then Inl (HierErr ErrParentMismatch)
      else if pp_state parent \<noteq> StateActive
      then Inl (if pp_state parent = StateClosed then LifeErr ErrParentClosed else PartyErr ErrParentNotActive)
      else if MaxContractorNestingDepth \<le> pp_nestingDepth parent then Inl (PartyErr ErrNestingDepthExceeded)
      else if py_tenantID subParty = [] \<or> py_partyID subParty = [] then Inl (HierErr ErrParentMismatch)
      else if py_state subParty \<noteq> StateActive then Inl (PartyErr ErrPartyArchived)
      else if py_tenantID subParty \<noteq> pp_tenantID parent then Inl (HierErr ErrCrossTenantLinkage)
      else if TrimSpace participationID = [] then Inl (HierErr ErrBlankID)
      else case ValidateSponsorID sponsorID of Some e \<Rightarrow> Inl e | None \<Rightarrow>
      case AssertNoInternalAuthority role of Some e \<Rightarrow> Inl e | None \<Rightarrow>
      if validTo < validFrom \<or> validTo = validFrom then Inl (HierErr ErrInvalidTimeWindow)
      else if validFrom < pp_validFrom parent \<or> After validTo (pp_validTo parent)
      then Inl (PartyErr ErrValidityWindowExceedsParent)
      else let site = TrimSpace siteID in
      if pp_siteID parent \<noteq> [] \<and> site \<noteq> [] \<and> site \<noteq> pp_siteID parent then Inl (PartyErr ErrScopeMismatch)
      else Inr \<lparr>pp_participationID = TrimSpace participationID, pp_tenantID = pp_tenantID parent,
                pp_partyID = py_partyID subParty, pp_projectID = pp_projectID parent,
                pp_siteID = (if pp_siteID parent \<noteq> [] \<and> site = [] then pp_siteID parent else site),
                pp_sponsorID = TrimSpace sponsorID, pp_role = role, pp_validFrom = validFrom, pp_validTo = validTo,
                pp_state = StateActive, pp_parentParticipationID = pp_participationID parent,
                pp_nestingDepth = pp_nestingDepth parent + 1\<rparr>)"

record PartyRegistry =
  pr_parties :: "(string \<times> Party) list"
  pr_participations :: "(string \<times> ProjectParticipation) list"

definition NewPartyRegistry :: PartyRegistry where
  "NewPartyRegistry = \<lparr>pr_parties = [], pr_participations = []\<rparr>"

definition makePartyKey :: "string \<Rightarrow> string \<Rightarrow> string" where
  "makePartyKey tenantID partyID = TrimSpace tenantID @ '':'' @ TrimSpace partyID"

definition makeParticipationKey :: "string \<Rightarrow> string \<Rightarrow> string" where
  "makeParticipationKey tenantID participationID = TrimSpace tenantID @ '':'' @ TrimSpace participationID"

definition RegisterParty :: "Party \<Rightarrow> PartyRegistry \<Rightarrow> (PartyRegistry, org_error, unit) outcome" where
  "RegisterParty p r =
     (if py_tenantID p = [] \<or> py_partyID p = [] then (r, Inl (HierErr ErrBlankID))
      else let key = makePartyKey (py_tenantID p) (py_partyID p) in
      if map_of (pr_parties r) key \<noteq> None then (r, Inl (PartyErr ErrDuplicateParty))
      else (r\<lparr>pr_parties := pr_parties r @ [(key, p)]\<rparr>, Inr ()))"

definition GetParty :: "string \<Rightarrow> string \<Rightarrow> PartyRegistry \<Rightarrow> org_error + Party" where
  "GetParty tenantID partyID r =
     (case map_of (pr_parties r) (makePartyKey tenantID partyID) of
        None \<Rightarrow> Inl (PartyErr ErrPartyNotFound) | Some p \<Rightarrow> Inr p)"

definition RegisterParticipation :: "ProjectParticipation \<Rightarrow> PartyRegistry \<Rightarrow> (PartyRegistry, org_error, unit) outcome" where
  "RegisterParticipation pp r =
     (if pp_tenantID pp = [] \<or> pp_participationID pp = [] then (r, Inl (HierErr ErrBlankID))
      else let key = makeParticipationKey (pp_tenantID pp) (pp_participationID pp) in
      if map_of (pr_participations r) key \<noteq> None then (r, Inl (PartyErr ErrDuplicateParticipation))
      else (r\<lparr>pr_participations := pr_participations r @ [(key, pp)]\<rparr>, Inr ()))"

definition GetParticipation :: "string \<Rightarrow> string \<Rightarrow> PartyRegistry \<Rightarrow> org_error + ProjectParticipation" where
  "GetParticipation tenantID participationID r =
     (case map_of (pr_participations r) (makeParticipationKey tenantID participationID) of
        None \<Rightarrow> Inl (PartyErr ErrParticipationNotFound) | Some pp \<Rightarrow> Inr pp)"

text \<open>The guards and the loop of the three list operations, which differ in the field they compare.\<close>

definition list_participations ::
  "(ProjectParticipation \<Rightarrow> string) \<Rightarrow> string \<Rightarrow> string \<Rightarrow> PartyRegistry \<Rightarrow> org_error + ProjectParticipation list" where
  "list_participations field tenantID wanted r =
     (if TrimSpace tenantID = [] then Inl (HierErr ErrBlankTenantID)
      else if TrimSpace wanted = [] then Inl (HierErr ErrBlankID)
      else Inr (filter (\<lambda>pp. pp_tenantID pp = TrimSpace tenantID \<and> field pp = TrimSpace wanted)
                  (map snd (pr_participations r))))"

definition ListParticipationsByProject :: "string \<Rightarrow> string \<Rightarrow> PartyRegistry \<Rightarrow> org_error + ProjectParticipation list" where
  "ListParticipationsByProject = list_participations pp_projectID"

definition ListParticipationsByParty :: "string \<Rightarrow> string \<Rightarrow> PartyRegistry \<Rightarrow> org_error + ProjectParticipation list" where
  "ListParticipationsByParty = list_participations pp_partyID"

definition ListSubcontractors :: "string \<Rightarrow> string \<Rightarrow> PartyRegistry \<Rightarrow> org_error + ProjectParticipation list" where
  "ListSubcontractors = list_participations pp_parentParticipationID"

text \<open>\<open>party_lifecycle.go\<close>\<close>

record HistoricalPartyLifecycleRecord =
  hp_RecordID :: string
  hp_TenantID :: string
  hp_PartyID :: string
  hp_PreviousState :: LifecycleState
  hp_NewState :: LifecycleState
  hp_Transition :: string
  hp_ActorSubject :: string
  hp_Reason :: string
  hp_RecordedAt :: gotime

record HistoricalParticipationLifecycleRecord =
  hq_RecordID :: string
  hq_TenantID :: string
  hq_ParticipationID :: string
  hq_PartyID :: string
  hq_ProjectID :: string
  hq_SiteID :: string
  hq_SponsorID :: string
  hq_PreviousState :: LifecycleState
  hq_NewState :: LifecycleState
  hq_Transition :: string
  hq_ActorSubject :: string
  hq_Reason :: string
  hq_RecordedAt :: gotime

record SponsorReassignmentRecord =
  sr_RecordID :: string
  sr_TenantID :: string
  sr_ParticipationID :: string
  sr_PriorSponsorID :: string
  sr_NewSponsorID :: string
  sr_ActorSubject :: string
  sr_Reason :: string
  sr_ReassignedAt :: gotime

definition DeactivateParty ::
  "Party \<Rightarrow> string \<Rightarrow> string \<Rightarrow> reading \<Rightarrow> org_error + Party \<times> HistoricalPartyLifecycleRecord" where
  "DeactivateParty party actorSubject reason clk =
     (if py_tenantID party = [] \<or> py_partyID party = [] then Inl (HierErr ErrBlankID)
      else if py_state party = StateArchived then Inl (HierErr ErrEntityArchived)
      else let deactivated = Party_Archive party in
        Inr (deactivated,
          \<lparr>hp_RecordID = ''hprt_'' @ py_partyID party @ ''_'' @ FormatInt (fst clk), hp_TenantID = py_tenantID party,
           hp_PartyID = py_partyID party, hp_PreviousState = py_state party, hp_NewState = py_state deactivated,
           hp_Transition = ''PARTY_DEACTIVATE'', hp_ActorSubject = TrimSpace actorSubject,
           hp_Reason = TrimSpace reason, hp_RecordedAt = snd clk\<rparr>))"

text \<open>The record all three participation transitions write.\<close>

definition participation_record ::
  "string \<Rightarrow> string \<Rightarrow> ProjectParticipation \<Rightarrow> ProjectParticipation \<Rightarrow> string \<Rightarrow> string \<Rightarrow> reading \<Rightarrow>
   HistoricalParticipationLifecycleRecord" where
  "participation_record tag transition pp after actorSubject reason clk =
     \<lparr>hq_RecordID = tag @ pp_participationID pp @ ''_'' @ FormatInt (fst clk), hq_TenantID = pp_tenantID pp,
      hq_ParticipationID = pp_participationID pp, hq_PartyID = pp_partyID pp, hq_ProjectID = pp_projectID pp,
      hq_SiteID = pp_siteID pp, hq_SponsorID = pp_sponsorID pp, hq_PreviousState = pp_state pp,
      hq_NewState = pp_state after, hq_Transition = transition, hq_ActorSubject = TrimSpace actorSubject,
      hq_Reason = TrimSpace reason, hq_RecordedAt = snd clk\<rparr>"

definition DeactivateParticipation ::
  "ProjectParticipation \<Rightarrow> string \<Rightarrow> string \<Rightarrow> reading \<Rightarrow>
   org_error + ProjectParticipation \<times> HistoricalParticipationLifecycleRecord" where
  "DeactivateParticipation pp actorSubject reason clk =
     (if pp_tenantID pp = [] \<or> pp_participationID pp = [] then Inl (HierErr ErrBlankID)
      else if pp_state pp = StateArchived then Inl (HierErr ErrEntityArchived)
      else let deactivated = Participation_Archive pp in
        Inr (deactivated, participation_record ''hptp_'' ''PARTICIPATION_DEACTIVATE'' pp deactivated actorSubject reason clk))"

definition CloseParticipation ::
  "ProjectParticipation \<Rightarrow> string \<Rightarrow> string \<Rightarrow> reading \<Rightarrow>
   org_error + ProjectParticipation \<times> HistoricalParticipationLifecycleRecord" where
  "CloseParticipation pp actorSubject reason clk =
     (if pp_tenantID pp = [] \<or> pp_participationID pp = [] then Inl (HierErr ErrBlankID)
      else if pp_state pp = StateArchived then Inl (HierErr ErrEntityArchived)
      else if pp_state pp = StateClosed then Inl (SponsorErr ErrParticipationClosed)
      else case Participation_Close pp of Inl e \<Rightarrow> Inl e | Inr closed \<Rightarrow>
        Inr (closed, participation_record ''hptp_'' ''PARTICIPATION_CLOSE'' pp closed actorSubject reason clk))"

definition ReassignSponsor ::
  "ProjectParticipation \<Rightarrow> string \<Rightarrow> string \<Rightarrow> string \<Rightarrow> gotime \<Rightarrow> int \<Rightarrow>
   org_error + ProjectParticipation \<times> SponsorReassignmentRecord" where
  "ReassignSponsor pp newSponsorID actorSubject reason at nanos =
     (let trimmedSponsor = TrimSpace newSponsorID in
      if pp_tenantID pp = [] \<or> pp_participationID pp = [] then Inl (HierErr ErrBlankID)
      else if pp_state pp \<noteq> StateActive
      then Inl (if pp_state pp = StateClosed then SponsorErr ErrParticipationClosed else PartyErr ErrParentNotActive)
      else if \<not> Participation_IsValidAt pp at then Inl (PartyErr ErrParticipationExpired)
      else case ValidateSponsorID trimmedSponsor of Some e \<Rightarrow> Inl e | None \<Rightarrow>
      if trimmedSponsor = pp_sponsorID pp then Inl (SponsorErr ErrSponsorUnchanged)
      else Inr (pp\<lparr>pp_sponsorID := trimmedSponsor\<rparr>,
        \<lparr>sr_RecordID = ''sps_'' @ pp_participationID pp @ ''_'' @ FormatInt nanos, sr_TenantID = pp_tenantID pp,
         sr_ParticipationID = pp_participationID pp, sr_PriorSponsorID = pp_sponsorID pp,
         sr_NewSponsorID = trimmedSponsor, sr_ActorSubject = TrimSpace actorSubject, sr_Reason = TrimSpace reason,
         sr_ReassignedAt = at\<rparr>))"

text \<open>The loop of \<open>CascadeProjectClosure\<close>; \<open>clk i\<close> is what the clock shows in iteration \<open>i\<close>.\<close>

fun cascade_loop ::
  "(nat \<Rightarrow> reading) \<Rightarrow> nat \<Rightarrow> Project \<Rightarrow> string \<Rightarrow> string \<Rightarrow> ProjectParticipation list \<Rightarrow>
   ProjectParticipation list \<Rightarrow> HistoricalParticipationLifecycleRecord list \<Rightarrow>
   org_error + ProjectParticipation list \<times> HistoricalParticipationLifecycleRecord list" where
  "cascade_loop clk i project actorSubject reason [] updated records = Inr (updated, records)"
| "cascade_loop clk i project actorSubject reason (pp # pps) updated records =
     (if pp_tenantID pp \<noteq> pj_tenantID project \<or> pp_projectID pp \<noteq> pj_projectID project
      then cascade_loop clk (Suc i) project actorSubject reason pps (updated @ [pp]) records
      else if pp_state pp = StateActive
      then (case Participation_Close pp of Inl e \<Rightarrow> Inl e | Inr closed \<Rightarrow>
              cascade_loop clk (Suc i) project actorSubject reason pps (updated @ [closed])
                (records @ [participation_record ''casc_'' ''PROJECT_CLOSURE_CASCADE'' pp closed actorSubject reason (clk i)]))
      else cascade_loop clk (Suc i) project actorSubject reason pps (updated @ [pp]) records)"

definition CascadeProjectClosure ::
  "(nat \<Rightarrow> reading) \<Rightarrow> Project \<Rightarrow> ProjectParticipation list \<Rightarrow> string \<Rightarrow> string \<Rightarrow>
   org_error + ProjectParticipation list \<times> HistoricalParticipationLifecycleRecord list" where
  "CascadeProjectClosure clk project participations actorSubject reason =
     (if pj_tenantID project = [] \<or> pj_projectID project = [] then Inl (HierErr ErrBlankID)
      else if pj_state project \<noteq> StateClosed then Inl (ErrorsNew ''cannot cascade closure from non-closed project'')
      else cascade_loop clk 0 project actorSubject reason participations [] [])"

definition ValidateParticipationAgainstProject :: "ProjectParticipation \<Rightarrow> Project \<Rightarrow> gotime \<Rightarrow> org_error option" where
  "ValidateParticipationAgainstProject pp project at =
     (if pp_tenantID pp \<noteq> pj_tenantID project then Some (HierErr ErrCrossTenantLinkage)
      else if pp_projectID pp \<noteq> pj_projectID project then Some (PartyErr ErrScopeMismatch)
      else if pj_state project = StateClosed then Some (SponsorErr ErrProjectClosedCascade)
      else if pj_state project = StateArchived then Some (HierErr ErrParentArchived)
      else if pj_state project \<noteq> StateActive then Some (PartyErr ErrParentNotActive)
      else if pp_state pp \<noteq> StateActive
      then Some (if pp_state pp = StateClosed then SponsorErr ErrParticipationClosed else PartyErr ErrParentNotActive)
      else if \<not> Participation_IsValidAt pp at then Some (PartyErr ErrParticipationExpired)
      else None)"

fun SimulateReversiblePartyState :: "Party \<Rightarrow> LifecycleState \<Rightarrow> org_error + Party" where
  "SimulateReversiblePartyState p (StateOther s) = Inl (ErrorsNew (''unrecognized target party state: '' @ s))"
| "SimulateReversiblePartyState p target = Inr (p\<lparr>py_state := target\<rparr>)"

record PartyLifecycleLedger =
  pl_partyRecords :: "HistoricalPartyLifecycleRecord list"
  pl_partRecords :: "HistoricalParticipationLifecycleRecord list"
  pl_sponsorRecords :: "SponsorReassignmentRecord list"

definition NewPartyLifecycleLedger :: PartyLifecycleLedger where
  "NewPartyLifecycleLedger = \<lparr>pl_partyRecords = [], pl_partRecords = [], pl_sponsorRecords = []\<rparr>"

definition AppendPartyRecord ::
  "HistoricalPartyLifecycleRecord \<Rightarrow> PartyLifecycleLedger \<Rightarrow> (PartyLifecycleLedger, org_error, unit) outcome" where
  "AppendPartyRecord rec l =
     (if hp_TenantID rec = [] \<or> hp_PartyID rec = [] then (l, Inl (HierErr ErrBlankID))
      else (l\<lparr>pl_partyRecords := pl_partyRecords l @ [rec]\<rparr>, Inr ()))"

definition AppendParticipationRecord ::
  "HistoricalParticipationLifecycleRecord \<Rightarrow> PartyLifecycleLedger \<Rightarrow> (PartyLifecycleLedger, org_error, unit) outcome" where
  "AppendParticipationRecord rec l =
     (if hq_TenantID rec = [] \<or> hq_ParticipationID rec = [] then (l, Inl (HierErr ErrBlankID))
      else (l\<lparr>pl_partRecords := pl_partRecords l @ [rec]\<rparr>, Inr ()))"

definition AppendSponsorReassignment ::
  "SponsorReassignmentRecord \<Rightarrow> PartyLifecycleLedger \<Rightarrow> (PartyLifecycleLedger, org_error, unit) outcome" where
  "AppendSponsorReassignment rec l =
     (if sr_TenantID rec = [] \<or> sr_ParticipationID rec = [] then (l, Inl (HierErr ErrBlankID))
      else (l\<lparr>pl_sponsorRecords := pl_sponsorRecords l @ [rec]\<rparr>, Inr ()))"

definition GetPartyHistory :: "string \<Rightarrow> string \<Rightarrow> PartyLifecycleLedger \<Rightarrow> org_error + HistoricalPartyLifecycleRecord list" where
  "GetPartyHistory tenantID partyID l =
     (if TrimSpace tenantID = [] then Inl (HierErr ErrBlankTenantID)
      else if TrimSpace partyID = [] then Inl (HierErr ErrBlankID)
      else Inr (filter (\<lambda>rec. hp_TenantID rec = TrimSpace tenantID \<and> hp_PartyID rec = TrimSpace partyID) (pl_partyRecords l)))"

definition GetParticipationHistory ::
  "string \<Rightarrow> string \<Rightarrow> PartyLifecycleLedger \<Rightarrow> org_error + HistoricalParticipationLifecycleRecord list" where
  "GetParticipationHistory tenantID participationID l =
     (if TrimSpace tenantID = [] then Inl (HierErr ErrBlankTenantID)
      else if TrimSpace participationID = [] then Inl (HierErr ErrBlankID)
      else Inr (filter (\<lambda>rec. hq_TenantID rec = TrimSpace tenantID \<and> hq_ParticipationID rec = TrimSpace participationID)
                  (pl_partRecords l)))"

definition GetSponsorHistory :: "string \<Rightarrow> string \<Rightarrow> PartyLifecycleLedger \<Rightarrow> org_error + SponsorReassignmentRecord list" where
  "GetSponsorHistory tenantID participationID l =
     (if TrimSpace tenantID = [] then Inl (HierErr ErrBlankTenantID)
      else if TrimSpace participationID = [] then Inl (HierErr ErrBlankID)
      else Inr (filter (\<lambda>rec. sr_TenantID rec = TrimSpace tenantID \<and> sr_ParticipationID rec = TrimSpace participationID)
                  (pl_sponsorRecords l)))"

text \<open>The calls on the registry and on the ledger.\<close>

datatype registry_call = CallRegisterParty Party | CallRegisterParticipation ProjectParticipation

fun exec_registry :: "registry_call \<Rightarrow> PartyRegistry \<Rightarrow> (PartyRegistry, org_error, unit) outcome" where
  "exec_registry (CallRegisterParty p) r = RegisterParty p r"
| "exec_registry (CallRegisterParticipation pp) r = RegisterParticipation pp r"

datatype ledger_call =
  CallAppendParty HistoricalPartyLifecycleRecord
| CallAppendParticipation HistoricalParticipationLifecycleRecord
| CallAppendSponsor SponsorReassignmentRecord

fun exec_ledger :: "ledger_call \<Rightarrow> PartyLifecycleLedger \<Rightarrow> (PartyLifecycleLedger, org_error, unit) outcome" where
  "exec_ledger (CallAppendParty rec) l = AppendPartyRecord rec l"
| "exec_ledger (CallAppendParticipation rec) l = AppendParticipationRecord rec l"
| "exec_ledger (CallAppendSponsor rec) l = AppendSponsorReassignment rec l"

subsection \<open>Lifecycle, registry and ledger contracts\<close>

interpretation participation: lifecycle_entity pp_tenantID pp_state "\<lambda>s. pp_state_update (\<lambda>_. s)"
  Participation_Archive Participation_Close Participation_ValidateScope
  by unfold_locales (simp_all add: Participation_Archive_def Participation_Close_def Participation_ValidateScope_def)

interpretation party_registry: fail_closed exec_registry
proof unfold_locales
  fix c s s' e
  show "exec_registry c s = (s', Inl e) \<Longrightarrow> s' = s"
    by (cases c) (auto simp: RegisterParty_def RegisterParticipation_def Let_def split: if_splits)
qed

lemma map_of_snoc: "map_of (xs @ [(k, v)]) j = (case map_of xs j of None \<Rightarrow> if j = k then Some v else None | Some u \<Rightarrow> Some u)"
  by (simp add: map_add_def split: option.splits)

interpretation registered_parties: absorbing exec_registry "\<lambda>_. True" "\<lambda>_. True"
  "\<lambda>k r. map_of (pr_parties r) k" "\<lambda>_. True"
proof unfold_locales
  fix r :: PartyRegistry and c k v
  assume "map_of (pr_parties r) k = Some v"
  then show "map_of (pr_parties (fst (exec_registry c r))) k = Some v"
    by (cases c) (auto simp: RegisterParty_def RegisterParticipation_def Let_def map_of_snoc)
qed simp

interpretation registered_participations: absorbing exec_registry "\<lambda>_. True" "\<lambda>_. True"
  "\<lambda>k r. map_of (pr_participations r) k" "\<lambda>_. True"
proof unfold_locales
  fix r :: PartyRegistry and c k v
  assume "map_of (pr_participations r) k = Some v"
  then show "map_of (pr_participations (fst (exec_registry c r))) k = Some v"
    by (cases c) (auto simp: RegisterParty_def RegisterParticipation_def Let_def map_of_snoc)
qed

interpretation ledger: journaled exec_ledger "\<lambda>_. True" "\<lambda>_. True"
  "\<lambda>k l. filter (\<lambda>rec. hp_TenantID rec = fst k \<and> hp_PartyID rec = snd k) (pl_partyRecords l)"
proof unfold_locales
  fix l :: PartyLifecycleLedger and c k
  show "prefix (filter (\<lambda>rec. hp_TenantID rec = fst k \<and> hp_PartyID rec = snd k) (pl_partyRecords l))
    (filter (\<lambda>rec. hp_TenantID rec = fst k \<and> hp_PartyID rec = snd k) (pl_partyRecords (fst (exec_ledger c l))))"
    by (cases c) (auto simp: AppendPartyRecord_def AppendParticipationRecord_def AppendSponsorReassignment_def)
qed simp

interpretation participation_ledger: journaled exec_ledger "\<lambda>_. True" "\<lambda>_. True"
  "\<lambda>k l. filter (\<lambda>rec. hq_TenantID rec = fst k \<and> hq_ParticipationID rec = snd k) (pl_partRecords l)"
proof unfold_locales
  fix l :: PartyLifecycleLedger and c k
  show "prefix (filter (\<lambda>rec. hq_TenantID rec = fst k \<and> hq_ParticipationID rec = snd k) (pl_partRecords l))
    (filter (\<lambda>rec. hq_TenantID rec = fst k \<and> hq_ParticipationID rec = snd k) (pl_partRecords (fst (exec_ledger c l))))"
    by (cases c) (auto simp: AppendPartyRecord_def AppendParticipationRecord_def AppendSponsorReassignment_def)
qed

interpretation sponsor_ledger: journaled exec_ledger "\<lambda>_. True" "\<lambda>_. True"
  "\<lambda>k l. filter (\<lambda>rec. sr_TenantID rec = fst k \<and> sr_ParticipationID rec = snd k) (pl_sponsorRecords l)"
proof unfold_locales
  fix l :: PartyLifecycleLedger and c k
  show "prefix (filter (\<lambda>rec. sr_TenantID rec = fst k \<and> sr_ParticipationID rec = snd k) (pl_sponsorRecords l))
    (filter (\<lambda>rec. sr_TenantID rec = fst k \<and> sr_ParticipationID rec = snd k) (pl_sponsorRecords (fst (exec_ledger c l))))"
    by (cases c) (auto simp: AppendPartyRecord_def AppendParticipationRecord_def AppendSponsorReassignment_def)
qed

subsection \<open>Participations the package can build\<close>

inductive built_participation :: "ProjectParticipation \<Rightarrow> bool" where
  direct: "NewProjectParticipation party i prj site sponsor role f t = Inr pp \<Longrightarrow> built_participation pp"
| nested: "built_participation parent \<Longrightarrow>
    NewNestedSubcontractorParticipation parent party i site sponsor role f t = Inr pp \<Longrightarrow> built_participation pp"
| archived: "built_participation pp \<Longrightarrow> built_participation (Participation_Archive pp)"
| closed: "built_participation pp \<Longrightarrow> Participation_Close pp = Inr pp' \<Longrightarrow> built_participation pp'"
| simulated: "built_participation pp \<Longrightarrow> SimulateReversibleParticipationState pp s = Inr pp' \<Longrightarrow> built_participation pp'"
| sponsored: "built_participation pp \<Longrightarrow> ReassignSponsor pp n actor reason at nanos = Inr (pp', rec) \<Longrightarrow> built_participation pp'"

definition wf_participation :: "ProjectParticipation \<Rightarrow> bool" where
  "wf_participation pp \<longleftrightarrow>
     pp_participationID pp \<noteq> [] \<and> pp_tenantID pp \<noteq> [] \<and> pp_partyID pp \<noteq> [] \<and> pp_projectID pp \<noteq> [] \<and>
     ValidateSponsorID (pp_sponsorID pp) = None \<and> ValidateParticipationRole (pp_role pp) = None \<and>
     pp_validFrom pp < pp_validTo pp \<and>
     (pp_nestingDepth pp = 0 \<and> pp_parentParticipationID pp = [] \<or>
      pp_nestingDepth pp = MaxContractorNestingDepth \<and> pp_parentParticipationID pp \<noteq> [])"

lemma ValidateSponsorID_TrimSpace [simp]: "ValidateSponsorID (TrimSpace i) = ValidateSponsorID i"
  by (simp add: ValidateSponsorID_def)

lemma AssertNoInternalAuthority_None: "AssertNoInternalAuthority role = None \<Longrightarrow> ValidateParticipationRole role = None"
  by (simp add: AssertNoInternalAuthority_def Let_def split: if_splits)

lemma NewNested_Inr:
  assumes "NewNestedSubcontractorParticipation parent party i site sponsor role f t = Inr pp"
  shows "pp_nestingDepth parent < MaxContractorNestingDepth" "pp_state parent = StateActive" "pp_state pp = StateActive"
    "pp_nestingDepth pp = pp_nestingDepth parent + 1" "pp_parentParticipationID pp = pp_participationID parent"
    "pp_participationID parent \<noteq> []" "pp_participationID pp \<noteq> []" "pp_tenantID pp = pp_tenantID parent" "pp_tenantID pp \<noteq> []"
    "pp_partyID pp \<noteq> []" "pp_projectID pp = pp_projectID parent" "ValidateSponsorID (pp_sponsorID pp) = None"
    "ValidateParticipationRole (pp_role pp) = None" "pp_validFrom pp < pp_validTo pp"
    "pp_validFrom parent \<le> pp_validFrom pp" "pp_validTo pp \<le> pp_validTo parent"
    "pp_siteID parent \<noteq> [] \<Longrightarrow> pp_siteID pp = pp_siteID parent"
  using assms
  by (auto simp: NewNestedSubcontractorParticipation_def Let_def After_def guards dest: AssertNoInternalAuthority_None)

lemma NewProjectParticipation_Inr:
  assumes "NewProjectParticipation party i prj site sponsor role f t = Inr pp"
  shows "wf_participation pp"
  using assms
  by (auto simp: NewProjectParticipation_def wf_participation_def dest: AssertNoInternalAuthority_None
      split: if_splits option.splits)

lemma ReassignSponsor_Inr:
  assumes "ReassignSponsor pp n actor reason at nanos = Inr (pp', rec)"
  shows "pp' = pp\<lparr>pp_sponsorID := TrimSpace n\<rparr>" "ValidateSponsorID n = None" "TrimSpace n \<noteq> pp_sponsorID pp"
    "Participation_IsValidAt pp at" "sr_PriorSponsorID rec = pp_sponsorID pp" "sr_NewSponsorID rec = TrimSpace n"
  using assms by (auto simp: ReassignSponsor_def Let_def split: if_splits option.splits)

lemma built_participation_wf: "built_participation pp \<Longrightarrow> wf_participation pp"
proof (induction rule: built_participation.induct)
  case (direct party i prj site sponsor role f t pp)
  then show ?case by (rule NewProjectParticipation_Inr)
next
  case (nested parent party i site sponsor role f t pp)
  from NewNested_Inr [OF nested(2)] nested(3) show ?case
    by (auto simp: wf_participation_def MaxContractorNestingDepth_def)
next
  case (simulated pp s pp')
  then show ?case by (cases s) (auto simp: wf_participation_def)
next
  case (sponsored pp n actor reason at nanos pp' rec)
  with ReassignSponsor_Inr [OF sponsored(2)] show ?case by (simp add: wf_participation_def)
qed (auto simp: wf_participation_def Participation_Archive_def Participation_Close_def split: if_splits)

subsection \<open>The cascade\<close>

definition cascaded :: "Project \<Rightarrow> ProjectParticipation \<Rightarrow> bool" where
  "cascaded project pp \<longleftrightarrow>
     pp_tenantID pp = pj_tenantID project \<and> pp_projectID pp = pj_projectID project \<and> pp_state pp = StateActive"

definition cascade_entry :: "Project \<Rightarrow> ProjectParticipation \<Rightarrow> ProjectParticipation" where
  "cascade_entry project pp = (if cascaded project pp then pp\<lparr>pp_state := StateClosed\<rparr> else pp)"

definition cascade_records ::
  "(nat \<Rightarrow> reading) \<Rightarrow> nat \<Rightarrow> Project \<Rightarrow> string \<Rightarrow> string \<Rightarrow> ProjectParticipation list \<Rightarrow>
   HistoricalParticipationLifecycleRecord list" where
  "cascade_records clk i project actor reason pps =
     map (\<lambda>(j, pp). participation_record ''casc_'' ''PROJECT_CLOSURE_CASCADE'' pp (pp\<lparr>pp_state := StateClosed\<rparr>) actor reason (clk j))
       (filter (\<lambda>(j, pp). cascaded project pp) (enumerate i pps))"

lemma cascade_loop_spec:
  "cascade_loop clk i project actor reason pps updated records =
     Inr (updated @ map (cascade_entry project) pps, records @ cascade_records clk i project actor reason pps)"
  by (induction clk i project actor reason pps updated records rule: cascade_loop.induct)
    (auto simp: cascade_entry_def cascaded_def cascade_records_def Participation_Close_def)

subsection \<open>Properties\<close>

text \<open>
  The cascade loop computes its specification: closing a project closes, in place, exactly the active
  participations of that project and tenant, and writes one record for each of them in order; it
  refuses a project that is not closed, and its error branch inside the loop is never taken.
\<close>

theorem cascade_equals_reference:
  "CascadeProjectClosure clk project pps actor reason =
     (if pj_tenantID project = [] \<or> pj_projectID project = [] then Inl (HierErr ErrBlankID)
      else if pj_state project \<noteq> StateClosed then Inl (ErrorsNew ''cannot cascade closure from non-closed project'')
      else Inr (map (cascade_entry project) pps, cascade_records clk 0 project actor reason pps))"
  by (simp add: CascadeProjectClosure_def cascade_loop_spec)

text \<open>
  A subcontractor never reaches further than its contractor: whatever project, site and time a nested
  participation is valid for at its creation, the parent participation is valid for.
\<close>

theorem subcontractor_within_contractor:
  assumes "NewNestedSubcontractorParticipation parent party i site sponsor role f t = Inr pp"
    and "ValidateScopeAt pp projectID siteID at = None"
  shows "ValidateScopeAt parent projectID siteID at = None"
proof (cases "pp_siteID parent = []")
  case True
  with NewNested_Inr [OF assms(1)] assms(2) show ?thesis
    by (auto simp: ValidateScopeAt_def After_def split: if_splits)
next
  case False
  with NewNested_Inr [OF assms(1)] assms(2) show ?thesis
    by (auto simp: ValidateScopeAt_def After_def split: if_splits)
qed

text \<open>
  Contractor nesting is at most one level deep: every participation the package can build has depth
  zero and no parent or depth one and a parent, a nonempty validity window, an internal
  sponsor and a role that is not administrative; and no participation is built under one of depth one.
\<close>

theorem nesting_bounded:
  assumes "built_participation pp"
  shows "0 \<le> pp_nestingDepth pp \<and> pp_nestingDepth pp \<le> MaxContractorNestingDepth \<and>
    (pp_nestingDepth pp = MaxContractorNestingDepth \<longleftrightarrow> pp_parentParticipationID pp \<noteq> []) \<and>
    pp_validFrom pp < pp_validTo pp \<and> ValidateSponsorID (pp_sponsorID pp) = None \<and>
    ValidateParticipationRole (pp_role pp) = None \<and>
    (pp_parentParticipationID pp \<noteq> [] \<longrightarrow>
       (\<exists>e. NewNestedSubcontractorParticipation pp party i site sponsor role f t = Inl e))"
proof -
  have w: "wf_participation pp" using assms by (rule built_participation_wf)
  have "\<exists>e. NewNestedSubcontractorParticipation pp party i site sponsor role f t = Inl e" if "pp_parentParticipationID pp \<noteq> []"
  proof (cases "NewNestedSubcontractorParticipation pp party i site sponsor role f t")
    case (Inr sub)
    with NewNested_Inr(1) [OF Inr] w that show ?thesis by (simp add: wf_participation_def)
  qed simp
  with w show ?thesis by (auto simp: wf_participation_def MaxContractorNestingDepth_def)
qed

definition example_party :: Party where
  "example_party = \<lparr>py_tenantID = ''ten_1'', py_partyID = ''prt_1'', py_name = ''Build Co'', py_partyType = ''CONTRACTOR'',
     py_state = StateActive\<rparr>"

definition example_contractor :: ProjectParticipation where
  "example_contractor = \<lparr>pp_participationID = ''ptp_1'', pp_tenantID = ''ten_1'', pp_partyID = ''prt_1'', pp_projectID = ''prj_1'',
     pp_siteID = ''ste_1'', pp_sponsorID = ''usr_9'', pp_role = ''SITE_SAFETY_LEAD'', pp_validFrom = 10, pp_validTo = 90,
     pp_state = StateActive, pp_parentParticipationID = [], pp_nestingDepth = 0\<rparr>"

definition example_sub :: ProjectParticipation where
  "example_sub = \<lparr>pp_participationID = ''ptp_2'', pp_tenantID = ''ten_1'', pp_partyID = ''prt_1'', pp_projectID = ''prj_1'',
     pp_siteID = ''ste_1'', pp_sponsorID = ''usr_9'', pp_role = ''CONTRACTOR_WORKER'', pp_validFrom = 20, pp_validTo = 80,
     pp_state = StateActive, pp_parentParticipationID = ''ptp_1'', pp_nestingDepth = 1\<rparr>"

lemma example_contractor_new:
  "NewProjectParticipation example_party ''ptp_1'' ''prj_1'' ''ste_1'' ''usr_9'' ''SITE_SAFETY_LEAD'' 10 90 = Inr example_contractor"
  by code_simp

lemma example_sub_new:
  "NewNestedSubcontractorParticipation example_contractor example_party ''ptp_2'' [] ''usr_9'' ''CONTRACTOR_WORKER'' 20 80 =
     Inr example_sub"
  by code_simp

theorem subcontractor_within_contractor_witness:
  "ValidateScopeAt example_sub ''prj_1'' ''ste_1'' 50 = None \<and> ValidateScopeAt example_contractor ''prj_1'' ''ste_1'' 50 = None"
proof -
  have "ValidateScopeAt example_sub ''prj_1'' ''ste_1'' 50 = None" by code_simp
  with subcontractor_within_contractor [OF example_sub_new] show ?thesis by blast
qed

theorem nesting_bounded_witness:
  "pp_nestingDepth example_sub \<le> MaxContractorNestingDepth \<and>
   (\<exists>e. NewNestedSubcontractorParticipation example_sub example_party ''ptp_3'' [] ''usr_9'' ''CONSULTANT'' 30 40 = Inl e)"
  using nesting_bounded [OF nested [OF direct [OF example_contractor_new] example_sub_new],
      where party = example_party and i = "''ptp_3''" and site = "[]" and sponsor = "''usr_9''"
        and role = "''CONSULTANT''" and f = 30 and t = 40]
  by (simp add: example_sub_def)

text \<open>
  A sponsor is replaced exactly when the participation is active and inside its window and the new sponsor is
  an internal user other than the present one; only the sponsor changes, and the record names both.
\<close>

theorem ReassignSponsor_succeeds_iff:
  assumes "built_participation pp"
  shows "(\<exists>pp' rec. ReassignSponsor pp n actor reason at nanos = Inr (pp', rec)) \<longleftrightarrow>
    pp_state pp = StateActive \<and> pp_validFrom pp \<le> at \<and> at \<le> pp_validTo pp \<and>
    ValidateSponsorID n = None \<and> TrimSpace n \<noteq> pp_sponsorID pp"
  using built_participation_wf [OF assms]
  by (auto simp: ReassignSponsor_def Let_def wf_participation_def Participation_IsValidAt_def After_def
      split: option.splits)

text \<open>
  The ledger is append-only and read per tenant: what a history query returned is a prefix of what
  it returns after any further calls, and every record returned is of the tenant and party asked for.
\<close>

theorem party_history_append_only:
  assumes "GetPartyHistory tenantID partyID l = Inr h"
  shows "\<exists>h'. GetPartyHistory tenantID partyID (run_calls exec_ledger cs l) = Inr h' \<and> prefix h h' \<and>
    (\<forall>rec\<in>set h'. hp_TenantID rec = TrimSpace tenantID \<and> hp_PartyID rec = TrimSpace partyID)"
  using assms ledger.run_journal [where s = l and cs = cs and k = "(TrimSpace tenantID, TrimSpace partyID)"]
  by (auto simp: GetPartyHistory_def split: if_splits)

text \<open>
  A registered participation can be read back, and stays readable unchanged whatever is registered later.
\<close>

theorem registered_participation_readable:
  assumes "RegisterParticipation pp r = (r', Inr ())"
  shows "GetParticipation (pp_tenantID pp) (pp_participationID pp) (run_calls exec_registry cs r') = Inr pp"
proof -
  let ?k = "makeParticipationKey (pp_tenantID pp) (pp_participationID pp)"
  from assms have "map_of (pr_participations r') ?k = Some pp"
    by (auto simp: RegisterParticipation_def Let_def map_add_def split: if_splits)
  then have "map_of (pr_participations (run_calls exec_registry cs r')) ?k = Some pp"
    using registered_participations.run_final [where s = r' and cs = cs] by simp
  then show ?thesis by (simp add: GetParticipation_def)
qed

text \<open>
  The registry does not check the tenant of what it finds: tenant \<open>a\<close> asking for party \<open>b:c\<close> is given the
  party \<open>c\<close> of tenant \<open>a:b\<close>.
\<close>

theorem party_lookup_crosses_tenants:
  "map_sum id py_tenantID (GetParty ''a'' ''b:c''
     (fst (RegisterParty (example_party\<lparr>py_tenantID := ''a:b'', py_partyID := ''c''\<rparr>) NewPartyRegistry))) = Inr ''a:b''"
  by code_simp

text \<open>
  Closing the contractor leaves the subcontractor's own scope check open: only the nested check,
  with the current parent in hand, refuses.
\<close>

theorem orphan_subcontractor:
  "ValidateScopeAt example_sub ''prj_1'' ''ste_1'' 50 = None \<and>
   ValidateNestedScope example_sub (Participation_Archive example_contractor) ''prj_1'' ''ste_1'' 50 = Some (PartyErr ErrParentNotActive)"
  by code_simp

end
