(* ===== verification/Business_Rules.thy ===== *)
theory Business_Rules
  imports Workflow Finding_Lifecycle
begin

text \<open>
  The business rule matrix and the transition catalog, \<open>modules/workflow-action/business_rules.go\<close>: registration
  of versioned rules, binding of transitions to rules, and the eight-step qualification of a
  transition request, with the pre-populated matrix and catalog. The optional condition map of a request
  is a HOL map, a nil one the empty map.
\<close>

subsection \<open>Definitions\<close>

definition TargetKindTemplate :: string where "TargetKindTemplate = ''TEMPLATE''"
definition TargetKindWorkflow :: string where "TargetKindWorkflow = ''WORKFLOW''"
definition TargetKindAction :: string where "TargetKindAction = ''ACTION''"
definition TargetKindScoring :: string where "TargetKindScoring = ''SCORING''"
definition TargetKindInspection :: string where "TargetKindInspection = ''INSPECTION''"

datatype RuleResult =
  RuleResultPermitted | RuleResultRequiresApproval | RuleResultDenied | RuleResultQuarantined
| RuleResultOther string \<comment> \<open>any other string; the zero value is \<open>RuleResultOther []\<close>\<close>

datatype FailureBehavior = FailureFailClosed | FailureReject | FailureOther string

datatype DenialCode =
  DenialNone | DenialUnregisteredRule | DenialIncompatibleVersion | DenialMissingCondition
| DenialMissingEvidence | DenialUnauthorizedActor | DenialArchivedTarget | DenialInvalidTransition
| DenialBlankIdentifier | DenialCriticalFailActive | DenialUnknownQuarantined
| DenialManualOverrideDeferred | DenialAutonomousAIBoundary

fun denial_text :: "DenialCode \<Rightarrow> string" where
  "denial_text DenialNone = ''NONE''"
| "denial_text DenialUnregisteredRule = ''UNREGISTERED_RULE''"
| "denial_text DenialIncompatibleVersion = ''INCOMPATIBLE_MATRIX_VERSION''"
| "denial_text DenialMissingCondition = ''MISSING_REQUIRED_CONDITION''"
| "denial_text DenialMissingEvidence = ''MISSING_REQUIRED_EVIDENCE''"
| "denial_text DenialUnauthorizedActor = ''UNAUTHORIZED_ACTOR_CLASS''"
| "denial_text DenialArchivedTarget = ''ARCHIVED_TARGET_MUTATION_DENIED''"
| "denial_text DenialInvalidTransition = ''INVALID_CATALOG_TRANSITION''"
| "denial_text DenialBlankIdentifier = ''BLANK_IDENTIFIER''"
| "denial_text DenialCriticalFailActive = ''CRITICAL_FAIL_ACTIVE''"
| "denial_text DenialUnknownQuarantined = ''UNKNOWN_RESPONSE_QUARANTINED''"
| "denial_text DenialManualOverrideDeferred = ''MANUAL_OVERRIDE_DEFERRED''"
| "denial_text DenialAutonomousAIBoundary = ''AUTONOMOUS_AI_BOUNDARY_EXCEEDED''"

datatype rule_error =
  ErrBlankRuleID | ErrDuplicateRuleID | ErrUnregisteredRule | ErrIncompatibleMatrixVersion
| ErrMissingCondition | ErrMissingEvidence | ErrUnauthorizedActorClass | ErrArchivedTargetMutation
| ErrInvalidCatalogTransition | ErrBlankIdentifier | ErrCriticalFailActive | ErrUnknownQuarantined
| ErrManualOverrideDeferred | ErrAutonomousAIBoundary
| Wfa wfa_error \<comment> \<open>an error of another file of the package\<close>

record EvidenceRequirement =
  eq_Required :: bool
  eq_MinCount :: int

record BusinessRule =
  br_RuleID :: string
  br_OwnerRole :: string
  br_RequiredConditions :: "string list"
  br_DeterministicResult :: RuleResult
  br_FailureBehavior :: FailureBehavior
  br_Evidence :: EvidenceRequirement
  br_TraceabilityKey :: string
  br_Description :: string

record RuleMatrix =
  rm_version :: string
  rm_rules :: "string \<rightharpoonup> BusinessRule"

definition NewRuleMatrix :: "string \<Rightarrow> RuleMatrix" where
  "NewRuleMatrix version =
     \<lparr>rm_version = (if TrimSpace version = [] then CurrentRuleMatrixVersion else TrimSpace version),
      rm_rules = Map.empty\<rparr>"

definition RegisterRule :: "BusinessRule \<Rightarrow> RuleMatrix \<Rightarrow> (RuleMatrix, rule_error, unit) outcome" where
  "RegisterRule rule m =
     (let ident = TrimSpace (br_RuleID rule) in
      if ident = [] then (m, Inl ErrBlankRuleID)
      else if rm_rules m ident \<noteq> None then (m, Inl ErrDuplicateRuleID)
      else (m\<lparr>rm_rules := (rm_rules m)(ident \<mapsto>
              rule\<lparr>br_RuleID := ident, br_OwnerRole := TrimSpace (br_OwnerRole rule),
                   br_TraceabilityKey := TrimSpace (br_TraceabilityKey rule),
                   br_DeterministicResult := (if br_DeterministicResult rule = RuleResultOther [] then RuleResultPermitted
                                              else br_DeterministicResult rule),
                   br_FailureBehavior := (if br_FailureBehavior rule = FailureOther [] then FailureFailClosed
                                          else br_FailureBehavior rule)\<rparr>)\<rparr>, Inr ()))"

definition GetRule :: "string \<Rightarrow> RuleMatrix \<Rightarrow> rule_error + BusinessRule" where
  "GetRule ruleID m = (case rm_rules m (TrimSpace ruleID) of None \<Rightarrow> Inl ErrUnregisteredRule | Some rule \<Rightarrow> Inr rule)"

record TransitionKey =
  tky_TargetKind :: string
  tky_FromState :: string
  tky_ToState :: string

record TransitionCatalog =
  tcg_transitions :: "TransitionKey \<rightharpoonup> string"

definition NewTransitionCatalog :: TransitionCatalog where
  "NewTransitionCatalog = \<lparr>tcg_transitions = Map.empty\<rparr>"

definition transition_key :: "string \<Rightarrow> string \<Rightarrow> string \<Rightarrow> TransitionKey" where
  "transition_key targetKind fromState toState =
     \<lparr>tky_TargetKind = ToUpper (TrimSpace targetKind), tky_FromState = TrimSpace fromState, tky_ToState = TrimSpace toState\<rparr>"

definition RegisterTransition ::
  "string \<Rightarrow> string \<Rightarrow> string \<Rightarrow> string \<Rightarrow> TransitionCatalog \<Rightarrow> (TransitionCatalog, rule_error, unit) outcome" where
  "RegisterTransition targetKind fromState toState ruleID c =
     (let key = transition_key targetKind fromState toState; rid = TrimSpace ruleID in
      if tky_TargetKind key = [] \<or> tky_FromState key = [] \<or> tky_ToState key = [] \<or> rid = []
      then (c, Inl ErrBlankIdentifier)
      else (c\<lparr>tcg_transitions := (tcg_transitions c)(key \<mapsto> rid)\<rparr>, Inr ()))"

definition LookupRule :: "string \<Rightarrow> string \<Rightarrow> string \<Rightarrow> TransitionCatalog \<Rightarrow> rule_error + string" where
  "LookupRule targetKind fromState toState c =
     (case tcg_transitions c (transition_key targetKind fromState toState) of
        None \<Rightarrow> Inl ErrInvalidCatalogTransition | Some rid \<Rightarrow> Inr rid)"

record TransitionQualificationRequest =
  tq_RuleID :: string
  tq_TargetKind :: string
  tq_TargetID :: string
  tq_TenantID :: string
  tq_FromState :: string
  tq_ToState :: string
  tq_Actor :: string
  tq_ActorRole :: string
  tq_EvidenceIDs :: "string list"
  tq_InputConditions :: "string \<rightharpoonup> bool"
  tq_MatrixVersion :: string
  tq_IsArchived :: bool

record TransitionQualificationResult =
  qr_Allowed :: bool
  qr_RuleID :: string
  qr_TraceabilityKey :: string
  qr_DenialReason :: DenialCode
  qr_Explanation :: string
  qr_EvaluatedAt :: gotime

definition qualifyAllow :: "BusinessRule \<Rightarrow> string \<Rightarrow> gotime \<Rightarrow> TransitionQualificationResult" where
  "qualifyAllow rule explanation evaluatedAt =
     \<lparr>qr_Allowed = True, qr_RuleID = br_RuleID rule, qr_TraceabilityKey = br_TraceabilityKey rule,
      qr_DenialReason = DenialNone, qr_Explanation = explanation, qr_EvaluatedAt = evaluatedAt\<rparr>"

definition qualifyDeny :: "string \<Rightarrow> string \<Rightarrow> DenialCode \<Rightarrow> string \<Rightarrow> gotime \<Rightarrow> TransitionQualificationResult" where
  "qualifyDeny ruleID traceKey code explanation evaluatedAt =
     \<lparr>qr_Allowed = False, qr_RuleID = ruleID, qr_TraceabilityKey = traceKey,
      qr_DenialReason = code, qr_Explanation = explanation, qr_EvaluatedAt = evaluatedAt\<rparr>"

text \<open>The condition loop of step 7: the first condition that is named and not fulfilled.\<close>

fun missing_condition :: "(string \<rightharpoonup> bool) \<Rightarrow> string list \<Rightarrow> string option" where
  "missing_condition inputs [] = None"
| "missing_condition inputs (cond # conds) =
     (let trimmedCond = TrimSpace cond in
      if trimmedCond = [] then missing_condition inputs conds
      else if inputs trimmedCond \<noteq> Some True then Some trimmedCond
      else missing_condition inputs conds)"

text \<open>Steps 5 to 8, once the rule is known.\<close>

definition qualify_rule ::
  "BusinessRule \<Rightarrow> TransitionQualificationRequest \<Rightarrow> gotime \<Rightarrow> TransitionCatalog \<Rightarrow> TransitionQualificationResult" where
  "qualify_rule rule req now c =
     (let deny = qualifyDeny (br_RuleID rule) (br_TraceabilityKey rule) in
      if LookupRule (tq_TargetKind req) (tq_FromState req) (tq_ToState req) c \<noteq> Inr (br_RuleID rule)
      then deny DenialInvalidTransition
        (''transition from '' @ tq_FromState req @ '' to '' @ tq_ToState req @ '' for '' @ tq_TargetKind req @
         '' is not permitted under rule '' @ br_RuleID rule) now
      else if br_OwnerRole rule \<noteq> [] \<and> \<not> EqualFold (TrimSpace (tq_ActorRole req)) (br_OwnerRole rule)
      then deny DenialUnauthorizedActor
        (''actor role '' @ Quote (tq_ActorRole req) @ '' is not authorized for rule '' @ br_RuleID rule @
         '' (required: '' @ br_OwnerRole rule @ '')'') now
      else case missing_condition (tq_InputConditions req) (br_RequiredConditions rule) of
        Some cond \<Rightarrow> deny DenialMissingCondition
          (''required input condition '' @ Quote cond @ '' is missing or unfulfilled'') now
      | None \<Rightarrow>
          if eq_Required (br_Evidence rule) \<and> int (length (tq_EvidenceIDs req)) < eq_MinCount (br_Evidence rule)
          then deny DenialMissingEvidence
            (''insufficient evidence: required '' @ FormatInt (eq_MinCount (br_Evidence rule)) @ '', provided '' @
             FormatInt (int (length (tq_EvidenceIDs req)))) now
          else qualifyAllow rule (''transition qualified and approved under rule '' @ br_RuleID rule) now)"

definition TransitionCatalog_Qualify ::
  "RuleMatrix \<Rightarrow> TransitionQualificationRequest \<Rightarrow> gotime \<Rightarrow> TransitionCatalog \<Rightarrow> TransitionQualificationResult" where
  "TransitionCatalog_Qualify matrix req now c =
     (let deny = qualifyDeny (tq_RuleID req) [];
          reqVer = (if TrimSpace (tq_MatrixVersion req) = [] then rm_version matrix else TrimSpace (tq_MatrixVersion req)) in
      if TrimSpace (tq_TargetID req) = [] then deny DenialBlankIdentifier ''target ID cannot be blank'' now
      else if TrimSpace (tq_TenantID req) = [] then deny DenialBlankIdentifier ''tenant ID cannot be blank'' now
      else if TrimSpace (tq_Actor req) = [] then deny DenialBlankIdentifier ''actor cannot be blank'' now
      else if reqVer \<noteq> CurrentRuleMatrixVersion \<or> rm_version matrix \<noteq> CurrentRuleMatrixVersion
      then deny DenialIncompatibleVersion
        (''incompatible matrix version '' @ Quote reqVer @ '': expected '' @ CurrentRuleMatrixVersion) now
      else if tq_IsArchived req \<or> EqualFold (tq_FromState req) ''ARCHIVED'' \<or> EqualFold (tq_FromState req) ''RETIRED''
      then deny DenialArchivedTarget ''target is in an archived/retired state and cannot be mutated'' now
      else case (if TrimSpace (tq_RuleID req) = []
                 then LookupRule (tq_TargetKind req) (tq_FromState req) (tq_ToState req) c
                 else Inr (TrimSpace (tq_RuleID req))) of
        Inl _ \<Rightarrow> qualifyDeny [] [] DenialInvalidTransition
          (''no registered transition from '' @ tq_FromState req @ '' to '' @ tq_ToState req @ '' for target kind '' @
           tq_TargetKind req) now
      | Inr ruleID \<Rightarrow>
          (case GetRule ruleID matrix of
             Inl _ \<Rightarrow> qualifyDeny ruleID [] DenialUnregisteredRule
               (''business rule '' @ Quote ruleID @ '' is not registered in matrix'') now
           | Inr rule \<Rightarrow> qualify_rule rule req now c))"

text \<open>The pre-populated matrix and catalog, registered in the order of the source.\<close>

definition default_rule :: "string \<Rightarrow> string \<Rightarrow> string list \<Rightarrow> bool \<Rightarrow> string \<Rightarrow> string \<Rightarrow> BusinessRule" where
  "default_rule ident owner conditions evidence trace description =
     \<lparr>br_RuleID = ident, br_OwnerRole = owner, br_RequiredConditions = conditions,
      br_DeterministicResult = RuleResultPermitted, br_FailureBehavior = FailureFailClosed,
      br_Evidence = (if evidence then \<lparr>eq_Required = True, eq_MinCount = 1\<rparr> else \<lparr>eq_Required = False, eq_MinCount = 0\<rparr>),
      br_TraceabilityKey = trace, br_Description = description\<rparr>"

definition default_rules :: "BusinessRule list" where
  "default_rules =
     [default_rule ''RULE-TMPL-SUBMIT'' ''AUTHOR'' [''questions_non_empty''] False ''OSHE-BR-TMPL-01'' ''Template submission from Draft to InReview'',
      default_rule ''RULE-TMPL-APPROVE'' ''REVIEWER'' [''review_recorded''] False ''OSHE-BR-TMPL-02'' ''Template approval from InReview to Approved'',
      default_rule ''RULE-TMPL-PUBLISH'' ''ADMIN'' [''approval_recorded''] False ''OSHE-BR-TMPL-03'' ''Template publication from Approved to Published'',
      default_rule ''RULE-TMPL-RETIRE'' ''ADMIN'' [''superseded_or_deprecated''] False ''OSHE-BR-TMPL-04'' ''Template retirement from Published to Retired'',
      default_rule ''RULE-WF-START'' ''OPERATOR'' [] False ''OSHE-BR-WF-01'' ''Workflow start from Draft to InProgress'',
      default_rule ''RULE-WF-SUBMIT'' ''OPERATOR'' [''draft_complete''] False ''OSHE-BR-WF-02'' ''Workflow submission from InProgress to UnderReview'',
      default_rule ''RULE-WF-APPROVE'' ''SUPERVISOR'' [''review_passed''] False ''OSHE-BR-WF-03'' ''Workflow approval from UnderReview to Approved'',
      default_rule ''RULE-WF-CLOSE'' ''SUPERVISOR'' [''signoff_complete''] False ''OSHE-BR-WF-04'' ''Workflow closure from Approved to Closed'',
      default_rule ''RULE-ACT-START'' ''OWNER'' [] False ''OSHE-BR-ACT-01'' ''Action work started from Assigned to InProgress'',
      default_rule ''RULE-ACT-SUBMIT'' ''OWNER'' [''remediation_complete''] True ''OSHE-BR-ACT-02'' ''Action submitted for review with required evidence'',
      default_rule ''RULE-ACT-REJECT'' ''REVIEWER'' [''rejection_reason_provided''] False ''OSHE-BR-ACT-03'' ''Action review rejected back to Rejected'',
      default_rule ''RULE-ACT-CLOSE'' ''REVIEWER'' [''inspection_verified''] True ''OSHE-BR-ACT-04'' ''Action approved and closed with evidence'',
      default_rule ''RULE-ACT-REOPEN'' ''REVIEWER'' [''reopen_justification''] False ''OSHE-BR-ACT-05'' ''Action reopened from Closed state'',
      default_rule ''RULE-WFA-SCORING-EVAL'' ''INSPECTOR'' [''pinned_version_verified'', ''model_2_weighted''] False ''OSHE-BR-SCORING-01''
        ''Deterministic operational compliance scoring under HDEC-V040-SCORING-058'']"

definition DefaultRuleMatrix :: RuleMatrix where
  "DefaultRuleMatrix = foldl (\<lambda>m rule. fst (RegisterRule rule m)) (NewRuleMatrix CurrentRuleMatrixVersion) default_rules"

fun workflow_state_text :: "State \<Rightarrow> string" where
  "workflow_state_text StateDraft = ''DRAFT''"
| "workflow_state_text StateInProgress = ''IN_PROGRESS''"
| "workflow_state_text StateUnderReview = ''UNDER_REVIEW''"
| "workflow_state_text StateApproved = ''APPROVED''"
| "workflow_state_text StateClosed = ''CLOSED''"
| "workflow_state_text StateArchived = ''ARCHIVED''"
| "workflow_state_text (StateOther s) = s"

fun action_state_text :: "ActionState \<Rightarrow> string" where
  "action_state_text ActionStateAssigned = ''ASSIGNED''"
| "action_state_text ActionStateInProgress = ''IN_PROGRESS''"
| "action_state_text ActionStateInReview = ''IN_REVIEW''"
| "action_state_text ActionStateRejected = ''REJECTED''"
| "action_state_text ActionStateOverdue = ''OVERDUE''"
| "action_state_text ActionStateClosed = ''CLOSED''"
| "action_state_text ActionStateReopened = ''REOPENED''"
| "action_state_text (ActionStateOther s) = s"

definition default_transitions :: "(string \<times> string \<times> string \<times> string) list" where
  "default_transitions =
     [(TargetKindTemplate, ''Draft'', ''InReview'', ''RULE-TMPL-SUBMIT''),
      (TargetKindTemplate, ''InReview'', ''Approved'', ''RULE-TMPL-APPROVE''),
      (TargetKindTemplate, ''Approved'', ''Published'', ''RULE-TMPL-PUBLISH''),
      (TargetKindTemplate, ''Published'', ''Retired'', ''RULE-TMPL-RETIRE''),
      (TargetKindWorkflow, workflow_state_text StateDraft, workflow_state_text StateInProgress, ''RULE-WF-START''),
      (TargetKindWorkflow, workflow_state_text StateInProgress, workflow_state_text StateUnderReview, ''RULE-WF-SUBMIT''),
      (TargetKindWorkflow, workflow_state_text StateUnderReview, workflow_state_text StateApproved, ''RULE-WF-APPROVE''),
      (TargetKindWorkflow, workflow_state_text StateApproved, workflow_state_text StateClosed, ''RULE-WF-CLOSE''),
      (TargetKindAction, action_state_text ActionStateAssigned, action_state_text ActionStateInProgress, ''RULE-ACT-START''),
      (TargetKindAction, action_state_text ActionStateInProgress, action_state_text ActionStateInReview, ''RULE-ACT-SUBMIT''),
      (TargetKindAction, action_state_text ActionStateInReview, action_state_text ActionStateRejected, ''RULE-ACT-REJECT''),
      (TargetKindAction, action_state_text ActionStateInReview, action_state_text ActionStateClosed, ''RULE-ACT-CLOSE''),
      (TargetKindAction, action_state_text ActionStateClosed, action_state_text ActionStateReopened, ''RULE-ACT-REOPEN''),
      (TargetKindScoring, ''UNSCORED'', ''SCORED'', ''RULE-WFA-SCORING-EVAL'')]"

definition DefaultTransitionCatalog :: TransitionCatalog where
  "DefaultTransitionCatalog =
     foldl (\<lambda>c (k, a, b, rid). fst (RegisterTransition k a b rid c)) NewTransitionCatalog default_transitions"

text \<open>Calls on a matrix and on a catalog.\<close>

datatype rules_call = CallRegisterRule BusinessRule | CallRegisterTransition string string string string

fun exec_rules ::
  "rules_call \<Rightarrow> RuleMatrix \<times> TransitionCatalog \<Rightarrow> (RuleMatrix \<times> TransitionCatalog, rule_error, unit) outcome" where
  "exec_rules (CallRegisterRule rule) (m, c) = (case RegisterRule rule m of (m', res) \<Rightarrow> ((m', c), res))"
| "exec_rules (CallRegisterTransition k a b rid) (m, c) = (case RegisterTransition k a b rid c of (c', res) \<Rightarrow> ((m, c'), res))"

text \<open>A rule is stored under its own trimmed identifier.\<close>

definition matrix_inv :: "RuleMatrix \<Rightarrow> bool" where
  "matrix_inv m \<longleftrightarrow>
     (\<forall>k rule. rm_rules m k = Some rule \<longrightarrow> br_RuleID rule = k \<and> TrimSpace k = k \<and> k \<noteq> [] \<and>
        TrimSpace (br_OwnerRole rule) = br_OwnerRole rule)"

subsection \<open>Registration\<close>

lemma matrix_inv_new [simp]: "matrix_inv (NewRuleMatrix v)"
  by (simp add: matrix_inv_def NewRuleMatrix_def)

lemma matrix_inv_register: "matrix_inv m \<Longrightarrow> matrix_inv (fst (RegisterRule rule m))"
  by (auto simp: matrix_inv_def RegisterRule_def Let_def)

interpretation rules: api_machine exec_rules "\<lambda>s. matrix_inv (fst s)" "\<lambda>_. True"
proof unfold_locales
  fix s :: "RuleMatrix \<times> TransitionCatalog" and c
  assume "matrix_inv (fst s)"
  then show "matrix_inv (fst (fst (exec_rules c s)))"
    by (cases s; cases c) (auto simp: matrix_inv_register split_beta)
qed

interpretation rules: fail_closed exec_rules
proof unfold_locales
  fix c s s' e
  show "exec_rules c s = (s', Inl e) \<Longrightarrow> s' = s"
    by (cases s; cases c) (auto simp: RegisterRule_def RegisterTransition_def Let_def split: prod.splits if_splits)
qed

text \<open>A registered rule is never replaced.\<close>

interpretation rules: absorbing exec_rules "\<lambda>s. matrix_inv (fst s)" "\<lambda>_. True" "\<lambda>k s. rm_rules (fst s) k" "\<lambda>_. True"
proof unfold_locales
  fix s :: "RuleMatrix \<times> TransitionCatalog" and c k v
  assume "rm_rules (fst s) k = Some v"
  then show "rm_rules (fst (fst (exec_rules c s))) k = Some v"
    by (cases s; cases c) (auto simp: RegisterRule_def Let_def split: prod.splits)
qed

lemma missing_condition_None:
  "missing_condition inputs conds = None \<longleftrightarrow>
     (\<forall>cond\<in>set conds. TrimSpace cond \<noteq> [] \<longrightarrow> inputs (TrimSpace cond) = Some True)"
  by (induction conds) (auto simp: Let_def)

text \<open>The registered default transitions, as facts about the finished catalog.\<close>

lemma foldl_register:
  "tcg_transitions (foldl (\<lambda>c (k, a, b, rid). fst (RegisterTransition k a b rid c)) c xs) key = Some r \<Longrightarrow>
     tcg_transitions c key = Some r \<or>
     (\<exists>(k, a, b, rid)\<in>set xs. key = transition_key k a b \<and> r = TrimSpace rid)"
proof (induction xs arbitrary: c)
  case (Cons x xs)
  obtain k a b rid where x: "x = (k, a, b, rid)" by (cases x) auto
  from Cons.IH [of "fst (RegisterTransition k a b rid c)"] Cons.prems x show ?case
    by (fastforce simp: RegisterTransition_def Let_def split: if_splits)
qed simp

lemma foldl_registered:
  "rm_rules m k \<noteq> None \<or> k \<noteq> [] \<and> k \<in> set (map (\<lambda>rule. TrimSpace (br_RuleID rule)) xs) \<Longrightarrow>
     rm_rules (foldl (\<lambda>m rule. fst (RegisterRule rule m)) m xs) k \<noteq> None"
proof (induction xs arbitrary: m)
  case (Cons x xs)
  then have "rm_rules (fst (RegisterRule x m)) k \<noteq> None \<or>
      k \<noteq> [] \<and> k \<in> set (map (\<lambda>rule. TrimSpace (br_RuleID rule)) xs)"
    by (auto simp: RegisterRule_def Let_def)
  from Cons.IH [OF this] show ?case by simp
qed simp

lemma default_transitions_registered:
  "list_all (\<lambda>(k, a, b, rid). rm_rules DefaultRuleMatrix (TrimSpace rid) \<noteq> None) default_transitions"
proof -
  have "list_all (\<lambda>(k, a, b, rid). TrimSpace rid \<noteq> [] \<and>
      TrimSpace rid \<in> set (map (\<lambda>rule. TrimSpace (br_RuleID rule)) default_rules)) default_transitions"
    by (simp add: default_transitions_def default_rules_def default_rule_def)
  then show ?thesis unfolding DefaultRuleMatrix_def list_all_iff using foldl_registered by fastforce
qed

lemma default_workflow_transitions:
  "list_all (\<lambda>(k, a, b, rid). ToUpper (TrimSpace k) = TargetKindWorkflow \<longrightarrow>
     list_ex (\<lambda>s. TrimSpace a = workflow_state_text s \<and>
       list_ex (\<lambda>t. TrimSpace b = workflow_state_text t) (AllowedTransitions s))
       [StateDraft, StateInProgress, StateUnderReview, StateApproved]) default_transitions"
  by (simp add: default_transitions_def TargetKindTemplate_def TargetKindWorkflow_def TargetKindAction_def
      TargetKindScoring_def)

subsection \<open>Properties\<close>

text \<open>
  Over a matrix built by registration, a transition is allowed exactly when target, tenant and actor
  are named, both versions are the current one, the target is not archived, and the rule the catalog binds
  to this transition is registered, is the rule asked for if one was, owned by the role of the actor, with every
  named condition fulfilled and enough evidence.
\<close>

theorem Qualify_allowed_iff:
  assumes "matrix_inv m"
  shows "qr_Allowed (TransitionCatalog_Qualify m req now c) \<longleftrightarrow>
    TrimSpace (tq_TargetID req) \<noteq> [] \<and> TrimSpace (tq_TenantID req) \<noteq> [] \<and> TrimSpace (tq_Actor req) \<noteq> [] \<and>
    TrimSpace (tq_MatrixVersion req) \<in> {[], CurrentRuleMatrixVersion} \<and> rm_version m = CurrentRuleMatrixVersion \<and>
    \<not> tq_IsArchived req \<and> \<not> EqualFold (tq_FromState req) ''ARCHIVED'' \<and> \<not> EqualFold (tq_FromState req) ''RETIRED'' \<and>
    (\<exists>rule. LookupRule (tq_TargetKind req) (tq_FromState req) (tq_ToState req) c = Inr (br_RuleID rule) \<and>
       rm_rules m (br_RuleID rule) = Some rule \<and> TrimSpace (tq_RuleID req) \<in> {[], br_RuleID rule} \<and>
       (br_OwnerRole rule = [] \<or> EqualFold (TrimSpace (tq_ActorRole req)) (br_OwnerRole rule)) \<and>
       (\<forall>cond\<in>set (br_RequiredConditions rule).
          TrimSpace cond \<noteq> [] \<longrightarrow> tq_InputConditions req (TrimSpace cond) = Some True) \<and>
       (eq_Required (br_Evidence rule) \<longrightarrow> eq_MinCount (br_Evidence rule) \<le> int (length (tq_EvidenceIDs req))))"
proof -
  have rule: "qr_Allowed (qualify_rule rule req now c) \<longleftrightarrow>
      LookupRule (tq_TargetKind req) (tq_FromState req) (tq_ToState req) c = Inr (br_RuleID rule) \<and>
      (br_OwnerRole rule = [] \<or> EqualFold (TrimSpace (tq_ActorRole req)) (br_OwnerRole rule)) \<and>
      (\<forall>cond\<in>set (br_RequiredConditions rule).
         TrimSpace cond \<noteq> [] \<longrightarrow> tq_InputConditions req (TrimSpace cond) = Some True) \<and>
      (eq_Required (br_Evidence rule) \<longrightarrow> eq_MinCount (br_Evidence rule) \<le> int (length (tq_EvidenceIDs req)))" for rule
    by (auto simp: qualify_rule_def qualifyDeny_def qualifyAllow_def Let_def simp flip: missing_condition_None
        split: option.splits)
  have inv: "rm_rules m k = Some rule \<Longrightarrow> br_RuleID rule = k \<and> TrimSpace k = k" for k rule
    using assms by (simp add: matrix_inv_def)
  let ?resolved = "if TrimSpace (tq_RuleID req) = [] then LookupRule (tq_TargetKind req) (tq_FromState req) (tq_ToState req) c
    else Inr (TrimSpace (tq_RuleID req))"
  have found: "(\<exists>rid rule. ?resolved = Inr rid \<and> rm_rules m (TrimSpace rid) = Some rule \<and> qr_Allowed (qualify_rule rule req now c)) \<longleftrightarrow>
      (\<exists>rule. LookupRule (tq_TargetKind req) (tq_FromState req) (tq_ToState req) c = Inr (br_RuleID rule) \<and>
        rm_rules m (br_RuleID rule) = Some rule \<and> TrimSpace (tq_RuleID req) \<in> {[], br_RuleID rule} \<and>
        qr_Allowed (qualify_rule rule req now c))" (is "?l = ?r")
  proof
    assume ?l
    then obtain rid ru where r: "?resolved = Inr rid" "rm_rules m (TrimSpace rid) = Some ru" "qr_Allowed (qualify_rule ru req now c)"
      by blast
    with rule have "LookupRule (tq_TargetKind req) (tq_FromState req) (tq_ToState req) c = Inr (br_RuleID ru)" by simp
    with r inv [OF r(2)] show ?r by (intro exI [of _ ru]) (auto split: if_splits)
  next
    assume ?r
    then obtain ru where r: "LookupRule (tq_TargetKind req) (tq_FromState req) (tq_ToState req) c = Inr (br_RuleID ru)"
      "rm_rules m (br_RuleID ru) = Some ru" "TrimSpace (tq_RuleID req) \<in> {[], br_RuleID ru}" "qr_Allowed (qualify_rule ru req now c)"
      by blast
    with inv [OF r(2)] show ?l by (intro exI [of _ "br_RuleID ru"] exI [of _ ru]) auto
  qed
  have guarded: "qr_Allowed (TransitionCatalog_Qualify m req now c) \<longleftrightarrow>
    TrimSpace (tq_TargetID req) \<noteq> [] \<and> TrimSpace (tq_TenantID req) \<noteq> [] \<and> TrimSpace (tq_Actor req) \<noteq> [] \<and>
    TrimSpace (tq_MatrixVersion req) \<in> {[], CurrentRuleMatrixVersion} \<and> rm_version m = CurrentRuleMatrixVersion \<and>
    \<not> tq_IsArchived req \<and> \<not> EqualFold (tq_FromState req) ''ARCHIVED'' \<and> \<not> EqualFold (tq_FromState req) ''RETIRED'' \<and>
    (\<exists>rid rule. ?resolved = Inr rid \<and> rm_rules m (TrimSpace rid) = Some rule \<and> qr_Allowed (qualify_rule rule req now c))"
    unfolding TransitionCatalog_Qualify_def Let_def GetRule_def
    by (simp add: qualifyDeny_def split: sum.split option.split) blast
  show ?thesis unfolding guarded found by (simp only: rule) blast
qed

text \<open>
  The pre-populated catalog is sound: every transition in it names a rule of the pre-populated matrix, and
  every workflow transition in it is one the workflow engine itself allows.
\<close>

theorem default_catalog_sound:
  assumes "tcg_transitions DefaultTransitionCatalog key = Some rid"
  shows "rm_rules DefaultRuleMatrix rid \<noteq> None \<and>
    (tky_TargetKind key = TargetKindWorkflow \<longrightarrow>
       (\<exists>s t. tky_FromState key = workflow_state_text s \<and> tky_ToState key = workflow_state_text t \<and>
          t \<in> set (AllowedTransitions s)))"
proof -
  obtain k a b r where mem: "(k, a, b, r) \<in> set default_transitions"
    and key: "key = transition_key k a b" and rid: "rid = TrimSpace r"
    using foldl_register [OF assms [unfolded DefaultTransitionCatalog_def]]
    by (auto simp: NewTransitionCatalog_def)
  have "rm_rules DefaultRuleMatrix rid \<noteq> None"
    using default_transitions_registered mem rid by (fastforce simp: list_all_iff)
  moreover have "\<exists>s t. TrimSpace a = workflow_state_text s \<and> TrimSpace b = workflow_state_text t \<and>
      t \<in> set (AllowedTransitions s)" if "ToUpper (TrimSpace k) = TargetKindWorkflow"
  proof -
    have "list_ex (\<lambda>s. TrimSpace a = workflow_state_text s \<and>
        list_ex (\<lambda>t. TrimSpace b = workflow_state_text t) (AllowedTransitions s))
        [StateDraft, StateInProgress, StateUnderReview, StateApproved]"
      using default_workflow_transitions mem that by (auto simp: list_all_iff)
    then show ?thesis unfolding list_ex_iff by blast
  qed
  ultimately show ?thesis using key by (simp add: transition_key_def)
qed

definition example_request :: TransitionQualificationRequest where
  "example_request = \<lparr>tq_RuleID = [], tq_TargetKind = ''workflow'', tq_TargetID = ''wf_1'', tq_TenantID = ''ten_1'',
     tq_FromState = ''DRAFT'', tq_ToState = ''IN_PROGRESS'', tq_Actor = ''sam'', tq_ActorRole = ''operator'',
     tq_EvidenceIDs = [], tq_InputConditions = Map.empty, tq_MatrixVersion = [], tq_IsArchived = False\<rparr>"

lemma matrix_inv_default: "matrix_inv DefaultRuleMatrix"
proof -
  have "matrix_inv m \<Longrightarrow> matrix_inv (foldl (\<lambda>m rule. fst (RegisterRule rule m)) m xs)" for m xs
    by (induction xs arbitrary: m) (auto intro: matrix_inv_register)
  then show ?thesis by (simp add: DefaultRuleMatrix_def)
qed

text \<open>The example is allowed whatever result the rule is registered with.\<close>

lemma example_allowed:
  "qr_Allowed (TransitionCatalog_Qualify
     (fst (RegisterRule ((default_rule ''R-1'' ''OPERATOR'' [] False ''T'' ''d'')\<lparr>br_DeterministicResult := result\<rparr>) (NewRuleMatrix [])))
     example_request 7 (fst (RegisterTransition ''WORKFLOW'' ''DRAFT'' ''IN_PROGRESS'' ''R-1'' NewTransitionCatalog)))"
  by code_simp

theorem Qualify_allowed_iff_witness:
  "\<not> EqualFold (tq_FromState example_request) ''ARCHIVED'' \<and> tq_ActorRole example_request = ''operator''"
proof -
  let ?m = "fst (RegisterRule (default_rule ''R-1'' ''OPERATOR'' [] False ''T'' ''d'') (NewRuleMatrix []))"
  let ?c = "fst (RegisterTransition ''WORKFLOW'' ''DRAFT'' ''IN_PROGRESS'' ''R-1'' NewTransitionCatalog)"
  have "qr_Allowed (TransitionCatalog_Qualify ?m example_request 7 ?c)"
    using example_allowed [of "br_DeterministicResult (default_rule ''R-1'' ''OPERATOR'' [] False ''T'' ''d'')"] by simp
  moreover have "matrix_inv ?m" by (simp add: matrix_inv_register)
  ultimately show ?thesis using Qualify_allowed_iff [of ?m] by (simp add: example_request_def)
qed

theorem default_catalog_sound_witness:
  "\<exists>s t. ''UNDER_REVIEW'' = workflow_state_text s \<and> ''APPROVED'' = workflow_state_text t \<and> t \<in> set (AllowedTransitions s)"
proof -
  have "tcg_transitions DefaultTransitionCatalog (transition_key ''WORKFLOW'' ''UNDER_REVIEW'' ''APPROVED'') = Some ''RULE-WF-APPROVE''"
    and "transition_key ''WORKFLOW'' ''UNDER_REVIEW'' ''APPROVED'' =
      \<lparr>tky_TargetKind = TargetKindWorkflow, tky_FromState = ''UNDER_REVIEW'', tky_ToState = ''APPROVED''\<rparr>"
    by (simp_all add: DefaultTransitionCatalog_def default_transitions_def RegisterTransition_def transition_key_def
        NewTransitionCatalog_def Let_def TargetKindTemplate_def TargetKindWorkflow_def TargetKindAction_def TargetKindScoring_def)
  then show ?thesis using default_catalog_sound by fastforce
qed

text \<open>
  The result a rule is registered with is never read: a transition bound to a rule whose result is
  \<open>DENIED\<close> is allowed.
\<close>

theorem denied_rule_allows:
  "qr_Allowed (TransitionCatalog_Qualify
     (fst (RegisterRule ((default_rule ''R-1'' ''OPERATOR'' [] False ''T'' ''d'')\<lparr>br_DeterministicResult := RuleResultDenied\<rparr>)
       (NewRuleMatrix [])))
     example_request 7 (fst (RegisterTransition ''WORKFLOW'' ''DRAFT'' ''IN_PROGRESS'' ''R-1'' NewTransitionCatalog)))"
  by (rule example_allowed)

end
