(* ===== verification/Scoring.thy ===== *)
theory Scoring
  imports Complex_Main Finding_Lifecycle
begin

text \<open>
  The scoring engine, \<open>modules/workflow-action/scoring.go\<close>: \<open>Evaluate\<close> with its two passes over the sections, the
  rounding to basis points, the three pass predicates and the outcome.

  The engine computes with \<open>float64\<close>. The model takes the arithmetic as an argument, \<open>float_ops\<close>: one
  function for each operation the code uses. What is proved for all arithmetics holds for IEEE 754
  numbers, whatever they round; what holds of the formula itself is proved for \<open>exact\<close>, the
  instance that computes with rational numbers.
\<close>

subsection \<open>Definitions\<close>

record 'f float_ops =
  fl_lit :: "int \<Rightarrow> int \<Rightarrow> 'f" \<comment> \<open>the constant \<open>m\<close> times ten to the power \<open>e\<close>\<close>
  fl_add :: "'f \<Rightarrow> 'f \<Rightarrow> 'f"
  fl_sub :: "'f \<Rightarrow> 'f \<Rightarrow> 'f"
  fl_mul :: "'f \<Rightarrow> 'f \<Rightarrow> 'f"
  fl_div :: "'f \<Rightarrow> 'f \<Rightarrow> 'f"
  fl_less :: "'f \<Rightarrow> 'f \<Rightarrow> bool"
  fl_abs :: "'f \<Rightarrow> 'f"
  fl_floor :: "'f \<Rightarrow> 'f"
  fl_to_int64 :: "'f \<Rightarrow> int64"
  fl_of_int64 :: "int64 \<Rightarrow> 'f"
  fl_format1 :: "'f \<Rightarrow> string" \<comment> \<open>the verb \<open>%.1f\<close>\<close>

definition ScoringModelSelected :: string where "ScoringModelSelected = ''MODEL_2_WEIGHTED''"
definition UnknownHandlingSelected :: string where "UnknownHandlingSelected = ''U1_QUARANTINE_DENOMINATOR''"
definition RoundingRuleSelected :: string where "RoundingRuleSelected = ''R1_ROUND_HALF_UP''"
definition CriticalFailPolicySelected :: string where "CriticalFailPolicySelected = ''CF1_PRIORITY_FLAG''"
definition FormulaVersionSelected :: string where "FormulaVersionSelected = ''v0.4.0-HDEC-058''"
definition PassingThresholdBasisPoints :: int64 where "PassingThresholdBasisPoints = 8000"
definition MaximumBasisPoints :: int64 where "MaximumBasisPoints = 10000"

datatype ComplianceOutcome =
  OutcomePass | OutcomeFail | OutcomeNonCompliantCritical | OutcomeProvisionalPendingUnknownResolution

datatype scoring_error =
  ErrBlankExecutionID | ErrBlankTemplateID | ErrBlankVersion | ErrEmptySections | ErrInvalidWeightsSum
| ScoringWfa wfa_error \<comment> \<open>an error of another file of the package\<close>

record 'f ScoredQuestion =
  sq_QuestionID :: string
  sq_SectionID :: string
  sq_QuestionType :: string
  sq_MaxPoints :: 'f
  sq_EarnedPoints :: 'f
  sq_ResponseState :: string
  sq_IsCriticalFail :: bool
  sq_IsExcluded :: bool
  sq_ExclusionReason :: string
  sq_Notes :: string

record 'f ScoredSection =
  ss_SectionID :: string
  ss_SectionTitle :: string
  ss_Weight :: 'f
  ss_Questions :: "'f ScoredQuestion list"

record 'f ScoringEvaluationRequest =
  sv_ExecutionID :: string
  sv_TenantID :: string
  sv_TemplateID :: string
  sv_TemplateVersion :: string
  sv_RuleMatrixVersion :: string
  sv_Sections :: "'f ScoredSection list"
  sv_EvaluatedAt :: gotime

record 'f SectionScoreResult =
  sx_SectionID :: string
  sx_SectionTitle :: string
  sx_OriginalWeight :: 'f
  sx_EffectiveWeight :: 'f
  sx_TotalMaxPoints :: 'f
  sx_EarnedPoints :: 'f
  sx_NAPoints :: 'f
  sx_QuarantinedUnknownPoints :: 'f
  sx_EffectiveDenominator :: 'f
  sx_SectionScoreRatio :: 'f
  sx_WeightedContributionScore :: 'f
  sx_IsActive :: bool

record PassPredicateResult =
  pq_NoCriticalFailPresent :: bool
  pq_NoUnresolvedUnknownQuarantined :: bool
  pq_ScoreThresholdSatisfied :: bool
  pq_AllPredicatesSatisfied :: bool

record 'f ScoringEvaluationResult =
  se_ExecutionID :: string
  se_TenantID :: string
  se_TemplateID :: string
  se_TemplateVersion :: string
  se_RuleMatrixVersion :: string
  se_FormulaVersion :: string
  se_ScoringModel :: string
  se_UnknownHandling :: string
  se_RoundingRule :: string
  se_CriticalFailPolicy :: string
  se_RawScorePercent :: 'f
  se_BasisPoints :: int64
  se_RoundedScorePercent :: 'f
  se_DisplayScore :: string
  se_HasCriticalFail :: bool
  se_CriticalFailQuestions :: "string list"
  se_HasQuarantinedUnknown :: bool
  se_QuarantinedUnknownQuestions :: "string list"
  se_PassPredicates :: PassPredicateResult
  se_Outcome :: ComplianceOutcome
  se_SectionResults :: "'f SectionScoreResult list"
  se_ActiveSectionsCount :: int
  se_TotalQuestionsEvaluated :: int
  se_TotalQuestionsExcluded :: int
  se_TraceabilityKey :: string
  se_EvaluatedAt :: gotime

text \<open>The local variables of \<open>Evaluate\<close> that the first pass accumulates across sections.\<close>

record 'f score_state =
  sl_hasCriticalFail :: bool
  sl_criticalQuestions :: "string list"
  sl_hasUnknown :: bool
  sl_unknownQuestions :: "string list"
  sl_totalQuestions :: int
  sl_excludedQuestions :: int
  sl_activeWeightSum :: 'f

definition unscored :: "'f ScoredQuestion \<Rightarrow> bool" where
  "unscored q \<longleftrightarrow> sq_IsExcluded q \<or> sq_QuestionType q = ''TEXT_NOTE'' \<or> sq_QuestionType q = ''EVIDENCE_ATTACHMENT''"

definition response :: "'f ScoredQuestion \<Rightarrow> string" where
  "response q = ToUpper (TrimSpace (sq_ResponseState q))"

text \<open>The body of the loop over a section's questions.\<close>

definition score_question ::
  "'f float_ops \<Rightarrow> 'f ScoredQuestion \<Rightarrow> 'f score_state \<times> 'f SectionScoreResult \<Rightarrow> 'f score_state \<times> 'f SectionScoreResult" where
  "score_question fl q lr =
     (case lr of (l, res) \<Rightarrow>
      let l1 = l\<lparr>sl_totalQuestions := sl_totalQuestions l + 1\<rparr>;
          l2 = (if sq_IsCriticalFail q
                then l1\<lparr>sl_hasCriticalFail := True, sl_criticalQuestions := sl_criticalQuestions l1 @ [sq_QuestionID q]\<rparr>
                else l1)
      in if unscored q then (l2\<lparr>sl_excludedQuestions := sl_excludedQuestions l2 + 1\<rparr>, res)
      else let res1 = res\<lparr>sx_TotalMaxPoints := fl_add fl (sx_TotalMaxPoints res) (sq_MaxPoints q)\<rparr> in
        if response q = ''NA'' \<or> response q = ''NOT_APPLICABLE''
        then (l2, res1\<lparr>sx_NAPoints := fl_add fl (sx_NAPoints res1) (sq_MaxPoints q)\<rparr>)
        else if response q = ''UNKNOWN''
        then (l2\<lparr>sl_hasUnknown := True, sl_unknownQuestions := sl_unknownQuestions l2 @ [sq_QuestionID q]\<rparr>,
              res1\<lparr>sx_QuarantinedUnknownPoints := fl_add fl (sx_QuarantinedUnknownPoints res1) (sq_MaxPoints q)\<rparr>)
        else (l2, res1\<lparr>sx_EarnedPoints := fl_add fl (sx_EarnedPoints res1) (sq_EarnedPoints q)\<rparr>))"

definition zero_result :: "'f float_ops \<Rightarrow> 'f ScoredSection \<Rightarrow> 'f SectionScoreResult" where
  "zero_result fl sec =
     (let z = fl_lit fl 0 0 in
      \<lparr>sx_SectionID = ss_SectionID sec, sx_SectionTitle = ss_SectionTitle sec, sx_OriginalWeight = ss_Weight sec,
       sx_EffectiveWeight = ss_Weight sec, sx_TotalMaxPoints = z, sx_EarnedPoints = z, sx_NAPoints = z,
       sx_QuarantinedUnknownPoints = z, sx_EffectiveDenominator = z, sx_SectionScoreRatio = z,
       sx_WeightedContributionScore = z, sx_IsActive = False\<rparr>)"

text \<open>The first pass over one section.\<close>

definition score_section ::
  "'f float_ops \<Rightarrow> 'f ScoredSection \<Rightarrow> 'f score_state \<Rightarrow> 'f score_state \<times> 'f SectionScoreResult" where
  "score_section fl sec l =
     (let (l1, res) = fold (score_question fl) (ss_Questions sec) (l, zero_result fl sec);
          denominator = fl_sub fl (fl_sub fl (sx_TotalMaxPoints res) (sx_NAPoints res)) (sx_QuarantinedUnknownPoints res);
          res1 = res\<lparr>sx_EffectiveDenominator := denominator\<rparr>
      in if fl_less fl (fl_lit fl 0 0) denominator
         then (l1\<lparr>sl_activeWeightSum := fl_add fl (sl_activeWeightSum l1) (ss_Weight sec)\<rparr>,
               res1\<lparr>sx_IsActive := True, sx_SectionScoreRatio := fl_div fl (sx_EarnedPoints res1) denominator\<rparr>)
         else (l1, res1\<lparr>sx_IsActive := False, sx_SectionScoreRatio := fl_lit fl 0 0\<rparr>))"

fun first_pass ::
  "'f float_ops \<Rightarrow> 'f ScoredSection list \<Rightarrow> 'f score_state \<Rightarrow> 'f score_state \<times> 'f SectionScoreResult list" where
  "first_pass fl [] l = (l, [])"
| "first_pass fl (sec # secs) l =
     (case score_section fl sec l of (l1, res) \<Rightarrow> case first_pass fl secs l1 of (l2, ress) \<Rightarrow> (l2, res # ress))"

text \<open>The second pass over one section: its effective weight and its contribution.\<close>

definition weigh :: "'f float_ops \<Rightarrow> 'f \<Rightarrow> 'f SectionScoreResult \<Rightarrow> 'f SectionScoreResult" where
  "weigh fl activeWeightSum sec =
     (if sx_IsActive sec
      then let w = (if fl_less fl (fl_lit fl 0 0) activeWeightSum then fl_div fl (sx_OriginalWeight sec) activeWeightSum
                    else fl_lit fl 0 0)
           in sec\<lparr>sx_EffectiveWeight := w, sx_WeightedContributionScore := fl_mul fl w (sx_SectionScoreRatio sec)\<rparr>
      else sec\<lparr>sx_EffectiveWeight := fl_lit fl 0 0, sx_WeightedContributionScore := fl_lit fl 0 0\<rparr>)"

definition weighted_sum :: "'f float_ops \<Rightarrow> 'f SectionScoreResult list \<Rightarrow> 'f" where
  "weighted_sum fl secs =
     foldl (\<lambda>s sec. if sx_IsActive sec then fl_add fl s (sx_WeightedContributionScore sec) else s) (fl_lit fl 0 0) secs"

definition basis_points :: "'f float_ops \<Rightarrow> 'f \<Rightarrow> int64" where
  "basis_points fl raw =
     (let bps = fl_to_int64 fl (fl_floor fl (fl_add fl (fl_add fl (fl_mul fl raw (fl_of_int64 fl MaximumBasisPoints))
                  (fl_lit fl 5 (-1))) (fl_lit fl 1 (-9))));
          bps1 = (if sint MaximumBasisPoints < sint bps then MaximumBasisPoints else bps)
      in if sint bps1 < 0 then 0 else bps1)"

definition compliance_outcome :: "bool \<Rightarrow> bool \<Rightarrow> bool \<Rightarrow> ComplianceOutcome" where
  "compliance_outcome hasCriticalFail hasUnknown allPredsPass =
     (if hasCriticalFail then OutcomeNonCompliantCritical
      else if hasUnknown then OutcomeProvisionalPendingUnknownResolution
      else if allPredsPass then OutcomePass else OutcomeFail)"

definition initial_state :: "'f float_ops \<Rightarrow> 'f score_state" where
  "initial_state fl =
     \<lparr>sl_hasCriticalFail = False, sl_criticalQuestions = [], sl_hasUnknown = False, sl_unknownQuestions = [],
      sl_totalQuestions = 0, sl_excludedQuestions = 0, sl_activeWeightSum = fl_lit fl 0 0\<rparr>"

definition Evaluate ::
  "'f float_ops \<Rightarrow> 'f ScoringEvaluationRequest \<Rightarrow> gotime \<Rightarrow> scoring_error + 'f ScoringEvaluationResult" where
  "Evaluate fl req now =
     (let weightSum = foldl (\<lambda>s sec. fl_add fl s (ss_Weight sec)) (fl_lit fl 0 0) (sv_Sections req) in
      if TrimSpace (sv_ExecutionID req) = [] then Inl ErrBlankExecutionID
      else if TrimSpace (sv_TenantID req) = [] then Inl (ScoringWfa ErrBlankTenantID)
      else if TrimSpace (sv_TemplateID req) = [] then Inl ErrBlankTemplateID
      else if TrimSpace (sv_TemplateVersion req) = [] \<or> TrimSpace (sv_RuleMatrixVersion req) = [] then Inl ErrBlankVersion
      else if sv_Sections req = [] then Inl ErrEmptySections
      else if fl_less fl (fl_lit fl 1 (-3)) (fl_abs fl (fl_sub fl weightSum (fl_lit fl 1 0))) then Inl ErrInvalidWeightsSum
      else
        let evaluatedAt = (if IsZero (sv_EvaluatedAt req) then now else sv_EvaluatedAt req);
            (l, intermediates) = first_pass fl (sv_Sections req) (initial_state fl);
            sections = map (weigh fl (sl_activeWeightSum l)) intermediates;
            raw = weighted_sum fl sections;
            percent = fl_mul fl raw (fl_lit fl 100 0);
            percent1 = (if fl_less fl (fl_lit fl 100 0) percent then fl_lit fl 100 0 else percent);
            bps = basis_points fl raw;
            rounded = fl_div fl (fl_of_int64 fl bps) (fl_lit fl 100 0);
            pred3 = (sint PassingThresholdBasisPoints \<le> sint bps);
            allPreds = (\<not> sl_hasCriticalFail l \<and> \<not> sl_hasUnknown l \<and> pred3)
        in Inr \<lparr>se_ExecutionID = sv_ExecutionID req, se_TenantID = sv_TenantID req, se_TemplateID = sv_TemplateID req,
             se_TemplateVersion = sv_TemplateVersion req, se_RuleMatrixVersion = sv_RuleMatrixVersion req,
             se_FormulaVersion = FormulaVersionSelected, se_ScoringModel = ScoringModelSelected,
             se_UnknownHandling = UnknownHandlingSelected, se_RoundingRule = RoundingRuleSelected,
             se_CriticalFailPolicy = CriticalFailPolicySelected,
             se_RawScorePercent = (if fl_less fl percent1 (fl_lit fl 0 0) then fl_lit fl 0 0 else percent1),
             se_BasisPoints = bps, se_RoundedScorePercent = rounded, se_DisplayScore = fl_format1 fl rounded @ ''%'',
             se_HasCriticalFail = sl_hasCriticalFail l, se_CriticalFailQuestions = sl_criticalQuestions l,
             se_HasQuarantinedUnknown = sl_hasUnknown l, se_QuarantinedUnknownQuestions = sl_unknownQuestions l,
             se_PassPredicates = \<lparr>pq_NoCriticalFailPresent = \<not> sl_hasCriticalFail l,
               pq_NoUnresolvedUnknownQuarantined = \<not> sl_hasUnknown l, pq_ScoreThresholdSatisfied = pred3,
               pq_AllPredicatesSatisfied = allPreds\<rparr>,
             se_Outcome = compliance_outcome (sl_hasCriticalFail l) (sl_hasUnknown l) allPreds,
             se_SectionResults = sections, se_ActiveSectionsCount = int (length (filter sx_IsActive sections)),
             se_TotalQuestionsEvaluated = sl_totalQuestions l, se_TotalQuestionsExcluded = sl_excludedQuestions l,
             se_TraceabilityKey = ''trace_'' @ sv_TemplateID req @ ''_'' @ sv_TemplateVersion req @ ''_'' @
               sv_RuleMatrixVersion req @ ''_'' @ FormatInt (Unix evaluatedAt),
             se_EvaluatedAt = evaluatedAt\<rparr>)"

text \<open>The formula in exact arithmetic.\<close>

definition exact :: "rat float_ops" where
  "exact = \<lparr>fl_lit = (\<lambda>m e. if 0 \<le> e then of_int m * 10 ^ nat e else of_int m / 10 ^ nat (- e)),
     fl_add = (+), fl_sub = (-), fl_mul = (*), fl_div = (/), fl_less = (<), fl_abs = abs,
     fl_floor = (\<lambda>x. of_int \<lfloor>x\<rfloor>), fl_to_int64 = (\<lambda>x. word_of_int \<lfloor>x\<rfloor>), fl_of_int64 = (\<lambda>w. of_int (sint w)),
     fl_format1 = (\<lambda>x. FormatInt (\<lfloor>x * 10 + 1 / 2\<rfloor> div 10) @ ''.'' @ FormatInt (\<lfloor>x * 10 + 1 / 2\<rfloor> mod 10))\<rparr>"

subsection \<open>What the first pass collects\<close>

definition critical_ids :: "'f ScoredQuestion list \<Rightarrow> string list" where
  "critical_ids qs = map sq_QuestionID (filter sq_IsCriticalFail qs)"

definition is_unknown :: "'f ScoredQuestion \<Rightarrow> bool" where
  "is_unknown q \<longleftrightarrow> \<not> unscored q \<and> response q = ''UNKNOWN''"

definition is_na :: "'f ScoredQuestion \<Rightarrow> bool" where
  "is_na q \<longleftrightarrow> \<not> unscored q \<and> response q \<in> {''NA'', ''NOT_APPLICABLE''}"

definition answered :: "'f ScoredQuestion \<Rightarrow> bool" where
  "answered q \<longleftrightarrow> \<not> unscored q \<and> \<not> is_na q \<and> \<not> is_unknown q"

definition all_questions :: "'f ScoredSection list \<Rightarrow> 'f ScoredQuestion list" where
  "all_questions secs = concat (map ss_Questions secs)"

definition collected :: "'f score_state \<Rightarrow> 'f ScoredQuestion list \<Rightarrow> 'f score_state \<Rightarrow> bool" where
  "collected l qs l' \<longleftrightarrow>
     sl_criticalQuestions l' = sl_criticalQuestions l @ critical_ids qs \<and>
     (sl_hasCriticalFail l' \<longleftrightarrow> sl_hasCriticalFail l \<or> critical_ids qs \<noteq> []) \<and>
     sl_unknownQuestions l' = sl_unknownQuestions l @ map sq_QuestionID (filter is_unknown qs) \<and>
     (sl_hasUnknown l' \<longleftrightarrow> sl_hasUnknown l \<or> filter is_unknown qs \<noteq> []) \<and>
     sl_totalQuestions l' = sl_totalQuestions l + int (length qs) \<and>
     sl_excludedQuestions l' = sl_excludedQuestions l + int (length (filter unscored qs))"

lemma collected_refl: "collected l [] l"
  by (simp add: collected_def critical_ids_def)

lemma collected_trans: "collected l qs l1 \<Longrightarrow> collected l1 qs' l2 \<Longrightarrow> collected l (qs @ qs') l2"
  by (auto simp: collected_def critical_ids_def)

lemma score_question_collects: "collected l [q] (fst (score_question fl q (l, res)))"
  by (simp add: collected_def score_question_def critical_ids_def is_unknown_def Let_def)

lemma fold_score_collects: "collected l qs (fst (fold (score_question fl) qs (l, res)))"
proof (induction qs arbitrary: l res)
  case Nil
  then show ?case by (simp add: collected_refl)
next
  case (Cons q qs)
  have "collected l ([q] @ qs) (fst (fold (score_question fl) qs (score_question fl q (l, res))))"
    using collected_trans [OF score_question_collects Cons.IH] by (metis prod.collapse)
  then show ?case by simp
qed

lemma score_section_collects: "collected l (ss_Questions sec) (fst (score_section fl sec l))"
  using fold_score_collects [of l "ss_Questions sec" fl "zero_result fl sec"]
  by (simp add: score_section_def Let_def split_beta collected_def)

lemma first_pass_collects: "collected l (all_questions secs) (fst (first_pass fl secs l))"
proof (induction fl secs l rule: first_pass.induct)
  case (1 fl l)
  then show ?case by (simp add: all_questions_def collected_refl)
next
  case (2 fl sec secs l)
  then have "collected (fst (score_section fl sec l)) (all_questions secs) (fst (first_pass fl secs (fst (score_section fl sec l))))"
    by (metis prod.collapse)
  with collected_trans [OF score_section_collects] show ?case
    by (simp add: all_questions_def split_beta)
qed

lemma basis_points_bounds: "0 \<le> sint (basis_points fl raw) \<and> sint (basis_points fl raw) \<le> 10000"
  by (simp add: basis_points_def Let_def MaximumBasisPoints_def)

lemma Evaluate_Inr:
  assumes "Evaluate fl req now = Inr r"
  obtains l sections where "first_pass fl (sv_Sections req) (initial_state fl) = (l, sections)"
    "se_SectionResults r = map (weigh fl (sl_activeWeightSum l)) sections"
    "se_BasisPoints r = basis_points fl (weighted_sum fl (se_SectionResults r))"
    "se_HasCriticalFail r = sl_hasCriticalFail l" "se_CriticalFailQuestions r = sl_criticalQuestions l"
    "se_HasQuarantinedUnknown r = sl_hasUnknown l" "se_QuarantinedUnknownQuestions r = sl_unknownQuestions l"
    "se_Outcome r = compliance_outcome (sl_hasCriticalFail l) (sl_hasUnknown l)
       (\<not> sl_hasCriticalFail l \<and> \<not> sl_hasUnknown l \<and> 8000 \<le> sint (se_BasisPoints r))"
    "se_TotalQuestionsEvaluated r = sl_totalQuestions l" "se_TotalQuestionsExcluded r = sl_excludedQuestions l"
proof -
  obtain l sections where p: "first_pass fl (sv_Sections req) (initial_state fl) = (l, sections)" by fastforce
  from assms p show thesis
    by (intro that [OF p]) (auto simp: Evaluate_def Let_def PassingThresholdBasisPoints_def guards)
qed

subsection \<open>The formula in exact arithmetic\<close>

definition total :: "(rat ScoredQuestion \<Rightarrow> bool) \<Rightarrow> rat ScoredQuestion list \<Rightarrow> rat" where
  "total P qs = sum_list (map sq_MaxPoints (filter P qs))"

lemma exact_simps [simp]:
  "fl_lit exact 0 0 = 0" "fl_lit exact 1 0 = 1" "fl_lit exact 100 0 = 100" "fl_lit exact 5 (-1) = 1 / 2"
  "fl_lit exact 1 (-9) = 1 / 10 ^ 9" "fl_lit exact 1 (-3) = 1 / 1000"
  "fl_add exact = (+)" "fl_sub exact = (-)" "fl_mul exact = (*)" "fl_div exact = (/)" "fl_less exact = (<)"
  "fl_abs exact = abs" "fl_floor exact = (\<lambda>x. of_int \<lfloor>x\<rfloor>)" "fl_to_int64 exact = (\<lambda>x. word_of_int \<lfloor>x\<rfloor>)"
  "fl_of_int64 exact = (\<lambda>w. of_int (sint w))"
  by (simp_all add: exact_def)

lemma score_question_exact:
  "sx_TotalMaxPoints (snd (score_question exact q (l, res))) = sx_TotalMaxPoints res + (if unscored q then 0 else sq_MaxPoints q)"
  "sx_NAPoints (snd (score_question exact q (l, res))) = sx_NAPoints res + (if is_na q then sq_MaxPoints q else 0)"
  "sx_QuarantinedUnknownPoints (snd (score_question exact q (l, res))) =
     sx_QuarantinedUnknownPoints res + (if is_unknown q then sq_MaxPoints q else 0)"
  "sx_EarnedPoints (snd (score_question exact q (l, res))) = sx_EarnedPoints res + (if answered q then sq_EarnedPoints q else 0)"
  "sx_OriginalWeight (snd (score_question exact q (l, res))) = sx_OriginalWeight res"
  by (simp_all add: Let_def score_question_def is_na_def is_unknown_def answered_def)

lemma fold_score_exact:
  "let res' = snd (fold (score_question exact) qs (l, res)) in
     sx_TotalMaxPoints res' = sx_TotalMaxPoints res + total (\<lambda>q. \<not> unscored q) qs \<and>
     sx_NAPoints res' = sx_NAPoints res + total is_na qs \<and>
     sx_QuarantinedUnknownPoints res' = sx_QuarantinedUnknownPoints res + total is_unknown qs \<and>
     sx_EarnedPoints res' = sx_EarnedPoints res + sum_list (map sq_EarnedPoints (filter answered qs)) \<and>
     sx_OriginalWeight res' = sx_OriginalWeight res"
proof (induction qs arbitrary: l res)
  case Nil
  then show ?case by (simp add: total_def)
next
  case (Cons q qs)
  obtain l1 res1 where 1: "score_question exact q (l, res) = (l1, res1)" by fastforce
  with score_question_exact [of q l res] Cons.IH [of l1 res1] show ?case
    by (simp add: Let_def total_def)
qed

lemma total_split: "total (\<lambda>q. \<not> unscored q) qs = total is_na qs + total is_unknown qs + total answered qs"
  by (induction qs) (auto simp: total_def is_na_def is_unknown_def answered_def)

lemma score_section_exact:
  "sx_EffectiveDenominator (snd (score_section exact sec l)) = total answered (ss_Questions sec)"
  "sx_EarnedPoints (snd (score_section exact sec l)) = sum_list (map sq_EarnedPoints (filter answered (ss_Questions sec)))"
  "sx_IsActive (snd (score_section exact sec l)) \<longleftrightarrow> 0 < total answered (ss_Questions sec)"
  "sx_OriginalWeight (snd (score_section exact sec l)) = ss_Weight sec"
  "sx_SectionScoreRatio (snd (score_section exact sec l)) =
     (if 0 < total answered (ss_Questions sec)
      then sum_list (map sq_EarnedPoints (filter answered (ss_Questions sec))) / total answered (ss_Questions sec) else 0)"
  "sl_activeWeightSum (fst (score_section exact sec l)) =
     sl_activeWeightSum (fst (fold (score_question exact) (ss_Questions sec) (l, zero_result exact sec))) +
     (if 0 < total answered (ss_Questions sec) then ss_Weight sec else 0)"
  using fold_score_exact [of "ss_Questions sec" l "zero_result exact sec"]
  by (simp_all add: score_section_def Let_def split_beta zero_result_def total_split)

lemma fold_score_active: "sl_activeWeightSum (fst (fold (score_question fl) qs (l, res))) = sl_activeWeightSum l"
proof (induction qs arbitrary: l res)
  case (Cons q qs)
  obtain l1 res1 where 1: "score_question fl q (l, res) = (l1, res1)" by fastforce
  then have "sl_activeWeightSum l1 = sl_activeWeightSum l"
    by (auto simp: score_question_def Let_def split: if_splits)
  with 1 Cons.IH show ?case by simp
qed simp

definition active_section :: "rat ScoredSection \<Rightarrow> bool" where
  "active_section sec \<longleftrightarrow> 0 < total answered (ss_Questions sec)"

definition section_ratio :: "rat ScoredSection \<Rightarrow> rat" where
  "section_ratio sec =
     (if active_section sec
      then sum_list (map sq_EarnedPoints (filter answered (ss_Questions sec))) / total answered (ss_Questions sec) else 0)"

definition active_weight :: "rat ScoredSection list \<Rightarrow> rat" where
  "active_weight secs = sum_list (map ss_Weight (filter active_section secs))"

text \<open>The reference formula: the weighted mean of the ratios of the active sections.\<close>

definition reference_score :: "rat ScoredSection list \<Rightarrow> rat" where
  "reference_score secs =
     (if 0 < active_weight secs
      then sum_list (map (\<lambda>sec. ss_Weight sec * section_ratio sec) (filter active_section secs)) / active_weight secs
      else 0)"

lemma first_pass_exact:
  "first_pass exact secs l = (l', ress) \<Longrightarrow>
     sl_activeWeightSum l' = sl_activeWeightSum l + active_weight secs \<and>
     map (\<lambda>r. (sx_IsActive r, sx_OriginalWeight r, sx_SectionScoreRatio r)) ress =
       map (\<lambda>sec. (active_section sec, ss_Weight sec, section_ratio sec)) secs"
proof (induction secs arbitrary: l l' ress)
  case Nil
  then show ?case by (simp add: active_weight_def)
next
  case (Cons sec secs)
  obtain l1 res where 1: "score_section exact sec l = (l1, res)" by fastforce
  obtain l2 ress' where 2: "first_pass exact secs l1 = (l2, ress')" by fastforce
  from Cons.prems 1 2 have eq: "l' = l2" "ress = res # ress'" by simp_all
  from score_section_exact [of sec l] 1
  have "sx_IsActive res = active_section sec" "sx_OriginalWeight res = ss_Weight sec"
    "sx_SectionScoreRatio res = section_ratio sec"
    "sl_activeWeightSum l1 = sl_activeWeightSum l + (if active_section sec then ss_Weight sec else 0)"
    by (simp_all add: active_section_def section_ratio_def fold_score_active)
  with Cons.IH [OF 2] eq show ?case by (simp add: active_weight_def)
qed

lemma weighted_sum_exact:
  "weighted_sum exact secs = sum_list (map sx_WeightedContributionScore (filter sx_IsActive secs))"
proof -
  have "foldl (\<lambda>s sec. if sx_IsActive sec then s + sx_WeightedContributionScore sec else s) a secs =
      a + sum_list (map sx_WeightedContributionScore (filter sx_IsActive secs))" for a :: rat
    by (induction secs arbitrary: a) (auto simp: algebra_simps)
  then show ?thesis unfolding weighted_sum_def exact_simps by simp
qed

lemma weighed_contributions:
  assumes "map (\<lambda>r. (sx_IsActive r, sx_OriginalWeight r, sx_SectionScoreRatio r)) ress =
      map (\<lambda>sec. (active_section sec, ss_Weight sec, section_ratio sec)) secs"
  shows "sum_list (map sx_WeightedContributionScore (filter sx_IsActive (map (weigh exact W) ress))) =
    (if 0 < W then sum_list (map (\<lambda>sec. ss_Weight sec * section_ratio sec) (filter active_section secs)) / W else 0)"
  using assms
proof (induction ress arbitrary: secs)
  case Nil
  then show ?case by simp
next
  case (Cons r ress)
  then obtain sec secs' where secs: "secs = sec # secs'" "sx_IsActive r = active_section sec"
    "sx_OriginalWeight r = ss_Weight sec" "sx_SectionScoreRatio r = section_ratio sec"
    and rest: "map (\<lambda>r. (sx_IsActive r, sx_OriginalWeight r, sx_SectionScoreRatio r)) ress =
      map (\<lambda>sec. (active_section sec, ss_Weight sec, section_ratio sec)) secs'"
    by (cases secs) auto
  from Cons.IH [OF rest] secs show ?case by (simp add: weigh_def Let_def add_divide_distrib)
qed

lemma Evaluate_exact_score:
  assumes "Evaluate exact req now = Inr r"
  shows "weighted_sum exact (se_SectionResults r) = reference_score (sv_Sections req)"
proof -
  obtain l ress where p: "first_pass exact (sv_Sections req) (initial_state exact) = (l, ress)"
    and r: "se_SectionResults r = map (weigh exact (sl_activeWeightSum l)) ress"
    using assms by (rule Evaluate_Inr) blast
  from first_pass_exact [OF p] have W: "sl_activeWeightSum l = active_weight (sv_Sections req)"
    and m: "map (\<lambda>r. (sx_IsActive r, sx_OriginalWeight r, sx_SectionScoreRatio r)) ress =
      map (\<lambda>sec. (active_section sec, ss_Weight sec, section_ratio sec)) (sv_Sections req)"
    by (simp_all add: initial_state_def)
  show ?thesis
    by (simp add: weighted_sum_exact r weighed_contributions [OF m] W reference_score_def)
qed

definition valid_section :: "rat ScoredSection \<Rightarrow> bool" where
  "valid_section sec \<longleftrightarrow>
     0 \<le> ss_Weight sec \<and> list_all (\<lambda>q. answered q \<longrightarrow> 0 \<le> sq_EarnedPoints q \<and> sq_EarnedPoints q \<le> sq_MaxPoints q) (ss_Questions sec)"

lemma section_ratio_bounds:
  assumes "valid_section sec"
  shows "0 \<le> section_ratio sec \<and> section_ratio sec \<le> 1"
proof -
  have "0 \<le> sum_list (map sq_EarnedPoints (filter answered qs)) \<and>
      sum_list (map sq_EarnedPoints (filter answered qs)) \<le> total answered qs"
    if "list_all (\<lambda>q. answered q \<longrightarrow> 0 \<le> sq_EarnedPoints q \<and> sq_EarnedPoints q \<le> sq_MaxPoints q) qs" for qs
    using that by (induction qs) (auto simp: total_def)
  with assms show ?thesis
    by (auto simp: section_ratio_def active_section_def valid_section_def)
qed

lemma reference_score_bounds:
  assumes "list_all valid_section secs"
  shows "0 \<le> reference_score secs \<and> reference_score secs \<le> 1"
proof -
  have "0 \<le> sum_list (map (\<lambda>sec. ss_Weight sec * section_ratio sec) (filter active_section secs)) \<and>
      sum_list (map (\<lambda>sec. ss_Weight sec * section_ratio sec) (filter active_section secs)) \<le> active_weight secs"
    using assms
  proof (induction secs)
    case Nil
    then show ?case by (simp add: active_weight_def)
  next
    case (Cons sec secs)
    then have "0 \<le> ss_Weight sec * section_ratio sec" "ss_Weight sec * section_ratio sec \<le> ss_Weight sec"
      using section_ratio_bounds [of sec] by (auto simp: valid_section_def mult_left_le)
    with Cons show ?case by (auto simp: active_weight_def)
  qed
  then show ?thesis by (auto simp: reference_score_def)
qed

lemma basis_points_exact:
  assumes "0 \<le> raw" and "raw \<le> 1"
  shows "sint (basis_points exact raw) = \<lfloor>raw * 10000 + 1 / 2 + 1 / 10 ^ 9\<rfloor>"
proof -
  define n where "n = \<lfloor>raw * 10000 + 1 / 2 + 1 / 10 ^ 9\<rfloor>"
  have "0 \<le> n" "n \<le> 10000" unfolding n_def using assms by (auto simp: le_floor_iff floor_le_iff)
  moreover from this have "sint (word_of_int n :: int64) = n"
    by (simp add: sint_sbintrunc' signed_take_bit_int_eq_self)
  moreover have "fl_to_int64 exact (fl_floor exact (fl_add exact (fl_add exact (fl_mul exact raw
      (fl_of_int64 exact MaximumBasisPoints)) (fl_lit exact 5 (-1))) (fl_lit exact 1 (-9)))) = word_of_int n"
    by (simp add: n_def MaximumBasisPoints_def)
  ultimately show ?thesis
    unfolding n_def [symmetric] basis_points_def Let_def by (simp add: MaximumBasisPoints_def)
qed

subsection \<open>Properties\<close>

text \<open>
  Whatever the arithmetic, a score is between 0 and 10000 basis points.
\<close>

theorem basis_points_in_range:
  assumes "Evaluate fl req now = Inr r"
  shows "0 \<le> sint (se_BasisPoints r) \<and> sint (se_BasisPoints r) \<le> 10000"
proof -
  have "se_BasisPoints r = basis_points fl (weighted_sum fl (se_SectionResults r))"
    using assms by (rule Evaluate_Inr) blast
  then show ?thesis using basis_points_bounds by simp
qed

text \<open>
  Whatever the arithmetic, the outcome follows the priority order: a critical failure in any question locks
  the outcome to non-compliant, otherwise an \<open>UNKNOWN\<close> answer to a scored question makes it provisional, and otherwise it is a
  pass exactly from 8000 basis points; the result lists exactly the critical and the quarantined questions,
  in order, and counts every question.
\<close>

theorem outcome_follows_priority:
  assumes "Evaluate fl req now = Inr r"
  shows "let qs = all_questions (sv_Sections req) in
    se_CriticalFailQuestions r = critical_ids qs \<and>
    se_QuarantinedUnknownQuestions r = map sq_QuestionID (filter is_unknown qs) \<and>
    se_Outcome r =
      (if \<exists>q\<in>set qs. sq_IsCriticalFail q then OutcomeNonCompliantCritical
       else if \<exists>q\<in>set qs. is_unknown q then OutcomeProvisionalPendingUnknownResolution
       else if 8000 \<le> sint (se_BasisPoints r) then OutcomePass else OutcomeFail) \<and>
    se_TotalQuestionsEvaluated r = int (length qs) \<and> se_TotalQuestionsExcluded r = int (length (filter unscored qs))"
proof -
  let ?qs = "all_questions (sv_Sections req)"
  obtain l ress where p: "first_pass fl (sv_Sections req) (initial_state fl) = (l, ress)"
    and r: "se_CriticalFailQuestions r = sl_criticalQuestions l" "se_QuarantinedUnknownQuestions r = sl_unknownQuestions l"
    "se_Outcome r = compliance_outcome (sl_hasCriticalFail l) (sl_hasUnknown l)
       (\<not> sl_hasCriticalFail l \<and> \<not> sl_hasUnknown l \<and> 8000 \<le> sint (se_BasisPoints r))"
    "se_TotalQuestionsEvaluated r = sl_totalQuestions l" "se_TotalQuestionsExcluded r = sl_excludedQuestions l"
    using assms by (rule Evaluate_Inr) blast
  have c: "collected (initial_state fl) ?qs l"
    using first_pass_collects [of "initial_state fl" "sv_Sections req" fl] p by simp
  have "critical_ids ?qs = [] \<longleftrightarrow> \<not> (\<exists>q\<in>set ?qs. sq_IsCriticalFail q)"
    by (auto simp: critical_ids_def filter_empty_conv)
  moreover have "filter is_unknown ?qs = [] \<longleftrightarrow> \<not> (\<exists>q\<in>set ?qs. is_unknown q)"
    by (auto simp: filter_empty_conv)
  ultimately show ?thesis
    using c r by (simp add: Let_def collected_def initial_state_def compliance_outcome_def)
qed

text \<open>
  (C34) In exact arithmetic, for weights that are not negative and earned points within the available ones, the two
  passes compute the reference formula: the mean of the section ratios (earned over answered points, with
  not-applicable and unknown answers out of the denominator) weighted by the section weights of the active
  sections, in basis points as \<open>floor(x * 10000 + 1/2 + 1e-9)\<close> for the score \<open>x\<close>: the billionth that the code adds
  lifts a value less than that below a half to the next basis point.
\<close>

theorem score_equals_reference:
  assumes "Evaluate exact req now = Inr r" and "list_all valid_section (sv_Sections req)"
  shows "sint (se_BasisPoints r) = \<lfloor>reference_score (sv_Sections req) * 10000 + 1 / 2 + 1 / 10 ^ 9\<rfloor>"
proof -
  have "se_BasisPoints r = basis_points exact (weighted_sum exact (se_SectionResults r))"
    using assms(1) by (rule Evaluate_Inr) blast
  then show ?thesis
    using basis_points_exact reference_score_bounds [OF assms(2)] Evaluate_exact_score [OF assms(1)] by simp
qed

definition example_question :: "string \<Rightarrow> string \<Rightarrow> rat \<Rightarrow> bool \<Rightarrow> rat ScoredQuestion" where
  "example_question ident state earned critical = \<lparr>sq_QuestionID = ident, sq_SectionID = ''s1'', sq_QuestionType = ''PASS_FAIL_NA_UNKNOWN'',
     sq_MaxPoints = 10, sq_EarnedPoints = earned, sq_ResponseState = state, sq_IsCriticalFail = critical, sq_IsExcluded = False,
     sq_ExclusionReason = [], sq_Notes = []\<rparr>"

definition example_scoring :: "rat ScoringEvaluationRequest" where
  "example_scoring = \<lparr>sv_ExecutionID = ''ex_1'', sv_TenantID = ''ten_1'', sv_TemplateID = ''t_1'', sv_TemplateVersion = ''1'',
     sv_RuleMatrixVersion = ''1.0.0'',
     sv_Sections = [\<lparr>ss_SectionID = ''s1'', ss_SectionTitle = ''Site'', ss_Weight = 1,
       ss_Questions = [example_question ''q1'' ''PASS'' 10 False, example_question ''q2'' ''na'' 0 False,
         example_question ''q3'' ''FAIL'' 5 False]\<rparr>],
     sv_EvaluatedAt = 63000000000000000000\<rparr>"

lemma example_scoring_evaluates: "\<exists>r. Evaluate exact example_scoring 1 = Inr r"
  by (simp add: Evaluate_def example_scoring_def Let_def split_beta)

lemma example_answers:
  "answered (example_question ident ''PASS'' e c)" "answered (example_question ident ''FAIL'' e c)"
  "\<not> answered (example_question ident ''na'' e c)" "\<not> is_unknown (example_question ident ''PASS'' e c)"
  "\<not> is_unknown (example_question ident ''FAIL'' e c)" "\<not> is_unknown (example_question ident ''na'' e c)"
  by (simp_all add: answered_def is_na_def is_unknown_def unscored_def response_def example_question_def)

theorem score_equals_reference_witness:
  "\<exists>r. Evaluate exact example_scoring 1 = Inr r \<and> sint (se_BasisPoints r) = 7500"
proof -
  obtain r where r: "Evaluate exact example_scoring 1 = Inr r" using example_scoring_evaluates by blast
  have ref: "reference_score (sv_Sections example_scoring) = 3 / 4"
    by (simp add: reference_score_def active_weight_def active_section_def section_ratio_def total_def example_scoring_def
        example_answers) (simp add: example_question_def)
  have "list_all valid_section (sv_Sections example_scoring)"
    by (simp add: valid_section_def example_scoring_def example_answers) (simp add: example_question_def)
  from score_equals_reference [OF r this] ref have "sint (se_BasisPoints r) = \<lfloor>7500 + 1 / 2 + 1 / 10 ^ 9 :: rat\<rfloor>" by simp
  also have "\<dots> = 7500" by (simp add: floor_eq_iff)
  finally show ?thesis using r by blast
qed

theorem basis_points_in_range_witness:
  "\<exists>r. Evaluate exact example_scoring 1 = Inr r \<and> 0 \<le> sint (se_BasisPoints r) \<and> sint (se_BasisPoints r) \<le> 10000"
  using basis_points_in_range example_scoring_evaluates by blast

theorem outcome_follows_priority_witness:
  "\<exists>r. Evaluate exact example_scoring 1 = Inr r \<and> se_Outcome r \<in> {OutcomePass, OutcomeFail} \<and>
     se_TotalQuestionsEvaluated r = 3"
proof -
  obtain r where r: "Evaluate exact example_scoring 1 = Inr r" using example_scoring_evaluates by blast
  have "all_questions (sv_Sections example_scoring) =
      [example_question ''q1'' ''PASS'' 10 False, example_question ''q2'' ''na'' 0 False, example_question ''q3'' ''FAIL'' 5 False]"
    by (simp add: all_questions_def example_scoring_def)
  moreover have "\<not> sq_IsCriticalFail (example_question ident state e False)" for ident state e
    by (simp add: example_question_def)
  ultimately show ?thesis
    using outcome_follows_priority [OF r] r by (simp add: Let_def example_answers)
qed

end
