(* ===== verification/Fail_Closed.thy ===== *)
theory Fail_Closed
  imports Business_Rules Scoring Reinspection
begin

text \<open>
  The fail-closed governor, \<open>modules/workflow-action/fail_closed_governance.go\<close>: registration and clearing of
  critical findings and quarantined questions, the six-step qualification of a transition, and the
  append-only audit ledger. The governor owns its rule matrix and catalog here; in Go they are
  shared pointers whose registration methods are modelled in \<open>Business_Rules\<close>.
\<close>

subsection \<open>Definitions\<close>

definition PriorityOverrideDenial :: string where "PriorityOverrideDenial = ''MANUAL_OVERRIDE_DENIED''"
definition PriorityAIBoundaryDenial :: string where "PriorityAIBoundaryDenial = ''AI_BOUNDARY_DENIED''"
definition PriorityCriticalFail :: string where "PriorityCriticalFail = ''CRITICAL_FAIL_PRIORITY''"
definition PriorityUnknownQuarantine :: string where "PriorityUnknownQuarantine = ''UNKNOWN_QUARANTINE''"
definition PriorityScoreThreshold :: string where "PriorityScoreThreshold = ''SCORE_THRESHOLD''"
definition PriorityStandardPermitted :: string where "PriorityStandardPermitted = ''STANDARD_PERMITTED''"
definition TargetKindFinding :: string where "TargetKindFinding = ''FINDING''"

record FailClosedAuditEntry =
  fa_Sequence :: int64
  fa_Timestamp :: gotime
  fa_TenantID :: string
  fa_TargetID :: string
  fa_TargetKind :: string
  fa_Actor :: string
  fa_ActorRole :: string
  fa_Action :: string
  fa_DenialCode :: DenialCode
  fa_Reason :: string
  fa_RuleVersion :: string
  fa_CorrelationID :: string
  fa_HasCriticalFail :: bool
  fa_HasQuarantinedUnknown :: bool
  fa_IsOverrideAttempt :: bool

record FailClosedTransitionRequest =
  fq_TargetKind :: string
  fq_TenantID :: string
  fq_TargetID :: string
  fq_CurrentState :: string
  fq_TargetState :: string
  fq_Actor :: string
  fq_ActorRole :: string
  fq_RuleVersion :: string
  fq_ConditionsMet :: "string list"
  fq_EvidenceIDs :: "string list"
  fq_HasCriticalFail :: bool
  fq_CriticalFindingIDs :: "string list"
  fq_HasQuarantinedUnknown :: bool
  fq_QuarantinedQuestionIDs :: "string list"
  fq_BasisPoints :: int64
  fq_IsOverrideAttempt :: bool
  fq_OverrideRationale :: string
  fq_CorrelationID :: string

record FailClosedGovernanceResult =
  fr_Permitted :: bool
  fr_Result :: RuleResult
  fr_DenialCode :: DenialCode
  fr_DenialReason :: string
  fr_PriorityApplied :: string
  fr_AuditSequence :: int64
  fr_EvaluatedAt :: gotime

definition isProtectedTargetState :: "string \<Rightarrow> bool" where
  "isProtectedTargetState s \<longleftrightarrow>
     ToUpper (TrimSpace s) \<in> {''APPROVED'', ''CLOSED'', ''REMEDIATED'', ''PUBLISHED'', ''SCORED_PASS''}"

text \<open>The nested maps tenant, target, item, as the code builds and prunes them.\<close>

type_synonym flag_map = "string \<rightharpoonup> (string \<rightharpoonup> string set)"

definition add_flag :: "string \<Rightarrow> string \<Rightarrow> string \<Rightarrow> flag_map \<Rightarrow> flag_map" where
  "add_flag t x i m =
     (let targets = (case m t of None \<Rightarrow> Map.empty | Some ts \<Rightarrow> ts);
          items = (case targets x of None \<Rightarrow> {} | Some s \<Rightarrow> s)
      in m(t \<mapsto> targets(x \<mapsto> insert i items)))"

definition drop_flag :: "string \<Rightarrow> string \<Rightarrow> string \<Rightarrow> flag_map \<Rightarrow> flag_map" where
  "drop_flag t x i m =
     (case m t of None \<Rightarrow> m | Some targets \<Rightarrow>
      case targets x of None \<Rightarrow> m | Some items \<Rightarrow>
        m(t \<mapsto> (if items - {i} = {} then targets(x := None) else targets(x \<mapsto> items - {i}))))"

definition has_flag :: "string \<Rightarrow> string \<Rightarrow> flag_map \<Rightarrow> bool" where
  "has_flag t x m \<longleftrightarrow> (case m t of None \<Rightarrow> False | Some targets \<Rightarrow> case targets x of None \<Rightarrow> False | Some items \<Rightarrow> items \<noteq> {})"

record FailClosedGovernor =
  fg_ruleMatrix :: RuleMatrix
  fg_transitionCatalog :: TransitionCatalog
  fg_auditLedger :: "FailClosedAuditEntry list"
  fg_quarantinedTargets :: flag_map
  fg_criticalTargets :: flag_map

definition NewFailClosedGovernor :: "RuleMatrix option \<Rightarrow> TransitionCatalog option \<Rightarrow> FailClosedGovernor" where
  "NewFailClosedGovernor matrix cat =
     \<lparr>fg_ruleMatrix = (case matrix of None \<Rightarrow> DefaultRuleMatrix | Some m \<Rightarrow> m),
      fg_transitionCatalog = (case cat of None \<Rightarrow> DefaultTransitionCatalog | Some c \<Rightarrow> c),
      fg_auditLedger = [], fg_quarantinedTargets = Map.empty, fg_criticalTargets = Map.empty\<rparr>"

definition RegisterCriticalFinding :: "string \<Rightarrow> string \<Rightarrow> string \<Rightarrow> FailClosedGovernor \<Rightarrow> FailClosedGovernor" where
  "RegisterCriticalFinding tenantID targetID findingID g =
     (let t = TrimSpace tenantID; x = TrimSpace targetID; i = TrimSpace findingID in
      if t = [] \<or> x = [] \<or> i = [] then g
      else g\<lparr>fg_criticalTargets := add_flag t x i (fg_criticalTargets g)\<rparr>)"

definition hasActiveCritical :: "string \<Rightarrow> string \<Rightarrow> FailClosedGovernor \<Rightarrow> bool" where
  "hasActiveCritical tenantID targetID g \<longleftrightarrow> has_flag (TrimSpace tenantID) (TrimSpace targetID) (fg_criticalTargets g)"

definition RegisterQuarantinedQuestion :: "string \<Rightarrow> string \<Rightarrow> string \<Rightarrow> FailClosedGovernor \<Rightarrow> FailClosedGovernor" where
  "RegisterQuarantinedQuestion tenantID targetID questionID g =
     (let t = TrimSpace tenantID; x = TrimSpace targetID; i = TrimSpace questionID in
      if t = [] \<or> x = [] \<or> i = [] then g
      else g\<lparr>fg_quarantinedTargets := add_flag t x i (fg_quarantinedTargets g)\<rparr>)"

definition hasActiveQuarantine :: "string \<Rightarrow> string \<Rightarrow> FailClosedGovernor \<Rightarrow> bool" where
  "hasActiveQuarantine tenantID targetID g \<longleftrightarrow> has_flag (TrimSpace tenantID) (TrimSpace targetID) (fg_quarantinedTargets g)"

text \<open>The authority check the two clearing methods share.\<close>

definition supervisor_refused :: "string \<Rightarrow> string \<Rightarrow> string \<Rightarrow> rule_error option" where
  "supervisor_refused supervisor supervisorRole rationale =
     (if isAutonomousAgentRole supervisorRole \<or> Contains (ToUpper supervisor) ''AI_AGENT'' then Some ErrAutonomousAIBoundary
      else if \<not> isSupervisorRole supervisorRole then Some ErrUnauthorizedActorClass
      else if TrimSpace rationale = [] then Some (Wfa ErrMissingClassificationRationale)
      else None)"

definition cleared_entry ::
  "string \<Rightarrow> string \<Rightarrow> string \<Rightarrow> string \<Rightarrow> string \<Rightarrow> string \<Rightarrow> string \<Rightarrow> string \<Rightarrow> gotime \<Rightarrow> FailClosedGovernor \<Rightarrow> FailClosedAuditEntry" where
  "cleared_entry tenantID targetID kind supervisor supervisorRole act reason correlation now g =
     \<lparr>fa_Sequence = of_nat (length (fg_auditLedger g) + 1), fa_Timestamp = now, fa_TenantID = TrimSpace tenantID,
      fa_TargetID = TrimSpace targetID, fa_TargetKind = kind, fa_Actor = supervisor, fa_ActorRole = supervisorRole,
      fa_Action = act, fa_DenialCode = DenialNone, fa_Reason = reason, fa_RuleVersion = rm_version (fg_ruleMatrix g),
      fa_CorrelationID = correlation @ FormatInt (UnixNano now), fa_HasCriticalFail = False,
      fa_HasQuarantinedUnknown = False, fa_IsOverrideAttempt = False\<rparr>"

definition ResolveUnknownQuestion ::
  "string \<Rightarrow> string \<Rightarrow> string \<Rightarrow> string \<Rightarrow> string \<Rightarrow> string \<Rightarrow> gotime \<Rightarrow> FailClosedGovernor \<Rightarrow>
   (FailClosedGovernor, rule_error, unit) outcome" where
  "ResolveUnknownQuestion tenantID targetID questionID supervisor supervisorRole rationale now g =
     (case supervisor_refused supervisor supervisorRole rationale of
        Some e \<Rightarrow> (g, Inl e)
      | None \<Rightarrow>
          (g\<lparr>fg_quarantinedTargets := drop_flag (TrimSpace tenantID) (TrimSpace targetID) (TrimSpace questionID) (fg_quarantinedTargets g),
             fg_auditLedger := fg_auditLedger g @
               [cleared_entry tenantID targetID TargetKindInspection supervisor supervisorRole ''UNKNOWN_RESOLVED''
                  (''Quarantined question '' @ TrimSpace questionID @ '' resolved by supervisor: '' @ TrimSpace rationale)
                  ''res_unk_'' now g]\<rparr>, Inr ()))"

definition ClearCriticalFinding ::
  "string \<Rightarrow> string \<Rightarrow> string \<Rightarrow> string \<Rightarrow> string \<Rightarrow> string \<Rightarrow> gotime \<Rightarrow> FailClosedGovernor \<Rightarrow>
   (FailClosedGovernor, rule_error, unit) outcome" where
  "ClearCriticalFinding tenantID targetID findingID supervisor supervisorRole rationale now g =
     (case supervisor_refused supervisor supervisorRole rationale of
        Some e \<Rightarrow> (g, Inl e)
      | None \<Rightarrow>
          (g\<lparr>fg_criticalTargets := drop_flag (TrimSpace tenantID) (TrimSpace targetID) (TrimSpace findingID) (fg_criticalTargets g),
             fg_auditLedger := fg_auditLedger g @
               [cleared_entry tenantID targetID TargetKindFinding supervisor supervisorRole ''CRITICAL_CLEARED''
                  (''Critical finding '' @ TrimSpace findingID @ '' cleared by supervisor: '' @ TrimSpace rationale)
                  ''clr_crit_'' now g]\<rparr>, Inr ()))"

text \<open>One branch of \<open>Qualify\<close>: append the audit entry, answer with the same sequence number and reason.\<close>

definition decide ::
  "FailClosedTransitionRequest \<Rightarrow> gotime \<Rightarrow> FailClosedGovernor \<Rightarrow> bool \<Rightarrow> RuleResult \<Rightarrow> DenialCode \<Rightarrow> string \<Rightarrow> string \<Rightarrow> string \<Rightarrow>
   bool \<Rightarrow> bool \<Rightarrow> bool \<Rightarrow> FailClosedGovernor \<times> FailClosedGovernanceResult" where
  "decide req now g permitted result code reason priority act critical unknown override =
     (let seqno = of_nat (length (fg_auditLedger g) + 1);
          ruleVer = (if TrimSpace (fq_RuleVersion req) = [] then rm_version (fg_ruleMatrix g) else TrimSpace (fq_RuleVersion req))
      in (g\<lparr>fg_auditLedger := fg_auditLedger g @
             [\<lparr>fa_Sequence = seqno, fa_Timestamp = now, fa_TenantID = TrimSpace (fq_TenantID req),
               fa_TargetID = TrimSpace (fq_TargetID req), fa_TargetKind = fq_TargetKind req, fa_Actor = fq_Actor req,
               fa_ActorRole = fq_ActorRole req, fa_Action = act, fa_DenialCode = code, fa_Reason = reason,
               fa_RuleVersion = ruleVer, fa_CorrelationID = fq_CorrelationID req, fa_HasCriticalFail = critical,
               fa_HasQuarantinedUnknown = unknown, fa_IsOverrideAttempt = override\<rparr>]\<rparr>,
          \<lparr>fr_Permitted = permitted, fr_Result = result, fr_DenialCode = code, fr_DenialReason = reason,
           fr_PriorityApplied = priority, fr_AuditSequence = seqno, fr_EvaluatedAt = now\<rparr>))"

definition catalog_request :: "FailClosedTransitionRequest \<Rightarrow> FailClosedGovernor \<Rightarrow> TransitionQualificationRequest" where
  "catalog_request req g =
     \<lparr>tq_RuleID = [], tq_TargetKind = fq_TargetKind req, tq_TargetID = TrimSpace (fq_TargetID req),
      tq_TenantID = TrimSpace (fq_TenantID req), tq_FromState = fq_CurrentState req, tq_ToState = fq_TargetState req,
      tq_Actor = fq_Actor req, tq_ActorRole = fq_ActorRole req, tq_EvidenceIDs = fq_EvidenceIDs req,
      tq_InputConditions = (\<lambda>c. if c \<in> set (fq_ConditionsMet req) then Some True else None),
      tq_MatrixVersion = (if TrimSpace (fq_RuleVersion req) = [] then rm_version (fg_ruleMatrix g) else TrimSpace (fq_RuleVersion req)),
      tq_IsArchived = False\<rparr>"

definition FailClosedGovernor_Qualify ::
  "FailClosedTransitionRequest \<Rightarrow> gotime \<Rightarrow> FailClosedGovernor \<Rightarrow> FailClosedGovernor \<times> FailClosedGovernanceResult" where
  "FailClosedGovernor_Qualify req now g =
     (let protected_state = isProtectedTargetState (fq_TargetState req);
          critical = (fq_HasCriticalFail req \<or> fq_CriticalFindingIDs req \<noteq> [] \<or>
                      hasActiveCritical (TrimSpace (fq_TenantID req)) (TrimSpace (fq_TargetID req)) g);
          quarantine = (fq_HasQuarantinedUnknown req \<or> fq_QuarantinedQuestionIDs req \<noteq> [] \<or>
                        hasActiveQuarantine (TrimSpace (fq_TenantID req)) (TrimSpace (fq_TargetID req)) g)
      in if fq_IsOverrideAttempt req
      then let base = ''manual override authority is deferred human-owned (H040-004): override attempt denied'' in
        decide req now g False RuleResultDenied DenialManualOverrideDeferred
          (if fq_OverrideRationale req \<noteq> [] then base @ ''. Provided rationale: '' @ fq_OverrideRationale req else base)
          PriorityOverrideDenial ''OVERRIDE_ATTEMPT_DENIED''
          (fq_HasCriticalFail req \<or> fq_CriticalFindingIDs req \<noteq> []) (fq_HasQuarantinedUnknown req \<or> fq_QuarantinedQuestionIDs req \<noteq> []) True
      else if isAutonomousAgentRole (fq_ActorRole req) \<and> protected_state
      then decide req now g False RuleResultDenied DenialAutonomousAIBoundary
          (''autonomous AI actor '' @ Quote (fq_Actor req) @ '' ('' @ fq_ActorRole req @
           '') is prohibited from authorizing transition to protected state '' @ fq_TargetState req)
          PriorityAIBoundaryDenial ''AI_BOUNDARY_BLOCKED'' (fq_HasCriticalFail req) (fq_HasQuarantinedUnknown req) False
      else if critical \<and> protected_state
      then decide req now g False RuleResultDenied DenialCriticalFailActive
          (''transition blocked under critical-fail priority: unresolved critical failure active'' @
           (if fq_CriticalFindingIDs req \<noteq> [] then '' (findings: '' @ Join (fq_CriticalFindingIDs req) '', '' @ '')'' else []))
          PriorityCriticalFail ''CRITICAL_FAIL_BLOCKED'' True (fq_HasQuarantinedUnknown req) False
      else if quarantine \<and> protected_state
      then decide req now g False RuleResultQuarantined DenialUnknownQuarantined
          (''transition quarantined: unreviewed UNKNOWN responses pending human supervisory resolution'' @
           (if fq_QuarantinedQuestionIDs req \<noteq> [] then '' (questions: '' @ Join (fq_QuarantinedQuestionIDs req) '', '' @ '')'' else []))
          PriorityUnknownQuarantine ''UNKNOWN_QUARANTINE_RECORDED'' False True False
      else if 0 < sint (fq_BasisPoints req) \<and> sint (fq_BasisPoints req) < sint PassingThresholdBasisPoints \<and> protected_state
      then decide req now g False RuleResultDenied DenialMissingCondition
          (''score below passing threshold: required '' @ FormatInt (sint PassingThresholdBasisPoints) @ '' bps (80.00%), got '' @
           FormatInt (sint (fq_BasisPoints req)) @ '' bps'')
          PriorityScoreThreshold ''SCORE_BELOW_THRESHOLD'' False False False
      else let q = TransitionCatalog_Qualify (fg_ruleMatrix g) (catalog_request req g) now (fg_transitionCatalog g) in
        if qr_Allowed q
        then decide req now g True RuleResultPermitted DenialNone (qr_Explanation q) PriorityStandardPermitted
               ''TRANSITION_PERMITTED'' False False False
        else decide req now g False RuleResultDenied (qr_DenialReason q) (qr_Explanation q) (denial_text (qr_DenialReason q))
               ''TRANSITION_DENIED'' False False False)"

definition FailClosedGovernor_AuditHistory :: "string \<Rightarrow> string \<Rightarrow> FailClosedGovernor \<Rightarrow> FailClosedAuditEntry list" where
  "FailClosedGovernor_AuditHistory tenantID targetID g =
     filter (\<lambda>entry. (TrimSpace tenantID = [] \<or> fa_TenantID entry = TrimSpace tenantID) \<and>
               (TrimSpace targetID = [] \<or> fa_TargetID entry = TrimSpace targetID)) (fg_auditLedger g)"

definition TotalAuditCount :: "FailClosedGovernor \<Rightarrow> nat" where
  "TotalAuditCount g = length (fg_auditLedger g)"

text \<open>The calls.\<close>

datatype governor_call =
  CallRegisterCritical string string string
| CallRegisterQuarantined string string string
| CallResolveUnknown string string string string string string gotime
| CallClearCritical string string string string string string gotime
| CallQualify FailClosedTransitionRequest gotime

fun exec_governor :: "governor_call \<Rightarrow> FailClosedGovernor \<Rightarrow> (FailClosedGovernor, rule_error, FailClosedGovernanceResult option) outcome" where
  "exec_governor (CallRegisterCritical t x i) g = (RegisterCriticalFinding t x i g, Inr None)"
| "exec_governor (CallRegisterQuarantined t x i) g = (RegisterQuarantinedQuestion t x i g, Inr None)"
| "exec_governor (CallResolveUnknown t x i s role why now) g =
     map_prod id (map_sum id (\<lambda>_. None)) (ResolveUnknownQuestion t x i s role why now g)"
| "exec_governor (CallClearCritical t x i s role why now) g =
     map_prod id (map_sum id (\<lambda>_. None)) (ClearCriticalFinding t x i s role why now g)"
| "exec_governor (CallQualify req now) g = map_prod id (\<lambda>res. Inr (Some res)) (FailClosedGovernor_Qualify req now g)"

subsection \<open>Flags\<close>

text \<open>The abstract view of the nested maps: a set of (tenant, target, item) triples.\<close>

definition flags :: "flag_map \<Rightarrow> (string \<times> string \<times> string) set" where
  "flags m = {(t, x, i). \<exists>targets items. m t = Some targets \<and> targets x = Some items \<and> i \<in> items}"

lemma flags_empty [simp]: "flags Map.empty = {}"
  by (simp add: flags_def)

lemma flags_add [simp]: "flags (add_flag t x i m) = insert (t, x, i) (flags m)"
  by (auto simp: flags_def add_flag_def Let_def split: option.splits if_splits)

lemma flags_drop [simp]: "flags (drop_flag t x i m) = flags m - {(t, x, i)}"
  by (auto simp: flags_def drop_flag_def split: option.splits if_splits)

lemma has_flag_iff: "has_flag t x m \<longleftrightarrow> (\<exists>i. (t, x, i) \<in> flags m)"
  by (auto simp: has_flag_def flags_def split: option.splits)

subsection \<open>The ledger\<close>

definition governor_inv :: "FailClosedGovernor \<Rightarrow> bool" where
  "governor_inv g \<longleftrightarrow> numbered fa_Sequence (fg_auditLedger g)"

lemma decide_Permitted [simp]: "fr_Permitted (snd (decide req now g p res code why prio act c u ov)) = p"
  by (simp add: decide_def Let_def)

text \<open>Whatever branch it takes, \<open>Qualify\<close> is one decision.\<close>

definition decides ::
  "FailClosedTransitionRequest \<Rightarrow> gotime \<Rightarrow> FailClosedGovernor \<Rightarrow> FailClosedGovernor \<times> FailClosedGovernanceResult \<Rightarrow> bool" where
  "decides req now g out \<longleftrightarrow> (\<exists>p res code why prio act c u ov. out = decide req now g p res code why prio act c u ov)"

lemma decides_decide: "decides req now g (decide req now g p res code why prio act c u ov)"
  unfolding decides_def by (intro exI) (rule refl)

lemma decides_if: "decides req now g X \<Longrightarrow> decides req now g Y \<Longrightarrow> decides req now g (if b then X else Y)"
  by simp

lemma Qualify_decides: "decides req now g (FailClosedGovernor_Qualify req now g)"
  unfolding FailClosedGovernor_Qualify_def Let_def by (intro decides_if decides_decide)

lemma decides_fields:
  assumes "decides req now g out"
  shows "fg_auditLedger (fst out) \<noteq> []" "butlast (fg_auditLedger (fst out)) = fg_auditLedger g"
    "fa_Sequence (last (fg_auditLedger (fst out))) = of_nat (Suc (length (fg_auditLedger g)))"
    "fa_DenialCode (last (fg_auditLedger (fst out))) = fr_DenialCode (snd out)"
    "fa_Reason (last (fg_auditLedger (fst out))) = fr_DenialReason (snd out)"
    "fa_TenantID (last (fg_auditLedger (fst out))) = TrimSpace (fq_TenantID req)"
    "fa_TargetID (last (fg_auditLedger (fst out))) = TrimSpace (fq_TargetID req)"
    "fg_criticalTargets (fst out) = fg_criticalTargets g" "fg_quarantinedTargets (fst out) = fg_quarantinedTargets g"
    "fr_AuditSequence (snd out) = of_nat (Suc (length (fg_auditLedger g)))"
proof -
  obtain p res code why prio act c u ov where "out = decide req now g p res code why prio act c u ov"
    using assms unfolding decides_def by blast
  then show "fg_auditLedger (fst out) \<noteq> []" "butlast (fg_auditLedger (fst out)) = fg_auditLedger g"
    "fa_Sequence (last (fg_auditLedger (fst out))) = of_nat (Suc (length (fg_auditLedger g)))"
    "fa_DenialCode (last (fg_auditLedger (fst out))) = fr_DenialCode (snd out)"
    "fa_Reason (last (fg_auditLedger (fst out))) = fr_DenialReason (snd out)"
    "fa_TenantID (last (fg_auditLedger (fst out))) = TrimSpace (fq_TenantID req)"
    "fa_TargetID (last (fg_auditLedger (fst out))) = TrimSpace (fq_TargetID req)"
    "fg_criticalTargets (fst out) = fg_criticalTargets g" "fg_quarantinedTargets (fst out) = fg_quarantinedTargets g"
    "fr_AuditSequence (snd out) = of_nat (Suc (length (fg_auditLedger g)))"
    by (simp_all add: decide_def Let_def)
qed

lemmas Qualify_fields = decides_fields [OF Qualify_decides]

lemma exec_governor_ledger:
  "fg_auditLedger (fst (exec_governor c g)) = fg_auditLedger g \<or>
   (\<exists>entry. fg_auditLedger (fst (exec_governor c g)) = fg_auditLedger g @ [entry] \<and>
      fa_Sequence entry = of_nat (Suc (length (fg_auditLedger g))))"
proof (cases c)
  case (CallQualify req now)
  have "fg_auditLedger (fst (FailClosedGovernor_Qualify req now g)) =
      fg_auditLedger g @ [last (fg_auditLedger (fst (FailClosedGovernor_Qualify req now g)))]"
    using append_butlast_last_id [OF Qualify_fields(1) [of req now g]] by (simp add: Qualify_fields)
  with CallQualify Qualify_fields(3) [of req now g] show ?thesis by auto
qed (auto simp: RegisterCriticalFinding_def RegisterQuarantinedQuestion_def ResolveUnknownQuestion_def ClearCriticalFinding_def
      cleared_entry_def Let_def split: option.splits)

interpretation governor: journaled exec_governor governor_inv "\<lambda>_. True" "\<lambda>_ :: unit. fg_auditLedger"
proof unfold_locales
  fix g c
  assume "governor_inv g"
  with exec_governor_ledger [of c g] show "governor_inv (fst (exec_governor c g))"
    by (auto simp: governor_inv_def)
next
  fix g :: FailClosedGovernor and c and k :: unit
  show "prefix (fg_auditLedger g) (fg_auditLedger (fst (exec_governor c g)))"
    using exec_governor_ledger [of c g] by auto
qed

text \<open>A refused clearing changes nothing; the other calls have no error reply.\<close>

interpretation governor: fail_closed exec_governor
proof unfold_locales
  fix c g g' e
  show "exec_governor c g = (g', Inl e) \<Longrightarrow> g' = g"
    by (cases c) (auto simp: ResolveUnknownQuestion_def ClearCriticalFinding_def map_prod_def split: option.splits prod.splits)
qed

subsection \<open>What clears a flag\<close>

fun clears_critical :: "string \<Rightarrow> string \<Rightarrow> string \<Rightarrow> governor_call \<Rightarrow> bool" where
  "clears_critical t x i (CallClearCritical t' x' i' supervisor role rationale now) \<longleftrightarrow>
     (TrimSpace t', TrimSpace x', TrimSpace i') = (t, x, i) \<and> supervisor_refused supervisor role rationale = None"
| "clears_critical t x i _ \<longleftrightarrow> False"

fun resolves_unknown :: "string \<Rightarrow> string \<Rightarrow> string \<Rightarrow> governor_call \<Rightarrow> bool" where
  "resolves_unknown t x i (CallResolveUnknown t' x' i' supervisor role rationale now) \<longleftrightarrow>
     (TrimSpace t', TrimSpace x', TrimSpace i') = (t, x, i) \<and> supervisor_refused supervisor role rationale = None"
| "resolves_unknown t x i _ \<longleftrightarrow> False"

interpretation critical: api_machine exec_governor "\<lambda>g. (t, x, i) \<in> flags (fg_criticalTargets g)" "\<lambda>c. \<not> clears_critical t x i c"
  for t x i
proof unfold_locales
  fix g :: FailClosedGovernor and c
  assume "(t, x, i) \<in> flags (fg_criticalTargets g)" "\<not> clears_critical t x i c"
  then show "(t, x, i) \<in> flags (fg_criticalTargets (fst (exec_governor c g)))"
    by (cases c) (auto simp: RegisterCriticalFinding_def RegisterQuarantinedQuestion_def ResolveUnknownQuestion_def
        ClearCriticalFinding_def Qualify_fields Let_def split: option.splits)
qed

interpretation quarantine: api_machine exec_governor "\<lambda>g. (t, x, i) \<in> flags (fg_quarantinedTargets g)" "\<lambda>c. \<not> resolves_unknown t x i c"
  for t x i
proof unfold_locales
  fix g :: FailClosedGovernor and c
  assume "(t, x, i) \<in> flags (fg_quarantinedTargets g)" "\<not> resolves_unknown t x i c"
  then show "(t, x, i) \<in> flags (fg_quarantinedTargets (fst (exec_governor c g)))"
    by (cases c) (auto simp: RegisterCriticalFinding_def RegisterQuarantinedQuestion_def ResolveUnknownQuestion_def
        ClearCriticalFinding_def Qualify_fields Let_def split: option.splits)
qed

subsection \<open>Properties\<close>

text \<open>
  The governor permits a transition exactly when it is not an override attempt, the rule matrix and the
  catalog qualify it, and, if it leads to a protected state, the actor is not an autonomous agent, no
  critical finding and no quarantined question is named in the request or registered for the target,
  and the score is not strictly between 0 and 8000 basis points.
\<close>

theorem governor_permits_iff:
  "fr_Permitted (snd (FailClosedGovernor_Qualify req now g)) \<longleftrightarrow>
     \<not> fq_IsOverrideAttempt req \<and>
     qr_Allowed (TransitionCatalog_Qualify (fg_ruleMatrix g) (catalog_request req g) now (fg_transitionCatalog g)) \<and>
     (isProtectedTargetState (fq_TargetState req) \<longrightarrow>
        \<not> isAutonomousAgentRole (fq_ActorRole req) \<and>
        \<not> fq_HasCriticalFail req \<and> fq_CriticalFindingIDs req = [] \<and> \<not> hasActiveCritical (fq_TenantID req) (fq_TargetID req) g \<and>
        \<not> fq_HasQuarantinedUnknown req \<and> fq_QuarantinedQuestionIDs req = [] \<and> \<not> hasActiveQuarantine (fq_TenantID req) (fq_TargetID req) g \<and>
        \<not> (0 < sint (fq_BasisPoints req) \<and> sint (fq_BasisPoints req) < 8000))"
  unfolding FailClosedGovernor_Qualify_def Let_def
  by (auto simp: PassingThresholdBasisPoints_def hasActiveCritical_def hasActiveQuarantine_def)

text \<open>
  (C32) A registered critical finding blocks every transition of its target to a protected state until a human
  supervisor clears that very finding with a rationale: no other sequence of calls, by whomever, lifts the block.
\<close>

theorem critical_finding_blocks:
  assumes "TrimSpace t \<noteq> []" and "TrimSpace x \<noteq> []" and "TrimSpace i \<noteq> []"
    and "list_all (\<lambda>c. \<not> clears_critical (TrimSpace t) (TrimSpace x) (TrimSpace i) c) cs"
    and "TrimSpace (fq_TenantID req) = TrimSpace t" and "TrimSpace (fq_TargetID req) = TrimSpace x"
    and "isProtectedTargetState (fq_TargetState req)"
  shows "\<not> fr_Permitted (snd (FailClosedGovernor_Qualify req now (run_calls exec_governor cs (RegisterCriticalFinding t x i g))))"
proof -
  have "(TrimSpace t, TrimSpace x, TrimSpace i) \<in> flags (fg_criticalTargets (RegisterCriticalFinding t x i g))"
    using assms(1-3) by (simp add: RegisterCriticalFinding_def Let_def)
  from critical.run_inv [OF this assms(4)]
  have "hasActiveCritical (fq_TenantID req) (fq_TargetID req) (run_calls exec_governor cs (RegisterCriticalFinding t x i g))"
    using assms(5,6) by (auto simp: hasActiveCritical_def has_flag_iff)
  with assms(7) show ?thesis by (simp add: governor_permits_iff)
qed

definition example_transition :: "int64 \<Rightarrow> FailClosedTransitionRequest" where
  "example_transition bps = \<lparr>fq_TargetKind = ''WORKFLOW'', fq_TenantID = ''ten_1'', fq_TargetID = ''wf_1'', fq_CurrentState = ''UNDER_REVIEW'',
     fq_TargetState = ''APPROVED'', fq_Actor = ''ann'', fq_ActorRole = ''SUPERVISOR'', fq_RuleVersion = [], fq_ConditionsMet = [],
     fq_EvidenceIDs = [], fq_HasCriticalFail = False, fq_CriticalFindingIDs = [], fq_HasQuarantinedUnknown = False,
     fq_QuarantinedQuestionIDs = [], fq_BasisPoints = bps, fq_IsOverrideAttempt = False, fq_OverrideRationale = [],
     fq_CorrelationID = ''c1''\<rparr>"

definition example_governor :: FailClosedGovernor where
  "example_governor = NewFailClosedGovernor
     (Some (fst (RegisterRule (default_rule ''R-1'' ''SUPERVISOR'' [] False ''T'' ''d'') (NewRuleMatrix []))))
     (Some (fst (RegisterTransition ''WORKFLOW'' ''UNDER_REVIEW'' ''APPROVED'' ''R-1'' NewTransitionCatalog)))"

text \<open>The example is permitted with every score that the threshold lets pass: the catalog does not see the score.\<close>

lemma example_permitted:
  assumes "\<not> (0 < sint bps \<and> sint bps < 8000)"
  shows "fr_Permitted (snd (FailClosedGovernor_Qualify (example_transition bps) 3 example_governor))"
proof -
  have "fr_Permitted (snd (FailClosedGovernor_Qualify (example_transition 0) 3 example_governor))" by code_simp
  moreover have "catalog_request (example_transition bps) g = catalog_request (example_transition 0) g" for g
    by (simp add: catalog_request_def example_transition_def)
  ultimately show ?thesis
    using assms unfolding governor_permits_iff by (simp add: example_transition_def)
qed

theorem critical_finding_blocks_witness:
  "\<not> fr_Permitted (snd (FailClosedGovernor_Qualify (example_transition 9000) 3
      (run_calls exec_governor
         [CallClearCritical ''ten_1'' ''wf_1'' ''f1'' ''bot'' ''AI_AGENT'' ''fixed'' 2, CallRegisterCritical ''ten_1'' ''wf_1'' ''f2'']
         (RegisterCriticalFinding ''ten_1'' ''wf_1'' ''f1'' example_governor)))) \<and>
   fr_Permitted (snd (FailClosedGovernor_Qualify (example_transition 9000) 3 example_governor))"
proof
  have "list_all (\<lambda>c. \<not> clears_critical (TrimSpace ''ten_1'') (TrimSpace ''wf_1'') (TrimSpace ''f1'') c)
      [CallClearCritical ''ten_1'' ''wf_1'' ''f1'' ''bot'' ''AI_AGENT'' ''fixed'' 2, CallRegisterCritical ''ten_1'' ''wf_1'' ''f2'']"
    and "isProtectedTargetState (fq_TargetState (example_transition 9000))"
    and "TrimSpace (fq_TenantID (example_transition 9000)) = TrimSpace ''ten_1''"
    and "TrimSpace (fq_TargetID (example_transition 9000)) = TrimSpace ''wf_1''"
    by code_simp+
  then show "\<not> fr_Permitted (snd (FailClosedGovernor_Qualify (example_transition 9000) 3
      (run_calls exec_governor
         [CallClearCritical ''ten_1'' ''wf_1'' ''f1'' ''bot'' ''AI_AGENT'' ''fixed'' 2, CallRegisterCritical ''ten_1'' ''wf_1'' ''f2'']
         (RegisterCriticalFinding ''ten_1'' ''wf_1'' ''f1'' example_governor))))"
    by (intro critical_finding_blocks) simp_all
  show "fr_Permitted (snd (FailClosedGovernor_Qualify (example_transition 9000) 3 example_governor))"
    by (rule example_permitted) simp
qed

text \<open>
  The same for an unreviewed \<open>UNKNOWN\<close> answer: the quarantine holds until a human supervisor resolves that
  question with a rationale.
\<close>

theorem unknown_quarantine_blocks:
  assumes "TrimSpace t \<noteq> []" and "TrimSpace x \<noteq> []" and "TrimSpace i \<noteq> []"
    and "list_all (\<lambda>c. \<not> resolves_unknown (TrimSpace t) (TrimSpace x) (TrimSpace i) c) cs"
    and "TrimSpace (fq_TenantID req) = TrimSpace t" and "TrimSpace (fq_TargetID req) = TrimSpace x"
    and "isProtectedTargetState (fq_TargetState req)"
  shows "\<not> fr_Permitted (snd (FailClosedGovernor_Qualify req now (run_calls exec_governor cs (RegisterQuarantinedQuestion t x i g))))"
proof -
  have "(TrimSpace t, TrimSpace x, TrimSpace i) \<in> flags (fg_quarantinedTargets (RegisterQuarantinedQuestion t x i g))"
    using assms(1-3) by (simp add: RegisterQuarantinedQuestion_def Let_def)
  from quarantine.run_inv [OF this assms(4)]
  have "hasActiveQuarantine (fq_TenantID req) (fq_TargetID req) (run_calls exec_governor cs (RegisterQuarantinedQuestion t x i g))"
    using assms(5,6) by (auto simp: hasActiveQuarantine_def has_flag_iff)
  with assms(7) show ?thesis by (simp add: governor_permits_iff)
qed

text \<open>
  Every qualification is audited: it appends exactly one entry, for the tenant and target of the request and
  with the code and reason of the answer, under the sequence number the answer names; the ledger of a new
  governor is numbered from 1 without gaps after any calls.
\<close>

theorem qualification_audited:
  "let g = run_calls exec_governor cs (NewFailClosedGovernor matrix cat);
       (g', res) = FailClosedGovernor_Qualify req now g; entry = last (fg_auditLedger g')
   in fg_auditLedger g' = fg_auditLedger g @ [entry] \<and> fa_Sequence entry = fr_AuditSequence res \<and>
      fa_DenialCode entry = fr_DenialCode res \<and> fa_Reason entry = fr_DenialReason res \<and>
      fa_TenantID entry = TrimSpace (fq_TenantID req) \<and> fa_TargetID entry = TrimSpace (fq_TargetID req) \<and>
      map fa_Sequence (fg_auditLedger g') = map of_nat [1..<Suc (length (fg_auditLedger g'))]"
proof -
  define g where "g = run_calls exec_governor cs (NewFailClosedGovernor matrix cat)"
  have "governor_inv (NewFailClosedGovernor matrix cat)" by (simp add: governor_inv_def NewFailClosedGovernor_def)
  then have "governor_inv g" unfolding g_def by (intro governor.run_inv) simp_all
  moreover have "governor_inv (fst (exec_governor (CallQualify req now) g))"
    using governor.exec_inv [OF \<open>governor_inv g\<close>] by blast
  ultimately have "map fa_Sequence (fg_auditLedger (fst (FailClosedGovernor_Qualify req now g))) =
      map of_nat [1..<Suc (length (fg_auditLedger (fst (FailClosedGovernor_Qualify req now g))))]"
    by (simp add: governor_inv_def numbered_map del: upt_Suc)
  moreover have "fg_auditLedger (fst (FailClosedGovernor_Qualify req now g)) =
      fg_auditLedger g @ [last (fg_auditLedger (fst (FailClosedGovernor_Qualify req now g)))]"
    using append_butlast_last_id [OF Qualify_fields(1) [of req now g]] by (simp add: Qualify_fields)
  ultimately show ?thesis
    unfolding g_def [symmetric] Let_def split_beta by (simp only: Qualify_fields simp_thms)
qed

text \<open>
  A score of zero passes the threshold that a score of one fails: the check only looks at positive scores.
\<close>

theorem zero_score_passes_threshold:
  "fr_Permitted (snd (FailClosedGovernor_Qualify (example_transition 0) 3 example_governor)) \<and>
   \<not> fr_Permitted (snd (FailClosedGovernor_Qualify (example_transition 1) 3 example_governor))"
proof
  show "fr_Permitted (snd (FailClosedGovernor_Qualify (example_transition 0) 3 example_governor))" by (rule example_permitted) simp
  have "isProtectedTargetState (fq_TargetState (example_transition 1))" by code_simp
  then show "\<not> fr_Permitted (snd (FailClosedGovernor_Qualify (example_transition 1) 3 example_governor))"
    by (simp add: governor_permits_iff) (simp add: example_transition_def)
qed

end
