(* ===== verification/Scheduler.thy ===== *)
theory Scheduler
  imports Go_Strings
begin

text \<open>
  Jobs and notifications, \<open>modules/events-outbox-jobs/scheduler_notifications.go\<close>: one-shot jobs run when they are due,
  and notifications delivered to a local sink with a bounded number of attempts, quarantine and replay.

  A job handler is a function the caller registers. As for the event dispatcher, handlers are values of a type
  \<open>'h\<close>, run by a parameter \<open>invoke\<close> on the job and the world \<open>'w\<close> outside the scheduler. \<open>ExecuteDueJobs\<close> ranges
  over a map, whose order Go leaves open: the order of the keys is an argument. The pointers that
  \<open>SendNotification\<close> and \<open>ReplayNotification\<close> return are modelled as copies.
\<close>

subsection \<open>Definitions\<close>

datatype JobState =
  JobStateScheduled | JobStateRunning | JobStateCompleted | JobStateFailed | JobStateCanceled | JobStateOther string

datatype NotificationChannel = ChannelLocalMemory | ChannelLocalLog | ChannelOther string

fun channel_text :: "NotificationChannel \<Rightarrow> string" where
  "channel_text ChannelLocalMemory = ''LOCAL_MEMORY''"
| "channel_text ChannelLocalLog = ''LOCAL_LOG''"
| "channel_text (ChannelOther s) = s"

datatype NotificationStatus =
  NotificationStatusPending | NotificationStatusDelivered | NotificationStatusRetrying | NotificationStatusQuarantined
| NotificationStatusOther string

datatype scheduler_error =
  ErrBlankJobID | ErrBlankTenantID | ErrBlankJobType | ErrDuplicateJobID | ErrJobNotFound | ErrClockSkewDetected
| ErrUnsupportedExternalChannel | ErrCrossTenantNotification | ErrDuplicateNotificationRequest
| ErrNotificationNotFound | ErrUnauthorizedNotificationAccess | ErrNotificationNotQuarantined
| ErrNotificationMaxRetries | ErrNotificationRetryLimitReached
| ErrJobHandlerNil | ErrBlankRequestID | SinkFailed string

record ScheduledJob =
  sj_JobID :: string
  sj_TenantID :: string
  sj_JobType :: string
  sj_Payload :: string
  sj_ScheduledAt :: gotime
  sj_DueAt :: gotime
  sj_State :: JobState
  sj_ExecutedAt :: "gotime option"
  sj_Attempts :: int64
  sj_LastError :: string

record NotificationRequest =
  nr_RequestID :: string
  nr_TenantID :: string
  nr_Recipient :: string
  nr_Subject :: string
  nr_Body :: string
  nr_Channel :: NotificationChannel
  nr_CreatedAt :: gotime
  nr_Status :: NotificationStatus
  nr_Attempts :: int64
  nr_MaxAttempts :: int64
  nr_DeliveredAt :: "gotime option"
  nr_LastError :: string
  nr_Diagnostics :: string

record 'h Scheduler =
  sc_maxNotifAttempts :: int64
  sc_jobs :: "string \<rightharpoonup> ScheduledJob"
  sc_jobHandlers :: "string \<rightharpoonup> 'h"
  sc_notifications :: "string \<rightharpoonup> NotificationRequest"
  sc_localSinkDeliveries :: "NotificationRequest list"
  sc_simulatedSinkFailure :: "string option"

type_synonym ('h, 'w) job_invocation = "'h \<Rightarrow> ScheduledJob \<Rightarrow> 'w \<Rightarrow> 'w \<times> string option"

definition NewScheduler :: "int64 \<Rightarrow> 'h Scheduler" where
  "NewScheduler maxNotificationAttempts =
     \<lparr>sc_maxNotifAttempts = (if sint maxNotificationAttempts \<le> 0 then 3 else maxNotificationAttempts),
      sc_jobs = Map.empty, sc_jobHandlers = Map.empty, sc_notifications = Map.empty,
      sc_localSinkDeliveries = [], sc_simulatedSinkFailure = None\<rparr>"

definition RegisterJobHandler ::
  "string \<Rightarrow> 'h option \<Rightarrow> 'h Scheduler \<Rightarrow> ('h Scheduler, scheduler_error, unit) outcome" where
  "RegisterJobHandler jobType handler s =
     (if TrimSpace jobType = [] then (s, Inl ErrBlankJobType)
      else case handler of
        None \<Rightarrow> (s, Inl ErrJobHandlerNil)
      | Some h \<Rightarrow> (s\<lparr>sc_jobHandlers := (sc_jobHandlers s)(TrimSpace jobType \<mapsto> h)\<rparr>, Inr ()))"

definition ScheduleJob ::
  "ScheduledJob \<Rightarrow> gotime \<Rightarrow> 'h Scheduler \<Rightarrow> ('h Scheduler, scheduler_error, unit) outcome" where
  "ScheduleJob job now s =
     (let jobID = TrimSpace (sj_JobID job); tenantID = TrimSpace (sj_TenantID job); jobType = TrimSpace (sj_JobType job)
      in if jobID = [] then (s, Inl ErrBlankJobID)
      else if tenantID = [] then (s, Inl ErrBlankTenantID)
      else if jobType = [] then (s, Inl ErrBlankJobType)
      else if sc_jobs s jobID \<noteq> None then (s, Inl ErrDuplicateJobID)
      else if sj_DueAt job < sj_ScheduledAt job then (s, Inl ErrClockSkewDetected)
      else let schedAt = (if IsZero (sj_ScheduledAt job) then now else sj_ScheduledAt job);
               dueAt = (if IsZero (sj_DueAt job) then now else sj_DueAt job)
        in (s\<lparr>sc_jobs := (sc_jobs s)(jobID \<mapsto>
               \<lparr>sj_JobID = jobID, sj_TenantID = tenantID, sj_JobType = jobType, sj_Payload = sj_Payload job,
                sj_ScheduledAt = schedAt, sj_DueAt = dueAt, sj_State = JobStateScheduled, sj_ExecutedAt = None,
                sj_Attempts = 0, sj_LastError = []\<rparr>)\<rparr>, Inr ()))"

text \<open>The body of the loop of \<open>ExecuteDueJobs\<close> for a job that is due.\<close>

definition execute_job ::
  "('h, 'w) job_invocation \<Rightarrow> gotime \<Rightarrow> 'h option \<Rightarrow> ScheduledJob \<Rightarrow> 'w \<Rightarrow> ScheduledJob \<times> 'w" where
  "execute_job invoke now handler job w =
     (case handler of
        None \<Rightarrow> (job\<lparr>sj_State := JobStateFailed,
                     sj_LastError := ''no handler registered for job type: '' @ sj_JobType job\<rparr>, w)
      | Some h \<Rightarrow>
          let job1 = job\<lparr>sj_State := JobStateRunning, sj_Attempts := sj_Attempts job + 1, sj_ExecutedAt := Some now\<rparr>;
              (w', err) = invoke h job1 w
          in (case err of
                Some msg \<Rightarrow> job1\<lparr>sj_State := JobStateFailed, sj_LastError := msg\<rparr>
              | None \<Rightarrow> job1\<lparr>sj_State := JobStateCompleted, sj_LastError := []\<rparr>, w'))"

definition job_due :: "gotime \<Rightarrow> ScheduledJob \<Rightarrow> bool" where
  "job_due now job \<longleftrightarrow> sj_State job = JobStateScheduled \<and> \<not> now < sj_DueAt job"

fun execute_loop ::
  "('h, 'w) job_invocation \<Rightarrow> gotime \<Rightarrow> string list \<Rightarrow> 'h Scheduler \<Rightarrow> 'w \<Rightarrow> ScheduledJob list \<Rightarrow>
   'h Scheduler \<times> 'w \<times> ScheduledJob list" where
  "execute_loop invoke now [] s w executed = (s, w, executed)"
| "execute_loop invoke now (k # ks) s w executed =
     (case sc_jobs s k of
        None \<Rightarrow> execute_loop invoke now ks s w executed
      | Some job \<Rightarrow>
          if \<not> job_due now job then execute_loop invoke now ks s w executed
          else let (job', w') = execute_job invoke now (sc_jobHandlers s (sj_JobType job)) job w
            in execute_loop invoke now ks (s\<lparr>sc_jobs := (sc_jobs s)(k \<mapsto> job')\<rparr>) w' (executed @ [job']))"

definition ExecuteDueJobs ::
  "('h, 'w) job_invocation \<Rightarrow> string list \<Rightarrow> gotime \<Rightarrow> 'h Scheduler \<times> 'w \<Rightarrow>
   ('h Scheduler \<times> 'w, scheduler_error, ScheduledJob list) outcome" where
  "ExecuteDueJobs invoke key_order now sw =
     (case sw of (s, w) \<Rightarrow> case execute_loop invoke now key_order s w [] of (s', w', executed) \<Rightarrow> ((s', w'), Inr executed))"

definition GetJob :: "string \<Rightarrow> 'h Scheduler \<Rightarrow> scheduler_error + ScheduledJob" where
  "GetJob jobID s = (case sc_jobs s (TrimSpace jobID) of None \<Rightarrow> Inl ErrJobNotFound | Some j \<Rightarrow> Inr j)"

definition new_notification :: "NotificationRequest \<Rightarrow> gotime \<Rightarrow> int64 \<Rightarrow> NotificationRequest" where
  "new_notification req now maxAttempts =
     \<lparr>nr_RequestID = TrimSpace (nr_RequestID req), nr_TenantID = TrimSpace (nr_TenantID req),
      nr_Recipient = TrimSpace (nr_Recipient req), nr_Subject = TrimSpace (nr_Subject req), nr_Body = TrimSpace (nr_Body req),
      nr_Channel = nr_Channel req, nr_CreatedAt = (if IsZero (nr_CreatedAt req) then now else nr_CreatedAt req),
      nr_Status = NotificationStatusPending, nr_Attempts = 0, nr_MaxAttempts = maxAttempts, nr_DeliveredAt = None,
      nr_LastError = [], nr_Diagnostics = []\<rparr>"

definition sink_delivered :: "gotime \<Rightarrow> string \<Rightarrow> NotificationRequest \<Rightarrow> NotificationRequest" where
  "sink_delivered now diagnostics rec =
     rec\<lparr>nr_Status := NotificationStatusDelivered, nr_DeliveredAt := Some now, nr_LastError := [], nr_Diagnostics := diagnostics\<rparr>"

text \<open>A method's error comes with the record where the code returns both.\<close>

type_synonym notification_result = "(scheduler_error \<times> NotificationRequest option) + NotificationRequest"

definition store_notification :: "string \<Rightarrow> NotificationRequest \<Rightarrow> 'h Scheduler \<Rightarrow> 'h Scheduler" where
  "store_notification reqID rec s = s\<lparr>sc_notifications := (sc_notifications s)(reqID \<mapsto> rec)\<rparr>"

definition deliver_notification :: "string \<Rightarrow> NotificationRequest \<Rightarrow> 'h Scheduler \<Rightarrow> 'h Scheduler" where
  "deliver_notification reqID rec s =
     (store_notification reqID rec s)\<lparr>sc_localSinkDeliveries := sc_localSinkDeliveries s @ [rec]\<rparr>"

text \<open>The record a request is about, found or new; and one attempt at delivery, with what the method answers.\<close>

definition notification_record :: "NotificationRequest \<Rightarrow> gotime \<Rightarrow> 'h Scheduler \<Rightarrow> NotificationRequest" where
  "notification_record req now s =
     (case sc_notifications s (TrimSpace (nr_RequestID req)) of
        Some rec \<Rightarrow> rec | None \<Rightarrow> new_notification req now (sc_maxNotifAttempts s))"

definition attempt_send :: "string option \<Rightarrow> gotime \<Rightarrow> NotificationRequest \<Rightarrow> NotificationRequest \<times> notification_result" where
  "attempt_send failure now rec0 =
     (let rec1 = rec0\<lparr>nr_Attempts := nr_Attempts rec0 + 1\<rparr> in
      case failure of
        Some msg \<Rightarrow>
          let rec2 = rec1\<lparr>nr_LastError := msg,
                       nr_Diagnostics := ''local sink delivery failed on attempt '' @ FormatInt (sint (nr_Attempts rec1)) @ '': '' @ msg\<rparr>
          in if sint (nr_MaxAttempts rec2) \<le> sint (nr_Attempts rec2)
             then let rec3 = rec2\<lparr>nr_Status := NotificationStatusQuarantined\<rparr> in (rec3, Inl (ErrNotificationMaxRetries, Some rec3))
             else let rec3 = rec2\<lparr>nr_Status := NotificationStatusRetrying\<rparr> in (rec3, Inl (SinkFailed msg, Some rec3))
      | None \<Rightarrow>
          let rec2 = sink_delivered now (''successfully delivered to '' @ channel_text (nr_Channel rec1) @ '' on attempt '' @
                       FormatInt (sint (nr_Attempts rec1))) rec1
          in (rec2, Inr rec2))"

definition attempt_replay ::
  "string option \<Rightarrow> string \<Rightarrow> gotime \<Rightarrow> NotificationRequest \<Rightarrow> NotificationRequest \<times> notification_result" where
  "attempt_replay failure callerIdentity now rec0 =
     (let rec1 = rec0\<lparr>nr_Attempts := nr_Attempts rec0 + 1\<rparr> in
      case failure of
        Some msg \<Rightarrow>
          let rec2 = rec1\<lparr>nr_LastError := msg, nr_Diagnostics := ''replay delivery failed: '' @ msg,
                       nr_Status := NotificationStatusQuarantined\<rparr>
          in (rec2, Inl (SinkFailed msg, Some rec2))
      | None \<Rightarrow>
          let rec2 = sink_delivered now (''replayed by '' @ callerIdentity @ '' and delivered to '' @
                       channel_text (nr_Channel rec1)) rec1
          in (rec2, Inr rec2))"

text \<open>The record goes to the store, and on success a copy of it to the sink.\<close>

definition finish_attempt ::
  "string \<Rightarrow> NotificationRequest \<times> notification_result \<Rightarrow> 'h Scheduler \<Rightarrow> 'h Scheduler \<times> notification_result" where
  "finish_attempt reqID attempt s =
     (case attempt of (rec, res) \<Rightarrow>
        (case res of Inl _ \<Rightarrow> store_notification reqID rec s | Inr _ \<Rightarrow> deliver_notification reqID rec s, res))"

definition SendNotification ::
  "NotificationRequest \<Rightarrow> gotime \<Rightarrow> 'h Scheduler \<Rightarrow> 'h Scheduler \<times> notification_result" where
  "SendNotification req now s =
     (let reqID = TrimSpace (nr_RequestID req); rec0 = notification_record req now s
      in if reqID = [] then (s, Inl (ErrBlankRequestID, None))
      else if TrimSpace (nr_TenantID req) = [] then (s, Inl (ErrBlankTenantID, None))
      else if nr_Channel req \<noteq> ChannelLocalMemory \<and> nr_Channel req \<noteq> ChannelLocalLog
      then (s, Inl (ErrUnsupportedExternalChannel, None))
      else if nr_Status rec0 = NotificationStatusDelivered then (s, Inl (ErrDuplicateNotificationRequest, Some rec0))
      else if nr_Status rec0 = NotificationStatusQuarantined then (s, Inl (ErrNotificationRetryLimitReached, Some rec0))
      else finish_attempt reqID (attempt_send (sc_simulatedSinkFailure s) now rec0) s)"

definition ReplayNotification ::
  "string \<Rightarrow> string \<Rightarrow> string \<Rightarrow> gotime \<Rightarrow> 'h Scheduler \<Rightarrow> 'h Scheduler \<times> notification_result" where
  "ReplayNotification requestID callerTenantID callerIdentity now s =
     (if TrimSpace callerIdentity = [] then (s, Inl (ErrUnauthorizedNotificationAccess, None))
      else case sc_notifications s (TrimSpace requestID) of
        None \<Rightarrow> (s, Inl (ErrNotificationNotFound, None))
      | Some rec \<Rightarrow>
          if nr_TenantID rec \<noteq> TrimSpace callerTenantID then (s, Inl (ErrCrossTenantNotification, None))
          else if nr_Status rec \<noteq> NotificationStatusQuarantined then (s, Inl (ErrNotificationNotQuarantined, None))
          else finish_attempt (TrimSpace requestID) (attempt_replay (sc_simulatedSinkFailure s) callerIdentity now rec) s)"

definition GetNotification :: "string \<Rightarrow> string \<Rightarrow> 'h Scheduler \<Rightarrow> scheduler_error + NotificationRequest" where
  "GetNotification requestID callerTenantID s =
     (case sc_notifications s (TrimSpace requestID) of
        None \<Rightarrow> Inl ErrNotificationNotFound
      | Some rec \<Rightarrow> if nr_TenantID rec \<noteq> TrimSpace callerTenantID then Inl ErrCrossTenantNotification else Inr rec)"

definition SetLocalSinkFailure :: "string option \<Rightarrow> 'h Scheduler \<Rightarrow> 'h Scheduler" where
  "SetLocalSinkFailure err s = s\<lparr>sc_simulatedSinkFailure := err\<rparr>"

definition GetLocalSinkDeliveries :: "'h Scheduler \<Rightarrow> NotificationRequest list" where
  "GetLocalSinkDeliveries s = sc_localSinkDeliveries s"


subsection \<open>Calls and invariant\<close>

datatype 'h scheduler_call =
  CallRegisterJobHandler string "'h option"
| CallScheduleJob ScheduledJob gotime
| CallExecuteDueJobs "string list" gotime
| CallSendNotification NotificationRequest gotime
| CallReplayNotification string string string gotime
| CallSetLocalSinkFailure "string option"

definition in_world :: "'w \<Rightarrow> 's \<times> ('e + 'r) \<Rightarrow> ('s \<times> 'w, 'e, unit) outcome" where
  "in_world w out = ((fst out, w), map_sum id (\<lambda>_. ()) (snd out))"

fun scheduler_exec ::
  "('h, 'w) job_invocation \<Rightarrow> 'h scheduler_call \<Rightarrow> 'h Scheduler \<times> 'w \<Rightarrow> ('h Scheduler \<times> 'w, scheduler_error, unit) outcome" where
  "scheduler_exec invoke (CallRegisterJobHandler t h) (s, w) = in_world w (RegisterJobHandler t h s)"
| "scheduler_exec invoke (CallScheduleJob job now) (s, w) = in_world w (ScheduleJob job now s)"
| "scheduler_exec invoke (CallExecuteDueJobs key_order now) sw = discard (ExecuteDueJobs invoke key_order now sw)"
| "scheduler_exec invoke (CallSendNotification req now) (s, w) =
     in_world w (map_prod id (map_sum fst id) (SendNotification req now s))"
| "scheduler_exec invoke (CallReplayNotification i t c now) (s, w) =
     in_world w (map_prod id (map_sum fst id) (ReplayNotification i t c now s))"
| "scheduler_exec invoke (CallSetLocalSinkFailure err) (s, w) = ((SetLocalSinkFailure err s, w), Inr ())"

definition job_inv :: "string \<Rightarrow> ScheduledJob \<Rightarrow> bool" where
  "job_inv k job \<longleftrightarrow> sj_JobID job = k \<and> k \<noteq> [] \<and>
     (sj_State job = JobStateScheduled \<and> sj_Attempts job = 0 \<and> sj_ExecutedAt job = None \<or>
      sj_State job = JobStateFailed \<and> sj_Attempts job = 0 \<and> sj_ExecutedAt job = None \<or>
      (sj_State job = JobStateCompleted \<or> sj_State job = JobStateFailed) \<and> sj_Attempts job = 1 \<and>
        (\<exists>t. sj_ExecutedAt job = Some t \<and> sj_DueAt job \<le> t))"

definition notification_inv :: "int64 \<Rightarrow> string \<Rightarrow> NotificationRequest \<Rightarrow> bool" where
  "notification_inv maxAttempts k rec \<longleftrightarrow> nr_RequestID rec = k \<and> nr_MaxAttempts rec = maxAttempts \<and>
     (nr_Channel rec = ChannelLocalMemory \<or> nr_Channel rec = ChannelLocalLog) \<and>
     (nr_Status rec = NotificationStatusRetrying \<and> 0 < sint (nr_Attempts rec) \<and> sint (nr_Attempts rec) < sint maxAttempts \<or>
      nr_Status rec = NotificationStatusQuarantined \<or>
      nr_Status rec = NotificationStatusDelivered \<and> nr_DeliveredAt rec \<noteq> None)"

definition sink_inv :: "'h Scheduler \<Rightarrow> bool" where
  "sink_inv s \<longleftrightarrow> distinct (map nr_RequestID (sc_localSinkDeliveries s)) \<and>
     (\<forall>rec. rec \<in> set (sc_localSinkDeliveries s) \<longleftrightarrow>
        sc_notifications s (nr_RequestID rec) = Some rec \<and> nr_Status rec = NotificationStatusDelivered)"

definition scheduler_inv :: "'h Scheduler \<Rightarrow> bool" where
  "scheduler_inv s \<longleftrightarrow> 0 < sint (sc_maxNotifAttempts s) \<and>
     (\<forall>k job. sc_jobs s k = Some job \<longrightarrow> job_inv k job) \<and>
     (\<forall>k rec. sc_notifications s k = Some rec \<longrightarrow> notification_inv (sc_maxNotifAttempts s) k rec) \<and> sink_inv s"

subsection \<open>Jobs\<close>

lemma in_world_simps [simp]: "fst (in_world w out) = (fst out, w)"
  by (simp add: in_world_def)

lemma execute_job_state:
  assumes "execute_job invoke now h job w = (job', w')"
  shows "(sj_State job' = JobStateCompleted \<or> sj_State job' = JobStateFailed) \<and> sj_JobID job' = sj_JobID job \<and> sj_DueAt job' = sj_DueAt job"
  using assms by (auto simp: execute_job_def Let_def split: option.splits prod.splits)

lemma execute_job_inv:
  assumes "execute_job invoke now h job w = (job', w')" and "job_inv k job" and "job_due now job"
  shows "job_inv k job'"
  using assms by (auto simp: execute_job_def job_inv_def job_due_def Let_def split: option.splits prod.splits)

text \<open>One round of the loop, by whether the job at the key is due.\<close>

definition due_key :: "gotime \<Rightarrow> 'h Scheduler \<Rightarrow> string \<Rightarrow> bool" where
  "due_key now s k \<longleftrightarrow> (case sc_jobs s k of None \<Rightarrow> False | Some job \<Rightarrow> job_due now job)"

lemma execute_loop_Cons_cases:
  assumes "execute_loop invoke now (k # ks) s w executed = res"
  obtains (skip) "\<not> due_key now s k" "execute_loop invoke now ks s w executed = res"
  | (run) job job' w' where "due_key now s k" "sc_jobs s k = Some job" "job_due now job"
      "execute_job invoke now (sc_jobHandlers s (sj_JobType job)) job w = (job', w')"
      "execute_loop invoke now ks (s\<lparr>sc_jobs := (sc_jobs s)(k \<mapsto> job')\<rparr>) w' (executed @ [job']) = res"
  using assms by (auto simp: due_key_def split: option.splits if_splits prod.splits)

text \<open>What every execution of a due job keeps, the loop keeps.\<close>

lemma execute_loop_keeps:
  assumes "execute_loop invoke now ks s w executed = (s', w', executed')" and "P s w"
    and "\<And>s w k job job' w'. P s w \<Longrightarrow> sc_jobs s k = Some job \<Longrightarrow> job_due now job \<Longrightarrow>
      execute_job invoke now (sc_jobHandlers s (sj_JobType job)) job w = (job', w') \<Longrightarrow> P (s\<lparr>sc_jobs := (sc_jobs s)(k \<mapsto> job')\<rparr>) w'"
  shows "P s' w'"
  using assms(1,2)
proof (induction ks arbitrary: s w executed)
  case (Cons k ks)
  from Cons.prems(1) show ?case
    by (cases rule: execute_loop_Cons_cases) (use Cons assms(3) in blast)+
qed simp

lemma execute_loop_other:
  assumes "execute_loop invoke now ks s w executed = (s', w', executed')" and "k \<notin> set ks"
  shows "sc_jobs s' k = sc_jobs s k"
  using assms
proof (induction ks arbitrary: s w executed)
  case (Cons i ks)
  from Cons.prems(1) show ?case
  proof (cases rule: execute_loop_Cons_cases)
    case (run job job' w')
    with Cons.IH [OF run(5)] Cons.prems(2) show ?thesis by simp
  qed (use Cons in auto)
qed simp

definition ended :: "'h Scheduler \<Rightarrow> 'h Scheduler \<Rightarrow> string \<Rightarrow> bool" where
  "ended s s' k \<longleftrightarrow> (\<exists>job job'. sc_jobs s k = Some job \<and> sc_jobs s' k = Some job' \<and> sj_JobID job' = sj_JobID job \<and>
     (sj_State job' = JobStateCompleted \<or> sj_State job' = JobStateFailed))"

lemma execute_loop_spec:
  assumes "execute_loop invoke now ks s w executed = (s', w', executed')" and "distinct ks"
  shows "(\<exists>done_jobs. executed' = executed @ done_jobs \<and> map Some done_jobs = map (sc_jobs s') (filter (due_key now s) ks)) \<and>
    (\<forall>k. \<not> due_key now s k \<longrightarrow> sc_jobs s' k = sc_jobs s k) \<and> (\<forall>k\<in>set ks. due_key now s k \<longrightarrow> ended s s' k)"
  using assms
proof (induction ks arbitrary: s w executed)
  case (Cons k ks)
  from Cons.prems(1) show ?case
  proof (cases rule: execute_loop_Cons_cases)
    case skip
    with Cons show ?thesis by auto
  next
    case (run job job' w1)
    let ?s = "s\<lparr>sc_jobs := (sc_jobs s)(k \<mapsto> job')\<rparr>"
    from Cons.prems(2) have dist: "distinct ks" "k \<notin> set ks" by simp_all
    note IH = Cons.IH [OF run(5) dist(1)]
    have due: "due_key now ?s i \<longleftrightarrow> i \<noteq> k \<and> due_key now s i" for i
      using execute_job_state [OF run(4)] by (auto simp: due_key_def job_due_def)
    have kept: "sc_jobs s' k = Some job'" using execute_loop_other [OF run(5) dist(2)] by simp
    have "filter (due_key now ?s) ks = filter (due_key now s) ks" using dist(2) by (auto intro!: filter_cong simp: due)
    with IH obtain done_jobs where "executed' = (executed @ [job']) @ done_jobs"
      "map Some done_jobs = map (sc_jobs s') (filter (due_key now s) ks)" by auto
    then have "executed' = executed @ job' # done_jobs"
      "map Some (job' # done_jobs) = map (sc_jobs s') (filter (due_key now s) (k # ks))" using run(1) kept by simp_all
    moreover have "sc_jobs s' i = sc_jobs s i" if "\<not> due_key now s i" for i
    proof -
      from that run(1) have "i \<noteq> k" by auto
      moreover from that due have "sc_jobs s' i = sc_jobs ?s i" using IH by blast
      ultimately show ?thesis by simp
    qed
    moreover have "ended s s' i" if "i \<in> set (k # ks)" "due_key now s i" for i
    proof (cases "i = k")
      case True
      with kept run(2) execute_job_state [OF run(4)] show ?thesis by (simp add: ended_def)
    next
      case False
      with that due IH have "ended ?s s' i" by auto
      with False show ?thesis by (simp add: ended_def)
    qed
    ultimately show ?thesis by blast
  qed
qed simp

subsection \<open>Notifications\<close>

definition attempted :: "NotificationRequest \<Rightarrow> NotificationRequest \<Rightarrow> bool" where
  "attempted rec rec' \<longleftrightarrow> nr_Attempts rec' = nr_Attempts rec + 1 \<and> nr_RequestID rec' = nr_RequestID rec \<and>
     nr_TenantID rec' = nr_TenantID rec \<and> nr_MaxAttempts rec' = nr_MaxAttempts rec \<and> nr_Channel rec' = nr_Channel rec"

lemma attempt_send_cases:
  obtains (failed) e rec where "attempt_send (Some msg) now rec0 = (rec, Inl (e, Some rec))" "attempted rec0 rec"
      "nr_Status rec = (if sint (nr_MaxAttempts rec) \<le> sint (nr_Attempts rec) then NotificationStatusQuarantined else NotificationStatusRetrying)"
  by (cases "sint (nr_MaxAttempts rec0) \<le> sint (nr_Attempts rec0 + 1)") (auto simp: attempt_send_def Let_def attempted_def)

lemma attempt_delivers:
  obtains rec where "attempt_send None now rec0 = (rec, Inr rec)" "attempted rec0 rec"
    "nr_Status rec = NotificationStatusDelivered" "nr_DeliveredAt rec = Some now"
  by (auto simp: attempt_send_def Let_def attempted_def sink_delivered_def)

lemma SendNotification_cases:
  assumes "SendNotification req now s = (s', res)"
  obtains (refused) e r where "s' = s" "res = Inl (e, r)"
  | (failed) rec e where "s' = store_notification (TrimSpace (nr_RequestID req)) rec s" "res = Inl (e, Some rec)"
      "nr_Channel req = ChannelLocalMemory \<or> nr_Channel req = ChannelLocalLog"
      "nr_Status (notification_record req now s) \<noteq> NotificationStatusDelivered"
      "nr_Status (notification_record req now s) \<noteq> NotificationStatusQuarantined" "attempted (notification_record req now s) rec"
      "nr_Status rec = (if sint (nr_MaxAttempts rec) \<le> sint (nr_Attempts rec) then NotificationStatusQuarantined else NotificationStatusRetrying)"
  | (delivered) rec where "s' = deliver_notification (TrimSpace (nr_RequestID req)) rec s" "res = Inr rec"
      "nr_Channel req = ChannelLocalMemory \<or> nr_Channel req = ChannelLocalLog"
      "nr_Status (notification_record req now s) \<noteq> NotificationStatusDelivered"
      "nr_Status (notification_record req now s) \<noteq> NotificationStatusQuarantined" "attempted (notification_record req now s) rec"
      "nr_Status rec = NotificationStatusDelivered" "nr_DeliveredAt rec = Some now"
proof -
  let ?rec0 = "notification_record req now s"
  consider (guard) "\<exists>e r. s' = s \<and> res = Inl (e, r)"
    | (attempt) "nr_Channel req = ChannelLocalMemory \<or> nr_Channel req = ChannelLocalLog"
      "nr_Status ?rec0 \<noteq> NotificationStatusDelivered" "nr_Status ?rec0 \<noteq> NotificationStatusQuarantined"
      "finish_attempt (TrimSpace (nr_RequestID req)) (attempt_send (sc_simulatedSinkFailure s) now ?rec0) s = (s', res)"
    using assms unfolding SendNotification_def Let_def by (auto split: if_splits)
  then show thesis
  proof cases
    case guard
    with refused show thesis by blast
  next
    case attempt
    show thesis
    proof (cases "sc_simulatedSinkFailure s")
      case None
      obtain rec where "attempt_send None now ?rec0 = (rec, Inr rec)" "attempted ?rec0 rec"
        "nr_Status rec = NotificationStatusDelivered" "nr_DeliveredAt rec = Some now" by (rule attempt_delivers)
      with None attempt(4) show thesis by (auto simp: finish_attempt_def intro: delivered [OF _ _ attempt(1-3)])
    next
      case (Some msg)
      obtain e rec where "attempt_send (Some msg) now ?rec0 = (rec, Inl (e, Some rec))" "attempted ?rec0 rec"
        "nr_Status rec = (if sint (nr_MaxAttempts rec) \<le> sint (nr_Attempts rec) then NotificationStatusQuarantined else NotificationStatusRetrying)"
        by (rule attempt_send_cases)
      with Some attempt(4) show thesis by (auto simp: finish_attempt_def intro: failed [OF _ _ attempt(1-3)] split del: if_split)
    qed
  qed
qed

lemma ReplayNotification_cases:
  assumes "ReplayNotification i t c now s = (s', res)"
  obtains (refused) e where "s' = s" "res = Inl (e, None)"
  | (failed) rec0 rec e where "s' = store_notification (TrimSpace i) rec s" "res = Inl (e, Some rec)"
      "sc_notifications s (TrimSpace i) = Some rec0" "nr_TenantID rec0 = TrimSpace t" "attempted rec0 rec"
      "nr_Status rec0 = NotificationStatusQuarantined" "nr_Status rec = NotificationStatusQuarantined"
  | (delivered) rec0 rec where "s' = deliver_notification (TrimSpace i) rec s" "res = Inr rec"
      "sc_notifications s (TrimSpace i) = Some rec0" "nr_TenantID rec0 = TrimSpace t" "attempted rec0 rec"
      "nr_Status rec0 = NotificationStatusQuarantined" "nr_Status rec = NotificationStatusDelivered" "nr_DeliveredAt rec = Some now"
proof (cases "\<exists>e. s' = s \<and> res = Inl (e, None)")
  case True
  with refused show thesis by blast
next
  case False
  from assms False obtain rec0 where rec0: "sc_notifications s (TrimSpace i) = Some rec0" "nr_TenantID rec0 = TrimSpace t"
      "nr_Status rec0 = NotificationStatusQuarantined"
      "finish_attempt (TrimSpace i) (attempt_replay (sc_simulatedSinkFailure s) c now rec0) s = (s', res)"
    unfolding ReplayNotification_def by (auto split: if_splits option.splits)
  show thesis
  proof (cases "sc_simulatedSinkFailure s")
    case None
    with rec0(4) have "s' = deliver_notification (TrimSpace i) (fst (attempt_replay None c now rec0)) s" "res = Inr (fst (attempt_replay None c now rec0))"
      by (auto simp: finish_attempt_def attempt_replay_def Let_def)
    moreover have "attempted rec0 (fst (attempt_replay None c now rec0))" "nr_DeliveredAt (fst (attempt_replay None c now rec0)) = Some now"
        "nr_Status (fst (attempt_replay None c now rec0)) = NotificationStatusDelivered"
      by (simp_all add: attempt_replay_def attempted_def sink_delivered_def Let_def)
    ultimately show thesis using delivered rec0(1-3) by blast
  next
    case (Some msg)
    let ?rec = "fst (attempt_replay (Some msg) c now rec0)"
    from Some rec0(4) have "s' = store_notification (TrimSpace i) ?rec s" "res = Inl (SinkFailed msg, Some ?rec)"
      by (auto simp: finish_attempt_def attempt_replay_def Let_def)
    moreover have "attempted rec0 ?rec" "nr_Status ?rec = NotificationStatusQuarantined"
      by (simp_all add: attempt_replay_def attempted_def Let_def)
    ultimately show thesis using failed rec0(1-3) by blast
  qed
qed

text \<open>Storing a record that is not delivered, and delivering one, keep the sink and the store together.\<close>

lemma store_notification_sink:
  assumes "sink_inv s" and "nr_RequestID rec = k" and "nr_Status rec \<noteq> NotificationStatusDelivered"
    and "\<And>old. sc_notifications s k = Some old \<Longrightarrow> nr_Status old \<noteq> NotificationStatusDelivered"
  shows "sink_inv (store_notification k rec s)"
proof -
  have "r \<in> set (sc_localSinkDeliveries s) \<longleftrightarrow>
      sc_notifications (store_notification k rec s) (nr_RequestID r) = Some r \<and> nr_Status r = NotificationStatusDelivered" for r
    using assms by (cases "nr_RequestID r = k") (auto simp: sink_inv_def store_notification_def)
  with assms(1) show ?thesis by (simp add: sink_inv_def store_notification_def)
qed

lemma deliver_notification_sink:
  assumes "sink_inv s" and "nr_RequestID rec = k" and "nr_Status rec = NotificationStatusDelivered"
    and "\<And>old. sc_notifications s k = Some old \<Longrightarrow> nr_Status old \<noteq> NotificationStatusDelivered"
  shows "sink_inv (deliver_notification k rec s)"
proof -
  have new: "nr_RequestID r \<noteq> k" if "r \<in> set (sc_localSinkDeliveries s)" for r
    using that assms(1,4) by (auto simp: sink_inv_def)
  have "r \<in> set (sc_localSinkDeliveries s @ [rec]) \<longleftrightarrow>
      sc_notifications (deliver_notification k rec s) (nr_RequestID r) = Some r \<and> nr_Status r = NotificationStatusDelivered" for r
    using assms new [of r] by (cases "nr_RequestID r = k") (auto simp: sink_inv_def deliver_notification_def store_notification_def)
  moreover have "distinct (map nr_RequestID (sc_localSinkDeliveries s @ [rec]))"
  proof -
    from new have "k \<notin> nr_RequestID ` set (sc_localSinkDeliveries s)" by blast
    with assms(1,2) show ?thesis by (simp add: sink_inv_def)
  qed
  ultimately show ?thesis by (simp add: sink_inv_def deliver_notification_def)
qed

lemma notification_update_inv:
  assumes "scheduler_inv s" and "notification_inv (sc_maxNotifAttempts s) k rec"
    and "\<And>old. sc_notifications s k = Some old \<Longrightarrow> nr_Status old \<noteq> NotificationStatusDelivered"
  shows "nr_Status rec \<noteq> NotificationStatusDelivered \<Longrightarrow> scheduler_inv (store_notification k rec s)"
    and "nr_Status rec = NotificationStatusDelivered \<Longrightarrow> scheduler_inv (deliver_notification k rec s)"
proof -
  have k: "nr_RequestID rec = k" using assms(2) by (simp add: notification_inv_def)
  show "scheduler_inv (store_notification k rec s)" if "nr_Status rec \<noteq> NotificationStatusDelivered"
    using assms store_notification_sink [OF _ k that assms(3)] by (auto simp: scheduler_inv_def store_notification_def)
  show "scheduler_inv (deliver_notification k rec s)" if "nr_Status rec = NotificationStatusDelivered"
    using assms deliver_notification_sink [OF _ k that assms(3)]
    by (auto simp: scheduler_inv_def deliver_notification_def store_notification_def)
qed

lemma scheduler_invD:
  assumes "scheduler_inv s"
  shows "0 < sint (sc_maxNotifAttempts s)" and "sc_jobs s k = Some job \<Longrightarrow> job_inv k job"
    and "sc_notifications s i = Some rec \<Longrightarrow> notification_inv (sc_maxNotifAttempts s) i rec" and "sink_inv s"
  using assms by (simp_all add: scheduler_inv_def)

lemma started_attempts:
  assumes "scheduler_inv s" and "nr_Channel req = ChannelLocalMemory \<or> nr_Channel req = ChannelLocalLog"
    and "rec0 = notification_record req now s"
    and "nr_Status rec0 \<noteq> NotificationStatusDelivered" and "nr_Status rec0 \<noteq> NotificationStatusQuarantined"
  shows "nr_RequestID rec0 = TrimSpace (nr_RequestID req)" and "nr_MaxAttempts rec0 = sc_maxNotifAttempts s"
    and "0 \<le> sint (nr_Attempts rec0)" and "sint (nr_Attempts rec0) < sint (sc_maxNotifAttempts s)"
    and "nr_Channel rec0 = ChannelLocalMemory \<or> nr_Channel rec0 = ChannelLocalLog"
proof -
  let ?k = "TrimSpace (nr_RequestID req)"
  have "nr_RequestID rec0 = ?k \<and> nr_MaxAttempts rec0 = sc_maxNotifAttempts s \<and> 0 \<le> sint (nr_Attempts rec0) \<and>
    sint (nr_Attempts rec0) < sint (sc_maxNotifAttempts s) \<and> (nr_Channel rec0 = ChannelLocalMemory \<or> nr_Channel rec0 = ChannelLocalLog)"
  proof (cases "sc_notifications s ?k")
    case None
    with assms scheduler_invD(1) [OF assms(1)] show ?thesis by (simp add: notification_record_def new_notification_def)
  next
    case (Some rec)
    with assms scheduler_invD(3) [OF assms(1) Some] show ?thesis by (auto simp: notification_record_def notification_inv_def)
  qed
  then show "nr_RequestID rec0 = ?k" "nr_MaxAttempts rec0 = sc_maxNotifAttempts s" "0 \<le> sint (nr_Attempts rec0)"
    "sint (nr_Attempts rec0) < sint (sc_maxNotifAttempts s)" "nr_Channel rec0 = ChannelLocalMemory \<or> nr_Channel rec0 = ChannelLocalLog"
    by blast+
qed

lemma not_delivered_before:
  "nr_Status (notification_record req now s) \<noteq> NotificationStatusDelivered \<Longrightarrow>
   sc_notifications s (TrimSpace (nr_RequestID req)) = Some old \<Longrightarrow> nr_Status old \<noteq> NotificationStatusDelivered"
  by (simp add: notification_record_def)

lemma SendNotification_inv:
  assumes "scheduler_inv s"
  shows "scheduler_inv (fst (SendNotification req now s))"
proof (cases "SendNotification req now s")
  case (Pair s' res)
  then show ?thesis
  proof (cases rule: SendNotification_cases)
    case (failed rec e)
    note st = started_attempts [OF assms failed(3) refl failed(4,5)]
    have "sint (nr_Attempts (notification_record req now s) + 1) = sint (nr_Attempts (notification_record req now s)) + 1"
      using st(4) sint_lt [of "sc_maxNotifAttempts s"] by (intro sint_plus_1) simp
    with st failed have "notification_inv (sc_maxNotifAttempts s) (TrimSpace (nr_RequestID req)) rec"
      by (auto simp: notification_inv_def attempted_def split: if_splits)
    from notification_update_inv(1) [OF assms this not_delivered_before [OF failed(4)]] failed Pair show ?thesis
      by (auto split: if_splits)
  next
    case (delivered rec)
    note st = started_attempts [OF assms delivered(3) refl delivered(4,5)]
    with delivered have "notification_inv (sc_maxNotifAttempts s) (TrimSpace (nr_RequestID req)) rec"
      by (auto simp: notification_inv_def attempted_def)
    from notification_update_inv(2) [OF assms this not_delivered_before [OF delivered(4)]] delivered Pair show ?thesis by auto
  qed (use assms Pair in simp)
qed

lemma ReplayNotification_inv:
  assumes "scheduler_inv s"
  shows "scheduler_inv (fst (ReplayNotification i t c now s))"
proof (cases "ReplayNotification i t c now s")
  case (Pair s' res)
  then show ?thesis
  proof (cases rule: ReplayNotification_cases)
    case (failed rec0 rec e)
    with scheduler_invD(3) [OF assms failed(3)] have "notification_inv (sc_maxNotifAttempts s) (TrimSpace i) rec"
      by (auto simp: notification_inv_def attempted_def)
    from notification_update_inv(1) [OF assms this] failed Pair show ?thesis by auto
  next
    case (delivered rec0 rec)
    with scheduler_invD(3) [OF assms delivered(3)] have "notification_inv (sc_maxNotifAttempts s) (TrimSpace i) rec"
      by (auto simp: notification_inv_def attempted_def)
    from notification_update_inv(2) [OF assms this] delivered Pair show ?thesis by auto
  qed (use assms Pair in simp)
qed

subsection \<open>Contracts\<close>

lemma scheduler_inv_New: "scheduler_inv (NewScheduler m)"
  by (simp add: scheduler_inv_def NewScheduler_def sink_inv_def)

lemma jobs_update_inv:
  assumes "scheduler_inv s" and "job_inv k job"
  shows "scheduler_inv (s\<lparr>sc_jobs := (sc_jobs s)(k \<mapsto> job)\<rparr>)"
  using assms by (auto simp: scheduler_inv_def sink_inv_def)

lemma ScheduleJob_inv: "scheduler_inv s \<Longrightarrow> scheduler_inv (fst (ScheduleJob job now s))"
  by (auto simp: ScheduleJob_def Let_def job_inv_def intro!: jobs_update_inv)

lemma RegisterJobHandler_inv: "scheduler_inv s \<Longrightarrow> scheduler_inv (fst (RegisterJobHandler t h s))"
  by (auto simp: RegisterJobHandler_def scheduler_inv_def sink_inv_def split: option.splits)

lemma SetLocalSinkFailure_inv: "scheduler_inv s \<Longrightarrow> scheduler_inv (SetLocalSinkFailure err s)"
  by (simp add: SetLocalSinkFailure_def scheduler_inv_def sink_inv_def)

lemma execute_loop_inv:
  assumes "execute_loop invoke now ks s w executed = (s', w', executed')" and "scheduler_inv s"
  shows "scheduler_inv s'"
  using assms(1) by (rule execute_loop_keeps [where P = "\<lambda>s w. scheduler_inv s"])
    (use assms(2) in \<open>auto intro: jobs_update_inv execute_job_inv dest: scheduler_invD(2)\<close>)

lemma scheduler_exec_inv:
  assumes "scheduler_inv (fst sw)"
  shows "scheduler_inv (fst (fst (scheduler_exec invoke c sw)))"
proof (cases sw)
  case (Pair s w)
  then show ?thesis using assms
  proof (cases c)
    case (CallExecuteDueJobs ks now)
    obtain s' w' ex where "execute_loop invoke now ks s w [] = (s', w', ex)" by (cases "execute_loop invoke now ks s w []") auto
    with execute_loop_inv [OF this] assms Pair CallExecuteDueJobs show ?thesis by (simp add: ExecuteDueJobs_def)
  qed (simp_all add: RegisterJobHandler_inv ScheduleJob_inv SendNotification_inv ReplayNotification_inv
      SetLocalSinkFailure_inv)
qed

lemma execute_loop_notifications:
  assumes "execute_loop invoke now ks s w executed = (s', w', executed')"
  shows "sc_notifications s' = sc_notifications s \<and> sc_localSinkDeliveries s' = sc_localSinkDeliveries s"
  using assms by (rule execute_loop_keeps
    [where P = "\<lambda>s' w. sc_notifications s' = sc_notifications s \<and> sc_localSinkDeliveries s' = sc_localSinkDeliveries s"]) simp_all

lemma finished_job_kept:
  assumes "sc_jobs s k = Some job" and "sj_State job \<noteq> JobStateScheduled"
    and "execute_loop invoke now ks s w executed = (s', w', executed')"
  shows "sc_jobs s' k = Some job"
  using assms(3) by (rule execute_loop_keeps [where P = "\<lambda>s w. sc_jobs s k = Some job"])
    (use assms(1,2) in \<open>auto simp: job_due_def\<close>)

lemma SendNotification_delivered:
  assumes "sc_notifications s k = Some rec" and "nr_Status rec = NotificationStatusDelivered"
  shows "sc_notifications (fst (SendNotification req now s)) k = Some rec"
proof (cases "SendNotification req now s")
  case (Pair s' res)
  then show ?thesis
    by (cases rule: SendNotification_cases)
      (use assms Pair in \<open>auto simp: store_notification_def deliver_notification_def dest: not_delivered_before\<close>)
qed

lemma ReplayNotification_delivered:
  assumes "sc_notifications s k = Some rec" and "nr_Status rec = NotificationStatusDelivered"
  shows "sc_notifications (fst (ReplayNotification i t c now s)) k = Some rec"
proof (cases "ReplayNotification i t c now s")
  case (Pair s' res)
  then show ?thesis
    by (cases rule: ReplayNotification_cases)
      (use assms Pair in \<open>auto simp: store_notification_def deliver_notification_def\<close>)
qed

lemma Send_jobs: "sc_jobs (fst (SendNotification req now s)) = sc_jobs s"
proof (cases "SendNotification req now s")
  case (Pair s' res)
  then show ?thesis
    by (cases rule: SendNotification_cases) (use Pair in \<open>simp_all add: store_notification_def deliver_notification_def\<close>)
qed

lemma Replay_jobs: "sc_jobs (fst (ReplayNotification i t c now s)) = sc_jobs s"
proof (cases "ReplayNotification i t c now s")
  case (Pair s' res)
  then show ?thesis
    by (cases rule: ReplayNotification_cases) (use Pair in \<open>simp_all add: store_notification_def deliver_notification_def\<close>)
qed

lemma scheduler_exec_delivered:
  assumes "sc_notifications (fst sw) k = Some rec" and "nr_Status rec = NotificationStatusDelivered"
  shows "sc_notifications (fst (fst (scheduler_exec invoke c sw))) k = Some rec"
proof (cases sw)
  case (Pair s w)
  then show ?thesis using assms
  proof (cases c)
    case (CallExecuteDueJobs ks now)
    obtain s' w' ex where "execute_loop invoke now ks s w [] = (s', w', ex)" by (cases "execute_loop invoke now ks s w []") auto
    with execute_loop_notifications [OF this] assms Pair CallExecuteDueJobs show ?thesis by (simp add: ExecuteDueJobs_def)
  qed (auto simp: SendNotification_delivered ReplayNotification_delivered SetLocalSinkFailure_def RegisterJobHandler_def
      ScheduleJob_def Let_def split: option.splits)
qed

lemma scheduler_exec_finished:
  assumes "sc_jobs (fst sw) k = Some job" and "sj_State job \<noteq> JobStateScheduled"
  shows "sc_jobs (fst (fst (scheduler_exec invoke c sw))) k = Some job"
proof (cases sw)
  case (Pair s w)
  then show ?thesis using assms
  proof (cases c)
    case (CallExecuteDueJobs ks now)
    obtain s' w' ex where "execute_loop invoke now ks s w [] = (s', w', ex)" by (cases "execute_loop invoke now ks s w []") auto
    with finished_job_kept [OF _ assms(2) this] assms Pair CallExecuteDueJobs show ?thesis by (simp add: ExecuteDueJobs_def)
  qed (auto simp: Send_jobs Replay_jobs SetLocalSinkFailure_def RegisterJobHandler_def ScheduleJob_def Let_def split: option.splits)
qed

interpretation scheduler: api_machine "scheduler_exec invoke" "\<lambda>sw. scheduler_inv (fst sw)" "\<lambda>_. True"
  for invoke :: "('h, 'w) job_invocation"
  by unfold_locales (rule scheduler_exec_inv)

interpretation sink: absorbing "scheduler_exec invoke" "\<lambda>sw. scheduler_inv (fst sw)" "\<lambda>_. True"
    "\<lambda>k sw. sc_notifications (fst sw) k" "\<lambda>rec. nr_Status rec = NotificationStatusDelivered"
  for invoke :: "('h, 'w) job_invocation"
  by unfold_locales (rule scheduler_exec_delivered)

interpretation finished_jobs: absorbing "scheduler_exec invoke" "\<lambda>sw. scheduler_inv (fst sw)" "\<lambda>_. True"
    "\<lambda>k sw. sc_jobs (fst sw) k" "\<lambda>job. sj_State job \<noteq> JobStateScheduled"
  for invoke :: "('h, 'w) job_invocation"
  by unfold_locales (rule scheduler_exec_finished)

lemma reachable_scheduler_inv: "scheduler_inv (fst (run_calls (scheduler_exec invoke) cs (NewScheduler m, w)))"
  by (rule scheduler.run_inv) (simp_all add: scheduler_inv_New)

text \<open>A world that records every run of a handler; the replies of the handlers are arbitrary.\<close>

definition recording ::
  "('h \<Rightarrow> ScheduledJob \<Rightarrow> ('h \<times> ScheduledJob) list \<Rightarrow> string option) \<Rightarrow> ('h, ('h \<times> ScheduledJob) list) job_invocation" where
  "recording reply h job runs = (runs @ [(h, job)], reply h job runs)"

definition runs_inv :: "'h Scheduler \<times> ('h \<times> ScheduledJob) list \<Rightarrow> bool" where
  "runs_inv sw \<longleftrightarrow> scheduler_inv (fst sw) \<and> distinct (map (sj_JobID \<circ> snd) (snd sw)) \<and>
     list_all (\<lambda>(h, job). \<exists>t job'. sj_ExecutedAt job = Some t \<and> sj_DueAt job \<le> t \<and>
       sc_jobs (fst sw) (sj_JobID job) = Some job' \<and> sj_State job' \<noteq> JobStateScheduled) (snd sw)"

lemma execute_job_runs:
  assumes "runs_inv (s, runs)" and "sc_jobs s k = Some job" and "job_due now job"
    and "execute_job (recording reply) now (sc_jobHandlers s (sj_JobType job)) job runs = (job', runs')"
  shows "runs_inv (s\<lparr>sc_jobs := (sc_jobs s)(k \<mapsto> job')\<rparr>, runs')"
proof -
  let ?s = "s\<lparr>sc_jobs := (sc_jobs s)(k \<mapsto> job')\<rparr>"
  have inv: "scheduler_inv s" and old: "list_all (\<lambda>(h, job). \<exists>t job'. sj_ExecutedAt job = Some t \<and> sj_DueAt job \<le> t \<and>
       sc_jobs s (sj_JobID job) = Some job' \<and> sj_State job' \<noteq> JobStateScheduled) runs"
    and dist: "distinct (map (sj_JobID \<circ> snd) runs)" using assms(1) by (simp_all add: runs_inv_def)
  have k: "sj_JobID job = k" "job_inv k job" using scheduler_invD(2) [OF inv assms(2)] by (simp_all add: job_inv_def)
  note state = execute_job_state [OF assms(4)]
  have kept: "list_all (\<lambda>(h, job). \<exists>t job'. sj_ExecutedAt job = Some t \<and> sj_DueAt job \<le> t \<and>
       sc_jobs ?s (sj_JobID job) = Some job' \<and> sj_State job' \<noteq> JobStateScheduled) runs"
    using old state by (fastforce simp: list_all_iff)
  have fresh: "k \<notin> (sj_JobID \<circ> snd) ` set runs"
    using old assms(2,3) by (fastforce simp: list_all_iff job_due_def)
  have new: "scheduler_inv ?s" using inv execute_job_inv [OF assms(4) k(2) assms(3)] by (rule jobs_update_inv)
  show ?thesis
  proof (cases "sc_jobHandlers s (sj_JobType job)")
    case None
    with assms(4) have "runs' = runs" by (simp add: execute_job_def)
    with new kept dist show ?thesis by (simp add: runs_inv_def)
  next
    case (Some h)
    with assms(4) have "runs' = runs @ [(h, job\<lparr>sj_State := JobStateRunning, sj_Attempts := sj_Attempts job + 1, sj_ExecutedAt := Some now\<rparr>)]"
      by (simp add: execute_job_def recording_def Let_def)
    with new kept dist fresh state assms(3) k(1) show ?thesis by (auto simp: runs_inv_def job_due_def)
  qed
qed

lemma kept_runs:
  assumes "runs_inv (s, runs)" and "scheduler_inv s'"
    and "\<And>k job. sc_jobs s k = Some job \<Longrightarrow> sj_State job \<noteq> JobStateScheduled \<Longrightarrow> sc_jobs s' k = Some job"
  shows "runs_inv (s', runs)"
  using assms by (fastforce simp: runs_inv_def list_all_iff)

lemma scheduler_exec_runs:
  assumes "runs_inv sw"
  shows "runs_inv (fst (scheduler_exec (recording reply) c sw))"
proof (cases "\<exists>ks now. c = CallExecuteDueJobs ks now")
  case True
  then obtain ks now where c: "c = CallExecuteDueJobs ks now" by blast
  obtain s w where sw: "sw = (s, w)" by fastforce
  obtain s' w' ex where loop: "execute_loop (recording reply) now ks s w [] = (s', w', ex)"
    by (cases "execute_loop (recording reply) now ks s w []") auto
  have "runs_inv (s', w')" using loop
    by (rule execute_loop_keeps [where P = "\<lambda>s w. runs_inv (s, w)"]) (use assms sw in \<open>auto intro: execute_job_runs\<close>)
  with loop sw c show ?thesis by (simp add: ExecuteDueJobs_def)
next
  case False
  obtain s w where sw: "sw = (s, w)" by fastforce
  with False have world: "snd (fst (scheduler_exec (recording reply) c sw)) = w" by (cases c) simp_all
  let ?s = "fst (fst (scheduler_exec (recording reply) c sw))"
  have inv: "scheduler_inv ?s"
    by (rule scheduler_exec_inv) (use assms in \<open>simp add: runs_inv_def\<close>)
  have finished: "sc_jobs ?s k = Some job" if "sc_jobs s k = Some job" "sj_State job \<noteq> JobStateScheduled" for k job
    using scheduler_exec_finished [of sw] sw that by simp
  have "runs_inv (?s, w)" by (rule kept_runs [OF _ inv finished]) (use assms sw in simp)
  with world show ?thesis by (metis prod.collapse)
qed

interpretation runs: api_machine "scheduler_exec (recording reply)" runs_inv "\<lambda>_. True"
  for reply :: "'h \<Rightarrow> ScheduledJob \<Rightarrow> ('h \<times> ScheduledJob) list \<Rightarrow> string option"
  by unfold_locales (rule scheduler_exec_runs)

subsection \<open>Properties\<close>

text \<open>
  (C38) A job runs at most once: whatever calls are made, in whatever order the due jobs are visited and whatever the
  handlers answer, no job is handed to a handler twice, and each job handed to one was due then and is
  completed or failed afterwards.
\<close>

theorem job_runs_at_most_once:
  assumes "run_calls (scheduler_exec (recording reply)) cs (NewScheduler m, []) = (s, runs)"
  shows "distinct (map (sj_JobID \<circ> snd) runs) \<and>
    (\<forall>(h, job)\<in>set runs. (\<exists>t. sj_ExecutedAt job = Some t \<and> sj_DueAt job \<le> t) \<and>
      (\<exists>job'. sc_jobs s (sj_JobID job) = Some job' \<and> sj_State job' \<in> {JobStateCompleted, JobStateFailed}))"
proof -
  have "runs_inv (NewScheduler m, [])" by (simp add: runs_inv_def scheduler_inv_New)
  from runs.run_inv [OF this, of cs reply] have inv: "runs_inv (s, runs)" by (simp add: assms)
  have "(\<exists>t. sj_ExecutedAt job = Some t \<and> sj_DueAt job \<le> t) \<and>
      (\<exists>job'. sc_jobs s (sj_JobID job) = Some job' \<and> sj_State job' \<in> {JobStateCompleted, JobStateFailed})"
    if "(h, job) \<in> set runs" for h job
  proof -
    from inv that obtain t job' where j: "sj_ExecutedAt job = Some t" "sj_DueAt job \<le> t"
      "sc_jobs s (sj_JobID job) = Some job'" "sj_State job' \<noteq> JobStateScheduled" by (fastforce simp: runs_inv_def list_all_iff)
    moreover have "job_inv (sj_JobID job) job'" using inv j(3) by (intro scheduler_invD(2)) (simp_all add: runs_inv_def)
    ultimately show ?thesis by (auto simp: job_inv_def)
  qed
  with inv show ?thesis by (auto simp: runs_inv_def)
qed

text \<open>
  (C39) Every due job is executed: whatever order the map is visited in, \<open>ExecuteDueJobs\<close> returns exactly the jobs that were
  due, in that order and as they are stored afterwards; each of them is completed or failed, all other jobs
  are untouched, and no job is due any more.
\<close>

theorem due_jobs_executed:
  assumes "distinct key_order" and "set key_order = dom (sc_jobs s)"
  shows "\<exists>s' w' executed. ExecuteDueJobs invoke key_order now (s, w) = ((s', w'), Inr executed) \<and>
    map Some executed = map (sc_jobs s') (filter (due_key now s) key_order) \<and>
    (\<forall>job\<in>set executed. sj_State job \<in> {JobStateCompleted, JobStateFailed}) \<and>
    (\<forall>k. \<not> due_key now s k \<longrightarrow> sc_jobs s' k = sc_jobs s k) \<and> (\<forall>k. \<not> due_key now s' k)"
proof -
  obtain s' w' executed where loop: "execute_loop invoke now key_order s w [] = (s', w', executed)"
    by (cases "execute_loop invoke now key_order s w []") auto
  from execute_loop_spec [OF this assms(1)] have spec:
    "map Some executed = map (sc_jobs s') (filter (due_key now s) key_order)"
    "\<forall>k. \<not> due_key now s k \<longrightarrow> sc_jobs s' k = sc_jobs s k" "\<forall>k\<in>set key_order. due_key now s k \<longrightarrow> ended s s' k" by auto
  have "sj_State job \<in> {JobStateCompleted, JobStateFailed}" if "job \<in> set executed" for job
  proof -
    from that have "Some job \<in> set (map Some executed)" by simp
    then obtain k where "k \<in> set key_order" "due_key now s k" "sc_jobs s' k = Some job" unfolding spec(1) by auto
    with spec(3) show ?thesis by (fastforce simp: ended_def)
  qed
  moreover have "\<not> due_key now s' k" for k
  proof (cases "due_key now s k")
    case True
    then have "k \<in> set key_order" using assms(2) by (auto simp: due_key_def split: option.splits)
    with spec(3) True show ?thesis by (auto simp: ended_def due_key_def job_due_def)
  qed (use spec(2) in \<open>simp add: due_key_def\<close>)
  ultimately show ?thesis using loop spec(1,2) by (auto simp: ExecuteDueJobs_def)
qed

text \<open>
  A notification reaches the sink at most once: in every reachable scheduler the deliveries have different request
  identifiers and are exactly the stored records marked as delivered, on a local channel, and a delivered record is
  never changed by later calls; a notification still being retried has used fewer attempts than allowed.
\<close>

theorem notification_delivered_once:
  assumes "s = fst (run_calls (scheduler_exec invoke) cs (NewScheduler m, w))"
    and "s' = fst (run_calls (scheduler_exec invoke) (cs @ cs') (NewScheduler m, w))"
  shows "distinct (map nr_RequestID (GetLocalSinkDeliveries s)) \<and>
    (rec \<in> set (GetLocalSinkDeliveries s) \<longleftrightarrow>
       sc_notifications s (nr_RequestID rec) = Some rec \<and> nr_Status rec = NotificationStatusDelivered) \<and>
    (rec \<in> set (GetLocalSinkDeliveries s) \<longrightarrow> rec \<in> set (GetLocalSinkDeliveries s') \<and>
       nr_Channel rec \<in> {ChannelLocalMemory, ChannelLocalLog}) \<and>
    (sc_notifications s k = Some rec' \<and> nr_Status rec' = NotificationStatusRetrying \<longrightarrow>
       0 < sint (nr_Attempts rec') \<and> sint (nr_Attempts rec') < sint (nr_MaxAttempts rec'))"
proof -
  let ?sw = "run_calls (scheduler_exec invoke) cs (NewScheduler m, w)"
  have inv: "scheduler_inv s" "scheduler_inv s'" unfolding assms by (rule reachable_scheduler_inv)+
  have sink: "r \<in> set (GetLocalSinkDeliveries t) \<longleftrightarrow>
       sc_notifications t (nr_RequestID r) = Some r \<and> nr_Status r = NotificationStatusDelivered" if "scheduler_inv t" for r and t :: "'a Scheduler"
    using scheduler_invD(4) [OF that] by (simp add: sink_inv_def GetLocalSinkDeliveries_def)
  have "sc_notifications s' (nr_RequestID rec) = Some rec"
    if "sc_notifications s (nr_RequestID rec) = Some rec" "nr_Status rec = NotificationStatusDelivered"
    using sink.run_final [where s = ?sw and cs = cs' and invoke = invoke and k = "nr_RequestID rec" and v = rec] inv(1) that
    by (simp add: assms)
  then have kept: "rec \<in> set (GetLocalSinkDeliveries s')" if "rec \<in> set (GetLocalSinkDeliveries s)"
    using that by (simp add: sink inv)
  have "distinct (map nr_RequestID (GetLocalSinkDeliveries s))"
    using scheduler_invD(4) [OF inv(1)] by (simp add: sink_inv_def GetLocalSinkDeliveries_def)
  with sink [OF inv(1), of rec] kept show ?thesis
    using scheduler_invD(3) [OF inv(1), of "nr_RequestID rec" rec] scheduler_invD(3) [OF inv(1), of k rec']
    by (auto simp: notification_inv_def)
qed

text \<open>Repeating a request while the sink fails.\<close>

lemma failed_send:
  assumes "sc_simulatedSinkFailure s = Some msg" and "TrimSpace (nr_RequestID req) \<noteq> []" and "TrimSpace (nr_TenantID req) \<noteq> []"
    and "nr_Channel req \<in> {ChannelLocalMemory, ChannelLocalLog}"
    and "nr_Status (notification_record req now s) \<notin> {NotificationStatusDelivered, NotificationStatusQuarantined}"
  obtains rec where "fst (SendNotification req now s) = store_notification (TrimSpace (nr_RequestID req)) rec s"
    "attempted (notification_record req now s) rec"
    "nr_Status rec = (if sint (nr_MaxAttempts rec) \<le> sint (nr_Attempts rec) then NotificationStatusQuarantined else NotificationStatusRetrying)"
proof -
  obtain e rec where "attempt_send (Some msg) now (notification_record req now s) = (rec, Inl (e, Some rec))"
    "attempted (notification_record req now s) rec"
    "nr_Status rec = (if sint (nr_MaxAttempts rec) \<le> sint (nr_Attempts rec) then NotificationStatusQuarantined else NotificationStatusRetrying)"
    by (rule attempt_send_cases)
  with assms show thesis by (intro that [of rec]) (auto simp: SendNotification_def finish_attempt_def Let_def)
qed

primrec resend :: "nat \<Rightarrow> NotificationRequest \<Rightarrow> gotime \<Rightarrow> 'h Scheduler \<Rightarrow> 'h Scheduler" where
  "resend 0 req now s = s"
| "resend (Suc n) req now s = fst (SendNotification req now (resend n req now s))"

definition after_failures :: "nat \<Rightarrow> NotificationRequest \<Rightarrow> 'h Scheduler \<Rightarrow> 'h Scheduler \<Rightarrow> bool" where
  "after_failures n req s s' \<longleftrightarrow> sc_simulatedSinkFailure s' = sc_simulatedSinkFailure s \<and> sc_maxNotifAttempts s' = sc_maxNotifAttempts s \<and>
     (\<exists>rec. sc_notifications s' (TrimSpace (nr_RequestID req)) = Some rec \<and> nr_TenantID rec = TrimSpace (nr_TenantID req) \<and>
        nr_MaxAttempts rec = sc_maxNotifAttempts s \<and> sint (nr_Attempts rec) = min (int n) (sint (sc_maxNotifAttempts s)) \<and>
        nr_Status rec = (if int n < sint (sc_maxNotifAttempts s) then NotificationStatusRetrying else NotificationStatusQuarantined))"

lemma resend_step:
  assumes "after_failures n req s s'" and "0 < n" and "sc_simulatedSinkFailure s = Some msg" and "TrimSpace (nr_RequestID req) \<noteq> []"
    and "TrimSpace (nr_TenantID req) \<noteq> []" and "nr_Channel req \<in> {ChannelLocalMemory, ChannelLocalLog}"
  shows "after_failures (Suc n) req s (fst (SendNotification req now s'))"
proof -
  let ?k = "TrimSpace (nr_RequestID req)"
  from assms(1) obtain rec where rec: "sc_notifications s' ?k = Some rec" "nr_TenantID rec = TrimSpace (nr_TenantID req)"
    "nr_MaxAttempts rec = sc_maxNotifAttempts s" "sint (nr_Attempts rec) = min (int n) (sint (sc_maxNotifAttempts s))"
    "nr_Status rec = (if int n < sint (sc_maxNotifAttempts s) then NotificationStatusRetrying else NotificationStatusQuarantined)"
    and s': "sc_simulatedSinkFailure s' = Some msg" "sc_maxNotifAttempts s' = sc_maxNotifAttempts s"
    using assms(3) by (auto simp: after_failures_def)
  have rec0: "notification_record req now s' = rec" using rec(1) by (simp add: notification_record_def)
  show ?thesis
  proof (cases "int n < sint (sc_maxNotifAttempts s)")
    case False
    with rec rec0 have "fst (SendNotification req now s') = s'" by (simp add: SendNotification_def Let_def)
    with False rec s' assms(3) show ?thesis by (auto simp: after_failures_def)
  next
    case True
    with rec(5) have "nr_Status (notification_record req now s') \<notin> {NotificationStatusDelivered, NotificationStatusQuarantined}" by (simp add: rec0)
    from failed_send [OF s'(1) assms(4-6) this] obtain rec' where rec':
      "fst (SendNotification req now s') = store_notification ?k rec' s'" "attempted rec rec'"
      "nr_Status rec' = (if sint (nr_MaxAttempts rec') \<le> sint (nr_Attempts rec') then NotificationStatusQuarantined else NotificationStatusRetrying)"
      unfolding rec0 by blast
    have "sint (nr_Attempts rec) < 2 ^ 63 - 1" using True rec(4) sint_lt [of "sc_maxNotifAttempts s"] by simp
    then have "sint (nr_Attempts rec') = int (Suc n)" using rec'(2) rec(4) True by (simp add: attempted_def sint_plus_1)
    with True rec rec' s' assms(3) show ?thesis
      by (auto simp: after_failures_def store_notification_def attempted_def)
  qed
qed

lemma resend_after:
  assumes "sc_notifications s (TrimSpace (nr_RequestID req)) = None" and "0 < sint (sc_maxNotifAttempts s)"
    and "sc_simulatedSinkFailure s = Some msg" and "TrimSpace (nr_RequestID req) \<noteq> []"
    and "TrimSpace (nr_TenantID req) \<noteq> []" and "nr_Channel req \<in> {ChannelLocalMemory, ChannelLocalLog}"
  shows "after_failures (Suc n) req s (resend (Suc n) req now s)"
proof (induction n)
  case 0
  have rec0: "notification_record req now s = new_notification req now (sc_maxNotifAttempts s)"
    using assms(1) by (simp add: notification_record_def)
  then have "nr_Status (notification_record req now s) \<notin> {NotificationStatusDelivered, NotificationStatusQuarantined}"
    by (simp add: new_notification_def)
  from failed_send [OF assms(3-6) this] obtain rec where rec:
    "fst (SendNotification req now s) = store_notification (TrimSpace (nr_RequestID req)) rec s"
    "attempted (new_notification req now (sc_maxNotifAttempts s)) rec"
    "nr_Status rec = (if sint (nr_MaxAttempts rec) \<le> sint (nr_Attempts rec) then NotificationStatusQuarantined else NotificationStatusRetrying)"
    unfolding rec0 by blast
  then have "nr_Attempts rec = 1" "nr_MaxAttempts rec = sc_maxNotifAttempts s" "nr_TenantID rec = TrimSpace (nr_TenantID req)"
    by (simp_all add: attempted_def new_notification_def)
  with rec assms(2) show ?case by (auto simp: after_failures_def store_notification_def)
next
  case (Suc n)
  from resend_step [OF this _ assms(3-6)] show ?case by simp
qed

text \<open>
  A notification the sink keeps refusing is not retried for ever and not lost: the first failures leave it retrying, with
  one attempt each; from the configured number of attempts on it is quarantined with exactly that many, further
  requests change nothing, and once the sink works a replay by its tenant delivers it.
\<close>

theorem failing_sink_quarantines:
  assumes "sc_notifications s (TrimSpace (nr_RequestID req)) = None" and "0 < sint (sc_maxNotifAttempts s)"
    and "sc_simulatedSinkFailure s = Some msg" and "TrimSpace (nr_RequestID req) \<noteq> []"
    and "TrimSpace (nr_TenantID req) \<noteq> []" and "nr_Channel req \<in> {ChannelLocalMemory, ChannelLocalLog}"
    and "0 < n" and "TrimSpace who \<noteq> []"
  shows "(\<exists>rec. GetNotification (nr_RequestID req) (nr_TenantID req) (resend n req now s) = Inr rec \<and>
      sint (nr_Attempts rec) = min (int n) (sint (sc_maxNotifAttempts s)) \<and>
      nr_Status rec = (if int n < sint (sc_maxNotifAttempts s) then NotificationStatusRetrying else NotificationStatusQuarantined)) \<and>
    (sint (sc_maxNotifAttempts s) \<le> int n \<longrightarrow> (\<exists>rec. snd (ReplayNotification (nr_RequestID req) (nr_TenantID req) who later
      (SetLocalSinkFailure None (resend n req now s))) = Inr rec \<and> nr_Status rec = NotificationStatusDelivered))"
proof -
  from assms(7) obtain k where "n = Suc k" by (cases n) auto
  then have "after_failures n req s (resend n req now s)" using resend_after [OF assms(1-6)] by blast
  then obtain rec where "sc_notifications (resend n req now s) (TrimSpace (nr_RequestID req)) = Some rec"
    "nr_TenantID rec = TrimSpace (nr_TenantID req)" "sint (nr_Attempts rec) = min (int n) (sint (sc_maxNotifAttempts s))"
    "nr_Status rec = (if int n < sint (sc_maxNotifAttempts s) then NotificationStatusRetrying else NotificationStatusQuarantined)"
    by (auto simp: after_failures_def)
  then show ?thesis using assms(8)
    by (simp add: GetNotification_def ReplayNotification_def SetLocalSinkFailure_def finish_attempt_def attempt_replay_def
        sink_delivered_def Let_def)
qed

subsection \<open>Examples and witnesses\<close>

definition example_job :: "string \<Rightarrow> gotime \<Rightarrow> ScheduledJob" where
  "example_job i due = \<lparr>sj_JobID = i, sj_TenantID = ''ten_1'', sj_JobType = ''mail'', sj_Payload = [], sj_ScheduledAt = 1, sj_DueAt = due,
     sj_State = JobStateScheduled, sj_ExecutedAt = None, sj_Attempts = 0, sj_LastError = []\<rparr>"

definition example_notification :: "string \<Rightarrow> NotificationRequest" where
  "example_notification tenant = \<lparr>nr_RequestID = ''n1'', nr_TenantID = tenant, nr_Recipient = ''amy'', nr_Subject = ''s'', nr_Body = ''b'',
     nr_Channel = ChannelLocalLog, nr_CreatedAt = 1, nr_Status = NotificationStatusPending, nr_Attempts = 0, nr_MaxAttempts = 0,
     nr_DeliveredAt = None, nr_LastError = [], nr_Diagnostics = []\<rparr>"

definition example_schedule :: "nat scheduler_call list" where
  "example_schedule = [CallRegisterJobHandler ''mail'' (Some 7), CallScheduleJob (example_job ''j1'' 5) 2,
     CallScheduleJob (example_job ''j2'' 50) 2, CallExecuteDueJobs [''j2'', ''j1''] 10, CallExecuteDueJobs [''j1'', ''j2''] 11]"

theorem job_runs_at_most_once_witness:
  "let (s, runs) = run_calls (scheduler_exec (recording (\<lambda>h job runs. None))) example_schedule (NewScheduler 3, [])
   in distinct (map (sj_JobID \<circ> snd) runs) \<and> map (sj_JobID \<circ> snd) runs = [''j1'']"
proof -
  obtain s runs where eq: "run_calls (scheduler_exec (recording (\<lambda>h job runs. None))) example_schedule (NewScheduler 3, []) = (s, runs)"
    by fastforce
  have "map (sj_JobID \<circ> snd) (snd (run_calls (scheduler_exec (recording (\<lambda>h job runs. None))) example_schedule (NewScheduler 3, []))) = [''j1'']"
    by code_simp
  with job_runs_at_most_once [OF eq] eq show ?thesis by simp
qed

theorem due_jobs_executed_witness:
  "let s = fst (run_calls (scheduler_exec (recording (\<lambda>h job runs. None))) (take 3 example_schedule) (NewScheduler 3, []))
   in \<exists>s' w' job. ExecuteDueJobs (recording (\<lambda>h job runs. None)) [''j2'', ''j1''] 10 (s, []) = ((s', w'), Inr [job]) \<and>
        sc_jobs s' ''j1'' = Some job \<and> \<not> due_key 10 s' ''j1''"
proof -
  define s where "s = fst (run_calls (scheduler_exec (recording (\<lambda>h job runs. None))) (take 3 example_schedule) (NewScheduler 3, []))"
  have jobs: "sc_jobs s = [''j1'' \<mapsto> example_job ''j1'' 5, ''j2'' \<mapsto> example_job ''j2'' 50]"
    by (auto simp: s_def example_schedule_def example_job_def RegisterJobHandler_def ScheduleJob_def NewScheduler_def eval_defs)
  have due: "filter (due_key 10 s) [''j2'', ''j1''] = [''j1'']"
    by (simp add: due_key_def jobs job_due_def example_job_def)
  have "distinct [''j2'', ''j1'']" "set [''j2'', ''j1''] = dom (sc_jobs s)" by (auto simp: jobs)
  from due_jobs_executed [OF this, of "recording (\<lambda>h job runs. None)" 10 "[]", unfolded due] obtain s' w' executed where
    ex: "ExecuteDueJobs (recording (\<lambda>h job runs. None)) [''j2'', ''j1''] 10 (s, []) = ((s', w'), Inr executed)"
    "map Some executed = map (sc_jobs s') [''j1'']" "\<forall>k. \<not> due_key 10 s' k" by blast
  from ex(2) obtain job where "executed = [job]" "sc_jobs s' ''j1'' = Some job" by (cases executed) auto
  with ex s_def show ?thesis unfolding Let_def by metis
qed

theorem failing_sink_quarantines_witness:
  "let s = SetLocalSinkFailure (Some ''down'') (NewScheduler 3) :: nat Scheduler
   in \<exists>rec. GetNotification ''n1'' ''ten_1'' (resend 4 (example_notification ''ten_1'') 9 s) = Inr rec \<and> sint (nr_Attempts rec) = 3 \<and>
        nr_Status rec = NotificationStatusQuarantined"
proof -
  define s :: "nat Scheduler" where "s = SetLocalSinkFailure (Some ''down'') (NewScheduler 3)"
  have "sc_notifications s (TrimSpace (nr_RequestID (example_notification ''ten_1''))) = None" "sc_maxNotifAttempts s = 3"
    "sc_simulatedSinkFailure s = Some ''down''" by (simp_all add: s_def SetLocalSinkFailure_def NewScheduler_def)
  moreover have "TrimSpace (nr_RequestID (example_notification ''ten_1'')) \<noteq> []" "TrimSpace (nr_TenantID (example_notification ''ten_1'')) \<noteq> []"
    "nr_Channel (example_notification ''ten_1'') \<in> {ChannelLocalMemory, ChannelLocalLog}" "TrimSpace ''amy'' \<noteq> []"
    by (simp_all add: example_notification_def)
  ultimately show ?thesis
    using failing_sink_quarantines [of s "example_notification ''ten_1''" "''down''" 4 "''amy''" 9]
    by (simp add: s_def [symmetric] example_notification_def)
qed

definition example_sends :: "nat scheduler_call list" where
  "example_sends = [CallSendNotification (example_notification ''ten_1'') 5, CallSendNotification (example_notification ''ten_1'') 6]"

theorem notification_delivered_once_witness:
  "let s = fst (run_calls (scheduler_exec (recording (\<lambda>h job runs. None))) example_sends (NewScheduler 3, []))
   in distinct (map nr_RequestID (GetLocalSinkDeliveries s)) \<and> map nr_RequestID (GetLocalSinkDeliveries s) = [''n1'']"
proof -
  have "map nr_RequestID (GetLocalSinkDeliveries
      (fst (run_calls (scheduler_exec (recording (\<lambda>h job runs. None))) example_sends (NewScheduler 3, [])))) = [''n1'']"
    by code_simp
  with notification_delivered_once [OF refl refl, where invoke = "recording (\<lambda>h job runs. None)" and cs = example_sends and m = 3 and w = "[]"]
  show ?thesis by (simp add: Let_def)
qed

text \<open>
  \<open>SendNotification\<close> does not look at the tenant of a record it finds: a tenant that names a request of another tenant
  is given that tenant's record.
\<close>

theorem notification_crosses_tenants:
  "let s = fst (SendNotification (example_notification ''ten_1'') 5 (NewScheduler 3 :: nat Scheduler)) in
   map_sum (\<lambda>(e, r). (e, map_option nr_TenantID r)) nr_TenantID (snd (SendNotification (example_notification ''ten_2'') 6 s)) =
     Inl (ErrDuplicateNotificationRequest, Some ''ten_1'') \<and>
   GetNotification ''n1'' ''ten_2'' s = Inl ErrCrossTenantNotification"
  by code_simp

text \<open>
  The skew check comes before the defaults: a job with a scheduled time and no due time is refused although the due time
  would default to now, and one with a past due time and no scheduled time is stored due before it was scheduled.
\<close>

theorem schedule_defaults_skew:
  "snd (ScheduleJob (example_job ''j1'' 0) 100 (NewScheduler 3 :: nat Scheduler)) = Inl ErrClockSkewDetected \<and>
   map_option (\<lambda>j. (sj_ScheduledAt j, sj_DueAt j))
     (sc_jobs (fst (ScheduleJob ((example_job ''j1'' 5)\<lparr>sj_ScheduledAt := 0\<rparr>) 100 (NewScheduler 3 :: nat Scheduler))) ''j1'') = Some (100, 5)"
  by code_simp

end
