(* ===== verification/Retention.thy ===== *)
theory Retention
  imports Record_Audit "HOL-Library.Multiset" "HOL-Library.List_Lexorder" "HOL-Library.Char_ord"
begin

text \<open>
  Retention, legal holds, export and backup, \<open>modules/records-audit/retention_export.go\<close>: the \<open>RetentionManager\<close> that sits
  beside the record store. The manager holds a pointer to the store, whose own methods go on being called:
  the model keeps the store in the manager's state and interleaves the calls of both.

  SHA-256 (with its hexadecimal rendering) and \<open>json.Marshal\<close> are parameters: a function from the hashed bytes to the digest
  and one from the archived maps to bytes or an error. The theorems hold for every such pair of functions.
  Ranging over a map visits the keys in an order Go leaves open; the order is an argument.
  \<open>sort.Slice\<close> by record identifier is the library's sort by key: Go compares strings byte by byte, as does the
  lexicographic order on lists of characters, and the identifiers of one tenant's records differ, so the order of the
  result does not depend on the algorithm.
\<close>

subsection \<open>Definitions\<close>

datatype retention_error =
  ErrActiveLegalHold | ErrRetentionPeriodActive | ErrBlankHoldID | ErrBlankPolicyID | ErrHoldNotFound | ErrBackupTampered
| ErrExportTampered | ErrTamperDetected | ErrPolicyNotFound | ErrDuplicateHoldID | ErrDuplicatePolicyID
| Ra ra_error | ErrBlankExportActor | ErrMarshal

record RetentionPolicy =
  rp_PolicyID :: string
  rp_TenantID :: string
  rp_RecordType :: string
  rp_RetentionPeriod :: int64
  rp_CreatedAt :: gotime

record LegalHold =
  lh_HoldID :: string
  lh_TenantID :: string
  lh_RecordID :: string
  lh_Reason :: string
  lh_PlacedBy :: string
  lh_PlacedAt :: gotime
  lh_Active :: bool
  lh_ReleasedAt :: "gotime option"
  lh_ReleasedBy :: string

record ExportItem =
  ei_RecordID :: string
  ei_RecordType :: string
  ei_CurrentVersion :: string
  ei_State :: RecordLifecycleState
  ei_CreatedAt :: gotime
  ei_Snapshots :: "RecordSnapshot list"
  ei_AuditEntries :: "AuditEntry list"
  ei_PayloadDigest :: string

record ExportPackage =
  ep_ManifestID :: string
  ep_TenantID :: string
  ep_ExportedAt :: gotime
  ep_ExportedBy :: string
  ep_Items :: "ExportItem list"
  ep_ItemCount :: int
  ep_PackageDigest :: string

text \<open>The anonymous struct that is marshalled and hashed, and the archive around it.\<close>

record archive_payload =
  ap_Records :: "string \<rightharpoonup> DeclaredRecord"
  ap_Snapshots :: "string \<Rightarrow> RecordSnapshot list"
  ap_AuditLog :: "AuditEntry list"
  ap_Policies :: "string \<rightharpoonup> RetentionPolicy"
  ap_LegalHolds :: "string \<rightharpoonup> LegalHold"

record BackupArchive =
  ba_BackupID :: string
  ba_CreatedAt :: gotime
  ba_Payload :: archive_payload
  ba_ArchiveDigest :: string

record RetentionManager =
  rt_store :: RecordStore
  rt_policies :: "string \<rightharpoonup> RetentionPolicy"
  rt_legalHolds :: "string \<rightharpoonup> LegalHold"
  rt_recordHolds :: "string \<Rightarrow> string list"

definition NewRetentionManager :: "RecordStore option \<Rightarrow> RetentionManager" where
  "NewRetentionManager store =
     \<lparr>rt_store = (case store of None \<Rightarrow> NewRecordStore | Some s \<Rightarrow> s), rt_policies = Map.empty, rt_legalHolds = Map.empty,
      rt_recordHolds = (\<lambda>_. [])\<rparr>"

definition makePolicyKey :: "string \<Rightarrow> string \<Rightarrow> string" where
  "makePolicyKey tenantID recordType = TrimSpace tenantID @ '':'' @ TrimSpace recordType"

definition RegisterRetentionPolicy ::
  "RetentionPolicy \<Rightarrow> RetentionManager \<Rightarrow> (RetentionManager, retention_error, unit) outcome" where
  "RegisterRetentionPolicy policy m =
     (let pID = TrimSpace (rp_PolicyID policy); tID = TrimSpace (rp_TenantID policy); rType = TrimSpace (rp_RecordType policy);
          key = makePolicyKey tID rType
      in if pID = [] then (m, Inl ErrBlankPolicyID)
      else if tID = [] then (m, Inl (Ra ErrBlankTenantID))
      else if rType = [] then (m, Inl (Ra ErrBlankRecordType))
      else if rt_policies m key \<noteq> None then (m, Inl ErrDuplicatePolicyID)
      else (m\<lparr>rt_policies := (rt_policies m)(key \<mapsto>
              \<lparr>rp_PolicyID = pID, rp_TenantID = tID, rp_RecordType = rType, rp_RetentionPeriod = rp_RetentionPeriod policy,
               rp_CreatedAt = rp_CreatedAt policy\<rparr>)\<rparr>, Inr ()))"

definition PlaceLegalHold ::
  "LegalHold \<Rightarrow> RetentionManager \<Rightarrow> (RetentionManager, retention_error, unit) outcome" where
  "PlaceLegalHold hold m =
     (let hID = TrimSpace (lh_HoldID hold); tID = TrimSpace (lh_TenantID hold); rID = TrimSpace (lh_RecordID hold);
          recKey = makeRecordKey tID rID
      in if hID = [] then (m, Inl ErrBlankHoldID)
      else if tID = [] then (m, Inl (Ra ErrBlankTenantID))
      else if rID = [] then (m, Inl (Ra ErrBlankID))
      else if rt_legalHolds m hID \<noteq> None then (m, Inl ErrDuplicateHoldID)
      else if rs_records (rt_store m) recKey = None then (m, Inl (Ra ErrRecordNotFound))
      else (m\<lparr>rt_legalHolds := (rt_legalHolds m)(hID \<mapsto>
                \<lparr>lh_HoldID = hID, lh_TenantID = tID, lh_RecordID = rID, lh_Reason = TrimSpace (lh_Reason hold),
                 lh_PlacedBy = TrimSpace (lh_PlacedBy hold), lh_PlacedAt = lh_PlacedAt hold, lh_Active = True,
                 lh_ReleasedAt = None, lh_ReleasedBy = []\<rparr>),
              rt_recordHolds := (rt_recordHolds m)(recKey := rt_recordHolds m recKey @ [hID])\<rparr>, Inr ()))"

definition ReleaseLegalHold ::
  "string \<Rightarrow> string \<Rightarrow> string \<Rightarrow> string \<Rightarrow> gotime \<Rightarrow> RetentionManager \<Rightarrow> (RetentionManager, retention_error, unit) outcome" where
  "ReleaseLegalHold tenantID holdID actorID reason now m =
     (let hID = TrimSpace holdID in
      case rt_legalHolds m hID of
        None \<Rightarrow> (m, Inl ErrHoldNotFound)
      | Some h \<Rightarrow>
          if lh_TenantID h \<noteq> TrimSpace tenantID then (m, Inl (Ra ErrCrossTenantAccess))
          else (m\<lparr>rt_legalHolds := (rt_legalHolds m)(hID \<mapsto>
                    h\<lparr>lh_Active := False, lh_ReleasedAt := Some now, lh_ReleasedBy := TrimSpace actorID\<rparr>)\<rparr>, Inr ()))"

definition active_hold :: "RetentionManager \<Rightarrow> string \<Rightarrow> bool" where
  "active_hold m recKey \<longleftrightarrow>
     list_ex (\<lambda>hid. case rt_legalHolds m hid of None \<Rightarrow> False | Some h \<Rightarrow> lh_Active h) (rt_recordHolds m recKey)"

definition CanDelete :: "string \<Rightarrow> string \<Rightarrow> gotime \<Rightarrow> RetentionManager \<Rightarrow> retention_error + bool" where
  "CanDelete tenantID recordID checkTime m =
     (let tID = TrimSpace tenantID; rID = TrimSpace recordID; recKey = makeRecordKey tID rID
      in case rs_records (rt_store m) recKey of
        None \<Rightarrow> Inl (Ra ErrRecordNotFound)
      | Some rec \<Rightarrow>
          if active_hold m recKey then Inl ErrActiveLegalHold
          else case rt_policies m (makePolicyKey tID (rc_RecordType rec)) of
            None \<Rightarrow> Inr True
          | Some policy \<Rightarrow>
              if 0 < sint (rp_RetentionPeriod policy) \<and> checkTime < rc_CreatedAt rec + sint (rp_RetentionPeriod policy)
              then Inl ErrRetentionPeriodActive else Inr True)"

text \<open>The writes to one hash are the hash of their concatenation.\<close>

definition item_bytes :: "ExportItem \<Rightarrow> string" where
  "item_bytes item = ei_RecordID item @ ei_RecordType item @ ei_CurrentVersion item @ ei_PayloadDigest item @
     lifecycle_text (ei_State item)"

definition CalculatePackageDigest :: "(string \<Rightarrow> string) \<Rightarrow> ExportItem list \<Rightarrow> string" where
  "CalculatePackageDigest sha256 items = sha256 (concat (map item_bytes items))"

definition export_item :: "string \<Rightarrow> RecordStore \<Rightarrow> string \<Rightarrow> DeclaredRecord \<Rightarrow> ExportItem" where
  "export_item tID s key rec =
     (let snaps = rs_snapshots s key in
      \<lparr>ei_RecordID = rc_RecordID rec, ei_RecordType = rc_RecordType rec, ei_CurrentVersion = rc_CurrentVersion rec,
       ei_State = rc_State rec, ei_CreatedAt = rc_CreatedAt rec, ei_Snapshots = snaps,
       ei_AuditEntries = filter (\<lambda>entry. au_TenantID entry = tID \<and> au_RecordID entry = rc_RecordID rec) (rs_auditLog s),
       ei_PayloadDigest = (if snaps \<noteq> [] then sn_PayloadDigest (last snaps) else [])\<rparr>)"

fun collect_items :: "string \<Rightarrow> RecordStore \<Rightarrow> string list \<Rightarrow> ExportItem list" where
  "collect_items tID s [] = []"
| "collect_items tID s (key # ks) =
     (case rs_records s key of
        None \<Rightarrow> collect_items tID s ks
      | Some rec \<Rightarrow> if rc_TenantID rec \<noteq> tID then collect_items tID s ks
                  else export_item tID s key rec # collect_items tID s ks)"

definition GenerateExportPackage ::
  "(string \<Rightarrow> string) \<Rightarrow> string list \<Rightarrow> string \<Rightarrow> string \<Rightarrow> gotime \<Rightarrow> RetentionManager \<Rightarrow> retention_error + ExportPackage" where
  "GenerateExportPackage sha256 key_order tenantID actorID now m =
     (let tID = TrimSpace tenantID; aID = TrimSpace actorID;
          items = sort_key ei_RecordID (collect_items tID (rt_store m) key_order)
      in if tID = [] then Inl (Ra ErrBlankTenantID)
      else if aID = [] then Inl ErrBlankExportActor
      else Inr \<lparr>ep_ManifestID = ''exp_'' @ tID @ ''_'' @ FormatInt (Unix now), ep_TenantID = tID, ep_ExportedAt = now,
                ep_ExportedBy = aID, ep_Items = items, ep_ItemCount = int (length items),
                ep_PackageDigest = CalculatePackageDigest sha256 items\<rparr>)"

definition VerifyExportIntegrity :: "(string \<Rightarrow> string) \<Rightarrow> ExportPackage \<Rightarrow> retention_error option" where
  "VerifyExportIntegrity sha256 pkg =
     (if ep_PackageDigest pkg \<noteq> CalculatePackageDigest sha256 (ep_Items pkg) then Some ErrExportTampered
      else if ep_ItemCount pkg \<noteq> int (length (ep_Items pkg)) then Some ErrExportTampered
      else None)"

definition backup_payload :: "RetentionManager \<Rightarrow> archive_payload" where
  "backup_payload m = \<lparr>ap_Records = rs_records (rt_store m), ap_Snapshots = rs_snapshots (rt_store m),
     ap_AuditLog = rs_auditLog (rt_store m), ap_Policies = rt_policies m, ap_LegalHolds = rt_legalHolds m\<rparr>"

definition CreateSyntheticBackup ::
  "(archive_payload \<Rightarrow> string option) \<Rightarrow> (string \<Rightarrow> string) \<Rightarrow> gotime \<Rightarrow> RetentionManager \<Rightarrow> retention_error + BackupArchive" where
  "CreateSyntheticBackup marshal sha256 now m =
     (case marshal (backup_payload m) of
        None \<Rightarrow> Inl ErrMarshal
      | Some payload \<Rightarrow> Inr \<lparr>ba_BackupID = ''backup_'' @ FormatInt (UnixNano now), ba_CreatedAt = now,
                           ba_Payload = backup_payload m, ba_ArchiveDigest = sha256 payload\<rparr>)"

fun restore_holds :: "(string \<rightharpoonup> LegalHold) \<Rightarrow> string list \<Rightarrow> (string \<Rightarrow> string list) \<Rightarrow> string \<Rightarrow> string list" where
  "restore_holds holds [] m = m"
| "restore_holds holds (k # ks) m =
     (case holds k of
        None \<Rightarrow> restore_holds holds ks m
      | Some v \<Rightarrow> if lh_Active v
                then let recKey = makeRecordKey (lh_TenantID v) (lh_RecordID v)
                     in restore_holds holds ks (m(recKey := m recKey @ [lh_HoldID v]))
                else restore_holds holds ks m)"

definition RestoreSyntheticBackup ::
  "(archive_payload \<Rightarrow> string option) \<Rightarrow> (string \<Rightarrow> string) \<Rightarrow> string list \<Rightarrow> BackupArchive \<Rightarrow> RetentionManager \<Rightarrow>
   (RetentionManager, retention_error, unit) outcome" where
  "RestoreSyntheticBackup marshal sha256 hold_order archive m =
     (case marshal (ba_Payload archive) of
        None \<Rightarrow> (m, Inl ErrMarshal)
      | Some payload \<Rightarrow>
          if sha256 payload \<noteq> ba_ArchiveDigest archive then (m, Inl ErrBackupTampered)
          else let a = ba_Payload archive
            in (\<lparr>rt_store = (rt_store m)\<lparr>rs_records := ap_Records a, rs_snapshots := ap_Snapshots a, rs_auditLog := ap_AuditLog a\<rparr>,
                 rt_policies = ap_Policies a, rt_legalHolds = ap_LegalHolds a,
                 rt_recordHolds = restore_holds (ap_LegalHolds a) hold_order (\<lambda>_. [])\<rparr>, Inr ()))"

definition VerifyRecordIntegrity :: "string \<Rightarrow> string \<Rightarrow> string \<Rightarrow> RetentionManager \<Rightarrow> retention_error option" where
  "VerifyRecordIntegrity tenantID recordID expectedDigest m =
     (let snaps = rs_snapshots (rt_store m) (makeRecordKey tenantID recordID) in
      if snaps = [] then Some (Ra ErrRecordNotFound)
      else if sn_PayloadDigest (last snaps) \<noteq> ToLower (TrimSpace expectedDigest) then Some ErrTamperDetected
      else None)"

subsection \<open>Calls and invariant\<close>

datatype retention_call =
  CallStore store_call
| CallRegisterRetentionPolicy RetentionPolicy
| CallPlaceLegalHold LegalHold
| CallReleaseLegalHold string string string string gotime
| CallRestoreSyntheticBackup "string list" BackupArchive

fun retention_exec ::
  "(archive_payload \<Rightarrow> string option) \<Rightarrow> (string \<Rightarrow> string) \<Rightarrow> retention_call \<Rightarrow> RetentionManager \<Rightarrow>
   (RetentionManager, retention_error, unit) outcome" where
  "retention_exec marshal sha256 (CallStore c) m =
     (case store_exec c (rt_store m) of (s, res) \<Rightarrow> (m\<lparr>rt_store := s\<rparr>, map_sum Ra id res))"
| "retention_exec marshal sha256 (CallRegisterRetentionPolicy p) m = RegisterRetentionPolicy p m"
| "retention_exec marshal sha256 (CallPlaceLegalHold h) m = PlaceLegalHold h m"
| "retention_exec marshal sha256 (CallReleaseLegalHold t h a r now) m = ReleaseLegalHold t h a r now m"
| "retention_exec marshal sha256 (CallRestoreSyntheticBackup ks archive) m = RestoreSyntheticBackup marshal sha256 ks archive m"

text \<open>
  Every hold is filed under its identifier and its record, and no other hold is filed there.
\<close>

definition holds_inv :: "RetentionManager \<Rightarrow> bool" where
  "holds_inv m \<longleftrightarrow>
     (\<forall>k h. rt_legalHolds m k = Some h \<longrightarrow> lh_HoldID h = k \<and>
        (lh_Active h \<longrightarrow> k \<in> set (rt_recordHolds m (makeRecordKey (lh_TenantID h) (lh_RecordID h))))) \<and>
     (\<forall>key k. k \<in> set (rt_recordHolds m key) \<longrightarrow>
        (\<exists>h. rt_legalHolds m k = Some h \<and> makeRecordKey (lh_TenantID h) (lh_RecordID h) = key))"

text \<open>An archive as \<open>CreateSyntheticBackup\<close> makes it, restored over all its holds.\<close>

fun sound_restore :: "retention_call \<Rightarrow> bool" where
  "sound_restore (CallRestoreSyntheticBackup ks archive) \<longleftrightarrow>
     (let a = ba_Payload archive in set ks = dom (ap_LegalHolds a) \<and> (\<forall>k h. ap_LegalHolds a k = Some h \<longrightarrow> lh_HoldID h = k))"
| "sound_restore _ \<longleftrightarrow> True"

subsection \<open>Holds\<close>

lemma restore_holds_mem:
  assumes "\<And>k h. holds k = Some h \<Longrightarrow> lh_HoldID h = k"
  shows "i \<in> set (restore_holds holds ks m key) \<longleftrightarrow> i \<in> set (m key) \<or>
    i \<in> set ks \<and> (\<exists>h. holds i = Some h \<and> lh_Active h \<and> makeRecordKey (lh_TenantID h) (lh_RecordID h) = key)"
proof (induction ks arbitrary: m)
  case (Cons k ks)
  show ?case
  proof (cases "holds k")
    case None
    then show ?thesis by (auto simp: Cons.IH)
  next
    case (Some h)
    with assms have "lh_HoldID h = k" by blast
    with Some show ?thesis by (cases "lh_Active h") (auto simp: Cons.IH Let_def)
  qed
qed simp

lemma holds_inv_New: "holds_inv (NewRetentionManager st)"
  by (simp add: holds_inv_def NewRetentionManager_def)

lemma store_exec_records:
  assumes "rs_records s k \<noteq> None"
  shows "rs_records (fst (store_exec c s)) k \<noteq> None"
  using store_exec_step [of c s] assms by (cases rule: store_step.cases) auto

lemma PlaceLegalHold_cases:
  assumes "PlaceLegalHold hold m = (m', res)"
  obtains (refused) e where "m' = m" "res = Inl e"
  | (placed) h where "res = Inr ()" "rt_legalHolds m (TrimSpace (lh_HoldID hold)) = None"
      "rs_records (rt_store m) (makeRecordKey (lh_TenantID hold) (lh_RecordID hold)) \<noteq> None"
      "lh_HoldID h = TrimSpace (lh_HoldID hold)" "lh_TenantID h = TrimSpace (lh_TenantID hold)" "lh_RecordID h = TrimSpace (lh_RecordID hold)"
      "lh_Active h"
      "m' = m\<lparr>rt_legalHolds := (rt_legalHolds m)(TrimSpace (lh_HoldID hold) \<mapsto> h),
         rt_recordHolds := (rt_recordHolds m)(makeRecordKey (lh_TenantID hold) (lh_RecordID hold) :=
           rt_recordHolds m (makeRecordKey (lh_TenantID hold) (lh_RecordID hold)) @ [TrimSpace (lh_HoldID hold)])\<rparr>"
proof -
  let ?h = "\<lparr>lh_HoldID = TrimSpace (lh_HoldID hold), lh_TenantID = TrimSpace (lh_TenantID hold), lh_RecordID = TrimSpace (lh_RecordID hold),
    lh_Reason = TrimSpace (lh_Reason hold), lh_PlacedBy = TrimSpace (lh_PlacedBy hold), lh_PlacedAt = lh_PlacedAt hold,
    lh_Active = True, lh_ReleasedAt = None, lh_ReleasedBy = []\<rparr>"
  show thesis
  proof (cases "\<exists>e. res = Inl e")
    case True
    with assms have "m' = m" by (auto simp: PlaceLegalHold_def Let_def split: if_splits)
    with True refused show thesis by blast
  next
    case False
    with assms show thesis by (intro placed [of ?h]) (auto simp: PlaceLegalHold_def Let_def split: if_splits)
  qed
qed

lemma holds_invD:
  assumes "holds_inv m"
  shows "rt_legalHolds m k = Some h \<Longrightarrow> lh_HoldID h = k"
    and "rt_legalHolds m k = Some h \<Longrightarrow> lh_Active h \<Longrightarrow> k \<in> set (rt_recordHolds m (makeRecordKey (lh_TenantID h) (lh_RecordID h)))"
    and "k \<in> set (rt_recordHolds m key) \<Longrightarrow> \<exists>h. rt_legalHolds m k = Some h \<and> makeRecordKey (lh_TenantID h) (lh_RecordID h) = key"
  using assms unfolding holds_inv_def by blast+

lemma add_hold:
  assumes "holds_inv m" and "rt_legalHolds m i = None" and "lh_HoldID h = i" and "makeRecordKey (lh_TenantID h) (lh_RecordID h) = key"
  shows "holds_inv (m\<lparr>rt_legalHolds := (rt_legalHolds m)(i \<mapsto> h), rt_recordHolds := (rt_recordHolds m)(key := rt_recordHolds m key @ [i])\<rparr>)"
    (is "holds_inv ?m")
  unfolding holds_inv_def
proof (intro conjI allI impI)
  fix k g
  assume g: "rt_legalHolds ?m k = Some g"
  then show "lh_HoldID g = k" using assms(3) holds_invD(1) [OF assms(1)] by (cases "k = i") auto
  show "k \<in> set (rt_recordHolds ?m (makeRecordKey (lh_TenantID g) (lh_RecordID g)))" if "lh_Active g"
    using g that assms(4) holds_invD(2) [OF assms(1), of k g] by (cases "k = i") auto
next
  fix key' k
  assume k: "k \<in> set (rt_recordHolds ?m key')"
  show "\<exists>g. rt_legalHolds ?m k = Some g \<and> makeRecordKey (lh_TenantID g) (lh_RecordID g) = key'"
  proof (cases "k \<in> set (rt_recordHolds m key')")
    case True
    from holds_invD(3) [OF assms(1) this] assms(2) show ?thesis by (auto simp: fun_upd_apply)
  next
    case False
    with k have "k = i" "key' = key" by (auto split: if_splits)
    with assms(4) show ?thesis by simp
  qed
qed

lemma PlaceLegalHold_holds:
  assumes "holds_inv m"
  shows "holds_inv (fst (PlaceLegalHold hold m))"
proof (cases "PlaceLegalHold hold m")
  case (Pair m' res)
  then show ?thesis
  proof (cases rule: PlaceLegalHold_cases)
    case refused
    with assms Pair show ?thesis by simp
  next
    case (placed h)
    from add_hold [OF assms placed(2,4)] placed Pair show ?thesis by simp
  qed
qed

lemma ReleaseLegalHold_holds: "holds_inv m \<Longrightarrow> holds_inv (fst (ReleaseLegalHold t h a r now m))"
proof (cases "rt_legalHolds m (TrimSpace h)")
  case (Some old)
  let ?m = "m\<lparr>rt_legalHolds := (rt_legalHolds m)(TrimSpace h \<mapsto> old\<lparr>lh_Active := False, lh_ReleasedAt := Some now, lh_ReleasedBy := TrimSpace a\<rparr>)\<rparr>"
  assume inv: "holds_inv m"
  have "holds_inv ?m" unfolding holds_inv_def
  proof (intro conjI allI impI)
    fix k g
    assume g: "rt_legalHolds ?m k = Some g"
    then show "lh_HoldID g = k" using holds_invD(1) [OF inv] Some by (cases "k = TrimSpace h") auto
    show "k \<in> set (rt_recordHolds ?m (makeRecordKey (lh_TenantID g) (lh_RecordID g)))" if "lh_Active g"
      using g that holds_invD(2) [OF inv, of k g] by (cases "k = TrimSpace h") auto
  next
    fix key k
    assume "k \<in> set (rt_recordHolds ?m key)"
    then have "\<exists>g. rt_legalHolds m k = Some g \<and> makeRecordKey (lh_TenantID g) (lh_RecordID g) = key"
      using holds_invD(3) [OF inv] by simp
    then show "\<exists>g. rt_legalHolds ?m k = Some g \<and> makeRecordKey (lh_TenantID g) (lh_RecordID g) = key"
      using Some by (cases "k = TrimSpace h") auto
  qed
  with Some inv show ?thesis by (simp add: ReleaseLegalHold_def Let_def)
qed (simp add: ReleaseLegalHold_def Let_def)

lemma restored_holds:
  assumes "RestoreSyntheticBackup marshal sha256 ks archive m = (m', Inr ())" and "sound_restore (CallRestoreSyntheticBackup ks archive)"
  shows "holds_inv m'"
proof -
  let ?h = "ap_LegalHolds (ba_Payload archive)"
  from assms(2) have ids: "\<And>k h. ?h k = Some h \<Longrightarrow> lh_HoldID h = k" and dom: "set ks = dom ?h" by (simp_all add: Let_def)
  show ?thesis using assms(1) ids dom
    by (auto simp: RestoreSyntheticBackup_def holds_inv_def Let_def restore_holds_mem [OF ids] split: option.splits if_splits)
qed

lemma RestoreSyntheticBackup_holds:
  assumes "holds_inv m" and "sound_restore (CallRestoreSyntheticBackup ks archive)"
  shows "holds_inv (fst (RestoreSyntheticBackup marshal sha256 ks archive m))"
proof (cases "snd (RestoreSyntheticBackup marshal sha256 ks archive m)")
  case (Inl e)
  then have "fst (RestoreSyntheticBackup marshal sha256 ks archive m) = m"
    by (auto simp: RestoreSyntheticBackup_def Let_def split: option.splits if_splits)
  with assms(1) show ?thesis by simp
next
  case (Inr u)
  then show ?thesis using restored_holds [OF _ assms(2)] by (metis (full_types) old.unit.exhaust prod.collapse)
qed

lemma retention_exec_holds:
  "holds_inv m \<Longrightarrow> sound_restore c \<Longrightarrow> holds_inv (fst (retention_exec marshal sha256 c m))"
proof (cases c)
  case (CallStore x)
  assume "holds_inv m"
  then show ?thesis by (simp add: CallStore holds_inv_def split: prod.split)
next
  case (CallRegisterRetentionPolicy p)
  assume "holds_inv m"
  then show ?thesis by (simp add: CallRegisterRetentionPolicy RegisterRetentionPolicy_def holds_inv_def Let_def)
next
  case (CallRestoreSyntheticBackup ks archive)
  assume "holds_inv m" and "sound_restore c"
  then show ?thesis unfolding CallRestoreSyntheticBackup retention_exec.simps by (rule RestoreSyntheticBackup_holds)
qed (simp_all add: PlaceLegalHold_holds ReleaseLegalHold_holds)

interpretation rt: api_machine "retention_exec marshal sha256" holds_inv sound_restore
  for marshal sha256
  by unfold_locales (rule retention_exec_holds)

text \<open>One hold on one record, and the calls that do not touch it.\<close>

definition held :: "string \<Rightarrow> string \<Rightarrow> RetentionManager \<Rightarrow> bool" where
  "held i key m \<longleftrightarrow> i \<in> set (rt_recordHolds m key) \<and> (\<exists>h. rt_legalHolds m i = Some h \<and> lh_Active h) \<and> rs_records (rt_store m) key \<noteq> None"

fun keeps_hold :: "string \<Rightarrow> retention_call \<Rightarrow> bool" where
  "keeps_hold i (CallReleaseLegalHold t h a r now) \<longleftrightarrow> TrimSpace h \<noteq> i"
| "keeps_hold i (CallRestoreSyntheticBackup ks archive) \<longleftrightarrow> False"
| "keeps_hold i _ \<longleftrightarrow> True"

lemma retention_exec_held:
  assumes "held i key m" and "keeps_hold i c"
  shows "held i key (fst (retention_exec marshal sha256 c m))"
proof (cases c)
  case (CallStore x)
  with assms store_exec_records [of "rt_store m" key x] show ?thesis by (auto simp: held_def split: prod.split)
next
  case (CallPlaceLegalHold hold)
  obtain m' res where eq: "PlaceLegalHold hold m = (m', res)" by fastforce
  then show ?thesis
    by (cases rule: PlaceLegalHold_cases) (use assms eq CallPlaceLegalHold in \<open>auto simp: held_def\<close>)
qed (use assms in \<open>auto simp: held_def RegisterRetentionPolicy_def ReleaseLegalHold_def Let_def split: option.split\<close>)

interpretation hold: api_machine "retention_exec marshal sha256" "held i key" "keeps_hold i"
  for marshal sha256 i key
  by unfold_locales (rule retention_exec_held)

lemma active_hold_iff:
  assumes "holds_inv m"
  shows "active_hold m key \<longleftrightarrow>
    (\<exists>i h. rt_legalHolds m i = Some h \<and> lh_Active h \<and> makeRecordKey (lh_TenantID h) (lh_RecordID h) = key)"
proof
  assume "active_hold m key"
  then obtain i h where "i \<in> set (rt_recordHolds m key)" "rt_legalHolds m i = Some h" "lh_Active h"
    by (auto simp: active_hold_def list_ex_iff split: option.splits)
  with holds_invD(3) [OF assms] show "\<exists>i h. rt_legalHolds m i = Some h \<and> lh_Active h \<and> makeRecordKey (lh_TenantID h) (lh_RecordID h) = key"
    by fastforce
next
  assume "\<exists>i h. rt_legalHolds m i = Some h \<and> lh_Active h \<and> makeRecordKey (lh_TenantID h) (lh_RecordID h) = key"
  then obtain i h where "rt_legalHolds m i = Some h" "lh_Active h" "i \<in> set (rt_recordHolds m key)"
    using holds_invD(2) [OF assms] by blast
  then show "active_hold m key" by (auto simp: active_hold_def list_ex_iff intro!: bexI [of _ i])
qed

lemma reachable_holds_inv:
  "list_all sound_restore cs \<Longrightarrow> holds_inv (run_calls (retention_exec marshal sha256) cs (NewRetentionManager st))"
  by (rule rt.run_inv [OF holds_inv_New])

subsection \<open>Export\<close>

definition tenant_keys :: "string \<Rightarrow> RecordStore \<Rightarrow> string set" where
  "tenant_keys tID s = {k. \<exists>rec. rs_records s k = Some rec \<and> rc_TenantID rec = tID}"

definition item_at :: "string \<Rightarrow> RecordStore \<Rightarrow> string \<Rightarrow> ExportItem" where
  "item_at tID s k = export_item tID s k (the (rs_records s k))"

lemma collect_items_eq: "collect_items tID s ks = map (item_at tID s) (filter (\<lambda>k. k \<in> tenant_keys tID s) ks)"
  by (induction ks) (auto simp: tenant_keys_def item_at_def split: option.splits)

lemma collected_set: "set (collect_items tID s ks) =
    {export_item tID s k rec | k rec. k \<in> set ks \<and> rs_records s k = Some rec \<and> rc_TenantID rec = tID}"
  by (force simp: collect_items_eq tenant_keys_def item_at_def)

lemma record_key: "store_inv s \<Longrightarrow> rs_records s k = Some rec \<Longrightarrow> k = makeRecordKey (rc_TenantID rec) (rc_RecordID rec)"
  using store_invD [of s k rec] by (simp add: record_entry_inv_def)

lemma item_RecordID_inj:
  assumes "store_inv s"
  shows "inj_on (ei_RecordID \<circ> item_at tID s) (tenant_keys tID s)"
proof (rule inj_onI)
  fix k k'
  assume "k \<in> tenant_keys tID s" "k' \<in> tenant_keys tID s"
  then obtain rec rec' where "rs_records s k = Some rec" "rs_records s k' = Some rec'" "rc_TenantID rec = tID" "rc_TenantID rec' = tID"
    by (auto simp: tenant_keys_def)
  note recs = this
  assume "(ei_RecordID \<circ> item_at tID s) k = (ei_RecordID \<circ> item_at tID s) k'"
  with recs have "rc_RecordID rec = rc_RecordID rec'" by (simp add: item_at_def export_item_def Let_def)
  with recs record_key [OF assms recs(1)] record_key [OF assms recs(2)] show "k = k'" by metis
qed

lemma exported_ids:
  assumes "store_inv s" and "distinct ks"
  shows "distinct (map ei_RecordID (collect_items tID s ks))"
    and "inj_on ei_RecordID (set (collect_items tID s ks))"
proof -
  let ?ks = "filter (\<lambda>k. k \<in> tenant_keys tID s) ks"
  have "inj_on (ei_RecordID \<circ> item_at tID s) (set ?ks)"
    using item_RecordID_inj [OF assms(1)] by (rule inj_on_subset) auto
  with assms(2) show "distinct (map ei_RecordID (collect_items tID s ks))"
    by (simp add: collect_items_eq distinct_map)
  then show "inj_on ei_RecordID (set (collect_items tID s ks))" by (simp add: distinct_map)
qed

lemma collected_mset:
  assumes "distinct ks" and "distinct ks'" and "set ks = set ks'"
  shows "mset (collect_items tID s ks) = mset (collect_items tID s ks')"
proof -
  have "mset ks = mset ks'" using assms by (simp add: set_eq_iff_mset_eq_distinct)
  then have "mset (filter (\<lambda>k. k \<in> tenant_keys tID s) ks) = mset (filter (\<lambda>k. k \<in> tenant_keys tID s) ks')" by simp
  then show ?thesis by (simp add: collect_items_eq)
qed

lemma sorted_items_eq:
  assumes "store_inv s" and "distinct ks" and "distinct ks'" and "set ks = set ks'"
  shows "sort_key ei_RecordID (collect_items tID s ks) = sort_key ei_RecordID (collect_items tID s ks')"
  using exported_ids(2) [OF assms(1,2)] collected_mset [OF assms(2-4)]
  by (intro sort_key_inj_key_eq) (simp_all add: sorted_sort_key)

text \<open>The store inside the manager keeps its invariant as long as no archive is restored into it.\<close>

fun no_restore :: "retention_call \<Rightarrow> bool" where
  "no_restore (CallRestoreSyntheticBackup ks archive) \<longleftrightarrow> False"
| "no_restore _ \<longleftrightarrow> True"

lemma retention_exec_store:
  assumes "store_inv (rt_store m)" and "no_restore c"
  shows "store_inv (rt_store (fst (retention_exec marshal sha256 c m)))"
proof (cases c)
  case (CallStore x)
  with assms store_step_inv [OF store_exec_step] show ?thesis by (simp split: prod.split) (metis fst_conv)
qed (use assms in \<open>auto simp: RegisterRetentionPolicy_def PlaceLegalHold_def ReleaseLegalHold_def Let_def split: option.split\<close>)

interpretation rt_store: api_machine "retention_exec marshal sha256" "\<lambda>m. store_inv (rt_store m)" no_restore
  for marshal sha256
  by unfold_locales (rule retention_exec_store)

lemma new_manager_store: "store_inv (rt_store (NewRetentionManager None))"
  using reachable_store_inv [of "[]"] by (simp add: NewRetentionManager_def)

subsection \<open>Properties\<close>

text \<open>
  (C40) A legal hold is binding: once a hold is placed on a record, whatever calls follow on the store and on the manager,
  short of a release of that very hold or the restoration of a backup, the record may not be deleted, at any time.
\<close>

theorem hold_blocks_deletion:
  assumes "PlaceLegalHold hold m = (m', Inr ())" and "list_all (keeps_hold (TrimSpace (lh_HoldID hold))) cs"
  shows "CanDelete (lh_TenantID hold) (lh_RecordID hold) at (run_calls (retention_exec marshal sha256) cs m') = Inl ErrActiveLegalHold"
proof -
  let ?key = "makeRecordKey (lh_TenantID hold) (lh_RecordID hold)" and ?i = "TrimSpace (lh_HoldID hold)"
  from assms(1) have "held ?i ?key m'" by (cases rule: PlaceLegalHold_cases) (auto simp: held_def)
  from hold.run_inv [OF this assms(2)] have "held ?i ?key (run_calls (retention_exec marshal sha256) cs m')" .
  then show ?thesis by (auto simp: held_def CanDelete_def active_hold_def Let_def list_ex_iff split: option.splits)
qed

text \<open>
  \<open>CanDelete\<close> permits exactly what the rules permit: in every reachable manager the answer is yes if and only if the record
  exists, no active hold names it, and the retention period of the policy for its tenant and type, if there is one,
  has run out; there is no answer no but the three errors.
\<close>

theorem CanDelete_permits_iff:
  assumes "list_all sound_restore cs" and "m = run_calls (retention_exec marshal sha256) cs (NewRetentionManager store)"
  shows "CanDelete t r at m = Inr b \<longleftrightarrow> b \<and>
    (\<exists>rec. rs_records (rt_store m) (makeRecordKey t r) = Some rec \<and>
       (\<nexists>i h. rt_legalHolds m i = Some h \<and> lh_Active h \<and> makeRecordKey (lh_TenantID h) (lh_RecordID h) = makeRecordKey t r) \<and>
       (\<forall>policy. rt_policies m (makePolicyKey t (rc_RecordType rec)) = Some policy \<and> 0 < sint (rp_RetentionPeriod policy) \<longrightarrow>
          rc_CreatedAt rec + sint (rp_RetentionPeriod policy) \<le> at))"
proof -
  have "holds_inv m" unfolding assms(2) using assms(1) by (rule reachable_holds_inv)
  then show ?thesis
    by (auto simp: CanDelete_def Let_def active_hold_iff makePolicyKey_def split: option.splits)
qed

text \<open>
  An export is deterministic, complete and isolated: in every reachable manager the items do not depend on the order
  in which the map of records is visited; they are the items of exactly the records of the tenant, in strictly increasing
  order of their identifiers, and the package verifies.
\<close>

theorem export_deterministic:
  assumes "list_all no_restore cs" and "m = run_calls (retention_exec marshal sha256) cs (NewRetentionManager None)"
    and "distinct ks" and "set ks = dom (rs_records (rt_store m))" and "distinct ks'" and "set ks' = dom (rs_records (rt_store m))"
    and "GenerateExportPackage sha256 ks t a now m = Inr pkg"
  shows "GenerateExportPackage sha256 ks' t a now m = Inr pkg \<and>
    set (ep_Items pkg) = {export_item (TrimSpace t) (rt_store m) k rec | k rec.
       rs_records (rt_store m) k = Some rec \<and> rc_TenantID rec = TrimSpace t} \<and>
    sorted_wrt (<) (map ei_RecordID (ep_Items pkg)) \<and> VerifyExportIntegrity sha256 pkg = None"
proof -
  let ?s = "rt_store m" and ?t = "TrimSpace t"
  have inv: "store_inv ?s" unfolding assms(2) using rt_store.run_inv [OF new_manager_store assms(1)] .
  have items: "ep_Items pkg = sort_key ei_RecordID (collect_items ?t ?s ks)"
    using assms(7) by (auto simp: GenerateExportPackage_def Let_def split: if_splits)
  have "GenerateExportPackage sha256 ks' t a now m = Inr pkg"
    using assms(7) sorted_items_eq [OF inv assms(3,5)] assms(4,6) by (simp add: GenerateExportPackage_def Let_def)
  moreover have "set (ep_Items pkg) = {export_item ?t ?s k rec | k rec. rs_records ?s k = Some rec \<and> rc_TenantID rec = ?t}"
    unfolding items set_sort collected_set assms(4) by blast
  moreover have "sorted_wrt (<) (map ei_RecordID (ep_Items pkg))"
    unfolding items strict_sorted_iff using exported_ids(1) [OF inv assms(3)]
    by (simp add: distinct_map)
  moreover have "VerifyExportIntegrity sha256 pkg = None"
    using assms(7) by (auto simp: GenerateExportPackage_def VerifyExportIntegrity_def Let_def split: if_splits)
  ultimately show ?thesis by blast
qed

text \<open>
  A backup restores: an archive taken from a reachable manager is accepted by any other manager, in whatever order its holds are
  visited, and the restored manager has the same records, snapshots, log, policies and holds, and gives the same answer
  to every question about deletion and every export.
\<close>

theorem backup_restore_roundtrip:
  assumes "list_all sound_restore cs" and "m = run_calls (retention_exec marshal sha256) cs (NewRetentionManager store)"
    and "CreateSyntheticBackup marshal sha256 now m = Inr archive" and "set hold_order = dom (rt_legalHolds m)"
  shows "\<exists>m'. RestoreSyntheticBackup marshal sha256 hold_order archive other = (m', Inr ()) \<and>
    backup_payload m' = backup_payload m \<and> CanDelete t r at m' = CanDelete t r at m \<and>
    VerifyRecordIntegrity t r dg m' = VerifyRecordIntegrity t r dg m \<and>
    GenerateExportPackage sha256 ks t a later m' = GenerateExportPackage sha256 ks t a later m"
proof -
  have inv: "holds_inv m" unfolding assms(2) using assms(1) by (rule reachable_holds_inv)
  from assms(3) obtain payload where archive: "marshal (backup_payload m) = Some payload" "ba_Payload archive = backup_payload m"
    "ba_ArchiveDigest archive = sha256 payload" by (auto simp: CreateSyntheticBackup_def split: option.splits)
  define m' where "m' = fst (RestoreSyntheticBackup marshal sha256 hold_order archive other)"
  have restored: "RestoreSyntheticBackup marshal sha256 hold_order archive other = (m', Inr ())"
    using archive by (simp add: m'_def RestoreSyntheticBackup_def Let_def)
  then have same: "rs_records (rt_store m') = rs_records (rt_store m)" "rs_snapshots (rt_store m') = rs_snapshots (rt_store m)"
    "rs_auditLog (rt_store m') = rs_auditLog (rt_store m)" "rt_policies m' = rt_policies m" "rt_legalHolds m' = rt_legalHolds m"
    using archive by (auto simp: RestoreSyntheticBackup_def Let_def backup_payload_def)
  have "sound_restore (CallRestoreSyntheticBackup hold_order archive)"
    using assms(4) holds_invD(1) [OF inv] archive(2) by (simp add: backup_payload_def)
  with restored have "holds_inv m'" by (rule restored_holds)
  then have "active_hold m' key = active_hold m key" for key
    using inv by (simp add: active_hold_iff same)
  then have "CanDelete t r at m' = CanDelete t r at m" by (simp only: CanDelete_def same)
  moreover have "collect_items i (rt_store m') ks = collect_items i (rt_store m) ks" for i
    by (simp add: collect_items_eq tenant_keys_def item_at_def export_item_def same)
  ultimately show ?thesis
    using restored by (simp add: backup_payload_def VerifyRecordIntegrity_def GenerateExportPackage_def same)
qed

text \<open>
  \<open>VerifyExportIntegrity\<close> vouches for less than a reader may expect: whatever the hash, snapshots, audit entries and creation
  times can be replaced in a package without notice, and because the hashed texts are joined without a separator,
  a letter can move from the identifier of a record to its type.
\<close>

definition tampered :: "ExportItem \<Rightarrow> ExportItem" where
  "tampered item = item\<lparr>ei_Snapshots := [], ei_AuditEntries := [], ei_CreatedAt := 0\<rparr>"

theorem tampered_export_verifies:
  "VerifyExportIntegrity sha256 (pkg\<lparr>ep_Items := map tampered (ep_Items pkg)\<rparr>) = VerifyExportIntegrity sha256 pkg \<and>
   CalculatePackageDigest sha256 [item\<lparr>ei_RecordID := rid @ x, ei_RecordType := rtype\<rparr>] =
   CalculatePackageDigest sha256 [item\<lparr>ei_RecordID := rid, ei_RecordType := x @ rtype\<rparr>]"
proof -
  have "item_bytes \<circ> tampered = item_bytes" by (auto simp: item_bytes_def tampered_def)
  then have "CalculatePackageDigest sha256 (map tampered items) = CalculatePackageDigest sha256 items" for items
    by (simp add: CalculatePackageDigest_def)
  then have "VerifyExportIntegrity sha256 (pkg\<lparr>ep_Items := map tampered (ep_Items pkg)\<rparr>) = VerifyExportIntegrity sha256 pkg"
    by (simp add: VerifyExportIntegrity_def)
  then show ?thesis by (simp add: CalculatePackageDigest_def item_bytes_def)
qed

subsection \<open>Examples and witnesses\<close>

definition example_hold :: LegalHold where
  "example_hold = \<lparr>lh_HoldID = ''hold1'', lh_TenantID = ''ten_a'', lh_RecordID = ''rec1'', lh_Reason = ''court'', lh_PlacedBy = ''ann'',
     lh_PlacedAt = 13, lh_Active = False, lh_ReleasedAt = None, lh_ReleasedBy = []\<rparr>"

definition example_policy :: RetentionPolicy where
  "example_policy = \<lparr>rp_PolicyID = ''pol1'', rp_TenantID = ''ten_a'', rp_RecordType = ''report'', rp_RetentionPeriod = 100, rp_CreatedAt = 1\<rparr>"

definition example_retention_calls :: "retention_call list" where
  "example_retention_calls = map CallStore example_store_calls @ [CallRegisterRetentionPolicy example_policy]"

abbreviation example_retention :: RetentionManager where
  "example_retention \<equiv> run_calls (retention_exec (\<lambda>_. Some []) id) example_retention_calls (NewRetentionManager None)"

lemmas retention_eval = example_retention_calls_def NewRetentionManager_def RegisterRetentionPolicy_def example_policy_def
  makePolicyKey_def store_eval

lemma example_retention_calls_ok: "list_all sound_restore example_retention_calls" "list_all no_restore example_retention_calls"
  by (simp_all add: example_retention_calls_def example_store_calls_def)

lemma example_retention_keys: "dom (rs_records (rt_store example_retention)) = {''ten_a:rec1''}"
  by (simp add: retention_eval example_digest_valid)

theorem hold_blocks_deletion_witness:
  "\<exists>m. PlaceLegalHold example_hold example_retention = (m, Inr ()) \<and>
     CanDelete ''ten_a'' ''rec1'' 1000 (run_calls (retention_exec (\<lambda>_. Some []) id) [CallReleaseLegalHold ''ten_a'' ''hold2'' ''bob'' ''x'' 20] m) =
       Inl ErrActiveLegalHold"
proof -
  have "\<exists>m. PlaceLegalHold example_hold example_retention = (m, Inr ())"
    using example_retention_keys by (auto simp: PlaceLegalHold_def Let_def example_hold_def makeRecordKey_def retention_eval example_digest_valid)
  then obtain m where m: "PlaceLegalHold example_hold example_retention = (m, Inr ())" by blast
  have "list_all (keeps_hold (TrimSpace (lh_HoldID example_hold))) [CallReleaseLegalHold ''ten_a'' ''hold2'' ''bob'' ''x'' 20]"
    by (simp add: example_hold_def)
  from hold_blocks_deletion [OF m this, of 1000 "\<lambda>_. Some []" id] m show ?thesis by (auto simp: example_hold_def)
qed

theorem CanDelete_permits_iff_witness:
  "CanDelete ''ten_a'' ''rec1'' 110 example_retention = Inr True \<and> CanDelete ''ten_a'' ''rec1'' 109 example_retention \<noteq> Inr True"
  unfolding CanDelete_permits_iff [OF example_retention_calls_ok(1) refl]
  by (simp add: retention_eval example_digest_valid)

theorem export_deterministic_witness:
  "\<exists>pkg. GenerateExportPackage id [''ten_a:rec1''] ''ten_a'' ''ann'' 50 example_retention = Inr pkg \<and>
     VerifyExportIntegrity id pkg = None"
proof -
  have "\<exists>pkg. GenerateExportPackage id [''ten_a:rec1''] ''ten_a'' ''ann'' 50 example_retention = Inr pkg"
    by (simp add: GenerateExportPackage_def Let_def)
  then obtain pkg where pkg: "GenerateExportPackage id [''ten_a:rec1''] ''ten_a'' ''ann'' 50 example_retention = Inr pkg" by blast
  have "distinct [''ten_a:rec1'']" "set [''ten_a:rec1''] = dom (rs_records (rt_store example_retention))"
    unfolding example_retention_keys by simp_all
  from export_deterministic [OF example_retention_calls_ok(2) refl this this pkg] pkg show ?thesis by blast
qed

theorem backup_restore_roundtrip_witness:
  "\<exists>archive m'. CreateSyntheticBackup (\<lambda>_. Some []) id 60 example_retention = Inr archive \<and>
     RestoreSyntheticBackup (\<lambda>_. Some []) id [] archive (NewRetentionManager None) = (m', Inr ()) \<and>
     backup_payload m' = backup_payload example_retention"
proof -
  have "\<exists>archive. CreateSyntheticBackup (\<lambda>_. Some []) id 60 example_retention = Inr archive" by (simp add: CreateSyntheticBackup_def)
  then obtain archive where a: "CreateSyntheticBackup (\<lambda>_. Some []) id 60 example_retention = Inr archive" by blast
  have "set [] = dom (rt_legalHolds example_retention)" by (simp add: retention_eval example_digest_valid)
  from backup_restore_roundtrip [OF example_retention_calls_ok(1) refl a this, of "NewRetentionManager None"] a show ?thesis by blast
qed

text \<open>
  Restoring does not restore the counter of the audit log: after a restoration into a new store the next entry is number
  1 again, although the log already has an entry of that number.
\<close>

theorem restored_log_renumbers:
  "let m = run_calls (retention_exec (\<lambda>_. Some []) id) (map CallStore (take 1 example_store_calls)) (NewRetentionManager None);
       archive = \<lparr>ba_BackupID = [], ba_CreatedAt = 0, ba_Payload = backup_payload m, ba_ArchiveDigest = []\<rparr>;
       m' = run_calls (retention_exec (\<lambda>_. Some []) id) [CallRestoreSyntheticBackup [] archive, CallStore (example_store_calls ! 1)]
              (NewRetentionManager None)
   in map au_SequenceNumber (rs_auditLog (rt_store m')) = [1, 1]"
  by (simp add: backup_payload_def RestoreSyntheticBackup_def retention_eval example_digest_valid)

end
