(* ===== verification/Access_Policy.thy ===== *)
theory Access_Policy
  imports Go_Strings
begin

text \<open>
  The policy evaluator, \<open>modules/identity-authorization/access_policy.go\<close>: memberships, role assignments with a scope, entitlements of
  tenants, and \<open>Evaluate\<close>, the default-deny decision on a request. The loop over the assignments that sets flags and
  returns early is compared with a declarative reading of the policy.
\<close>

subsection \<open>Definitions\<close>

datatype Role =
  RoleTenantAdmin | RoleProjectManager | RoleInspector | RoleAuditor | RoleViewer | RoleContractor | RoleSupport | RoleUnknown
| RoleOther string

fun KnownRoles :: "Role \<Rightarrow> bool" where
  "KnownRoles RoleUnknown \<longleftrightarrow> False"
| "KnownRoles (RoleOther _) \<longleftrightarrow> False"
| "KnownRoles _ \<longleftrightarrow> True"

datatype Action = ActionRead | ActionCreate | ActionUpdate | ActionDelete | ActionExport | ActionOther string

datatype MembershipStatus = MembershipActive | MembershipSuspended | MembershipInactive | MembershipOther string

datatype ResourceLifecycle = ResourceActive | ResourceArchived | ResourceOther string

datatype DenialReason =
  DenialNone | DenialUnauthenticated | DenialCrossTenant | DenialInactiveMembership | DenialUnknownRole | DenialRoleNotGranted
| DenialScopeMismatch | DenialDirectObjectMismatch | DenialArchivedRecord | DenialDelegationNotImplemented
| DenialMissingEntitlement | DenialPrivilegeEscalation | DenialDefaultDeny

record SubjectIdentity =
  id_Subject :: string
  id_TenantID :: string
  id_IsAuthenticated :: bool

record ScopeGrant =
  sg_TenantID :: string
  sg_CompanyID :: string
  sg_ProjectID :: string
  sg_SiteID :: string
  sg_AreaID :: string
  sg_ObjectID :: string

record RoleAssignment =
  ra_Subject :: string
  ra_TenantID :: string
  ra_Role :: Role
  ra_Scope :: ScopeGrant

record TargetResource =
  tg_TenantID :: string
  tg_CompanyID :: string
  tg_ProjectID :: string
  tg_SiteID :: string
  tg_AreaID :: string
  tg_ObjectID :: string
  tg_Lifecycle :: ResourceLifecycle

record DelegationContext =
  dc_IsDelegated :: bool
  dc_Delegator :: string

record AccessRequest =
  rq_Identity :: SubjectIdentity
  rq_Target :: TargetResource
  rq_Action :: Action
  rq_Delegation :: DelegationContext
  rq_RequiredEntitlement :: string

record EvaluationResult =
  er_Allowed :: bool
  er_DenialReason :: DenialReason
  er_Message :: string

definition Allow :: EvaluationResult where
  "Allow = \<lparr>er_Allowed = True, er_DenialReason = DenialNone, er_Message = ''access granted''\<rparr>"

definition Deny :: "DenialReason \<Rightarrow> string \<Rightarrow> EvaluationResult" where
  "Deny reason message = \<lparr>er_Allowed = False, er_DenialReason = reason, er_Message = message\<rparr>"

record PolicyEvaluator =
  pe_memberships :: "string \<rightharpoonup> MembershipStatus"
  pe_assignments :: "string \<Rightarrow> RoleAssignment list"
  pe_entitlements :: "string \<rightharpoonup> (string \<rightharpoonup> bool)"

definition NewPolicyEvaluator :: PolicyEvaluator where
  "NewPolicyEvaluator = \<lparr>pe_memberships = Map.empty, pe_assignments = (\<lambda>_. []), pe_entitlements = Map.empty\<rparr>"

text \<open>The key \<open>tenant:subject\<close> of the maps.\<close>

definition member_key :: "string \<Rightarrow> string \<Rightarrow> string" where
  "member_key tenantID subject = TrimSpace tenantID @ '':'' @ TrimSpace subject"

definition SetMembership :: "string \<Rightarrow> string \<Rightarrow> MembershipStatus \<Rightarrow> PolicyEvaluator \<Rightarrow> PolicyEvaluator" where
  "SetMembership tenantID subject status e =
     e\<lparr>pe_memberships := (pe_memberships e)(member_key tenantID subject \<mapsto> status)\<rparr>"

definition AddRoleAssignment :: "RoleAssignment \<Rightarrow> PolicyEvaluator \<Rightarrow> PolicyEvaluator" where
  "AddRoleAssignment assignment e =
     (let key = member_key (ra_TenantID assignment) (ra_Subject assignment)
      in e\<lparr>pe_assignments := (pe_assignments e)(key := pe_assignments e key @ [assignment])\<rparr>)"

definition SetEntitlement :: "string \<Rightarrow> string \<Rightarrow> bool \<Rightarrow> PolicyEvaluator \<Rightarrow> PolicyEvaluator" where
  "SetEntitlement tenantID entitlement enabled e =
     (let t = TrimSpace tenantID;
          ents = (case pe_entitlements e t of None \<Rightarrow> Map.empty | Some m \<Rightarrow> m)
      in e\<lparr>pe_entitlements := (pe_entitlements e)(t \<mapsto> ents(TrimSpace entitlement \<mapsto> enabled))\<rparr>)"

fun rolePermitsAction :: "Role \<Rightarrow> Action \<Rightarrow> bool" where
  "rolePermitsAction RoleTenantAdmin a \<longleftrightarrow> True"
| "rolePermitsAction RoleProjectManager a \<longleftrightarrow> a \<in> {ActionRead, ActionCreate, ActionUpdate, ActionExport}"
| "rolePermitsAction RoleInspector a \<longleftrightarrow> a \<in> {ActionRead, ActionCreate, ActionUpdate}"
| "rolePermitsAction RoleAuditor a \<longleftrightarrow> a \<in> {ActionRead, ActionExport}"
| "rolePermitsAction RoleViewer a \<longleftrightarrow> a = ActionRead"
| "rolePermitsAction RoleContractor a \<longleftrightarrow> a \<in> {ActionRead, ActionCreate}"
| "rolePermitsAction RoleSupport a \<longleftrightarrow> a = ActionRead"
| "rolePermitsAction _ a \<longleftrightarrow> False"

definition scopeMatches :: "ScopeGrant \<Rightarrow> TargetResource \<Rightarrow> bool" where
  "scopeMatches grant target =
     (if sg_TenantID grant \<noteq> [] \<and> sg_TenantID grant \<noteq> tg_TenantID target then False
      else if sg_CompanyID grant \<noteq> [] \<and> sg_CompanyID grant \<noteq> tg_CompanyID target then False
      else if sg_ProjectID grant \<noteq> [] \<and> sg_ProjectID grant \<noteq> tg_ProjectID target then False
      else if sg_SiteID grant \<noteq> [] \<and> sg_SiteID grant \<noteq> tg_SiteID target then False
      else if sg_AreaID grant \<noteq> [] \<and> sg_AreaID grant \<noteq> tg_AreaID target then False
      else True)"

text \<open>The test on roles that may not be granted for a whole company or tenant.\<close>

definition unbounded_grant :: "RoleAssignment \<Rightarrow> bool" where
  "unbounded_grant grant \<longleftrightarrow> ra_Role grant \<in> {RoleProjectManager, RoleInspector, RoleContractor, RoleSupport} \<and>
     TrimSpace (sg_ProjectID (ra_Scope grant)) = [] \<and> TrimSpace (sg_SiteID (ra_Scope grant)) = []"

record eval_flags =
  ef_hasScopeMismatch :: bool
  ef_hasDirectObjectMismatch :: bool
  ef_hasPrivilegeEscalation :: bool
  ef_hasUnknownRole :: bool

text \<open>What \<open>Evaluate\<close> answers after the loop.\<close>

definition default_deny :: "eval_flags \<Rightarrow> EvaluationResult" where
  "default_deny f =
     (if ef_hasUnknownRole f then Deny DenialUnknownRole ''unknown or unrecognized role''
      else if ef_hasDirectObjectMismatch f
      then Deny DenialDirectObjectMismatch ''direct object identifier does not match granted scope''
      else if ef_hasPrivilegeEscalation f then Deny DenialPrivilegeEscalation ''action exceeds granted role permissions''
      else if ef_hasScopeMismatch f then Deny DenialScopeMismatch ''grant scope does not cover target resource scope''
      else Deny DenialDefaultDeny ''access denied by default policy'')"

fun evaluate_grants :: "AccessRequest \<Rightarrow> RoleAssignment list \<Rightarrow> eval_flags \<Rightarrow> EvaluationResult" where
  "evaluate_grants req [] f = default_deny f"
| "evaluate_grants req (grant # grants) f =
     (if \<not> KnownRoles (ra_Role grant) then evaluate_grants req grants (f\<lparr>ef_hasUnknownRole := True\<rparr>)
      else if unbounded_grant grant then evaluate_grants req grants (f\<lparr>ef_hasScopeMismatch := True\<rparr>)
      else if \<not> scopeMatches (ra_Scope grant) (rq_Target req) then evaluate_grants req grants (f\<lparr>ef_hasScopeMismatch := True\<rparr>)
      else if sg_ObjectID (ra_Scope grant) \<noteq> [] \<and> sg_ObjectID (ra_Scope grant) \<noteq> tg_ObjectID (rq_Target req)
      then evaluate_grants req grants (f\<lparr>ef_hasDirectObjectMismatch := True\<rparr>)
      else if \<not> rolePermitsAction (ra_Role grant) (rq_Action req)
      then evaluate_grants req grants (f\<lparr>ef_hasPrivilegeEscalation := True\<rparr>)
      else if tg_Lifecycle (rq_Target req) = ResourceArchived \<and> ra_Role grant \<noteq> RoleAuditor \<and> ra_Role grant \<noteq> RoleTenantAdmin
      then Deny DenialArchivedRecord ''archived record access requires auditor or admin role''
      else Allow)"

definition no_flags :: eval_flags where
  "no_flags = \<lparr>ef_hasScopeMismatch = False, ef_hasDirectObjectMismatch = False, ef_hasPrivilegeEscalation = False,
     ef_hasUnknownRole = False\<rparr>"

definition Evaluate :: "AccessRequest \<Rightarrow> PolicyEvaluator \<Rightarrow> EvaluationResult" where
  "Evaluate req e =
     (let callerTenant = TrimSpace (id_TenantID (rq_Identity req)); targetTenant = TrimSpace (tg_TenantID (rq_Target req));
          subject = TrimSpace (id_Subject (rq_Identity req)); memberKey = callerTenant @ '':'' @ subject;
          assignments = pe_assignments e memberKey
      in if \<not> id_IsAuthenticated (rq_Identity req) \<or> subject = [] \<or> callerTenant = []
      then Deny DenialUnauthenticated ''caller identity is unauthenticated or missing required subject''
      else if targetTenant = [] \<or> callerTenant \<noteq> targetTenant then Deny DenialCrossTenant ''tenant boundary mismatch''
      else if dc_IsDelegated (rq_Delegation req) \<or> TrimSpace (dc_Delegator (rq_Delegation req)) \<noteq> []
      then Deny DenialDelegationNotImplemented ''delegation placeholder is not implemented and fails closed''
      else if pe_memberships e memberKey \<noteq> Some MembershipActive
      then Deny DenialInactiveMembership ''subject membership is not active in tenant''
      else if rq_RequiredEntitlement req \<noteq> [] \<and>
        (case pe_entitlements e callerTenant of None \<Rightarrow> True | Some ents \<Rightarrow> ents (rq_RequiredEntitlement req) \<noteq> Some True)
      then Deny DenialMissingEntitlement ''required tenant entitlement is not active''
      else if tg_Lifecycle (rq_Target req) = ResourceArchived \<and> rq_Action req \<noteq> ActionRead
      then Deny DenialArchivedRecord ''archived record cannot be modified''
      else if assignments = [] then Deny DenialRoleNotGranted ''no role granted to subject in tenant''
      else evaluate_grants req assignments no_flags)"

text \<open>
  The isolated evaluator that scoped and delegated access build: memberships and entitlements of another evaluator, and only the
  given assignments.
\<close>

definition scoped_evaluator :: "RoleAssignment list \<Rightarrow> PolicyEvaluator \<Rightarrow> PolicyEvaluator" where
  "scoped_evaluator assignments e =
     fold AddRoleAssignment assignments
       (NewPolicyEvaluator\<lparr>pe_memberships := pe_memberships e, pe_entitlements := pe_entitlements e\<rparr>)"

subsection \<open>The loop and its meaning\<close>

text \<open>
  What a single assignment contributes: it is of an unknown role, out of scope, locked to another object, too weak for the
  action, or it covers the request. Exactly one of the five holds.
\<close>

definition out_of_scope :: "AccessRequest \<Rightarrow> RoleAssignment \<Rightarrow> bool" where
  "out_of_scope req grant \<longleftrightarrow> KnownRoles (ra_Role grant) \<and> (unbounded_grant grant \<or> \<not> scopeMatches (ra_Scope grant) (rq_Target req))"

definition in_scope :: "AccessRequest \<Rightarrow> RoleAssignment \<Rightarrow> bool" where
  "in_scope req grant \<longleftrightarrow> KnownRoles (ra_Role grant) \<and> \<not> unbounded_grant grant \<and> scopeMatches (ra_Scope grant) (rq_Target req)"

definition other_object :: "AccessRequest \<Rightarrow> RoleAssignment \<Rightarrow> bool" where
  "other_object req grant \<longleftrightarrow> in_scope req grant \<and> sg_ObjectID (ra_Scope grant) \<notin> {[], tg_ObjectID (rq_Target req)}"

definition too_weak :: "AccessRequest \<Rightarrow> RoleAssignment \<Rightarrow> bool" where
  "too_weak req grant \<longleftrightarrow> in_scope req grant \<and> \<not> other_object req grant \<and> \<not> rolePermitsAction (ra_Role grant) (rq_Action req)"

definition covers :: "AccessRequest \<Rightarrow> RoleAssignment \<Rightarrow> bool" where
  "covers req grant \<longleftrightarrow> in_scope req grant \<and> sg_ObjectID (ra_Scope grant) \<in> {[], tg_ObjectID (rq_Target req)} \<and>
     rolePermitsAction (ra_Role grant) (rq_Action req)"

definition may_read_archive :: "RoleAssignment \<Rightarrow> bool" where
  "may_read_archive grant \<longleftrightarrow> ra_Role grant \<in> {RoleAuditor, RoleTenantAdmin}"

definition covered_decision :: "AccessRequest \<Rightarrow> RoleAssignment \<Rightarrow> EvaluationResult" where
  "covered_decision req grant =
     (if tg_Lifecycle (rq_Target req) = ResourceArchived \<and> \<not> may_read_archive grant
      then Deny DenialArchivedRecord ''archived record access requires auditor or admin role'' else Allow)"

lemma covered_decision_Allowed: "er_Allowed (covered_decision req grant) \<longleftrightarrow> tg_Lifecycle (rq_Target req) \<noteq> ResourceArchived \<or> may_read_archive grant"
  by (simp add: covered_decision_def Deny_def Allow_def)

text \<open>The policy, read declaratively: the first assignment that covers the request decides.\<close>

definition policy_decision :: "AccessRequest \<Rightarrow> RoleAssignment list \<Rightarrow> EvaluationResult" where
  "policy_decision req grants =
     (case find (covers req) grants of
        Some grant \<Rightarrow> covered_decision req grant
      | None \<Rightarrow> default_deny
          \<lparr>ef_hasScopeMismatch = list_ex (out_of_scope req) grants, ef_hasDirectObjectMismatch = list_ex (other_object req) grants,
           ef_hasPrivilegeEscalation = list_ex (too_weak req) grants,
           ef_hasUnknownRole = list_ex (\<lambda>grant. \<not> KnownRoles (ra_Role grant)) grants\<rparr>)"

lemmas grant_defs = in_scope_def out_of_scope_def other_object_def too_weak_def covers_def

lemma evaluate_grants_spec:
  "evaluate_grants req grants f =
     (case find (covers req) grants of
        Some grant \<Rightarrow> covered_decision req grant
      | None \<Rightarrow> default_deny
          \<lparr>ef_hasScopeMismatch = ef_hasScopeMismatch f \<or> list_ex (out_of_scope req) grants,
           ef_hasDirectObjectMismatch = ef_hasDirectObjectMismatch f \<or> list_ex (other_object req) grants,
           ef_hasPrivilegeEscalation = ef_hasPrivilegeEscalation f \<or> list_ex (too_weak req) grants,
           ef_hasUnknownRole = ef_hasUnknownRole f \<or> list_ex (\<lambda>grant. \<not> KnownRoles (ra_Role grant)) grants\<rparr>)"
proof (induction grants arbitrary: f)
  case Nil
  show ?case by (simp add: default_deny_def)
next
  case (Cons grant grants)
  consider (unknown) "\<not> KnownRoles (ra_Role grant)" | (scope) "out_of_scope req grant" | (object) "other_object req grant"
    | (weak) "too_weak req grant" | (cover) "covers req grant"
    by (auto simp: grant_defs)
  then show ?case
  proof cases
    case unknown
    then have no: "\<not> covers req grant" "\<not> out_of_scope req grant" "\<not> other_object req grant" "\<not> too_weak req grant"
      by (simp_all add: grant_defs)
    from unknown have "evaluate_grants req (grant # grants) f = evaluate_grants req grants (f\<lparr>ef_hasUnknownRole := True\<rparr>)" by simp
    then show ?thesis unfolding Cons.IH using no unknown by (simp split: option.split)
  next
    case scope
    then have no: "\<not> covers req grant" "KnownRoles (ra_Role grant)" "\<not> other_object req grant" "\<not> too_weak req grant"
      by (auto simp: grant_defs)
    from scope have "evaluate_grants req (grant # grants) f = evaluate_grants req grants (f\<lparr>ef_hasScopeMismatch := True\<rparr>)"
      by (auto simp: out_of_scope_def)
    then show ?thesis unfolding Cons.IH using no scope by (simp split: option.split)
  next
    case object
    then have no: "\<not> covers req grant" "KnownRoles (ra_Role grant)" "\<not> out_of_scope req grant" "\<not> too_weak req grant"
      by (auto simp: grant_defs)
    from object have "evaluate_grants req (grant # grants) f = evaluate_grants req grants (f\<lparr>ef_hasDirectObjectMismatch := True\<rparr>)"
      by (auto simp: other_object_def in_scope_def)
    then show ?thesis unfolding Cons.IH using no object by (simp split: option.split)
  next
    case weak
    then have no: "\<not> covers req grant" "KnownRoles (ra_Role grant)" "\<not> out_of_scope req grant" "\<not> other_object req grant"
      by (auto simp: grant_defs)
    from weak have "evaluate_grants req (grant # grants) f = evaluate_grants req grants (f\<lparr>ef_hasPrivilegeEscalation := True\<rparr>)"
      by (auto simp: grant_defs)
    then show ?thesis unfolding Cons.IH using no weak by (simp split: option.split)
  next
    case cover
    then show ?thesis by (simp add: covers_def in_scope_def may_read_archive_def covered_decision_def) auto
  qed
qed

lemma evaluate_grants_policy: "evaluate_grants req grants no_flags = policy_decision req grants"
  by (simp add: evaluate_grants_spec policy_decision_def no_flags_def split: option.split)

lemma default_deny_Allowed [simp]: "\<not> er_Allowed (default_deny f)"
  by (simp add: default_deny_def Deny_def)

lemma result_Allowed [simp]: "er_Allowed Allow" "\<not> er_Allowed (Deny r m)"
  by (simp_all add: Allow_def Deny_def)

lemma policy_decision_Allowed:
  "er_Allowed (policy_decision req grants) \<longleftrightarrow>
     (\<exists>grant. find (covers req) grants = Some grant \<and> (tg_Lifecycle (rq_Target req) = ResourceArchived \<longrightarrow> may_read_archive grant))"
  by (auto simp: policy_decision_def covered_decision_Allowed split: option.split)

lemma fold_AddRoleAssignment:
  "pe_memberships (fold AddRoleAssignment as e) = pe_memberships e"
  "pe_entitlements (fold AddRoleAssignment as e) = pe_entitlements e"
  "pe_assignments (fold AddRoleAssignment as e) key =
     pe_assignments e key @ filter (\<lambda>a. member_key (ra_TenantID a) (ra_Subject a) = key) as"
  by (induction as arbitrary: e) (auto simp: AddRoleAssignment_def Let_def)

lemma scoped_evaluator_simps [simp]:
  "pe_memberships (scoped_evaluator as e) = pe_memberships e"
  "pe_entitlements (scoped_evaluator as e) = pe_entitlements e"
  "pe_assignments (scoped_evaluator as e) key = filter (\<lambda>a. member_key (ra_TenantID a) (ra_Subject a) = key) as"
  by (simp_all add: scoped_evaluator_def fold_AddRoleAssignment NewPolicyEvaluator_def)

text \<open>What an allowed request implies, for the components that evaluate through this one.\<close>

lemma Evaluate_allowed_grant:
  assumes "er_Allowed (Evaluate req e)"
  obtains grant where "grant \<in> set (pe_assignments e (member_key (id_TenantID (rq_Identity req)) (id_Subject (rq_Identity req))))"
    "covers req grant"
    and "pe_memberships e (member_key (id_TenantID (rq_Identity req)) (id_Subject (rq_Identity req))) = Some MembershipActive"
proof -
  have "er_Allowed (policy_decision req (pe_assignments e (member_key (id_TenantID (rq_Identity req)) (id_Subject (rq_Identity req)))))"
    and member: "pe_memberships e (member_key (id_TenantID (rq_Identity req)) (id_Subject (rq_Identity req))) = Some MembershipActive"
    using assms unfolding Evaluate_def Let_def member_key_def evaluate_grants_policy by (auto split: if_splits)
  then obtain grant where "find (covers req) (pe_assignments e (member_key (id_TenantID (rq_Identity req)) (id_Subject (rq_Identity req)))) = Some grant"
    by (auto simp: policy_decision_Allowed)
  then have "grant \<in> set (pe_assignments e (member_key (id_TenantID (rq_Identity req)) (id_Subject (rq_Identity req)))) \<and> covers req grant"
    by (auto simp: find_Some_iff)
  with member that show thesis by blast
qed

text \<open>On a target that is not archived the decision only depends on which assignments there are.\<close>

lemma policy_decision_order:
  assumes "set grants = set grants'" and "tg_Lifecycle (rq_Target req) \<noteq> ResourceArchived"
  shows "policy_decision req grants = policy_decision req grants'"
proof -
  have "list_ex P grants = list_ex P grants'" for P using assms(1) by (simp add: list_ex_iff)
  moreover have "find (covers req) grants = None \<longleftrightarrow> find (covers req) grants' = None" using assms(1) by (simp add: find_None_iff)
  ultimately show ?thesis using assms(2) by (auto simp: policy_decision_def covered_decision_def split: option.split)
qed

lemma Evaluate_same_grants:
  assumes "pe_memberships e = pe_memberships e'" and "pe_entitlements e = pe_entitlements e'"
    and "\<And>key. set (pe_assignments e key) = set (pe_assignments e' key)" and "tg_Lifecycle (rq_Target req) \<noteq> ResourceArchived"
  shows "Evaluate req e = Evaluate req e'"
proof -
  have "pe_assignments e key = [] \<longleftrightarrow> pe_assignments e' key = []" for key using assms(3) [of key] by auto
  moreover have "policy_decision req (pe_assignments e key) = policy_decision req (pe_assignments e' key)" for key
    using assms(3,4) by (rule policy_decision_order)
  ultimately show ?thesis using assms(1,2) unfolding Evaluate_def Let_def evaluate_grants_policy by simp
qed

subsection \<open>Properties\<close>

text \<open>
  (C15) Default deny: \<open>Evaluate\<close> allows a request if and only if the caller is authenticated with a subject and a tenant, the target is of
  that tenant, no delegation is claimed, the membership is active, the required entitlement (if any) is enabled, and
  the first assignment that covers target, object and action, if the target is archived, is that of an auditor or an
  administrator and the action a read. In particular the evaluator without assignments denies everything.
\<close>

theorem Evaluate_allowed_iff:
  "er_Allowed (Evaluate req e) \<longleftrightarrow>
     (let who = rq_Identity req; key = member_key (id_TenantID who) (id_Subject who); target = rq_Target req in
      id_IsAuthenticated who \<and> TrimSpace (id_Subject who) \<noteq> [] \<and> TrimSpace (id_TenantID who) \<noteq> [] \<and>
      TrimSpace (tg_TenantID target) = TrimSpace (id_TenantID who) \<and>
      \<not> dc_IsDelegated (rq_Delegation req) \<and> TrimSpace (dc_Delegator (rq_Delegation req)) = [] \<and>
      pe_memberships e key = Some MembershipActive \<and>
      (rq_RequiredEntitlement req = [] \<or>
        (\<exists>ents. pe_entitlements e (TrimSpace (id_TenantID who)) = Some ents \<and> ents (rq_RequiredEntitlement req) = Some True)) \<and>
      (\<exists>grant. find (covers req) (pe_assignments e key) = Some grant \<and>
         (tg_Lifecycle target = ResourceArchived \<longrightarrow> rq_Action req = ActionRead \<and> may_read_archive grant)))"
proof -
  have "\<not> er_Allowed (policy_decision req [])" by (simp add: policy_decision_Allowed)
  then show ?thesis
    unfolding Evaluate_def Let_def member_key_def evaluate_grants_policy
    by (auto simp: policy_decision_Allowed split: option.splits)
qed

text \<open>
  On a target that is not archived the decision, with its reason, does not depend on the order in which the
  assignments of the caller were added.
\<close>

theorem decision_order_independent:
  assumes "pe_memberships e = pe_memberships e'" and "pe_entitlements e = pe_entitlements e'"
    and "\<And>key. set (pe_assignments e key) = set (pe_assignments e' key)" and "tg_Lifecycle (rq_Target req) \<noteq> ResourceArchived"
  shows "Evaluate req e = Evaluate req e'"
  using assms by (rule Evaluate_same_grants)

definition example_scope :: ScopeGrant where
  "example_scope = \<lparr>sg_TenantID = ''ten_1'', sg_CompanyID = [], sg_ProjectID = ''prj_1'', sg_SiteID = [], sg_AreaID = [], sg_ObjectID = []\<rparr>"

definition example_assignment :: "Role \<Rightarrow> RoleAssignment" where
  "example_assignment role = \<lparr>ra_Subject = ''usr_1'', ra_TenantID = ''ten_1'', ra_Role = role, ra_Scope = example_scope\<rparr>"

definition example_access :: "ResourceLifecycle \<Rightarrow> AccessRequest" where
  "example_access lc = \<lparr>rq_Identity = \<lparr>id_Subject = ''usr_1'', id_TenantID = ''ten_1'', id_IsAuthenticated = True\<rparr>,
     rq_Target = \<lparr>tg_TenantID = ''ten_1'', tg_CompanyID = ''cmp_1'', tg_ProjectID = ''prj_1'', tg_SiteID = ''ste_1'', tg_AreaID = [],
       tg_ObjectID = ''o1'', tg_Lifecycle = lc\<rparr>,
     rq_Action = ActionRead, rq_Delegation = \<lparr>dc_IsDelegated = False, dc_Delegator = []\<rparr>, rq_RequiredEntitlement = []\<rparr>"

definition example_evaluator :: "Role list \<Rightarrow> PolicyEvaluator" where
  "example_evaluator roles = fold (\<lambda>role. AddRoleAssignment (example_assignment role)) roles
     (SetMembership ''ten_1'' ''usr_1'' MembershipActive NewPolicyEvaluator)"

theorem Evaluate_allowed_iff_witness:
  "er_Allowed (Evaluate (example_access ResourceActive) (example_evaluator [RoleInspector])) \<and>
   \<not> er_Allowed (Evaluate (example_access ResourceActive) (example_evaluator []))"
  unfolding Evaluate_allowed_iff
  by (simp add: example_evaluator_def AddRoleAssignment_def SetMembership_def NewPolicyEvaluator_def example_access_def
      example_assignment_def example_scope_def member_key_def covers_def in_scope_def unbounded_grant_def scopeMatches_def)

theorem decision_order_independent_witness:
  "Evaluate (example_access ResourceActive) (example_evaluator [RoleViewer, RoleAuditor]) =
   Evaluate (example_access ResourceActive) (example_evaluator [RoleAuditor, RoleViewer])"
  by (rule decision_order_independent)
    (auto simp: example_evaluator_def AddRoleAssignment_def SetMembership_def NewPolicyEvaluator_def Let_def example_access_def
      example_assignment_def)

text \<open>
  On an archived target the order decides: a viewer who is also an auditor may read it when the auditor's assignment was
  added first, and may not when the viewer's was.
\<close>

theorem archived_decision_depends_on_order:
  "er_Allowed (Evaluate (example_access ResourceArchived) (example_evaluator [RoleAuditor, RoleViewer])) \<and>
   \<not> er_Allowed (Evaluate (example_access ResourceArchived) (example_evaluator [RoleViewer, RoleAuditor]))"
  by code_simp

text \<open>
  The keys join tenant and subject with a colon: what is granted to subject \<open>b:c\<close> of tenant \<open>a\<close> serves subject \<open>c\<close> of
  tenant \<open>a:b\<close>, as long as the scope of the grant does not name the tenant.
\<close>

theorem member_key_crosses_tenants:
  "er_Allowed (Evaluate
     ((example_access ResourceActive)\<lparr>rq_Identity := \<lparr>id_Subject = ''c'', id_TenantID = ''a:b'', id_IsAuthenticated = True\<rparr>,
        rq_Target := (rq_Target (example_access ResourceActive))\<lparr>tg_TenantID := ''a:b''\<rparr>\<rparr>)
     (AddRoleAssignment ((example_assignment RoleInspector)\<lparr>ra_Subject := ''b:c'', ra_TenantID := ''a'',
        ra_Scope := example_scope\<lparr>sg_TenantID := []\<rparr>\<rparr>) (SetMembership ''a'' ''b:c'' MembershipActive NewPolicyEvaluator)))"
  by code_simp

end
