(* ===== verification/Authorization_Matrix.thy ===== *)
theory Authorization_Matrix
  imports Access_Policy
begin

text \<open>
  The authorization matrix, \<open>modules/identity-authorization/authorization_matrix.go\<close>: the catalog of permissions and roles, the rules on
  separation of duties, containment and overlap of scopes, and the validation of role assignments and of delegation
  requests. A map literal whose values are all true is the list of its keys. Durations are nanoseconds;
  \<open>Time.Sub\<close> saturates far above the 30 days it is compared with, so the model subtracts.
\<close>

subsection \<open>Errors of the package\<close>

datatype identity_error =
  ErrBlankSubject | ErrBlankTenantID | ErrInvalidState | ErrMalformedToken | ErrTokenExpired | ErrTokenRevoked | ErrTokenNotFound
| ErrIdentityNotFound | ErrIdentityDisabled | ErrTenantMismatch | ErrIdentityExists

datatype matrix_error =
  ErrSODConflict | ErrExceedsSourceAuthority | ErrScopeExceedsSourceAuthority | ErrProtectedAuthorityNonDelegable
| ErrMultiHopDelegationForbidden | ErrSelfDelegationForbidden | ErrDelegationDurationExceeded | ErrInvalidScopeLevel
| ErrPermissionNotGranted | ErrUnregisteredRole | ErrInvalidDelegationWindow

datatype assignment_error =
  ErrBlankAssignmentID | ErrBlankApprovalSource | ErrRoleConflictDetected | ErrAssignmentRevoked | ErrAssignmentExpired
| ErrAssignmentNotFound | ErrDuplicateAssignmentID | ErrUnknownRole

datatype delegation_error =
  ErrBlankDelegationID | ErrEmergencyAccessDenied | ErrDelegationRevoked | ErrDelegationExpired | ErrDelegationNotFound
| ErrDuplicateDelegationID | ErrUnauthorizedChainDepth

datatype iam_error =
  IdentityErr identity_error | MatrixErr matrix_error | AssignmentErr assignment_error | DelegationErr delegation_error
| ErrInvalidSubjectFormat | ErrInvalidTimeWindow | ErrBlankReason | ErrInvalidGeneration | ErrorsNew string

definition ValidateSubject :: "string \<Rightarrow> iam_error option" where
  "ValidateSubject subject =
     (let trimmed = TrimSpace subject in
      if trimmed = [] then Some (IdentityErr ErrBlankSubject)
      else if \<not> HasPrefix trimmed ''usr_'' \<and> \<not> HasPrefix trimmed ''usr-'' then Some ErrInvalidSubjectFormat
      else None)"

subsection \<open>Catalog\<close>

definition MaxDelegationDuration :: int where
  "MaxDelegationDuration = 30 * 24 * 3600 * 1000000000"

datatype ScopeLevel =
  ScopeLevelTenant | ScopeLevelCompany | ScopeLevelProject | ScopeLevelSite | ScopeLevelArea | ScopeLevelOther string

fun ScopeLevelRank :: "ScopeLevel \<Rightarrow> nat" where
  "ScopeLevelRank ScopeLevelTenant = 5"
| "ScopeLevelRank ScopeLevelCompany = 4"
| "ScopeLevelRank ScopeLevelProject = 3"
| "ScopeLevelRank ScopeLevelSite = 2"
| "ScopeLevelRank ScopeLevelArea = 1"
| "ScopeLevelRank (ScopeLevelOther _) = 0"

type_synonym Permission = string

abbreviation PermOrgTenantRead :: Permission where "PermOrgTenantRead \<equiv> ''org:tenant:read''"
abbreviation PermOrgTenantManage :: Permission where "PermOrgTenantManage \<equiv> ''org:tenant:manage''"
abbreviation PermOrgCompanyRead :: Permission where "PermOrgCompanyRead \<equiv> ''org:company:read''"
abbreviation PermOrgCompanyManage :: Permission where "PermOrgCompanyManage \<equiv> ''org:company:manage''"
abbreviation PermOrgProjectRead :: Permission where "PermOrgProjectRead \<equiv> ''org:project:read''"
abbreviation PermOrgProjectManage :: Permission where "PermOrgProjectManage \<equiv> ''org:project:manage''"
abbreviation PermOrgSiteRead :: Permission where "PermOrgSiteRead \<equiv> ''org:site:read''"
abbreviation PermOrgSiteManage :: Permission where "PermOrgSiteManage \<equiv> ''org:site:manage''"
abbreviation PermOrgAreaRead :: Permission where "PermOrgAreaRead \<equiv> ''org:area:read''"
abbreviation PermOrgAreaManage :: Permission where "PermOrgAreaManage \<equiv> ''org:area:manage''"
abbreviation PermOrgContractorLink :: Permission where "PermOrgContractorLink \<equiv> ''org:contractor:link''"
abbreviation PermIdentityUserRead :: Permission where "PermIdentityUserRead \<equiv> ''iam:user:read''"
abbreviation PermIdentityUserManage :: Permission where "PermIdentityUserManage \<equiv> ''iam:user:manage''"
abbreviation PermIdentityRoleAssign :: Permission where "PermIdentityRoleAssign \<equiv> ''iam:role:assign''"
abbreviation PermIdentitySessionRevoke :: Permission where "PermIdentitySessionRevoke \<equiv> ''iam:session:revoke''"
abbreviation PermDirectoryRead :: Permission where "PermDirectoryRead \<equiv> ''iam:directory:read''"
abbreviation PermDirectoryManage :: Permission where "PermDirectoryManage \<equiv> ''iam:directory:manage''"
abbreviation PermInspectionRead :: Permission where "PermInspectionRead \<equiv> ''wfa:inspection:read''"
abbreviation PermInspectionCreate :: Permission where "PermInspectionCreate \<equiv> ''wfa:inspection:create''"
abbreviation PermInspectionSubmit :: Permission where "PermInspectionSubmit \<equiv> ''wfa:inspection:submit''"
abbreviation PermInspectionReview :: Permission where "PermInspectionReview \<equiv> ''wfa:inspection:review''"
abbreviation PermInspectionApprove :: Permission where "PermInspectionApprove \<equiv> ''wfa:inspection:approve''"
abbreviation PermFindingCreate :: Permission where "PermFindingCreate \<equiv> ''wfa:finding:create''"
abbreviation PermFindingRemediate :: Permission where "PermFindingRemediate \<equiv> ''wfa:finding:remediate''"
abbreviation PermFindingVerify :: Permission where "PermFindingVerify \<equiv> ''wfa:finding:verify''"
abbreviation PermAuditRead :: Permission where "PermAuditRead \<equiv> ''rec:audit:read''"
abbreviation PermAuditExport :: Permission where "PermAuditExport \<equiv> ''rec:audit:export''"
abbreviation PermRecordArchive :: Permission where "PermRecordArchive \<equiv> ''rec:record:archive''"
abbreviation PermLegalHoldManage :: Permission where "PermLegalHoldManage \<equiv> ''rec:legal_hold:manage''"
abbreviation PermPortalSnapshotStage :: Permission where "PermPortalSnapshotStage \<equiv> ''rep:snapshot:stage''"
abbreviation PermPortalSnapshotPublish :: Permission where "PermPortalSnapshotPublish \<equiv> ''rep:snapshot:publish''"
abbreviation PermPortalSnapshotWithdraw :: Permission where "PermPortalSnapshotWithdraw \<equiv> ''rep:snapshot:withdraw''"
abbreviation PermDelegationGrant :: Permission where "PermDelegationGrant \<equiv> ''iam:delegation:grant''"
abbreviation PermDelegationRevoke :: Permission where "PermDelegationRevoke \<equiv> ''iam:delegation:revoke''"

record PermissionDefinition =
  pd_ID :: Permission
  pd_OwnerModule :: string
  pd_MinScope :: ScopeLevel
  pd_Description :: string
  pd_IsProtected :: bool

record RoleDefinition =
  rd_Role :: Role
  rd_AllowedScopes :: "ScopeLevel list"
  rd_Permissions :: "Permission list"
  rd_Description :: string
  rd_IsProtectedRole :: bool
  rd_MaxDelegationDays :: int

record ConflictRule =
  cf_ID :: string
  cf_Name :: string
  cf_Description :: string
  cf_ConflictingRoles :: "Role \<times> Role"
  cf_ScopeSensitive :: bool

record DelegationRequest =
  dq_DelegatorSubject :: string
  dq_DelegatorRole :: Role
  dq_DelegatorScope :: ScopeGrant
  dq_DelegateeSubject :: string
  dq_DelegatedRole :: Role
  dq_DelegatedScope :: ScopeGrant
  dq_ValidFrom :: gotime
  dq_ValidTo :: gotime
  dq_IsSubDelegation :: bool

record AuthorizationMatrix =
  am_roles :: "Role \<rightharpoonup> RoleDefinition"
  am_permissions :: "Permission \<rightharpoonup> PermissionDefinition"
  am_conflicts :: "ConflictRule list"

definition PD :: "Permission \<Rightarrow> string \<Rightarrow> ScopeLevel \<Rightarrow> string \<Rightarrow> bool \<Rightarrow> PermissionDefinition" where
  "PD i owner minScope desc protected_perm =
     \<lparr>pd_ID = i, pd_OwnerModule = owner, pd_MinScope = minScope, pd_Description = desc, pd_IsProtected = protected_perm\<rparr>"

definition catalog_permissions :: "PermissionDefinition list" where
  "catalog_permissions =
     [(PD PermOrgTenantRead ''MOD-ORG'' ScopeLevelTenant ''Read tenant metadata'' False),
      (PD PermOrgTenantManage ''MOD-ORG'' ScopeLevelTenant ''Configure tenant and root policies'' True),
      (PD PermOrgCompanyRead ''MOD-ORG'' ScopeLevelCompany ''Read company hierarchy'' False),
      (PD PermOrgCompanyManage ''MOD-ORG'' ScopeLevelCompany ''Manage company settings'' False),
      (PD PermOrgProjectRead ''MOD-ORG'' ScopeLevelProject ''Read project information'' False),
      (PD PermOrgProjectManage ''MOD-ORG'' ScopeLevelProject ''Manage project boundaries'' False),
      (PD PermOrgSiteRead ''MOD-ORG'' ScopeLevelSite ''Read site configurations'' False),
      (PD PermOrgSiteManage ''MOD-ORG'' ScopeLevelSite ''Manage site entities'' False),
      (PD PermOrgAreaRead ''MOD-ORG'' ScopeLevelArea ''Read area designations'' False),
      (PD PermOrgAreaManage ''MOD-ORG'' ScopeLevelArea ''Manage area zones'' False),
      (PD PermOrgContractorLink ''MOD-ORG'' ScopeLevelProject ''Sponsor and link external contractors'' False),
      (PD PermIdentityUserRead ''MOD-IAM'' ScopeLevelTenant ''Read user accounts'' False),
      (PD PermIdentityUserManage ''MOD-IAM'' ScopeLevelTenant ''Manage user lifecycles'' True),
      (PD PermIdentityRoleAssign ''MOD-IAM'' ScopeLevelTenant ''Assign roles and scope grants'' True),
      (PD PermIdentitySessionRevoke ''MOD-IAM'' ScopeLevelTenant ''Revoke active session tokens'' True),
      (PD PermDirectoryRead ''MOD-IAM'' ScopeLevelProject ''Query scoped directory profiles'' False),
      (PD PermDirectoryManage ''MOD-IAM'' ScopeLevelCompany ''Manage directory profile entries'' False),
      (PD PermInspectionRead ''MOD-WFA'' ScopeLevelProject ''Read inspection forms and logs'' False),
      (PD PermInspectionCreate ''MOD-WFA'' ScopeLevelProject ''Create and execute inspections'' False),
      (PD PermInspectionSubmit ''MOD-WFA'' ScopeLevelProject ''Submit completed inspections for review'' False),
      (PD PermInspectionReview ''MOD-WFA'' ScopeLevelProject ''Review inspection submissions'' False),
      (PD PermInspectionApprove ''MOD-WFA'' ScopeLevelProject ''Formally approve inspection results'' False),
      (PD PermFindingCreate ''MOD-WFA'' ScopeLevelSite ''Log safety findings'' False),
      (PD PermFindingRemediate ''MOD-WFA'' ScopeLevelSite ''Submit remediation actions for findings'' False),
      (PD PermFindingVerify ''MOD-WFA'' ScopeLevelSite ''Verify and close remediated findings'' False),
      (PD PermAuditRead ''MOD-REC'' ScopeLevelCompany ''Read append-only audit journals'' False),
      (PD PermAuditExport ''MOD-REC'' ScopeLevelTenant ''Export compliance audit packages'' True),
      (PD PermRecordArchive ''MOD-REC'' ScopeLevelProject ''Transition records to archived state'' False),
      (PD PermLegalHoldManage ''MOD-REC'' ScopeLevelTenant ''Manage legal hold freezes'' True),
      (PD PermPortalSnapshotStage ''MOD-REP'' ScopeLevelProject ''Stage static portal snapshots'' False),
      (PD PermPortalSnapshotPublish ''MOD-REP'' ScopeLevelTenant ''Approve and publish portal snapshots'' True),
      (PD PermPortalSnapshotWithdraw ''MOD-REP'' ScopeLevelTenant ''Withdraw published portal snapshots'' True),
      (PD PermDelegationGrant ''MOD-IAM'' ScopeLevelProject ''Grant time-bounded role delegation'' True),
      (PD PermDelegationRevoke ''MOD-IAM'' ScopeLevelProject ''Revoke active delegation grants'' False)]"

definition RoleTenantAdmin_definition :: RoleDefinition where
  "RoleTenantAdmin_definition =
     \<lparr>rd_Role = RoleTenantAdmin, rd_AllowedScopes = [ScopeLevelTenant],
      rd_Permissions =
        [PermOrgTenantRead, PermOrgTenantManage, PermOrgCompanyRead, PermOrgCompanyManage, PermOrgProjectRead,
         PermOrgProjectManage, PermOrgSiteRead, PermOrgSiteManage, PermOrgAreaRead, PermOrgAreaManage,
         PermOrgContractorLink, PermIdentityUserRead, PermIdentityUserManage, PermIdentityRoleAssign, PermIdentitySessionRevoke,
         PermDirectoryRead, PermDirectoryManage, PermInspectionRead, PermInspectionCreate, PermInspectionSubmit,
         PermInspectionReview, PermInspectionApprove, PermFindingCreate, PermFindingRemediate, PermFindingVerify,
         PermAuditRead, PermAuditExport, PermRecordArchive, PermLegalHoldManage, PermPortalSnapshotStage,
         PermPortalSnapshotPublish, PermPortalSnapshotWithdraw, PermDelegationGrant, PermDelegationRevoke],
      rd_Description = ''Authoritative tenant administrator with sovereign configuration rights'',
      rd_IsProtectedRole = True, rd_MaxDelegationDays = 0\<rparr>"

definition RoleProjectManager_definition :: RoleDefinition where
  "RoleProjectManager_definition =
     \<lparr>rd_Role = RoleProjectManager, rd_AllowedScopes = [ScopeLevelProject, ScopeLevelSite],
      rd_Permissions =
        [PermOrgProjectRead, PermOrgProjectManage, PermOrgSiteRead, PermOrgSiteManage, PermOrgAreaRead,
         PermOrgAreaManage, PermOrgContractorLink, PermDirectoryRead, PermInspectionRead, PermInspectionCreate,
         PermInspectionSubmit, PermInspectionReview, PermInspectionApprove, PermFindingCreate, PermFindingRemediate,
         PermFindingVerify, PermRecordArchive, PermPortalSnapshotStage, PermDelegationGrant, PermDelegationRevoke],
      rd_Description = ''Operational project manager governing inspections and site teams'',
      rd_IsProtectedRole = False, rd_MaxDelegationDays = 14\<rparr>"

definition RoleInspector_definition :: RoleDefinition where
  "RoleInspector_definition =
     \<lparr>rd_Role = RoleInspector, rd_AllowedScopes = [ScopeLevelProject, ScopeLevelSite, ScopeLevelArea],
      rd_Permissions =
        [PermOrgProjectRead, PermOrgSiteRead, PermOrgAreaRead, PermDirectoryRead, PermInspectionRead,
         PermInspectionCreate, PermInspectionSubmit, PermFindingCreate, PermFindingRemediate],
      rd_Description = ''Field safety inspector logging observations and findings'',
      rd_IsProtectedRole = False, rd_MaxDelegationDays = 7\<rparr>"

definition RoleAuditor_definition :: RoleDefinition where
  "RoleAuditor_definition =
     \<lparr>rd_Role = RoleAuditor, rd_AllowedScopes = [ScopeLevelTenant, ScopeLevelCompany, ScopeLevelProject, ScopeLevelSite],
      rd_Permissions =
        [PermOrgTenantRead, PermOrgCompanyRead, PermOrgProjectRead, PermOrgSiteRead, PermOrgAreaRead,
         PermDirectoryRead, PermInspectionRead, PermAuditRead, PermAuditExport],
      rd_Description = ''Independent oversight auditor with zero operational create/update rights'',
      rd_IsProtectedRole = False, rd_MaxDelegationDays = 14\<rparr>"

definition RoleViewer_definition :: RoleDefinition where
  "RoleViewer_definition =
     \<lparr>rd_Role = RoleViewer, rd_AllowedScopes = [ScopeLevelTenant, ScopeLevelCompany, ScopeLevelProject, ScopeLevelSite, ScopeLevelArea],
      rd_Permissions =
        [PermOrgProjectRead, PermOrgSiteRead, PermOrgAreaRead, PermDirectoryRead, PermInspectionRead],
      rd_Description = ''Passive read-only participant for status and dashboard reviews'',
      rd_IsProtectedRole = False, rd_MaxDelegationDays = 30\<rparr>"

definition RoleContractor_definition :: RoleDefinition where
  "RoleContractor_definition =
     \<lparr>rd_Role = RoleContractor, rd_AllowedScopes = [ScopeLevelProject, ScopeLevelSite, ScopeLevelArea],
      rd_Permissions =
        [PermOrgSiteRead, PermOrgAreaRead, PermDirectoryRead, PermInspectionRead, PermInspectionCreate,
         PermFindingRemediate],
      rd_Description = ''External contractor bounded strictly to assigned project and site tasks'',
      rd_IsProtectedRole = False, rd_MaxDelegationDays = 7\<rparr>"

definition RoleSupport_definition :: RoleDefinition where
  "RoleSupport_definition =
     \<lparr>rd_Role = RoleSupport, rd_AllowedScopes = [ScopeLevelProject, ScopeLevelSite],
      rd_Permissions =
        [PermOrgProjectRead, PermOrgSiteRead, PermDirectoryRead, PermInspectionRead],
      rd_Description = ''Technical support role for diagnostic review'',
      rd_IsProtectedRole = False, rd_MaxDelegationDays = 3\<rparr>"

definition catalog_roles :: "RoleDefinition list" where
  "catalog_roles =
     [RoleTenantAdmin_definition, RoleProjectManager_definition, RoleInspector_definition, RoleAuditor_definition,
      RoleViewer_definition, RoleContractor_definition, RoleSupport_definition]"

text \<open>The conflict rule on self-delegation names no roles: both entries of its array are the empty role.\<close>

definition conflict_rules :: "ConflictRule list" where
  "conflict_rules =
     [\<lparr>cf_ID = ''SOD-01-INSPECTOR-AUDITOR'', cf_Name = ''Inspector vs. Auditor Separation'',
       cf_Description = ''An Inspector cannot concurrently hold Auditor privileges within overlapping project/company scopes'',
       cf_ConflictingRoles = (RoleInspector, RoleAuditor), cf_ScopeSensitive = True\<rparr>,
      \<lparr>cf_ID = ''SOD-02-CONTRACTOR-ADMIN'', cf_Name = ''Contractor vs. Tenant Admin Separation'',
       cf_Description = ''An external contractor cannot hold administrative or project management authority'',
       cf_ConflictingRoles = (RoleContractor, RoleTenantAdmin), cf_ScopeSensitive = False\<rparr>,
      \<lparr>cf_ID = ''SOD-02B-CONTRACTOR-PM'', cf_Name = ''Contractor vs. Project Manager Separation'',
       cf_Description = ''An external contractor cannot concurrently hold Project Manager authority'',
       cf_ConflictingRoles = (RoleContractor, RoleProjectManager), cf_ScopeSensitive = True\<rparr>,
      \<lparr>cf_ID = ''SOD-03-SUBMIT-APPROVE'', cf_Name = ''Inspection Submitter vs. Approver Separation'',
       cf_Description = ''Inspection creation and formal approval require separate role functions'',
       cf_ConflictingRoles = (RoleContractor, RoleProjectManager), cf_ScopeSensitive = True\<rparr>,
      \<lparr>cf_ID = ''SOD-05-DELEGATION-SELF-GRANT'', cf_Name = ''Self-Delegation Prohibition'',
       cf_Description = ''A delegator cannot delegate permissions to themselves'',
       cf_ConflictingRoles = (RoleOther [], RoleOther []), cf_ScopeSensitive = False\<rparr>]"

definition NewProvisionalAuthorizationMatrix :: AuthorizationMatrix where
  "NewProvisionalAuthorizationMatrix =
     \<lparr>am_roles = map_of (map (\<lambda>d. (rd_Role d, d)) catalog_roles),
      am_permissions = fold (\<lambda>p m. m(pd_ID p \<mapsto> p)) catalog_permissions Map.empty,
      am_conflicts = conflict_rules\<rparr>"

subsection \<open>Operations\<close>

definition GetRoleDefinition :: "Role \<Rightarrow> AuthorizationMatrix \<Rightarrow> RoleDefinition option" where
  "GetRoleDefinition r m = am_roles m r"

definition GetPermissionDefinition :: "Permission \<Rightarrow> AuthorizationMatrix \<Rightarrow> PermissionDefinition option" where
  "GetPermissionDefinition p m = am_permissions m p"

definition RoleHasPermission :: "Role \<Rightarrow> Permission \<Rightarrow> AuthorizationMatrix \<Rightarrow> bool" where
  "RoleHasPermission r p m = (case am_roles m r of None \<Rightarrow> False | Some d \<Rightarrow> p \<in> set (rd_Permissions d))"

text \<open>Ranging over the map of permissions: the order of the keys is an argument.\<close>

definition ProtectedPermissions :: "Permission list \<Rightarrow> AuthorizationMatrix \<Rightarrow> PermissionDefinition list" where
  "ProtectedPermissions key_order m = filter pd_IsProtected (List.map_filter (am_permissions m) key_order)"

definition ResolveScopeLevel :: "ScopeGrant \<Rightarrow> ScopeLevel" where
  "ResolveScopeLevel grant =
     (if sg_AreaID grant \<noteq> [] then ScopeLevelArea
      else if sg_SiteID grant \<noteq> [] then ScopeLevelSite
      else if sg_ProjectID grant \<noteq> [] then ScopeLevelProject
      else if sg_CompanyID grant \<noteq> [] then ScopeLevelCompany
      else ScopeLevelTenant)"

definition CheckScopesOverlap :: "ScopeGrant \<Rightarrow> ScopeGrant \<Rightarrow> bool" where
  "CheckScopesOverlap a b =
     (if sg_TenantID a \<noteq> [] \<and> sg_TenantID b \<noteq> [] \<and> sg_TenantID a \<noteq> sg_TenantID b then False
      else if sg_CompanyID a \<noteq> [] \<and> sg_CompanyID b \<noteq> [] \<and> sg_CompanyID a \<noteq> sg_CompanyID b then False
      else if sg_ProjectID a \<noteq> [] \<and> sg_ProjectID b \<noteq> [] \<and> sg_ProjectID a \<noteq> sg_ProjectID b then False
      else if sg_SiteID a \<noteq> [] \<and> sg_SiteID b \<noteq> [] \<and> sg_SiteID a \<noteq> sg_SiteID b then False
      else if sg_AreaID a \<noteq> [] \<and> sg_AreaID b \<noteq> [] \<and> sg_AreaID a \<noteq> sg_AreaID b then False
      else True)"

definition ScopeContains :: "ScopeGrant \<Rightarrow> ScopeGrant \<Rightarrow> bool" where
  "ScopeContains outer inner =
     (if sg_TenantID outer \<noteq> [] \<and> sg_TenantID outer \<noteq> sg_TenantID inner then False
      else if sg_CompanyID outer \<noteq> [] \<and> sg_CompanyID outer \<noteq> sg_CompanyID inner then False
      else if sg_ProjectID outer \<noteq> [] \<and> sg_ProjectID outer \<noteq> sg_ProjectID inner then False
      else if sg_SiteID outer \<noteq> [] \<and> sg_SiteID outer \<noteq> sg_SiteID inner then False
      else if sg_AreaID outer \<noteq> [] \<and> sg_AreaID outer \<noteq> sg_AreaID inner then False
      else True)"

definition conflicting :: "ConflictRule \<Rightarrow> RoleAssignment \<Rightarrow> RoleAssignment \<Rightarrow> bool" where
  "conflicting r ex assignment \<longleftrightarrow> ra_Subject ex = ra_Subject assignment \<and>
     ((ra_Role ex, ra_Role assignment) = cf_ConflictingRoles r \<or> (ra_Role assignment, ra_Role ex) = cf_ConflictingRoles r) \<and>
     (\<not> cf_ScopeSensitive r \<or> CheckScopesOverlap (ra_Scope ex) (ra_Scope assignment))"

definition ValidateRoleAssignment ::
  "RoleAssignment list \<Rightarrow> RoleAssignment \<Rightarrow> AuthorizationMatrix \<Rightarrow> iam_error option" where
  "ValidateRoleAssignment existing assignment m =
     (case am_roles m (ra_Role assignment) of
        None \<Rightarrow> Some (MatrixErr ErrUnregisteredRole)
      | Some roleDef \<Rightarrow>
          if ResolveScopeLevel (ra_Scope assignment) \<notin> set (rd_AllowedScopes roleDef) then Some (MatrixErr ErrInvalidScopeLevel)
          else if list_ex (\<lambda>r. list_ex (\<lambda>ex. conflicting r ex assignment) existing) (am_conflicts m)
          then Some (MatrixErr ErrSODConflict)
          else None)"

definition days :: "int \<Rightarrow> int" where
  "days n = n * (24 * 3600 * 1000000000)"

definition ValidateDelegationRequest :: "DelegationRequest \<Rightarrow> AuthorizationMatrix \<Rightarrow> iam_error option" where
  "ValidateDelegationRequest req m =
     (let duration = dq_ValidTo req - dq_ValidFrom req in
      if dq_IsSubDelegation req then Some (MatrixErr ErrMultiHopDelegationForbidden)
      else if TrimSpace (dq_DelegatorSubject req) = TrimSpace (dq_DelegateeSubject req) then Some (MatrixErr ErrSelfDelegationForbidden)
      else if dq_ValidTo req < dq_ValidFrom req \<or> dq_ValidTo req = dq_ValidFrom req then Some (MatrixErr ErrInvalidDelegationWindow)
      else if MaxDelegationDuration < duration then Some (MatrixErr ErrDelegationDurationExceeded)
      else case am_roles m (dq_DelegatorRole req) of None \<Rightarrow> Some (MatrixErr ErrUnregisteredRole)
      | Some delegatorDef \<Rightarrow>
        if rd_IsProtectedRole delegatorDef then Some (MatrixErr ErrProtectedAuthorityNonDelegable)
        else case am_roles m (dq_DelegatedRole req) of None \<Rightarrow> Some (MatrixErr ErrUnregisteredRole)
        | Some delegatedDef \<Rightarrow>
          if rd_IsProtectedRole delegatedDef then Some (MatrixErr ErrProtectedAuthorityNonDelegable)
          else if 0 < rd_MaxDelegationDays delegatorDef \<and> days (rd_MaxDelegationDays delegatorDef) < duration
          then Some (MatrixErr ErrDelegationDurationExceeded)
          else if \<not> list_all (\<lambda>perm. perm \<in> set (rd_Permissions delegatorDef)) (rd_Permissions delegatedDef)
          then Some (MatrixErr ErrExceedsSourceAuthority)
          else if \<not> ScopeContains (dq_DelegatorScope req) (dq_DelegatedScope req)
          then Some (MatrixErr ErrScopeExceedsSourceAuthority)
          else None)"

subsection \<open>Scopes as sets of targets\<close>

text \<open>
  A field of a scope restricts the targets when it is not blank. The three tests on scopes are conjunctions over the five
  fields.
\<close>

definition field_matches :: "string \<Rightarrow> string \<Rightarrow> bool" where
  "field_matches g t \<longleftrightarrow> g = [] \<or> g = t"

definition fields_overlap :: "string \<Rightarrow> string \<Rightarrow> bool" where
  "fields_overlap a b \<longleftrightarrow> a = [] \<or> b = [] \<or> a = b"

lemma scopeMatches_fields:
  "scopeMatches g t \<longleftrightarrow> field_matches (sg_TenantID g) (tg_TenantID t) \<and> field_matches (sg_CompanyID g) (tg_CompanyID t) \<and>
     field_matches (sg_ProjectID g) (tg_ProjectID t) \<and> field_matches (sg_SiteID g) (tg_SiteID t) \<and> field_matches (sg_AreaID g) (tg_AreaID t)"
  by (simp add: scopeMatches_def field_matches_def)

lemma ScopeContains_fields:
  "ScopeContains a b \<longleftrightarrow> field_matches (sg_TenantID a) (sg_TenantID b) \<and> field_matches (sg_CompanyID a) (sg_CompanyID b) \<and>
     field_matches (sg_ProjectID a) (sg_ProjectID b) \<and> field_matches (sg_SiteID a) (sg_SiteID b) \<and> field_matches (sg_AreaID a) (sg_AreaID b)"
  by (simp add: ScopeContains_def field_matches_def)

lemma CheckScopesOverlap_fields:
  "CheckScopesOverlap a b \<longleftrightarrow> fields_overlap (sg_TenantID a) (sg_TenantID b) \<and> fields_overlap (sg_CompanyID a) (sg_CompanyID b) \<and>
     fields_overlap (sg_ProjectID a) (sg_ProjectID b) \<and> fields_overlap (sg_SiteID a) (sg_SiteID b) \<and> fields_overlap (sg_AreaID a) (sg_AreaID b)"
  by (auto simp: CheckScopesOverlap_def fields_overlap_def)

definition common_field :: "string \<Rightarrow> string \<Rightarrow> string" where
  "common_field a b = (if a = [] then b else a)"

lemma fields_overlap_common: "fields_overlap a b \<longleftrightarrow> field_matches a (common_field a b) \<and> field_matches b (common_field a b)"
  by (auto simp: fields_overlap_def field_matches_def common_field_def)

lemma field_matches_both: "field_matches a t \<Longrightarrow> field_matches b t \<Longrightarrow> fields_overlap a b"
  by (auto simp: fields_overlap_def field_matches_def)

lemma field_matches_trans: "field_matches a b \<Longrightarrow> field_matches b t \<Longrightarrow> field_matches a t"
  by (auto simp: field_matches_def)

text \<open>A value that a field matches, but no other nonblank field does.\<close>

definition own_field :: "string \<Rightarrow> string \<Rightarrow> string" where
  "own_field a b = (if b = [] then CHR ''x'' # a else b)"

lemma own_field: "field_matches b (own_field a b)" "field_matches a (own_field a b) \<longleftrightarrow> field_matches a b"
  by (auto simp: field_matches_def own_field_def)

definition own_target :: "ScopeGrant \<Rightarrow> ScopeGrant \<Rightarrow> TargetResource" where
  "own_target a b = \<lparr>tg_TenantID = own_field (sg_TenantID a) (sg_TenantID b), tg_CompanyID = own_field (sg_CompanyID a) (sg_CompanyID b),
     tg_ProjectID = own_field (sg_ProjectID a) (sg_ProjectID b), tg_SiteID = own_field (sg_SiteID a) (sg_SiteID b),
     tg_AreaID = own_field (sg_AreaID a) (sg_AreaID b), tg_ObjectID = [], tg_Lifecycle = ResourceActive\<rparr>"

definition common_target :: "ScopeGrant \<Rightarrow> ScopeGrant \<Rightarrow> TargetResource" where
  "common_target a b = \<lparr>tg_TenantID = common_field (sg_TenantID a) (sg_TenantID b), tg_CompanyID = common_field (sg_CompanyID a) (sg_CompanyID b),
     tg_ProjectID = common_field (sg_ProjectID a) (sg_ProjectID b), tg_SiteID = common_field (sg_SiteID a) (sg_SiteID b),
     tg_AreaID = common_field (sg_AreaID a) (sg_AreaID b), tg_ObjectID = [], tg_Lifecycle = ResourceActive\<rparr>"

lemma ScopeContains_matches: "ScopeContains outer inner \<Longrightarrow> scopeMatches inner t \<Longrightarrow> scopeMatches outer t"
  unfolding ScopeContains_fields scopeMatches_fields by (blast intro: field_matches_trans)

subsection \<open>Properties\<close>

text \<open>
  The tests on scopes mean what their names say: two scopes overlap exactly when some target lies in both, and one contains the
  other exactly when every target of the inner scope is a target of the outer one (direct object locks apart, which
  these tests do not look at).
\<close>

theorem scope_tests_meaning:
  "(CheckScopesOverlap a b \<longleftrightarrow> (\<exists>t. scopeMatches a t \<and> scopeMatches b t)) \<and>
   (ScopeContains a b \<longleftrightarrow> (\<forall>t. scopeMatches b t \<longrightarrow> scopeMatches a t))"
proof (intro conjI iffI)
  assume "CheckScopesOverlap a b"
  then have "scopeMatches a (common_target a b) \<and> scopeMatches b (common_target a b)"
    unfolding CheckScopesOverlap_fields scopeMatches_fields by (simp add: common_target_def fields_overlap_common)
  then show "\<exists>t. scopeMatches a t \<and> scopeMatches b t" by blast
next
  assume "\<exists>t. scopeMatches a t \<and> scopeMatches b t"
  then show "CheckScopesOverlap a b"
    unfolding CheckScopesOverlap_fields scopeMatches_fields by (blast intro: field_matches_both)
next
  assume "ScopeContains a b"
  then show "\<forall>t. scopeMatches b t \<longrightarrow> scopeMatches a t" using ScopeContains_matches by blast
next
  have "scopeMatches b (own_target a b)" by (simp add: scopeMatches_fields own_target_def own_field(1))
  moreover assume "\<forall>t. scopeMatches b t \<longrightarrow> scopeMatches a t"
  ultimately have "scopeMatches a (own_target a b)" by blast
  then show "ScopeContains a b" by (simp add: scopeMatches_fields own_target_def own_field(2) ScopeContains_fields)
qed

text \<open>The pairs of catalog roles whose permissions are contained, and the actions they permit.\<close>

definition all_actions :: "Action list" where
  "all_actions = [ActionRead, ActionCreate, ActionUpdate, ActionDelete, ActionExport]"

lemma catalog_containment:
  "list_all (\<lambda>d1. list_all (\<lambda>d2. list_all (\<lambda>p. p \<in> set (rd_Permissions d1)) (rd_Permissions d2) \<longrightarrow>
     list_all (\<lambda>a. rolePermitsAction (rd_Role d2) a \<longrightarrow> rolePermitsAction (rd_Role d1) a) all_actions) catalog_roles) catalog_roles"
  by code_simp

lemma catalog_role:
  assumes "am_roles NewProvisionalAuthorizationMatrix r = Some d"
  shows "d \<in> set catalog_roles" and "rd_Role d = r"
  using assms by (auto simp: NewProvisionalAuthorizationMatrix_def dest!: map_of_SomeD)

lemma protected_roles: "list_all (\<lambda>d. rd_IsProtectedRole d \<longleftrightarrow> rd_Role d = RoleTenantAdmin) catalog_roles"
  by code_simp

lemma rolePermits_other: "r \<noteq> RoleTenantAdmin \<Longrightarrow> \<not> rolePermitsAction r (ActionOther s)"
  by (cases r) simp_all

lemma valid_delegation:
  assumes "ValidateDelegationRequest req NewProvisionalAuthorizationMatrix = None"
  obtains d1 d2 where "am_roles NewProvisionalAuthorizationMatrix (dq_DelegatorRole req) = Some d1"
    "am_roles NewProvisionalAuthorizationMatrix (dq_DelegatedRole req) = Some d2"
    "set (rd_Permissions d2) \<subseteq> set (rd_Permissions d1)"
    "\<And>a. rolePermitsAction (dq_DelegatedRole req) a \<Longrightarrow> rolePermitsAction (dq_DelegatorRole req) a"
    "\<And>t. scopeMatches (dq_DelegatedScope req) t \<Longrightarrow> scopeMatches (dq_DelegatorScope req) t"
    "dq_DelegatorRole req \<noteq> RoleTenantAdmin" "dq_DelegatedRole req \<noteq> RoleTenantAdmin"
    "TrimSpace (dq_DelegatorSubject req) \<noteq> TrimSpace (dq_DelegateeSubject req)" "dq_ValidFrom req < dq_ValidTo req"
    "dq_ValidTo req - dq_ValidFrom req \<le> days 30"
proof -
  obtain d1 d2 where d: "am_roles NewProvisionalAuthorizationMatrix (dq_DelegatorRole req) = Some d1"
      "am_roles NewProvisionalAuthorizationMatrix (dq_DelegatedRole req) = Some d2"
      "list_all (\<lambda>p. p \<in> set (rd_Permissions d1)) (rd_Permissions d2)" "\<not> rd_IsProtectedRole d1" "\<not> rd_IsProtectedRole d2"
    and scope: "ScopeContains (dq_DelegatorScope req) (dq_DelegatedScope req)"
    and rest: "TrimSpace (dq_DelegatorSubject req) \<noteq> TrimSpace (dq_DelegateeSubject req)" "dq_ValidFrom req < dq_ValidTo req"
      "dq_ValidTo req - dq_ValidFrom req \<le> MaxDelegationDuration"
    using assms by (auto simp: ValidateDelegationRequest_def Let_def split: if_splits option.splits)
  have mem: "d1 \<in> set catalog_roles" "d2 \<in> set catalog_roles" and role: "rd_Role d1 = dq_DelegatorRole req" "rd_Role d2 = dq_DelegatedRole req"
    using catalog_role [OF d(1)] catalog_role [OF d(2)] by simp_all
  then have admin: "dq_DelegatorRole req \<noteq> RoleTenantAdmin" "dq_DelegatedRole req \<noteq> RoleTenantAdmin"
    using d(4,5) protected_roles by (auto simp: list_all_iff)
  have actions: "list_all (\<lambda>a. rolePermitsAction (rd_Role d2) a \<longrightarrow> rolePermitsAction (rd_Role d1) a) all_actions"
    using catalog_containment mem d(3) unfolding list_all_iff by blast
  have "rolePermitsAction (dq_DelegatorRole req) a" if "rolePermitsAction (dq_DelegatedRole req) a" for a
    using actions that rolePermits_other [OF admin(2)] unfolding role by (cases a) (auto simp: all_actions_def)
  with d scope rest admin show thesis
    by (intro that [of d1 d2]) (auto simp: list_all_iff MaxDelegationDuration_def days_def intro: ScopeContains_matches)
qed

text \<open>
  Delegation never elevates: when the provisional matrix accepts a delegation request, the delegated role permits no action that the
  delegator's role does not permit and none of its matrix permissions is missing from the delegator's, the delegated scope
  reaches no target outside the delegator's scope, neither role is the protected tenant administrator, the
  two subjects differ, and the window is not empty and at most 30 days long.
\<close>

theorem delegation_never_elevates:
  assumes "ValidateDelegationRequest req NewProvisionalAuthorizationMatrix = None"
  shows "(rolePermitsAction (dq_DelegatedRole req) a \<longrightarrow> rolePermitsAction (dq_DelegatorRole req) a) \<and>
    (RoleHasPermission (dq_DelegatedRole req) p NewProvisionalAuthorizationMatrix \<longrightarrow>
       RoleHasPermission (dq_DelegatorRole req) p NewProvisionalAuthorizationMatrix) \<and>
    (scopeMatches (dq_DelegatedScope req) t \<longrightarrow> scopeMatches (dq_DelegatorScope req) t) \<and>
    dq_DelegatorRole req \<noteq> RoleTenantAdmin \<and> dq_DelegatedRole req \<noteq> RoleTenantAdmin \<and>
    TrimSpace (dq_DelegatorSubject req) \<noteq> TrimSpace (dq_DelegateeSubject req) \<and>
    dq_ValidFrom req < dq_ValidTo req \<and> dq_ValidTo req - dq_ValidFrom req \<le> days 30"
  using assms by (rule valid_delegation) (auto simp: RoleHasPermission_def)

definition example_delegation_request :: DelegationRequest where
  "example_delegation_request = \<lparr>dq_DelegatorSubject = ''usr_1'', dq_DelegatorRole = RoleProjectManager, dq_DelegatorScope = example_scope,
     dq_DelegateeSubject = ''usr_2'', dq_DelegatedRole = RoleInspector, dq_DelegatedScope = example_scope\<lparr>sg_SiteID := ''ste_1''\<rparr>,
     dq_ValidFrom = 1, dq_ValidTo = 2, dq_IsSubDelegation = False\<rparr>"

lemma example_delegation_valid: "ValidateDelegationRequest example_delegation_request NewProvisionalAuthorizationMatrix = None"
  by code_simp

theorem delegation_never_elevates_witness:
  "rolePermitsAction (dq_DelegatorRole example_delegation_request) ActionUpdate \<and>
   dq_ValidTo example_delegation_request - dq_ValidFrom example_delegation_request \<le> days 30"
proof -
  have "rolePermitsAction (dq_DelegatedRole example_delegation_request) ActionUpdate" by (simp add: example_delegation_request_def)
  with delegation_never_elevates [OF example_delegation_valid, of ActionUpdate] show ?thesis by blast
qed

theorem scope_tests_meaning_witness:
  "CheckScopesOverlap example_scope (example_scope\<lparr>sg_SiteID := ''ste_1''\<rparr>) \<and>
   (\<exists>t. scopeMatches example_scope t \<and> scopeMatches (example_scope\<lparr>sg_SiteID := ''ste_1''\<rparr>) t)"
proof -
  have "CheckScopesOverlap example_scope (example_scope\<lparr>sg_SiteID := ''ste_1''\<rparr>)" by code_simp
  with scope_tests_meaning [of example_scope "example_scope\<lparr>sg_SiteID := ''ste_1''\<rparr>"] show ?thesis by blast
qed

text \<open>
  The catalog is consistent: every permission a role holds is catalogued, and the protected ones belong to the
  tenant administrator, except that auditors may export audit packages and project managers may grant delegations.
\<close>

theorem catalog_consistent:
  "distinct (map pd_ID catalog_permissions) \<and>
   list_all (\<lambda>d. list_all (\<lambda>p. list_ex (\<lambda>q. pd_ID q = p \<and> (pd_IsProtected q \<longrightarrow>
       (rd_Role d, p) \<in> {(RoleAuditor, PermAuditExport), (RoleProjectManager, PermDelegationGrant)} \<or> rd_Role d = RoleTenantAdmin))
     catalog_permissions) (rd_Permissions d)) catalog_roles"
  by code_simp

text \<open>
  Containment ignores direct object locks: a delegator whose scope is locked to one object may delegate the whole scope.
\<close>

theorem delegation_drops_object_lock:
  "ValidateDelegationRequest (example_delegation_request\<lparr>dq_DelegatorScope := example_scope\<lparr>sg_ObjectID := ''o1''\<rparr>,
     dq_DelegatedScope := example_scope\<rparr>) NewProvisionalAuthorizationMatrix = None"
  by code_simp

end
