(* ===== verification/Delegation.thy ===== *)
theory Delegation
  imports Authorization_Matrix
begin

text \<open>
  Delegation, \<open>modules/identity-authorization/delegation_control.go\<close>: time-bounded grants from one subject to another, their registry with an
  append-only ledger, revocation, and access on the strength of a delegation. The registry ranges over its map in an
  order Go leaves open; the order of the keys is an argument. \<open>time.Now()\<close> is an argument of the constructor.
\<close>

subsection \<open>Definitions\<close>

definition MaxDelegationChainDepth :: int where "MaxDelegationChainDepth = 1"

datatype DelegationState = DelegationStateActive | DelegationStateRevoked | DelegationStateExpired | DelegationStateOther string

definition AssertEmergencyAccessDenied :: "bool \<Rightarrow> iam_error option" where
  "AssertEmergencyAccessDenied isEmergency = (if isEmergency then Some (DelegationErr ErrEmergencyAccessDenied) else None)"

record DelegationRecord =
  dl_delegationID :: string
  dl_tenantID :: string
  dl_delegatorSubject :: string
  dl_delegatorRole :: Role
  dl_delegatorScope :: ScopeGrant
  dl_delegateeSubject :: string
  dl_delegatedRole :: Role
  dl_delegatedScope :: ScopeGrant
  dl_validFrom :: gotime
  dl_validTo :: gotime
  dl_approvalSource :: string
  dl_chainDepth :: int
  dl_isSubDelegation :: bool
  dl_state :: DelegationState
  dl_revokedBy :: string
  dl_revokedAt :: gotime
  dl_revocationReason :: string
  dl_createdAt :: gotime
  dl_updatedAt :: gotime

record DelegationAuditRecord =
  da_RecordID :: string
  da_TenantID :: string
  da_DelegationID :: string
  da_DelegatorSubject :: string
  da_DelegateeSubject :: string
  da_DelegatedRole :: Role
  da_DelegatedScope :: ScopeGrant
  da_Transition :: string
  da_ActorSubject :: string
  da_Reason :: string
  da_RecordedAt :: gotime

definition IsValidAt :: "DelegationRecord \<Rightarrow> gotime \<Rightarrow> bool" where
  "IsValidAt d t \<longleftrightarrow> dl_state d = DelegationStateActive \<and> \<not> t < dl_validFrom d \<and> \<not> After t (dl_validTo d)"

definition EffectiveState :: "DelegationRecord \<Rightarrow> gotime \<Rightarrow> DelegationState" where
  "EffectiveState d t =
     (if dl_state d = DelegationStateRevoked then DelegationStateRevoked
      else if After t (dl_validTo d) \<or> t < dl_validFrom d then DelegationStateExpired
      else DelegationStateActive)"

definition ToRoleAssignment :: "DelegationRecord \<Rightarrow> RoleAssignment" where
  "ToRoleAssignment d = \<lparr>ra_Subject = dl_delegateeSubject d, ra_TenantID = dl_tenantID d, ra_Role = dl_delegatedRole d,
     ra_Scope = dl_delegatedScope d\<rparr>"

definition delegation_audit :: "DelegationRecord \<Rightarrow> string \<Rightarrow> string \<Rightarrow> string \<Rightarrow> gotime \<Rightarrow> DelegationAuditRecord" where
  "delegation_audit d transition actor reason at =
     \<lparr>da_RecordID = ''hdel_'' @ dl_delegationID d @ ''_'' @ FormatInt (UnixNano at), da_TenantID = dl_tenantID d,
      da_DelegationID = dl_delegationID d, da_DelegatorSubject = dl_delegatorSubject d, da_DelegateeSubject = dl_delegateeSubject d,
      da_DelegatedRole = dl_delegatedRole d, da_DelegatedScope = dl_delegatedScope d, da_Transition = transition,
      da_ActorSubject = actor, da_Reason = reason, da_RecordedAt = at\<rparr>"

definition Revoke ::
  "string \<Rightarrow> string \<Rightarrow> gotime \<Rightarrow> DelegationRecord \<Rightarrow> iam_error + DelegationRecord \<times> DelegationAuditRecord" where
  "Revoke revokedBy reason at d =
     (if dl_state d = DelegationStateRevoked then Inl (DelegationErr ErrDelegationRevoked)
      else if TrimSpace revokedBy = [] then Inl (ErrorsNew ''revokedBy must not be blank'')
      else if TrimSpace reason = [] then Inl (ErrorsNew ''revocation reason must not be blank'')
      else Inr (d\<lparr>dl_state := DelegationStateRevoked, dl_revokedBy := TrimSpace revokedBy, dl_revocationReason := TrimSpace reason,
                  dl_revokedAt := at, dl_updatedAt := at\<rparr>,
                delegation_audit d ''DELEGATION_REVOKED'' (TrimSpace revokedBy) (TrimSpace reason) at))"

definition NewDelegationRecord ::
  "string \<Rightarrow> string \<Rightarrow> string \<Rightarrow> Role \<Rightarrow> ScopeGrant \<Rightarrow> string \<Rightarrow> Role \<Rightarrow> ScopeGrant \<Rightarrow> gotime \<Rightarrow> gotime \<Rightarrow> string \<Rightarrow> int \<Rightarrow> bool \<Rightarrow> gotime \<Rightarrow>
   iam_error + DelegationRecord" where
  "NewDelegationRecord delegationID tenantID delegatorSubject delegatorRole delegatorScope delegateeSubject delegatedRole delegatedScope
     validFrom validTo approvalSource chainDepth isSubDelegation now =
     (let trimmedID = TrimSpace delegationID; trimmedTenant = TrimSpace tenantID; trimmedApproval = TrimSpace approvalSource
      in if trimmedID = [] then Inl (DelegationErr ErrBlankDelegationID)
      else if trimmedTenant = [] then Inl (IdentityErr ErrBlankTenantID)
      else case ValidateSubject delegatorSubject of Some e \<Rightarrow> Inl e | None \<Rightarrow>
        (case ValidateSubject delegateeSubject of Some e \<Rightarrow> Inl e | None \<Rightarrow>
         if TrimSpace delegatorSubject = TrimSpace delegateeSubject then Inl (MatrixErr ErrSelfDelegationForbidden)
         else if \<not> KnownRoles delegatorRole \<or> \<not> KnownRoles delegatedRole then Inl (AssignmentErr ErrUnknownRole)
         else if trimmedApproval = [] then Inl (ErrorsNew ''approval source must not be blank'')
         else if validTo < validFrom \<or> validTo = validFrom then Inl (MatrixErr ErrInvalidDelegationWindow)
         else if MaxDelegationDuration < validTo - validFrom then Inl (MatrixErr ErrDelegationDurationExceeded)
         else if MaxDelegationChainDepth < chainDepth \<or> isSubDelegation then Inl (DelegationErr ErrUnauthorizedChainDepth)
         else Inr \<lparr>dl_delegationID = trimmedID, dl_tenantID = trimmedTenant, dl_delegatorSubject = TrimSpace delegatorSubject,
                   dl_delegatorRole = delegatorRole, dl_delegatorScope = delegatorScope\<lparr>sg_TenantID := trimmedTenant\<rparr>,
                   dl_delegateeSubject = TrimSpace delegateeSubject, dl_delegatedRole = delegatedRole,
                   dl_delegatedScope = delegatedScope\<lparr>sg_TenantID := trimmedTenant\<rparr>, dl_validFrom = validFrom, dl_validTo = validTo,
                   dl_approvalSource = trimmedApproval, dl_chainDepth = 1, dl_isSubDelegation = False,
                   dl_state = DelegationStateActive, dl_revokedBy = [], dl_revokedAt = 0, dl_revocationReason = [],
                   dl_createdAt = now, dl_updatedAt = now\<rparr>))"

definition delegation_request :: "DelegationRecord \<Rightarrow> DelegationRequest" where
  "delegation_request d =
     \<lparr>dq_DelegatorSubject = dl_delegatorSubject d, dq_DelegatorRole = dl_delegatorRole d, dq_DelegatorScope = dl_delegatorScope d,
      dq_DelegateeSubject = dl_delegateeSubject d, dq_DelegatedRole = dl_delegatedRole d, dq_DelegatedScope = dl_delegatedScope d,
      dq_ValidFrom = dl_validFrom d, dq_ValidTo = dl_validTo d, dq_IsSubDelegation = dl_isSubDelegation d\<rparr>"

definition ValidateDelegationAuthority :: "DelegationRecord \<Rightarrow> AuthorizationMatrix option \<Rightarrow> iam_error option" where
  "ValidateDelegationAuthority d matrix =
     ValidateDelegationRequest (delegation_request d) (case matrix of None \<Rightarrow> NewProvisionalAuthorizationMatrix | Some m \<Rightarrow> m)"

text \<open>The ledger is its list of records.\<close>

definition AppendRecord :: "DelegationAuditRecord \<Rightarrow> DelegationAuditRecord list \<Rightarrow> (DelegationAuditRecord list, iam_error, unit) outcome" where
  "AppendRecord rec l =
     (if da_TenantID rec = [] \<or> da_DelegationID rec = [] then (l, Inl (DelegationErr ErrBlankDelegationID)) else (l @ [rec], Inr ()))"

definition GetDelegationAuditTrail :: "string \<Rightarrow> string \<Rightarrow> DelegationAuditRecord list \<Rightarrow> iam_error + DelegationAuditRecord list" where
  "GetDelegationAuditTrail tenantID delegationID l =
     (if TrimSpace tenantID = [] then Inl (IdentityErr ErrBlankTenantID)
      else if TrimSpace delegationID = [] then Inl (DelegationErr ErrBlankDelegationID)
      else Inr (filter (\<lambda>rec. da_TenantID rec = TrimSpace tenantID \<and> da_DelegationID rec = TrimSpace delegationID) l))"

definition GetSubjectDelegationAuditTrail :: "string \<Rightarrow> string \<Rightarrow> DelegationAuditRecord list \<Rightarrow> iam_error + DelegationAuditRecord list" where
  "GetSubjectDelegationAuditTrail tenantID subject l =
     (if TrimSpace tenantID = [] then Inl (IdentityErr ErrBlankTenantID)
      else if TrimSpace subject = [] then Inl (IdentityErr ErrBlankSubject)
      else Inr (filter (\<lambda>rec. da_TenantID rec = TrimSpace tenantID \<and>
                  (da_DelegatorSubject rec = TrimSpace subject \<or> da_DelegateeSubject rec = TrimSpace subject)) l))"

record DelegationRegistry =
  dg_delegations :: "string \<rightharpoonup> DelegationRecord"
  dg_ledger :: "DelegationAuditRecord list"
  dg_matrix :: AuthorizationMatrix

definition NewDelegationRegistry :: "DelegationAuditRecord list option \<Rightarrow> AuthorizationMatrix option \<Rightarrow> DelegationRegistry" where
  "NewDelegationRegistry ledger matrix =
     \<lparr>dg_delegations = Map.empty, dg_ledger = (case ledger of None \<Rightarrow> [] | Some l \<Rightarrow> l),
      dg_matrix = (case matrix of None \<Rightarrow> NewProvisionalAuthorizationMatrix | Some m \<Rightarrow> m)\<rparr>"

definition makeDelegationKey :: "string \<Rightarrow> string \<Rightarrow> string" where
  "makeDelegationKey tenantID delegationID = TrimSpace tenantID @ '':'' @ TrimSpace delegationID"

definition log_delegation :: "DelegationAuditRecord \<Rightarrow> DelegationRegistry \<Rightarrow> (DelegationRegistry, iam_error, unit) outcome" where
  "log_delegation audit r = (case AppendRecord audit (dg_ledger r) of (l, res) \<Rightarrow> (r\<lparr>dg_ledger := l\<rparr>, res))"

definition CreateDelegation ::
  "DelegationRecord \<Rightarrow> string \<Rightarrow> string \<Rightarrow> gotime \<Rightarrow> DelegationRegistry \<Rightarrow> (DelegationRegistry, iam_error, unit) outcome" where
  "CreateDelegation grant actorSubject reason at r =
     (if dl_tenantID grant = [] \<or> dl_delegationID grant = [] then (r, Inl (DelegationErr ErrBlankDelegationID))
      else case ValidateDelegationAuthority grant (Some (dg_matrix r)) of Some e \<Rightarrow> (r, Inl e) | None \<Rightarrow>
        (let key = makeDelegationKey (dl_tenantID grant) (dl_delegationID grant) in
         if dg_delegations r key \<noteq> None then (r, Inl (DelegationErr ErrDuplicateDelegationID))
         else log_delegation (delegation_audit grant ''DELEGATION_CREATED'' (TrimSpace actorSubject) (TrimSpace reason) at)
                (r\<lparr>dg_delegations := (dg_delegations r)(key \<mapsto> grant)\<rparr>)))"

definition RevokeDelegation ::
  "string \<Rightarrow> string \<Rightarrow> string \<Rightarrow> string \<Rightarrow> gotime \<Rightarrow> DelegationRegistry \<Rightarrow> (DelegationRegistry, iam_error, DelegationRecord) outcome" where
  "RevokeDelegation tenantID delegationID actorSubject reason at r =
     (let key = makeDelegationKey tenantID delegationID in
      case dg_delegations r key of
        None \<Rightarrow> (r, Inl (DelegationErr ErrDelegationNotFound))
      | Some current \<Rightarrow> (case Revoke actorSubject reason at current of
            Inl e \<Rightarrow> (r, Inl e)
          | Inr (revoked, audit) \<Rightarrow>
              (case log_delegation audit (r\<lparr>dg_delegations := (dg_delegations r)(key \<mapsto> revoked)\<rparr>) of
                 (r', Inl e) \<Rightarrow> (r', Inl e) | (r', Inr _) \<Rightarrow> (r', Inr revoked))))"

definition GetDelegation :: "string \<Rightarrow> string \<Rightarrow> DelegationRegistry \<Rightarrow> iam_error + DelegationRecord" where
  "GetDelegation tenantID delegationID r =
     (case dg_delegations r (makeDelegationKey tenantID delegationID) of
        None \<Rightarrow> Inl (DelegationErr ErrDelegationNotFound) | Some d \<Rightarrow> Inr d)"

definition ListActiveDelegationsForDelegatee ::
  "string list \<Rightarrow> string \<Rightarrow> string \<Rightarrow> gotime \<Rightarrow> DelegationRegistry \<Rightarrow> iam_error + DelegationRecord list" where
  "ListActiveDelegationsForDelegatee key_order tenantID delegateeSubject at r =
     (if TrimSpace tenantID = [] then Inl (IdentityErr ErrBlankTenantID)
      else if TrimSpace delegateeSubject = [] then Inl (IdentityErr ErrBlankSubject)
      else Inr (filter (\<lambda>d. dl_tenantID d = TrimSpace tenantID \<and> dl_delegateeSubject d = TrimSpace delegateeSubject \<and> IsValidAt d at)
                  (List.map_filter (dg_delegations r) key_order)))"

definition EvaluateDelegatedAccess ::
  "string list \<Rightarrow> DelegationRegistry option \<Rightarrow> PolicyEvaluator option \<Rightarrow> AccessRequest \<Rightarrow> gotime \<Rightarrow> EvaluationResult" where
  "EvaluateDelegatedAccess key_order registry evaluator req at =
     (case (registry, evaluator) of
        (Some r, Some e) \<Rightarrow>
          if \<not> id_IsAuthenticated (rq_Identity req) \<or> TrimSpace (id_Subject (rq_Identity req)) = [] \<or>
             TrimSpace (id_TenantID (rq_Identity req)) = []
          then Deny DenialUnauthenticated ''unauthenticated caller identity''
          else if id_TenantID (rq_Identity req) \<noteq> tg_TenantID (rq_Target req)
          then Deny DenialCrossTenant ''cross-tenant access prohibited''
          else (case ListActiveDelegationsForDelegatee key_order (id_TenantID (rq_Identity req)) (id_Subject (rq_Identity req)) at r of
              Inl _ \<Rightarrow> Deny DenialRoleNotGranted ''no active delegation grants found for caller''
            | Inr active \<Rightarrow>
                if active = [] then Deny DenialRoleNotGranted ''no active delegation grants found for caller''
                else if \<not> list_ex (\<lambda>d. scopeMatches (dl_delegatedScope d) (rq_Target req)) active
                then Deny DenialScopeMismatch ''no active delegation covers the requested operational scope''
                else if \<not> list_ex (\<lambda>d. scopeMatches (dl_delegatedScope d) (rq_Target req) \<and>
                                      rolePermitsAction (dl_delegatedRole d) (rq_Action req)) active
                then Deny DenialPrivilegeEscalation ''delegated role does not permit the requested operational action''
                else Evaluate (req\<lparr>rq_Delegation := \<lparr>dc_IsDelegated = False, dc_Delegator = []\<rparr>\<rparr>)
                       (scoped_evaluator (map ToRoleAssignment active) e))
      | _ \<Rightarrow> Deny DenialDefaultDeny ''uninitialized delegation evaluators'')"

subsection \<open>Calls and invariant\<close>

datatype delegation_call =
  CallCreateDelegation DelegationRecord string string gotime
| CallRevokeDelegation string string string string gotime

fun delegation_exec :: "delegation_call \<Rightarrow> DelegationRegistry \<Rightarrow> (DelegationRegistry, iam_error, unit) outcome" where
  "delegation_exec (CallCreateDelegation grant a why at) r = CreateDelegation grant a why at r"
| "delegation_exec (CallRevokeDelegation t i a why at) r = discard (RevokeDelegation t i a why at r)"

text \<open>Records come from the constructor: their fields are private, and only \<open>NewDelegationRecord\<close> sets them.\<close>

definition made_delegation :: "DelegationRecord \<Rightarrow> bool" where
  "made_delegation d \<longleftrightarrow> dl_state d = DelegationStateActive \<and> dl_chainDepth d = 1 \<and> \<not> dl_isSubDelegation d \<and>
     dl_delegationID d \<noteq> [] \<and> dl_tenantID d \<noteq> [] \<and> TrimSpace (dl_delegationID d) = dl_delegationID d \<and> TrimSpace (dl_tenantID d) = dl_tenantID d \<and>
     TrimSpace (dl_delegateeSubject d) = dl_delegateeSubject d \<and>
     sg_TenantID (dl_delegatorScope d) = dl_tenantID d \<and> sg_TenantID (dl_delegatedScope d) = dl_tenantID d"

lemma NewDelegationRecord_made: "NewDelegationRecord i t a ra sa b rb sb f u src depth sub now = Inr d \<Longrightarrow> made_delegation d"
  by (auto simp: NewDelegationRecord_def made_delegation_def Let_def guards)

fun made_grant :: "delegation_call \<Rightarrow> bool" where
  "made_grant (CallCreateDelegation grant a why at) \<longleftrightarrow> made_delegation grant"
| "made_grant _ \<longleftrightarrow> True"

definition same_grant :: "DelegationRecord \<Rightarrow> DelegationRecord \<Rightarrow> bool" where
  "same_grant d d' \<longleftrightarrow> delegation_request d' = delegation_request d \<and> dl_delegationID d' = dl_delegationID d \<and> dl_tenantID d' = dl_tenantID d \<and>
     dl_chainDepth d' = dl_chainDepth d"

definition trail :: "string \<Rightarrow> string \<Rightarrow> DelegationAuditRecord list \<Rightarrow> string list" where
  "trail t i l = map da_Transition (filter (\<lambda>rec. da_TenantID rec = t \<and> da_DelegationID rec = i) l)"

definition stored_delegation :: "string \<Rightarrow> DelegationRegistry \<Rightarrow> DelegationRecord \<Rightarrow> bool" where
  "stored_delegation k r d \<longleftrightarrow> (\<exists>d0. made_delegation d0 \<and> same_grant d0 d \<and> ValidateDelegationAuthority d0 (Some (dg_matrix r)) = None) \<and>
     k = makeDelegationKey (dl_tenantID d) (dl_delegationID d) \<and>
     (dl_state d = DelegationStateActive \<and> trail (dl_tenantID d) (dl_delegationID d) (dg_ledger r) = [''DELEGATION_CREATED''] \<or>
      dl_state d = DelegationStateRevoked \<and> dl_revokedBy d \<noteq> [] \<and> dl_revocationReason d \<noteq> [] \<and>
        trail (dl_tenantID d) (dl_delegationID d) (dg_ledger r) = [''DELEGATION_CREATED'', ''DELEGATION_REVOKED''])"

definition delegation_inv :: "DelegationRegistry \<Rightarrow> bool" where
  "delegation_inv r \<longleftrightarrow>
     (\<forall>k d. dg_delegations r k = Some d \<longrightarrow> stored_delegation k r d) \<and>
     (\<forall>rec\<in>set (dg_ledger r). \<exists>k d. dg_delegations r k = Some d \<and> dl_tenantID d = da_TenantID rec \<and> dl_delegationID d = da_DelegationID rec)"

lemma delegation_audit_simps [simp]:
  "da_TenantID (delegation_audit d tr a why at) = dl_tenantID d"
  "da_DelegationID (delegation_audit d tr a why at) = dl_delegationID d"
  "da_Transition (delegation_audit d tr a why at) = tr"
  by (simp_all add: delegation_audit_def)

lemma log_delegation_eq:
  "dl_tenantID d \<noteq> [] \<Longrightarrow> dl_delegationID d \<noteq> [] \<Longrightarrow>
   log_delegation (delegation_audit d tr a why at) r = (r\<lparr>dg_ledger := dg_ledger r @ [delegation_audit d tr a why at]\<rparr>, Inr ())"
  by (simp add: log_delegation_def AppendRecord_def)

lemma CreateDelegation_cases:
  assumes "CreateDelegation grant a why at r = (r', res)" and "made_delegation grant"
  obtains (refused) e where "r' = r" "res = Inl e"
  | (created) "res = Inr ()" "ValidateDelegationAuthority grant (Some (dg_matrix r)) = None"
      "dg_delegations r (makeDelegationKey (dl_tenantID grant) (dl_delegationID grant)) = None"
      "r' = r\<lparr>dg_delegations := (dg_delegations r)(makeDelegationKey (dl_tenantID grant) (dl_delegationID grant) \<mapsto> grant),
         dg_ledger := dg_ledger r @ [delegation_audit grant ''DELEGATION_CREATED'' (TrimSpace a) (TrimSpace why) at]\<rparr>"
  using assms by (auto simp: CreateDelegation_def made_delegation_def log_delegation_eq Let_def split: if_splits option.splits)

lemma RevokeDelegation_cases:
  assumes "RevokeDelegation t i a why at r = (r', res)"
    and "\<forall>d. dg_delegations r (makeDelegationKey t i) = Some d \<longrightarrow> dl_tenantID d \<noteq> [] \<and> dl_delegationID d \<noteq> []"
  obtains (refused) e where "r' = r" "res = Inl e"
  | (revoked) d d' where "res = Inr d'" "dg_delegations r (makeDelegationKey t i) = Some d" "dl_state d \<noteq> DelegationStateRevoked"
      "same_grant d d'" "dl_state d' = DelegationStateRevoked" "dl_revokedBy d' \<noteq> []" "dl_revocationReason d' \<noteq> []"
      "r' = r\<lparr>dg_delegations := (dg_delegations r)(makeDelegationKey t i \<mapsto> d'),
         dg_ledger := dg_ledger r @ [delegation_audit d ''DELEGATION_REVOKED'' (TrimSpace a) (TrimSpace why) at]\<rparr>"
proof (cases "dg_delegations r (makeDelegationKey t i)")
  case None
  with assms(1) have "r' = r" "res = Inl (DelegationErr ErrDelegationNotFound)" by (auto simp: RevokeDelegation_def)
  with refused show thesis by blast
next
  case (Some d)
  have ids: "dl_tenantID d \<noteq> []" "dl_delegationID d \<noteq> []" using assms(2) Some by simp_all
  show thesis
  proof (cases "Revoke a why at d")
    case (Inl e)
    with Some assms(1) have "r' = r" "res = Inl e" by (auto simp: RevokeDelegation_def)
    with refused show thesis by blast
  next
    case (Inr p)
    then obtain d' where p: "p = (d', delegation_audit d ''DELEGATION_REVOKED'' (TrimSpace a) (TrimSpace why) at)"
      and d': "dl_state d \<noteq> DelegationStateRevoked" "same_grant d d'" "dl_state d' = DelegationStateRevoked" "dl_revokedBy d' \<noteq> []"
        "dl_revocationReason d' \<noteq> []"
      by (auto simp: Revoke_def same_grant_def delegation_request_def split: if_splits)
    with Inr Some assms(1) ids show thesis
      by (intro revoked [OF _ Some d']) (simp_all add: RevokeDelegation_def log_delegation_eq)
  qed
qed

lemma trail_snoc:
  "trail t i (l @ [rec]) = trail t i l @ (if da_TenantID rec = t \<and> da_DelegationID rec = i then [da_Transition rec] else [])"
  by (simp add: trail_def)

lemma stored_ids:
  assumes "stored_delegation k r d"
  shows "dl_tenantID d \<noteq> []" "dl_delegationID d \<noteq> []" "TrimSpace (dl_tenantID d) = dl_tenantID d" "TrimSpace (dl_delegationID d) = dl_delegationID d"
    "TrimSpace (dl_delegateeSubject d) = dl_delegateeSubject d"
  using assms by (auto simp: stored_delegation_def same_grant_def made_delegation_def delegation_request_def)

lemma stored_key: "stored_delegation k r d \<Longrightarrow> k = makeDelegationKey (dl_tenantID d) (dl_delegationID d)"
  by (simp add: stored_delegation_def)

lemma stored_other:
  assumes "stored_delegation k r d" and "dg_matrix r' = dg_matrix r" and "dg_ledger r' = dg_ledger r @ [rec]"
    and "makeDelegationKey (da_TenantID rec) (da_DelegationID rec) \<noteq> k"
  shows "stored_delegation k r' d"
proof -
  have "da_TenantID rec \<noteq> dl_tenantID d \<or> da_DelegationID rec \<noteq> dl_delegationID d" using assms(4) stored_key [OF assms(1)] by metis
  then have "trail (dl_tenantID d) (dl_delegationID d) (dg_ledger r') = trail (dl_tenantID d) (dl_delegationID d) (dg_ledger r)"
    unfolding assms(3) trail_snoc by (simp only: if_False append_Nil2 de_Morgan_conj [symmetric] simp_thms)
  then show ?thesis using assms(1,2) by (simp only: stored_delegation_def)
qed

lemma no_trail:
  assumes "delegation_inv r" and "dg_delegations r (makeDelegationKey t i) = None"
  shows "trail t i (dg_ledger r) = []"
proof -
  have "\<not> (da_TenantID rec = t \<and> da_DelegationID rec = i)" if "rec \<in> set (dg_ledger r)" for rec
  proof
    assume rec: "da_TenantID rec = t \<and> da_DelegationID rec = i"
    from assms(1) that obtain k d where d: "dg_delegations r k = Some d" "dl_tenantID d = da_TenantID rec" "dl_delegationID d = da_DelegationID rec"
      unfolding delegation_inv_def by blast
    with assms(1) have "stored_delegation k r d" unfolding delegation_inv_def by blast
    with d rec have "k = makeDelegationKey t i" using stored_key by metis
    with d(1) assms(2) show False by simp
  qed
  then show ?thesis by (simp add: trail_def filter_empty_conv)
qed

lemma update_delegation_inv:
  assumes "delegation_inv r" and "r' = r\<lparr>dg_delegations := (dg_delegations r)(k \<mapsto> d), dg_ledger := dg_ledger r @ [rec]\<rparr>"
    and "stored_delegation k r' d" and "da_TenantID rec = dl_tenantID d" and "da_DelegationID rec = dl_delegationID d"
    and "\<And>old. dg_delegations r k = Some old \<Longrightarrow> dl_tenantID old = dl_tenantID d \<and> dl_delegationID old = dl_delegationID d"
  shows "delegation_inv r'"
proof -
  have key: "makeDelegationKey (da_TenantID rec) (da_DelegationID rec) = k" using assms(3-5) stored_key by simp
  have "stored_delegation k' r' d'" if "dg_delegations r' k' = Some d'" for k' d'
  proof (cases "k' = k")
    case True
    with that assms(2,3) show ?thesis by simp
  next
    case False
    with that assms(1,2) have "stored_delegation k' r d'" by (simp add: delegation_inv_def)
    then show ?thesis by (rule stored_other) (use assms(2) key False in auto)
  qed
  moreover have "\<exists>k' d'. dg_delegations r' k' = Some d' \<and> dl_tenantID d' = da_TenantID e \<and> dl_delegationID d' = da_DelegationID e"
    if "e \<in> set (dg_ledger r')" for e
  proof (cases "e = rec")
    case True
    with assms(4,5) show ?thesis by (intro exI [of _ k] exI [of _ d]) (simp add: assms(2))
  next
    case False
    with that assms(1,2) obtain k' d' where kd: "dg_delegations r k' = Some d'" "dl_tenantID d' = da_TenantID e" "dl_delegationID d' = da_DelegationID e"
      by (auto simp: delegation_inv_def)
    show ?thesis
    proof (cases "k' = k")
      case True
      with kd(1) assms(6) have "dl_tenantID d' = dl_tenantID d \<and> dl_delegationID d' = dl_delegationID d" by blast
      with kd(2,3) show ?thesis by (intro exI [of _ k] exI [of _ d]) (simp add: assms(2))
    next
      case False
      with kd show ?thesis by (intro exI [of _ k'] exI [of _ d']) (simp add: assms(2))
    qed
  qed
  ultimately show ?thesis by (simp add: delegation_inv_def)
qed

lemma CreateDelegation_inv:
  assumes "delegation_inv r" and "made_delegation grant"
  shows "delegation_inv (fst (CreateDelegation grant a why at r))"
proof (cases "CreateDelegation grant a why at r")
  case (Pair r' res)
  then show ?thesis using assms(2)
  proof (cases rule: CreateDelegation_cases)
    case created
    let ?k = "makeDelegationKey (dl_tenantID grant) (dl_delegationID grant)"
    have "trail (dl_tenantID grant) (dl_delegationID grant) (dg_ledger r) = []" using no_trail [OF assms(1) created(3)] .
    moreover have "dg_matrix r' = dg_matrix r" using created(4) by simp
    ultimately have "trail (dl_tenantID grant) (dl_delegationID grant) (dg_ledger r') = [''DELEGATION_CREATED'']" "dg_matrix r' = dg_matrix r"
      unfolding created(4) by (simp_all add: trail_snoc)
    moreover have "same_grant grant grant" "dl_state grant = DelegationStateActive" using assms(2) by (simp_all add: same_grant_def made_delegation_def)
    ultimately have "stored_delegation ?k r' grant"
      using created(2) assms(2) unfolding stored_delegation_def by metis
    then have "delegation_inv r'" by (rule update_delegation_inv [OF assms(1) created(4)]) (use created(3) in simp_all)
    with Pair show ?thesis by simp
  qed (use assms(1) Pair in simp)
qed

lemma RevokeDelegation_inv:
  assumes "delegation_inv r"
  shows "delegation_inv (fst (RevokeDelegation t i a why at r))"
proof -
  let ?k = "makeDelegationKey t i"
  obtain r' res where Pair: "RevokeDelegation t i a why at r = (r', res)" by fastforce
  have ids: "\<forall>d. dg_delegations r ?k = Some d \<longrightarrow> dl_tenantID d \<noteq> [] \<and> dl_delegationID d \<noteq> []"
    using assms stored_ids(1,2) unfolding delegation_inv_def by blast
  from Pair ids have "delegation_inv r'"
  proof (cases rule: RevokeDelegation_cases)
    case (revoked d d')
    have d: "stored_delegation ?k r d" using assms revoked(2) unfolding delegation_inv_def by blast
    have same: "dl_tenantID d' = dl_tenantID d" "dl_delegationID d' = dl_delegationID d" using revoked(4) by (simp_all add: same_grant_def)
    from d obtain d0 where d0: "made_delegation d0" "same_grant d0 d" "ValidateDelegationAuthority d0 (Some (dg_matrix r)) = None"
      by (auto simp: stored_delegation_def)
    have "trail (dl_tenantID d) (dl_delegationID d) (dg_ledger r) = [''DELEGATION_CREATED'']"
      using d revoked(3) by (auto simp: stored_delegation_def)
    then have "trail (dl_tenantID d') (dl_delegationID d') (dg_ledger r') = [''DELEGATION_CREATED'', ''DELEGATION_REVOKED'']"
      unfolding same revoked(8) by (simp add: trail_snoc)
    moreover have "same_grant d0 d'" using d0(2) revoked(4) by (simp add: same_grant_def)
    moreover have "?k = makeDelegationKey (dl_tenantID d') (dl_delegationID d')" using stored_key [OF d] same by simp
    moreover have "dg_matrix r' = dg_matrix r" using revoked(8) by simp
    ultimately have "stored_delegation ?k r' d'" using d0(1,3) revoked(5-7) unfolding stored_delegation_def by metis
    then show ?thesis by (rule update_delegation_inv [OF assms revoked(8)]) (use same revoked(2) in simp_all)
  qed (use assms in simp)
  with Pair show ?thesis by simp
qed

lemma delegation_exec_inv: "delegation_inv r \<Longrightarrow> made_grant c \<Longrightarrow> delegation_inv (fst (delegation_exec c r))"
  by (cases c) (simp_all add: CreateDelegation_inv RevokeDelegation_inv)

lemma CreateDelegation_frame:
  "prefix (dg_ledger r) (dg_ledger (fst (CreateDelegation grant a why at r)))"
  "dg_matrix (fst (CreateDelegation grant a why at r)) = dg_matrix r"
  "dg_delegations r k = Some d \<Longrightarrow> dg_delegations (fst (CreateDelegation grant a why at r)) k = Some d"
  by (auto simp: CreateDelegation_def Let_def log_delegation_def AppendRecord_def split: option.split)

lemma RevokeDelegation_frame:
  "prefix (dg_ledger r) (dg_ledger (fst (RevokeDelegation t i a why at r)))"
  "dg_matrix (fst (RevokeDelegation t i a why at r)) = dg_matrix r"
  "dg_delegations r k = Some d \<Longrightarrow> dl_state d = DelegationStateRevoked \<Longrightarrow> dg_delegations (fst (RevokeDelegation t i a why at r)) k = Some d"
  by (auto simp: RevokeDelegation_def Revoke_def Let_def log_delegation_def AppendRecord_def split: option.split sum.splits)

interpretation delegations: journaled delegation_exec delegation_inv made_grant "\<lambda>_. dg_ledger"
proof
  fix k and c and r :: DelegationRegistry
  show "delegation_inv r \<Longrightarrow> made_grant c \<Longrightarrow> delegation_inv (fst (delegation_exec c r))" by (rule delegation_exec_inv)
  show "prefix (dg_ledger r) (dg_ledger (fst (delegation_exec c r)))"
    by (cases c) (simp_all add: CreateDelegation_frame RevokeDelegation_frame)
qed

interpretation revoked_delegations: absorbing delegation_exec delegation_inv made_grant "\<lambda>k r. dg_delegations r k"
  "\<lambda>d. dl_state d = DelegationStateRevoked"
proof
  fix k and c and r :: DelegationRegistry and d
  show "dg_delegations r k = Some d \<Longrightarrow> dl_state d = DelegationStateRevoked \<Longrightarrow> dg_delegations (fst (delegation_exec c r)) k = Some d"
    by (cases c) (simp_all add: CreateDelegation_frame RevokeDelegation_frame)
qed

lemma run_matrix: "dg_matrix (run_calls delegation_exec cs r) = dg_matrix r"
proof (induction cs arbitrary: r)
  case (Cons c cs)
  then show ?case by (cases c) (simp_all add: CreateDelegation_frame RevokeDelegation_frame)
qed simp

lemma delegation_inv_New: "delegation_inv (NewDelegationRegistry None m)"
  by (simp add: delegation_inv_def NewDelegationRegistry_def)

lemma reachable_delegation_inv:
  "list_all made_grant cs \<Longrightarrow> delegation_inv (run_calls delegation_exec cs (NewDelegationRegistry None m))"
  using delegations.run_inv [OF delegation_inv_New] .

subsection \<open>Properties\<close>

text \<open>
  (C13) Access on the strength of a delegation stays within the authority of the delegator: in every registry reachable under the provisional
  matrix, when \<open>EvaluateDelegatedAccess\<close> allows a request, there is a registered delegation to the caller in the caller's tenant,
  not revoked and in its window of at most 30 days, whose delegator's role permits the action and whose delegator's scope
  holds the target, neither role being tenant administrator; and the caller is an active member of the tenant of the target.
\<close>

theorem delegated_access_within_delegator:
  assumes "list_all made_grant cs" and "r = run_calls delegation_exec cs (NewDelegationRegistry None None)"
    and "er_Allowed (EvaluateDelegatedAccess key_order (Some r) (Some e) req at)"
  shows "(\<exists>k d. dg_delegations r k = Some d \<and> dl_tenantID d = TrimSpace (id_TenantID (rq_Identity req)) \<and>
      dl_delegateeSubject d = TrimSpace (id_Subject (rq_Identity req)) \<and> dl_state d = DelegationStateActive \<and>
      dl_validFrom d \<le> at \<and> at \<le> dl_validTo d \<and> dl_validTo d - dl_validFrom d \<le> days 30 \<and>
      rolePermitsAction (dl_delegatorRole d) (rq_Action req) \<and> scopeMatches (dl_delegatorScope d) (rq_Target req) \<and>
      dl_delegatorRole d \<noteq> RoleTenantAdmin \<and> dl_delegatedRole d \<noteq> RoleTenantAdmin) \<and>
    pe_memberships e (member_key (id_TenantID (rq_Identity req)) (id_Subject (rq_Identity req))) = Some MembershipActive \<and>
    id_TenantID (rq_Identity req) = tg_TenantID (rq_Target req)"
proof -
  let ?who = "rq_Identity req"
  obtain active where active: "ListActiveDelegationsForDelegatee key_order (id_TenantID ?who) (id_Subject ?who) at r = Inr active"
    and eval: "er_Allowed (Evaluate (req\<lparr>rq_Delegation := \<lparr>dc_IsDelegated = False, dc_Delegator = []\<rparr>\<rparr>)
      (scoped_evaluator (map ToRoleAssignment active) e))" and tenant: "id_TenantID ?who = tg_TenantID (rq_Target req)"
    using assms(3) by (auto simp: EvaluateDelegatedAccess_def split: if_splits sum.splits)
  from eval obtain grant where grant: "grant \<in> set (map ToRoleAssignment active)"
      "covers (req\<lparr>rq_Delegation := \<lparr>dc_IsDelegated = False, dc_Delegator = []\<rparr>\<rparr>) grant"
    and member: "pe_memberships e (member_key (id_TenantID ?who) (id_Subject ?who)) = Some MembershipActive"
    by (rule Evaluate_allowed_grant) auto
  from grant(1) obtain d where d: "d \<in> set active" "grant = ToRoleAssignment d" by auto
  from active d(1) obtain k where k: "dg_delegations r k = Some d" and listed: "dl_tenantID d = TrimSpace (id_TenantID ?who)"
      "dl_delegateeSubject d = TrimSpace (id_Subject ?who)" "IsValidAt d at"
    by (auto simp: ListActiveDelegationsForDelegatee_def List.map_filter_def split: if_splits)
  have matrix: "dg_matrix r = NewProvisionalAuthorizationMatrix" by (simp add: assms(2) run_matrix NewDelegationRegistry_def)
  have "stored_delegation k r d" using reachable_delegation_inv [OF assms(1)] k assms(2) unfolding delegation_inv_def by blast
  then have "ValidateDelegationRequest (delegation_request d) NewProvisionalAuthorizationMatrix = None"
    by (auto simp: stored_delegation_def same_grant_def ValidateDelegationAuthority_def matrix)
  then have "rolePermitsAction (dl_delegatorRole d) (rq_Action req) \<and> scopeMatches (dl_delegatorScope d) (rq_Target req) \<and>
      dl_delegatorRole d \<noteq> RoleTenantAdmin \<and> dl_delegatedRole d \<noteq> RoleTenantAdmin \<and> dl_validTo d - dl_validFrom d \<le> days 30"
    using grant(2) d(2) by (auto elim!: valid_delegation simp: delegation_request_def covers_def in_scope_def ToRoleAssignment_def)
  moreover have "dl_state d = DelegationStateActive" "dl_validFrom d \<le> at" "at \<le> dl_validTo d"
    using listed(3) by (simp_all add: IsValidAt_def After_def)
  ultimately show ?thesis using k listed(1,2) member tenant by blast
qed

text \<open>
  The audit trail is complete: in every reachable registry the trail of a registered delegation is its creation, followed by
  its revocation exactly if it is revoked, by a named actor with a reason; nothing else is on the ledger for it.
\<close>

theorem delegation_trail_complete:
  assumes "list_all made_grant cs" and "r = run_calls delegation_exec cs (NewDelegationRegistry None m)"
    and "GetDelegation t i r = Inr d"
  shows "map_sum id (map da_Transition) (GetDelegationAuditTrail (dl_tenantID d) (dl_delegationID d) (dg_ledger r)) =
    Inr (if dl_state d = DelegationStateRevoked then [''DELEGATION_CREATED'', ''DELEGATION_REVOKED''] else [''DELEGATION_CREATED'']) \<and>
    (dl_state d = DelegationStateRevoked \<longleftrightarrow> dl_state d \<noteq> DelegationStateActive) \<and>
    (dl_state d = DelegationStateRevoked \<longrightarrow> dl_revokedBy d \<noteq> [] \<and> dl_revocationReason d \<noteq> [])"
proof -
  from assms(3) obtain k where "dg_delegations r k = Some d" by (auto simp: GetDelegation_def split: option.splits)
  then have st: "stored_delegation k r d" using reachable_delegation_inv [OF assms(1)] assms(2) unfolding delegation_inv_def by blast
  from stored_ids [OF st] have "map_sum id (map da_Transition) (GetDelegationAuditTrail (dl_tenantID d) (dl_delegationID d) (dg_ledger r)) =
      Inr (trail (dl_tenantID d) (dl_delegationID d) (dg_ledger r))"
    by (simp add: GetDelegationAuditTrail_def trail_def)
  with st show ?thesis by (auto simp: stored_delegation_def)
qed

text \<open>
  Revocation is final: once \<open>RevokeDelegation\<close> has succeeded, whatever calls follow, the delegation stays revoked as it is, a second
  revocation fails, and at no time is it listed as active again.
\<close>

theorem delegation_revocation_final:
  assumes "list_all made_grant (cs @ cs')" and "r = run_calls delegation_exec cs (NewDelegationRegistry None m)"
    and "RevokeDelegation t i a why at r = (r', Inr d)"
  shows "let r'' = run_calls delegation_exec cs' r' in
    GetDelegation t i r'' = Inr d \<and> RevokeDelegation t i a' why' at' r'' = (r'', Inl (DelegationErr ErrDelegationRevoked)) \<and>
    (\<forall>ds. ListActiveDelegationsForDelegatee ks t' s at'' r'' = Inr ds \<longrightarrow> d \<notin> set ds)"
proof -
  have inv: "delegation_inv r" using assms(1,2) by (simp add: reachable_delegation_inv)
  have ids: "\<forall>d. dg_delegations r (makeDelegationKey t i) = Some d \<longrightarrow> dl_tenantID d \<noteq> [] \<and> dl_delegationID d \<noteq> []"
    using inv stored_ids(1,2) unfolding delegation_inv_def by blast
  from assms(3) ids have d: "dg_delegations r' (makeDelegationKey t i) = Some d" "dl_state d = DelegationStateRevoked"
    by (cases rule: RevokeDelegation_cases; simp)+
  have "delegation_inv r'" using RevokeDelegation_inv [OF inv, of t i a why at] assms(3) by simp
  with d have "dg_delegations (run_calls delegation_exec cs' r') (makeDelegationKey t i) = Some d"
    using assms(1) by (intro revoked_delegations.run_final) simp_all
  with d(2) show ?thesis
    by (auto simp: Let_def GetDelegation_def RevokeDelegation_def Revoke_def ListActiveDelegationsForDelegatee_def IsValidAt_def split: if_splits)
qed

subsection \<open>Examples and witnesses\<close>

definition example_delegation :: DelegationRecord where
  "example_delegation = \<lparr>dl_delegationID = ''del_1'', dl_tenantID = ''ten_1'', dl_delegatorSubject = ''usr_1'', dl_delegatorRole = RoleProjectManager,
     dl_delegatorScope = example_scope, dl_delegateeSubject = ''usr_2'', dl_delegatedRole = RoleInspector, dl_delegatedScope = example_scope,
     dl_validFrom = 1, dl_validTo = 100, dl_approvalSource = ''board'', dl_chainDepth = 1, dl_isSubDelegation = False,
     dl_state = DelegationStateActive, dl_revokedBy = [], dl_revokedAt = 0, dl_revocationReason = [], dl_createdAt = 1, dl_updatedAt = 1\<rparr>"

lemma example_delegation_new:
  "NewDelegationRecord '' del_1'' ''ten_1'' ''usr_1'' RoleProjectManager example_scope ''usr_2'' RoleInspector example_scope 1 100 ''board'' 1 False 1 =
     Inr example_delegation"
  by code_simp

lemma example_delegation_made: "list_all made_grant [CallCreateDelegation example_delegation ''usr_1'' ''leave'' 2]"
  using NewDelegationRecord_made [OF example_delegation_new] by simp

lemma example_delegation_authority: "ValidateDelegationAuthority example_delegation (Some NewProvisionalAuthorizationMatrix) = None"
  by code_simp

definition example_registry :: DelegationRegistry where
  "example_registry = run_calls delegation_exec [CallCreateDelegation example_delegation ''usr_1'' ''leave'' 2] (NewDelegationRegistry None None)"

lemma example_registry_eq:
  "dg_delegations example_registry = [''ten_1:del_1'' \<mapsto> example_delegation]" "dg_matrix example_registry = NewProvisionalAuthorizationMatrix"
proof -
  have "dl_tenantID example_delegation = ''ten_1''" "dl_delegationID example_delegation = ''del_1''" by (simp_all add: example_delegation_def)
  then show "dg_delegations example_registry = [''ten_1:del_1'' \<mapsto> example_delegation]"
    "dg_matrix example_registry = NewProvisionalAuthorizationMatrix"
    by (simp_all add: example_registry_def CreateDelegation_def NewDelegationRegistry_def example_delegation_authority log_delegation_eq makeDelegationKey_def Let_def)
qed

definition example_delegated_access :: AccessRequest where
  "example_delegated_access = (example_access ResourceActive)\<lparr>rq_Identity := \<lparr>id_Subject = ''usr_2'', id_TenantID = ''ten_1'', id_IsAuthenticated = True\<rparr>\<rparr>"

lemma example_delegated_allowed:
  "er_Allowed (EvaluateDelegatedAccess [''ten_1:del_1''] (Some example_registry)
     (Some (SetMembership ''ten_1'' ''usr_2'' MembershipActive NewPolicyEvaluator)) example_delegated_access 50)"
proof -
  have "ListActiveDelegationsForDelegatee [''ten_1:del_1''] ''ten_1'' ''usr_2'' 50 example_registry = Inr [example_delegation]"
    by (simp add: ListActiveDelegationsForDelegatee_def List.map_filter_def example_registry_eq) (simp add: example_delegation_def IsValidAt_def After_def)
  moreover have "er_Allowed (Evaluate example_delegated_access
      (scoped_evaluator [ToRoleAssignment example_delegation] (SetMembership ''ten_1'' ''usr_2'' MembershipActive NewPolicyEvaluator)))"
    by code_simp
  moreover have "scopeMatches (dl_delegatedScope example_delegation) (rq_Target example_delegated_access)"
    "rolePermitsAction (dl_delegatedRole example_delegation) (rq_Action example_delegated_access)" by code_simp+
  moreover have "example_delegated_access\<lparr>rq_Delegation := \<lparr>dc_IsDelegated = False, dc_Delegator = []\<rparr>\<rparr> = example_delegated_access"
    "rq_Identity example_delegated_access = \<lparr>id_Subject = ''usr_2'', id_TenantID = ''ten_1'', id_IsAuthenticated = True\<rparr>"
    "tg_TenantID (rq_Target example_delegated_access) = ''ten_1''"
    by (simp_all add: example_delegated_access_def example_access_def)
  ultimately show ?thesis by (simp add: EvaluateDelegatedAccess_def)
qed

theorem delegated_access_within_delegator_witness:
  "\<exists>d. dg_delegations example_registry ''ten_1:del_1'' = Some d \<and> rolePermitsAction (dl_delegatorRole d) (rq_Action example_delegated_access)"
  using delegated_access_within_delegator [OF example_delegation_made example_registry_def example_delegated_allowed]
  by (auto simp: example_registry_eq split: if_splits)

theorem delegation_trail_complete_witness:
  "map_sum id (map da_Transition) (GetDelegationAuditTrail ''ten_1'' ''del_1'' (dg_ledger example_registry)) = Inr [''DELEGATION_CREATED'']"
proof -
  have "GetDelegation ''ten_1'' ''del_1'' example_registry = Inr example_delegation"
    by (simp add: GetDelegation_def makeDelegationKey_def example_registry_eq)
  from delegation_trail_complete [OF example_delegation_made example_registry_def this] show ?thesis by (simp add: example_delegation_def)
qed

theorem delegation_revocation_final_witness:
  "\<exists>r d. RevokeDelegation ''ten_1'' ''del_1'' ''adm'' ''left'' 60 example_registry = (r, Inr d) \<and> GetDelegation ''ten_1'' ''del_1'' r = Inr d"
proof -
  have "dl_tenantID example_delegation = ''ten_1''" "dl_delegationID example_delegation = ''del_1''" "dl_state example_delegation = DelegationStateActive"
    by (simp_all add: example_delegation_def)
  then have "\<exists>r d. RevokeDelegation ''ten_1'' ''del_1'' ''adm'' ''left'' 60 example_registry = (r, Inr d)"
    by (simp add: RevokeDelegation_def Revoke_def makeDelegationKey_def example_registry_eq log_delegation_eq)
  then obtain r d where rd: "RevokeDelegation ''ten_1'' ''del_1'' ''adm'' ''left'' 60 example_registry = (r, Inr d)" by blast
  have "list_all made_grant ([CallCreateDelegation example_delegation ''usr_1'' ''leave'' 2] @ [])" using example_delegation_made by simp
  from delegation_revocation_final [OF this example_registry_def rd] rd show ?thesis by (auto simp: Let_def)
qed

text \<open>
  The authority of the delegator is only what the grant itself claims: nobody looks whether the delegator holds the role. A
  subject without any assignment makes another one an inspector.
\<close>

theorem delegator_authority_unchecked:
  "\<not> er_Allowed (Evaluate (example_access ResourceActive) (SetMembership ''ten_1'' ''usr_1'' MembershipActive NewPolicyEvaluator)) \<and>
   dl_delegatorSubject example_delegation = ''usr_1'' \<and>
   er_Allowed (EvaluateDelegatedAccess [''ten_1:del_1''] (Some example_registry)
     (Some (SetMembership ''ten_1'' ''usr_2'' MembershipActive NewPolicyEvaluator)) example_delegated_access 50)"
proof -
  have "\<not> er_Allowed (Evaluate (example_access ResourceActive) (SetMembership ''ten_1'' ''usr_1'' MembershipActive NewPolicyEvaluator))" by code_simp
  then show ?thesis using example_delegated_allowed by (simp add: example_delegation_def)
qed

end
