(* ===== verification/Scoped_Assignment.thy ===== *)
theory Scoped_Assignment
  imports Authorization_Matrix
begin

text \<open>
  Scoped role assignments, \<open>modules/identity-authorization/scoped_assignment.go\<close>: time-bounded grants of a role on a scope, the check for
  conflicting roles of one subject, the registry with its audit ledger, and access on the strength of the registered assignments.
  A loop over the map of assignments runs in the order of the keys it is given (\<open>key_order\<close>); the registry is a
  transition system whose steps take any order that enumerates the map. The private fields of an assignment are
  only set by its constructor, so every registered assignment is one that \<open>NewScopedAssignment\<close> made
  (\<open>made_assignment\<close>) or the zero value, which the registry refuses.
\<close>

datatype AssignmentState = AssignmentStateActive | AssignmentStateRevoked | AssignmentStateExpired

record ScopedAssignment =
  sa_assignmentID :: string
  sa_tenantID :: string
  sa_subject :: string
  sa_role :: Role
  sa_scope :: ScopeGrant
  sa_validFrom :: gotime
  sa_validTo :: gotime
  sa_approvalSource :: string
  sa_state :: AssignmentState
  sa_revokedBy :: string
  sa_revokedAt :: gotime
  sa_revocationReason :: string
  sa_createdAt :: gotime
  sa_updatedAt :: gotime

record AssignmentAuditRecord =
  aa_RecordID :: string
  aa_TenantID :: string
  aa_AssignmentID :: string
  aa_Subject :: string
  aa_Role :: Role
  aa_Scope :: ScopeGrant
  aa_Transition :: string
  aa_ActorSubject :: string
  aa_Reason :: string
  aa_RecordedAt :: gotime

definition Assignment_IsValidAt :: "ScopedAssignment \<Rightarrow> gotime \<Rightarrow> bool" where
  "Assignment_IsValidAt s t \<longleftrightarrow> sa_state s = AssignmentStateActive \<and> \<not> t < sa_validFrom s \<and> \<not> After t (sa_validTo s)"

definition StateAt :: "ScopedAssignment \<Rightarrow> gotime \<Rightarrow> AssignmentState" where
  "StateAt s t =
     (if sa_state s = AssignmentStateRevoked then AssignmentStateRevoked
      else if After t (sa_validTo s) \<or> t < sa_validFrom s then AssignmentStateExpired
      else AssignmentStateActive)"

definition Assignment_ToRoleAssignment :: "ScopedAssignment \<Rightarrow> RoleAssignment" where
  "Assignment_ToRoleAssignment s =
     \<lparr>ra_Subject = sa_subject s, ra_TenantID = sa_tenantID s, ra_Role = sa_role s, ra_Scope = sa_scope s\<rparr>"

definition assignment_audit :: "ScopedAssignment \<Rightarrow> string \<Rightarrow> string \<Rightarrow> string \<Rightarrow> gotime \<Rightarrow> AssignmentAuditRecord" where
  "assignment_audit s transition actor reason at =
     \<lparr>aa_RecordID = ''hasn_'' @ sa_assignmentID s @ ''_'' @ FormatInt (UnixNano at), aa_TenantID = sa_tenantID s,
      aa_AssignmentID = sa_assignmentID s, aa_Subject = sa_subject s, aa_Role = sa_role s, aa_Scope = sa_scope s,
      aa_Transition = transition, aa_ActorSubject = actor, aa_Reason = reason, aa_RecordedAt = at\<rparr>"

definition Assignment_Revoke ::
  "string \<Rightarrow> string \<Rightarrow> gotime \<Rightarrow> ScopedAssignment \<Rightarrow> iam_error + ScopedAssignment \<times> AssignmentAuditRecord" where
  "Assignment_Revoke revokedBy reason at s =
     (if sa_state s = AssignmentStateRevoked then Inl (AssignmentErr ErrAssignmentRevoked)
      else if TrimSpace revokedBy = [] then Inl (ErrorsNew ''revokedBy must not be blank'')
      else if TrimSpace reason = [] then Inl (ErrorsNew ''revocation reason must not be blank'')
      else Inr (s\<lparr>sa_state := AssignmentStateRevoked, sa_revokedBy := TrimSpace revokedBy, sa_revocationReason := TrimSpace reason,
                  sa_revokedAt := at, sa_updatedAt := at\<rparr>,
                assignment_audit s ''ASSIGNMENT_REVOKED'' (TrimSpace revokedBy) (TrimSpace reason) at))"

definition NewScopedAssignment ::
  "string \<Rightarrow> string \<Rightarrow> string \<Rightarrow> Role \<Rightarrow> ScopeGrant \<Rightarrow> gotime \<Rightarrow> gotime \<Rightarrow> string \<Rightarrow> gotime \<Rightarrow> iam_error + ScopedAssignment" where
  "NewScopedAssignment assignmentID tenantID subject role scope validFrom validTo approvalSource now =
     (let trimmedID = TrimSpace assignmentID; trimmedTenant = TrimSpace tenantID; trimmedApproval = TrimSpace approvalSource
      in if trimmedID = [] then Inl (AssignmentErr ErrBlankAssignmentID)
      else if trimmedTenant = [] then Inl (IdentityErr ErrBlankTenantID)
      else case ValidateSubject subject of Some e \<Rightarrow> Inl e | None \<Rightarrow>
        if \<not> KnownRoles role then Inl (AssignmentErr ErrUnknownRole)
        else if trimmedApproval = [] then Inl (AssignmentErr ErrBlankApprovalSource)
        else if validTo < validFrom \<or> validTo = validFrom then Inl ErrInvalidTimeWindow
        else if sg_TenantID scope \<noteq> [] \<and> sg_TenantID scope \<noteq> trimmedTenant
        then Inl (ErrorsNew ''scope tenant must match assignment tenant'')
        else Inr \<lparr>sa_assignmentID = trimmedID, sa_tenantID = trimmedTenant, sa_subject = TrimSpace subject, sa_role = role,
                  sa_scope = scope\<lparr>sg_TenantID := trimmedTenant\<rparr>, sa_validFrom = validFrom, sa_validTo = validTo,
                  sa_approvalSource = trimmedApproval, sa_state = AssignmentStateActive, sa_revokedBy = [], sa_revokedAt = 0,
                  sa_revocationReason = [], sa_createdAt = now, sa_updatedAt = now\<rparr>)"

subsection \<open>Conflicts of roles\<close>

text \<open>The four rules of the loop body: the same role, inspector and auditor, manager and auditor, contractor and administration.\<close>

definition roles_conflict :: "Role \<Rightarrow> Role \<Rightarrow> bool" where
  "roles_conflict exRole candRole \<longleftrightarrow>
     exRole = candRole \<or>
     (candRole = RoleInspector \<and> exRole = RoleAuditor \<or> candRole = RoleAuditor \<and> exRole = RoleInspector) \<or>
     (candRole = RoleProjectManager \<and> exRole = RoleAuditor \<or> candRole = RoleAuditor \<and> exRole = RoleProjectManager) \<or>
     candRole = RoleContractor \<and> (exRole = RoleTenantAdmin \<or> exRole = RoleProjectManager) \<or>
     (candRole = RoleTenantAdmin \<or> candRole = RoleProjectManager) \<and> exRole = RoleContractor"

fun CheckRoleConflict :: "ScopedAssignment list \<Rightarrow> ScopedAssignment \<Rightarrow> gotime \<Rightarrow> iam_error option" where
  "CheckRoleConflict [] candidate at = None"
| "CheckRoleConflict (ex # existing) candidate at =
     (if sa_assignmentID ex = sa_assignmentID candidate then CheckRoleConflict existing candidate at
      else if sa_tenantID ex \<noteq> sa_tenantID candidate \<or> sa_subject ex \<noteq> sa_subject candidate
      then CheckRoleConflict existing candidate at
      else if \<not> Assignment_IsValidAt ex at then CheckRoleConflict existing candidate at
      else if CheckScopesOverlap (sa_scope ex) (sa_scope candidate) \<and> roles_conflict (sa_role ex) (sa_role candidate)
      then Some (AssignmentErr ErrRoleConflictDetected)
      else CheckRoleConflict existing candidate at)"

subsection \<open>Ledger and registry\<close>

definition AssignmentLedger_AppendRecord ::
  "AssignmentAuditRecord \<Rightarrow> AssignmentAuditRecord list \<Rightarrow> (AssignmentAuditRecord list, iam_error, unit) outcome" where
  "AssignmentLedger_AppendRecord rec l =
     (if aa_TenantID rec = [] \<or> aa_AssignmentID rec = [] then (l, Inl (AssignmentErr ErrBlankAssignmentID)) else (l @ [rec], Inr ()))"

definition GetAssignmentAuditTrail :: "string \<Rightarrow> string \<Rightarrow> AssignmentAuditRecord list \<Rightarrow> iam_error + AssignmentAuditRecord list" where
  "GetAssignmentAuditTrail tenantID assignmentID l =
     (if TrimSpace tenantID = [] then Inl (IdentityErr ErrBlankTenantID)
      else if TrimSpace assignmentID = [] then Inl (AssignmentErr ErrBlankAssignmentID)
      else Inr (filter (\<lambda>rec. aa_TenantID rec = TrimSpace tenantID \<and> aa_AssignmentID rec = TrimSpace assignmentID) l))"

definition GetSubjectAuditTrail :: "string \<Rightarrow> string \<Rightarrow> AssignmentAuditRecord list \<Rightarrow> iam_error + AssignmentAuditRecord list" where
  "GetSubjectAuditTrail tenantID subject l =
     (if TrimSpace tenantID = [] then Inl (IdentityErr ErrBlankTenantID)
      else if TrimSpace subject = [] then Inl (IdentityErr ErrBlankSubject)
      else Inr (filter (\<lambda>rec. aa_TenantID rec = TrimSpace tenantID \<and> aa_Subject rec = TrimSpace subject) l))"

record ScopedAssignmentRegistry =
  sr_assignments :: "string \<rightharpoonup> ScopedAssignment"
  sr_ledger :: "AssignmentAuditRecord list"

definition NewScopedAssignmentRegistry :: "AssignmentAuditRecord list option \<Rightarrow> ScopedAssignmentRegistry" where
  "NewScopedAssignmentRegistry ledger =
     \<lparr>sr_assignments = Map.empty, sr_ledger = (case ledger of None \<Rightarrow> [] | Some l \<Rightarrow> l)\<rparr>"

definition makeAssignmentKey :: "string \<Rightarrow> string \<Rightarrow> string" where
  "makeAssignmentKey tenantID assignmentID = TrimSpace tenantID @ '':'' @ TrimSpace assignmentID"

definition log_assignment ::
  "AssignmentAuditRecord \<Rightarrow> ScopedAssignmentRegistry \<Rightarrow> (ScopedAssignmentRegistry, iam_error, unit) outcome" where
  "log_assignment audit r = (case AssignmentLedger_AppendRecord audit (sr_ledger r) of (l, res) \<Rightarrow> (r\<lparr>sr_ledger := l\<rparr>, res))"

text \<open>The values of the map in the order of iteration.\<close>

definition stored_values :: "string list \<Rightarrow> ScopedAssignmentRegistry \<Rightarrow> ScopedAssignment list" where
  "stored_values key_order r = List.map_filter (sr_assignments r) key_order"

definition RegisterAssignment ::
  "string list \<Rightarrow> ScopedAssignment \<Rightarrow> string \<Rightarrow> string \<Rightarrow> gotime \<Rightarrow> ScopedAssignmentRegistry \<Rightarrow>
   (ScopedAssignmentRegistry, iam_error, unit) outcome" where
  "RegisterAssignment key_order assignment actorSubject reason at r =
     (if sa_tenantID assignment = [] \<or> sa_assignmentID assignment = [] then (r, Inl (AssignmentErr ErrBlankAssignmentID))
      else let key = makeAssignmentKey (sa_tenantID assignment) (sa_assignmentID assignment);
               existing = filter (\<lambda>a. sa_tenantID a = sa_tenantID assignment \<and> sa_subject a = sa_subject assignment)
                            (stored_values key_order r)
           in if sr_assignments r key \<noteq> None then (r, Inl (AssignmentErr ErrDuplicateAssignmentID))
              else case CheckRoleConflict existing assignment at of
                Some e \<Rightarrow> (r, Inl e)
              | None \<Rightarrow> log_assignment (assignment_audit assignment ''ASSIGNMENT_CREATED'' (TrimSpace actorSubject) (TrimSpace reason) at)
                          (r\<lparr>sr_assignments := (sr_assignments r)(key \<mapsto> assignment)\<rparr>))"

definition RevokeAssignment ::
  "string \<Rightarrow> string \<Rightarrow> string \<Rightarrow> string \<Rightarrow> gotime \<Rightarrow> ScopedAssignmentRegistry \<Rightarrow>
   (ScopedAssignmentRegistry, iam_error, ScopedAssignment) outcome" where
  "RevokeAssignment tenantID assignmentID actorSubject reason at r =
     (let key = makeAssignmentKey tenantID assignmentID in
      case sr_assignments r key of
        None \<Rightarrow> (r, Inl (AssignmentErr ErrAssignmentNotFound))
      | Some current \<Rightarrow> (case Assignment_Revoke actorSubject reason at current of
            Inl e \<Rightarrow> (r, Inl e)
          | Inr (revoked, audit) \<Rightarrow>
              (case log_assignment audit (r\<lparr>sr_assignments := (sr_assignments r)(key \<mapsto> revoked)\<rparr>) of
                 (r', Inl e) \<Rightarrow> (r', Inl e) | (r', Inr _) \<Rightarrow> (r', Inr revoked))))"

definition GetAssignment :: "string \<Rightarrow> string \<Rightarrow> ScopedAssignmentRegistry \<Rightarrow> iam_error + ScopedAssignment" where
  "GetAssignment tenantID assignmentID r =
     (case sr_assignments r (makeAssignmentKey tenantID assignmentID) of
        None \<Rightarrow> Inl (AssignmentErr ErrAssignmentNotFound) | Some a \<Rightarrow> Inr a)"

definition ListActiveAssignments ::
  "string list \<Rightarrow> string \<Rightarrow> string \<Rightarrow> gotime \<Rightarrow> ScopedAssignmentRegistry \<Rightarrow> iam_error + ScopedAssignment list" where
  "ListActiveAssignments key_order tenantID subject at r =
     (if TrimSpace tenantID = [] then Inl (IdentityErr ErrBlankTenantID)
      else if TrimSpace subject = [] then Inl (IdentityErr ErrBlankSubject)
      else Inr (filter (\<lambda>a. sa_tenantID a = TrimSpace tenantID \<and> sa_subject a = TrimSpace subject \<and> Assignment_IsValidAt a at)
                  (stored_values key_order r)))"

definition ListAssignmentsByScope ::
  "string list \<Rightarrow> string \<Rightarrow> ScopeGrant \<Rightarrow> gotime \<Rightarrow> ScopedAssignmentRegistry \<Rightarrow> iam_error + ScopedAssignment list" where
  "ListAssignmentsByScope key_order tenantID scope at r =
     (if TrimSpace tenantID = [] then Inl (IdentityErr ErrBlankTenantID)
      else Inr (filter (\<lambda>a. sa_tenantID a = TrimSpace tenantID \<and> Assignment_IsValidAt a at \<and> CheckScopesOverlap (sa_scope a) scope)
                  (stored_values key_order r)))"

definition PopulateEvaluator ::
  "string list \<Rightarrow> string \<Rightarrow> gotime \<Rightarrow> ScopedAssignmentRegistry \<Rightarrow> PolicyEvaluator option \<Rightarrow> iam_error + PolicyEvaluator" where
  "PopulateEvaluator key_order tenantID at r evaluator =
     (if TrimSpace tenantID = [] then Inl (IdentityErr ErrBlankTenantID)
      else case evaluator of None \<Rightarrow> Inl (ErrorsNew ''evaluator cannot be nil'')
      | Some e \<Rightarrow> Inr (fold (\<lambda>a. AddRoleAssignment (Assignment_ToRoleAssignment a))
                   (filter (\<lambda>a. sa_tenantID a = TrimSpace tenantID \<and> Assignment_IsValidAt a at) (stored_values key_order r)) e))"

definition EvaluateScopedAccess ::
  "string list \<Rightarrow> ScopedAssignmentRegistry option \<Rightarrow> PolicyEvaluator option \<Rightarrow> AccessRequest \<Rightarrow> gotime \<Rightarrow> EvaluationResult" where
  "EvaluateScopedAccess key_order registry evaluator req at =
     (case (registry, evaluator) of
        (Some r, Some e) \<Rightarrow>
          if \<not> id_IsAuthenticated (rq_Identity req) \<or> TrimSpace (id_Subject (rq_Identity req)) = [] \<or>
             TrimSpace (id_TenantID (rq_Identity req)) = []
          then Deny DenialUnauthenticated ''unauthenticated caller identity''
          else if id_TenantID (rq_Identity req) \<noteq> tg_TenantID (rq_Target req)
          then Deny DenialCrossTenant ''cross-tenant access prohibited''
          else (case ListActiveAssignments key_order (id_TenantID (rq_Identity req)) (id_Subject (rq_Identity req)) at r of
              Inl _ \<Rightarrow> Deny DenialRoleNotGranted ''no active scoped role assignments found for subject''
            | Inr active \<Rightarrow>
                if active = [] then Deny DenialRoleNotGranted ''no active scoped role assignments found for subject''
                else Evaluate req (scoped_evaluator (map Assignment_ToRoleAssignment active) e))
      | _ \<Rightarrow> Deny DenialDefaultDeny ''uninitialized authorization evaluators'')"

subsection \<open>Steps of the registry\<close>

text \<open>What the constructor guarantees of an assignment it makes.\<close>

definition made_assignment :: "ScopedAssignment \<Rightarrow> bool" where
  "made_assignment a \<longleftrightarrow> TrimSpace (sa_assignmentID a) = sa_assignmentID a \<and> TrimSpace (sa_tenantID a) = sa_tenantID a \<and>
     TrimSpace (sa_subject a) = sa_subject a \<and> KnownRoles (sa_role a) \<and> sa_state a = AssignmentStateActive \<and> sa_validFrom a < sa_validTo a \<and>
     sg_TenantID (sa_scope a) = sa_tenantID a"

lemma NewScopedAssignment_made:
  "NewScopedAssignment i t s role scope f u src now = Inr a \<Longrightarrow> made_assignment a"
  by (auto simp: NewScopedAssignment_def made_assignment_def Let_def split: if_splits option.splits)

definition enumerates :: "string list \<Rightarrow> ScopedAssignmentRegistry \<Rightarrow> bool" where
  "enumerates key_order r \<longleftrightarrow> distinct key_order \<and> set key_order = dom (sr_assignments r)"

lemma set_stored_values: "set (stored_values ks r) = {a. \<exists>k\<in>set ks. sr_assignments r k = Some a}"
  by (force simp: stored_values_def List.map_filter_def)

lemma stored_values_enumerated: "enumerates ks r \<Longrightarrow> set (stored_values ks r) = ran (sr_assignments r)"
  by (auto simp: set_stored_values enumerates_def ran_def)

datatype assignment_call =
  CallRegisterAssignment "string list" ScopedAssignment string string gotime
| CallRevokeAssignment string string string string gotime

fun assignment_exec :: "assignment_call \<Rightarrow> ScopedAssignmentRegistry \<Rightarrow> (ScopedAssignmentRegistry, iam_error, unit) outcome" where
  "assignment_exec (CallRegisterAssignment ks a actor reason at) r = RegisterAssignment ks a actor reason at r"
| "assignment_exec (CallRevokeAssignment t i actor reason at) r = discard (RevokeAssignment t i actor reason at r)"

text \<open>
  A run: the clock readings do not decrease (the last one is the index), every loop runs over an enumeration of the map, and the
  registered assignments satisfy \<open>P\<close> at the time of their registration.
\<close>

inductive registry_at :: "(gotime \<Rightarrow> ScopedAssignment \<Rightarrow> bool) \<Rightarrow> gotime \<Rightarrow> ScopedAssignmentRegistry \<Rightarrow> bool"
  for P :: "gotime \<Rightarrow> ScopedAssignment \<Rightarrow> bool" where
  start: "registry_at P T (NewScopedAssignmentRegistry None)"
| register: "registry_at P T r \<Longrightarrow> T \<le> at \<Longrightarrow> enumerates ks r \<Longrightarrow> made_assignment a \<Longrightarrow> P at a \<Longrightarrow>
    registry_at P at (fst (RegisterAssignment ks a actor reason at r))"
| revoke: "registry_at P T r \<Longrightarrow> T \<le> at \<Longrightarrow> registry_at P at (fst (RevokeAssignment t i actor reason at r))"

lemma log_assignment_eq:
  "log_assignment (assignment_audit a w actor reason at) r =
     (if sa_tenantID a = [] \<or> sa_assignmentID a = [] then (r, Inl (AssignmentErr ErrBlankAssignmentID))
      else (r\<lparr>sr_ledger := sr_ledger r @ [assignment_audit a w actor reason at]\<rparr>, Inr ()))"
  by (simp add: log_assignment_def AssignmentLedger_AppendRecord_def assignment_audit_def)

lemma RegisterAssignment_cases:
  assumes "RegisterAssignment ks a actor reason at r = (r', res)"
  obtains (refused) e where "r' = r" "res = Inl e"
  | (stored) "sa_tenantID a \<noteq> []" "sa_assignmentID a \<noteq> []"
      "sr_assignments r (makeAssignmentKey (sa_tenantID a) (sa_assignmentID a)) = None"
      "CheckRoleConflict (filter (\<lambda>x. sa_tenantID x = sa_tenantID a \<and> sa_subject x = sa_subject a) (stored_values ks r)) a at = None"
      "r' = r\<lparr>sr_assignments := (sr_assignments r)(makeAssignmentKey (sa_tenantID a) (sa_assignmentID a) \<mapsto> a),
              sr_ledger := sr_ledger r @ [assignment_audit a ''ASSIGNMENT_CREATED'' (TrimSpace actor) (TrimSpace reason) at]\<rparr>"
      "res = Inr ()"
proof (cases "snd (RegisterAssignment ks a actor reason at r)")
  case (Inl e)
  have "fst (RegisterAssignment ks a actor reason at r) = r"
    using Inl unfolding RegisterAssignment_def Let_def log_assignment_eq
    by (cases "sa_tenantID a = [] \<or> sa_assignmentID a = []") (simp_all split: if_splits option.splits)
  with Inl assms show thesis by (intro refused) auto
next
  case (Inr u)
  let ?key = "makeAssignmentKey (sa_tenantID a) (sa_assignmentID a)"
  let ?existing = "filter (\<lambda>x. sa_tenantID x = sa_tenantID a \<and> sa_subject x = sa_subject a) (stored_values ks r)"
  have ok: "sa_tenantID a \<noteq> []" "sa_assignmentID a \<noteq> []" "sr_assignments r ?key = None" "CheckRoleConflict ?existing a at = None"
    using Inr unfolding RegisterAssignment_def Let_def by (simp_all split: if_splits option.splits)
  from assms ok show thesis
    by (intro stored ok) (simp_all add: RegisterAssignment_def log_assignment_eq)
qed

text \<open>What revoking makes of an assignment.\<close>

definition revoked_from :: "ScopedAssignment \<Rightarrow> ScopedAssignment \<Rightarrow> bool" where
  "revoked_from a b \<longleftrightarrow> sa_state a \<noteq> AssignmentStateRevoked \<and> sa_state b = AssignmentStateRevoked \<and> sa_revokedBy b \<noteq> [] \<and>
     sa_revocationReason b \<noteq> [] \<and> sa_assignmentID b = sa_assignmentID a \<and> sa_tenantID b = sa_tenantID a \<and>
     sa_subject b = sa_subject a \<and> sa_role b = sa_role a \<and> sa_scope b = sa_scope a \<and> sa_validFrom b = sa_validFrom a \<and>
     sa_validTo b = sa_validTo a"

definition nonblank :: "ScopedAssignment \<Rightarrow> bool" where
  "nonblank a \<longleftrightarrow> sa_tenantID a \<noteq> [] \<and> sa_assignmentID a \<noteq> []"

lemma RevokeAssignment_cases:
  assumes "RevokeAssignment t i actor reason at r = (r', res)"
    and "\<forall>a. sr_assignments r (makeAssignmentKey t i) = Some a \<longrightarrow> nonblank a"
  obtains (refused) e where "r' = r" "res = Inl e"
  | (revoked) a b where "res = Inr b" "sr_assignments r (makeAssignmentKey t i) = Some a" "revoked_from a b"
      "r' = r\<lparr>sr_assignments := (sr_assignments r)(makeAssignmentKey t i \<mapsto> b),
         sr_ledger := sr_ledger r @ [assignment_audit a ''ASSIGNMENT_REVOKED'' (TrimSpace actor) (TrimSpace reason) at]\<rparr>"
proof (cases "sr_assignments r (makeAssignmentKey t i)")
  case None
  with assms(1) have "r' = r" "res = Inl (AssignmentErr ErrAssignmentNotFound)" by (auto simp: RevokeAssignment_def)
  with refused show thesis by blast
next
  case (Some a)
  have ids: "sa_tenantID a \<noteq> []" "sa_assignmentID a \<noteq> []" using assms(2) Some by (simp_all add: nonblank_def)
  show thesis
  proof (cases "Assignment_Revoke actor reason at a")
    case (Inl e)
    with Some assms(1) have "r' = r" "res = Inl e" by (auto simp: RevokeAssignment_def)
    with refused show thesis by blast
  next
    case (Inr p)
    then obtain b where p: "p = (b, assignment_audit a ''ASSIGNMENT_REVOKED'' (TrimSpace actor) (TrimSpace reason) at)"
      and b: "revoked_from a b"
      by (auto simp: Assignment_Revoke_def revoked_from_def split: if_splits)
    with Inr Some assms(1) ids show thesis
      by (intro revoked [OF _ Some b]) (simp_all add: RevokeAssignment_def log_assignment_eq)
  qed
qed

lemma CheckRoleConflict_None:
  "CheckRoleConflict existing c at = None \<longleftrightarrow>
     (\<forall>ex\<in>set existing. sa_assignmentID ex \<noteq> sa_assignmentID c \<and> sa_tenantID ex = sa_tenantID c \<and> sa_subject ex = sa_subject c \<and>
        Assignment_IsValidAt ex at \<and> CheckScopesOverlap (sa_scope ex) (sa_scope c) \<longrightarrow> \<not> roles_conflict (sa_role ex) (sa_role c))"
  by (induction existing) auto

lemma roles_conflict_sym: "roles_conflict r s \<longleftrightarrow> roles_conflict s r"
  by (auto simp: roles_conflict_def)

lemma fields_overlap_sym: "fields_overlap a b \<longleftrightarrow> fields_overlap b a"
  by (auto simp: fields_overlap_def)

lemma CheckScopesOverlap_sym: "CheckScopesOverlap a b \<longleftrightarrow> CheckScopesOverlap b a"
  by (simp add: CheckScopesOverlap_fields fields_overlap_sym [of "sg_TenantID a"] fields_overlap_sym [of "sg_CompanyID a"]
      fields_overlap_sym [of "sg_ProjectID a"] fields_overlap_sym [of "sg_SiteID a"] fields_overlap_sym [of "sg_AreaID a"])

subsection \<open>Separation of duties\<close>

text \<open>Two assignments of one subject that must not be in force together.\<close>

definition incompatible :: "ScopedAssignment \<Rightarrow> ScopedAssignment \<Rightarrow> bool" where
  "incompatible a b \<longleftrightarrow> sa_tenantID a = sa_tenantID b \<and> sa_subject a = sa_subject b \<and>
     CheckScopesOverlap (sa_scope a) (sa_scope b) \<and> roles_conflict (sa_role a) (sa_role b)"

lemma incompatible_sym: "incompatible a b \<longleftrightarrow> incompatible b a"
  by (auto simp: incompatible_def roles_conflict_sym CheckScopesOverlap_sym)

definition in_force_together :: "ScopedAssignment \<Rightarrow> ScopedAssignment \<Rightarrow> gotime \<Rightarrow> bool" where
  "in_force_together a b t \<longleftrightarrow> Assignment_IsValidAt a t \<and> Assignment_IsValidAt b t"

definition keyed :: "string \<Rightarrow> ScopedAssignment \<Rightarrow> bool" where
  "keyed k a \<longleftrightarrow> k = makeAssignmentKey (sa_tenantID a) (sa_assignmentID a) \<and> nonblank a"

definition sod_inv :: "gotime \<Rightarrow> ScopedAssignmentRegistry \<Rightarrow> bool" where
  "sod_inv T r \<longleftrightarrow>
     (\<forall>k a. sr_assignments r k = Some a \<longrightarrow> keyed k a \<and> sa_validFrom a \<le> T) \<and>
     (\<forall>k a k' b t. sr_assignments r k = Some a \<longrightarrow> sr_assignments r k' = Some b \<longrightarrow> k \<noteq> k' \<longrightarrow> incompatible a b \<longrightarrow> T \<le> t \<longrightarrow>
        \<not> in_force_together a b t)"

lemma sod_inv_later: "sod_inv T r \<Longrightarrow> T \<le> T' \<Longrightarrow> sod_inv T' r"
  by (fastforce simp: sod_inv_def)

lemma valid_later: "Assignment_IsValidAt a t \<Longrightarrow> sa_validFrom a \<le> at \<Longrightarrow> at \<le> t \<Longrightarrow> Assignment_IsValidAt a at"
  by (auto simp: Assignment_IsValidAt_def After_def)

lemma register_conflict_free:
  assumes "sod_inv at r" "enumerates ks r"
    and "sr_assignments r (makeAssignmentKey (sa_tenantID c) (sa_assignmentID c)) = None"
    and "CheckRoleConflict (filter (\<lambda>x. sa_tenantID x = sa_tenantID c \<and> sa_subject x = sa_subject c) (stored_values ks r)) c at = None"
    and "sr_assignments r k = Some a" "incompatible a c" "at \<le> t"
  shows "\<not> in_force_together a c t"
proof
  assume "in_force_together a c t"
  then have "Assignment_IsValidAt a t" by (simp add: in_force_together_def)
  moreover have "sa_validFrom a \<le> at" "keyed k a" using assms(1,5) by (auto simp: sod_inv_def)
  ultimately have "Assignment_IsValidAt a at" using assms(7) valid_later by blast
  moreover have "a \<in> set (stored_values ks r)" using assms(2,5) by (auto simp: stored_values_enumerated ran_def)
  moreover have "sa_assignmentID a \<noteq> sa_assignmentID c"
    using assms(3,5,6) \<open>keyed k a\<close> by (auto simp: keyed_def incompatible_def)
  ultimately show False using assms(4,6) by (auto simp: CheckRoleConflict_None incompatible_def)
qed

lemma sod_inv_register:
  assumes "sod_inv at r" "enumerates ks r" "sa_validFrom c \<le> at"
  shows "sod_inv at (fst (RegisterAssignment ks c actor reason at r))"
proof (cases "RegisterAssignment ks c actor reason at r")
  case (Pair r' res)
  then show ?thesis
  proof (cases rule: RegisterAssignment_cases)
    case stored
    note free = register_conflict_free [OF assms(1,2) stored(3,4)]
    have "\<not> in_force_together c a t" if "sr_assignments r k = Some a" "incompatible c a" "at \<le> t" for k a t
      using free [OF that(1) _ that(3)] that(2) by (simp add: incompatible_sym in_force_together_def conj_commute)
    moreover have "keyed (makeAssignmentKey (sa_tenantID c) (sa_assignmentID c)) c"
      using stored(1,2) by (simp add: keyed_def nonblank_def)
    ultimately show ?thesis using assms(1,3) free Pair stored(5) unfolding sod_inv_def by (simp split: if_splits)
  qed (use assms(1) Pair in simp)
qed

lemma sod_inv_update:
  assumes "sod_inv T r" "sr_assignments r k = Some a" "sr_assignments r' = (sr_assignments r)(k \<mapsto> b)" "revoked_from a b"
  shows "sod_inv T r'"
proof -
  have never: "\<not> in_force_together b x t" "\<not> in_force_together x b t" for x t
    using assms(4) by (auto simp: in_force_together_def Assignment_IsValidAt_def revoked_from_def)
  have "keyed k a" "sa_validFrom a \<le> T" using assms(1,2) by (auto simp: sod_inv_def)
  then have "keyed k b" "sa_validFrom b \<le> T" using assms(4) by (auto simp: keyed_def nonblank_def revoked_from_def)
  then show ?thesis using assms(1) unfolding sod_inv_def assms(3) by (simp add: never)
qed

lemma sod_inv_revoke:
  assumes "sod_inv T r"
  shows "sod_inv T (fst (RevokeAssignment t i actor reason at r))"
proof (cases "RevokeAssignment t i actor reason at r")
  case (Pair r' res)
  have "\<forall>a. sr_assignments r (makeAssignmentKey t i) = Some a \<longrightarrow> nonblank a" using assms by (auto simp: sod_inv_def keyed_def)
  with Pair show ?thesis
  proof (cases rule: RevokeAssignment_cases)
    case (revoked a b)
    have "sr_assignments r' = (sr_assignments r)(makeAssignmentKey t i \<mapsto> b)" by (simp add: revoked(4))
    with Pair show ?thesis using sod_inv_update [OF assms revoked(2) _ revoked(3)] by simp
  qed (use assms Pair in simp)
qed

text \<open>An assignment that is in force from its registration on, at the latest.\<close>

definition immediate :: "gotime \<Rightarrow> ScopedAssignment \<Rightarrow> bool" where
  "immediate at a \<longleftrightarrow> sa_validFrom a \<le> at"

lemma reachable_sod_inv: "registry_at immediate T r \<Longrightarrow> sod_inv T r"
proof (induction rule: registry_at.induct)
  case (start T)
  show ?case by (simp add: sod_inv_def NewScopedAssignmentRegistry_def)
next
  case (register T r at ks a actor reason)
  then show ?case by (intro sod_inv_register sod_inv_later [of T r at]) (simp_all add: immediate_def)
next
  case (revoke T r at t i actor reason)
  then show ?case by (intro sod_inv_revoke sod_inv_later [of T r at])
qed

subsection \<open>Ledger, and revocation for good\<close>

lemma assignment_frame:
  "prefix (sr_ledger r) (sr_ledger (fst (assignment_exec c r)))"
  "sr_assignments r k = Some a \<Longrightarrow> sa_state a = AssignmentStateRevoked \<Longrightarrow> sr_assignments (fst (assignment_exec c r)) k = Some a"
  by (cases c; auto simp: RegisterAssignment_def RevokeAssignment_def Assignment_Revoke_def Let_def log_assignment_def
      AssignmentLedger_AppendRecord_def split: option.split sum.splits)+

interpretation assignments: journaled assignment_exec "\<lambda>_. True" "\<lambda>_. True" "\<lambda>_. sr_ledger"
  by unfold_locales (simp_all add: assignment_frame)

interpretation revoked_assignments: absorbing assignment_exec "\<lambda>_. True" "\<lambda>_. True" "\<lambda>k r. sr_assignments r k"
  "\<lambda>a. sa_state a = AssignmentStateRevoked"
  by unfold_locales (simp_all add: assignment_frame)

subsection \<open>Stored assignments\<close>

lemma Evaluate_same_assignments:
  assumes "pe_memberships e = pe_memberships e'" and "pe_entitlements e = pe_entitlements e'"
    and "pe_assignments e (member_key (id_TenantID (rq_Identity req)) (id_Subject (rq_Identity req))) =
      pe_assignments e' (member_key (id_TenantID (rq_Identity req)) (id_Subject (rq_Identity req)))"
  shows "Evaluate req e = Evaluate req e'"
  unfolding Evaluate_def Let_def member_key_def [symmetric] by (simp only: assms)

lemma to_role_fields:
  "ra_TenantID (Assignment_ToRoleAssignment a) = sa_tenantID a" "ra_Subject (Assignment_ToRoleAssignment a) = sa_subject a"
  by (simp_all add: Assignment_ToRoleAssignment_def)

lemma RevokeAssignment_stored:
  "sr_assignments (fst (RevokeAssignment t i actor reason at r)) k = Some b \<Longrightarrow>
     \<exists>a. sr_assignments r k = Some a \<and> sa_tenantID b = sa_tenantID a \<and> sa_subject b = sa_subject a"
  by (auto simp: RevokeAssignment_def Assignment_Revoke_def Let_def log_assignment_def AssignmentLedger_AppendRecord_def
      split: option.splits sum.splits if_splits)

lemma RegisterAssignment_stored:
  assumes "sr_assignments (fst (RegisterAssignment ks a actor reason at r)) k = Some b"
  shows "sr_assignments r k = Some b \<or> b = a"
proof (cases "RegisterAssignment ks a actor reason at r")
  case (Pair r' res)
  then show ?thesis
    by (cases rule: RegisterAssignment_cases) (use assms Pair in \<open>simp_all split: if_splits\<close>)
qed

lemma stored_trimmed:
  assumes "registry_at P T r" "sr_assignments r k = Some a"
  shows "TrimSpace (sa_tenantID a) = sa_tenantID a \<and> TrimSpace (sa_subject a) = sa_subject a"
  using assms
proof (induction arbitrary: k a rule: registry_at.induct)
  case (start T)
  then show ?case by (simp add: NewScopedAssignmentRegistry_def)
next
  case (register T r at ks c actor reason)
  from register.prems consider "sr_assignments r k = Some a" | "a = c" using RegisterAssignment_stored by metis
  then show ?case using register.IH register.hyps by cases (auto simp: made_assignment_def)
next
  case (revoke T r at t i actor reason)
  then show ?case by (metis RevokeAssignment_stored)
qed

lemma ListActive_stored:
  assumes "ListActiveAssignments ks t s at r = Inr active" "a \<in> set active"
  obtains k where "k \<in> set ks" "sr_assignments r k = Some a" "sa_tenantID a = TrimSpace t" "sa_subject a = TrimSpace s"
    "Assignment_IsValidAt a at"
  using assms by (auto simp: ListActiveAssignments_def set_stored_values split: if_splits)

lemma ListActive_refused:
  "ListActiveAssignments ks t s at r = Inl err \<Longrightarrow> ListActiveAssignments ks' t s at r = Inl err"
  by (simp add: ListActiveAssignments_def split: if_splits)

lemma ListActive_order:
  assumes "set (stored_values ks r) = set (stored_values ks' r)" and "ListActiveAssignments ks t s at r = Inr xs"
  shows "\<exists>ys. ListActiveAssignments ks' t s at r = Inr ys \<and> set ys = set xs"
proof -
  let ?P = "\<lambda>a. sa_tenantID a = TrimSpace t \<and> sa_subject a = TrimSpace s \<and> Assignment_IsValidAt a at"
  have "ListActiveAssignments ks' t s at r = Inr (filter ?P (stored_values ks' r))" "xs = filter ?P (stored_values ks r)"
    using assms(2) unfolding ListActiveAssignments_def by (simp_all split: if_splits)
  then show ?thesis using assms(1) by simp
qed

lemma EvaluateScopedAccess_Allowed:
  "er_Allowed (EvaluateScopedAccess ks (Some r) (Some e) req at) \<longleftrightarrow>
     id_TenantID (rq_Identity req) = tg_TenantID (rq_Target req) \<and>
     (\<exists>active. ListActiveAssignments ks (id_TenantID (rq_Identity req)) (id_Subject (rq_Identity req)) at r = Inr active \<and> active \<noteq> [] \<and>
        er_Allowed (Evaluate req (scoped_evaluator (map Assignment_ToRoleAssignment active) e)))"
proof -
  have "er_Allowed (Evaluate req e') \<Longrightarrow> id_IsAuthenticated (rq_Identity req) \<and> TrimSpace (id_Subject (rq_Identity req)) \<noteq> [] \<and>
      TrimSpace (id_TenantID (rq_Identity req)) \<noteq> []" for e'
    by (auto simp: Evaluate_def Let_def split: if_splits)
  then show ?thesis by (auto simp: EvaluateScopedAccess_def split: sum.split)
qed

subsection \<open>Properties\<close>

text \<open>
  (C14) Separation of duties: in every registry reached with clock readings that do not decrease, by registrations that take effect at once, from
  the last reading on no subject has two assignments in force on overlapping scopes of the same tenant whose roles are equal or
  conflict (inspector or project manager with auditor, contractor with administrator or project manager).
\<close>

theorem separation_of_duties_enforced:
  assumes "registry_at immediate T r" and "sr_assignments r k = Some a" and "sr_assignments r k' = Some b" and "k \<noteq> k'"
    and "sa_tenantID a = sa_tenantID b" and "sa_subject a = sa_subject b" and "CheckScopesOverlap (sa_scope a) (sa_scope b)"
    and "Assignment_IsValidAt a t" and "Assignment_IsValidAt b t" and "T \<le> t"
  shows "\<not> roles_conflict (sa_role a) (sa_role b)"
proof
  assume "roles_conflict (sa_role a) (sa_role b)"
  with assms have "incompatible a b" "in_force_together a b t" by (simp_all add: incompatible_def in_force_together_def)
  with reachable_sod_inv [OF assms(1)] assms(2-4,10) show False unfolding sod_inv_def by blast
qed

text \<open>
  Scoped access is grounded: when \<open>EvaluateScopedAccess\<close> allows a request, the registry holds an assignment of the caller in the
  caller's tenant, not revoked and in its window, whose role permits the action and whose scope holds the target, and the caller
  is an active member of the tenant, which is the tenant of the target. Assignments held by the evaluator itself do not count.
\<close>

theorem scoped_access_grounded:
  assumes "er_Allowed (EvaluateScopedAccess ks (Some r) (Some e) req at)"
  shows "(\<exists>k\<in>set ks. \<exists>a. sr_assignments r k = Some a \<and> sa_tenantID a = TrimSpace (id_TenantID (rq_Identity req)) \<and>
      sa_subject a = TrimSpace (id_Subject (rq_Identity req)) \<and> sa_state a = AssignmentStateActive \<and>
      sa_validFrom a \<le> at \<and> at \<le> sa_validTo a \<and> rolePermitsAction (sa_role a) (rq_Action req) \<and>
      scopeMatches (sa_scope a) (rq_Target req)) \<and>
    pe_memberships e (member_key (id_TenantID (rq_Identity req)) (id_Subject (rq_Identity req))) = Some MembershipActive \<and>
    id_TenantID (rq_Identity req) = tg_TenantID (rq_Target req)"
proof -
  let ?who = "rq_Identity req"
  from assms obtain active where active: "ListActiveAssignments ks (id_TenantID ?who) (id_Subject ?who) at r = Inr active"
    and eval: "er_Allowed (Evaluate req (scoped_evaluator (map Assignment_ToRoleAssignment active) e))"
    and tenant: "id_TenantID ?who = tg_TenantID (rq_Target req)"
    by (auto simp: EvaluateScopedAccess_Allowed)
  from eval obtain grant where grant: "grant \<in> set (map Assignment_ToRoleAssignment active)" "covers req grant"
    and member: "pe_memberships e (member_key (id_TenantID ?who) (id_Subject ?who)) = Some MembershipActive"
    by (rule Evaluate_allowed_grant) auto
  from grant(1) obtain a where a: "a \<in> set active" "grant = Assignment_ToRoleAssignment a" by auto
  from active a(1) obtain k where k: "k \<in> set ks" "sr_assignments r k = Some a" "sa_tenantID a = TrimSpace (id_TenantID ?who)"
      "sa_subject a = TrimSpace (id_Subject ?who)" "Assignment_IsValidAt a at" by (rule ListActive_stored)
  moreover have "rolePermitsAction (sa_role a) (rq_Action req)" "scopeMatches (sa_scope a) (rq_Target req)"
    using grant(2) a(2) by (auto simp: covers_def in_scope_def Assignment_ToRoleAssignment_def)
  moreover have "sa_state a = AssignmentStateActive" "sa_validFrom a \<le> at" "at \<le> sa_validTo a"
    using k(5) by (simp_all add: Assignment_IsValidAt_def After_def)
  ultimately show ?thesis using member tenant by blast
qed

text \<open>
  On a target that is not archived the decision on a scoped access, its reason included, is the same in every order in which the
  map of assignments may be iterated.
\<close>

theorem scoped_decision_order_independent:
  assumes "enumerates ks r" and "enumerates ks' r" and "tg_Lifecycle (rq_Target req) \<noteq> ResourceArchived"
  shows "EvaluateScopedAccess ks (Some r) evaluator req at = EvaluateScopedAccess ks' (Some r) evaluator req at"
proof -
  have stored: "set (stored_values ks r) = set (stored_values ks' r)" using assms(1,2) by (simp add: stored_values_enumerated)
  have eval: "Evaluate req (scoped_evaluator (map Assignment_ToRoleAssignment xs) e) =
      Evaluate req (scoped_evaluator (map Assignment_ToRoleAssignment ys) e)" if "set xs = set ys" for xs ys e
    using that assms(3) by (intro Evaluate_same_grants) auto
  let ?list = "\<lambda>ks. ListActiveAssignments ks (id_TenantID (rq_Identity req)) (id_Subject (rq_Identity req)) at r"
  show ?thesis
  proof (cases evaluator)
    case (Some e)
    show ?thesis
    proof (cases "?list ks")
      case (Inl err)
      then have "?list ks' = Inl err" by (rule ListActive_refused)
      then show ?thesis unfolding EvaluateScopedAccess_def Some prod.case option.case Inl by (simp only: sum.case)
    next
      case (Inr xs)
      from ListActive_order [OF stored Inr] obtain ys where ys: "?list ks' = Inr ys" "set ys = set xs" by blast
      from ys(2) have "ys = [] \<longleftrightarrow> xs = []" by (metis set_empty)
      then show ?thesis unfolding EvaluateScopedAccess_def Some prod.case option.case Inr ys(1)
        by (simp only: sum.case eval [OF ys(2)])
    qed
  qed (simp add: EvaluateScopedAccess_def)
qed

text \<open>
  Two ways to the same answer: an evaluator without assignments of its own that \<open>PopulateEvaluator\<close> has filled for the caller's
  tenant allows a request exactly when \<open>EvaluateScopedAccess\<close> does, provided caller and target name the tenant alike.
\<close>

theorem populated_evaluator_agrees:
  assumes "registry_at P T r" and "PopulateEvaluator ks t at r (Some e) = Inr e'" and "\<forall>key. pe_assignments e key = []"
    and "TrimSpace t = TrimSpace (id_TenantID (rq_Identity req))" and "id_TenantID (rq_Identity req) = tg_TenantID (rq_Target req)"
  shows "er_Allowed (EvaluateScopedAccess ks (Some r) (Some e) req at) \<longleftrightarrow> er_Allowed (Evaluate req e')"
proof -
  let ?T = "TrimSpace (id_TenantID (rq_Identity req))" and ?S = "TrimSpace (id_Subject (rq_Identity req))"
  let ?key = "member_key (id_TenantID (rq_Identity req)) (id_Subject (rq_Identity req))"
  let ?tenant = "filter (\<lambda>a. sa_tenantID a = ?T \<and> Assignment_IsValidAt a at) (stored_values ks r)"
  define mine where "mine = filter (\<lambda>a. sa_tenantID a = ?T \<and> sa_subject a = ?S \<and> Assignment_IsValidAt a at) (stored_values ks r)"
  have trimmed: "TrimSpace (sa_tenantID a) = sa_tenantID a \<and> TrimSpace (sa_subject a) = sa_subject a" if "a \<in> set (stored_values ks r)" for a
    using stored_trimmed [OF assms(1)] that by (auto simp: set_stored_values)
  have e': "e' = fold AddRoleAssignment (map Assignment_ToRoleAssignment ?tenant) e"
    using assms(2,4) by (auto simp: PopulateEvaluator_def fold_map comp_def split: if_splits)
  have own: "filter (\<lambda>a. member_key (sa_tenantID a) (sa_subject a) = ?key) ?tenant = mine"
    "filter (\<lambda>a. member_key (sa_tenantID a) (sa_subject a) = ?key) mine = mine"
    unfolding mine_def filter_filter using trimmed by (auto simp: member_key_def intro!: filter_cong)
  have assigned: "pe_assignments e' ?key = map Assignment_ToRoleAssignment mine"
    using assms(3) by (simp add: e' fold_AddRoleAssignment filter_map comp_def to_role_fields own(1) del: filter_filter)
  moreover have "pe_assignments (scoped_evaluator (map Assignment_ToRoleAssignment mine) e) ?key = map Assignment_ToRoleAssignment mine"
    by (simp add: filter_map comp_def to_role_fields own(2))
  moreover have "pe_memberships e' = pe_memberships e" "pe_entitlements e' = pe_entitlements e" by (simp_all add: e' fold_AddRoleAssignment)
  ultimately have same: "Evaluate req (scoped_evaluator (map Assignment_ToRoleAssignment mine) e) = Evaluate req e'"
    by (intro Evaluate_same_assignments) simp_all
  have none: "\<not> er_Allowed (Evaluate req e')" if "mine = []"
  proof
    assume "er_Allowed (Evaluate req e')"
    then show False by (rule Evaluate_allowed_grant) (simp add: assigned that)
  qed
  show ?thesis
  proof (cases "?T = [] \<or> ?S = []")
    case True
    then have "\<not> er_Allowed (Evaluate req e')" by (auto simp: Evaluate_def)
    with True show ?thesis by (auto simp: EvaluateScopedAccess_Allowed ListActiveAssignments_def)
  next
    case False
    then have "ListActiveAssignments ks (id_TenantID (rq_Identity req)) (id_Subject (rq_Identity req)) at r = Inr mine"
      by (simp add: ListActiveAssignments_def mine_def)
    with same none assms(5) show ?thesis by (auto simp: EvaluateScopedAccess_Allowed)
  qed
qed

subsection \<open>Examples and witnesses\<close>

definition example_grant :: "string \<Rightarrow> Role \<Rightarrow> gotime \<Rightarrow> ScopedAssignment" where
  "example_grant i role valid_from = \<lparr>sa_assignmentID = i, sa_tenantID = ''ten_1'', sa_subject = ''usr_1'', sa_role = role,
     sa_scope = example_scope, sa_validFrom = valid_from, sa_validTo = 300, sa_approvalSource = ''board'', sa_state = AssignmentStateActive,
     sa_revokedBy = [], sa_revokedAt = 0, sa_revocationReason = [], sa_createdAt = 1, sa_updatedAt = 1\<rparr>"

lemma example_grant_made:
  "NewScopedAssignment ''asn_1'' ''ten_1'' ''usr_1 '' RoleViewer example_scope 1 300 '' board'' 1 = Inr (example_grant ''asn_1'' RoleViewer 1)"
  "NewScopedAssignment ''asn_2'' ''ten_1'' ''usr_1 '' RoleAuditor example_scope 1 300 '' board'' 1 = Inr (example_grant ''asn_2'' RoleAuditor 1)"
  by code_simp+

definition example_grants :: ScopedAssignmentRegistry where
  "example_grants = run_calls assignment_exec
     [CallRegisterAssignment [] (example_grant ''asn_1'' RoleViewer 1) ''adm'' ''team'' 5,
      CallRegisterAssignment [''ten_1:asn_1''] (example_grant ''asn_2'' RoleAuditor 1) ''adm'' ''team'' 6]
     (NewScopedAssignmentRegistry None)"

lemmas registry_eval = RegisterAssignment_def NewScopedAssignmentRegistry_def makeAssignmentKey_def stored_values_def List.map_filter_def
  example_grant_def Assignment_IsValidAt_def After_def roles_conflict_def log_assignment_def AssignmentLedger_AppendRecord_def
  assignment_audit_def Let_def

lemma example_first:
  "sr_assignments (fst (RegisterAssignment [] (example_grant ''asn_1'' RoleViewer 1) ''adm'' ''team'' 5 (NewScopedAssignmentRegistry None))) =
     [''ten_1:asn_1'' \<mapsto> example_grant ''asn_1'' RoleViewer 1]"
  by (simp add: registry_eval)

lemma example_grants_stored:
  "sr_assignments example_grants =
     [''ten_1:asn_1'' \<mapsto> example_grant ''asn_1'' RoleViewer 1, ''ten_1:asn_2'' \<mapsto> example_grant ''asn_2'' RoleAuditor 1]"
  by (simp add: example_grants_def registry_eval)

lemma example_grants_reached: "registry_at immediate 6 example_grants"
proof -
  note made = NewScopedAssignment_made [OF example_grant_made(1)] NewScopedAssignment_made [OF example_grant_made(2)]
  have imm: "immediate at (example_grant i role 1)" if "1 \<le> at" for at i role using that by (simp add: immediate_def example_grant_def)
  have "enumerates [] (NewScopedAssignmentRegistry None)" by (simp add: enumerates_def NewScopedAssignmentRegistry_def)
  then have "registry_at immediate 5 (fst (RegisterAssignment [] (example_grant ''asn_1'' RoleViewer 1) ''adm'' ''team'' 5 (NewScopedAssignmentRegistry None)))"
    using made(1) imm by (intro registry_at.register [OF registry_at.start [of _ 0]]) simp_all
  then have "registry_at immediate 6 (fst (RegisterAssignment [''ten_1:asn_1''] (example_grant ''asn_2'' RoleAuditor 1) ''adm'' ''team'' 6
      (fst (RegisterAssignment [] (example_grant ''asn_1'' RoleViewer 1) ''adm'' ''team'' 5 (NewScopedAssignmentRegistry None)))))"
    by (rule registry_at.register [OF _ _ _ made(2)]) (simp_all add: enumerates_def example_first imm)
  then show ?thesis by (simp add: example_grants_def)
qed

theorem separation_of_duties_enforced_witness: "\<not> roles_conflict RoleViewer RoleAuditor"
proof -
  have a: "sr_assignments example_grants ''ten_1:asn_1'' = Some (example_grant ''asn_1'' RoleViewer 1)"
    and b: "sr_assignments example_grants ''ten_1:asn_2'' = Some (example_grant ''asn_2'' RoleAuditor 1)"
    by (simp_all add: example_grants_stored)
  have "Assignment_IsValidAt (example_grant i role 1) 50" for i role by (simp add: example_grant_def Assignment_IsValidAt_def After_def)
  then have "\<not> roles_conflict (sa_role (example_grant ''asn_1'' RoleViewer 1)) (sa_role (example_grant ''asn_2'' RoleAuditor 1))"
    by (intro separation_of_duties_enforced [OF example_grants_reached a b, of 50])
      (simp_all add: example_grant_def CheckScopesOverlap_def)
  then show ?thesis by (simp add: example_grant_def)
qed

definition example_member :: PolicyEvaluator where
  "example_member = SetMembership ''ten_1'' ''usr_1'' MembershipActive NewPolicyEvaluator"

lemma example_listed:
  "ListActiveAssignments [''ten_1:asn_1'', ''ten_1:asn_2''] ''ten_1'' ''usr_1'' 50 example_grants =
     Inr [example_grant ''asn_1'' RoleViewer 1, example_grant ''asn_2'' RoleAuditor 1]"
  "ListActiveAssignments [''ten_1:asn_2'', ''ten_1:asn_1''] ''ten_1'' ''usr_1'' 50 example_grants =
     Inr [example_grant ''asn_2'' RoleAuditor 1, example_grant ''asn_1'' RoleViewer 1]"
  by (simp_all add: ListActiveAssignments_def stored_values_def List.map_filter_def example_grants_stored)
    (simp_all add: example_grant_def Assignment_IsValidAt_def After_def)

lemma example_scoped_allowed:
  "er_Allowed (EvaluateScopedAccess [''ten_1:asn_1'', ''ten_1:asn_2''] (Some example_grants) (Some example_member) (example_access ResourceActive) 50)"
  "\<not> er_Allowed (EvaluateScopedAccess [''ten_1:asn_1'', ''ten_1:asn_2''] (Some example_grants) (Some example_member) (example_access ResourceArchived) 50)"
  "er_Allowed (EvaluateScopedAccess [''ten_1:asn_2'', ''ten_1:asn_1''] (Some example_grants) (Some example_member) (example_access ResourceArchived) 50)"
proof -
  have who: "rq_Identity (example_access lc) = \<lparr>id_Subject = ''usr_1'', id_TenantID = ''ten_1'', id_IsAuthenticated = True\<rparr>"
    "tg_TenantID (rq_Target (example_access lc)) = ''ten_1''" for lc
    by (simp_all add: example_access_def)
  have "er_Allowed (Evaluate (example_access ResourceActive) (scoped_evaluator (map Assignment_ToRoleAssignment
      [example_grant ''asn_1'' RoleViewer 1, example_grant ''asn_2'' RoleAuditor 1]) example_member))"
    "\<not> er_Allowed (Evaluate (example_access ResourceArchived) (scoped_evaluator (map Assignment_ToRoleAssignment
      [example_grant ''asn_1'' RoleViewer 1, example_grant ''asn_2'' RoleAuditor 1]) example_member))"
    "er_Allowed (Evaluate (example_access ResourceArchived) (scoped_evaluator (map Assignment_ToRoleAssignment
      [example_grant ''asn_2'' RoleAuditor 1, example_grant ''asn_1'' RoleViewer 1]) example_member))"
    by code_simp+
  then show "er_Allowed (EvaluateScopedAccess [''ten_1:asn_1'', ''ten_1:asn_2''] (Some example_grants) (Some example_member) (example_access ResourceActive) 50)"
    "\<not> er_Allowed (EvaluateScopedAccess [''ten_1:asn_1'', ''ten_1:asn_2''] (Some example_grants) (Some example_member) (example_access ResourceArchived) 50)"
    "er_Allowed (EvaluateScopedAccess [''ten_1:asn_2'', ''ten_1:asn_1''] (Some example_grants) (Some example_member) (example_access ResourceArchived) 50)"
    by (simp_all only: EvaluateScopedAccess_Allowed who example_listed SubjectIdentity.select_convs sum.inject simp_thms ex_simps)
      simp_all
qed

theorem scoped_access_grounded_witness:
  "\<exists>k a. sr_assignments example_grants k = Some a \<and> rolePermitsAction (sa_role a) ActionRead"
proof -
  have action: "rq_Action (example_access ResourceActive) = ActionRead" by (simp add: example_access_def)
  from scoped_access_grounded [OF example_scoped_allowed(1)] obtain k a where
    "sr_assignments example_grants k = Some a" "rolePermitsAction (sa_role a) (rq_Action (example_access ResourceActive))" by blast
  then show ?thesis unfolding action by blast
qed

theorem scoped_decision_order_independent_witness:
  "EvaluateScopedAccess [''ten_1:asn_1'', ''ten_1:asn_2''] (Some example_grants) (Some example_member) (example_access ResourceActive) 50 =
   EvaluateScopedAccess [''ten_1:asn_2'', ''ten_1:asn_1''] (Some example_grants) (Some example_member) (example_access ResourceActive) 50"
  by (rule scoped_decision_order_independent) (auto simp: enumerates_def example_grants_stored example_access_def)

theorem populated_evaluator_agrees_witness:
  "\<exists>e'. PopulateEvaluator [''ten_1:asn_1'', ''ten_1:asn_2''] ''ten_1'' 50 example_grants (Some example_member) = Inr e' \<and>
     er_Allowed (Evaluate (example_access ResourceActive) e')"
proof -
  obtain e' where e': "PopulateEvaluator [''ten_1:asn_1'', ''ten_1:asn_2''] ''ten_1'' 50 example_grants (Some example_member) = Inr e'"
    by (simp add: PopulateEvaluator_def)
  have "\<forall>key. pe_assignments example_member key = []" by (simp add: example_member_def SetMembership_def NewPolicyEvaluator_def)
  from populated_evaluator_agrees [OF example_grants_reached e' this, of "example_access ResourceActive"] e' example_scoped_allowed(1)
  show ?thesis by (simp add: example_access_def)
qed

text \<open>
  On an archived target the decision depends on the order in which the map happens to be iterated: the same caller, registry,
  request and time are denied in one order and allowed in the other.
\<close>

theorem archived_scoped_decision_unstable:
  "enumerates [''ten_1:asn_1'', ''ten_1:asn_2''] example_grants \<and> enumerates [''ten_1:asn_2'', ''ten_1:asn_1''] example_grants \<and>
   \<not> er_Allowed (EvaluateScopedAccess [''ten_1:asn_1'', ''ten_1:asn_2''] (Some example_grants) (Some example_member) (example_access ResourceArchived) 50) \<and>
   er_Allowed (EvaluateScopedAccess [''ten_1:asn_2'', ''ten_1:asn_1''] (Some example_grants) (Some example_member) (example_access ResourceArchived) 50)"
  using example_scoped_allowed(2,3) by (auto simp: enumerates_def example_grants_stored)

text \<open>
  The check for conflicts only looks at the time of registration: an inspector assignment registered ahead of its window does not
  stand in the way of an auditor assignment, and later both are in force on the same scope.
\<close>

theorem sod_misses_future_window:
  "let inspector = example_grant ''asn_1'' RoleInspector 200; auditor = example_grant ''asn_2'' RoleAuditor 100;
       r = run_calls assignment_exec [CallRegisterAssignment [] inspector ''adm'' ''team'' 50,
             CallRegisterAssignment [''ten_1:asn_1''] auditor ''adm'' ''team'' 60] (NewScopedAssignmentRegistry None)
   in sr_assignments r ''ten_1:asn_1'' = Some inspector \<and> sr_assignments r ''ten_1:asn_2'' = Some auditor \<and>
      incompatible inspector auditor \<and> in_force_together inspector auditor 250"
  by (simp add: registry_eval incompatible_def in_force_together_def CheckScopesOverlap_def)

end
