(* ===== verification/Sessions.thy ===== *)
theory Sessions
  imports Authorization_Matrix
begin

text \<open>
  Local identities and their sessions, \<open>modules/identity-authorization/local_identity.go\<close>. SHA-256 is a parameter (\<open>sha256\<close>), the
  bytes that \<open>crypto/rand\<close> delivers (or its error) an argument of the calls that draw them. A session is kept under the digest of
  its token.
\<close>

datatype IdentityState = IdentityActive | IdentityDisabled | IdentityStateOther string

definition TokenPrefix :: string where "TokenPrefix = ''oshe_tok_''"
definition tokenEntropyBytes :: nat where "tokenEntropyBytes = 32"

record Identity =
  in_subject :: string
  in_tenantID :: string
  in_state :: IdentityState

definition NewIdentity :: "string \<Rightarrow> string \<Rightarrow> IdentityState \<Rightarrow> iam_error + Identity" where
  "NewIdentity subject tenantID state =
     (if TrimSpace subject = [] then Inl (IdentityErr ErrBlankSubject)
      else if TrimSpace tenantID = [] then Inl (IdentityErr ErrBlankTenantID)
      else if state \<noteq> IdentityActive \<and> state \<noteq> IdentityDisabled then Inl (IdentityErr ErrInvalidState)
      else Inr \<lparr>in_subject = TrimSpace subject, in_tenantID = TrimSpace tenantID, in_state = state\<rparr>)"

record SessionRecord =
  sn_TokenDigest :: string
  sn_Subject :: string
  sn_TenantID :: string
  sn_ExpiresAt :: gotime
  sn_Revoked :: bool

record ValidatedIdentity =
  vi_subject :: string
  vi_tenantID :: string
  vi_isAuthenticated :: bool
  vi_tokenDigest :: string
  vi_validatedAt :: gotime

record IdentityManager =
  im_identities :: "string \<rightharpoonup> Identity"
  im_sessions :: "string \<rightharpoonup> SessionRecord"

definition NewIdentityManager :: IdentityManager where
  "NewIdentityManager = \<lparr>im_identities = Map.empty, im_sessions = Map.empty\<rparr>"

definition RegisterIdentity :: "Identity \<Rightarrow> IdentityManager \<Rightarrow> (IdentityManager, iam_error, unit) outcome" where
  "RegisterIdentity identity m =
     (if in_subject identity = [] then (m, Inl (IdentityErr ErrBlankSubject))
      else if in_tenantID identity = [] then (m, Inl (IdentityErr ErrBlankTenantID))
      else if im_identities m (in_subject identity) \<noteq> None then (m, Inl (IdentityErr ErrIdentityExists))
      else (m\<lparr>im_identities := (im_identities m)(in_subject identity \<mapsto> identity)\<rparr>, Inr ()))"

definition SetIdentityState :: "string \<Rightarrow> IdentityState \<Rightarrow> IdentityManager \<Rightarrow> (IdentityManager, iam_error, unit) outcome" where
  "SetIdentityState subject state m =
     (case im_identities m subject of
        None \<Rightarrow> (m, Inl (IdentityErr ErrIdentityNotFound))
      | Some i \<Rightarrow>
          if state \<noteq> IdentityActive \<and> state \<noteq> IdentityDisabled then (m, Inl (IdentityErr ErrInvalidState))
          else (m\<lparr>im_identities := (im_identities m)(subject \<mapsto> i\<lparr>in_state := state\<rparr>)\<rparr>, Inr ()))"

definition GenerateOpaqueToken :: "(string \<Rightarrow> string) \<Rightarrow> string + string \<Rightarrow> iam_error + string \<times> string" where
  "GenerateOpaqueToken sha256 entropy =
     (case entropy of
        Inl e \<Rightarrow> Inl (ErrorsNew e)
      | Inr buf \<Rightarrow> (let rawToken = TokenPrefix @ EncodeToString buf in Inr (rawToken, sha256 rawToken)))"

definition IssueSession ::
  "(string \<Rightarrow> string) \<Rightarrow> string \<Rightarrow> int \<Rightarrow> string + string \<Rightarrow> gotime \<Rightarrow> IdentityManager \<Rightarrow>
   (IdentityManager, iam_error, string \<times> string) outcome" where
  "IssueSession sha256 subject ttl entropy now m =
     (case im_identities m subject of
        None \<Rightarrow> (m, Inl (IdentityErr ErrIdentityNotFound))
      | Some i \<Rightarrow>
          if in_state i \<noteq> IdentityActive then (m, Inl (IdentityErr ErrIdentityDisabled))
          else case GenerateOpaqueToken sha256 entropy of
            Inl e \<Rightarrow> (m, Inl e)
          | Inr (raw, dig) \<Rightarrow>
              (m\<lparr>im_sessions := (im_sessions m)(dig \<mapsto> \<lparr>sn_TokenDigest = dig, sn_Subject = in_subject i, sn_TenantID = in_tenantID i,
                   sn_ExpiresAt = now + ttl, sn_Revoked = False\<rparr>)\<rparr>, Inr (raw, dig)))"

definition RevokeSession :: "string \<Rightarrow> IdentityManager \<Rightarrow> (IdentityManager, iam_error, unit) outcome" where
  "RevokeSession digest m =
     (case im_sessions m digest of
        None \<Rightarrow> (m, Inl (IdentityErr ErrTokenNotFound))
      | Some rec \<Rightarrow> (m\<lparr>im_sessions := (im_sessions m)(digest \<mapsto> rec\<lparr>sn_Revoked := True\<rparr>)\<rparr>, Inr ()))"

definition parseTokenDigest :: "(string \<Rightarrow> string) \<Rightarrow> string \<Rightarrow> iam_error + string" where
  "parseTokenDigest sha256 rawToken =
     (let trimmed = TrimSpace rawToken; hexPart = drop (length TokenPrefix) trimmed
      in if \<not> HasPrefix trimmed TokenPrefix then Inl (IdentityErr ErrMalformedToken)
      else if length hexPart \<noteq> tokenEntropyBytes * 2 then Inl (IdentityErr ErrMalformedToken)
      else if \<not> hex_decodable hexPart then Inl (IdentityErr ErrMalformedToken)
      else Inr (sha256 trimmed))"

definition RevokeToken :: "(string \<Rightarrow> string) \<Rightarrow> string \<Rightarrow> IdentityManager \<Rightarrow> (IdentityManager, iam_error, unit) outcome" where
  "RevokeToken sha256 rawToken m =
     (case parseTokenDigest sha256 rawToken of Inl e \<Rightarrow> (m, Inl e) | Inr digest \<Rightarrow> RevokeSession digest m)"

definition ValidateSession ::
  "(string \<Rightarrow> string) \<Rightarrow> string \<Rightarrow> string \<Rightarrow> gotime \<Rightarrow> IdentityManager \<Rightarrow> iam_error + ValidatedIdentity" where
  "ValidateSession sha256 rawToken expectedTenantID now m =
     (case parseTokenDigest sha256 rawToken of Inl e \<Rightarrow> Inl e
      | Inr digest \<Rightarrow> (case im_sessions m digest of None \<Rightarrow> Inl (IdentityErr ErrTokenNotFound)
      | Some rec \<Rightarrow>
          if sn_Revoked rec then Inl (IdentityErr ErrTokenRevoked)
          else if After now (sn_ExpiresAt rec) \<or> now = sn_ExpiresAt rec then Inl (IdentityErr ErrTokenExpired)
          else if expectedTenantID \<noteq> [] \<and> TrimSpace expectedTenantID \<noteq> sn_TenantID rec then Inl (IdentityErr ErrTenantMismatch)
          else case im_identities m (sn_Subject rec) of None \<Rightarrow> Inl (IdentityErr ErrIdentityNotFound)
          | Some i \<Rightarrow>
              if in_state i \<noteq> IdentityActive then Inl (IdentityErr ErrIdentityDisabled)
              else Inr \<lparr>vi_subject = sn_Subject rec, vi_tenantID = sn_TenantID rec, vi_isAuthenticated = True,
                        vi_tokenDigest = digest, vi_validatedAt = now\<rparr>))"

subsection \<open>Calls\<close>

datatype identity_call =
  CallRegisterIdentity Identity
| CallSetIdentityState string IdentityState
| CallIssueSession string int "string + string" gotime
| CallRevokeSession string
| CallRevokeToken string

fun identity_exec :: "(string \<Rightarrow> string) \<Rightarrow> identity_call \<Rightarrow> IdentityManager \<Rightarrow> (IdentityManager, iam_error, unit) outcome" where
  "identity_exec h (CallRegisterIdentity i) m = RegisterIdentity i m"
| "identity_exec h (CallSetIdentityState s st) m = SetIdentityState s st m"
| "identity_exec h (CallIssueSession s ttl entropy now) m = discard (IssueSession h s ttl entropy now m)"
| "identity_exec h (CallRevokeSession d) m = RevokeSession d m"
| "identity_exec h (CallRevokeToken raw) m = RevokeToken h raw m"

text \<open>The source of entropy does not repeat itself: a call draws no token with the given digest.\<close>

fun draws_other :: "(string \<Rightarrow> string) \<Rightarrow> string \<Rightarrow> identity_call \<Rightarrow> bool" where
  "draws_other h d (CallIssueSession s ttl (Inr buf) now) \<longleftrightarrow> h (TokenPrefix @ EncodeToString buf) \<noteq> d"
| "draws_other h d _ \<longleftrightarrow> True"

text \<open>A call that neither revokes the session under a digest nor touches the state of its subject.\<close>

fun spares :: "(string \<Rightarrow> string) \<Rightarrow> string \<Rightarrow> string \<Rightarrow> identity_call \<Rightarrow> bool" where
  "spares h s d (CallSetIdentityState s' st) \<longleftrightarrow> s' \<noteq> s"
| "spares h s d (CallRevokeSession d') \<longleftrightarrow> d' \<noteq> d"
| "spares h s d (CallRevokeToken raw) \<longleftrightarrow> parseTokenDigest h raw \<noteq> Inr d"
| "spares h s d c \<longleftrightarrow> draws_other h d c"

lemma identity_exec_error: "identity_exec h c m = (m', Inl e) \<Longrightarrow> m' = m"
  by (cases c) (auto simp: RegisterIdentity_def SetIdentityState_def IssueSession_def RevokeSession_def RevokeToken_def discard_Inl
      split: if_splits option.splits sum.splits prod.splits)

interpretation identities: fail_closed "identity_exec h"
  by unfold_locales (rule identity_exec_error)

text \<open>Every identity is kept under its subject, with a tenant.\<close>

definition identities_inv :: "IdentityManager \<Rightarrow> bool" where
  "identities_inv m \<longleftrightarrow> (\<forall>s i. im_identities m s = Some i \<longrightarrow> in_subject i = s \<and> s \<noteq> [] \<and> in_tenantID i \<noteq> [])"

lemma sessions_identities [simp]:
  "im_identities (fst (IssueSession h s ttl entropy now m)) = im_identities m"
  "im_identities (fst (RevokeSession d m)) = im_identities m"
  "im_identities (fst (RevokeToken h raw m)) = im_identities m"
  by (simp_all add: IssueSession_def RevokeSession_def RevokeToken_def split: option.split sum.split prod.split)

lemma identity_exec_inv: "identities_inv m \<Longrightarrow> identities_inv (fst (identity_exec h c m))"
  by (cases c) (auto simp: identities_inv_def RegisterIdentity_def SetIdentityState_def split: option.splits)

interpretation sessions: api_machine "identity_exec h" identities_inv "\<lambda>_. True"
  by unfold_locales (rule identity_exec_inv)

lemma reachable_identities_inv: "identities_inv (run_calls (identity_exec h) cs NewIdentityManager)"
  by (rule sessions.run_inv) (simp_all add: identities_inv_def NewIdentityManager_def)

subsection \<open>What a call leaves alone\<close>

lemma draws_other_session:
  assumes "draws_other h d c" "im_sessions m d = Some rec" "sn_Revoked rec"
  shows "im_sessions (fst (identity_exec h c m)) d = Some rec"
proof (cases c)
  case (CallIssueSession s ttl entropy now)
  with assms(1,2) show ?thesis
    by (cases entropy) (auto simp: IssueSession_def GenerateOpaqueToken_def Let_def split: option.split)
qed (use assms(2,3) in \<open>auto simp: RegisterIdentity_def SetIdentityState_def RevokeSession_def RevokeToken_def split: option.split sum.split\<close>)

interpretation revoked_sessions: absorbing "identity_exec h" "\<lambda>_. True" "draws_other h d" "\<lambda>_ m. im_sessions m d" sn_Revoked
  by unfold_locales (simp_all add: draws_other_session)

lemma spares_entries:
  assumes "spares h s d c" "im_sessions m d = Some rec" "im_identities m s = Some i"
  shows "im_sessions (fst (identity_exec h c m)) d = Some rec \<and> im_identities (fst (identity_exec h c m)) s = Some i"
proof (cases c)
  case (CallIssueSession s ttl entropy now)
  with assms show ?thesis
    by (cases entropy) (auto simp: IssueSession_def GenerateOpaqueToken_def Let_def split: option.split)
next
  case (CallRevokeToken raw)
  with assms show ?thesis by (auto simp: RevokeToken_def RevokeSession_def split: option.split sum.split)
qed (use assms in \<open>auto simp: RegisterIdentity_def SetIdentityState_def RevokeSession_def split: option.split\<close>)

lemma spares_run:
  assumes "list_all (spares h s d) cs" "im_sessions m d = Some rec" "im_identities m s = Some i"
  shows "im_sessions (run_calls (identity_exec h) cs m) d = Some rec \<and> im_identities (run_calls (identity_exec h) cs m) s = Some i"
  using assms by (induction cs arbitrary: m) (auto dest!: spares_entries)

subsection \<open>Tokens\<close>

lemma parse_generated:
  assumes "length bs = tokenEntropyBytes"
  shows "parseTokenDigest h (TokenPrefix @ EncodeToString bs) = Inr (h (TokenPrefix @ EncodeToString bs))"
proof -
  have "list_all graphic (TokenPrefix @ EncodeToString bs)" using EncodeToString_bytes(2) [of bs] by (simp add: TokenPrefix_def)
  then have "TrimSpace (TokenPrefix @ EncodeToString bs) = TokenPrefix @ EncodeToString bs" by (rule TrimSpace_all_graphic)
  moreover have "HasPrefix (TokenPrefix @ EncodeToString bs) TokenPrefix" by (simp add: HasPrefix_def)
  ultimately show ?thesis using assms EncodeToString_hex [of bs] by (simp add: parseTokenDigest_def Let_def hex_decodable_def)
qed

subsection \<open>Properties\<close>

text \<open>
  A token is accepted if and only if it is well formed and a session is kept under its digest that is not revoked and not yet
  expired, whose tenant is the expected one (when one is expected), and whose subject is registered and active. The verified
  identity is the subject and the tenant of that session.
\<close>

theorem ValidateSession_iff:
  "ValidateSession h raw expected now m = Inr v \<longleftrightarrow>
     (\<exists>digest rec i. parseTokenDigest h raw = Inr digest \<and> im_sessions m digest = Some rec \<and> \<not> sn_Revoked rec \<and> now < sn_ExpiresAt rec \<and>
        (expected = [] \<or> TrimSpace expected = sn_TenantID rec) \<and> im_identities m (sn_Subject rec) = Some i \<and> in_state i = IdentityActive \<and>
        v = \<lparr>vi_subject = sn_Subject rec, vi_tenantID = sn_TenantID rec, vi_isAuthenticated = True, vi_tokenDigest = digest, vi_validatedAt = now\<rparr>)"
  unfolding ValidateSession_def After_def by (auto split: sum.splits option.splits)

text \<open>
  (C17) Issue and validate: the token that \<open>IssueSession\<close> returns is accepted, as the subject and the tenant of the identity, at every time
  before it expires, after any calls that do not revoke it, do not change the state of its subject and do not draw the same token
  again, whatever the hash function is.
\<close>

theorem issued_session_validates:
  assumes "m = run_calls (identity_exec h) cs NewIdentityManager" and "im_identities m subject = Some i"
    and "IssueSession h subject ttl (Inr bs) now m = (m', Inr (raw, digest))" and "length bs = tokenEntropyBytes"
    and "list_all (spares h subject digest) cs'" and "t < now + ttl" and "expected = [] \<or> TrimSpace expected = in_tenantID i"
  shows "ValidateSession h raw expected t (run_calls (identity_exec h) cs' m') =
    Inr \<lparr>vi_subject = subject, vi_tenantID = in_tenantID i, vi_isAuthenticated = True, vi_tokenDigest = digest, vi_validatedAt = t\<rparr>"
proof -
  have subject: "in_subject i = subject" using reachable_identities_inv assms(1,2) unfolding identities_inv_def by blast
  have active: "in_state i = IdentityActive" using assms(2,3) by (auto simp: IssueSession_def split: if_splits)
  have token: "raw = TokenPrefix @ EncodeToString bs" "digest = h raw"
    and m': "m' = m\<lparr>im_sessions := (im_sessions m)(digest \<mapsto> \<lparr>sn_TokenDigest = digest, sn_Subject = in_subject i, sn_TenantID = in_tenantID i,
                   sn_ExpiresAt = now + ttl, sn_Revoked = False\<rparr>)\<rparr>"
    using assms(2,3) active by (auto simp: IssueSession_def GenerateOpaqueToken_def Let_def)
  have "parseTokenDigest h raw = Inr digest" using parse_generated [OF assms(4)] token by simp
  moreover have "im_sessions (run_calls (identity_exec h) cs' m') digest = Some \<lparr>sn_TokenDigest = digest, sn_Subject = subject,
      sn_TenantID = in_tenantID i, sn_ExpiresAt = now + ttl, sn_Revoked = False\<rparr> \<and> im_identities (run_calls (identity_exec h) cs' m') subject = Some i"
    using assms(2) subject by (intro spares_run [OF assms(5)]) (simp_all add: m')
  ultimately show ?thesis using active assms(6,7) by (simp add: ValidateSession_def After_def)
qed

text \<open>
  Revocation is final: after a successful \<open>RevokeSession\<close>, whatever calls follow, as long as the source of entropy does not draw the same
  token again, no token with that digest is accepted, at any time and for any tenant.
\<close>

theorem revoked_session_never_validates:
  assumes "RevokeSession digest m = (m', Inr u)" and "list_all (draws_other h digest) cs" and "parseTokenDigest h raw = Inr digest"
  shows "ValidateSession h raw expected t (run_calls (identity_exec h) cs m') = Inl (IdentityErr ErrTokenRevoked)"
proof -
  from assms(1) obtain rec where "im_sessions m' digest = Some rec" "sn_Revoked rec"
    by (auto simp: RevokeSession_def split: option.splits)
  then have "im_sessions (run_calls (identity_exec h) cs m') digest = Some rec"
    using assms(2) by (intro revoked_sessions.run_final) simp_all
  with \<open>sn_Revoked rec\<close> assms(3) show ?thesis by (simp add: ValidateSession_def)
qed

subsection \<open>Examples and witnesses\<close>

definition example_identity :: Identity where
  "example_identity = \<lparr>in_subject = ''usr_1'', in_tenantID = ''ten_1'', in_state = IdentityActive\<rparr>"

definition example_entropy :: string where
  "example_entropy = replicate 32 (CHR 0xA7)"

definition example_token :: string where
  "example_token = TokenPrefix @ EncodeToString example_entropy"

lemma example_manager:
  "im_identities (run_calls (identity_exec h) [CallRegisterIdentity example_identity] NewIdentityManager) ''usr_1'' = Some example_identity"
  "im_sessions (run_calls (identity_exec h) [CallRegisterIdentity example_identity] NewIdentityManager) = Map.empty"
  by (simp_all add: RegisterIdentity_def NewIdentityManager_def example_identity_def)

lemma example_issue:
  "\<exists>m'. IssueSession h ''usr_1'' 100 (Inr example_entropy) 5 (run_calls (identity_exec h) [CallRegisterIdentity example_identity] NewIdentityManager) =
     (m', Inr (example_token, h example_token)) \<and> im_sessions m' (h example_token) \<noteq> None"
proof -
  have "in_state example_identity = IdentityActive" by (simp add: example_identity_def)
  then show ?thesis unfolding IssueSession_def example_manager GenerateOpaqueToken_def Let_def by (simp flip: example_token_def)
qed

theorem ValidateSession_iff_witness:
  "\<exists>m v. ValidateSession (\<lambda>s. s) example_token ''ten_1'' 50 m = Inr v \<and> vi_subject v = ''usr_1''"
proof -
  let ?m = "\<lparr>im_identities = [''usr_1'' \<mapsto> example_identity], im_sessions = [example_token \<mapsto> \<lparr>sn_TokenDigest = example_token,
      sn_Subject = ''usr_1'', sn_TenantID = ''ten_1'', sn_ExpiresAt = 60, sn_Revoked = False\<rparr>]\<rparr>"
  have "parseTokenDigest (\<lambda>s. s) example_token = Inr example_token"
    using parse_generated [of example_entropy "\<lambda>s. s"] by (simp add: example_token_def example_entropy_def tokenEntropyBytes_def)
  then have "ValidateSession (\<lambda>s. s) example_token ''ten_1'' 50 ?m = Inr \<lparr>vi_subject = ''usr_1'', vi_tenantID = ''ten_1'',
      vi_isAuthenticated = True, vi_tokenDigest = example_token, vi_validatedAt = 50\<rparr>"
    unfolding ValidateSession_iff by (simp add: example_identity_def)
  then show ?thesis by force
qed

theorem issued_session_validates_witness:
  "\<exists>m v. ValidateSession (\<lambda>s. s) example_token ''ten_1'' 104 m = Inr v \<and> vi_subject v = ''usr_1'' \<and> vi_tenantID v = ''ten_1''"
proof -
  from example_issue obtain m' where m': "IssueSession (\<lambda>s. s) ''usr_1'' 100 (Inr example_entropy) 5
      (run_calls (identity_exec (\<lambda>s. s)) [CallRegisterIdentity example_identity] NewIdentityManager) = (m', Inr (example_token, example_token))"
    by blast
  have "list_all (spares (\<lambda>s. s) ''usr_1'' example_token) [CallRevokeSession ''other'']" by (simp add: example_token_def TokenPrefix_def)
  from issued_session_validates [OF refl example_manager(1) m' _ this, of 104 "''ten_1''"]
  have "ValidateSession (\<lambda>s. s) example_token ''ten_1'' 104 (run_calls (identity_exec (\<lambda>s. s)) [CallRevokeSession ''other''] m') =
      Inr \<lparr>vi_subject = ''usr_1'', vi_tenantID = ''ten_1'', vi_isAuthenticated = True, vi_tokenDigest = example_token, vi_validatedAt = 104\<rparr>"
    by (simp add: example_entropy_def tokenEntropyBytes_def example_identity_def)
  then show ?thesis by force
qed

theorem revoked_session_never_validates_witness:
  "\<exists>m. ValidateSession (\<lambda>s. s) example_token [] 50 m = Inl (IdentityErr ErrTokenRevoked)"
proof -
  from example_issue [of "\<lambda>s. s"] obtain m' :: IdentityManager where "im_sessions m' example_token \<noteq> None" by blast
  then obtain m'' where m'': "RevokeSession example_token m' = (m'', Inr ())" by (auto simp: RevokeSession_def)
  have "parseTokenDigest (\<lambda>s. s) example_token = Inr example_token"
    using parse_generated [of example_entropy "\<lambda>s. s"] by (simp add: example_token_def example_entropy_def tokenEntropyBytes_def)
  from revoked_session_never_validates [OF m'' _ this, of "[CallSetIdentityState ''usr_1'' IdentityActive]"] show ?thesis by auto
qed

text \<open>
  Disabling an identity does not end its sessions: a token that was issued before is refused only while the identity is disabled, and
  accepted again once it is enabled.
\<close>

theorem sessions_survive_disabling:
  "let m = fst (IssueSession (\<lambda>s. s) ''usr_1'' 100 (Inr example_entropy) 5
             (run_calls (identity_exec (\<lambda>s. s)) [CallRegisterIdentity example_identity] NewIdentityManager));
       off = fst (SetIdentityState ''usr_1'' IdentityDisabled m); on = fst (SetIdentityState ''usr_1'' IdentityActive off)
   in ValidateSession (\<lambda>s. s) example_token [] 50 off = Inl (IdentityErr ErrIdentityDisabled) \<and>
      (\<exists>v. ValidateSession (\<lambda>s. s) example_token [] 60 on = Inr v)"
proof -
  have "parseTokenDigest (\<lambda>s. s) example_token = Inr example_token"
    using parse_generated [of example_entropy "\<lambda>s. s"] by (simp add: example_token_def example_entropy_def tokenEntropyBytes_def)
  then show ?thesis
    by (simp add: Let_def IssueSession_def SetIdentityState_def ValidateSession_def GenerateOpaqueToken_def RegisterIdentity_def
        NewIdentityManager_def example_identity_def After_def flip: example_token_def)
qed

end
