(* ===== verification/Revocation.thy ===== *)
theory Revocation
  imports Authorization_Matrix
begin

text \<open>
  Revocation of sessions, \<open>modules/identity-authorization/session_revocation.go\<close>: revoked tokens and subjects, generations, the security
  journal, and the decision on a session. Generations and sequence numbers are \<open>int64\<close> and compared as signed numbers.
  A missing entry of the map of tenant generations reads as zero, so the map is a total function.
\<close>

datatype DiagnosticDenialCategory =
  CategoryNone | CategorySessionRevoked | CategorySessionStale | CategoryPolicyStale | CategoryCrossTenantDenied
| CategoryIdentityInactive | CategoryDefaultDeny

record DecisionDiagnostic =
  dd_Allowed :: bool
  dd_DenialCategory :: DiagnosticDenialCategory
  dd_DecisionGeneration :: int64
  dd_Summary :: string

datatype RevocationAuditEventType =
  EventSessionRevoked | EventSubjectRevoked | EventPolicyGenerationBump | EventStalenessEvaluated

record RevocationAuditEvent =
  re_SequenceNumber :: int64
  re_EventType :: RevocationAuditEventType
  re_TenantID :: string
  re_Subject :: string
  re_TokenDigest :: string
  re_Generation :: int64
  re_Reason :: string
  re_Timestamp :: gotime

text \<open>The zero value of \<open>[32]byte\<close>, left in the entries that concern no token.\<close>

definition zero_digest :: string where
  "zero_digest = replicate 32 (CHR 0x00)"

record sessionRevocationRecord =
  xs_tokenDigest :: string
  xs_tenantID :: string
  xs_subject :: string
  xs_generation :: int64
  xs_revokedAt :: gotime

record subjectRevocationRecord =
  xj_tenantID :: string
  xj_subject :: string
  xj_generation :: int64
  xj_revokedAt :: gotime

record RevocationRegistry =
  rr_globalGeneration :: int64
  rr_revokedSessions :: "string \<rightharpoonup> sessionRevocationRecord"
  rr_subjectRevocations :: "string \<rightharpoonup> subjectRevocationRecord"
  rr_tenantGenerations :: "string \<Rightarrow> int64"
  rr_auditLog :: "RevocationAuditEvent list"
  rr_seqCounter :: int64

definition NewRevocationRegistry :: RevocationRegistry where
  "NewRevocationRegistry = \<lparr>rr_globalGeneration = 1, rr_revokedSessions = Map.empty, rr_subjectRevocations = Map.empty,
     rr_tenantGenerations = (\<lambda>_. 0), rr_auditLog = [], rr_seqCounter = 0\<rparr>"

text \<open>The end of every revoking method: the next sequence number and the entry that carries it.\<close>

definition log_revocation :: "(int64 \<Rightarrow> RevocationAuditEvent) \<Rightarrow> RevocationRegistry \<Rightarrow> RevocationRegistry" where
  "log_revocation event r =
     r\<lparr>rr_seqCounter := rr_seqCounter r + 1, rr_auditLog := rr_auditLog r @ [event (rr_seqCounter r + 1)]\<rparr>"

definition RevokeSessionToken ::
  "string \<Rightarrow> string \<Rightarrow> string \<Rightarrow> string \<Rightarrow> gotime \<Rightarrow> RevocationRegistry \<Rightarrow> (RevocationRegistry, iam_error, unit) outcome" where
  "RevokeSessionToken digest tenantID subject reason now r =
     (let tTenant = TrimSpace tenantID; tSub = TrimSpace subject; tReason = TrimSpace reason; g = rr_globalGeneration r + 1
      in if tTenant = [] then (r, Inl (IdentityErr ErrBlankTenantID))
      else if tSub = [] then (r, Inl (IdentityErr ErrBlankSubject))
      else if tReason = [] then (r, Inl ErrBlankReason)
      else (log_revocation (\<lambda>n. \<lparr>re_SequenceNumber = n, re_EventType = EventSessionRevoked, re_TenantID = tTenant, re_Subject = tSub,
               re_TokenDigest = digest, re_Generation = g, re_Reason = tReason, re_Timestamp = now\<rparr>)
             (r\<lparr>rr_globalGeneration := g, rr_revokedSessions := (rr_revokedSessions r)(digest \<mapsto>
                \<lparr>xs_tokenDigest = digest, xs_tenantID = tTenant, xs_subject = tSub, xs_generation = g, xs_revokedAt = now\<rparr>)\<rparr>), Inr ()))"

definition RevokeSubject ::
  "string \<Rightarrow> string \<Rightarrow> string \<Rightarrow> gotime \<Rightarrow> RevocationRegistry \<Rightarrow> (RevocationRegistry, iam_error, unit) outcome" where
  "RevokeSubject tenantID subject reason now r =
     (let tTenant = TrimSpace tenantID; tSub = TrimSpace subject; tReason = TrimSpace reason; g = rr_globalGeneration r + 1
      in if tTenant = [] then (r, Inl (IdentityErr ErrBlankTenantID))
      else if tSub = [] then (r, Inl (IdentityErr ErrBlankSubject))
      else if tReason = [] then (r, Inl ErrBlankReason)
      else (log_revocation (\<lambda>n. \<lparr>re_SequenceNumber = n, re_EventType = EventSubjectRevoked, re_TenantID = tTenant, re_Subject = tSub,
               re_TokenDigest = zero_digest, re_Generation = g, re_Reason = tReason, re_Timestamp = now\<rparr>)
             (r\<lparr>rr_globalGeneration := g, rr_subjectRevocations := (rr_subjectRevocations r)(tTenant @ '':'' @ tSub \<mapsto>
                \<lparr>xj_tenantID = tTenant, xj_subject = tSub, xj_generation = g, xj_revokedAt = now\<rparr>)\<rparr>), Inr ()))"

definition BumpTenantPolicyGeneration ::
  "string \<Rightarrow> string \<Rightarrow> gotime \<Rightarrow> RevocationRegistry \<Rightarrow> (RevocationRegistry, iam_error, int64) outcome" where
  "BumpTenantPolicyGeneration tenantID reason now r =
     (let tTenant = TrimSpace tenantID; tReason = TrimSpace reason; nextGen = rr_tenantGenerations r tTenant + 1
      in if tTenant = [] then (r, Inl (IdentityErr ErrBlankTenantID))
      else if tReason = [] then (r, Inl ErrBlankReason)
      else (log_revocation (\<lambda>n. \<lparr>re_SequenceNumber = n, re_EventType = EventPolicyGenerationBump, re_TenantID = tTenant, re_Subject = [],
               re_TokenDigest = zero_digest, re_Generation = nextGen, re_Reason = tReason, re_Timestamp = now\<rparr>)
             (r\<lparr>rr_globalGeneration := rr_globalGeneration r + 1,
                rr_tenantGenerations := (rr_tenantGenerations r)(tTenant := nextGen)\<rparr>), Inr nextGen))"

definition denied :: "DiagnosticDenialCategory \<Rightarrow> string \<Rightarrow> RevocationRegistry \<Rightarrow> DecisionDiagnostic" where
  "denied category summary r =
     \<lparr>dd_Allowed = False, dd_DenialCategory = category, dd_DecisionGeneration = rr_globalGeneration r, dd_Summary = summary\<rparr>"

definition EvaluateSession ::
  "string \<Rightarrow> string \<Rightarrow> string \<Rightarrow> string \<Rightarrow> int64 \<Rightarrow> RevocationRegistry \<Rightarrow> DecisionDiagnostic" where
  "EvaluateSession tokenDigest callerTenantID targetTenantID subject sessionGeneration r =
     (let tCaller = TrimSpace callerTenantID; tTarget = TrimSpace targetTenantID; tSub = TrimSpace subject;
          tenantPolicyGen = rr_tenantGenerations r tCaller
      in if tCaller = [] \<or> tTarget = [] \<or> tCaller \<noteq> tTarget then denied CategoryCrossTenantDenied ''tenant context mismatch'' r
      else if tSub = [] then denied CategoryDefaultDeny ''subject identifier required'' r
      else if rr_revokedSessions r tokenDigest \<noteq> None
      then denied CategorySessionRevoked ''session token has been explicitly revoked'' r
      else if (case rr_subjectRevocations r (tCaller @ '':'' @ tSub) of
                 None \<Rightarrow> False | Some subRev \<Rightarrow> sessionGeneration \<le>s xj_generation subRev)
      then denied CategorySessionStale ''session invalidated by subject revocation event'' r
      else if 0 <s tenantPolicyGen \<and> sessionGeneration <s tenantPolicyGen
      then denied CategoryPolicyStale ''session invalidated by tenant policy generation progression'' r
      else \<lparr>dd_Allowed = True, dd_DenialCategory = CategoryNone, dd_DecisionGeneration = rr_globalGeneration r,
            dd_Summary = ''session is valid and active''\<rparr>)"

definition Revocation_AuditTrail :: "string \<Rightarrow> RevocationRegistry \<Rightarrow> iam_error + RevocationAuditEvent list" where
  "Revocation_AuditTrail callerTenantID r =
     (if TrimSpace callerTenantID = [] then Inl (IdentityErr ErrBlankTenantID)
      else Inr (filter (\<lambda>entry. re_TenantID entry = TrimSpace callerTenantID) (rr_auditLog r)))"

subsection \<open>Calls\<close>

datatype revocation_call =
  CallRevokeSessionToken string string string string gotime
| CallRevokeSubject string string string gotime
| CallBumpTenantPolicyGeneration string string gotime

fun revocation_exec :: "revocation_call \<Rightarrow> RevocationRegistry \<Rightarrow> (RevocationRegistry, iam_error, unit) outcome" where
  "revocation_exec (CallRevokeSessionToken d t s why now) r = RevokeSessionToken d t s why now r"
| "revocation_exec (CallRevokeSubject t s why now) r = RevokeSubject t s why now r"
| "revocation_exec (CallBumpTenantPolicyGeneration t why now) r = discard (BumpTenantPolicyGeneration t why now r)"

lemmas revocation_defs = RevokeSessionToken_def RevokeSubject_def BumpTenantPolicyGeneration_def log_revocation_def Let_def

lemma revocation_exec_error: "revocation_exec c r = (r', Inl e) \<Longrightarrow> r' = r"
  by (cases c) (auto simp: revocation_defs discard_Inl split: if_splits)

interpretation revocations: fail_closed revocation_exec
  by unfold_locales (rule revocation_exec_error)

text \<open>
  The journal is numbered, the counter is its length and the global generation one more; generations on record are no
  higher than the global one, and those of tenants lower.
\<close>

definition revocation_inv :: "RevocationRegistry \<Rightarrow> bool" where
  "revocation_inv r \<longleftrightarrow> numbered re_SequenceNumber (rr_auditLog r) \<and> rr_seqCounter r = of_nat (length (rr_auditLog r)) \<and>
     rr_globalGeneration r = of_nat (length (rr_auditLog r) + 1) \<and>
     (\<forall>k x. rr_subjectRevocations r k = Some x \<longrightarrow>
        (\<exists>g\<le>length (rr_auditLog r) + 1. xj_generation x = of_nat g \<and> k = xj_tenantID x @ '':'' @ xj_subject x)) \<and>
     (\<forall>t. \<exists>g\<le>length (rr_auditLog r). rr_tenantGenerations r t = of_nat g)"

lemma revocation_step:
  obtains "fst (revocation_exec c r) = r"
  | e where "rr_auditLog (fst (revocation_exec c r)) = rr_auditLog r @ [e]" "re_SequenceNumber e = rr_seqCounter r + 1"
      "rr_seqCounter (fst (revocation_exec c r)) = rr_seqCounter r + 1"
      "rr_globalGeneration (fst (revocation_exec c r)) = rr_globalGeneration r + 1"
      "rr_subjectRevocations (fst (revocation_exec c r)) = rr_subjectRevocations r \<or>
       (\<exists>x. rr_subjectRevocations (fst (revocation_exec c r)) =
          (rr_subjectRevocations r)(xj_tenantID x @ '':'' @ xj_subject x \<mapsto> x) \<and> xj_generation x = rr_globalGeneration r + 1)"
      "rr_tenantGenerations (fst (revocation_exec c r)) = rr_tenantGenerations r \<or>
       (\<exists>t. rr_tenantGenerations (fst (revocation_exec c r)) = (rr_tenantGenerations r)(t := rr_tenantGenerations r t + 1))"
proof (cases c)
  case (CallRevokeSessionToken d t s why now)
  then show thesis
    using that by (cases "TrimSpace t = [] \<or> TrimSpace s = [] \<or> TrimSpace why = []") (auto simp: revocation_defs)
next
  case (CallRevokeSubject t s why now)
  show thesis
  proof (cases "TrimSpace t = [] \<or> TrimSpace s = [] \<or> TrimSpace why = []")
    case False
    with CallRevokeSubject show thesis
      by (intro that(2)) (auto simp: revocation_defs intro!: exI [of _ "\<lparr>xj_tenantID = TrimSpace t, xj_subject = TrimSpace s,
          xj_generation = rr_globalGeneration r + 1, xj_revokedAt = now\<rparr>"])
  qed (use CallRevokeSubject that(1) in \<open>auto simp: revocation_defs\<close>)
next
  case (CallBumpTenantPolicyGeneration t why now)
  show thesis
  proof (cases "TrimSpace t = [] \<or> TrimSpace why = []")
    case False
    with CallBumpTenantPolicyGeneration show thesis by (intro that(2)) (auto simp: revocation_defs)
  qed (use CallBumpTenantPolicyGeneration that(1) in \<open>auto simp: revocation_defs\<close>)
qed

lemma revocation_exec_inv:
  assumes "revocation_inv r"
  shows "revocation_inv (fst (revocation_exec c r))"
proof (cases rule: revocation_step [of c r])
  case 1
  with assms show ?thesis by simp
next
  case (2 e)
  let ?r = "fst (revocation_exec c r)" and ?n = "length (rr_auditLog r)"
  have global: "rr_globalGeneration r + 1 = of_nat (?n + 2)" using assms by (simp add: revocation_inv_def)
  have "\<exists>g\<le>?n + 2. xj_generation x = of_nat g \<and> k = xj_tenantID x @ '':'' @ xj_subject x"
    if x: "rr_subjectRevocations ?r k = Some x" for k x
  proof (cases "rr_subjectRevocations r k = Some x")
    case True
    with assms obtain g where "g \<le> ?n + 1" "xj_generation x = of_nat g" "k = xj_tenantID x @ '':'' @ xj_subject x"
      unfolding revocation_inv_def by blast
    then show ?thesis by (intro exI [of _ g]) simp
  next
    case False
    with 2(5) x have "k = xj_tenantID x @ '':'' @ xj_subject x \<and> xj_generation x = rr_globalGeneration r + 1"
      by (auto split: if_splits)
    then show ?thesis using global by (intro exI [of _ "?n + 2"]) simp
  qed
  moreover have "\<exists>g\<le>?n + 1. rr_tenantGenerations ?r t = of_nat g" for t
  proof -
    from assms obtain g where g: "g \<le> ?n" "rr_tenantGenerations r t = of_nat g" unfolding revocation_inv_def by blast
    from 2(6) have "rr_tenantGenerations ?r t = of_nat g \<or> rr_tenantGenerations ?r t = of_nat (g + 1)" using g(2) by auto
    then show ?thesis
    proof
      assume "rr_tenantGenerations ?r t = of_nat g"
      with g(1) show ?thesis by (intro exI [of _ g]) simp
    next
      assume "rr_tenantGenerations ?r t = of_nat (g + 1)"
      with g(1) show ?thesis by (intro exI [of _ "g + 1"]) simp
    qed
  qed
  ultimately show ?thesis using assms 2(1-4) unfolding revocation_inv_def by simp
qed

interpretation revocation_journal: journaled revocation_exec revocation_inv "\<lambda>_. True" "\<lambda>_. rr_auditLog"
proof
  fix k c and r :: RevocationRegistry
  show "revocation_inv r \<Longrightarrow> revocation_inv (fst (revocation_exec c r))" by (rule revocation_exec_inv)
  show "prefix (rr_auditLog r) (rr_auditLog (fst (revocation_exec c r)))"
    by (cases rule: revocation_step [of c r]) simp_all
qed

lemma revocation_inv_New: "revocation_inv NewRevocationRegistry"
  by (simp add: revocation_inv_def NewRevocationRegistry_def)

lemma reachable_revocation_inv: "revocation_inv (run_calls revocation_exec cs NewRevocationRegistry)"
  by (rule revocation_journal.run_inv [OF revocation_inv_New]) simp

lemma log_length: "length (rr_auditLog (run_calls revocation_exec cs r)) \<le> length (rr_auditLog r) + length cs"
proof (induction cs arbitrary: r)
  case (Cons c cs)
  have "length (rr_auditLog (fst (revocation_exec c r))) \<le> Suc (length (rr_auditLog r))"
    by (cases rule: revocation_step [of c r]) simp_all
  with Cons [of "fst (revocation_exec c r)"] show ?case by simp
qed simp

subsection \<open>What stays revoked\<close>

lemma revoked_token_stays:
  "rr_revokedSessions r d \<noteq> None \<Longrightarrow> rr_revokedSessions (fst (revocation_exec c r)) d \<noteq> None"
  by (cases c) (auto simp: revocation_defs)

lemma run_revoked_token:
  "rr_revokedSessions r d \<noteq> None \<Longrightarrow> rr_revokedSessions (run_calls revocation_exec cs r) d \<noteq> None"
proof (induction cs arbitrary: r)
  case (Cons c cs)
  then show ?case using revoked_token_stays [of r d c] by simp
qed simp

text \<open>A subject stays revoked up to a generation that only grows, while the counters have not run through 63 bits.\<close>

definition revoked_up_to :: "nat \<Rightarrow> string \<Rightarrow> RevocationRegistry \<Rightarrow> bool" where
  "revoked_up_to g k r \<longleftrightarrow> (\<exists>x. rr_subjectRevocations r k = Some x \<and> int g \<le> sint (xj_generation x))"

lemma revoked_up_to_step:
  assumes "revocation_inv r" "revoked_up_to g k r" "g \<le> length (rr_auditLog r) + 1" "length (rr_auditLog r) + 2 < 2 ^ 63"
  shows "revoked_up_to g k (fst (revocation_exec c r))"
proof (cases rule: revocation_step [of c r])
  case 1
  with assms(2) show ?thesis by simp
next
  case (2 e)
  have new: "int g \<le> sint (rr_globalGeneration r + 1)"
  proof -
    have "rr_globalGeneration r + 1 = of_nat (length (rr_auditLog r) + 2)" using assms(1) by (simp add: revocation_inv_def)
    then show ?thesis using sint_of_nat [OF assms(4)] assms(3) by simp
  qed
  from 2(5) assms(2) new show ?thesis unfolding revoked_up_to_def by auto
qed

lemma revoked_up_to_run:
  assumes "revocation_inv r" "revoked_up_to g k r" "g \<le> length (rr_auditLog r) + 1" "length (rr_auditLog r) + length cs + 2 < 2 ^ 63"
  shows "revoked_up_to g k (run_calls revocation_exec cs r)"
  using assms
proof (induction cs arbitrary: r)
  case (Cons c cs)
  let ?r = "fst (revocation_exec c r)"
  have len: "length (rr_auditLog r) \<le> length (rr_auditLog ?r)" "length (rr_auditLog ?r) \<le> length (rr_auditLog r) + 1"
    by (cases rule: revocation_step [of c r]; simp)+
  have "revoked_up_to g k ?r" using Cons.prems by (intro revoked_up_to_step) simp_all
  then have "revoked_up_to g k (run_calls revocation_exec cs ?r)"
    using Cons.prems len by (intro Cons.IH revocation_exec_inv) simp_all
  then show ?case by simp
qed simp

subsection \<open>Properties\<close>

text \<open>
  The security journal: in every reachable registry the entries are numbered 1, 2, 3, ..., the global generation is one above the last
  number, nothing already written is changed or removed by further calls, and what a tenant is shown is the part of the journal
  about that tenant, in order.
\<close>

theorem revocation_journal_sound:
  "let r = run_calls revocation_exec cs NewRevocationRegistry; r' = run_calls revocation_exec cs' r in
     numbered re_SequenceNumber (rr_auditLog r) \<and> rr_globalGeneration r = of_nat (length (rr_auditLog r) + 1) \<and>
     prefix (rr_auditLog r) (rr_auditLog r') \<and>
     (TrimSpace t \<noteq> [] \<longrightarrow> (\<exists>es es'. Revocation_AuditTrail t r = Inr es \<and> Revocation_AuditTrail t r' = Inr es' \<and> prefix es es' \<and>
        set es = {e \<in> set (rr_auditLog r). re_TenantID e = TrimSpace t}))"
proof -
  let ?r = "run_calls revocation_exec cs NewRevocationRegistry" and ?P = "\<lambda>e. re_TenantID e = TrimSpace t"
  have inv: "revocation_inv ?r" by (rule reachable_revocation_inv)
  then have log: "prefix (rr_auditLog ?r) (rr_auditLog (run_calls revocation_exec cs' ?r))"
    by (rule revocation_journal.run_journal) simp
  then have "prefix (filter ?P (rr_auditLog ?r)) (filter ?P (rr_auditLog (run_calls revocation_exec cs' ?r)))"
    by (auto simp: prefix_def)
  with inv log show ?thesis by (auto simp: Let_def revocation_inv_def Revocation_AuditTrail_def)
qed

theorem revocation_journal_sound_witness:
  "let r = run_calls revocation_exec [CallRevokeSubject ''ten_1'' ''usr_1'' ''left'' 7] NewRevocationRegistry in
     \<exists>es. Revocation_AuditTrail ''ten_1'' r = Inr es \<and> set es = {e \<in> set (rr_auditLog r). re_TenantID e = ''ten_1''}"
  using revocation_journal_sound [of "[CallRevokeSubject ''ten_1'' ''usr_1'' ''left'' 7]" "[]" "''ten_1''"] by (auto simp: Let_def)

text \<open>
  A revoked token is dead: once \<open>RevokeSessionToken\<close> has succeeded, whatever calls follow, no session with that token is allowed, for any
  caller, target, subject and generation, and the answer names the revocation unless the tenant context or the subject is
  already wrong.
\<close>

theorem revoked_token_denied:
  assumes "RevokeSessionToken d t s why now r = (r', Inr u)"
  shows "let answer = EvaluateSession d caller target subject g (run_calls revocation_exec cs r') in
    \<not> dd_Allowed answer \<and> dd_DenialCategory answer =
      (if TrimSpace caller = [] \<or> TrimSpace caller \<noteq> TrimSpace target then CategoryCrossTenantDenied
       else if TrimSpace subject = [] then CategoryDefaultDeny else CategorySessionRevoked)"
proof -
  have "rr_revokedSessions r' d \<noteq> None" using assms by (auto simp: revocation_defs split: if_splits)
  then have "rr_revokedSessions (run_calls revocation_exec cs r') d \<noteq> None" by (rule run_revoked_token)
  then show ?thesis by (auto simp: EvaluateSession_def denied_def Let_def)
qed

theorem revoked_token_denied_witness:
  "\<exists>r. \<not> dd_Allowed (EvaluateSession ''d'' ''ten_1'' ''ten_1'' ''usr_1'' 9 r) \<and>
     dd_DenialCategory (EvaluateSession ''d'' ''ten_1'' ''ten_1'' ''usr_1'' 9 r) = CategorySessionRevoked"
proof -
  obtain r' where "RevokeSessionToken ''d'' ''ten_1'' ''usr_1'' ''lost'' 5 NewRevocationRegistry = (r', Inr ())"
    by (auto simp: revocation_defs)
  from revoked_token_denied [OF this, of "''ten_1''" "''ten_1''" "''usr_1''" 9 "[]"] show ?thesis by (auto simp: Let_def)
qed

text \<open>
  (C16) A revoked subject is out: once \<open>RevokeSubject\<close> has succeeded, no session of that subject whose generation is at most the global
  generation of that moment is ever allowed again, whatever calls follow, as long as fewer than 2^63 revocations have been
  made in all.
\<close>

theorem revoked_subject_denied:
  assumes "r = run_calls revocation_exec cs NewRevocationRegistry" and "RevokeSubject t s why now r = (r', Inr u)"
    and "sint g \<le> sint (rr_globalGeneration r')" and "TrimSpace t' = TrimSpace t" and "TrimSpace s' = TrimSpace s"
    and "length cs + length cs' + 3 < 2 ^ 63"
  shows "\<not> dd_Allowed (EvaluateSession d t' target s' g (run_calls revocation_exec cs' r'))"
proof -
  let ?n = "length (rr_auditLog r)" and ?key = "TrimSpace t @ '':'' @ TrimSpace s"
  have inv: "revocation_inv r" unfolding assms(1) by (rule reachable_revocation_inv)
  then have inv': "revocation_inv r'" using revocation_exec_inv [of r "CallRevokeSubject t s why now"] assms(2) by simp
  have n: "?n \<le> length cs" using log_length [of cs NewRevocationRegistry] by (simp add: assms(1) NewRevocationRegistry_def)
  have r': "length (rr_auditLog r') = ?n + 1" "rr_globalGeneration r' = of_nat (?n + 2)"
      "\<exists>x. rr_subjectRevocations r' ?key = Some x \<and> xj_generation x = rr_globalGeneration r'"
    using assms(2) inv by (auto simp: revocation_defs revocation_inv_def split: if_splits)
  have gen: "sint (rr_globalGeneration r') = int (?n + 2)" unfolding r'(2) using n assms(6) by (intro sint_of_nat) simp
  then have "revoked_up_to (?n + 2) ?key r'" using r'(3) by (auto simp: revoked_up_to_def)
  then have "revoked_up_to (?n + 2) ?key (run_calls revocation_exec cs' r')"
    using inv' r'(1) n assms(6) by (intro revoked_up_to_run) simp_all
  then obtain x where "rr_subjectRevocations (run_calls revocation_exec cs' r') ?key = Some x" "int (?n + 2) \<le> sint (xj_generation x)"
    by (auto simp: revoked_up_to_def)
  moreover from this(2) assms(3) gen have "g \<le>s xj_generation x" by (simp add: word_sle_eq)
  ultimately have "case rr_subjectRevocations (run_calls revocation_exec cs' r') (TrimSpace t' @ '':'' @ TrimSpace s') of
      None \<Rightarrow> False | Some subRev \<Rightarrow> g \<le>s xj_generation subRev" using assms(4,5) by simp
  then show ?thesis unfolding EvaluateSession_def Let_def by (simp only: if_True) (simp add: denied_def)
qed

theorem revoked_subject_denied_witness:
  "\<exists>r. rr_globalGeneration r = 2 \<and> \<not> dd_Allowed (EvaluateSession ''d'' ''ten_1'' ''ten_1'' ''usr_1'' 2 r)"
proof -
  obtain r' where r': "RevokeSubject ''ten_1'' ''usr_1'' ''left'' 5 NewRevocationRegistry = (r', Inr ())" "rr_globalGeneration r' = 2"
    by (auto simp: revocation_defs NewRevocationRegistry_def)
  have "NewRevocationRegistry = run_calls revocation_exec [] NewRevocationRegistry" by simp
  from revoked_subject_denied [OF this r'(1), of 2 "''ten_1''" "''usr_1''" "[]" "''d''" "''ten_1''"] r'(2) show ?thesis by auto
qed

text \<open>
  One number serves as two: a subject revocation compares the generation of a session with the global generation, a policy bump with the
  counter of the tenant. A session issued at the current global generation stays allowed after the policy of its tenant is bumped;
  a session issued at the current generation of its tenant, after the subject was revoked and let in again, is refused.
\<close>

theorem generation_scales_disagree:
  "(let r = NewRevocationRegistry; r' = fst (BumpTenantPolicyGeneration ''ten_1'' ''roles changed'' 5 r)
    in dd_Allowed (EvaluateSession ''d'' ''ten_1'' ''ten_1'' ''usr_1'' (rr_globalGeneration r) r')) \<and>
   (let r = fst (RevokeSubject ''ten_1'' ''usr_1'' ''left'' 5 NewRevocationRegistry)
    in \<not> dd_Allowed (EvaluateSession ''d'' ''ten_1'' ''ten_1'' ''usr_1'' (rr_tenantGenerations r ''ten_1'') r))"
  by (simp add: revocation_defs NewRevocationRegistry_def EvaluateSession_def denied_def word_sless_alt word_sle_eq)

end
