(* ===== verification/Evidence_Files.thy ===== *)
theory Evidence_Files
  imports Go_Strings
begin

text \<open>
  File metadata and storage of evidence, \<open>modules/files-evidence/file_metadata.go\<close> and \<open>storage_adapter.go\<close>, and the interface
  \<open>ScopedStorageAdapter\<close> as a locale, which the adapter in memory satisfies. SHA-256 is a parameter, and so is the MIME grammar of
  \<open>mime.ParseMediaType\<close> (\<open>parse\<close>, the media type of a well-formed value). The objects of all tenants are one map from pairs of tenant
  and key: whether the inner map of a tenant exists is not observable. A reader is the bytes it delivers and the error it
  may end with.
\<close>

subsection \<open>Errors of the package\<close>

datatype evidence_error =
  ErrEmptyFileID | ErrEmptyTenantID | ErrEmptyStorageRef | ErrInvalidFilename | ErrInvalidMediaType | ErrInvalidSize | ErrInvalidDigest
| ErrTenantMismatch | ErrInvalidLifecycleTransition | ErrCompletedStateImmutable
| ErrBlankStorageKey | ErrIntegrityMismatch | ErrObjectNotFound | ErrStorageCapacityExceeded
| ErrDerivedOriginalConfusion | ErrOriginalImmutable | ErrMissingParentEvidence | ErrDuplicateEvidenceConflict | ErrTamperDetected
| ErrExportTampered | ErrTransferInterrupted | ErrInvalidDerivationType | ErrEmptyParentID | ErrNestedDerivationProhibited
| ErrRecordNotCommitted | ErrBlankExportID | ErrEmptyExportItems
| EvidenceErrorf string

subsection \<open>File metadata\<close>

definition MaxFileSizeBytes :: int64 where
  "MaxFileSizeBytes = 50 * 1024 * 1024"

datatype UploadLifecycleState =
  StateInitialized | StateTransferring | StateCompleted | StateFailed | StateAborted | UploadStateOther string

definition SupportedMediaTypes :: "string list" where
  "SupportedMediaTypes = [''image/jpeg'', ''image/png'', ''image/webp'', ''application/pdf'', ''text/plain'', ''application/json'']"

record FileMetadata =
  fm_FileID :: string
  fm_TenantID :: string
  fm_OriginalName :: string
  fm_StorageRef :: string
  fm_MediaType :: string
  fm_SizeBytes :: int64
  fm_SHA256Digest :: string
  fm_State :: UploadLifecycleState

text \<open>\<open>filepath.Base\<close> on a Unix system.\<close>

definition filepath_Base :: "string \<Rightarrow> string" where
  "filepath_Base path =
     (if path = [] then ''.''
      else case dropWhile (\<lambda>c. c = CHR ''/'') (rev path) of
        [] \<Rightarrow> ''/'' | r \<Rightarrow> rev (takeWhile (\<lambda>c. c \<noteq> CHR ''/'') r))"

text \<open>
  Some rune of the string is a control character: below U+0020, U+007F, or U+0080 to U+009F (the byte C2 with one of 80 to 9F; C2
  only ever begins a rune).
\<close>

fun has_control :: "string \<Rightarrow> bool" where
  "has_control [] \<longleftrightarrow> False"
| "has_control (c # s) \<longleftrightarrow> (of_char c :: nat) < 32 \<or> c = CHR 0x7F \<or>
     (c = CHR 0xC2 \<and> s \<noteq> [] \<and> 128 \<le> (of_char (hd s) :: nat) \<and> (of_char (hd s) :: nat) < 160) \<or> has_control s"

definition ValidateFilename :: "string \<Rightarrow> evidence_error option" where
  "ValidateFilename name =
     (let trimmed = TrimSpace name in
      if trimmed = [] then Some ErrInvalidFilename
      else if CHR ''/'' \<in> set trimmed \<or> CHR 0x5C \<in> set trimmed \<or> Contains trimmed ''..'' \<or> CHR 0x00 \<in> set trimmed
      then Some ErrInvalidFilename
      else if filepath_Base trimmed \<noteq> trimmed then Some ErrInvalidFilename
      else if has_control trimmed then Some ErrInvalidFilename
      else None)"

definition NormalizeAndValidateMediaType :: "(string \<Rightarrow> string option) \<Rightarrow> string \<Rightarrow> evidence_error + string" where
  "NormalizeAndValidateMediaType parse mediaType =
     (let trimmed = ToLower (TrimSpace mediaType) in
      if trimmed = [] then Inl ErrInvalidMediaType
      else case parse trimmed of
        None \<Rightarrow> Inl ErrInvalidMediaType
      | Some parsed \<Rightarrow> if parsed \<notin> set SupportedMediaTypes then Inl ErrInvalidMediaType else Inr parsed)"

definition File_ValidateDigest :: "string \<Rightarrow> evidence_error option" where
  "File_ValidateDigest digest =
     (let trimmed = TrimSpace digest in
      if length trimmed \<noteq> 64 then Some ErrInvalidDigest
      else if ToLower trimmed \<noteq> trimmed then Some ErrInvalidDigest
      else if \<not> hex_decodable trimmed \<or> length trimmed div 2 \<noteq> 32 then Some ErrInvalidDigest
      else None)"

text \<open>The bounds on a declared size, compared as signed numbers.\<close>

definition bad_size :: "int64 \<Rightarrow> bool" where
  "bad_size n \<longleftrightarrow> n \<le>s 0 \<or> MaxFileSizeBytes <s n"

definition NewFileMetadata ::
  "(string \<Rightarrow> string option) \<Rightarrow> string \<Rightarrow> string \<Rightarrow> string \<Rightarrow> string \<Rightarrow> string \<Rightarrow> int64 \<Rightarrow> string \<Rightarrow> evidence_error + FileMetadata" where
  "NewFileMetadata parse fileID tenantID originalName storageRef mediaType sizeBytes sha256Digest =
     (if TrimSpace fileID = [] then Inl ErrEmptyFileID
      else if TrimSpace tenantID = [] then Inl ErrEmptyTenantID
      else if TrimSpace storageRef = [] then Inl ErrEmptyStorageRef
      else case ValidateFilename originalName of Some e \<Rightarrow> Inl e | None \<Rightarrow>
        (case NormalizeAndValidateMediaType parse mediaType of Inl e \<Rightarrow> Inl e | Inr normMediaType \<Rightarrow>
         if bad_size sizeBytes then Inl ErrInvalidSize
         else case File_ValidateDigest sha256Digest of Some e \<Rightarrow> Inl e | None \<Rightarrow>
           Inr \<lparr>fm_FileID = TrimSpace fileID, fm_TenantID = TrimSpace tenantID, fm_OriginalName = TrimSpace originalName,
                fm_StorageRef = TrimSpace storageRef, fm_MediaType = normMediaType, fm_SizeBytes = sizeBytes,
                fm_SHA256Digest = TrimSpace sha256Digest, fm_State = StateInitialized\<rparr>))"

definition AuthorizeStorageReference :: "string \<Rightarrow> FileMetadata \<Rightarrow> evidence_error + string" where
  "AuthorizeStorageReference callerTenantID m =
     (if TrimSpace callerTenantID = [] then Inl ErrEmptyTenantID
      else if fm_TenantID m \<noteq> TrimSpace callerTenantID then Inl ErrTenantMismatch
      else Inr (fm_StorageRef m))"

definition File_TransitionState :: "UploadLifecycleState \<Rightarrow> FileMetadata \<Rightarrow> (FileMetadata, evidence_error, unit) outcome" where
  "File_TransitionState target m =
     (if fm_State m = StateCompleted then (m, Inl ErrCompletedStateImmutable)
      else case fm_State m of
        StateInitialized \<Rightarrow>
          if target \<in> {StateTransferring, StateAborted, StateFailed} then (m\<lparr>fm_State := target\<rparr>, Inr ())
          else (m, Inl ErrInvalidLifecycleTransition)
      | StateTransferring \<Rightarrow>
          if target \<in> {StateCompleted, StateFailed, StateAborted} then (m\<lparr>fm_State := target\<rparr>, Inr ())
          else (m, Inl ErrInvalidLifecycleTransition)
      | _ \<Rightarrow> (m, Inl ErrInvalidLifecycleTransition))"

subsection \<open>Storage in memory\<close>

type_synonym MemoryStorageAdapter = "string \<times> string \<rightharpoonup> string"

record reader =
  rd_content :: string
  rd_error :: "string option"

definition NewMemoryStorageAdapter :: MemoryStorageAdapter where
  "NewMemoryStorageAdapter = Map.empty"

text \<open>
  What \<open>ReadFrom\<close> sees through the limited reader: at most one byte more than the limit; the error of the reader only when
  the limit is not reached first.
\<close>

definition limited_read :: "reader \<Rightarrow> string \<times> string option" where
  "limited_read r =
     (let limit = unat MaxFileSizeBytes + 1
      in (take limit (rd_content r), if limit \<le> length (rd_content r) then None else rd_error r))"

definition PutObject ::
  "(string \<Rightarrow> string) \<Rightarrow> string \<Rightarrow> string \<Rightarrow> reader option \<Rightarrow> string \<Rightarrow> MemoryStorageAdapter \<Rightarrow>
   (MemoryStorageAdapter, evidence_error, unit) outcome" where
  "PutObject sha256 tenantID storageKey r expectedDigest a =
     (let tTenant = TrimSpace tenantID; tKey = TrimSpace storageKey; normDigest = ToLower (TrimSpace expectedDigest)
      in if tTenant = [] then (a, Inl ErrEmptyTenantID)
      else if tKey = [] then (a, Inl ErrBlankStorageKey)
      else case r of None \<Rightarrow> (a, Inl (EvidenceErrorf ''reader cannot be nil''))
      | Some rd \<Rightarrow> (case File_ValidateDigest normDigest of Some e \<Rightarrow> (a, Inl e)
        | None \<Rightarrow> (case limited_read rd of (payload, err) \<Rightarrow>
           if err \<noteq> None then (a, Inl (EvidenceErrorf ''failed to read payload stream''))
           else if unat MaxFileSizeBytes < length payload then (a, Inl ErrStorageCapacityExceeded)
           else if payload = [] then (a, Inl ErrInvalidSize)
           else if EncodeToString (sha256 payload) \<noteq> normDigest then (a, Inl ErrIntegrityMismatch)
           else (a((tTenant, tKey) \<mapsto> payload), Inr ()))))"

definition GetObject :: "string \<Rightarrow> string \<Rightarrow> MemoryStorageAdapter \<Rightarrow> evidence_error + string" where
  "GetObject tenantID storageKey a =
     (if TrimSpace tenantID = [] then Inl ErrEmptyTenantID
      else if TrimSpace storageKey = [] then Inl ErrBlankStorageKey
      else case a (TrimSpace tenantID, TrimSpace storageKey) of None \<Rightarrow> Inl ErrObjectNotFound | Some payload \<Rightarrow> Inr payload)"

definition DeleteObject :: "string \<Rightarrow> string \<Rightarrow> MemoryStorageAdapter \<Rightarrow> (MemoryStorageAdapter, evidence_error, unit) outcome" where
  "DeleteObject tenantID storageKey a =
     (if TrimSpace tenantID = [] then (a, Inl ErrEmptyTenantID)
      else if TrimSpace storageKey = [] then (a, Inl ErrBlankStorageKey)
      else case a (TrimSpace tenantID, TrimSpace storageKey) of None \<Rightarrow> (a, Inl ErrObjectNotFound)
      | Some _ \<Rightarrow> (a((TrimSpace tenantID, TrimSpace storageKey) := None), Inr ()))"

definition ObjectExists :: "string \<Rightarrow> string \<Rightarrow> MemoryStorageAdapter \<Rightarrow> evidence_error + bool" where
  "ObjectExists tenantID storageKey a =
     (if TrimSpace tenantID = [] then Inl ErrEmptyTenantID
      else if TrimSpace storageKey = [] then Inl ErrBlankStorageKey
      else Inr (a (TrimSpace tenantID, TrimSpace storageKey) \<noteq> None))"

subsection \<open>The storage interface\<close>

text \<open>
  What a client of \<open>ScopedStorageAdapter\<close> relies on: a stored object is read back, a deleted one is gone, existence agrees with reading,
  and an operation on one object (\<open>same\<close> identifies the names of an object) leaves all others alone.
\<close>

datatype storage_call =
  CallPutObject string string "reader option" string
| CallDeleteObject string string

fun call_tenant :: "storage_call \<Rightarrow> string" where
  "call_tenant (CallPutObject t k r d) = t"
| "call_tenant (CallDeleteObject t k) = t"

locale scoped_storage =
  fixes put :: "string \<Rightarrow> string \<Rightarrow> reader option \<Rightarrow> string \<Rightarrow> 's \<Rightarrow> ('s, 'e, unit) outcome"
    and get :: "string \<Rightarrow> string \<Rightarrow> 's \<Rightarrow> 'e + string"
    and del :: "string \<Rightarrow> string \<Rightarrow> 's \<Rightarrow> ('s, 'e, unit) outcome"
    and has :: "string \<Rightarrow> string \<Rightarrow> 's \<Rightarrow> 'e + bool"
    and norm :: "string \<Rightarrow> string"
  assumes put_get: "put t k (Some rd) d s = (s', Inr ()) \<Longrightarrow> get t k s' = Inr (rd_content rd)"
    and put_other: "norm t \<noteq> norm t' \<or> norm k \<noteq> norm k' \<Longrightarrow> get t' k' (fst (put t k r d s)) = get t' k' s"
    and del_get: "del t k s = (s', Inr ()) \<Longrightarrow> \<exists>e. get t k s' = Inl e"
    and del_other: "norm t \<noteq> norm t' \<or> norm k \<noteq> norm k' \<Longrightarrow> get t' k' (fst (del t k s)) = get t' k' s"
    and has_get: "has t k s = Inr b \<Longrightarrow> b \<longleftrightarrow> (\<exists>p. get t k s = Inr p)"
    and norm_get: "norm t = norm t' \<Longrightarrow> norm k = norm k' \<Longrightarrow> get t k s = get t' k' s"
begin

fun storage_exec :: "storage_call \<Rightarrow> 's \<Rightarrow> ('s, 'e, unit) outcome" where
  "storage_exec (CallPutObject t k r d) s = put t k r d s"
| "storage_exec (CallDeleteObject t k) s = del t k s"

text \<open>Nothing that is done in other tenants, or on other keys, changes what an object reads as.\<close>

lemma run_other_tenants:
  "(\<forall>c\<in>set cs. norm (call_tenant c) \<noteq> norm t) \<Longrightarrow> get t k (run_calls storage_exec cs s) = get t k s"
proof (induction cs arbitrary: s)
  case (Cons c cs)
  have "get t k (fst (storage_exec c s)) = get t k s"
    using Cons.prems by (cases c) (auto simp: put_other del_other)
  with Cons show ?case by simp
qed simp

lemma put_run_get:
  assumes "put t k (Some r) d s = (s', Inr ())" and "\<forall>c\<in>set cs. norm (call_tenant c) \<noteq> norm t"
    and "norm t' = norm t" and "norm k' = norm k"
  shows "get t' k' (run_calls storage_exec cs s') = Inr (rd_content r)"
  using norm_get [OF assms(3,4), of "run_calls storage_exec cs s'"] run_other_tenants [OF assms(2), of k s'] put_get [OF assms(1)] by simp

end

lemma limited_read_ok:
  "limited_read r = (payload, None) \<Longrightarrow> length payload \<le> unat MaxFileSizeBytes \<Longrightarrow> payload = rd_content r \<and> rd_error r = None"
  by (auto simp: limited_read_def Let_def split: if_splits)

lemma PutObject_Inr:
  assumes "PutObject h t k r d a = (a', Inr u)"
  obtains rd where "r = Some rd" "rd_error rd = None" "rd_content rd \<noteq> []" "length (rd_content rd) \<le> unat MaxFileSizeBytes"
    "File_ValidateDigest (ToLower (TrimSpace d)) = None" "EncodeToString (h (rd_content rd)) = ToLower (TrimSpace d)"
    "TrimSpace t \<noteq> []" "TrimSpace k \<noteq> []" "a' = a((TrimSpace t, TrimSpace k) \<mapsto> rd_content rd)"
proof -
  from assms obtain rd payload err where rd: "r = Some rd" "limited_read rd = (payload, err)"
    by (cases r; cases "limited_read (the r)") (auto simp: PutObject_def Let_def split: if_splits)
  with assms have ok: "err = None" "length payload \<le> unat MaxFileSizeBytes" "payload \<noteq> []" "TrimSpace t \<noteq> []" "TrimSpace k \<noteq> []"
      "File_ValidateDigest (ToLower (TrimSpace d)) = None" "EncodeToString (h payload) = ToLower (TrimSpace d)"
      "a' = a((TrimSpace t, TrimSpace k) \<mapsto> payload)"
    by (auto simp: PutObject_def Let_def split: if_splits option.splits)
  from limited_read_ok [OF rd(2) [unfolded ok(1)] ok(2)] that rd(1) ok show thesis by auto
qed

lemma PutObject_frame:
  "p \<noteq> (TrimSpace t, TrimSpace k) \<Longrightarrow> fst (PutObject h t k r d a) p = a p"
  by (auto simp: PutObject_def Let_def split: option.split prod.split)

interpretation memory: scoped_storage "PutObject h" GetObject DeleteObject ObjectExists TrimSpace
proof
  fix t k t' k' d :: string and r and rd :: reader and a a' and b :: bool
  show "GetObject t k a' = Inr (rd_content rd)" if "PutObject h t k (Some rd) d a = (a', Inr ())"
    using that by (auto elim!: PutObject_Inr simp: GetObject_def)
  show "GetObject t' k' (fst (PutObject h t k r d a)) = GetObject t' k' a" if "TrimSpace t \<noteq> TrimSpace t' \<or> TrimSpace k \<noteq> TrimSpace k'"
    using that by (auto simp: GetObject_def PutObject_frame)
  show "\<exists>e. GetObject t k a' = Inl e" if "DeleteObject t k a = (a', Inr ())"
    using that by (auto simp: DeleteObject_def GetObject_def split: if_splits option.splits)
  show "GetObject t' k' (fst (DeleteObject t k a)) = GetObject t' k' a" if "TrimSpace t \<noteq> TrimSpace t' \<or> TrimSpace k \<noteq> TrimSpace k'"
    using that by (auto simp: DeleteObject_def GetObject_def split: option.split)
  show "b \<longleftrightarrow> (\<exists>p. GetObject t k a = Inr p)" if "ObjectExists t k a = Inr b"
    using that by (auto simp: ObjectExists_def GetObject_def split: if_splits option.splits)
  show "TrimSpace t = TrimSpace t' \<Longrightarrow> TrimSpace k = TrimSpace k' \<Longrightarrow> GetObject t k a = GetObject t' k' a"
    by (simp add: GetObject_def)
qed

subsection \<open>File names and the life of an upload\<close>

lemma Contains_suffix: "Contains s t \<Longrightarrow> Contains (c # s) t"
  by simp

lemma filepath_Base_plain: "s \<noteq> [] \<Longrightarrow> CHR ''/'' \<notin> set s \<Longrightarrow> filepath_Base s = s"
proof -
  assume s: "s \<noteq> []" "CHR ''/'' \<notin> set s"
  then have "dropWhile (\<lambda>c. c = CHR ''/'') (rev s) = rev s" by (cases "rev s") (auto simp: dropWhile_eq_self_iff)
  moreover have "takeWhile (\<lambda>c. c \<noteq> CHR ''/'') (rev s) = rev s" using s(2) by (simp add: takeWhile_eq_all_conv) blast
  ultimately show "filepath_Base s = s" using s(1) by (simp add: filepath_Base_def split: list.split)
qed

text \<open>The test with \<open>filepath.Base\<close> never decides: what is left after the tests before it has no separator.\<close>

lemma ValidateFilename_None:
  "ValidateFilename name = None \<longleftrightarrow>
     TrimSpace name \<noteq> [] \<and> CHR ''/'' \<notin> set (TrimSpace name) \<and> CHR 0x5C \<notin> set (TrimSpace name) \<and>
     \<not> Contains (TrimSpace name) ''..'' \<and> \<not> has_control (TrimSpace name)"
proof -
  have "has_control s" if "CHR 0x00 \<in> set s" for s using that by (induction s) auto
  then show ?thesis using filepath_Base_plain by (auto simp: ValidateFilename_def Let_def)
qed

fun accepted :: "UploadLifecycleState list \<Rightarrow> FileMetadata \<Rightarrow> UploadLifecycleState list" where
  "accepted [] m = []"
| "accepted (t # ts) m =
     (case File_TransitionState t m of (m', Inr _) \<Rightarrow> t # accepted ts m' | (m', Inl _) \<Rightarrow> accepted ts m')"

definition ended :: "UploadLifecycleState \<Rightarrow> bool" where
  "ended s \<longleftrightarrow> s \<noteq> StateInitialized \<and> s \<noteq> StateTransferring"

lemma ended_stays: "ended (fm_State m) \<Longrightarrow> \<exists>e. File_TransitionState t m = (m, Inl e)"
  by (auto simp: ended_def File_TransitionState_def split: UploadLifecycleState.split)

lemma transition_transferring:
  "fm_State m = StateTransferring \<Longrightarrow> File_TransitionState t m =
     (if t \<in> {StateCompleted, StateFailed, StateAborted} then (m\<lparr>fm_State := t\<rparr>, Inr ()) else (m, Inl ErrInvalidLifecycleTransition))"
  by (simp add: File_TransitionState_def)

lemma transition_initialized:
  "fm_State m = StateInitialized \<Longrightarrow> File_TransitionState t m =
     (if t \<in> {StateTransferring, StateAborted, StateFailed} then (m\<lparr>fm_State := t\<rparr>, Inr ()) else (m, Inl ErrInvalidLifecycleTransition))"
  by (simp add: File_TransitionState_def)

lemma accepted_ended: "ended (fm_State m) \<Longrightarrow> accepted ts m = [] \<and> run_calls File_TransitionState ts m = m"
proof (induction ts)
  case (Cons t ts)
  with ended_stays [of m t] show ?case by auto
qed simp

lemma accepted_transferring:
  "fm_State m = StateTransferring \<Longrightarrow>
     accepted ts m = [] \<and> fm_State (run_calls File_TransitionState ts m) = StateTransferring \<or>
     (\<exists>t. accepted ts m = [t] \<and> ended t \<and> fm_State (run_calls File_TransitionState ts m) = t)"
proof (induction ts arbitrary: m)
  case (Cons t ts)
  show ?case
  proof (cases "t \<in> {StateCompleted, StateFailed, StateAborted}")
    case True
    then have "ended t" by (auto simp: ended_def)
    with True Cons.prems accepted_ended [of "m\<lparr>fm_State := t\<rparr>" ts] show ?thesis by (simp add: transition_transferring)
  next
    case False
    with Cons.prems have "File_TransitionState t m = (m, Inl ErrInvalidLifecycleTransition)" by (simp add: transition_transferring)
    with Cons show ?thesis by simp
  qed
qed simp

lemma accepted_initialized:
  "fm_State m = StateInitialized \<Longrightarrow>
     accepted ts m = [] \<and> fm_State (run_calls File_TransitionState ts m) = StateInitialized \<or>
     (\<exists>t. t \<in> {StateAborted, StateFailed} \<and> accepted ts m = [t] \<and> fm_State (run_calls File_TransitionState ts m) = t) \<or>
     accepted ts m = [StateTransferring] \<and> fm_State (run_calls File_TransitionState ts m) = StateTransferring \<or>
     (\<exists>t. accepted ts m = [StateTransferring, t] \<and> ended t \<and> fm_State (run_calls File_TransitionState ts m) = t)"
proof (induction ts arbitrary: m)
  case (Cons t ts)
  consider (transfer) "t = StateTransferring" | (stop) "t \<in> {StateAborted, StateFailed}"
    | (other) "t \<notin> {StateTransferring, StateAborted, StateFailed}" by blast
  then show ?case
  proof cases
    case transfer
    with Cons.prems accepted_transferring [of "m\<lparr>fm_State := StateTransferring\<rparr>" ts] show ?thesis
      by (simp add: transition_initialized)
  next
    case stop
    then have "ended t" by (auto simp: ended_def)
    with stop Cons.prems accepted_ended [of "m\<lparr>fm_State := t\<rparr>" ts] show ?thesis by (auto simp: transition_initialized)
  next
    case other
    with Cons.prems have "File_TransitionState t m = (m, Inl ErrInvalidLifecycleTransition)" by (simp add: transition_initialized)
    with Cons show ?thesis by simp
  qed
qed simp

lemma ToLower_EncodeToString: "ToLower (EncodeToString bs) = EncodeToString bs"
proof -
  have digit: "lower_byte (hex_digit n) = hex_digit n" if "n < 16" for n
    using that by (auto simp: lower_byte_def hex_digit_def)
  have "(of_char b :: nat) div 16 < 16" for b :: char
    using nat_of_char_less_256 [of b] by (simp add: less_mult_imp_div_less)
  then show ?thesis by (induction bs) (auto simp: EncodeToString_def ToLower_def digit)
qed

lemma encoded_digest:
  assumes "length bs = 32"
  shows "File_ValidateDigest (EncodeToString bs) = None" "ToLower (TrimSpace (EncodeToString bs)) = EncodeToString bs"
    "TrimSpace (EncodeToString bs) = EncodeToString bs"
proof -
  show trim: "TrimSpace (EncodeToString bs) = EncodeToString bs" by (rule TrimSpace_all_graphic) (rule EncodeToString_bytes)
  then show "ToLower (TrimSpace (EncodeToString bs)) = EncodeToString bs" by (simp add: ToLower_EncodeToString)
  show "File_ValidateDigest (EncodeToString bs) = None"
    using assms by (simp add: File_ValidateDigest_def trim ToLower_EncodeToString hex_decodable_def EncodeToString_hex)
qed

subsection \<open>Properties\<close>

text \<open>
  Metadata that the constructor accepts is well formed: trimmed identifiers, a file name without separators, parent references and
  control characters, a supported media type, a size between 1 byte and 50 MiB, a digest of 64 lower case hexadecimal digits, and
  the state INITIALIZED.
\<close>

theorem NewFileMetadata_sound:
  assumes "NewFileMetadata parse i t name ref media n d = Inr m"
  shows "fm_FileID m \<noteq> [] \<and> fm_TenantID m \<noteq> [] \<and> fm_StorageRef m \<noteq> [] \<and> TrimSpace (fm_TenantID m) = fm_TenantID m \<and>
    fm_OriginalName m \<noteq> [] \<and> CHR ''/'' \<notin> set (fm_OriginalName m) \<and> CHR 0x5C \<notin> set (fm_OriginalName m) \<and>
    \<not> Contains (fm_OriginalName m) ''..'' \<and> \<not> has_control (fm_OriginalName m) \<and>
    fm_MediaType m \<in> set SupportedMediaTypes \<and> 1 \<le> sint (fm_SizeBytes m) \<and> sint (fm_SizeBytes m) \<le> 52428800 \<and>
    length (fm_SHA256Digest m) = 64 \<and> list_all (\<lambda>c. hex_byte (lower_byte c)) (fm_SHA256Digest m) \<and>
    ToLower (fm_SHA256Digest m) = fm_SHA256Digest m \<and> fm_State m = StateInitialized"
proof -
  from assms have name: "ValidateFilename name = None" and media: "fm_MediaType m \<in> set SupportedMediaTypes"
    and size: "\<not> bad_size n" and digest: "File_ValidateDigest d = None"
    and m: "fm_FileID m = TrimSpace i" "fm_TenantID m = TrimSpace t" "fm_StorageRef m = TrimSpace ref" "fm_OriginalName m = TrimSpace name"
      "fm_SizeBytes m = n" "fm_SHA256Digest m = TrimSpace d" "fm_State m = StateInitialized"
      "TrimSpace i \<noteq> []" "TrimSpace t \<noteq> []" "TrimSpace ref \<noteq> []"
    by (auto simp: NewFileMetadata_def NormalizeAndValidateMediaType_def Let_def guards split: if_splits option.splits sum.splits)
  have "1 \<le> sint n \<and> sint n \<le> 52428800"
    using size by (simp add: bad_size_def MaxFileSizeBytes_def word_sle_eq word_sless_alt)
  moreover have "length (TrimSpace d) = 64 \<and> list_all (\<lambda>c. hex_byte (lower_byte c)) (TrimSpace d) \<and> ToLower (TrimSpace d) = TrimSpace d"
    using digest by (auto simp: File_ValidateDigest_def hex_decodable_def Let_def split: if_splits)
  ultimately show ?thesis using name media m by (simp add: ValidateFilename_None)
qed

text \<open>
  The life of an upload: starting from INITIALIZED, whatever transitions are attempted, at most two succeed, and it is
  COMPLETED exactly when they were the one to TRANSFERRING and then the one to COMPLETED.
\<close>

theorem upload_lifecycle_bounded:
  assumes "fm_State m = StateInitialized"
  shows "length (accepted ts m) \<le> 2 \<and>
    (fm_State (run_calls File_TransitionState ts m) = StateCompleted \<longleftrightarrow> accepted ts m = [StateTransferring, StateCompleted])"
  using accepted_initialized [OF assms, of ts] by auto

text \<open>
  Write and read: what \<open>PutObject\<close> has stored is what the tenant reads back under that key, byte for byte, whatever other tenants put and
  delete meanwhile; it has at least one byte, at most 50 MiB, and the digest it was announced with.
\<close>

theorem storage_roundtrip:
  assumes "PutObject h t k (Some r) d a = (a', Inr ())" and "\<forall>c\<in>set cs. TrimSpace (call_tenant c) \<noteq> TrimSpace t"
    and "TrimSpace t' = TrimSpace t" and "TrimSpace k' = TrimSpace k"
  shows "GetObject t' k' (run_calls (memory.storage_exec h) cs a') = Inr (rd_content r) \<and>
    0 < length (rd_content r) \<and> length (rd_content r) \<le> 52428800 \<and> EncodeToString (h (rd_content r)) = ToLower (TrimSpace d)"
proof -
  have "unat MaxFileSizeBytes = 52428800" by (simp add: MaxFileSizeBytes_def)
  then show ?thesis using memory.put_run_get [OF assms(1) assms(2-4)] assms(1) by (auto elim!: PutObject_Inr)
qed

subsection \<open>Witnesses\<close>

definition example_bytes :: string where
  "example_bytes = replicate 32 (CHR 0xAB)"

lemma length_example_bytes [simp]: "length example_bytes = 32"
  by (simp add: example_bytes_def)

lemma example_upload:
  "ValidateFilename ''report.pdf'' = None" "NormalizeAndValidateMediaType Some ''application/pdf'' = Inr ''application/pdf''"
  "\<not> bad_size 52428800"
  by (simp_all add: ValidateFilename_def filepath_Base_def HasPrefix_def NormalizeAndValidateMediaType_def ToLower_def lower_byte_def
      SupportedMediaTypes_def bad_size_def MaxFileSizeBytes_def word_sle_eq word_sless_alt)

theorem NewFileMetadata_sound_witness:
  "\<exists>m :: FileMetadata. fm_OriginalName m = ''report.pdf'' \<and> \<not> has_control (fm_OriginalName m) \<and> fm_SizeBytes m = 52428800"
proof -
  have "\<exists>m. NewFileMetadata Some ''f1'' ''ten_1'' ''report.pdf'' ''ref'' ''application/pdf'' 52428800 (EncodeToString example_bytes) = Inr m \<and>
      fm_OriginalName m = ''report.pdf'' \<and> fm_SizeBytes m = 52428800"
    by (simp add: NewFileMetadata_def example_upload encoded_digest)
  then obtain m where m: "NewFileMetadata Some ''f1'' ''ten_1'' ''report.pdf'' ''ref'' ''application/pdf'' 52428800 (EncodeToString example_bytes) = Inr m"
    "fm_OriginalName m = ''report.pdf''" "fm_SizeBytes m = 52428800" by blast
  from NewFileMetadata_sound [OF m(1)] m(2,3) show ?thesis by blast
qed

definition example_metadata :: FileMetadata where
  "example_metadata = \<lparr>fm_FileID = ''f1'', fm_TenantID = ''ten_1'', fm_OriginalName = ''a'', fm_StorageRef = ''r'', fm_MediaType = ''text/plain'',
     fm_SizeBytes = 1, fm_SHA256Digest = [], fm_State = StateInitialized\<rparr>"

theorem upload_lifecycle_bounded_witness:
  "accepted [StateCompleted, StateTransferring, StateTransferring, StateCompleted, StateFailed] example_metadata = [StateTransferring, StateCompleted] \<and>
   fm_State (run_calls File_TransitionState [StateCompleted, StateTransferring, StateTransferring, StateCompleted, StateFailed] example_metadata) = StateCompleted"
proof -
  let ?ts = "[StateCompleted, StateTransferring, StateTransferring, StateCompleted, StateFailed]"
  have "fm_State example_metadata = StateInitialized" by (simp add: example_metadata_def)
  from upload_lifecycle_bounded [OF this, of ?ts] show ?thesis by (simp add: File_TransitionState_def example_metadata_def)
qed

theorem storage_roundtrip_witness:
  "\<exists>a. GetObject ''ten_1'' ''k'' a = Inr ''photo''"
proof -
  have "limited_read \<lparr>rd_content = ''photo'', rd_error = None\<rparr> = (''photo'', None)"
    by (simp add: limited_read_def MaxFileSizeBytes_def)
  then have "\<exists>a'. PutObject (\<lambda>_. example_bytes) ''ten_1'' ''k'' (Some \<lparr>rd_content = ''photo'', rd_error = None\<rparr>) (EncodeToString example_bytes)
      NewMemoryStorageAdapter = (a', Inr ())"
    by (simp add: PutObject_def Let_def MaxFileSizeBytes_def encoded_digest ToLower_EncodeToString)
  then obtain a' where a': "PutObject (\<lambda>_. example_bytes) ''ten_1'' ''k'' (Some \<lparr>rd_content = ''photo'', rd_error = None\<rparr>)
      (EncodeToString example_bytes) NewMemoryStorageAdapter = (a', Inr ())" by blast
  from storage_roundtrip [OF a', of "[CallDeleteObject ''ten_2'' ''k'']" "''ten_1''" "''k''"] show ?thesis by auto
qed

end
