(* ===== verification/Evidence_Chain.thy ===== *)
theory Evidence_Chain
  imports Evidence_Files "HOL-Library.List_Lexorder" "HOL-Library.Char_ord"
begin

text \<open>
  Evidence and its chain of custody, \<open>modules/files-evidence/evidence_chain.go\<close>: originals, derived artifacts, the custody events chained
  by digests, and export manifests. SHA-256 is the parameter \<open>h\<close>. A method reads the clock more than once, so it takes the
  readings as a sequence. The two-level maps are maps from pairs of tenant and evidence, an absent chain is the empty one (a chain
  is created with its first event). \<open>sort.Slice\<close> is not stable; the model keeps entries with equal identifiers in their
  order. The storage adapter of the manager is never called, and the model leaves it out.
\<close>

datatype EvidenceObjectType = ObjectTypeOriginal | ObjectTypeDerived | ObjectTypeOther string

fun object_text :: "EvidenceObjectType \<Rightarrow> string" where
  "object_text ObjectTypeOriginal = ''ORIGINAL''"
| "object_text ObjectTypeDerived = ''DERIVED''"
| "object_text (ObjectTypeOther s) = s"

datatype DerivationType =
  DerivationNone | DerivationThumbnailPreview | DerivationCompressedRendition | DerivationWatermarkedExport | DerivationRedactedView
| DerivationOther string

fun derivation_text :: "DerivationType \<Rightarrow> string" where
  "derivation_text DerivationNone = ''NONE''"
| "derivation_text DerivationThumbnailPreview = ''THUMBNAIL_PREVIEW''"
| "derivation_text DerivationCompressedRendition = ''COMPRESSED_RENDITION''"
| "derivation_text DerivationWatermarkedExport = ''WATERMARKED_EXPORT''"
| "derivation_text DerivationRedactedView = ''REDACTED_VIEW''"
| "derivation_text (DerivationOther s) = s"

datatype CustodyEventType =
  EventCaptureLocal | EventQueueLocal | EventTransferStart | EventTransferInterrupted | EventTransferResumed | EventIntegrityVerified
| EventOriginalCommitted | EventDerivedGenerated | EventPreviewRendered | EventExportPackaged | EventTamperDetected

fun custody_text :: "CustodyEventType \<Rightarrow> string" where
  "custody_text EventCaptureLocal = ''CAPTURE_LOCAL''"
| "custody_text EventQueueLocal = ''QUEUE_LOCAL''"
| "custody_text EventTransferStart = ''TRANSFER_START''"
| "custody_text EventTransferInterrupted = ''TRANSFER_INTERRUPTED''"
| "custody_text EventTransferResumed = ''TRANSFER_RESUMED''"
| "custody_text EventIntegrityVerified = ''INTEGRITY_VERIFIED''"
| "custody_text EventOriginalCommitted = ''ORIGINAL_COMMITTED''"
| "custody_text EventDerivedGenerated = ''DERIVED_GENERATED''"
| "custody_text EventPreviewRendered = ''PREVIEW_RENDERED''"
| "custody_text EventExportPackaged = ''EXPORT_PACKAGED''"
| "custody_text EventTamperDetected = ''TAMPER_DETECTED''"

record EvidenceRecord =
  er_EvidenceID :: string
  er_TenantID :: string
  er_ObjectType :: EvidenceObjectType
  er_ParentEvidenceID :: string
  er_DerivationType :: DerivationType
  er_AssociationType :: string
  er_AssociationID :: string
  er_OriginalName :: string
  er_MediaType :: string
  er_SizeBytes :: int64
  er_SHA256Digest :: string
  er_State :: UploadLifecycleState
  er_Committed :: bool
  er_CreatedAt :: gotime
  er_CreatedBy :: string

record CustodyEvent =
  ce_EventID :: string
  ce_TenantID :: string
  ce_EvidenceID :: string
  ce_EventType :: CustodyEventType
  ce_ActorID :: string
  ce_Timestamp :: gotime
  ce_PayloadDigest :: string
  ce_Details :: string
  ce_PreviousEventDigest :: string
  ce_EventDigest :: string

record ExportManifestItem =
  xi_EvidenceID :: string
  xi_ObjectType :: EvidenceObjectType
  xi_ParentEvidenceID :: string
  xi_DerivationType :: DerivationType
  xi_MediaType :: string
  xi_SizeBytes :: int64
  xi_SHA256Digest :: string

record ExportManifest =
  xm_ExportID :: string
  xm_TenantID :: string
  xm_ExporterID :: string
  xm_CreatedAt :: gotime
  xm_Items :: "ExportManifestItem list"
  xm_RootDigest :: string
  xm_TotalSizeBytes :: int64

record EvidenceIntegrityManager =
  em_records :: "string \<times> string \<rightharpoonup> EvidenceRecord"
  em_custodyChain :: "string \<times> string \<Rightarrow> CustodyEvent list"

definition NewEvidenceIntegrityManager :: EvidenceIntegrityManager where
  "NewEvidenceIntegrityManager = \<lparr>em_records = Map.empty, em_custodyChain = (\<lambda>_. [])\<rparr>"

definition ComputeSHA256Digest :: "(string \<Rightarrow> string) \<Rightarrow> string \<Rightarrow> string" where
  "ComputeSHA256Digest h data = EncodeToString (h data)"

text \<open>The line that is hashed for an event.\<close>

definition event_entry ::
  "string \<Rightarrow> string \<Rightarrow> string \<Rightarrow> string \<Rightarrow> string \<Rightarrow> string \<Rightarrow> string \<Rightarrow> string \<Rightarrow> gotime \<Rightarrow> string" where
  "event_entry prevDigest eventID tenantID evidenceID eventType actorID digest details ts =
     prevDigest @ ''|'' @ eventID @ ''|'' @ tenantID @ ''|'' @ evidenceID @ ''|'' @ eventType @ ''|'' @ actorID @ ''|'' @ digest @ ''|'' @
     details @ ''|'' @ FormatInt (UnixNano ts)"

definition computeEventDigest ::
  "(string \<Rightarrow> string) \<Rightarrow> string \<Rightarrow> string \<Rightarrow> string \<Rightarrow> string \<Rightarrow> string \<Rightarrow> string \<Rightarrow> string \<Rightarrow> string \<Rightarrow> gotime \<Rightarrow> string" where
  "computeEventDigest h prevDigest eventID tenantID evidenceID eventType actorID digest details ts =
     EncodeToString (h (event_entry prevDigest eventID tenantID evidenceID eventType actorID digest details ts))"

definition genesis_digest :: string where
  "genesis_digest = replicate 64 (CHR ''0'')"

definition new_event ::
  "(string \<Rightarrow> string) \<Rightarrow> CustodyEvent list \<Rightarrow> string \<Rightarrow> string \<Rightarrow> CustodyEventType \<Rightarrow> string \<Rightarrow> string \<Rightarrow> string \<Rightarrow> gotime \<Rightarrow> CustodyEvent" where
  "new_event h events tenantID evidenceID eventType actorID digest details now =
     (let prevDigest = (if events = [] then genesis_digest else ce_EventDigest (last events));
          eventID = ''evt_'' @ evidenceID @ ''_'' @ FormatInt (int (length events) + 1)
      in \<lparr>ce_EventID = eventID, ce_TenantID = tenantID, ce_EvidenceID = evidenceID, ce_EventType = eventType, ce_ActorID = actorID,
          ce_Timestamp = now, ce_PayloadDigest = digest, ce_Details = details, ce_PreviousEventDigest = prevDigest,
          ce_EventDigest = computeEventDigest h prevDigest eventID tenantID evidenceID (custody_text eventType) actorID digest details now\<rparr>)"

definition recordEventLocked ::
  "(string \<Rightarrow> string) \<Rightarrow> string \<Rightarrow> string \<Rightarrow> CustodyEventType \<Rightarrow> string \<Rightarrow> string \<Rightarrow> string \<Rightarrow> gotime \<Rightarrow>
   EvidenceIntegrityManager \<Rightarrow> EvidenceIntegrityManager" where
  "recordEventLocked h tenantID evidenceID eventType actorID digest details now m =
     (let events = em_custodyChain m (tenantID, evidenceID)
      in m\<lparr>em_custodyChain := (em_custodyChain m)((tenantID, evidenceID) :=
              events @ [new_event h events tenantID evidenceID eventType actorID digest details now])\<rparr>)"

definition store_record :: "EvidenceRecord \<Rightarrow> EvidenceIntegrityManager \<Rightarrow> EvidenceIntegrityManager" where
  "store_record rec m = m\<lparr>em_records := (em_records m)((er_TenantID rec, er_EvidenceID rec) \<mapsto> rec)\<rparr>"

definition Chain_RegisterOriginal ::
  "(string \<Rightarrow> string) \<Rightarrow> string \<Rightarrow> string \<Rightarrow> string \<Rightarrow> string \<Rightarrow> int64 \<Rightarrow> string \<Rightarrow> string \<Rightarrow> string \<Rightarrow> string \<Rightarrow> (nat \<Rightarrow> gotime) \<Rightarrow>
   EvidenceIntegrityManager \<Rightarrow> (EvidenceIntegrityManager, evidence_error, EvidenceRecord) outcome" where
  "Chain_RegisterOriginal h tenantID evidenceID filename mediaType sizeBytes expectedDigest associationType associationID createdBy clock m =
     (let tTenant = TrimSpace tenantID; tEvidence = TrimSpace evidenceID;
          rec = \<lparr>er_EvidenceID = tEvidence, er_TenantID = tTenant, er_ObjectType = ObjectTypeOriginal, er_ParentEvidenceID = [],
                 er_DerivationType = DerivationNone, er_AssociationType = associationType, er_AssociationID = associationID,
                 er_OriginalName = filename, er_MediaType = mediaType, er_SizeBytes = sizeBytes, er_SHA256Digest = expectedDigest,
                 er_State = StateInitialized, er_Committed = False, er_CreatedAt = clock 0, er_CreatedBy = createdBy\<rparr>
      in if tTenant = [] then (m, Inl ErrEmptyTenantID)
      else if tEvidence = [] then (m, Inl ErrEmptyFileID)
      else case ValidateFilename filename of Some e \<Rightarrow> (m, Inl e) | None \<Rightarrow>
        if mediaType \<notin> set SupportedMediaTypes then (m, Inl ErrInvalidMediaType)
        else if bad_size sizeBytes then (m, Inl ErrInvalidSize)
        else if length expectedDigest \<noteq> 64 then (m, Inl ErrInvalidDigest)
        else if TrimSpace associationType = [] \<or> TrimSpace associationID = []
        then (m, Inl (EvidenceErrorf ''association_type and association_id are required''))
        else case em_records m (tTenant, tEvidence) of
          Some old \<Rightarrow> (m, Inl (if er_Committed old then ErrOriginalImmutable else ErrDuplicateEvidenceConflict))
        | None \<Rightarrow>
            (recordEventLocked h tTenant tEvidence EventCaptureLocal createdBy expectedDigest ''original evidence registered'' (clock 1)
               (store_record rec m), Inr rec))"

definition CommitOriginal ::
  "(string \<Rightarrow> string) \<Rightarrow> string \<Rightarrow> string \<Rightarrow> string \<Rightarrow> string \<Rightarrow> (nat \<Rightarrow> gotime) \<Rightarrow> EvidenceIntegrityManager \<Rightarrow>
   (EvidenceIntegrityManager, evidence_error, unit) outcome" where
  "CommitOriginal h tenantID evidenceID payload actorID clock m =
     (let tTenant = TrimSpace tenantID; tEvidence = TrimSpace evidenceID; actualDigest = ComputeSHA256Digest h payload in
      case em_records m (tTenant, tEvidence) of
        None \<Rightarrow> (m, Inl ErrObjectNotFound)
      | Some rec \<Rightarrow>
          if er_ObjectType rec \<noteq> ObjectTypeOriginal then (m, Inl ErrDerivedOriginalConfusion)
          else if er_Committed rec then (m, Inl ErrOriginalImmutable)
          else if actualDigest \<noteq> er_SHA256Digest rec
          then (recordEventLocked h tTenant tEvidence EventTamperDetected actorID actualDigest
                  (''integrity verification failed: expected '' @ er_SHA256Digest rec @ '', got '' @ actualDigest) (clock 0) m,
                Inl ErrTamperDetected)
          else if (of_nat (length payload) :: int64) \<noteq> er_SizeBytes rec then (m, Inl ErrInvalidSize)
          else (recordEventLocked h tTenant tEvidence EventOriginalCommitted actorID actualDigest
                  ''original committed as authoritative and immutable'' (clock 1)
                  ((recordEventLocked h tTenant tEvidence EventIntegrityVerified actorID actualDigest
                     ''payload SHA-256 verified successfully'' (clock 0) m)
                   \<lparr>em_records := (em_records m)((tTenant, tEvidence) \<mapsto> rec\<lparr>er_State := StateCompleted, er_Committed := True\<rparr>)\<rparr>), Inr ()))"

definition Chain_RegisterDerived ::
  "(string \<Rightarrow> string) \<Rightarrow> string \<Rightarrow> string \<Rightarrow> string \<Rightarrow> DerivationType \<Rightarrow> string \<Rightarrow> string \<Rightarrow> int64 \<Rightarrow> string \<Rightarrow> string \<Rightarrow> (nat \<Rightarrow> gotime) \<Rightarrow>
   EvidenceIntegrityManager \<Rightarrow> (EvidenceIntegrityManager, evidence_error, EvidenceRecord) outcome" where
  "Chain_RegisterDerived h tenantID derivedID parentEvidenceID derivType filename mediaType sizeBytes payloadDigest createdBy clock m =
     (let tTenant = TrimSpace tenantID; tDerived = TrimSpace derivedID; tParent = TrimSpace parentEvidenceID
      in if tTenant = [] then (m, Inl ErrEmptyTenantID)
      else if tDerived = [] then (m, Inl ErrEmptyFileID)
      else if tParent = [] then (m, Inl ErrEmptyParentID)
      else if derivType = DerivationNone \<or> derivType = DerivationOther [] then (m, Inl ErrInvalidDerivationType)
      else case ValidateFilename filename of Some e \<Rightarrow> (m, Inl e) | None \<Rightarrow>
        if mediaType \<notin> set SupportedMediaTypes then (m, Inl ErrInvalidMediaType)
        else if bad_size sizeBytes then (m, Inl ErrInvalidSize)
        else if length payloadDigest \<noteq> 64 then (m, Inl ErrInvalidDigest)
        else case em_records m (tTenant, tParent) of None \<Rightarrow> (m, Inl ErrMissingParentEvidence)
        | Some parentRec \<Rightarrow>
            if er_ObjectType parentRec \<noteq> ObjectTypeOriginal then (m, Inl ErrNestedDerivationProhibited)
            else if \<not> er_Committed parentRec then (m, Inl ErrRecordNotCommitted)
            else if em_records m (tTenant, tDerived) \<noteq> None then (m, Inl ErrDuplicateEvidenceConflict)
            else let rec = \<lparr>er_EvidenceID = tDerived, er_TenantID = tTenant, er_ObjectType = ObjectTypeDerived, er_ParentEvidenceID = tParent,
                   er_DerivationType = derivType, er_AssociationType = er_AssociationType parentRec,
                   er_AssociationID = er_AssociationID parentRec, er_OriginalName = filename, er_MediaType = mediaType,
                   er_SizeBytes = sizeBytes, er_SHA256Digest = payloadDigest, er_State = StateInitialized, er_Committed = False,
                   er_CreatedAt = clock 0, er_CreatedBy = createdBy\<rparr>
                 in (recordEventLocked h tTenant tDerived EventDerivedGenerated createdBy payloadDigest
                       (''derived artifact '' @ derivation_text derivType @ '' created from parent original '' @ tParent) (clock 1)
                       (store_record rec m), Inr rec))"

definition CommitDerived ::
  "(string \<Rightarrow> string) \<Rightarrow> string \<Rightarrow> string \<Rightarrow> string \<Rightarrow> string \<Rightarrow> (nat \<Rightarrow> gotime) \<Rightarrow> EvidenceIntegrityManager \<Rightarrow>
   (EvidenceIntegrityManager, evidence_error, unit) outcome" where
  "CommitDerived h tenantID derivedID payload actorID clock m =
     (let tTenant = TrimSpace tenantID; tDerived = TrimSpace derivedID; actualDigest = ComputeSHA256Digest h payload in
      case em_records m (tTenant, tDerived) of
        None \<Rightarrow> (m, Inl ErrObjectNotFound)
      | Some rec \<Rightarrow>
          if er_ObjectType rec \<noteq> ObjectTypeDerived then (m, Inl ErrDerivedOriginalConfusion)
          else if er_Committed rec then (m, Inl ErrCompletedStateImmutable)
          else if actualDigest \<noteq> er_SHA256Digest rec
          then (recordEventLocked h tTenant tDerived EventTamperDetected actorID actualDigest ''derived payload digest mismatch'' (clock 0) m,
                Inl ErrTamperDetected)
          else (recordEventLocked h tTenant tDerived EventIntegrityVerified actorID actualDigest
                  ''derived artifact payload verified and committed'' (clock 0)
                  (m\<lparr>em_records := (em_records m)((tTenant, tDerived) \<mapsto> rec\<lparr>er_State := StateCompleted, er_Committed := True\<rparr>)\<rparr>), Inr ()))"

text \<open>The shared shape of the two transfer methods: an uncommitted record changes its state and an event is recorded.\<close>

definition record_transfer ::
  "(string \<Rightarrow> string) \<Rightarrow> string \<Rightarrow> string \<Rightarrow> UploadLifecycleState \<Rightarrow> CustodyEventType \<Rightarrow> string \<Rightarrow> string \<Rightarrow> gotime \<Rightarrow>
   EvidenceIntegrityManager \<Rightarrow> (EvidenceIntegrityManager, evidence_error, unit) outcome" where
  "record_transfer h tenantID evidenceID state eventType details actorID now m =
     (let tTenant = TrimSpace tenantID; tEvidence = TrimSpace evidenceID in
      case em_records m (tTenant, tEvidence) of
        None \<Rightarrow> (m, Inl ErrObjectNotFound)
      | Some rec \<Rightarrow>
          if er_Committed rec then (m, Inl ErrOriginalImmutable)
          else (recordEventLocked h tTenant tEvidence eventType actorID (er_SHA256Digest rec) details now
                  (m\<lparr>em_records := (em_records m)((tTenant, tEvidence) \<mapsto> rec\<lparr>er_State := state\<rparr>)\<rparr>), Inr ()))"

definition RecordTransferInterrupted ::
  "(string \<Rightarrow> string) \<Rightarrow> string \<Rightarrow> string \<Rightarrow> int64 \<Rightarrow> int64 \<Rightarrow> string \<Rightarrow> string \<Rightarrow> (nat \<Rightarrow> gotime) \<Rightarrow> EvidenceIntegrityManager \<Rightarrow>
   (EvidenceIntegrityManager, evidence_error, unit) outcome" where
  "RecordTransferInterrupted h tenantID evidenceID bytesTransferred totalBytes reason actorID clock =
     record_transfer h tenantID evidenceID StateFailed EventTransferInterrupted
       (''transfer interrupted at '' @ FormatInt (sint bytesTransferred) @ ''/'' @ FormatInt (sint totalBytes) @ '' bytes: '' @ reason)
       actorID (clock 0)"

definition RecordTransferResumed ::
  "(string \<Rightarrow> string) \<Rightarrow> string \<Rightarrow> string \<Rightarrow> string \<Rightarrow> (nat \<Rightarrow> gotime) \<Rightarrow> EvidenceIntegrityManager \<Rightarrow>
   (EvidenceIntegrityManager, evidence_error, unit) outcome" where
  "RecordTransferResumed h tenantID evidenceID actorID clock =
     record_transfer h tenantID evidenceID StateTransferring EventTransferResumed ''transfer resumed'' actorID (clock 0)"

definition HandleDuplicateUpload ::
  "(string \<Rightarrow> string) \<Rightarrow> string \<Rightarrow> string \<Rightarrow> string \<Rightarrow> string \<Rightarrow> string \<Rightarrow> (nat \<Rightarrow> gotime) \<Rightarrow> EvidenceIntegrityManager \<Rightarrow>
   (EvidenceIntegrityManager, evidence_error, bool) outcome" where
  "HandleDuplicateUpload h tenantID evidenceID expectedDigest payload actorID clock m =
     (let tTenant = TrimSpace tenantID; tEvidence = TrimSpace evidenceID; actualDigest = ComputeSHA256Digest h payload in
      case em_records m (tTenant, tEvidence) of
        None \<Rightarrow> (m, Inr False)
      | Some rec \<Rightarrow>
          if er_Committed rec
          then if er_SHA256Digest rec = actualDigest \<and> er_SHA256Digest rec = expectedDigest
               then (recordEventLocked h tTenant tEvidence EventIntegrityVerified actorID actualDigest
                       ''idempotent duplicate upload recognized; original preserved unchanged'' (clock 0) m, Inr True)
               else (m, Inl ErrDuplicateEvidenceConflict)
          else (m, Inr False))"

definition VerifyTamper ::
  "(string \<Rightarrow> string) \<Rightarrow> string \<Rightarrow> string \<Rightarrow> string \<Rightarrow> string \<Rightarrow> (nat \<Rightarrow> gotime) \<Rightarrow> EvidenceIntegrityManager \<Rightarrow>
   (EvidenceIntegrityManager, evidence_error, bool) outcome" where
  "VerifyTamper h tenantID evidenceID candidatePayload actorID clock m =
     (let tTenant = TrimSpace tenantID; tEvidence = TrimSpace evidenceID; actualDigest = ComputeSHA256Digest h candidatePayload in
      case em_records m (tTenant, tEvidence) of
        None \<Rightarrow> (m, Inl ErrObjectNotFound)
      | Some rec \<Rightarrow>
          if actualDigest \<noteq> er_SHA256Digest rec
          then (recordEventLocked h tTenant tEvidence EventTamperDetected actorID actualDigest
                  (''tamper detected: candidate digest '' @ actualDigest @ '' != committed '' @ er_SHA256Digest rec) (clock 0) m,
                Inl ErrTamperDetected)
          else (m, Inr True))"

text \<open>The two getters take their arguments as they are, without trimming.\<close>

definition Chain_GetRecord :: "string \<Rightarrow> string \<Rightarrow> EvidenceIntegrityManager \<Rightarrow> evidence_error + EvidenceRecord" where
  "Chain_GetRecord tenantID evidenceID m =
     (case em_records m (tenantID, evidenceID) of None \<Rightarrow> Inl ErrObjectNotFound | Some rec \<Rightarrow> Inr rec)"

definition GetCustodyChain :: "string \<Rightarrow> string \<Rightarrow> EvidenceIntegrityManager \<Rightarrow> evidence_error + CustodyEvent list" where
  "GetCustodyChain tenantID evidenceID m =
     (let events = em_custodyChain m (tenantID, evidenceID) in if events = [] then Inl ErrObjectNotFound else Inr events)"

subsection \<open>Export\<close>

definition manifest_line :: "ExportManifestItem \<Rightarrow> string" where
  "manifest_line it =
     xi_EvidenceID it @ '':'' @ object_text (xi_ObjectType it) @ '':'' @ xi_ParentEvidenceID it @ '':'' @ xi_SHA256Digest it @ '':'' @
     FormatInt (sint (xi_SizeBytes it)) @ [CHR 0x0A]"

definition computeRootDigest :: "(string \<Rightarrow> string) \<Rightarrow> ExportManifestItem list \<Rightarrow> string" where
  "computeRootDigest h items = EncodeToString (h (concat (map manifest_line (sort_key xi_EvidenceID items))))"

definition manifest_item :: "EvidenceRecord \<Rightarrow> ExportManifestItem" where
  "manifest_item rec =
     \<lparr>xi_EvidenceID = er_EvidenceID rec, xi_ObjectType = er_ObjectType rec, xi_ParentEvidenceID = er_ParentEvidenceID rec,
      xi_DerivationType = er_DerivationType rec, xi_MediaType = er_MediaType rec, xi_SizeBytes = er_SizeBytes rec,
      xi_SHA256Digest = er_SHA256Digest rec\<rparr>"

text \<open>The event of one exported item.\<close>

definition packaged ::
  "(string \<Rightarrow> string) \<Rightarrow> string \<Rightarrow> string \<Rightarrow> string \<Rightarrow> EvidenceRecord \<Rightarrow> string \<Rightarrow> gotime \<Rightarrow> EvidenceIntegrityManager \<Rightarrow>
   EvidenceIntegrityManager" where
  "packaged h tTenant tExport exporterID rec eid now m =
     recordEventLocked h tTenant eid EventExportPackaged exporterID (er_SHA256Digest rec) (''included in export package '' @ tExport) now m"

text \<open>The loop over the identifiers; the \<open>i\<close>-th round reads the clock for the \<open>i\<close>-th time.\<close>

fun export_loop ::
  "(string \<Rightarrow> string) \<Rightarrow> string \<Rightarrow> string \<Rightarrow> string \<Rightarrow> (nat \<Rightarrow> gotime) \<Rightarrow> nat \<Rightarrow> string list \<Rightarrow> EvidenceIntegrityManager \<Rightarrow>
   (EvidenceIntegrityManager, evidence_error, ExportManifestItem list) outcome" where
  "export_loop h tTenant tExport exporterID clock i [] m = (m, Inr [])"
| "export_loop h tTenant tExport exporterID clock i (eid # eids) m =
     (case em_records m (tTenant, eid) of
        None \<Rightarrow> (m, Inl ErrObjectNotFound)
      | Some rec \<Rightarrow>
          if \<not> er_Committed rec then (m, Inl ErrRecordNotCommitted)
          else (case export_loop h tTenant tExport exporterID clock (Suc i) eids
                  (packaged h tTenant tExport exporterID rec eid (clock i) m) of
                 (m', Inl e) \<Rightarrow> (m', Inl e)
               | (m', Inr items) \<Rightarrow> (m', Inr (manifest_item rec # items))))"

definition GenerateExportManifest ::
  "(string \<Rightarrow> string) \<Rightarrow> string \<Rightarrow> string \<Rightarrow> string list \<Rightarrow> string \<Rightarrow> (nat \<Rightarrow> gotime) \<Rightarrow> EvidenceIntegrityManager \<Rightarrow>
   (EvidenceIntegrityManager, evidence_error, ExportManifest) outcome" where
  "GenerateExportManifest h tenantID exportID evidenceIDs exporterID clock m =
     (let tTenant = TrimSpace tenantID; tExport = TrimSpace exportID
      in if tTenant = [] then (m, Inl ErrEmptyTenantID)
      else if tExport = [] then (m, Inl ErrBlankExportID)
      else if evidenceIDs = [] then (m, Inl ErrEmptyExportItems)
      else case export_loop h tTenant tExport exporterID clock 0 evidenceIDs m of
        (m', Inl e) \<Rightarrow> (m', Inl e)
      | (m', Inr items) \<Rightarrow>
          (m', Inr \<lparr>xm_ExportID = tExport, xm_TenantID = tTenant, xm_ExporterID = exporterID, xm_CreatedAt = clock (length evidenceIDs),
                    xm_Items = items, xm_RootDigest = computeRootDigest h items, xm_TotalSizeBytes = sum_list (map xi_SizeBytes items)\<rparr>))"

fun verify_items :: "(string \<Rightarrow> string) \<Rightarrow> (string \<rightharpoonup> string) \<Rightarrow> ExportManifestItem list \<Rightarrow> evidence_error option" where
  "verify_items h payloads [] = None"
| "verify_items h payloads (it # items) =
     (case payloads (xi_EvidenceID it) of
        None \<Rightarrow> Some ErrExportTampered
      | Some payload \<Rightarrow>
          if (of_nat (length payload) :: int64) \<noteq> xi_SizeBytes it then Some ErrExportTampered
          else if ComputeSHA256Digest h payload \<noteq> xi_SHA256Digest it then Some ErrExportTampered
          else verify_items h payloads items)"

definition VerifyExportManifest ::
  "(string \<Rightarrow> string) \<Rightarrow> ExportManifest option \<Rightarrow> (string \<rightharpoonup> string) \<Rightarrow> evidence_error option" where
  "VerifyExportManifest h manifest payloads =
     (case manifest of
        None \<Rightarrow> Some (EvidenceErrorf ''manifest cannot be nil'')
      | Some x \<Rightarrow>
          if xm_Items x = [] then Some ErrEmptyExportItems
          else if xm_RootDigest x \<noteq> computeRootDigest h (xm_Items x) then Some ErrExportTampered
          else verify_items h payloads (xm_Items x))"

subsection \<open>Calls\<close>

datatype evidence_call =
  CallRegisterOriginal string string string string int64 string string string string "nat \<Rightarrow> gotime"
| CallCommitOriginal string string string string "nat \<Rightarrow> gotime"
| CallRegisterDerived string string string DerivationType string string int64 string string "nat \<Rightarrow> gotime"
| CallCommitDerived string string string string "nat \<Rightarrow> gotime"
| CallTransferInterrupted string string int64 int64 string string "nat \<Rightarrow> gotime"
| CallTransferResumed string string string "nat \<Rightarrow> gotime"
| CallHandleDuplicateUpload string string string string string "nat \<Rightarrow> gotime"
| CallVerifyTamper string string string string "nat \<Rightarrow> gotime"
| CallGenerateExportManifest string string "string list" string "nat \<Rightarrow> gotime"

fun evidence_exec ::
  "(string \<Rightarrow> string) \<Rightarrow> evidence_call \<Rightarrow> EvidenceIntegrityManager \<Rightarrow> (EvidenceIntegrityManager, evidence_error, unit) outcome" where
  "evidence_exec h (CallRegisterOriginal t i f mt n d a ai by clock) m = discard (Chain_RegisterOriginal h t i f mt n d a ai by clock m)"
| "evidence_exec h (CallCommitOriginal t i p a clock) m = CommitOriginal h t i p a clock m"
| "evidence_exec h (CallRegisterDerived t i pa dt f mt n d by clock) m = discard (Chain_RegisterDerived h t i pa dt f mt n d by clock m)"
| "evidence_exec h (CallCommitDerived t i p a clock) m = CommitDerived h t i p a clock m"
| "evidence_exec h (CallTransferInterrupted t i b n why a clock) m = RecordTransferInterrupted h t i b n why a clock m"
| "evidence_exec h (CallTransferResumed t i a clock) m = RecordTransferResumed h t i a clock m"
| "evidence_exec h (CallHandleDuplicateUpload t i d p a clock) m = discard (HandleDuplicateUpload h t i d p a clock m)"
| "evidence_exec h (CallVerifyTamper t i p a clock) m = discard (VerifyTamper h t i p a clock m)"
| "evidence_exec h (CallGenerateExportManifest t x ids a clock) m = discard (GenerateExportManifest h t x ids a clock m)"

subsection \<open>Edits\<close>

text \<open>
  Every call is a sequence of edits of five kinds: an event is recorded, an original or a derived artifact is added under a free
  identifier, an uncommitted record changes its state, or one whose payload has been verified is committed.
\<close>

definition fresh_original :: "EvidenceRecord \<Rightarrow> bool" where
  "fresh_original rec \<longleftrightarrow> er_ObjectType rec = ObjectTypeOriginal \<and> er_ParentEvidenceID rec = [] \<and> er_DerivationType rec = DerivationNone \<and>
     \<not> er_Committed rec \<and> er_State rec = StateInitialized \<and> \<not> bad_size (er_SizeBytes rec) \<and> length (er_SHA256Digest rec) = 64"

definition fresh_derived :: "EvidenceRecord \<Rightarrow> bool" where
  "fresh_derived rec \<longleftrightarrow> er_ObjectType rec = ObjectTypeDerived \<and> er_DerivationType rec \<noteq> DerivationNone \<and>
     \<not> er_Committed rec \<and> er_State rec = StateInitialized \<and> \<not> bad_size (er_SizeBytes rec) \<and> length (er_SHA256Digest rec) = 64"

definition put_record :: "string \<times> string \<Rightarrow> EvidenceRecord \<Rightarrow> EvidenceIntegrityManager \<Rightarrow> EvidenceIntegrityManager" where
  "put_record k rec m = m\<lparr>em_records := (em_records m)(k \<mapsto> rec)\<rparr>"

text \<open>The payload that was verified for a record, and the event that says so.\<close>

definition payload_seen :: "(string \<Rightarrow> string) \<Rightarrow> EvidenceRecord \<Rightarrow> CustodyEvent list \<Rightarrow> bool" where
  "payload_seen h rec events \<longleftrightarrow>
     (\<exists>payload. ComputeSHA256Digest h payload = er_SHA256Digest rec \<and>
        (er_ObjectType rec = ObjectTypeOriginal \<longrightarrow> of_nat (length payload) = er_SizeBytes rec)) \<and>
     (\<exists>e\<in>set events. ce_EventType e = EventIntegrityVerified \<and> ce_PayloadDigest e = er_SHA256Digest rec)"

inductive evidence_edit :: "(string \<Rightarrow> string) \<Rightarrow> EvidenceIntegrityManager \<Rightarrow> EvidenceIntegrityManager \<Rightarrow> bool"
  for h :: "string \<Rightarrow> string" where
  event: "evidence_edit h m (recordEventLocked h t i ty a d det now m)"
| add_original: "em_records m (er_TenantID rec, er_EvidenceID rec) = None \<Longrightarrow> fresh_original rec \<Longrightarrow>
    evidence_edit h m (put_record (er_TenantID rec, er_EvidenceID rec) rec m)"
| add_derived: "em_records m (er_TenantID rec, er_EvidenceID rec) = None \<Longrightarrow> fresh_derived rec \<Longrightarrow>
    em_records m (er_TenantID rec, er_ParentEvidenceID rec) = Some parent \<Longrightarrow> er_ObjectType parent = ObjectTypeOriginal \<Longrightarrow>
    er_Committed parent \<Longrightarrow> evidence_edit h m (put_record (er_TenantID rec, er_EvidenceID rec) rec m)"
| transfer: "em_records m k = Some rec \<Longrightarrow> \<not> er_Committed rec \<Longrightarrow> evidence_edit h m (put_record k (rec\<lparr>er_State := st\<rparr>) m)"
| commit: "em_records m k = Some rec \<Longrightarrow> \<not> er_Committed rec \<Longrightarrow> payload_seen h rec (em_custodyChain m k) \<Longrightarrow>
    evidence_edit h m (put_record k (rec\<lparr>er_State := StateCompleted, er_Committed := True\<rparr>) m)"

abbreviation evidence_edits :: "(string \<Rightarrow> string) \<Rightarrow> EvidenceIntegrityManager \<Rightarrow> EvidenceIntegrityManager \<Rightarrow> bool" where
  "evidence_edits h \<equiv> (evidence_edit h)\<^sup>*\<^sup>*"

lemma edits_event: "evidence_edits h m m' \<Longrightarrow> evidence_edits h m (recordEventLocked h t i ty a d det now m')"
  by (rule rtranclp.rtrancl_into_rtrancl) (auto intro: evidence_edit.event)

lemma put_record_event:
  "recordEventLocked h t i ty a d det now (m\<lparr>em_records := R\<rparr>) = (recordEventLocked h t i ty a d det now m)\<lparr>em_records := R\<rparr>"
  by (simp add: recordEventLocked_def Let_def)

lemma recordEventLocked_records [simp]: "em_records (recordEventLocked h t i ty a d det now m) = em_records m"
  by (simp add: recordEventLocked_def Let_def)

lemma recordEventLocked_chain:
  "em_custodyChain (recordEventLocked h t i ty a d det now m) k =
     (if k = (t, i) then em_custodyChain m k @ [new_event h (em_custodyChain m k) t i ty a d det now] else em_custodyChain m k)"
  by (simp add: recordEventLocked_def Let_def)

lemma new_event_fields [simp]:
  "ce_EventType (new_event h es t i ty a d det now) = ty" "ce_PayloadDigest (new_event h es t i ty a d det now) = d"
  "ce_TenantID (new_event h es t i ty a d det now) = t" "ce_EvidenceID (new_event h es t i ty a d det now) = i"
  by (simp_all add: new_event_def Let_def)

lemma edits_verified_commit:
  assumes "em_records m (t, i) = Some rec" "\<not> er_Committed rec" "ComputeSHA256Digest h payload = er_SHA256Digest rec"
    and "er_ObjectType rec = ObjectTypeOriginal \<longrightarrow> of_nat (length payload) = er_SizeBytes rec"
  shows "evidence_edits h m ((recordEventLocked h t i EventIntegrityVerified a (er_SHA256Digest rec) det now m)
    \<lparr>em_records := (em_records m)((t, i) \<mapsto> rec\<lparr>er_State := StateCompleted, er_Committed := True\<rparr>)\<rparr>)"
proof -
  let ?m = "recordEventLocked h t i EventIntegrityVerified a (er_SHA256Digest rec) det now m"
  have "payload_seen h rec (em_custodyChain ?m (t, i))"
    using assms(3,4) by (auto simp: payload_seen_def recordEventLocked_chain)
  then have "evidence_edit h ?m (put_record (t, i) (rec\<lparr>er_State := StateCompleted, er_Committed := True\<rparr>) ?m)"
    using assms(1,2) by (intro evidence_edit.commit) simp_all
  then have "evidence_edits h m (put_record (t, i) (rec\<lparr>er_State := StateCompleted, er_Committed := True\<rparr>) ?m)"
    using evidence_edit.event by (meson converse_rtranclp_into_rtranclp r_into_rtranclp)
  then show ?thesis by (simp add: put_record_def)
qed

lemma edits_Chain_RegisterOriginal: "evidence_edits h m (fst (Chain_RegisterOriginal h t i f mt n d a ai by' clock m))"
proof (cases "em_records m (TrimSpace t, TrimSpace i)")
  case None
  let ?rec = "\<lparr>er_EvidenceID = TrimSpace i, er_TenantID = TrimSpace t, er_ObjectType = ObjectTypeOriginal, er_ParentEvidenceID = [],
     er_DerivationType = DerivationNone, er_AssociationType = a, er_AssociationID = ai, er_OriginalName = f, er_MediaType = mt,
     er_SizeBytes = n, er_SHA256Digest = d, er_State = StateInitialized, er_Committed = False, er_CreatedAt = clock 0, er_CreatedBy = by'\<rparr>"
  have "evidence_edits h m (store_record ?rec m)" if "\<not> bad_size n" "length d = 64"
  proof -
    have "evidence_edit h m (put_record (er_TenantID ?rec, er_EvidenceID ?rec) ?rec m)"
      using None that by (intro evidence_edit.add_original) (simp_all add: fresh_original_def)
    then show ?thesis by (simp add: put_record_def store_record_def)
  qed
  then show ?thesis using None by (auto simp: Chain_RegisterOriginal_def Let_def intro!: edits_event split: option.split)
qed (auto simp: Chain_RegisterOriginal_def Let_def split: option.split)

lemma edits_Chain_RegisterDerived: "evidence_edits h m (fst (Chain_RegisterDerived h t i pa dt f mt n d by' clock m))"
proof (cases "em_records m (TrimSpace t, TrimSpace pa)")
  case (Some parent)
  let ?rec = "\<lparr>er_EvidenceID = TrimSpace i, er_TenantID = TrimSpace t, er_ObjectType = ObjectTypeDerived, er_ParentEvidenceID = TrimSpace pa,
     er_DerivationType = dt, er_AssociationType = er_AssociationType parent, er_AssociationID = er_AssociationID parent, er_OriginalName = f,
     er_MediaType = mt, er_SizeBytes = n, er_SHA256Digest = d, er_State = StateInitialized, er_Committed = False, er_CreatedAt = clock 0,
     er_CreatedBy = by'\<rparr>"
  have "evidence_edits h m (store_record ?rec m)"
    if "\<not> bad_size n" "length d = 64" "dt \<noteq> DerivationNone" "er_ObjectType parent = ObjectTypeOriginal" "er_Committed parent"
      "em_records m (TrimSpace t, TrimSpace i) = None"
  proof -
    have "evidence_edit h m (put_record (er_TenantID ?rec, er_EvidenceID ?rec) ?rec m)"
      using Some that by (intro evidence_edit.add_derived [of m ?rec parent]) (simp_all add: fresh_derived_def)
    then show ?thesis by (simp add: put_record_def store_record_def)
  qed
  then show ?thesis using Some by (auto simp: Chain_RegisterDerived_def Let_def intro!: edits_event split: option.split)
qed (auto simp: Chain_RegisterDerived_def Let_def split: option.split)

lemma edits_CommitOriginal: "evidence_edits h m (fst (CommitOriginal h t i p a clock m))"
proof (cases "em_records m (TrimSpace t, TrimSpace i)")
  case (Some rec)
  show ?thesis
  proof (cases "ComputeSHA256Digest h p = er_SHA256Digest rec")
    case True
    with Some show ?thesis
      by (auto simp: CommitOriginal_def Let_def intro!: edits_event edits_verified_commit [of m _ _ rec h p])
  qed (use Some in \<open>auto simp: CommitOriginal_def Let_def intro!: edits_event\<close>)
qed (simp add: CommitOriginal_def)

lemma edits_CommitDerived: "evidence_edits h m (fst (CommitDerived h t i p a clock m))"
proof (cases "em_records m (TrimSpace t, TrimSpace i)")
  case (Some rec)
  show ?thesis
  proof (cases "ComputeSHA256Digest h p = er_SHA256Digest rec")
    case True
    with Some show ?thesis
      by (auto simp: CommitDerived_def Let_def put_record_event intro!: edits_verified_commit [of m _ _ rec h p])
  qed (use Some in \<open>auto simp: CommitDerived_def Let_def intro!: edits_event\<close>)
qed (simp add: CommitDerived_def)

lemma edits_record_transfer: "evidence_edits h m (fst (record_transfer h t i st ty det a now m))"
proof (cases "em_records m (TrimSpace t, TrimSpace i)")
  case (Some rec)
  have "evidence_edits h m (m\<lparr>em_records := (em_records m)((TrimSpace t, TrimSpace i) \<mapsto> rec\<lparr>er_State := st\<rparr>)\<rparr>)" if "\<not> er_Committed rec"
    using evidence_edit.transfer [OF Some that, of h st] by (simp add: put_record_def r_into_rtranclp)
  then show ?thesis using Some by (auto simp: record_transfer_def Let_def intro!: edits_event)
qed (simp add: record_transfer_def)

lemma edits_export_loop:
  "evidence_edits h m0 m \<Longrightarrow> evidence_edits h m0 (fst (export_loop h t x a clock i ids m))"
proof (induction ids arbitrary: m i)
  case (Cons eid ids)
  show ?case
  proof (cases "em_records m (t, eid)")
    case (Some rec)
    let ?m2 = "packaged h t x a rec eid (clock i) m"
    have "evidence_edits h m0 ?m2" unfolding packaged_def using Cons.prems by (rule edits_event)
    then have IH: "evidence_edits h m0 (fst (export_loop h t x a clock (Suc i) ids ?m2))" by (rule Cons.IH)
    have "fst (export_loop h t x a clock i (eid # ids) m) =
        (if er_Committed rec then fst (export_loop h t x a clock (Suc i) ids ?m2) else m)"
      using Some by (simp split: prod.split sum.split)
    with IH Cons.prems show ?thesis by simp
  qed (use Cons.prems in simp)
qed simp

lemma exec_edits: "evidence_edits h m (fst (evidence_exec h c m))"
proof (cases c)
  case (CallHandleDuplicateUpload t i d p a clock)
  then show ?thesis by (auto simp: HandleDuplicateUpload_def Let_def intro!: edits_event split: option.split)
next
  case (CallVerifyTamper t i p a clock)
  then show ?thesis by (auto simp: VerifyTamper_def Let_def intro!: edits_event split: option.split)
next
  case (CallGenerateExportManifest t x ids a clock)
  have "fst (GenerateExportManifest h t x ids a clock m) = m \<or>
      fst (GenerateExportManifest h t x ids a clock m) = fst (export_loop h (TrimSpace t) (TrimSpace x) a clock 0 ids m)"
    by (simp add: GenerateExportManifest_def Let_def split: prod.split sum.split)
  then show ?thesis using CallGenerateExportManifest edits_export_loop [of h m m] by (metis evidence_exec.simps(9) fst_discard rtranclp.rtrancl_refl)
qed (simp_all add: edits_Chain_RegisterOriginal edits_Chain_RegisterDerived edits_CommitOriginal edits_CommitDerived
    RecordTransferInterrupted_def RecordTransferResumed_def edits_record_transfer)

subsection \<open>Invariant\<close>

text \<open>
  A chain of custody in order: every event names its tenant and evidence, is numbered by its place, refers to the digest of the event
  before it (the first to 64 zeros), and carries the digest of its own contents.
\<close>

definition event_in_place :: "(string \<Rightarrow> string) \<Rightarrow> string \<Rightarrow> string \<Rightarrow> CustodyEvent list \<Rightarrow> CustodyEvent \<Rightarrow> bool" where
  "event_in_place h t i before e \<longleftrightarrow> ce_TenantID e = t \<and> ce_EvidenceID e = i \<and>
     ce_EventID e = ''evt_'' @ i @ ''_'' @ FormatInt (int (length before) + 1) \<and>
     ce_PreviousEventDigest e = (if before = [] then genesis_digest else ce_EventDigest (last before)) \<and>
     ce_EventDigest e = computeEventDigest h (ce_PreviousEventDigest e) (ce_EventID e) t i (custody_text (ce_EventType e)) (ce_ActorID e)
       (ce_PayloadDigest e) (ce_Details e) (ce_Timestamp e)"

definition well_chained :: "(string \<Rightarrow> string) \<Rightarrow> string \<Rightarrow> string \<Rightarrow> CustodyEvent list \<Rightarrow> bool" where
  "well_chained h t i es \<longleftrightarrow> (\<forall>n<length es. event_in_place h t i (take n es) (es ! n))"

lemma well_chained_Nil [simp]: "well_chained h t i []"
  by (simp add: well_chained_def)

lemma well_chained_snoc [simp]: "well_chained h t i (es @ [e]) \<longleftrightarrow> well_chained h t i es \<and> event_in_place h t i es e"
  by (auto simp: well_chained_def nth_append less_Suc_eq)

lemma new_event_in_place: "event_in_place h t i es (new_event h es t i ty a d det now)"
  by (simp add: event_in_place_def new_event_def Let_def)

definition sound_record :: "(string \<Rightarrow> string) \<Rightarrow> EvidenceIntegrityManager \<Rightarrow> string \<times> string \<Rightarrow> EvidenceRecord \<Rightarrow> bool" where
  "sound_record h m k rec \<longleftrightarrow> k = (er_TenantID rec, er_EvidenceID rec) \<and> \<not> bad_size (er_SizeBytes rec) \<and> length (er_SHA256Digest rec) = 64 \<and>
     (er_ObjectType rec = ObjectTypeOriginal \<and> er_ParentEvidenceID rec = [] \<and> er_DerivationType rec = DerivationNone \<or>
      er_ObjectType rec = ObjectTypeDerived \<and> er_DerivationType rec \<noteq> DerivationNone \<and>
      (\<exists>p. em_records m (er_TenantID rec, er_ParentEvidenceID rec) = Some p \<and> er_ObjectType p = ObjectTypeOriginal \<and> er_Committed p)) \<and>
     (er_Committed rec \<longrightarrow> er_State rec = StateCompleted \<and> payload_seen h rec (em_custodyChain m k))"

definition evidence_inv :: "(string \<Rightarrow> string) \<Rightarrow> EvidenceIntegrityManager \<Rightarrow> bool" where
  "evidence_inv h m \<longleftrightarrow> (\<forall>k rec. em_records m k = Some rec \<longrightarrow> sound_record h m k rec) \<and>
     (\<forall>t i. well_chained h t i (em_custodyChain m (t, i)))"

lemma put_record_simps [simp]:
  "em_records (put_record k rec m) = (em_records m)(k \<mapsto> rec)" "em_custodyChain (put_record k rec m) = em_custodyChain m"
  by (simp_all add: put_record_def)

lemma edit_chain: "evidence_edit h m m' \<Longrightarrow> prefix (em_custodyChain m k) (em_custodyChain m' k)"
  by (induction rule: evidence_edit.induct) (simp_all add: recordEventLocked_chain)

lemma edit_committed:
  "evidence_edit h m m' \<Longrightarrow> em_records m k = Some rec \<Longrightarrow> er_Committed rec \<Longrightarrow> em_records m' k = Some rec"
  by (induction rule: evidence_edit.induct) auto

lemma edits_chain: "evidence_edits h m m' \<Longrightarrow> prefix (em_custodyChain m k) (em_custodyChain m' k)"
  by (induction rule: rtranclp_induct) (auto dest: edit_chain intro: prefix_order.trans)

lemma edits_committed:
  "evidence_edits h m m' \<Longrightarrow> em_records m k = Some rec \<Longrightarrow> er_Committed rec \<Longrightarrow> em_records m' k = Some rec"
  by (induction rule: rtranclp_induct) (auto dest: edit_committed)

lemma payload_seen_prefix: "payload_seen h rec es \<Longrightarrow> prefix es es' \<Longrightarrow> payload_seen h rec es'"
  by (auto simp: payload_seen_def dest: set_mono_prefix)

lemma sound_record_edit:
  assumes "evidence_edit h m m'" "sound_record h m k rec"
  shows "sound_record h m' k rec"
proof -
  have "\<exists>p. em_records m' x = Some p \<and> er_ObjectType p = ObjectTypeOriginal \<and> er_Committed p"
    if "em_records m x = Some p" "er_ObjectType p = ObjectTypeOriginal" "er_Committed p" for x p
    using edit_committed [OF assms(1) that(1,3)] that by blast
  moreover have "payload_seen h rec (em_custodyChain m k) \<Longrightarrow> payload_seen h rec (em_custodyChain m' k)"
    using edit_chain [OF assms(1)] payload_seen_prefix by blast
  ultimately show ?thesis using assms(2) unfolding sound_record_def by blast
qed

lemma payload_seen_update [simp]:
  "payload_seen h (rec\<lparr>er_State := st\<rparr>) es = payload_seen h rec es"
  "payload_seen h (rec\<lparr>er_State := st, er_Committed := b\<rparr>) es = payload_seen h rec es"
  by (simp_all add: payload_seen_def)

lemma evidence_inv_edit:
  assumes "evidence_edit h m m'" "evidence_inv h m"
  shows "evidence_inv h m'"
proof -
  have old: "sound_record h m' k rec" if "em_records m k = Some rec" for k rec
    using sound_record_edit [OF assms(1)] assms(2) that unfolding evidence_inv_def by blast
  have chains: "well_chained h t i (em_custodyChain m (t, i))" for t i using assms(2) by (simp add: evidence_inv_def)
  from assms(1) show ?thesis
  proof cases
    case (event t i ty a d det now)
    then have "well_chained h t' i' (em_custodyChain m' (t', i'))" for t' i'
      using chains by (simp add: recordEventLocked_chain new_event_in_place)
    with event old show ?thesis by (simp add: evidence_inv_def)
  next
    case (add_original rec)
    have "sound_record h m' (er_TenantID rec, er_EvidenceID rec) rec"
      using add_original(3) by (simp add: sound_record_def fresh_original_def)
    with add_original old chains show ?thesis by (auto simp: evidence_inv_def)
  next
    case (add_derived rec parent)
    have "em_records m' (er_TenantID rec, er_ParentEvidenceID rec) = Some parent" using add_derived by auto
    then have "sound_record h m' (er_TenantID rec, er_EvidenceID rec) rec"
      using add_derived(3,5,6) by (simp add: sound_record_def fresh_derived_def)
    with add_derived old chains show ?thesis by (auto simp: evidence_inv_def)
  next
    case (transfer k rec st)
    have "sound_record h m' k (rec\<lparr>er_State := st\<rparr>)" using old [OF transfer(2)] transfer(3) by (simp add: sound_record_def)
    with transfer old chains show ?thesis by (auto simp: evidence_inv_def)
  next
    case (commit k rec)
    have "sound_record h m' k (rec\<lparr>er_State := StateCompleted, er_Committed := True\<rparr>)"
      using old [OF commit(2)] commit(4) unfolding commit(1) by (auto simp: sound_record_def split: if_splits)
    with commit old chains show ?thesis by (auto simp: evidence_inv_def)
  qed
qed

lemma evidence_exec_inv: "evidence_inv h m \<Longrightarrow> evidence_inv h (fst (evidence_exec h c m))"
  using exec_edits [of h m c] by (induction rule: rtranclp_induct) (auto intro: evidence_inv_edit)

interpretation custody: journaled "evidence_exec h" "evidence_inv h" "\<lambda>_. True" "\<lambda>k m. em_custodyChain m k"
  by unfold_locales (auto intro: evidence_exec_inv edits_chain [OF exec_edits])

interpretation committed_evidence: absorbing "evidence_exec h" "evidence_inv h" "\<lambda>_. True" "\<lambda>k m. em_records m k" er_Committed
  by unfold_locales (auto intro: edits_committed [OF exec_edits])

lemma evidence_inv_New: "evidence_inv h NewEvidenceIntegrityManager"
  by (simp add: evidence_inv_def NewEvidenceIntegrityManager_def)

lemma reachable_evidence_inv: "evidence_inv h (run_calls (evidence_exec h) cs NewEvidenceIntegrityManager)"
  by (rule custody.run_inv [OF evidence_inv_New]) simp

subsection \<open>The head of a chain commits to its history\<close>

definition entry_of :: "CustodyEvent \<Rightarrow> string" where
  "entry_of e = event_entry (ce_PreviousEventDigest e) (ce_EventID e) (ce_TenantID e) (ce_EvidenceID e) (custody_text (ce_EventType e))
     (ce_ActorID e) (ce_PayloadDigest e) (ce_Details e) (ce_Timestamp e)"

lemma in_place_digest: "event_in_place h t i es e \<Longrightarrow> ce_EventDigest e = EncodeToString (h (entry_of e))"
  by (simp add: event_in_place_def computeEventDigest_def entry_of_def)

lemma in_place_previous:
  "event_in_place h t i es e \<Longrightarrow> ce_PreviousEventDigest e = (if es = [] then genesis_digest else ce_EventDigest (last es))"
  by (simp add: event_in_place_def)

lemma chain_head_length:
  assumes "well_chained h t i es" "\<And>s. length (h s) = 32" "event_in_place h t i es e"
  shows "length (ce_PreviousEventDigest e) = 64"
proof (cases es rule: rev_cases)
  case Nil
  with assms(3) show ?thesis by (simp add: event_in_place_def genesis_digest_def)
next
  case (snoc es' e')
  with assms(1) have "ce_EventDigest e' = EncodeToString (h (entry_of e'))" by (auto intro: in_place_digest)
  with assms(2,3) snoc show ?thesis by (simp add: event_in_place_def)
qed

lemma entry_prefix: "length (ce_PreviousEventDigest e) = 64 \<Longrightarrow> take 64 (entry_of e) = ce_PreviousEventDigest e"
  by (simp add: entry_of_def event_entry_def)

lemma chain_history:
  assumes "length es = length es'" "well_chained h t i es" "well_chained h t i es'" "\<And>s. length (h s) = 32"
    and "inj_on h (entry_of ` (set es \<union> set es'))" "es \<noteq> [] \<longrightarrow> ce_EventDigest (last es) = ce_EventDigest (last es')"
  shows "map entry_of es = map entry_of es'"
  using assms
proof (induction es arbitrary: es' rule: rev_induct)
  case (snoc e es)
  then obtain f fs where es': "es' = fs @ [f]" by (metis length_0_conv length_append_singleton nat.distinct(1) rev_exhaust)
  have e: "event_in_place h t i es e" "event_in_place h t i fs f" using snoc.prems(2,3) es' by simp_all
  have "h (entry_of e) = h (entry_of f)"
    using snoc.prems(6) es' in_place_digest [OF e(1)] in_place_digest [OF e(2)] by (simp add: EncodeToString_inject)
  then have entry: "entry_of e = entry_of f" by (rule inj_onD [OF snoc.prems(5)]) (simp_all add: es')
  have "length (ce_PreviousEventDigest e) = 64" "length (ce_PreviousEventDigest f) = 64"
    using chain_head_length [of h t i es e] chain_head_length [of h t i fs f] snoc.prems(2-4) es' e by simp_all
  then have "ce_PreviousEventDigest e = ce_PreviousEventDigest f" by (metis entry entry_prefix)
  moreover have "length es = length fs" using snoc.prems(1) es' by simp
  ultimately have "es \<noteq> [] \<longrightarrow> ce_EventDigest (last es) = ce_EventDigest (last fs)"
    unfolding in_place_previous [OF e(1)] in_place_previous [OF e(2)] by (cases "es = []"; cases "fs = []") simp_all
  moreover have "inj_on h (entry_of ` (set es \<union> set fs))" by (rule inj_on_subset [OF snoc.prems(5)]) (auto simp: es')
  ultimately have "map entry_of es = map entry_of fs" using snoc.prems(1-4) es' by (intro snoc.IH) simp_all
  with entry es' show ?case by simp
qed simp

text \<open>
  The line determines the event as far as its fields cannot be confused: what is in an event, with the time as it is hashed. The text of
  the details may contain bars, since only digits follow it.
\<close>

definition event_contents :: "CustodyEvent \<Rightarrow> CustodyEvent \<times> int" where
  "event_contents e = (e\<lparr>ce_Timestamp := 0\<rparr>, UnixNano (ce_Timestamp e))"

definition bar_free :: "string \<Rightarrow> bool" where
  "bar_free s \<longleftrightarrow> CHR ''|'' \<notin> set s"

lemma bar_inject:
  "bar_free a \<Longrightarrow> bar_free a' \<Longrightarrow> a @ CHR ''|'' # b = a' @ CHR ''|'' # b' \<longleftrightarrow> a = a' \<and> b = b'"
  "bar_free b \<Longrightarrow> bar_free b' \<Longrightarrow> a @ CHR ''|'' # b = a' @ CHR ''|'' # b' \<longleftrightarrow> a = a' \<and> b = b'"
  by (auto simp: bar_free_def append_eq_append_conv2 Cons_eq_append_conv append_eq_Cons_conv)

lemma bar_free_fields: "bar_free (custody_text ty)" "bar_free (FormatInt n)"
proof -
  show "bar_free (custody_text ty)" by (cases ty) (simp_all add: bar_free_def)
  show "bar_free (FormatInt n)" using FormatInt_chars [of "CHR ''|''" n] by (auto simp: bar_free_def digit_char_def)
qed

lemma custody_text_inject: "custody_text a = custody_text b \<Longrightarrow> a = b"
  by (cases a; cases b) simp_all

lemma same_line_same_contents:
  assumes "event_in_place h t i es e" and "event_in_place h t i fs f" and "length es = length fs" and "entry_of e = entry_of f"
    and "ce_PreviousEventDigest e = ce_PreviousEventDigest f"
    and "bar_free (ce_ActorID e)" "bar_free (ce_ActorID f)" "bar_free (ce_PayloadDigest e)" "bar_free (ce_PayloadDigest f)"
  shows "event_contents e = event_contents f"
proof -
  have ids: "ce_TenantID e = ce_TenantID f" "ce_EvidenceID e = ce_EvidenceID f" "ce_EventID e = ce_EventID f"
    using assms(1-3) by (simp_all add: event_in_place_def)
  have digest: "ce_EventDigest e = ce_EventDigest f"
    using in_place_digest [OF assms(1)] in_place_digest [OF assms(2)] assms(4) by simp
  have "custody_text (ce_EventType e) = custody_text (ce_EventType f) \<and> ce_ActorID e = ce_ActorID f \<and>
      ce_PayloadDigest e = ce_PayloadDigest f \<and> ce_Details e = ce_Details f \<and> UnixNano (ce_Timestamp e) = UnixNano (ce_Timestamp f)"
    using assms(4) unfolding entry_of_def event_entry_def ids assms(5)
    by (simp add: bar_inject(1) bar_inject(2) bar_free_fields assms(6-9))
  with ids digest assms(5) show ?thesis by (auto simp: event_contents_def intro!: CustodyEvent.equality dest: custody_text_inject)
qed

lemma well_chained_nth:
  "well_chained h t i es \<Longrightarrow> n < length es \<Longrightarrow> event_in_place h t i (take n es) (es ! n) \<and> well_chained h t i (take n es)"
  by (simp add: well_chained_def)

lemma chain_contents:
  assumes "length es = length fs" "well_chained h t i es" "well_chained h t i fs" "\<And>s. length (h s) = 32" "map entry_of es = map entry_of fs"
    and "\<forall>e\<in>set es \<union> set fs. bar_free (ce_ActorID e) \<and> bar_free (ce_PayloadDigest e)"
  shows "map event_contents es = map event_contents fs"
proof (rule nth_equalityI)
  fix n
  assume "n < length (map event_contents es)"
  then have n: "n < length es" "n < length fs" using assms(1) by simp_all
  note e = well_chained_nth [OF assms(2) n(1)] and f = well_chained_nth [OF assms(3) n(2)]
  have line: "entry_of (es ! n) = entry_of (fs ! n)" using assms(5) n by (metis nth_map)
  have "length (ce_PreviousEventDigest (es ! n)) = 64" "length (ce_PreviousEventDigest (fs ! n)) = 64"
    using chain_head_length assms(4) e f by blast+
  then have "ce_PreviousEventDigest (es ! n) = ce_PreviousEventDigest (fs ! n)" by (metis line entry_prefix)
  then have "event_contents (es ! n) = event_contents (fs ! n)"
    using e f line n assms(6) by (intro same_line_same_contents [of h t i "take n es" _ "take n fs"]) auto
  with n show "map event_contents es ! n = map event_contents fs ! n" by simp
qed (use assms(1) in simp)

subsection \<open>Exports\<close>

lemma export_loop_records [simp]: "em_records (fst (export_loop h t x a clock i ids m)) = em_records m"
proof (induction ids arbitrary: m i)
  case (Cons eid ids)
  show ?case
  proof (cases "em_records m (t, eid)")
    case (Some rec)
    let ?m2 = "packaged h t x a rec eid (clock i) m"
    have "fst (export_loop h t x a clock i (eid # ids) m) =
        (if er_Committed rec then fst (export_loop h t x a clock (Suc i) ids ?m2) else m)"
      using Some by (simp split: prod.split sum.split)
    with Cons.IH [of "Suc i" ?m2] show ?thesis by (simp add: packaged_def)
  qed simp
qed simp

lemma export_loop_items:
  "export_loop h t x a clock i ids m = (m', Inr items) \<Longrightarrow>
     (\<forall>eid\<in>set ids. \<exists>rec. em_records m (t, eid) = Some rec \<and> er_Committed rec) \<and>
     items = map (\<lambda>eid. manifest_item (the (em_records m (t, eid)))) ids"
proof (induction ids arbitrary: m i m' items)
  case (Cons eid ids)
  from Cons.prems obtain rec where rec: "em_records m (t, eid) = Some rec" "er_Committed rec"
    by (auto split: option.splits if_splits)
  let ?m2 = "packaged h t x a rec eid (clock i) m"
  from Cons.prems rec obtain items' where "export_loop h t x a clock (Suc i) ids ?m2 = (m', Inr items')" "items = manifest_item rec # items'"
    by (auto split: prod.splits sum.splits)
  moreover have "em_records ?m2 = em_records m" by (simp add: packaged_def)
  ultimately show ?case using Cons.IH [of "Suc i" ?m2 m' items'] rec by simp
qed simp

lemma verify_items_None:
  "verify_items h payloads items = None \<longleftrightarrow>
     (\<forall>it\<in>set items. \<exists>p. payloads (xi_EvidenceID it) = Some p \<and> of_nat (length p) = xi_SizeBytes it \<and>
        ComputeSHA256Digest h p = xi_SHA256Digest it)"
  by (induction items) (auto split: option.splits if_splits)

lemma GenerateExportManifest_Inr:
  assumes "GenerateExportManifest h t x ids a clock m = (m', Inr manifest)"
  shows "ids \<noteq> [] \<and> xm_Items manifest = map (\<lambda>eid. manifest_item (the (em_records m (TrimSpace t, eid)))) ids \<and>
    (\<forall>eid\<in>set ids. \<exists>rec. em_records m (TrimSpace t, eid) = Some rec \<and> er_Committed rec) \<and>
    xm_RootDigest manifest = computeRootDigest h (xm_Items manifest) \<and> em_records m' = em_records m"
proof -
  from assms obtain items where loop: "export_loop h (TrimSpace t) (TrimSpace x) a clock 0 ids m = (m', Inr items)"
    and x: "xm_Items manifest = items" "xm_RootDigest manifest = computeRootDigest h items" "ids \<noteq> []"
    by (auto simp: GenerateExportManifest_def Let_def split: if_splits prod.splits sum.splits)
  have "em_records m' = em_records m" using export_loop_records [of h "TrimSpace t" "TrimSpace x" a clock 0 ids m] loop by simp
  with export_loop_items [OF loop] x show ?thesis by simp
qed

subsection \<open>Properties\<close>

text \<open>
  The custody chain that a reader obtains is in order from the genesis digest to its head, and every later reading of it,
  whatever calls come in between, extends it.
\<close>

theorem custody_chain_sound:
  assumes "GetCustodyChain t i (run_calls (evidence_exec h) cs NewEvidenceIntegrityManager) = Inr es"
  shows "es \<noteq> [] \<and> well_chained h t i es \<and>
    (\<exists>more. GetCustodyChain t i (run_calls (evidence_exec h) ds (run_calls (evidence_exec h) cs NewEvidenceIntegrityManager)) = Inr (es @ more))"
proof -
  let ?m = "run_calls (evidence_exec h) cs NewEvidenceIntegrityManager"
  have es: "es = em_custodyChain ?m (t, i)" "es \<noteq> []" using assms by (auto simp: GetCustodyChain_def Let_def split: if_splits)
  have inv: "evidence_inv h ?m" by (rule reachable_evidence_inv)
  have "prefix (em_custodyChain ?m (t, i)) (em_custodyChain (run_calls (evidence_exec h) ds ?m) (t, i))"
    by (rule custody.run_journal [OF inv]) simp
  with es inv show ?thesis by (auto simp: prefix_def GetCustodyChain_def evidence_inv_def)
qed

text \<open>
  (C25) The digest of the last event commits to the hashed lines of the chain. Two chains of the same evidence, possibly of two managers, of
  the same length and with the same last digest have the same hashed lines, event by event, provided that the hash does not collide on the
  lines of the two. If moreover no actor and no payload digest in them contains a bar, which separates the fields of a line, the events
  themselves are the same, in all fields and with the time as \<open>UnixNano\<close> gives it.
\<close>

theorem head_digest_commits_history:
  assumes "GetCustodyChain t i (run_calls (evidence_exec h) cs NewEvidenceIntegrityManager) = Inr es"
    and "GetCustodyChain t i (run_calls (evidence_exec h) ds NewEvidenceIntegrityManager) = Inr es'"
    and "length es = length es'" and "ce_EventDigest (last es) = ce_EventDigest (last es')"
    and "\<forall>s. length (h s) = 32" and "inj_on h (entry_of ` (set es \<union> set es'))"
  shows "map entry_of es = map entry_of es' \<and>
    ((\<forall>e\<in>set es \<union> set es'. CHR ''|'' \<notin> set (ce_ActorID e) \<and> CHR ''|'' \<notin> set (ce_PayloadDigest e)) \<longrightarrow>
       map (\<lambda>e. (e\<lparr>ce_Timestamp := 0\<rparr>, UnixNano (ce_Timestamp e))) es = map (\<lambda>e. (e\<lparr>ce_Timestamp := 0\<rparr>, UnixNano (ce_Timestamp e))) es')"
proof -
  have chain: "well_chained h t i fs" if "GetCustodyChain t i (run_calls (evidence_exec h) bs NewEvidenceIntegrityManager) = Inr fs" for bs fs
    using that reachable_evidence_inv [of h bs] by (auto simp: GetCustodyChain_def Let_def evidence_inv_def split: if_splits)
  have lines: "map entry_of es = map entry_of es'"
    using assms(3-6) by (intro chain_history [OF _ chain [OF assms(1)] chain [OF assms(2)]]) simp_all
  have "map event_contents es = map event_contents es'"
    if "\<forall>e\<in>set es \<union> set es'. bar_free (ce_ActorID e) \<and> bar_free (ce_PayloadDigest e)"
    using assms(5) by (intro chain_contents [OF assms(3) chain [OF assms(1)] chain [OF assms(2)] _ lines that]) simp
  with lines show ?thesis unfolding bar_free_def event_contents_def by blast
qed

text \<open>
  (C26) Committed evidence never changes: no call alters its record, and the record is there because a payload with the registered digest (and
  for an original of the registered size) was presented, of which the chain of custody holds the event.
\<close>

theorem committed_evidence_immutable:
  assumes "Chain_GetRecord t i (run_calls (evidence_exec h) cs NewEvidenceIntegrityManager) = Inr rec" and "er_Committed rec"
  shows "Chain_GetRecord t i (run_calls (evidence_exec h) ds (run_calls (evidence_exec h) cs NewEvidenceIntegrityManager)) = Inr rec \<and>
    er_State rec = StateCompleted \<and>
    (\<exists>es. GetCustodyChain t i (run_calls (evidence_exec h) cs NewEvidenceIntegrityManager) = Inr es \<and> payload_seen h rec es)"
proof -
  let ?m = "run_calls (evidence_exec h) cs NewEvidenceIntegrityManager"
  have rec: "em_records ?m (t, i) = Some rec" using assms(1) by (simp add: Chain_GetRecord_def split: option.splits)
  have inv: "evidence_inv h ?m" by (rule reachable_evidence_inv)
  then have "em_records (run_calls (evidence_exec h) ds ?m) (t, i) = Some rec"
    by (rule committed_evidence.run_final [OF _ _ rec assms(2)]) simp
  moreover have "sound_record h ?m (t, i) rec" using inv rec by (simp add: evidence_inv_def)
  then have "er_State rec = StateCompleted" and seen: "payload_seen h rec (em_custodyChain ?m (t, i))"
    using assms(2) unfolding sound_record_def by blast+
  moreover have "em_custodyChain ?m (t, i) \<noteq> []" using seen by (auto simp: payload_seen_def)
  ultimately show ?thesis by (simp add: Chain_GetRecord_def GetCustodyChain_def)
qed

text \<open>
  A derived artifact always hangs on a committed original of its own tenant: derivation is one level deep, and the original it was made
  from is committed and stays so.
\<close>

theorem derived_has_committed_original:
  assumes "Chain_GetRecord t i (run_calls (evidence_exec h) cs NewEvidenceIntegrityManager) = Inr rec" and "er_ObjectType rec \<noteq> ObjectTypeOriginal"
  shows "er_ObjectType rec = ObjectTypeDerived \<and>
    (\<exists>p. Chain_GetRecord t (er_ParentEvidenceID rec) (run_calls (evidence_exec h) cs NewEvidenceIntegrityManager) = Inr p \<and>
       er_ObjectType p = ObjectTypeOriginal \<and> er_Committed p \<and>
       Chain_GetRecord t (er_ParentEvidenceID rec) (run_calls (evidence_exec h) (cs @ ds) NewEvidenceIntegrityManager) = Inr p)"
proof -
  let ?m = "run_calls (evidence_exec h) cs NewEvidenceIntegrityManager"
  have inv: "evidence_inv h ?m" by (rule reachable_evidence_inv)
  have "em_records ?m (t, i) = Some rec" using assms(1) by (simp add: Chain_GetRecord_def split: option.splits)
  then have "sound_record h ?m (t, i) rec" using inv by (simp add: evidence_inv_def)
  with assms(2) obtain p where "er_ObjectType rec = ObjectTypeDerived"
    and p: "em_records ?m (t, er_ParentEvidenceID rec) = Some p" "er_ObjectType p = ObjectTypeOriginal" "er_Committed p"
    by (auto simp: sound_record_def)
  moreover have "em_records (run_calls (evidence_exec h) ds ?m) (t, er_ParentEvidenceID rec) = Some p"
    by (rule committed_evidence.run_final [OF inv _ p(1,3)]) simp
  ultimately show ?thesis by (simp add: Chain_GetRecord_def run_calls_append)
qed

text \<open>
  (C27) What is exported verifies, and only against the payloads that were committed: the manifest of an export of a reachable manager is
  accepted with given payloads just when every exported record has among them one of its size and its digest.
\<close>

theorem export_verifies:
  assumes "GenerateExportManifest h t x ids a clock (run_calls (evidence_exec h) cs NewEvidenceIntegrityManager) = (m', Inr manifest)"
  shows "VerifyExportManifest h (Some manifest) payloads = None \<longleftrightarrow>
    (\<forall>eid\<in>set ids. \<exists>rec p. Chain_GetRecord (TrimSpace t) eid m' = Inr rec \<and> er_Committed rec \<and> payloads eid = Some p \<and>
       of_nat (length p) = er_SizeBytes rec \<and> ComputeSHA256Digest h p = er_SHA256Digest rec)"
proof -
  let ?m = "run_calls (evidence_exec h) cs NewEvidenceIntegrityManager" and ?t = "TrimSpace t"
  note x = GenerateExportManifest_Inr [OF assms]
  have inv: "evidence_inv h ?m" by (rule reachable_evidence_inv)
  have id: "er_EvidenceID rec = eid" if "em_records ?m (?t, eid) = Some rec" for eid rec
    using inv that by (auto simp: evidence_inv_def sound_record_def)
  have "VerifyExportManifest h (Some manifest) payloads = verify_items h payloads (xm_Items manifest)"
    using x by (simp add: VerifyExportManifest_def)
  also have "\<dots> = None \<longleftrightarrow> (\<forall>eid\<in>set ids. \<exists>rec p. em_records ?m (?t, eid) = Some rec \<and> payloads eid = Some p \<and>
       of_nat (length p) = er_SizeBytes rec \<and> ComputeSHA256Digest h p = er_SHA256Digest rec)"
    using x id by (fastforce simp: verify_items_None manifest_item_def)
  also have "\<dots> \<longleftrightarrow> (\<forall>eid\<in>set ids. \<exists>rec p. Chain_GetRecord ?t eid m' = Inr rec \<and> er_Committed rec \<and> payloads eid = Some p \<and>
       of_nat (length p) = er_SizeBytes rec \<and> ComputeSHA256Digest h p = er_SHA256Digest rec)"
    using x by (intro ball_cong refl) (fastforce simp: Chain_GetRecord_def)
  finally show ?thesis .
qed

subsection \<open>Examples\<close>

abbreviation example_hash :: "string \<Rightarrow> string" where
  "example_hash \<equiv> \<lambda>_. example_bytes"

definition example_evidence :: EvidenceRecord where
  "example_evidence = \<lparr>er_EvidenceID = ''e1'', er_TenantID = ''ten_1'', er_ObjectType = ObjectTypeOriginal, er_ParentEvidenceID = [],
     er_DerivationType = DerivationNone, er_AssociationType = ''finding'', er_AssociationID = ''f1'', er_OriginalName = ''report.pdf'',
     er_MediaType = ''application/pdf'', er_SizeBytes = 5, er_SHA256Digest = EncodeToString example_bytes, er_State = StateInitialized,
     er_Committed = False, er_CreatedAt = 0, er_CreatedBy = ''u1''\<rparr>"

definition example_registration :: evidence_call where
  "example_registration = CallRegisterOriginal ''ten_1'' ''e1'' ''report.pdf'' ''application/pdf'' 5 (EncodeToString example_bytes)
     ''finding'' ''f1'' ''u1'' (\<lambda>_. 0)"

definition example_commit :: evidence_call where
  "example_commit = CallCommitOriginal ''ten_1'' ''e1'' ''photo'' ''u1'' (\<lambda>_. 0)"

definition example_derivation :: evidence_call where
  "example_derivation = CallRegisterDerived ''ten_1'' ''d1'' ''e1'' DerivationThumbnailPreview ''report.pdf'' ''application/pdf'' 7
     (EncodeToString example_bytes) ''u1'' (\<lambda>_. 0)"

definition example_derived :: EvidenceRecord where
  "example_derived = example_evidence\<lparr>er_EvidenceID := ''d1'', er_ObjectType := ObjectTypeDerived, er_ParentEvidenceID := ''e1'',
     er_DerivationType := DerivationThumbnailPreview, er_SizeBytes := 7\<rparr>"

definition example_derived_commit :: evidence_call where
  "example_derived_commit = CallCommitDerived ''ten_1'' ''d1'' ''photo'' ''u1'' (\<lambda>_. 0)"

lemma length_example_digest [simp]: "length (EncodeToString example_bytes) = 64"
  by simp

lemma example_sizes: "\<not> bad_size 5" "\<not> bad_size 7" "''application/pdf'' \<in> set SupportedMediaTypes"
  by (simp_all add: bad_size_def MaxFileSizeBytes_def word_sle_eq word_sless_alt SupportedMediaTypes_def)

abbreviation example_run :: "evidence_call list \<Rightarrow> EvidenceIntegrityManager" where
  "example_run cs \<equiv> run_calls (evidence_exec example_hash) cs NewEvidenceIntegrityManager"

lemma example_registered:
  "em_records (example_run [example_registration]) = [(''ten_1'', ''e1'') \<mapsto> example_evidence]"
  "length (em_custodyChain (example_run [example_registration]) (''ten_1'', ''e1'')) = 1"
  by (simp_all add: Let_def example_registration_def Chain_RegisterOriginal_def example_upload example_sizes NewEvidenceIntegrityManager_def store_record_def
      example_evidence_def recordEventLocked_chain)

lemma example_original_committed:
  "em_records (example_run [example_registration, example_commit]) =
     [(''ten_1'', ''e1'') \<mapsto> example_evidence\<lparr>er_State := StateCompleted, er_Committed := True\<rparr>]"
  using example_registered(1)
  by (simp add: Let_def example_commit_def CommitOriginal_def example_evidence_def ComputeSHA256Digest_def)

lemma example_derived_registered:
  "em_records (example_run [example_registration, example_commit, example_derivation]) =
     [(''ten_1'', ''e1'') \<mapsto> example_evidence\<lparr>er_State := StateCompleted, er_Committed := True\<rparr>, (''ten_1'', ''d1'') \<mapsto> example_derived]"
  using example_original_committed
  by (simp add: Let_def example_derivation_def Chain_RegisterDerived_def example_evidence_def example_derived_def example_upload example_sizes
      store_record_def)

lemma example_derived_committed:
  "em_records (example_run [example_registration, example_commit, example_derivation, example_derived_commit]) =
     [(''ten_1'', ''e1'') \<mapsto> example_evidence\<lparr>er_State := StateCompleted, er_Committed := True\<rparr>,
      (''ten_1'', ''d1'') \<mapsto> example_derived\<lparr>er_State := StateCompleted, er_Committed := True\<rparr>]"
  using example_derived_registered
  by (simp add: Let_def example_derived_commit_def CommitDerived_def example_evidence_def example_derived_def ComputeSHA256Digest_def)

theorem custody_chain_sound_witness:
  "\<exists>es. length es = 1 \<and> well_chained example_hash ''ten_1'' ''e1'' es"
proof -
  let ?es = "em_custodyChain (example_run [example_registration]) (''ten_1'', ''e1'')"
  have "GetCustodyChain ''ten_1'' ''e1'' (example_run [example_registration]) = Inr ?es"
    using example_registered(2) by (auto simp: GetCustodyChain_def Let_def simp del: run_calls.simps)
  from custody_chain_sound [OF this] example_registered(2) show ?thesis by blast
qed

text \<open>
  Two managers with the same evidence \<open>e1\<close>, one of which has other evidence too, and a third where the interruption is put on another actor,
  under a hash that tells the lines concerned apart.
\<close>

definition line_one :: string where
  "line_one = event_entry genesis_digest ''evt_e1_1'' ''ten_1'' ''e1'' ''CAPTURE_LOCAL'' ''u1'' (EncodeToString example_bytes)
     ''original evidence registered'' 0"

definition line_two :: "string \<Rightarrow> string" where
  "line_two actor = event_entry (EncodeToString (replicate 32 (CHR ''a''))) ''evt_e1_2'' ''ten_1'' ''e1'' ''TRANSFER_RESUMED'' actor
     (EncodeToString example_bytes) ''transfer resumed'' 0"

definition telling_hash :: "string \<Rightarrow> string" where
  "telling_hash s = replicate 32 (if s = line_one then CHR ''a'' else if s = line_two ''u1'' then CHR ''b'' else CHR ''c'')"

definition example_resumed :: "string \<Rightarrow> evidence_call" where
  "example_resumed actor = CallTransferResumed ''ten_1'' ''e1'' actor (\<lambda>_. 0)"

definition other_registration :: evidence_call where
  "other_registration = CallRegisterOriginal ''ten_1'' ''e2'' ''report.pdf'' ''application/pdf'' 5 (EncodeToString example_bytes)
     ''finding'' ''f2'' ''u1'' (\<lambda>_. 0)"

definition two_events :: "string \<Rightarrow> CustodyEvent list" where
  "two_events actor =
     [\<lparr>ce_EventID = ''evt_e1_1'', ce_TenantID = ''ten_1'', ce_EvidenceID = ''e1'', ce_EventType = EventCaptureLocal, ce_ActorID = ''u1'',
       ce_Timestamp = 0, ce_PayloadDigest = EncodeToString example_bytes, ce_Details = ''original evidence registered'',
       ce_PreviousEventDigest = genesis_digest, ce_EventDigest = EncodeToString (telling_hash line_one)\<rparr>,
      \<lparr>ce_EventID = ''evt_e1_2'', ce_TenantID = ''ten_1'', ce_EvidenceID = ''e1'', ce_EventType = EventTransferResumed, ce_ActorID = actor,
       ce_Timestamp = 0, ce_PayloadDigest = EncodeToString example_bytes, ce_Details = ''transfer resumed'',
       ce_PreviousEventDigest = EncodeToString (telling_hash line_one), ce_EventDigest = EncodeToString (telling_hash (line_two actor))\<rparr>]"

lemma telling_line_one: "telling_hash line_one = replicate 32 (CHR ''a'')"
  by (simp add: telling_hash_def)

lemma one_and_two: "FormatInt 1 = ''1''" "FormatInt 2 = ''2''"
  by (simp_all add: FormatInt_def nat_digits.simps digit_def char_of_def bit_0)

lemma example_two_events:
  "GetCustodyChain ''ten_1'' ''e1'' (run_calls (evidence_exec telling_hash) [example_registration, example_resumed actor] NewEvidenceIntegrityManager) =
     Inr (two_events actor)"
  "GetCustodyChain ''ten_1'' ''e1'' (run_calls (evidence_exec telling_hash) [other_registration, example_registration, example_resumed actor]
     NewEvidenceIntegrityManager) = Inr (two_events actor)"
  by (simp_all add: Let_def GetCustodyChain_def example_registration_def other_registration_def example_resumed_def Chain_RegisterOriginal_def
      RecordTransferResumed_def record_transfer_def example_upload example_sizes NewEvidenceIntegrityManager_def store_record_def
      recordEventLocked_chain recordEventLocked_records new_event_def two_events_def computeEventDigest_def one_and_two telling_line_one
      line_one_def [symmetric] line_two_def [symmetric])

lemma lines_differ: "line_two actor \<noteq> line_one" "line_two ''u2'' \<noteq> line_two ''u1''"
proof -
  have "length (EncodeToString (replicate 32 (CHR ''a''))) = length genesis_digest" by (simp add: genesis_digest_def)
  then show "line_two actor \<noteq> line_one" by (simp add: line_two_def line_one_def event_entry_def append_eq_append_conv)
qed (simp add: line_two_def event_entry_def)

lemma two_events_lines: "map entry_of (two_events actor) = [line_one, line_two actor]"
  by (simp add: two_events_def entry_of_def line_one_def line_two_def telling_line_one [unfolded line_one_def])

lemma telling_hash_tells: "inj_on telling_hash {line_one, line_two ''u1''}"
  using lines_differ by (auto simp: inj_on_def telling_hash_def)

theorem head_digest_commits_history_witness:
  "\<exists>es es' es''.
     GetCustodyChain ''ten_1'' ''e1'' (run_calls (evidence_exec telling_hash)
       [example_registration, example_resumed ''u1''] NewEvidenceIntegrityManager) = Inr es \<and>
     GetCustodyChain ''ten_1'' ''e1'' (run_calls (evidence_exec telling_hash)
       [other_registration, example_registration, example_resumed ''u1''] NewEvidenceIntegrityManager) = Inr es' \<and>
     length es = 2 \<and> map entry_of es = map entry_of es' \<and> map ce_ActorID es = map ce_ActorID es' \<and>
     GetCustodyChain ''ten_1'' ''e1'' (run_calls (evidence_exec telling_hash)
       [example_registration, example_resumed ''u2''] NewEvidenceIntegrityManager) = Inr es'' \<and>
     ce_EventDigest (last es'') \<noteq> ce_EventDigest (last es)"
proof -
  have "entry_of ` set (two_events ''u1'') = {line_one, line_two ''u1''}"
    using arg_cong [OF two_events_lines, of set] by simp
  then have inj: "inj_on telling_hash (entry_of ` (set (two_events ''u1'') \<union> set (two_events ''u1'')))" using telling_hash_tells by simp
  have long: "\<forall>s. length (telling_hash s) = 32" by (simp add: telling_hash_def)
  have "map entry_of (two_events ''u1'') = map entry_of (two_events ''u1'')"
    by (rule conjunct1 [OF head_digest_commits_history [OF example_two_events refl refl long inj]])
  moreover have "ce_EventDigest (last (two_events ''u2'')) \<noteq> ce_EventDigest (last (two_events ''u1''))"
    using lines_differ by (simp add: two_events_def EncodeToString_inject telling_hash_def)
  moreover have "length (two_events ''u1'') = 2" by (simp add: two_events_def)
  ultimately show ?thesis using example_two_events by blast
qed

theorem committed_evidence_immutable_witness:
  "\<exists>es. payload_seen example_hash (example_evidence\<lparr>er_State := StateCompleted, er_Committed := True\<rparr>) es"
proof -
  have "Chain_GetRecord ''ten_1'' ''e1'' (example_run [example_registration, example_commit]) =
      Inr (example_evidence\<lparr>er_State := StateCompleted, er_Committed := True\<rparr>)"
    unfolding Chain_GetRecord_def example_original_committed by simp
  from committed_evidence_immutable [OF this, of "[]"] show ?thesis by auto
qed

theorem derived_has_committed_original_witness:
  "\<exists>p. Chain_GetRecord ''ten_1'' ''e1'' (example_run [example_registration, example_commit, example_derivation]) = Inr p \<and> er_Committed p"
proof -
  have "Chain_GetRecord ''ten_1'' ''d1'' (example_run [example_registration, example_commit, example_derivation]) = Inr example_derived"
    unfolding Chain_GetRecord_def example_derived_registered by simp
  moreover have "er_ObjectType example_derived \<noteq> ObjectTypeOriginal" "er_ParentEvidenceID example_derived = ''e1''"
    by (simp_all add: example_derived_def)
  ultimately show ?thesis using derived_has_committed_original by fastforce
qed

lemma example_export:
  assumes "em_records m (''ten_1'', i) = Some rec" "er_Committed rec"
  shows "\<exists>m' manifest. GenerateExportManifest h ''ten_1'' ''x1'' [i] ''u1'' (\<lambda>_. 0) m = (m', Inr manifest)"
  using assms by (simp add: GenerateExportManifest_def Let_def)

theorem export_verifies_witness:
  "\<exists>manifest. VerifyExportManifest example_hash (Some manifest) [''e1'' \<mapsto> ''photo''] = None"
proof -
  let ?rec = "example_evidence\<lparr>er_State := StateCompleted, er_Committed := True\<rparr>"
  have rec: "em_records (example_run [example_registration, example_commit]) (''ten_1'', ''e1'') = Some ?rec"
    unfolding example_original_committed by simp
  obtain m' manifest where x: "GenerateExportManifest example_hash ''ten_1'' ''x1'' [''e1''] ''u1'' (\<lambda>_. 0)
      (example_run [example_registration, example_commit]) = (m', Inr manifest)"
    using example_export [OF rec, of example_hash] by (auto simp del: run_calls.simps)
  have "em_records m' (''ten_1'', ''e1'') = Some ?rec" using GenerateExportManifest_Inr [OF x] rec by simp
  then show ?thesis using export_verifies [OF x, of "[''e1'' \<mapsto> ''photo'']"]
    by (auto simp: Chain_GetRecord_def ComputeSHA256Digest_def example_evidence_def)
qed

subsection \<open>Findings\<close>

text \<open>
  \<open>CommitDerived\<close> checks the digest but not the size that was registered. A derived artifact with a wrong size is committed and
  can be exported, and no payload with its digest then makes the manifest verify, not even the one that was committed.
\<close>

theorem derived_size_unchecked:
  "let m = example_run [example_registration, example_commit, example_derivation, example_derived_commit]
   in (\<exists>rec. Chain_GetRecord ''ten_1'' ''d1'' m = Inr rec \<and> er_Committed rec \<and> er_SizeBytes rec = 7) \<and>
      (\<exists>m' x. GenerateExportManifest example_hash ''ten_1'' ''x1'' [''d1''] ''u1'' (\<lambda>_. 0) m = (m', Inr x) \<and>
         VerifyExportManifest example_hash (Some x) [''d1'' \<mapsto> ''photo''] = Some ErrExportTampered)"
proof -
  let ?m = "example_run [example_registration, example_commit, example_derivation, example_derived_commit]"
  let ?rec = "example_derived\<lparr>er_State := StateCompleted, er_Committed := True\<rparr>"
  have rec: "em_records ?m (''ten_1'', ''d1'') = Some ?rec" unfolding example_derived_committed by simp
  obtain m' x where x: "GenerateExportManifest example_hash ''ten_1'' ''x1'' [''d1''] ''u1'' (\<lambda>_. 0) ?m = (m', Inr x)"
    using example_export [OF rec, of example_hash] by (auto simp del: run_calls.simps)
  have "xm_Items x = [manifest_item ?rec]" "xm_RootDigest x = computeRootDigest example_hash (xm_Items x)"
    using GenerateExportManifest_Inr [OF x] rec by simp_all
  then have "VerifyExportManifest example_hash (Some x) [''d1'' \<mapsto> ''photo''] = Some ErrExportTampered"
    by (simp add: VerifyExportManifest_def manifest_item_def example_derived_def example_evidence_def)
  with rec x show ?thesis by (auto simp: Let_def Chain_GetRecord_def example_derived_def simp del: run_calls.simps)
qed

text \<open>
  The root digest of a manifest covers the identifiers, object types, parents, digests and sizes of its items, but neither the media type nor
  the kind of derivation: a manifest in which those are rewritten verifies like the one that was issued.
\<close>

theorem manifest_root_ignores_media:
  assumes "\<forall>it. xi_EvidenceID (f it) = xi_EvidenceID it \<and> xi_ObjectType (f it) = xi_ObjectType it \<and> xi_ParentEvidenceID (f it) = xi_ParentEvidenceID it \<and>
    xi_SizeBytes (f it) = xi_SizeBytes it \<and> xi_SHA256Digest (f it) = xi_SHA256Digest it"
  shows "VerifyExportManifest h (Some (x\<lparr>xm_Items := map f (xm_Items x), xm_ExporterID := who, xm_CreatedAt := at\<rparr>)) payloads =
    VerifyExportManifest h (Some x) payloads"
proof -
  have insort: "insort_key xi_EvidenceID (f it) (map f its) = map f (insort_key xi_EvidenceID it its)" for it its
    using assms by (induction its) simp_all
  have "sort_key xi_EvidenceID (map f its) = map f (sort_key xi_EvidenceID its)" for its
    by (induction its) (simp_all add: insort)
  moreover have "manifest_line (f it) = manifest_line it" for it using assms by (simp add: manifest_line_def)
  ultimately have "computeRootDigest h (map f its) = computeRootDigest h its" for its
    by (simp add: computeRootDigest_def comp_def)
  moreover have "verify_items h payloads (map f its) = verify_items h payloads its" for its
    using assms by (induction its) (simp_all split: option.split)
  ultimately show ?thesis by (simp add: VerifyExportManifest_def)
qed

text \<open>
  The hashed line of an event joins its fields with a bar, which the fields may contain: two interruptions of one transfer, reported by
  different actors, get the same event digest.
\<close>

theorem event_digest_ambiguous:
  assumes "sep = ''|'' @ er_SHA256Digest rec @ ''|transfer interrupted at 1/2 bytes: ''" and "em_records m (''ten_1'', ''e1'') = Some rec"
    and "\<not> er_Committed rec"
  shows "let m1 = fst (RecordTransferInterrupted h ''ten_1'' ''e1'' 1 2 (''x'' @ sep @ ''y'') ''alice'' clock m);
      m2 = fst (RecordTransferInterrupted h ''ten_1'' ''e1'' 1 2 ''y'' (''alice'' @ sep @ ''x'') clock m);
      e1 = last (em_custodyChain m1 (''ten_1'', ''e1'')); e2 = last (em_custodyChain m2 (''ten_1'', ''e1''))
    in ce_ActorID e1 = ''alice'' \<and> ce_ActorID e2 \<noteq> ''alice'' \<and> ce_EventDigest e1 = ce_EventDigest e2"
proof -
  have n: "FormatInt 1 = ''1''" "FormatInt 2 = ''2''" by (simp_all add: FormatInt_def nat_digits.simps digit_def char_of_def bit_0)
  show ?thesis using assms
    by (simp add: Let_def RecordTransferInterrupted_def record_transfer_def recordEventLocked_chain new_event_def computeEventDigest_def event_entry_def n)
qed

text \<open>An export that fails leaves the events of the items before the failing one: they say that evidence was packaged which never was.\<close>

theorem failed_export_leaves_events:
  assumes "em_records m (''ten_1'', ''e1'') = Some rec" and "er_Committed rec" and "em_records m (''ten_1'', ''e2'') = None"
  shows "snd (GenerateExportManifest h ''ten_1'' ''x1'' [''e1'', ''e2''] ''u1'' clock m) = Inl ErrObjectNotFound \<and>
    length (em_custodyChain (fst (GenerateExportManifest h ''ten_1'' ''x1'' [''e1'', ''e2''] ''u1'' clock m)) (''ten_1'', ''e1'')) =
      Suc (length (em_custodyChain m (''ten_1'', ''e1'')))"
  using assms by (simp add: GenerateExportManifest_def Let_def packaged_def recordEventLocked_chain)

end
