(* ===== verification/Publication_Snapshot.thy ===== *)
theory Publication_Snapshot
  imports Go_Strings "HOL-Library.List_Lexorder" "HOL-Library.Char_ord"
begin

text \<open>
  Publication snapshots, \<open>modules/publication-snapshot/publication_snapshot.go\<close>: allowlists, redaction, the integrity digests, the registry
  of versions, and export packages. Parameters are SHA-256 (\<open>h\<close>) and \<open>json.Marshal\<close> (\<open>marshal\<close>). A value of type \<open>any\<close> is a string, a
  map, a list, or something else that the code does not look into; a nil map is the empty map, as everywhere in this code. Where
  the code ranges over a map, the order of the visit is an argument. A version number is an \<open>int\<close> that the code only counts up
  from 1 in steps of 1, so it is an unbounded number here.
\<close>

subsection \<open>Data\<close>

text \<open>The errors of the package, those of the two files on the lifecycle and on the immutable store among them.\<close>

datatype publication_error =
  ErrBlankSnapshotID | ErrBlankTenantID | ErrBlankSourceID | ErrUnapprovedFieldDetected | ErrProhibitedFieldDetected
| ErrProhibitedFieldInAllowlist | ErrRedactionFailure | ErrSourceMismatch | ErrSourceDigestMismatch | ErrIntegrityVerificationFailed
| ErrSnapshotImmutable | ErrSnapshotNotFound | ErrSnapshotNotApproved | ErrSnapshotAlreadyPublished | ErrSnapshotWithdrawn | ErrInvalidVersion
| ErrInvalidReviewerContext | ErrCrossTenantAccessDenied | ErrInvalidClassification | ErrUnapprovedDestinationScope
| ErrUnpublishedSnapshotInExport
| ErrUnauthorizedPublish | ErrUnauthorizedReviewer | ErrStaleApproval | ErrApprovalDigestMismatch | ErrInvalidPublicationWindow
| ErrNotYetEffective | ErrSnapshotExpired | ErrIllegalStateTransition | ErrDuplicateTransition | ErrMissingWithdrawalReason
| ErrMissingReplacementReason | ErrBlankApprovalID | ErrBlankApproverSubject | ErrSnapshotNotUnderReview | ErrCannotReactivateWithdrawn
| ErrPublicationVersionImmutable | ErrDirectSourceMutationForbidden | ErrBrokenLineageChain | ErrInvalidPredecessor
| ErrVersionAlreadyExists | ErrTamperDetected | ErrBlankReplacementReason | ErrBlankSuccessorID
| PublicationErrorf string

text \<open>The empty text is the status of the zero value only.\<close>

datatype SnapshotStatus = StatusDraft | StatusPublished | StatusSuperseded | StatusWithdrawn | StatusEmpty

datatype ReviewerApprovalStatus = ReviewPending | ReviewApproved | ReviewRejected | ReviewWithdrawn | ReviewStatusOther string

fun review_text :: "ReviewerApprovalStatus \<Rightarrow> string" where
  "review_text ReviewPending = ''PENDING_REVIEW''"
| "review_text ReviewApproved = ''APPROVED_FOR_PUBLICATION''"
| "review_text ReviewRejected = ''REJECTED''"
| "review_text ReviewWithdrawn = ''WITHDRAWN''"
| "review_text (ReviewStatusOther s) = s"

datatype go_value = GoString string | GoMap "string \<Rightarrow> go_value option" | GoList "go_value list" | GoScalar string

type_synonym payload = "string \<rightharpoonup> go_value"

definition ProhibitedFieldKeywords :: "string list" where
  "ProhibitedFieldKeywords =
     [''password'', ''secret'', ''bearer'', ''token'', ''private_key'', ''national_id'', ''citizen_id'', ''ssn'', ''phone_number'', ''auth_header'',
      ''credit_card'']"

record SourceEntityRef =
  se_SourceType :: string
  se_SourceID :: string
  se_SourceTenantID :: string
  se_SourceVersion :: string
  se_SourceContentDigest :: string

definition Source_Validate :: "SourceEntityRef \<Rightarrow> publication_error option" where
  "Source_Validate s =
     (if TrimSpace (se_SourceType s) = [] then Some (PublicationErrorf ''source type must not be blank'')
      else if TrimSpace (se_SourceID s) = [] then Some ErrBlankSourceID
      else if TrimSpace (se_SourceTenantID s) = [] then Some ErrBlankTenantID
      else if TrimSpace (se_SourceContentDigest s) = [] then Some (PublicationErrorf ''source content digest must not be blank'')
      else None)"

record PublicationFieldAllowlist =
  al_AllowedFields :: "string \<rightharpoonup> bool"
  al_StrictRejection :: bool

definition prohibited :: "string \<Rightarrow> bool" where
  "prohibited name \<longleftrightarrow> list_ex (Contains (lower_text name)) ProhibitedFieldKeywords"

fun allow_fields :: "string list \<Rightarrow> (string \<rightharpoonup> bool) \<Rightarrow> publication_error + (string \<rightharpoonup> bool)" where
  "allow_fields [] allowed = Inr allowed"
| "allow_fields (f # fs) allowed =
     (let trimmed = TrimSpace f in
      if trimmed = [] then allow_fields fs allowed
      else if prohibited trimmed then Inl ErrProhibitedFieldInAllowlist
      else allow_fields fs (allowed(trimmed \<mapsto> True)))"

definition NewPublicationFieldAllowlist :: "string list \<Rightarrow> bool \<Rightarrow> publication_error + PublicationFieldAllowlist" where
  "NewPublicationFieldAllowlist fs strictRejection =
     map_sum id (\<lambda>allowed. \<lparr>al_AllowedFields = allowed, al_StrictRejection = strictRejection\<rparr>) (allow_fields fs Map.empty)"

record ReviewerContext =
  rv_ReviewerSubject :: string
  rv_ReviewerRole :: string
  rv_ReviewedAt :: gotime
  rv_ApprovalStatus :: ReviewerApprovalStatus
  rv_ReviewDecisionHash :: string
  rv_ReviewNotes :: string

definition NewReviewerContext ::
  "(string \<Rightarrow> string) \<Rightarrow> string \<Rightarrow> string \<Rightarrow> ReviewerApprovalStatus \<Rightarrow> string \<Rightarrow> gotime \<Rightarrow> publication_error + ReviewerContext" where
  "NewReviewerContext h subject role status notes reviewedAt =
     (let tSub = TrimSpace subject; tRole = TrimSpace role in
      if tSub = [] then Inl ErrInvalidReviewerContext
      else if tRole = [] then Inl ErrInvalidReviewerContext
      else if status \<notin> {ReviewPending, ReviewApproved, ReviewRejected, ReviewWithdrawn} then Inl ErrInvalidReviewerContext
      else Inr \<lparr>rv_ReviewerSubject = tSub, rv_ReviewerRole = tRole, rv_ReviewedAt = reviewedAt, rv_ApprovalStatus = status,
        rv_ReviewDecisionHash = EncodeToString (h (tSub @ ''|'' @ tRole @ ''|'' @ review_text status @ ''|'' @ TrimSpace notes @ ''|'' @
          FormatInt (UnixNano reviewedAt))),
        rv_ReviewNotes = TrimSpace notes\<rparr>)"

record IntegrityMetadata =
  ig_PayloadDigest :: string
  ig_SignatureDigest :: string
  ig_ComputedAt :: gotime

record PublicationSnapshot =
  ps_snapshotID :: string
  ps_tenantID :: string
  ps_version :: int
  ps_status :: SnapshotStatus
  ps_source :: SourceEntityRef
  ps_allowlist :: "string list"
  ps_payload :: payload
  ps_reviewer :: ReviewerContext
  ps_integrity :: IntegrityMetadata
  ps_createdAt :: gotime
  ps_updatedAt :: gotime

definition IsPublished :: "PublicationSnapshot \<Rightarrow> bool" where
  "IsPublished p \<longleftrightarrow> ps_status p = StatusPublished"

definition IsImmutable :: "PublicationSnapshot \<Rightarrow> bool" where
  "IsImmutable p \<longleftrightarrow> ps_status p = StatusPublished \<or> ps_status p = StatusSuperseded \<or> ps_status p = StatusWithdrawn"

subsection \<open>Digests\<close>

primrec normalizeForJSON :: "go_value \<Rightarrow> go_value" where
  "normalizeForJSON (GoString s) = GoString s"
| "normalizeForJSON (GoMap m) = GoMap (map_option normalizeForJSON \<circ> m)"
| "normalizeForJSON (GoList xs) = GoList (map normalizeForJSON xs)"
| "normalizeForJSON (GoScalar s) = GoScalar s"

text \<open>Lists are not copied; the maps below them are not reached.\<close>

primrec deep_copy :: "go_value \<Rightarrow> go_value" where
  "deep_copy (GoString s) = GoString s"
| "deep_copy (GoMap m) = GoMap (map_option deep_copy \<circ> m)"
| "deep_copy (GoList xs) = GoList xs"
| "deep_copy (GoScalar s) = GoScalar s"

definition deepCopyMap :: "payload \<Rightarrow> payload" where
  "deepCopyMap m = map_option deep_copy \<circ> m"

definition Payload :: "PublicationSnapshot \<Rightarrow> payload" where
  "Payload p = deepCopyMap (ps_payload p)"

definition toCanonicalJSON :: "(go_value \<Rightarrow> string option) \<Rightarrow> go_value \<Rightarrow> string option" where
  "toCanonicalJSON marshal v = marshal (normalizeForJSON v)"

definition ComputeCanonicalPayloadDigest ::
  "(go_value \<Rightarrow> string option) \<Rightarrow> (string \<Rightarrow> string) \<Rightarrow> payload \<Rightarrow> publication_error + string" where
  "ComputeCanonicalPayloadDigest marshal h payload =
     (case toCanonicalJSON marshal (GoMap payload) of
        None \<Rightarrow> Inl ErrRedactionFailure | Some canonicalJSON \<Rightarrow> Inr (EncodeToString (h canonicalJSON)))"

definition ComputeSignatureDigest ::
  "(string \<Rightarrow> string) \<Rightarrow> string \<Rightarrow> string \<Rightarrow> int \<Rightarrow> SourceEntityRef \<Rightarrow> string \<Rightarrow> string \<Rightarrow> string" where
  "ComputeSignatureDigest h tenantID snapshotID version source payloadDigest decisionHash =
     EncodeToString (h (TrimSpace tenantID @ ''|'' @ TrimSpace snapshotID @ ''|'' @ FormatInt version @ ''|'' @
       TrimSpace (se_SourceID source) @ ''|'' @ TrimSpace (se_SourceContentDigest source) @ ''|'' @ TrimSpace payloadDigest @ ''|'' @
       TrimSpace decisionHash))"

definition VerifyIntegrity ::
  "(go_value \<Rightarrow> string option) \<Rightarrow> (string \<Rightarrow> string) \<Rightarrow> PublicationSnapshot \<Rightarrow> publication_error option" where
  "VerifyIntegrity marshal h p =
     (case ComputeCanonicalPayloadDigest marshal h (ps_payload p) of
        Inl e \<Rightarrow> Some e
      | Inr calcPayloadDigest \<Rightarrow>
          if calcPayloadDigest \<noteq> ig_PayloadDigest (ps_integrity p) then Some ErrIntegrityVerificationFailed
          else if ComputeSignatureDigest h (ps_tenantID p) (ps_snapshotID p) (ps_version p) (ps_source p) calcPayloadDigest
              (rv_ReviewDecisionHash (ps_reviewer p)) \<noteq> ig_SignatureDigest (ps_integrity p)
          then Some ErrIntegrityVerificationFailed
          else None)"

subsection \<open>Redaction\<close>

definition credential :: "go_value \<Rightarrow> bool" where
  "credential v = (case v of GoString s \<Rightarrow> HasPrefix (lower_text s) ''bearer '' \<or> HasPrefix (lower_text s) ''oshe_tok_'' | _ \<Rightarrow> False)"

definition allows :: "PublicationFieldAllowlist \<Rightarrow> string \<Rightarrow> bool" where
  "allows al k \<longleftrightarrow> al_AllowedFields al k = Some True"

fun redact_loop ::
  "PublicationFieldAllowlist \<Rightarrow> payload \<Rightarrow> string list \<Rightarrow> payload \<Rightarrow> nat \<Rightarrow> publication_error + payload \<times> nat" where
  "redact_loop al raw [] sanitized redactedCount = Inr (sanitized, redactedCount)"
| "redact_loop al raw (k # ks) sanitized redactedCount =
     (case raw k of
        None \<Rightarrow> redact_loop al raw ks sanitized redactedCount
      | Some v \<Rightarrow>
          if prohibited k then Inl ErrProhibitedFieldDetected
          else if credential v then Inl ErrProhibitedFieldDetected
          else if allows al k then redact_loop al raw ks (sanitized(k \<mapsto> v)) redactedCount
          else if al_StrictRejection al then Inl ErrUnapprovedFieldDetected
          else redact_loop al raw ks sanitized (redactedCount + 1))"

definition RedactPayload :: "string list \<Rightarrow> payload \<Rightarrow> PublicationFieldAllowlist \<Rightarrow> publication_error + payload \<times> nat" where
  "RedactPayload ks raw al = redact_loop al raw ks Map.empty 0"

text \<open>The keys of the allowlist, in sorted order; \<open>order\<close> is the order in which the map is visited.\<close>

definition allowlist_keys :: "string list \<Rightarrow> PublicationFieldAllowlist \<Rightarrow> string list" where
  "allowlist_keys order al = sort (filter (\<lambda>k. al_AllowedFields al k \<noteq> None) order)"

definition NewDraftSnapshot ::
  "(go_value \<Rightarrow> string option) \<Rightarrow> (string \<Rightarrow> string) \<Rightarrow> string list \<Rightarrow> string list \<Rightarrow> string \<Rightarrow> string \<Rightarrow> SourceEntityRef \<Rightarrow> payload \<Rightarrow>
   PublicationFieldAllowlist \<Rightarrow> gotime \<Rightarrow> publication_error + PublicationSnapshot" where
  "NewDraftSnapshot marshal h ks order snapshotID tenantID source rawPayload al now =
     (let tSnapID = TrimSpace snapshotID; tTenantID = TrimSpace tenantID in
      if tSnapID = [] then Inl ErrBlankSnapshotID
      else if tTenantID = [] then Inl ErrBlankTenantID
      else case Source_Validate source of Some e \<Rightarrow> Inl e | None \<Rightarrow>
        if se_SourceTenantID source \<noteq> tTenantID then Inl ErrSourceMismatch
        else case RedactPayload ks rawPayload al of Inl e \<Rightarrow> Inl e | Inr (sanitized, _) \<Rightarrow>
          (case ComputeCanonicalPayloadDigest marshal h sanitized of Inl e \<Rightarrow> Inl e | Inr payloadDigest \<Rightarrow>
             Inr \<lparr>ps_snapshotID = tSnapID, ps_tenantID = tTenantID, ps_version = 1, ps_status = StatusDraft, ps_source = source,
               ps_allowlist = allowlist_keys order al, ps_payload = sanitized,
               ps_reviewer = \<lparr>rv_ReviewerSubject = [], rv_ReviewerRole = [], rv_ReviewedAt = 0, rv_ApprovalStatus = ReviewPending,
                 rv_ReviewDecisionHash = [], rv_ReviewNotes = []\<rparr>,
               ps_integrity = \<lparr>ig_PayloadDigest = payloadDigest,
                 ig_SignatureDigest = ComputeSignatureDigest h tTenantID tSnapID 1 source payloadDigest [], ig_ComputedAt = now\<rparr>,
               ps_createdAt = now, ps_updatedAt = now\<rparr>))"

subsection \<open>Registry\<close>

record SnapshotRegistry =
  sg_snapshots :: "string \<rightharpoonup> PublicationSnapshot"
  sg_latestVer :: "string \<rightharpoonup> int"
  sg_activePub :: "string \<rightharpoonup> string"

definition NewSnapshotRegistry :: SnapshotRegistry where
  "NewSnapshotRegistry = \<lparr>sg_snapshots = Map.empty, sg_latestVer = Map.empty, sg_activePub = Map.empty\<rparr>"

definition makeBaseKey :: "string \<Rightarrow> string \<Rightarrow> string" where
  "makeBaseKey tenantID snapshotID = TrimSpace tenantID @ '':'' @ TrimSpace snapshotID"

definition makeVersionKey :: "string \<Rightarrow> string \<Rightarrow> int \<Rightarrow> string" where
  "makeVersionKey tenantID snapshotID version = TrimSpace tenantID @ '':'' @ TrimSpace snapshotID @ '':v'' @ FormatInt version"

text \<open>Indexing the map of values gives the zero value for a missing key.\<close>

definition empty_snapshot :: PublicationSnapshot where
  "empty_snapshot = \<lparr>ps_snapshotID = [], ps_tenantID = [], ps_version = 0, ps_status = StatusEmpty,
     ps_source = \<lparr>se_SourceType = [], se_SourceID = [], se_SourceTenantID = [], se_SourceVersion = [], se_SourceContentDigest = []\<rparr>,
     ps_allowlist = [], ps_payload = Map.empty,
     ps_reviewer = \<lparr>rv_ReviewerSubject = [], rv_ReviewerRole = [], rv_ReviewedAt = 0, rv_ApprovalStatus = ReviewStatusOther [],
       rv_ReviewDecisionHash = [], rv_ReviewNotes = []\<rparr>,
     ps_integrity = \<lparr>ig_PayloadDigest = [], ig_SignatureDigest = [], ig_ComputedAt = 0\<rparr>, ps_createdAt = 0, ps_updatedAt = 0\<rparr>"

definition snapshot_at :: "string \<Rightarrow> SnapshotRegistry \<Rightarrow> PublicationSnapshot" where
  "snapshot_at k r = (case sg_snapshots r k of None \<Rightarrow> empty_snapshot | Some s \<Rightarrow> s)"

definition Registry_RegisterDraft :: "PublicationSnapshot \<Rightarrow> SnapshotRegistry \<Rightarrow> (SnapshotRegistry, publication_error, unit) outcome" where
  "Registry_RegisterDraft s r =
     (let bKey = makeBaseKey (ps_tenantID s) (ps_snapshotID s) in
      if sg_latestVer r bKey \<noteq> None
      then (r, Inl (PublicationErrorf (''snapshot '' @ ps_snapshotID s @ '' already exists for tenant'')))
      else (r\<lparr>sg_snapshots := (sg_snapshots r)(makeVersionKey (ps_tenantID s) (ps_snapshotID s) (ps_version s) \<mapsto> s),
              sg_latestVer := (sg_latestVer r)(bKey \<mapsto> ps_version s)\<rparr>, Inr ()))"

text \<open>The snapshot as \<open>PublishSnapshot\<close> stores it.\<close>

definition published :: "(string \<Rightarrow> string) \<Rightarrow> ReviewerContext \<Rightarrow> gotime \<Rightarrow> PublicationSnapshot \<Rightarrow> PublicationSnapshot" where
  "published h reviewer now s =
     s\<lparr>ps_status := StatusPublished, ps_reviewer := reviewer,
       ps_integrity := (ps_integrity s)\<lparr>ig_SignatureDigest := ComputeSignatureDigest h (ps_tenantID s) (ps_snapshotID s) (ps_version s)
           (ps_source s) (ig_PayloadDigest (ps_integrity s)) (rv_ReviewDecisionHash reviewer), ig_ComputedAt := now\<rparr>,
       ps_updatedAt := now\<rparr>"

definition PublishSnapshot ::
  "(string \<Rightarrow> string) \<Rightarrow> string \<Rightarrow> string \<Rightarrow> ReviewerContext \<Rightarrow> gotime \<Rightarrow> SnapshotRegistry \<Rightarrow>
   (SnapshotRegistry, publication_error, PublicationSnapshot) outcome" where
  "PublishSnapshot h tenantID snapshotID reviewer now r =
     (let bKey = makeBaseKey tenantID snapshotID in
      case sg_latestVer r bKey of
        None \<Rightarrow> (r, Inl ErrSnapshotNotFound)
      | Some ver \<Rightarrow>
          let vKey = makeVersionKey tenantID snapshotID ver; s = snapshot_at vKey r in
          if ps_status s = StatusPublished then (r, Inl ErrSnapshotAlreadyPublished)
          else if ps_status s = StatusWithdrawn then (r, Inl ErrSnapshotWithdrawn)
          else if rv_ApprovalStatus reviewer \<noteq> ReviewApproved then (r, Inl ErrSnapshotNotApproved)
          else if TrimSpace (rv_ReviewerSubject reviewer) = [] then (r, Inl ErrInvalidReviewerContext)
          else (r\<lparr>sg_snapshots := (sg_snapshots r)(vKey \<mapsto> published h reviewer now s),
                  sg_activePub := (sg_activePub r)(bKey \<mapsto> vKey)\<rparr>, Inr (published h reviewer now s)))"

definition next_version ::
  "(string \<Rightarrow> string) \<Rightarrow> string \<Rightarrow> string \<Rightarrow> string list \<Rightarrow> payload \<Rightarrow> string \<Rightarrow> ReviewerContext \<Rightarrow> gotime \<Rightarrow> int \<Rightarrow>
   PublicationSnapshot \<Rightarrow> PublicationSnapshot" where
  "next_version h tenantID snapshotID keys sanitized payloadDigest reviewer now newVer cur =
     \<lparr>ps_snapshotID = snapshotID, ps_tenantID = tenantID, ps_version = newVer, ps_status = StatusPublished, ps_source = ps_source cur,
      ps_allowlist = keys, ps_payload = sanitized, ps_reviewer = reviewer,
      ps_integrity = \<lparr>ig_PayloadDigest = payloadDigest,
        ig_SignatureDigest = ComputeSignatureDigest h tenantID snapshotID newVer (ps_source cur) payloadDigest (rv_ReviewDecisionHash reviewer),
        ig_ComputedAt = now\<rparr>,
      ps_createdAt = ps_createdAt cur, ps_updatedAt = now\<rparr>"

definition Registry_CreateNewVersion ::
  "(go_value \<Rightarrow> string option) \<Rightarrow> (string \<Rightarrow> string) \<Rightarrow> string list \<Rightarrow> string list \<Rightarrow> string \<Rightarrow> string \<Rightarrow> payload \<Rightarrow> PublicationFieldAllowlist \<Rightarrow>
   ReviewerContext \<Rightarrow> gotime \<Rightarrow> SnapshotRegistry \<Rightarrow> (SnapshotRegistry, publication_error, PublicationSnapshot) outcome" where
  "Registry_CreateNewVersion marshal h ks order tenantID snapshotID updatedRawPayload al reviewer now r =
     (let bKey = makeBaseKey tenantID snapshotID in
      case sg_latestVer r bKey of
        None \<Rightarrow> (r, Inl ErrSnapshotNotFound)
      | Some curVer \<Rightarrow>
          let curKey = makeVersionKey tenantID snapshotID curVer; curSnap = snapshot_at curKey r in
          if ps_status curSnap \<noteq> StatusPublished then (r, Inl ErrSnapshotImmutable)
          else if rv_ApprovalStatus reviewer \<noteq> ReviewApproved then (r, Inl ErrSnapshotNotApproved)
          else case RedactPayload ks updatedRawPayload al of Inl e \<Rightarrow> (r, Inl e) | Inr (sanitized, _) \<Rightarrow>
            (case ComputeCanonicalPayloadDigest marshal h sanitized of Inl e \<Rightarrow> (r, Inl e) | Inr payloadDigest \<Rightarrow>
              let newVer = curVer + 1; newKey = makeVersionKey tenantID snapshotID newVer;
                  newSnap = next_version h tenantID snapshotID (allowlist_keys order al) sanitized payloadDigest reviewer now newVer curSnap
              in (r\<lparr>sg_snapshots := (sg_snapshots r)(curKey \<mapsto> curSnap\<lparr>ps_status := StatusSuperseded, ps_updatedAt := now\<rparr>, newKey \<mapsto> newSnap),
                    sg_latestVer := (sg_latestVer r)(bKey \<mapsto> newVer), sg_activePub := (sg_activePub r)(bKey \<mapsto> newKey)\<rparr>, Inr newSnap)))"

definition withdrawn :: "string \<Rightarrow> ReviewerContext \<Rightarrow> gotime \<Rightarrow> PublicationSnapshot \<Rightarrow> PublicationSnapshot" where
  "withdrawn reason reviewer now s =
     s\<lparr>ps_status := StatusWithdrawn, ps_reviewer := reviewer\<lparr>rv_ApprovalStatus := ReviewWithdrawn, rv_ReviewNotes := reason\<rparr>,
       ps_updatedAt := now\<rparr>"

definition WithdrawSnapshot ::
  "string \<Rightarrow> string \<Rightarrow> string \<Rightarrow> ReviewerContext \<Rightarrow> gotime \<Rightarrow> SnapshotRegistry \<Rightarrow>
   (SnapshotRegistry, publication_error, PublicationSnapshot) outcome" where
  "WithdrawSnapshot tenantID snapshotID reason reviewer now r =
     (let bKey = makeBaseKey tenantID snapshotID in
      case sg_latestVer r bKey of
        None \<Rightarrow> (r, Inl ErrSnapshotNotFound)
      | Some ver \<Rightarrow>
          let vKey = makeVersionKey tenantID snapshotID ver; s = withdrawn reason reviewer now (snapshot_at vKey r) in
          (r\<lparr>sg_snapshots := (sg_snapshots r)(vKey \<mapsto> s), sg_activePub := (sg_activePub r)(bKey := None)\<rparr>, Inr s))"

definition Registry_GetSnapshot :: "string \<Rightarrow> string \<Rightarrow> SnapshotRegistry \<Rightarrow> publication_error + PublicationSnapshot" where
  "Registry_GetSnapshot tenantID snapshotID r =
     (let bKey = makeBaseKey tenantID snapshotID;
          get = (\<lambda>vKey. case sg_snapshots r vKey of None \<Rightarrow> Inl ErrSnapshotNotFound | Some s \<Rightarrow> Inr s) in
      case sg_activePub r bKey of
        Some vKey \<Rightarrow> get vKey
      | None \<Rightarrow> (case sg_latestVer r bKey of None \<Rightarrow> Inl ErrSnapshotNotFound | Some ver \<Rightarrow> get (makeVersionKey tenantID snapshotID ver)))"

definition GetSnapshotVersion :: "string \<Rightarrow> string \<Rightarrow> int \<Rightarrow> SnapshotRegistry \<Rightarrow> publication_error + PublicationSnapshot" where
  "GetSnapshotVersion tenantID snapshotID version r =
     (case sg_snapshots r (makeVersionKey tenantID snapshotID version) of None \<Rightarrow> Inl ErrSnapshotNotFound | Some s \<Rightarrow> Inr s)"

definition VerifySnapshotIntegrity ::
  "(go_value \<Rightarrow> string option) \<Rightarrow> (string \<Rightarrow> string) \<Rightarrow> string \<Rightarrow> string \<Rightarrow> SnapshotRegistry \<Rightarrow> publication_error option" where
  "VerifySnapshotIntegrity marshal h tenantID snapshotID r =
     (case Registry_GetSnapshot tenantID snapshotID r of Inl e \<Rightarrow> Some e | Inr s \<Rightarrow> VerifyIntegrity marshal h s)"

subsection \<open>Export packages\<close>

record Snapshot_ExportPackage =
  xp_ExportID :: string
  xp_TenantID :: string
  xp_Format :: string
  xp_Classification :: string
  xp_DestinationScope :: string
  xp_Snapshots :: "PublicationSnapshot list"
  xp_RecordCount :: int
  xp_ExportedBy :: string
  xp_ExportedAt :: gotime
  xp_IntegrityChecksum :: string

definition AllowedDestinationScopes :: "string list" where
  "AllowedDestinationScopes = [''PUBLIC_PORTAL_PREVIEW'', ''EXTERNAL_AUDITOR_PACKAGE'', ''REGULATORY_SUBMISSION'']"

text \<open>The loop over the snapshots: it refuses one, or gives what it has written to the hash.\<close>

fun export_digests ::
  "(go_value \<Rightarrow> string option) \<Rightarrow> (string \<Rightarrow> string) \<Rightarrow> string \<Rightarrow> PublicationSnapshot list \<Rightarrow> publication_error + string" where
  "export_digests marshal h tTenantID [] = Inr []"
| "export_digests marshal h tTenantID (s # ss) =
     (if ps_tenantID s \<noteq> tTenantID then Inl ErrCrossTenantAccessDenied
      else if \<not> IsPublished s then Inl ErrUnpublishedSnapshotInExport
      else case VerifyIntegrity marshal h s of Some e \<Rightarrow> Inl e
        | None \<Rightarrow> map_sum id (\<lambda>written. ig_SignatureDigest (ps_integrity s) @ written) (export_digests marshal h tTenantID ss))"

definition NewExportPackage ::
  "(go_value \<Rightarrow> string option) \<Rightarrow> (string \<Rightarrow> string) \<Rightarrow> string \<Rightarrow> string \<Rightarrow> string \<Rightarrow> string \<Rightarrow> string \<Rightarrow> string \<Rightarrow> PublicationSnapshot list \<Rightarrow>
   gotime \<Rightarrow> publication_error + Snapshot_ExportPackage" where
  "NewExportPackage marshal h exportID tenantID format classification destinationScope exporterSubject snapshots now =
     (let tExpID = TrimSpace exportID; tTenantID = TrimSpace tenantID in
      if tExpID = [] then Inl (PublicationErrorf ''export ID must not be blank'')
      else if tTenantID = [] then Inl ErrBlankTenantID
      else if classification \<noteq> ''PUBLIC_SANITIZED'' \<and> classification \<noteq> ''EXTERNAL_CONTROLLED'' then Inl ErrInvalidClassification
      else if destinationScope \<notin> set AllowedDestinationScopes then Inl ErrUnapprovedDestinationScope
      else if TrimSpace exporterSubject = [] then Inl (PublicationErrorf ''exporter subject must not be blank'')
      else if snapshots = [] then Inl (PublicationErrorf ''export package must contain at least one snapshot'')
      else map_sum id (\<lambda>written.
        \<lparr>xp_ExportID = tExpID, xp_TenantID = tTenantID, xp_Format = ToUpper (TrimSpace format), xp_Classification = classification,
         xp_DestinationScope = destinationScope, xp_Snapshots = snapshots, xp_RecordCount = int (length snapshots),
         xp_ExportedBy = TrimSpace exporterSubject, xp_ExportedAt = now, xp_IntegrityChecksum = EncodeToString (h written)\<rparr>)
        (export_digests marshal h tTenantID snapshots))"

subsection \<open>Redaction and its reference\<close>

text \<open>What the loop computes, whatever the order of the visit: the raw payload restricted to the allowed keys.\<close>

definition clean_field :: "PublicationFieldAllowlist \<Rightarrow> string \<Rightarrow> go_value \<Rightarrow> bool" where
  "clean_field al k v \<longleftrightarrow> \<not> prohibited k \<and> \<not> credential v \<and> (al_StrictRejection al \<longrightarrow> allows al k)"

definition allowed_part :: "PublicationFieldAllowlist \<Rightarrow> string set \<Rightarrow> payload \<Rightarrow> payload" where
  "allowed_part al K raw = raw |` {k \<in> K. allows al k}"

lemma allowed_part_insert:
  assumes "k \<notin> K"
  shows "m ++ allowed_part al (insert k K) raw =
    (if allows al k then (case raw k of None \<Rightarrow> m | Some v \<Rightarrow> m(k \<mapsto> v)) ++ allowed_part al K raw else m ++ allowed_part al K raw)"
  using assms by (auto simp: fun_eq_iff allowed_part_def map_add_def restrict_map_def split: option.splits)

lemma redact_loop_Inr:
  assumes "distinct ks"
  shows "redact_loop al raw ks sanitized n = Inr (s', n') \<longleftrightarrow>
    (\<forall>k\<in>set ks. \<forall>v. raw k = Some v \<longrightarrow> clean_field al k v) \<and> s' = sanitized ++ allowed_part al (set ks) raw \<and>
    n' = n + length (filter (\<lambda>k. raw k \<noteq> None \<and> \<not> allows al k) ks)"
  using assms
proof (induction ks arbitrary: sanitized n)
  case (Cons k ks)
  note step = allowed_part_insert [of k "set ks" sanitized al raw]
  show ?case
  proof (cases "raw k")
    case None
    with Cons step show ?thesis by simp
  next
    case (Some v)
    show ?thesis
    proof (cases "clean_field al k v")
      case False
      then have "\<exists>e. redact_loop al raw (k # ks) sanitized n = Inl e"
        using Some by (cases "prohibited k"; cases "credential v") (simp_all add: clean_field_def)
      with False Some show ?thesis by auto
    next
      case True
      then have "redact_loop al raw (k # ks) sanitized n =
          (if allows al k then redact_loop al raw ks (sanitized(k \<mapsto> v)) n else redact_loop al raw ks sanitized (n + 1))"
        using Some by (simp add: clean_field_def)
      with Cons step Some True show ?thesis by simp
    qed
  qed
qed (auto simp: allowed_part_def)

definition clean_map :: "PublicationFieldAllowlist \<Rightarrow> payload \<Rightarrow> bool" where
  "clean_map al m \<longleftrightarrow> (\<forall>k v. m k = Some v \<longrightarrow> allows al k \<and> \<not> prohibited k \<and> \<not> credential v)"

lemma clean_map_update: "clean_map al m \<Longrightarrow> allows al k \<Longrightarrow> \<not> prohibited k \<Longrightarrow> \<not> credential v \<Longrightarrow> clean_map al (m(k \<mapsto> v))"
  by (simp add: clean_map_def)

lemma redact_loop_clean:
  "redact_loop al raw ks sanitized n = Inr (s', n') \<Longrightarrow> clean_map al sanitized \<Longrightarrow> clean_map al s'"
  by (induction al raw ks sanitized n rule: redact_loop.induct) (simp_all add: clean_map_update split: option.splits if_splits)

lemma RedactPayload_clean:
  "RedactPayload ks raw al = Inr (s, n) \<Longrightarrow> s k = Some v \<Longrightarrow> allows al k \<and> \<not> prohibited k \<and> \<not> credential v"
  unfolding RedactPayload_def by (drule redact_loop_clean) (simp_all add: clean_map_def)

subsection \<open>Calls on the registry\<close>

datatype registry_call =
  CallRegisterDraft PublicationSnapshot
| CallPublishSnapshot string string ReviewerContext gotime
| CallCreateNewVersion "string list" "string list" string string payload PublicationFieldAllowlist ReviewerContext gotime
| CallWithdrawSnapshot string string string ReviewerContext gotime

fun registry_exec ::
  "(go_value \<Rightarrow> string option) \<Rightarrow> (string \<Rightarrow> string) \<Rightarrow> registry_call \<Rightarrow> SnapshotRegistry \<Rightarrow>
   (SnapshotRegistry, publication_error, unit) outcome" where
  "registry_exec marshal h (CallRegisterDraft s) r = Registry_RegisterDraft s r"
| "registry_exec marshal h (CallPublishSnapshot t i rv now) r = discard (PublishSnapshot h t i rv now r)"
| "registry_exec marshal h (CallCreateNewVersion ks order t i raw al rv now) r =
     discard (Registry_CreateNewVersion marshal h ks order t i raw al rv now r)"
| "registry_exec marshal h (CallWithdrawSnapshot t i why rv now) r = discard (WithdrawSnapshot t i why rv now r)"

text \<open>
  What the package can be called with: drafts come from their constructor, since the fields are private, and the visit of
  an allowlist meets all its keys.
\<close>

definition drafted :: "(go_value \<Rightarrow> string option) \<Rightarrow> (string \<Rightarrow> string) \<Rightarrow> PublicationSnapshot \<Rightarrow> bool" where
  "drafted marshal h s \<longleftrightarrow> (\<exists>ks order i t source raw al now.
     NewDraftSnapshot marshal h ks order i t source raw al now = Inr s \<and> dom (al_AllowedFields al) \<subseteq> set order)"

fun admissible :: "(go_value \<Rightarrow> string option) \<Rightarrow> (string \<Rightarrow> string) \<Rightarrow> registry_call \<Rightarrow> bool" where
  "admissible marshal h (CallRegisterDraft s) \<longleftrightarrow> drafted marshal h s"
| "admissible marshal h (CallCreateNewVersion ks order t i raw al rv now) \<longleftrightarrow> dom (al_AllowedFields al) \<subseteq> set order"
| "admissible marshal h _ \<longleftrightarrow> True"

subsection \<open>Invariant\<close>

definition version_key :: "string \<Rightarrow> int \<Rightarrow> string" where
  "version_key b v = b @ '':'' @ CHR ''v'' # FormatInt v"

lemma makeVersionKey_eq: "makeVersionKey t i v = version_key (makeBaseKey t i) v"
  by (simp add: makeVersionKey_def makeBaseKey_def version_key_def)

lemma version_key_inject [simp]: "version_key b v = version_key b' v' \<longleftrightarrow> b = b' \<and> v = v'"
  unfolding version_key_def by (subst colon_key_inject_right) simp_all

definition sanitized_payload :: "string list \<Rightarrow> payload \<Rightarrow> bool" where
  "sanitized_payload keys m \<longleftrightarrow> (\<forall>k v. m k = Some v \<longrightarrow> k \<in> set keys \<and> \<not> prohibited k \<and> \<not> credential v)"

definition sound_snapshot :: "(go_value \<Rightarrow> string option) \<Rightarrow> (string \<Rightarrow> string) \<Rightarrow> PublicationSnapshot \<Rightarrow> bool" where
  "sound_snapshot marshal h s \<longleftrightarrow> sanitized_payload (ps_allowlist s) (ps_payload s) \<and>
     ComputeCanonicalPayloadDigest marshal h (ps_payload s) = Inr (ig_PayloadDigest (ps_integrity s)) \<and>
     (ps_status s \<noteq> StatusWithdrawn \<longrightarrow> ig_SignatureDigest (ps_integrity s) = ComputeSignatureDigest h (ps_tenantID s) (ps_snapshotID s)
        (ps_version s) (ps_source s) (ig_PayloadDigest (ps_integrity s)) (rv_ReviewDecisionHash (ps_reviewer s))) \<and>
     (ps_status s = StatusPublished \<or> ps_status s = StatusSuperseded \<longrightarrow> rv_ApprovalStatus (ps_reviewer s) = ReviewApproved) \<and>
     ps_status s \<noteq> StatusEmpty"

text \<open>Version \<open>v\<close> under the base key \<open>b\<close>, and all versions under it: 1 to the latest, all but the latest superseded.\<close>

definition version_ok :: "(go_value \<Rightarrow> string option) \<Rightarrow> (string \<Rightarrow> string) \<Rightarrow> string \<Rightarrow> int \<Rightarrow> PublicationSnapshot \<Rightarrow> bool" where
  "version_ok marshal h b v s \<longleftrightarrow> sound_snapshot marshal h s \<and> ps_version s = v \<and> makeBaseKey (ps_tenantID s) (ps_snapshotID s) = b"

definition versions_inv :: "(go_value \<Rightarrow> string option) \<Rightarrow> (string \<Rightarrow> string) \<Rightarrow> string \<Rightarrow> SnapshotRegistry \<Rightarrow> bool" where
  "versions_inv marshal h b r \<longleftrightarrow> (case sg_latestVer r b of
      None \<Rightarrow> sg_activePub r b = None
    | Some n \<Rightarrow> 1 \<le> n \<and>
        (\<forall>v. 1 \<le> v \<and> v \<le> n \<longrightarrow> (\<exists>s. sg_snapshots r (version_key b v) = Some s \<and> version_ok marshal h b v s \<and>
           (v < n \<longleftrightarrow> ps_status s = StatusSuperseded))) \<and>
        sg_activePub r b = (if ps_status (snapshot_at (version_key b n) r) = StatusPublished then Some (version_key b n) else None))"

definition registry_inv :: "(go_value \<Rightarrow> string option) \<Rightarrow> (string \<Rightarrow> string) \<Rightarrow> SnapshotRegistry \<Rightarrow> bool" where
  "registry_inv marshal h r \<longleftrightarrow> (\<forall>b. versions_inv marshal h b r) \<and>
     (\<forall>k s. sg_snapshots r k = Some s \<longrightarrow> (\<exists>b n v. sg_latestVer r b = Some n \<and> 1 \<le> v \<and> v \<le> n \<and> k = version_key b v))"

lemma registry_inv_latest:
  assumes "registry_inv marshal h r" "sg_latestVer r b = Some n"
  obtains s where "sg_snapshots r (version_key b n) = Some s" "version_ok marshal h b n s" "ps_status s \<noteq> StatusSuperseded"
    "1 \<le> n" "sg_activePub r b = (if ps_status s = StatusPublished then Some (version_key b n) else None)"
proof -
  have "versions_inv marshal h b r" using assms(1) by (simp add: registry_inv_def)
  then show thesis using that assms(2) unfolding versions_inv_def by (auto simp: snapshot_at_def)
qed

lemma registry_inv_stored:
  assumes "registry_inv marshal h r" "sg_snapshots r k = Some s"
  obtains b n v where "sg_latestVer r b = Some n" "1 \<le> v" "v \<le> n" "k = version_key b v" "version_ok marshal h b v s"
    "v < n \<longleftrightarrow> ps_status s = StatusSuperseded"
proof -
  obtain b n v where k: "sg_latestVer r b = Some n" "1 \<le> v" "v \<le> n" "k = version_key b v"
    using assms unfolding registry_inv_def by blast
  have "versions_inv marshal h b r" using assms(1) by (simp add: registry_inv_def)
  with k assms(2) that show thesis unfolding versions_inv_def by auto
qed

text \<open>Every call leaves the registry alone or changes the versions under one base key in one of four ways.\<close>

inductive registry_step :: "(go_value \<Rightarrow> string option) \<Rightarrow> (string \<Rightarrow> string) \<Rightarrow> SnapshotRegistry \<Rightarrow> SnapshotRegistry \<Rightarrow> bool"
  for marshal h r where
  register: "sg_latestVer r b = None \<Longrightarrow> version_ok marshal h b 1 s \<Longrightarrow> ps_status s = StatusDraft \<Longrightarrow>
    registry_step marshal h r (r\<lparr>sg_snapshots := (sg_snapshots r)(version_key b 1 \<mapsto> s), sg_latestVer := (sg_latestVer r)(b \<mapsto> 1)\<rparr>)"
| publish: "sg_latestVer r b = Some n \<Longrightarrow> sg_snapshots r (version_key b n) = Some s \<Longrightarrow> ps_status s = StatusDraft \<Longrightarrow>
    rv_ApprovalStatus rv = ReviewApproved \<Longrightarrow>
    registry_step marshal h r (r\<lparr>sg_snapshots := (sg_snapshots r)(version_key b n \<mapsto> published h rv now s),
      sg_activePub := (sg_activePub r)(b \<mapsto> version_key b n)\<rparr>)"
| supersede: "sg_latestVer r b = Some n \<Longrightarrow> sg_snapshots r (version_key b n) = Some s \<Longrightarrow> ps_status s = StatusPublished \<Longrightarrow>
    version_ok marshal h b (n + 1) s' \<Longrightarrow> ps_status s' = StatusPublished \<Longrightarrow>
    registry_step marshal h r (r\<lparr>sg_snapshots := (sg_snapshots r)
        (version_key b n \<mapsto> s\<lparr>ps_status := StatusSuperseded, ps_updatedAt := now\<rparr>, version_key b (n + 1) \<mapsto> s'),
      sg_latestVer := (sg_latestVer r)(b \<mapsto> n + 1), sg_activePub := (sg_activePub r)(b \<mapsto> version_key b (n + 1))\<rparr>)"
| withdraw: "sg_latestVer r b = Some n \<Longrightarrow> sg_snapshots r (version_key b n) = Some s \<Longrightarrow> ps_status s \<noteq> StatusSuperseded \<Longrightarrow>
    registry_step marshal h r (r\<lparr>sg_snapshots := (sg_snapshots r)(version_key b n \<mapsto> withdrawn why rv now s),
      sg_activePub := (sg_activePub r)(b := None)\<rparr>)"

lemma allowlist_keys_mem: "dom (al_AllowedFields al) \<subseteq> set order \<Longrightarrow> allows al k \<Longrightarrow> k \<in> set (allowlist_keys order al)"
  by (auto simp: allowlist_keys_def allows_def)

lemma drafted_ok:
  assumes "drafted marshal h s"
  shows "version_ok marshal h (makeBaseKey (ps_tenantID s) (ps_snapshotID s)) 1 s \<and> ps_status s = StatusDraft \<and> ps_version s = 1"
proof -
  from assms obtain ks order i t source raw al now where new: "NewDraftSnapshot marshal h ks order i t source raw al now = Inr s"
    and order: "dom (al_AllowedFields al) \<subseteq> set order" by (auto simp: drafted_def)
  from new obtain sanitized n d where red: "RedactPayload ks raw al = Inr (sanitized, n)"
    and d: "ComputeCanonicalPayloadDigest marshal h sanitized = Inr d"
    and s: "ps_version s = 1" "ps_status s = StatusDraft" "ps_allowlist s = allowlist_keys order al" "ps_payload s = sanitized"
      "ps_integrity s = \<lparr>ig_PayloadDigest = d, ig_SignatureDigest = ComputeSignatureDigest h (ps_tenantID s) (ps_snapshotID s) 1 (ps_source s) d [],
         ig_ComputedAt = now\<rparr>" "rv_ReviewDecisionHash (ps_reviewer s) = []"
    by (auto simp: NewDraftSnapshot_def Let_def split: if_splits option.splits sum.splits)
  have "sanitized_payload (ps_allowlist s) (ps_payload s)"
    using RedactPayload_clean [OF red] order s(3,4) by (auto simp: sanitized_payload_def allowlist_keys_mem)
  with d s show ?thesis by (simp add: version_ok_def sound_snapshot_def)
qed

lemma RegisterDraft_step:
  assumes "drafted marshal h s"
  shows "fst (Registry_RegisterDraft s r) = r \<or> registry_step marshal h r (fst (Registry_RegisterDraft s r))"
proof (cases "sg_latestVer r (makeBaseKey (ps_tenantID s) (ps_snapshotID s))")
  case None
  note ok = drafted_ok [OF assms]
  from registry_step.register [OF None ok [THEN conjunct1]] ok show ?thesis
    using None by (simp add: Registry_RegisterDraft_def Let_def makeVersionKey_eq)
qed (simp add: Registry_RegisterDraft_def Let_def)

lemma PublishSnapshot_step:
  assumes "registry_inv marshal h r"
  shows "fst (PublishSnapshot h t i rv now r) = r \<or> registry_step marshal h r (fst (PublishSnapshot h t i rv now r))"
proof (cases "sg_latestVer r (makeBaseKey t i)")
  case (Some n)
  then obtain s where s: "sg_snapshots r (version_key (makeBaseKey t i) n) = Some s" "version_ok marshal h (makeBaseKey t i) n s"
    "ps_status s \<noteq> StatusSuperseded" using registry_inv_latest [OF assms] by blast
  have status: "ps_status s \<in> {StatusPublished, StatusWithdrawn, StatusDraft}"
    using s(2,3) by (cases "ps_status s") (simp_all add: version_ok_def sound_snapshot_def)
  show ?thesis
  proof (cases "ps_status s = StatusDraft \<and> rv_ApprovalStatus rv = ReviewApproved")
    case True
    with registry_step.publish [OF Some s(1), of rv marshal h now] Some s(1) show ?thesis
      by (simp add: PublishSnapshot_def Let_def makeVersionKey_eq snapshot_at_def)
  qed (use Some s(1) status in \<open>auto simp: PublishSnapshot_def Let_def makeVersionKey_eq snapshot_at_def\<close>)
qed (simp add: PublishSnapshot_def Let_def)

lemma next_version_ok:
  assumes "RedactPayload ks raw al = Inr (sanitized, m)" "ComputeCanonicalPayloadDigest marshal h sanitized = Inr d"
    and "dom (al_AllowedFields al) \<subseteq> set order" "rv_ApprovalStatus rv = ReviewApproved"
  shows "version_ok marshal h (makeBaseKey t i) v (next_version h t i (allowlist_keys order al) sanitized d rv now v cur)"
  using RedactPayload_clean [OF assms(1)] assms(2-4)
  by (auto simp: version_ok_def sound_snapshot_def next_version_def sanitized_payload_def allowlist_keys_mem)

lemma next_snapshot_step:
  assumes "registry_inv marshal h r" "dom (al_AllowedFields al) \<subseteq> set order"
  shows "fst (Registry_CreateNewVersion marshal h ks order t i raw al rv now r) = r \<or>
    registry_step marshal h r (fst (Registry_CreateNewVersion marshal h ks order t i raw al rv now r))"
proof (cases "sg_latestVer r (makeBaseKey t i)")
  case (Some n)
  let ?b = "makeBaseKey t i"
  from Some obtain s where s: "sg_snapshots r (version_key ?b n) = Some s" using registry_inv_latest [OF assms(1)] by blast
  then have at: "snapshot_at (version_key ?b n) r = s" by (simp add: snapshot_at_def)
  show ?thesis
  proof (cases "ps_status s = StatusPublished \<and> rv_ApprovalStatus rv = ReviewApproved")
    case True
    show ?thesis
    proof (cases "RedactPayload ks raw al")
      case (Inr out)
      obtain sanitized m where out: "out = (sanitized, m)" by (cases out)
      show ?thesis
      proof (cases "ComputeCanonicalPayloadDigest marshal h sanitized")
        case (Inr d)
        let ?new = "next_version h t i (allowlist_keys order al) sanitized d rv now (n + 1) s"
        have "version_ok marshal h ?b (n + 1) ?new"
          using next_version_ok [of ks raw al sanitized m] \<open>RedactPayload ks raw al = Inr out\<close> out Inr assms(2) True by blast
        moreover have "ps_status ?new = StatusPublished" by (simp add: next_version_def)
        ultimately have "registry_step marshal h r (r\<lparr>sg_snapshots := (sg_snapshots r)
            (version_key ?b n \<mapsto> s\<lparr>ps_status := StatusSuperseded, ps_updatedAt := now\<rparr>, version_key ?b (n + 1) \<mapsto> ?new),
          sg_latestVer := (sg_latestVer r)(?b \<mapsto> n + 1), sg_activePub := (sg_activePub r)(?b \<mapsto> version_key ?b (n + 1))\<rparr>)"
          using Some s True by (intro registry_step.supersede) simp_all
        then show ?thesis using Some True at \<open>RedactPayload ks raw al = Inr out\<close> out Inr
          by (simp add: Registry_CreateNewVersion_def makeVersionKey_eq Let_def)
      qed (use Some True at Inr out in \<open>simp add: Registry_CreateNewVersion_def Let_def makeVersionKey_eq\<close>)
    qed (use Some True at in \<open>simp add: Registry_CreateNewVersion_def Let_def makeVersionKey_eq\<close>)
  qed (use Some at in \<open>auto simp: Registry_CreateNewVersion_def Let_def makeVersionKey_eq\<close>)
qed (simp add: Registry_CreateNewVersion_def Let_def)

lemma WithdrawSnapshot_step:
  assumes "registry_inv marshal h r"
  shows "fst (WithdrawSnapshot t i why rv now r) = r \<or> registry_step marshal h r (fst (WithdrawSnapshot t i why rv now r))"
proof (cases "sg_latestVer r (makeBaseKey t i)")
  case (Some n)
  then obtain s where s: "sg_snapshots r (version_key (makeBaseKey t i) n) = Some s" "ps_status s \<noteq> StatusSuperseded"
    using registry_inv_latest [OF assms] by blast
  from registry_step.withdraw [OF Some s, of marshal h why rv now] Some s(1) show ?thesis
    by (simp add: WithdrawSnapshot_def Let_def makeVersionKey_eq snapshot_at_def)
qed (simp add: WithdrawSnapshot_def Let_def)

lemma registry_exec_step:
  assumes "registry_inv marshal h r" "admissible marshal h c"
  shows "fst (registry_exec marshal h c r) = r \<or> registry_step marshal h r (fst (registry_exec marshal h c r))"
proof (cases c)
  case (CallRegisterDraft s)
  with assms(2) RegisterDraft_step show ?thesis by simp
next
  case (CallPublishSnapshot t i rv now)
  with PublishSnapshot_step [OF assms(1)] show ?thesis by simp
next
  case (CallCreateNewVersion ks order t i raw al rv now)
  with assms(2) next_snapshot_step [OF assms(1)] show ?thesis by simp
next
  case (CallWithdrawSnapshot t i why rv now)
  with WithdrawSnapshot_step [OF assms(1)] show ?thesis by simp
qed

lemma published_ok:
  "version_ok marshal h b v s \<Longrightarrow> rv_ApprovalStatus rv = ReviewApproved \<Longrightarrow> version_ok marshal h b v (published h rv now s)"
  by (simp add: version_ok_def sound_snapshot_def published_def)

lemma superseded_ok:
  "version_ok marshal h b v s \<Longrightarrow> ps_status s = StatusPublished \<Longrightarrow>
   version_ok marshal h b v (s\<lparr>ps_status := StatusSuperseded, ps_updatedAt := now\<rparr>)"
  by (simp add: version_ok_def sound_snapshot_def)

lemma withdrawn_ok: "version_ok marshal h b v s \<Longrightarrow> version_ok marshal h b v (withdrawn why rv now s)"
  by (simp add: version_ok_def sound_snapshot_def withdrawn_def)

lemma step_status [simp]:
  "ps_status (published h rv now s) = StatusPublished" "ps_status (withdrawn why rv now s) = StatusWithdrawn"
  by (simp_all add: published_def withdrawn_def)

text \<open>A change under one base key keeps the invariant if it keeps that of the key.\<close>

lemma registry_inv_update:
  assumes inv: "registry_inv marshal h r" and key: "versions_inv marshal h b r'"
    and latest: "\<And>b'. b' \<noteq> b \<Longrightarrow> sg_latestVer r' b' = sg_latestVer r b'" "\<And>b'. b' \<noteq> b \<Longrightarrow> sg_activePub r' b' = sg_activePub r b'"
    and same: "\<And>k. (\<forall>v. k \<noteq> version_key b v) \<Longrightarrow> sg_snapshots r' k = sg_snapshots r k"
    and new: "\<And>v s. sg_snapshots r' (version_key b v) = Some s \<Longrightarrow> \<exists>n. sg_latestVer r' b = Some n \<and> 1 \<le> v \<and> v \<le> n"
  shows "registry_inv marshal h r'"
  unfolding registry_inv_def
proof (intro conjI allI impI)
  fix b'
  show "versions_inv marshal h b' r'"
  proof (cases "b' = b")
    case False
    then have "sg_snapshots r' (version_key b' v) = sg_snapshots r (version_key b' v)" for v by (intro same) simp
    then have "versions_inv marshal h b' r' \<longleftrightarrow> versions_inv marshal h b' r"
      unfolding versions_inv_def snapshot_at_def using latest [OF False] by (cases "sg_latestVer r b'") simp_all
    with inv show ?thesis by (simp add: registry_inv_def)
  qed (use key in simp)
next
  fix k s
  assume k: "sg_snapshots r' k = Some s"
  show "\<exists>b n v. sg_latestVer r' b = Some n \<and> 1 \<le> v \<and> v \<le> n \<and> k = version_key b v"
  proof (cases "\<exists>v. k = version_key b v")
    case True
    with k new show ?thesis by blast
  next
    case False
    with k same have "sg_snapshots r k = Some s" by simp
    then obtain b' n v where "sg_latestVer r b' = Some n" "1 \<le> v" "v \<le> n" "k = version_key b' v"
      using inv unfolding registry_inv_def by blast
    moreover from this False have "b' \<noteq> b" by blast
    ultimately show ?thesis using latest(1) by metis
  qed
qed

lemma stored_version:
  assumes "registry_inv marshal h r" "sg_snapshots r (version_key b v) = Some s"
  shows "\<exists>n. sg_latestVer r b = Some n \<and> 1 \<le> v \<and> v \<le> n"
  using registry_inv_stored [OF assms] by (metis version_key_inject)

lemma registry_step_inv:
  assumes "registry_step marshal h r r'" "registry_inv marshal h r"
  shows "registry_inv marshal h r'"
  using assms(1)
proof cases
  case (register b s)
  have "sg_snapshots r (version_key b v) = None" for v
    using stored_version [OF assms(2)] register(2) by (metis option.distinct(1) option.exhaust)
  moreover have "versions_inv marshal h b r" using assms(2) by (simp add: registry_inv_def)
  then have "sg_activePub r b = None" using register(2) by (simp add: versions_inv_def)
  ultimately show ?thesis using register(3,4) unfolding register(1)
    by (intro registry_inv_update [OF assms(2), of b]) (auto simp: versions_inv_def snapshot_at_def split: if_splits)
next
  case (publish b n s rv now)
  have inv: "versions_inv marshal h b r" using assms(2) by (simp add: registry_inv_def)
  then have "version_ok marshal h b n s" "1 \<le> n" using publish by (auto simp: versions_inv_def)
  with inv publish(2-5) show ?thesis unfolding publish(1)
    by (intro registry_inv_update [OF assms(2), of b])
      (auto simp: versions_inv_def snapshot_at_def published_ok dest: stored_version [OF assms(2)] split: if_splits)
next
  case (supersede b n s s' now)
  have inv: "versions_inv marshal h b r" using assms(2) by (simp add: registry_inv_def)
  then have ok: "version_ok marshal h b n s" "1 \<le> n" using supersede by (auto simp: versions_inv_def)
  from inv ok supersede(2-6) show ?thesis unfolding supersede(1)
    by (intro registry_inv_update [OF assms(2), of b])
      (auto simp: versions_inv_def snapshot_at_def superseded_ok dest: stored_version [OF assms(2)] split: if_splits)
next
  case (withdraw b n s why rv now)
  have inv: "versions_inv marshal h b r" using assms(2) by (simp add: registry_inv_def)
  then have "version_ok marshal h b n s" "1 \<le> n" using withdraw by (auto simp: versions_inv_def)
  with inv withdraw(2-4) show ?thesis unfolding withdraw(1)
    by (intro registry_inv_update [OF assms(2), of b])
      (auto simp: versions_inv_def snapshot_at_def withdrawn_ok dest: stored_version [OF assms(2)] split: if_splits)
qed

lemma snapshots_exec_inv:
  "registry_inv marshal h r \<Longrightarrow> admissible marshal h c \<Longrightarrow> registry_inv marshal h (fst (registry_exec marshal h c r))"
  using registry_exec_step registry_step_inv by metis

text \<open>How a stored version may change: its content never, its status forward, a superseded one not at all.\<close>

definition same_content :: "PublicationSnapshot \<Rightarrow> PublicationSnapshot \<Rightarrow> bool" where
  "same_content s s' \<longleftrightarrow> ps_snapshotID s' = ps_snapshotID s \<and> ps_tenantID s' = ps_tenantID s \<and> ps_version s' = ps_version s \<and>
     ps_source s' = ps_source s \<and> ps_allowlist s' = ps_allowlist s \<and> ps_payload s' = ps_payload s \<and>
     ig_PayloadDigest (ps_integrity s') = ig_PayloadDigest (ps_integrity s) \<and> ps_createdAt s' = ps_createdAt s"

fun status_forward :: "SnapshotStatus \<Rightarrow> SnapshotStatus \<Rightarrow> bool" where
  "status_forward StatusDraft t \<longleftrightarrow> t \<in> {StatusPublished, StatusSuperseded, StatusWithdrawn}"
| "status_forward StatusPublished t \<longleftrightarrow> t \<in> {StatusSuperseded, StatusWithdrawn}"
| "status_forward StatusWithdrawn t \<longleftrightarrow> t = StatusWithdrawn"
| "status_forward _ t \<longleftrightarrow> False"

definition evolves :: "PublicationSnapshot \<Rightarrow> PublicationSnapshot \<Rightarrow> bool" where
  "evolves s s' \<longleftrightarrow> s' = s \<or> same_content s s' \<and> status_forward (ps_status s) (ps_status s')"

lemma status_forward_trans: "status_forward a b \<Longrightarrow> status_forward b c \<Longrightarrow> status_forward a c"
  by (cases a; cases b) auto

lemma evolves_trans: "evolves a b \<Longrightarrow> evolves b c \<Longrightarrow> evolves a c"
  using status_forward_trans by (auto simp: evolves_def same_content_def)

lemma registry_step_evolves:
  assumes "registry_step marshal h r r'" "registry_inv marshal h r" "sg_snapshots r k = Some s"
  shows "\<exists>s'. sg_snapshots r' k = Some s' \<and> evolves s s'"
  using assms(1)
proof cases
  case (register b x)
  then have "k \<noteq> version_key b 1" using stored_version [OF assms(2)] assms(3) by fastforce
  with register assms(3) show ?thesis by (simp add: evolves_def)
next
  case (publish b n x rv now)
  then show ?thesis using assms(3) by (cases "k = version_key b n") (auto simp: evolves_def same_content_def published_def)
next
  case (supersede b n x x' now)
  have "k \<noteq> version_key b (n + 1)" using stored_version [OF assms(2)] assms(3) supersede(2) by fastforce
  with supersede assms(3) show ?thesis by (cases "k = version_key b n") (auto simp: evolves_def same_content_def)
next
  case (withdraw b n x why rv now)
  have ok: "sound_snapshot marshal h x" using assms(2) withdraw(3) by (auto elim: registry_inv_stored simp: version_ok_def)
  then have "status_forward (ps_status x) StatusWithdrawn" using withdraw(4) by (cases "ps_status x") (simp_all add: sound_snapshot_def)
  with withdraw assms(3) show ?thesis
    by (cases "k = version_key b n") (auto simp: evolves_def same_content_def withdrawn_def)
qed

lemma registry_inv_New: "registry_inv marshal h NewSnapshotRegistry"
  by (simp add: registry_inv_def versions_inv_def NewSnapshotRegistry_def)

interpretation publications: api_machine "registry_exec marshal h" "registry_inv marshal h" "admissible marshal h"
  by unfold_locales (rule snapshots_exec_inv)

interpretation superseded_versions: absorbing "registry_exec marshal h" "registry_inv marshal h" "admissible marshal h"
    "\<lambda>k r. sg_snapshots r k" "\<lambda>s. ps_status s = StatusSuperseded"
proof unfold_locales
  fix r c k s
  assume a: "registry_inv marshal h r" "admissible marshal h c" "sg_snapshots r k = Some s" "ps_status s = StatusSuperseded"
  from registry_exec_step [OF a(1,2)] show "sg_snapshots (fst (registry_exec marshal h c r)) k = Some s"
    using registry_step_evolves [OF _ a(1,3)] a(3,4) by (auto simp: evolves_def)
qed

lemma run_evolves:
  assumes "registry_inv marshal h r" "list_all (admissible marshal h) cs" "sg_snapshots r k = Some s"
  shows "\<exists>s'. sg_snapshots (run_calls (registry_exec marshal h) cs r) k = Some s' \<and> evolves s s'"
  using assms
proof (induction cs arbitrary: r s)
  case (Cons c cs)
  let ?r = "fst (registry_exec marshal h c r)"
  have adm: "admissible marshal h c" using Cons.prems(2) by simp
  obtain s1 where s1: "sg_snapshots ?r k = Some s1" "evolves s s1"
    using registry_exec_step [OF Cons.prems(1) adm] registry_step_evolves [OF _ Cons.prems(1,3)] Cons.prems(3) by (auto simp: evolves_def)
  have "registry_inv marshal h ?r" using snapshots_exec_inv [OF Cons.prems(1) adm] .
  from Cons.IH [OF this _ s1(1)] Cons.prems(2) s1(2) evolves_trans show ?case by auto
qed (simp add: evolves_def)

lemma reachable_snapshots_inv:
  "list_all (admissible marshal h) cs \<Longrightarrow> registry_inv marshal h (run_calls (registry_exec marshal h) cs NewSnapshotRegistry)"
  by (rule publications.run_inv [OF registry_inv_New])

subsection \<open>Properties\<close>

text \<open>
  (C31) Redaction is what its reference says, whatever the order in which the payload is visited: it succeeds exactly when no field
  has a prohibited name or a credential as its value and, under strict rejection, all fields are allowed; it then keeps the
  allowed fields with their values and counts the others.
\<close>

theorem redaction_reference:
  assumes "distinct ks" and "set ks = dom raw"
  shows "RedactPayload ks raw al = Inr (sanitized, n) \<longleftrightarrow>
    (\<forall>k v. raw k = Some v \<longrightarrow> \<not> prohibited k \<and> \<not> credential v \<and> (al_StrictRejection al \<longrightarrow> allows al k)) \<and>
    sanitized = raw |` {k. allows al k} \<and> n = card {k \<in> dom raw. \<not> allows al k}"
proof -
  have "allowed_part al (set ks) raw = raw |` {k. allows al k}"
    using assms(2) by (auto simp: fun_eq_iff allowed_part_def restrict_map_def)
  moreover have "set (filter (\<lambda>k. raw k \<noteq> None \<and> \<not> allows al k) ks) = {k \<in> dom raw. \<not> allows al k}" using assms(2) by auto
  then have "length (filter (\<lambda>k. raw k \<noteq> None \<and> \<not> allows al k) ks) = card {k \<in> dom raw. \<not> allows al k}"
    using distinct_card [of "filter (\<lambda>k. raw k \<noteq> None \<and> \<not> allows al k) ks"] assms(1) by simp
  moreover have "(\<forall>k\<in>set ks. \<forall>v. raw k = Some v \<longrightarrow> clean_field al k v) \<longleftrightarrow> (\<forall>k v. raw k = Some v \<longrightarrow> clean_field al k v)"
    using assms(2) by blast
  ultimately show ?thesis unfolding RedactPayload_def redact_loop_Inr [OF assms(1)] by (simp add: clean_field_def)
qed

text \<open>
  What is published is clean, approved and sealed: in every reachable registry the payload of every version has only fields of its
  allowlist, no field of a prohibited name, and no credential as a value; a published or superseded version was approved; and
  every version that is not withdrawn passes the verification of its integrity.
\<close>

theorem published_versions_sound:
  assumes "list_all (admissible marshal h) cs"
    and "GetSnapshotVersion t i v (run_calls (registry_exec marshal h) cs NewSnapshotRegistry) = Inr s"
  shows "(\<forall>k x. ps_payload s k = Some x \<longrightarrow> k \<in> set (ps_allowlist s) \<and> \<not> prohibited k \<and> \<not> credential x) \<and>
    (ps_status s \<in> {StatusPublished, StatusSuperseded} \<longrightarrow> rv_ApprovalStatus (ps_reviewer s) = ReviewApproved) \<and>
    (ps_status s \<noteq> StatusWithdrawn \<longrightarrow> VerifyIntegrity marshal h s = None)"
proof -
  have "sg_snapshots (run_calls (registry_exec marshal h) cs NewSnapshotRegistry) (makeVersionKey t i v) = Some s"
    using assms(2) by (simp add: GetSnapshotVersion_def split: option.splits)
  with reachable_snapshots_inv [OF assms(1)] have "sound_snapshot marshal h s"
    by (auto elim: registry_inv_stored simp: version_ok_def)
  then show ?thesis by (auto simp: sound_snapshot_def sanitized_payload_def VerifyIntegrity_def)
qed

text \<open>
  Stored versions are immutable: whatever calls follow, a version keeps its payload, allowlist, source, payload digest and identity,
  its status only moves forward (a draft is published, then superseded or withdrawn), and a superseded version does not change at all.
\<close>

theorem stored_version_immutable:
  assumes "list_all (admissible marshal h) cs" and "list_all (admissible marshal h) ds"
    and "r = run_calls (registry_exec marshal h) cs NewSnapshotRegistry" and "GetSnapshotVersion t i v r = Inr s"
  shows "\<exists>s'. GetSnapshotVersion t i v (run_calls (registry_exec marshal h) ds r) = Inr s' \<and> same_content s s' \<and>
    (s' = s \<or> status_forward (ps_status s) (ps_status s')) \<and> (ps_status s = StatusSuperseded \<longrightarrow> s' = s)"
proof -
  have inv: "registry_inv marshal h r" unfolding assms(3) by (rule reachable_snapshots_inv [OF assms(1)])
  have s: "sg_snapshots r (makeVersionKey t i v) = Some s" using assms(4) by (simp add: GetSnapshotVersion_def split: option.splits)
  from run_evolves [OF inv assms(2) s] obtain s' where
    s': "sg_snapshots (run_calls (registry_exec marshal h) ds r) (makeVersionKey t i v) = Some s'" "evolves s s'" by blast
  moreover have "s' = s" if "ps_status s = StatusSuperseded"
    using superseded_versions.run_final [OF inv assms(2) s that] s'(1) by simp
  ultimately show ?thesis by (auto simp: GetSnapshotVersion_def evolves_def same_content_def)
qed

text \<open>
  The versions of a snapshot are gapless, and \<open>GetSnapshot\<close> gives the latest: in every reachable registry, when it answers with version
  \<open>n\<close>, the versions 1 to \<open>n\<close> and no others are there, all before \<open>n\<close> are superseded, and \<open>n\<close> is not; so at most one version
  is published.
\<close>

theorem snapshot_versions_gapless:
  assumes "list_all (admissible marshal h) cs" and "r = run_calls (registry_exec marshal h) cs NewSnapshotRegistry"
    and "Registry_GetSnapshot t i r = Inr s"
  shows "1 \<le> ps_version s \<and> ps_status s \<noteq> StatusSuperseded \<and> GetSnapshotVersion t i (ps_version s) r = Inr s \<and>
    (\<forall>v. (\<exists>x. GetSnapshotVersion t i v r = Inr x) \<longleftrightarrow> 1 \<le> v \<and> v \<le> ps_version s) \<and>
    (\<forall>v x. GetSnapshotVersion t i v r = Inr x \<longrightarrow> ps_version x = v \<and> (v < ps_version s \<longleftrightarrow> ps_status x = StatusSuperseded))"
proof -
  let ?b = "makeBaseKey t i"
  have inv: "registry_inv marshal h r" unfolding assms(2) by (rule reachable_snapshots_inv [OF assms(1)])
  then have ver: "versions_inv marshal h ?b r" by (simp add: registry_inv_def)
  obtain n where n: "sg_latestVer r ?b = Some n"
    using assms(3) ver by (auto simp: Registry_GetSnapshot_def versions_inv_def Let_def split: option.splits)
  from registry_inv_latest [OF inv n] obtain x where x: "sg_snapshots r (version_key ?b n) = Some x" "version_ok marshal h ?b n x"
    "ps_status x \<noteq> StatusSuperseded" "1 \<le> n" "sg_activePub r ?b = (if ps_status x = StatusPublished then Some (version_key ?b n) else None)" by blast
  have s: "s = x" using assms(3) n x by (auto simp: Registry_GetSnapshot_def Let_def makeVersionKey_eq split: if_splits)
  moreover have "ps_version s = n" using s x(2) by (simp add: version_ok_def)
  moreover have get: "GetSnapshotVersion t i v r = Inr y \<longleftrightarrow> sg_snapshots r (version_key ?b v) = Some y" for v y
    by (simp add: GetSnapshotVersion_def makeVersionKey_eq split: option.split)
  moreover have "\<exists>y. sg_snapshots r (version_key ?b v) = Some y \<and> ps_version y = v \<and> (v < n \<longleftrightarrow> ps_status y = StatusSuperseded)"
    if "1 \<le> v" "v \<le> n" for v
    using ver n that unfolding versions_inv_def version_ok_def by auto
  moreover have "1 \<le> v \<and> v \<le> n" if "sg_snapshots r (version_key ?b v) = Some y" for v y
    using stored_version [OF inv that] n by simp
  ultimately show ?thesis using x by (metis option.inject)
qed

text \<open>
  An export package holds what it may: it is accepted exactly when identifiers, classification, destination and exporter are in order
  and every one of its snapshots, of which there is one at least, is of the tenant, published and intact; its checksum is
  over their signature digests in order.
\<close>

theorem export_package_iff:
  "NewExportPackage marshal h e t f c d u ss now = Inr pkg \<longleftrightarrow>
     TrimSpace e \<noteq> [] \<and> TrimSpace t \<noteq> [] \<and> c \<in> {''PUBLIC_SANITIZED'', ''EXTERNAL_CONTROLLED''} \<and> d \<in> set AllowedDestinationScopes \<and>
     TrimSpace u \<noteq> [] \<and> ss \<noteq> [] \<and>
     (\<forall>s\<in>set ss. ps_tenantID s = TrimSpace t \<and> ps_status s = StatusPublished \<and> VerifyIntegrity marshal h s = None) \<and>
     pkg = \<lparr>xp_ExportID = TrimSpace e, xp_TenantID = TrimSpace t, xp_Format = ToUpper (TrimSpace f), xp_Classification = c,
       xp_DestinationScope = d, xp_Snapshots = ss, xp_RecordCount = int (length ss), xp_ExportedBy = TrimSpace u, xp_ExportedAt = now,
       xp_IntegrityChecksum = EncodeToString (h (concat (map (ig_SignatureDigest \<circ> ps_integrity) ss)))\<rparr>"
proof -
  have loop: "export_digests marshal h T ss = Inr w \<longleftrightarrow>
      (\<forall>s\<in>set ss. ps_tenantID s = T \<and> ps_status s = StatusPublished \<and> VerifyIntegrity marshal h s = None) \<and>
      w = concat (map (ig_SignatureDigest \<circ> ps_integrity) ss)" for T w
  proof (induction ss arbitrary: w)
    case (Cons s ss)
    show ?case
    proof (cases "ps_tenantID s = T \<and> IsPublished s \<and> VerifyIntegrity marshal h s = None")
      case True
      then show ?thesis using Cons.IH by (cases "export_digests marshal h T ss") (auto simp: IsPublished_def)
    qed (auto simp: IsPublished_def split: option.splits)
  qed auto
  have "NewExportPackage marshal h e t f c d u ss now = Inr pkg \<longleftrightarrow>
      TrimSpace e \<noteq> [] \<and> TrimSpace t \<noteq> [] \<and> c \<in> {''PUBLIC_SANITIZED'', ''EXTERNAL_CONTROLLED''} \<and> d \<in> set AllowedDestinationScopes \<and>
      TrimSpace u \<noteq> [] \<and> ss \<noteq> [] \<and> (\<exists>w. export_digests marshal h (TrimSpace t) ss = Inr w \<and>
       pkg = \<lparr>xp_ExportID = TrimSpace e, xp_TenantID = TrimSpace t, xp_Format = ToUpper (TrimSpace f), xp_Classification = c,
         xp_DestinationScope = d, xp_Snapshots = ss, xp_RecordCount = int (length ss), xp_ExportedBy = TrimSpace u, xp_ExportedAt = now,
         xp_IntegrityChecksum = EncodeToString (h w)\<rparr>)"
    by (cases "export_digests marshal h (TrimSpace t) ss") (auto simp: NewExportPackage_def Let_def)
  then show ?thesis unfolding loop by blast
qed

subsection \<open>Witnesses\<close>

definition example_source :: SourceEntityRef where
  "example_source = \<lparr>se_SourceType = ''INSPECTION_RECORD'', se_SourceID = ''insp_1'', se_SourceTenantID = ''ten_1'', se_SourceVersion = ''1.0'',
     se_SourceContentDigest = ''d1''\<rparr>"

definition example_allowlist :: PublicationFieldAllowlist where
  "example_allowlist = \<lparr>al_AllowedFields = [''title'' \<mapsto> True], al_StrictRejection = False\<rparr>"

definition example_raw :: payload where
  "example_raw = [''title'' \<mapsto> GoString ''Ladder'', ''note'' \<mapsto> GoString ''internal'']"

definition example_reviewer :: ReviewerContext where
  "example_reviewer = \<lparr>rv_ReviewerSubject = ''aud'', rv_ReviewerRole = ''AUDITOR'', rv_ReviewedAt = 3, rv_ApprovalStatus = ReviewApproved,
     rv_ReviewDecisionHash = ''r1'', rv_ReviewNotes = []\<rparr>"

lemma example_fields:
  "\<not> prohibited ''title''" "\<not> prohibited ''note''" "\<not> credential (GoString ''Ladder'')" "\<not> credential (GoString ''internal'')"
  by code_simp+

lemma example_redacted: "RedactPayload [''title'', ''note''] example_raw example_allowlist = Inr ([''title'' \<mapsto> GoString ''Ladder''], 1)"
  by (simp add: RedactPayload_def example_raw_def example_fields allows_def example_allowlist_def)

lemma example_draft:
  "\<exists>s. NewDraftSnapshot (\<lambda>_. Some []) h [''title'', ''note''] [''title''] ''s1'' ''ten_1'' example_source example_raw example_allowlist 5 = Inr s \<and>
     ps_tenantID s = ''ten_1'' \<and> ps_snapshotID s = ''s1''"
  by (simp add: NewDraftSnapshot_def Let_def Source_Validate_def example_source_def example_redacted ComputeCanonicalPayloadDigest_def
      toCanonicalJSON_def)

lemma example_registry:
  obtains cs s where "list_all (admissible (\<lambda>_. Some []) h) cs" "ps_status s = StatusPublished" "ps_version s = 1"
    "sg_activePub (run_calls (registry_exec (\<lambda>_. Some []) h) cs NewSnapshotRegistry) (makeBaseKey ''ten_1'' ''s1'') =
       Some (makeVersionKey ''ten_1'' ''s1'' 1)"
    "sg_snapshots (run_calls (registry_exec (\<lambda>_. Some []) h) cs NewSnapshotRegistry) (makeVersionKey ''ten_1'' ''s1'' 1) = Some s"
proof -
  let ?marshal = "\<lambda>_. Some []"
  obtain d where new: "NewDraftSnapshot ?marshal h [''title'', ''note''] [''title''] ''s1'' ''ten_1'' example_source example_raw example_allowlist 5 = Inr d"
    and d: "ps_tenantID d = ''ten_1''" "ps_snapshotID d = ''s1''" using example_draft by blast
  have drafted: "drafted ?marshal h d" unfolding drafted_def using new by (intro exI conjI) (auto simp: example_allowlist_def split: if_splits)
  then have draft: "ps_status d = StatusDraft" "ps_version d = 1" using drafted_ok by blast+
  let ?cs = "[CallRegisterDraft d, CallPublishSnapshot ''ten_1'' ''s1'' example_reviewer 6]"
  let ?r = "run_calls (registry_exec ?marshal h) ?cs NewSnapshotRegistry"
  have run: "sg_activePub ?r (makeBaseKey ''ten_1'' ''s1'') = Some (makeVersionKey ''ten_1'' ''s1'' 1)"
    "sg_snapshots ?r (makeVersionKey ''ten_1'' ''s1'' 1) = Some (published h example_reviewer 6 d)"
    using d draft by (simp_all add: Registry_RegisterDraft_def PublishSnapshot_def NewSnapshotRegistry_def Let_def snapshot_at_def example_reviewer_def)
  have "list_all (admissible ?marshal h) ?cs" using drafted by simp
  moreover have "ps_version (published h example_reviewer 6 d) = 1" using draft by (simp add: published_def)
  ultimately show thesis using run that by (metis step_status(1))
qed

theorem redaction_reference_witness:
  "\<exists>n. RedactPayload [''title'', ''note''] example_raw example_allowlist = Inr (example_raw |` {k. allows example_allowlist k}, n)"
proof -
  have "set [''title'', ''note''] = dom example_raw" by (auto simp: example_raw_def)
  moreover have "\<forall>k v. example_raw k = Some v \<longrightarrow> \<not> prohibited k \<and> \<not> credential v \<and> (al_StrictRejection example_allowlist \<longrightarrow> allows example_allowlist k)"
    using example_fields by (auto simp: example_raw_def example_allowlist_def)
  ultimately show ?thesis using redaction_reference [of "[''title'', ''note'']" example_raw example_allowlist] by auto
qed

theorem published_versions_sound_witness:
  "\<exists>s. ps_status s = StatusPublished \<and> VerifyIntegrity (\<lambda>_. Some []) (\<lambda>_. []) s = None \<and> rv_ApprovalStatus (ps_reviewer s) = ReviewApproved"
proof -
  obtain cs s where e: "list_all (admissible (\<lambda>_. Some []) (\<lambda>_. [])) cs" "ps_status s = StatusPublished"
    "sg_snapshots (run_calls (registry_exec (\<lambda>_. Some []) (\<lambda>_. [])) cs NewSnapshotRegistry) (makeVersionKey ''ten_1'' ''s1'' 1) = Some s"
    by (rule example_registry)
  then have "GetSnapshotVersion ''ten_1'' ''s1'' 1 (run_calls (registry_exec (\<lambda>_. Some []) (\<lambda>_. [])) cs NewSnapshotRegistry) = Inr s"
    by (simp add: GetSnapshotVersion_def)
  from published_versions_sound [OF e(1) this] e(2) show ?thesis by auto
qed

theorem stored_version_immutable_witness:
  "\<exists>s s'. ps_status s = StatusPublished \<and> same_content s s' \<and> ps_status s' \<noteq> StatusDraft"
proof -
  let ?exec = "registry_exec (\<lambda>_. Some []) (\<lambda>_. [])"
  obtain cs s where e: "list_all (admissible (\<lambda>_. Some []) (\<lambda>_. [])) cs" "ps_status s = StatusPublished"
    "sg_snapshots (run_calls ?exec cs NewSnapshotRegistry) (makeVersionKey ''ten_1'' ''s1'' 1) = Some s"
    by (rule example_registry)
  then have get: "GetSnapshotVersion ''ten_1'' ''s1'' 1 (run_calls ?exec cs NewSnapshotRegistry) = Inr s" by (simp add: GetSnapshotVersion_def)
  have "list_all (admissible (\<lambda>_. Some []) (\<lambda>_. [])) [CallWithdrawSnapshot ''ten_1'' ''s1'' ''why'' example_reviewer 7]" by simp
  from stored_version_immutable [OF e(1) this refl get] e(2) show ?thesis by fastforce
qed

theorem snapshot_versions_gapless_witness:
  "\<exists>r s. Registry_GetSnapshot ''ten_1'' ''s1'' r = Inr s \<and> ps_version s = 1 \<and> (\<forall>v x. GetSnapshotVersion ''ten_1'' ''s1'' v r = Inr x \<longrightarrow> v = 1)"
proof -
  let ?exec = "registry_exec (\<lambda>_. Some []) (\<lambda>_. [])"
  obtain cs s where e: "list_all (admissible (\<lambda>_. Some []) (\<lambda>_. [])) cs" "ps_version s = 1"
    "sg_activePub (run_calls ?exec cs NewSnapshotRegistry) (makeBaseKey ''ten_1'' ''s1'') = Some (makeVersionKey ''ten_1'' ''s1'' 1)"
    "sg_snapshots (run_calls ?exec cs NewSnapshotRegistry) (makeVersionKey ''ten_1'' ''s1'' 1) = Some s"
    by (rule example_registry)
  then have get: "Registry_GetSnapshot ''ten_1'' ''s1'' (run_calls ?exec cs NewSnapshotRegistry) = Inr s"
    by (simp add: Registry_GetSnapshot_def)
  from snapshot_versions_gapless [OF e(1) refl get] get e(2) show ?thesis by (metis order_antisym)
qed

theorem export_package_iff_witness:
  "\<exists>pkg. NewExportPackage (\<lambda>_. Some []) (\<lambda>_. []) ''x1'' ''ten_1'' ''json'' ''PUBLIC_SANITIZED'' ''REGULATORY_SUBMISSION'' ''u1''
     [empty_snapshot\<lparr>ps_tenantID := ''ten_1'', ps_status := StatusPublished\<rparr>] 5 = Inr pkg \<and> xp_RecordCount pkg = 1"
  unfolding export_package_iff
  by (simp add: VerifyIntegrity_def ComputeCanonicalPayloadDigest_def toCanonicalJSON_def ComputeSignatureDigest_def empty_snapshot_def
      EncodeToString_def AllowedDestinationScopes_def)

subsection \<open>Where the code falls short\<close>

text \<open>
  A withdrawal replaces the reviewer and leaves the signature: unless it is made with the decision hash of the approval, the withdrawn
  snapshot fails its integrity check, as if it had been tampered with.
\<close>

theorem withdrawal_breaks_seal:
  assumes "inj h" and "VerifyIntegrity marshal h s = None"
    and "TrimSpace (rv_ReviewDecisionHash rv) \<noteq> TrimSpace (rv_ReviewDecisionHash (ps_reviewer s))"
  shows "VerifyIntegrity marshal h (withdrawn why rv now s) = Some ErrIntegrityVerificationFailed"
proof -
  let ?sig = "\<lambda>x. ComputeSignatureDigest h (ps_tenantID s) (ps_snapshotID s) (ps_version s) (ps_source s) (ig_PayloadDigest (ps_integrity s)) x"
  have "?sig (rv_ReviewDecisionHash rv) \<noteq> ?sig (rv_ReviewDecisionHash (ps_reviewer s))"
    using assms(3) by (simp add: ComputeSignatureDigest_def EncodeToString_inject inj_eq [OF assms(1)])
  with assms(2) show ?thesis by (auto simp: VerifyIntegrity_def withdrawn_def split: sum.splits if_splits)
qed

text \<open>Redaction looks at the top level only: a password in a nested map is published.\<close>

theorem nested_secret_published:
  "NewPublicationFieldAllowlist [''contact''] True = Inr \<lparr>al_AllowedFields = [''contact'' \<mapsto> True], al_StrictRejection = True\<rparr> \<and>
   RedactPayload [''contact''] [''contact'' \<mapsto> GoMap [''password'' \<mapsto> GoString ''x'']]
     \<lparr>al_AllowedFields = [''contact'' \<mapsto> True], al_StrictRejection = True\<rparr> =
     Inr ([''contact'' \<mapsto> GoMap [''password'' \<mapsto> GoString ''x'']], 0)"
proof -
  have "\<not> prohibited ''contact''" by code_simp
  then show ?thesis by (simp add: NewPublicationFieldAllowlist_def Let_def RedactPayload_def credential_def allows_def)
qed

text \<open>Which error a payload is refused with depends on the order in which the map happens to be visited.\<close>

theorem redaction_error_unstable:
  "let raw = [''token'' \<mapsto> GoString ''a'', ''note'' \<mapsto> GoString ''b''];
       al = \<lparr>al_AllowedFields = Map.empty, al_StrictRejection = True\<rparr>
   in RedactPayload [''token'', ''note''] raw al = Inl ErrProhibitedFieldDetected \<and>
      RedactPayload [''note'', ''token''] raw al = Inl ErrUnapprovedFieldDetected"
proof -
  have "prohibited ''token''" "\<not> credential (GoString ''b'')" by code_simp+
  then show ?thesis using example_fields(2) by (simp add: Let_def RedactPayload_def allows_def)
qed

text \<open>
  \<open>CreateNewVersion\<close> finds the snapshot under trimmed identifiers and stores the new version under the identifiers as they were given: with
  a space around the tenant it makes a version that no export accepts.
\<close>

theorem untrimmed_version_not_exportable:
  assumes "Registry_CreateNewVersion marshal h ks order t i raw al rv now r = (r', Inr s)" and "TrimSpace t \<noteq> t"
  shows "ps_tenantID s = t \<and> NewExportPackage marshal h e t' f c d u [s] now' \<noteq> Inr pkg"
proof -
  have "ps_tenantID s = t"
    using assms(1) by (auto simp: Registry_CreateNewVersion_def next_version_def Let_def split: option.splits if_splits sum.splits)
  moreover have "TrimSpace t' \<noteq> t" using assms(2) by auto
  ultimately show ?thesis by (auto simp: NewExportPackage_def Let_def)
qed

text \<open>The keys join tenant and snapshot with a colon: tenant \<open>a\<close> reads the snapshots of tenant \<open>a:b\<close>.\<close>

theorem snapshot_key_crosses_tenants:
  "Registry_GetSnapshot ''a'' ''b:c'' r = Registry_GetSnapshot ''a:b'' ''c'' r"
proof -
  have b: "makeBaseKey ''a'' ''b:c'' = makeBaseKey ''a:b'' ''c''" by (simp add: makeBaseKey_def)
  show ?thesis unfolding Registry_GetSnapshot_def makeVersionKey_eq b ..
qed

end
