(* ===== verification/Publication_Lifecycle.thy ===== *)
theory Publication_Lifecycle
  imports Publication_Snapshot
begin

text \<open>
  The lifecycle of publications, \<open>modules/publication-snapshot/publication_lifecycle.go\<close>: approval evidence, publication windows, the
  controller with its transitions, and the audit ledger. A \<open>time.Duration\<close> is a number of nanoseconds; \<open>Time.Sub\<close> saturates at the
  64 bits of one. The methods that move a snapshot are a frame around a body named after the method.
\<close>

subsection \<open>Data\<close>

text \<open>The blank state is the empty text that a first audit record has as its prior state.\<close>

datatype LifecycleState =
  StateDraft | StateUnderReview | StateApproved | StatePublished | StateExpired | StateWithdrawn | StateReplaced | StateSuperseded | StateBlank

fun lifecycle_text :: "LifecycleState \<Rightarrow> string" where
  "lifecycle_text StateDraft = ''DRAFT''"
| "lifecycle_text StateUnderReview = ''UNDER_REVIEW''"
| "lifecycle_text StateApproved = ''APPROVED''"
| "lifecycle_text StatePublished = ''PUBLISHED''"
| "lifecycle_text StateExpired = ''EXPIRED''"
| "lifecycle_text StateWithdrawn = ''WITHDRAWN''"
| "lifecycle_text StateReplaced = ''REPLACED''"
| "lifecycle_text StateSuperseded = ''SUPERSEDED''"
| "lifecycle_text StateBlank = []"

type_synonym duration = int

definition Time_Sub :: "gotime \<Rightarrow> gotime \<Rightarrow> duration" where
  "Time_Sub t u = max (- (2 ^ 63)) (min (2 ^ 63 - 1) (t - u))"

definition DefaultMaxApprovalValidity :: duration where
  "DefaultMaxApprovalValidity = 7 * 24 * 3600 * 1000000000"

definition MaxPublicationWindowDuration :: duration where
  "MaxPublicationWindowDuration = 365 * 24 * 3600 * 1000000000"

record ApprovalEvidence =
  ap_ApprovalID :: string
  ap_ApproverSubject :: string
  ap_ApproverRole :: string
  ap_ApprovedAt :: gotime
  ap_ContentDigest :: string
  ap_DecisionHash :: string
  ap_ApprovalNotes :: string
  ap_MaxApprovalAge :: duration

definition NewApprovalEvidence ::
  "(string \<Rightarrow> string) \<Rightarrow> string \<Rightarrow> string \<Rightarrow> string \<Rightarrow> gotime \<Rightarrow> string \<Rightarrow> string \<Rightarrow> duration \<Rightarrow> publication_error + ApprovalEvidence" where
  "NewApprovalEvidence h approvalID approverSubject approverRole approvedAt contentDigest notes maxAge =
     (let tAppID = TrimSpace approvalID; tSub = TrimSpace approverSubject; tRole = TrimSpace approverRole; tDigest = TrimSpace contentDigest in
      if tAppID = [] then Inl ErrBlankApprovalID
      else if tSub = [] then Inl ErrBlankApproverSubject
      else if tRole = [] then Inl (PublicationErrorf ''approver role must not be blank'')
      else if tDigest = [] then Inl (PublicationErrorf ''content digest must not be blank'')
      else Inr \<lparr>ap_ApprovalID = tAppID, ap_ApproverSubject = tSub, ap_ApproverRole = tRole, ap_ApprovedAt = approvedAt, ap_ContentDigest = tDigest,
        ap_DecisionHash = EncodeToString (h (tAppID @ ''|'' @ tSub @ ''|'' @ tRole @ ''|'' @ FormatInt (UnixNano approvedAt) @ ''|'' @
          tDigest @ ''|'' @ TrimSpace notes)),
        ap_ApprovalNotes = TrimSpace notes, ap_MaxApprovalAge = (if maxAge \<le> 0 then DefaultMaxApprovalValidity else maxAge)\<rparr>)"

definition IsStale :: "ApprovalEvidence \<Rightarrow> gotime \<Rightarrow> bool" where
  "IsStale a now \<longleftrightarrow>
     (if IsZero (ap_ApprovedAt a) then True
      else if now < ap_ApprovedAt a then False
      else ap_MaxApprovalAge a < Time_Sub now (ap_ApprovedAt a))"

record EffectiveWindow =
  ew_EffectiveFrom :: gotime
  ew_ExpiresAt :: gotime

definition Window_Validate :: "EffectiveWindow \<Rightarrow> publication_error option" where
  "Window_Validate w =
     (if IsZero (ew_EffectiveFrom w) \<or> IsZero (ew_ExpiresAt w) then Some ErrInvalidPublicationWindow
      else if ew_ExpiresAt w < ew_EffectiveFrom w \<or> ew_ExpiresAt w = ew_EffectiveFrom w then Some ErrInvalidPublicationWindow
      else if MaxPublicationWindowDuration < Time_Sub (ew_ExpiresAt w) (ew_EffectiveFrom w) then Some ErrInvalidPublicationWindow
      else None)"

definition IsEffective :: "EffectiveWindow \<Rightarrow> gotime \<Rightarrow> bool" where
  "IsEffective w now \<longleftrightarrow> After now (ew_EffectiveFrom w) \<or> now = ew_EffectiveFrom w"

definition IsExpired :: "EffectiveWindow \<Rightarrow> gotime \<Rightarrow> bool" where
  "IsExpired w now \<longleftrightarrow> After now (ew_ExpiresAt w) \<or> now = ew_ExpiresAt w"

record LifecycleManagedSnapshot =
  ls_SnapshotID :: string
  ls_TenantID :: string
  ls_Version :: int
  ls_State :: LifecycleState
  ls_Approval :: ApprovalEvidence
  ls_Window :: EffectiveWindow
  ls_ContentDigest :: string
  ls_SuccessorID :: string
  ls_WithdrawalReason :: string
  ls_WithdrawnBy :: string
  ls_ReplacementReason :: string
  ls_CreatedAt :: gotime
  ls_UpdatedAt :: gotime

definition Publication_EffectiveState :: "LifecycleManagedSnapshot \<Rightarrow> gotime \<Rightarrow> LifecycleState" where
  "Publication_EffectiveState s now = (if ls_State s = StatePublished \<and> IsExpired (ls_Window s) now then StateExpired else ls_State s)"

definition IsActive :: "LifecycleManagedSnapshot \<Rightarrow> gotime \<Rightarrow> bool" where
  "IsActive s now \<longleftrightarrow> Publication_EffectiveState s now = StatePublished \<and> IsEffective (ls_Window s) now"

record LifecycleAuditRecord =
  lr_RecordID :: string
  lr_TenantID :: string
  lr_SnapshotID :: string
  lr_Version :: int
  lr_FromState :: LifecycleState
  lr_ToState :: LifecycleState
  lr_ActorSubject :: string
  lr_ActorRole :: string
  lr_Timestamp :: gotime
  lr_Reason :: string
  lr_ApprovalID :: string
  lr_AuditDigest :: string

type_synonym LifecycleAuditLedger = "LifecycleAuditRecord list"

definition record_digest :: "(string \<Rightarrow> string) \<Rightarrow> LifecycleAuditRecord \<Rightarrow> string" where
  "record_digest h rec = EncodeToString (h (
     lr_RecordID rec @ ''|'' @ lr_TenantID rec @ ''|'' @ lr_SnapshotID rec @ ''|'' @ FormatInt (lr_Version rec) @ ''|'' @
     lifecycle_text (lr_FromState rec) @ ''|'' @ lifecycle_text (lr_ToState rec) @ ''|'' @ lr_ActorSubject rec @ ''|'' @ lr_ActorRole rec @ ''|'' @
     FormatInt (UnixNano (lr_Timestamp rec)) @ ''|'' @ lr_Reason rec @ ''|'' @ lr_ApprovalID rec))"

definition Ledger_AppendRecord :: "(string \<Rightarrow> string) \<Rightarrow> LifecycleAuditRecord \<Rightarrow> LifecycleAuditLedger \<Rightarrow> LifecycleAuditLedger" where
  "Ledger_AppendRecord h rec l = l @ [rec\<lparr>lr_AuditDigest := record_digest h rec\<rparr>]"

definition GetHistory :: "string \<Rightarrow> string \<Rightarrow> LifecycleAuditLedger \<Rightarrow> publication_error + LifecycleAuditRecord list" where
  "GetHistory tenantID snapshotID l =
     (let tTenant = TrimSpace tenantID; tSnap = TrimSpace snapshotID in
      if tTenant = [] then Inl ErrBlankTenantID
      else if tSnap = [] then Inl ErrBlankSnapshotID
      else Inr (filter (\<lambda>r. lr_TenantID r = tTenant \<and> lr_SnapshotID r = tSnap) l))"

subsection \<open>Controller\<close>

record LifecycleController =
  lc_ledger :: LifecycleAuditLedger
  lc_snapshots :: "string \<rightharpoonup> LifecycleManagedSnapshot"
  lc_authorizedRoles :: "string list"
  lc_transitionSeq :: int

definition NewLifecycleController :: "LifecycleAuditLedger option \<Rightarrow> LifecycleController" where
  "NewLifecycleController ledger =
     \<lparr>lc_ledger = (case ledger of None \<Rightarrow> [] | Some l \<Rightarrow> l), lc_snapshots = Map.empty, lc_authorizedRoles = [''AUDITOR'', ''TENANT_ADMIN''],
      lc_transitionSeq = 0\<rparr>"

definition makeLifecycleKey :: "string \<Rightarrow> string \<Rightarrow> string" where
  "makeLifecycleKey tenantID snapshotID = TrimSpace tenantID @ '':'' @ TrimSpace snapshotID"

text \<open>The record of a transition, its identifier and digest apart.\<close>

definition transition_record ::
  "LifecycleManagedSnapshot \<Rightarrow> LifecycleState \<Rightarrow> LifecycleState \<Rightarrow> string \<Rightarrow> string \<Rightarrow> gotime \<Rightarrow> string \<Rightarrow> string \<Rightarrow> LifecycleAuditRecord" where
  "transition_record snap from to actor role now reason approvalID =
     \<lparr>lr_RecordID = [], lr_TenantID = ls_TenantID snap, lr_SnapshotID = ls_SnapshotID snap, lr_Version = ls_Version snap, lr_FromState = from,
      lr_ToState = to, lr_ActorSubject = actor, lr_ActorRole = role, lr_Timestamp = now, lr_Reason = reason, lr_ApprovalID = approvalID,
      lr_AuditDigest = []\<rparr>"

definition log_transition :: "(string \<Rightarrow> string) \<Rightarrow> LifecycleAuditRecord \<Rightarrow> LifecycleController \<Rightarrow> LifecycleController" where
  "log_transition h rec c =
     c\<lparr>lc_transitionSeq := lc_transitionSeq c + 1,
       lc_ledger := Ledger_AppendRecord h (rec\<lparr>lr_RecordID := ''audit_'' @ FormatInt (lc_transitionSeq c + 1)\<rparr>) (lc_ledger c)\<rparr>"

definition empty_approval :: ApprovalEvidence where
  "empty_approval = \<lparr>ap_ApprovalID = [], ap_ApproverSubject = [], ap_ApproverRole = [], ap_ApprovedAt = 0, ap_ContentDigest = [],
     ap_DecisionHash = [], ap_ApprovalNotes = [], ap_MaxApprovalAge = 0\<rparr>"

definition Lifecycle_RegisterDraft ::
  "(string \<Rightarrow> string) \<Rightarrow> string \<Rightarrow> string \<Rightarrow> int \<Rightarrow> string \<Rightarrow> string \<Rightarrow> gotime \<Rightarrow> LifecycleController \<Rightarrow>
   (LifecycleController, publication_error, LifecycleManagedSnapshot) outcome" where
  "Lifecycle_RegisterDraft h tenantID snapshotID version contentDigest creatorSubject now c =
     (let tTenant = TrimSpace tenantID; tSnap = TrimSpace snapshotID; tDigest = TrimSpace contentDigest; key = makeLifecycleKey tTenant tSnap;
          snap = \<lparr>ls_SnapshotID = tSnap, ls_TenantID = tTenant, ls_Version = version, ls_State = StateDraft, ls_Approval = empty_approval,
            ls_Window = \<lparr>ew_EffectiveFrom = 0, ew_ExpiresAt = 0\<rparr>, ls_ContentDigest = tDigest, ls_SuccessorID = [], ls_WithdrawalReason = [],
            ls_WithdrawnBy = [], ls_ReplacementReason = [], ls_CreatedAt = now, ls_UpdatedAt = now\<rparr>
      in if tTenant = [] then (c, Inl ErrBlankTenantID)
      else if tSnap = [] then (c, Inl ErrBlankSnapshotID)
      else if tDigest = [] then (c, Inl (PublicationErrorf ''content digest must not be blank''))
      else if version \<le> 0 then (c, Inl ErrInvalidVersion)
      else if lc_snapshots c key \<noteq> None then (c, Inl (PublicationErrorf (''snapshot '' @ tSnap @ '' already registered'')))
      else (log_transition h (transition_record snap StateBlank StateDraft creatorSubject ''CREATOR'' now ''Initial draft registration'' [])
              (c\<lparr>lc_snapshots := (lc_snapshots c)(key \<mapsto> snap)\<rparr>), Inr snap))"

text \<open>
  The frame of the transitions: the snapshot is looked up, the body refuses it or gives the changed snapshot and the audit record, and both
  are stored.
\<close>

definition with_snapshot ::
  "(string \<Rightarrow> string) \<Rightarrow> string \<Rightarrow> string \<Rightarrow> (LifecycleManagedSnapshot \<Rightarrow> publication_error + LifecycleManagedSnapshot \<times> LifecycleAuditRecord) \<Rightarrow>
   LifecycleController \<Rightarrow> (LifecycleController, publication_error, LifecycleManagedSnapshot) outcome" where
  "with_snapshot h tenantID snapshotID body c =
     (let key = makeLifecycleKey tenantID snapshotID in
      case lc_snapshots c key of
        None \<Rightarrow> (c, Inl ErrSnapshotNotFound)
      | Some snap \<Rightarrow> (case body snap of
            Inl e \<Rightarrow> (c, Inl e)
          | Inr (snap', rec) \<Rightarrow> (log_transition h rec (c\<lparr>lc_snapshots := (lc_snapshots c)(key \<mapsto> snap')\<rparr>), Inr snap')))"

definition SubmitForReview_body ::
  "string \<Rightarrow> string \<Rightarrow> gotime \<Rightarrow> LifecycleManagedSnapshot \<Rightarrow> publication_error + LifecycleManagedSnapshot \<times> LifecycleAuditRecord" where
  "SubmitForReview_body submitter role now snap =
     (if ls_State snap \<noteq> StateDraft then Inl ErrIllegalStateTransition
      else Inr (snap\<lparr>ls_State := StateUnderReview, ls_UpdatedAt := now\<rparr>,
        transition_record snap StateDraft StateUnderReview submitter role now ''Submitted for publication review'' []))"

definition Lifecycle_SubmitForReview ::
  "(string \<Rightarrow> string) \<Rightarrow> string \<Rightarrow> string \<Rightarrow> string \<Rightarrow> string \<Rightarrow> gotime \<Rightarrow> LifecycleController \<Rightarrow>
   (LifecycleController, publication_error, LifecycleManagedSnapshot) outcome" where
  "Lifecycle_SubmitForReview h tenantID snapshotID submitter role now = with_snapshot h tenantID snapshotID (SubmitForReview_body submitter role now)"

definition Approve_body ::
  "string list \<Rightarrow> ApprovalEvidence \<Rightarrow> gotime \<Rightarrow> LifecycleManagedSnapshot \<Rightarrow> publication_error + LifecycleManagedSnapshot \<times> LifecycleAuditRecord" where
  "Approve_body roles evidence now snap =
     (if ls_State snap \<noteq> StateUnderReview then Inl ErrSnapshotNotUnderReview
      else if ap_ApproverRole evidence \<notin> set roles then Inl ErrUnauthorizedReviewer
      else if IsStale evidence now then Inl ErrStaleApproval
      else if ap_ContentDigest evidence \<noteq> ls_ContentDigest snap then Inl ErrApprovalDigestMismatch
      else Inr (snap\<lparr>ls_State := StateApproved, ls_Approval := evidence, ls_UpdatedAt := now\<rparr>,
        transition_record snap StateUnderReview StateApproved (ap_ApproverSubject evidence) (ap_ApproverRole evidence) now
          (ap_ApprovalNotes evidence) (ap_ApprovalID evidence)))"

definition Approve ::
  "(string \<Rightarrow> string) \<Rightarrow> string \<Rightarrow> string \<Rightarrow> ApprovalEvidence \<Rightarrow> gotime \<Rightarrow> LifecycleController \<Rightarrow>
   (LifecycleController, publication_error, LifecycleManagedSnapshot) outcome" where
  "Approve h tenantID snapshotID evidence now c = with_snapshot h tenantID snapshotID (Approve_body (lc_authorizedRoles c) evidence now) c"

definition Publish_body ::
  "string list \<Rightarrow> string \<Rightarrow> string \<Rightarrow> EffectiveWindow \<Rightarrow> gotime \<Rightarrow> LifecycleManagedSnapshot \<Rightarrow>
   publication_error + LifecycleManagedSnapshot \<times> LifecycleAuditRecord" where
  "Publish_body roles publisher role window now snap =
     (if ls_State snap = StatePublished then Inl ErrDuplicateTransition
      else if ls_State snap \<noteq> StateApproved then Inl ErrIllegalStateTransition
      else if role \<notin> set roles then Inl ErrUnauthorizedPublish
      else if IsStale (ls_Approval snap) now then Inl ErrStaleApproval
      else case Window_Validate window of Some e \<Rightarrow> Inl e | None \<Rightarrow>
        if IsExpired window now then Inl ErrSnapshotExpired
        else Inr (snap\<lparr>ls_State := StatePublished, ls_Window := window, ls_UpdatedAt := now\<rparr>,
          transition_record snap StateApproved StatePublished publisher role now ''Published within authorized effective window''
            (ap_ApprovalID (ls_Approval snap))))"

definition Publish ::
  "(string \<Rightarrow> string) \<Rightarrow> string \<Rightarrow> string \<Rightarrow> string \<Rightarrow> string \<Rightarrow> EffectiveWindow \<Rightarrow> gotime \<Rightarrow> LifecycleController \<Rightarrow>
   (LifecycleController, publication_error, LifecycleManagedSnapshot) outcome" where
  "Publish h tenantID snapshotID publisher role window now c =
     with_snapshot h tenantID snapshotID (Publish_body (lc_authorizedRoles c) publisher role window now) c"

definition Withdraw_body ::
  "string \<Rightarrow> string \<Rightarrow> string \<Rightarrow> gotime \<Rightarrow> LifecycleManagedSnapshot \<Rightarrow> publication_error + LifecycleManagedSnapshot \<times> LifecycleAuditRecord" where
  "Withdraw_body withdrawer role trimmedReason now snap =
     (if ls_State snap = StateWithdrawn then Inl ErrDuplicateTransition
      else if ls_State snap \<noteq> StatePublished \<and> ls_State snap \<noteq> StateApproved then Inl ErrIllegalStateTransition
      else Inr (snap\<lparr>ls_State := StateWithdrawn, ls_WithdrawalReason := trimmedReason, ls_WithdrawnBy := withdrawer, ls_UpdatedAt := now\<rparr>,
        transition_record snap (ls_State snap) StateWithdrawn withdrawer role now trimmedReason []))"

definition Withdraw ::
  "(string \<Rightarrow> string) \<Rightarrow> string \<Rightarrow> string \<Rightarrow> string \<Rightarrow> string \<Rightarrow> string \<Rightarrow> gotime \<Rightarrow> LifecycleController \<Rightarrow>
   (LifecycleController, publication_error, LifecycleManagedSnapshot) outcome" where
  "Withdraw h tenantID snapshotID withdrawer role reason now c =
     (let trimmedReason = TrimSpace reason in
      if trimmedReason = [] then (c, Inl ErrMissingWithdrawalReason)
      else if role \<notin> set (lc_authorizedRoles c) then (c, Inl ErrUnauthorizedReviewer)
      else with_snapshot h tenantID snapshotID (Withdraw_body withdrawer role trimmedReason now) c)"

definition Replace_body ::
  "string \<Rightarrow> string \<Rightarrow> string \<Rightarrow> string \<Rightarrow> gotime \<Rightarrow> LifecycleManagedSnapshot \<Rightarrow>
   publication_error + LifecycleManagedSnapshot \<times> LifecycleAuditRecord" where
  "Replace_body trimmedSuccessor actor role trimmedReason now snap =
     (if ls_State snap \<noteq> StatePublished then Inl ErrIllegalStateTransition
      else Inr (snap\<lparr>ls_State := StateReplaced, ls_SuccessorID := trimmedSuccessor, ls_ReplacementReason := trimmedReason, ls_UpdatedAt := now\<rparr>,
        transition_record snap StatePublished StateReplaced actor role now trimmedReason []))"

definition Replace ::
  "(string \<Rightarrow> string) \<Rightarrow> string \<Rightarrow> string \<Rightarrow> string \<Rightarrow> string \<Rightarrow> string \<Rightarrow> string \<Rightarrow> gotime \<Rightarrow> LifecycleController \<Rightarrow>
   (LifecycleController, publication_error, LifecycleManagedSnapshot) outcome" where
  "Replace h tenantID snapshotID successor actor role reason now c =
     (let trimmedSuccessor = TrimSpace successor; trimmedReason = TrimSpace reason in
      if trimmedSuccessor = [] then (c, Inl (PublicationErrorf ''successor snapshot ID must not be blank''))
      else if trimmedReason = [] then (c, Inl ErrMissingReplacementReason)
      else with_snapshot h tenantID snapshotID (Replace_body trimmedSuccessor actor role trimmedReason now) c)"

definition Supersede_body ::
  "string \<Rightarrow> string \<Rightarrow> string \<Rightarrow> gotime \<Rightarrow> LifecycleManagedSnapshot \<Rightarrow> publication_error + LifecycleManagedSnapshot \<times> LifecycleAuditRecord" where
  "Supersede_body trimmedSuccessor actor role now snap =
     (if ls_State snap \<noteq> StatePublished then Inl ErrIllegalStateTransition
      else Inr (snap\<lparr>ls_State := StateSuperseded, ls_SuccessorID := trimmedSuccessor, ls_UpdatedAt := now\<rparr>,
        transition_record snap StatePublished StateSuperseded actor role now (''Superseded by version '' @ trimmedSuccessor) []))"

definition Supersede ::
  "(string \<Rightarrow> string) \<Rightarrow> string \<Rightarrow> string \<Rightarrow> string \<Rightarrow> string \<Rightarrow> string \<Rightarrow> gotime \<Rightarrow> LifecycleController \<Rightarrow>
   (LifecycleController, publication_error, LifecycleManagedSnapshot) outcome" where
  "Supersede h tenantID snapshotID successor actor role now c =
     (let trimmedSuccessor = TrimSpace successor in
      if trimmedSuccessor = [] then (c, Inl (PublicationErrorf ''successor snapshot ID must not be blank''))
      else with_snapshot h tenantID snapshotID (Supersede_body trimmedSuccessor actor role now) c)"

definition Lifecycle_GetSnapshot :: "string \<Rightarrow> string \<Rightarrow> gotime \<Rightarrow> LifecycleController \<Rightarrow> publication_error + LifecycleManagedSnapshot" where
  "Lifecycle_GetSnapshot tenantID snapshotID now c =
     (case lc_snapshots c (makeLifecycleKey tenantID snapshotID) of
        None \<Rightarrow> Inl ErrSnapshotNotFound
      | Some snap \<Rightarrow> Inr (snap\<lparr>ls_State := Publication_EffectiveState snap now\<rparr>))"

definition GetActivePublishedSnapshot :: "string \<Rightarrow> string \<Rightarrow> gotime \<Rightarrow> LifecycleController \<Rightarrow> publication_error + LifecycleManagedSnapshot" where
  "GetActivePublishedSnapshot tenantID snapshotID now c =
     (case Lifecycle_GetSnapshot tenantID snapshotID now c of
        Inl e \<Rightarrow> Inl e
      | Inr snap \<Rightarrow>
          if ls_State snap = StateExpired then Inl ErrSnapshotExpired
          else if ls_State snap = StateWithdrawn then Inl ErrSnapshotWithdrawn
          else if ls_State snap = StateReplaced \<or> ls_State snap = StateSuperseded then Inl ErrIllegalStateTransition
          else if ls_State snap \<noteq> StatePublished then Inl ErrIllegalStateTransition
          else if \<not> IsEffective (ls_Window snap) now then Inl ErrNotYetEffective
          else Inr snap)"

subsection \<open>Calls and steps\<close>

datatype lifecycle_call =
  CallRegister string string int string string gotime
| CallSubmit string string string string gotime
| CallApprove string string ApprovalEvidence gotime
| CallPublish string string string string EffectiveWindow gotime
| CallWithdraw string string string string string gotime
| CallReplace string string string string string string gotime
| CallSupersede string string string string string gotime

fun lifecycle_exec ::
  "(string \<Rightarrow> string) \<Rightarrow> lifecycle_call \<Rightarrow> LifecycleController \<Rightarrow> (LifecycleController, publication_error, LifecycleManagedSnapshot) outcome" where
  "lifecycle_exec h (CallRegister t i v d who now) c = Lifecycle_RegisterDraft h t i v d who now c"
| "lifecycle_exec h (CallSubmit t i who role now) c = Lifecycle_SubmitForReview h t i who role now c"
| "lifecycle_exec h (CallApprove t i ev now) c = Approve h t i ev now c"
| "lifecycle_exec h (CallPublish t i who role w now) c = Publish h t i who role w now c"
| "lifecycle_exec h (CallWithdraw t i who role why now) c = Withdraw h t i who role why now c"
| "lifecycle_exec h (CallReplace t i succ who role why now) c = Replace h t i succ who role why now c"
| "lifecycle_exec h (CallSupersede t i succ who role now) c = Supersede h t i succ who role now c"

text \<open>The lifecycle as a step relation on one snapshot, each step with the record it leaves.\<close>

inductive publication_step ::
  "string list \<Rightarrow> LifecycleManagedSnapshot \<Rightarrow> LifecycleAuditRecord \<Rightarrow> LifecycleManagedSnapshot \<Rightarrow> bool" for roles where
  submit: "ls_State s = StateDraft \<Longrightarrow>
    publication_step roles s (transition_record s StateDraft StateUnderReview who role now why []) (s\<lparr>ls_State := StateUnderReview, ls_UpdatedAt := now\<rparr>)"
| approve: "ls_State s = StateUnderReview \<Longrightarrow> ap_ApproverRole ev \<in> set roles \<Longrightarrow> \<not> IsStale ev now \<Longrightarrow> ap_ContentDigest ev = ls_ContentDigest s \<Longrightarrow>
    publication_step roles s (transition_record s StateUnderReview StateApproved (ap_ApproverSubject ev) (ap_ApproverRole ev) now why (ap_ApprovalID ev))
      (s\<lparr>ls_State := StateApproved, ls_Approval := ev, ls_UpdatedAt := now\<rparr>)"
| publish: "ls_State s = StateApproved \<Longrightarrow> role \<in> set roles \<Longrightarrow> \<not> IsStale (ls_Approval s) now \<Longrightarrow> Window_Validate w = None \<Longrightarrow> \<not> IsExpired w now \<Longrightarrow>
    publication_step roles s (transition_record s StateApproved StatePublished who role now why (ap_ApprovalID (ls_Approval s)))
      (s\<lparr>ls_State := StatePublished, ls_Window := w, ls_UpdatedAt := now\<rparr>)"
| withdraw: "ls_State s \<in> {StateApproved, StatePublished} \<Longrightarrow> role \<in> set roles \<Longrightarrow> why \<noteq> [] \<Longrightarrow>
    publication_step roles s (transition_record s (ls_State s) StateWithdrawn who role now why [])
      (s\<lparr>ls_State := StateWithdrawn, ls_WithdrawalReason := why, ls_WithdrawnBy := who, ls_UpdatedAt := now\<rparr>)"
| replace: "ls_State s = StatePublished \<Longrightarrow> succ \<noteq> [] \<Longrightarrow> why \<noteq> [] \<Longrightarrow>
    publication_step roles s (transition_record s StatePublished StateReplaced who role now why [])
      (s\<lparr>ls_State := StateReplaced, ls_SuccessorID := succ, ls_ReplacementReason := why, ls_UpdatedAt := now\<rparr>)"
| supersede: "ls_State s = StatePublished \<Longrightarrow> succ \<noteq> [] \<Longrightarrow>
    publication_step roles s (transition_record s StatePublished StateSuperseded who role now why [])
      (s\<lparr>ls_State := StateSuperseded, ls_SuccessorID := succ, ls_UpdatedAt := now\<rparr>)"

lemma SubmitForReview_step: "SubmitForReview_body who role now s = Inr (s', rec) \<Longrightarrow> publication_step roles s rec s'"
  by (auto simp: SubmitForReview_body_def intro: publication_step.submit split: if_splits)

lemma Approve_step: "Approve_body roles ev now s = Inr (s', rec) \<Longrightarrow> publication_step roles s rec s'"
  by (auto simp: Approve_body_def intro: publication_step.approve split: if_splits)

lemma Publish_step: "Publish_body roles who role w now s = Inr (s', rec) \<Longrightarrow> publication_step roles s rec s'"
  by (auto simp: Publish_body_def intro: publication_step.publish split: if_splits option.splits)

lemma Withdraw_step:
  "Withdraw_body who role why now s = Inr (s', rec) \<Longrightarrow> role \<in> set roles \<Longrightarrow> why \<noteq> [] \<Longrightarrow> publication_step roles s rec s'"
  by (auto simp: Withdraw_body_def intro: publication_step.withdraw [of s] split: if_splits)

lemma Replace_step:
  "Replace_body succ who role why now s = Inr (s', rec) \<Longrightarrow> succ \<noteq> [] \<Longrightarrow> why \<noteq> [] \<Longrightarrow> publication_step roles s rec s'"
  by (auto simp: Replace_body_def intro: publication_step.replace split: if_splits)

lemma Supersede_step: "Supersede_body succ who role now s = Inr (s', rec) \<Longrightarrow> succ \<noteq> [] \<Longrightarrow> publication_step roles s rec s'"
  by (auto simp: Supersede_body_def intro: publication_step.supersede split: if_splits)

text \<open>What a call does: nothing, the registration of a draft under a free key, or a step of one stored snapshot; the last two are logged.\<close>

definition registers :: "(string \<Rightarrow> string) \<Rightarrow> LifecycleManagedSnapshot \<Rightarrow> LifecycleAuditRecord \<Rightarrow> LifecycleController \<Rightarrow> LifecycleController \<Rightarrow> bool" where
  "registers h s rec c c' \<longleftrightarrow> lc_snapshots c (makeLifecycleKey (ls_TenantID s) (ls_SnapshotID s)) = None \<and> ls_State s = StateDraft \<and>
     TrimSpace (ls_TenantID s) = ls_TenantID s \<and> TrimSpace (ls_SnapshotID s) = ls_SnapshotID s \<and> ls_TenantID s \<noteq> [] \<and> ls_SnapshotID s \<noteq> [] \<and>
     lr_TenantID rec = ls_TenantID s \<and> lr_SnapshotID rec = ls_SnapshotID s \<and> lr_FromState rec = StateBlank \<and> lr_ToState rec = StateDraft \<and>
     c' = log_transition h rec (c\<lparr>lc_snapshots := (lc_snapshots c)(makeLifecycleKey (ls_TenantID s) (ls_SnapshotID s) \<mapsto> s)\<rparr>)"

definition moves ::
  "(string \<Rightarrow> string) \<Rightarrow> string \<Rightarrow> LifecycleManagedSnapshot \<Rightarrow> LifecycleAuditRecord \<Rightarrow> LifecycleManagedSnapshot \<Rightarrow> LifecycleController \<Rightarrow>
   LifecycleController \<Rightarrow> bool" where
  "moves h k s rec s' c c' \<longleftrightarrow> lc_snapshots c k = Some s \<and> publication_step (lc_authorizedRoles c) s rec s' \<and>
     c' = log_transition h rec (c\<lparr>lc_snapshots := (lc_snapshots c)(k \<mapsto> s')\<rparr>)"

definition legal_outcome ::
  "(string \<Rightarrow> string) \<Rightarrow> LifecycleController \<Rightarrow> (LifecycleController, publication_error, LifecycleManagedSnapshot) outcome \<Rightarrow> bool" where
  "legal_outcome h c out \<longleftrightarrow> (\<exists>e. out = (c, Inl e)) \<or> (\<exists>s rec. registers h s rec c (fst out) \<and> snd out = Inr s) \<or>
     (\<exists>k s rec s'. moves h k s rec s' c (fst out) \<and> snd out = Inr s')"

lemma legal_outcome_error [simp]: "legal_outcome h c (c, Inl e)"
  by (simp add: legal_outcome_def)

lemma with_snapshot_moves:
  assumes "\<And>s s' rec. body s = Inr (s', rec) \<Longrightarrow> publication_step (lc_authorizedRoles c) s rec s'"
  shows "legal_outcome h c (with_snapshot h t i body c)"
proof (cases "lc_snapshots c (makeLifecycleKey t i)")
  case (Some s)
  show ?thesis
  proof (cases "body s")
    case (Inr out)
    obtain s' rec where "out = (s', rec)" by (cases out)
    with Inr Some assms [of s s' rec] have "moves h (makeLifecycleKey t i) s rec s' c (fst (with_snapshot h t i body c))"
      "snd (with_snapshot h t i body c) = Inr s'"
      by (simp_all add: moves_def with_snapshot_def Let_def)
    then show ?thesis unfolding legal_outcome_def by blast
  qed (use Some in \<open>simp add: with_snapshot_def Let_def\<close>)
qed (simp add: with_snapshot_def Let_def)

lemma Lifecycle_RegisterDraft_registers:
  "legal_outcome h c (Lifecycle_RegisterDraft h t i v d who now c)"
proof -
  define s where "s = \<lparr>ls_SnapshotID = TrimSpace i, ls_TenantID = TrimSpace t, ls_Version = v, ls_State = StateDraft, ls_Approval = empty_approval,
    ls_Window = \<lparr>ew_EffectiveFrom = 0, ew_ExpiresAt = 0\<rparr>, ls_ContentDigest = TrimSpace d, ls_SuccessorID = [], ls_WithdrawalReason = [],
    ls_WithdrawnBy = [], ls_ReplacementReason = [], ls_CreatedAt = now, ls_UpdatedAt = now\<rparr>"
  define rec where "rec = transition_record s StateBlank StateDraft who ''CREATOR'' now ''Initial draft registration'' []"
  let ?c = "log_transition h rec (c\<lparr>lc_snapshots := (lc_snapshots c)(makeLifecycleKey (ls_TenantID s) (ls_SnapshotID s) \<mapsto> s)\<rparr>)"
  have "registers h s rec c ?c"
    if "TrimSpace t \<noteq> []" "TrimSpace i \<noteq> []" "lc_snapshots c (makeLifecycleKey (ls_TenantID s) (ls_SnapshotID s)) = None"
    using that by (simp add: registers_def rec_def transition_record_def s_def)
  moreover have "(\<exists>e. Lifecycle_RegisterDraft h t i v d who now c = (c, Inl e)) \<or> TrimSpace t \<noteq> [] \<and> TrimSpace i \<noteq> [] \<and>
      lc_snapshots c (makeLifecycleKey (ls_TenantID s) (ls_SnapshotID s)) = None \<and> Lifecycle_RegisterDraft h t i v d who now c = (?c, Inr s)"
    unfolding Lifecycle_RegisterDraft_def Let_def s_def [symmetric] rec_def [symmetric] by (simp add: s_def)
  ultimately show ?thesis unfolding legal_outcome_def by (metis fst_conv snd_conv)
qed

lemma lifecycle_exec_legal: "legal_outcome h c (lifecycle_exec h call c)"
proof (cases call)
  case (CallRegister t i v d who now)
  then show ?thesis using Lifecycle_RegisterDraft_registers [of h c t i v d who now] by simp
next
  case (CallSubmit t i who role now)
  with with_snapshot_moves [of "SubmitForReview_body who role now" c h t i] SubmitForReview_step show ?thesis
    by (simp add: Lifecycle_SubmitForReview_def)
next
  case (CallApprove t i ev now)
  with with_snapshot_moves [of "Approve_body (lc_authorizedRoles c) ev now" c h t i] Approve_step show ?thesis by (simp add: Approve_def)
next
  case (CallPublish t i who role w now)
  with with_snapshot_moves [of "Publish_body (lc_authorizedRoles c) who role w now" c h t i] Publish_step show ?thesis by (simp add: Publish_def)
next
  case (CallWithdraw t i who role why now)
  with with_snapshot_moves [of "Withdraw_body who role (TrimSpace why) now" c h t i] Withdraw_step show ?thesis
    by (simp add: Withdraw_def Let_def)
next
  case (CallReplace t i succ who role why now)
  with with_snapshot_moves [of "Replace_body (TrimSpace succ) who role (TrimSpace why) now" c h t i] Replace_step show ?thesis
    by (simp add: Replace_def Let_def)
next
  case (CallSupersede t i succ who role now)
  with with_snapshot_moves [of "Supersede_body (TrimSpace succ) who role now" c h t i] Supersede_step show ?thesis
    by (simp add: Supersede_def Let_def)
qed

lemma lifecycle_exec_cases:
  obtains "fst (lifecycle_exec h call c) = c"
  | (registers) s rec where "registers h s rec c (fst (lifecycle_exec h call c))"
  | (moves) k s rec s' where "moves h k s rec s' c (fst (lifecycle_exec h call c))"
  using lifecycle_exec_legal [of h c call] that unfolding legal_outcome_def by (metis fst_conv)

subsection \<open>Invariant\<close>

definition history_of :: "LifecycleManagedSnapshot \<Rightarrow> LifecycleController \<Rightarrow> LifecycleAuditRecord list" where
  "history_of s c = filter (\<lambda>r. lr_TenantID r = ls_TenantID s \<and> lr_SnapshotID r = ls_SnapshotID s) (lc_ledger c)"

abbreviation state_path :: "LifecycleAuditRecord list \<Rightarrow> (LifecycleState \<times> LifecycleState) list" where
  "state_path rs \<equiv> map (\<lambda>r. (lr_FromState r, lr_ToState r)) rs"

text \<open>The evidence behind a state: a fitting approval, and a publication that was authorised, in time, with a valid window.\<close>

definition approved :: "string list \<Rightarrow> LifecycleManagedSnapshot \<Rightarrow> bool" where
  "approved roles s \<longleftrightarrow> ap_ApproverRole (ls_Approval s) \<in> set roles \<and> ap_ContentDigest (ls_Approval s) = ls_ContentDigest s"

definition was_published :: "string list \<Rightarrow> LifecycleManagedSnapshot \<Rightarrow> LifecycleAuditRecord list \<Rightarrow> bool" where
  "was_published roles s rs \<longleftrightarrow> Window_Validate (ls_Window s) = None \<and>
     (\<exists>r\<in>set rs. lr_ToState r = StatePublished \<and> lr_ActorRole r \<in> set roles \<and> lr_ApprovalID r = ap_ApprovalID (ls_Approval s) \<and>
        \<not> IsStale (ls_Approval s) (lr_Timestamp r) \<and> \<not> IsExpired (ls_Window s) (lr_Timestamp r))"

definition snapshot_inv :: "LifecycleController \<Rightarrow> string \<Rightarrow> LifecycleManagedSnapshot \<Rightarrow> bool" where
  "snapshot_inv c k s \<longleftrightarrow> k = makeLifecycleKey (ls_TenantID s) (ls_SnapshotID s) \<and> TrimSpace (ls_TenantID s) = ls_TenantID s \<and>
     TrimSpace (ls_SnapshotID s) = ls_SnapshotID s \<and> ls_TenantID s \<noteq> [] \<and> ls_SnapshotID s \<noteq> [] \<and>
     ls_State s \<noteq> StateBlank \<and> linked StateBlank (state_path (history_of s c)) (ls_State s) \<and>
     (ls_State s \<in> {StateApproved, StatePublished, StateWithdrawn, StateReplaced, StateSuperseded} \<longrightarrow> approved (lc_authorizedRoles c) s) \<and>
     (ls_State s \<in> {StatePublished, StateReplaced, StateSuperseded} \<longrightarrow> was_published (lc_authorizedRoles c) s (history_of s c))"

definition lifecycle_inv :: "(string \<Rightarrow> string) \<Rightarrow> LifecycleController \<Rightarrow> bool" where
  "lifecycle_inv h c \<longleftrightarrow> (\<forall>k s. lc_snapshots c k = Some s \<longrightarrow> snapshot_inv c k s) \<and>
     (\<forall>r\<in>set (lc_ledger c). \<exists>k s. lc_snapshots c k = Some s \<and> lr_TenantID r = ls_TenantID s \<and> lr_SnapshotID r = ls_SnapshotID s) \<and>
     lc_transitionSeq c = int (length (lc_ledger c)) \<and>
     (\<forall>i<length (lc_ledger c). lr_RecordID (lc_ledger c ! i) = ''audit_'' @ FormatInt (int i + 1) \<and>
        lr_AuditDigest (lc_ledger c ! i) = record_digest h (lc_ledger c ! i)) \<and>
     set (lc_authorizedRoles c) = {''AUDITOR'', ''TENANT_ADMIN''}"

text \<open>The record as it is stored.\<close>

definition stored_record :: "(string \<Rightarrow> string) \<Rightarrow> LifecycleController \<Rightarrow> LifecycleAuditRecord \<Rightarrow> LifecycleAuditRecord" where
  "stored_record h c rec = (let rec' = rec\<lparr>lr_RecordID := ''audit_'' @ FormatInt (lc_transitionSeq c + 1)\<rparr>
     in rec'\<lparr>lr_AuditDigest := record_digest h rec'\<rparr>)"

lemma log_transition_simps [simp]:
  "lc_snapshots (log_transition h rec c) = lc_snapshots c" "lc_ledger (log_transition h rec c) = lc_ledger c @ [stored_record h c rec]"
  "lc_authorizedRoles (log_transition h rec c) = lc_authorizedRoles c" "lc_transitionSeq (log_transition h rec c) = lc_transitionSeq c + 1"
  by (simp_all add: log_transition_def Ledger_AppendRecord_def stored_record_def Let_def)

lemma stored_record_simps [simp]:
  "lr_TenantID (stored_record h c rec) = lr_TenantID rec" "lr_SnapshotID (stored_record h c rec) = lr_SnapshotID rec"
  "lr_FromState (stored_record h c rec) = lr_FromState rec" "lr_ToState (stored_record h c rec) = lr_ToState rec"
  "lr_ActorRole (stored_record h c rec) = lr_ActorRole rec" "lr_ApprovalID (stored_record h c rec) = lr_ApprovalID rec"
  "lr_Timestamp (stored_record h c rec) = lr_Timestamp rec" "lr_RecordID (stored_record h c rec) = ''audit_'' @ FormatInt (lc_transitionSeq c + 1)"
  "lr_AuditDigest (stored_record h c rec) = record_digest h (stored_record h c rec)"
  by (simp_all add: stored_record_def Let_def record_digest_def)

lemma step_identity:
  "publication_step roles s rec s' \<Longrightarrow> ls_TenantID s' = ls_TenantID s \<and> ls_SnapshotID s' = ls_SnapshotID s \<and> ls_ContentDigest s' = ls_ContentDigest s \<and>
     lr_TenantID rec = ls_TenantID s \<and> lr_SnapshotID rec = ls_SnapshotID s \<and> lr_FromState rec = ls_State s \<and> lr_ToState rec = ls_State s'"
  by (induction rule: publication_step.induct) (simp_all add: transition_record_def)

lemma step_not_blank: "publication_step roles s rec s' \<Longrightarrow> ls_State s' \<noteq> StateBlank"
  by (induction rule: publication_step.induct) simp_all

lemma was_published_append: "was_published roles s rs \<Longrightarrow> was_published roles s (rs @ rs')"
  by (auto simp: was_published_def)

lemma step_evidence:
  assumes "publication_step roles s rec s'"
    and "ls_State s \<in> {StateApproved, StatePublished, StateWithdrawn, StateReplaced, StateSuperseded} \<longrightarrow> approved roles s"
    and "ls_State s \<in> {StatePublished, StateReplaced, StateSuperseded} \<longrightarrow> was_published roles s rs"
    and "lr_ToState r = lr_ToState rec" "lr_ActorRole r = lr_ActorRole rec" "lr_ApprovalID r = lr_ApprovalID rec" "lr_Timestamp r = lr_Timestamp rec"
  shows "(ls_State s' \<in> {StateApproved, StatePublished, StateWithdrawn, StateReplaced, StateSuperseded} \<longrightarrow> approved roles s') \<and>
    (ls_State s' \<in> {StatePublished, StateReplaced, StateSuperseded} \<longrightarrow> was_published roles s' (rs @ [r]))"
  using assms by (induction rule: publication_step.induct) (auto simp: approved_def was_published_def transition_record_def)

lemma ledger_numbered_snoc:
  assumes "\<forall>i<length l. lr_RecordID (l ! i) = ''audit_'' @ FormatInt (int i + 1) \<and> lr_AuditDigest (l ! i) = record_digest h (l ! i)"
    and "lr_RecordID r = ''audit_'' @ FormatInt (int (length l) + 1)" "lr_AuditDigest r = record_digest h r"
  shows "\<forall>i<length (l @ [r]). lr_RecordID ((l @ [r]) ! i) = ''audit_'' @ FormatInt (int i + 1) \<and>
    lr_AuditDigest ((l @ [r]) ! i) = record_digest h ((l @ [r]) ! i)"
  using assms by (auto simp: nth_append less_Suc_eq)

lemma history_of_log:
  "history_of s (log_transition h rec c) =
     history_of s c @ (if lr_TenantID rec = ls_TenantID s \<and> lr_SnapshotID rec = ls_SnapshotID s then [stored_record h c rec] else [])"
  by (simp add: history_of_def)

lemma history_of_snapshots [simp]: "history_of s (c\<lparr>lc_snapshots := m\<rparr>) = history_of s c"
  by (simp add: history_of_def)

lemma stored_record_snapshots [simp]: "stored_record h (c\<lparr>lc_snapshots := m\<rparr>) rec = stored_record h c rec"
  by (simp add: stored_record_def)

lemma history_of_same:
  "ls_TenantID s' = ls_TenantID s \<Longrightarrow> ls_SnapshotID s' = ls_SnapshotID s \<Longrightarrow> history_of s' c = history_of s c"
  by (simp add: history_of_def)

lemma snapshot_inv_key: "snapshot_inv c k s \<Longrightarrow> k = makeLifecycleKey (ls_TenantID s) (ls_SnapshotID s)"
  by (simp add: snapshot_inv_def)

lemma lifecycle_inv_log:
  assumes "lifecycle_inv h c" and c': "c' = log_transition h rec (c\<lparr>lc_snapshots := m\<rparr>)"
    and "\<And>k s. m k = Some s \<Longrightarrow> snapshot_inv c' k s"
    and "\<And>r. r \<in> set (lc_ledger c') \<Longrightarrow> \<exists>k s. lc_snapshots c' k = Some s \<and> lr_TenantID r = ls_TenantID s \<and> lr_SnapshotID r = ls_SnapshotID s"
  shows "lifecycle_inv h c'"
proof -
  have "\<forall>i<length (lc_ledger c'). lr_RecordID (lc_ledger c' ! i) = ''audit_'' @ FormatInt (int i + 1) \<and>
      lr_AuditDigest (lc_ledger c' ! i) = record_digest h (lc_ledger c' ! i)"
    using ledger_numbered_snoc [of "lc_ledger c" h "stored_record h c rec"] assms(1) by (simp add: lifecycle_inv_def c')
  then show ?thesis using assms(1) assms(3,4) unfolding lifecycle_inv_def by (simp add: c')
qed

lemma registers_inv:
  assumes "registers h s rec c c'" "lifecycle_inv h c"
  shows "lifecycle_inv h c'"
proof -
  let ?k = "makeLifecycleKey (ls_TenantID s) (ls_SnapshotID s)"
  have free: "lc_snapshots c ?k = None" and s: "ls_State s = StateDraft" "TrimSpace (ls_TenantID s) = ls_TenantID s"
      "TrimSpace (ls_SnapshotID s) = ls_SnapshotID s" "ls_TenantID s \<noteq> []" "ls_SnapshotID s \<noteq> []"
    and rec: "lr_TenantID rec = ls_TenantID s" "lr_SnapshotID rec = ls_SnapshotID s" "lr_FromState rec = StateBlank" "lr_ToState rec = StateDraft"
    and c': "c' = log_transition h rec (c\<lparr>lc_snapshots := (lc_snapshots c)(?k \<mapsto> s)\<rparr>)"
    using assms(1) unfolding registers_def by blast+
  have other: "\<not> (ls_TenantID x = ls_TenantID s \<and> ls_SnapshotID x = ls_SnapshotID s)" if "lc_snapshots c k = Some x" for k x
    using that free assms(2) snapshot_inv_key unfolding lifecycle_inv_def by (metis option.distinct(1))
  then have "history_of s c = []" using assms(2) unfolding lifecycle_inv_def history_of_def filter_empty_conv by metis
  then have "snapshot_inv c' ?k s" using s rec by (simp add: snapshot_inv_def c' history_of_log)
  moreover have "snapshot_inv c' k x" if "lc_snapshots c k = Some x" for k x
    using that assms(2) other [OF that] rec by (auto simp: lifecycle_inv_def snapshot_inv_def c' history_of_log)
  moreover have "\<exists>k x. lc_snapshots c' k = Some x \<and> lr_TenantID r = ls_TenantID x \<and> lr_SnapshotID r = ls_SnapshotID x" if "r \<in> set (lc_ledger c')" for r
  proof (cases "r \<in> set (lc_ledger c)")
    case True
    then obtain k x where "lc_snapshots c k = Some x" "lr_TenantID r = ls_TenantID x" "lr_SnapshotID r = ls_SnapshotID x"
      using assms(2) by (auto simp: lifecycle_inv_def)
    moreover from this(1) have "k \<noteq> ?k" using free by auto
    ultimately show ?thesis by (auto simp: c')
  next
    case False
    with that rec have "lr_TenantID r = ls_TenantID s" "lr_SnapshotID r = ls_SnapshotID s" by (auto simp: c')
    then show ?thesis by (auto simp: c' intro!: exI [of _ ?k])
  qed
  ultimately show ?thesis by (intro lifecycle_inv_log [OF assms(2) c']) (auto simp: c' split: if_splits)
qed

lemma moves_inv:
  assumes "moves h k s rec s' c c'" "lifecycle_inv h c"
  shows "lifecycle_inv h c'"
proof -
  let ?roles = "lc_authorizedRoles c"
  have s: "lc_snapshots c k = Some s" and step: "publication_step ?roles s rec s'"
    and c': "c' = log_transition h rec (c\<lparr>lc_snapshots := (lc_snapshots c)(k \<mapsto> s')\<rparr>)"
    using assms(1) unfolding moves_def by blast+
  note same = step_identity [OF step]
  have inv: "snapshot_inv c k s" using assms(2) s by (simp add: lifecycle_inv_def)
  have hist: "history_of s' c' = history_of s c @ [stored_record h c rec]"
    using same history_of_same [of s' s] by (simp add: c' history_of_log)
  have "(ls_State s' \<in> {StateApproved, StatePublished, StateWithdrawn, StateReplaced, StateSuperseded} \<longrightarrow> approved ?roles s') \<and>
      (ls_State s' \<in> {StatePublished, StateReplaced, StateSuperseded} \<longrightarrow> was_published ?roles s' (history_of s' c'))"
    unfolding hist using inv by (intro step_evidence [OF step]) (simp_all add: snapshot_inv_def)
  then have "snapshot_inv c' k s'" using inv same hist step_not_blank [OF step] by (simp add: snapshot_inv_def c')
  moreover have "snapshot_inv c' k' x" if "lc_snapshots c k' = Some x" "k' \<noteq> k" for k' x
  proof -
    have x: "snapshot_inv c k' x" using that(1) assms(2) by (simp add: lifecycle_inv_def)
    then have "\<not> (ls_TenantID s = ls_TenantID x \<and> ls_SnapshotID s = ls_SnapshotID x)"
      using snapshot_inv_key [OF inv] snapshot_inv_key [OF x] that(2) by metis
    then have "history_of x c' = history_of x c" using same by (auto simp: c' history_of_log)
    with x show ?thesis by (simp add: snapshot_inv_def c')
  qed
  moreover have "\<exists>k x. lc_snapshots c' k = Some x \<and> lr_TenantID r = ls_TenantID x \<and> lr_SnapshotID r = ls_SnapshotID x" if "r \<in> set (lc_ledger c')" for r
  proof (cases "r \<in> set (lc_ledger c)")
    case True
    then obtain k' x where x: "lc_snapshots c k' = Some x" "lr_TenantID r = ls_TenantID x" "lr_SnapshotID r = ls_SnapshotID x"
      using assms(2) by (auto simp: lifecycle_inv_def)
    show ?thesis
    proof (cases "k' = k")
      case True
      with x s same show ?thesis by (intro exI [of _ k] exI [of _ s']) (simp add: c')
    qed (use x in \<open>intro exI [of _ k'] exI [of _ x], simp add: c'\<close>)
  next
    case False
    with that same have "lr_TenantID r = ls_TenantID s'" "lr_SnapshotID r = ls_SnapshotID s'" by (auto simp: c')
    then show ?thesis by (auto simp: c' intro!: exI [of _ k])
  qed
  ultimately show ?thesis by (intro lifecycle_inv_log [OF assms(2) c']) (auto simp: c' split: if_splits)
qed

lemma lifecycle_exec_inv: "lifecycle_inv h c \<Longrightarrow> lifecycle_inv h (fst (lifecycle_exec h call c))"
  by (cases h call c rule: lifecycle_exec_cases) (auto intro: registers_inv moves_inv)

lemma lifecycle_inv_New: "lifecycle_inv h (NewLifecycleController None)"
  by (auto simp: lifecycle_inv_def NewLifecycleController_def)

definition final_publication :: "LifecycleManagedSnapshot \<Rightarrow> bool" where
  "final_publication s \<longleftrightarrow> ls_State s \<in> {StateWithdrawn, StateReplaced, StateSuperseded}"

lemma final_no_step: "publication_step roles s rec s' \<Longrightarrow> \<not> final_publication s"
  by (induction rule: publication_step.induct) (auto simp: final_publication_def)

interpretation publication_log: journaled "lifecycle_exec h" "lifecycle_inv h" "\<lambda>_. True" "\<lambda>(_ :: unit) c. lc_ledger c"
proof unfold_locales
  fix c :: LifecycleController and call and k :: unit
  show "prefix (lc_ledger c) (lc_ledger (fst (lifecycle_exec h call c)))"
    by (cases h call c rule: lifecycle_exec_cases) (auto simp: registers_def moves_def)
qed (rule lifecycle_exec_inv)

interpretation ended_publications: absorbing "lifecycle_exec h" "lifecycle_inv h" "\<lambda>_. True" "\<lambda>k c. lc_snapshots c k" final_publication
proof unfold_locales
  fix c :: LifecycleController and call k s
  assume "lc_snapshots c k = Some s" "final_publication s"
  then show "lc_snapshots (fst (lifecycle_exec h call c)) k = Some s"
    by (cases h call c rule: lifecycle_exec_cases) (auto simp: registers_def moves_def dest: final_no_step)
qed

lemma reachable_lifecycle_inv: "lifecycle_inv h (run_calls (lifecycle_exec h) cs (NewLifecycleController None))"
  by (rule publication_log.run_inv [OF lifecycle_inv_New]) simp

lemma GetActive_Inr:
  "GetActivePublishedSnapshot t i now c = Inr s \<longleftrightarrow> lc_snapshots c (makeLifecycleKey t i) = Some s \<and> ls_State s = StatePublished \<and>
     ew_EffectiveFrom (ls_Window s) \<le> now \<and> now < ew_ExpiresAt (ls_Window s)"
proof -
  have "(s :: LifecycleManagedSnapshot)\<lparr>ls_State := ls_State s\<rparr> = s" for s by simp
  then show ?thesis
    by (auto simp: GetActivePublishedSnapshot_def Lifecycle_GetSnapshot_def Publication_EffectiveState_def IsExpired_def IsEffective_def After_def
        split: option.splits)
qed

subsection \<open>Properties\<close>

text \<open>
  (C28) What is shown as active was authorised: in every reachable controller, an active publication was approved by an auditor or tenant administrator
  for exactly its content, and published by one of these roles at a moment at which that approval was not stale and the window not over;
  the window is at most 365 days long and contains the present.
\<close>

theorem active_publication_authorized:
  assumes "c = run_calls (lifecycle_exec h) cs (NewLifecycleController None)" and "GetActivePublishedSnapshot t i now c = Inr s"
  shows "ap_ApproverRole (ls_Approval s) \<in> {''AUDITOR'', ''TENANT_ADMIN''} \<and> ap_ContentDigest (ls_Approval s) = ls_ContentDigest s \<and>
    (\<exists>r\<in>set (lc_ledger c). lr_TenantID r = ls_TenantID s \<and> lr_SnapshotID r = ls_SnapshotID s \<and> lr_ToState r = StatePublished \<and>
       lr_ActorRole r \<in> {''AUDITOR'', ''TENANT_ADMIN''} \<and> lr_ApprovalID r = ap_ApprovalID (ls_Approval s) \<and>
       \<not> IsStale (ls_Approval s) (lr_Timestamp r) \<and> lr_Timestamp r < ew_ExpiresAt (ls_Window s)) \<and>
    ew_EffectiveFrom (ls_Window s) \<le> now \<and> now < ew_ExpiresAt (ls_Window s) \<and>
    ew_ExpiresAt (ls_Window s) - ew_EffectiveFrom (ls_Window s) \<le> MaxPublicationWindowDuration"
proof -
  have inv: "lifecycle_inv h c" unfolding assms(1) by (rule reachable_lifecycle_inv)
  from assms(2) have s: "lc_snapshots c (makeLifecycleKey t i) = Some s" "ls_State s = StatePublished"
      "ew_EffectiveFrom (ls_Window s) \<le> now" "now < ew_ExpiresAt (ls_Window s)" by (simp_all add: GetActive_Inr)
  have roles: "set (lc_authorizedRoles c) = {''AUDITOR'', ''TENANT_ADMIN''}" using inv by (simp add: lifecycle_inv_def)
  have "snapshot_inv c (makeLifecycleKey t i) s" using inv s(1) by (simp add: lifecycle_inv_def)
  then have app: "approved (lc_authorizedRoles c) s" and published: "was_published (lc_authorizedRoles c) s (history_of s c)"
    using s(2) by (simp_all add: snapshot_inv_def)
  then obtain r where r: "r \<in> set (history_of s c)" "lr_ToState r = StatePublished" "lr_ActorRole r \<in> {''AUDITOR'', ''TENANT_ADMIN''}"
      "lr_ApprovalID r = ap_ApprovalID (ls_Approval s)" "\<not> IsStale (ls_Approval s) (lr_Timestamp r)" "\<not> IsExpired (ls_Window s) (lr_Timestamp r)"
    unfolding was_published_def roles by blast
  then have "r \<in> set (lc_ledger c)" "lr_TenantID r = ls_TenantID s" "lr_SnapshotID r = ls_SnapshotID s" "lr_Timestamp r < ew_ExpiresAt (ls_Window s)"
    by (simp_all add: history_of_def IsExpired_def After_def)
  with r have "\<exists>r\<in>set (lc_ledger c). lr_TenantID r = ls_TenantID s \<and> lr_SnapshotID r = ls_SnapshotID s \<and> lr_ToState r = StatePublished \<and>
       lr_ActorRole r \<in> {''AUDITOR'', ''TENANT_ADMIN''} \<and> lr_ApprovalID r = ap_ApprovalID (ls_Approval s) \<and>
       \<not> IsStale (ls_Approval s) (lr_Timestamp r) \<and> lr_Timestamp r < ew_ExpiresAt (ls_Window s)" by blast
  moreover have "ap_ApproverRole (ls_Approval s) \<in> {''AUDITOR'', ''TENANT_ADMIN''} \<and> ap_ContentDigest (ls_Approval s) = ls_ContentDigest s"
    using app unfolding approved_def roles by blast
  moreover have "ew_ExpiresAt (ls_Window s) - ew_EffectiveFrom (ls_Window s) \<le> MaxPublicationWindowDuration"
    using published by (auto simp: was_published_def Window_Validate_def Time_Sub_def MaxPublicationWindowDuration_def split: if_splits)
  ultimately show ?thesis using s(3,4) by blast
qed

text \<open>
  Histories are complete: the history of a registered snapshot is a path of states without gaps from nothing to its current state, and the
  ledger numbers its records from 1, carries the digest of each, and only ever grows.
\<close>

theorem publication_history_complete:
  assumes "c = run_calls (lifecycle_exec h) cs (NewLifecycleController None)" and "lc_snapshots c (makeLifecycleKey t i) = Some s"
  shows "\<exists>rs. GetHistory (ls_TenantID s) (ls_SnapshotID s) (lc_ledger c) = Inr rs \<and> rs \<noteq> [] \<and>
      linked StateBlank (map (\<lambda>r. (lr_FromState r, lr_ToState r)) rs) (ls_State s) \<and>
    (\<forall>n<length (lc_ledger c). lr_RecordID (lc_ledger c ! n) = ''audit_'' @ FormatInt (int n + 1) \<and>
      lr_AuditDigest (lc_ledger c ! n) = record_digest h (lc_ledger c ! n)) \<and>
    prefix (lc_ledger c) (lc_ledger (run_calls (lifecycle_exec h) ds c))"
proof -
  have inv: "lifecycle_inv h c" unfolding assms(1) by (rule reachable_lifecycle_inv)
  then have s: "snapshot_inv c (makeLifecycleKey t i) s" using assms(2) by (simp add: lifecycle_inv_def)
  then have "GetHistory (ls_TenantID s) (ls_SnapshotID s) (lc_ledger c) = Inr (history_of s c)"
    by (simp add: GetHistory_def history_of_def snapshot_inv_def)
  moreover have path: "linked StateBlank (state_path (history_of s c)) (ls_State s)" using s by (simp add: snapshot_inv_def)
  moreover have "history_of s c \<noteq> []"
  proof
    assume "history_of s c = []"
    with path have "ls_State s = StateBlank" by simp
    with s show False by (simp add: snapshot_inv_def)
  qed
  moreover have "prefix (lc_ledger c) (lc_ledger (run_calls (lifecycle_exec h) ds c))"
    using publication_log.run_journal [OF inv] by simp
  ultimately show ?thesis using inv by (simp add: lifecycle_inv_def)
qed

text \<open>
  A withdrawn, replaced or superseded publication stays so: no later call changes it, and it is never shown as active again.
\<close>

theorem ended_publication_final:
  assumes "c = run_calls (lifecycle_exec h) cs (NewLifecycleController None)" and "lc_snapshots c (makeLifecycleKey t i) = Some s"
    and "ls_State s \<in> {StateWithdrawn, StateReplaced, StateSuperseded}"
  shows "lc_snapshots (run_calls (lifecycle_exec h) ds c) (makeLifecycleKey t i) = Some s \<and>
    (\<exists>e. GetActivePublishedSnapshot t i now (run_calls (lifecycle_exec h) ds c) = Inl e)"
proof -
  have inv: "lifecycle_inv h c" unfolding assms(1) by (rule reachable_lifecycle_inv)
  have "final_publication s" using assms(3) by (simp add: final_publication_def)
  from ended_publications.run_final [OF inv _ assms(2) this]
  have stays: "lc_snapshots (run_calls (lifecycle_exec h) ds c) (makeLifecycleKey t i) = Some s" by simp
  moreover have "GetActivePublishedSnapshot t i now (run_calls (lifecycle_exec h) ds c) \<noteq> Inr x" for x
    using stays assms(3) by (auto simp: GetActive_Inr)
  ultimately show ?thesis by (metis sum.exhaust)
qed

text \<open>
  Every call that succeeds is one step of the lifecycle: it registers a draft under a free key, or takes one stored snapshot along one step of the
  relation; either way exactly one record is appended, which names the states before and after; a call that fails changes nothing.
\<close>

theorem lifecycle_call_is_step:
  assumes "lifecycle_exec h call c = (c', res)"
  shows "(case res of Inl e \<Rightarrow> c' = c
    | Inr s' \<Rightarrow> \<exists>rec k. lc_snapshots c' = (lc_snapshots c)(k \<mapsto> s') \<and> lc_ledger c' = lc_ledger c @ [rec] \<and> lr_ToState rec = ls_State s' \<and>
        (case lc_snapshots c k of None \<Rightarrow> ls_State s' = StateDraft \<and> lr_FromState rec = StateBlank
         | Some s \<Rightarrow> lr_FromState rec = ls_State s \<and> (\<exists>rec'. publication_step (lc_authorizedRoles c) s rec' s')))"
proof -
  have "legal_outcome h c (c', res)" using lifecycle_exec_legal [of h c call] assms by simp
  then consider e where "c' = c" "res = Inl e" | s' rec where "registers h s' rec c c'" "res = Inr s'"
    | k s rec s' where "moves h k s rec s' c c'" "res = Inr s'" by (auto simp: legal_outcome_def)
  then show ?thesis
  proof cases
    case (2 s' rec)
    let ?k = "makeLifecycleKey (ls_TenantID s') (ls_SnapshotID s')"
    from 2(1) have "lc_snapshots c' = (lc_snapshots c)(?k \<mapsto> s')" "lc_ledger c' = lc_ledger c @ [stored_record h c rec]" "lc_snapshots c ?k = None"
      "ls_State s' = StateDraft" "lr_FromState rec = StateBlank" "lr_ToState rec = StateDraft" by (simp_all add: registers_def)
    then show ?thesis unfolding 2(2) sum.case by (intro exI [of _ "stored_record h c rec"] exI [of _ ?k]) simp
  next
    case (3 k s rec s')
    then have step: "publication_step (lc_authorizedRoles c) s rec s'" and "lc_snapshots c' = (lc_snapshots c)(k \<mapsto> s')"
      "lc_ledger c' = lc_ledger c @ [stored_record h c rec]" "lc_snapshots c k = Some s" by (simp_all add: moves_def)
    moreover from step have "\<exists>rec'. publication_step (lc_authorizedRoles c) s rec' s'" by blast
    ultimately show ?thesis using step_identity [OF step] unfolding 3(2) sum.case
      by (intro exI [of _ "stored_record h c rec"] exI [of _ k]) simp
  qed simp
qed

subsection \<open>Witnesses\<close>

definition example_evidence :: ApprovalEvidence where
  "example_evidence = \<lparr>ap_ApprovalID = ''a1'', ap_ApproverSubject = ''aud'', ap_ApproverRole = ''AUDITOR'', ap_ApprovedAt = 10,
     ap_ContentDigest = ''d1'', ap_DecisionHash = [], ap_ApprovalNotes = [], ap_MaxApprovalAge = 50\<rparr>"

definition example_window :: EffectiveWindow where
  "example_window = \<lparr>ew_EffectiveFrom = 20, ew_ExpiresAt = 100\<rparr>"

definition example_lifecycle :: "lifecycle_call list" where
  "example_lifecycle = [CallRegister ''ten_1'' ''s1'' 1 ''d1'' ''ann'' 5, CallSubmit ''ten_1'' ''s1'' ''ann'' ''AUTHOR'' 6,
     CallApprove ''ten_1'' ''s1'' example_evidence 15, CallPublish ''ten_1'' ''s1'' ''adm'' ''TENANT_ADMIN'' example_window 20]"

lemmas lifecycle_eval = Lifecycle_RegisterDraft_def Lifecycle_SubmitForReview_def Approve_def Publish_def Withdraw_def Replace_def Supersede_def
  with_snapshot_def SubmitForReview_body_def Approve_body_def Publish_body_def Withdraw_body_def Replace_body_def Supersede_body_def
  Window_Validate_def IsStale_def Time_Sub_def IsExpired_def After_def IsZero_def MaxPublicationWindowDuration_def
  NewLifecycleController_def transition_record_def makeLifecycleKey_def Let_def

lemma example_published:
  "\<exists>s. lc_snapshots (run_calls (lifecycle_exec h) example_lifecycle (NewLifecycleController None)) (makeLifecycleKey ''ten_1'' ''s1'') = Some s \<and>
     ls_State s = StatePublished \<and> ls_Window s = example_window \<and> ls_TenantID s = ''ten_1'' \<and> ls_SnapshotID s = ''s1''"
  by (simp add: example_lifecycle_def lifecycle_eval example_evidence_def example_window_def)

theorem active_publication_authorized_witness:
  "\<exists>s :: LifecycleManagedSnapshot. ls_State s = StatePublished \<and> ew_ExpiresAt (ls_Window s) = 100 \<and> ap_ContentDigest (ls_Approval s) = ls_ContentDigest s"
proof -
  let ?c = "run_calls (lifecycle_exec (\<lambda>_. [])) example_lifecycle (NewLifecycleController None)"
  obtain s where s: "lc_snapshots ?c (makeLifecycleKey ''ten_1'' ''s1'') = Some s" "ls_State s = StatePublished" "ls_Window s = example_window"
    using example_published by blast
  then have active: "GetActivePublishedSnapshot ''ten_1'' ''s1'' 30 ?c = Inr s" by (simp add: GetActive_Inr example_window_def)
  have "ew_ExpiresAt (ls_Window s) = 100" using s(3) by (simp add: example_window_def)
  then show ?thesis using active_publication_authorized [OF refl active] s(2) by blast
qed

theorem publication_history_complete_witness:
  "\<exists>rs :: LifecycleAuditRecord list. rs \<noteq> [] \<and> linked StateBlank (map (\<lambda>r. (lr_FromState r, lr_ToState r)) rs) StatePublished"
proof -
  let ?c = "run_calls (lifecycle_exec (\<lambda>_. [])) example_lifecycle (NewLifecycleController None)"
  obtain s where s: "lc_snapshots ?c (makeLifecycleKey ''ten_1'' ''s1'') = Some s" "ls_State s = StatePublished"
    using example_published by blast
  from publication_history_complete [OF refl s(1), of "[]"] s(2) show ?thesis by auto
qed

theorem ended_publication_final_witness:
  "\<exists>c e. GetActivePublishedSnapshot ''ten_1'' ''s1'' 40 c = Inl e"
proof -
  let ?exec = "lifecycle_exec (\<lambda>_. [])"
  let ?cs = "example_lifecycle @ [CallWithdraw ''ten_1'' ''s1'' ''adm'' ''TENANT_ADMIN'' ''wrong'' 30]"
  let ?c = "run_calls ?exec ?cs (NewLifecycleController None)"
  have "\<exists>s. lc_snapshots ?c (makeLifecycleKey ''ten_1'' ''s1'') = Some s \<and> ls_State s = StateWithdrawn"
    by (simp add: example_lifecycle_def lifecycle_eval example_evidence_def example_window_def)
  then obtain s where s: "lc_snapshots ?c (makeLifecycleKey ''ten_1'' ''s1'') = Some s" "ls_State s = StateWithdrawn" by blast
  then have "ls_State s \<in> {StateWithdrawn, StateReplaced, StateSuperseded}" by simp
  from ended_publication_final [OF refl s(1) this, of "[CallSubmit ''ten_1'' ''s1'' ''ann'' ''AUTHOR'' 35]" 40] show ?thesis by blast
qed

theorem lifecycle_call_is_step_witness:
  "\<exists>(c' :: LifecycleController) (s' :: LifecycleManagedSnapshot) (rec :: LifecycleAuditRecord) k. lc_snapshots c' k = Some s' \<and> lc_ledger c' = [rec] \<and> lr_ToState rec = ls_State s'"
proof -
  let ?c = "NewLifecycleController None"
  have "\<exists>c' s'. lifecycle_exec (\<lambda>_. []) (CallRegister ''ten_1'' ''s1'' 1 ''d1'' ''ann'' 5) ?c = (c', Inr s')" by (simp add: lifecycle_eval)
  then obtain c' s' where "lifecycle_exec (\<lambda>_. []) (CallRegister ''ten_1'' ''s1'' 1 ''d1'' ''ann'' 5) ?c = (c', Inr s')" by blast
  from lifecycle_call_is_step [OF this] have "\<exists>rec k. lc_snapshots c' k = Some s' \<and> lc_ledger c' = [rec] \<and> lr_ToState rec = ls_State s'"
    by (auto simp: NewLifecycleController_def)
  then show ?thesis by blast
qed

subsection \<open>Where the code falls short\<close>

text \<open>
  \<open>Replace\<close> and \<open>Supersede\<close> check no role, unlike every other transition of an approved snapshot: anybody takes a publication off the air,
  and the successor need not exist.
\<close>

theorem replacement_needs_no_authority:
  assumes "lc_snapshots c (makeLifecycleKey t i) = Some s" and "ls_State s = StatePublished"
  shows "\<exists>c' s'. Replace h t i ''ghost'' ''mallory'' ''VISITOR'' ''just because'' now c = (c', Inr s') \<and> ls_State s' = StateReplaced \<and>
    GetActivePublishedSnapshot t i now c' \<noteq> Inr x"
  using assms by (auto simp: Replace_def with_snapshot_def Replace_body_def Let_def GetActive_Inr)

text \<open>An approval dated in the future is never stale before its date, so its age limit does not bind until then.\<close>

theorem future_approval_never_stale:
  assumes "now < ap_ApprovedAt ev" and "ap_ApprovedAt ev \<noteq> 0"
  shows "\<not> IsStale ev now"
  using assms by (simp add: IsStale_def IsZero_def)

text \<open>The maximum of 7 days is only a default: evidence may claim any validity, here ten years.\<close>

theorem approval_age_is_claimed:
  "\<exists>ev. NewApprovalEvidence h ''a1'' ''aud'' ''AUDITOR'' 10 ''d1'' [] (3650 * 24 * 3600 * 1000000000) = Inr ev \<and>
     \<not> IsStale ev (10 + 3649 * 24 * 3600 * 1000000000)"
  by (simp add: NewApprovalEvidence_def IsStale_def IsZero_def Time_Sub_def)

end
