(* ===== verification/Publication_Store.thy ===== *)
theory Publication_Store
  imports Publication_Lifecycle
begin

text \<open>
  The immutable store of published versions, \<open>modules/publication-snapshot/immutable_publication.go\<close>: sealing, lineage, replacement links,
  and the reconstruction of the audit trail. The text of a finding of the audit is abstracted to its kind and numbers. An absent list of
  versions or lineage entries is the empty one, as no method makes an empty list.
\<close>

subsection \<open>Data\<close>

datatype ReplacementType = ReplacementCorrection | ReplacementSuperseded | ReplacementWithdrawal | ReplacementOther string

record ImmutablePublicationRecord =
  ir_RecordID :: string
  ir_TenantID :: string
  ir_SnapshotID :: string
  ir_Version :: int
  ir_Payload :: payload
  ir_Source :: SourceEntityRef
  ir_Approval :: ApprovalEvidence
  ir_Window :: EffectiveWindow
  ir_PayloadDigest :: string
  ir_SignatureDigest :: string
  ir_PredecessorVersion :: int
  ir_PredecessorDigest :: string
  ir_SuccessorVersion :: int
  ir_SuccessorDigest :: string
  ir_ReplacementType :: ReplacementType
  ir_ReplacementReason :: string
  ir_StoredAt :: gotime

definition DeepCopy :: "ImmutablePublicationRecord \<Rightarrow> ImmutablePublicationRecord" where
  "DeepCopy r = r\<lparr>ir_Payload := deepCopyMap (ir_Payload r)\<rparr>"

record SourceDriftStatus =
  dr_SnapshotID :: string
  dr_Version :: int
  dr_PublishedDigest :: string
  dr_CurrentSourceDigest :: string
  dr_HasDrifted :: bool
  dr_CheckedAt :: gotime

record PublicationLineageRecord =
  ln_Version :: int
  ln_PayloadDigest :: string
  ln_SignatureDigest :: string
  ln_PredecessorVersion :: int
  ln_PredecessorDigest :: string
  ln_StoredAt :: gotime

datatype AuditVerificationStatus = StatusVerifiedIntact | StatusTamperDetected

datatype audit_finding =
  MissingVersion int
| NonContiguousVersion nat int
| PredecessorVersionMismatch int int int
| PredecessorDigestMismatch int
| PayloadDigestFailed int
| PayloadDigestTampered int
| SignatureDigestTampered int

record AuditReconstructionReport =
  ar_TenantID :: string
  ar_SnapshotID :: string
  ar_Status :: AuditVerificationStatus
  ar_TotalVersions :: nat
  ar_LineageChainDigest :: string
  ar_VerifiedAt :: gotime
  ar_Findings :: "audit_finding list"

record ImmutablePublicationStore =
  is_store :: "string \<rightharpoonup> ImmutablePublicationRecord"
  is_versions :: "string \<Rightarrow> int list"
  is_lineageIndex :: "string \<Rightarrow> PublicationLineageRecord list"

definition NewImmutablePublicationStore :: ImmutablePublicationStore where
  "NewImmutablePublicationStore = \<lparr>is_store = Map.empty, is_versions = (\<lambda>_. []), is_lineageIndex = (\<lambda>_. [])\<rparr>"

definition makeImmutableKey :: "string \<Rightarrow> string \<Rightarrow> int \<Rightarrow> string" where
  "makeImmutableKey tenantID snapshotID version = TrimSpace tenantID @ '':'' @ TrimSpace snapshotID @ '':v'' @ FormatInt version"

definition makeSnapshotBaseKey :: "string \<Rightarrow> string \<Rightarrow> string" where
  "makeSnapshotBaseKey tenantID snapshotID = TrimSpace tenantID @ '':'' @ TrimSpace snapshotID"

subsection \<open>Sealing\<close>

text \<open>The checks on the predecessor: a version after the first names the version before it, which is stored, and its signature.\<close>

definition predecessor_error ::
  "string \<Rightarrow> string \<Rightarrow> int \<Rightarrow> int \<Rightarrow> string \<Rightarrow> ImmutablePublicationStore \<Rightarrow> publication_error option" where
  "predecessor_error tTenant tSnap version predecessorVersion predecessorDigest s =
     (if 1 < version then
        (if predecessorVersion \<noteq> version - 1 then Some ErrInvalidPredecessor
         else case is_store s (makeImmutableKey tTenant tSnap predecessorVersion) of
            None \<Rightarrow> Some ErrBrokenLineageChain
          | Some predRecord \<Rightarrow> if ir_SignatureDigest predRecord \<noteq> predecessorDigest then Some ErrBrokenLineageChain else None)
      else if predecessorVersion \<noteq> 0 \<or> predecessorDigest \<noteq> [] then Some ErrInvalidPredecessor
      else None)"

definition sealed_record ::
  "string \<Rightarrow> string \<Rightarrow> int \<Rightarrow> payload \<Rightarrow> SourceEntityRef \<Rightarrow> ApprovalEvidence \<Rightarrow> EffectiveWindow \<Rightarrow> string \<Rightarrow> string \<Rightarrow> int \<Rightarrow> string \<Rightarrow> gotime \<Rightarrow>
   ImmutablePublicationRecord" where
  "sealed_record tTenant tSnap version payload source approval window payloadDigest sigDigest predecessorVersion predecessorDigest now =
     \<lparr>ir_RecordID = ''rec_'' @ tSnap @ ''_v'' @ FormatInt version, ir_TenantID = tTenant, ir_SnapshotID = tSnap, ir_Version = version,
      ir_Payload = deepCopyMap payload, ir_Source = source, ir_Approval = approval, ir_Window = window, ir_PayloadDigest = payloadDigest,
      ir_SignatureDigest = sigDigest, ir_PredecessorVersion = predecessorVersion, ir_PredecessorDigest = predecessorDigest,
      ir_SuccessorVersion = 0, ir_SuccessorDigest = [], ir_ReplacementType = ReplacementOther [], ir_ReplacementReason = [], ir_StoredAt = now\<rparr>"

text \<open>The successor link that the predecessor gets; the code indexes the map, and the record is there when the number is positive.\<close>

definition link_successor :: "int \<Rightarrow> string \<Rightarrow> ImmutablePublicationRecord \<Rightarrow> ImmutablePublicationRecord" where
  "link_successor version sigDigest r =
     r\<lparr>ir_SuccessorVersion := version, ir_SuccessorDigest := sigDigest, ir_ReplacementType := ReplacementSuperseded\<rparr>"

text \<open>The writes of \<open>StorePublishedVersion\<close> once everything is checked.\<close>

definition seal_version :: "string \<Rightarrow> string \<Rightarrow> ImmutablePublicationRecord \<Rightarrow> ImmutablePublicationStore \<Rightarrow> ImmutablePublicationStore" where
  "seal_version tTenant tSnap rec s =
     (let key = makeImmutableKey tTenant tSnap (ir_Version rec); baseKey = makeSnapshotBaseKey tTenant tSnap;
          predKey = makeImmutableKey tTenant tSnap (ir_PredecessorVersion rec); stored = (is_store s)(key \<mapsto> rec);
          entry = \<lparr>ln_Version = ir_Version rec, ln_PayloadDigest = ir_PayloadDigest rec, ln_SignatureDigest = ir_SignatureDigest rec,
            ln_PredecessorVersion = ir_PredecessorVersion rec, ln_PredecessorDigest = ir_PredecessorDigest rec, ln_StoredAt = ir_StoredAt rec\<rparr>
      in \<lparr>is_store = (if 0 < ir_PredecessorVersion rec
             then stored(predKey := map_option (link_successor (ir_Version rec) (ir_SignatureDigest rec)) (stored predKey)) else stored),
          is_versions = (is_versions s)(baseKey := sort (is_versions s baseKey @ [ir_Version rec])),
          is_lineageIndex = (is_lineageIndex s)(baseKey := is_lineageIndex s baseKey @ [entry])\<rparr>)"

definition StorePublishedVersion ::
  "(go_value \<Rightarrow> string option) \<Rightarrow> (string \<Rightarrow> string) \<Rightarrow> string \<Rightarrow> string \<Rightarrow> int \<Rightarrow> payload \<Rightarrow> SourceEntityRef \<Rightarrow> ApprovalEvidence \<Rightarrow> EffectiveWindow \<Rightarrow>
   int \<Rightarrow> string \<Rightarrow> gotime \<Rightarrow> ImmutablePublicationStore \<Rightarrow> (ImmutablePublicationStore, publication_error, ImmutablePublicationRecord) outcome" where
  "StorePublishedVersion marshal h tenantID snapshotID version payload source approval window predecessorVersion predecessorDigest now s =
     (let tTenant = TrimSpace tenantID; tSnap = TrimSpace snapshotID
      in if tTenant = [] then (s, Inl ErrBlankTenantID)
      else if tSnap = [] then (s, Inl ErrBlankSnapshotID)
      else if version \<le> 0 then (s, Inl ErrInvalidVersion)
      else case Source_Validate source of Some e \<Rightarrow> (s, Inl e) | None \<Rightarrow>
        if se_SourceTenantID source \<noteq> tTenant then (s, Inl ErrSourceMismatch)
        else case Window_Validate window of Some e \<Rightarrow> (s, Inl e) | None \<Rightarrow>
          if is_store s (makeImmutableKey tTenant tSnap version) \<noteq> None then (s, Inl ErrPublicationVersionImmutable)
          else case predecessor_error tTenant tSnap version predecessorVersion predecessorDigest s of Some e \<Rightarrow> (s, Inl e) | None \<Rightarrow>
            (case ComputeCanonicalPayloadDigest marshal h payload of Inl e \<Rightarrow> (s, Inl e) | Inr payloadDigest \<Rightarrow>
              let sigDigest = ComputeSignatureDigest h tTenant tSnap version source payloadDigest (ap_DecisionHash approval);
                  rec = sealed_record tTenant tSnap version payload source approval window payloadDigest sigDigest predecessorVersion
                    predecessorDigest now
              in (seal_version tTenant tSnap rec s, Inr (DeepCopy rec))))"

definition GetPublishedVersion :: "string \<Rightarrow> string \<Rightarrow> int \<Rightarrow> ImmutablePublicationStore \<Rightarrow> publication_error + ImmutablePublicationRecord" where
  "GetPublishedVersion tenantID snapshotID version s =
     (case is_store s (makeImmutableKey tenantID snapshotID version) of None \<Rightarrow> Inl ErrSnapshotNotFound | Some rec \<Rightarrow> Inr (DeepCopy rec))"

text \<open>The highest version is always stored; the case of a missing one is the zero value in the code and does not arise.\<close>

definition GetLatestPublishedVersion :: "string \<Rightarrow> string \<Rightarrow> ImmutablePublicationStore \<Rightarrow> publication_error + ImmutablePublicationRecord option" where
  "GetLatestPublishedVersion tenantID snapshotID s =
     (let vers = is_versions s (makeSnapshotBaseKey tenantID snapshotID) in
      if vers = [] then Inl ErrSnapshotNotFound
      else Inr (map_option DeepCopy (is_store s (makeImmutableKey tenantID snapshotID (last vers)))))"

definition ListPublishedVersions :: "string \<Rightarrow> string \<Rightarrow> ImmutablePublicationStore \<Rightarrow> ImmutablePublicationRecord list" where
  "ListPublishedVersions tenantID snapshotID s =
     map DeepCopy (List.map_filter (\<lambda>v. is_store s (makeImmutableKey tenantID snapshotID v)) (is_versions s (makeSnapshotBaseKey tenantID snapshotID)))"

definition CheckSourceDrift ::
  "string \<Rightarrow> string \<Rightarrow> int \<Rightarrow> string \<Rightarrow> gotime \<Rightarrow> ImmutablePublicationStore \<Rightarrow> publication_error + SourceDriftStatus" where
  "CheckSourceDrift tenantID snapshotID version currentSourceDigest now s =
     (case GetPublishedVersion tenantID snapshotID version s of
        Inl e \<Rightarrow> Inl e
      | Inr rec \<Rightarrow> Inr \<lparr>dr_SnapshotID = snapshotID, dr_Version = version, dr_PublishedDigest = se_SourceContentDigest (ir_Source rec),
          dr_CurrentSourceDigest = currentSourceDigest, dr_HasDrifted = (se_SourceContentDigest (ir_Source rec) \<noteq> currentSourceDigest),
          dr_CheckedAt = now\<rparr>)"

definition AttemptDirectSourceMutation ::
  "string \<Rightarrow> string \<Rightarrow> int \<Rightarrow> payload \<Rightarrow> ImmutablePublicationStore \<Rightarrow> (ImmutablePublicationStore, publication_error, unit) outcome" where
  "AttemptDirectSourceMutation tenantID snapshotID version updatedSourcePayload s = (s, Inl ErrDirectSourceMutationForbidden)"

definition RegisterReplacement ::
  "string \<Rightarrow> string \<Rightarrow> int \<Rightarrow> string \<Rightarrow> int \<Rightarrow> ReplacementType \<Rightarrow> string \<Rightarrow> gotime \<Rightarrow> ImmutablePublicationStore \<Rightarrow>
   (ImmutablePublicationStore, publication_error, unit) outcome" where
  "RegisterReplacement tenantID snapshotID oldVersion successorSnapshotID successorVersion repType reason now s =
     (let tReason = TrimSpace reason; oldKey = makeImmutableKey tenantID snapshotID oldVersion in
      if tReason = [] then (s, Inl ErrBlankReplacementReason)
      else if TrimSpace successorSnapshotID = [] then (s, Inl ErrBlankSuccessorID)
      else case is_store s oldKey of
        None \<Rightarrow> (s, Inl ErrSnapshotNotFound)
      | Some rec \<Rightarrow>
          (s\<lparr>is_store := (is_store s)(oldKey \<mapsto>
              rec\<lparr>ir_SuccessorVersion := successorVersion, ir_ReplacementType := repType, ir_ReplacementReason := tReason\<rparr>)\<rparr>, Inr ()))"

subsection \<open>Audit reconstruction\<close>

definition recalculated :: "(go_value \<Rightarrow> string option) \<Rightarrow> (string \<Rightarrow> string) \<Rightarrow> ImmutablePublicationRecord \<Rightarrow> string" where
  "recalculated marshal h rec = (case ComputeCanonicalPayloadDigest marshal h (ir_Payload rec) of Inl _ \<Rightarrow> [] | Inr d \<Rightarrow> d)"

definition record_findings ::
  "(go_value \<Rightarrow> string option) \<Rightarrow> (string \<Rightarrow> string) \<Rightarrow> nat \<Rightarrow> int \<Rightarrow> string \<Rightarrow> ImmutablePublicationRecord \<Rightarrow> audit_finding list" where
  "record_findings marshal h i expectedPredVersion expectedPredDigest rec =
     (if ir_Version rec \<noteq> int i + 1 then [NonContiguousVersion i (ir_Version rec)] else []) @
     (if ir_PredecessorVersion rec \<noteq> expectedPredVersion
      then [PredecessorVersionMismatch (ir_Version rec) expectedPredVersion (ir_PredecessorVersion rec)] else []) @
     (if ir_PredecessorDigest rec \<noteq> expectedPredDigest then [PredecessorDigestMismatch (ir_Version rec)] else []) @
     (case ComputeCanonicalPayloadDigest marshal h (ir_Payload rec) of
        Inl _ \<Rightarrow> [PayloadDigestFailed (ir_Version rec)]
      | Inr d \<Rightarrow> if d \<noteq> ir_PayloadDigest rec then [PayloadDigestTampered (ir_Version rec)] else []) @
     (if ComputeSignatureDigest h (ir_TenantID rec) (ir_SnapshotID rec) (ir_Version rec) (ir_Source rec) (recalculated marshal h rec)
          (ap_DecisionHash (ir_Approval rec)) \<noteq> ir_SignatureDigest rec
      then [SignatureDigestTampered (ir_Version rec)] else [])"

text \<open>The loop over the versions: its findings, and what it writes to the hash of the chain.\<close>

fun audit_loop ::
  "(go_value \<Rightarrow> string option) \<Rightarrow> (string \<Rightarrow> string) \<Rightarrow> (int \<Rightarrow> ImmutablePublicationRecord option) \<Rightarrow> nat \<Rightarrow> int \<Rightarrow> string \<Rightarrow> int list \<Rightarrow>
   audit_finding list \<times> string" where
  "audit_loop marshal h get i expectedPredVersion expectedPredDigest [] = ([], [])"
| "audit_loop marshal h get i expectedPredVersion expectedPredDigest (v # vers) =
     (case get v of
        None \<Rightarrow> map_prod ((#) (MissingVersion v)) id (audit_loop marshal h get (Suc i) expectedPredVersion expectedPredDigest vers)
      | Some rec \<Rightarrow>
          map_prod ((@) (record_findings marshal h i expectedPredVersion expectedPredDigest rec)) ((@) (ir_SignatureDigest rec))
            (audit_loop marshal h get (Suc i) (ir_Version rec) (ir_SignatureDigest rec) vers))"

definition ReconstructPublicationAuditTrail ::
  "(go_value \<Rightarrow> string option) \<Rightarrow> (string \<Rightarrow> string) \<Rightarrow> string \<Rightarrow> string \<Rightarrow> gotime \<Rightarrow> ImmutablePublicationStore \<Rightarrow>
   publication_error + AuditReconstructionReport" where
  "ReconstructPublicationAuditTrail marshal h tenantID snapshotID now s =
     (let tTenant = TrimSpace tenantID; tSnap = TrimSpace snapshotID; vers = is_versions s (makeSnapshotBaseKey tTenant tSnap);
          audit = audit_loop marshal h (\<lambda>v. is_store s (makeImmutableKey tTenant tSnap v)) 0 0 [] vers
      in if tTenant = [] then Inl ErrBlankTenantID
      else if tSnap = [] then Inl ErrBlankSnapshotID
      else if vers = [] then Inl ErrSnapshotNotFound
      else Inr \<lparr>ar_TenantID = tTenant, ar_SnapshotID = tSnap,
        ar_Status = (if fst audit = [] then StatusVerifiedIntact else StatusTamperDetected), ar_TotalVersions = length vers,
        ar_LineageChainDigest = EncodeToString (h (snd audit)), ar_VerifiedAt = now, ar_Findings = fst audit\<rparr>)"

subsection \<open>Calls and invariant\<close>

datatype publication_call =
  CallStore string string int payload SourceEntityRef ApprovalEvidence EffectiveWindow int string gotime
| CallMutate string string int payload
| CallRegisterReplacement string string int string int ReplacementType string gotime

fun publication_exec ::
  "(go_value \<Rightarrow> string option) \<Rightarrow> (string \<Rightarrow> string) \<Rightarrow> publication_call \<Rightarrow> ImmutablePublicationStore \<Rightarrow>
   (ImmutablePublicationStore, publication_error, unit) outcome" where
  "publication_exec marshal h (CallStore t i v p src ap w pv pd now) s = discard (StorePublishedVersion marshal h t i v p src ap w pv pd now s)"
| "publication_exec marshal h (CallMutate t i v p) s = AttemptDirectSourceMutation t i v p s"
| "publication_exec marshal h (CallRegisterReplacement t i v si sv ty why now) s = RegisterReplacement t i v si sv ty why now s"

lemma immutable_keys: "makeSnapshotBaseKey t i = makeBaseKey t i" "makeImmutableKey t i v = version_key (makeBaseKey t i) v"
  by (simp_all add: makeSnapshotBaseKey_def makeBaseKey_def makeImmutableKey_def version_key_def)

lemma makeBaseKey_trim [simp]: "makeBaseKey (TrimSpace t) (TrimSpace i) = makeBaseKey t i"
  by (simp add: makeBaseKey_def)

lemma deep_copy_id [simp]: "deep_copy v = v"
proof (induction v)
  case (GoMap m)
  have "map_option deep_copy (m k) = m k" for k by (cases "m k") (auto intro: GoMap)
  then show ?case by (simp add: comp_def)
qed simp_all

lemma deepCopyMap_id [simp]: "deepCopyMap m = m"
proof -
  have "map_option deep_copy (m k) = m k" for k by (cases "m k") simp_all
  then show ?thesis by (simp add: deepCopyMap_def comp_def)
qed

lemma DeepCopy_id [simp]: "DeepCopy r = r"
  by (simp add: DeepCopy_def)

text \<open>Two records that differ at most in the link to a successor.\<close>

definition unlinked :: "ImmutablePublicationRecord \<Rightarrow> ImmutablePublicationRecord" where
  "unlinked r = r\<lparr>ir_SuccessorVersion := 0, ir_SuccessorDigest := [], ir_ReplacementType := ReplacementOther [], ir_ReplacementReason := []\<rparr>"

definition same_seal :: "ImmutablePublicationRecord \<Rightarrow> ImmutablePublicationRecord \<Rightarrow> bool" where
  "same_seal r r' \<longleftrightarrow> unlinked r' = unlinked r"

lemma same_seal_refl [simp]: "same_seal r r"
  by (simp add: same_seal_def)

lemma same_seal_trans: "same_seal a b \<Longrightarrow> same_seal b c \<Longrightarrow> same_seal a c"
  by (simp add: same_seal_def)

lemma same_seal_link [simp]:
  "same_seal r (link_successor v d r)"
  "same_seal r (r\<lparr>ir_SuccessorVersion := v, ir_ReplacementType := ty, ir_ReplacementReason := why\<rparr>)"
  by (simp_all add: same_seal_def unlinked_def link_successor_def)

lemma unlinked_fields:
  "ir_RecordID (unlinked r) = ir_RecordID r" "ir_TenantID (unlinked r) = ir_TenantID r" "ir_SnapshotID (unlinked r) = ir_SnapshotID r"
  "ir_Version (unlinked r) = ir_Version r" "ir_Payload (unlinked r) = ir_Payload r" "ir_Source (unlinked r) = ir_Source r"
  "ir_Approval (unlinked r) = ir_Approval r" "ir_Window (unlinked r) = ir_Window r" "ir_PayloadDigest (unlinked r) = ir_PayloadDigest r"
  "ir_SignatureDigest (unlinked r) = ir_SignatureDigest r" "ir_PredecessorVersion (unlinked r) = ir_PredecessorVersion r"
  "ir_PredecessorDigest (unlinked r) = ir_PredecessorDigest r" "ir_StoredAt (unlinked r) = ir_StoredAt r"
  by (simp_all add: unlinked_def)

lemma same_seal_fields:
  assumes "same_seal r r'"
  shows "ir_RecordID r' = ir_RecordID r" "ir_TenantID r' = ir_TenantID r" "ir_SnapshotID r' = ir_SnapshotID r" "ir_Version r' = ir_Version r"
    "ir_Payload r' = ir_Payload r" "ir_Source r' = ir_Source r" "ir_Approval r' = ir_Approval r" "ir_Window r' = ir_Window r"
    "ir_PayloadDigest r' = ir_PayloadDigest r" "ir_SignatureDigest r' = ir_SignatureDigest r"
    "ir_PredecessorVersion r' = ir_PredecessorVersion r" "ir_PredecessorDigest r' = ir_PredecessorDigest r" "ir_StoredAt r' = ir_StoredAt r"
  using assms unfolding same_seal_def by (metis unlinked_fields)+

definition sealed_ok :: "(go_value \<Rightarrow> string option) \<Rightarrow> (string \<Rightarrow> string) \<Rightarrow> string \<Rightarrow> int \<Rightarrow> ImmutablePublicationRecord \<Rightarrow> bool" where
  "sealed_ok marshal h b v r \<longleftrightarrow> ir_Version r = v \<and> makeBaseKey (ir_TenantID r) (ir_SnapshotID r) = b \<and> ir_PredecessorVersion r = v - 1 \<and>
     ComputeCanonicalPayloadDigest marshal h (ir_Payload r) = Inr (ir_PayloadDigest r) \<and>
     ir_SignatureDigest r = ComputeSignatureDigest h (ir_TenantID r) (ir_SnapshotID r) (ir_Version r) (ir_Source r) (ir_PayloadDigest r)
       (ap_DecisionHash (ir_Approval r))"

lemma sealed_ok_same: "same_seal r r' \<Longrightarrow> sealed_ok marshal h b v r' \<longleftrightarrow> sealed_ok marshal h b v r"
  unfolding sealed_ok_def using same_seal_fields [of r r'] by simp

text \<open>The signature of a version, blank for the one before the first.\<close>

definition signature_of :: "ImmutablePublicationStore \<Rightarrow> string \<Rightarrow> int \<Rightarrow> string" where
  "signature_of s b v = (if v = 0 then [] else case is_store s (version_key b v) of None \<Rightarrow> [] | Some r \<Rightarrow> ir_SignatureDigest r)"

definition lineage_ok :: "(go_value \<Rightarrow> string option) \<Rightarrow> (string \<Rightarrow> string) \<Rightarrow> string \<Rightarrow> ImmutablePublicationStore \<Rightarrow> bool" where
  "lineage_ok marshal h b s \<longleftrightarrow> is_versions s b = [1..int (length (is_versions s b))] \<and> map ln_Version (is_lineageIndex s b) = is_versions s b \<and>
     (\<forall>v\<in>set (is_versions s b). \<exists>r. is_store s (version_key b v) = Some r \<and> sealed_ok marshal h b v r \<and>
        ir_PredecessorDigest r = signature_of s b (v - 1))"

definition store_inv :: "(go_value \<Rightarrow> string option) \<Rightarrow> (string \<Rightarrow> string) \<Rightarrow> ImmutablePublicationStore \<Rightarrow> bool" where
  "store_inv marshal h s \<longleftrightarrow> (\<forall>b. lineage_ok marshal h b s) \<and>
     (\<forall>k r. is_store s k = Some r \<longrightarrow> (\<exists>b v. k = version_key b v \<and> v \<in> set (is_versions s b)))"

definition same_seals :: "ImmutablePublicationStore \<Rightarrow> ImmutablePublicationStore \<Rightarrow> string \<Rightarrow> bool" where
  "same_seals s s' k \<longleftrightarrow> rel_option same_seal (is_store s k) (is_store s' k)"

lemma same_sealsD: "same_seals s s' k \<Longrightarrow> is_store s k = Some r \<Longrightarrow> \<exists>r'. is_store s' k = Some r' \<and> same_seal r r'"
  by (auto simp: same_seals_def elim: option.rel_cases)

text \<open>What a call does: nothing, a new link of a stored record, or a new version sealed on top of its predecessor.\<close>

definition seals ::
  "(go_value \<Rightarrow> string option) \<Rightarrow> (string \<Rightarrow> string) \<Rightarrow> string \<Rightarrow> int \<Rightarrow> ImmutablePublicationRecord \<Rightarrow> ImmutablePublicationStore \<Rightarrow>
   ImmutablePublicationStore \<Rightarrow> bool" where
  "seals marshal h b v r s s' \<longleftrightarrow> 1 \<le> v \<and> is_store s (version_key b v) = None \<and> (1 < v \<longrightarrow> is_store s (version_key b (v - 1)) \<noteq> None) \<and>
     sealed_ok marshal h b v r \<and> ir_PredecessorDigest r = signature_of s b (v - 1) \<and> is_store s' (version_key b v) = Some r \<and>
     (\<forall>k. k \<noteq> version_key b v \<longrightarrow> same_seals s s' k) \<and> is_versions s' = (is_versions s)(b := sort (is_versions s b @ [v])) \<and>
     (\<exists>e. ln_Version e = v \<and> is_lineageIndex s' = (is_lineageIndex s)(b := is_lineageIndex s b @ [e]))"

definition relinks :: "ImmutablePublicationStore \<Rightarrow> ImmutablePublicationStore \<Rightarrow> bool" where
  "relinks s s' \<longleftrightarrow> (\<forall>k. same_seals s s' k) \<and> is_versions s' = is_versions s \<and> is_lineageIndex s' = is_lineageIndex s"

lemma relinks_refl [simp]: "relinks s s"
  by (simp add: relinks_def same_seals_def option.rel_refl)

lemma signature_of_same:
  assumes "same_seals s s' (version_key b v)"
  shows "signature_of s' b v = signature_of s b v"
  using assms unfolding same_seals_def by (cases rule: option.rel_cases) (simp_all add: signature_of_def same_seal_fields(10))

lemma sealed_invD:
  assumes "store_inv marshal h s"
  shows "is_versions s b = [1..int (length (is_versions s b))]" "map ln_Version (is_lineageIndex s b) = is_versions s b"
    "v \<in> set (is_versions s b) \<Longrightarrow> \<exists>r. is_store s (version_key b v) = Some r \<and> sealed_ok marshal h b v r \<and>
        ir_PredecessorDigest r = signature_of s b (v - 1)"
    "is_store s k = Some r \<Longrightarrow> \<exists>b v. k = version_key b v \<and> v \<in> set (is_versions s b)"
  using assms unfolding store_inv_def lineage_ok_def by (blast+)

lemma relinks_inv:
  assumes "relinks s s'" "store_inv marshal h s"
  shows "store_inv marshal h s'"
proof -
  have same: "same_seals s s' k" for k using assms(1) by (simp add: relinks_def)
  have "\<exists>r'. is_store s' (version_key b v) = Some r' \<and> sealed_ok marshal h b v r' \<and> ir_PredecessorDigest r' = signature_of s' b (v - 1)"
    if v: "v \<in> set (is_versions s b)" for b v
  proof -
    obtain r where r: "is_store s (version_key b v) = Some r" "sealed_ok marshal h b v r" "ir_PredecessorDigest r = signature_of s b (v - 1)"
      using sealed_invD(3) [OF assms(2) v] by blast
    obtain r' where "is_store s' (version_key b v) = Some r'" "same_seal r r'" using same_sealsD [OF same r(1)] by blast
    then show ?thesis using r(2,3) signature_of_same [OF same] sealed_ok_same same_seal_fields(12) by metis
  qed
  moreover have "\<exists>r. is_store s k = Some r" if "is_store s' k = Some r'" for k r'
    using same [of k] that by (auto simp: same_seals_def elim: option.rel_cases)
  ultimately show ?thesis using assms unfolding store_inv_def lineage_ok_def relinks_def by metis
qed

lemma versions_next:
  assumes "store_inv marshal h s" "seals marshal h b v r s s'"
  shows "v = int (length (is_versions s b)) + 1" "is_versions s' b = is_versions s b @ [v]"
proof -
  let ?n = "int (length (is_versions s b))"
  note inv = sealed_invD [OF assms(1)]
  have vers: "set (is_versions s b) = {1..?n}" using inv(1) [of b] by (metis set_upto)
  have "v \<notin> set (is_versions s b)" using assms(2) inv(3) unfolding seals_def by fastforce
  then have "?n < v" using assms(2) vers by (auto simp: seals_def)
  moreover have "v \<le> ?n + 1"
  proof (cases "v = 1")
    case False
    then obtain p where "is_store s (version_key b (v - 1)) = Some p" using assms(2) by (auto simp: seals_def)
    from inv(4) [OF this] vers show ?thesis by auto
  qed simp
  ultimately show v: "v = ?n + 1" by simp
  have "sorted ([1..?n] @ [v])" by (auto simp: sorted_append v)
  then have "sorted (is_versions s b @ [v])" using inv(1) [of b] by metis
  then show "is_versions s' b = is_versions s b @ [v]" using assms(2) by (simp add: seals_def sorted_sort_id)
qed

lemma seals_inv:
  assumes "seals marshal h b v r s s'" "store_inv marshal h s"
  shows "store_inv marshal h s'"
proof -
  note inv = sealed_invD [OF assms(2)] and nxt = versions_next [OF assms(2,1)]
  have same: "same_seals s s' k" if "k \<noteq> version_key b v" for k using assms(1) that by (simp add: seals_def)
  have r: "is_store s' (version_key b v) = Some r" "sealed_ok marshal h b v r" "ir_PredecessorDigest r = signature_of s b (v - 1)"
    using assms(1) by (simp_all add: seals_def)
  have vers: "is_versions s' b' = (if b' = b then is_versions s b @ [v] else is_versions s b')" for b'
    using nxt(2) assms(1) by (simp add: seals_def)
  have "is_versions s' b' = [1..int (length (is_versions s' b'))]" for b'
  proof (cases "b' = b")
    case True
    have "[1..int n + 1] = [1..int n] @ [int n + 1]" for n by (simp add: upto_rec2)
    moreover have "length (is_versions s' b) = Suc (length (is_versions s b))" using nxt(2) by simp
    ultimately show ?thesis using True inv(1) [of b] nxt by (metis of_nat_Suc add.commute)
  next
    case False
    then show ?thesis using inv(1) [of b'] by (metis vers)
  qed
  moreover have "map ln_Version (is_lineageIndex s' b') = is_versions s' b'" for b'
  proof -
    obtain e where "ln_Version e = v" "is_lineageIndex s' = (is_lineageIndex s)(b := is_lineageIndex s b @ [e])"
      using assms(1) unfolding seals_def by blast
    then show ?thesis using inv(2) [of b'] by (auto simp: vers)
  qed
  moreover have "\<exists>r'. is_store s' (version_key b' w) = Some r' \<and> sealed_ok marshal h b' w r' \<and> ir_PredecessorDigest r' = signature_of s' b' (w - 1)"
    if "w \<in> set (is_versions s' b')" for b' w
  proof (cases "b' = b \<and> w = v")
    case True
    moreover have "signature_of s' b (v - 1) = signature_of s b (v - 1)" by (rule signature_of_same [OF same]) simp
    ultimately show ?thesis using r by simp
  next
    case False
    with that have w: "w \<in> set (is_versions s b')" by (auto simp: vers split: if_splits)
    obtain x where x: "is_store s (version_key b' w) = Some x" "sealed_ok marshal h b' w x" "ir_PredecessorDigest x = signature_of s b' (w - 1)"
      using inv(3) [OF w] by blast
    have "w - 1 < v" if "b' = b"
    proof -
      have "w \<in> set [1..int (length (is_versions s b))]" using w that inv(1) by metis
      then show ?thesis using nxt(1) by simp
    qed
    then have "version_key b' (w - 1) \<noteq> version_key b v" by auto
    then have sig: "signature_of s' b' (w - 1) = signature_of s b' (w - 1)" by (rule signature_of_same [OF same])
    have "version_key b' w \<noteq> version_key b v" using False by simp
    from same_sealsD [OF same [OF this] x(1)] obtain x' where "is_store s' (version_key b' w) = Some x'" "same_seal x x'" by blast
    then show ?thesis using x(2,3) sig sealed_ok_same same_seal_fields(12) by metis
  qed
  moreover have "\<exists>b v. k = version_key b v \<and> v \<in> set (is_versions s' b)" if stored: "is_store s' k = Some x" for k x
  proof (cases "k = version_key b v")
    case True
    then show ?thesis by (auto simp: vers)
  next
    case False
    then obtain y where "is_store s k = Some y" using same [OF False] stored by (auto simp: same_seals_def elim: option.rel_cases)
    from inv(4) [OF this] show ?thesis by (auto simp: vers)
  qed
  ultimately show ?thesis unfolding store_inv_def lineage_ok_def by blast
qed

lemma predecessor_ok:
  assumes "predecessor_error t i v pv pd s = None" "\<not> v \<le> 0"
  shows "pv = v - 1 \<and> pd = signature_of s (makeBaseKey t i) (v - 1) \<and> (1 < v \<longrightarrow> is_store s (version_key (makeBaseKey t i) (v - 1)) \<noteq> None)"
proof (cases "1 < v")
  case True
  with assms show ?thesis by (auto simp: predecessor_error_def immutable_keys signature_of_def split: if_splits option.splits)
next
  case False
  with assms(2) have "v = 1" by simp
  with assms show ?thesis by (auto simp: predecessor_error_def signature_of_def split: if_splits)
qed

lemma seal_version_seals:
  assumes "1 \<le> v" "is_store s (version_key (makeBaseKey T I) v) = None" "sealed_ok marshal h (makeBaseKey T I) v r"
    and "ir_PredecessorDigest r = signature_of s (makeBaseKey T I) (v - 1)"
    and "1 < v \<longrightarrow> is_store s (version_key (makeBaseKey T I) (v - 1)) \<noteq> None"
  shows "seals marshal h (makeBaseKey T I) v r s (seal_version T I r s)"
proof -
  let ?b = "makeBaseKey T I"
  let ?s' = "seal_version T I r s"
  have r: "ir_Version r = v" "ir_PredecessorVersion r = v - 1" using assms(3) by (simp_all add: sealed_ok_def)
  have store: "is_store ?s' = (if 0 < v - 1
      then ((is_store s)(version_key ?b v \<mapsto> r))(version_key ?b (v - 1) :=
        map_option (link_successor v (ir_SignatureDigest r)) (is_store s (version_key ?b (v - 1))))
      else (is_store s)(version_key ?b v \<mapsto> r))"
    by (simp add: seal_version_def Let_def immutable_keys r)
  have "same_seals s ?s' k" if "k \<noteq> version_key ?b v" for k
    unfolding same_seals_def store using that by (cases "is_store s k") (auto simp: option.rel_refl)
  moreover have "is_versions ?s' = (is_versions s)(?b := sort (is_versions s ?b @ [v]))"
    by (simp add: seal_version_def Let_def immutable_keys r)
  moreover have "\<exists>e. ln_Version e = v \<and> is_lineageIndex ?s' = (is_lineageIndex s)(?b := is_lineageIndex s ?b @ [e])"
    by (rule exI [of _ "\<lparr>ln_Version = v, ln_PayloadDigest = ir_PayloadDigest r, ln_SignatureDigest = ir_SignatureDigest r,
      ln_PredecessorVersion = v - 1, ln_PredecessorDigest = ir_PredecessorDigest r, ln_StoredAt = ir_StoredAt r\<rparr>"])
      (simp add: seal_version_def Let_def immutable_keys r)
  moreover have "is_store ?s' (version_key ?b v) = Some r" by (simp add: store)
  ultimately show ?thesis unfolding seals_def using assms by blast
qed

lemma StorePublishedVersion_cases:
  obtains e where "StorePublishedVersion marshal h t i v p src ap w pv pd now s = (s, Inl e)"
  | d r where "TrimSpace t \<noteq> []" "TrimSpace i \<noteq> []" "\<not> v \<le> 0" "is_store s (version_key (makeBaseKey t i) v) = None"
      "predecessor_error (TrimSpace t) (TrimSpace i) v pv pd s = None" "ComputeCanonicalPayloadDigest marshal h p = Inr d"
      "r = sealed_record (TrimSpace t) (TrimSpace i) v p src ap w d
         (ComputeSignatureDigest h (TrimSpace t) (TrimSpace i) v src d (ap_DecisionHash ap)) pv pd now"
      "StorePublishedVersion marshal h t i v p src ap w pv pd now s = (seal_version (TrimSpace t) (TrimSpace i) r s, Inr r)"
proof -
  let ?out = "StorePublishedVersion marshal h t i v p src ap w pv pd now s"
  have base: "makeBaseKey (TrimSpace t) (TrimSpace i) = makeBaseKey t i" by (simp add: makeBaseKey_def)
  have "(\<exists>e. ?out = (s, Inl e)) \<or> TrimSpace t \<noteq> [] \<and> TrimSpace i \<noteq> [] \<and> \<not> v \<le> 0 \<and> is_store s (version_key (makeBaseKey t i) v) = None \<and>
      predecessor_error (TrimSpace t) (TrimSpace i) v pv pd s = None \<and> (\<exists>d. ComputeCanonicalPayloadDigest marshal h p = Inr d \<and>
        (let r = sealed_record (TrimSpace t) (TrimSpace i) v p src ap w d
           (ComputeSignatureDigest h (TrimSpace t) (TrimSpace i) v src d (ap_DecisionHash ap)) pv pd now
         in ?out = (seal_version (TrimSpace t) (TrimSpace i) r s, Inr r)))"
    unfolding StorePublishedVersion_def Let_def immutable_keys base by (simp split: option.split sum.split)
  with that show thesis unfolding Let_def by blast
qed

lemma StorePublishedVersion_seals:
  "fst (StorePublishedVersion marshal h t i v p src ap w pv pd now s) = s \<or>
   (\<exists>b r. seals marshal h b v r s (fst (StorePublishedVersion marshal h t i v p src ap w pv pd now s)))"
proof (rule StorePublishedVersion_cases [of marshal h t i v p src ap w pv pd now s])
  fix d r
  let ?T = "TrimSpace t" and ?I = "TrimSpace i"
  assume a: "\<not> v \<le> 0" "is_store s (version_key (makeBaseKey t i) v) = None" "predecessor_error ?T ?I v pv pd s = None"
      "ComputeCanonicalPayloadDigest marshal h p = Inr d"
    and r: "r = sealed_record ?T ?I v p src ap w d (ComputeSignatureDigest h ?T ?I v src d (ap_DecisionHash ap)) pv pd now"
    and out: "StorePublishedVersion marshal h t i v p src ap w pv pd now s = (seal_version ?T ?I r s, Inr r)"
  note pred = predecessor_ok [OF a(3,1)]
  have "sealed_ok marshal h (makeBaseKey ?T ?I) v r" using a(4) pred by (simp add: r sealed_ok_def sealed_record_def)
  moreover have "ir_PredecessorDigest r = signature_of s (makeBaseKey ?T ?I) (v - 1)" using pred by (simp add: r sealed_record_def)
  moreover have "is_store s (version_key (makeBaseKey ?T ?I) v) = None" using a(2) by (simp add: makeBaseKey_def)
  ultimately have "seals marshal h (makeBaseKey ?T ?I) v r s (seal_version ?T ?I r s)"
    using a(1) pred by (intro seal_version_seals) simp_all
  then show ?thesis unfolding out by auto
qed simp

lemma RegisterReplacement_relinks: "relinks s (fst (RegisterReplacement t i v si sv ty why now s))"
proof (cases "is_store s (makeImmutableKey t i v)")
  case (Some r)
  let ?r = "r\<lparr>ir_SuccessorVersion := sv, ir_ReplacementType := ty, ir_ReplacementReason := TrimSpace why\<rparr>"
  have "relinks s (s\<lparr>is_store := (is_store s)(makeImmutableKey t i v \<mapsto> ?r)\<rparr>)"
    using Some by (auto simp: relinks_def same_seals_def option.rel_refl)
  then show ?thesis using Some by (simp add: RegisterReplacement_def Let_def)
qed (simp add: RegisterReplacement_def Let_def)

lemma publication_exec_cases:
  obtains "relinks s (fst (publication_exec marshal h c s))" | b v r where "seals marshal h b v r s (fst (publication_exec marshal h c s))"
proof (cases c)
  case (CallStore t i v p src ap w pv pd now)
  with that StorePublishedVersion_seals [of marshal h t i v p src ap w pv pd now s] show thesis by auto
next
  case (CallMutate t i v p)
  with that(1) show thesis by (simp add: AttemptDirectSourceMutation_def)
next
  case (CallRegisterReplacement t i v si sv ty why now)
  with that(1) RegisterReplacement_relinks show thesis by simp
qed

lemma publication_exec_inv: "store_inv marshal h s \<Longrightarrow> store_inv marshal h (fst (publication_exec marshal h c s))"
  by (rule publication_exec_cases [of s marshal h c]) (auto intro: relinks_inv seals_inv)

lemma publication_exec_same:
  "is_store s k = Some r \<Longrightarrow> \<exists>r'. is_store (fst (publication_exec marshal h c s)) k = Some r' \<and> same_seal r r'"
proof (rule publication_exec_cases [of s marshal h c])
  assume "is_store s k = Some r" "relinks s (fst (publication_exec marshal h c s))"
  then show ?thesis using same_sealsD unfolding relinks_def by blast
next
  fix b v x
  assume k: "is_store s k = Some r" and x: "seals marshal h b v x s (fst (publication_exec marshal h c s))"
  then have "k \<noteq> version_key b v" by (auto simp: seals_def)
  with k x show ?thesis using same_sealsD unfolding seals_def by blast
qed

lemma store_inv_New: "store_inv marshal h NewImmutablePublicationStore"
  by (simp add: store_inv_def lineage_ok_def NewImmutablePublicationStore_def)

interpretation sealing: journaled "publication_exec marshal h" "store_inv marshal h" "\<lambda>_. True" "\<lambda>b s. is_versions s b"
proof unfold_locales
  fix s :: ImmutablePublicationStore and c and b
  assume inv: "store_inv marshal h s"
  show "prefix (is_versions s b) (is_versions (fst (publication_exec marshal h c s)) b)"
  proof (rule publication_exec_cases [of s marshal h c])
    fix b' v r
    assume x: "seals marshal h b' v r s (fst (publication_exec marshal h c s))"
    then show ?thesis using versions_next(2) [OF inv x] by (cases "b = b'") (simp_all add: seals_def)
  qed (simp add: relinks_def)
qed (rule publication_exec_inv)

interpretation sealed_versions: absorbing "publication_exec marshal h" "store_inv marshal h" "\<lambda>_. True"
    "\<lambda>k s. map_option unlinked (is_store s k)" "\<lambda>_. True"
proof unfold_locales
  fix s :: ImmutablePublicationStore and c k x
  assume "map_option unlinked (is_store s k) = Some x"
  then obtain r where "is_store s k = Some r" "x = unlinked r" by auto
  with publication_exec_same [OF this(1), of marshal h c] show "map_option unlinked (is_store (fst (publication_exec marshal h c s)) k) = Some x"
    by (auto simp: same_seal_def)
qed

lemma reachable_publication_store: "store_inv marshal h (run_calls (publication_exec marshal h) cs NewImmutablePublicationStore)"
  by (rule sealing.run_inv [OF store_inv_New]) simp

subsection \<open>The audit\<close>

definition seal_intact :: "(go_value \<Rightarrow> string option) \<Rightarrow> (string \<Rightarrow> string) \<Rightarrow> ImmutablePublicationRecord \<Rightarrow> bool" where
  "seal_intact marshal h r \<longleftrightarrow> ComputeCanonicalPayloadDigest marshal h (ir_Payload r) = Inr (ir_PayloadDigest r) \<and>
     ir_SignatureDigest r = ComputeSignatureDigest h (ir_TenantID r) (ir_SnapshotID r) (ir_Version r) (ir_Source r) (ir_PayloadDigest r)
       (ap_DecisionHash (ir_Approval r))"

lemma record_findings_Nil:
  "record_findings marshal h i pv pd r = [] \<longleftrightarrow>
     ir_Version r = int i + 1 \<and> ir_PredecessorVersion r = pv \<and> ir_PredecessorDigest r = pd \<and> seal_intact marshal h r"
  by (auto simp: record_findings_def seal_intact_def recalculated_def split: sum.splits)

text \<open>A chain without findings, from the \<open>i\<close>-th position with the given predecessor on.\<close>

fun chain_intact ::
  "(go_value \<Rightarrow> string option) \<Rightarrow> (string \<Rightarrow> string) \<Rightarrow> (int \<Rightarrow> ImmutablePublicationRecord option) \<Rightarrow> nat \<Rightarrow> int \<Rightarrow> string \<Rightarrow> int list \<Rightarrow> bool" where
  "chain_intact marshal h get i pv pd [] \<longleftrightarrow> True"
| "chain_intact marshal h get i pv pd (v # vers) \<longleftrightarrow> (\<exists>r. get v = Some r \<and> ir_Version r = int i + 1 \<and> ir_PredecessorVersion r = pv \<and>
     ir_PredecessorDigest r = pd \<and> seal_intact marshal h r \<and> chain_intact marshal h get (Suc i) (ir_Version r) (ir_SignatureDigest r) vers)"

lemma audit_loop_findings: "fst (audit_loop marshal h get i pv pd vers) = [] \<longleftrightarrow> chain_intact marshal h get i pv pd vers"
proof (induction vers arbitrary: i pv pd)
  case (Cons v vers)
  show ?case
  proof (cases "get v")
    case (Some r)
    then show ?thesis using record_findings_Nil [of marshal h i pv pd r] Cons.IH [of "Suc i" "ir_Version r" "ir_SignatureDigest r"] by auto
  qed simp
qed simp

lemma audit_loop_digests:
  "(\<And>v. v \<in> set vers \<Longrightarrow> get v \<noteq> None) \<Longrightarrow>
   snd (audit_loop marshal h get i pv pd vers) = concat (map (\<lambda>v. ir_SignatureDigest (the (get v))) vers)"
proof (induction vers arbitrary: i pv pd)
  case (Cons v vers)
  then obtain r where "get v = Some r" by fastforce
  with Cons show ?case by simp
qed simp

lemma chain_intact_seals:
  "chain_intact marshal h get i pv pd vers \<Longrightarrow> v \<in> set vers \<Longrightarrow> \<exists>r. get v = Some r \<and> seal_intact marshal h r"
  by (induction vers arbitrary: i pv pd) auto

lemma inv_chain_intact:
  assumes "store_inv marshal h s" "k \<le> n" "is_versions s b = [1..int n]"
  shows "chain_intact marshal h (\<lambda>v. is_store s (version_key b v)) k (int k) (signature_of s b (int k)) [int k + 1..int n]"
  using assms(2)
proof (induction "n - k" arbitrary: k)
  case (Suc m)
  then have k: "k < n" by simp
  then have "int k + 1 \<in> set (is_versions s b)" by (simp add: assms(3))
  from sealed_invD(3) [OF assms(1) this] obtain r where r: "is_store s (version_key b (int k + 1)) = Some r" "sealed_ok marshal h b (int k + 1) r"
    "ir_PredecessorDigest r = signature_of s b (int k)" by auto
  have "[int k + 1..int n] = (int k + 1) # [int (Suc k) + 1..int n]" using k by (simp add: upto_rec1 add.commute)
  moreover have "signature_of s b (int (Suc k)) = ir_SignatureDigest r" using r(1) by (simp add: signature_of_def add.commute)
  moreover have "chain_intact marshal h (\<lambda>v. is_store s (version_key b v)) (Suc k) (int (Suc k)) (signature_of s b (int (Suc k))) [int (Suc k) + 1..int n]"
    using Suc k by (intro Suc.hyps) simp_all
  ultimately show ?case using r by (simp add: sealed_ok_def seal_intact_def add.commute)
qed simp

lemma audit_report:
  assumes "ReconstructPublicationAuditTrail marshal h t i now s = Inr report"
  shows "ar_Findings report = fst (audit_loop marshal h (\<lambda>v. is_store s (version_key (makeBaseKey t i) v)) 0 0 [] (is_versions s (makeBaseKey t i)))"
    "ar_TotalVersions report = length (is_versions s (makeBaseKey t i))"
    "ar_Status report = (if ar_Findings report = [] then StatusVerifiedIntact else StatusTamperDetected)"
    "ar_LineageChainDigest report = EncodeToString (h (snd (audit_loop marshal h (\<lambda>v. is_store s (version_key (makeBaseKey t i) v)) 0 0 []
       (is_versions s (makeBaseKey t i)))))"
  using assms unfolding ReconstructPublicationAuditTrail_def Let_def immutable_keys makeBaseKey_trim by (auto split: if_splits)

subsection \<open>Properties\<close>

text \<open>
  (C29) A sealed version is permanent: whatever calls follow, it is found with the same payload, source, approval, window, digests and predecessor, only
  its link to a successor may change, and storing that version again is refused without effect.
\<close>

theorem sealed_version_permanent:
  assumes "s = run_calls (publication_exec marshal h) cs NewImmutablePublicationStore" and "GetPublishedVersion t i v s = Inr r"
    and "s' = run_calls (publication_exec marshal h) ds s"
  shows "(\<exists>r'. GetPublishedVersion t i v s' = Inr r' \<and> unlinked r' = unlinked r \<and> ir_Payload r' = ir_Payload r \<and>
      ir_SignatureDigest r' = ir_SignatureDigest r) \<and>
    (\<exists>e. StorePublishedVersion marshal h t i v p src ap w pv pd now s' = (s', Inl e))"
proof -
  have inv: "store_inv marshal h s" unfolding assms(1) by (rule reachable_publication_store)
  have r: "is_store s (makeImmutableKey t i v) = Some r" using assms(2) by (simp add: GetPublishedVersion_def split: option.splits)
  then have "map_option unlinked (is_store s (makeImmutableKey t i v)) = Some (unlinked r)" by simp
  then have "map_option unlinked (is_store s' (makeImmutableKey t i v)) = Some (unlinked r)"
    unfolding assms(3) by (intro sealed_versions.run_final [OF inv]) simp_all
  then obtain r' where r': "is_store s' (makeImmutableKey t i v) = Some r'" "unlinked r' = unlinked r" by auto
  then have "ir_Payload r' = ir_Payload r" "ir_SignatureDigest r' = ir_SignatureDigest r" by (metis unlinked_fields)+
  moreover have "\<exists>e. StorePublishedVersion marshal h t i v p src ap w pv pd now s' = (s', Inl e)"
    using r'(1) by (cases rule: StorePublishedVersion_cases [of marshal h t i v p src ap w pv pd now s']) (auto simp: immutable_keys)
  ultimately show ?thesis using r' by (simp add: GetPublishedVersion_def)
qed

text \<open>
  The audit raises no false alarm: in every reachable store the reconstruction of a stored snapshot reports it intact, without findings, and its
  chain digest is the hash of the signatures of all versions, which are numbered from 1 without gaps.
\<close>

theorem audit_of_reachable_intact:
  assumes "s = run_calls (publication_exec marshal h) cs NewImmutablePublicationStore"
    and "ReconstructPublicationAuditTrail marshal h t i now s = Inr report"
  shows "ar_Status report = StatusVerifiedIntact \<and> ar_Findings report = [] \<and>
    map ir_Version (ListPublishedVersions t i s) = [1..int (ar_TotalVersions report)] \<and>
    ar_LineageChainDigest report = EncodeToString (h (concat (map ir_SignatureDigest (ListPublishedVersions t i s))))"
proof -
  have inv: "store_inv marshal h s" unfolding assms(1) by (rule reachable_publication_store)
  let ?b = "makeBaseKey t i"
  let ?get = "\<lambda>v. is_store s (version_key ?b v)" and ?vers = "is_versions s ?b"
  note report = audit_report [OF assms(2)]
  have vers: "?vers = [1..int (length ?vers)]" by (rule sealed_invD(1) [OF inv])
  have "chain_intact marshal h ?get 0 0 [] [0 + 1..int (length ?vers)]"
    using inv_chain_intact [OF inv _ vers, of 0] by (simp add: signature_of_def)
  then have "ar_Findings report = []" unfolding report(1) audit_loop_findings using vers by (metis add_0)
  moreover have stored: "\<exists>r. ?get v = Some r \<and> ir_Version r = v" if "v \<in> set ?vers" for v
    using sealed_invD(3) [OF inv that] by (auto simp: sealed_ok_def)
  then have "filter (\<lambda>v. ?get v \<noteq> None) ?vers = ?vers" by (intro filter_True) auto
  then have list: "ListPublishedVersions t i s = map (the \<circ> ?get) ?vers"
    by (simp add: ListPublishedVersions_def immutable_keys List.map_filter_def comp_def)
  moreover have "ir_Version (the (?get v)) = v" if "v \<in> set ?vers" for v using stored [OF that] by auto
  then have "map (\<lambda>v. ir_Version (the (?get v))) ?vers = ?vers" by (intro map_idI)
  then have "map ir_Version (map (the \<circ> ?get) ?vers) = ?vers" by (simp add: comp_def)
  moreover have "snd (audit_loop marshal h ?get 0 0 [] ?vers) = concat (map ir_SignatureDigest (ListPublishedVersions t i s))"
    unfolding list using stored by (subst audit_loop_digests) (auto simp: comp_def)
  ultimately show ?thesis using report vers by simp
qed

text \<open>
  (C30) The audit detects a changed payload: if in a reachable store the payload of a stored version is replaced by one with another digest, behind
  the back of the interface, the reconstruction reports tampering.
\<close>

theorem audit_detects_changed_payload:
  assumes "s = run_calls (publication_exec marshal h) cs NewImmutablePublicationStore" and "GetPublishedVersion t i v s = Inr r"
    and "ComputeCanonicalPayloadDigest marshal h p \<noteq> ComputeCanonicalPayloadDigest marshal h (ir_Payload r)"
    and "s' = s\<lparr>is_store := (is_store s)(makeImmutableKey t i v \<mapsto> r\<lparr>ir_Payload := p\<rparr>)\<rparr>"
    and "ReconstructPublicationAuditTrail marshal h t i now s' = Inr report"
  shows "ar_Status report = StatusTamperDetected"
proof (rule ccontr)
  let ?b = "makeBaseKey t i"
  let ?get = "\<lambda>v. is_store s' (version_key ?b v)" and ?vers = "is_versions s ?b"
  have inv: "store_inv marshal h s" unfolding assms(1) by (rule reachable_publication_store)
  have r: "is_store s (version_key ?b v) = Some r" using assms(2) by (simp add: GetPublishedVersion_def immutable_keys split: option.splits)
  then have v: "v \<in> set ?vers" using sealed_invD(4) [OF inv r] by auto
  assume "ar_Status report \<noteq> StatusTamperDetected"
  then have "ar_Findings report = []" using audit_report(3) [OF assms(5)] by (simp split: if_splits)
  then have "chain_intact marshal h ?get 0 0 [] ?vers"
    unfolding audit_report(1) [OF assms(5)] audit_loop_findings by (simp add: assms(4))
  then have "\<exists>x. ?get v = Some x \<and> seal_intact marshal h x" using v by (rule chain_intact_seals)
  then have "ComputeCanonicalPayloadDigest marshal h p = Inr (ir_PayloadDigest r)"
    by (simp add: assms(4) immutable_keys seal_intact_def)
  moreover have "sealed_ok marshal h ?b v r" using sealed_invD(3) [OF inv v] r by auto
  ultimately show False using assms(3) by (simp add: sealed_ok_def)
qed

subsection \<open>Witnesses\<close>

definition example_seal :: "int \<Rightarrow> string \<Rightarrow> int \<Rightarrow> string \<Rightarrow> publication_call" where
  "example_seal v text pv pd = CallStore ''ten_1'' ''s1'' v [''title'' \<mapsto> GoString text] example_source example_evidence example_window pv pd 30"

text \<open>A marshaller that tells the titles apart, for the examples.\<close>

definition title_json :: "go_value \<Rightarrow> string option" where
  "title_json v = (case v of GoMap m \<Rightarrow> (case m ''title'' of Some (GoString s) \<Rightarrow> Some s | _ \<Rightarrow> Some []) | _ \<Rightarrow> None)"

lemma title_digest: "ComputeCanonicalPayloadDigest title_json h [''title'' \<mapsto> GoString text] = Inr (EncodeToString (h text))"
  by (simp add: ComputeCanonicalPayloadDigest_def toCanonicalJSON_def title_json_def)

definition example_sealed :: ImmutablePublicationStore where
  "example_sealed = run_calls (publication_exec title_json id) [example_seal 1 ''Ladder'' 0 []] NewImmutablePublicationStore"

lemma example_sealed_version:
  "\<exists>r. GetPublishedVersion ''ten_1'' ''s1'' 1 example_sealed = Inr r \<and> ir_Payload r = [''title'' \<mapsto> GoString ''Ladder'']"
proof -
  have "Source_Validate example_source = None" "Window_Validate example_window = None"
    by (simp_all add: Source_Validate_def example_source_def Window_Validate_def example_window_def IsZero_def Time_Sub_def
        MaxPublicationWindowDuration_def)
  then show ?thesis
    by (simp add: example_sealed_def example_seal_def StorePublishedVersion_def Let_def NewImmutablePublicationStore_def
        predecessor_error_def title_digest GetPublishedVersion_def seal_version_def sealed_record_def)
      (simp add: example_source_def)
qed

theorem sealed_version_permanent_witness:
  "\<exists>s e. StorePublishedVersion title_json id ''ten_1'' ''s1'' 1 Map.empty example_source example_evidence example_window 0 [] 50 s = (s, Inl e)"
proof -
  obtain r where r: "GetPublishedVersion ''ten_1'' ''s1'' 1 example_sealed = Inr r" using example_sealed_version by blast
  from sealed_version_permanent [OF example_sealed_def r refl] show ?thesis by blast
qed

lemma example_versions: "is_versions example_sealed (makeBaseKey ''ten_1'' ''s1'') \<noteq> []"
proof -
  obtain r where "is_store example_sealed (version_key (makeBaseKey ''ten_1'' ''s1'') 1) = Some r"
    using example_sealed_version by (auto simp: GetPublishedVersion_def immutable_keys split: option.splits)
  moreover have "store_inv title_json id example_sealed" unfolding example_sealed_def by (rule reachable_publication_store)
  ultimately show ?thesis using sealed_invD(4) by fastforce
qed

lemma report_exists:
  "is_versions s (makeBaseKey ''ten_1'' ''s1'') \<noteq> [] \<Longrightarrow>
   \<exists>report. ReconstructPublicationAuditTrail title_json id ''ten_1'' ''s1'' 40 s = Inr report"
  by (simp add: ReconstructPublicationAuditTrail_def immutable_keys Let_def)

theorem audit_of_reachable_intact_witness:
  "\<exists>report. ReconstructPublicationAuditTrail title_json id ''ten_1'' ''s1'' 40 example_sealed = Inr report \<and> ar_Findings report = []"
proof -
  obtain report where report: "ReconstructPublicationAuditTrail title_json id ''ten_1'' ''s1'' 40 example_sealed = Inr report"
    using report_exists [OF example_versions] by blast
  from audit_of_reachable_intact [OF example_sealed_def report] report show ?thesis by blast
qed

theorem audit_detects_changed_payload_witness:
  "\<exists>s report. ReconstructPublicationAuditTrail title_json id ''ten_1'' ''s1'' 40 s = Inr report \<and> ar_Status report = StatusTamperDetected"
proof -
  obtain r where r: "GetPublishedVersion ''ten_1'' ''s1'' 1 example_sealed = Inr r" "ir_Payload r = [''title'' \<mapsto> GoString ''Ladder'']"
    using example_sealed_version by blast
  let ?p = "[''title'' \<mapsto> GoString ''Rope'']"
  let ?s = "example_sealed\<lparr>is_store := (is_store example_sealed)(makeImmutableKey ''ten_1'' ''s1'' 1 \<mapsto> r\<lparr>ir_Payload := ?p\<rparr>)\<rparr>"
  obtain report where report: "ReconstructPublicationAuditTrail title_json id ''ten_1'' ''s1'' 40 ?s = Inr report"
    using report_exists [of ?s] example_versions by auto
  have "ComputeCanonicalPayloadDigest title_json id ?p \<noteq> ComputeCanonicalPayloadDigest title_json id (ir_Payload r)"
    unfolding r(2) title_digest by (simp add: EncodeToString_inject)
  from audit_detects_changed_payload [OF example_sealed_def r(1) this refl report] report show ?thesis by blast
qed

subsection \<open>Where the code falls short\<close>

text \<open>
  The signature of a version does not cover the digest of its predecessor, so the versions are linked but not chained: replace the payload
  of the first version, recompute its digests, and put its new signature into the second; the audit finds nothing, and the signature of the
  second version is the same as before.
\<close>

theorem rewritten_history_passes:
  assumes "store_inv marshal h s" and "b = makeBaseKey t i" and "is_versions s b = [1, 2]"
    and "is_store s (version_key b 1) = Some r1" and "is_store s (version_key b 2) = Some r2"
    and "ComputeCanonicalPayloadDigest marshal h p = Inr d"
    and "sig = ComputeSignatureDigest h (ir_TenantID r1) (ir_SnapshotID r1) 1 (ir_Source r1) d (ap_DecisionHash (ir_Approval r1))"
    and "s' = s\<lparr>is_store := (is_store s)(version_key b 1 \<mapsto> r1\<lparr>ir_Payload := p, ir_PayloadDigest := d, ir_SignatureDigest := sig\<rparr>,
           version_key b 2 \<mapsto> r2\<lparr>ir_PredecessorDigest := sig\<rparr>)\<rparr>"
    and "ReconstructPublicationAuditTrail marshal h t i now s' = Inr report"
  shows "ar_Status report = StatusVerifiedIntact"
proof -
  have "sealed_ok marshal h b 1 r1" "ir_PredecessorDigest r1 = []" using sealed_invD(3) [OF assms(1), of 1 b] assms(3,4) by (auto simp: signature_of_def)
  moreover have "sealed_ok marshal h b 2 r2" using sealed_invD(3) [OF assms(1), of 2 b] assms(3,5) by auto
  ultimately have "chain_intact marshal h (\<lambda>v. is_store s' (version_key b v)) 0 0 [] [1, 2]"
    using assms(6) by (simp add: assms(8) sealed_ok_def seal_intact_def assms(7))
  then have "chain_intact marshal h (\<lambda>v. is_store s' (version_key (makeBaseKey t i) v)) 0 0 [] (is_versions s' (makeBaseKey t i))"
    using assms(3) unfolding assms(2) by (simp add: assms(8))
  then show ?thesis using audit_report(1,3) [OF assms(9)] by (simp add: audit_loop_findings)
qed

text \<open>
  \<open>RegisterReplacement\<close> checks nothing of the successor and writes over the link that sealing has made: a version may point to a successor that
  does not exist, under the digest of the one that does, and the audit does not look at it.
\<close>

theorem replacement_overwrites_link:
  assumes "GetPublishedVersion t i v s = Inr r" and "TrimSpace why \<noteq> []" and "is_store s (makeImmutableKey t i 99) = None"
  shows "\<exists>s' r'. RegisterReplacement t i v ''ghost'' 99 ReplacementCorrection why now s = (s', Inr ()) \<and> GetPublishedVersion t i v s' = Inr r' \<and>
    ir_SuccessorVersion r' = 99 \<and> ir_SuccessorDigest r' = ir_SuccessorDigest r"
  using assms by (auto simp: RegisterReplacement_def GetPublishedVersion_def Let_def split: option.splits)

end
