(* ===== verification/Directory_Profiles.thy ===== *)
theory Directory_Profiles
  imports Authorization_Matrix
begin

text \<open>
  The directory of people, \<open>modules/identity-authorization/directory_profile.go\<close>: profiles, the registry with its index by subject, and search.
  The order in which a map is visited is an argument: the list of its keys.
\<close>

subsection \<open>Errors of the directory, of external users, and of participation in projects\<close>

datatype (plugins only: code size) people_error =
  Iam iam_error
| ErrBlankProfileID | ErrBlankCompanyID | ErrBlankDisplayName | ErrInvalidProfileStatus | ErrProfileNotFound | ErrDuplicateProfileID
| ErrSubjectTenantMismatch | ErrCrossScopeAccessDenied | ErrAuthorizationStateForbidden
| ErrUnauthenticatedCaller | ErrDirectoryReadPermissionDenied | ErrDataMinimizationViolation
| ErrDuplicateIdentifierCollision | ErrFalseMergeProhibited | ErrStructuralIdentityImmutable | ErrProfileInactive | ErrNoNonStructuralChanges
| ErrInvalidExternalUserType | ErrMissingInternalSponsor | ErrInvalidInternalSponsor | ErrCompanyAdminDenied | ErrPIIDetected
| ErrEnrollmentRevoked | ErrEnrollmentExpired | ErrExternalUserNotFound | ErrDuplicateExternalUser | ErrScopeNotGranted
| ErrBlankConditionID | ErrBlankProjectID | ErrTrustedDeviceProhibited | ErrAccessConditionInactive | ErrAccessConditionExpired
| ErrAccessConditionRevoked | ErrAccessConditionSuspended | ErrRenewalDurationExceeded | ErrStaleSession | ErrAccessConditionNotFound
| ErrDuplicateConditionID | ErrDurationExceeded | ErrSponsorUnchanged
| ErrBlankParticipationID | ErrParticipationNotFound | ErrDuplicateParticipation | ErrParticipationInactive | ErrParticipationDeactivated
| ErrParticipationExpired | ErrCrossProjectAccessDenied | ErrContractorAdminProhibited | ErrAuditorReadOnlyViolation
| ErrAttributionImmutable | ErrBlankResourceID | ErrBlankActionType | ErrBlankAttributionID

abbreviation BlankTenant :: people_error where "BlankTenant \<equiv> Iam (IdentityErr ErrBlankTenantID)"
abbreviation BlankSubject :: people_error where "BlankSubject \<equiv> Iam (IdentityErr ErrBlankSubject)"

subsection \<open>Profiles\<close>

datatype ProfileStatus = ProfileStatusActive | ProfileStatusInactive | ProfileStatusBlank

record DirectoryProfile =
  df_profileID :: string
  df_subject :: string
  df_tenantID :: string
  df_companyID :: string
  df_projectID :: string
  df_siteID :: string
  df_displayName :: string
  df_jobTitle :: string
  df_department :: string
  df_assignedAreas :: "string list"
  df_status :: ProfileStatus
  df_createdAt :: gotime
  df_updatedAt :: gotime

definition Profile_IsActive :: "DirectoryProfile \<Rightarrow> bool" where
  "Profile_IsActive p \<longleftrightarrow> df_status p = ProfileStatusActive"

definition Profile_Deactivate :: "gotime \<Rightarrow> DirectoryProfile \<Rightarrow> DirectoryProfile" where
  "Profile_Deactivate now p = p\<lparr>df_status := ProfileStatusInactive, df_updatedAt := now\<rparr>"

definition Profile_Activate :: "gotime \<Rightarrow> DirectoryProfile \<Rightarrow> DirectoryProfile" where
  "Profile_Activate now p = p\<lparr>df_status := ProfileStatusActive, df_updatedAt := now\<rparr>"

text \<open>
  Ranging over a string decodes UTF-8: the width of the rune at the start of a text, 0 if there is none that is well formed. Every
  byte that starts no rune is read as U+FFFD, of width one.
\<close>

definition byte_in :: "nat \<Rightarrow> nat \<Rightarrow> char \<Rightarrow> bool" where
  "byte_in lo hi c \<longleftrightarrow> lo \<le> of_char c \<and> of_char c \<le> hi"

definition continuation :: "char \<Rightarrow> bool" where
  "continuation c \<longleftrightarrow> byte_in 0x80 0xBF c"

fun rune_width :: "string \<Rightarrow> nat" where
  "rune_width [] = 0"
| "rune_width (a # s) =
     (if byte_in 0 0x7F a then 1
      else case s of
        [] \<Rightarrow> 0
      | b # s' \<Rightarrow>
          if byte_in 0xC2 0xDF a then (if continuation b then 2 else 0)
          else case s' of
            [] \<Rightarrow> 0
          | c # s'' \<Rightarrow>
              if byte_in 0xE0 0xEF a
              then (if byte_in (if a = CHR 0xE0 then 0xA0 else 0x80) (if a = CHR 0xED then 0x9F else 0xBF) b \<and> continuation c then 3 else 0)
              else case s'' of
                [] \<Rightarrow> 0
              | d # _ \<Rightarrow>
                  if byte_in 0xF0 0xF4 a \<and>
                     byte_in (if a = CHR 0xF0 then 0x90 else 0x80) (if a = CHR 0xF4 then 0x8F else 0xBF) b \<and> continuation c \<and> continuation d
                  then 4 else 0)"

text \<open>The loop that drops control characters and writes every other rune, an ill-formed byte as the replacement character.\<close>

function strip_controls :: "string \<Rightarrow> string" where
  "strip_controls [] = []"
| "strip_controls (a # s) =
     (let w = rune_width (a # s) in
      if w = 0 then [CHR 0xEF, CHR 0xBF, CHR 0xBD] @ strip_controls s
      else if w = 1 \<and> (byte_in 0 31 a \<or> a = CHR 0x7F) then strip_controls s
      else take w (a # s) @ strip_controls (drop (w - 1) s))"
  by pat_completeness auto
termination
  by (relation "measure length") auto

definition SanitizeDisplayName :: "string \<Rightarrow> string" where
  "SanitizeDisplayName name = TrimSpace (strip_controls (TrimSpace name))"

definition clean_areas :: "string list \<Rightarrow> string list" where
  "clean_areas areas = filter (\<lambda>t. t \<noteq> []) (map TrimSpace areas)"

text \<open>The arguments of the constructor, in the order of the source.\<close>

record profile_input =
  fi_profileID :: string
  fi_subject :: string
  fi_tenantID :: string
  fi_companyID :: string
  fi_projectID :: string
  fi_siteID :: string
  fi_displayName :: string
  fi_jobTitle :: string
  fi_department :: string
  fi_assignedAreas :: "string list"

definition NewDirectoryProfile :: "profile_input \<Rightarrow> gotime \<Rightarrow> people_error + DirectoryProfile" where
  "NewDirectoryProfile i now =
     (if TrimSpace (fi_profileID i) = [] then Inl ErrBlankProfileID
      else case ValidateSubject (fi_subject i) of Some e \<Rightarrow> Inl (Iam e) | None \<Rightarrow>
        if TrimSpace (fi_tenantID i) = [] then Inl BlankTenant
        else if TrimSpace (fi_companyID i) = [] then Inl ErrBlankCompanyID
        else if SanitizeDisplayName (fi_displayName i) = [] then Inl ErrBlankDisplayName
        else Inr \<lparr>df_profileID = TrimSpace (fi_profileID i), df_subject = TrimSpace (fi_subject i), df_tenantID = TrimSpace (fi_tenantID i),
               df_companyID = TrimSpace (fi_companyID i), df_projectID = TrimSpace (fi_projectID i), df_siteID = TrimSpace (fi_siteID i),
               df_displayName = SanitizeDisplayName (fi_displayName i), df_jobTitle = TrimSpace (fi_jobTitle i),
               df_department = TrimSpace (fi_department i), df_assignedAreas = clean_areas (fi_assignedAreas i),
               df_status = ProfileStatusActive, df_createdAt = now, df_updatedAt = now\<rparr>)"

record DirectoryQuery =
  qy_TenantID :: string
  qy_CompanyID :: string
  qy_ProjectID :: string
  qy_SiteID :: string
  qy_IncludeInactive :: bool

subsection \<open>Registry\<close>

record DirectoryRegistry =
  dz_profiles :: "string \<rightharpoonup> DirectoryProfile"
  dz_subjectIndex :: "string \<Rightarrow> string list"

definition NewDirectoryRegistry :: DirectoryRegistry where
  "NewDirectoryRegistry = \<lparr>dz_profiles = Map.empty, dz_subjectIndex = (\<lambda>_. [])\<rparr>"

definition makeProfileKey :: "string \<Rightarrow> string \<Rightarrow> string" where
  "makeProfileKey tenantID profileID = TrimSpace tenantID @ '':'' @ TrimSpace profileID"

definition makeSubjectKey :: "string \<Rightarrow> string \<Rightarrow> string" where
  "makeSubjectKey tenantID subject = TrimSpace tenantID @ '':'' @ TrimSpace subject"

definition RegisterProfile :: "DirectoryProfile \<Rightarrow> DirectoryRegistry \<Rightarrow> (DirectoryRegistry, people_error, unit) outcome" where
  "RegisterProfile p r =
     (let pKey = makeProfileKey (df_tenantID p) (df_profileID p); sKey = makeSubjectKey (df_tenantID p) (df_subject p) in
      if df_tenantID p = [] \<or> df_profileID p = [] then (r, Inl ErrBlankProfileID)
      else if df_subject p = [] then (r, Inl BlankSubject)
      else if dz_profiles r pKey \<noteq> None then (r, Inl ErrDuplicateProfileID)
      else (r\<lparr>dz_profiles := (dz_profiles r)(pKey \<mapsto> p),
              dz_subjectIndex := (dz_subjectIndex r)(sKey := dz_subjectIndex r sKey @ [df_profileID p])\<rparr>, Inr ()))"

definition GetProfile :: "string \<Rightarrow> string \<Rightarrow> DirectoryRegistry \<Rightarrow> people_error + DirectoryProfile" where
  "GetProfile tenantID profileID r =
     (case dz_profiles r (makeProfileKey tenantID profileID) of None \<Rightarrow> Inl ErrProfileNotFound | Some p \<Rightarrow> Inr p)"

definition DeactivateProfile :: "string \<Rightarrow> string \<Rightarrow> gotime \<Rightarrow> DirectoryRegistry \<Rightarrow> (DirectoryRegistry, people_error, DirectoryProfile) outcome" where
  "DeactivateProfile tenantID profileID now r =
     (let pKey = makeProfileKey tenantID profileID in
      case dz_profiles r pKey of
        None \<Rightarrow> (r, Inl ErrProfileNotFound)
      | Some p \<Rightarrow> (r\<lparr>dz_profiles := (dz_profiles r)(pKey \<mapsto> Profile_Deactivate now p)\<rparr>, Inr (Profile_Deactivate now p)))"

definition ListProfilesBySubject ::
  "string \<Rightarrow> string \<Rightarrow> bool \<Rightarrow> DirectoryRegistry \<Rightarrow> people_error + DirectoryProfile list" where
  "ListProfilesBySubject tenantID subject includeInactive r =
     (let tTenant = TrimSpace tenantID; tSub = TrimSpace subject in
      if tTenant = [] then Inl BlankTenant
      else if tSub = [] then Inl BlankSubject
      else Inr (filter (\<lambda>p. includeInactive \<or> Profile_IsActive p)
        (List.map_filter (\<lambda>i. dz_profiles r (makeProfileKey tTenant i)) (dz_subjectIndex r (makeSubjectKey tTenant tSub)))))"

definition matches_query :: "DirectoryQuery \<Rightarrow> DirectoryProfile \<Rightarrow> bool" where
  "matches_query q p \<longleftrightarrow>
     df_tenantID p = TrimSpace (qy_TenantID q) \<and>
     (qy_IncludeInactive q \<or> Profile_IsActive p) \<and>
     (TrimSpace (qy_CompanyID q) = [] \<or> df_companyID p = TrimSpace (qy_CompanyID q)) \<and>
     (TrimSpace (qy_ProjectID q) = [] \<or> df_projectID p = TrimSpace (qy_ProjectID q)) \<and>
     (TrimSpace (qy_SiteID q) = [] \<or> df_siteID p = TrimSpace (qy_SiteID q))"

definition SearchDirectory :: "string list \<Rightarrow> DirectoryQuery \<Rightarrow> DirectoryRegistry \<Rightarrow> people_error + DirectoryProfile list" where
  "SearchDirectory ks q r =
     (if TrimSpace (qy_TenantID q) = [] then Inl BlankTenant
      else Inr (filter (matches_query q) (List.map_filter (dz_profiles r) ks)))"

end
