(* ===== verification/Registry_Ledger.thy ===== *)
theory Registry_Ledger
  imports Prelude
begin

text \<open>
  The contract of a registry with a ledger, which the directory, the external users and the access conditions share: entries under a key made
  of their identity, and a ledger in which every call that changes an entry writes one record that names the entry and the state before
  and after. From the law on single calls follow the histories of all reachable states: each is a path to the present state of its entry.
\<close>

locale ledgered = api_machine exec inv ok
  for exec :: "'c \<Rightarrow> 's \<Rightarrow> 's \<times> ('e + 'r)" and inv :: "'s \<Rightarrow> bool" and ok :: "'c \<Rightarrow> bool" +
  fixes entries :: "'s \<Rightarrow> 'k \<rightharpoonup> 'v"
    and ledger :: "'s \<Rightarrow> 'j list"
    and keyof :: "'i \<Rightarrow> 'k"
    and ident :: "'v \<Rightarrow> 'i"
    and subject_of :: "'j \<Rightarrow> 'i"
    and state :: "'v \<Rightarrow> 'q"
    and before :: "'j \<Rightarrow> 'q"
    and after :: "'j \<Rightarrow> 'q"
    and blank :: 'q
  assumes exec_ledger: "\<And>c s. inv s \<Longrightarrow> ok c \<Longrightarrow> entries (fst (exec c s)) = entries s \<and> ledger (fst (exec c s)) = ledger s \<or>
      (\<exists>v j. entries s (keyof (ident v)) = None \<and> entries (fst (exec c s)) = (entries s)(keyof (ident v) \<mapsto> v) \<and>
         ledger (fst (exec c s)) = ledger s @ [j] \<and> subject_of j = ident v \<and> before j = blank \<and> after j = state v) \<or>
      (\<exists>k v v' j. entries s k = Some v \<and> entries (fst (exec c s)) = (entries s)(k \<mapsto> v') \<and> ident v' = ident v \<and>
         ledger (fst (exec c s)) = ledger s @ [j] \<and> subject_of j = ident v \<and> before j = state v \<and> after j = state v')"
begin

definition history :: "'i \<Rightarrow> 's \<Rightarrow> 'j list" where
  "history i s = filter (\<lambda>j. subject_of j = i) (ledger s)"

definition path :: "'i \<Rightarrow> 's \<Rightarrow> ('q \<times> 'q) list" where
  "path i s = map (\<lambda>j. (before j, after j)) (history i s)"

definition ledger_inv :: "'s \<Rightarrow> bool" where
  "ledger_inv s \<longleftrightarrow>
     (\<forall>k v. entries s k = Some v \<longrightarrow> k = keyof (ident v) \<and> history (ident v) s \<noteq> [] \<and> linked blank (path (ident v) s) (state v)) \<and>
     (\<forall>j\<in>set (ledger s). \<exists>v. entries s (keyof (subject_of j)) = Some v \<and> ident v = subject_of j)"

lemma ledger_invD:
  assumes "ledger_inv s" and "entries s k = Some v"
  shows "k = keyof (ident v)" and "history (ident v) s \<noteq> []" and "linked blank (path (ident v) s) (state v)"
  using assms by (auto simp: ledger_inv_def)

lemma ledger_invD_record:
  "ledger_inv s \<Longrightarrow> j \<in> set (ledger s) \<Longrightarrow> \<exists>v. entries s (keyof (subject_of j)) = Some v \<and> ident v = subject_of j"
  by (simp add: ledger_inv_def)

text \<open>Records with the key of an entry are records of that entry.\<close>

lemma same_key_same_entry:
  assumes "ledger_inv s" and "entries s k = Some v" and "j \<in> set (ledger s)" and "keyof (subject_of j) = k"
  shows "subject_of j = ident v"
  using ledger_invD_record [OF assms(1,3)] assms(2,4) by auto

lemma history_by_key:
  assumes "ledger_inv s" and "entries s k = Some v"
  shows "filter (\<lambda>j. keyof (subject_of j) = k) (ledger s) = history (ident v) s"
  unfolding history_def
  using same_key_same_entry [OF assms] ledger_invD(1) [OF assms] by (intro filter_cong) auto

lemma history_snoc:
  "ledger s' = ledger s @ [j] \<Longrightarrow> history i s' = history i s @ (if subject_of j = i then [j] else [])"
  by (simp add: history_def)

lemma moves_snoc:
  "ledger s' = ledger s @ [j] \<Longrightarrow> path i s' = path i s @ (if subject_of j = i then [(before j, after j)] else [])"
  by (simp add: path_def history_snoc)

lemma ledger_inv_new:
  assumes "ledger_inv s" and "entries s (keyof (ident v)) = None" and "entries s' = (entries s)(keyof (ident v) \<mapsto> v)"
    and "ledger s' = ledger s @ [j]" and "subject_of j = ident v" and "before j = blank" and "after j = state v"
  shows "ledger_inv s'"
  unfolding ledger_inv_def
proof (intro conjI allI impI ballI)
  have none: "history (ident v) s = []"
    unfolding history_def using ledger_invD_record [OF assms(1)] assms(2) by (fastforce simp: filter_empty_conv)
  fix k w
  assume w: "entries s' k = Some w"
  show "k = keyof (ident w)" "history (ident w) s' \<noteq> []" "linked blank (path (ident w) s') (state w)"
  proof (atomize (full), cases "k = keyof (ident v)")
    case True
    with w assms(3) have "w = v" by simp
    with True none assms(5-7) show "k = keyof (ident w) \<and> history (ident w) s' \<noteq> [] \<and> linked blank (path (ident w) s') (state w)"
      by (simp add: history_snoc [OF assms(4)] moves_snoc [OF assms(4)] path_def)
  next
    case False
    with w assms(3) have "entries s k = Some w" by simp
    note old = ledger_invD [OF assms(1) this]
    with False have "ident w \<noteq> ident v" by auto
    with old assms(5) show "k = keyof (ident w) \<and> history (ident w) s' \<noteq> [] \<and> linked blank (path (ident w) s') (state w)"
      by (simp add: history_snoc [OF assms(4)] moves_snoc [OF assms(4)])
  qed
next
  fix r
  assume "r \<in> set (ledger s')"
  then consider "r = j" | "r \<in> set (ledger s)" using assms(4) by auto
  then show "\<exists>v. entries s' (keyof (subject_of r)) = Some v \<and> ident v = subject_of r"
  proof cases
    case 1
    with assms(3,5) show ?thesis by simp
  next
    case 2
    with ledger_invD_record [OF assms(1)] obtain w where "entries s (keyof (subject_of r)) = Some w" "ident w = subject_of r" by blast
    with assms(2,3) show ?thesis by (cases "keyof (subject_of r) = keyof (ident v)") auto
  qed
qed

lemma ledger_inv_change:
  assumes "ledger_inv s" and "entries s k = Some v" and "entries s' = (entries s)(k \<mapsto> v')" and "ident v' = ident v"
    and "ledger s' = ledger s @ [j]" and "subject_of j = ident v" and "before j = state v" and "after j = state v'"
  shows "ledger_inv s'"
  unfolding ledger_inv_def
proof (intro conjI allI impI ballI)
  note v = ledger_invD [OF assms(1,2)]
  fix k' w
  assume w: "entries s' k' = Some w"
  show "k' = keyof (ident w)" "history (ident w) s' \<noteq> []" "linked blank (path (ident w) s') (state w)"
  proof (atomize (full), cases "k' = k")
    case True
    with w assms(3) have "w = v'" by simp
    with True v assms(4,6-8) show "k' = keyof (ident w) \<and> history (ident w) s' \<noteq> [] \<and> linked blank (path (ident w) s') (state w)"
      by (simp add: history_snoc [OF assms(5)] moves_snoc [OF assms(5)])
  next
    case False
    with w assms(3) have "entries s k' = Some w" by simp
    note old = ledger_invD [OF assms(1) this]
    with False v have "ident w \<noteq> ident v" by auto
    with old assms(6) show "k' = keyof (ident w) \<and> history (ident w) s' \<noteq> [] \<and> linked blank (path (ident w) s') (state w)"
      by (simp add: history_snoc [OF assms(5)] moves_snoc [OF assms(5)])
  qed
next
  fix r
  assume "r \<in> set (ledger s')"
  then consider "r = j" | "r \<in> set (ledger s)" using assms(5) by auto
  then show "\<exists>v. entries s' (keyof (subject_of r)) = Some v \<and> ident v = subject_of r"
  proof cases
    case 1
    with assms(3,4,6) ledger_invD(1) [OF assms(1,2)] show ?thesis by simp
  next
    case 2
    with ledger_invD_record [OF assms(1)] obtain w where "entries s (keyof (subject_of r)) = Some w" "ident w = subject_of r" by blast
    with assms(2-4) show ?thesis by (cases "keyof (subject_of r) = k") auto
  qed
qed

lemma exec_ledger_cases:
  assumes "inv s" and "ok c"
  obtains (same) "entries (fst (exec c s)) = entries s" "ledger (fst (exec c s)) = ledger s"
  | (new) v j where "entries s (keyof (ident v)) = None" "entries (fst (exec c s)) = (entries s)(keyof (ident v) \<mapsto> v)"
      "ledger (fst (exec c s)) = ledger s @ [j]" "subject_of j = ident v" "before j = blank" "after j = state v"
  | (change) k v v' j where "entries s k = Some v" "entries (fst (exec c s)) = (entries s)(k \<mapsto> v')" "ident v' = ident v"
      "ledger (fst (exec c s)) = ledger s @ [j]" "subject_of j = ident v" "before j = state v" "after j = state v'"
  using exec_ledger [OF assms] by blast

lemma exec_ledger_inv:
  assumes "ledger_inv s" and "inv s" and "ok c"
  shows "ledger_inv (fst (exec c s))"
proof (cases rule: exec_ledger_cases [OF assms(2,3)])
  case 1
  with assms(1) show ?thesis by (simp add: ledger_inv_def history_def path_def)
next
  case (2 v j)
  show ?thesis by (rule ledger_inv_new [OF assms(1) 2])
next
  case (3 k v v' j)
  show ?thesis by (rule ledger_inv_change [OF assms(1) 3])
qed

end

text \<open>Ledgers with this contract are append-only journals, and entries are never removed and keep their identity.\<close>

sublocale ledgered \<subseteq> log: journaled exec "\<lambda>s. inv s \<and> ledger_inv s" ok "\<lambda>_. ledger"
proof
  show "inv (fst (exec c s)) \<and> ledger_inv (fst (exec c s))" if "inv s \<and> ledger_inv s" "ok c" for s c
    using that exec_inv exec_ledger_inv by blast
  show "prefix (ledger s) (ledger (fst (exec c s)))" if "inv s \<and> ledger_inv s" "ok c" for s c
    using that by - (rule exec_ledger_cases [of s c], auto)
qed

context ledgered
begin

lemma exec_entry:
  assumes "inv s" and "ok c" and "entries s k = Some v"
  shows "\<exists>v'. entries (fst (exec c s)) k = Some v' \<and> ident v' = ident v"
proof (cases rule: exec_ledger_cases [OF assms(1,2)])
  case (3 k' w w' j)
  then show ?thesis using assms(3) by (cases "k' = k") auto
qed (use assms(3) in auto)

lemma run_entry:
  "inv s \<Longrightarrow> list_all ok cs \<Longrightarrow> entries s k = Some v \<Longrightarrow>
     \<exists>v'. entries (run_calls exec cs s) k = Some v' \<and> ident v' = ident v"
proof (induction cs arbitrary: s v)
  case (Cons c cs)
  then obtain w where "entries (fst (exec c s)) k = Some w" "ident w = ident v" using exec_entry [of s c k v] by auto
  with Cons exec_inv [of s c] show ?case by fastforce
qed simp

text \<open>The history of an entry in a later state extends its history now.\<close>

lemma run_history:
  "inv s \<Longrightarrow> ledger_inv s \<Longrightarrow> list_all ok cs \<Longrightarrow> prefix (history i s) (history i (run_calls exec cs s))"
  using log.run_journal [of s cs] by (auto simp: history_def prefix_def)

lemma reachable_ledger:
  assumes "inv s" and "entries s = Map.empty" and "ledger s = []" and "list_all ok cs"
  shows "inv (run_calls exec cs s)" and "ledger_inv (run_calls exec cs s)"
proof -
  have "ledger_inv s" using assms(2,3) by (simp add: ledger_inv_def)
  with assms(1,4) have "inv (run_calls exec cs s) \<and> ledger_inv (run_calls exec cs s)" by (intro log.run_inv) simp_all
  then show "inv (run_calls exec cs s)" "ledger_inv (run_calls exec cs s)" by simp_all
qed

end

end
