(* ===== verification/Directory_Resolution.thy ===== *)
theory Directory_Resolution
  imports Directory_Profiles Registry_Ledger
begin

text \<open>
  The directory resolver, \<open>modules/identity-authorization/directory_resolution.go\<close>: changes of profiles with their history. The resolver is the
  registry and the ledger, each with a lock of its own; no method holds both, or one lock from reading a profile to writing it. A
  method is therefore modelled as the steps it makes under one lock each, and calls are interleaved step by step, also with calls made
  directly on the registry and on the ledger. Calls that do not overlap are the special case of running the steps one after the other.
\<close>

subsection \<open>Definitions\<close>

definition AssertNoFalseMerge :: "DirectoryProfile \<Rightarrow> string \<Rightarrow> people_error option" where
  "AssertNoFalseMerge existing candidateSubject =
     (if TrimSpace candidateSubject = [] then Some BlankSubject
      else if df_subject existing \<noteq> TrimSpace candidateSubject then Some ErrFalseMergeProhibited else None)"

definition AssertDistinctSubjects :: "string \<Rightarrow> string \<Rightarrow> people_error option" where
  "AssertDistinctSubjects subjectA subjectB =
     (if TrimSpace subjectA = [] \<or> TrimSpace subjectB = [] then Some BlankSubject
      else if TrimSpace subjectA \<noteq> TrimSpace subjectB then Some ErrFalseMergeProhibited else None)"

record ProfileNonStructuralUpdate =
  up_DisplayName :: "string option"
  up_JobTitle :: "string option"
  up_Department :: "string option"
  up_AssignedAreas :: "string list option"

record DirectoryProfileHistoryRecord =
  hr_RecordID :: string
  hr_TenantID :: string
  hr_ProfileID :: string
  hr_Subject :: string
  hr_CompanyID :: string
  hr_ProjectID :: string
  hr_SiteID :: string
  hr_PreviousState :: ProfileStatus
  hr_NewState :: ProfileStatus
  hr_Transition :: string
  hr_ChangedFields :: "string \<rightharpoonup> string"
  hr_ActorSubject :: string
  hr_Reason :: string
  hr_RecordedAt :: gotime

text \<open>The record that all methods write about a profile.\<close>

definition history_record ::
  "DirectoryProfile \<Rightarrow> ProfileStatus \<Rightarrow> ProfileStatus \<Rightarrow> string \<Rightarrow> (string \<rightharpoonup> string) \<Rightarrow> string \<Rightarrow> string \<Rightarrow> gotime \<Rightarrow>
   DirectoryProfileHistoryRecord" where
  "history_record p previous new_state transition changed actorSubject reason now =
     \<lparr>hr_RecordID = ''hprof_'' @ df_profileID p @ ''_'' @ FormatInt (UnixNano now), hr_TenantID = df_tenantID p, hr_ProfileID = df_profileID p,
      hr_Subject = df_subject p, hr_CompanyID = df_companyID p, hr_ProjectID = df_projectID p, hr_SiteID = df_siteID p,
      hr_PreviousState = previous, hr_NewState = new_state, hr_Transition = transition, hr_ChangedFields = changed,
      hr_ActorSubject = TrimSpace actorSubject, hr_Reason = TrimSpace reason, hr_RecordedAt = now\<rparr>"

text \<open>
  The four optional attributes of an update, one after the other; each keeps the profile updated so far and the map of what changed.
\<close>

type_synonym pending_update = "DirectoryProfile \<times> (string \<rightharpoonup> string)"

definition arrow :: "string \<Rightarrow> string \<Rightarrow> string" where
  "arrow old new = old @ '' -> '' @ new"

definition update_name :: "DirectoryProfile \<Rightarrow> string \<Rightarrow> pending_update \<Rightarrow> pending_update" where
  "update_name current sanitized s =
     (if sanitized \<noteq> df_displayName current
      then (fst s\<lparr>df_displayName := sanitized\<rparr>, (snd s)(''display_name'' \<mapsto> arrow (df_displayName current) sanitized)) else s)"

definition update_title :: "DirectoryProfile \<Rightarrow> string option \<Rightarrow> pending_update \<Rightarrow> pending_update" where
  "update_title current title s =
     (case title of None \<Rightarrow> s | Some t \<Rightarrow>
        if TrimSpace t \<noteq> df_jobTitle current
        then (fst s\<lparr>df_jobTitle := TrimSpace t\<rparr>, (snd s)(''job_title'' \<mapsto> arrow (df_jobTitle current) (TrimSpace t))) else s)"

definition update_department :: "DirectoryProfile \<Rightarrow> string option \<Rightarrow> pending_update \<Rightarrow> pending_update" where
  "update_department current department s =
     (case department of None \<Rightarrow> s | Some d \<Rightarrow>
        if TrimSpace d \<noteq> df_department current
        then (fst s\<lparr>df_department := TrimSpace d\<rparr>, (snd s)(''department'' \<mapsto> arrow (df_department current) (TrimSpace d))) else s)"

text \<open>The verb \<open>%v\<close> of a slice of strings.\<close>

definition show_areas :: "string list \<Rightarrow> string" where
  "show_areas areas = ''['' @ Join areas '' '' @ '']''"

definition update_areas :: "DirectoryProfile \<Rightarrow> string list option \<Rightarrow> pending_update \<Rightarrow> pending_update" where
  "update_areas current areas s =
     (case areas of None \<Rightarrow> s | Some as \<Rightarrow>
        if clean_areas as \<noteq> df_assignedAreas current
        then (fst s\<lparr>df_assignedAreas := clean_areas as\<rparr>,
              (snd s)(''assigned_areas'' \<mapsto> arrow (show_areas (df_assignedAreas current)) (show_areas (clean_areas as)))) else s)"

definition UpdateProfileNonStructural ::
  "DirectoryProfile \<Rightarrow> ProfileNonStructuralUpdate \<Rightarrow> string \<Rightarrow> string \<Rightarrow> gotime \<Rightarrow> people_error + DirectoryProfile \<times> DirectoryProfileHistoryRecord"
where
  "UpdateProfileNonStructural current u actorSubject reason now =
     (if \<not> Profile_IsActive current then Inl ErrProfileInactive
      else case map_option SanitizeDisplayName (up_DisplayName u) of
        Some [] \<Rightarrow> Inl ErrBlankDisplayName
      | name \<Rightarrow>
         (let s = (case name of None \<Rightarrow> (current, Map.empty) | Some n \<Rightarrow> update_name current n (current, Map.empty));
              (updated, changed) = update_areas current (up_AssignedAreas u)
                (update_department current (up_Department u) (update_title current (up_JobTitle u) s))
          in if changed = Map.empty then Inl ErrNoNonStructuralChanges
             else Inr (updated\<lparr>df_updatedAt := now\<rparr>,
               history_record current (df_status current) (df_status updated) ''PROFILE_UPDATE_ATTRIBUTES'' changed actorSubject reason now)))"

definition InactivateProfileWithHistory ::
  "DirectoryProfile \<Rightarrow> string \<Rightarrow> string \<Rightarrow> gotime \<Rightarrow> gotime \<Rightarrow> people_error + DirectoryProfile \<times> DirectoryProfileHistoryRecord" where
  "InactivateProfileWithHistory p actorSubject reason now now' =
     (if \<not> Profile_IsActive p then Inl (Iam (ErrorsNew ''profile is already inactive''))
      else Inr (Profile_Deactivate now' p,
        history_record p (df_status p) ProfileStatusInactive ''PROFILE_INACTIVATE'' Map.empty actorSubject reason now))"

definition ActivateProfileWithHistory ::
  "DirectoryProfile \<Rightarrow> string \<Rightarrow> string \<Rightarrow> gotime \<Rightarrow> gotime \<Rightarrow> people_error + DirectoryProfile \<times> DirectoryProfileHistoryRecord" where
  "ActivateProfileWithHistory p actorSubject reason now now' =
     (if Profile_IsActive p then Inl (Iam (ErrorsNew ''profile is already active''))
      else Inr (Profile_Activate now' p,
        history_record p (df_status p) ProfileStatusActive ''PROFILE_ACTIVATE'' Map.empty actorSubject reason now))"

record DirectoryResolver =
  dn_registry :: DirectoryRegistry
  dn_ledger :: "DirectoryProfileHistoryRecord list"

definition NewDirectoryResolver :: "DirectoryRegistry option \<Rightarrow> DirectoryProfileHistoryRecord list option \<Rightarrow> DirectoryResolver" where
  "NewDirectoryResolver registry ledger =
     \<lparr>dn_registry = (case registry of None \<Rightarrow> NewDirectoryRegistry | Some r \<Rightarrow> r),
      dn_ledger = (case ledger of None \<Rightarrow> [] | Some l \<Rightarrow> l)\<rparr>"

definition Directory_AppendRecord ::
  "DirectoryProfileHistoryRecord \<Rightarrow> DirectoryProfileHistoryRecord list \<Rightarrow> (DirectoryProfileHistoryRecord list, people_error, unit) outcome" where
  "Directory_AppendRecord rec l =
     (if hr_TenantID rec = [] \<or> hr_ProfileID rec = [] then (l, Inl ErrBlankProfileID) else (l @ [rec], Inr ()))"

definition GetProfileHistory ::
  "string \<Rightarrow> string \<Rightarrow> DirectoryProfileHistoryRecord list \<Rightarrow> people_error + DirectoryProfileHistoryRecord list" where
  "GetProfileHistory tenantID profileID l =
     (if TrimSpace tenantID = [] then Inl BlankTenant
      else if TrimSpace profileID = [] then Inl ErrBlankProfileID
      else Inr (filter (\<lambda>rec. hr_TenantID rec = TrimSpace tenantID \<and> hr_ProfileID rec = TrimSpace profileID) l))"

definition GetSubjectHistory ::
  "string \<Rightarrow> string \<Rightarrow> DirectoryProfileHistoryRecord list \<Rightarrow> people_error + DirectoryProfileHistoryRecord list" where
  "GetSubjectHistory tenantID subject l =
     (if TrimSpace tenantID = [] then Inl BlankTenant
      else if TrimSpace subject = [] then Inl BlankSubject
      else Inr (filter (\<lambda>rec. hr_TenantID rec = TrimSpace tenantID \<and> hr_Subject rec = TrimSpace subject) l))"

text \<open>
  Where a call stands between two of its steps: it has still to write the profile it computed, with the record to come; it has still to
  append the record; or it has returned, with the profile if the method returns one.
\<close>

datatype resolver_stage =
  ToStore string DirectoryProfile DirectoryProfileHistoryRecord
| ToAppend DirectoryProfileHistoryRecord "DirectoryProfile option"
| Returned "people_error + DirectoryProfile option"

text \<open>Up to the first unlocking: the registration is written, or the profile is read and the change computed from what was read.\<close>

definition Resolver_RegisterProfile ::
  "DirectoryProfile \<Rightarrow> string \<Rightarrow> string \<Rightarrow> gotime \<Rightarrow> DirectoryResolver \<Rightarrow> DirectoryResolver \<times> resolver_stage" where
  "Resolver_RegisterProfile p actorSubject reason now d =
     (case RegisterProfile p (dn_registry d) of
        (r, Inl e) \<Rightarrow> (d\<lparr>dn_registry := r\<rparr>, Returned (Inl (if e = ErrDuplicateProfileID then ErrDuplicateIdentifierCollision else e)))
      | (r, Inr _) \<Rightarrow> (d\<lparr>dn_registry := r\<rparr>, ToAppend
          (history_record p ProfileStatusBlank (df_status p) ''PROFILE_INITIAL_REGISTER'' Map.empty actorSubject reason now) None))"

definition UpdateProfileAttributes ::
  "string \<Rightarrow> string \<Rightarrow> ProfileNonStructuralUpdate \<Rightarrow> string \<Rightarrow> string \<Rightarrow> gotime \<Rightarrow> DirectoryResolver \<Rightarrow> resolver_stage" where
  "UpdateProfileAttributes tenantID profileID u actorSubject reason now d =
     (case GetProfile tenantID profileID (dn_registry d) of
        Inl e \<Rightarrow> Returned (Inl e)
      | Inr current \<Rightarrow> (case UpdateProfileNonStructural current u actorSubject reason now of
          Inl e \<Rightarrow> Returned (Inl e)
        | Inr (updated, rec) \<Rightarrow> ToStore (makeProfileKey tenantID profileID) updated rec))"

definition InactivateProfile ::
  "string \<Rightarrow> string \<Rightarrow> string \<Rightarrow> string \<Rightarrow> gotime \<Rightarrow> gotime \<Rightarrow> DirectoryResolver \<Rightarrow> resolver_stage" where
  "InactivateProfile tenantID profileID actorSubject reason now now' d =
     (case GetProfile tenantID profileID (dn_registry d) of
        Inl e \<Rightarrow> Returned (Inl e)
      | Inr current \<Rightarrow> (case InactivateProfileWithHistory current actorSubject reason now now' of
          Inl e \<Rightarrow> Returned (Inl e)
        | Inr (inactivated, rec) \<Rightarrow> ToStore (makeProfileKey tenantID profileID) inactivated rec))"

text \<open>The write under the lock of the registry, whatever is stored there by now.\<close>

definition store_profile :: "string \<Rightarrow> DirectoryProfile \<Rightarrow> DirectoryResolver \<Rightarrow> DirectoryResolver" where
  "store_profile pKey p d = d\<lparr>dn_registry := (dn_registry d)\<lparr>dz_profiles := (dz_profiles (dn_registry d))(pKey \<mapsto> p)\<rparr>\<rparr>"

text \<open>The last step, under the lock of the ledger: the record is appended, or its error is the result; the registry stays as it is written.\<close>

definition append_history ::
  "DirectoryProfileHistoryRecord \<Rightarrow> 'r \<Rightarrow> DirectoryResolver \<Rightarrow> (DirectoryResolver, people_error, 'r) outcome" where
  "append_history rec result d =
     (case Directory_AppendRecord rec (dn_ledger d) of
        (l, Inl e) \<Rightarrow> (d\<lparr>dn_ledger := l\<rparr>, Inl e)
      | (l, Inr _) \<Rightarrow> (d\<lparr>dn_ledger := l\<rparr>, Inr result))"

fun resolver_continue :: "resolver_stage \<Rightarrow> DirectoryResolver \<Rightarrow> DirectoryResolver \<times> resolver_stage" where
  "resolver_continue (ToStore pKey p rec) d = (store_profile pKey p d, ToAppend rec (Some p))"
| "resolver_continue (ToAppend rec result) d = (case append_history rec result d of (d', r) \<Rightarrow> (d', Returned r))"
| "resolver_continue (Returned r) d = (d, Returned r)"

definition Resolver_GetProfileHistory ::
  "string \<Rightarrow> string \<Rightarrow> DirectoryResolver \<Rightarrow> people_error + DirectoryProfileHistoryRecord list" where
  "Resolver_GetProfileHistory tenantID profileID d = GetProfileHistory tenantID profileID (dn_ledger d)"

subsection \<open>Calls\<close>

datatype resolver_call =
  CallRegisterProfile DirectoryProfile string string gotime
| CallUpdateProfile string string ProfileNonStructuralUpdate string string gotime
| CallInactivateProfile string string string string gotime gotime

fun resolver_start :: "resolver_call \<Rightarrow> DirectoryResolver \<Rightarrow> DirectoryResolver \<times> resolver_stage" where
  "resolver_start (CallRegisterProfile p a w now) d = Resolver_RegisterProfile p a w now d"
| "resolver_start (CallUpdateProfile t i u a w now) d = (d, UpdateProfileAttributes t i u a w now d)"
| "resolver_start (CallInactivateProfile t i a w now now') d = (d, InactivateProfile t i a w now now' d)"

text \<open>
  Calls in progress: those of the resolver, and those made directly on the registry and the ledger, which are one step each. A schedule
  says which call makes the next step; a call that has returned makes no more.
\<close>

datatype directory_op =
  Method resolver_call
| RegistryRegister DirectoryProfile
| RegistryDeactivate string string gotime
| LedgerAppend DirectoryProfileHistoryRecord

fun op_start :: "directory_op \<Rightarrow> DirectoryResolver \<Rightarrow> DirectoryResolver \<times> resolver_stage" where
  "op_start (Method c) d = resolver_start c d"
| "op_start (RegistryRegister p) d =
     (case RegisterProfile p (dn_registry d) of (r, res) \<Rightarrow> (d\<lparr>dn_registry := r\<rparr>, Returned (map_sum id (\<lambda>_. None) res)))"
| "op_start (RegistryDeactivate t i now) d =
     (case DeactivateProfile t i now (dn_registry d) of (r, res) \<Rightarrow> (d\<lparr>dn_registry := r\<rparr>, Returned (map_sum id Some res)))"
| "op_start (LedgerAppend rec) d = (case append_history rec None d of (d', r) \<Rightarrow> (d', Returned r))"

type_synonym directory_threads = "DirectoryResolver \<times> (directory_op \<times> resolver_stage option) list"

definition start_all :: "directory_op list \<Rightarrow> directory_threads" where
  "start_all ops = (NewDirectoryResolver None None, map (\<lambda>c. (c, None)) ops)"

definition thread_step :: "nat \<Rightarrow> directory_threads \<Rightarrow> directory_threads" where
  "thread_step n s =
     (if n < length (snd s)
      then let c = fst (snd s ! n);
               (d, st) = (case snd (snd s ! n) of None \<Rightarrow> op_start c (fst s) | Some st \<Rightarrow> resolver_continue st (fst s))
           in (d, (snd s)[n := (c, Some st)])
      else s)"

primrec run_schedule :: "nat list \<Rightarrow> directory_threads \<Rightarrow> directory_threads" where
  "run_schedule [] s = s"
| "run_schedule (n # ns) s = run_schedule ns (thread_step n s)"

text \<open>A call that nothing overlaps: its remaining steps one after the other.\<close>

fun finish :: "resolver_stage \<Rightarrow> DirectoryResolver \<Rightarrow> (DirectoryResolver, people_error, DirectoryProfile option) outcome" where
  "finish (ToStore pKey p rec) d = append_history rec (Some p) (store_profile pKey p d)"
| "finish (ToAppend rec result) d = append_history rec result d"
| "finish (Returned r) d = (d, r)"

definition resolver_exec :: "resolver_call \<Rightarrow> DirectoryResolver \<Rightarrow> (DirectoryResolver, people_error, unit) outcome" where
  "resolver_exec c d = (case resolver_start c d of (d', st) \<Rightarrow> discard (finish st d'))"

lemma finish_continue: "resolver_continue st d = (d1, st1) \<Longrightarrow> finish st1 d1 = finish st d"
  by (cases st) (auto split: prod.splits)

text \<open>Three steps in a row are such a call.\<close>

lemma alone_is_exec:
  assumes "n < length ts" and "ts ! n = (Method c, None)"
  shows "\<exists>r. run_schedule [n, n, n] (d, ts) = (fst (resolver_exec c d), ts[n := (Method c, Some (Returned r))])"
proof -
  obtain d1 st where st: "resolver_start c d = (d1, st)" by (cases "resolver_start c d")
  show ?thesis
    using assms st by (cases st) (auto simp: thread_step_def resolver_exec_def discard_def split: prod.splits)
qed

text \<open>The fields of a profile are private: it comes from the constructor, and may have been deactivated since.\<close>

definition made_profile :: "DirectoryProfile \<Rightarrow> bool" where
  "made_profile p \<longleftrightarrow> TrimSpace (df_tenantID p) = df_tenantID p \<and> df_tenantID p \<noteq> [] \<and>
     TrimSpace (df_profileID p) = df_profileID p \<and> df_profileID p \<noteq> [] \<and>
     TrimSpace (df_subject p) = df_subject p \<and> df_subject p \<noteq> []"

fun made_profile_call :: "resolver_call \<Rightarrow> bool" where
  "made_profile_call (CallRegisterProfile p a w now) \<longleftrightarrow> made_profile p"
| "made_profile_call _ \<longleftrightarrow> True"

lemma NewDirectoryProfile_made:
  "NewDirectoryProfile i now = Inr p \<Longrightarrow> made_profile p \<and> Profile_IsActive p \<and> df_displayName p \<noteq> []"
  by (auto simp: NewDirectoryProfile_def made_profile_def Profile_IsActive_def ValidateSubject_def Let_def split: option.splits if_splits)

subsection \<open>What one change keeps\<close>

text \<open>The structural identity of a profile: what ties it to a person and a place.\<close>

definition same_identity :: "DirectoryProfile \<Rightarrow> DirectoryProfile \<Rightarrow> bool" where
  "same_identity p p' \<longleftrightarrow> df_profileID p' = df_profileID p \<and> df_subject p' = df_subject p \<and> df_tenantID p' = df_tenantID p \<and>
     df_companyID p' = df_companyID p \<and> df_projectID p' = df_projectID p \<and> df_siteID p' = df_siteID p \<and>
     df_createdAt p' = df_createdAt p"

lemma same_identity_refl [simp]: "same_identity p p"
  by (simp add: same_identity_def)

lemma same_identity_trans: "same_identity p q \<Longrightarrow> same_identity q r \<Longrightarrow> same_identity p r"
  by (simp add: same_identity_def)

definition wanted :: "'a option \<Rightarrow> ('a \<Rightarrow> 'b) \<Rightarrow> 'b \<Rightarrow> 'b" where
  "wanted x f old = (case x of None \<Rightarrow> old | Some a \<Rightarrow> f a)"

text \<open>The updated profile, field by field, and the map of the fields that differ.\<close>

definition updated_fields :: "ProfileNonStructuralUpdate \<Rightarrow> DirectoryProfile \<Rightarrow> DirectoryProfile" where
  "updated_fields u p = p\<lparr>df_displayName := wanted (up_DisplayName u) SanitizeDisplayName (df_displayName p),
     df_jobTitle := wanted (up_JobTitle u) TrimSpace (df_jobTitle p), df_department := wanted (up_Department u) TrimSpace (df_department p),
     df_assignedAreas := wanted (up_AssignedAreas u) clean_areas (df_assignedAreas p)\<rparr>"

definition differing_fields :: "DirectoryProfile \<Rightarrow> DirectoryProfile \<Rightarrow> string set" where
  "differing_fields p p' =
     {f. f = ''display_name'' \<and> df_displayName p' \<noteq> df_displayName p \<or> f = ''job_title'' \<and> df_jobTitle p' \<noteq> df_jobTitle p \<or>
         f = ''department'' \<and> df_department p' \<noteq> df_department p \<or> f = ''assigned_areas'' \<and> df_assignedAreas p' \<noteq> df_assignedAreas p}"

lemma update_steps:
  "fst (update_name c n s) = (if n \<noteq> df_displayName c then fst s\<lparr>df_displayName := n\<rparr> else fst s)"
  "dom (snd (update_name c n s)) = dom (snd s) \<union> (if n \<noteq> df_displayName c then {''display_name''} else {})"
  "fst (update_title c t s) = (if wanted t TrimSpace (df_jobTitle c) \<noteq> df_jobTitle c then fst s\<lparr>df_jobTitle := wanted t TrimSpace (df_jobTitle c)\<rparr> else fst s)"
  "dom (snd (update_title c t s)) = dom (snd s) \<union> (if wanted t TrimSpace (df_jobTitle c) \<noteq> df_jobTitle c then {''job_title''} else {})"
  "fst (update_department c t s) = (if wanted t TrimSpace (df_department c) \<noteq> df_department c then fst s\<lparr>df_department := wanted t TrimSpace (df_department c)\<rparr> else fst s)"
  "dom (snd (update_department c t s)) = dom (snd s) \<union> (if wanted t TrimSpace (df_department c) \<noteq> df_department c then {''department''} else {})"
  "fst (update_areas c a s) = (if wanted a clean_areas (df_assignedAreas c) \<noteq> df_assignedAreas c then fst s\<lparr>df_assignedAreas := wanted a clean_areas (df_assignedAreas c)\<rparr> else fst s)"
  "dom (snd (update_areas c a s)) = dom (snd s) \<union> (if wanted a clean_areas (df_assignedAreas c) \<noteq> df_assignedAreas c then {''assigned_areas''} else {})"
  by (auto simp: update_name_def update_title_def update_department_def update_areas_def wanted_def split: option.splits)

lemma update_all:
  assumes "s = (case map_option SanitizeDisplayName (up_DisplayName u) of None \<Rightarrow> (p, Map.empty) | Some n \<Rightarrow> update_name p n (p, Map.empty))"
    and "update_areas p (up_AssignedAreas u) (update_department p (up_Department u) (update_title p (up_JobTitle u) s)) = (q, changed)"
  shows "q = updated_fields u p" and "dom changed = differing_fields p q"
proof -
  let ?t = "update_title p (up_JobTitle u) s"
  let ?d = "update_department p (up_Department u) ?t"
  let ?a = "update_areas p (up_AssignedAreas u) ?d"
  have s: "fst s = p\<lparr>df_displayName := wanted (up_DisplayName u) SanitizeDisplayName (df_displayName p)\<rparr>"
    "dom (snd s) = (if wanted (up_DisplayName u) SanitizeDisplayName (df_displayName p) \<noteq> df_displayName p then {''display_name''} else {})"
    unfolding assms(1) by (cases "up_DisplayName u"; simp add: update_steps wanted_def del: dom_eq_empty_conv)+
  have q: "q = fst ?a" "changed = snd ?a" using assms(2) by simp_all
  show eq: "q = updated_fields u p" unfolding q(1) update_steps s updated_fields_def by simp
  have dom: "dom changed = dom (snd s) \<union>
      (if wanted (up_JobTitle u) TrimSpace (df_jobTitle p) \<noteq> df_jobTitle p then {''job_title''} else {}) \<union>
      (if wanted (up_Department u) TrimSpace (df_department p) \<noteq> df_department p then {''department''} else {}) \<union>
      (if wanted (up_AssignedAreas u) clean_areas (df_assignedAreas p) \<noteq> df_assignedAreas p then {''assigned_areas''} else {})"
    unfolding q(2) update_steps by simp
  have fields: "df_displayName q = wanted (up_DisplayName u) SanitizeDisplayName (df_displayName p)"
    "df_jobTitle q = wanted (up_JobTitle u) TrimSpace (df_jobTitle p)"
    "df_department q = wanted (up_Department u) TrimSpace (df_department p)"
    "df_assignedAreas q = wanted (up_AssignedAreas u) clean_areas (df_assignedAreas p)"
    unfolding eq by (simp_all add: updated_fields_def)
  show "dom changed = differing_fields p q"
    unfolding dom s(2) differing_fields_def fields by auto
qed

lemma UpdateProfileNonStructural_Inr:
  assumes "UpdateProfileNonStructural p u a w now = Inr (p', rec)"
  shows "Profile_IsActive p" and "p' = (updated_fields u p)\<lparr>df_updatedAt := now\<rparr>"
    and "dom (hr_ChangedFields rec) = differing_fields p p'" and "differing_fields p p' \<noteq> {}" and "df_displayName p' = [] \<Longrightarrow> df_displayName p = []"
    and "\<exists>changed. rec = history_record p (df_status p) (df_status p') ''PROFILE_UPDATE_ATTRIBUTES'' changed a w now"
proof -
  let ?name = "map_option SanitizeDisplayName (up_DisplayName u)"
  let ?s = "case ?name of None \<Rightarrow> (p, Map.empty) | Some n \<Rightarrow> update_name p n (p, Map.empty)"
  obtain q changed where q: "update_areas p (up_AssignedAreas u) (update_department p (up_Department u) (update_title p (up_JobTitle u) ?s)) = (q, changed)"
    by (cases "update_areas p (up_AssignedAreas u) (update_department p (up_Department u) (update_title p (up_JobTitle u) ?s))")
  note all = update_all [OF refl q]
  have name: "?name \<noteq> Some []" using assms by (auto simp: UpdateProfileNonStructural_def split: if_splits)
  show "Profile_IsActive p" using assms by (auto simp: UpdateProfileNonStructural_def split: if_splits)
  have eq: "UpdateProfileNonStructural p u a w now =
      (if \<not> Profile_IsActive p then Inl ErrProfileInactive else if changed = Map.empty then Inl ErrNoNonStructuralChanges
       else Inr (q\<lparr>df_updatedAt := now\<rparr>, history_record p (df_status p) (df_status q) ''PROFILE_UPDATE_ATTRIBUTES'' changed a w now))"
    using name q unfolding UpdateProfileNonStructural_def by (auto simp: Let_def split: option.splits list.splits)
  then have res: "p' = q\<lparr>df_updatedAt := now\<rparr>" "changed \<noteq> Map.empty"
      "rec = history_record p (df_status p) (df_status q) ''PROFILE_UPDATE_ATTRIBUTES'' changed a w now"
    using assms by (auto split: if_splits)
  show "p' = (updated_fields u p)\<lparr>df_updatedAt := now\<rparr>" using res(1) all(1) by simp
  have d: "differing_fields p p' = dom changed" unfolding all(2) res(1) by (simp add: differing_fields_def)
  show "dom (hr_ChangedFields rec) = differing_fields p p'" unfolding d res(3) by (simp add: history_record_def)
  show "differing_fields p p' \<noteq> {}" unfolding d using res(2) by (simp add: dom_eq_empty_conv)
  show "df_displayName p' = [] \<Longrightarrow> df_displayName p = []"
    unfolding res(1) all(1) using name by (auto simp: updated_fields_def wanted_def split: option.splits)
  show "\<exists>changed. rec = history_record p (df_status p) (df_status p') ''PROFILE_UPDATE_ATTRIBUTES'' changed a w now"
    using res(1,3) by auto
qed

text \<open>A change of an active profile: identity kept, the record is about the profile and links its old status with its new one.\<close>

definition sound_change :: "DirectoryProfile \<Rightarrow> DirectoryProfile \<times> DirectoryProfileHistoryRecord \<Rightarrow> bool" where
  "sound_change p changed \<longleftrightarrow> Profile_IsActive p \<and> same_identity p (fst changed) \<and>
     (\<exists>tr c a w now. snd changed = history_record p (df_status p) (df_status (fst changed)) tr c a w now)"

lemma updated_fields_same [simp]:
  "same_identity p ((updated_fields u p)\<lparr>df_updatedAt := now\<rparr>)" "df_status (updated_fields u p) = df_status p"
  by (simp_all add: same_identity_def updated_fields_def)

lemma changes_sound:
  "UpdateProfileNonStructural p u a w now = Inr changed \<Longrightarrow> sound_change p changed"
  "InactivateProfileWithHistory p a w now now' = Inr changed \<Longrightarrow> sound_change p changed"
proof -
  show "sound_change p changed" if u: "UpdateProfileNonStructural p u a w now = Inr changed"
  proof -
    obtain q rec where c: "changed = (q, rec)" by (cases changed)
    note r = UpdateProfileNonStructural_Inr [OF u [unfolded c]]
    from r(6) obtain ch where "rec = history_record p (df_status p) (df_status q) ''PROFILE_UPDATE_ATTRIBUTES'' ch a w now" by blast
    with r(1,2) show ?thesis unfolding sound_change_def c fst_conv snd_conv by (intro conjI exI) simp_all
  qed
  show "sound_change p changed" if "InactivateProfileWithHistory p a w now now' = Inr changed"
  proof -
    have c: "changed = (Profile_Deactivate now' p, history_record p (df_status p) ProfileStatusInactive ''PROFILE_INACTIVATE'' Map.empty a w now)"
      and "Profile_IsActive p" using that by (auto simp: InactivateProfileWithHistory_def split: if_splits)
    then show ?thesis
      unfolding sound_change_def c fst_conv snd_conv
      by (intro conjI exI) (simp_all add: Profile_Deactivate_def same_identity_def)
  qed
qed

subsection \<open>Invariant and history\<close>

text \<open>Stored profiles are under their own key and come from the constructor.\<close>

definition resolver_inv :: "DirectoryResolver \<Rightarrow> bool" where
  "resolver_inv d \<longleftrightarrow> (\<forall>k p. dz_profiles (dn_registry d) k = Some p \<longrightarrow>
     k = makeProfileKey (df_tenantID p) (df_profileID p) \<and> made_profile p)"

lemma resolver_invD:
  "resolver_inv d \<Longrightarrow> dz_profiles (dn_registry d) k = Some p \<Longrightarrow> k = makeProfileKey (df_tenantID p) (df_profileID p) \<and> made_profile p"
  by (simp add: resolver_inv_def)

text \<open>Whom a profile and a record are about: tenant, profile, subject, company, project, site.\<close>

type_synonym profile_ident = "string \<times> string \<times> string \<times> string \<times> string \<times> string"

definition profile_ident :: "DirectoryProfile \<Rightarrow> profile_ident" where
  "profile_ident p = (df_tenantID p, df_profileID p, df_subject p, df_companyID p, df_projectID p, df_siteID p)"

definition record_ident :: "DirectoryProfileHistoryRecord \<Rightarrow> profile_ident" where
  "record_ident r = (hr_TenantID r, hr_ProfileID r, hr_Subject r, hr_CompanyID r, hr_ProjectID r, hr_SiteID r)"

definition ident_key :: "profile_ident \<Rightarrow> string" where
  "ident_key i = makeProfileKey (fst i) (fst (snd i))"

text \<open>The two ways a successful call moves the resolver.\<close>

lemma resolver_step:
  assumes "made_profile_call c"
  obtains (same) "fst (resolver_exec c d) = d"
  | (registered) p k rec where "k = makeProfileKey (df_tenantID p) (df_profileID p)" "made_profile p" "dz_profiles (dn_registry d) k = None"
      "dz_profiles (dn_registry (fst (resolver_exec c d))) = (dz_profiles (dn_registry d))(k \<mapsto> p)"
      "\<exists>a w now. rec = history_record p ProfileStatusBlank (df_status p) ''PROFILE_INITIAL_REGISTER'' Map.empty a w now"
      "dn_ledger (fst (resolver_exec c d)) = dn_ledger d @ [rec]"
      "dz_subjectIndex (dn_registry (fst (resolver_exec c d))) = (dz_subjectIndex (dn_registry d))
         (makeSubjectKey (df_tenantID p) (df_subject p) := dz_subjectIndex (dn_registry d) (makeSubjectKey (df_tenantID p) (df_subject p)) @ [df_profileID p])"
  | (changed) k p changed where "dz_profiles (dn_registry d) k = Some p" "sound_change p changed"
      "dz_profiles (dn_registry (fst (resolver_exec c d))) = (dz_profiles (dn_registry d))(k \<mapsto> fst changed)"
      "dn_ledger (fst (resolver_exec c d)) = fst (Directory_AppendRecord (snd changed) (dn_ledger d))"
      "dz_subjectIndex (dn_registry (fst (resolver_exec c d))) = dz_subjectIndex (dn_registry d)"
proof -
  have stored: thesis if "resolver_start c d = (d, ToStore (makeProfileKey t i) q rec)"
    and p: "dz_profiles (dn_registry d) (makeProfileKey t i) = Some p" "sound_change p (q, rec)" for t i p q rec
    by (rule changed [OF p]) (use that(1) in \<open>auto simp: resolver_exec_def store_profile_def append_history_def Directory_AppendRecord_def discard_def\<close>)
  have returned: thesis if "resolver_start c d = (d, Returned r)" for r
    using that by (intro same) (simp add: resolver_exec_def discard_def)
  show thesis
  proof (cases c)
    case (CallRegisterProfile p a w now)
    with assms have made: "made_profile p" by simp
    then have ne: "df_tenantID p \<noteq> []" "df_profileID p \<noteq> []" "df_subject p \<noteq> []" by (simp_all add: made_profile_def)
    show thesis
    proof (cases "dz_profiles (dn_registry d) (makeProfileKey (df_tenantID p) (df_profileID p))")
      case None
      show thesis
        by (rule registered [OF refl made None, of "history_record p ProfileStatusBlank (df_status p) ''PROFILE_INITIAL_REGISTER'' Map.empty a w now"])
          (use None ne CallRegisterProfile in \<open>auto simp: resolver_exec_def Resolver_RegisterProfile_def RegisterProfile_def Let_def append_history_def
             Directory_AppendRecord_def history_record_def discard_def\<close>)
    next
      case (Some q)
      then show thesis using CallRegisterProfile ne by (intro returned) (simp add: Resolver_RegisterProfile_def RegisterProfile_def Let_def)
    qed
  next
    case (CallUpdateProfile t i u a w now)
    show thesis
    proof (cases "dz_profiles (dn_registry d) (makeProfileKey t i)")
      case None
      then show thesis using CallUpdateProfile by (intro returned) (simp add: UpdateProfileAttributes_def GetProfile_def)
    next
      case (Some p)
      show thesis
      proof (cases "UpdateProfileNonStructural p u a w now")
        case (Inl e)
        with Some show thesis using CallUpdateProfile by (intro returned) (simp add: UpdateProfileAttributes_def GetProfile_def)
      next
        case (Inr changed)
        with Some show thesis
          using CallUpdateProfile changes_sound(1) [OF Inr] by (intro stored [of t i "fst changed" "snd changed" p]) (simp_all add: UpdateProfileAttributes_def GetProfile_def split: prod.splits)
      qed
    qed
  next
    case (CallInactivateProfile t i a w now now')
    show thesis
    proof (cases "dz_profiles (dn_registry d) (makeProfileKey t i)")
      case None
      then show thesis using CallInactivateProfile by (intro returned) (simp add: InactivateProfile_def GetProfile_def)
    next
      case (Some p)
      show thesis
      proof (cases "InactivateProfileWithHistory p a w now now'")
        case (Inl e)
        with Some show thesis using CallInactivateProfile by (intro returned) (simp add: InactivateProfile_def GetProfile_def)
      next
        case (Inr changed)
        with Some show thesis
          using CallInactivateProfile changes_sound(2) [OF Inr] by (intro stored [of t i "fst changed" "snd changed" p]) (simp_all add: InactivateProfile_def GetProfile_def split: prod.splits)
      qed
    qed
  qed
qed

lemma history_record_simps [simp]:
  "hr_TenantID (history_record p a b tr c w y now) = df_tenantID p" "hr_ProfileID (history_record p a b tr c w y now) = df_profileID p"
  "hr_PreviousState (history_record p a b tr c w y now) = a" "hr_NewState (history_record p a b tr c w y now) = b"
  "record_ident (history_record p a b tr c w y now) = profile_ident p"
  by (simp_all add: history_record_def record_ident_def profile_ident_def)

lemma sound_change_ident:
  assumes "sound_change p changed"
  shows "profile_ident (fst changed) = profile_ident p" and "record_ident (snd changed) = profile_ident p"
    and "hr_PreviousState (snd changed) = df_status p" and "hr_NewState (snd changed) = df_status (fst changed)"
    and "hr_TenantID (snd changed) = df_tenantID p" and "hr_ProfileID (snd changed) = df_profileID p"
    and "made_profile (fst changed) = made_profile p"
  using assms by (auto simp: sound_change_def same_identity_def profile_ident_def made_profile_def)

lemma resolver_exec_inv:
  assumes inv: "resolver_inv d" and "made_profile_call c"
  shows "resolver_inv (fst (resolver_exec c d))"
proof (cases rule: resolver_step [OF assms(2), of d])
  case 1
  with inv show ?thesis by simp
next
  case (2 p k rec)
  with inv show ?thesis by (auto simp: resolver_inv_def)
next
  case (3 k p changed)
  note id = sound_change_ident [OF 3(2)]
  from resolver_invD [OF inv 3(1)] id(1,7)
  have "k = makeProfileKey (df_tenantID (fst changed)) (df_profileID (fst changed)) \<and> made_profile (fst changed)"
    by (simp add: profile_ident_def)
  with inv 3(3) show ?thesis by (auto simp: resolver_inv_def)
qed

interpretation directory: ledgered resolver_exec resolver_inv made_profile_call "\<lambda>d. dz_profiles (dn_registry d)" dn_ledger ident_key
  profile_ident record_ident df_status hr_PreviousState hr_NewState ProfileStatusBlank
proof
  show "resolver_inv d \<Longrightarrow> made_profile_call c \<Longrightarrow> resolver_inv (fst (resolver_exec c d))" for c and d :: DirectoryResolver
    by (rule resolver_exec_inv)
  fix c and d :: DirectoryResolver
  assume inv: "resolver_inv d" and ok: "made_profile_call c"
  show "dz_profiles (dn_registry (fst (resolver_exec c d))) = dz_profiles (dn_registry d) \<and> dn_ledger (fst (resolver_exec c d)) = dn_ledger d \<or>
    (\<exists>v j. dz_profiles (dn_registry d) (ident_key (profile_ident v)) = None \<and>
      dz_profiles (dn_registry (fst (resolver_exec c d))) = (dz_profiles (dn_registry d))(ident_key (profile_ident v) \<mapsto> v) \<and>
      dn_ledger (fst (resolver_exec c d)) = dn_ledger d @ [j] \<and> record_ident j = profile_ident v \<and>
      hr_PreviousState j = ProfileStatusBlank \<and> hr_NewState j = df_status v) \<or>
    (\<exists>k v v' j. dz_profiles (dn_registry d) k = Some v \<and> dz_profiles (dn_registry (fst (resolver_exec c d))) = (dz_profiles (dn_registry d))(k \<mapsto> v') \<and>
      profile_ident v' = profile_ident v \<and> dn_ledger (fst (resolver_exec c d)) = dn_ledger d @ [j] \<and> record_ident j = profile_ident v \<and>
      hr_PreviousState j = df_status v \<and> hr_NewState j = df_status v')"
  proof (cases rule: resolver_step [OF ok, of d])
    case 1
    then show ?thesis by simp
  next
    case (2 p k rec)
    have "ident_key (profile_ident p) = k" by (simp add: 2(1) ident_key_def profile_ident_def)
    with 2 show ?thesis by (intro disjI2 disjI1 exI [of _ p] exI [of _ rec]) auto
  next
    case (3 k p changed)
    note id = sound_change_ident [OF 3(2)]
    from resolver_invD [OF inv 3(1)] have "df_tenantID p \<noteq> []" "df_profileID p \<noteq> []" by (simp_all add: made_profile_def)
    with 3(4) id have "dn_ledger (fst (resolver_exec c d)) = dn_ledger d @ [snd changed]" by (simp add: Directory_AppendRecord_def)
    with 3 id show ?thesis by blast
  qed
qed

lemma reachable_resolver:
  assumes "list_all made_profile_call cs" and "d = run_calls resolver_exec cs (NewDirectoryResolver None None)"
  shows "resolver_inv d" and "directory.ledger_inv d"
  unfolding assms(2)
  by (rule directory.reachable_ledger [OF _ _ _ assms(1)]; simp add: resolver_inv_def NewDirectoryResolver_def NewDirectoryRegistry_def)+

text \<open>An entry keeps its key, its identity, and once inactive everything.\<close>

definition profile_moves :: "DirectoryProfile \<Rightarrow> DirectoryProfile \<Rightarrow> bool" where
  "profile_moves p p' \<longleftrightarrow> same_identity p p' \<and> (\<not> Profile_IsActive p \<longrightarrow> p' = p)"

lemma resolver_entry_step:
  assumes "made_profile_call c" and "dz_profiles (dn_registry d) k = Some p"
  shows "\<exists>p'. dz_profiles (dn_registry (fst (resolver_exec c d))) k = Some p' \<and> profile_moves p p'"
proof (cases rule: resolver_step [OF assms(1), of d])
  case (3 k' q changed)
  then show ?thesis using assms(2) by (cases "k' = k") (auto simp: profile_moves_def sound_change_def)
qed (use assms(2) in \<open>auto simp: profile_moves_def\<close>)

interpretation inactive_profiles: absorbing resolver_exec resolver_inv made_profile_call "\<lambda>k d. dz_profiles (dn_registry d) k"
  "\<lambda>p. \<not> Profile_IsActive p"
proof
  fix c k p and d :: DirectoryResolver
  assume "made_profile_call c" "dz_profiles (dn_registry d) k = Some p" "\<not> Profile_IsActive p"
  with resolver_entry_step [of c d k p] show "dz_profiles (dn_registry (fst (resolver_exec c d))) k = Some p"
    by (auto simp: profile_moves_def)
qed

lemma resolver_entry_run:
  assumes "list_all made_profile_call cs" and "dz_profiles (dn_registry d) k = Some p"
  shows "\<exists>p'. dz_profiles (dn_registry (run_calls resolver_exec cs d)) k = Some p' \<and> profile_moves p p'"
  using assms
proof (induction cs arbitrary: d p)
  case (Cons c cs)
  then obtain q where q: "dz_profiles (dn_registry (fst (resolver_exec c d))) k = Some q" "profile_moves p q"
    using resolver_entry_step [of c d k p] by auto
  with Cons obtain p' where "dz_profiles (dn_registry (run_calls resolver_exec cs (fst (resolver_exec c d)))) k = Some p'" "profile_moves q p'"
    by auto
  with q(2) show ?case by (auto simp: profile_moves_def intro: same_identity_trans)
qed (simp add: profile_moves_def)

subsection \<open>Properties\<close>

lemma GetProfile_Inr: "GetProfile t i r = Inr p \<longleftrightarrow> dz_profiles r (makeProfileKey t i) = Some p"
  by (simp add: GetProfile_def split: option.split)

text \<open>
  The directory never merges people. When calls do not overlap, in every reachable resolver a profile keeps its identifier, subject, tenant, company, project and site
  whatever calls follow, it is never removed, and an inactive one does not change at all.
\<close>

theorem profile_identity_immutable:
  assumes "list_all made_profile_call cs" and "list_all made_profile_call ds"
    and "d = run_calls resolver_exec cs (NewDirectoryResolver None None)" and "GetProfile t i (dn_registry d) = Inr p"
  shows "\<exists>p'. GetProfile t i (dn_registry (run_calls resolver_exec ds d)) = Inr p' \<and> same_identity p p' \<and>
    AssertDistinctSubjects (df_subject p) (df_subject p') = None \<and> (\<not> Profile_IsActive p \<longrightarrow> p' = p)"
proof -
  have "made_profile p"
    using resolver_invD [OF reachable_resolver(1) [OF assms(1,3)]] assms(4) by (auto simp: GetProfile_Inr)
  moreover obtain p' where "dz_profiles (dn_registry (run_calls resolver_exec ds d)) (makeProfileKey t i) = Some p'" "profile_moves p p'"
    using resolver_entry_run [OF assms(2) assms(4) [unfolded GetProfile_Inr]] by blast
  ultimately show ?thesis
    by (auto simp: GetProfile_Inr profile_moves_def same_identity_def AssertDistinctSubjects_def made_profile_def)
qed

definition example_profile :: DirectoryProfile where
  "example_profile = \<lparr>df_profileID = ''prof_1'', df_subject = ''usr_1'', df_tenantID = ''ten_1'', df_companyID = ''cmp_1'', df_projectID = ''prj_1'',
     df_siteID = ''ste_1'', df_displayName = ''Ann'', df_jobTitle = ''Inspector'', df_department = [], df_assignedAreas = [],
     df_status = ProfileStatusActive, df_createdAt = 1, df_updatedAt = 1\<rparr>"

definition example_update :: ProfileNonStructuralUpdate where
  "example_update = \<lparr>up_DisplayName = None, up_JobTitle = Some ''Auditor'', up_Department = None, up_AssignedAreas = None\<rparr>"

abbreviation example_resolver_calls :: "resolver_call list" where
  "example_resolver_calls \<equiv> [CallRegisterProfile example_profile ''usr_hr'' ''joined'' 2,
     CallUpdateProfile ''ten_1'' ''prof_1'' example_update ''usr_hr'' ''promoted'' 3]"

lemmas resolver_eval = Resolver_RegisterProfile_def RegisterProfile_def NewDirectoryResolver_def NewDirectoryRegistry_def append_history_def
  Directory_AppendRecord_def history_record_def UpdateProfileAttributes_def InactivateProfile_def resolver_exec_def GetProfile_def
  store_profile_def UpdateProfileNonStructural_def InactivateProfileWithHistory_def Profile_IsActive_def makeProfileKey_def
  update_name_def update_title_def update_department_def update_areas_def Profile_Deactivate_def discard_def

lemma example_made: "made_profile_call (CallRegisterProfile example_profile ''usr_hr'' ''joined'' 2)"
  by (simp add: made_profile_def example_profile_def)

lemma example_resolver_run:
  "GetProfile ''ten_1'' ''prof_1'' (dn_registry (run_calls resolver_exec example_resolver_calls (NewDirectoryResolver None None))) =
     Inr (example_profile\<lparr>df_jobTitle := ''Auditor'', df_updatedAt := 3\<rparr>)"
  by (simp add: resolver_eval example_profile_def example_update_def)

theorem profile_identity_immutable_witness:
  "\<exists>p'. GetProfile ''ten_1'' ''prof_1'' (dn_registry (run_calls resolver_exec [CallInactivateProfile ''ten_1'' ''prof_1'' ''usr_hr'' ''left'' 4 4]
      (run_calls resolver_exec example_resolver_calls (NewDirectoryResolver None None)))) = Inr p' \<and> df_subject p' = ''usr_1''"
proof -
  have "list_all made_profile_call example_resolver_calls" using example_made by simp
  moreover have "list_all made_profile_call [CallInactivateProfile ''ten_1'' ''prof_1'' ''usr_hr'' ''left'' 4 4]" by simp
  ultimately show ?thesis
    using profile_identity_immutable [OF _ _ refl example_resolver_run] by (fastforce simp: same_identity_def example_profile_def)
qed

text \<open>
  When calls of the resolver do not overlap, the history of a profile is complete: in every reachable resolver the records of a stored profile form a path of statuses without gaps
  from its registration to its present status, all of them about the same subject, company, project and site, and later calls only append.
\<close>

theorem directory_history_complete:
  assumes "list_all made_profile_call cs" and "list_all made_profile_call ds"
    and "d = run_calls resolver_exec cs (NewDirectoryResolver None None)" and "GetProfile t i (dn_registry d) = Inr p"
  shows "\<exists>rs. Resolver_GetProfileHistory (df_tenantID p) (df_profileID p) d = Inr rs \<and> rs \<noteq> [] \<and>
    linked ProfileStatusBlank (map (\<lambda>r. (hr_PreviousState r, hr_NewState r)) rs) (df_status p) \<and>
    (\<forall>r\<in>set rs. hr_Subject r = df_subject p \<and> hr_CompanyID r = df_companyID p \<and> hr_ProjectID r = df_projectID p \<and> hr_SiteID r = df_siteID p) \<and>
    (\<exists>rs'. Resolver_GetProfileHistory (df_tenantID p) (df_profileID p) (run_calls resolver_exec ds d) = Inr (rs @ rs'))"
proof -
  note inv = reachable_resolver [OF assms(1,3)] and p = assms(4) [unfolded GetProfile_Inr]
  have key: "makeProfileKey t i = makeProfileKey (df_tenantID p) (df_profileID p)" and made: "made_profile p"
    using resolver_invD [OF inv(1) p] by simp_all
  obtain p' where p': "dz_profiles (dn_registry (run_calls resolver_exec ds d)) (makeProfileKey t i) = Some p'" "profile_ident p' = profile_ident p"
    using directory.run_entry [OF inv(1) assms(2) p] by blast
  have inv': "directory.ledger_inv (run_calls resolver_exec ds d)" using directory.log.run_inv [of d ds] inv assms(2) by simp
  have "Resolver_GetProfileHistory (df_tenantID p) (df_profileID p) e = Inr (directory.history (profile_ident p) e)"
    if e: "directory.ledger_inv e" "dz_profiles (dn_registry e) (makeProfileKey t i) = Some q" "profile_ident q = profile_ident p" for e q
  proof -
    have "filter (\<lambda>r. hr_TenantID r = df_tenantID p \<and> hr_ProfileID r = df_profileID p) (dn_ledger e) = directory.history (profile_ident p) e"
      unfolding directory.history_def
      using directory.same_key_same_entry [OF e(1,2)] e(3) key
      by (intro filter_cong) (auto simp: ident_key_def record_ident_def profile_ident_def)
    with made show ?thesis by (simp add: Resolver_GetProfileHistory_def GetProfileHistory_def made_profile_def)
  qed
  note now = this [OF inv(2) p refl] and later = this [OF inv' p']
  obtain rs' where "directory.history (profile_ident p) (run_calls resolver_exec ds d) = directory.history (profile_ident p) d @ rs'"
    using directory.run_history [OF inv assms(2), of "profile_ident p"] by (auto simp: prefix_def)
  with now later directory.ledger_invD [OF inv(2) p] show ?thesis
    by (auto simp: directory.path_def directory.history_def record_ident_def profile_ident_def)
qed

theorem directory_history_complete_witness:
  "\<exists>rs. Resolver_GetProfileHistory ''ten_1'' ''prof_1'' (run_calls resolver_exec example_resolver_calls (NewDirectoryResolver None None)) = Inr rs \<and>
     linked ProfileStatusBlank (map (\<lambda>r. (hr_PreviousState r, hr_NewState r)) rs) ProfileStatusActive"
proof -
  have "list_all made_profile_call example_resolver_calls" using example_made by simp
  from directory_history_complete [OF this, of "[]", OF _ refl example_resolver_run] show ?thesis
    by (auto simp: example_profile_def)
qed

text \<open>
  An update logs exactly what it changes: when it succeeds, the profile is the old one with the given attributes in cleaned form, the fields
  named in the record are those in which the two differ, there is at least one, and the display name is not blank if it was not before.
\<close>

theorem update_logs_exact_changes:
  assumes "UpdateProfileNonStructural p u actor reason now = Inr (p', rec)"
  shows "p' = (updated_fields u p)\<lparr>df_updatedAt := now\<rparr> \<and> dom (hr_ChangedFields rec) = differing_fields p p' \<and> differing_fields p p' \<noteq> {} \<and>
    (df_displayName p' = [] \<longrightarrow> df_displayName p = []) \<and> hr_RecordedAt rec = now \<and> hr_ActorSubject rec = TrimSpace actor"
  using UpdateProfileNonStructural_Inr [OF assms] by (auto simp: history_record_def)

theorem update_logs_exact_changes_witness:
  "\<exists>p' rec. UpdateProfileNonStructural example_profile example_update ''usr_hr'' ''promoted'' 3 = Inr (p', rec) \<and>
     dom (hr_ChangedFields rec) = differing_fields example_profile p'"
proof -
  obtain p' rec where "UpdateProfileNonStructural example_profile example_update ''usr_hr'' ''promoted'' 3 = Inr (p', rec)"
    by (simp add: resolver_eval example_profile_def example_update_def)
  with update_logs_exact_changes [OF this] show ?thesis by blast
qed

subsection \<open>Calls that overlap\<close>

text \<open>Profiles that are registered come from the constructor, also those registered directly.\<close>

fun made_op :: "directory_op \<Rightarrow> bool" where
  "made_op (Method c) \<longleftrightarrow> made_profile_call c"
| "made_op (RegistryRegister p) \<longleftrightarrow> made_profile p"
| "made_op _ \<longleftrightarrow> True"

text \<open>The record that belongs to a call and its result.\<close>

fun logs :: "resolver_call \<Rightarrow> DirectoryProfile option \<Rightarrow> DirectoryProfileHistoryRecord \<Rightarrow> bool" where
  "logs (CallRegisterProfile p a w now) result rec \<longleftrightarrow>
     rec = history_record p ProfileStatusBlank (df_status p) ''PROFILE_INITIAL_REGISTER'' Map.empty a w now"
| "logs (CallUpdateProfile t i u a w now) result rec \<longleftrightarrow>
     (\<exists>p q. result = Some q \<and> makeProfileKey t i = makeProfileKey (df_tenantID p) (df_profileID p) \<and> UpdateProfileNonStructural p u a w now = Inr (q, rec))"
| "logs (CallInactivateProfile t i a w now now') result rec \<longleftrightarrow>
     (\<exists>p q. result = Some q \<and> makeProfileKey t i = makeProfileKey (df_tenantID p) (df_profileID p) \<and> InactivateProfileWithHistory p a w now now' = Inr (q, rec))"

text \<open>A profile of this identity is stored; what the resolver keeps while other calls go on.\<close>

definition holds_identity :: "DirectoryResolver \<Rightarrow> profile_ident \<Rightarrow> bool" where
  "holds_identity d i \<longleftrightarrow> (\<exists>p. dz_profiles (dn_registry d) (ident_key i) = Some p \<and> profile_ident p = i)"

definition grows :: "DirectoryResolver \<Rightarrow> DirectoryResolver \<Rightarrow> bool" where
  "grows d d' \<longleftrightarrow> prefix (dn_ledger d) (dn_ledger d') \<and>
     (\<forall>k p. dz_profiles (dn_registry d) k = Some p \<longrightarrow> (\<exists>p'. dz_profiles (dn_registry d') k = Some p' \<and> same_identity p p'))"

lemma grows_refl [simp]: "grows d d"
  by (auto simp: grows_def)

lemma grows_trans: "grows d d' \<Longrightarrow> grows d' d'' \<Longrightarrow> grows d d''"
  unfolding grows_def by (meson prefix_order.trans same_identity_trans)

lemma same_identity_ident: "same_identity p q \<Longrightarrow> profile_ident q = profile_ident p"
  by (simp add: same_identity_def profile_ident_def)

lemma grows_holds: "grows d d' \<Longrightarrow> holds_identity d i \<Longrightarrow> holds_identity d' i"
  unfolding grows_def holds_identity_def using same_identity_ident by metis

lemma grows_ledger: "grows d d' \<Longrightarrow> set (dn_ledger d) \<subseteq> set (dn_ledger d')"
  by (auto simp: grows_def dest: set_mono_prefix)

text \<open>What holds of a call in progress: the profile it will write has the identity of the stored one, and its record tells what it did.\<close>

fun stage_ok :: "DirectoryResolver \<Rightarrow> resolver_call \<Rightarrow> resolver_stage \<Rightarrow> bool" where
  "stage_ok d c (ToStore k q rec) \<longleftrightarrow> logs c (Some q) rec \<and> holds_identity d (record_ident rec) \<and>
     (\<exists>p. dz_profiles (dn_registry d) k = Some p \<and> same_identity p q)"
| "stage_ok d c (ToAppend rec result) \<longleftrightarrow> logs c result rec \<and> holds_identity d (record_ident rec)"
| "stage_ok d c (Returned r) \<longleftrightarrow> (\<forall>result. r = Inr result \<longrightarrow>
     (\<exists>rec\<in>set (dn_ledger d). logs c result rec \<and> holds_identity d (record_ident rec)))"

fun thread_ok :: "DirectoryResolver \<Rightarrow> directory_op \<times> resolver_stage option \<Rightarrow> bool" where
  "thread_ok d (c, None) \<longleftrightarrow> made_op c"
| "thread_ok d (Method c, Some st) \<longleftrightarrow> stage_ok d c st"
| "thread_ok d (c, Some st) \<longleftrightarrow> (\<exists>r. st = Returned r)"

lemma grows_entry:
  assumes "grows d d'" and "dz_profiles (dn_registry d) k = Some p" and "same_identity p q"
  shows "\<exists>p'. dz_profiles (dn_registry d') k = Some p' \<and> same_identity p' q"
proof -
  obtain p' where "dz_profiles (dn_registry d') k = Some p'" "same_identity p p'" using assms(1,2) by (auto simp: grows_def)
  with assms(3) show ?thesis by (simp add: same_identity_def)
qed

lemma stage_ok_grows:
  assumes "stage_ok d c st" and g: "grows d d'"
  shows "stage_ok d' c st"
  using assms(1) grows_holds [OF g] grows_entry [OF g] grows_ledger [OF g] by (cases st) (simp; blast)+

lemma thread_ok_grows: "thread_ok d t \<Longrightarrow> grows d d' \<Longrightarrow> thread_ok d' t"
  by (cases "(d, t)" rule: thread_ok.cases) (auto intro: stage_ok_grows)

text \<open>The writes: a new profile, another version of a stored one, a record.\<close>

lemma written_profile:
  assumes "resolver_inv d" and "dz_profiles (dn_registry d) k = Some p" and "same_identity p q"
    and "dz_profiles (dn_registry d') = (dz_profiles (dn_registry d))(k \<mapsto> q)" and "dn_ledger d' = dn_ledger d"
  shows "resolver_inv d' \<and> grows d d'"
proof -
  have "k = makeProfileKey (df_tenantID q) (df_profileID q) \<and> made_profile q"
    using resolver_invD [OF assms(1,2)] assms(3) by (simp add: same_identity_def made_profile_def)
  with assms show ?thesis by (auto simp: resolver_inv_def grows_def)
qed

lemma written_record:
  "fst (append_history rec r d) = d\<lparr>dn_ledger := fst (Directory_AppendRecord rec (dn_ledger d))\<rparr>"
  "resolver_inv d \<Longrightarrow> resolver_inv (fst (append_history rec r d)) \<and> grows d (fst (append_history rec r d))"
  "append_history rec r d = (d', Inr x) \<Longrightarrow> x = r \<and> rec \<in> set (dn_ledger d')"
  by (auto simp: append_history_def Directory_AppendRecord_def resolver_inv_def grows_def split: if_splits)

lemma registered_profile:
  assumes "resolver_inv d" and "made_profile p"
  shows "(\<exists>e. RegisterProfile p (dn_registry d) = (dn_registry d, Inl e)) \<or>
    (\<exists>r. RegisterProfile p (dn_registry d) = (r, Inr ()) \<and> resolver_inv (d\<lparr>dn_registry := r\<rparr>) \<and> grows d (d\<lparr>dn_registry := r\<rparr>) \<and>
       holds_identity (d\<lparr>dn_registry := r\<rparr>) (profile_ident p))"
  using assms
  by (auto simp: RegisterProfile_def Let_def resolver_inv_def grows_def holds_identity_def ident_key_def profile_ident_def)

definition threads_inv :: "directory_threads \<Rightarrow> bool" where
  "threads_inv s \<longleftrightarrow> resolver_inv (fst s) \<and> (\<forall>t\<in>set (snd s). thread_ok (fst s) t)"

lemma sound_change_logs:
  assumes "resolver_inv d" and "dz_profiles (dn_registry d) k = Some p" and "sound_change p (q, rec)"
  shows "holds_identity d (record_ident rec)" and "same_identity p q"
  using resolver_invD [OF assms(1,2)] sound_change_ident(2) [OF assms(3)] assms(2,3)
  by (auto simp: holds_identity_def ident_key_def profile_ident_def sound_change_def)

lemma resolver_start_ok:
  assumes inv: "resolver_inv d" and "made_profile_call c" and "resolver_start c d = (d', st)"
  shows "resolver_inv d' \<and> grows d d' \<and> stage_ok d' c st"
proof (cases c)
  case (CallRegisterProfile p a w now)
  with assms(2) have "made_profile p" by simp
  from registered_profile [OF inv this] CallRegisterProfile assms(3) inv show ?thesis by (auto simp: Resolver_RegisterProfile_def)
next
  case (CallUpdateProfile t i u a w now)
  show ?thesis
  proof (cases "dz_profiles (dn_registry d) (makeProfileKey t i)")
    case (Some p)
    note sound = changes_sound(1) [of p u a w now] sound_change_logs [OF inv Some]
    from sound resolver_invD [OF inv Some] Some CallUpdateProfile assms(3) inv show ?thesis
      by (auto simp: UpdateProfileAttributes_def GetProfile_def split: sum.splits)
  qed (use CallUpdateProfile assms(3) inv in \<open>auto simp: UpdateProfileAttributes_def GetProfile_def\<close>)
next
  case (CallInactivateProfile t i a w now now')
  show ?thesis
  proof (cases "dz_profiles (dn_registry d) (makeProfileKey t i)")
    case (Some p)
    note sound = changes_sound(2) [of p a w now now'] sound_change_logs [OF inv Some]
    from sound resolver_invD [OF inv Some] Some CallInactivateProfile assms(3) inv show ?thesis
      by (auto simp: InactivateProfile_def GetProfile_def split: sum.splits)
  qed (use CallInactivateProfile assms(3) inv in \<open>auto simp: InactivateProfile_def GetProfile_def\<close>)
qed

lemma op_start_ok:
  assumes inv: "resolver_inv d" and "made_op c" and "op_start c d = (d', st)"
  shows "resolver_inv d' \<and> grows d d' \<and> thread_ok d' (c, Some st)"
proof (cases c)
  case (Method m)
  with assms resolver_start_ok show ?thesis by simp
next
  case (RegistryRegister p)
  with assms(2) have "made_profile p" by simp
  from registered_profile [OF inv this] RegistryRegister assms(3) inv show ?thesis by auto
next
  case (RegistryDeactivate t i now)
  show ?thesis
  proof (cases "dz_profiles (dn_registry d) (makeProfileKey t i)")
    case (Some p)
    have "same_identity p (Profile_Deactivate now p)" by (simp add: same_identity_def Profile_Deactivate_def)
    from written_profile [OF inv Some this, of "d\<lparr>dn_registry := fst (DeactivateProfile t i now (dn_registry d))\<rparr>"] Some
    show ?thesis using RegistryDeactivate assms(3) by (auto simp: DeactivateProfile_def Let_def)
  qed (use RegistryDeactivate assms(3) inv in \<open>auto simp: DeactivateProfile_def Let_def\<close>)
next
  case (LedgerAppend rec)
  with assms(3) written_record(2) [OF inv, of rec "None :: DirectoryProfile option"] show ?thesis
    by (cases "append_history rec (None :: DirectoryProfile option) d") auto
qed

lemma resolver_continue_ok:
  assumes inv: "resolver_inv d" and "thread_ok d (c, Some st)" and "resolver_continue st d = (d', st')"
  shows "resolver_inv d' \<and> grows d d' \<and> thread_ok d' (c, Some st')"
proof (cases "\<exists>r. st = Returned r")
  case True
  with assms show ?thesis by auto
next
  case False
  with assms(2) obtain m where c: "c = Method m" and st: "stage_ok d m st" by (cases c) auto
  show ?thesis
  proof (cases st)
    case (ToStore k q rec)
    with st obtain p where p: "dz_profiles (dn_registry d) k = Some p" "same_identity p q" by auto
    have w: "resolver_inv (store_profile k q d) \<and> grows d (store_profile k q d)"
      by (rule written_profile [OF inv p]) (simp_all add: store_profile_def)
    with ToStore st c assms(3) grows_holds [OF conjunct2 [OF w], of "record_ident rec"] show ?thesis by auto
  next
    case (ToAppend rec result)
    obtain r where r: "append_history rec result d = (d', r)" "st' = Returned r"
      using ToAppend assms(3) by (auto split: prod.splits)
    have w: "resolver_inv d' \<and> grows d d'" using written_record(2) [OF inv, of rec result] r(1) by simp
    moreover have "stage_ok d' m (Returned r)"
      using written_record(3) [of rec result d d'] r(1) ToAppend st grows_holds [OF conjunct2 [OF w], of "record_ident rec"] by auto
    ultimately show ?thesis using c r(2) by simp
  qed (use False in simp)
qed

lemma thread_step_ok:
  assumes "threads_inv s"
  shows "threads_inv (thread_step n s) \<and> grows (fst s) (fst (thread_step n s)) \<and>
    length (snd (thread_step n s)) = length (snd s) \<and> (\<forall>j<length (snd s). fst (snd (thread_step n s) ! j) = fst (snd s ! j))"
proof (cases "n < length (snd s)")
  case True
  obtain c o' where t: "snd s ! n = (c, o')" by (cases "snd s ! n")
  obtain d st where step: "(case o' of None \<Rightarrow> op_start c (fst s) | Some st \<Rightarrow> resolver_continue st (fst s)) = (d, st)"
    by (cases "case o' of None \<Rightarrow> op_start c (fst s) | Some st \<Rightarrow> resolver_continue st (fst s)")
  have "thread_ok (fst s) (c, o')" and inv: "resolver_inv (fst s)"
    using assms True t by (auto simp: threads_inv_def) (metis nth_mem)
  then have new: "resolver_inv d \<and> grows (fst s) d \<and> thread_ok d (c, Some st)"
    using step op_start_ok [OF inv, of c d st] resolver_continue_ok [OF inv, of c _ d st] by (cases o') auto
  have "thread_ok d t" if "t \<in> set (snd s)" for t
  proof (rule thread_ok_grows)
    show "thread_ok (fst s) t" using assms that by (simp add: threads_inv_def)
  qed (use new in blast)
  with new have "\<forall>t\<in>set ((snd s)[n := (c, Some st)]). thread_ok d t" using set_update_subset_insert by fastforce
  with new True t step show ?thesis by (auto simp: threads_inv_def thread_step_def nth_list_update)
qed (use assms in \<open>simp add: thread_step_def\<close>)

lemma run_schedule_ok:
  "threads_inv s \<Longrightarrow> threads_inv (run_schedule ns s) \<and> grows (fst s) (fst (run_schedule ns s)) \<and>
    length (snd (run_schedule ns s)) = length (snd s) \<and> (\<forall>j<length (snd s). fst (snd (run_schedule ns s) ! j) = fst (snd s ! j))"
proof (induction ns arbitrary: s)
  case (Cons n ns)
  note one = thread_step_ok [OF Cons.prems, of n]
  note rest = Cons.IH [OF conjunct1 [OF one]]
  from one rest grows_trans show ?case by auto
qed simp

lemma threads_inv_start: "list_all made_op ops \<Longrightarrow> threads_inv (start_all ops)"
  by (auto simp: threads_inv_def start_all_def resolver_inv_def NewDirectoryResolver_def NewDirectoryRegistry_def list_all_iff)

text \<open>Which key a method works on, and what its record says of it: transition, actor, reason and time.\<close>

fun method_facts :: "resolver_call \<Rightarrow> string \<times> string \<times> string \<times> string \<times> gotime" where
  "method_facts (CallRegisterProfile p a w now) =
     (makeProfileKey (df_tenantID p) (df_profileID p), ''PROFILE_INITIAL_REGISTER'', TrimSpace a, TrimSpace w, now)"
| "method_facts (CallUpdateProfile t i u a w now) = (makeProfileKey t i, ''PROFILE_UPDATE_ATTRIBUTES'', TrimSpace a, TrimSpace w, now)"
| "method_facts (CallInactivateProfile t i a w now now') = (makeProfileKey t i, ''PROFILE_INACTIVATE'', TrimSpace a, TrimSpace w, now)"

lemma logs_facts:
  assumes "logs c result rec"
  shows "(makeProfileKey (hr_TenantID rec) (hr_ProfileID rec), hr_Transition rec, hr_ActorSubject rec, hr_Reason rec, hr_RecordedAt rec) = method_facts c"
proof (cases c)
  case (CallUpdateProfile t i u a w now)
  with assms obtain p q where "makeProfileKey t i = makeProfileKey (df_tenantID p) (df_profileID p)" "UpdateProfileNonStructural p u a w now = Inr (q, rec)"
    by auto
  with UpdateProfileNonStructural_Inr(6) [OF this(2)] CallUpdateProfile show ?thesis by (auto simp: history_record_def)
qed (use assms in \<open>auto simp: history_record_def InactivateProfileWithHistory_def split: if_splits\<close>)

text \<open>
  (C24) Whatever calls overlap, step by step and in any order, the calls of the resolver and calls made directly on the registry and on the ledger:
  a stored profile is never removed and keeps its identifier, subject, tenant, company, project, site and time of creation, and the
  ledger only grows. And every call of the resolver that has returned without an error has its record in the ledger for good: it tells the
  transition, actor, reason and time of the call and names the profile stored under the key of the call, its subject and its place.
  (Profiles that are registered come from the constructor.)
\<close>

theorem directory_log_under_interleaving:
  assumes "list_all made_op ops" and "s = run_schedule ms (start_all ops)" and "s' = run_schedule ns s"
  shows "(\<forall>t i p. GetProfile t i (dn_registry (fst s)) = Inr p \<longrightarrow> (\<exists>p'. GetProfile t i (dn_registry (fst s')) = Inr p' \<and>
      df_profileID p' = df_profileID p \<and> df_subject p' = df_subject p \<and> df_tenantID p' = df_tenantID p \<and> df_companyID p' = df_companyID p \<and>
      df_projectID p' = df_projectID p \<and> df_siteID p' = df_siteID p \<and> df_createdAt p' = df_createdAt p)) \<and>
    prefix (dn_ledger (fst s)) (dn_ledger (fst s')) \<and>
    (\<forall>n c result. n < length ops \<longrightarrow> ops ! n = Method c \<longrightarrow> snd (snd s ! n) = Some (Returned (Inr result)) \<longrightarrow>
      (\<exists>rec\<in>set (dn_ledger (fst s')).
         (makeProfileKey (hr_TenantID rec) (hr_ProfileID rec), hr_Transition rec, hr_ActorSubject rec, hr_Reason rec, hr_RecordedAt rec) = method_facts c \<and>
         (\<exists>p. GetProfile (hr_TenantID rec) (hr_ProfileID rec) (dn_registry (fst s')) = Inr p \<and> df_tenantID p = hr_TenantID rec \<and>
            df_profileID p = hr_ProfileID rec \<and> df_subject p = hr_Subject rec \<and> df_companyID p = hr_CompanyID rec \<and>
            df_projectID p = hr_ProjectID rec \<and> df_siteID p = hr_SiteID rec)))"
proof (intro conjI allI impI)
  note start = run_schedule_ok [OF threads_inv_start [OF assms(1)], of ms, folded assms(2)]
  then have inv: "threads_inv s" by blast
  note later = run_schedule_ok [OF inv, of ns, folded assms(3)]
  then have g: "grows (fst s) (fst s')" by blast
  show "prefix (dn_ledger (fst s)) (dn_ledger (fst s'))" using g by (simp add: grows_def)
  show "\<exists>p'. GetProfile t i (dn_registry (fst s')) = Inr p' \<and>
      df_profileID p' = df_profileID p \<and> df_subject p' = df_subject p \<and> df_tenantID p' = df_tenantID p \<and> df_companyID p' = df_companyID p \<and>
      df_projectID p' = df_projectID p \<and> df_siteID p' = df_siteID p \<and> df_createdAt p' = df_createdAt p"
    if "GetProfile t i (dn_registry (fst s)) = Inr p" for t i p
    using g that unfolding grows_def GetProfile_Inr same_identity_def by blast
  fix n c result
  assume n: "n < length ops" "ops ! n = Method c" and ret: "snd (snd s ! n) = Some (Returned (Inr result))"
  have len: "length (snd (start_all ops)) = length ops" "snd (start_all ops) ! n = (Method c, None)"
    using n by (simp_all add: start_all_def)
  with start n(1) have "length (snd s) = length ops" "fst (snd s ! n) = Method c" by simp_all
  with ret n(1) have "(Method c, Some (Returned (Inr result))) \<in> set (snd s)" by (metis nth_mem prod.collapse)
  with inv have "thread_ok (fst s) (Method c, Some (Returned (Inr result)))" unfolding threads_inv_def by blast
  then have "thread_ok (fst s') (Method c, Some (Returned (Inr result)))" using g by (rule thread_ok_grows)
  then obtain rec where rec: "rec \<in> set (dn_ledger (fst s'))" "logs c result rec" "holds_identity (fst s') (record_ident rec)" by auto
  from rec(3) obtain p where p: "GetProfile (hr_TenantID rec) (hr_ProfileID rec) (dn_registry (fst s')) = Inr p" "profile_ident p = record_ident rec"
    unfolding holds_identity_def GetProfile_Inr by (auto simp: ident_key_def record_ident_def)
  show "\<exists>rec\<in>set (dn_ledger (fst s')).
         (makeProfileKey (hr_TenantID rec) (hr_ProfileID rec), hr_Transition rec, hr_ActorSubject rec, hr_Reason rec, hr_RecordedAt rec) = method_facts c \<and>
         (\<exists>p. GetProfile (hr_TenantID rec) (hr_ProfileID rec) (dn_registry (fst s')) = Inr p \<and> df_tenantID p = hr_TenantID rec \<and>
            df_profileID p = hr_ProfileID rec \<and> df_subject p = hr_Subject rec \<and> df_companyID p = hr_CompanyID rec \<and>
            df_projectID p = hr_ProjectID rec \<and> df_siteID p = hr_SiteID rec)"
    using rec(1) logs_facts [OF rec(2)] p by (auto simp: profile_ident_def record_ident_def)
qed

abbreviation overlapping_ops :: "directory_op list" where
  "overlapping_ops \<equiv> [Method (CallRegisterProfile example_profile ''usr_hr'' ''joined'' 2),
     Method (CallUpdateProfile ''ten_1'' ''prof_1'' example_update ''usr_hr'' ''promoted'' 3),
     Method (CallInactivateProfile ''ten_1'' ''prof_1'' ''usr_hr'' ''left'' 4 4)]"

lemmas overlap_eval = thread_step_def start_all_def resolver_eval

text \<open>After the registration, the update reads, the inactivation runs as a whole, and the update writes.\<close>

definition overlapped :: directory_threads where
  "overlapped = run_schedule [0, 0, 1, 2, 2, 2, 1, 1] (start_all overlapping_ops)"

lemma overlapped_result:
  "snd (snd overlapped ! 1) = Some (Returned (Inr (Some (example_profile\<lparr>df_jobTitle := ''Auditor'', df_updatedAt := 3\<rparr>))))"
  "GetProfile ''ten_1'' ''prof_1'' (dn_registry (fst overlapped)) = Inr (example_profile\<lparr>df_jobTitle := ''Auditor'', df_updatedAt := 3\<rparr>)"
  "map (\<lambda>r. (hr_PreviousState r, hr_NewState r)) (dn_ledger (fst overlapped)) =
     [(ProfileStatusBlank, ProfileStatusActive), (ProfileStatusActive, ProfileStatusInactive), (ProfileStatusActive, ProfileStatusActive)]"
  unfolding overlapped_def by (simp_all add: overlap_eval example_profile_def example_update_def)

theorem directory_log_under_interleaving_witness:
  "\<exists>rec\<in>set (dn_ledger (fst (run_schedule [0, 1] overlapped))).
     (makeProfileKey (hr_TenantID rec) (hr_ProfileID rec), hr_Transition rec, hr_ActorSubject rec, hr_Reason rec, hr_RecordedAt rec) =
       (''ten_1:prof_1'', ''PROFILE_UPDATE_ATTRIBUTES'', ''usr_hr'', ''promoted'', 3)"
proof -
  have made: "list_all made_op overlapping_ops" using example_made by simp
  have "makeProfileKey ''ten_1'' ''prof_1'' = ''ten_1:prof_1''" by (simp add: makeProfileKey_def)
  then show ?thesis
    using directory_log_under_interleaving [OF made overlapped_def refl, of "[0, 1]", THEN conjunct2, THEN conjunct2, rule_format, of 1]
      overlapped_result(1) by fastforce
qed

subsection \<open>Where the code falls short\<close>

text \<open>
  No lock is held from reading a profile to writing it. The update that has read the profile before an inactivation and writes after it
  makes the profile active again, although all three calls succeed, and the history is no path any more.
\<close>

theorem update_resurrects_inactivated:
  "\<exists>p. GetProfile ''ten_1'' ''prof_1'' (dn_registry (fst overlapped)) = Inr p \<and> Profile_IsActive p \<and>
     map (\<lambda>r. (hr_PreviousState r, hr_NewState r)) (dn_ledger (fst overlapped)) =
       [(ProfileStatusBlank, ProfileStatusActive), (ProfileStatusActive, ProfileStatusInactive), (ProfileStatusActive, ProfileStatusActive)]"
  using overlapped_result(2,3) by (simp add: Profile_IsActive_def example_profile_def)

text \<open>\<open>DeactivateProfile\<close> of the registry itself leaves no history.\<close>

theorem deactivation_without_history:
  "\<exists>d d'. d = run_calls resolver_exec [CallRegisterProfile example_profile ''usr_hr'' ''joined'' 2] (NewDirectoryResolver None None) \<and>
     d' = d\<lparr>dn_registry := fst (DeactivateProfile ''ten_1'' ''prof_1'' 3 (dn_registry d))\<rparr> \<and>
     (\<exists>p. GetProfile ''ten_1'' ''prof_1'' (dn_registry d') = Inr p \<and> \<not> Profile_IsActive p) \<and>
     map hr_NewState (dn_ledger d') = [ProfileStatusActive]"
  by (simp add: resolver_eval DeactivateProfile_def example_profile_def)

text \<open>The key joins tenant and profile with a colon: a call in tenant \<open>a\<close> inactivates a profile of tenant \<open>a:b\<close>.\<close>

theorem profile_key_crosses_tenants:
  "\<exists>q. GetProfile ''a:b'' ''c'' (dn_registry (run_calls resolver_exec
       [CallRegisterProfile (example_profile\<lparr>df_tenantID := ''a:b'', df_profileID := ''c''\<rparr>) ''usr_hr'' ''joined'' 2,
        CallInactivateProfile ''a'' ''b:c'' ''usr_x'' ''left'' 3 3] (NewDirectoryResolver None None))) = Inr q \<and>
     df_tenantID q = ''a:b'' \<and> \<not> Profile_IsActive q"
  by (simp add: resolver_eval example_profile_def)

end
