(* ===== verification/Directory_Visibility.thy ===== *)
theory Directory_Visibility
  imports Directory_Profiles
begin

text \<open>
  What a caller sees of the directory, \<open>modules/identity-authorization/directory_visibility.go\<close>: search within the scope of the caller, single
  profiles, and the profiles of a subject. The text search compares with \<open>lower_text\<close>, which is \<open>strings.ToLower\<close> as far as it produces
  ASCII. Limits and offsets are used only after they are clamped to small numbers or found below the length of the result.
\<close>

subsection \<open>Definitions\<close>

definition DefaultSearchLimit :: int where "DefaultSearchLimit = 50"
definition MaxSearchLimit :: int where "MaxSearchLimit = 100"

record ViewerContext =
  vc_Identity :: SubjectIdentity
  vc_Role :: Role
  vc_Scope :: ScopeGrant

definition Viewer_Validate :: "ViewerContext \<Rightarrow> people_error option" where
  "Viewer_Validate v =
     (if \<not> id_IsAuthenticated (vc_Identity v) then Some ErrUnauthenticatedCaller
      else if TrimSpace (id_Subject (vc_Identity v)) = [] then Some BlankSubject
      else if TrimSpace (id_TenantID (vc_Identity v)) = [] then Some BlankTenant
      else if sg_TenantID (vc_Scope v) \<noteq> [] \<and> sg_TenantID (vc_Scope v) \<noteq> id_TenantID (vc_Identity v) then Some ErrSubjectTenantMismatch
      else None)"

record MinimizedDirectoryProfile =
  mn_ProfileID :: string
  mn_Subject :: string
  mn_TenantID :: string
  mn_CompanyID :: string
  mn_ProjectID :: string
  mn_SiteID :: string
  mn_DisplayName :: string
  mn_JobTitle :: string
  mn_Department :: string
  mn_AssignedAreas :: "string list"
  mn_Status :: ProfileStatus

definition MinimizeProfile :: "DirectoryProfile \<Rightarrow> MinimizedDirectoryProfile" where
  "MinimizeProfile p =
     \<lparr>mn_ProfileID = df_profileID p, mn_Subject = df_subject p, mn_TenantID = df_tenantID p, mn_CompanyID = df_companyID p,
      mn_ProjectID = df_projectID p, mn_SiteID = df_siteID p, mn_DisplayName = df_displayName p, mn_JobTitle = df_jobTitle p,
      mn_Department = df_department p, mn_AssignedAreas = df_assignedAreas p, mn_Status = df_status p\<rparr>"

definition forbiddenSubstrings :: "string list" where
  "forbiddenSubstrings =
     [''password'', ''secret'', ''token'', ''oshe_tok_'', ''bearer'', ''session_id'', ''@gmail.com'', ''@yahoo.com'', ''@hotmail.com'',
      ''+66'', ''081-'', ''089-'', ''ssn'', ''national_id'', ''salary'', ''credit_card'']"

definition AssertDataMinimization :: "MinimizedDirectoryProfile \<Rightarrow> people_error option" where
  "AssertDataMinimization p =
     (let corpus = lower_text (mn_DisplayName p @ '' '' @ mn_JobTitle p @ '' '' @ mn_Department p @ '' '' @ mn_ProfileID p @ '' '' @ mn_Subject p)
      in if list_ex (Contains corpus) forbiddenSubstrings then Some ErrDataMinimizationViolation else None)"

record DirectorySearchFilter =
  sf_Query :: string
  sf_CompanyID :: string
  sf_ProjectID :: string
  sf_SiteID :: string
  sf_IncludeInactive :: bool
  sf_Limit :: int
  sf_Offset :: int

definition clamped_limit :: "int \<Rightarrow> int" where
  "clamped_limit limit =
     (if limit \<le> 0 then DefaultSearchLimit else if MaxSearchLimit < limit then MaxSearchLimit else limit)"

definition project_bound :: "ScopeLevel \<Rightarrow> bool" where
  "project_bound level \<longleftrightarrow> level = ScopeLevelProject \<or> level = ScopeLevelSite \<or> level = ScopeLevelArea"

text \<open>
  The targets of the query (company, project, site) after the partitioning by the scope of the caller; \<open>None\<close> is the early return of no
  results.
\<close>

definition restrict_target :: "string \<Rightarrow> string \<Rightarrow> string option" where
  "restrict_target own requested =
     (if own = [] then Some requested else if requested \<noteq> [] \<and> requested \<noteq> own then None else Some own)"

definition partition_targets :: "ViewerContext \<Rightarrow> DirectorySearchFilter \<Rightarrow> (string \<times> string \<times> string) option" where
  "partition_targets v f =
     (let level = ResolveScopeLevel (vc_Scope v); scope = vc_Scope v;
          company = TrimSpace (sf_CompanyID f); project = TrimSpace (sf_ProjectID f); site = TrimSpace (sf_SiteID f)
      in case (if project_bound level
               then (case restrict_target (sg_ProjectID scope) project of
                  None \<Rightarrow> None
                | Some project' \<Rightarrow>
                    if level = ScopeLevelSite
                    then (case restrict_target (sg_SiteID scope) site of None \<Rightarrow> None | Some site' \<Rightarrow> Some (company, project', site'))
                    else Some (company, project', site))
               else if level = ScopeLevelCompany
               then (case restrict_target (sg_CompanyID scope) company of None \<Rightarrow> None | Some company' \<Rightarrow> Some (company', project, site))
               else Some (company, project, site)) of
        None \<Rightarrow> None
      | Some (company', project', site') \<Rightarrow>
          if vc_Role v = RoleContractor
          then (if sg_ProjectID scope = [] then None
                else if project' \<noteq> [] \<and> project' \<noteq> sg_ProjectID scope then None
                else Some (company', sg_ProjectID scope, site'))
          else Some (company', project', site'))"

definition sees_inactive :: "ViewerContext \<Rightarrow> bool" where
  "sees_inactive v \<longleftrightarrow> vc_Role v = RoleTenantAdmin \<or> vc_Role v = RoleAuditor"

text \<open>The tests of the loop: the boundaries once more, and the text query.\<close>

definition search_match :: "ViewerContext \<Rightarrow> DirectorySearchFilter \<Rightarrow> DirectoryProfile \<Rightarrow> bool" where
  "search_match v f p \<longleftrightarrow>
     (let level = ResolveScopeLevel (vc_Scope v); textQuery = lower_text (TrimSpace (sf_Query f)) in
      \<not> (sg_ProjectID (vc_Scope v) \<noteq> [] \<and> df_projectID p \<noteq> sg_ProjectID (vc_Scope v)) \<and>
      \<not> (level = ScopeLevelSite \<and> sg_SiteID (vc_Scope v) \<noteq> [] \<and> df_siteID p \<noteq> [] \<and> df_siteID p \<noteq> sg_SiteID (vc_Scope v)) \<and>
      (textQuery = [] \<or> Contains (lower_text (df_displayName p)) textQuery \<or> Contains (lower_text (df_jobTitle p)) textQuery \<or>
       Contains (lower_text (df_department p)) textQuery))"

definition page :: "int \<Rightarrow> int \<Rightarrow> 'a list \<Rightarrow> 'a list" where
  "page limit offset matched =
     (if int (length matched) \<le> offset then []
      else take (nat (min (offset + limit) (int (length matched)) - offset)) (drop (nat offset) matched))"

definition Visible_SearchDirectory ::
  "AuthorizationMatrix \<Rightarrow> string list \<Rightarrow> ViewerContext \<Rightarrow> DirectorySearchFilter \<Rightarrow> DirectoryRegistry \<Rightarrow>
   people_error + MinimizedDirectoryProfile list" where
  "Visible_SearchDirectory m ks v f r =
     (case Viewer_Validate v of Some e \<Rightarrow> Inl e | None \<Rightarrow>
        if \<not> RoleHasPermission (vc_Role v) PermDirectoryRead m then Inl ErrDirectoryReadPermissionDenied
        else case partition_targets v f of
          None \<Rightarrow> Inr []
        | Some (company, project, site) \<Rightarrow>
            (case SearchDirectory ks \<lparr>qy_TenantID = id_TenantID (vc_Identity v), qy_CompanyID = company, qy_ProjectID = project,
                    qy_SiteID = site, qy_IncludeInactive = sees_inactive v \<and> sf_IncludeInactive f\<rparr> r of
               Inl e \<Rightarrow> Inl e
             | Inr raw \<Rightarrow> Inr (page (clamped_limit (sf_Limit f)) (max 0 (sf_Offset f))
                 (map MinimizeProfile (filter (search_match v f) raw)))))"

definition out_of_sight :: "ViewerContext \<Rightarrow> DirectoryProfile \<Rightarrow> bool" where
  "out_of_sight v p \<longleftrightarrow>
     (let level = ResolveScopeLevel (vc_Scope v); scope = vc_Scope v in
      (if project_bound level
       then sg_ProjectID scope \<noteq> [] \<and> df_projectID p \<noteq> sg_ProjectID scope \<or>
         level = ScopeLevelSite \<and> sg_SiteID scope \<noteq> [] \<and> df_siteID p \<noteq> [] \<and> df_siteID p \<noteq> sg_SiteID scope
       else level = ScopeLevelCompany \<and> sg_CompanyID scope \<noteq> [] \<and> df_companyID p \<noteq> sg_CompanyID scope) \<or>
      vc_Role v = RoleContractor \<and> sg_ProjectID scope \<noteq> [] \<and> df_projectID p \<noteq> sg_ProjectID scope)"

definition GetVisibleProfile ::
  "AuthorizationMatrix \<Rightarrow> ViewerContext \<Rightarrow> string \<Rightarrow> DirectoryRegistry \<Rightarrow> people_error + MinimizedDirectoryProfile" where
  "GetVisibleProfile m v profileID r =
     (case Viewer_Validate v of Some e \<Rightarrow> Inl e | None \<Rightarrow>
        if \<not> RoleHasPermission (vc_Role v) PermDirectoryRead m then Inl ErrDirectoryReadPermissionDenied
        else if TrimSpace profileID = [] then Inl ErrBlankProfileID
        else case GetProfile (id_TenantID (vc_Identity v)) (TrimSpace profileID) r of
          Inl e \<Rightarrow> Inl ErrProfileNotFound
        | Inr p \<Rightarrow>
            if \<not> Profile_IsActive p \<and> \<not> sees_inactive v then Inl ErrProfileNotFound
            else if out_of_sight v p then Inl ErrProfileNotFound
            else Inr (MinimizeProfile p))"

text \<open>The listing by subject has the tests above except the one on sites.\<close>

definition out_of_listing :: "ViewerContext \<Rightarrow> DirectoryProfile \<Rightarrow> bool" where
  "out_of_listing v p \<longleftrightarrow>
     (let level = ResolveScopeLevel (vc_Scope v); scope = vc_Scope v in
      (if project_bound level then sg_ProjectID scope \<noteq> [] \<and> df_projectID p \<noteq> sg_ProjectID scope
       else level = ScopeLevelCompany \<and> sg_CompanyID scope \<noteq> [] \<and> df_companyID p \<noteq> sg_CompanyID scope) \<or>
      vc_Role v = RoleContractor \<and> sg_ProjectID scope \<noteq> [] \<and> df_projectID p \<noteq> sg_ProjectID scope)"

definition ListVisibleProfilesBySubject ::
  "AuthorizationMatrix \<Rightarrow> ViewerContext \<Rightarrow> string \<Rightarrow> DirectoryRegistry \<Rightarrow> people_error + MinimizedDirectoryProfile list" where
  "ListVisibleProfilesBySubject m v subject r =
     (case Viewer_Validate v of Some e \<Rightarrow> Inl e | None \<Rightarrow>
        if \<not> RoleHasPermission (vc_Role v) PermDirectoryRead m then Inl ErrDirectoryReadPermissionDenied
        else case ListProfilesBySubject (id_TenantID (vc_Identity v)) subject (sees_inactive v) r of
          Inl e \<Rightarrow> Inl e
        | Inr ps \<Rightarrow> Inr (map MinimizeProfile (filter (\<lambda>p. \<not> out_of_listing v p) ps)))"

subsection \<open>What search selects\<close>

lemma restrict_target_own: "restrict_target own requested = Some t \<Longrightarrow> own \<noteq> [] \<Longrightarrow> t = own"
  by (auto simp: restrict_target_def split: if_splits)

lemma partition_targets_bound:
  assumes "partition_targets v f = Some (company, project, site)"
  shows "ResolveScopeLevel (vc_Scope v) = ScopeLevelSite \<Longrightarrow> sg_SiteID (vc_Scope v) \<noteq> [] \<Longrightarrow> site = sg_SiteID (vc_Scope v)"
    and "ResolveScopeLevel (vc_Scope v) = ScopeLevelCompany \<Longrightarrow> sg_CompanyID (vc_Scope v) \<noteq> [] \<Longrightarrow> company = sg_CompanyID (vc_Scope v)"
    and "vc_Role v = RoleContractor \<Longrightarrow> sg_ProjectID (vc_Scope v) \<noteq> [] \<and> project = sg_ProjectID (vc_Scope v)"
  using assms
  by (auto simp: partition_targets_def project_bound_def Let_def dest: restrict_target_own split: if_splits option.splits)

lemma TrimSpace_Nil [simp]: "TrimSpace [] = []"
  using TrimSpace_all_graphic [of "[]"] by simp

text \<open>What a viewer selects with a query: the tests on the profile in the registry and in the loop, with the targets of the partitioning.\<close>

definition selects :: "ViewerContext \<Rightarrow> DirectorySearchFilter \<Rightarrow> DirectoryProfile \<Rightarrow> bool" where
  "selects v f p \<longleftrightarrow> search_match v f p \<and>
     (\<exists>company project site. partition_targets v f = Some (company, project, site) \<and>
        matches_query \<lparr>qy_TenantID = id_TenantID (vc_Identity v), qy_CompanyID = company, qy_ProjectID = project, qy_SiteID = site,
          qy_IncludeInactive = sees_inactive v \<and> sf_IncludeInactive f\<rparr> p)"

lemma selects_place:
  assumes "selects v f p"
  shows "df_tenantID p = TrimSpace (id_TenantID (vc_Identity v))"
    and "sg_ProjectID (vc_Scope v) \<noteq> [] \<Longrightarrow> df_projectID p = sg_ProjectID (vc_Scope v)"
    and "sg_AreaID (vc_Scope v) = [] \<Longrightarrow> TrimSpace (sg_SiteID (vc_Scope v)) \<noteq> [] \<Longrightarrow> df_siteID p = TrimSpace (sg_SiteID (vc_Scope v))"
    and "sg_AreaID (vc_Scope v) = [] \<Longrightarrow> sg_SiteID (vc_Scope v) = [] \<Longrightarrow> sg_ProjectID (vc_Scope v) = [] \<Longrightarrow>
      TrimSpace (sg_CompanyID (vc_Scope v)) \<noteq> [] \<Longrightarrow> df_companyID p = TrimSpace (sg_CompanyID (vc_Scope v))"
    and "Profile_IsActive p \<or> sees_inactive v \<and> sf_IncludeInactive f"
    and "vc_Role v = RoleContractor \<Longrightarrow> sg_ProjectID (vc_Scope v) \<noteq> []"
proof -
  let ?g = "vc_Scope v"
  obtain company project site where t: "partition_targets v f = Some (company, project, site)"
    and q: "matches_query \<lparr>qy_TenantID = id_TenantID (vc_Identity v), qy_CompanyID = company, qy_ProjectID = project, qy_SiteID = site,
      qy_IncludeInactive = sees_inactive v \<and> sf_IncludeInactive f\<rparr> p" and m: "search_match v f p"
    using assms unfolding selects_def by blast
  note bound = partition_targets_bound [OF t]
  show "df_tenantID p = TrimSpace (id_TenantID (vc_Identity v))" "Profile_IsActive p \<or> sees_inactive v \<and> sf_IncludeInactive f"
    using q by (auto simp: matches_query_def)
  show "df_projectID p = sg_ProjectID ?g" if "sg_ProjectID ?g \<noteq> []" using m that by (auto simp: search_match_def Let_def)
  show "df_siteID p = TrimSpace (sg_SiteID ?g)" if "sg_AreaID ?g = []" "TrimSpace (sg_SiteID ?g) \<noteq> []"
  proof -
    have "sg_SiteID ?g \<noteq> []" using that(2) by auto
    with that(1) bound(1) have "site = sg_SiteID ?g" by (simp add: ResolveScopeLevel_def)
    with q that(2) show ?thesis by (auto simp: matches_query_def)
  qed
  show "df_companyID p = TrimSpace (sg_CompanyID ?g)"
    if "sg_AreaID ?g = []" "sg_SiteID ?g = []" "sg_ProjectID ?g = []" "TrimSpace (sg_CompanyID ?g) \<noteq> []"
  proof -
    have "sg_CompanyID ?g \<noteq> []" using that(4) by auto
    with that(1-3) bound(2) have "company = sg_CompanyID ?g" by (simp add: ResolveScopeLevel_def)
    with q that(4) show ?thesis by (auto simp: matches_query_def)
  qed
  show "sg_ProjectID ?g \<noteq> []" if "vc_Role v = RoleContractor" using bound(3) that by simp
qed

text \<open>Search, as a filter on any part of the directory that holds what is selected.\<close>

definition stored_profiles :: "string list \<Rightarrow> DirectoryRegistry \<Rightarrow> DirectoryProfile list" where
  "stored_profiles ks r = List.map_filter (dz_profiles r) ks"

lemma Visible_SearchDirectory_within:
  assumes "\<And>p. selects v f p \<Longrightarrow> part p"
  shows "Visible_SearchDirectory m ks v f r =
     (case Viewer_Validate v of Some e \<Rightarrow> Inl e | None \<Rightarrow>
        if \<not> RoleHasPermission (vc_Role v) PermDirectoryRead m then Inl ErrDirectoryReadPermissionDenied
        else if partition_targets v f = None then Inr []
        else Inr (page (clamped_limit (sf_Limit f)) (max 0 (sf_Offset f)) (map MinimizeProfile
              (filter (selects v f) (filter part (stored_profiles ks r))))))"
proof (cases "Viewer_Validate v")
  case None
  then have tenant: "TrimSpace (id_TenantID (vc_Identity v)) \<noteq> []" by (auto simp: Viewer_Validate_def split: if_splits)
  show ?thesis
  proof (cases "partition_targets v f")
    case (Some t)
    obtain company project site where t: "t = (company, project, site)" by (cases t)
    let ?q = "\<lparr>qy_TenantID = id_TenantID (vc_Identity v), qy_CompanyID = company, qy_ProjectID = project, qy_SiteID = site,
      qy_IncludeInactive = sees_inactive v \<and> sf_IncludeInactive f\<rparr>"
    have sel: "selects v f p \<longleftrightarrow> search_match v f p \<and> matches_query ?q p" for p by (simp add: selects_def Some t)
    have "filter (search_match v f) (filter (matches_query ?q) ps) = filter (selects v f) (filter part ps)" for ps
      using assms by (induction ps) (auto simp: sel)
    with None Some t tenant show ?thesis by (simp add: Visible_SearchDirectory_def SearchDirectory_def stored_profiles_def)
  qed (simp add: Visible_SearchDirectory_def None)
qed (simp add: Visible_SearchDirectory_def)

lemma page_sub: "set (page limit offset xs) \<subseteq> set xs" "0 \<le> limit \<Longrightarrow> 0 \<le> offset \<Longrightarrow> int (length (page limit offset xs)) \<le> limit"
  by (auto simp: page_def dest: in_set_takeD in_set_dropD)

lemma clamped_limit_range: "0 < clamped_limit n \<and> clamped_limit n \<le> MaxSearchLimit"
  by (simp add: clamped_limit_def DefaultSearchLimit_def MaxSearchLimit_def)

lemma GetVisibleProfile_hidden:
  assumes "GetProfile (id_TenantID (vc_Identity v)) (TrimSpace i) r = Inr p"
    and "\<not> Profile_IsActive p \<and> \<not> sees_inactive v \<or> out_of_sight v p"
  shows "GetVisibleProfile m v i r \<noteq> Inr x"
    and "GetProfile (id_TenantID (vc_Identity v)) (TrimSpace i) r' = Inl e \<Longrightarrow> GetVisibleProfile m v i r = GetVisibleProfile m v i r'"
  using assms by (auto simp: GetVisibleProfile_def split: option.splits)

subsection \<open>What search and look-up show\<close>

definition example_member :: "string \<Rightarrow> string \<Rightarrow> string \<Rightarrow> DirectoryProfile" where
  "example_member i project site =
     \<lparr>df_profileID = i, df_subject = ''usr_1'', df_tenantID = ''ten_1'', df_companyID = ''org_1'', df_projectID = project, df_siteID = site,
      df_displayName = ''Somchai'', df_jobTitle = ''Inspector'', df_department = ''HSE'', df_assignedAreas = [],
      df_status = ProfileStatusActive, df_createdAt = 1, df_updatedAt = 1\<rparr>"

fun register_all :: "DirectoryProfile list \<Rightarrow> DirectoryRegistry" where
  "register_all [] = NewDirectoryRegistry"
| "register_all (p # ps) = fst (RegisterProfile p (register_all ps))"

definition example_viewer :: "Role \<Rightarrow> string \<Rightarrow> string \<Rightarrow> string \<Rightarrow> ViewerContext" where
  "example_viewer role project site area =
     \<lparr>vc_Identity = \<lparr>id_Subject = ''usr_9'', id_TenantID = ''ten_1'', id_IsAuthenticated = True\<rparr>, vc_Role = role,
      vc_Scope = \<lparr>sg_TenantID = ''ten_1'', sg_CompanyID = ''org_1'', sg_ProjectID = project, sg_SiteID = site, sg_AreaID = area, sg_ObjectID = []\<rparr>\<rparr>"

definition everything :: DirectorySearchFilter where
  "everything = \<lparr>sf_Query = [], sf_CompanyID = [], sf_ProjectID = [], sf_SiteID = [], sf_IncludeInactive = True, sf_Limit = 0, sf_Offset = 0\<rparr>"

definition two_projects :: DirectoryRegistry where
  "two_projects = register_all [example_member ''prof_1'' ''prj_1'' ''ste_1'', example_member ''prof_2'' ''prj_2'' ''ste_2'']"

lemma example_may_read:
  "RoleHasPermission RoleInspector PermDirectoryRead NewProvisionalAuthorizationMatrix"
  "RoleHasPermission RoleContractor PermDirectoryRead NewProvisionalAuthorizationMatrix"
  by code_simp+

lemmas visibility_eval = example_may_read Visible_SearchDirectory_def GetVisibleProfile_def ListVisibleProfilesBySubject_def
  Viewer_Validate_def partition_targets_def project_bound_def restrict_target_def sees_inactive_def search_match_def page_def clamped_limit_def
  DefaultSearchLimit_def MaxSearchLimit_def SearchDirectory_def matches_query_def GetProfile_def ListProfilesBySubject_def out_of_sight_def
  out_of_listing_def example_member_def example_viewer_def everything_def two_projects_def RegisterProfile_def NewDirectoryRegistry_def
  makeProfileKey_def makeSubjectKey_def ResolveScopeLevel_def Profile_IsActive_def MinimizeProfile_def map_filter_simps Let_def

lemma example_search:
  "Visible_SearchDirectory NewProvisionalAuthorizationMatrix [''ten_1:prof_2'', ''ten_1:prof_1''] (example_viewer RoleInspector ''prj_1'' [] [])
     everything two_projects = Inr [MinimizeProfile (example_member ''prof_1'' ''prj_1'' ''ste_1'')]"
  by (simp add: visibility_eval)

text \<open>
  (C22) What search shows. Every result is the minimized form of a stored profile of the tenant of the caller; of the project that the scope of
  the caller names, if it names one; of the site it names, if it names no area; and of the company it names, if it names nothing finer.
  (Callers scoped to an area are held to their project only, and the company is not tested for callers with a project or a site.)
  Inactive profiles appear only for tenant administrators and auditors who ask for them; an external contractor sees people only
  with a project in the scope; and there are at most 100 results. The site and the company of the scope are without surrounding blanks.
\<close>

theorem search_stays_in_scope:
  assumes "Visible_SearchDirectory m ks v f r = Inr xs" and "g = vc_Scope v"
    and "TrimSpace (sg_SiteID g) = sg_SiteID g" and "TrimSpace (sg_CompanyID g) = sg_CompanyID g"
  shows "length xs \<le> 100 \<and>
    (\<forall>x\<in>set xs. \<exists>p\<in>set (stored_profiles ks r). x = MinimizeProfile p \<and> df_tenantID p = TrimSpace (id_TenantID (vc_Identity v)) \<and>
       (sg_ProjectID g \<noteq> [] \<longrightarrow> df_projectID p = sg_ProjectID g) \<and>
       (sg_SiteID g \<noteq> [] \<and> sg_AreaID g = [] \<longrightarrow> df_siteID p = sg_SiteID g) \<and>
       (sg_CompanyID g \<noteq> [] \<and> sg_ProjectID g = [] \<and> sg_SiteID g = [] \<and> sg_AreaID g = [] \<longrightarrow> df_companyID p = sg_CompanyID g) \<and>
       (df_status p = ProfileStatusActive \<or> vc_Role v \<in> {RoleTenantAdmin, RoleAuditor} \<and> sf_IncludeInactive f) \<and>
       (vc_Role v = RoleContractor \<longrightarrow> sg_ProjectID g \<noteq> []))"
proof -
  let ?sel = "filter (selects v f) (filter (\<lambda>_. True) (stored_profiles ks r))"
  let ?place = "\<lambda>p. df_tenantID p = TrimSpace (id_TenantID (vc_Identity v)) \<and>
       (sg_ProjectID g \<noteq> [] \<longrightarrow> df_projectID p = sg_ProjectID g) \<and>
       (sg_SiteID g \<noteq> [] \<and> sg_AreaID g = [] \<longrightarrow> df_siteID p = sg_SiteID g) \<and>
       (sg_CompanyID g \<noteq> [] \<and> sg_ProjectID g = [] \<and> sg_SiteID g = [] \<and> sg_AreaID g = [] \<longrightarrow> df_companyID p = sg_CompanyID g) \<and>
       (df_status p = ProfileStatusActive \<or> vc_Role v \<in> {RoleTenantAdmin, RoleAuditor} \<and> sf_IncludeInactive f) \<and>
       (vc_Role v = RoleContractor \<longrightarrow> sg_ProjectID g \<noteq> [])"
  consider "xs = []" | "xs = page (clamped_limit (sf_Limit f)) (max 0 (sf_Offset f)) (map MinimizeProfile ?sel)"
    using assms(1) Visible_SearchDirectory_within [of v f "\<lambda>_. True" m ks r] by (auto split: option.splits if_splits)
  then show ?thesis
  proof cases
    case 2
    have "int (length xs) \<le> clamped_limit (sf_Limit f)"
      unfolding 2 using clamped_limit_range [of "sf_Limit f"] by (intro page_sub(2)) auto
    moreover have "\<exists>p\<in>set (stored_profiles ks r). x = MinimizeProfile p \<and> selects v f p" if "x \<in> set xs" for x
      using that page_sub(1) [of "clamped_limit (sf_Limit f)" "max 0 (sf_Offset f)" "map MinimizeProfile ?sel"] unfolding 2 by auto
    moreover have "?place p" if "selects v f p" for p
      using selects_place [OF that] assms(2-4) by (auto simp: Profile_IsActive_def sees_inactive_def)
    ultimately have "\<forall>x\<in>set xs. \<exists>p\<in>set (stored_profiles ks r). x = MinimizeProfile p \<and> ?place p" and "int (length xs) \<le> clamped_limit (sf_Limit f)"
      by blast+
    moreover from this(2) have "length xs \<le> 100" using clamped_limit_range [of "sf_Limit f"] by (simp add: MaxSearchLimit_def)
    ultimately show ?thesis by simp
  qed simp
qed

theorem search_stays_in_scope_witness:
  "\<exists>p\<in>set (stored_profiles [''ten_1:prof_2'', ''ten_1:prof_1''] two_projects).
     MinimizeProfile (example_member ''prof_1'' ''prj_1'' ''ste_1'') = MinimizeProfile p \<and> df_tenantID p = ''ten_1'' \<and> df_projectID p = ''prj_1''"
proof -
  let ?v = "example_viewer RoleInspector ''prj_1'' [] []"
  have "TrimSpace (sg_SiteID (vc_Scope ?v)) = sg_SiteID (vc_Scope ?v)" "TrimSpace (sg_CompanyID (vc_Scope ?v)) = sg_CompanyID (vc_Scope ?v)"
    by (simp_all add: example_viewer_def)
  from search_stays_in_scope [OF example_search refl this] show ?thesis by (auto simp: example_viewer_def)
qed

text \<open>
  (C21) Search gives nothing away about other projects and tenants. For a caller whose scope names a project, two directories with the same
  profiles of the tenant of the caller in that project, visited in the same order, give the same answer to every query, whatever project,
  company or site it asks for: the rest of the two may differ in any way, in other projects and in other tenants.
\<close>

theorem search_blind_outside_project:
  assumes "sg_ProjectID (vc_Scope v) \<noteq> []"
    and "filter (\<lambda>p. df_tenantID p = TrimSpace (id_TenantID (vc_Identity v)) \<and> df_projectID p = sg_ProjectID (vc_Scope v)) (stored_profiles ks r) =
      filter (\<lambda>p. df_tenantID p = TrimSpace (id_TenantID (vc_Identity v)) \<and> df_projectID p = sg_ProjectID (vc_Scope v)) (stored_profiles ks' r')"
  shows "Visible_SearchDirectory m ks v f r = Visible_SearchDirectory m ks' v f r'"
proof -
  let ?part = "\<lambda>p. df_tenantID p = TrimSpace (id_TenantID (vc_Identity v)) \<and> df_projectID p = sg_ProjectID (vc_Scope v)"
  have "?part p" if "selects v f p" for p using selects_place(1,2) [OF that] assms(1) by simp
  note within = Visible_SearchDirectory_within [of v f ?part m, OF this]
  show ?thesis by (simp only: within [of ks r] within [of ks' r'] assms(2))
qed

theorem search_blind_outside_project_witness:
  "Visible_SearchDirectory NewProvisionalAuthorizationMatrix [''ten_1:prof_1''] (example_viewer RoleInspector ''prj_1'' [] []) everything
     (register_all [example_member ''prof_1'' ''prj_1'' ''ste_1'']) = Inr [MinimizeProfile (example_member ''prof_1'' ''prj_1'' ''ste_1'')]"
proof -
  let ?v = "example_viewer RoleInspector ''prj_1'' [] []"
  have "sg_ProjectID (vc_Scope ?v) \<noteq> []" by (simp add: example_viewer_def)
  moreover have "filter (\<lambda>p. df_tenantID p = TrimSpace (id_TenantID (vc_Identity ?v)) \<and> df_projectID p = sg_ProjectID (vc_Scope ?v))
        (stored_profiles [''ten_1:prof_1''] (register_all [example_member ''prof_1'' ''prj_1'' ''ste_1''])) =
      filter (\<lambda>p. df_tenantID p = TrimSpace (id_TenantID (vc_Identity ?v)) \<and> df_projectID p = sg_ProjectID (vc_Scope ?v))
        (stored_profiles [''ten_1:prof_2'', ''ten_1:prof_1''] two_projects)"
    by (simp add: visibility_eval stored_profiles_def)
  ultimately show ?thesis by (rule search_blind_outside_project [THEN trans [OF _ example_search]])
qed

text \<open>
  Look-up by identifier does not tell a profile out of sight from one that does not exist: for a caller who may not see the stored profile
  the answer is the one of any registry without it, and it is never a profile.
\<close>

theorem hidden_profile_like_absent:
  assumes "GetProfile (id_TenantID (vc_Identity v)) (TrimSpace i) r = Inr p"
    and "\<not> Profile_IsActive p \<and> \<not> sees_inactive v \<or> out_of_sight v p"
    and "GetProfile (id_TenantID (vc_Identity v)) (TrimSpace i) r' = Inl e"
  shows "GetVisibleProfile m v i r = GetVisibleProfile m v i r' \<and> (\<exists>e. GetVisibleProfile m v i r = Inl e)"
  using GetVisibleProfile_hidden(1) [OF assms(1,2)] GetVisibleProfile_hidden(2) [OF assms(1,2,3)]
  by (cases "GetVisibleProfile m v i r") auto

theorem hidden_profile_like_absent_witness:
  "GetVisibleProfile NewProvisionalAuthorizationMatrix (example_viewer RoleInspector ''prj_1'' [] []) ''prof_2'' two_projects =
   GetVisibleProfile NewProvisionalAuthorizationMatrix (example_viewer RoleInspector ''prj_1'' [] []) ''prof_2'' NewDirectoryRegistry"
proof -
  let ?v = "example_viewer RoleInspector ''prj_1'' [] []"
  have "GetProfile (id_TenantID (vc_Identity ?v)) (TrimSpace ''prof_2'') two_projects = Inr (example_member ''prof_2'' ''prj_2'' ''ste_2'')"
    by (simp add: visibility_eval)
  moreover have "out_of_sight ?v (example_member ''prof_2'' ''prj_2'' ''ste_2'')" by (simp add: visibility_eval)
  moreover have "GetProfile (id_TenantID (vc_Identity ?v)) (TrimSpace ''prof_2'') NewDirectoryRegistry = Inl ErrProfileNotFound" by (simp add: visibility_eval)
  ultimately show ?thesis using hidden_profile_like_absent by blast
qed

subsection \<open>Where the code falls short\<close>

text \<open>The three ways in differ: a caller scoped to an area of a site finds the people of every site of the project.\<close>

theorem area_scope_sees_all_sites:
  "Visible_SearchDirectory NewProvisionalAuthorizationMatrix [''ten_1:prof_3''] (example_viewer RoleInspector ''prj_1'' ''ste_1'' ''ara_1'') everything
     (register_all [example_member ''prof_3'' ''prj_1'' ''ste_2'']) = Inr [MinimizeProfile (example_member ''prof_3'' ''prj_1'' ''ste_2'')] \<and>
   Visible_SearchDirectory NewProvisionalAuthorizationMatrix [''ten_1:prof_3''] (example_viewer RoleInspector ''prj_1'' ''ste_1'' []) everything
     (register_all [example_member ''prof_3'' ''prj_1'' ''ste_2'']) = Inr []"
  by (simp add: visibility_eval)

text \<open>A contractor without a project finds nobody by search, and every profile of the company by its identifier.\<close>

theorem contractor_without_project_looks_up:
  "Visible_SearchDirectory NewProvisionalAuthorizationMatrix [''ten_1:prof_2'', ''ten_1:prof_1''] (example_viewer RoleContractor [] [] []) everything
     two_projects = Inr [] \<and>
   GetVisibleProfile NewProvisionalAuthorizationMatrix (example_viewer RoleContractor [] [] []) ''prof_2'' two_projects =
     Inr (MinimizeProfile (example_member ''prof_2'' ''prj_2'' ''ste_2''))"
  by (simp add: visibility_eval)

text \<open>The listing by subject has no test on sites.\<close>

theorem listing_ignores_sites:
  "GetVisibleProfile NewProvisionalAuthorizationMatrix (example_viewer RoleInspector ''prj_1'' ''ste_1'' []) ''prof_3''
     (register_all [example_member ''prof_3'' ''prj_1'' ''ste_2'']) = Inl ErrProfileNotFound \<and>
   ListVisibleProfilesBySubject NewProvisionalAuthorizationMatrix (example_viewer RoleInspector ''prj_1'' ''ste_1'' []) ''usr_1''
     (register_all [example_member ''prof_3'' ''prj_1'' ''ste_2'']) = Inr [MinimizeProfile (example_member ''prof_3'' ''prj_1'' ''ste_2'')]"
  by (simp add: visibility_eval)

end
