(* ===== verification/External_Users.thy ===== *)
theory External_Users
  imports Directory_Profiles Registry_Ledger
begin

text \<open>
  External users, \<open>modules/identity-authorization/external_user_profile.go\<close>: profiles under an internal sponsor, the registry of enrolments with its
  ledger. An absent list of scopes is the empty one, as the constructor makes it.
\<close>

subsection \<open>Definitions\<close>

datatype ExternalUserType =
  ExternalTypeTemporaryWorker | ExternalTypeSiteLocalWorker | ExternalTypeContractorWorker | ExternalTypeClientInspector
| ExternalTypeAuditor | ExternalTypePartnerSpecialist | ExternalTypeOther string

fun KnownExternalUserTypes :: "ExternalUserType \<Rightarrow> bool" where
  "KnownExternalUserTypes (ExternalTypeOther _) \<longleftrightarrow> False"
| "KnownExternalUserTypes _ \<longleftrightarrow> True"

datatype EnrollmentStatus = EnrollmentStatusActive | EnrollmentStatusRevoked | EnrollmentStatusExpired

definition ValidateExternalUserType :: "ExternalUserType \<Rightarrow> people_error option" where
  "ValidateExternalUserType t = (if \<not> KnownExternalUserTypes t then Some ErrInvalidExternalUserType else None)"

definition ValidateInternalSponsor :: "string \<Rightarrow> people_error option" where
  "ValidateInternalSponsor sponsorID =
     (let trimmed = TrimSpace sponsorID in
      if trimmed = [] then Some ErrMissingInternalSponsor
      else if \<not> HasPrefix trimmed ''usr_'' \<and> \<not> HasPrefix trimmed ''usr-'' then Some ErrInvalidInternalSponsor
      else if Contains trimmed ''_ext_'' \<or> Contains trimmed ''-ext-'' \<or> HasPrefix trimmed ''usr_ext'' then Some ErrInvalidInternalSponsor
      else None)"

definition AssertNoCompanyAdministration :: "ExternalUserType \<Rightarrow> Role \<Rightarrow> people_error option" where
  "AssertNoCompanyAdministration userType role =
     (if role = RoleTenantAdmin \<or> role = RoleProjectManager then Some ErrCompanyAdminDenied else None)"

definition ValidateProfileMinimization :: "string \<Rightarrow> string \<Rightarrow> people_error option" where
  "ValidateProfileMinimization displayName contactReference =
     (let combined = lower_text (displayName @ '' '' @ contactReference) in
      if Contains combined ''@'' then Some ErrPIIDetected
      else if Contains combined ''+66'' \<or> Contains combined ''08'' \<or> Contains combined ''phone'' then Some ErrPIIDetected
      else if Contains combined ''id:'' \<or> Contains combined ''citizen'' \<or> Contains combined ''passport'' then Some ErrPIIDetected
      else None)"

record ExternalUserProfile =
  xu_subject :: string
  xu_tenantID :: string
  xu_companyID :: string
  xu_userType :: ExternalUserType
  xu_sponsorID :: string
  xu_organizationName :: string
  xu_displayName :: string
  xu_contactReference :: string
  xu_validFrom :: gotime
  xu_validTo :: gotime
  xu_status :: EnrollmentStatus
  xu_assignedScopes :: "ScopeGrant list"
  xu_createdAt :: gotime
  xu_updatedAt :: gotime

definition External_IsValidAt :: "ExternalUserProfile \<Rightarrow> gotime \<Rightarrow> bool" where
  "External_IsValidAt p t \<longleftrightarrow> xu_status p = EnrollmentStatusActive \<and> \<not> t < xu_validFrom p \<and> \<not> After t (xu_validTo p)"

definition External_EffectiveStatus :: "ExternalUserProfile \<Rightarrow> gotime \<Rightarrow> EnrollmentStatus" where
  "External_EffectiveStatus p t =
     (if xu_status p = EnrollmentStatusRevoked then EnrollmentStatusRevoked
      else if After t (xu_validTo p) \<or> t < xu_validFrom p then EnrollmentStatusExpired
      else EnrollmentStatusActive)"

definition IsScopePermitted :: "ExternalUserProfile \<Rightarrow> TargetResource \<Rightarrow> bool" where
  "IsScopePermitted p target = list_ex (\<lambda>scope. scopeMatches scope target) (xu_assignedScopes p)"

record ExternalUserAuditRecord =
  xa_RecordID :: string
  xa_TenantID :: string
  xa_Subject :: string
  xa_UserType :: ExternalUserType
  xa_SponsorID :: string
  xa_Transition :: string
  xa_ActorSubject :: string
  xa_Reason :: string
  xa_RecordedAt :: gotime

definition external_record ::
  "ExternalUserProfile \<Rightarrow> string \<Rightarrow> string \<Rightarrow> string \<Rightarrow> gotime \<Rightarrow> ExternalUserAuditRecord" where
  "external_record p transition actor reason at =
     \<lparr>xa_RecordID = ''hext_'' @ xu_subject p @ ''_'' @ FormatInt (UnixNano at), xa_TenantID = xu_tenantID p, xa_Subject = xu_subject p,
      xa_UserType = xu_userType p, xa_SponsorID = xu_sponsorID p, xa_Transition = transition, xa_ActorSubject = actor, xa_Reason = reason,
      xa_RecordedAt = at\<rparr>"

definition External_Revoke :: "gotime \<Rightarrow> ExternalUserProfile \<Rightarrow> people_error + ExternalUserProfile \<times> ExternalUserAuditRecord" where
  "External_Revoke at p =
     (if xu_status p = EnrollmentStatusRevoked then Inl ErrEnrollmentRevoked
      else Inr (p\<lparr>xu_status := EnrollmentStatusRevoked, xu_updatedAt := at\<rparr>,
                external_record p ''EXTERNAL_USER_REVOKED'' (xu_sponsorID p) ''Sponsor enrollment revocation'' at))"

text \<open>The arguments of the constructor, in the order of the source.\<close>

record external_input =
  xn_subject :: string
  xn_tenantID :: string
  xn_companyID :: string
  xn_userType :: ExternalUserType
  xn_sponsorID :: string
  xn_organizationName :: string
  xn_displayName :: string
  xn_contactReference :: string
  xn_validFrom :: gotime
  xn_validTo :: gotime
  xn_scopes :: "ScopeGrant list"

fun clean_scopes :: "string \<Rightarrow> ScopeGrant list \<Rightarrow> people_error + ScopeGrant list" where
  "clean_scopes tenant [] = Inr []"
| "clean_scopes tenant (s # ss) =
     (if sg_TenantID s \<noteq> [] \<and> sg_TenantID s \<noteq> tenant then Inl (Iam (IdentityErr ErrTenantMismatch))
      else case clean_scopes tenant ss of Inl e \<Rightarrow> Inl e | Inr cs \<Rightarrow> Inr (s\<lparr>sg_TenantID := tenant\<rparr> # cs))"

definition NewExternalUserProfile :: "external_input \<Rightarrow> gotime \<Rightarrow> people_error + ExternalUserProfile" where
  "NewExternalUserProfile i now =
     (let sub = TrimSpace (xn_subject i); tenant = TrimSpace (xn_tenantID i); name = SanitizeDisplayName (xn_displayName i);
          contact = TrimSpace (xn_contactReference i) in
      if sub = [] then Inl BlankSubject
      else if \<not> HasPrefix sub ''usr_'' \<and> \<not> HasPrefix sub ''usr-'' then Inl (Iam ErrInvalidSubjectFormat)
      else if tenant = [] then Inl BlankTenant
      else if TrimSpace (xn_companyID i) = [] then Inl ErrBlankCompanyID
      else case ValidateExternalUserType (xn_userType i) of Some e \<Rightarrow> Inl e | None \<Rightarrow>
        (case ValidateInternalSponsor (xn_sponsorID i) of Some e \<Rightarrow> Inl e | None \<Rightarrow>
          if TrimSpace (xn_organizationName i) = [] then Inl (Iam (ErrorsNew ''organization name must not be blank''))
          else if name = [] then Inl ErrBlankDisplayName
          else if contact = [] then Inl (Iam (ErrorsNew ''contact reference must not be blank''))
          else case ValidateProfileMinimization name contact of Some e \<Rightarrow> Inl e | None \<Rightarrow>
            if xn_validTo i < xn_validFrom i \<or> xn_validTo i = xn_validFrom i then Inl (Iam ErrInvalidTimeWindow)
            else case clean_scopes tenant (xn_scopes i) of Inl e \<Rightarrow> Inl e | Inr scopes \<Rightarrow>
              Inr \<lparr>xu_subject = sub, xu_tenantID = tenant, xu_companyID = TrimSpace (xn_companyID i), xu_userType = xn_userType i,
                xu_sponsorID = TrimSpace (xn_sponsorID i), xu_organizationName = TrimSpace (xn_organizationName i), xu_displayName = name,
                xu_contactReference = contact, xu_validFrom = xn_validFrom i, xu_validTo = xn_validTo i, xu_status = EnrollmentStatusActive,
                xu_assignedScopes = scopes, xu_createdAt = now, xu_updatedAt = now\<rparr>))"

definition External_AppendRecord ::
  "ExternalUserAuditRecord \<Rightarrow> ExternalUserAuditRecord list \<Rightarrow> (ExternalUserAuditRecord list, people_error, unit) outcome" where
  "External_AppendRecord rec l =
     (if xa_TenantID rec = [] \<or> xa_Subject rec = [] then (l, Inl BlankSubject) else (l @ [rec], Inr ()))"

definition External_GetAuditTrail ::
  "string \<Rightarrow> string \<Rightarrow> ExternalUserAuditRecord list \<Rightarrow> people_error + ExternalUserAuditRecord list" where
  "External_GetAuditTrail tenantID subject l =
     (if TrimSpace tenantID = [] then Inl BlankTenant
      else if TrimSpace subject = [] then Inl BlankSubject
      else Inr (filter (\<lambda>rec. xa_TenantID rec = TrimSpace tenantID \<and> xa_Subject rec = TrimSpace subject) l))"

record ExternalUserRegistry =
  xg_profiles :: "string \<rightharpoonup> ExternalUserProfile"
  xg_ledger :: "ExternalUserAuditRecord list"

definition NewExternalUserRegistry :: "ExternalUserAuditRecord list option \<Rightarrow> ExternalUserRegistry" where
  "NewExternalUserRegistry ledger =
     \<lparr>xg_profiles = Map.empty, xg_ledger = (case ledger of None \<Rightarrow> [] | Some l \<Rightarrow> l)\<rparr>"

definition makeExternalUserKey :: "string \<Rightarrow> string \<Rightarrow> string" where
  "makeExternalUserKey tenantID subject = TrimSpace tenantID @ '':'' @ TrimSpace subject"

text \<open>The end of the two methods that write: the profile is stored, then the record appended, whose error is the result.\<close>

definition store_external ::
  "string \<Rightarrow> ExternalUserProfile \<Rightarrow> ExternalUserAuditRecord \<Rightarrow> 'r \<Rightarrow> ExternalUserRegistry \<Rightarrow> (ExternalUserRegistry, people_error, 'r) outcome" where
  "store_external key p rec result r =
     (case External_AppendRecord rec (xg_ledger r) of
        (l, Inl e) \<Rightarrow> (r\<lparr>xg_profiles := (xg_profiles r)(key \<mapsto> p), xg_ledger := l\<rparr>, Inl e)
      | (l, Inr _) \<Rightarrow> (r\<lparr>xg_profiles := (xg_profiles r)(key \<mapsto> p), xg_ledger := l\<rparr>, Inr result))"

definition EnrollExternalUser ::
  "ExternalUserProfile \<Rightarrow> string \<Rightarrow> string \<Rightarrow> gotime \<Rightarrow> ExternalUserRegistry \<Rightarrow> (ExternalUserRegistry, people_error, unit) outcome" where
  "EnrollExternalUser p actorSubject reason at r =
     (let key = makeExternalUserKey (xu_tenantID p) (xu_subject p) in
      if xu_tenantID p = [] \<or> xu_subject p = [] then (r, Inl BlankSubject)
      else if xg_profiles r key \<noteq> None then (r, Inl ErrDuplicateExternalUser)
      else store_external key p (external_record p ''EXTERNAL_USER_ENROLLED'' (TrimSpace actorSubject) (TrimSpace reason) at) () r)"

definition RevokeEnrollment ::
  "string \<Rightarrow> string \<Rightarrow> string \<Rightarrow> string \<Rightarrow> gotime \<Rightarrow> ExternalUserRegistry \<Rightarrow> (ExternalUserRegistry, people_error, ExternalUserProfile) outcome" where
  "RevokeEnrollment tenantID subject actorSubject reason at r =
     (let key = makeExternalUserKey tenantID subject in
      case xg_profiles r key of
        None \<Rightarrow> (r, Inl ErrExternalUserNotFound)
      | Some current \<Rightarrow> (case External_Revoke at current of
          Inl e \<Rightarrow> (r, Inl e)
        | Inr (revoked, audit) \<Rightarrow>
            store_external key revoked (audit\<lparr>xa_ActorSubject := TrimSpace actorSubject, xa_Reason := TrimSpace reason\<rparr>) revoked r))"

definition GetExternalUser :: "string \<Rightarrow> string \<Rightarrow> ExternalUserRegistry \<Rightarrow> people_error + ExternalUserProfile" where
  "GetExternalUser tenantID subject r =
     (case xg_profiles r (makeExternalUserKey tenantID subject) of None \<Rightarrow> Inl ErrExternalUserNotFound | Some p \<Rightarrow> Inr p)"

definition ListActiveExternalUsers ::
  "string list \<Rightarrow> string \<Rightarrow> gotime \<Rightarrow> ExternalUserRegistry \<Rightarrow> people_error + ExternalUserProfile list" where
  "ListActiveExternalUsers ks tenantID at r =
     (if TrimSpace tenantID = [] then Inl BlankTenant
      else Inr (filter (\<lambda>p. xu_tenantID p = TrimSpace tenantID \<and> External_IsValidAt p at) (List.map_filter (xg_profiles r) ks)))"

definition ListBySponsor ::
  "string list \<Rightarrow> string \<Rightarrow> string \<Rightarrow> ExternalUserRegistry \<Rightarrow> people_error + ExternalUserProfile list" where
  "ListBySponsor ks tenantID sponsorID r =
     (if TrimSpace tenantID = [] then Inl BlankTenant
      else if TrimSpace sponsorID = [] then Inl ErrMissingInternalSponsor
      else Inr (filter (\<lambda>p. xu_tenantID p = TrimSpace tenantID \<and> xu_sponsorID p = TrimSpace sponsorID) (List.map_filter (xg_profiles r) ks)))"

subsection \<open>Calls\<close>

datatype external_call =
  CallEnroll ExternalUserProfile string string gotime
| CallRevokeEnrollment string string string string gotime

fun external_exec :: "external_call \<Rightarrow> ExternalUserRegistry \<Rightarrow> (ExternalUserRegistry, people_error, unit) outcome" where
  "external_exec (CallEnroll p a w at) r = EnrollExternalUser p a w at r"
| "external_exec (CallRevokeEnrollment t s a w at) r = discard (RevokeEnrollment t s a w at r)"

text \<open>Profiles come from the constructor: what it has checked, and the status it gives.\<close>

definition sound_external :: "ExternalUserProfile \<Rightarrow> bool" where
  "sound_external p \<longleftrightarrow> TrimSpace (xu_tenantID p) = xu_tenantID p \<and> xu_tenantID p \<noteq> [] \<and> TrimSpace (xu_subject p) = xu_subject p \<and>
     xu_subject p \<noteq> [] \<and> KnownExternalUserTypes (xu_userType p) \<and> ValidateInternalSponsor (xu_sponsorID p) = None \<and>
     ValidateProfileMinimization (xu_displayName p) (xu_contactReference p) = None \<and> xu_displayName p \<noteq> [] \<and>
     xu_validFrom p < xu_validTo p \<and> (\<forall>s\<in>set (xu_assignedScopes p). sg_TenantID s = xu_tenantID p)"

fun enrolled_call :: "external_call \<Rightarrow> bool" where
  "enrolled_call (CallEnroll p a w at) \<longleftrightarrow> sound_external p \<and> xu_status p = EnrollmentStatusActive"
| "enrolled_call _ \<longleftrightarrow> True"

lemma clean_scopes_tenant: "clean_scopes tenant ss = Inr cs \<Longrightarrow> \<forall>s\<in>set cs. sg_TenantID s = tenant"
  by (induction ss arbitrary: cs) (auto split: if_splits sum.splits)

lemma sponsor_trimmed [simp]: "ValidateInternalSponsor (TrimSpace s) = ValidateInternalSponsor s"
  by (simp add: ValidateInternalSponsor_def)

lemma NewExternalUserProfile_sound:
  assumes "NewExternalUserProfile i now = Inr p"
  shows "sound_external p" and "xu_status p = EnrollmentStatusActive"
  using assms clean_scopes_tenant [of "TrimSpace (xn_tenantID i)" "xn_scopes i"]
  by (auto simp: NewExternalUserProfile_def sound_external_def ValidateExternalUserType_def Let_def guards)

subsection \<open>Invariant and history\<close>

definition external_inv :: "ExternalUserRegistry \<Rightarrow> bool" where
  "external_inv r \<longleftrightarrow> (\<forall>k p. xg_profiles r k = Some p \<longrightarrow> k = makeExternalUserKey (xu_tenantID p) (xu_subject p) \<and> sound_external p \<and>
     xu_status p \<in> {EnrollmentStatusActive, EnrollmentStatusRevoked})"

lemma external_invD:
  "external_inv r \<Longrightarrow> xg_profiles r k = Some p \<Longrightarrow> k = makeExternalUserKey (xu_tenantID p) (xu_subject p) \<and> sound_external p \<and>
     xu_status p \<in> {EnrollmentStatusActive, EnrollmentStatusRevoked}"
  by (simp add: external_inv_def)

text \<open>The status before and after, read off the name of the transition.\<close>

definition status_before :: "ExternalUserAuditRecord \<Rightarrow> EnrollmentStatus option" where
  "status_before rec = (if xa_Transition rec = ''EXTERNAL_USER_ENROLLED'' then None else Some EnrollmentStatusActive)"

definition status_after :: "ExternalUserAuditRecord \<Rightarrow> EnrollmentStatus option" where
  "status_after rec = (if xa_Transition rec = ''EXTERNAL_USER_ENROLLED'' then Some EnrollmentStatusActive else Some EnrollmentStatusRevoked)"

definition external_ident :: "ExternalUserProfile \<Rightarrow> string \<times> string \<times> ExternalUserType \<times> string" where
  "external_ident p = (xu_tenantID p, xu_subject p, xu_userType p, xu_sponsorID p)"

definition external_record_ident :: "ExternalUserAuditRecord \<Rightarrow> string \<times> string \<times> ExternalUserType \<times> string" where
  "external_record_ident rec = (xa_TenantID rec, xa_Subject rec, xa_UserType rec, xa_SponsorID rec)"

definition external_key :: "string \<times> string \<times> ExternalUserType \<times> string \<Rightarrow> string" where
  "external_key i = makeExternalUserKey (fst i) (fst (snd i))"

lemma external_record_simps [simp]:
  "external_record_ident (external_record p tr a w at) = external_ident p" "xa_TenantID (external_record p tr a w at) = xu_tenantID p"
  "xa_Subject (external_record p tr a w at) = xu_subject p" "xa_Transition (external_record p tr a w at) = tr"
  "external_record_ident (rec\<lparr>xa_ActorSubject := a, xa_Reason := w\<rparr>) = external_record_ident rec"
  by (simp_all add: external_record_def external_record_ident_def external_ident_def)

lemma fst_store_external:
  "fst (store_external key p rec result r) =
     r\<lparr>xg_profiles := (xg_profiles r)(key \<mapsto> p), xg_ledger := fst (External_AppendRecord rec (xg_ledger r))\<rparr>"
  by (simp add: store_external_def External_AppendRecord_def split: prod.split sum.split)

text \<open>The two ways a call moves the registry.\<close>

lemma external_step:
  assumes inv: "external_inv r" and ok: "enrolled_call c"
  obtains (same) "fst (external_exec c r) = r"
  | (enrolled) p rec where "sound_external p" "xu_status p = EnrollmentStatusActive" "xg_profiles r (makeExternalUserKey (xu_tenantID p) (xu_subject p)) = None"
      "fst (external_exec c r) = r\<lparr>xg_profiles := (xg_profiles r)(makeExternalUserKey (xu_tenantID p) (xu_subject p) \<mapsto> p), xg_ledger := xg_ledger r @ [rec]\<rparr>"
      "external_record_ident rec = external_ident p" "xa_Transition rec = ''EXTERNAL_USER_ENROLLED''"
  | (revoked) k p at rec where "xg_profiles r k = Some p" "xu_status p = EnrollmentStatusActive"
      "fst (external_exec c r) = r\<lparr>xg_profiles := (xg_profiles r)(k \<mapsto> p\<lparr>xu_status := EnrollmentStatusRevoked, xu_updatedAt := at\<rparr>),
         xg_ledger := xg_ledger r @ [rec]\<rparr>"
      "external_record_ident rec = external_ident p" "xa_Transition rec = ''EXTERNAL_USER_REVOKED''"
proof (cases c)
  case (CallEnroll p a w at)
  with ok have p: "sound_external p" "xu_status p = EnrollmentStatusActive" by simp_all
  then have ne: "xu_tenantID p \<noteq> []" "xu_subject p \<noteq> []" by (simp_all add: sound_external_def)
  show thesis
  proof (cases "xg_profiles r (makeExternalUserKey (xu_tenantID p) (xu_subject p))")
    case None
    then show thesis
      using ne CallEnroll by (intro enrolled [OF p None]) (auto simp: EnrollExternalUser_def Let_def fst_store_external External_AppendRecord_def)
  next
    case Some
    with ne CallEnroll show thesis by (intro same) (simp add: EnrollExternalUser_def Let_def)
  qed
next
  case (CallRevokeEnrollment t s a w at)
  show thesis
  proof (cases "xg_profiles r (makeExternalUserKey t s)")
    case None
    with CallRevokeEnrollment show thesis by (intro same) (simp add: RevokeEnrollment_def Let_def)
  next
    case (Some p)
    from external_invD [OF inv Some] have p: "xu_tenantID p \<noteq> []" "xu_subject p \<noteq> []"
      "xu_status p = EnrollmentStatusActive \<or> xu_status p = EnrollmentStatusRevoked" by (auto simp: sound_external_def)
    show thesis
    proof (cases "xu_status p = EnrollmentStatusRevoked")
      case True
      with Some CallRevokeEnrollment show thesis by (intro same) (simp add: RevokeEnrollment_def Let_def External_Revoke_def)
    next
      case False
      with p(3) have "xu_status p = EnrollmentStatusActive" by simp
      with Some p(1,2) CallRevokeEnrollment show thesis
        by (intro revoked [OF Some]) (auto simp: RevokeEnrollment_def Let_def External_Revoke_def fst_store_external External_AppendRecord_def)
    qed
  qed
qed

lemma external_exec_inv:
  assumes inv: "external_inv r" and ok: "enrolled_call c"
  shows "external_inv (fst (external_exec c r))"
proof (cases rule: external_step [OF assms])
  case 1
  with inv show ?thesis by simp
next
  case (2 p rec)
  with inv show ?thesis by (auto simp: external_inv_def)
next
  case (3 k p at rec)
  from external_invD [OF inv 3(1)] inv 3(3) show ?thesis by (auto simp: external_inv_def sound_external_def)
qed

interpretation external_users: ledgered external_exec external_inv enrolled_call xg_profiles xg_ledger external_key external_ident
  external_record_ident "\<lambda>p. Some (xu_status p)" status_before status_after None
proof
  show "external_inv r \<Longrightarrow> enrolled_call c \<Longrightarrow> external_inv (fst (external_exec c r))" for c and r :: ExternalUserRegistry
    by (rule external_exec_inv)
  fix c and r :: ExternalUserRegistry
  assume inv: "external_inv r" and ok: "enrolled_call c"
  show "xg_profiles (fst (external_exec c r)) = xg_profiles r \<and> xg_ledger (fst (external_exec c r)) = xg_ledger r \<or>
    (\<exists>v j. xg_profiles r (external_key (external_ident v)) = None \<and>
      xg_profiles (fst (external_exec c r)) = (xg_profiles r)(external_key (external_ident v) \<mapsto> v) \<and>
      xg_ledger (fst (external_exec c r)) = xg_ledger r @ [j] \<and> external_record_ident j = external_ident v \<and>
      status_before j = None \<and> status_after j = Some (xu_status v)) \<or>
    (\<exists>k v v' j. xg_profiles r k = Some v \<and> xg_profiles (fst (external_exec c r)) = (xg_profiles r)(k \<mapsto> v') \<and>
      external_ident v' = external_ident v \<and> xg_ledger (fst (external_exec c r)) = xg_ledger r @ [j] \<and>
      external_record_ident j = external_ident v \<and> status_before j = Some (xu_status v) \<and> status_after j = Some (xu_status v'))"
  proof (cases rule: external_step [OF inv ok])
    case 1
    then show ?thesis by simp
  next
    case (2 p rec)
    then show ?thesis
      by (intro disjI2 disjI1 exI [of _ p] exI [of _ rec]) (simp add: external_key_def external_ident_def status_before_def status_after_def)
  next
    case (3 k p at rec)
    then show ?thesis
      by (intro disjI2 exI [of _ k] exI [of _ p] exI [of _ "p\<lparr>xu_status := EnrollmentStatusRevoked, xu_updatedAt := at\<rparr>"] exI [of _ rec])
        (simp add: external_ident_def status_before_def status_after_def)
  qed
qed

lemma reachable_external:
  assumes "list_all enrolled_call cs" and "r = run_calls external_exec cs (NewExternalUserRegistry None)"
  shows "external_inv r" and "external_users.ledger_inv r"
  unfolding assms(2)
  by (rule external_users.reachable_ledger [OF _ _ _ assms(1)]; simp add: external_inv_def NewExternalUserRegistry_def)+

interpretation revoked_users: absorbing external_exec external_inv enrolled_call "\<lambda>k r. xg_profiles r k" "\<lambda>p. xu_status p = EnrollmentStatusRevoked"
proof
  fix c k p and r :: ExternalUserRegistry
  assume inv: "external_inv r" and ok: "enrolled_call c" and p: "xg_profiles r k = Some p" "xu_status p = EnrollmentStatusRevoked"
  show "xg_profiles (fst (external_exec c r)) k = Some p"
    by (cases rule: external_step [OF inv ok]) (use p in auto)
qed

subsection \<open>Properties\<close>

lemma GetExternalUser_Inr: "GetExternalUser t u r = Inr p \<longleftrightarrow> xg_profiles r (makeExternalUserKey t u) = Some p"
  by (simp add: GetExternalUser_def split: option.split)

text \<open>
  Enrolled users are bounded: in every reachable registry an external user has a known type, an internal sponsor who is not external, a display
  name and contact without the marks of personal data, a window that is not empty, and no target of another tenant is within the
  granted scopes; a valid one is listed.
\<close>

theorem external_users_bounded:
  assumes "list_all enrolled_call cs" and "r = run_calls external_exec cs (NewExternalUserRegistry None)"
    and "GetExternalUser t u r = Inr p"
  shows "KnownExternalUserTypes (xu_userType p) \<and> ValidateInternalSponsor (xu_sponsorID p) = None \<and>
    \<not> Contains (lower_text (xu_displayName p @ '' '' @ xu_contactReference p)) ''@'' \<and> xu_validFrom p < xu_validTo p \<and>
    (IsScopePermitted p target \<longrightarrow> tg_TenantID target = xu_tenantID p) \<and>
    (External_IsValidAt p at \<and> set ks = dom (xg_profiles r) \<longrightarrow>
       (\<exists>ps. ListActiveExternalUsers ks (xu_tenantID p) at r = Inr ps \<and> p \<in> set ps))"
proof -
  note stored = assms(3) [unfolded GetExternalUser_Inr]
  from external_invD [OF reachable_external(1) [OF assms(1,2)] stored]
  have p: "sound_external p" by simp
  have scope: "tg_TenantID target = xu_tenantID p" if perm: "IsScopePermitted p target"
  proof -
    from perm obtain s where "s \<in> set (xu_assignedScopes p)" "scopeMatches s target" by (auto simp: IsScopePermitted_def list_ex_iff)
    with p show ?thesis by (auto simp: sound_external_def scopeMatches_def split: if_splits)
  qed
  have "\<exists>ps. ListActiveExternalUsers ks (xu_tenantID p) at r = Inr ps \<and> p \<in> set ps"
    if "External_IsValidAt p at" "set ks = dom (xg_profiles r)"
    using that p stored by (auto simp: ListActiveExternalUsers_def sound_external_def map_filter_def intro!: image_eqI [of _ _ "makeExternalUserKey t u"])
  with p scope show ?thesis
    by (auto simp: sound_external_def ValidateProfileMinimization_def Let_def split: if_splits)
qed

definition example_external :: external_input where
  "example_external = \<lparr>xn_subject = ''usr_ext_1'', xn_tenantID = ''ten_1'', xn_companyID = ''cmp_1'', xn_userType = ExternalTypeAuditor,
     xn_sponsorID = ''usr_boss'', xn_organizationName = ''Org'', xn_displayName = ''Eve'', xn_contactReference = ''ref'', xn_validFrom = 10,
     xn_validTo = 20, xn_scopes = []\<rparr>"

definition example_enrolled :: ExternalUserProfile where
  "example_enrolled = (case NewExternalUserProfile example_external 5 of Inr p \<Rightarrow> p | Inl _ \<Rightarrow> undefined)"

lemma sanitize_Eve: "SanitizeDisplayName ''Eve'' = ''Eve''"
  by (simp add: SanitizeDisplayName_def byte_in_def Let_def)

lemma example_checks:
  "ValidateExternalUserType ExternalTypeAuditor = None" "ValidateInternalSponsor ''usr_boss'' = None"
  "ValidateProfileMinimization ''Eve'' ''ref'' = None"
  by (simp add: ValidateExternalUserType_def)
    (simp add: ValidateInternalSponsor_def HasPrefix_def Let_def, code_simp)

lemma example_enrolled: "NewExternalUserProfile example_external 5 = Inr example_enrolled"
proof -
  have "\<exists>p. NewExternalUserProfile example_external 5 = Inr p"
    unfolding NewExternalUserProfile_def example_external_def Let_def
    by (simp add: example_checks sanitize_Eve HasPrefix_def)
  then show ?thesis by (auto simp: example_enrolled_def)
qed

lemma NewExternalUserProfile_ids:
  "NewExternalUserProfile i now = Inr p \<Longrightarrow> xu_tenantID p = TrimSpace (xn_tenantID i) \<and> xu_subject p = TrimSpace (xn_subject i)"
  by (auto simp: NewExternalUserProfile_def Let_def split: if_splits option.splits sum.splits)

lemma example_enrolled_fields: "xu_tenantID example_enrolled = ''ten_1''" "xu_subject example_enrolled = ''usr_ext_1''"
  using NewExternalUserProfile_ids [OF example_enrolled] by (simp_all add: example_external_def)

abbreviation example_external_calls :: "external_call list" where
  "example_external_calls \<equiv> [CallEnroll example_enrolled ''usr_boss'' ''audit'' 6]"

lemma example_external_ok: "list_all enrolled_call example_external_calls"
  using NewExternalUserProfile_sound [OF example_enrolled] by simp

lemma example_external_stored:
  "GetExternalUser ''ten_1'' ''usr_ext_1'' (run_calls external_exec example_external_calls (NewExternalUserRegistry None)) = Inr example_enrolled"
  by (simp add: GetExternalUser_Inr EnrollExternalUser_def Let_def fst_store_external example_enrolled_fields makeExternalUserKey_def
      NewExternalUserRegistry_def)

theorem external_users_bounded_witness:
  "xu_validFrom example_enrolled < xu_validTo example_enrolled \<and> ValidateInternalSponsor (xu_sponsorID example_enrolled) = None"
  using external_users_bounded [OF example_external_ok refl example_external_stored] by blast

lemma transitions_known:
  "\<forall>j\<in>set (xg_ledger (run_calls external_exec cs (NewExternalUserRegistry None))).
     xa_Transition j \<in> {''EXTERNAL_USER_ENROLLED'', ''EXTERNAL_USER_REVOKED''}"
proof (induction cs rule: rev_induct)
  case (snoc c cs)
  then show ?case
    by (cases c) (auto simp: EnrollExternalUser_def RevokeEnrollment_def External_Revoke_def fst_store_external External_AppendRecord_def
        external_record_def Let_def split: option.splits)
qed (simp add: NewExternalUserRegistry_def)

text \<open>
  Revocation is final and on record: once an enrolment is revoked, no call makes the user active again, the user is valid at no time, the
  second revocation is refused, and the audit trail of the user consists of the enrolment and the revocation.
\<close>

theorem revoked_external_final:
  assumes "list_all enrolled_call cs" and "list_all enrolled_call ds"
    and "r = run_calls external_exec cs (NewExternalUserRegistry None)" and "RevokeEnrollment t u a w at r = (r', Inr p)"
    and "s = run_calls external_exec ds r'"
  shows "GetExternalUser t u s = Inr p \<and> \<not> External_IsValidAt p now \<and> RevokeEnrollment t u a' w' at' s = (s, Inl ErrEnrollmentRevoked) \<and>
    (\<exists>trail. External_GetAuditTrail (xu_tenantID p) (xu_subject p) (xg_ledger s) = Inr trail \<and>
       map xa_Transition trail = [''EXTERNAL_USER_ENROLLED'', ''EXTERNAL_USER_REVOKED''])"
proof -
  note inv = reachable_external [OF assms(1,3)]
  have r': "r' = run_calls external_exec [CallRevokeEnrollment t u a w at] r" using assms(4) by (simp add: discard_def)
  have s: "s = run_calls external_exec (CallRevokeEnrollment t u a w at # ds) r" using assms(5) r' by simp
  have inv': "external_inv r'" "external_inv s" "external_users.ledger_inv s"
    using external_users.log.run_inv [of r "[CallRevokeEnrollment t u a w at]"] inv r'
      external_users.log.run_inv [of r "CallRevokeEnrollment t u a w at # ds"] s assms(2) by auto
  have p: "xg_profiles r' (makeExternalUserKey t u) = Some p" "xu_status p = EnrollmentStatusRevoked"
    using assms(4) by (auto simp: RevokeEnrollment_def External_Revoke_def store_external_def External_AppendRecord_def Let_def
        split: option.splits if_splits)
  from revoked_users.run_final [OF inv'(1) assms(2) p] have stored: "xg_profiles s (makeExternalUserKey t u) = Some p" using assms(5) by simp
  from external_invD [OF inv'(2) this] have key: "makeExternalUserKey t u = makeExternalUserKey (xu_tenantID p) (xu_subject p)"
    and sound: "sound_external p" by simp_all
  have trail: "filter (\<lambda>rec. xa_TenantID rec = xu_tenantID p \<and> xa_Subject rec = xu_subject p) (xg_ledger s) =
      external_users.history (external_ident p) s"
    unfolding external_users.history_def
    using external_users.same_key_same_entry [OF inv'(3) stored] key
    by (intro filter_cong) (auto simp: external_key_def external_record_ident_def external_ident_def)
  have "map xa_Transition h = [''EXTERNAL_USER_ENROLLED'', ''EXTERNAL_USER_REVOKED'']"
    if h: "linked None (map (\<lambda>j. (status_before j, status_after j)) h) (Some EnrollmentStatusRevoked)"
      "\<forall>j\<in>set h. xa_Transition j \<in> {''EXTERNAL_USER_ENROLLED'', ''EXTERNAL_USER_REVOKED''}" for h
    using h by (cases h; cases "tl h"; cases "tl (tl h)") (auto simp: status_before_def status_after_def split: if_splits)
  moreover have "\<forall>j\<in>set (xg_ledger s). xa_Transition j \<in> {''EXTERNAL_USER_ENROLLED'', ''EXTERNAL_USER_REVOKED''}"
    unfolding assms(3,5) r' run_calls_append [symmetric]
    by (rule transitions_known)
  ultimately have "map xa_Transition (external_users.history (external_ident p) s) = [''EXTERNAL_USER_ENROLLED'', ''EXTERNAL_USER_REVOKED'']"
    using external_users.ledger_invD(3) [OF inv'(3) stored] p(2)
    by (simp add: external_users.path_def external_users.history_def)
  with stored p(2) trail sound show ?thesis
    by (simp add: GetExternalUser_Inr External_IsValidAt_def RevokeEnrollment_def Let_def External_Revoke_def External_GetAuditTrail_def
        sound_external_def)
qed

theorem revoked_external_final_witness:
  "\<exists>r' p. RevokeEnrollment ''ten_1'' ''usr_ext_1'' ''usr_boss'' ''done'' 8
      (run_calls external_exec example_external_calls (NewExternalUserRegistry None)) = (r', Inr p) \<and> \<not> External_IsValidAt p 12"
proof -
  let ?r = "run_calls external_exec example_external_calls (NewExternalUserRegistry None)"
  have "xu_status example_enrolled = EnrollmentStatusActive" by (rule NewExternalUserProfile_sound(2) [OF example_enrolled])
  with example_external_stored obtain r' p where "RevokeEnrollment ''ten_1'' ''usr_ext_1'' ''usr_boss'' ''done'' 8 ?r = (r', Inr p)"
    by (simp add: RevokeEnrollment_def GetExternalUser_Inr External_Revoke_def store_external_def External_AppendRecord_def
        external_record_def example_enrolled_fields Let_def)
  with revoked_external_final [OF example_external_ok, of "[]", OF _ refl this refl] show ?thesis by auto
qed

subsection \<open>Where the code falls short\<close>

text \<open>Self-sponsorship is to be rejected, and is not: any internal identifier is accepted as subject, and as its own sponsor.\<close>

theorem self_sponsorship_accepted:
  "\<exists>p. NewExternalUserProfile (example_external\<lparr>xn_subject := ''usr_boss''\<rparr>) 5 = Inr p \<and> xu_subject p = xu_sponsorID p"
proof -
  show ?thesis
    unfolding NewExternalUserProfile_def example_external_def Let_def
    by (simp add: example_checks sanitize_Eve HasPrefix_def)
qed

text \<open>A scope that is locked to one object permits every object of that scope.\<close>

theorem external_object_lock_ignored:
  "IsScopePermitted (example_enrolled\<lparr>xu_assignedScopes := [example_scope\<lparr>sg_ObjectID := ''o2''\<rparr>]\<rparr>) (rq_Target (example_access ResourceActive)) \<and>
   tg_ObjectID (rq_Target (example_access ResourceActive)) = ''o1''"
  by (simp add: IsScopePermitted_def scopeMatches_def example_scope_def example_access_def)

end
