(* ===== verification/Access_Condition.thy ===== *)
theory Access_Condition
  imports External_Users Revocation
begin

text \<open>
  Conditions on the access of external users, \<open>modules/identity-authorization/access_condition.go\<close>: bounded windows, renewals, changes of
  sponsor, deactivation, each of which raises the generation that the sessions of the user are compared with. Generations are \<open>int64\<close>
  and compared as signed numbers; the count of renewals is an \<open>int\<close> that is only counted up, here a natural number. \<open>Time.Sub\<close> saturates far
  above the 14 days it is compared with.
\<close>

subsection \<open>Definitions\<close>

definition day :: int where
  "day = 24 * 3600 * 1000000000"

definition MaxExternalAccessDuration :: int where
  "MaxExternalAccessDuration = 14 * day"

definition MaxRenewalExtension :: int where
  "MaxRenewalExtension = 7 * day"

datatype AccessConditionStatus = AccessConditionActive | AccessConditionSuspended | AccessConditionExpired | AccessConditionRevoked

record AccessConditionRecord =
  ao_conditionID :: string
  ao_tenantID :: string
  ao_subject :: string
  ao_projectID :: string
  ao_siteID :: string
  ao_sponsorID :: string
  ao_validFrom :: gotime
  ao_validTo :: gotime
  ao_status :: AccessConditionStatus
  ao_generation :: int64
  ao_renewalCount :: nat
  ao_lastRenewedAt :: gotime
  ao_revocationReason :: string
  ao_revokedAt :: gotime
  ao_createdAt :: gotime
  ao_updatedAt :: gotime

definition Condition_IsActive :: "AccessConditionRecord \<Rightarrow> bool" where
  "Condition_IsActive c \<longleftrightarrow> ao_status c = AccessConditionActive"

definition Condition_IsValidAt :: "AccessConditionRecord \<Rightarrow> gotime \<Rightarrow> bool" where
  "Condition_IsValidAt c t \<longleftrightarrow> ao_status c = AccessConditionActive \<and> \<not> t < ao_validFrom c \<and> \<not> After t (ao_validTo c)"

definition Condition_EffectiveStatus :: "AccessConditionRecord \<Rightarrow> gotime \<Rightarrow> AccessConditionStatus" where
  "Condition_EffectiveStatus c t =
     (if ao_status c = AccessConditionRevoked then AccessConditionRevoked
      else if ao_status c = AccessConditionSuspended then AccessConditionSuspended
      else if After t (ao_validTo c) \<or> t < ao_validFrom c then AccessConditionExpired
      else AccessConditionActive)"

definition Condition_ScopeMatches :: "AccessConditionRecord \<Rightarrow> string \<Rightarrow> string \<Rightarrow> bool" where
  "Condition_ScopeMatches c targetProject targetSite =
     (let tProj = TrimSpace targetProject in
      if tProj = [] \<or> tProj \<noteq> ao_projectID c then False
      else if ao_siteID c \<noteq> []
      then (let tSite = TrimSpace targetSite in \<not> (tSite = [] \<or> tSite \<noteq> ao_siteID c))
      else True)"

record condition_input =
  ci_conditionID :: string
  ci_tenantID :: string
  ci_subject :: string
  ci_projectID :: string
  ci_siteID :: string
  ci_sponsorID :: string
  ci_trustedDeviceRequired :: bool
  ci_allowOffline :: bool
  ci_validFrom :: gotime
  ci_validTo :: gotime

definition NewAccessConditionRecord :: "condition_input \<Rightarrow> gotime \<Rightarrow> people_error + AccessConditionRecord" where
  "NewAccessConditionRecord i now =
     (if ci_trustedDeviceRequired i \<or> ci_allowOffline i then Inl ErrTrustedDeviceProhibited
      else if TrimSpace (ci_conditionID i) = [] then Inl ErrBlankConditionID
      else if TrimSpace (ci_tenantID i) = [] then Inl BlankTenant
      else case ValidateSubject (ci_subject i) of Some e \<Rightarrow> Inl (Iam e) | None \<Rightarrow>
        if TrimSpace (ci_projectID i) = [] then Inl ErrBlankProjectID
        else case ValidateInternalSponsor (ci_sponsorID i) of Some e \<Rightarrow> Inl e | None \<Rightarrow>
          if ci_validTo i < ci_validFrom i \<or> ci_validTo i = ci_validFrom i then Inl (Iam ErrInvalidTimeWindow)
          else if MaxExternalAccessDuration < ci_validTo i - ci_validFrom i then Inl ErrDurationExceeded
          else Inr \<lparr>ao_conditionID = TrimSpace (ci_conditionID i), ao_tenantID = TrimSpace (ci_tenantID i),
            ao_subject = TrimSpace (ci_subject i), ao_projectID = TrimSpace (ci_projectID i), ao_siteID = TrimSpace (ci_siteID i),
            ao_sponsorID = TrimSpace (ci_sponsorID i), ao_validFrom = ci_validFrom i, ao_validTo = ci_validTo i,
            ao_status = AccessConditionActive, ao_generation = 1, ao_renewalCount = 0, ao_lastRenewedAt = 0, ao_revocationReason = [],
            ao_revokedAt = 0, ao_createdAt = now, ao_updatedAt = now\<rparr>)"

record AccessConditionAuditRecord =
  cr_RecordID :: string
  cr_TenantID :: string
  cr_ConditionID :: string
  cr_Subject :: string
  cr_Transition :: string
  cr_PriorSponsorID :: string
  cr_NewSponsorID :: string
  cr_PriorGeneration :: int64
  cr_NewGeneration :: int64
  cr_NewValidTo :: gotime
  cr_NewStatus :: AccessConditionStatus
  cr_ActorSubject :: string
  cr_Reason :: string
  cr_RecordedAt :: gotime

text \<open>What the records of all methods have in common: identity, the two generations, the new status, the actor and the reason.\<close>

definition condition_audit ::
  "AccessConditionRecord \<Rightarrow> string \<Rightarrow> int64 \<Rightarrow> AccessConditionRecord \<Rightarrow> string \<Rightarrow> string \<Rightarrow> gotime \<Rightarrow> AccessConditionAuditRecord" where
  "condition_audit current transition prior_generation updated actorSubject reason at =
     \<lparr>cr_RecordID = ''hcnd_'' @ ao_conditionID current @ ''_'' @ FormatInt (UnixNano at), cr_TenantID = ao_tenantID current,
      cr_ConditionID = ao_conditionID current, cr_Subject = ao_subject current, cr_Transition = transition, cr_PriorSponsorID = [],
      cr_NewSponsorID = [], cr_PriorGeneration = prior_generation, cr_NewGeneration = ao_generation updated, cr_NewValidTo = 0,
      cr_NewStatus = ao_status updated, cr_ActorSubject = TrimSpace actorSubject, cr_Reason = TrimSpace reason, cr_RecordedAt = at\<rparr>"

definition Condition_AppendRecord ::
  "AccessConditionAuditRecord \<Rightarrow> AccessConditionAuditRecord list \<Rightarrow> (AccessConditionAuditRecord list, people_error, unit) outcome" where
  "Condition_AppendRecord rec l =
     (if cr_TenantID rec = [] \<or> cr_ConditionID rec = [] then (l, Inl ErrBlankConditionID) else (l @ [rec], Inr ()))"

definition GetConditionHistory ::
  "string \<Rightarrow> string \<Rightarrow> AccessConditionAuditRecord list \<Rightarrow> people_error + AccessConditionAuditRecord list" where
  "GetConditionHistory tenantID conditionID l =
     (if TrimSpace tenantID = [] then Inl BlankTenant
      else if TrimSpace conditionID = [] then Inl ErrBlankConditionID
      else Inr (filter (\<lambda>rec. cr_TenantID rec = TrimSpace tenantID \<and> cr_ConditionID rec = TrimSpace conditionID) l))"

record AccessConditionRegistry =
  an_conditions :: "string \<rightharpoonup> AccessConditionRecord"
  an_ledger :: "AccessConditionAuditRecord list"

definition NewAccessConditionRegistry :: "AccessConditionAuditRecord list option \<Rightarrow> AccessConditionRegistry" where
  "NewAccessConditionRegistry ledger =
     \<lparr>an_conditions = Map.empty, an_ledger = (case ledger of None \<Rightarrow> [] | Some l \<Rightarrow> l)\<rparr>"

definition makeConditionKey :: "string \<Rightarrow> string \<Rightarrow> string" where
  "makeConditionKey tenantID conditionID = TrimSpace tenantID @ '':'' @ TrimSpace conditionID"

definition store_condition ::
  "string \<Rightarrow> AccessConditionRecord \<Rightarrow> AccessConditionAuditRecord \<Rightarrow> 'r \<Rightarrow> AccessConditionRegistry \<Rightarrow>
   (AccessConditionRegistry, people_error, 'r) outcome" where
  "store_condition key c rec result r =
     (case Condition_AppendRecord rec (an_ledger r) of
        (l, Inl e) \<Rightarrow> (r\<lparr>an_conditions := (an_conditions r)(key \<mapsto> c), an_ledger := l\<rparr>, Inl e)
      | (l, Inr _) \<Rightarrow> (r\<lparr>an_conditions := (an_conditions r)(key \<mapsto> c), an_ledger := l\<rparr>, Inr result))"

definition CreateCondition ::
  "AccessConditionRecord \<Rightarrow> string \<Rightarrow> string \<Rightarrow> gotime \<Rightarrow> AccessConditionRegistry \<Rightarrow> (AccessConditionRegistry, people_error, unit) outcome" where
  "CreateCondition cond actorSubject reason at r =
     (let key = makeConditionKey (ao_tenantID cond) (ao_conditionID cond) in
      if ao_tenantID cond = [] \<or> ao_conditionID cond = [] then (r, Inl ErrBlankConditionID)
      else if an_conditions r key \<noteq> None then (r, Inl ErrDuplicateConditionID)
      else store_condition key cond
        ((condition_audit cond ''CONDITION_CREATED'' 0 cond actorSubject reason at)\<lparr>cr_NewValidTo := ao_validTo cond\<rparr>) () r)"

definition GetCondition :: "string \<Rightarrow> string \<Rightarrow> AccessConditionRegistry \<Rightarrow> people_error + AccessConditionRecord" where
  "GetCondition tenantID conditionID r =
     (case an_conditions r (makeConditionKey tenantID conditionID) of None \<Rightarrow> Inl ErrAccessConditionNotFound | Some c \<Rightarrow> Inr c)"

text \<open>The frame of the three methods that change a condition.\<close>

definition with_condition ::
  "string \<Rightarrow> string \<Rightarrow> (AccessConditionRecord \<Rightarrow> people_error + AccessConditionRecord \<times> AccessConditionAuditRecord) \<Rightarrow>
   AccessConditionRegistry \<Rightarrow> (AccessConditionRegistry, people_error, AccessConditionRecord) outcome" where
  "with_condition tenantID conditionID body r =
     (let key = makeConditionKey tenantID conditionID in
      case an_conditions r key of
        None \<Rightarrow> (r, Inl ErrAccessConditionNotFound)
      | Some current \<Rightarrow> (case body current of
          Inl e \<Rightarrow> (r, Inl e)
        | Inr (updated, audit) \<Rightarrow> store_condition key updated audit updated r))"

definition ChangeSponsor_body ::
  "string \<Rightarrow> string \<Rightarrow> string \<Rightarrow> gotime \<Rightarrow> AccessConditionRecord \<Rightarrow> people_error + AccessConditionRecord \<times> AccessConditionAuditRecord" where
  "ChangeSponsor_body newSponsorID actorSubject reason at current =
     (let sponsor = TrimSpace newSponsorID;
          updated = current\<lparr>ao_sponsorID := sponsor, ao_generation := ao_generation current + 1, ao_updatedAt := at\<rparr> in
      if \<not> Condition_IsActive current then Inl ErrAccessConditionInactive
      else if \<not> Condition_IsValidAt current at then Inl ErrAccessConditionExpired
      else case ValidateInternalSponsor sponsor of Some e \<Rightarrow> Inl e | None \<Rightarrow>
        if sponsor = ao_sponsorID current then Inl ErrSponsorUnchanged
        else Inr (updated, (condition_audit current ''SPONSOR_CHANGED'' (ao_generation current) updated actorSubject reason at)
          \<lparr>cr_PriorSponsorID := ao_sponsorID current, cr_NewSponsorID := sponsor\<rparr>))"

definition RenewAccess_body ::
  "int \<Rightarrow> string \<Rightarrow> string \<Rightarrow> gotime \<Rightarrow> AccessConditionRecord \<Rightarrow> people_error + AccessConditionRecord \<times> AccessConditionAuditRecord" where
  "RenewAccess_body extension actorSubject reason at current =
     (let updated = current\<lparr>ao_validTo := ao_validTo current + extension, ao_status := AccessConditionActive,
            ao_generation := ao_generation current + 1, ao_renewalCount := ao_renewalCount current + 1, ao_lastRenewedAt := at,
            ao_updatedAt := at\<rparr> in
      if ao_status current = AccessConditionRevoked then Inl ErrAccessConditionRevoked
      else if ao_status current = AccessConditionSuspended then Inl ErrAccessConditionSuspended
      else if extension \<le> 0 \<or> MaxRenewalExtension < extension then Inl ErrRenewalDurationExceeded
      else Inr (updated, (condition_audit current ''ACCESS_RENEWED'' (ao_generation current) updated actorSubject reason at)
        \<lparr>cr_NewValidTo := ao_validTo current + extension\<rparr>))"

definition DeactivateAccess_body ::
  "string \<Rightarrow> string \<Rightarrow> gotime \<Rightarrow> AccessConditionRecord \<Rightarrow> people_error + AccessConditionRecord \<times> AccessConditionAuditRecord" where
  "DeactivateAccess_body actorSubject reason at current =
     (let updated = current\<lparr>ao_status := AccessConditionRevoked, ao_generation := ao_generation current + 1, ao_revokedAt := at,
            ao_revocationReason := TrimSpace reason, ao_updatedAt := at\<rparr> in
      if ao_status current = AccessConditionRevoked then Inl ErrAccessConditionRevoked
      else if TrimSpace reason = [] then Inl (Iam (ErrorsNew ''deactivation reason must not be blank''))
      else Inr (updated, condition_audit current ''ACCESS_DEACTIVATED'' (ao_generation current) updated actorSubject reason at))"

definition ChangeSponsor ::
  "string \<Rightarrow> string \<Rightarrow> string \<Rightarrow> string \<Rightarrow> string \<Rightarrow> gotime \<Rightarrow> AccessConditionRegistry \<Rightarrow>
   (AccessConditionRegistry, people_error, AccessConditionRecord) outcome" where
  "ChangeSponsor tenantID conditionID newSponsorID actorSubject reason at =
     with_condition tenantID conditionID (ChangeSponsor_body newSponsorID actorSubject reason at)"

definition RenewAccess ::
  "string \<Rightarrow> string \<Rightarrow> int \<Rightarrow> string \<Rightarrow> string \<Rightarrow> gotime \<Rightarrow> AccessConditionRegistry \<Rightarrow>
   (AccessConditionRegistry, people_error, AccessConditionRecord) outcome" where
  "RenewAccess tenantID conditionID extension actorSubject reason at =
     with_condition tenantID conditionID (RenewAccess_body extension actorSubject reason at)"

definition DeactivateAccess ::
  "string \<Rightarrow> string \<Rightarrow> string \<Rightarrow> string \<Rightarrow> gotime \<Rightarrow> AccessConditionRegistry \<Rightarrow>
   (AccessConditionRegistry, people_error, AccessConditionRecord) outcome" where
  "DeactivateAccess tenantID conditionID actorSubject reason at =
     with_condition tenantID conditionID (DeactivateAccess_body actorSubject reason at)"

definition EvaluateConditionAccess ::
  "string \<Rightarrow> string \<Rightarrow> string \<Rightarrow> string \<Rightarrow> int64 \<Rightarrow> gotime \<Rightarrow> AccessConditionRegistry \<Rightarrow> bool \<times> DiagnosticDenialCategory" where
  "EvaluateConditionAccess tenantID conditionID targetProject targetSite sessionTokenGen at r =
     (case an_conditions r (makeConditionKey tenantID conditionID) of
        None \<Rightarrow> (False, CategoryDefaultDeny)
      | Some cond \<Rightarrow>
          if ao_status cond = AccessConditionRevoked \<or> ao_status cond = AccessConditionSuspended then (False, CategoryIdentityInactive)
          else if \<not> Condition_IsValidAt cond at then (False, CategoryIdentityInactive)
          else if \<not> Condition_ScopeMatches cond targetProject targetSite then (False, CategoryDefaultDeny)
          else if sessionTokenGen <s ao_generation cond then (False, CategorySessionStale)
          else (True, CategoryNone))"

subsection \<open>Calls\<close>

datatype condition_call =
  CallCreateCondition AccessConditionRecord string string gotime
| CallChangeSponsor string string string string string gotime
| CallRenewAccess string string int string string gotime
| CallDeactivateAccess string string string string gotime

fun condition_exec :: "condition_call \<Rightarrow> AccessConditionRegistry \<Rightarrow> (AccessConditionRegistry, people_error, unit) outcome" where
  "condition_exec (CallCreateCondition c a w at) r = CreateCondition c a w at r"
| "condition_exec (CallChangeSponsor t i n a w at) r = discard (ChangeSponsor t i n a w at r)"
| "condition_exec (CallRenewAccess t i x a w at) r = discard (RenewAccess t i x a w at r)"
| "condition_exec (CallDeactivateAccess t i a w at) r = discard (DeactivateAccess t i a w at r)"

text \<open>A condition as it is kept: bounded by its renewals, with an internal sponsor. A new one, whose fields are private, is from the constructor.\<close>

definition sound_condition :: "AccessConditionRecord \<Rightarrow> bool" where
  "sound_condition c \<longleftrightarrow> TrimSpace (ao_tenantID c) = ao_tenantID c \<and> ao_tenantID c \<noteq> [] \<and>
     TrimSpace (ao_conditionID c) = ao_conditionID c \<and> ao_conditionID c \<noteq> [] \<and> ao_projectID c \<noteq> [] \<and>
     ValidateInternalSponsor (ao_sponsorID c) = None \<and> ao_validFrom c < ao_validTo c \<and>
     ao_validTo c - ao_validFrom c \<le> MaxExternalAccessDuration + int (ao_renewalCount c) * MaxRenewalExtension \<and>
     ao_status c \<in> {AccessConditionActive, AccessConditionRevoked}"

definition new_condition :: "AccessConditionRecord \<Rightarrow> bool" where
  "new_condition c \<longleftrightarrow> sound_condition c \<and> ao_generation c = 1 \<and> ao_renewalCount c = 0 \<and> ao_status c = AccessConditionActive"

fun condition_call_ok :: "condition_call \<Rightarrow> bool" where
  "condition_call_ok (CallCreateCondition c a w at) \<longleftrightarrow> new_condition c"
| "condition_call_ok _ \<longleftrightarrow> True"

lemma NewAccessConditionRecord_new: "NewAccessConditionRecord i now = Inr c \<Longrightarrow> new_condition c"
  by (auto simp: NewAccessConditionRecord_def new_condition_def sound_condition_def split: if_splits option.splits)

subsection \<open>Invariant and history\<close>

definition condition_inv :: "AccessConditionRegistry \<Rightarrow> bool" where
  "condition_inv r \<longleftrightarrow> (\<forall>k c. an_conditions r k = Some c \<longrightarrow> k = makeConditionKey (ao_tenantID c) (ao_conditionID c) \<and> sound_condition c)"

lemma condition_invD:
  "condition_inv r \<Longrightarrow> an_conditions r k = Some c \<Longrightarrow> k = makeConditionKey (ao_tenantID c) (ao_conditionID c) \<and> sound_condition c"
  by (simp add: condition_inv_def)

definition condition_ident :: "AccessConditionRecord \<Rightarrow> string \<times> string \<times> string" where
  "condition_ident c = (ao_tenantID c, ao_conditionID c, ao_subject c)"

definition condition_record_ident :: "AccessConditionAuditRecord \<Rightarrow> string \<times> string \<times> string" where
  "condition_record_ident rec = (cr_TenantID rec, cr_ConditionID rec, cr_Subject rec)"

definition condition_key :: "string \<times> string \<times> string \<Rightarrow> string" where
  "condition_key i = makeConditionKey (fst i) (fst (snd i))"

text \<open>What a body does: the window, the scope and the identity change only as a renewal does, the generation goes up by one.\<close>

definition condition_change :: "AccessConditionRecord \<Rightarrow> AccessConditionRecord \<times> AccessConditionAuditRecord \<Rightarrow> bool" where
  "condition_change c u \<longleftrightarrow> (let c' = fst u; rec = snd u in
     condition_ident c' = condition_ident c \<and> ao_projectID c' = ao_projectID c \<and> ao_siteID c' = ao_siteID c \<and>
     ao_validFrom c' = ao_validFrom c \<and> ao_generation c' = ao_generation c + 1 \<and> ao_status c = AccessConditionActive \<and>
     (sound_condition c \<longrightarrow> sound_condition c') \<and>
     condition_record_ident rec = condition_ident c \<and> cr_PriorGeneration rec = ao_generation c \<and> cr_NewGeneration rec = ao_generation c')"

lemma bodies_change:
  "ChangeSponsor_body n a w at c = Inr u \<Longrightarrow> ao_status c \<in> {AccessConditionActive, AccessConditionRevoked} \<Longrightarrow> condition_change c u"
  "RenewAccess_body x a w at c = Inr u \<Longrightarrow> ao_status c \<in> {AccessConditionActive, AccessConditionRevoked} \<Longrightarrow> condition_change c u"
  "DeactivateAccess_body a w at c = Inr u \<Longrightarrow> ao_status c \<in> {AccessConditionActive, AccessConditionRevoked} \<Longrightarrow> condition_change c u"
  by (auto simp: ChangeSponsor_body_def RenewAccess_body_def DeactivateAccess_body_def condition_change_def condition_ident_def
      condition_record_ident_def condition_audit_def Let_def sound_condition_def Condition_IsActive_def ring_distribs
      split: if_splits option.splits)

lemma fst_store_condition:
  "fst (store_condition key c rec result r) =
     r\<lparr>an_conditions := (an_conditions r)(key \<mapsto> c), an_ledger := fst (Condition_AppendRecord rec (an_ledger r))\<rparr>"
  by (simp add: store_condition_def Condition_AppendRecord_def)

text \<open>The two ways a call moves the registry.\<close>

lemma condition_step:
  assumes inv: "condition_inv r" and ok: "condition_call_ok call"
  obtains (same) "fst (condition_exec call r) = r"
  | (created) c rec where "new_condition c" "an_conditions r (makeConditionKey (ao_tenantID c) (ao_conditionID c)) = None"
      "fst (condition_exec call r) = r\<lparr>an_conditions := (an_conditions r)(makeConditionKey (ao_tenantID c) (ao_conditionID c) \<mapsto> c),
         an_ledger := an_ledger r @ [rec]\<rparr>"
      "condition_record_ident rec = condition_ident c" "cr_PriorGeneration rec = 0" "cr_NewGeneration rec = ao_generation c"
  | (changed) k c u where "an_conditions r k = Some c" "condition_change c u"
      "fst (condition_exec call r) = r\<lparr>an_conditions := (an_conditions r)(k \<mapsto> fst u), an_ledger := an_ledger r @ [snd u]\<rparr>"
proof -
  have change: thesis if body: "\<And>c u. body c = Inr u \<Longrightarrow> ao_status c \<in> {AccessConditionActive, AccessConditionRevoked} \<Longrightarrow> condition_change c u"
    and e: "fst (condition_exec call r) = fst (with_condition t i body r)" for t i body
  proof (cases "\<exists>c u. an_conditions r (makeConditionKey t i) = Some c \<and> body c = Inr u")
    case True
    then obtain c u where c: "an_conditions r (makeConditionKey t i) = Some c" "body c = Inr u" by blast
    from condition_invD [OF inv c(1)] have s: "sound_condition c" by simp
    with body [OF c(2)] have ch: "condition_change c u" by (simp add: sound_condition_def)
    with s have "cr_TenantID (snd u) \<noteq> []" "cr_ConditionID (snd u) \<noteq> []"
      by (simp_all add: condition_change_def Let_def condition_record_ident_def condition_ident_def sound_condition_def)
    moreover obtain c' rec where "u = (c', rec)" by (cases u)
    ultimately show thesis
      by (intro changed [OF c(1) ch]) (simp add: e with_condition_def Let_def c fst_store_condition Condition_AppendRecord_def)
  next
    case False
    then have "fst (condition_exec call r) = r" unfolding e with_condition_def Let_def by (auto split: option.split sum.split)
    then show thesis by (rule same)
  qed
  show thesis
  proof (cases call)
    case (CallCreateCondition c a w at)
    with ok have c: "new_condition c" by simp
    then have ne: "ao_tenantID c \<noteq> []" "ao_conditionID c \<noteq> []" by (simp_all add: new_condition_def sound_condition_def)
    show thesis
    proof (cases "an_conditions r (makeConditionKey (ao_tenantID c) (ao_conditionID c))")
      case None
      then show thesis
        by (intro created [OF c None, of "(condition_audit c ''CONDITION_CREATED'' 0 c a w at)\<lparr>cr_NewValidTo := ao_validTo c\<rparr>"])
          (simp_all add: CallCreateCondition CreateCondition_def Let_def ne fst_store_condition Condition_AppendRecord_def condition_audit_def
            condition_record_ident_def condition_ident_def)
    next
      case Some
      with ne CallCreateCondition show thesis by (intro same) (simp add: CreateCondition_def Let_def)
    qed
  next
    case (CallChangeSponsor t i n a w at)
    then show thesis by (intro change [of "ChangeSponsor_body n a w at" t i] bodies_change) (simp_all add: ChangeSponsor_def)
  next
    case (CallRenewAccess t i x a w at)
    then show thesis by (intro change [of "RenewAccess_body x a w at" t i] bodies_change) (simp_all add: RenewAccess_def)
  next
    case (CallDeactivateAccess t i a w at)
    then show thesis by (intro change [of "DeactivateAccess_body a w at" t i] bodies_change) (simp_all add: DeactivateAccess_def)
  qed
qed

lemma condition_changeD:
  assumes "condition_change c u"
  shows "condition_ident (fst u) = condition_ident c" and "ao_generation (fst u) = ao_generation c + 1" and "ao_status c = AccessConditionActive"
    and "sound_condition c \<Longrightarrow> sound_condition (fst u)" and "condition_record_ident (snd u) = condition_ident c"
    and "cr_PriorGeneration (snd u) = ao_generation c" and "cr_NewGeneration (snd u) = ao_generation (fst u)"
  using assms by (simp_all add: condition_change_def Let_def)

lemma condition_exec_inv:
  assumes inv: "condition_inv r" and ok: "condition_call_ok c"
  shows "condition_inv (fst (condition_exec c r))"
proof (cases rule: condition_step [OF assms])
  case 1
  with inv show ?thesis by simp
next
  case (2 c rec)
  with inv show ?thesis by (auto simp: condition_inv_def new_condition_def)
next
  case (3 k c u)
  note ch = condition_changeD [OF 3(2)]
  from condition_invD [OF inv 3(1)] ch(1,4) have "k = makeConditionKey (ao_tenantID (fst u)) (ao_conditionID (fst u)) \<and> sound_condition (fst u)"
    by (simp add: condition_ident_def)
  with inv 3(3) show ?thesis by (auto simp: condition_inv_def)
qed

interpretation conditions: ledgered condition_exec condition_inv condition_call_ok an_conditions an_ledger condition_key condition_ident
  condition_record_ident ao_generation cr_PriorGeneration cr_NewGeneration 0
proof
  show "condition_inv r \<Longrightarrow> condition_call_ok c \<Longrightarrow> condition_inv (fst (condition_exec c r))" for c and r :: AccessConditionRegistry
    by (rule condition_exec_inv)
  fix c and r :: AccessConditionRegistry
  assume inv: "condition_inv r" and ok: "condition_call_ok c"
  show "an_conditions (fst (condition_exec c r)) = an_conditions r \<and> an_ledger (fst (condition_exec c r)) = an_ledger r \<or>
    (\<exists>v j. an_conditions r (condition_key (condition_ident v)) = None \<and>
      an_conditions (fst (condition_exec c r)) = (an_conditions r)(condition_key (condition_ident v) \<mapsto> v) \<and>
      an_ledger (fst (condition_exec c r)) = an_ledger r @ [j] \<and> condition_record_ident j = condition_ident v \<and>
      cr_PriorGeneration j = 0 \<and> cr_NewGeneration j = ao_generation v) \<or>
    (\<exists>k v v' j. an_conditions r k = Some v \<and> an_conditions (fst (condition_exec c r)) = (an_conditions r)(k \<mapsto> v') \<and>
      condition_ident v' = condition_ident v \<and> an_ledger (fst (condition_exec c r)) = an_ledger r @ [j] \<and>
      condition_record_ident j = condition_ident v \<and> cr_PriorGeneration j = ao_generation v \<and> cr_NewGeneration j = ao_generation v')"
  proof (cases rule: condition_step [OF inv ok])
    case 1
    then show ?thesis by simp
  next
    case (2 c rec)
    then show ?thesis
      by (intro disjI2 disjI1 exI [of _ c] exI [of _ rec]) (simp add: condition_key_def condition_ident_def)
  next
    case (3 k c u)
    with condition_changeD [OF 3(2)] show ?thesis
      by (intro disjI2 exI [of _ k] exI [of _ c] exI [of _ "fst u"] exI [of _ "snd u"]) simp
  qed
qed

lemma reachable_conditions:
  assumes "list_all condition_call_ok cs" and "r = run_calls condition_exec cs (NewAccessConditionRegistry None)"
  shows "condition_inv r" and "conditions.ledger_inv r"
  unfolding assms(2)
  by (rule conditions.reachable_ledger [OF _ _ _ assms(1)]; simp add: condition_inv_def NewAccessConditionRegistry_def)+

interpretation revoked_conditions: absorbing condition_exec condition_inv condition_call_ok "\<lambda>k r. an_conditions r k"
  "\<lambda>c. ao_status c = AccessConditionRevoked"
proof
  fix call k c and r :: AccessConditionRegistry
  assume inv: "condition_inv r" and ok: "condition_call_ok call" and c: "an_conditions r k = Some c" "ao_status c = AccessConditionRevoked"
  show "an_conditions (fst (condition_exec call r)) k = Some c"
  proof (cases rule: condition_step [OF inv ok])
    case (3 k' c' u)
    with c condition_changeD(3) [OF 3(2)] show ?thesis by (cases "k' = k") auto
  qed (use c in auto)
qed

subsection \<open>Generations count records\<close>

text \<open>Every record raises the generation by one, so the generation of a condition is the number of its records.\<close>

definition raising :: "AccessConditionRegistry \<Rightarrow> bool" where
  "raising r \<longleftrightarrow> (\<forall>rec\<in>set (an_ledger r). cr_NewGeneration rec = cr_PriorGeneration rec + 1)"

lemma raising_run:
  "condition_inv r \<Longrightarrow> raising r \<Longrightarrow> list_all condition_call_ok cs \<Longrightarrow>
     raising (run_calls condition_exec cs r) \<and> length (an_ledger (run_calls condition_exec cs r)) \<le> length (an_ledger r) + length cs"
proof (induction cs arbitrary: r)
  case (Cons c cs)
  let ?r = "fst (condition_exec c r)"
  from Cons.prems have ok: "condition_call_ok c" by simp
  have "raising ?r \<and> length (an_ledger ?r) \<le> length (an_ledger r) + 1"
  proof (cases rule: condition_step [OF Cons.prems(1) ok])
    case 1
    with Cons.prems show ?thesis by simp
  next
    case (2 c rec)
    with Cons.prems show ?thesis by (auto simp: raising_def new_condition_def)
  next
    case (3 k c u)
    with Cons.prems condition_changeD [OF 3(2)] show ?thesis by (auto simp: raising_def)
  qed
  with Cons.IH [of ?r] Cons.prems condition_exec_inv [OF Cons.prems(1) ok] show ?case by auto
qed simp

lemma linked_raising:
  "linked (g :: int64) ps h \<Longrightarrow> \<forall>p\<in>set ps. snd p = fst p + 1 \<Longrightarrow> h = g + of_nat (length ps)"
  by (induction g ps h rule: linked.induct) (auto simp: algebra_simps)

lemma generation_counts:
  assumes "list_all condition_call_ok cs" and "r = run_calls condition_exec cs (NewAccessConditionRegistry None)"
    and "an_conditions r k = Some c"
  shows "ao_generation c = of_nat (length (conditions.history (condition_ident c) r))"
    and "length (conditions.history (condition_ident c) r) \<le> length cs"
proof -
  note inv = reachable_conditions [OF assms(1,2)]
  have start: "condition_inv (NewAccessConditionRegistry None)" "raising (NewAccessConditionRegistry None)"
    by (simp_all add: condition_inv_def raising_def NewAccessConditionRegistry_def)
  have up: "raising r" "length (an_ledger r) \<le> length cs"
    using raising_run [OF start assms(1)] assms(2) by (simp_all add: NewAccessConditionRegistry_def)
  have "ao_generation c = 0 + of_nat (length (conditions.path (condition_ident c) r))"
    using conditions.ledger_invD(3) [OF inv(2) assms(3)] up(1)
    by (intro linked_raising) (auto simp: conditions.path_def conditions.history_def raising_def)
  then show "ao_generation c = of_nat (length (conditions.history (condition_ident c) r))" by (simp add: conditions.path_def)
  have "length (conditions.history (condition_ident c) r) \<le> length (an_ledger r)" by (simp add: conditions.history_def)
  with up(2) show "length (conditions.history (condition_ident c) r) \<le> length cs" by simp
qed

subsection \<open>Properties\<close>

lemma GetCondition_Inr: "GetCondition t i r = Inr c \<longleftrightarrow> an_conditions r (makeConditionKey t i) = Some c"
  by (simp add: GetCondition_def split: option.split)

text \<open>
  (C23) Access is bounded and counted: in every reachable registry the window of a condition is not empty and no longer than 14 days and 7 days for
  each of its renewals, its sponsor is internal, and its history is a path of generations from 0 to its own, one for each record.
\<close>

theorem access_window_bounded:
  assumes "list_all condition_call_ok cs" and "r = run_calls condition_exec cs (NewAccessConditionRegistry None)"
    and "GetCondition t i r = Inr c"
  shows "ao_validFrom c < ao_validTo c \<and>
    ao_validTo c - ao_validFrom c \<le> MaxExternalAccessDuration + int (ao_renewalCount c) * MaxRenewalExtension \<and>
    ValidateInternalSponsor (ao_sponsorID c) = None \<and>
    (\<exists>rs. GetConditionHistory (ao_tenantID c) (ao_conditionID c) (an_ledger r) = Inr rs \<and> ao_generation c = of_nat (length rs) \<and>
       linked 0 (map (\<lambda>rec. (cr_PriorGeneration rec, cr_NewGeneration rec)) rs) (ao_generation c))"
proof -
  note inv = reachable_conditions [OF assms(1,2)] and c = assms(3) [unfolded GetCondition_Inr]
  from condition_invD [OF inv(1) c] have key: "makeConditionKey t i = makeConditionKey (ao_tenantID c) (ao_conditionID c)"
    and sound: "sound_condition c" by simp_all
  have "filter (\<lambda>rec. cr_TenantID rec = ao_tenantID c \<and> cr_ConditionID rec = ao_conditionID c) (an_ledger r) =
      conditions.history (condition_ident c) r"
    unfolding conditions.history_def
    using conditions.same_key_same_entry [OF inv(2) c] key
    by (intro filter_cong) (auto simp: condition_key_def condition_record_ident_def condition_ident_def)
  with sound generation_counts(1) [OF assms(1,2) c] conditions.ledger_invD(3) [OF inv(2) c] show ?thesis
    by (simp add: sound_condition_def GetConditionHistory_def conditions.path_def)
qed

definition example_condition_input :: condition_input where
  "example_condition_input = \<lparr>ci_conditionID = ''cnd_1'', ci_tenantID = ''ten_1'', ci_subject = ''usr_ext_1'', ci_projectID = ''prj_1'',
     ci_siteID = [], ci_sponsorID = ''usr_boss'', ci_trustedDeviceRequired = False, ci_allowOffline = False, ci_validFrom = 10,
     ci_validTo = 20\<rparr>"

definition example_condition :: AccessConditionRecord where
  "example_condition = \<lparr>ao_conditionID = ''cnd_1'', ao_tenantID = ''ten_1'', ao_subject = ''usr_ext_1'', ao_projectID = ''prj_1'', ao_siteID = [],
     ao_sponsorID = ''usr_boss'', ao_validFrom = 10, ao_validTo = 20, ao_status = AccessConditionActive, ao_generation = 1, ao_renewalCount = 0,
     ao_lastRenewedAt = 0, ao_revocationReason = [], ao_revokedAt = 0, ao_createdAt = 5, ao_updatedAt = 5\<rparr>"

lemma example_condition: "NewAccessConditionRecord example_condition_input 5 = Inr example_condition"
  by (simp add: NewAccessConditionRecord_def example_condition_input_def example_condition_def example_checks ValidateSubject_def HasPrefix_def
      Let_def MaxExternalAccessDuration_def day_def)

abbreviation example_condition_calls :: "condition_call list" where
  "example_condition_calls \<equiv> [CallCreateCondition example_condition ''usr_boss'' ''audit'' 6]"

lemma example_condition_ok: "list_all condition_call_ok example_condition_calls"
  using NewAccessConditionRecord_new [OF example_condition] by simp

lemma example_condition_stored:
  "GetCondition ''ten_1'' ''cnd_1'' (run_calls condition_exec example_condition_calls (NewAccessConditionRegistry None)) = Inr example_condition"
  by (simp add: GetCondition_Inr CreateCondition_def Let_def fst_store_condition makeConditionKey_def NewAccessConditionRegistry_def
      example_condition_def)

theorem access_window_bounded_witness:
  "ao_validTo example_condition - ao_validFrom example_condition \<le> MaxExternalAccessDuration"
  using access_window_bounded [OF example_condition_ok refl example_condition_stored] by (simp add: example_condition_def)

text \<open>
  (C18) A change makes sessions stale: once the sponsor was changed, the access renewed or deactivated, no session of an older generation is ever
  allowed under that condition, for any project, site and time, whatever calls follow, as long as fewer than 2^63 calls have been made.
\<close>

theorem older_sessions_stale:
  assumes "list_all condition_call_ok cs" and "list_all condition_call_ok ds"
    and "r = run_calls condition_exec cs (NewAccessConditionRegistry None)"
    and "ChangeSponsor t i n a w at r = (r', Inr c) \<or> RenewAccess t i x a w at r = (r', Inr c) \<or> DeactivateAccess t i a w at r = (r', Inr c)"
    and "sint g < sint (ao_generation c)" and "length cs + length ds + 1 < 2 ^ 63"
  shows "\<not> fst (EvaluateConditionAccess t i project site g now (run_calls condition_exec ds r'))"
proof -
  obtain call where call: "condition_call_ok call" "r' = fst (condition_exec call r)"
    "an_conditions r' (makeConditionKey t i) = Some c"
  proof -
    have stored: "an_conditions r' (makeConditionKey t i) = Some c" if "with_condition t i body r = (r', Inr c)" for body
      using that by (auto simp: with_condition_def store_condition_def Condition_AppendRecord_def Let_def
          split: option.splits sum.splits prod.splits if_splits)
    from assms(4) show thesis
    proof (elim disjE)
      assume c: "ChangeSponsor t i n a w at r = (r', Inr c)"
      with that [of "CallChangeSponsor t i n a w at"] stored show thesis by (simp add: ChangeSponsor_def)
    next
      assume c: "RenewAccess t i x a w at r = (r', Inr c)"
      with that [of "CallRenewAccess t i x a w at"] stored show thesis by (simp add: RenewAccess_def)
    next
      assume c: "DeactivateAccess t i a w at r = (r', Inr c)"
      with that [of "CallDeactivateAccess t i a w at"] stored show thesis by (simp add: DeactivateAccess_def)
    qed
  qed
  let ?cs = "cs @ [call]" and ?s = "run_calls condition_exec ds r'"
  have ok: "list_all condition_call_ok ?cs" "list_all condition_call_ok (?cs @ ds)" using assms(1,2) call(1) by simp_all
  have r': "r' = run_calls condition_exec ?cs (NewAccessConditionRegistry None)" and s: "?s = run_calls condition_exec (?cs @ ds) (NewAccessConditionRegistry None)"
    using call(2) assms(3) by simp_all
  note inv = reachable_conditions [OF ok(1) r']
  obtain c' where c': "an_conditions ?s (makeConditionKey t i) = Some c'" "condition_ident c' = condition_ident c"
    using conditions.run_entry [OF inv(1) assms(2) call(3)] by blast
  let ?h = "conditions.history (condition_ident c) r'" and ?h' = "conditions.history (condition_ident c) ?s"
  have "length ?h \<le> length ?h'" using conditions.run_history [OF inv assms(2)] by (rule prefix_length_le)
  moreover have gen: "ao_generation c = of_nat (length ?h)" "length ?h \<le> length ?cs"
    by (rule generation_counts [OF ok(1) r' call(3)])+
  moreover have gen': "ao_generation c' = of_nat (length ?h')" "length ?h' \<le> length (?cs @ ds)"
    using generation_counts [OF ok(2) s c'(1)] c'(2) by simp_all
  ultimately have "sint (ao_generation c) \<le> sint (ao_generation c')"
    using assms(6) sint_of_nat [of "length ?h"] sint_of_nat [of "length ?h'"] by simp
  with assms(5) have "g <s ao_generation c'" by (simp add: word_sless_alt)
  with c'(1) show ?thesis by (simp add: EvaluateConditionAccess_def)
qed

theorem older_sessions_stale_witness:
  "\<exists>r' c. RenewAccess ''ten_1'' ''cnd_1'' 5 ''usr_boss'' ''more'' 12
      (run_calls condition_exec example_condition_calls (NewAccessConditionRegistry None)) = (r', Inr c) \<and>
     \<not> fst (EvaluateConditionAccess ''ten_1'' ''cnd_1'' ''prj_1'' [] 1 13 r')"
proof -
  let ?r = "run_calls condition_exec example_condition_calls (NewAccessConditionRegistry None)"
  obtain r' c where c: "RenewAccess ''ten_1'' ''cnd_1'' 5 ''usr_boss'' ''more'' 12 ?r = (r', Inr c)" "ao_generation c = 2"
    using example_condition_stored
    by (simp add: RenewAccess_def with_condition_def GetCondition_Inr RenewAccess_body_def store_condition_def Condition_AppendRecord_def
        condition_audit_def example_condition_def MaxRenewalExtension_def day_def Let_def)
  from older_sessions_stale [OF example_condition_ok, of "[]" ?r "''ten_1''" "''cnd_1''" "[]" "''usr_boss''" "''more''" 12 r' c 5 1] c
  show ?thesis by auto
qed

text \<open>
  Deactivation is final: a deactivated condition stays as it is whatever calls follow, permits nothing, and can be neither renewed nor
  given another sponsor nor deactivated again.
\<close>

theorem deactivated_condition_final:
  assumes "list_all condition_call_ok cs" and "list_all condition_call_ok ds"
    and "r = run_calls condition_exec cs (NewAccessConditionRegistry None)" and "DeactivateAccess t i a w at r = (r', Inr c)"
    and "s = run_calls condition_exec ds r'"
  shows "GetCondition t i s = Inr c \<and> EvaluateConditionAccess t i project site g now s = (False, CategoryIdentityInactive) \<and>
    RenewAccess t i x a' w' at' s = (s, Inl ErrAccessConditionRevoked) \<and> ChangeSponsor t i n a' w' at' s = (s, Inl ErrAccessConditionInactive) \<and>
    DeactivateAccess t i a' w' at' s = (s, Inl ErrAccessConditionRevoked)"
proof -
  have "r' = fst (condition_exec (CallDeactivateAccess t i a w at) r)" using assms(4) by simp
  then have inv: "condition_inv r'"
    using condition_exec_inv [OF reachable_conditions(1) [OF assms(1,3)], of "CallDeactivateAccess t i a w at"] by simp
  have c: "an_conditions r' (makeConditionKey t i) = Some c" "ao_status c = AccessConditionRevoked"
    using assms(4) by (auto simp: DeactivateAccess_def with_condition_def DeactivateAccess_body_def store_condition_def
        Condition_AppendRecord_def Let_def split: option.splits if_splits)
  from revoked_conditions.run_final [OF inv assms(2) c] have "an_conditions s (makeConditionKey t i) = Some c" using assms(5) by simp
  with c(2) show ?thesis
    by (simp add: GetCondition_Inr EvaluateConditionAccess_def RenewAccess_def ChangeSponsor_def DeactivateAccess_def with_condition_def
        RenewAccess_body_def ChangeSponsor_body_def DeactivateAccess_body_def Condition_IsActive_def Let_def)
qed

theorem deactivated_condition_final_witness:
  "\<exists>s. EvaluateConditionAccess ''ten_1'' ''cnd_1'' ''prj_1'' [] 9 13 s = (False, CategoryIdentityInactive)"
proof -
  let ?r = "run_calls condition_exec example_condition_calls (NewAccessConditionRegistry None)"
  obtain r' c where "DeactivateAccess ''ten_1'' ''cnd_1'' ''usr_boss'' ''done'' 12 ?r = (r', Inr c)"
    using example_condition_stored
    by (simp add: DeactivateAccess_def with_condition_def GetCondition_Inr DeactivateAccess_body_def store_condition_def
        Condition_AppendRecord_def condition_audit_def example_condition_def Let_def)
  from deactivated_condition_final [OF example_condition_ok, of "[]", OF _ refl this refl, of "''prj_1''" "[]" 9 13 1 "[]" "[]" 0 "[]"]
  show ?thesis by auto
qed

subsection \<open>Where the code falls short\<close>

text \<open>
  A renewal does not look at the clock, nor at who asks: a condition that has expired becomes valid again, on the word of anybody.
\<close>

theorem renewal_revives_expired:
  assumes "GetCondition t i r = Inr c" and "sound_condition c" and "ao_status c = AccessConditionActive"
    and "ao_validTo c < at" and "at \<le> ao_validTo c + x" and "x \<le> MaxRenewalExtension"
  shows "\<not> Condition_IsValidAt c at \<and> (\<exists>r' c'. RenewAccess t i x ''mallory'' [] at r = (r', Inr c') \<and> Condition_IsValidAt c' at)"
proof -
  have "ao_validFrom c < ao_validTo c" "ao_tenantID c \<noteq> []" "ao_conditionID c \<noteq> []" using assms(2) by (simp_all add: sound_condition_def)
  then show ?thesis
    using assms by (simp add: Condition_IsValidAt_def After_def RenewAccess_def with_condition_def GetCondition_Inr RenewAccess_body_def
        store_condition_def Condition_AppendRecord_def condition_audit_def Let_def)
qed

theorem renewal_revives_expired_witness:
  "\<exists>r' c'. RenewAccess ''ten_1'' ''cnd_1'' 15 ''mallory'' [] 30
      (run_calls condition_exec example_condition_calls (NewAccessConditionRegistry None)) = (r', Inr c') \<and> Condition_IsValidAt c' 30"
proof -
  have "sound_condition example_condition" using NewAccessConditionRecord_new [OF example_condition] by (simp add: new_condition_def)
  with renewal_revives_expired [OF example_condition_stored this, of 30 15] show ?thesis
    by (simp add: example_condition_def MaxRenewalExtension_def day_def)
qed

end
