(* ===== verification/Multi_Project.thy ===== *)
theory Multi_Project
  imports External_Users
begin

text \<open>
  Participation in several projects, \<open>modules/identity-authorization/multi_project_participation.go\<close>: bindings of a subject to a project with a
  role and a scope, the ledger of attributions, and the decision on a request, which ends in the policy evaluator. A nil map of details
  is the empty one, as the ledger copies it.
\<close>

subsection \<open>Bindings\<close>

datatype ParticipationStatus = ParticipationActive | ParticipationDeactivated | ParticipationRevoked | ParticipationExpired

record BoundParticipation =
  bp_participationID :: string
  bp_tenantID :: string
  bp_subject :: string
  bp_projectID :: string
  bp_role :: Role
  bp_scope :: ScopeGrant
  bp_assignedBy :: string
  bp_validFrom :: gotime
  bp_validTo :: gotime
  bp_status :: ParticipationStatus
  bp_isContractor :: bool
  bp_createdAt :: gotime
  bp_updatedAt :: gotime
  bp_deactivatedAt :: gotime
  bp_deactivationReason :: string
  bp_deactivatedBy :: string

definition Bound_IsActive :: "BoundParticipation \<Rightarrow> bool" where
  "Bound_IsActive p \<longleftrightarrow> bp_status p = ParticipationActive"

definition Bound_IsValidAt :: "BoundParticipation \<Rightarrow> gotime \<Rightarrow> bool" where
  "Bound_IsValidAt p t \<longleftrightarrow> bp_status p = ParticipationActive \<and> \<not> t < bp_validFrom p \<and> \<not> After t (bp_validTo p)"

definition Bound_EffectiveStatus :: "BoundParticipation \<Rightarrow> gotime \<Rightarrow> ParticipationStatus" where
  "Bound_EffectiveStatus p t =
     (if bp_status p = ParticipationDeactivated then ParticipationDeactivated
      else if bp_status p = ParticipationRevoked then ParticipationRevoked
      else if After t (bp_validTo p) \<or> t < bp_validFrom p then ParticipationExpired
      else ParticipationActive)"

definition Bound_ToRoleAssignment :: "BoundParticipation \<Rightarrow> RoleAssignment" where
  "Bound_ToRoleAssignment p =
     \<lparr>ra_Subject = bp_subject p, ra_TenantID = bp_tenantID p, ra_Role = bp_role p, ra_Scope = bp_scope p\<rparr>"

definition Bound_Deactivate :: "string \<Rightarrow> string \<Rightarrow> gotime \<Rightarrow> BoundParticipation \<Rightarrow> people_error + BoundParticipation" where
  "Bound_Deactivate deactivatedBy reason at p =
     (if bp_status p = ParticipationDeactivated then Inl ErrParticipationDeactivated
      else if TrimSpace deactivatedBy = [] then Inl (Iam (AssignmentErr ErrBlankApprovalSource))
      else if TrimSpace reason = [] then Inl (Iam (ErrorsNew ''deactivation reason must not be blank''))
      else Inr (p\<lparr>bp_status := ParticipationDeactivated, bp_deactivatedBy := TrimSpace deactivatedBy,
                  bp_deactivationReason := TrimSpace reason, bp_deactivatedAt := at, bp_updatedAt := at\<rparr>))"

record bound_input =
  bi_participationID :: string
  bi_tenantID :: string
  bi_subject :: string
  bi_projectID :: string
  bi_role :: Role
  bi_scope :: ScopeGrant
  bi_assignedBy :: string
  bi_validFrom :: gotime
  bi_validTo :: gotime
  bi_isContractor :: bool

definition new_binding :: "bound_input \<Rightarrow> gotime \<Rightarrow> BoundParticipation" where
  "new_binding i now =
     \<lparr>bp_participationID = TrimSpace (bi_participationID i), bp_tenantID = TrimSpace (bi_tenantID i), bp_subject = TrimSpace (bi_subject i),
      bp_projectID = TrimSpace (bi_projectID i), bp_role = bi_role i,
      bp_scope = (bi_scope i)\<lparr>sg_TenantID := TrimSpace (bi_tenantID i), sg_ProjectID := TrimSpace (bi_projectID i)\<rparr>,
      bp_assignedBy = TrimSpace (bi_assignedBy i), bp_validFrom = bi_validFrom i, bp_validTo = bi_validTo i,
      bp_status = ParticipationActive, bp_isContractor = bi_isContractor i, bp_createdAt = now, bp_updatedAt = now,
      bp_deactivatedAt = 0, bp_deactivationReason = [], bp_deactivatedBy = []\<rparr>"

definition NewBoundParticipation :: "bound_input \<Rightarrow> gotime \<Rightarrow> people_error + BoundParticipation" where
  "NewBoundParticipation i now =
     (let project = TrimSpace (bi_projectID i); tenant = TrimSpace (bi_tenantID i) in
      if TrimSpace (bi_participationID i) = [] then Inl ErrBlankParticipationID
      else if tenant = [] then Inl BlankTenant
      else case ValidateSubject (bi_subject i) of Some e \<Rightarrow> Inl (Iam e) | None \<Rightarrow>
        if project = [] then Inl ErrBlankProjectID
        else case ValidateInternalSponsor (bi_assignedBy i) of Some e \<Rightarrow> Inl e | None \<Rightarrow>
          if bi_validTo i < bi_validFrom i \<or> bi_validTo i = bi_validFrom i then Inl (Iam ErrInvalidTimeWindow)
          else if (bi_isContractor i \<or> bi_role i = RoleContractor) \<and> (bi_role i = RoleTenantAdmin \<or> bi_role i = RoleProjectManager)
          then Inl ErrContractorAdminProhibited
          else if sg_ProjectID (bi_scope i) \<noteq> [] \<and> sg_ProjectID (bi_scope i) \<noteq> project then Inl ErrCrossProjectAccessDenied
          else Inr (new_binding i now))"

definition contractor_forbidden :: "Permission list" where
  "contractor_forbidden =
     [PermOrgTenantManage, PermOrgProjectManage, PermIdentityUserManage, PermIdentityRoleAssign, PermIdentitySessionRevoke,
      PermInspectionApprove, PermAuditExport, PermLegalHoldManage, PermPortalSnapshotPublish, PermPortalSnapshotWithdraw, PermDelegationGrant]"

definition AssertContractorAdminBounds :: "Role \<Rightarrow> bool \<Rightarrow> Action \<Rightarrow> Permission \<Rightarrow> people_error option" where
  "AssertContractorAdminBounds role isContractor action permission =
     (if \<not> isContractor \<and> role \<noteq> RoleContractor then None
      else if role = RoleTenantAdmin \<or> role = RoleProjectManager then Some ErrContractorAdminProhibited
      else if action = ActionDelete then Some ErrContractorAdminProhibited
      else if permission \<in> set contractor_forbidden then Some ErrContractorAdminProhibited
      else None)"

definition auditor_forbidden :: "Permission list" where
  "auditor_forbidden =
     [PermInspectionCreate, PermInspectionSubmit, PermInspectionReview, PermInspectionApprove, PermFindingCreate, PermFindingRemediate,
      PermFindingVerify, PermRecordArchive, PermOrgTenantManage, PermOrgProjectManage, PermIdentityUserManage, PermIdentityRoleAssign,
      PermDelegationGrant]"

definition AssertAuditorReadOnly :: "Role \<Rightarrow> Action \<Rightarrow> Permission \<Rightarrow> people_error option" where
  "AssertAuditorReadOnly role action permission =
     (if role \<noteq> RoleAuditor then None
      else if action = ActionCreate \<or> action = ActionUpdate \<or> action = ActionDelete then Some ErrAuditorReadOnlyViolation
      else if permission \<in> set auditor_forbidden then Some ErrAuditorReadOnlyViolation
      else None)"

subsection \<open>Attribution\<close>

record HistoricalAttributionRecord =
  at_RecordID :: string
  at_TenantID :: string
  at_ProjectID :: string
  at_Subject :: string
  at_DisplayName :: string
  at_RoleAtEvent :: Role
  at_ActionType :: string
  at_ResourceID :: string
  at_Details :: "string \<rightharpoonup> string"
  at_RecordedAt :: gotime

definition Ledger_RecordAttribution ::
  "HistoricalAttributionRecord \<Rightarrow> gotime \<Rightarrow> HistoricalAttributionRecord list \<Rightarrow> (HistoricalAttributionRecord list, people_error, unit) outcome"
where
  "Ledger_RecordAttribution rec now l =
     (if TrimSpace (at_RecordID rec) = [] then (l, Inl ErrBlankAttributionID)
      else if TrimSpace (at_TenantID rec) = [] then (l, Inl BlankTenant)
      else if TrimSpace (at_ProjectID rec) = [] then (l, Inl ErrBlankProjectID)
      else if TrimSpace (at_Subject rec) = [] then (l, Inl BlankSubject)
      else if TrimSpace (at_ActionType rec) = [] then (l, Inl ErrBlankActionType)
      else if TrimSpace (at_ResourceID rec) = [] then (l, Inl ErrBlankResourceID)
      else if list_ex (\<lambda>r. at_TenantID r = at_TenantID rec \<and> at_RecordID r = at_RecordID rec) l then (l, Inl ErrAttributionImmutable)
      else (l @ [rec\<lparr>at_RecordedAt := (if IsZero (at_RecordedAt rec) then now else at_RecordedAt rec)\<rparr>], Inr ()))"

definition GetAttributionTrail ::
  "string \<Rightarrow> string \<Rightarrow> string \<Rightarrow> HistoricalAttributionRecord list \<Rightarrow> people_error + HistoricalAttributionRecord list" where
  "GetAttributionTrail tenantID projectID resourceID l =
     (if TrimSpace tenantID = [] then Inl BlankTenant
      else if TrimSpace projectID = [] then Inl ErrBlankProjectID
      else if TrimSpace resourceID = [] then Inl ErrBlankResourceID
      else Inr (filter (\<lambda>r. at_TenantID r = TrimSpace tenantID \<and> at_ProjectID r = TrimSpace projectID \<and>
        at_ResourceID r = TrimSpace resourceID) l))"

definition GetSubjectAttributionHistory ::
  "string \<Rightarrow> string \<Rightarrow> HistoricalAttributionRecord list \<Rightarrow> people_error + HistoricalAttributionRecord list" where
  "GetSubjectAttributionHistory tenantID subject l =
     (if TrimSpace tenantID = [] then Inl BlankTenant
      else if TrimSpace subject = [] then Inl BlankSubject
      else Inr (filter (\<lambda>r. at_TenantID r = TrimSpace tenantID \<and> at_Subject r = TrimSpace subject) l))"

definition GetProjectAttributionHistory ::
  "string \<Rightarrow> string \<Rightarrow> HistoricalAttributionRecord list \<Rightarrow> people_error + HistoricalAttributionRecord list" where
  "GetProjectAttributionHistory tenantID projectID l =
     (if TrimSpace tenantID = [] then Inl BlankTenant
      else if TrimSpace projectID = [] then Inl ErrBlankProjectID
      else Inr (filter (\<lambda>r. at_TenantID r = TrimSpace tenantID \<and> at_ProjectID r = TrimSpace projectID) l))"

subsection \<open>Registry\<close>

record MultiProjectParticipationRegistry =
  mg_participations :: "string \<rightharpoonup> BoundParticipation"
  mg_ledger :: "HistoricalAttributionRecord list"

definition NewMultiProjectParticipationRegistry :: "HistoricalAttributionRecord list option \<Rightarrow> MultiProjectParticipationRegistry" where
  "NewMultiProjectParticipationRegistry ledger =
     \<lparr>mg_participations = Map.empty, mg_ledger = (case ledger of None \<Rightarrow> [] | Some l \<Rightarrow> l)\<rparr>"

definition makeBindingKey :: "string \<Rightarrow> string \<Rightarrow> string \<Rightarrow> string" where
  "makeBindingKey tenantID subject projectID = TrimSpace tenantID @ '':'' @ TrimSpace subject @ '':'' @ TrimSpace projectID"

definition AssignParticipation ::
  "BoundParticipation \<Rightarrow> MultiProjectParticipationRegistry \<Rightarrow> (MultiProjectParticipationRegistry, people_error, unit) outcome" where
  "AssignParticipation p r =
     (let key = makeBindingKey (bp_tenantID p) (bp_subject p) (bp_projectID p) in
      if bp_tenantID p = [] \<or> bp_subject p = [] \<or> bp_projectID p = [] then (r, Inl ErrBlankParticipationID)
      else if (case mg_participations r key of None \<Rightarrow> False | Some existing \<Rightarrow> Bound_IsActive existing)
      then (r, Inl ErrDuplicateParticipation)
      else (r\<lparr>mg_participations := (mg_participations r)(key \<mapsto> p)\<rparr>, Inr ()))"

definition DeactivateBinding ::
  "string \<Rightarrow> string \<Rightarrow> string \<Rightarrow> string \<Rightarrow> string \<Rightarrow> gotime \<Rightarrow> MultiProjectParticipationRegistry \<Rightarrow>
   (MultiProjectParticipationRegistry, people_error, BoundParticipation) outcome" where
  "DeactivateBinding tenantID subject projectID deactivatedBy reason at r =
     (let key = makeBindingKey tenantID subject projectID in
      case mg_participations r key of
        None \<Rightarrow> (r, Inl ErrParticipationNotFound)
      | Some current \<Rightarrow> (case Bound_Deactivate deactivatedBy reason at current of
          Inl e \<Rightarrow> (r, Inl e)
        | Inr updated \<Rightarrow> (r\<lparr>mg_participations := (mg_participations r)(key \<mapsto> updated)\<rparr>, Inr updated)))"

definition GetBinding ::
  "string \<Rightarrow> string \<Rightarrow> string \<Rightarrow> MultiProjectParticipationRegistry \<Rightarrow> people_error + BoundParticipation" where
  "GetBinding tenantID subject projectID r =
     (case mg_participations r (makeBindingKey tenantID subject projectID) of None \<Rightarrow> Inl ErrParticipationNotFound | Some p \<Rightarrow> Inr p)"

definition ListParticipationsBySubject ::
  "string list \<Rightarrow> string \<Rightarrow> string \<Rightarrow> MultiProjectParticipationRegistry \<Rightarrow> people_error + BoundParticipation list" where
  "ListParticipationsBySubject ks tenantID subject r =
     (if TrimSpace tenantID = [] then Inl BlankTenant
      else if TrimSpace subject = [] then Inl BlankSubject
      else Inr (filter (\<lambda>p. bp_tenantID p = TrimSpace tenantID \<and> bp_subject p = TrimSpace subject) (List.map_filter (mg_participations r) ks)))"

definition ListActiveParticipationsBySubject ::
  "string list \<Rightarrow> string \<Rightarrow> string \<Rightarrow> gotime \<Rightarrow> MultiProjectParticipationRegistry \<Rightarrow> people_error + BoundParticipation list" where
  "ListActiveParticipationsBySubject ks tenantID subject at r =
     (case ListParticipationsBySubject ks tenantID subject r of
        Inl e \<Rightarrow> Inl e
      | Inr ps \<Rightarrow> Inr (filter (\<lambda>p. Bound_IsValidAt p at) ps))"

definition ListBindingsByProject ::
  "string list \<Rightarrow> string \<Rightarrow> string \<Rightarrow> MultiProjectParticipationRegistry \<Rightarrow> people_error + BoundParticipation list" where
  "ListBindingsByProject ks tenantID projectID r =
     (if TrimSpace tenantID = [] then Inl BlankTenant
      else if TrimSpace projectID = [] then Inl ErrBlankProjectID
      else Inr (filter (\<lambda>p. bp_tenantID p = TrimSpace tenantID \<and> bp_projectID p = TrimSpace projectID)
        (List.map_filter (mg_participations r) ks)))"

definition Registry_RecordAttribution ::
  "HistoricalAttributionRecord \<Rightarrow> gotime \<Rightarrow> MultiProjectParticipationRegistry \<Rightarrow> (MultiProjectParticipationRegistry, people_error, unit) outcome"
where
  "Registry_RecordAttribution rec now r =
     (case Ledger_RecordAttribution rec now (mg_ledger r) of (l, res) \<Rightarrow> (r\<lparr>mg_ledger := l\<rparr>, res))"

text \<open>The isolated evaluator of the last step: the caller is a member, and the participation is the only assignment.\<close>

definition participation_evaluator :: "AccessRequest \<Rightarrow> BoundParticipation \<Rightarrow> PolicyEvaluator" where
  "participation_evaluator req p =
     AddRoleAssignment (Bound_ToRoleAssignment p)
       (SetMembership (id_TenantID (rq_Identity req)) (id_Subject (rq_Identity req)) MembershipActive NewPolicyEvaluator)"

definition EvaluateMultiProjectAccess :: "AccessRequest \<Rightarrow> gotime \<Rightarrow> MultiProjectParticipationRegistry \<Rightarrow> EvaluationResult" where
  "EvaluateMultiProjectAccess req at r =
     (let who = rq_Identity req; target = rq_Target req; targetProject = TrimSpace (tg_ProjectID target) in
      if \<not> id_IsAuthenticated who \<or> TrimSpace (id_Subject who) = [] \<or> TrimSpace (id_TenantID who) = []
      then Deny DenialUnauthenticated ''unauthenticated caller identity''
      else if tg_TenantID target \<noteq> [] \<and> id_TenantID who \<noteq> tg_TenantID target
      then Deny DenialCrossTenant ''cross-tenant access prohibited''
      else if targetProject = [] then Deny DenialScopeMismatch ''target project must be specified in multi-project evaluation''
      else case mg_participations r (makeBindingKey (id_TenantID who) (id_Subject who) targetProject) of
        None \<Rightarrow> Deny DenialScopeMismatch ''subject has no participation binding in target project: cross-project access denied''
      | Some p \<Rightarrow>
          if bp_status p = ParticipationDeactivated
          then Deny DenialInactiveMembership ''participation in target project has been deactivated''
          else if bp_status p = ParticipationRevoked
          then Deny DenialInactiveMembership ''participation in target project has been revoked''
          else if \<not> Bound_IsValidAt p at
          then Deny DenialInactiveMembership ''participation temporal window has elapsed or is not yet active''
          else if tg_Lifecycle target = ResourceArchived \<and> (rq_Action req = ActionUpdate \<or> rq_Action req = ActionDelete)
          then Deny DenialArchivedRecord ''cannot modify archived resource''
          else if bp_role p = RoleAuditor \<and> (rq_Action req = ActionCreate \<or> rq_Action req = ActionUpdate \<or> rq_Action req = ActionDelete)
          then Deny DenialPrivilegeEscalation ''auditor role is strictly read-only: mutating operations prohibited''
          else if (bp_isContractor p \<or> bp_role p = RoleContractor) \<and> rq_Action req = ActionDelete
          then Deny DenialPrivilegeEscalation ''contractor role cannot delete resources''
          else if sg_SiteID (bp_scope p) \<noteq> [] \<and> tg_SiteID target \<noteq> [] \<and> sg_SiteID (bp_scope p) \<noteq> tg_SiteID target
          then Deny DenialScopeMismatch ''target site is outside bounded participation site scope''
          else if sg_ObjectID (bp_scope p) \<noteq> [] \<and> tg_ObjectID target \<noteq> [] \<and> sg_ObjectID (bp_scope p) \<noteq> tg_ObjectID target
          then Deny DenialDirectObjectMismatch ''target object is outside direct object lock''
          else Evaluate req (participation_evaluator req p))"

subsection \<open>Calls\<close>

datatype binding_call =
  CallAssignBinding BoundParticipation
| CallDeactivateBinding string string string string string gotime
| CallRecordAttribution HistoricalAttributionRecord gotime

fun binding_exec :: "binding_call \<Rightarrow> MultiProjectParticipationRegistry \<Rightarrow> (MultiProjectParticipationRegistry, people_error, unit) outcome" where
  "binding_exec (CallAssignBinding p) r = AssignParticipation p r"
| "binding_exec (CallDeactivateBinding t s p a w at) r = discard (DeactivateBinding t s p a w at r)"
| "binding_exec (CallRecordAttribution rec now) r = Registry_RecordAttribution rec now r"

text \<open>What the constructor gives, whose fields are private, and \<open>Deactivate\<close> keeps.\<close>

definition sound_binding :: "BoundParticipation \<Rightarrow> bool" where
  "sound_binding p \<longleftrightarrow> TrimSpace (bp_tenantID p) = bp_tenantID p \<and> bp_tenantID p \<noteq> [] \<and> TrimSpace (bp_subject p) = bp_subject p \<and>
     bp_subject p \<noteq> [] \<and> TrimSpace (bp_projectID p) = bp_projectID p \<and> bp_projectID p \<noteq> [] \<and>
     ValidateInternalSponsor (bp_assignedBy p) = None \<and> bp_validFrom p < bp_validTo p \<and>
     ((bp_isContractor p \<or> bp_role p = RoleContractor) \<longrightarrow> bp_role p \<noteq> RoleTenantAdmin \<and> bp_role p \<noteq> RoleProjectManager) \<and>
     sg_TenantID (bp_scope p) = bp_tenantID p \<and> sg_ProjectID (bp_scope p) = bp_projectID p"

fun made_binding_call :: "binding_call \<Rightarrow> bool" where
  "made_binding_call (CallAssignBinding p) \<longleftrightarrow> sound_binding p"
| "made_binding_call _ \<longleftrightarrow> True"

lemma NewBoundParticipation_sound:
  assumes "NewBoundParticipation i now = Inr p"
  shows "sound_binding p \<and> Bound_IsActive p"
proof -
  note passed = assms [unfolded NewBoundParticipation_def Let_def guards sum.inject]
  then have "ValidateSubject (bi_subject i) = None" by (elim conjE)
  then have "TrimSpace (bi_subject i) \<noteq> []" by (simp add: ValidateSubject_def Let_def guards)
  moreover from passed have "p = new_binding i now" by (elim conjE) (rule sym)
  ultimately show ?thesis
    using passed unfolding sound_binding_def Bound_IsActive_def
    by (elim conjE) (simp add: new_binding_def linorder_neq_iff, blast)
qed

text \<open>Bindings are sound and under their key; no tenant has two attributions with the same identifier.\<close>

definition attribution_id :: "HistoricalAttributionRecord \<Rightarrow> string \<times> string" where
  "attribution_id r = (at_TenantID r, at_RecordID r)"

definition binding_inv :: "MultiProjectParticipationRegistry \<Rightarrow> bool" where
  "binding_inv r \<longleftrightarrow> (\<forall>k p. mg_participations r k = Some p \<longrightarrow>
       k = makeBindingKey (bp_tenantID p) (bp_subject p) (bp_projectID p) \<and> sound_binding p) \<and>
     distinct (map attribution_id (mg_ledger r))"

lemma binding_invD:
  "binding_inv r \<Longrightarrow> mg_participations r k = Some p \<Longrightarrow>
     k = makeBindingKey (bp_tenantID p) (bp_subject p) (bp_projectID p) \<and> sound_binding p"
  by (simp add: binding_inv_def)

lemma Bound_Deactivate_sound:
  "Bound_Deactivate a w at p = Inr q \<Longrightarrow> sound_binding q = sound_binding p \<and> bp_tenantID q = bp_tenantID p \<and>
     bp_subject q = bp_subject p \<and> bp_projectID q = bp_projectID p \<and> bp_status q = ParticipationDeactivated"
  by (clarsimp simp: Bound_Deactivate_def guards) (simp add: sound_binding_def)

lemma RecordAttribution_step:
  obtains "fst (Ledger_RecordAttribution rec now l) = l"
  | rec' where "fst (Ledger_RecordAttribution rec now l) = l @ [rec']" "attribution_id rec' \<notin> attribution_id ` set l"
proof (cases "fst (Ledger_RecordAttribution rec now l) = l")
  case False
  then show thesis
    by (intro that(2) [of "rec\<lparr>at_RecordedAt := (if IsZero (at_RecordedAt rec) then now else at_RecordedAt rec)\<rparr>"])
      (auto simp: Ledger_RecordAttribution_def attribution_id_def list_ex_iff split: if_splits)
qed (rule that(1))

lemma binding_exec_inv:
  assumes inv: "binding_inv r" and ok: "made_binding_call c"
  shows "binding_inv (fst (binding_exec c r))"
proof (cases c)
  case (CallAssignBinding p)
  with inv ok show ?thesis by (auto simp: binding_inv_def AssignParticipation_def Let_def split: option.splits)
next
  case (CallDeactivateBinding t s p a w at)
  let ?k = "makeBindingKey t s p"
  show ?thesis
  proof (cases "\<exists>x y. mg_participations r ?k = Some x \<and> Bound_Deactivate a w at x = Inr y")
    case True
    then obtain x y where x: "mg_participations r ?k = Some x" "Bound_Deactivate a w at x = Inr y" by blast
    have "fst (binding_exec c r) = r\<lparr>mg_participations := (mg_participations r)(?k \<mapsto> y)\<rparr>"
      by (simp add: CallDeactivateBinding DeactivateBinding_def x Let_def)
    moreover from binding_invD [OF inv x(1)] Bound_Deactivate_sound [OF x(2)]
    have "?k = makeBindingKey (bp_tenantID y) (bp_subject y) (bp_projectID y) \<and> sound_binding y" by simp
    ultimately show ?thesis using inv by (auto simp: binding_inv_def)
  next
    case False
    then have "fst (binding_exec c r) = r"
      by (auto simp: CallDeactivateBinding DeactivateBinding_def Let_def split: option.split sum.split)
    with inv show ?thesis by simp
  qed
next
  case (CallRecordAttribution rec now)
  have e: "fst (binding_exec c r) = r\<lparr>mg_ledger := fst (Ledger_RecordAttribution rec now (mg_ledger r))\<rparr>"
    by (simp add: CallRecordAttribution Registry_RecordAttribution_def split: prod.split)
  show ?thesis
    by (rule RecordAttribution_step [of rec now "mg_ledger r"]) (use inv in \<open>auto simp: e binding_inv_def\<close>)
qed

interpretation attributions: journaled binding_exec binding_inv made_binding_call "\<lambda>_. mg_ledger"
proof
  fix c k and r :: MultiProjectParticipationRegistry
  show "binding_inv r \<Longrightarrow> made_binding_call c \<Longrightarrow> binding_inv (fst (binding_exec c r))" by (rule binding_exec_inv)
  show "prefix (mg_ledger r) (mg_ledger (fst (binding_exec c r)))"
  proof (cases c)
    case (CallRecordAttribution rec now)
    then show ?thesis
      by (auto simp: Registry_RecordAttribution_def Ledger_RecordAttribution_def split: prod.split if_splits)
  qed (auto simp: AssignParticipation_def DeactivateBinding_def Let_def split: option.split sum.split)
qed

lemma reachable_binding_inv:
  "list_all made_binding_call cs \<Longrightarrow> binding_inv (run_calls binding_exec cs (NewMultiProjectParticipationRegistry None))"
  by (rule attributions.run_inv) (simp_all add: binding_inv_def NewMultiProjectParticipationRegistry_def)

subsection \<open>Properties\<close>

lemma Evaluate_allowed_context:
  assumes "er_Allowed (Evaluate req e)"
  shows "TrimSpace (tg_TenantID (rq_Target req)) = TrimSpace (id_TenantID (rq_Identity req))"
    and "tg_Lifecycle (rq_Target req) = ResourceArchived \<Longrightarrow> rq_Action req = ActionRead"
    and "pe_entitlements e = Map.empty \<Longrightarrow> rq_RequiredEntitlement req = []"
  using assms unfolding Evaluate_def Let_def by (auto split: if_splits)

lemma participation_evaluator_grants:
  "grant \<in> set (pe_assignments (participation_evaluator req p) key) \<Longrightarrow>
     grant = Bound_ToRoleAssignment p \<and> key = member_key (bp_tenantID p) (bp_subject p)"
  "pe_entitlements (participation_evaluator req p) = Map.empty"
  by (auto simp: participation_evaluator_def AddRoleAssignment_def SetMembership_def NewPolicyEvaluator_def Bound_ToRoleAssignment_def
      Let_def split: if_splits)

text \<open>
  (C19) Access in a project is by participation in that very project: in every reachable registry, when a request is allowed, the caller's own
  tenant and subject hold a valid participation in the target project (even though keys are joined by colons), its role permits the
  action, an auditor changes nothing, a contractor deletes nothing and is no administrator, the target is of the granted site and
  object, and an archived target is only read.
\<close>

theorem participant_access_bounded:
  assumes "list_all made_binding_call cs" and "r = run_calls binding_exec cs (NewMultiProjectParticipationRegistry None)"
    and "er_Allowed (EvaluateMultiProjectAccess req at r)"
  shows "\<exists>p. mg_participations r (makeBindingKey (id_TenantID (rq_Identity req)) (id_Subject (rq_Identity req)) (tg_ProjectID (rq_Target req))) = Some p \<and>
    bp_tenantID p = TrimSpace (id_TenantID (rq_Identity req)) \<and> bp_subject p = TrimSpace (id_Subject (rq_Identity req)) \<and>
    bp_projectID p = TrimSpace (tg_ProjectID (rq_Target req)) \<and> Bound_IsValidAt p at \<and> rolePermitsAction (bp_role p) (rq_Action req) \<and>
    (bp_role p = RoleAuditor \<longrightarrow> rq_Action req \<notin> {ActionCreate, ActionUpdate, ActionDelete}) \<and>
    (bp_isContractor p \<or> bp_role p = RoleContractor \<longrightarrow> rq_Action req \<noteq> ActionDelete \<and> bp_role p \<noteq> RoleTenantAdmin) \<and>
    sg_SiteID (bp_scope p) \<in> {[], tg_SiteID (rq_Target req)} \<and> sg_ObjectID (bp_scope p) \<in> {[], tg_ObjectID (rq_Target req)} \<and>
    (tg_Lifecycle (rq_Target req) = ResourceArchived \<longrightarrow> rq_Action req = ActionRead)"
proof -
  let ?who = "rq_Identity req" and ?target = "rq_Target req"
  let ?key = "makeBindingKey (id_TenantID ?who) (id_Subject ?who) (tg_ProjectID ?target)"
  have trim: "makeBindingKey (id_TenantID ?who) (id_Subject ?who) (TrimSpace (tg_ProjectID ?target)) = ?key" by (simp add: makeBindingKey_def)
  from assms(3) obtain p where p: "mg_participations r ?key = Some p" "Bound_IsValidAt p at"
      "bp_role p = RoleAuditor \<longrightarrow> rq_Action req \<notin> {ActionCreate, ActionUpdate, ActionDelete}"
      "bp_isContractor p \<or> bp_role p = RoleContractor \<longrightarrow> rq_Action req \<noteq> ActionDelete"
    and ev: "er_Allowed (Evaluate req (participation_evaluator req p))"
    unfolding EvaluateMultiProjectAccess_def Let_def trim by (auto split: if_splits option.splits)
  from binding_invD [OF reachable_binding_inv [OF assms(1)], of ?key p] p(1) assms(2)
  have stored: "?key = makeBindingKey (bp_tenantID p) (bp_subject p) (bp_projectID p)" and sound: "sound_binding p" by simp_all
  from Evaluate_allowed_grant [OF ev] obtain grant where
      "grant \<in> set (pe_assignments (participation_evaluator req p) (member_key (id_TenantID ?who) (id_Subject ?who)))" "covers req grant" .
  with participation_evaluator_grants(1) have covers: "covers req (Bound_ToRoleAssignment p)"
    and member: "member_key (id_TenantID ?who) (id_Subject ?who) = member_key (bp_tenantID p) (bp_subject p)" by blast+
  then have scope: "scopeMatches (bp_scope p) ?target" "rolePermitsAction (bp_role p) (rq_Action req)"
      "sg_ObjectID (bp_scope p) \<in> {[], tg_ObjectID ?target}"
    by (simp_all add: covers_def in_scope_def Bound_ToRoleAssignment_def)
  from scope(1) sound have "tg_TenantID ?target = bp_tenantID p" "sg_SiteID (bp_scope p) \<in> {[], tg_SiteID ?target}"
    by (auto simp: scopeMatches_def sound_binding_def split: if_splits)
  with Evaluate_allowed_context(1) [OF ev] sound have tenant: "bp_tenantID p = TrimSpace (id_TenantID ?who)" by (simp add: sound_binding_def)
  with member sound have subject: "bp_subject p = TrimSpace (id_Subject ?who)" by (simp add: member_key_def sound_binding_def)
  with stored tenant sound have "bp_projectID p = TrimSpace (tg_ProjectID ?target)" by (simp add: makeBindingKey_def sound_binding_def)
  with p tenant subject scope sound \<open>sg_SiteID (bp_scope p) \<in> {[], tg_SiteID ?target}\<close> Evaluate_allowed_context(2) [OF ev]
  show ?thesis by (intro exI [of _ p]) (auto simp: sound_binding_def)
qed

definition example_binding :: BoundParticipation where
  "example_binding = \<lparr>bp_participationID = ''par_1'', bp_tenantID = ''ten_1'', bp_subject = ''usr_1'', bp_projectID = ''prj_1'',
     bp_role = RoleInspector, bp_scope = example_scope, bp_assignedBy = ''usr_boss'', bp_validFrom = 10, bp_validTo = 20,
     bp_status = ParticipationActive, bp_isContractor = False, bp_createdAt = 5, bp_updatedAt = 5, bp_deactivatedAt = 0,
     bp_deactivationReason = [], bp_deactivatedBy = []\<rparr>"

lemma example_binding_sound: "sound_binding example_binding"
  by (simp add: sound_binding_def example_binding_def example_scope_def example_checks)

lemma example_binding_stored:
  "mg_participations (run_calls binding_exec [CallAssignBinding example_binding] (NewMultiProjectParticipationRegistry None))
     (makeBindingKey ''ten_1'' ''usr_1'' ''prj_1'') = Some example_binding"
  by (simp add: AssignParticipation_def NewMultiProjectParticipationRegistry_def example_binding_def Let_def)

lemma example_binding_allowed:
  "er_Allowed (EvaluateMultiProjectAccess (example_access ResourceActive) 15
     (run_calls binding_exec [CallAssignBinding example_binding] (NewMultiProjectParticipationRegistry None)))"
proof -
  have "er_Allowed (Evaluate (example_access ResourceActive) (participation_evaluator (example_access ResourceActive) example_binding))"
    by (simp add: Evaluate_def participation_evaluator_def AddRoleAssignment_def SetMembership_def NewPolicyEvaluator_def example_access_def
        Bound_ToRoleAssignment_def example_binding_def member_key_def unbounded_grant_def scopeMatches_def example_scope_def Let_def)
  with example_binding_stored show ?thesis
    by (simp add: EvaluateMultiProjectAccess_def Let_def example_access_def Bound_IsValidAt_def After_def example_binding_def example_scope_def)
qed

theorem participant_access_bounded_witness:
  "\<exists>p. bp_projectID p = ''prj_1'' \<and> Bound_IsValidAt p 15 \<and> rolePermitsAction (bp_role p) ActionRead"
proof -
  have "list_all made_binding_call [CallAssignBinding example_binding]" using example_binding_sound by simp
  from participant_access_bounded [OF this refl example_binding_allowed] show ?thesis by (auto simp: example_access_def)
qed

text \<open>
  Attribution survives: whatever calls follow, deactivations among them, the ledger only grows, an identifier is used once in a tenant, and what
  was attributed to a subject is still attributed to that subject, in order.
\<close>

theorem attribution_preserved:
  assumes "list_all made_binding_call cs" and "list_all made_binding_call ds"
    and "r = run_calls binding_exec cs (NewMultiProjectParticipationRegistry None)"
    and "GetSubjectAttributionHistory t s (mg_ledger r) = Inr rs"
  shows "\<exists>rs'. GetSubjectAttributionHistory t s (mg_ledger (run_calls binding_exec ds r)) = Inr (rs @ rs') \<and>
    distinct (map at_RecordID (rs @ rs')) \<and> prefix (mg_ledger r) (mg_ledger (run_calls binding_exec ds r))"
proof -
  have inv: "binding_inv r" unfolding assms(3) by (rule reachable_binding_inv [OF assms(1)])
  have grow: "prefix (mg_ledger r) (mg_ledger (run_calls binding_exec ds r))" by (rule attributions.run_journal [OF inv assms(2)])
  then obtain l where l: "mg_ledger (run_calls binding_exec ds r) = mg_ledger r @ l" by (auto simp: prefix_def)
  let ?P = "\<lambda>x. at_TenantID x = TrimSpace t \<and> at_Subject x = TrimSpace s"
  have "distinct (map attribution_id (filter ?P (mg_ledger r @ l)))"
    using attributions.run_inv [OF inv assms(2)] l distinct_map_filter [of attribution_id "mg_ledger r @ l" ?P] by (simp add: binding_inv_def)
  moreover have "map attribution_id (filter ?P (mg_ledger r @ l)) = map (Pair (TrimSpace t)) (map at_RecordID (filter ?P (mg_ledger r @ l)))"
    by (auto simp: attribution_id_def)
  ultimately have "distinct (map (Pair (TrimSpace t)) (map at_RecordID (filter ?P (mg_ledger r @ l))))" by (simp only:)
  then have "distinct (map at_RecordID (filter ?P (mg_ledger r @ l)))"
    unfolding distinct_map [of "Pair (TrimSpace t)" "map at_RecordID (filter ?P (mg_ledger r @ l))"] by (rule conjunct1)
  moreover from assms(4) have rs: "rs = filter ?P (mg_ledger r)" "TrimSpace t \<noteq> []" "TrimSpace s \<noteq> []"
    by (simp_all add: GetSubjectAttributionHistory_def split: if_splits)
  ultimately have "distinct (map at_RecordID (rs @ filter ?P l))" by (simp only: filter_append)
  moreover have "GetSubjectAttributionHistory t s (mg_ledger (run_calls binding_exec ds r)) = Inr (rs @ filter ?P l)"
    using rs l by (simp add: GetSubjectAttributionHistory_def)
  ultimately show ?thesis using grow by blast
qed

definition example_attribution :: HistoricalAttributionRecord where
  "example_attribution = \<lparr>at_RecordID = ''rec_1'', at_TenantID = ''ten_1'', at_ProjectID = ''prj_1'', at_Subject = ''usr_1'', at_DisplayName = ''Ann'',
     at_RoleAtEvent = RoleInspector, at_ActionType = ''sign'', at_ResourceID = ''ins_1'', at_Details = Map.empty, at_RecordedAt = 7\<rparr>"

theorem attribution_preserved_witness:
  "\<exists>rs'. GetSubjectAttributionHistory ''ten_1'' ''usr_1'' (mg_ledger (run_calls binding_exec
      [CallAssignBinding example_binding, CallDeactivateBinding ''ten_1'' ''usr_1'' ''prj_1'' ''usr_boss'' ''left'' 12]
      (run_calls binding_exec [CallRecordAttribution example_attribution 8] (NewMultiProjectParticipationRegistry None)))) =
     Inr (example_attribution # rs')"
proof -
  let ?cs = "[CallRecordAttribution example_attribution 8]"
  let ?ds = "[CallAssignBinding example_binding, CallDeactivateBinding ''ten_1'' ''usr_1'' ''prj_1'' ''usr_boss'' ''left'' 12]"
  have ok: "list_all made_binding_call ?cs" "list_all made_binding_call ?ds" using example_binding_sound by simp_all
  have "GetSubjectAttributionHistory ''ten_1'' ''usr_1'' (mg_ledger (run_calls binding_exec ?cs (NewMultiProjectParticipationRegistry None))) =
      Inr [example_attribution]"
    by (simp add: GetSubjectAttributionHistory_def Registry_RecordAttribution_def Ledger_RecordAttribution_def
        NewMultiProjectParticipationRegistry_def example_attribution_def IsZero_def)
  from attribution_preserved [OF ok refl this] show ?thesis by auto
qed

text \<open>
  A deactivated participant is out: after \<open>DeactivateParticipation\<close> has succeeded, no request of the subject to the project is allowed, at
  whatever time, until a participation is assigned again.
\<close>

theorem deactivated_participant_denied:
  assumes "DeactivateBinding t s p actor reason at r = (r', Inr q)" and "\<forall>c\<in>set ds. \<forall>b. c \<noteq> CallAssignBinding b"
    and "TrimSpace (id_TenantID (rq_Identity req)) = TrimSpace t" and "TrimSpace (id_Subject (rq_Identity req)) = TrimSpace s"
    and "TrimSpace (tg_ProjectID (rq_Target req)) = TrimSpace p"
  shows "\<not> er_Allowed (EvaluateMultiProjectAccess req now (run_calls binding_exec ds r'))"
proof -
  let ?key = "makeBindingKey t s p"
  let ?out = "\<lambda>r. \<exists>b. mg_participations r ?key = Some b \<and> bp_status b = ParticipationDeactivated"
  have deactivated: "?out (fst (DeactivateBinding t' s' p' a w at' r))" if "?out r" for t' s' p' a w at' r
    using that by (cases "makeBindingKey t' s' p' = ?key")
      (auto simp: DeactivateBinding_def Bound_Deactivate_def Let_def split: option.split sum.split)
  have step: "?out (fst (binding_exec c r))" if "?out r" "\<forall>b. c \<noteq> CallAssignBinding b" for c r
  proof (cases c)
    case (CallDeactivateBinding t' s' p' a w at')
    with deactivated [OF that(1)] show ?thesis by simp
  next
    case (CallRecordAttribution rec at')
    with that(1) show ?thesis by (simp add: Registry_RecordAttribution_def split: prod.split)
  qed (use that in simp)
  have run: "?out (run_calls binding_exec ds r)" if "?out r" "\<forall>c\<in>set ds. \<forall>b. c \<noteq> CallAssignBinding b" for ds r
    using that
  proof (induction ds arbitrary: r)
    case (Cons c ds)
    with step [of r c] show ?case by simp
  qed simp
  have "?out r'"
    using assms(1) Bound_Deactivate_sound by (fastforce simp: DeactivateBinding_def Let_def split: option.splits sum.splits)
  from run [OF this assms(2)] obtain b where b: "mg_participations (run_calls binding_exec ds r') ?key = Some b"
    "bp_status b = ParticipationDeactivated" by blast
  have key: "makeBindingKey (id_TenantID (rq_Identity req)) (id_Subject (rq_Identity req)) (TrimSpace (tg_ProjectID (rq_Target req))) = ?key"
    using assms(3-5) by (simp add: makeBindingKey_def)
  show ?thesis unfolding EvaluateMultiProjectAccess_def Let_def key b(1) by (simp add: b(2))
qed

theorem deactivated_participant_denied_witness:
  "\<exists>r' q. DeactivateBinding ''ten_1'' ''usr_1'' ''prj_1'' ''usr_boss'' ''left'' 12
      (run_calls binding_exec [CallAssignBinding example_binding] (NewMultiProjectParticipationRegistry None)) = (r', Inr q) \<and>
     \<not> er_Allowed (EvaluateMultiProjectAccess (example_access ResourceActive) 15 r')"
proof -
  obtain r' q where "DeactivateBinding ''ten_1'' ''usr_1'' ''prj_1'' ''usr_boss'' ''left'' 12
      (run_calls binding_exec [CallAssignBinding example_binding] (NewMultiProjectParticipationRegistry None)) = (r', Inr q)"
    using example_binding_stored by (simp add: DeactivateBinding_def Let_def Bound_Deactivate_def example_binding_def)
  with deactivated_participant_denied [OF this, of "[]" "example_access ResourceActive" 15] show ?thesis
    by (simp add: example_access_def)
qed

lemma catalog_forbidden:
  "list_all (\<lambda>d. (rd_Role d = RoleContractor \<longrightarrow> list_all (\<lambda>p. p \<notin> set contractor_forbidden) (rd_Permissions d)) \<and>
     (rd_Role d = RoleAuditor \<longrightarrow> list_all (\<lambda>p. p \<notin> set auditor_forbidden) (rd_Permissions d))) catalog_roles"
  by code_simp

text \<open>
  The catalog keeps the bounds: no permission that the provisional matrix gives to contractors or auditors is one that the two assertions of this
  module refuse them.
\<close>

theorem catalog_within_bounds:
  "(RoleHasPermission RoleContractor permission NewProvisionalAuthorizationMatrix \<longrightarrow>
      AssertContractorAdminBounds RoleContractor isContractor ActionRead permission = None) \<and>
   (RoleHasPermission RoleAuditor permission NewProvisionalAuthorizationMatrix \<longrightarrow> AssertAuditorReadOnly RoleAuditor ActionRead permission = None)"
proof -
  have "permission \<notin> set contractor_forbidden" if "RoleHasPermission RoleContractor permission NewProvisionalAuthorizationMatrix"
    using that catalog_forbidden catalog_role [of RoleContractor] by (fastforce simp: RoleHasPermission_def list_all_iff split: option.splits)
  moreover have "permission \<notin> set auditor_forbidden" if "RoleHasPermission RoleAuditor permission NewProvisionalAuthorizationMatrix"
    using that catalog_forbidden catalog_role [of RoleAuditor] by (fastforce simp: RoleHasPermission_def list_all_iff split: option.splits)
  ultimately show ?thesis by (simp add: AssertContractorAdminBounds_def AssertAuditorReadOnly_def)
qed

theorem catalog_within_bounds_witness:
  "AssertContractorAdminBounds RoleContractor True ActionRead PermInspectionCreate = None"
proof -
  have "RoleHasPermission RoleContractor PermInspectionCreate NewProvisionalAuthorizationMatrix" by code_simp
  with catalog_within_bounds [of PermInspectionCreate True] show ?thesis by blast
qed

subsection \<open>Where the code falls short\<close>

text \<open>
  Assigning again writes over a deactivated participation, and the ledger holds nothing of either: who deactivated it, when and why is lost.
\<close>

theorem reassignment_erases_deactivation:
  assumes "DeactivateBinding t s p actor reason at r = (r', Inr q)" and "sound_binding b"
    and "makeBindingKey (bp_tenantID b) (bp_subject b) (bp_projectID b) = makeBindingKey t s p"
  shows "\<exists>r''. AssignParticipation b r' = (r'', Inr ()) \<and> GetBinding t s p r'' = Inr b \<and> mg_ledger r'' = mg_ledger r"
proof -
  obtain x where x: "mg_participations r (makeBindingKey t s p) = Some x" "Bound_Deactivate actor reason at x = Inr q"
    "r' = r\<lparr>mg_participations := (mg_participations r)(makeBindingKey t s p \<mapsto> q)\<rparr>"
    using assms(1) by (auto simp: DeactivateBinding_def Let_def split: option.splits sum.splits)
  have "\<not> Bound_IsActive q" using Bound_Deactivate_sound [OF x(2)] by (simp add: Bound_IsActive_def)
  with assms(2,3) x(3) show ?thesis
    by (simp add: AssignParticipation_def Let_def GetBinding_def sound_binding_def)
qed

theorem reassignment_erases_deactivation_witness:
  "\<exists>r''. GetBinding ''ten_1'' ''usr_1'' ''prj_1'' r'' = Inr example_binding \<and> mg_ledger r'' = []"
proof -
  let ?r = "run_calls binding_exec [CallAssignBinding example_binding] (NewMultiProjectParticipationRegistry None)"
  obtain r' q where d: "DeactivateBinding ''ten_1'' ''usr_1'' ''prj_1'' ''usr_boss'' ''left'' 12 ?r = (r', Inr q)"
    using example_binding_stored by (simp add: DeactivateBinding_def Let_def Bound_Deactivate_def example_binding_def)
  have "makeBindingKey (bp_tenantID example_binding) (bp_subject example_binding) (bp_projectID example_binding) = makeBindingKey ''ten_1'' ''usr_1'' ''prj_1''"
    by (simp add: example_binding_def)
  from reassignment_erases_deactivation [OF d example_binding_sound this] show ?thesis
    by (auto simp: AssignParticipation_def NewMultiProjectParticipationRegistry_def Let_def)
qed

text \<open>The evaluator of the last step is built without entitlements, so a request that requires one is never allowed.\<close>

theorem entitlement_never_granted:
  "rq_RequiredEntitlement req = [] \<or> \<not> er_Allowed (EvaluateMultiProjectAccess req at r)"
proof (cases "er_Allowed (EvaluateMultiProjectAccess req at r)")
  case True
  then obtain p where "er_Allowed (Evaluate req (participation_evaluator req p))"
    unfolding EvaluateMultiProjectAccess_def Let_def by (auto split: if_splits option.splits)
  from Evaluate_allowed_context(3) [OF this participation_evaluator_grants(2)] show ?thesis by blast
qed simp

theorem entitlement_never_granted_witness:
  "\<not> er_Allowed (EvaluateMultiProjectAccess ((example_access ResourceActive)\<lparr>rq_RequiredEntitlement := ''inspect''\<rparr>) 15
     (run_calls binding_exec [CallAssignBinding example_binding] (NewMultiProjectParticipationRegistry None)))"
  using entitlement_never_granted [of "(example_access ResourceActive)\<lparr>rq_RequiredEntitlement := ''inspect''\<rparr>"] by auto

end
