(* ===== verification/Scan_Resolution.thy ===== *)
theory Scan_Resolution
  imports Authorization_Matrix
begin

text \<open>
  Scanned identifiers, \<open>modules/identity-authorization/scan_resolution.go\<close>: parsing of the three schemes, resolution in the context of the
  caller, and the log. Arguments of the model are \<open>url.Parse\<close> with the query it gives access to, SHA-256, and \<open>Time.Format\<close>, together
  in \<open>scan_env\<close>, and the reading of the clock. The policy evaluator that a resolver is given is stored and never read, so the state leaves it out.
\<close>

subsection \<open>Definitions\<close>

definition ScanSchemeURI :: string where "ScanSchemeURI = ''oshe://''"
definition ScanSchemeCompact :: string where "ScanSchemeCompact = ''oshe:''"
definition ScanSchemeHTTPS :: string where "ScanSchemeHTTPS = ''https://app.oshe.local/scan''"

type_synonym ScannableObjectType = string

abbreviation ScannableEquipment :: ScannableObjectType where "ScannableEquipment \<equiv> ''equipment''"
abbreviation ScannableSite :: ScannableObjectType where "ScannableSite \<equiv> ''site''"
abbreviation ScannableArea :: ScannableObjectType where "ScannableArea \<equiv> ''area''"
abbreviation ScannableChecklist :: ScannableObjectType where "ScannableChecklist \<equiv> ''checklist''"
abbreviation ScannableInspection :: ScannableObjectType where "ScannableInspection \<equiv> ''inspection''"
abbreviation ScannableFinding :: ScannableObjectType where "ScannableFinding \<equiv> ''finding''"

definition ValidObjectTypePrefixes :: "ScannableObjectType \<rightharpoonup> string" where
  "ValidObjectTypePrefixes =
     [ScannableEquipment \<mapsto> ''eqp_'', ScannableSite \<mapsto> ''ste_'', ScannableArea \<mapsto> ''ara_'', ScannableChecklist \<mapsto> ''chk_'',
      ScannableInspection \<mapsto> ''ins_'', ScannableFinding \<mapsto> ''fnd_'']"

datatype ScanDenialCode = DenialScanNone | DenialScanInvalidInput | DenialScanExpired | DenialScanUnauthorized

datatype scan_error =
  ErrMalformedScanPayload | ErrScanPayloadExpired | ErrScanUnauthorized | ErrInvalidObjectType | ErrInvalidObjectIdentifier
| ErrEmptyObjectKey

record ScannableObject =
  sn_TenantID :: string
  sn_ObjectType :: ScannableObjectType
  sn_ObjectID :: string
  sn_ProjectID :: string
  sn_SiteID :: string
  sn_AreaID :: string
  sn_LifecycleState :: ResourceLifecycle
  sn_RequiredPermission :: Permission
  sn_Metadata :: "string \<rightharpoonup> string"

record ScanPayload =
  sp_Raw :: string
  sp_TenantID :: string
  sp_ObjectType :: ScannableObjectType
  sp_ObjectID :: string
  sp_Token :: string
  sp_ExpiresAt :: gotime
  sp_HasExpiry :: bool

record ScanResolutionContext =
  sx_Identity :: SubjectIdentity
  sx_CallerRole :: Role
  sx_ActiveProject :: string
  sx_ActiveSite :: string
  sx_RawScan :: string
  sx_Action :: Permission
  sx_At :: gotime

record ScanResolutionAuditRecord =
  su_RecordID :: string
  su_TenantID :: string
  su_ActorSubject :: string
  su_CallerRole :: Role
  su_RawPayloadHash :: string
  su_ParsedObjectType :: ScannableObjectType
  su_ParsedObjectID :: string
  su_Allowed :: bool
  su_DenialCode :: ScanDenialCode
  su_InternalDiagnostic :: string
  su_Timestamp :: gotime

record ScanResolutionResult =
  sr_Allowed :: bool
  sr_DenialCode :: ScanDenialCode
  sr_ErrorMessage :: string
  sr_ResolvedObject :: "ScannableObject option"
  sr_Audit :: ScanResolutionAuditRecord

record ScanResolver =
  sv_objects :: "string \<rightharpoonup> ScannableObject"
  sv_auditRecords :: "ScanResolutionAuditRecord list"
  sv_matrix :: AuthorizationMatrix

record parsed_url =
  ur_Scheme :: string
  ur_Host :: string
  ur_Path :: string
  ur_Get :: "string \<Rightarrow> string"

record scan_env =
  se_Parse :: "string \<Rightarrow> parsed_url option"
  se_Sum :: "string \<Rightarrow> string"
  se_Format :: "gotime \<Rightarrow> string"

definition NewScanResolver :: "AuthorizationMatrix \<Rightarrow> ScanResolver" where
  "NewScanResolver m = \<lparr>sv_objects = Map.empty, sv_auditRecords = [], sv_matrix = m\<rparr>"

definition scan_key :: "string \<Rightarrow> string \<Rightarrow> string" where
  "scan_key tenantID objectID = tenantID @ '':'' @ objectID"

definition RegisterObject :: "ScannableObject \<Rightarrow> ScanResolver \<Rightarrow> (ScanResolver, scan_error, unit) outcome" where
  "RegisterObject obj r =
     (if TrimSpace (sn_TenantID obj) = [] \<or> TrimSpace (sn_ObjectID obj) = [] then (r, Inl ErrEmptyObjectKey)
      else case ValidObjectTypePrefixes (sn_ObjectType obj) of
        None \<Rightarrow> (r, Inl ErrInvalidObjectType)
      | Some p \<Rightarrow>
          if \<not> HasPrefix (sn_ObjectID obj) p then (r, Inl ErrInvalidObjectIdentifier)
          else (r\<lparr>sv_objects := (sv_objects r)(scan_key (sn_TenantID obj) (sn_ObjectID obj) \<mapsto> obj)\<rparr>, Inr ()))"

subsubsection \<open>Parsing\<close>

text \<open>\<open>time.Unix (sec, 0)\<close>: the count of seconds since the zero time wraps at 64 bits.\<close>

definition unix_time :: "int \<Rightarrow> gotime" where
  "unix_time sec = sint (word_of_int (sec + 62135596800) :: int64) * 1000000000"

definition traversal :: "string \<Rightarrow> bool" where
  "traversal s \<longleftrightarrow> Contains s [CHR 0x00] \<or> Contains s ''../'' \<or> Contains s [CHR ''.'', CHR ''.'', CHR 0x5C]"

definition typed_id :: "ScannableObjectType \<Rightarrow> string \<Rightarrow> bool" where
  "typed_id objType objID = (case ValidObjectTypePrefixes objType of None \<Rightarrow> False | Some p \<Rightarrow> HasPrefix objID p)"

definition with_expiry :: "parsed_url \<Rightarrow> ScanPayload \<Rightarrow> ScanPayload" where
  "with_expiry u p =
     (let expStr = ur_Get u ''exp''
      in if expStr = [] then p
         else case ParseInt64 expStr of None \<Rightarrow> p | Some n \<Rightarrow> p\<lparr>sp_ExpiresAt := unix_time n, sp_HasExpiry := True\<rparr>)"

definition slash_trim :: "string \<Rightarrow> string" where
  "slash_trim s = rev (dropWhile (\<lambda>c. c = CHR ''/'') (rev (dropWhile (\<lambda>c. c = CHR ''/'') s)))"

definition parseURIScheme :: "scan_env \<Rightarrow> string \<Rightarrow> scan_error + ScanPayload" where
  "parseURIScheme env raw =
     (case se_Parse env raw of None \<Rightarrow> Inl ErrMalformedScanPayload
      | Some u \<Rightarrow>
          if ur_Scheme u \<noteq> ''oshe'' \<or> ur_Host u = [] then Inl ErrMalformedScanPayload
          else case Split (CHR ''/'') (slash_trim (ur_Path u)) of
            objType # objID # _ \<Rightarrow>
              if \<not> typed_id objType objID then Inl ErrMalformedScanPayload
              else Inr (with_expiry u \<lparr>sp_Raw = raw, sp_TenantID = ur_Host u, sp_ObjectType = objType, sp_ObjectID = objID,
                     sp_Token = ur_Get u ''token'', sp_ExpiresAt = 0, sp_HasExpiry = False\<rparr>)
          | _ \<Rightarrow> Inl ErrMalformedScanPayload)"

definition parseCompactScheme :: "string \<Rightarrow> scan_error + ScanPayload" where
  "parseCompactScheme raw =
     (case Split (CHR '':'') (drop (length ScanSchemeCompact) raw) of
        tenantID # objType # objID # _ \<Rightarrow>
          if tenantID = [] \<or> objID = [] then Inl ErrMalformedScanPayload
          else if \<not> typed_id objType objID then Inl ErrMalformedScanPayload
          else Inr \<lparr>sp_Raw = raw, sp_TenantID = tenantID, sp_ObjectType = objType, sp_ObjectID = objID,
                 sp_Token = [], sp_ExpiresAt = 0, sp_HasExpiry = False\<rparr>
      | _ \<Rightarrow> Inl ErrMalformedScanPayload)"

definition parseHTTPSScheme :: "scan_env \<Rightarrow> string \<Rightarrow> scan_error + ScanPayload" where
  "parseHTTPSScheme env raw =
     (case se_Parse env raw of None \<Rightarrow> Inl ErrMalformedScanPayload
      | Some u \<Rightarrow>
          if ur_Get u ''tenant'' = [] \<or> ur_Get u ''id'' = [] then Inl ErrMalformedScanPayload
          else if \<not> typed_id (ur_Get u ''type'') (ur_Get u ''id'') then Inl ErrMalformedScanPayload
          else Inr (with_expiry u \<lparr>sp_Raw = raw, sp_TenantID = ur_Get u ''tenant'', sp_ObjectType = ur_Get u ''type'',
                 sp_ObjectID = ur_Get u ''id'', sp_Token = ur_Get u ''token'', sp_ExpiresAt = 0, sp_HasExpiry = False\<rparr>))"

definition ParseScan :: "scan_env \<Rightarrow> string \<Rightarrow> scan_error + ScanPayload" where
  "ParseScan env raw =
     (let trimmed = TrimSpace raw in
      if trimmed = [] then Inl ErrMalformedScanPayload
      else if traversal trimmed then Inl ErrMalformedScanPayload
      else if HasPrefix trimmed ScanSchemeURI then parseURIScheme env trimmed
      else if HasPrefix trimmed ScanSchemeCompact then parseCompactScheme trimmed
      else if HasPrefix trimmed ScanSchemeHTTPS then parseHTTPSScheme env trimmed
      else Inl ErrMalformedScanPayload)"

subsubsection \<open>Resolution\<close>

fun role_text :: "Role \<Rightarrow> string" where
  "role_text RoleTenantAdmin = ''TENANT_ADMIN''"
| "role_text RoleProjectManager = ''PROJECT_MANAGER''"
| "role_text RoleInspector = ''INSPECTOR''"
| "role_text RoleAuditor = ''AUDITOR''"
| "role_text RoleViewer = ''VIEWER''"
| "role_text RoleContractor = ''CONTRACTOR''"
| "role_text RoleSupport = ''SUPPORT''"
| "role_text RoleUnknown = ''UNKNOWN''"
| "role_text (RoleOther s) = s"

fun lifecycle_text :: "ResourceLifecycle \<Rightarrow> string" where
  "lifecycle_text ResourceActive = ''ACTIVE''"
| "lifecycle_text ResourceArchived = ''ARCHIVED''"
| "lifecycle_text (ResourceOther s) = s"

definition scan_audit ::
  "scan_env \<Rightarrow> ScanResolutionContext \<Rightarrow> gotime \<Rightarrow> string \<Rightarrow> string \<Rightarrow> ScanDenialCode \<Rightarrow> string \<Rightarrow> ScanResolutionAuditRecord" where
  "scan_audit env ctx now objType objID code diagnostic =
     (let rawHash = EncodeToString (se_Sum env (sx_RawScan ctx)) in
      \<lparr>su_RecordID = ''audit_scan_'' @
         EncodeToString (take 8 (se_Sum env (id_Subject (sx_Identity ctx) @ '':'' @ rawHash @ '':'' @ FormatInt (UnixNano now)))),
       su_TenantID = id_TenantID (sx_Identity ctx), su_ActorSubject = id_Subject (sx_Identity ctx), su_CallerRole = sx_CallerRole ctx,
       su_RawPayloadHash = rawHash, su_ParsedObjectType = objType, su_ParsedObjectID = objID, su_Allowed = (code = DenialScanNone),
       su_DenialCode = code, su_InternalDiagnostic = diagnostic, su_Timestamp = now\<rparr>)"

text \<open>The record that is logged and the result that carries it: a denial, with the message of the result.\<close>

definition scan_denied ::
  "scan_env \<Rightarrow> ScanResolutionContext \<Rightarrow> gotime \<Rightarrow> string \<Rightarrow> string \<Rightarrow> ScanDenialCode \<Rightarrow> string \<Rightarrow> string \<Rightarrow> ScanResolutionResult" where
  "scan_denied env ctx now objType objID code diagnostic message =
     \<lparr>sr_Allowed = False, sr_DenialCode = code, sr_ErrorMessage = message, sr_ResolvedObject = None,
      sr_Audit = scan_audit env ctx now objType objID code diagnostic\<rparr>"

definition required_permission :: "ScanResolutionContext \<Rightarrow> ScannableObject \<Rightarrow> Permission" where
  "required_permission ctx obj = (if sx_Action ctx \<noteq> [] then sx_Action ctx else sn_RequiredPermission obj)"

definition scan_decision :: "scan_env \<Rightarrow> ScanResolutionContext \<Rightarrow> gotime \<Rightarrow> ScanResolver \<Rightarrow> ScanResolutionResult" where
  "scan_decision env ctx now r =
     (if \<not> id_IsAuthenticated (sx_Identity ctx) \<or> TrimSpace (id_Subject (sx_Identity ctx)) = [] \<or> TrimSpace (id_TenantID (sx_Identity ctx)) = []
      then scan_denied env ctx now [] [] DenialScanUnauthorized ''caller identity is unauthenticated or has blank subject/tenant''
             ''unauthenticated caller''
      else case ParseScan env (sx_RawScan ctx) of
        Inl e \<Rightarrow> scan_denied env ctx now [] [] DenialScanInvalidInput
          (''syntax error: '' @ ''scan payload is malformed or uses unsupported scheme'') ''invalid or malformed scan payload''
      | Inr p \<Rightarrow>
          let deny = scan_denied env ctx now (sp_ObjectType p) (sp_ObjectID p) in
          if sp_HasExpiry p \<and> After now (sp_ExpiresAt p)
          then deny DenialScanExpired (''payload expired at '' @ se_Format env (sp_ExpiresAt p) @ '', current time '' @ se_Format env now)
                 ''scan payload has expired''
          else if sp_TenantID p \<noteq> id_TenantID (sx_Identity ctx)
          then deny DenialScanUnauthorized
                 (''cross-tenant access attempt: payload tenant '' @ sp_TenantID p @ '' != caller tenant '' @ id_TenantID (sx_Identity ctx))
                 ''access denied to target resource''
          else case sv_objects r (scan_key (id_TenantID (sx_Identity ctx)) (sp_ObjectID p)) of
            None \<Rightarrow> deny DenialScanUnauthorized
              (''scanned object '' @ sp_ObjectID p @ '' does not exist in tenant '' @ id_TenantID (sx_Identity ctx) @ '' (anti-enumeration)'')
              ''access denied to target resource''
          | Some obj \<Rightarrow>
              if sn_LifecycleState obj \<noteq> ResourceActive
              then deny DenialScanUnauthorized (''scanned object is in inactive lifecycle state: '' @ lifecycle_text (sn_LifecycleState obj))
                     ''access denied to target resource''
              else if sx_ActiveSite ctx \<noteq> [] \<and> sn_SiteID obj \<noteq> [] \<and> sx_ActiveSite ctx \<noteq> sn_SiteID obj
              then deny DenialScanUnauthorized
                     (''scope mismatch: caller active site '' @ sx_ActiveSite ctx @ '' != target site '' @ sn_SiteID obj)
                     ''access denied to target resource''
              else if required_permission ctx obj \<noteq> [] \<and>
                      \<not> RoleHasPermission (sx_CallerRole ctx) (required_permission ctx obj) (sv_matrix r)
              then deny DenialScanUnauthorized
                     (''role '' @ role_text (sx_CallerRole ctx) @ '' lacks required permission '' @ required_permission ctx obj @
                      '' on scanned target'')
                     ''access denied to target resource''
              else \<lparr>sr_Allowed = True, sr_DenialCode = DenialScanNone, sr_ErrorMessage = [], sr_ResolvedObject = Some obj,
                     sr_Audit = scan_audit env ctx now (sp_ObjectType p) (sp_ObjectID p) DenialScanNone
                       ''scan resolved and caller authorized successfully''\<rparr>)"

definition recordAudit :: "ScanResolutionAuditRecord \<Rightarrow> ScanResolver \<Rightarrow> ScanResolver" where
  "recordAudit rec r = r\<lparr>sv_auditRecords := sv_auditRecords r @ [rec]\<rparr>"

text \<open>Every path of \<open>Resolve\<close> logs the record that it returns.\<close>

definition Resolve :: "scan_env \<Rightarrow> ScanResolutionContext \<Rightarrow> gotime \<Rightarrow> ScanResolver \<Rightarrow> ScanResolver \<times> ScanResolutionResult" where
  "Resolve env ctx clock r =
     (let now = (if IsZero (sx_At ctx) then clock else sx_At ctx); res = scan_decision env ctx now r
      in (recordAudit (sr_Audit res) r, res))"

definition AuditLedger :: "ScanResolver \<Rightarrow> ScanResolutionAuditRecord list" where
  "AuditLedger r = sv_auditRecords r"

subsection \<open>The calls and what they keep\<close>

datatype scan_call =
  CallRegisterObject ScannableObject
| CallResolve scan_env ScanResolutionContext gotime

fun scan_exec :: "scan_call \<Rightarrow> ScanResolver \<Rightarrow> (ScanResolver, scan_error, unit) outcome" where
  "scan_exec (CallRegisterObject obj) r = RegisterObject obj r"
| "scan_exec (CallResolve env ctx clock) r = (fst (Resolve env ctx clock r), Inr ())"

text \<open>Keys join tenant and identifier with a colon: the calls are those whose tenants have none.\<close>

fun plain_tenant_call :: "scan_call \<Rightarrow> bool" where
  "plain_tenant_call (CallRegisterObject obj) \<longleftrightarrow> CHR '':'' \<notin> set (sn_TenantID obj)"
| "plain_tenant_call (CallResolve env ctx clock) \<longleftrightarrow> True"

definition objects_inv :: "ScanResolver \<Rightarrow> bool" where
  "objects_inv r \<longleftrightarrow>
     (\<forall>k obj. sv_objects r k = Some obj \<longrightarrow> k = scan_key (sn_TenantID obj) (sn_ObjectID obj) \<and> CHR '':'' \<notin> set (sn_TenantID obj) \<and>
        typed_id (sn_ObjectType obj) (sn_ObjectID obj))"

lemma objects_invD:
  "objects_inv r \<Longrightarrow> sv_objects r k = Some obj \<Longrightarrow> k = scan_key (sn_TenantID obj) (sn_ObjectID obj) \<and> CHR '':'' \<notin> set (sn_TenantID obj) \<and>
     typed_id (sn_ObjectType obj) (sn_ObjectID obj)"
  by (simp add: objects_inv_def)

lemma Resolve_state:
  "sv_objects (fst (Resolve env ctx clock r)) = sv_objects r" "sv_matrix (fst (Resolve env ctx clock r)) = sv_matrix r"
  "sv_auditRecords (fst (Resolve env ctx clock r)) = sv_auditRecords r @ [sr_Audit (snd (Resolve env ctx clock r))]"
  by (simp_all add: Resolve_def recordAudit_def Let_def)

lemma RegisterObject_objects:
  "objects_inv r \<Longrightarrow> CHR '':'' \<notin> set (sn_TenantID obj) \<Longrightarrow> objects_inv (fst (RegisterObject obj r))"
  by (auto simp: RegisterObject_def objects_inv_def typed_id_def split: option.splits)

lemma Resolve_objects: "objects_inv r \<Longrightarrow> objects_inv (fst (Resolve env ctx clock r))"
  by (simp add: objects_inv_def Resolve_state)

lemma RegisterObject_state:
  "sv_auditRecords (fst (RegisterObject obj r)) = sv_auditRecords r" "sv_matrix (fst (RegisterObject obj r)) = sv_matrix r"
  by (auto simp: RegisterObject_def split: option.splits)

interpretation scans: journaled scan_exec objects_inv plain_tenant_call "\<lambda>_::unit. sv_auditRecords"
proof
  fix s c
  assume "objects_inv s" "plain_tenant_call c"
  then show "objects_inv (fst (scan_exec c s))"
    by (cases c) (auto simp: RegisterObject_objects Resolve_objects)
qed (case_tac c, auto simp: RegisterObject_state Resolve_state)

interpretation scans_closed: fail_closed scan_exec
proof
  fix c s s' e
  assume "scan_exec c s = (s', Inl e)"
  then show "s' = s" by (cases c) (auto simp: RegisterObject_def split: if_splits option.splits)
qed

lemma scans_start: "objects_inv (NewScanResolver m)"
  by (simp add: objects_inv_def NewScanResolver_def)

lemma run_scans_matrix: "sv_matrix (run_calls scan_exec cs r) = sv_matrix r"
proof (induction cs arbitrary: r)
  case (Cons c cs)
  then show ?case by (cases c) (simp_all add: RegisterObject_state Resolve_state)
qed simp

subsection \<open>What parsing gives\<close>

lemma typed_id_unique: "typed_id t i \<Longrightarrow> typed_id t' i \<Longrightarrow> t = t'"
  by (auto simp: typed_id_def ValidObjectTypePrefixes_def HasPrefix_def split: option.splits if_splits)

lemma with_expiry_same [simp]:
  "sp_Raw (with_expiry u p) = sp_Raw p" "sp_TenantID (with_expiry u p) = sp_TenantID p" "sp_ObjectType (with_expiry u p) = sp_ObjectType p"
  "sp_ObjectID (with_expiry u p) = sp_ObjectID p" "sp_Token (with_expiry u p) = sp_Token p"
  by (simp_all add: with_expiry_def Let_def split: option.splits)

lemma ParseScan_sound:
  assumes "ParseScan env raw = Inr p"
  shows "typed_id (sp_ObjectType p) (sp_ObjectID p) \<and> sp_TenantID p \<noteq> [] \<and> sp_Raw p = TrimSpace raw \<and> \<not> traversal (sp_Raw p)"
  using assms
  by (auto simp: ParseScan_def parseURIScheme_def parseCompactScheme_def parseHTTPSScheme_def Let_def
      split: if_splits list.splits option.splits)

lemma ParseScan_error: "ParseScan env raw = Inl e \<Longrightarrow> e = ErrMalformedScanPayload"
  by (auto simp: ParseScan_def parseURIScheme_def parseCompactScheme_def parseHTTPSScheme_def Let_def
      split: if_splits list.splits option.splits)

lemma Split_join: "c \<notin> set s \<Longrightarrow> Split c (s @ c # t) = s # Split c t"
  by (induction s) auto

lemma Split_single: "c \<notin> set s \<Longrightarrow> Split c s = [s]"
  by (induction s) auto

definition compact_text :: "string \<Rightarrow> ScannableObjectType \<Rightarrow> string \<Rightarrow> string" where
  "compact_text t ty i = ScanSchemeCompact @ t @ '':'' @ ty @ '':'' @ i"

lemma compact_tail: "drop (length ScanSchemeCompact) (compact_text t ty i) = t @ '':'' @ ty @ '':'' @ i"
  by (simp add: compact_text_def)

lemma types_plain: "ValidObjectTypePrefixes ty = Some p \<Longrightarrow> list_all graphic ty \<and> CHR '':'' \<notin> set ty"
  by (auto simp: ValidObjectTypePrefixes_def split: if_splits)

lemma compact_not_uri:
  assumes "\<not> HasPrefix t ''//''"
  shows "\<not> HasPrefix (compact_text t ty i) ScanSchemeURI"
proof -
  have "HasPrefix (t @ '':'' @ u) ''//'' \<Longrightarrow> HasPrefix t ''//''" for u
    by (cases t; cases "tl t") (auto simp: HasPrefix_def)
  with assms show ?thesis by (auto simp: compact_text_def ScanSchemeCompact_def ScanSchemeURI_def HasPrefix_def)
qed

subsection \<open>What a resolution tells and what it needs\<close>

definition scan_time :: "ScanResolutionContext \<Rightarrow> gotime \<Rightarrow> gotime" where
  "scan_time ctx clock = (if IsZero (sx_At ctx) then clock else sx_At ctx)"

lemma snd_Resolve: "snd (Resolve env ctx clock r) = scan_decision env ctx (scan_time ctx clock) r"
  by (simp add: Resolve_def scan_time_def Let_def)

text \<open>What the caller is meant to see of a result: everything except the record of the log.\<close>

definition visible_result :: "ScanResolutionResult \<Rightarrow> bool \<times> ScanDenialCode \<times> string \<times> ScannableObject option" where
  "visible_result q = (sr_Allowed q, sr_DenialCode q, sr_ErrorMessage q, sr_ResolvedObject q)"

definition may_resolve :: "ScanResolutionContext \<Rightarrow> ScannableObject \<Rightarrow> AuthorizationMatrix \<Rightarrow> bool" where
  "may_resolve ctx obj m \<longleftrightarrow>
     sn_LifecycleState obj = ResourceActive \<and> (sx_ActiveSite ctx \<noteq> [] \<and> sn_SiteID obj \<noteq> [] \<longrightarrow> sx_ActiveSite ctx = sn_SiteID obj) \<and>
     (required_permission ctx obj \<noteq> [] \<longrightarrow> RoleHasPermission (sx_CallerRole ctx) (required_permission ctx obj) m)"

text \<open>The decision without its log: the identity of the caller, the payload, the object.\<close>

abbreviation access_denied :: "bool \<times> ScanDenialCode \<times> string \<times> ScannableObject option" where
  "access_denied \<equiv> (False, DenialScanUnauthorized, ''access denied to target resource'', None)"

definition known_caller :: "SubjectIdentity \<Rightarrow> bool" where
  "known_caller i \<longleftrightarrow> id_IsAuthenticated i \<and> TrimSpace (id_Subject i) \<noteq> [] \<and> TrimSpace (id_TenantID i) \<noteq> []"

lemma scan_decision_visible:
  "visible_result (scan_decision env ctx now r) =
     (if \<not> known_caller (sx_Identity ctx) then (False, DenialScanUnauthorized, ''unauthenticated caller'', None)
      else case ParseScan env (sx_RawScan ctx) of
        Inl e \<Rightarrow> (False, DenialScanInvalidInput, ''invalid or malformed scan payload'', None)
      | Inr p \<Rightarrow>
          if sp_HasExpiry p \<and> sp_ExpiresAt p < now then (False, DenialScanExpired, ''scan payload has expired'', None)
          else if sp_TenantID p \<noteq> id_TenantID (sx_Identity ctx) then access_denied
          else case sv_objects r (scan_key (id_TenantID (sx_Identity ctx)) (sp_ObjectID p)) of
            None \<Rightarrow> access_denied
          | Some obj \<Rightarrow> if may_resolve ctx obj (sv_matrix r) then (True, DenialScanNone, [], Some obj) else access_denied)"
proof (cases "known_caller (sx_Identity ctx)")
  case known: True
  show ?thesis
  proof (cases "ParseScan env (sx_RawScan ctx)")
    case (Inr p)
    show ?thesis
      by (cases "sv_objects r (scan_key (id_TenantID (sx_Identity ctx)) (sp_ObjectID p))")
        (use known in \<open>simp_all add: Inr visible_result_def known_caller_def scan_decision_def scan_denied_def Let_def may_resolve_def After_def\<close>)
  qed (use known in \<open>simp add: visible_result_def known_caller_def scan_decision_def scan_denied_def\<close>)
qed (auto simp: visible_result_def known_caller_def scan_decision_def scan_denied_def)

lemma scan_decision_allowed:
  "sr_Allowed (scan_decision env ctx now r) \<longleftrightarrow>
     known_caller (sx_Identity ctx) \<and>
     (\<exists>p obj. ParseScan env (sx_RawScan ctx) = Inr p \<and> (sp_HasExpiry p \<longrightarrow> now \<le> sp_ExpiresAt p) \<and>
        sp_TenantID p = id_TenantID (sx_Identity ctx) \<and>
        sv_objects r (scan_key (id_TenantID (sx_Identity ctx)) (sp_ObjectID p)) = Some obj \<and> may_resolve ctx obj (sv_matrix r))"
  using scan_decision_visible [of env ctx now r]
  by (auto simp: visible_result_def not_less split: if_splits sum.splits option.splits)

lemma scan_decision_object:
  assumes "sr_Allowed (scan_decision env ctx now r)" and "ParseScan env (sx_RawScan ctx) = Inr p"
  shows "sr_ResolvedObject (scan_decision env ctx now r) = sv_objects r (scan_key (id_TenantID (sx_Identity ctx)) (sp_ObjectID p))"
  using assms scan_decision_visible [of env ctx now r]
  by (auto simp: visible_result_def split: if_splits option.splits)

lemma scan_decision_denied:
  assumes "\<not> sr_Allowed (scan_decision env ctx now r)"
  shows "visible_result (scan_decision env ctx now r) = visible_result (scan_decision env ctx now (NewScanResolver m))"
proof -
  have "\<not> fst (visible_result (scan_decision env ctx now r))" using assms by (simp add: visible_result_def)
  then show ?thesis
    unfolding scan_decision_visible by (auto simp: NewScanResolver_def split: if_splits sum.splits option.splits)
qed

lemma scan_decision_audit:
  "su_Allowed (sr_Audit (scan_decision env ctx now r)) = sr_Allowed (scan_decision env ctx now r) \<and>
   su_DenialCode (sr_Audit (scan_decision env ctx now r)) = sr_DenialCode (scan_decision env ctx now r) \<and>
   su_TenantID (sr_Audit (scan_decision env ctx now r)) = id_TenantID (sx_Identity ctx)"
proof (cases "ParseScan env (sx_RawScan ctx)")
  case (Inr p)
  show ?thesis
    by (cases "sv_objects r (scan_key (id_TenantID (sx_Identity ctx)) (sp_ObjectID p))")
      (simp_all add: Inr scan_decision_def scan_denied_def scan_audit_def Let_def)
qed (simp add: scan_decision_def scan_denied_def scan_audit_def Let_def)

definition example_object :: ScannableObject where
  "example_object =
     \<lparr>sn_TenantID = ''ten_1'', sn_ObjectType = ScannableEquipment, sn_ObjectID = ''eqp_7'', sn_ProjectID = ''prj_1'', sn_SiteID = ''ste_1'',
      sn_AreaID = [], sn_LifecycleState = ResourceActive, sn_RequiredPermission = PermInspectionRead, sn_Metadata = Map.empty\<rparr>"

definition example_scan :: "Role \<Rightarrow> string \<Rightarrow> ScanResolutionContext" where
  "example_scan role raw =
     \<lparr>sx_Identity = \<lparr>id_Subject = ''usr_1'', id_TenantID = ''ten_1'', id_IsAuthenticated = True\<rparr>, sx_CallerRole = role, sx_ActiveProject = ''prj_9'',
      sx_ActiveSite = ''ste_1'', sx_RawScan = raw, sx_Action = [], sx_At = 5\<rparr>"

text \<open>A parser of URLs that knows one URL, with an expiry that is no number, and a digest that copies.\<close>

definition example_env :: scan_env where
  "example_env =
     \<lparr>se_Parse = (\<lambda>u. if u = ''oshe://ten_1/equipment/eqp_7?exp=soon''
        then Some \<lparr>ur_Scheme = ''oshe'', ur_Host = ''ten_1'', ur_Path = ''/equipment/eqp_7'', ur_Get = (\<lambda>k. if k = ''exp'' then ''soon'' else [])\<rparr> else None),
      se_Sum = id, se_Format = (\<lambda>_. [])\<rparr>"

lemma example_may_read_inspections:
  "RoleHasPermission RoleInspector PermInspectionRead NewProvisionalAuthorizationMatrix"
  by code_simp

lemma example_compact_parsed:
  "ParseScan env ''oshe:ten_1:equipment:eqp_7'' =
     Inr \<lparr>sp_Raw = ''oshe:ten_1:equipment:eqp_7'', sp_TenantID = ''ten_1'', sp_ObjectType = ScannableEquipment, sp_ObjectID = ''eqp_7'',
       sp_Token = [], sp_ExpiresAt = 0, sp_HasExpiry = False\<rparr>"
  by (simp add: ParseScan_def parseCompactScheme_def typed_id_def ValidObjectTypePrefixes_def traversal_def HasPrefix_def ScanSchemeURI_def
      ScanSchemeCompact_def Let_def)

lemma example_object_registered:
  "sv_objects (run_calls scan_exec [CallRegisterObject example_object] (NewScanResolver m)) ''ten_1:eqp_7'' = Some example_object"
  "sv_matrix (run_calls scan_exec cs (NewScanResolver m)) = m"
  by (simp_all add: RegisterObject_def NewScanResolver_def example_object_def ValidObjectTypePrefixes_def HasPrefix_def scan_key_def run_scans_matrix)

lemma example_scan_allowed:
  "sr_Allowed (snd (Resolve env (example_scan RoleInspector ''oshe:ten_1:equipment:eqp_7'') 9
     (run_calls scan_exec [CallRegisterObject example_object] (NewScanResolver NewProvisionalAuthorizationMatrix))))"
  using example_may_read_inspections example_object_registered
  by (simp add: snd_Resolve scan_decision_allowed known_caller_def example_scan_def example_compact_parsed scan_key_def may_resolve_def required_permission_def
      example_object_def del: run_calls.simps)

text \<open>
  (C20) A scan conveys no authority, provided that the tenants of the registered objects and of the caller contain no colon (the keys of
  the resolver join tenant and object with one). In every such resolver a scan resolves only for an authenticated caller, before any expiry of the payload,
  to the object that carries the tenant of the caller and of the payload, and the type and identifier of the payload; the object is active, of
  the site where the caller is active if both name one, and the role of the caller has the permission that is asked for.
\<close>

theorem scan_conveys_no_authority:
  assumes "list_all plain_tenant_call cs" and "r = run_calls scan_exec cs (NewScanResolver m)"
    and "CHR '':'' \<notin> set (id_TenantID (sx_Identity ctx))" and "snd (Resolve env ctx clock r) = q" and "sr_Allowed q"
  shows "id_IsAuthenticated (sx_Identity ctx) \<and>
    (\<exists>p obj. ParseScan env (sx_RawScan ctx) = Inr p \<and> sr_ResolvedObject q = Some obj \<and>
       sn_TenantID obj = id_TenantID (sx_Identity ctx) \<and> sp_TenantID p = sn_TenantID obj \<and>
       sn_ObjectID obj = sp_ObjectID p \<and> sn_ObjectType obj = sp_ObjectType p \<and>
       (sp_HasExpiry p \<longrightarrow> scan_time ctx clock \<le> sp_ExpiresAt p) \<and> may_resolve ctx obj m)"
proof -
  have q: "q = scan_decision env ctx (scan_time ctx clock) r" using assms(4) by (simp add: snd_Resolve)
  have inv: "objects_inv r" using scans.run_inv [OF scans_start assms(1)] assms(2) by simp
  from assms(5) obtain p obj where p: "ParseScan env (sx_RawScan ctx) = Inr p"
      "sp_HasExpiry p \<longrightarrow> scan_time ctx clock \<le> sp_ExpiresAt p" "sp_TenantID p = id_TenantID (sx_Identity ctx)"
    and obj: "sv_objects r (scan_key (id_TenantID (sx_Identity ctx)) (sp_ObjectID p)) = Some obj" "may_resolve ctx obj (sv_matrix r)"
    and auth: "id_IsAuthenticated (sx_Identity ctx)"
    unfolding q scan_decision_allowed known_caller_def by blast
  have "sn_TenantID obj = id_TenantID (sx_Identity ctx) \<and> sn_ObjectID obj = sp_ObjectID p" "typed_id (sn_ObjectType obj) (sn_ObjectID obj)"
    using objects_invD [OF inv obj(1)] colon_key_inject [OF assms(3)] by (auto simp: scan_key_def)
  moreover from this have "sn_ObjectType obj = sp_ObjectType p" using ParseScan_sound [OF p(1)] typed_id_unique by metis
  moreover have "sv_matrix r = m" by (simp add: assms(2) run_scans_matrix NewScanResolver_def)
  moreover have "sr_ResolvedObject q = Some obj" using scan_decision_object [OF _ p(1)] assms(5) obj(1) by (simp add: q)
  ultimately show ?thesis using auth p obj(2) by auto
qed

theorem scan_conveys_no_authority_witness:
  "\<exists>obj. sr_ResolvedObject (snd (Resolve example_env (example_scan RoleInspector ''oshe:ten_1:equipment:eqp_7'') 9
     (run_calls scan_exec [CallRegisterObject example_object] (NewScanResolver NewProvisionalAuthorizationMatrix)))) = Some obj \<and>
     sn_ObjectID obj = ''eqp_7''"
  using scan_conveys_no_authority [OF _ refl _ refl example_scan_allowed [of example_env]]
  by (auto simp: example_object_def example_scan_def example_compact_parsed)

text \<open>
  A denial tells nothing about the objects: what the caller is meant to see of it is the same as with an empty resolver, so it does not
  depend on whether the object exists, on its state or site, or on the permission it requires.
\<close>

theorem scan_denial_uninformative:
  assumes "\<not> sr_Allowed (snd (Resolve env ctx clock r))"
  shows "visible_result (snd (Resolve env ctx clock r)) = visible_result (snd (Resolve env ctx clock (NewScanResolver m)))"
  using assms unfolding snd_Resolve by (rule scan_decision_denied)

theorem scan_denial_uninformative_witness:
  "visible_result (snd (Resolve example_env (example_scan RoleUnknown ''oshe:ten_1:equipment:eqp_7'') 9
     (run_calls scan_exec [CallRegisterObject example_object] (NewScanResolver NewProvisionalAuthorizationMatrix)))) =
   visible_result (snd (Resolve example_env (example_scan RoleUnknown ''oshe:ten_1:equipment:eqp_7'') 9 (NewScanResolver NewProvisionalAuthorizationMatrix)))"
proof -
  have "\<not> RoleHasPermission RoleUnknown PermInspectionRead NewProvisionalAuthorizationMatrix" by code_simp
  then have "\<not> sr_Allowed (snd (Resolve example_env (example_scan RoleUnknown ''oshe:ten_1:equipment:eqp_7'') 9
      (run_calls scan_exec [CallRegisterObject example_object] (NewScanResolver NewProvisionalAuthorizationMatrix))))"
    using example_object_registered
    by (simp add: snd_Resolve scan_decision_allowed known_caller_def example_scan_def example_compact_parsed scan_key_def may_resolve_def required_permission_def
        example_object_def del: run_calls.simps)
  from scan_denial_uninformative [OF this] show ?thesis .
qed

text \<open>
  The compact form of an object parses to it: for a tenant and an identifier without colons, in printable characters, that hold no
  path traversal and do not read as the other scheme.
\<close>

theorem compact_scan_roundtrip:
  assumes "typed_id ty i" and "t \<noteq> []" and "list_all graphic t" and "list_all graphic i"
    and "CHR '':'' \<notin> set t" and "CHR '':'' \<notin> set i" and "\<not> HasPrefix t ''//''" and "\<not> traversal (compact_text t ty i)"
  shows "ParseScan env (compact_text t ty i) =
    Inr \<lparr>sp_Raw = compact_text t ty i, sp_TenantID = t, sp_ObjectType = ty, sp_ObjectID = i, sp_Token = [], sp_ExpiresAt = 0, sp_HasExpiry = False\<rparr>"
proof -
  obtain p where ty: "ValidObjectTypePrefixes ty = Some p" "HasPrefix i p" using assms(1) by (auto simp: typed_id_def split: option.splits)
  have "i \<noteq> []" using ty by (auto simp: HasPrefix_def ValidObjectTypePrefixes_def split: if_splits)
  moreover have "TrimSpace (compact_text t ty i) = compact_text t ty i"
    using assms(3,4) types_plain [OF ty(1)] by (intro TrimSpace_all_graphic) (simp add: compact_text_def ScanSchemeCompact_def)
  moreover have "compact_text t ty i \<noteq> []" by (simp add: compact_text_def ScanSchemeCompact_def)
  moreover have "HasPrefix (compact_text t ty i) ScanSchemeCompact" by (simp add: compact_text_def HasPrefix_def)
  moreover have "Split (CHR '':'') (drop (length ScanSchemeCompact) (compact_text t ty i)) = [t, ty, i]"
    using assms(5,6) types_plain [OF ty(1)] unfolding compact_tail by (simp add: Split_join Split_single)
  ultimately show ?thesis
    using assms(1,2,8) compact_not_uri [OF assms(7)] by (simp add: ParseScan_def parseCompactScheme_def Let_def)
qed

theorem compact_scan_roundtrip_witness:
  "\<exists>p. ParseScan example_env (compact_text ''ten_1'' ScannableEquipment ''eqp_7'') = Inr p \<and> sp_ObjectID p = ''eqp_7''"
  using compact_scan_roundtrip [of ScannableEquipment "''eqp_7''" "''ten_1''" example_env]
  by (simp add: typed_id_def ValidObjectTypePrefixes_def HasPrefix_def traversal_def compact_text_def ScanSchemeCompact_def)

text \<open>Every resolution is logged with its outcome, and no later call changes or removes a record.\<close>

theorem scan_log_complete:
  assumes "list_all plain_tenant_call cs" and "list_all plain_tenant_call ds" and "r = run_calls scan_exec cs (NewScanResolver m)"
    and "Resolve env ctx clock r = (r', q)"
  shows "\<exists>xs. AuditLedger (run_calls scan_exec ds r') = AuditLedger r @ [sr_Audit q] @ xs \<and> su_Allowed (sr_Audit q) = sr_Allowed q \<and>
    su_DenialCode (sr_Audit q) = sr_DenialCode q \<and> su_TenantID (sr_Audit q) = id_TenantID (sx_Identity ctx)"
proof -
  have inv: "objects_inv r" using scans.run_inv [OF scans_start assms(1)] assms(3) by simp
  have r': "r' = fst (Resolve env ctx clock r)" "q = snd (Resolve env ctx clock r)" by (simp_all add: assms(4))
  have "objects_inv r'" unfolding r' by (rule Resolve_objects) (rule inv)
  from scans.run_journal [OF this assms(2)] obtain xs where "sv_auditRecords (run_calls scan_exec ds r') = sv_auditRecords r' @ xs"
    by (auto simp: prefix_def)
  then have "AuditLedger (run_calls scan_exec ds r') = AuditLedger r @ [sr_Audit q] @ xs" by (simp add: AuditLedger_def r' Resolve_state)
  moreover have "su_Allowed (sr_Audit q) = sr_Allowed q \<and> su_DenialCode (sr_Audit q) = sr_DenialCode q \<and>
      su_TenantID (sr_Audit q) = id_TenantID (sx_Identity ctx)"
    unfolding r' snd_Resolve by (rule scan_decision_audit)
  ultimately show ?thesis by blast
qed

theorem scan_log_complete_witness:
  "\<exists>r' q xs. Resolve example_env (example_scan RoleInspector ''nonsense'') 9 (NewScanResolver NewProvisionalAuthorizationMatrix) = (r', q) \<and>
     AuditLedger (run_calls scan_exec [CallRegisterObject example_object] r') = [sr_Audit q] @ xs"
proof -
  obtain r' q where q: "Resolve example_env (example_scan RoleInspector ''nonsense'') 9 (NewScanResolver NewProvisionalAuthorizationMatrix) = (r', q)"
    by fastforce
  have "list_all plain_tenant_call [CallRegisterObject example_object]" by (simp add: example_object_def)
  from scan_log_complete [OF _ this, of "[]", OF _ refl] q show ?thesis
    by (fastforce simp: AuditLedger_def NewScanResolver_def)
qed

subsection \<open>Where the code falls short\<close>

lemmas scan_eval = snd_Resolve scan_decision_allowed known_caller_def example_scan_def scan_key_def may_resolve_def required_permission_def
  example_object_def example_compact_parsed RegisterObject_def NewScanResolver_def ValidObjectTypePrefixes_def HasPrefix_def

text \<open>
  The result carries the record of the log with its internal diagnostic: a caller who reads it tells an object that does not exist from one
  that is archived.
\<close>

theorem denial_record_tells_existence:
  "\<exists>r r' q q'. r = NewScanResolver NewProvisionalAuthorizationMatrix \<and>
     r' = run_calls scan_exec [CallRegisterObject (example_object\<lparr>sn_LifecycleState := ResourceArchived\<rparr>)] r \<and>
     q = snd (Resolve example_env (example_scan RoleInspector ''oshe:ten_1:equipment:eqp_7'') 9 r) \<and>
     q' = snd (Resolve example_env (example_scan RoleInspector ''oshe:ten_1:equipment:eqp_7'') 9 r') \<and>
     visible_result q = visible_result q' \<and> su_InternalDiagnostic (sr_Audit q) \<noteq> su_InternalDiagnostic (sr_Audit q')"
  by (simp add: scan_eval scan_decision_visible visible_result_def scan_decision_def scan_denied_def scan_audit_def Let_def)

text \<open>An expiry that is no number is dropped, so the payload never expires.\<close>

theorem unreadable_expiry_ignored:
  "\<exists>p. ParseScan example_env ''oshe://ten_1/equipment/eqp_7?exp=soon'' = Inr p \<and> \<not> sp_HasExpiry p"
  by (simp add: ParseScan_def parseURIScheme_def typed_id_def ValidObjectTypePrefixes_def traversal_def HasPrefix_def ScanSchemeURI_def
      example_env_def slash_trim_def with_expiry_def ParseInt64_def digit_char_def Let_def)

text \<open>The action that the caller names replaces the permission that the object requires, instead of adding to it.\<close>

theorem action_replaces_requirement:
  "\<exists>r ctx. r = run_calls scan_exec [CallRegisterObject (example_object\<lparr>sn_RequiredPermission := PermAuditExport\<rparr>)]
       (NewScanResolver NewProvisionalAuthorizationMatrix) \<and> ctx = example_scan RoleInspector ''oshe:ten_1:equipment:eqp_7'' \<and>
     \<not> sr_Allowed (snd (Resolve example_env ctx 9 r)) \<and> sr_Allowed (snd (Resolve example_env (ctx\<lparr>sx_Action := PermInspectionRead\<rparr>) 9 r))"
proof -
  have "\<not> RoleHasPermission RoleInspector PermAuditExport NewProvisionalAuthorizationMatrix" by code_simp
  then show ?thesis using example_may_read_inspections by (simp add: scan_eval)
qed

text \<open>The project where the caller is active is never compared with the one of the object.\<close>

theorem active_project_unchecked:
  "\<exists>r ctx q obj. r = run_calls scan_exec [CallRegisterObject example_object] (NewScanResolver NewProvisionalAuthorizationMatrix) \<and>
     ctx = example_scan RoleInspector ''oshe:ten_1:equipment:eqp_7'' \<and> q = snd (Resolve example_env ctx 9 r) \<and> sr_Allowed q \<and>
     sv_objects r ''ten_1:eqp_7'' = Some obj \<and> sn_ProjectID obj \<noteq> sx_ActiveProject ctx"
  using example_scan_allowed [of example_env] example_object_registered(1)
  by (simp add: example_scan_def example_object_def del: run_calls.simps)

text \<open>
  Keys join tenant and identifier with a colon. A caller of tenant \<open>ten_1\<close> resolves the site \<open>ste_2\<close> of tenant \<open>ten_1:eqp_1\<close> as the
  equipment \<open>eqp_1:ste_2\<close>.
\<close>

theorem scan_key_crosses_tenants:
  "\<exists>env r q obj. r = run_calls scan_exec [CallRegisterObject (example_object\<lparr>sn_TenantID := ''ten_1:eqp_1'', sn_ObjectType := ScannableSite,
        sn_ObjectID := ''ste_2''\<rparr>)] (NewScanResolver NewProvisionalAuthorizationMatrix) \<and>
     q = snd (Resolve env (example_scan RoleInspector ''oshe://ten_1/equipment/eqp_1:ste_2'') 9 r) \<and>
     sr_ResolvedObject q = Some obj \<and> sn_TenantID obj \<noteq> ''ten_1''"
proof -
  let ?env = "example_env\<lparr>se_Parse := \<lambda>_. Some \<lparr>ur_Scheme = ''oshe'', ur_Host = ''ten_1'', ur_Path = ''/equipment/eqp_1:ste_2'', ur_Get = \<lambda>_. []\<rparr>\<rparr>"
  let ?r = "run_calls scan_exec [CallRegisterObject (example_object\<lparr>sn_TenantID := ''ten_1:eqp_1'', sn_ObjectType := ScannableSite,
        sn_ObjectID := ''ste_2''\<rparr>)] (NewScanResolver NewProvisionalAuthorizationMatrix)"
  let ?ctx = "example_scan RoleInspector ''oshe://ten_1/equipment/eqp_1:ste_2''"
  have parsed: "ParseScan ?env ''oshe://ten_1/equipment/eqp_1:ste_2'' =
      Inr \<lparr>sp_Raw = ''oshe://ten_1/equipment/eqp_1:ste_2'', sp_TenantID = ''ten_1'', sp_ObjectType = ScannableEquipment,
        sp_ObjectID = ''eqp_1:ste_2'', sp_Token = [], sp_ExpiresAt = 0, sp_HasExpiry = False\<rparr>"
    by (simp add: ParseScan_def parseURIScheme_def typed_id_def ValidObjectTypePrefixes_def traversal_def HasPrefix_def ScanSchemeURI_def
        slash_trim_def with_expiry_def Let_def)
  have raw: "sx_RawScan ?ctx = ''oshe://ten_1/equipment/eqp_1:ste_2''" "id_TenantID (sx_Identity ?ctx) = ''ten_1''"
    by (simp_all add: example_scan_def)
  have obj: "sv_objects ?r ''ten_1:eqp_1:ste_2'' = Some (example_object\<lparr>sn_TenantID := ''ten_1:eqp_1'', sn_ObjectType := ScannableSite,
        sn_ObjectID := ''ste_2''\<rparr>)" by (simp add: scan_eval)
  have "sr_Allowed (scan_decision ?env ?ctx (scan_time ?ctx 9) ?r)"
    using example_may_read_inspections parsed obj example_object_registered(2)
    unfolding scan_decision_allowed raw
    by (simp add: known_caller_def example_scan_def scan_key_def may_resolve_def required_permission_def example_object_def del: run_calls.simps)
  from scan_decision_object [OF this, unfolded raw, OF parsed] obj show ?thesis
    by - (rule exI [of _ ?env], rule exI [of _ ?r], rule exI, rule exI, intro conjI, rule refl, rule refl,
      auto simp: snd_Resolve scan_key_def simp del: run_calls.simps)
qed

end
