(* ===== verification/Contract_Registry.thy ===== *)
theory Contract_Registry
  imports Go_Strings
begin

text \<open>
  The registry of owned contracts, \<open>modules/contract-migration-governance/registry.go\<close>: semantic versions, contract records, registration
  with monotone versions, and the evaluation of compatibility between two revisions. Digests are compared in lower case as far as they are
  hexadecimal, which is all that passes.
\<close>

subsection \<open>Versions\<close>

datatype contract_error =
  ErrEmptyContractName | ErrInvalidContractKind | ErrEmptyOwner | ErrInvalidDigest | ErrVersionConflict | ErrVersionRegression
| ErrContractNotFound | ErrInvalidSemVer
| ErrBlankMetadata | ErrDuplicateOwnership | ErrCrossModuleMutationDenied | ErrUnknownDependency | ErrIncompatibleWithoutMigrationPath
| ErrInvalidCompatibilityDirection | ErrInvalidMigrationPath

datatype ContractKind = KindAPI | KindEvent | KindSchema | KindOther string

fun kind_text :: "ContractKind \<Rightarrow> string" where
  "kind_text KindAPI = ''API''"
| "kind_text KindEvent = ''EVENT''"
| "kind_text KindSchema = ''SCHEMA''"
| "kind_text (KindOther s) = s"

fun Kind_Validate :: "ContractKind \<Rightarrow> contract_error option" where
  "Kind_Validate (KindOther s) = Some ErrInvalidContractKind"
| "Kind_Validate _ = None"

datatype SemVer = SemVer (Major: int) (Minor: int) (Patch: int)

definition SemVer_String :: "SemVer \<Rightarrow> string" where
  "SemVer_String v = FormatInt (Major v) @ ''.'' @ FormatInt (Minor v) @ ''.'' @ FormatInt (Patch v)"

definition version_part :: "string \<Rightarrow> contract_error + int" where
  "version_part s = (case ParseInt64 s of None \<Rightarrow> Inl ErrInvalidSemVer | Some n \<Rightarrow> if n < 0 then Inl ErrInvalidSemVer else Inr n)"

definition ParseSemVer :: "string \<Rightarrow> contract_error + SemVer" where
  "ParseSemVer s =
     (case Split (CHR ''.'') (TrimSpace s) of
        [a, b, c] \<Rightarrow>
          (case version_part a of Inl e \<Rightarrow> Inl e | Inr major \<Rightarrow>
             case version_part b of Inl e \<Rightarrow> Inl e | Inr minor \<Rightarrow>
               case version_part c of Inl e \<Rightarrow> Inl e | Inr patch \<Rightarrow> Inr (SemVer major minor patch))
      | _ \<Rightarrow> Inl ErrInvalidSemVer)"

definition Compare :: "SemVer \<Rightarrow> SemVer \<Rightarrow> int" where
  "Compare v other =
     (if Major v \<noteq> Major other then (if Major v < Major other then -1 else 1)
      else if Minor v \<noteq> Minor other then (if Minor v < Minor other then -1 else 1)
      else if Patch v \<noteq> Patch other then (if Patch v < Patch other then -1 else 1)
      else 0)"

subsection \<open>Records and the registry\<close>

record ContractRecord =
  ct_Name :: string
  ct_Kind :: ContractKind
  ct_Owner :: string
  ct_Version :: SemVer
  ct_Digest :: string
  ct_BackwardCompatible :: bool

definition digest_error :: "string \<Rightarrow> contract_error option" where
  "digest_error digest =
     (let d = TrimSpace digest in
      if length d \<noteq> 64 then Some ErrInvalidDigest
      else if \<not> hex_decodable d then Some ErrInvalidDigest
      else if ToLower d \<noteq> d then Some ErrInvalidDigest
      else None)"

definition Contract_Validate :: "ContractRecord \<Rightarrow> contract_error option" where
  "Contract_Validate c =
     (if TrimSpace (ct_Name c) = [] then Some ErrEmptyContractName
      else case Kind_Validate (ct_Kind c) of Some e \<Rightarrow> Some e | None \<Rightarrow>
        if TrimSpace (ct_Owner c) = [] then Some ErrEmptyOwner
        else digest_error (ct_Digest c))"

record CompatibilityOutcome =
  co_Decision :: string
  co_RequiresMigration :: bool
  co_MigrationRequirement :: string
  co_Reason :: string

type_synonym ContractRegistry = "string \<rightharpoonup> ContractRecord list"

definition NewContractRegistry :: ContractRegistry where
  "NewContractRegistry = Map.empty"

definition contractKey :: "string \<Rightarrow> ContractKind \<Rightarrow> string" where
  "contractKey name kind = TrimSpace name @ [CHR 0x00] @ kind_text kind"

definition norm_record :: "ContractRecord \<Rightarrow> ContractRecord" where
  "norm_record rec = rec\<lparr>ct_Name := TrimSpace (ct_Name rec), ct_Owner := TrimSpace (ct_Owner rec), ct_Digest := TrimSpace (ct_Digest rec)\<rparr>"

definition Contract_Register :: "ContractRecord \<Rightarrow> ContractRegistry \<Rightarrow> (ContractRegistry, contract_error, unit) outcome" where
  "Contract_Register rec r =
     (case Contract_Validate rec of Some e \<Rightarrow> (r, Inl e) | None \<Rightarrow>
        let normRec = norm_record rec; key = contractKey (ct_Name normRec) (ct_Kind normRec) in
        case r key of
          None \<Rightarrow> (r(key \<mapsto> [normRec]), Inr ())
        | Some [] \<Rightarrow> (r(key \<mapsto> [normRec]), Inr ())
        | Some (x # xs) \<Rightarrow>
            let history = x # xs in
            case find (\<lambda>existing. Compare (ct_Version existing) (ct_Version normRec) = 0) history of
              Some existing \<Rightarrow>
                if ct_Owner existing = ct_Owner normRec \<and> ct_Digest existing = ct_Digest normRec \<and>
                   ct_BackwardCompatible existing = ct_BackwardCompatible normRec
                then (r, Inr ()) else (r, Inl ErrVersionConflict)
            | None \<Rightarrow>
                if Compare (ct_Version normRec) (ct_Version (last history)) \<le> 0 then (r, Inl ErrVersionRegression)
                else (r(key \<mapsto> history @ [normRec]), Inr ()))"

definition outcome_migration :: "string \<Rightarrow> string \<Rightarrow> CompatibilityOutcome" where
  "outcome_migration requirement reason =
     \<lparr>co_Decision = ''MIGRATION_REQUIRED'', co_RequiresMigration = True, co_MigrationRequirement = requirement, co_Reason = reason\<rparr>"

definition outcome_compatible :: "string \<Rightarrow> CompatibilityOutcome" where
  "outcome_compatible reason =
     \<lparr>co_Decision = ''COMPATIBLE'', co_RequiresMigration = False, co_MigrationRequirement = [], co_Reason = reason\<rparr>"

definition EvaluateCompatibility :: "ContractRecord \<Rightarrow> ContractRecord \<Rightarrow> CompatibilityOutcome" where
  "EvaluateCompatibility existing candidate =
     (let from = SemVer_String (ct_Version existing); to = SemVer_String (ct_Version candidate) in
      if ct_Name existing \<noteq> ct_Name candidate \<or> ct_Kind existing \<noteq> ct_Kind candidate
      then outcome_migration
             (''contract identity mismatch between '' @ kind_text (ct_Kind existing) @ '':'' @ ct_Name existing @ '' and '' @
              kind_text (ct_Kind candidate) @ '':'' @ ct_Name candidate)
             ''cannot evaluate compatibility across different contracts or kinds''
      else if ct_Owner existing \<noteq> ct_Owner candidate
      then outcome_migration
             (''ownership transfer from '' @ Quote (ct_Owner existing) @ '' to '' @ Quote (ct_Owner candidate) @
              '' requires governance migration approval'')
             ''contract owner transfer requires explicit migration review''
      else if Compare (ct_Version existing) (ct_Version candidate) = 0 \<and> ct_Digest existing = ct_Digest candidate
      then outcome_compatible ''identical contract version and content digest''
      else if Compare (ct_Version candidate) (ct_Version existing) < 0
      then outcome_migration (''candidate version '' @ to @ '' is a regression from '' @ from)
             ''version regression is not permitted without recovery migration''
      else if Major (ct_Version existing) < Major (ct_Version candidate)
      then outcome_migration (''major version transition from '' @ from @ '' to '' @ to @ '' requires breaking-change migration plan'')
             ''major version increment introduces non-backward-compatible changes''
      else if Major (ct_Version candidate) = Major (ct_Version existing)
      then (if ct_BackwardCompatible candidate
            then outcome_compatible (''monotonic version upgrade from '' @ from @ '' to '' @ to @ '' explicitly marked backward-compatible'')
            else outcome_migration
                   (''minor/patch progression from '' @ from @ '' to '' @ to @
                    '' lacking backward-compatibility certification requires consumer migration'')
                   ''non-backward-compatible minor or patch modification'')
      else outcome_migration ''unclassified contract state change requires manual migration review'' ''unhandled compatibility state'')"

definition Contract_GetLatest :: "string \<Rightarrow> ContractKind \<Rightarrow> ContractRegistry \<Rightarrow> contract_error + ContractRecord" where
  "Contract_GetLatest name kind r =
     (case r (contractKey name kind) of
        None \<Rightarrow> Inl ErrContractNotFound
      | Some history \<Rightarrow> if history = [] then Inl ErrContractNotFound else Inr (last history))"

definition Contract_GetVersion :: "string \<Rightarrow> ContractKind \<Rightarrow> SemVer \<Rightarrow> ContractRegistry \<Rightarrow> contract_error + ContractRecord" where
  "Contract_GetVersion name kind version r =
     (case r (contractKey name kind) of
        None \<Rightarrow> Inl ErrContractNotFound
      | Some history \<Rightarrow>
          (case find (\<lambda>rec. Compare (ct_Version rec) version = 0) history of None \<Rightarrow> Inl ErrContractNotFound | Some rec \<Rightarrow> Inr rec))"

definition Contract_List :: "string \<Rightarrow> ContractKind \<Rightarrow> ContractRegistry \<Rightarrow> ContractRecord list" where
  "Contract_List name kind r = (case r (contractKey name kind) of None \<Rightarrow> [] | Some history \<Rightarrow> history)"

subsection \<open>Versions are linearly ordered\<close>

instantiation SemVer :: linorder
begin

definition less_eq_SemVer :: "SemVer \<Rightarrow> SemVer \<Rightarrow> bool" where
  "less_eq_SemVer v w \<longleftrightarrow> Compare v w \<le> 0"

definition less_SemVer :: "SemVer \<Rightarrow> SemVer \<Rightarrow> bool" where
  "less_SemVer v w \<longleftrightarrow> Compare v w < 0"

instance
  by standard (auto simp: less_eq_SemVer_def less_SemVer_def Compare_def SemVer.expand split: if_splits)

end

lemma Compare_order:
  "Compare v w < 0 \<longleftrightarrow> v < w" "Compare v w \<le> 0 \<longleftrightarrow> v \<le> w" "Compare v w = 0 \<longleftrightarrow> v = w" "0 \<le> Compare v w \<longleftrightarrow> w \<le> v"
  by (auto simp: less_eq_SemVer_def less_SemVer_def Compare_def SemVer.expand)

lemma Major_mono: "v \<le> w \<Longrightarrow> Major v \<le> Major w"
  by (auto simp: less_eq_SemVer_def Compare_def split: if_splits)

lemma Compare_example [simp]:
  "Compare (SemVer a b c) (SemVer a' b' c') =
     (if a \<noteq> a' then (if a < a' then -1 else 1) else if b \<noteq> b' then (if b < b' then -1 else 1) else if c \<noteq> c' then (if c < c' then -1 else 1) else 0)"
  by (simp add: Compare_def)

subsection \<open>Histories of versions, as their clients see them\<close>

lemma find_append_Some: "find P xs = Some x \<Longrightarrow> find P (xs @ ys) = Some x"
  by (induction xs) (auto split: if_splits)

text \<open>
  A registry with one history per key that only grows and whose versions increase. A version that is found stays what it is, and the last
  entry is the greatest.
\<close>

locale version_store = journaled exec inv ok journal
  for exec :: "'c \<Rightarrow> 's \<Rightarrow> 's \<times> ('e + 'r)" and inv :: "'s \<Rightarrow> bool" and ok :: "'c \<Rightarrow> bool" and journal :: "'k \<Rightarrow> 's \<Rightarrow> 'j list" +
  fixes version :: "'j \<Rightarrow> SemVer"
  assumes increasing: "inv s \<Longrightarrow> sorted_wrt (<) (map version (journal k s))"
begin

lemma found_stays:
  assumes "inv s" and "list_all ok cs" and "find P (journal k s) = Some x"
  shows "find P (journal k (run_calls exec cs s)) = Some x"
proof -
  from run_journal [OF assms(1,2), of k] obtain zs where "journal k (run_calls exec cs s) = journal k s @ zs" by (auto simp: prefix_def)
  with assms(3) show ?thesis by (simp add: find_append_Some)
qed

lemma sorted_find:
  "sorted_wrt (<) (map version xs) \<Longrightarrow> x \<in> set xs \<Longrightarrow> find (\<lambda>y. Compare (version y) (version x) = 0) xs = Some x"
  by (induction xs) (auto simp: Compare_order)

lemma stored_found:
  "inv s \<Longrightarrow> x \<in> set (journal k s) \<Longrightarrow> find (\<lambda>y. Compare (version y) (version x) = 0) (journal k s) = Some x"
  using increasing sorted_find by blast

lemma sorted_last: "sorted_wrt (<) (map version xs) \<Longrightarrow> x \<in> set xs \<Longrightarrow> version x \<le> version (last xs)"
  by (induction xs) (auto simp: less_imp_le)

lemma last_greatest: "inv s \<Longrightarrow> x \<in> set (journal k s) \<Longrightarrow> version x \<le> version (last (journal k s))"
  using increasing sorted_last by blast

end

subsection \<open>The registry keeps its histories\<close>

definition history_at :: "('k \<rightharpoonup> 'v list) \<Rightarrow> 'k \<Rightarrow> 'v list" where
  "history_at r k = (case r k of None \<Rightarrow> [] | Some h \<Rightarrow> h)"

definition contract_inv :: "ContractRegistry \<Rightarrow> bool" where
  "contract_inv r \<longleftrightarrow>
     (\<forall>k. sorted_wrt (<) (map ct_Version (history_at r k)) \<and>
        (\<forall>c\<in>set (history_at r k). Contract_Validate c = None \<and> norm_record c = c \<and> k = contractKey (ct_Name c) (ct_Kind c)))"

lemma contract_invD:
  "contract_inv r \<Longrightarrow> c \<in> set (history_at r k) \<Longrightarrow>
     Contract_Validate c = None \<and> norm_record c = c \<and> k = contractKey (ct_Name c) (ct_Kind c)"
  by (simp add: contract_inv_def)

lemma norm_record_valid: "Contract_Validate c = None \<Longrightarrow> Contract_Validate (norm_record c) = None"
  by (auto simp: Contract_Validate_def norm_record_def digest_error_def Let_def split: if_splits option.splits)

lemma norm_record_fields [simp]:
  "ct_Version (norm_record c) = ct_Version c" "ct_Kind (norm_record c) = ct_Kind c" "ct_BackwardCompatible (norm_record c) = ct_BackwardCompatible c"
  "ct_Name (norm_record c) = TrimSpace (ct_Name c)" "ct_Owner (norm_record c) = TrimSpace (ct_Owner c)" "norm_record (norm_record c) = norm_record c"
  by (simp_all add: norm_record_def)

lemma contractKey_trim [simp]: "contractKey (TrimSpace name) kind = contractKey name kind"
  by (simp add: contractKey_def)

lemma kind_text_plain: "Kind_Validate k = None \<Longrightarrow> CHR 0x00 \<notin> set (kind_text k)"
  by (cases k) auto

lemma kind_text_inject: "Kind_Validate k = None \<Longrightarrow> Kind_Validate k' = None \<Longrightarrow> kind_text k = kind_text k' \<longleftrightarrow> k = k'"
  by (cases k; cases k') auto

lemma infix_mem: "xs @ x # ys = zs \<Longrightarrow> x \<in> set zs"
  by auto

lemma contractKey_inject:
  assumes "Kind_Validate k = None" and "Kind_Validate k' = None"
  shows "contractKey n k = contractKey n' k' \<longleftrightarrow> TrimSpace n = TrimSpace n' \<and> k = k'"
  using kind_text_plain [OF assms(1)] kind_text_plain [OF assms(2)] kind_text_inject [OF assms]
  by (auto simp: contractKey_def append_eq_append_conv2 Cons_eq_append_conv append_eq_Cons_conv dest!: infix_mem)

lemma Contract_Validate_kind: "Contract_Validate c = None \<Longrightarrow> Kind_Validate (ct_Kind c) = None"
  by (auto simp: Contract_Validate_def split: if_splits option.splits)

text \<open>Three outcomes: a record that is there already, a new greatest version, or an error without effect.\<close>

lemma Contract_Register_cases:
  assumes "Contract_Register rec r = (r', res)" and "contract_inv r" and "k = contractKey (ct_Name rec) (ct_Kind rec)"
  obtains (same) "norm_record rec \<in> set (history_at r k)" "r' = r" "res = Inr ()"
  | (new) "Contract_Validate rec = None" "res = Inr ()" "r' = r(k \<mapsto> history_at r k @ [norm_record rec])"
      "history_at r k \<noteq> [] \<longrightarrow> ct_Version (last (history_at r k)) < ct_Version rec"
  | (error) e where "r' = r" "res = Inl e"
proof (cases "Contract_Validate rec")
  case valid: None
  note key = assms(3)
  show thesis
  proof (cases "history_at r k")
    case Nil
    with assms(1) valid have "r' = r(k \<mapsto> [norm_record rec]) \<and> res = Inr ()"
      by (auto simp: key Contract_Register_def history_at_def Let_def split: option.splits)
    with Nil valid show thesis by (intro new) auto
  next
    case (Cons x xs)
    then have h: "r (contractKey (ct_Name rec) (ct_Kind rec)) = Some (x # xs)" by (auto simp: key history_at_def split: option.splits)
    show thesis
    proof (cases "find (\<lambda>c. Compare (ct_Version c) (ct_Version rec) = 0) (x # xs)")
      case None
      show thesis
      proof (cases "ct_Version rec \<le> ct_Version (last (x # xs))")
        case True
        with assms(1) valid h None have "r' = r" "res = Inl ErrVersionRegression"
          by (simp_all add: Contract_Register_def Let_def Compare_order del: find.simps last.simps)
        then show thesis by (rule error)
      next
        case False
        with assms(1) valid h None have "r' = r(k \<mapsto> (x # xs) @ [norm_record rec])" "res = Inr ()"
          by (simp_all add: key Contract_Register_def Let_def Compare_order del: find.simps last.simps)
        with False valid Cons show thesis by (intro new) simp_all
      qed
    next
      case (Some c)
      then have c: "c \<in> set (history_at r k)" "ct_Version c = ct_Version rec" using find_SomeD [OF Some] unfolding Cons by (simp_all add: Compare_order)
      from contract_invD [OF assms(2) c(1)] have inv: "Contract_Validate c = None" "norm_record c = c"
          "contractKey (ct_Name rec) (ct_Kind rec) = contractKey (ct_Name c) (ct_Kind c)" by (simp_all add: key)
      have "ct_Name c = TrimSpace (ct_Name rec) \<and> ct_Kind c = ct_Kind rec"
        using inv contractKey_inject [OF Contract_Validate_kind [OF valid] Contract_Validate_kind [OF inv(1)]]
        by (metis norm_record_fields(4))
      moreover from Some assms(1) valid h have "r' = r"
          "res = (if ct_Owner c = ct_Owner (norm_record rec) \<and> ct_Digest c = ct_Digest (norm_record rec) \<and>
             ct_BackwardCompatible c = ct_BackwardCompatible rec then Inr () else Inl ErrVersionConflict)"
        by (auto simp: Contract_Register_def Let_def simp del: find.simps split: if_splits)
      moreover have "c = norm_record rec" if "ct_Owner c = ct_Owner (norm_record rec)" "ct_Digest c = ct_Digest (norm_record rec)"
          "ct_BackwardCompatible c = ct_BackwardCompatible rec"
        using that c(2) calculation(1) by simp
      ultimately show thesis using same error c(1) by (metis (full_types))
    qed
  qed
next
  case (Some e)
  with assms(1) have "r' = r" "res = Inl e" by (simp_all add: Contract_Register_def)
  then show thesis by (rule error)
qed

lemma history_at_update: "history_at (r(k \<mapsto> h)) k' = (if k' = k then h else history_at r k')"
  by (simp add: history_at_def)

lemma sorted_snoc:
  "sorted_wrt (<) (map f xs) \<Longrightarrow> (xs \<noteq> [] \<Longrightarrow> f (last xs) < f x) \<Longrightarrow> sorted_wrt (<) (map f (xs @ [x]) :: 'a :: linorder list)"
proof (induction xs)
  case (Cons a xs)
  have "f y < f x" if "y \<in> set (a # xs)" for y
  proof -
    have "f y \<le> f (last (a # xs))"
      using Cons.prems(1) that by (induction xs arbitrary: a) (auto simp: less_imp_le)
    also have "\<dots> < f x" using Cons.prems(2) by simp
    finally show ?thesis .
  qed
  with Cons.prems(1) show ?case by (simp add: sorted_wrt_append)
qed simp

lemma Contract_Register_inv:
  assumes "contract_inv r"
  shows "contract_inv (fst (Contract_Register rec r)) \<and> prefix (history_at r k) (history_at (fst (Contract_Register rec r)) k)"
proof -
  obtain r' res where out: "Contract_Register rec r = (r', res)" by fastforce
  from out assms refl show ?thesis
  proof (cases rule: Contract_Register_cases)
    case new
    note inv = assms [unfolded contract_inv_def, rule_format]
    let ?k = "contractKey (ct_Name rec) (ct_Kind rec)"
    have "sorted_wrt (<) (map ct_Version (history_at r ?k @ [norm_record rec]))"
      using inv [of ?k] new(4) by (intro sorted_snoc) auto
    then have "contract_inv r'"
      using inv norm_record_valid [OF new(1)] unfolding new(3) contract_inv_def history_at_update by auto
    then show ?thesis using out new(3) by (simp add: history_at_update)
  qed (use out assms in simp_all)
qed

interpretation contracts: version_store Contract_Register contract_inv "\<lambda>_. True" "\<lambda>k r. history_at r k" ct_Version
proof
  show "contract_inv s \<Longrightarrow> sorted_wrt (<) (map ct_Version (history_at s k))" for s k by (simp add: contract_inv_def)
qed (simp_all add: Contract_Register_inv)

interpretation contracts_closed: fail_closed Contract_Register
proof
  fix c s s' e
  assume "Contract_Register c s = (s', Inl e)"
  then show "s' = s"
    by (auto simp: Contract_Register_def Let_def simp del: find.simps split: option.splits list.splits if_splits)
qed

lemma contracts_start: "contract_inv NewContractRegistry"
  by (simp add: contract_inv_def NewContractRegistry_def history_at_def)

lemma reachable_contracts: "contract_inv (run_calls Contract_Register cs NewContractRegistry)"
  by (rule contracts.run_inv [OF contracts_start]) simp

lemma Contract_GetVersion_history:
  "Contract_GetVersion name kind v r =
     (case find (\<lambda>rec. Compare (ct_Version rec) v = 0) (history_at r (contractKey name kind)) of
        None \<Rightarrow> Inl ErrContractNotFound | Some rec \<Rightarrow> Inr rec)"
  by (simp add: Contract_GetVersion_def history_at_def split: option.split)

lemma Contract_GetLatest_history:
  "Contract_GetLatest name kind r =
     (if history_at r (contractKey name kind) = [] then Inl ErrContractNotFound else Inr (last (history_at r (contractKey name kind))))"
  by (simp add: Contract_GetLatest_def history_at_def split: option.split)

lemma Contract_List_history: "Contract_List name kind r = history_at r (contractKey name kind)"
  by (simp add: Contract_List_def history_at_def)

lemma registered_stored:
  assumes "Contract_Register rec r = (r', Inr ())" and "contract_inv r"
  shows "norm_record rec \<in> set (history_at r' (contractKey (ct_Name rec) (ct_Kind rec)))"
  using assms(1,2) refl by (cases rule: Contract_Register_cases) (auto simp: history_at_update)

subsection \<open>What registration and evaluation promise\<close>

definition example_contract :: "SemVer \<Rightarrow> char \<Rightarrow> ContractRecord" where
  "example_contract v c =
     \<lparr>ct_Name = ''findings'', ct_Kind = KindAPI, ct_Owner = ''workflow'', ct_Version = v, ct_Digest = replicate 64 c, ct_BackwardCompatible = True\<rparr>"

lemma example_trim: "graphic c \<Longrightarrow> TrimSpace (replicate 64 c) = replicate 64 c"
  by (intro TrimSpace_all_graphic) (simp add: list_all_iff)

lemma example_digest: "graphic c \<Longrightarrow> hex_byte c \<Longrightarrow> lower_byte c = c \<Longrightarrow> digest_error (replicate 64 c) = None"
  by (simp add: digest_error_def example_trim hex_decodable_def list_all_iff ToLower_def)

lemma example_digits: "hex_byte (CHR ''a'')" "hex_byte (CHR ''b'')" "lower_byte (CHR ''a'') = CHR ''a''" "lower_byte (CHR ''b'') = CHR ''b''"
  by code_simp+

lemmas contract_eval = Contract_Register_def Contract_Validate_def example_digest example_trim example_digits example_contract_def norm_record_def
  NewContractRegistry_def

text \<open>
  A registered version is there for good: after any further registrations the same record is found under name, kind and version, the latest
  version is at least that one, registering it again succeeds without effect, and registering the version with another owner, digest or
  compatibility flag is refused without effect.
\<close>

theorem registered_version_permanent:
  assumes "r = run_calls Contract_Register cs NewContractRegistry" and "Contract_Register rec r = (r', Inr ())"
    and "s = run_calls Contract_Register ds r'"
  shows "Contract_GetVersion (ct_Name rec) (ct_Kind rec) (ct_Version rec) s = Inr (norm_record rec) \<and>
    (\<exists>latest. Contract_GetLatest (ct_Name rec) (ct_Kind rec) s = Inr latest \<and> ct_Version rec \<le> ct_Version latest) \<and>
    prefix (Contract_List (ct_Name rec) (ct_Kind rec) r') (Contract_List (ct_Name rec) (ct_Kind rec) s) \<and>
    (Contract_Validate other = None \<and> contractKey (ct_Name other) (ct_Kind other) = contractKey (ct_Name rec) (ct_Kind rec) \<and>
       ct_Version other = ct_Version rec \<longrightarrow>
     Contract_Register other s = (s, if norm_record other = norm_record rec then Inr () else Inl ErrVersionConflict))"
proof -
  let ?k = "contractKey (ct_Name rec) (ct_Kind rec)"
  have inv: "contract_inv r" using reachable_contracts assms(1) by simp
  have inv': "contract_inv r'" using Contract_Register_inv [OF inv, of rec] assms(2) by simp
  have "norm_record rec \<in> set (history_at r' ?k)" by (rule registered_stored [OF assms(2) inv])
  from contracts.stored_found [OF inv' this] have "find (\<lambda>y. Compare (ct_Version y) (ct_Version rec) = 0) (history_at r' ?k) = Some (norm_record rec)"
    by simp
  from contracts.found_stays [OF inv' _ this, of ds]
  have found: "find (\<lambda>y. Compare (ct_Version y) (ct_Version rec) = 0) (history_at s ?k) = Some (norm_record rec)" by (simp add: assms(3))
  have inv_s: "contract_inv s" unfolding assms(3) by (rule contracts.run_inv [OF inv']) simp
  from find_SomeD [OF found] have stored: "norm_record rec \<in> set (history_at s ?k)" by simp
  have "Contract_Register other s = (s, if norm_record other = norm_record rec then Inr () else Inl ErrVersionConflict)"
    if other: "Contract_Validate other = None" "contractKey (ct_Name other) (ct_Kind other) = ?k" "ct_Version other = ct_Version rec"
  proof -
    obtain x xs where h: "s ?k = Some (x # xs)" "history_at s ?k = x # xs"
      using stored by (cases "s ?k"; cases "history_at s ?k") (auto simp: history_at_def)
    have kind: "Kind_Validate (ct_Kind rec) = None"
      using Contract_Validate_kind [of "norm_record rec"] contract_invD [OF inv_s stored] by simp
    have same: "TrimSpace (ct_Name other) = TrimSpace (ct_Name rec) \<and> ct_Kind other = ct_Kind rec"
      using contractKey_inject [OF Contract_Validate_kind [OF other(1)] kind] other(2) by simp
    have "norm_record other = norm_record rec \<longleftrightarrow>
        ct_Owner (norm_record rec) = ct_Owner (norm_record other) \<and> ct_Digest (norm_record rec) = ct_Digest (norm_record other) \<and>
        ct_BackwardCompatible (norm_record rec) = ct_BackwardCompatible (norm_record other)" (is "?l \<longleftrightarrow> ?r")
    proof
      assume ?l
      then show ?r by (simp only:)
    next
      assume ?r
      with same other(3) show ?l by (intro ContractRecord.equality) simp_all
    qed
    then show ?thesis
      using other h found by (simp add: Contract_Register_def Let_def del: find.simps norm_record_fields(3,5))
  qed
  moreover have "\<exists>latest. Contract_GetLatest (ct_Name rec) (ct_Kind rec) s = Inr latest \<and> ct_Version rec \<le> ct_Version latest"
    using contracts.last_greatest [OF inv_s stored] stored by (auto simp: Contract_GetLatest_history)
  moreover have "prefix (history_at r' ?k) (history_at s ?k)" unfolding assms(3) by (rule contracts.run_journal [OF inv']) simp
  ultimately show ?thesis using found by (simp add: Contract_GetVersion_history Contract_List_history)
qed

theorem registered_version_permanent_witness:
  "\<exists>r'. Contract_Register (example_contract (SemVer 1 0 0) (CHR ''a'')) NewContractRegistry = (r', Inr ()) \<and>
     (\<exists>r''. Contract_Register (example_contract (SemVer 1 2 0) (CHR ''b'')) r' = (r'', Inr ()) \<and>
        Contract_GetVersion ''findings'' KindAPI (SemVer 1 0 0) r'' = Inr (example_contract (SemVer 1 0 0) (CHR ''a'')))"
proof -
  let ?one = "example_contract (SemVer 1 0 0) (CHR ''a'')" and ?two = "example_contract (SemVer 1 2 0) (CHR ''b'')"
  let ?k = "contractKey ''findings'' KindAPI"
  have one: "Contract_Register ?one NewContractRegistry = ([?k \<mapsto> [?one]], Inr ())" by (simp add: contract_eval Let_def)
  have two: "Contract_Register ?two [?k \<mapsto> [?one]] = ([?k \<mapsto> [?one, ?two]], Inr ())" by (simp add: contract_eval Let_def)
  have "Contract_GetVersion ''findings'' KindAPI (SemVer 1 0 0) [?k \<mapsto> [?one, ?two]] = Inr ?one"
    using registered_version_permanent [of NewContractRegistry "[]" ?one _ _ "[?two]", OF _ one refl] two
    by (simp add: example_contract_def norm_record_def example_trim)
  with one two show ?thesis by blast
qed

text \<open>
  The latest record of a contract is one of its records, valid and of that name and kind, and no registered version is greater; the versions
  that are listed increase.
\<close>

theorem latest_contract_greatest:
  assumes "r = run_calls Contract_Register cs NewContractRegistry" and "Contract_GetLatest name kind r = Inr c" and "Kind_Validate kind = None"
  shows "c \<in> set (Contract_List name kind r) \<and> ct_Name c = TrimSpace name \<and> ct_Kind c = kind \<and> Contract_Validate c = None \<and>
    sorted_wrt (<) (map ct_Version (Contract_List name kind r)) \<and> (\<forall>x\<in>set (Contract_List name kind r). ct_Version x \<le> ct_Version c)"
proof -
  let ?h = "history_at r (contractKey name kind)"
  have inv: "contract_inv r" using reachable_contracts assms(1) by simp
  from assms(2) have c: "?h \<noteq> []" "c = last ?h" by (auto simp: Contract_GetLatest_history split: if_splits)
  then have stored: "c \<in> set ?h" by simp
  have valid: "Contract_Validate c = None" "norm_record c = c" "contractKey name kind = contractKey (ct_Name c) (ct_Kind c)"
    using contract_invD [OF inv stored] by simp_all
  have "ct_Name c = TrimSpace name \<and> ct_Kind c = kind"
    using contractKey_inject [OF assms(3) Contract_Validate_kind [OF valid(1)]] valid by (metis norm_record_fields(4))
  moreover have "\<forall>x\<in>set ?h. ct_Version x \<le> ct_Version c" using contracts.last_greatest [OF inv] unfolding c(2) by blast
  ultimately show ?thesis unfolding Contract_List_history using stored valid(1) contracts.increasing [OF inv] by blast
qed

theorem latest_contract_greatest_witness:
  "\<exists>c. Contract_GetLatest ''findings'' KindAPI (run_calls Contract_Register [example_contract (SemVer 1 0 0) (CHR ''a''),
     example_contract (SemVer 1 2 0) (CHR ''b'')] NewContractRegistry) = Inr c \<and> ct_Version c = SemVer 1 2 0 \<and> Contract_Validate c = None"
proof -
  let ?k = "contractKey ''findings'' KindAPI"
  let ?r = "run_calls Contract_Register [example_contract (SemVer 1 0 0) (CHR ''a''), example_contract (SemVer 1 2 0) (CHR ''b'')] NewContractRegistry"
  have "?r ?k = Some [example_contract (SemVer 1 0 0) (CHR ''a''), example_contract (SemVer 1 2 0) (CHR ''b'')]"
    by (simp add: contract_eval Let_def)
  then have l: "Contract_GetLatest ''findings'' KindAPI ?r = Inr (example_contract (SemVer 1 2 0) (CHR ''b''))"
    unfolding Contract_GetLatest_def by simp
  from latest_contract_greatest [OF refl l] l show ?thesis by (simp add: example_contract_def)
qed

definition compatible_revisions :: "ContractRecord \<Rightarrow> ContractRecord \<Rightarrow> bool" where
  "compatible_revisions existing candidate \<longleftrightarrow>
     ct_Name existing = ct_Name candidate \<and> ct_Kind existing = ct_Kind candidate \<and> ct_Owner existing = ct_Owner candidate \<and>
     (ct_Version existing = ct_Version candidate \<and> ct_Digest existing = ct_Digest candidate \<or>
      ct_Version existing \<le> ct_Version candidate \<and> Major (ct_Version existing) = Major (ct_Version candidate) \<and>
        ct_BackwardCompatible candidate)"

lemma outcome_simps [simp]:
  "co_Decision (outcome_migration m w) = ''MIGRATION_REQUIRED''" "co_RequiresMigration (outcome_migration m w)"
  "co_MigrationRequirement (outcome_migration m w) = m" "co_Decision (outcome_compatible w) = ''COMPATIBLE''"
  "\<not> co_RequiresMigration (outcome_compatible w)" "co_MigrationRequirement (outcome_compatible w) = []"
  by (simp_all add: outcome_migration_def outcome_compatible_def)

lemma EvaluateCompatibility_spec:
  "co_Decision (EvaluateCompatibility existing candidate) =
     (if compatible_revisions existing candidate then ''COMPATIBLE'' else ''MIGRATION_REQUIRED'') \<and>
   (co_RequiresMigration (EvaluateCompatibility existing candidate) \<longleftrightarrow> \<not> compatible_revisions existing candidate) \<and>
   (co_MigrationRequirement (EvaluateCompatibility existing candidate) = [] \<longleftrightarrow> compatible_revisions existing candidate)"
proof -
  let ?v = "ct_Version existing" and ?w = "ct_Version candidate"
  note defs = EvaluateCompatibility_def Let_def Compare_order compatible_revisions_def
  consider "ct_Name existing \<noteq> ct_Name candidate \<or> ct_Kind existing \<noteq> ct_Kind candidate"
    | (owner) "ct_Name existing = ct_Name candidate" "ct_Kind existing = ct_Kind candidate" "ct_Owner existing \<noteq> ct_Owner candidate"
    | (same) "ct_Name existing = ct_Name candidate" "ct_Kind existing = ct_Kind candidate" "ct_Owner existing = ct_Owner candidate"
    by blast
  then show ?thesis
  proof cases
    case same
    consider "?v = ?w \<and> ct_Digest existing = ct_Digest candidate" | (older) "\<not> (?v = ?w \<and> ct_Digest existing = ct_Digest candidate)" "?w < ?v"
      | (major) "\<not> (?v = ?w \<and> ct_Digest existing = ct_Digest candidate)" "\<not> ?w < ?v" "Major ?v < Major ?w"
      | (equal) "\<not> (?v = ?w \<and> ct_Digest existing = ct_Digest candidate)" "\<not> ?w < ?v" "Major ?v = Major ?w"
      using Major_mono [of ?v ?w] by fastforce
    then show ?thesis
    proof cases
      case equal
      with same show ?thesis by (cases "ct_BackwardCompatible candidate") (simp_all add: defs not_less)
    qed (use same in \<open>auto simp: defs\<close>)
  qed (auto simp: defs)
qed

text \<open>
  Two revisions are compatible exactly if they are of one contract and owner, and either have the same version and digest, or the candidate
  is not older, has the same major version and is marked backward compatible. Every other outcome states a migration requirement.
\<close>

theorem compatible_iff:
  "(co_Decision (EvaluateCompatibility existing candidate) = ''COMPATIBLE'' \<longleftrightarrow>
     ct_Name existing = ct_Name candidate \<and> ct_Kind existing = ct_Kind candidate \<and> ct_Owner existing = ct_Owner candidate \<and>
     (ct_Version existing = ct_Version candidate \<and> ct_Digest existing = ct_Digest candidate \<or>
      ct_Version existing \<le> ct_Version candidate \<and> Major (ct_Version existing) = Major (ct_Version candidate) \<and>
        ct_BackwardCompatible candidate)) \<and>
   (co_RequiresMigration (EvaluateCompatibility existing candidate) \<longleftrightarrow>
     co_Decision (EvaluateCompatibility existing candidate) \<noteq> ''COMPATIBLE'') \<and>
   (co_RequiresMigration (EvaluateCompatibility existing candidate) \<longleftrightarrow> co_MigrationRequirement (EvaluateCompatibility existing candidate) \<noteq> [])"
  unfolding compatible_revisions_def [symmetric] using EvaluateCompatibility_spec [of existing candidate] by simp

theorem compatible_iff_witness:
  "co_Decision (EvaluateCompatibility (example_contract (SemVer 1 0 0) (CHR ''a'')) (example_contract (SemVer 1 2 0) (CHR ''b''))) = ''COMPATIBLE''"
proof -
  have "SemVer 1 0 0 \<le> SemVer 1 2 0" by (simp add: less_eq_SemVer_def)
  then show ?thesis
    using compatible_iff [of "example_contract (SemVer 1 0 0) (CHR ''a'')" "example_contract (SemVer 1 2 0) (CHR ''b'')"]
    by (simp add: example_contract_def)
qed

text \<open>A version is read back from its text, for the numbers that an \<open>int\<close> holds.\<close>

lemma Split_dot: "CHR ''.'' \<notin> set s \<Longrightarrow> Split (CHR ''.'') (s @ CHR ''.'' # t) = s # Split (CHR ''.'') t"
  by (induction s) auto

lemma Split_no_dot: "CHR ''.'' \<notin> set s \<Longrightarrow> Split (CHR ''.'') s = [s]"
  by (induction s) auto

lemma FormatInt_no_dot: "CHR ''.'' \<notin> set (FormatInt i)"
  using FormatInt_chars [of "CHR ''.''" i] by (auto simp: digit_char_def)

theorem version_text_roundtrip:
  assumes "0 \<le> Major v" "Major v < 2 ^ 63" "0 \<le> Minor v" "Minor v < 2 ^ 63" "0 \<le> Patch v" "Patch v < 2 ^ 63"
  shows "ParseSemVer (SemVer_String v) = Inr v"
proof -
  have "version_part (FormatInt i) = Inr i" if "0 \<le> i" "i < 2 ^ 63" for i
    using ParseInt64_FormatInt [of i] that by (simp add: version_part_def)
  moreover have "list_all graphic (SemVer_String v)"
    using FormatInt_chars by (fastforce simp: SemVer_String_def list_all_iff digit_char_def graphic_def)
  ultimately show ?thesis
    using assms by (simp add: ParseSemVer_def TrimSpace_all_graphic) (simp add: SemVer_String_def Split_dot Split_no_dot FormatInt_no_dot)
qed

theorem version_text_roundtrip_witness: "ParseSemVer (SemVer_String (SemVer 1 20 3)) = Inr (SemVer 1 20 3)"
  by (rule version_text_roundtrip) simp_all

subsection \<open>Where the code falls short\<close>

text \<open>
  Evaluation and registration disagree: another content under the same version is called compatible when it is marked so, and registering it
  is a conflict.
\<close>

theorem altered_content_compatible:
  "\<exists>old new r. old = example_contract (SemVer 1 0 0) (CHR ''a'') \<and> new = example_contract (SemVer 1 0 0) (CHR ''b'') \<and>
     r = run_calls Contract_Register [old] NewContractRegistry \<and> co_Decision (EvaluateCompatibility old new) = ''COMPATIBLE'' \<and>
     snd (Contract_Register new r) = Inl ErrVersionConflict"
  by (simp add: contract_eval EvaluateCompatibility_def outcome_compatible_def Let_def)

end
