(* ===== verification/Compatibility_Registry.thy ===== *)
theory Compatibility_Registry
  imports Contract_Registry
begin

text \<open>
  The registry of compatible evolution, \<open>modules/contract-migration-governance/compatibility_registry.go\<close>: entries owned by modules, with
  dependencies and migration paths, the evaluation of an evolution, and the validation of a registry in JSON. The decoder of JSON is an
  argument. Entries are values, so the defensive copies of the code are the entries themselves.
\<close>

subsection \<open>Entries\<close>

datatype CompatibilityDirection =
  DirectionBackward | DirectionForward | DirectionBidirectional | DirectionBreaking | DirectionOther string

fun Direction_Validate :: "CompatibilityDirection \<Rightarrow> contract_error option" where
  "Direction_Validate (DirectionOther s) = Some ErrInvalidCompatibilityDirection"
| "Direction_Validate _ = None"

fun direction_text :: "CompatibilityDirection \<Rightarrow> string" where
  "direction_text DirectionBackward = ''BACKWARD''"
| "direction_text DirectionForward = ''FORWARD''"
| "direction_text DirectionBidirectional = ''BIDIRECTIONAL''"
| "direction_text DirectionBreaking = ''BREAKING''"
| "direction_text (DirectionOther s) = s"

record DependencyRef =
  dp_Name :: string
  dp_Kind :: ContractKind
  dp_Version :: SemVer

definition Dependency_Validate :: "DependencyRef \<Rightarrow> contract_error option" where
  "Dependency_Validate d = (if TrimSpace (dp_Name d) = [] then Some ErrBlankMetadata else Kind_Validate (dp_Kind d))"

record MigrationPath =
  mp_MigrationID :: string
  mp_FromVersion :: SemVer
  mp_ToVersion :: SemVer
  mp_Strategy :: string
  mp_Description :: string
  mp_Instructions :: "string list"

definition Path_Validate :: "MigrationPath \<Rightarrow> contract_error option" where
  "Path_Validate m =
     (if TrimSpace (mp_MigrationID m) = [] then Some ErrBlankMetadata
      else if TrimSpace (mp_Strategy m) = [] then Some ErrBlankMetadata
      else if TrimSpace (mp_Description m) = [] then Some ErrBlankMetadata
      else if 0 \<le> Compare (mp_FromVersion m) (mp_ToVersion m) then Some ErrInvalidMigrationPath
      else None)"

record CompatibilityEntry =
  ce_Name :: string
  ce_Kind :: ContractKind
  ce_OwnerModule :: string
  ce_Version :: SemVer
  ce_Digest :: string
  ce_Direction :: CompatibilityDirection
  ce_Dependencies :: "DependencyRef list"
  ce_MigrationPath :: "MigrationPath option"
  ce_Description :: string

text \<open>The loop over the dependencies: the first error.\<close>

fun dependencies_error :: "DependencyRef list \<Rightarrow> contract_error option" where
  "dependencies_error [] = None"
| "dependencies_error (d # ds) = (case Dependency_Validate d of Some e \<Rightarrow> Some e | None \<Rightarrow> dependencies_error ds)"

definition path_error :: "CompatibilityEntry \<Rightarrow> contract_error option" where
  "path_error e =
     (case ce_MigrationPath e of None \<Rightarrow> None | Some m \<Rightarrow>
        (case Path_Validate m of Some er \<Rightarrow> Some er | None \<Rightarrow>
           if Compare (mp_ToVersion m) (ce_Version e) \<noteq> 0 then Some ErrInvalidMigrationPath else None))"

definition Entry_Validate :: "CompatibilityEntry \<Rightarrow> contract_error option" where
  "Entry_Validate e =
     (if TrimSpace (ce_Name e) = [] then Some ErrBlankMetadata
      else case Kind_Validate (ce_Kind e) of Some er \<Rightarrow> Some er | None \<Rightarrow>
        if TrimSpace (ce_OwnerModule e) = [] then Some ErrBlankMetadata
        else case digest_error (ce_Digest e) of Some er \<Rightarrow> Some er | None \<Rightarrow>
          case Direction_Validate (ce_Direction e) of Some er \<Rightarrow> Some er | None \<Rightarrow>
            case dependencies_error (ce_Dependencies e) of Some er \<Rightarrow> Some er | None \<Rightarrow> path_error e)"

record CompatibilityResult =
  cv_Decision :: string
  cv_Direction :: CompatibilityDirection
  cv_RequiresMigration :: bool
  cv_MigrationPath :: "MigrationPath option"
  cv_Reason :: string

subsection \<open>The registry\<close>

record CompatibilityRegistry =
  cg_contractOwners :: "string \<rightharpoonup> string"
  cg_entries :: "string \<rightharpoonup> CompatibilityEntry list"

definition NewCompatibilityRegistry :: CompatibilityRegistry where
  "NewCompatibilityRegistry = \<lparr>cg_contractOwners = Map.empty, cg_entries = Map.empty\<rparr>"

definition norm_dependency :: "DependencyRef \<Rightarrow> DependencyRef" where
  "norm_dependency d = d\<lparr>dp_Name := TrimSpace (dp_Name d)\<rparr>"

definition norm_path :: "MigrationPath \<Rightarrow> MigrationPath" where
  "norm_path m =
     m\<lparr>mp_MigrationID := TrimSpace (mp_MigrationID m), mp_Strategy := TrimSpace (mp_Strategy m),
       mp_Description := TrimSpace (mp_Description m), mp_Instructions := map TrimSpace (mp_Instructions m)\<rparr>"

definition norm_entry :: "CompatibilityEntry \<Rightarrow> CompatibilityEntry" where
  "norm_entry e =
     e\<lparr>ce_Name := TrimSpace (ce_Name e), ce_OwnerModule := TrimSpace (ce_OwnerModule e), ce_Digest := TrimSpace (ce_Digest e),
       ce_Dependencies := map norm_dependency (ce_Dependencies e), ce_MigrationPath := map_option norm_path (ce_MigrationPath e),
       ce_Description := TrimSpace (ce_Description e)\<rparr>"

abbreviation entry_key :: "CompatibilityEntry \<Rightarrow> string" where
  "entry_key e \<equiv> contractKey (ce_Name e) (ce_Kind e)"

definition registered_version :: "CompatibilityRegistry \<Rightarrow> string \<Rightarrow> SemVer \<Rightarrow> bool" where
  "registered_version r key v =
     (case cg_entries r key of None \<Rightarrow> False | Some h \<Rightarrow> list_ex (\<lambda>e. Compare (ce_Version e) v = 0) h)"

definition dependency_known :: "CompatibilityRegistry \<Rightarrow> DependencyRef \<Rightarrow> bool" where
  "dependency_known r d = registered_version r (contractKey (dp_Name d) (dp_Kind d)) (dp_Version d)"

definition is_breaking :: "CompatibilityEntry \<Rightarrow> CompatibilityEntry \<Rightarrow> bool" where
  "is_breaking latest e \<longleftrightarrow>
     Major (ce_Version latest) < Major (ce_Version e) \<or> ce_Direction e = DirectionBreaking \<or> ce_Direction e = DirectionForward"

definition evolution_error :: "CompatibilityEntry \<Rightarrow> CompatibilityEntry \<Rightarrow> contract_error option" where
  "evolution_error latest e =
     (if \<not> is_breaking latest e then None
      else case ce_MigrationPath e of
        None \<Rightarrow> Some ErrIncompatibleWithoutMigrationPath
      | Some m \<Rightarrow> if Compare (mp_FromVersion m) (ce_Version latest) \<noteq> 0 then Some ErrInvalidMigrationPath else None)"

text \<open>What happens under the lock once the dependencies and the owner are checked.\<close>

definition add_entry :: "string \<Rightarrow> CompatibilityEntry \<Rightarrow> CompatibilityRegistry \<Rightarrow> (CompatibilityRegistry, contract_error, unit) outcome" where
  "add_entry key e r =
     (let history = (case cg_entries r key of None \<Rightarrow> [] | Some h \<Rightarrow> h) in
      if history = []
      then (r\<lparr>cg_contractOwners := (cg_contractOwners r)(key \<mapsto> ce_OwnerModule e), cg_entries := (cg_entries r)(key \<mapsto> [e])\<rparr>, Inr ())
      else case find (\<lambda>x. Compare (ce_Version x) (ce_Version e) = 0) history of
        Some x \<Rightarrow>
          if ce_OwnerModule x = ce_OwnerModule e \<and> ce_Digest x = ce_Digest e \<and> ce_Direction x = ce_Direction e \<and> ce_Description x = ce_Description e
          then (r, Inr ()) else (r, Inl ErrVersionConflict)
      | None \<Rightarrow>
          if Compare (ce_Version e) (ce_Version (last history)) \<le> 0 then (r, Inl ErrVersionRegression)
          else case evolution_error (last history) e of
            Some er \<Rightarrow> (r, Inl er)
          | None \<Rightarrow> (r\<lparr>cg_entries := (cg_entries r)(key \<mapsto> history @ [e])\<rparr>, Inr ()))"

definition Compatibility_Register ::
  "string \<Rightarrow> CompatibilityEntry \<Rightarrow> CompatibilityRegistry \<Rightarrow> (CompatibilityRegistry, contract_error, unit) outcome" where
  "Compatibility_Register callerModule entry r =
     (if TrimSpace callerModule = [] then (r, Inl ErrBlankMetadata)
      else case Entry_Validate entry of Some er \<Rightarrow> (r, Inl er) | None \<Rightarrow>
        if TrimSpace callerModule \<noteq> TrimSpace (ce_OwnerModule entry) then (r, Inl ErrCrossModuleMutationDenied)
        else
          let e = norm_entry entry; key = entry_key e in
          if \<not> list_all (dependency_known r) (ce_Dependencies e) then (r, Inl ErrUnknownDependency)
          else case cg_contractOwners r key of
            None \<Rightarrow> add_entry key e r
          | Some owner \<Rightarrow> if owner \<noteq> ce_OwnerModule e then (r, Inl ErrDuplicateOwnership) else add_entry key e r)"

definition evolution_result :: "string \<Rightarrow> CompatibilityDirection \<Rightarrow> bool \<Rightarrow> MigrationPath option \<Rightarrow> string \<Rightarrow> CompatibilityResult" where
  "evolution_result decision direction requires path reason =
     \<lparr>cv_Decision = decision, cv_Direction = direction, cv_RequiresMigration = requires, cv_MigrationPath = path, cv_Reason = reason\<rparr>"

definition EvaluateEvolution :: "CompatibilityEntry \<Rightarrow> CompatibilityEntry \<Rightarrow> CompatibilityResult \<times> contract_error option" where
  "EvaluateEvolution existing candidate =
     (let from = SemVer_String (ce_Version existing); to = SemVer_String (ce_Version candidate); direction = ce_Direction candidate in
      if ce_Name existing \<noteq> ce_Name candidate \<or> ce_Kind existing \<noteq> ce_Kind candidate
      then (evolution_result ''INCOMPATIBLE'' direction False None ''cannot evaluate compatibility across different contracts or kinds'', None)
      else if ce_OwnerModule existing \<noteq> ce_OwnerModule candidate
      then (evolution_result ''INCOMPATIBLE'' direction False None
              (''contract ownership mismatch: '' @ ce_OwnerModule existing @ '' vs '' @ ce_OwnerModule candidate), None)
      else if Compare (ce_Version existing) (ce_Version candidate) = 0 \<and> ce_Digest existing = ce_Digest candidate
      then (evolution_result ''COMPATIBLE'' direction False None ''identical contract version and content digest'', None)
      else if Compare (ce_Version candidate) (ce_Version existing) < 0
      then (evolution_result ''INCOMPATIBLE'' direction False None (''version regression from '' @ from @ '' to '' @ to), Some ErrVersionRegression)
      else if is_breaking existing candidate
      then (if (case ce_MigrationPath candidate of None \<Rightarrow> False | Some m \<Rightarrow> Compare (mp_FromVersion m) (ce_Version existing) = 0)
            then (evolution_result ''MIGRATION_REQUIRED'' direction True (ce_MigrationPath candidate)
                    (''breaking evolution from '' @ from @ '' to '' @ to @ '' accepted with registered migration path''), None)
            else (evolution_result ''INCOMPATIBLE'' direction True None
                    (''breaking change from '' @ from @ '' to '' @ to @ '' lacks required migration path''), None))
      else (evolution_result ''COMPATIBLE'' direction False None
              (''compatible evolution from '' @ from @ '' to '' @ to @ '' ('' @ direction_text direction @ '')''), None))"

definition Compatibility_GetLatest :: "string \<Rightarrow> ContractKind \<Rightarrow> CompatibilityRegistry \<Rightarrow> contract_error + CompatibilityEntry" where
  "Compatibility_GetLatest name kind r =
     (case cg_entries r (contractKey name kind) of
        None \<Rightarrow> Inl ErrContractNotFound | Some h \<Rightarrow> if h = [] then Inl ErrContractNotFound else Inr (last h))"

definition Compatibility_GetVersion :: "string \<Rightarrow> ContractKind \<Rightarrow> SemVer \<Rightarrow> CompatibilityRegistry \<Rightarrow> contract_error + CompatibilityEntry" where
  "Compatibility_GetVersion name kind version r =
     (case cg_entries r (contractKey name kind) of
        None \<Rightarrow> Inl ErrContractNotFound
      | Some h \<Rightarrow> (case find (\<lambda>e. Compare (ce_Version e) version = 0) h of None \<Rightarrow> Inl ErrContractNotFound | Some e \<Rightarrow> Inr e))"

definition ListHistory :: "string \<Rightarrow> ContractKind \<Rightarrow> CompatibilityRegistry \<Rightarrow> CompatibilityEntry list" where
  "ListHistory name kind r = (case cg_entries r (contractKey name kind) of None \<Rightarrow> [] | Some h \<Rightarrow> h)"

definition GetOwner :: "string \<Rightarrow> ContractKind \<Rightarrow> CompatibilityRegistry \<Rightarrow> contract_error + string" where
  "GetOwner name kind r = (case cg_contractOwners r (contractKey name kind) of None \<Rightarrow> Inl ErrContractNotFound | Some owner \<Rightarrow> Inr owner)"

text \<open>The two counters range over the map: the list of its keys is an argument.\<close>

definition Registry_Count :: "string list \<Rightarrow> CompatibilityRegistry \<Rightarrow> nat" where
  "Registry_Count ks r = sum_list (map length (List.map_filter (cg_entries r) ks))"

definition ContractCount :: "string list \<Rightarrow> CompatibilityRegistry \<Rightarrow> nat" where
  "ContractCount ks r = length (List.map_filter (cg_entries r) ks)"

subsubsection \<open>Registries in JSON\<close>

text \<open>The decoder of a JSON string and the one of the object form of a version are arguments, and so is the encoder of a string.\<close>

definition SemVer_UnmarshalJSON :: "(string \<Rightarrow> string option) \<Rightarrow> (string \<Rightarrow> SemVer option) \<Rightarrow> string \<Rightarrow> SemVer option" where
  "SemVer_UnmarshalJSON decode_string decode_object b =
     (case decode_string b of
        Some s \<Rightarrow> (case ParseSemVer s of Inl e \<Rightarrow> None | Inr v \<Rightarrow> Some v)
      | None \<Rightarrow> decode_object b)"

definition SemVer_MarshalJSON :: "(string \<Rightarrow> string) \<Rightarrow> SemVer \<Rightarrow> string" where
  "SemVer_MarshalJSON encode_string v = encode_string (SemVer_String v)"

record RegistryValidationItem =
  rv_CallerModule :: string
  rv_Entry :: CompatibilityEntry

record RegistryValidationPayload =
  ry_SchemaVersion :: string
  ry_Entries :: "RegistryValidationItem list"

datatype registry_problem = JSONParseError | BlankSchemaVersion | EntryProblem nat contract_error

definition item_caller :: "RegistryValidationItem \<Rightarrow> string" where
  "item_caller item =
     (if TrimSpace (rv_CallerModule item) = [] then TrimSpace (ce_OwnerModule (rv_Entry item)) else TrimSpace (rv_CallerModule item))"

fun register_items ::
  "nat \<Rightarrow> RegistryValidationItem list \<Rightarrow> CompatibilityRegistry \<Rightarrow> CompatibilityRegistry \<times> registry_problem list" where
  "register_items i [] r = (r, [])"
| "register_items i (item # items) r =
     (let (r', res) = Compatibility_Register (item_caller item) (rv_Entry item) r; (r'', problems) = register_items (Suc i) items r'
      in (r'', (case res of Inl e \<Rightarrow> [EntryProblem i e] | Inr _ \<Rightarrow> []) @ problems))"

definition ValidateRegistryJSON ::
  "(string \<Rightarrow> RegistryValidationPayload option) \<Rightarrow> string \<Rightarrow> CompatibilityRegistry option \<times> registry_problem list" where
  "ValidateRegistryJSON unmarshal data =
     (case unmarshal data of
        None \<Rightarrow> (None, [JSONParseError])
      | Some payload \<Rightarrow>
          if TrimSpace (ry_SchemaVersion payload) = [] then (None, [BlankSchemaVersion])
          else let (r, problems) = register_items 0 (ry_Entries payload) NewCompatibilityRegistry in (Some r, problems))"

subsection \<open>What the registry keeps\<close>

definition entries_at :: "CompatibilityRegistry \<Rightarrow> string \<Rightarrow> CompatibilityEntry list" where
  "entries_at r k = history_at (cg_entries r) k"

text \<open>An edge from a registered version to each version it depends on.\<close>

definition depends_on :: "CompatibilityRegistry \<Rightarrow> ((string \<times> SemVer) \<times> (string \<times> SemVer)) set" where
  "depends_on r =
     {((k, ce_Version e), (contractKey (dp_Name d) (dp_Kind d), dp_Version d)) | k e d. e \<in> set (entries_at r k) \<and> d \<in> set (ce_Dependencies e)}"

definition path_between :: "CompatibilityEntry \<Rightarrow> CompatibilityEntry \<Rightarrow> bool" where
  "path_between a b \<longleftrightarrow>
     (is_breaking a b \<longrightarrow>
        (\<exists>m. ce_MigrationPath b = Some m \<and> mp_FromVersion m = ce_Version a \<and> mp_ToVersion m = ce_Version b \<and> Path_Validate m = None))"

definition compatibility_inv :: "CompatibilityRegistry \<Rightarrow> bool" where
  "compatibility_inv r \<longleftrightarrow>
     (\<forall>k. sorted_wrt (<) (map ce_Version (entries_at r k)) \<and> successively path_between (entries_at r k) \<and>
        (cg_contractOwners r k = None \<longleftrightarrow> entries_at r k = []) \<and>
        (\<forall>e\<in>set (entries_at r k). Entry_Validate e = None \<and> norm_entry e = e \<and> k = entry_key e \<and>
           cg_contractOwners r k = Some (ce_OwnerModule e) \<and> list_all (dependency_known r) (ce_Dependencies e))) \<and>
     acyclic (depends_on r)"

lemma compatibility_invD:
  assumes "compatibility_inv r"
  shows "sorted_wrt (<) (map ce_Version (entries_at r k))" "successively path_between (entries_at r k)"
    "cg_contractOwners r k = None \<longleftrightarrow> entries_at r k = []"
    "e \<in> set (entries_at r k) \<Longrightarrow> Entry_Validate e = None \<and> norm_entry e = e \<and> k = entry_key e \<and>
       cg_contractOwners r k = Some (ce_OwnerModule e) \<and> list_all (dependency_known r) (ce_Dependencies e)"
    "acyclic (depends_on r)"
  using assms by (simp_all add: compatibility_inv_def)

lemma norm_entry_fields [simp]:
  "ce_Name (norm_entry e) = TrimSpace (ce_Name e)" "ce_Kind (norm_entry e) = ce_Kind e" "ce_Version (norm_entry e) = ce_Version e"
  "ce_OwnerModule (norm_entry e) = TrimSpace (ce_OwnerModule e)" "ce_Direction (norm_entry e) = ce_Direction e"
  "ce_Dependencies (norm_entry e) = map norm_dependency (ce_Dependencies e)"
  "ce_MigrationPath (norm_entry e) = map_option norm_path (ce_MigrationPath e)"
  by (simp_all add: norm_entry_def)

lemma norm_entry_idem [simp]: "norm_entry (norm_entry e) = norm_entry e"
  by (cases "ce_MigrationPath e") (simp_all add: norm_entry_def norm_dependency_def norm_path_def comp_def)

lemma dependencies_error_None: "dependencies_error ds = None \<longleftrightarrow> (\<forall>d\<in>set ds. Dependency_Validate d = None)"
  by (induction ds) (auto split: option.splits)

lemma norm_path_valid: "Path_Validate (norm_path m) = Path_Validate m" "mp_ToVersion (norm_path m) = mp_ToVersion m"
    "mp_FromVersion (norm_path m) = mp_FromVersion m"
  by (simp_all add: Path_Validate_def norm_path_def)

lemma guard_some [guards]: "(case v of None \<Rightarrow> x | Some e \<Rightarrow> Some (f e)) = None \<longleftrightarrow> v = None \<and> x = None"
  by (simp split: option.split)

lemma digest_error_trim [simp]: "digest_error (TrimSpace d) = digest_error d"
  by (simp add: digest_error_def)

lemma norm_entry_valid: "Entry_Validate (norm_entry e) = None \<longleftrightarrow> Entry_Validate e = None"
proof -
  have "ce_Digest (norm_entry e) = TrimSpace (ce_Digest e)" by (simp add: norm_entry_def)
  moreover have "path_error (norm_entry e) = path_error e"
    by (simp add: path_error_def norm_path_valid split: option.split)
  moreover have "dependencies_error (map norm_dependency ds) = None \<longleftrightarrow> dependencies_error ds = None" for ds
    by (simp add: dependencies_error_None Dependency_Validate_def norm_dependency_def)
  ultimately show ?thesis by (simp add: Entry_Validate_def guards)
qed

lemma Entry_Validate_kind: "Entry_Validate e = None \<Longrightarrow> Kind_Validate (ce_Kind e) = None"
  by (simp add: Entry_Validate_def guards)

lemma Entry_Validate_path:
  "Entry_Validate e = None \<Longrightarrow> ce_MigrationPath e = Some m \<Longrightarrow> Path_Validate m = None \<and> mp_ToVersion m = ce_Version e"
  by (simp add: Entry_Validate_def guards path_error_def Compare_order)

lemma registered_version_iff: "registered_version r k v \<longleftrightarrow> (\<exists>e\<in>set (entries_at r k). ce_Version e = v)"
  by (auto simp: registered_version_def entries_at_def history_at_def Compare_order list_ex_iff split: option.splits)

lemma evolution_error_None:
  "evolution_error a b = None \<longleftrightarrow> (is_breaking a b \<longrightarrow> (\<exists>m. ce_MigrationPath b = Some m \<and> mp_FromVersion m = ce_Version a))"
  by (auto simp: evolution_error_def Compare_order split: option.splits)

text \<open>The state after a new entry; the owner of a contract that has entries is written again with the same value.\<close>

definition with_entry :: "string \<Rightarrow> CompatibilityEntry \<Rightarrow> CompatibilityRegistry \<Rightarrow> CompatibilityRegistry" where
  "with_entry k e r =
     r\<lparr>cg_contractOwners := (cg_contractOwners r)(k \<mapsto> ce_OwnerModule e), cg_entries := (cg_entries r)(k \<mapsto> entries_at r k @ [e])\<rparr>"

lemma entries_with_entry: "entries_at (with_entry k e r) k' = (if k' = k then entries_at r k @ [e] else entries_at r k')"
  by (simp add: with_entry_def entries_at_def history_at_update)

lemma entries_history: "entries_at r k = (case cg_entries r k of None \<Rightarrow> [] | Some h \<Rightarrow> h)"
  by (simp add: entries_at_def history_at_def)

lemma add_entry_cases:
  assumes "add_entry k e r = (r', res)" and "compatibility_inv r" and "cg_contractOwners r k \<in> {None, Some (ce_OwnerModule e)}"
  obtains (same) x where "x \<in> set (entries_at r k)" "ce_Version x = ce_Version e" "ce_Digest x = ce_Digest e" "ce_OwnerModule x = ce_OwnerModule e"
      "r' = r" "res = Inr ()"
  | (new) "r' = with_entry k e r" "res = Inr ()"
      "entries_at r k \<noteq> [] \<longrightarrow> ce_Version (last (entries_at r k)) < ce_Version e \<and> evolution_error (last (entries_at r k)) e = None"
  | (error) er where "r' = r" "res = Inl er"
proof (cases "entries_at r k = []")
  case True
  with assms(1) have "r' = with_entry k e r \<and> res = Inr ()"
    by (auto simp: add_entry_def Let_def entries_history [symmetric] with_entry_def)
  with True show thesis by (intro new) simp_all
next
  case False
  let ?h = "entries_at r k"
  from False compatibility_invD(3) [OF assms(2), of k] assms(3) have owner: "cg_contractOwners r k = Some (ce_OwnerModule e)" by auto
  show thesis
  proof (cases "find (\<lambda>x. Compare (ce_Version x) (ce_Version e) = 0) ?h")
    case (Some x)
    from find_SomeD [OF Some] have x: "x \<in> set ?h" "ce_Version x = ce_Version e" by (simp_all add: Compare_order)
    show thesis
    proof (cases "ce_OwnerModule x = ce_OwnerModule e \<and> ce_Digest x = ce_Digest e \<and> ce_Direction x = ce_Direction e \<and> ce_Description x = ce_Description e")
      case True
      with assms(1) False Some have "r' = r" "res = Inr ()" by (simp_all add: add_entry_def Let_def entries_history [symmetric])
      with True x same show thesis by blast
    next
      case differ: False
      with assms(1) False Some have "r' = r" "res = Inl ErrVersionConflict"
        by (simp_all add: add_entry_def Let_def entries_history [symmetric] split: if_splits)
      then show thesis by (rule error)
    qed
  next
    case None
    show thesis
    proof (cases "ce_Version e \<le> ce_Version (last ?h)")
      case True
      with assms(1) False None have "r' = r" "res = Inl ErrVersionRegression"
        by (simp_all add: add_entry_def Let_def entries_history [symmetric] Compare_order(2))
      then show thesis by (rule error)
    next
      case newer: False
      show thesis
      proof (cases "evolution_error (last ?h) e")
        case (Some er)
        with assms(1) False newer None have "r' = r" "res = Inl er"
          by (simp_all add: add_entry_def Let_def entries_history [symmetric] Compare_order(2))
        then show thesis by (rule error)
      next
        case ok: None
        have "(cg_contractOwners r)(k \<mapsto> ce_OwnerModule e) = cg_contractOwners r" using owner by auto
        with assms(1) False newer None ok have "r' = with_entry k e r" "res = Inr ()"
          by (simp_all add: add_entry_def Let_def entries_history [symmetric] Compare_order(2) with_entry_def)
        with newer ok show thesis by (intro new) (simp_all add: not_le)
      qed
    qed
  qed
qed

lemma Compatibility_Register_cases:
  assumes "Compatibility_Register caller entry r = (r', res)" and "compatibility_inv r" and "k = entry_key entry"
  obtains (same) x where "x \<in> set (entries_at r k)" "ce_Version x = ce_Version entry" "ce_Digest x = ce_Digest (norm_entry entry)"
      "ce_OwnerModule x = TrimSpace caller" "r' = r" "res = Inr ()"
  | (new) "Entry_Validate entry = None" "TrimSpace caller = TrimSpace (ce_OwnerModule entry)" "r' = with_entry k (norm_entry entry) r" "res = Inr ()"
      "list_all (dependency_known r) (ce_Dependencies (norm_entry entry))" "cg_contractOwners r k \<in> {None, Some (TrimSpace caller)}"
      "entries_at r k \<noteq> [] \<longrightarrow>
         ce_Version (last (entries_at r k)) < ce_Version entry \<and> evolution_error (last (entries_at r k)) (norm_entry entry) = None"
  | (error) er where "r' = r" "res = Inl er"
proof (cases "TrimSpace caller = [] \<or> Entry_Validate entry \<noteq> None \<or> TrimSpace caller \<noteq> TrimSpace (ce_OwnerModule entry) \<or>
    \<not> list_all (dependency_known r) (ce_Dependencies (norm_entry entry)) \<or> cg_contractOwners r k \<notin> {None, Some (TrimSpace caller)}")
  case True
  with assms(1,3) have "r' = r \<and> (\<exists>er. res = Inl er)"
    by (cases "Entry_Validate entry"; cases "cg_contractOwners r k") (auto simp: Compatibility_Register_def Let_def split: if_splits)
  then show thesis using error by blast
next
  case False
  then have add: "add_entry k (norm_entry entry) r = (r', res)"
    using assms(1,3) by (auto simp: Compatibility_Register_def Let_def)
  have "cg_contractOwners r k \<in> {None, Some (ce_OwnerModule (norm_entry entry))}" using False by simp
  from add assms(2) this show thesis
  proof (cases rule: add_entry_cases)
    case (same x)
    with False that(1) [of x] show thesis by simp
  next
    case new
    with False that(2) show thesis by simp
  next
    case (error er)
    then show thesis by (rule that(3))
  qed
qed

lemma acyclic_new_source:
  assumes "acyclic R" and "n \<notin> Range R" and "n \<notin> D"
  shows "acyclic (R \<union> {n} \<times> D)"
proof (rule acyclicI, intro allI notI)
  let ?S = "R \<union> {n} \<times> D"
  fix x
  assume x: "(x, x) \<in> ?S\<^sup>+"
  have old: "(a, b) \<in> R\<^sup>+" if "(a, b) \<in> ?S\<^sup>+" "a \<noteq> n" for a b
    using that
  proof (induction rule: trancl_induct)
    case (step b c)
    from step.hyps(1) have "b \<in> Range ?S" by (metis Range.intros trancl_range)
    with assms(2,3) have "b \<noteq> n" by auto
    with step show ?case by (auto intro: trancl_into_trancl)
  qed auto
  from x have "x \<in> Range ?S" by (metis Range.intros trancl_range)
  with assms(2,3) have "x \<noteq> n" by auto
  from old [OF x this] assms(1) show False by (simp add: acyclic_def)
qed

lemma registered_with_entry: "registered_version r k' v \<Longrightarrow> registered_version (with_entry k e r) k' v"
  by (auto simp: registered_version_iff entries_with_entry)

lemma known_with_entry: "list_all (dependency_known r) ds \<Longrightarrow> list_all (dependency_known (with_entry k e r)) ds"
  by (auto simp: list_all_iff dependency_known_def registered_with_entry)

lemma depends_on_iff:
  "((k, v), t) \<in> depends_on r \<longleftrightarrow>
     (\<exists>e\<in>set (entries_at r k). ce_Version e = v \<and> (\<exists>d\<in>set (ce_Dependencies e). t = (contractKey (dp_Name d) (dp_Kind d), dp_Version d)))"
  by (auto simp: depends_on_def)

lemma depends_with_entry:
  "depends_on (with_entry k e r) =
     depends_on r \<union> {(k, ce_Version e)} \<times> {(contractKey (dp_Name d) (dp_Kind d), dp_Version d) | d. d \<in> set (ce_Dependencies e)}"
  by (rule set_eqI, clarsimp simp: depends_on_iff entries_with_entry) blast

lemma with_entry_inv:
  assumes inv: "compatibility_inv r" and valid: "Entry_Validate e = None" "norm_entry e = e" "k = entry_key e"
    and known: "list_all (dependency_known r) (ce_Dependencies e)" and owner: "cg_contractOwners r k \<in> {None, Some (ce_OwnerModule e)}"
    and newest: "entries_at r k \<noteq> [] \<longrightarrow> ce_Version (last (entries_at r k)) < ce_Version e \<and> evolution_error (last (entries_at r k)) e = None"
  shows "compatibility_inv (with_entry k e r)"
proof -
  let ?r = "with_entry k e r"
  note old = compatibility_invD [OF inv]
  have sorted: "sorted_wrt (<) (map ce_Version (entries_at r k @ [e]))" using newest by (intro sorted_snoc old(1)) simp
  have "path_between (last (entries_at r k)) e" if "entries_at r k \<noteq> []"
    using newest that Entry_Validate_path [OF valid(1)] by (auto simp: path_between_def evolution_error_None)
  then have path: "successively path_between (entries_at r k @ [e])" using old(2) by (auto simp: successively_append_iff)
  have new: "\<not> registered_version r k (ce_Version e)"
    using sorted by (auto simp: registered_version_iff sorted_wrt_append)
  have "acyclic (depends_on r \<union> {(k, ce_Version e)} \<times> {(contractKey (dp_Name d) (dp_Kind d), dp_Version d) | d. d \<in> set (ce_Dependencies e)})"
  proof (rule acyclic_new_source [OF old(5)])
    show "(k, ce_Version e) \<notin> Range (depends_on r)"
    proof
      assume "(k, ce_Version e) \<in> Range (depends_on r)"
      then obtain k' e' d where "e' \<in> set (entries_at r k')" "d \<in> set (ce_Dependencies e')" "contractKey (dp_Name d) (dp_Kind d) = k"
          "dp_Version d = ce_Version e" by (auto simp: depends_on_def)
      with old(4) [of e' k'] new show False by (auto simp: list_all_iff dependency_known_def)
    qed
    show "(k, ce_Version e) \<notin> {(contractKey (dp_Name d) (dp_Kind d), dp_Version d) | d. d \<in> set (ce_Dependencies e)}"
      using known new by (auto simp: list_all_iff dependency_known_def)
  qed
  moreover have "cg_contractOwners ?r k' = None \<longleftrightarrow> entries_at ?r k' = []" for k'
    using old(3) [of k'] by (simp add: entries_with_entry) (simp add: with_entry_def)
  moreover have "Entry_Validate x = None \<and> norm_entry x = x \<and> k' = entry_key x \<and> cg_contractOwners ?r k' = Some (ce_OwnerModule x) \<and>
      list_all (dependency_known ?r) (ce_Dependencies x)" if "x \<in> set (entries_at ?r k')" for x k'
  proof (cases "x \<in> set (entries_at r k')")
    case True
    then have "entries_at r k' \<noteq> []" by auto
    with old(3) [of k'] owner have "cg_contractOwners ?r k' = cg_contractOwners r k'" by (auto simp: with_entry_def)
    with old(4) [OF True] show ?thesis by (metis known_with_entry)
  next
    case False
    with that have "x = e" "k' = k" by (auto simp: entries_with_entry split: if_splits)
    with valid known known_with_entry show ?thesis by (simp add: with_entry_def)
  qed
  ultimately show ?thesis
    using old(1,2) sorted path unfolding compatibility_inv_def depends_with_entry by (auto simp: entries_with_entry)
qed

subsection \<open>The calls\<close>

datatype compatibility_call = CallRegisterEntry string CompatibilityEntry

fun compatibility_exec :: "compatibility_call \<Rightarrow> CompatibilityRegistry \<Rightarrow> (CompatibilityRegistry, contract_error, unit) outcome" where
  "compatibility_exec (CallRegisterEntry caller e) r = Compatibility_Register caller e r"

lemma Compatibility_Register_inv:
  assumes "compatibility_inv r"
  shows "compatibility_inv (fst (Compatibility_Register caller entry r)) \<and>
    prefix (entries_at r k) (entries_at (fst (Compatibility_Register caller entry r)) k)"
proof -
  obtain r' res where out: "Compatibility_Register caller entry r = (r', res)" by fastforce
  from out assms refl show ?thesis
  proof (cases rule: Compatibility_Register_cases)
    case new
    have "compatibility_inv r'"
      unfolding new(3) using assms norm_entry_valid [of entry] new by (intro with_entry_inv) simp_all
    then show ?thesis using out new(3) by (simp add: entries_with_entry)
  qed (use out assms in simp_all)
qed

interpretation evolution: version_store compatibility_exec compatibility_inv "\<lambda>_. True" "\<lambda>k r. entries_at r k" ce_Version
proof
  show "compatibility_inv s \<Longrightarrow> compatibility_inv (fst (compatibility_exec c s))" for s c
    using Compatibility_Register_inv by (cases c) simp
  show "compatibility_inv s \<Longrightarrow> prefix (entries_at s k) (entries_at (fst (compatibility_exec c s)) k)" for s c k
    using Compatibility_Register_inv by (cases c) simp
qed (rule compatibility_invD(1))

lemma add_entry_error: "add_entry k e r = (r', Inl er) \<Longrightarrow> r' = r"
  by (auto simp: add_entry_def Let_def split: if_splits option.splits)

interpretation evolution_closed: fail_closed compatibility_exec
proof
  fix c s s' e
  assume "compatibility_exec c s = (s', Inl e)"
  then show "s' = s"
    by (cases c) (auto simp: Compatibility_Register_def Let_def dest: add_entry_error split: option.splits if_splits)
qed

lemma evolution_start: "compatibility_inv NewCompatibilityRegistry"
  by (simp add: compatibility_inv_def NewCompatibilityRegistry_def entries_at_def history_at_def depends_on_def acyclic_def)

lemma reachable_evolution: "compatibility_inv (run_calls compatibility_exec cs NewCompatibilityRegistry)"
  by (rule evolution.run_inv [OF evolution_start]) simp

lemma owner_run:
  assumes "compatibility_inv r" and "cg_contractOwners r k = Some owner"
  shows "cg_contractOwners (run_calls compatibility_exec ds r) k = Some owner"
proof -
  obtain x where x: "x \<in> set (entries_at r k)"
    using compatibility_invD(3) [OF assms(1), of k] assms(2) by (cases "entries_at r k") auto
  have "prefix (entries_at r k) (entries_at (run_calls compatibility_exec ds r) k)" by (rule evolution.run_journal [OF assms(1)]) simp
  with x have "x \<in> set (entries_at (run_calls compatibility_exec ds r) k)" by (auto simp: prefix_def)
  moreover have "compatibility_inv (run_calls compatibility_exec ds r)" by (rule evolution.run_inv [OF assms(1)]) simp
  ultimately have "cg_contractOwners (run_calls compatibility_exec ds r) k = Some (ce_OwnerModule x)"
    using compatibility_invD(4) by blast
  with compatibility_invD(4) [OF assms(1) x] assms(2) show ?thesis by simp
qed

lemma ListHistory_entries: "ListHistory name kind r = entries_at r (contractKey name kind)"
  by (simp add: ListHistory_def entries_history)

lemma Compatibility_GetLatest_entries:
  "Compatibility_GetLatest name kind r =
     (if entries_at r (contractKey name kind) = [] then Inl ErrContractNotFound else Inr (last (entries_at r (contractKey name kind))))"
  by (simp add: Compatibility_GetLatest_def entries_history split: option.split)

subsection \<open>What the registry promises\<close>

definition example_entry :: "SemVer \<Rightarrow> char \<Rightarrow> CompatibilityEntry" where
  "example_entry v c =
     \<lparr>ce_Name = ''findings'', ce_Kind = KindEvent, ce_OwnerModule = ''workflow'', ce_Version = v, ce_Digest = replicate 64 c,
      ce_Direction = DirectionBackward, ce_Dependencies = [], ce_MigrationPath = None, ce_Description = ''findings events''\<rparr>"

definition example_path :: MigrationPath where
  "example_path =
     \<lparr>mp_MigrationID = ''mig_1'', mp_FromVersion = SemVer 1 0 0, mp_ToVersion = SemVer 2 0 0, mp_Strategy = ''UPCAST'',
      mp_Description = ''rename'', mp_Instructions = []\<rparr>"

definition example_consumer :: CompatibilityEntry where
  "example_consumer =
     (example_entry (SemVer 1 0 0) (CHR ''b''))\<lparr>ce_Name := ''portal'', ce_OwnerModule := ''portal'',
        ce_Dependencies := [\<lparr>dp_Name = ''findings'', dp_Kind = KindEvent, dp_Version = SemVer 1 0 0\<rparr>]\<rparr>"

definition example_breaking :: CompatibilityEntry where
  "example_breaking = (example_entry (SemVer 2 0 0) (CHR ''b''))\<lparr>ce_MigrationPath := Some example_path\<rparr>"

lemmas evolution_eval = Compatibility_Register_def Entry_Validate_def Dependency_Validate_def path_error_def Path_Validate_def
  example_digest example_trim example_digits example_entry_def example_path_def example_consumer_def example_breaking_def norm_entry_def
  norm_dependency_def norm_path_def dependency_known_def registered_version_def add_entry_def evolution_error_def is_breaking_def
  NewCompatibilityRegistry_def Let_def

definition example_registry_calls :: "compatibility_call list" where
  "example_registry_calls =
     [CallRegisterEntry ''workflow'' (example_entry (SemVer 1 0 0) (CHR ''a'')), CallRegisterEntry ''portal'' example_consumer,
      CallRegisterEntry ''workflow'' example_breaking]"

lemma example_keys: "contractKey ''portal'' KindEvent \<noteq> contractKey ''findings'' KindEvent"
  by (simp add: contractKey_def)

lemma example_evolution:
  "run_calls compatibility_exec example_registry_calls NewCompatibilityRegistry =
     \<lparr>cg_contractOwners = [contractKey ''findings'' KindEvent \<mapsto> ''workflow'', contractKey ''portal'' KindEvent \<mapsto> ''portal''],
      cg_entries = [contractKey ''findings'' KindEvent \<mapsto> [example_entry (SemVer 1 0 0) (CHR ''a''), example_breaking],
        contractKey ''portal'' KindEvent \<mapsto> [example_consumer]]\<rparr>"
  using example_keys by (auto simp: example_registry_calls_def evolution_eval)

text \<open>
  Ownership is exclusive and for good: once a module has registered an entry, it owns the contract whatever calls follow, every version of
  the contract is its own, and a registration by any other module under that name and kind is refused without effect.
\<close>

theorem contract_ownership_exclusive:
  assumes "r = run_calls compatibility_exec cs NewCompatibilityRegistry" and "Compatibility_Register caller entry r = (r', Inr ())"
    and "s = run_calls compatibility_exec ds r'"
  shows "GetOwner (ce_Name entry) (ce_Kind entry) s = Inr (TrimSpace caller) \<and>
    (\<forall>e\<in>set (ListHistory (ce_Name entry) (ce_Kind entry) s). ce_OwnerModule e = TrimSpace caller) \<and>
    (entry_key other = entry_key entry \<and> TrimSpace thief \<noteq> TrimSpace caller \<longrightarrow>
       (\<exists>er. Compatibility_Register thief other s = (s, Inl er)))"
proof -
  let ?k = "entry_key entry"
  have inv: "compatibility_inv r" using reachable_evolution assms(1) by simp
  have inv': "compatibility_inv r'" using Compatibility_Register_inv [OF inv, of caller entry] assms(2) by simp
  have inv_s: "compatibility_inv s" unfolding assms(3) by (rule evolution.run_inv [OF inv']) simp
  from assms(2) inv refl have "cg_contractOwners r' ?k = Some (TrimSpace caller)"
  proof (cases rule: Compatibility_Register_cases)
    case (same x)
    from compatibility_invD(4) [OF inv same(1)] same(4,5) show ?thesis by metis
  qed (simp_all add: with_entry_def)
  from owner_run [OF inv' this] have owner: "cg_contractOwners s ?k = Some (TrimSpace caller)" by (simp add: assms(3))
  have "\<exists>er. Compatibility_Register thief other s = (s, Inl er)" if key: "entry_key other = ?k" and thief: "TrimSpace thief \<noteq> TrimSpace caller"
  proof -
    obtain s' res where out: "Compatibility_Register thief other s = (s', res)" by fastforce
    from out inv_s key [symmetric] show ?thesis
    proof (cases rule: Compatibility_Register_cases)
      case (same x)
      from compatibility_invD(4) [OF inv_s same(1)] owner same(4) thief key show ?thesis by (metis option.inject)
    next
      case new
      with owner thief show ?thesis by simp
    next
      case (error er)
      with out show ?thesis by simp
    qed
  qed
  moreover have "\<forall>e\<in>set (entries_at s ?k). ce_OwnerModule e = TrimSpace caller"
    using compatibility_invD(4) [OF inv_s, of _ ?k] owner by fastforce
  ultimately show ?thesis using owner by (simp add: GetOwner_def ListHistory_entries)
qed

theorem contract_ownership_exclusive_witness:
  "\<exists>r' er. Compatibility_Register ''workflow'' (example_entry (SemVer 1 0 0) (CHR ''a'')) NewCompatibilityRegistry = (r', Inr ()) \<and>
     Compatibility_Register ''portal'' (example_entry (SemVer 1 1 0) (CHR ''b'')) r' = (r', Inl er)"
proof -
  obtain r' where r': "Compatibility_Register ''workflow'' (example_entry (SemVer 1 0 0) (CHR ''a'')) NewCompatibilityRegistry = (r', Inr ())"
    by (simp add: evolution_eval)
  have "entry_key (example_entry (SemVer 1 1 0) (CHR ''b'')) = entry_key (example_entry (SemVer 1 0 0) (CHR ''a''))" by (simp add: example_entry_def)
  moreover have "TrimSpace ''portal'' \<noteq> TrimSpace ''workflow''" by simp
  ultimately show ?thesis using contract_ownership_exclusive [of NewCompatibilityRegistry "[]", OF _ r', of r' "[]"] r' by fastforce
qed

text \<open>
  (C35) Dependencies resolve and have no cycle: in every reachable registry each dependency of a stored entry names a registered version, and the
  relation of versions to those they depend on is acyclic.
\<close>

theorem dependencies_resolved_acyclic:
  assumes "r = run_calls compatibility_exec cs NewCompatibilityRegistry"
  shows "acyclic (depends_on r) \<and>
    (\<forall>e\<in>set (ListHistory name kind r). \<forall>d\<in>set (ce_Dependencies e).
       \<exists>x\<in>set (ListHistory (dp_Name d) (dp_Kind d) r). ce_Version x = dp_Version d)"
proof -
  have inv: "compatibility_inv r" using reachable_evolution assms by simp
  then have "list_all (dependency_known r) (ce_Dependencies e)" if "e \<in> set (entries_at r (contractKey name kind))" for e
    using compatibility_invD(4) that by blast
  with compatibility_invD(5) [OF inv] show ?thesis
    unfolding ListHistory_entries by (simp add: list_all_iff dependency_known_def registered_version_iff)
qed

theorem dependencies_resolved_acyclic_witness:
  "\<exists>x\<in>set (ListHistory ''findings'' KindEvent (run_calls compatibility_exec example_registry_calls NewCompatibilityRegistry)).
     ce_Version x = SemVer 1 0 0"
proof -
  let ?r = "run_calls compatibility_exec example_registry_calls NewCompatibilityRegistry"
  have "example_consumer \<in> set (ListHistory ''portal'' KindEvent ?r)"
    using example_keys by (simp add: example_evolution ListHistory_def)
  moreover have "ce_Dependencies example_consumer = [\<lparr>dp_Name = ''findings'', dp_Kind = KindEvent, dp_Version = SemVer 1 0 0\<rparr>]"
    by (simp add: example_consumer_def)
  ultimately show ?thesis using dependencies_resolved_acyclic [OF refl, of example_registry_calls "''portal''" KindEvent] by fastforce
qed

text \<open>
  (C36) Every breaking step is covered by a migration: between two successive versions of a contract the version increases, and if the step is to
  a new major version or is marked breaking or forward only, the newer entry carries a valid migration path from the one to the other.
\<close>

theorem breaking_steps_migrated:
  assumes "r = run_calls compatibility_exec cs NewCompatibilityRegistry" and "ListHistory name kind r = xs @ a # b # ys"
  shows "ce_Version a < ce_Version b \<and>
    (Major (ce_Version a) < Major (ce_Version b) \<or> ce_Direction b = DirectionBreaking \<or> ce_Direction b = DirectionForward \<longrightarrow>
       (\<exists>m. ce_MigrationPath b = Some m \<and> mp_FromVersion m = ce_Version a \<and> mp_ToVersion m = ce_Version b \<and> Path_Validate m = None))"
proof -
  have "compatibility_inv r" using reachable_evolution assms(1) by simp
  from compatibility_invD(1,2) [OF this, of "contractKey name kind"] assms(2) show ?thesis
    by (simp add: ListHistory_entries sorted_wrt_append successively_append_iff path_between_def is_breaking_def)
qed

theorem breaking_steps_migrated_witness:
  "\<exists>m. ce_MigrationPath example_breaking = Some m \<and> mp_FromVersion m = SemVer 1 0 0"
proof -
  let ?r = "run_calls compatibility_exec example_registry_calls NewCompatibilityRegistry"
  have "ListHistory ''findings'' KindEvent ?r = [] @ example_entry (SemVer 1 0 0) (CHR ''a'') # example_breaking # []"
    using example_keys by (simp add: example_evolution ListHistory_def)
  from breaking_steps_migrated [OF refl this] show ?thesis by (simp add: is_breaking_def example_breaking_def example_entry_def)
qed

lemma path_step:
  "(case ce_MigrationPath e of None \<Rightarrow> False | Some m \<Rightarrow> Compare (mp_FromVersion m) v = 0) \<longleftrightarrow>
     (\<exists>m. ce_MigrationPath e = Some m \<and> mp_FromVersion m = v)"
  by (simp add: Compare_order split: option.split)

text \<open>What the registry evaluates and what it registers agree for a newer version of the owner.\<close>

lemma evaluation_of_newer:
  assumes "ce_Version latest < ce_Version e" and "ce_Name e = ce_Name latest" and "ce_Kind e = ce_Kind latest"
    and "ce_OwnerModule e = ce_OwnerModule latest"
  shows "cv_Decision (fst (EvaluateEvolution latest e)) = ''INCOMPATIBLE'' \<longleftrightarrow> evolution_error latest e \<noteq> None"
proof -
  have "Compare (ce_Version latest) (ce_Version e) \<noteq> 0" "\<not> Compare (ce_Version e) (ce_Version latest) < 0"
    using assms(1) by (auto simp: Compare_order)
  with assms(2-4) show ?thesis
    unfolding EvaluateEvolution_def Let_def path_step evolution_error_None by (auto simp: evolution_result_def)
qed

lemma registration_of_newer:
  assumes inv: "compatibility_inv r" and hist: "entries_at r (entry_key e) \<noteq> []" and latest: "latest = last (entries_at r (entry_key e))"
    and e: "Entry_Validate e = None" "norm_entry e = e" "ce_OwnerModule e = ce_OwnerModule latest" "ce_Version latest < ce_Version e"
    and known: "list_all (dependency_known r) (ce_Dependencies e)"
  shows "snd (Compatibility_Register (ce_OwnerModule e) e r) = Inr () \<longleftrightarrow> evolution_error latest e = None"
proof -
  let ?h = "entries_at r (entry_key e)"
  from hist latest have mem: "latest \<in> set ?h" by simp
  from compatibility_invD(4) [OF inv mem] e(3) have owner: "cg_contractOwners r (entry_key e) = Some (ce_OwnerModule e)" by metis
  have "ce_OwnerModule e = TrimSpace (ce_OwnerModule e)" using arg_cong [OF e(2), of ce_OwnerModule] by simp
  moreover from e(1) have "TrimSpace (ce_OwnerModule e) \<noteq> []" by (auto simp: Entry_Validate_def guards)
  ultimately have reg: "Compatibility_Register (ce_OwnerModule e) e r = add_entry (entry_key e) e r"
    using e(1,2) known owner by (simp add: Compatibility_Register_def Let_def)
  have "x \<in> set ?h \<Longrightarrow> ce_Version x < ce_Version e" for x
    using evolution.last_greatest [OF inv, of x] e(4) latest by (meson le_less_trans)
  then have "find (\<lambda>x. Compare (ce_Version x) (ce_Version e) = 0) ?h = None"
    by (auto simp: find_None_iff Compare_order dest!: less_imp_neq)
  with hist latest e(4) show ?thesis unfolding reg
    by (simp add: add_entry_def Let_def entries_history [symmetric] Compare_order(2) not_le split: option.split)
qed

text \<open>
  Evaluation and registration agree on every newer version: for a well-formed entry of the owner with known dependencies and a version above
  the latest, the registration succeeds exactly when the evaluation against the latest entry does not call the step incompatible.
\<close>

theorem evaluation_matches_registration:
  assumes "r = run_calls compatibility_exec cs NewCompatibilityRegistry" and "Compatibility_GetLatest (ce_Name e) (ce_Kind e) r = Inr latest"
    and "Entry_Validate e = None" and "norm_entry e = e" and "ce_OwnerModule e = ce_OwnerModule latest" and "ce_Name e = ce_Name latest"
    and "ce_Version latest < ce_Version e" and "list_all (dependency_known r) (ce_Dependencies e)"
  shows "snd (Compatibility_Register (ce_OwnerModule e) e r) = Inr () \<longleftrightarrow>
    cv_Decision (fst (EvaluateEvolution latest e)) \<noteq> ''INCOMPATIBLE''"
proof -
  have inv: "compatibility_inv r" using reachable_evolution assms(1) by simp
  from assms(2) have hist: "entries_at r (entry_key e) \<noteq> []" and latest: "latest = last (entries_at r (entry_key e))"
    by (auto simp: Compatibility_GetLatest_entries split: if_splits)
  from hist latest have "latest \<in> set (entries_at r (entry_key e))" by simp
  with compatibility_invD(4) [OF inv] have valid: "Entry_Validate latest = None" and key: "entry_key e = entry_key latest" by blast+
  from key Entry_Validate_kind [OF valid] Entry_Validate_kind [OF assms(3)] have "ce_Kind e = ce_Kind latest"
    by (metis contractKey_inject)
  from evaluation_of_newer [OF assms(7,6) this assms(5)] registration_of_newer [OF inv hist latest assms(3-5,7,8)] show ?thesis by simp
qed

theorem evaluation_matches_registration_witness:
  "\<exists>r. snd (Compatibility_Register ''workflow'' example_breaking r) = Inr ()"
proof -
  let ?e = "example_entry (SemVer 1 0 0) (CHR ''a'')"
  let ?cs = "[CallRegisterEntry ''workflow'' ?e]"
  let ?r = "run_calls compatibility_exec ?cs NewCompatibilityRegistry"
  have "Compatibility_GetLatest (ce_Name example_breaking) (ce_Kind example_breaking) ?r = Inr ?e"
    by (simp add: evolution_eval Compatibility_GetLatest_def)
  note use = evaluation_matches_registration [OF refl this]
  have "snd (Compatibility_Register (ce_OwnerModule example_breaking) example_breaking ?r) = Inr () \<longleftrightarrow>
      cv_Decision (fst (EvaluateEvolution ?e example_breaking)) \<noteq> ''INCOMPATIBLE''"
    by (rule use) (simp_all add: evolution_eval less_SemVer_def)
  moreover have "cv_Decision (fst (EvaluateEvolution ?e example_breaking)) = ''MIGRATION_REQUIRED''"
    by (simp add: EvaluateEvolution_def evolution_result_def evolution_eval)
  moreover have "ce_OwnerModule example_breaking = ''workflow''" by (simp add: evolution_eval)
  ultimately show ?thesis by auto
qed

end
