(* ===== verification/Checklist_Templates.thy ===== *)
theory Checklist_Templates
  imports Go_Strings
begin

text \<open>
  Versions of checklist templates, \<open>modules/configuration-checklist/template_lifecycle.go\<close>: draft, review, approval, publication with a
  snapshot, retirement, copies and the instances pinned to a snapshot. A version is a value: its copies of question lists are the lists.
\<close>

subsection \<open>Definitions\<close>

datatype template_error =
  ErrEmptyTemplateID | ErrEmptyVersionID | ErrEmptyTitle | ErrEmptyQuestionList | ErrInvalidLifecycleTransition | ErrMissingReview
| ErrMissingApproval | ErrImmutableContent | ErrInvalidProvenance | ErrNotPublished | ErrEmptyInstanceID | ErrEmptyTenantID
| TemplateErrorsNew string

datatype TemplateState =
  TemplateDraft | TemplateInReview | TemplateApproved | TemplatePublished | TemplateRetired | TemplateStateOther string

record Question =
  qu_ID :: string
  qu_Text :: string
  qu_Type :: string
  qu_Required :: bool

record ReviewMarker =
  rm_ReviewedBy :: string
  rm_ReviewedAt :: gotime
  rm_Notes :: string

record ApprovalMarker =
  am_ApprovedBy :: string
  am_ApprovedAt :: gotime
  am_Authority :: string

record Provenance =
  pv_SourceTemplateID :: string
  pv_SourceVersionID :: string
  pv_DerivedAt :: gotime

record TemplateSnapshot =
  sn_TemplateID :: string
  sn_VersionID :: string
  sn_Title :: string
  sn_Questions :: "Question list"
  sn_Review :: ReviewMarker
  sn_Approval :: ApprovalMarker
  sn_PublishedAt :: gotime

record TemplateVersion =
  tv_TemplateID :: string
  tv_VersionID :: string
  tv_Title :: string
  tv_State :: TemplateState
  tv_Questions :: "Question list"
  tv_Review :: "ReviewMarker option"
  tv_Approval :: "ApprovalMarker option"
  tv_Provenance :: "Provenance option"
  tv_PublishedSnapshot :: "TemplateSnapshot option"

definition NewTemplateVersion :: "string \<Rightarrow> string \<Rightarrow> string \<Rightarrow> Question list \<Rightarrow> template_error + TemplateVersion" where
  "NewTemplateVersion templateID versionID title questions =
     (if TrimSpace templateID = [] then Inl ErrEmptyTemplateID
      else if TrimSpace versionID = [] then Inl ErrEmptyVersionID
      else if TrimSpace title = [] then Inl ErrEmptyTitle
      else if questions = [] then Inl ErrEmptyQuestionList
      else Inr \<lparr>tv_TemplateID = TrimSpace templateID, tv_VersionID = TrimSpace versionID, tv_Title = TrimSpace title,
             tv_State = TemplateDraft, tv_Questions = questions, tv_Review = None, tv_Approval = None, tv_Provenance = None,
             tv_PublishedSnapshot = None\<rparr>)"

definition SubmitForReview :: "TemplateVersion \<Rightarrow> (TemplateVersion, template_error, unit) outcome" where
  "SubmitForReview t =
     (if tv_State t \<noteq> TemplateDraft then (t, Inl ErrInvalidLifecycleTransition)
      else if tv_Questions t = [] then (t, Inl ErrEmptyQuestionList)
      else (t\<lparr>tv_State := TemplateInReview\<rparr>, Inr ()))"

definition RecordReview :: "string \<Rightarrow> string \<Rightarrow> gotime \<Rightarrow> TemplateVersion \<Rightarrow> (TemplateVersion, template_error, unit) outcome" where
  "RecordReview reviewer notes now t =
     (if tv_State t \<noteq> TemplateInReview then (t, Inl ErrInvalidLifecycleTransition)
      else if TrimSpace reviewer = [] then (t, Inl (TemplateErrorsNew ''reviewer identity cannot be empty''))
      else (t\<lparr>tv_Review := Some \<lparr>rm_ReviewedBy = TrimSpace reviewer, rm_ReviewedAt = now, rm_Notes = TrimSpace notes\<rparr>\<rparr>, Inr ()))"

definition RejectToDraft :: "TemplateVersion \<Rightarrow> (TemplateVersion, template_error, unit) outcome" where
  "RejectToDraft t =
     (if tv_State t \<noteq> TemplateInReview then (t, Inl ErrInvalidLifecycleTransition) else (t\<lparr>tv_State := TemplateDraft\<rparr>, Inr ()))"

definition unreviewed :: "TemplateVersion \<Rightarrow> bool" where
  "unreviewed t = (case tv_Review t of None \<Rightarrow> True | Some m \<Rightarrow> TrimSpace (rm_ReviewedBy m) = [])"

definition Approve_template :: "string \<Rightarrow> string \<Rightarrow> gotime \<Rightarrow> TemplateVersion \<Rightarrow> (TemplateVersion, template_error, unit) outcome" where
  "Approve_template approver authority now t =
     (if tv_State t \<noteq> TemplateInReview then (t, Inl ErrInvalidLifecycleTransition)
      else if unreviewed t then (t, Inl ErrMissingReview)
      else if TrimSpace approver = [] then (t, Inl (TemplateErrorsNew ''approver identity cannot be empty''))
      else (t\<lparr>tv_Approval := Some \<lparr>am_ApprovedBy = TrimSpace approver, am_ApprovedAt = now, am_Authority = TrimSpace authority\<rparr>,
              tv_State := TemplateApproved\<rparr>, Inr ()))"

definition Publish_template :: "gotime \<Rightarrow> TemplateVersion \<Rightarrow> (TemplateVersion, template_error, unit) outcome" where
  "Publish_template now t =
     (if tv_State t \<noteq> TemplateApproved then (t, Inl ErrInvalidLifecycleTransition)
      else case tv_Review t of
        None \<Rightarrow> (t, Inl ErrMissingReview)
      | Some review \<Rightarrow>
          if TrimSpace (rm_ReviewedBy review) = [] then (t, Inl ErrMissingReview)
          else case tv_Approval t of
            None \<Rightarrow> (t, Inl ErrMissingApproval)
          | Some approval \<Rightarrow>
              if TrimSpace (am_ApprovedBy approval) = [] then (t, Inl ErrMissingApproval)
              else (t\<lparr>tv_PublishedSnapshot :=
                       Some \<lparr>sn_TemplateID = tv_TemplateID t, sn_VersionID = tv_VersionID t, sn_Title = tv_Title t,
                             sn_Questions = tv_Questions t, sn_Review = review, sn_Approval = approval, sn_PublishedAt = now\<rparr>,
                      tv_State := TemplatePublished\<rparr>, Inr ()))"

definition Retire_template :: "TemplateVersion \<Rightarrow> (TemplateVersion, template_error, unit) outcome" where
  "Retire_template t =
     (if tv_State t \<noteq> TemplatePublished then (t, Inl ErrInvalidLifecycleTransition) else (t\<lparr>tv_State := TemplateRetired\<rparr>, Inr ()))"

definition UpdateContent :: "string \<Rightarrow> Question list \<Rightarrow> TemplateVersion \<Rightarrow> (TemplateVersion, template_error, unit) outcome" where
  "UpdateContent title questions t =
     (if tv_State t = TemplatePublished \<or> tv_State t = TemplateRetired then (t, Inl ErrImmutableContent)
      else if tv_State t \<noteq> TemplateDraft then (t, Inl ErrImmutableContent)
      else if TrimSpace title = [] then (t, Inl ErrEmptyTitle)
      else if questions = [] then (t, Inl ErrEmptyQuestionList)
      else (t\<lparr>tv_Title := TrimSpace title, tv_Questions := questions\<rparr>, Inr ()))"

definition Copy_template :: "string \<Rightarrow> string \<Rightarrow> string \<Rightarrow> gotime \<Rightarrow> TemplateVersion \<Rightarrow> template_error + TemplateVersion" where
  "Copy_template newTemplateID newVersionID newTitle now t =
     (if TrimSpace newTemplateID = [] then Inl ErrEmptyTemplateID
      else if TrimSpace newVersionID = [] then Inl ErrEmptyVersionID
      else if TrimSpace (tv_TemplateID t) = [] \<or> TrimSpace (tv_VersionID t) = [] then Inl ErrInvalidProvenance
      else Inr \<lparr>tv_TemplateID = TrimSpace newTemplateID, tv_VersionID = TrimSpace newVersionID,
             tv_Title = (if TrimSpace newTitle = [] then tv_Title t else TrimSpace newTitle), tv_State = TemplateDraft,
             tv_Questions = tv_Questions t, tv_Review = None, tv_Approval = None,
             tv_Provenance = Some \<lparr>pv_SourceTemplateID = tv_TemplateID t, pv_SourceVersionID = tv_VersionID t, pv_DerivedAt = now\<rparr>,
             tv_PublishedSnapshot = None\<rparr>)"

record VersionReference =
  vr_TemplateID :: string
  vr_VersionID :: string

record ChecklistInstance =
  ci_InstanceID :: string
  ci_TenantID :: string
  ci_TemplateRef :: VersionReference
  ci_Snapshot :: TemplateSnapshot
  ci_CreatedAt :: gotime

definition Instantiate :: "string \<Rightarrow> string \<Rightarrow> gotime \<Rightarrow> TemplateVersion \<Rightarrow> template_error + ChecklistInstance" where
  "Instantiate instanceID tenantID now t =
     (case (tv_State t = TemplatePublished, tv_PublishedSnapshot t) of
        (True, Some snap) \<Rightarrow>
          if TrimSpace instanceID = [] then Inl ErrEmptyInstanceID
          else if TrimSpace tenantID = [] then Inl ErrEmptyTenantID
          else Inr \<lparr>ci_InstanceID = TrimSpace instanceID, ci_TenantID = TrimSpace tenantID,
                 ci_TemplateRef = \<lparr>vr_TemplateID = tv_TemplateID t, vr_VersionID = tv_VersionID t\<rparr>,
                 ci_Snapshot = snap, ci_CreatedAt = now\<rparr>
      | _ \<Rightarrow> Inl ErrNotPublished)"

definition IsStale :: "string \<Rightarrow> ChecklistInstance \<Rightarrow> bool" where
  "IsStale latestVersionID ci \<longleftrightarrow> vr_VersionID (ci_TemplateRef ci) \<noteq> TrimSpace latestVersionID"

subsection \<open>The life of a version\<close>

datatype template_call =
  CallSubmit | CallRecordReview string string gotime | CallReject | CallApprove string string gotime | CallPublish gotime | CallRetire
| CallUpdateContent string "Question list"

fun template_exec :: "template_call \<Rightarrow> TemplateVersion \<Rightarrow> (TemplateVersion, template_error, unit) outcome" where
  "template_exec CallSubmit t = SubmitForReview t"
| "template_exec (CallRecordReview reviewer notes now) t = RecordReview reviewer notes now t"
| "template_exec CallReject t = RejectToDraft t"
| "template_exec (CallApprove approver authority now) t = Approve_template approver authority now t"
| "template_exec (CallPublish now) t = Publish_template now t"
| "template_exec CallRetire t = Retire_template t"
| "template_exec (CallUpdateContent title questions) t = UpdateContent title questions t"

lemmas template_ops = SubmitForReview_def RecordReview_def RejectToDraft_def Approve_template_def Publish_template_def Retire_template_def
  UpdateContent_def

text \<open>The moves of the governance states, and what a move may do to the content.\<close>

inductive template_step :: "TemplateState \<Rightarrow> TemplateState \<Rightarrow> bool" where
  submit: "template_step TemplateDraft TemplateInReview"
| reject: "template_step TemplateInReview TemplateDraft"
| approve: "template_step TemplateInReview TemplateApproved"
| publish: "template_step TemplateApproved TemplatePublished"
| retire: "template_step TemplatePublished TemplateRetired"

inductive_cases template_stepE: "template_step s s'"

abbreviation template_content :: "TemplateVersion \<Rightarrow> string \<times> Question list" where
  "template_content t \<equiv> (tv_Title t, tv_Questions t)"

lemma template_exec_moves:
  assumes "template_exec c t = (t', res)"
  shows "(tv_State t' = tv_State t \<or> template_step (tv_State t) (tv_State t')) \<and>
    (template_content t' = template_content t \<or> tv_State t = TemplateDraft \<and> tv_State t' = TemplateDraft) \<and>
    tv_TemplateID t' = tv_TemplateID t \<and> tv_VersionID t' = tv_VersionID t \<and>
    (\<forall>e. res = Inl e \<longrightarrow> t' = t)"
  using assms by (cases c) (auto simp: template_ops template_step.simps split: if_splits option.splits)

definition template_inv :: "TemplateVersion \<Rightarrow> bool" where
  "template_inv t \<longleftrightarrow>
     tv_TemplateID t \<noteq> [] \<and> tv_VersionID t \<noteq> [] \<and> tv_Title t \<noteq> [] \<and> tv_Questions t \<noteq> [] \<and>
     (\<forall>m. tv_Review t = Some m \<longrightarrow> TrimSpace (rm_ReviewedBy m) \<noteq> []) \<and>
     (\<forall>m. tv_Approval t = Some m \<longrightarrow> tv_Review t \<noteq> None \<and> TrimSpace (am_ApprovedBy m) \<noteq> []) \<and>
     (tv_Approval t \<noteq> None \<longleftrightarrow> tv_State t \<in> {TemplateApproved, TemplatePublished, TemplateRetired}) \<and>
     (tv_PublishedSnapshot t \<noteq> None \<longleftrightarrow> tv_State t \<in> {TemplatePublished, TemplateRetired}) \<and>
     (\<forall>s. tv_PublishedSnapshot t = Some s \<longrightarrow>
        sn_TemplateID s = tv_TemplateID t \<and> sn_VersionID s = tv_VersionID t \<and> (sn_Title s, sn_Questions s) = template_content t \<and>
        tv_Review t = Some (sn_Review s) \<and> tv_Approval t = Some (sn_Approval s))"

lemma template_op_inv:
  assumes "template_inv t"
  shows "template_inv (fst (SubmitForReview t))" "template_inv (fst (RecordReview reviewer notes now t))"
    "template_inv (fst (RejectToDraft t))" "template_inv (fst (Approve_template approver authority now t))"
    "template_inv (fst (Publish_template now t))" "template_inv (fst (Retire_template t))" "template_inv (fst (UpdateContent title questions t))"
  subgoal using assms by (auto simp: template_inv_def SubmitForReview_def)
  subgoal using assms by (auto simp: template_inv_def RecordReview_def)
  subgoal using assms by (auto simp: template_inv_def RejectToDraft_def)
  subgoal using assms by (cases "tv_Review t") (auto simp: template_inv_def Approve_template_def unreviewed_def)
  subgoal using assms by (cases "tv_Review t"; cases "tv_Approval t") (auto simp: template_inv_def Publish_template_def)
  subgoal using assms by (auto simp: template_inv_def Retire_template_def)
  subgoal using assms by (auto simp: template_inv_def UpdateContent_def)
  done

lemma template_exec_inv: "template_inv t \<Longrightarrow> template_inv (fst (template_exec c t))"
  by (cases c) (simp_all add: template_op_inv)

interpretation template: fail_closed template_exec
  using template_exec_moves by unfold_locales blast

interpretation template_published: absorbing template_exec template_inv "\<lambda>_. True" "\<lambda>(_ :: unit) t. tv_PublishedSnapshot t" "\<lambda>_. True"
proof
  fix c t v and k :: unit
  assume inv: "template_inv t" and v: "tv_PublishedSnapshot t = Some v"
  then have "tv_State t \<in> {TemplatePublished, TemplateRetired}" by (auto simp: template_inv_def)
  with v show "tv_PublishedSnapshot (fst (template_exec c t)) = Some v" by (cases c) (auto simp: template_ops)
qed (rule template_exec_inv)

lemma made_template_inv:
  "NewTemplateVersion templateID versionID title questions = Inr t \<Longrightarrow> template_inv t"
  by (auto simp: NewTemplateVersion_def template_inv_def split: if_splits)

lemma copied_template_inv:
  assumes "template_inv t0" and "Copy_template templateID versionID title now t0 = Inr t"
  shows "template_inv t"
proof -
  from assms(1) have "tv_Title t0 \<noteq> []" "tv_Questions t0 \<noteq> []" by (simp_all add: template_inv_def)
  moreover have "TrimSpace templateID \<noteq> []" "TrimSpace versionID \<noteq> []" "tv_TemplateID t = TrimSpace templateID"
      "tv_VersionID t = TrimSpace versionID" "tv_Title t = (if TrimSpace title = [] then tv_Title t0 else TrimSpace title)"
      "tv_Questions t = tv_Questions t0" "tv_State t = TemplateDraft" "tv_Review t = None" "tv_Approval t = None" "tv_PublishedSnapshot t = None"
    using assms(2) by (auto simp: Copy_template_def guards)
  ultimately show ?thesis by (simp add: template_inv_def)
qed

lemma content_after_draft:
  assumes "tv_State t \<in> {TemplateApproved, TemplatePublished, TemplateRetired}"
  shows "template_content (run_calls template_exec cs t) = template_content t \<and>
    tv_State (run_calls template_exec cs t) \<in> {TemplateApproved, TemplatePublished, TemplateRetired} \<and>
    (tv_State t = TemplateRetired \<longrightarrow> tv_State (run_calls template_exec cs t) = TemplateRetired)"
  using assms
proof (induction cs arbitrary: t)
  case (Cons c cs)
  obtain t' res where c: "template_exec c t = (t', res)" by fastforce
  from template_exec_moves [OF this] Cons.prems have "template_content t' = template_content t"
    "tv_State t' \<in> {TemplateApproved, TemplatePublished, TemplateRetired}" "tv_State t = TemplateRetired \<longrightarrow> tv_State t' = TemplateRetired"
    by (auto elim: template_stepE)
  with Cons.IH [of t'] c show ?case by simp
qed simp

subsection \<open>What templates promise\<close>

definition example_question :: Question where
  "example_question = \<lparr>qu_ID = ''q1'', qu_Text = ''Guard in place?'', qu_Type = ''YES_NO'', qu_Required = True\<rparr>"

definition example_template :: TemplateVersion where
  "example_template =
     \<lparr>tv_TemplateID = ''tpl_1'', tv_VersionID = ''v1'', tv_Title = ''Guards'', tv_State = TemplateDraft, tv_Questions = [example_question],
      tv_Review = None, tv_Approval = None, tv_Provenance = None, tv_PublishedSnapshot = None\<rparr>"

definition example_publication :: "template_call list" where
  "example_publication = [CallSubmit, CallRecordReview ''rev'' ''ok'' 1, CallApprove ''boss'' ''hq'' 2, CallPublish 3]"

lemma example_template_made: "NewTemplateVersion ''tpl_1'' ''v1'' ''Guards'' [example_question] = Inr example_template"
  by (simp add: NewTemplateVersion_def example_template_def)

text \<open>
  (C37) Instances are pinned to what was approved: an instance of a version carries a snapshot with exactly the title and questions that the
  version had, with its reviewer and approver named; whatever calls follow, the snapshot of the version and its content stay the same, and a
  retired version gives no instance again.
\<close>

theorem instance_pinned:
  assumes "NewTemplateVersion templateID versionID title questions = Inr t0" and "t = run_calls template_exec cs t0"
    and "Instantiate instanceID tenantID now t = Inr ci" and "t' = run_calls template_exec ds t"
  shows "sn_Title (ci_Snapshot ci) = tv_Title t \<and> sn_Questions (ci_Snapshot ci) = tv_Questions t \<and>
    rm_ReviewedBy (sn_Review (ci_Snapshot ci)) \<noteq> [] \<and> am_ApprovedBy (sn_Approval (ci_Snapshot ci)) \<noteq> [] \<and>
    tv_PublishedSnapshot t' = Some (ci_Snapshot ci) \<and> template_content t' = template_content t \<and>
    (tv_State t' = TemplateRetired \<longrightarrow> (\<exists>e. Instantiate i tn later (run_calls template_exec es t') = Inl e))"
proof -
  have inv: "template_inv t"
    using template_published.run_inv [OF made_template_inv [OF assms(1)]] assms(2) by simp
  from assms(3) have published: "tv_State t = TemplatePublished" "tv_PublishedSnapshot t = Some (ci_Snapshot ci)"
    by (auto simp: Instantiate_def split: if_splits bool.splits option.splits)
  have "tv_PublishedSnapshot t' = Some (ci_Snapshot ci)"
    unfolding assms(4) by (rule template_published.run_final [OF inv]) (simp_all add: published)
  moreover have "template_content t' = template_content t" using content_after_draft [of t ds] published assms(4) by simp
  moreover have "\<exists>e. Instantiate i tn later (run_calls template_exec es t') = Inl e" if "tv_State t' = TemplateRetired"
    using content_after_draft [of t' es] that by (simp add: Instantiate_def)
  ultimately show ?thesis using inv published by (fastforce simp: template_inv_def)
qed

theorem instance_pinned_witness:
  "\<exists>ci. Instantiate ''i1'' ''ten_1'' 4 (run_calls template_exec example_publication example_template) = Inr ci \<and>
     sn_Questions (ci_Snapshot ci) = [example_question]"
proof -
  let ?t = "run_calls template_exec example_publication example_template"
  obtain ci where ci: "Instantiate ''i1'' ''ten_1'' 4 ?t = Inr ci"
    by (simp add: example_publication_def example_template_def template_ops unreviewed_def Instantiate_def)
  have "tv_Questions ?t = [example_question]"
    by (simp add: example_publication_def example_template_def template_ops unreviewed_def)
  with ci instance_pinned [OF example_template_made refl ci refl, of "[]"] show ?thesis by auto
qed

text \<open>
  The review of an earlier text lets a new text through: after a rejection the marker stays, so a version whose questions were
  changed after the review is approved and published with no review of them.
\<close>

theorem unreviewed_text_published:
  "let other = example_question\<lparr>qu_Text := ''Nothing to see''\<rparr>;
       t = run_calls template_exec
         [CallSubmit, CallRecordReview ''rev'' ''ok'' 1, CallReject, CallUpdateContent ''Guards'' [other], CallSubmit,
          CallApprove ''boss'' ''hq'' 2, CallPublish 3] example_template
   in tv_State t = TemplatePublished \<and> tv_Questions t = [other] \<and> map_option rm_ReviewedAt (tv_Review t) = Some 1"
  by (simp add: example_template_def template_ops unreviewed_def)

text \<open>The reviewer may approve.\<close>

theorem reviewer_approves_template:
  "tv_State (run_calls template_exec [CallSubmit, CallRecordReview ''rev'' '''' 1, CallApprove ''rev'' '''' 1] example_template) = TemplateApproved"
  by (simp add: example_template_def template_ops unreviewed_def)

text \<open>An instance of a version newer than the one given is called stale, too.\<close>

theorem newer_instance_stale:
  "case Instantiate ''i1'' ''ten_1'' 4 (run_calls template_exec example_publication (example_template\<lparr>tv_VersionID := ''v2''\<rparr>)) of
     Inl e \<Rightarrow> False | Inr ci \<Rightarrow> IsStale ''v1'' ci"
  by (simp add: example_publication_def example_template_def template_ops unreviewed_def Instantiate_def IsStale_def)

end
