(* ===== verification/Feature_Flags.thy ===== *)
theory Feature_Flags
  imports Go_Strings "HOL-Library.Char_ord" "HOL-Library.List_Lexorder"
begin

text \<open>
  Feature flags: the governed registry of \<open>modules/reporting-localization/feature_flags.go\<close> with its cohorts (\<open>sha256\<close> is the hash, an
  argument), and the default-off registry of \<open>packages/flags/flags.go\<close> with its scope lists searched by bisection.
\<close>

subsection \<open>Governed flags\<close>

definition DefaultFlagAuthorityNotice :: string where
  "DefaultFlagAuthorityNotice =
     ''FEATURE_FLAG_NON_AUTHORITY: Feature flags control client exposure and operational gates only. '' @
     ''Flags never grant security authority or bypass authorization controls.''"

datatype flag_error = ErrBlankFlagID | ErrDuplicateFlagID | ErrFlagNotFound | ErrMustDefaultOff | ErrInvalidRolloutPercentage

record RolloutMetadata =
  ro_Percentage :: int
  ro_AllowedTenants :: "string list"
  ro_AllowedRoles :: "string list"
  ro_EffectiveFrom :: gotime
  ro_EffectiveTo :: gotime

record AccessibilityMetadata =
  ax_KeyboardNavigable :: bool
  ax_ScreenReaderLabel :: string
  ax_AriaRole :: string
  ax_ContrastCertified :: bool

record FeatureFlag =
  ff_FlagID :: string
  ff_Title :: string
  ff_Description :: string
  ff_DefaultOff :: bool
  ff_Enabled :: bool
  ff_Stage :: string
  ff_Owner :: string
  ff_Rollout :: RolloutMetadata
  ff_Accessibility :: AccessibilityMetadata
  ff_CreatedAt :: gotime
  ff_UpdatedAt :: gotime

record EvaluationContext =
  ec_TenantID :: string
  ec_SubjectID :: string
  ec_CallerRoles :: "string list"
  ec_IsAuthorized :: bool
  ec_EvaluationTime :: gotime

record EvaluationResult =
  ev_FlagID :: string
  ev_Exposed :: bool
  ev_Reason :: string
  ev_Accessibility :: AccessibilityMetadata
  ev_AuthorityNote :: string

type_synonym FeatureFlagRegistry = "string \<rightharpoonup> FeatureFlag"

definition NewFeatureFlagRegistry :: FeatureFlagRegistry where
  "NewFeatureFlagRegistry = Map.empty"

definition RegisterFlag :: "FeatureFlag \<Rightarrow> gotime \<Rightarrow> FeatureFlagRegistry \<Rightarrow> (FeatureFlagRegistry, flag_error, unit) outcome" where
  "RegisterFlag flag now r =
     (let ident = TrimSpace (ff_FlagID flag) in
      if ident = [] then (r, Inl ErrBlankFlagID)
      else if r ident \<noteq> None then (r, Inl ErrDuplicateFlagID)
      else if \<not> ff_DefaultOff flag then (r, Inl ErrMustDefaultOff)
      else if ro_Percentage (ff_Rollout flag) < 0 \<or> 100 < ro_Percentage (ff_Rollout flag) then (r, Inl ErrInvalidRolloutPercentage)
      else (r(ident \<mapsto> \<lparr>ff_FlagID = ident, ff_Title = TrimSpace (ff_Title flag), ff_Description = TrimSpace (ff_Description flag),
              ff_DefaultOff = True, ff_Enabled = ff_Enabled flag, ff_Stage = ff_Stage flag, ff_Owner = TrimSpace (ff_Owner flag),
              ff_Rollout = ff_Rollout flag, ff_Accessibility = ff_Accessibility flag, ff_CreatedAt = now, ff_UpdatedAt = now\<rparr>), Inr ()))"

definition SetFlagState :: "string \<Rightarrow> bool \<Rightarrow> gotime \<Rightarrow> FeatureFlagRegistry \<Rightarrow> (FeatureFlagRegistry, flag_error, unit) outcome" where
  "SetFlagState flagID enabled now r =
     (let ident = TrimSpace flagID in
      case r ident of
        None \<Rightarrow> (r, Inl ErrFlagNotFound)
      | Some f \<Rightarrow> (r(ident \<mapsto> f\<lparr>ff_Enabled := enabled, ff_UpdatedAt := now\<rparr>), Inr ()))"

definition SetRolloutPercentage :: "string \<Rightarrow> int \<Rightarrow> gotime \<Rightarrow> FeatureFlagRegistry \<Rightarrow> (FeatureFlagRegistry, flag_error, unit) outcome" where
  "SetRolloutPercentage flagID percentage now r =
     (let ident = TrimSpace flagID in
      case r ident of
        None \<Rightarrow> (r, Inl ErrFlagNotFound)
      | Some f \<Rightarrow>
          if percentage < 0 \<or> 100 < percentage then (r, Inl ErrInvalidRolloutPercentage)
          else (r(ident \<mapsto> f\<lparr>ff_Rollout := (ff_Rollout f)\<lparr>ro_Percentage := percentage\<rparr>, ff_UpdatedAt := now\<rparr>), Inr ()))"

text \<open>\<open>binary.BigEndian.Uint64\<close> of the first eight bytes\<close>

definition big_endian :: "char list \<Rightarrow> nat" where
  "big_endian bytes = foldl (\<lambda>v c. 256 * v + of_char c) 0 (take 8 bytes)"

definition ComputeCohortBucket :: "(string \<Rightarrow> char list) \<Rightarrow> string \<Rightarrow> string \<Rightarrow> int" where
  "ComputeCohortBucket sha256 flagID subjectID = int (big_endian (sha256 (TrimSpace flagID @ '':'' @ TrimSpace subjectID)) mod 100)"

definition no_accessibility :: AccessibilityMetadata where
  "no_accessibility = \<lparr>ax_KeyboardNavigable = False, ax_ScreenReaderLabel = [], ax_AriaRole = [], ax_ContrastCertified = False\<rparr>"

definition evaluation :: "string \<Rightarrow> bool \<Rightarrow> string \<Rightarrow> AccessibilityMetadata \<Rightarrow> EvaluationResult" where
  "evaluation ident exposed reason ax =
     \<lparr>ev_FlagID = ident, ev_Exposed = exposed, ev_Reason = reason, ev_Accessibility = ax, ev_AuthorityNote = DefaultFlagAuthorityNotice\<rparr>"

definition tenant_listed :: "FeatureFlag \<Rightarrow> EvaluationContext \<Rightarrow> bool" where
  "tenant_listed f ctx \<longleftrightarrow>
     (let allowed = ro_AllowedTenants (ff_Rollout f) in allowed = [] \<or> list_ex (\<lambda>t. t = TrimSpace (ec_TenantID ctx)) allowed)"

definition role_listed :: "FeatureFlag \<Rightarrow> EvaluationContext \<Rightarrow> bool" where
  "role_listed f ctx \<longleftrightarrow>
     (let allowed = ro_AllowedRoles (ff_Rollout f) in
      allowed = [] \<or> list_ex (\<lambda>a. list_ex (\<lambda>c. a = TrimSpace c) (ec_CallerRoles ctx)) allowed)"

definition Flag_Evaluate :: "(string \<Rightarrow> char list) \<Rightarrow> gotime \<Rightarrow> string \<Rightarrow> EvaluationContext \<Rightarrow> FeatureFlagRegistry \<Rightarrow> EvaluationResult" where
  "Flag_Evaluate sha256 now flagID ctx r =
     (let ident = TrimSpace flagID in
      case r ident of
        None \<Rightarrow> evaluation ident False ''flag not found in registry (default off)'' no_accessibility
      | Some f \<Rightarrow>
          let denied = (\<lambda>reason. evaluation ident False reason (ff_Accessibility f)); ro = ff_Rollout f;
              evalTime = (if IsZero (ec_EvaluationTime ctx) then now else ec_EvaluationTime ctx);
              tenant = TrimSpace (ec_TenantID ctx); subject = TrimSpace (ec_SubjectID ctx);
              bucket = ComputeCohortBucket sha256 ident subject in
          if \<not> ec_IsAuthorized ctx then denied ''underlying authorization denied: flags cannot bypass security controls''
          else if \<not> ff_Enabled f then denied ''flag disabled (safe fallback active)''
          else if \<not> IsZero (ro_EffectiveFrom ro) \<and> evalTime < ro_EffectiveFrom ro
          then denied ''evaluation time precedes rollout effective window''
          else if \<not> IsZero (ro_EffectiveTo ro) \<and> After evalTime (ro_EffectiveTo ro)
          then denied ''rollout effective window expired (stale configuration)''
          else if \<not> tenant_listed f ctx then denied (''tenant '' @ Quote tenant @ '' not included in rollout allowlist'')
          else if \<not> role_listed f ctx then denied ''caller roles do not match required rollout exposure roles''
          else if ro_Percentage ro \<le> 0 then denied ''subject excluded: rollout percentage is 0%''
          else if ro_Percentage ro < 100 \<and> subject = [] then denied ''subject identifier required for fractional rollout cohort evaluation''
          else if ro_Percentage ro < 100 \<and> ro_Percentage ro \<le> bucket
          then denied (''subject '' @ Quote subject @ '' assigned to cohort bucket '' @ FormatInt bucket @ '' outside rollout percentage '' @
                 FormatInt (ro_Percentage ro) @ ''%'')
          else evaluation ident True ''all rollout and governance criteria satisfied'' (ff_Accessibility f))"

subsection \<open>The default-off registry\<close>

datatype default_flag_error = ErrInvalidKey | ErrDuplicateKey | ErrInvalidDefinition | ErrMalformedRegistry

definition Synthetic :: string where
  "Synthetic = ''SYNTHETIC_ONLY''"

record FlagDefinition =
  fd_Key :: string
  fd_DefaultEnabled :: bool
  fd_Stage :: string
  fd_AllowedTenants :: "string list"
  fd_AllowedRoles :: "string list"

record FlagSubject =
  fs_Tenant :: string
  fs_Roles :: "string list"

type_synonym FlagRegistry = "string \<rightharpoonup> FlagDefinition"

text \<open>The pattern \<open>^[a-z][a-z0-9.-]{2,63}$\<close>\<close>

definition lower_letter :: "char \<Rightarrow> bool" where
  "lower_letter c \<longleftrightarrow> 97 \<le> (of_char c :: nat) \<and> (of_char c :: nat) \<le> 122"

definition key_rest :: "char \<Rightarrow> bool" where
  "key_rest c \<longleftrightarrow> lower_letter c \<or> digit_char c \<or> c = CHR ''.'' \<or> c = CHR ''-''"

fun keyPattern :: "string \<Rightarrow> bool" where
  "keyPattern [] \<longleftrightarrow> False"
| "keyPattern (c # cs) \<longleftrightarrow> lower_letter c \<and> 2 \<le> length cs \<and> length cs \<le> 63 \<and> list_all key_rest cs"

text \<open>\<open>sort.SearchStrings\<close>: the bisection of \<open>sort.Search\<close> for the first index at which the test holds\<close>

function search_between :: "(nat \<Rightarrow> bool) \<Rightarrow> nat \<Rightarrow> nat \<Rightarrow> nat" where
  "search_between f i j =
     (if i < j then let h = (i + j) div 2 in if \<not> f h then search_between f (h + 1) j else search_between f i h else i)"
  by pat_completeness auto
termination by (relation "measure (\<lambda>(f, i, j). j - i)") auto

declare search_between.simps [simp del]

definition SearchStrings :: "string list \<Rightarrow> string \<Rightarrow> nat" where
  "SearchStrings a x = search_between (\<lambda>i. x \<le> a ! i) 0 (length a)"

definition contains_value :: "string list \<Rightarrow> string \<Rightarrow> bool" where
  "contains_value values wanted \<longleftrightarrow>
     SearchStrings (sort values) wanted < length values \<and> sort values ! SearchStrings (sort values) wanted = wanted"

fun intersects :: "string list \<Rightarrow> string list \<Rightarrow> bool" where
  "intersects allowed [] \<longleftrightarrow> False"
| "intersects allowed (role # roles) \<longleftrightarrow> (if contains_value allowed role then True else intersects allowed roles)"

definition validate_flag :: "FlagDefinition \<Rightarrow> default_flag_error option" where
  "validate_flag d =
     (if \<not> keyPattern (fd_Key d) then Some ErrInvalidKey
      else if fd_DefaultEnabled d \<or> fd_Stage d \<noteq> Synthetic then Some ErrInvalidDefinition
      else if list_ex (\<lambda>t. TrimSpace t = []) (fd_AllowedTenants d) then Some ErrInvalidDefinition
      else if list_ex (\<lambda>t. TrimSpace t = []) (fd_AllowedRoles d) then Some ErrInvalidDefinition
      else None)"

definition Flags_Register :: "FlagDefinition \<Rightarrow> FlagRegistry \<Rightarrow> (FlagRegistry, default_flag_error, unit) outcome" where
  "Flags_Register d r =
     (case validate_flag d of
        Some e \<Rightarrow> (r, Inl e)
      | None \<Rightarrow> if r (fd_Key d) \<noteq> None then (r, Inl ErrDuplicateKey) else (r(fd_Key d \<mapsto> d), Inr ()))"

fun register_all :: "FlagDefinition list \<Rightarrow> FlagRegistry \<Rightarrow> default_flag_error + FlagRegistry" where
  "register_all [] r = Inr r"
| "register_all (d # ds) r = (case Flags_Register d r of (r', Inl e) \<Rightarrow> Inl e | (r', Inr _) \<Rightarrow> register_all ds r')"

definition Flags_NewRegistry :: "FlagDefinition list \<Rightarrow> default_flag_error + FlagRegistry" where
  "Flags_NewRegistry definitions = register_all definitions Map.empty"

definition Flags_LoadJSON :: "(string \<Rightarrow> FlagDefinition list option) \<Rightarrow> string \<Rightarrow> default_flag_error + FlagRegistry" where
  "Flags_LoadJSON unmarshal data = (case unmarshal data of None \<Rightarrow> Inl ErrMalformedRegistry | Some ds \<Rightarrow> Flags_NewRegistry ds)"

definition Flags_Evaluate :: "string \<Rightarrow> string \<Rightarrow> FlagSubject \<Rightarrow> FlagRegistry \<Rightarrow> bool" where
  "Flags_Evaluate key environment subject r =
     (if \<not> keyPattern key \<or> environment \<noteq> Synthetic \<or> TrimSpace (fs_Tenant subject) = [] then False
      else case r key of
        None \<Rightarrow> False
      | Some d \<Rightarrow>
          if \<not> fd_DefaultEnabled d \<or> fd_Stage d \<noteq> Synthetic then False
          else if fd_AllowedTenants d \<noteq> [] \<and> \<not> contains_value (fd_AllowedTenants d) (fs_Tenant subject) then False
          else if fd_AllowedRoles d \<noteq> [] \<and> \<not> intersects (fd_AllowedRoles d) (fs_Roles subject) then False
          else True)"

subsection \<open>Lemmas\<close>

definition stored_flag :: "string \<Rightarrow> FeatureFlag \<Rightarrow> bool" where
  "stored_flag k f \<longleftrightarrow>
     ff_FlagID f = k \<and> k \<noteq> [] \<and> TrimSpace k = k \<and> ff_DefaultOff f \<and> 0 \<le> ro_Percentage (ff_Rollout f) \<and> ro_Percentage (ff_Rollout f) \<le> 100"

definition flags_inv :: "FeatureFlagRegistry \<Rightarrow> bool" where
  "flags_inv r \<longleftrightarrow> (\<forall>k f. r k = Some f \<longrightarrow> stored_flag k f)"

datatype flag_call = CallRegisterFlag FeatureFlag gotime | CallSetFlagState string bool gotime | CallSetRollout string int gotime

fun flag_exec :: "flag_call \<Rightarrow> FeatureFlagRegistry \<Rightarrow> (FeatureFlagRegistry, flag_error, unit) outcome" where
  "flag_exec (CallRegisterFlag f now) r = RegisterFlag f now r"
| "flag_exec (CallSetFlagState k b now) r = SetFlagState k b now r"
| "flag_exec (CallSetRollout k p now) r = SetRolloutPercentage k p now r"

lemmas flag_ops = RegisterFlag_def SetFlagState_def SetRolloutPercentage_def Let_def

lemma flag_exec_inv: "flags_inv r \<Longrightarrow> flags_inv (fst (flag_exec c r))"
  by (cases c) (auto simp: flags_inv_def stored_flag_def flag_ops split: option.split)

interpretation flags: api_machine flag_exec flags_inv "\<lambda>_. True"
  by unfold_locales (rule flag_exec_inv)

interpretation flags_closed: fail_closed flag_exec
proof
  fix c s s' e
  show "flag_exec c s = (s', Inl e) \<Longrightarrow> s' = s" by (cases c) (auto simp: flag_ops split: if_splits option.splits)
qed

lemma reachable_flags: "flags_inv (run_calls flag_exec cs NewFeatureFlagRegistry)"
  by (rule flags.run_inv) (simp_all add: flags_inv_def NewFeatureFlagRegistry_def)

lemma bucket_range: "0 \<le> ComputeCohortBucket sha256 k s" "ComputeCohortBucket sha256 k s < 100"
  by (simp_all add: ComputeCohortBucket_def)

lemma search_between_sound:
  assumes "i \<le> j" and "\<And>m n. m \<le> n \<Longrightarrow> n < j \<Longrightarrow> f m \<Longrightarrow> f n"
  shows "i \<le> search_between f i j \<and> search_between f i j \<le> j \<and>
    (\<forall>m. i \<le> m \<longrightarrow> m < search_between f i j \<longrightarrow> \<not> f m) \<and> (search_between f i j < j \<longrightarrow> f (search_between f i j))"
  using assms
proof (induction f i j rule: search_between.induct)
  case (1 f i j)
  let ?h = "(i + j) div 2"
  consider (empty) "i = j" | (upper) "i < j" "f ?h" | (lower) "i < j" "\<not> f ?h" using 1(3) by fastforce
  then show ?case
  proof cases
    case empty
    then show ?thesis by (simp add: search_between.simps)
  next
    case upper
    then have h: "i \<le> ?h" "?h < j" by auto
    have "search_between f i j = search_between f i ?h" using upper by (simp add: search_between.simps [of f i j] Let_def)
    moreover have mono: "f n" if "m \<le> n" "n < ?h" "f m" for m n using 1(4) [of m n] h that by simp
    moreover have "i \<le> search_between f i ?h \<and> search_between f i ?h \<le> ?h \<and>
        (\<forall>m. i \<le> m \<longrightarrow> m < search_between f i ?h \<longrightarrow> \<not> f m) \<and> (search_between f i ?h < ?h \<longrightarrow> f (search_between f i ?h))"
      by (rule 1(2) [OF upper(1) refl]) (use upper(2) h(1) mono in blast)+
    ultimately show ?thesis using upper(2) h by (cases "search_between f i ?h = ?h") auto
  next
    case lower
    then have h: "i \<le> ?h" "?h + 1 \<le> j" by auto
    have "search_between f i j = search_between f (?h + 1) j" using lower by (simp add: search_between.simps [of f i j] Let_def)
    moreover define k where "k = search_between f (?h + 1) j"
    have k: "?h + 1 \<le> k" "k \<le> j" "\<forall>m. ?h + 1 \<le> m \<longrightarrow> m < k \<longrightarrow> \<not> f m" "k < j \<longrightarrow> f k"
      using 1(1) [OF lower(1) refl lower(2) h(2)] 1(4) unfolding k_def by simp_all
    have "\<not> f m" if "m < k" for m
      using k(3) that 1(4) [of m ?h] h(2) lower(2) by (cases "m < ?h + 1") auto
    with k h(1) have "i \<le> k \<and> k \<le> j \<and> (\<forall>m. i \<le> m \<longrightarrow> m < k \<longrightarrow> \<not> f m) \<and> (k < j \<longrightarrow> f k)" by simp
    ultimately show ?thesis by (simp add: k_def)
  qed
qed

text \<open>The bisection finds what a scan of the list finds.\<close>

theorem contains_is_membership: "contains_value values wanted \<longleftrightarrow> wanted \<in> set values"
proof -
  let ?a = "sort values" and ?f = "\<lambda>i. wanted \<le> sort values ! i"
  let ?k = "SearchStrings ?a wanted"
  have mono: "?f n" if "m \<le> n" "n < length ?a" "?f m" for m n
    using sorted_nth_mono [OF sorted_sort that(1,2)] that(3) by (rule order_trans [rotated])
  have k: "?k \<le> length ?a" "\<And>m. m < ?k \<Longrightarrow> \<not> ?f m" "?k < length ?a \<Longrightarrow> ?f ?k"
    using search_between_sound [of 0 "length ?a" ?f, OF le0 mono] unfolding SearchStrings_def by simp_all
  show ?thesis
  proof
    assume "contains_value values wanted"
    then have "?a ! ?k = wanted" "?k < length ?a" by (simp_all add: contains_value_def)
    then have "wanted \<in> set ?a" by (metis nth_mem)
    then show "wanted \<in> set values" by simp
  next
    assume "wanted \<in> set values"
    then have "wanted \<in> set ?a" by simp
    then obtain m where m: "m < length ?a" "?a ! m = wanted" by (metis in_set_conv_nth)
    have "?k \<le> m"
    proof (rule ccontr)
      assume "\<not> ?k \<le> m"
      then have "m < ?k" by simp
      from k(2) [OF this] m(2) show False by simp
    qed
    then have less: "?k < length ?a" using m(1) by (rule le_less_trans)
    have "?a ! ?k \<le> ?a ! m" using sorted_sort \<open>?k \<le> m\<close> m(1) by (rule sorted_nth_mono)
    with m(2) k(3) [OF less] have "?a ! ?k = wanted" by (metis order.antisym)
    with less show "contains_value values wanted" unfolding contains_value_def length_sort by (rule conjI)
  qed
qed

lemma intersects_set: "intersects allowed roles \<longleftrightarrow> (\<exists>r\<in>set roles. r \<in> set allowed)"
  by (induction roles) (auto simp: contains_is_membership)

lemma Flags_Register_cases:
  assumes "Flags_Register d r = (r', res)"
  shows "(\<exists>e. res = Inl e) \<and> r' = r \<or> res = Inr () \<and> validate_flag d = None \<and> r (fd_Key d) = None \<and> r' = r(fd_Key d \<mapsto> d)"
  using assms by (auto simp: Flags_Register_def split: option.splits if_splits)

definition default_off :: "FlagRegistry \<Rightarrow> bool" where
  "default_off r \<longleftrightarrow> (\<forall>k d. r k = Some d \<longrightarrow> fd_Key d = k \<and> validate_flag d = None)"

interpretation default_flags: absorbing Flags_Register default_off "\<lambda>_. True" "\<lambda>k r. r k" "\<lambda>_. True"
proof
  fix c and s :: FlagRegistry and k v
  obtain s' res where out: "Flags_Register c s = (s', res)" by fastforce
  show "default_off s \<Longrightarrow> default_off (fst (Flags_Register c s))"
    using Flags_Register_cases [OF out] out by (auto simp: default_off_def split: if_splits)
  show "s k = Some v \<Longrightarrow> fst (Flags_Register c s) k = Some v" using Flags_Register_cases [OF out] out by auto
qed

interpretation default_flags_closed: fail_closed Flags_Register
  using Flags_Register_cases by unfold_locales fastforce

lemma register_all_default_off: "default_off r \<Longrightarrow> register_all ds r = Inr r' \<Longrightarrow> default_off r'"
proof (induction ds arbitrary: r)
  case (Cons d ds)
  obtain s res where out: "Flags_Register d r = (s, res)" by fastforce
  with Cons.prems default_flags.exec_inv [of r d] have "default_off s" by simp
  with Cons out show ?case by (auto split: sum.splits)
qed simp

lemma Flags_NewRegistry_default_off: "Flags_NewRegistry ds = Inr r \<Longrightarrow> default_off r"
  unfolding Flags_NewRegistry_def by (rule register_all_default_off [of Map.empty]) (simp_all add: default_off_def)

lemma default_off_false: "default_off r \<Longrightarrow> \<not> Flags_Evaluate key environment subject r"
  by (auto simp: default_off_def Flags_Evaluate_def validate_flag_def split: option.splits if_splits)

subsection \<open>What flags promise\<close>

definition flag_open :: "(string \<Rightarrow> char list) \<Rightarrow> gotime \<Rightarrow> EvaluationContext \<Rightarrow> FeatureFlag \<Rightarrow> bool" where
  "flag_open sha256 time ctx f \<longleftrightarrow>
     ec_IsAuthorized ctx \<and> ff_Enabled f \<and>
     (ro_EffectiveFrom (ff_Rollout f) = 0 \<or> ro_EffectiveFrom (ff_Rollout f) \<le> time) \<and>
     (ro_EffectiveTo (ff_Rollout f) = 0 \<or> time \<le> ro_EffectiveTo (ff_Rollout f)) \<and>
     (ro_AllowedTenants (ff_Rollout f) = [] \<or> TrimSpace (ec_TenantID ctx) \<in> set (ro_AllowedTenants (ff_Rollout f))) \<and>
     (ro_AllowedRoles (ff_Rollout f) = [] \<or> (\<exists>role\<in>set (ec_CallerRoles ctx). TrimSpace role \<in> set (ro_AllowedRoles (ff_Rollout f)))) \<and>
     (ro_Percentage (ff_Rollout f) = 100 \<or>
        TrimSpace (ec_SubjectID ctx) \<noteq> [] \<and> ComputeCohortBucket sha256 (ff_FlagID f) (ec_SubjectID ctx) < ro_Percentage (ff_Rollout f))"

lemma evaluation_exposed [simp]: "ev_Exposed (evaluation k b w a) \<longleftrightarrow> b"
  by (simp add: evaluation_def)

text \<open>The guards on lists are membership; the texts of the reasons play no part in the decision.\<close>

lemma listed_iff:
  "tenant_listed f ctx \<longleftrightarrow> ro_AllowedTenants (ff_Rollout f) = [] \<or> TrimSpace (ec_TenantID ctx) \<in> set (ro_AllowedTenants (ff_Rollout f))"
  "role_listed f ctx \<longleftrightarrow>
     ro_AllowedRoles (ff_Rollout f) = [] \<or> (\<exists>role\<in>set (ec_CallerRoles ctx). TrimSpace role \<in> set (ro_AllowedRoles (ff_Rollout f)))"
  by (auto simp: tenant_listed_def role_listed_def list_ex_iff Let_def)

lemma exposed_if:
  "ev_Exposed (if c then evaluation k False w a else x) \<longleftrightarrow> \<not> c \<and> ev_Exposed x"
  by simp

lemma Flag_Evaluate_open:
  assumes "flags_inv r"
  shows "ev_Exposed (Flag_Evaluate sha256 now flagID ctx r) \<longleftrightarrow>
    (\<exists>f. r (TrimSpace flagID) = Some f \<and>
       flag_open sha256 (if IsZero (ec_EvaluationTime ctx) then now else ec_EvaluationTime ctx) ctx f)"
proof (cases "r (TrimSpace flagID)")
  case None
  then show ?thesis by (simp add: Flag_Evaluate_def Let_def)
next
  case (Some f)
  with assms have f: "ff_FlagID f = TrimSpace flagID" "ro_Percentage (ff_Rollout f) \<le> 100" by (auto simp: flags_inv_def stored_flag_def)
  let ?b = "ComputeCohortBucket sha256 (ff_FlagID f) (ec_SubjectID ctx)"
  have bucket: "ComputeCohortBucket sha256 (TrimSpace flagID) (TrimSpace (ec_SubjectID ctx)) = ?b"
    by (simp add: f(1) ComputeCohortBucket_def)
  define time where "time = (if IsZero (ec_EvaluationTime ctx) then now else ec_EvaluationTime ctx)"
  have "ev_Exposed (Flag_Evaluate sha256 now flagID ctx r) \<longleftrightarrow>
      ec_IsAuthorized ctx \<and> ff_Enabled f \<and> \<not> (\<not> IsZero (ro_EffectiveFrom (ff_Rollout f)) \<and> time < ro_EffectiveFrom (ff_Rollout f)) \<and>
      \<not> (\<not> IsZero (ro_EffectiveTo (ff_Rollout f)) \<and> After time (ro_EffectiveTo (ff_Rollout f))) \<and> tenant_listed f ctx \<and> role_listed f ctx \<and>
      \<not> ro_Percentage (ff_Rollout f) \<le> 0 \<and> \<not> (ro_Percentage (ff_Rollout f) < 100 \<and> TrimSpace (ec_SubjectID ctx) = []) \<and>
      \<not> (ro_Percentage (ff_Rollout f) < 100 \<and> ro_Percentage (ff_Rollout f) \<le> ?b)"
    unfolding Flag_Evaluate_def Some Let_def bucket option.case exposed_if time_def [symmetric] by simp
  also have "\<dots> \<longleftrightarrow> flag_open sha256 time ctx f"
    using bucket_range [of sha256 "ff_FlagID f" "ec_SubjectID ctx"] f(2)
    unfolding flag_open_def listed_iff IsZero_def After_def de_Morgan_conj not_not not_less not_le
    by (cases "ro_Percentage (ff_Rollout f) = 100") auto
  finally show ?thesis using Some by (simp add: time_def)
qed

definition example_flag :: FeatureFlag where
  "example_flag =
     \<lparr>ff_FlagID = ''flag'', ff_Title = ''t'', ff_Description = [], ff_DefaultOff = True, ff_Enabled = True, ff_Stage = ''BETA'', ff_Owner = ''o'',
      ff_Rollout = \<lparr>ro_Percentage = 50, ro_AllowedTenants = [''ten_1''], ro_AllowedRoles = [], ro_EffectiveFrom = 0, ro_EffectiveTo = 0\<rparr>,
      ff_Accessibility = no_accessibility, ff_CreatedAt = 1, ff_UpdatedAt = 1\<rparr>"

definition example_evaluation :: EvaluationContext where
  "example_evaluation =
     \<lparr>ec_TenantID = ''ten_1'', ec_SubjectID = ''usr_1'', ec_CallerRoles = [], ec_IsAuthorized = True, ec_EvaluationTime = 5\<rparr>"

lemma example_flag_run: "run_calls flag_exec [CallRegisterFlag example_flag 1] NewFeatureFlagRegistry = [''flag'' \<mapsto> example_flag]"
  by (simp add: flag_ops NewFeatureFlagRegistry_def example_flag_def)

lemma example_flag_open: "flag_open (\<lambda>_. []) 5 example_evaluation example_flag"
  by (simp add: flag_open_def example_flag_def example_evaluation_def ComputeCohortBucket_def big_endian_def)

text \<open>
  Exposure is exactly the conjunction of the guards: in every reachable registry a flag is exposed to a context if and only if the caller is
  authorised, the flag is enabled, the time is in its window, tenant and role are in its lists where it has lists, and the subject falls
  into a cohort below the percentage.
\<close>

theorem flag_exposed_iff:
  assumes "r = run_calls flag_exec cs NewFeatureFlagRegistry"
  shows "ev_Exposed (Flag_Evaluate sha256 now flagID ctx r) \<longleftrightarrow>
    (\<exists>f. r (TrimSpace flagID) = Some f \<and>
       flag_open sha256 (if IsZero (ec_EvaluationTime ctx) then now else ec_EvaluationTime ctx) ctx f)"
  using Flag_Evaluate_open [of r] reachable_flags assms by simp

theorem flag_exposed_iff_witness:
  "ev_Exposed (Flag_Evaluate (\<lambda>_. []) 9 ''flag'' example_evaluation (run_calls flag_exec [CallRegisterFlag example_flag 1] NewFeatureFlagRegistry))"
  using example_flag_open flag_exposed_iff [of _ "[CallRegisterFlag example_flag 1]" "\<lambda>_. []" 9 "''flag''" example_evaluation, OF refl]
  unfolding example_flag_run by (simp add: IsZero_def) (simp add: example_evaluation_def)

text \<open>
  Rollouts only widen: whoever a reachable registry exposes a flag to stays exposed, in the same context, when the percentage is raised.
\<close>

theorem rollout_monotone:
  assumes "r = run_calls flag_exec cs NewFeatureFlagRegistry" and "r (TrimSpace flagID) = Some f"
    and "ev_Exposed (Flag_Evaluate sha256 now flagID ctx r)" and "ro_Percentage (ff_Rollout f) \<le> p" and "p \<le> 100"
  shows "snd (SetRolloutPercentage flagID p later r) = Inr () \<and>
    ev_Exposed (Flag_Evaluate sha256 now flagID ctx (fst (SetRolloutPercentage flagID p later r)))"
proof -
  have inv: "flags_inv r" using reachable_flags assms(1) by simp
  with assms(2) have p: "0 \<le> ro_Percentage (ff_Rollout f)" by (auto simp: flags_inv_def stored_flag_def)
  have set: "SetRolloutPercentage flagID p later r =
      (r(TrimSpace flagID \<mapsto> f\<lparr>ff_Rollout := (ff_Rollout f)\<lparr>ro_Percentage := p\<rparr>, ff_UpdatedAt := later\<rparr>), Inr ())"
    using assms(2,4,5) p by (simp add: SetRolloutPercentage_def Let_def)
  have "flags_inv (fst (SetRolloutPercentage flagID p later r))" using flag_exec_inv [OF inv, of "CallSetRollout flagID p later"] by simp
  note Flag_Evaluate_open [OF this] Flag_Evaluate_open [OF inv, of sha256 now flagID ctx]
  with assms(2-5) show ?thesis unfolding set by (auto simp: flag_open_def)
qed

theorem rollout_monotone_witness:
  "ev_Exposed (Flag_Evaluate (\<lambda>_. []) 9 ''flag'' example_evaluation (fst (SetRolloutPercentage ''flag'' 80 2 [''flag'' \<mapsto> example_flag])))"
proof -
  have "flags_inv [''flag'' \<mapsto> example_flag]"
    using reachable_flags [of "[CallRegisterFlag example_flag 1]"] unfolding example_flag_run .
  from Flag_Evaluate_open [OF this, of "\<lambda>_. []" 9 "''flag''" example_evaluation] example_flag_open
  have "ev_Exposed (Flag_Evaluate (\<lambda>_. []) 9 ''flag'' example_evaluation [''flag'' \<mapsto> example_flag])"
    by (simp add: IsZero_def example_evaluation_def)
  then show ?thesis
    using rollout_monotone [of "[''flag'' \<mapsto> example_flag]" "[CallRegisterFlag example_flag 1]" "''flag''" example_flag "\<lambda>_. []" 9 example_evaluation 80 2]
      example_flag_run by (simp add: example_flag_def)
qed

text \<open>A tenant list whose entry has a space admits nobody: the tenant of the caller is trimmed, the entry is not.\<close>

theorem spaced_allowlist_excludes:
  "\<not> ev_Exposed (Flag_Evaluate sha256 now ''flag'' ctx
       [''flag'' \<mapsto> example_flag\<lparr>ff_Rollout := (ff_Rollout example_flag)\<lparr>ro_AllowedTenants := ['' ten_1'']\<rparr>\<rparr>])"
proof -
  have "TrimSpace x \<noteq> '' ten_1''" for x
  proof
    assume "TrimSpace x = '' ten_1''"
    from this [symmetric] have "TrimSpace '' ten_1'' = '' ten_1''" by (simp only: TrimSpace_idem)
    moreover have "TrimSpace '' ten_1'' = ''ten_1''" by code_simp
    ultimately show False by simp
  qed
  then have "\<not> tenant_listed (example_flag\<lparr>ff_Rollout := (ff_Rollout example_flag)\<lparr>ro_AllowedTenants := ['' ten_1'']\<rparr>\<rparr>) ctx"
    by (auto simp: listed_iff)
  then show ?thesis by (simp add: Flag_Evaluate_def Let_def)
qed

text \<open>
  No flag of the default-off registry is ever on: registration refuses what is enabled by default, and evaluation asks for it, whatever the
  registry is built from and whatever is registered afterwards.
\<close>

theorem default_off_flags_never_on:
  assumes "Flags_NewRegistry ds = Inr r"
  shows "\<not> Flags_Evaluate key environment subject (run_calls Flags_Register later r)"
  using default_flags.run_inv [OF Flags_NewRegistry_default_off [OF assms], of later] default_off_false by simp

theorem default_off_flags_never_on_witness:
  "\<exists>r. Flags_NewRegistry [\<lparr>fd_Key = ''a.b'', fd_DefaultEnabled = False, fd_Stage = Synthetic, fd_AllowedTenants = [], fd_AllowedRoles = []\<rparr>] = Inr r \<and>
     \<not> Flags_Evaluate ''a.b'' Synthetic \<lparr>fs_Tenant = ''t'', fs_Roles = []\<rparr> r"
proof -
  let ?d = "\<lparr>fd_Key = ''a.b'', fd_DefaultEnabled = False, fd_Stage = Synthetic, fd_AllowedTenants = [], fd_AllowedRoles = []\<rparr>"
  have "Flags_NewRegistry [?d] = Inr [''a.b'' \<mapsto> ?d]"
    by (simp add: Flags_NewRegistry_def Flags_Register_def validate_flag_def lower_letter_def key_rest_def)
  from this default_off_flags_never_on [OF this, of "''a.b''" Synthetic "\<lparr>fs_Tenant = ''t'', fs_Roles = []\<rparr>" "[]"] show ?thesis by auto
qed

end
