(* ===== verification/Spec2Isabelle.thy ===== *)
theory Spec2Isabelle
  imports Workflow Reinspection Event_Dispatcher Record_Audit Party_Participation Fail_Closed Scheduler Retention Delegation
    Scoped_Assignment Sessions Revocation Evidence_Chain Publication_Store Directory_Resolution
    Directory_Visibility Access_Condition Multi_Project Scan_Resolution Compatibility_Registry Checklist_Templates Feature_Flags
begin

text \<open>
  A verification library for the OSHE platform, a Go back end for occupational safety and health:
  inspections raise findings, findings lead to corrective actions, actions are governed, reinspected
  and closed, records and evidence are kept immutable, and events leave the system through a
  transactional outbox. The library models the modules that carry this core, each as one theory, from the
  source under \<open>src/modules\<close>.

  \<^bold>\<open>Parts and theories\<close> (paths are relative to \<open>src/modules\<close>)

  \<^item> \<open>Prelude\<close>: types, the idioms of the code (lookup of a map entry and guarded mutation, runs of calls,
    append-only journals) and the contracts as locales: \<open>api_machine\<close> (an invariant kept by every
    admissible call), \<open>journaled\<close>, \<open>fail_closed\<close>, \<open>absorbing\<close>. Every component interprets those it keeps.
  \<^item> \<open>Go_Strings\<close>: what the code uses of \<open>strings\<close> and \<open>fmt\<close>, on byte strings (\<open>TrimSpace\<close> with the UTF-8
    encodings of all Unicode spaces, \<open>ToUpper\<close> as far as it produces ASCII, \<open>Contains\<close>, \<open>IndexByte\<close>).
  \<^item> \<open>Workflow\<close>: \<open>workflow-action/workflow.go\<close>, the workflow engine: \<open>CreateWorkflow\<close>, \<open>Transition\<close> (idempotent retries,
    optimistic concurrency, authorisation), \<open>AuditHistory\<close>, \<open>Checkpoint\<close>, \<open>Rollback\<close>.
  \<^item> \<open>Action_Lifecycle\<close>: \<open>workflow-action/action_lifecycle.go\<close>, the \<open>ActionManager\<close> of corrective actions.
  \<^item> \<open>Finding_Lifecycle\<close>: \<open>workflow-action/finding_lifecycle.go\<close>, rule catalog and \<open>FindingManager\<close>.
  \<^item> \<open>Action_Governance\<close>: \<open>workflow-action/action_governance.go\<close>, custody, extensions, escalations and evidence
    review of actions under state versions (\<open>ActionGovernanceEngine\<close>).
  \<^item> \<open>Reinspection\<close>: \<open>workflow-action/reinspection_lifecycle.go\<close>, the \<open>ReinspectionEngine\<close>. It reads the governance
    engine; the model keeps both states and interleaves the calls of both.
  \<^item> \<open>Event_Outbox\<close>, \<open>Event_Dispatcher\<close>: \<open>events-outbox-jobs/event_outbox.go\<close> and \<open>event_dispatcher.go\<close>, staging, commit
    and queries of events, and their delivery with retries, quarantine, replay and restart.
  \<^item> \<open>Immutable_Objects\<close>, \<open>Record_Audit\<close>: \<open>records-audit/immutable_objects.go\<close> and \<open>record_audit.go\<close>, the registry of
    original and derived evidence and the store of versioned records with its audit log.
  \<^item> \<open>Retention\<close>: \<open>records-audit/retention_export.go\<close>, the \<open>RetentionManager\<close> on top of the record store: policies, legal holds,
    export packages, backup and restoration.
  \<^item> \<open>Scheduler\<close>: \<open>events-outbox-jobs/scheduler_notifications.go\<close>, due jobs and notifications with retry and replay.
  \<^item> \<open>Org_Identity\<close>, \<open>Org_Hierarchy\<close>, \<open>Party_Participation\<close>: \<open>organization-tenancy\<close>, identifiers and tenant context
    (\<open>identifiers.go\<close>, \<open>tenant_context.go\<close>), the tree of units with its scopes and its lifecycle (\<open>organization_hierarchy.go\<close>,
    \<open>organization_lifecycle.go\<close>), parties and participations (\<open>party.go\<close>, \<open>party_lifecycle.go\<close>).
  \<^item> \<open>Business_Rules\<close>, \<open>Scoring\<close>, \<open>Fail_Closed\<close>: \<open>workflow-action\<close>, \<open>business_rules.go\<close>, \<open>scoring.go\<close> and
    \<open>fail_closed_governance.go\<close>: the catalog of rules and its qualification, scores in basis points, and the gate that refuses when
    something is missing.
  \<^item> \<open>Access_Policy\<close>, \<open>Authorization_Matrix\<close>, \<open>Delegation\<close>, \<open>Scoped_Assignment\<close>, \<open>Sessions\<close>, \<open>Revocation\<close>:
    \<open>identity-authorization\<close>, \<open>access_policy.go\<close>, \<open>authorization_matrix.go\<close>, \<open>delegation_control.go\<close>,
    \<open>scoped_assignment.go\<close>, \<open>local_identity.go\<close>, \<open>session_revocation.go\<close>: the policy evaluator, roles and scopes, delegations,
    assignments with separation of duties, sessions with opaque tokens, and revocation by generations.
  \<^item> \<open>Registry_Ledger\<close>: the contract \<open>ledgered\<close> of a registry that logs the moves of its entries (the history of an entry is a path
    of states to its present one), interpreted for profiles, external users and access conditions.
  \<^item> \<open>Directory_Profiles\<close>, \<open>Directory_Resolution\<close>, \<open>Directory_Visibility\<close>: \<open>identity-authorization/directory_profile.go\<close>,
    \<open>directory_resolution.go\<close> and \<open>directory_visibility.go\<close>, the profiles of people, their changes with history under overlapping calls,
    and search by callers of a scope. \<open>External_Users\<close>, \<open>Access_Condition\<close>, \<open>Multi_Project\<close>, \<open>Scan_Resolution\<close>: \<open>external_user_profile.go\<close>,
    \<open>access_condition.go\<close>, \<open>multi_project_participation.go\<close> and \<open>scan_resolution.go\<close>, enrolment of external people, their windows of
    access and renewals, participation in projects with the attribution of what was done, and scanned identifiers.
  \<^item> \<open>Evidence_Files\<close>, \<open>Evidence_Chain\<close>: \<open>files-evidence/file_metadata.go\<close>, \<open>storage_adapter.go\<close> and \<open>evidence_chain.go\<close>, metadata and
    scoped storage of files, and the custody chain, commits and export manifests of evidence.
  \<^item> \<open>Publication_Snapshot\<close>, \<open>Publication_Lifecycle\<close>, \<open>Publication_Store\<close>: the three files of \<open>publication-snapshot\<close>,
    redaction and versions, approval and publication windows, and the immutable store with its audit.
  \<^item> \<open>Contract_Registry\<close>, \<open>Compatibility_Registry\<close>: \<open>contract-migration-governance/registry.go\<close> and \<open>compatibility_registry.go\<close>, versions
    (a linear order), the registries of contracts and of entries with owners, dependencies and migration paths, and what they evaluate. The
    contract \<open>version_store\<close> (histories that only grow, in increasing versions) is interpreted for both.
  \<^item> \<open>Checklist_Templates\<close>: \<open>configuration-checklist/template_lifecycle.go\<close>, review, approval and publication of template versions
    and the instances pinned to them.
  \<^item> \<open>Feature_Flags\<close>: \<open>reporting-localization/feature_flags.go\<close> and \<open>flags/flags.go\<close> of \<open>src/packages\<close>, the governed flags with rollouts by
    cohort, and the default-off registry with its search by bisection.

  \<^bold>\<open>How code becomes definitions\<close>

  A struct is a record with the fields of the source (with a short prefix), an enumeration of strings a
  datatype whose last constructor holds any other string, a map a partial function, \<open>int64\<close> a 64-bit word where
  the code does arithmetic on it, an error a value (\<open>Inl\<close>) with the sentinel of the source; a wrapped error
  is its sentinel. A method takes the state and its arguments, the clock reading included, and gives the new
  state and its result; guards stand in the order of the source. Methods that share a prologue are a frame
  (\<open>with_action\<close>, \<open>with_finding\<close>, \<open>governed\<close>, \<open>with_order\<close>) around a body named after the method. Every method
  of these managers holds its mutex, so a concurrent execution is a sequence of calls: \<open>run_calls\<close> over the type of
  calls of the component, and \<open>reachable\<close> means reached from the constructor by such a sequence. The exception is the directory
  resolver, which takes the lock of its registry twice and that of its ledger once: its methods are sequences of steps
  (\<open>resolver_start\<close>, \<open>resolver_continue\<close>), calls overlap under any schedule (\<open>run_schedule\<close>), and what holds only for calls one after
  the other says so. All definitions
  compute; no fuel is needed, because every loop of the modelled code runs over a list, but for a bisection that terminates.

  \<^bold>\<open>What the lemmas show\<close>

  Each theory has the lemmas on its records or bodies (what one body keeps), on its methods (case
  rules such as \<open>governed_cases\<close>), the interpretations of the contracts, its properties, and witnesses that apply
  each property with hypotheses to a concrete run. The properties: a closed action, finding or order was reviewed,
  closed and verified by the people the rules name (invariants of reachable states); histories and logs are
  numbered, chained and append-only; every \<open>ActionManager\<close> call refines a step relation; successful calls are
  characterised exactly (\<open>Transition\<close>, \<open>FinalClose\<close>, \<open>Commit\<close>, \<open>VerifyIntegrityLinkage\<close>); lost updates and double delivery
  are excluded; failing events end in quarantine after exactly the configured attempts; an export restores; tenants
  are isolated, under the stated hypotheses. Where the code does not keep what its comments promise, a closed
  theorem shows the run (names ending in \<open>collision\<close>, \<open>crosses_tenants\<close>, \<open>with_space\<close>, \<open>closes\<close>, \<open>shortens\<close>).
  The theorems below span components: the evidence behind a verified reinspection, and the delivery keys
  of committed events.

  Some properties restrict the calls, as their texts say. \<open>fresh_call\<close> and \<open>plain_call\<close>: actions are registered without a history of
  their own (owners, extensions, escalations, evidence) and orders created without a state of the caller's choice (the code accepts both as given). \<open>made_call\<close>: evidence
  records come from the constructors, as private fields enforce. \<open>sound_call\<close>: restored delivery records satisfy
  the invariant, as exported ones do; \<open>no_restore\<close>: there is no restoration. \<open>made_profile_call\<close>, \<open>made_op\<close>, \<open>enrolled_call\<close>, \<open>condition_call_ok\<close> and \<open>made_binding_call\<close>: what is
  registered comes from the constructor. \<open>plain_tenant_call\<close>: the tenants of objects of scans have no colon. Consumer handlers are a parameter (\<open>invoke\<close>).

  \<^bold>\<open>Parameters\<close>

  Code that the repository does not hold is an argument of the definitions that use it: SHA-256 (\<open>h\<close>), JSON encoding (\<open>marshal\<close>) and decoding,
  the source of random bytes of tokens, \<open>mime.ParseMediaType\<close>, \<open>url.Parse\<close>, \<open>time.LoadLocation\<close>, the handlers of jobs and of events, and the
  arithmetic of \<open>float64\<close>. Where the code ranges over a map, the order is an argument, and a property holds for all orders.
  What a property needs of a parameter is its hypothesis (the hash does not collide on the texts compared, the encoding is
  injective or can be read back), and its witness gives a concrete function that has it.

  \<^bold>\<open>What is not modelled\<close>

  Aliasing of slices and pointers that methods return (\<open>GetAction\<close> of the governance engine and \<open>CreateFinding\<close> share memory
  with the store), texts of wrapped errors, JSON tags, locations of times, panics of handlers, and the modules not
  listed above: rendering and texts of \<open>reporting-localization\<close>, the small foundations of workforce and incident intake (maps with
  a log), the command \<open>compatibility-check\<close>, and the identifiers of \<open>src/packages\<close>, which repeat
  those of \<open>organization-tenancy\<close>. HTTP handlers, portals and tools are I/O and composition.
\<close>

subsection \<open>Evidence behind a verified reinspection\<close>

lemma evidence_gate_open:
  assumes "evidence_gate (Some g) order = None" and "ro_ActionID order \<noteq> []"
    and "GetGovernedAction (ro_TenantID order) (ro_ActionID order) g = Inr act"
  shows "(\<forall>ev\<in>set (ga_EvidenceList act). ge_Status ev \<noteq> EvidenceStatusRejected \<and> ge_Status ev \<noteq> EvidenceStatusSubmitted) \<and>
    ga_RequiredEvidenceCount act \<le> int (length (ga_EvidenceList act))"
  using assms by (auto simp: evidence_gate_def split: if_splits)

lemma VerifySatisfactory_Inr:
  assumes "VerifySatisfactory i caller role why evs v now e = (e', Inr order')"
  obtains order where "orders e i = Some order" "evidence_gate (actionEngine e) order = None"
    "ro_TenantID order' = ro_TenantID order" "ro_ActionID order' = ro_ActionID order"
  using assms unfolding VerifySatisfactory_def
proof (cases rule: with_order_cases)
  case (updated order order'')
  from updated(2) have "evidence_gate (actionEngine e) order = None" "ro_TenantID order'' = ro_TenantID order"
    "ro_ActionID order'' = ro_ActionID order"
    by (auto simp: open_order_def VerifySatisfactory_body_def log_order_def split: if_splits option.splits)
  with updated that show thesis by simp
qed simp

lemma all_filtered_length: "(\<forall>x\<in>set xs. P x) \<Longrightarrow> length (filter P xs) = length xs"
  by simp

text \<open>
  (C2) The evidence gate across the two engines, provided that actions are registered without evidence, owners, extensions and
  escalations of their own and orders are created without a state of the caller's choice (\<open>plain_call\<close>; the code would accept them
  as given): in every interleaving of such calls on the reinspection engine and on the governance engine, when \<open>VerifySatisfactory\<close>
  succeeds for an order whose action the governance engine knows, every piece of evidence of that action has
  been accepted, each by a reviewer other than its submitter, and there are at least as many accepted
  pieces as the action requires.
\<close>

theorem verified_order_has_accepted_evidence:
  assumes "list_all plain_call cs"
    and "e = run_calls reinspection_exec cs (NewReinspectionEngine (Some NewActionGovernanceEngine))"
    and "VerifySatisfactory i caller role why evs v now e = (e', Inr order)"
    and "actionEngine e = Some g" and "ro_ActionID order \<noteq> []"
    and "GetGovernedAction (ro_TenantID order) (ro_ActionID order) g = Inr act"
  shows "(\<forall>ev\<in>set (ga_EvidenceList act). ge_Status ev = EvidenceStatusAccepted \<and> ge_ReviewedBy ev \<noteq> ge_SubmittedBy ev) \<and>
    ga_RequiredEvidenceCount act \<le> int (AcceptedEvidenceCount act)"
proof -
  from assms(3) obtain old where "evidence_gate (actionEngine e) old = None" "ro_TenantID order = ro_TenantID old"
    "ro_ActionID order = ro_ActionID old" by (rule VerifySatisfactory_Inr)
  then have gate: "\<forall>ev\<in>set (ga_EvidenceList act). ge_Status ev \<noteq> EvidenceStatusRejected \<and> ge_Status ev \<noteq> EvidenceStatusSubmitted"
      "ga_RequiredEvidenceCount act \<le> int (length (ga_EvidenceList act))"
    using evidence_gate_open [of g old act] assms(4-6) by simp_all
  have "governed_inv g"
    using reachable_reinspection_inv [OF assms(1)] assms(2,4) by (simp add: reinspection_inv_def)
  moreover from assms(6) obtain k where "g k = Some act"
    by (auto simp: GetGovernedAction_def Let_def split: if_splits option.splits)
  ultimately have "duties_inv act" using governed_invD by blast
  with gate(1) have all: "\<forall>ev\<in>set (ga_EvidenceList act). ge_Status ev = EvidenceStatusAccepted \<and> ge_ReviewedBy ev \<noteq> ge_SubmittedBy ev"
    by (auto simp: duties_inv_def list_all_iff)
  then have "AcceptedEvidenceCount act = length (ga_EvidenceList act)"
    unfolding AcceptedEvidenceCount_def by (intro all_filtered_length) simp
  with all gate(2) show ?thesis by simp
qed

theorem verified_order_has_accepted_evidence_witness:
  "\<exists>act ev. ev \<in> set (ga_EvidenceList act) \<and> ge_ReviewedBy ev = ''bob'' \<and> ge_Status ev = EvidenceStatusAccepted \<and>
     ga_RequiredEvidenceCount act \<le> int (AcceptedEvidenceCount act)"
proof -
  let ?cs = "take 5 example_reinspection_calls"
  let ?e = "run_calls reinspection_exec ?cs (NewReinspectionEngine (Some NewActionGovernanceEngine))"
  have plain: "list_all plain_call ?cs"
    using example_reinspection_plain by (simp add: list_all_iff) (meson in_set_takeD)
  have "\<exists>e' order g act ev. VerifySatisfactory ''rin1'' ''rob'' ''inspector'' ''exit clear'' [''ev1''] 2 22 ?e = (e', Inr order) \<and>
      actionEngine ?e = Some g \<and> ro_ActionID order \<noteq> [] \<and>
      GetGovernedAction (ro_TenantID order) (ro_ActionID order) g = Inr act \<and>
      ga_EvidenceList act = [ev] \<and> ge_ReviewedBy ev = ''bob''"
    by (simp add: reinspection_eval governance_eval)
  then obtain e' order g act ev where
    v: "VerifySatisfactory ''rin1'' ''rob'' ''inspector'' ''exit clear'' [''ev1''] 2 22 ?e = (e', Inr order)"
      "actionEngine ?e = Some g" "ro_ActionID order \<noteq> []"
      "GetGovernedAction (ro_TenantID order) (ro_ActionID order) g = Inr act"
    and ev: "ga_EvidenceList act = [ev]" "ge_ReviewedBy ev = ''bob''" by blast
  from verified_order_has_accepted_evidence [OF plain refl v] ev show ?thesis by (metis list.set_intros(1))
qed

subsection \<open>Delivery keys of committed events\<close>

lemma valid_event_id_plain:
  assumes "valid_envelope ev"
  shows "CHR '':'' \<notin> set (TrimSpace (ev_EventID ev))"
proof -
  from assms obtain payload where p: "TrimSpace (ev_EventID ev) = ''evt'' @ CHR ''_'' # payload" "list_all id_byte payload"
    by (auto simp: valid_envelope_def PrefixEvent_def ValidatePrefixedID_None)
  have "\<not> id_byte (CHR '':'')" by (simp add: id_byte_def)
  with p(2) have "CHR '':'' \<notin> set payload" by (auto simp: list_all_iff)
  with p(1) show ?thesis by simp
qed

text \<open>
  Outbox and dispatcher together: for events committed to the outbox, two pairs of consumer and event share
  a delivery record only if consumer and event are the same up to surrounding space, whatever characters
  the consumer identifiers contain.
\<close>

theorem committed_events_have_own_records:
  assumes "ev \<in> set (committed (os_outbox (run_calls outbox_exec cs new_system)))"
    and "ev' \<in> set (committed (os_outbox (run_calls outbox_exec cs new_system)))"
  shows "recordKey c (ev_EventID ev) = recordKey c' (ev_EventID ev') \<longleftrightarrow>
    TrimSpace c = TrimSpace c' \<and> TrimSpace (ev_EventID ev) = TrimSpace (ev_EventID ev')"
proof -
  have "list_all valid_envelope (committed (os_outbox (run_calls outbox_exec cs new_system)))"
    using reachable_system_inv [of cs] by (simp add: system_inv_def outbox_inv_def)
  with assms have "valid_envelope ev" "valid_envelope ev'" by (auto simp: list_all_iff)
  then show ?thesis
    unfolding recordKey_def by (intro colon_key_inject_right valid_event_id_plain)
qed

theorem committed_events_have_own_records_witness:
  "\<exists>ev. ev \<in> set (committed (os_outbox (run_calls outbox_exec example_outbox_calls new_system))) \<and>
     recordKey ''a'' (ev_EventID ev) \<noteq> recordKey ''b'' (ev_EventID ev)"
proof -
  have "length (committed (os_outbox (run_calls outbox_exec example_outbox_calls new_system))) = 3"
    using arg_cong [OF example_committed, of length] by simp
  then obtain ev where ev: "ev \<in> set (committed (os_outbox (run_calls outbox_exec example_outbox_calls new_system)))"
    by (metis length_0_conv list.set_intros(1) neq_Nil_conv zero_neq_numeral)
  from committed_events_have_own_records [OF ev ev, of "''a''" "''b''"] ev show ?thesis by auto
qed

end
